(* ===== verification/Prelude.thy ===== *)
theory Prelude
  imports Complex_Main "HOL-Library.Log_Nat" "HOL-Library.AList" "HOL-Library.Multiset"
begin

text \<open>
  Vocabulary shared by the component theories.

  \<^item> Results: a raised exception is \<open>Inl\<close>, a returned value \<open>Inr\<close>; \<open>and_then\<close> is sequencing.
  \<^item> f-strings: a list of fragments, so that a message keeps every interpolated value.
  \<^item> Text: \<open>str\<close> is \<open>string\<close>; case mapping and white space are those of ASCII.
  \<^item> Tables: a table is the list of its rows in the order a query returns them; a query is a
    \<open>filter\<close>, \<open>scalar_one_or_none\<close> is \<open>one_or_none\<close>, a row update by primary key \<open>upd_by\<close>.
  \<^item> Dictionaries that keep insertion order: association lists with \<open>AList.update\<close>.
  \<^item> Time: a \<open>datetime\<close> is its number of microseconds since the epoch, in UTC.
\<close>

named_theorems model_defs \<open>definitions unfolded together when an operation is evaluated\<close>

section \<open>Errors and results\<close>

datatype frag =
    Lit string            \<comment> \<open>literal text\<close>
  | Str string            \<comment> \<open>a string value\<close>
  | OStr "string option"  \<comment> \<open>a string or \<open>None\<close>\<close>
  | Num rat               \<comment> \<open>a float printed by \<open>str\<close>\<close>
  | ONum "rat option"
  | Fix nat rat           \<comment> \<open>a float printed with that many decimals\<close>
  | NatF nat
  | Strs "string list"    \<comment> \<open>several strings joined\<close>
  | Js json               \<comment> \<open>a JSON value\<close>
and json =
    JNull | JStr string | JNum rat | JInt int | JBool bool
  | JText "frag list"     \<comment> \<open>a string made by an f-string\<close>
  | JList "json list"
  | JObj "(string \<times> json) list"

type_synonym fstring = "frag list"

datatype py_error =
    ValueError fstring
  | KeyError string
  | TypeError
  | ZeroDivisionError
  | MultipleResultsFound
  | NoResultFound
  | AttributeError
  | IndexError
  | IntegrityError
  | RecursionError

type_synonym 'a result = "py_error + 'a"

definition and_then :: "'a result \<Rightarrow> ('a \<Rightarrow> 'b result) \<Rightarrow> 'b result" where
  "and_then m k = (case m of Inl e \<Rightarrow> Inl e | Inr x \<Rightarrow> k x)"

lemma and_then_simps [simp]:
  "and_then (Inl e) k = Inl e" "and_then (Inr x) k = k x"
  by (simp_all add: and_then_def)

lemma and_then_Inr_iff: "and_then m k = Inr y \<longleftrightarrow> (\<exists>x. m = Inr x \<and> k x = Inr y)"
  by (cases m) auto

lemma and_then_InrE [elim]:
  assumes "and_then m k = Inr y" obtains x where "m = Inr x" "k x = Inr y"
  using assms by (auto simp: and_then_Inr_iff)

section \<open>Time\<close>

type_synonym time = int

section \<open>Text\<close>

definition py_isspace :: "char \<Rightarrow> bool" where
  "py_isspace c = (let n = (of_char c :: nat) in n = 32 \<or> (9 \<le> n \<and> n \<le> 13) \<or> (28 \<le> n \<and> n \<le> 31))"

definition py_strip :: "string \<Rightarrow> string" where
  "py_strip s = rev (dropWhile py_isspace (rev (dropWhile py_isspace s)))"

definition upper_char :: "char \<Rightarrow> char" where
  "upper_char c = (let n = (of_char c :: nat) in if 97 \<le> n \<and> n \<le> 122 then char_of (n - 32) else c)"

definition lower_char :: "char \<Rightarrow> char" where
  "lower_char c = (let n = (of_char c :: nat) in if 65 \<le> n \<and> n \<le> 90 then char_of (n + 32) else c)"

definition py_upper :: "string \<Rightarrow> string" where "py_upper = map upper_char"
definition py_lower :: "string \<Rightarrow> string" where "py_lower = map lower_char"

definition py_startswith :: "string \<Rightarrow> string \<Rightarrow> bool" where
  "py_startswith p s \<longleftrightarrow> take (length p) s = p"

definition py_endswith :: "string \<Rightarrow> string \<Rightarrow> bool" where
  "py_endswith p s \<longleftrightarrow> py_startswith (rev p) (rev s)"

text \<open>\<open>p in s\<close> on strings.\<close>
fun py_in :: "string \<Rightarrow> string \<Rightarrow> bool" where
  "py_in p [] = (p = [])"
| "py_in p (c # cs) = (py_startswith p (c # cs) \<or> py_in p cs)"

text \<open>\<open>s or ""\<close>.\<close>
definition or_empty :: "string option \<Rightarrow> string" where
  "or_empty o' = (case o' of None \<Rightarrow> '''' | Some s \<Rightarrow> s)"

text \<open>\<open>s or None\<close> on a string.\<close>
definition or_None :: "string \<Rightarrow> string option" where
  "or_None s = (if s = '''' then None else Some s)"

text \<open>An optional string that is true: present and not empty.\<close>
definition truthy :: "string option \<Rightarrow> string option" where
  "truthy v = (case v of Some (c # cs) \<Rightarrow> Some (c # cs) | _ \<Rightarrow> None)"

lemma or_empty_simps [simp]: "or_empty None = ''''" "or_empty (Some s) = s"
  by (simp_all add: or_empty_def)

lemma py_in_append: "py_in p (xs @ p @ ys)"
proof (induction xs)
  case Nil
  have "py_startswith p (p @ ys)" by (simp add: py_startswith_def)
  then show ?case by (cases "p @ ys") auto
next
  case (Cons x xs)
  then show ?case by simp
qed

lemma py_in_iff: "py_in p s \<longleftrightarrow> (\<exists>xs ys. s = xs @ p @ ys)"
proof
  show "py_in p s \<Longrightarrow> \<exists>xs ys. s = xs @ p @ ys"
  proof (induction s)
    case Nil
    then show ?case by simp
  next
    case (Cons c cs)
    show ?case
    proof (cases "py_startswith p (c # cs)")
      case True
      then have "c # cs = [] @ p @ drop (length p) (c # cs)"
        by (metis append_Nil append_take_drop_id py_startswith_def)
      then show ?thesis by blast
    next
      case False
      with Cons obtain xs ys where "cs = xs @ p @ ys" by auto
      then have "c # cs = (c # xs) @ p @ ys" by simp
      then show ?thesis by blast
    qed
  qed
qed (auto simp: py_in_append)

text \<open>SQL \<open>LIKE\<close> with \<open>%\<close>, \<open>_\<close> and the backslash escape, and the case-insensitive \<open>ILIKE\<close>.\<close>

function sql_like :: "string \<Rightarrow> string \<Rightarrow> bool" where
  "sql_like [] s = (s = [])"
| "sql_like (p # ps) s =
     (if p = CHR ''%'' then sql_like ps s \<or> (case s of [] \<Rightarrow> False | c # t \<Rightarrow> sql_like (p # ps) t)
      else case s of [] \<Rightarrow> False
        | c # t \<Rightarrow> if p = CHR ''_'' then sql_like ps t
                   else if p = CHR 0x5C then (case ps of [] \<Rightarrow> False | q # qs \<Rightarrow> q = c \<and> sql_like qs t)
                   else p = c \<and> sql_like ps t)"
  by pat_completeness auto
termination by (relation "measure (\<lambda>(p, s). length p + length s)") auto

definition sql_ilike :: "string \<Rightarrow> string \<Rightarrow> bool" where
  "sql_ilike p s = sql_like (py_lower p) (py_lower s)"

text \<open>The optional filters of a listing: an absent or empty argument selects everything.\<close>

definition opt_filter :: "(string \<Rightarrow> 'a \<Rightarrow> bool) \<Rightarrow> string option \<Rightarrow> 'a list \<Rightarrow> 'a list" where
  "opt_filter p arg xs = (case arg of Some (c # cs) \<Rightarrow> filter (p (c # cs)) xs | _ \<Rightarrow> xs)"

lemma set_opt_filter: "set (opt_filter p arg xs) \<subseteq> set xs"
  by (auto simp: opt_filter_def split: option.splits list.splits)

section \<open>Sorting, minima, filtering\<close>

text \<open>\<open>sorted(xs, key=k)\<close> is stable, and so is \<open>sorted(xs, key=k, reverse=True)\<close>.\<close>

definition sorted_by :: "('a \<Rightarrow> 'b::linorder) \<Rightarrow> 'a list \<Rightarrow> 'a list" where
  "sorted_by k xs = sort_key k xs"

definition sorted_by_desc :: "('a \<Rightarrow> 'b::linorder) \<Rightarrow> 'a list \<Rightarrow> 'a list" where
  "sorted_by_desc k xs = rev (sort_key k (rev xs))"

lemma mset_sorted_by [simp]: "mset (sorted_by k xs) = mset xs"
  by (simp add: sorted_by_def)

lemma mset_sorted_by_desc [simp]: "mset (sorted_by_desc k xs) = mset xs"
  by (simp add: sorted_by_desc_def)

lemma set_sorted_by [simp]: "set (sorted_by k xs) = set xs"
  by (simp add: sorted_by_def)

lemma set_sorted_by_desc [simp]: "set (sorted_by_desc k xs) = set xs"
  by (simp add: sorted_by_desc_def)

lemma length_sorted_by [simp]: "length (sorted_by k xs) = length xs"
  by (simp add: sorted_by_def)

lemma length_sorted_by_desc [simp]: "length (sorted_by_desc k xs) = length xs"
  by (simp add: sorted_by_desc_def)

lemma sorted_by_sorted: "sorted (map k (sorted_by k xs))"
  by (simp add: sorted_by_def)

lemma sorted_by_desc_sorted: "sorted_wrt (\<lambda>x y. k y \<le> k x) (sorted_by_desc k xs)"
proof -
  have "sorted_wrt (\<lambda>x y. k x \<le> k y) (sort_key k (rev xs))"
    using sorted_sort_key [of k "rev xs"] by (simp add: sorted_map)
  then show ?thesis by (simp add: sorted_by_desc_def sorted_wrt_rev)
qed

lemma hd_sorted_by:
  assumes "xs \<noteq> []"
  shows "hd (sorted_by k xs) \<in> set xs" "\<forall>x \<in> set xs. k (hd (sorted_by k xs)) \<le> k x"
proof -
  have ne: "sorted_by k xs \<noteq> []"
    using assms by (metis length_sorted_by length_0_conv)
  then have "hd (sorted_by k xs) \<in> set (sorted_by k xs)" by (rule hd_in_set)
  then show "hd (sorted_by k xs) \<in> set xs" by simp
  from ne obtain y ys where y: "sorted_by k xs = y # ys" by (cases "sorted_by k xs") auto
  have "sorted (map k (y # ys))" using sorted_by_sorted [of k xs] y by simp
  then have "\<forall>x \<in> set (y # ys). k y \<le> k x" by auto
  moreover have "set (y # ys) = set xs" using y set_sorted_by [of k xs] by simp
  ultimately have "\<forall>x \<in> set xs. k y \<le> k x" by blast
  then show "\<forall>x \<in> set xs. k (hd (sorted_by k xs)) \<le> k x"
    using y by simp
qed

text \<open>\<open>min(xs, key=k)\<close> and \<open>max(xs, key=k)\<close>: the first least (greatest) element.\<close>

fun min_by :: "('a \<Rightarrow> 'b::linorder) \<Rightarrow> 'a list \<Rightarrow> 'a option" where
  "min_by k [] = None"
| "min_by k (x # xs) =
     (case min_by k xs of None \<Rightarrow> Some x | Some y \<Rightarrow> if k x \<le> k y then Some x else Some y)"

fun max_by :: "('a \<Rightarrow> 'b::linorder) \<Rightarrow> 'a list \<Rightarrow> 'a option" where
  "max_by k [] = None"
| "max_by k (x # xs) =
     (case max_by k xs of None \<Rightarrow> Some x | Some y \<Rightarrow> if k y \<le> k x then Some x else Some y)"

lemma min_by_None [simp]: "min_by k xs = None \<longleftrightarrow> xs = []"
  by (cases xs) (auto split: option.splits)

lemma max_by_None [simp]: "max_by k xs = None \<longleftrightarrow> xs = []"
  by (cases xs) (auto split: option.splits)

lemma min_by_SomeD: "min_by k xs = Some m \<Longrightarrow> m \<in> set xs \<and> (\<forall>x \<in> set xs. k m \<le> k x)"
  by (induction xs arbitrary: m) (fastforce split: option.splits if_splits)+

lemma max_by_SomeD: "max_by k xs = Some m \<Longrightarrow> m \<in> set xs \<and> (\<forall>x \<in> set xs. k x \<le> k m)"
  by (induction xs arbitrary: m) (fastforce split: option.splits if_splits)+

section \<open>Tables and dictionaries\<close>

definition one_or_none :: "'a list \<Rightarrow> 'a option result" where
  "one_or_none rows = (case rows of [] \<Rightarrow> Inr None | [x] \<Rightarrow> Inr (Some x) | _ \<Rightarrow> Inl MultipleResultsFound)"

lemma one_or_none_simps [simp]:
  "one_or_none [] = Inr None" "one_or_none [x] = Inr (Some x)"
  "one_or_none (x # y # zs) = Inl MultipleResultsFound"
  by (simp_all add: one_or_none_def)

lemma one_or_none_SomeD: "one_or_none xs = Inr (Some x) \<Longrightarrow> xs = [x]"
  by (auto simp: one_or_none_def split: list.splits)

lemma one_or_none_NoneD: "one_or_none xs = Inr None \<Longrightarrow> xs = []"
  by (auto simp: one_or_none_def split: list.splits)

lemma filter_key_cases:
  "distinct (map key rows) \<Longrightarrow>
     filter (\<lambda>x. key x = k) rows = [] \<or> (\<exists>r. filter (\<lambda>x. key x = k) rows = [r])"
proof (induction rows)
  case (Cons a rows)
  then show ?case
    by (cases "key a = k") (auto simp: filter_empty_conv image_iff)
qed simp

lemma one_or_none_distinct:
  assumes "distinct (map key rows)"
  shows "\<exists>r. one_or_none (filter (\<lambda>x. key x = k) rows) = Inr r"
  using filter_key_cases [OF assms, of k] by auto

definition get_by :: "('a \<Rightarrow> 'k) \<Rightarrow> 'k \<Rightarrow> 'a list \<Rightarrow> 'a option result" where
  "get_by key k rows = one_or_none (filter (\<lambda>r. key r = k) rows)"

definition upd_by :: "('a \<Rightarrow> 'k) \<Rightarrow> 'k \<Rightarrow> ('a \<Rightarrow> 'a) \<Rightarrow> 'a list \<Rightarrow> 'a list" where
  "upd_by key k f rows = map (\<lambda>r. if key r = k then f r else r) rows"

lemma get_by_SomeD:
  "get_by key k rows = Inr (Some r) \<Longrightarrow> r \<in> set rows \<and> key r = k"
  by (auto simp: get_by_def dest!: one_or_none_SomeD simp: filter_eq_Cons_iff)

lemma get_by_NoneD: "get_by key k rows = Inr None \<Longrightarrow> \<forall>r \<in> set rows. key r \<noteq> k"
  by (auto simp: get_by_def dest!: one_or_none_NoneD simp: filter_empty_conv)

lemma length_upd_by [simp]: "length (upd_by key k f rows) = length rows"
  by (simp add: upd_by_def)

lemma map_upd_by_key:
  "(\<And>r. key' (f r) = key' r) \<Longrightarrow> map key' (upd_by key k f rows) = map key' rows"
  by (simp add: upd_by_def)

lemma in_upd_byE:
  assumes "r \<in> set (upd_by key k f rows)"
  obtains s where "s \<in> set rows" "r = (if key s = k then f s else s)"
  using assms by (auto simp: upd_by_def)

lemma upd_by_upd_by:
  "(\<And>r. key (f r) = key r) \<Longrightarrow> upd_by key k g (upd_by key k f rows) = upd_by key k (g \<circ> f) rows"
  by (simp add: upd_by_def)

text \<open>\<open>d.setdefault(key(x), []).append(x)\<close> over a list.\<close>

fun group_add :: "'k \<Rightarrow> 'a \<Rightarrow> ('k \<times> 'a list) list \<Rightarrow> ('k \<times> 'a list) list" where
  "group_add k x [] = [(k, [x])]"
| "group_add k x ((k', xs) # g) = (if k' = k then (k', xs @ [x]) # g else (k', xs) # group_add k x g)"

definition group_by :: "('a \<Rightarrow> 'k) \<Rightarrow> 'a list \<Rightarrow> ('k \<times> 'a list) list" where
  "group_by key xs = foldl (\<lambda>g x. group_add (key x) x g) [] xs"

lemma keys_group_add: "fst ` set (group_add k x g) = insert k (fst ` set g)"
  by (induction k x g rule: group_add.induct) auto

lemma distinct_group_add:
  "distinct (map fst g) \<Longrightarrow> distinct (map fst (group_add k x g))"
proof (induction k x g rule: group_add.induct)
  case (2 k x k' xs g)
  then show ?case using keys_group_add [of k x g] by (auto simp: image_iff)
qed simp

lemma map_of_group_add:
  "map_of (group_add k x g) =
     (map_of g)(k \<mapsto> (case map_of g k of None \<Rightarrow> [x] | Some xs \<Rightarrow> xs @ [x]))"
  by (induction k x g rule: group_add.induct) auto

lemma group_by_foldl:
  "map_of (foldl (\<lambda>g x. group_add (key x) x g) g xs) k =
     (case (case map_of g k of None \<Rightarrow> [] | Some ys \<Rightarrow> ys) @ filter (\<lambda>x. key x = k) xs of
        [] \<Rightarrow> map_of g k | zs \<Rightarrow> Some zs)"
proof (induction xs arbitrary: g)
  case Nil
  then show ?case by (auto split: option.splits list.splits)
next
  case (Cons x xs)
  show ?case unfolding foldl_Cons Cons.IH
    by (auto simp: map_of_group_add split: option.splits list.splits)
qed

lemma map_of_group_by:
  "map_of (group_by key xs) k =
     (case filter (\<lambda>x. key x = k) xs of [] \<Rightarrow> None | zs \<Rightarrow> Some zs)"
  by (simp add: group_by_def group_by_foldl split: list.splits)

lemma distinct_group_by: "distinct (map fst (group_by key xs))"
proof -
  have "distinct (map fst g) \<Longrightarrow> distinct (map fst (foldl (\<lambda>g x. group_add (key x) x g) g xs))" for g
    by (induction xs arbitrary: g) (auto intro: distinct_group_add)
  then show ?thesis by (simp add: group_by_def)
qed

lemma in_group_by:
  assumes "(k, ys) \<in> set (group_by key xs)"
  shows "ys = filter (\<lambda>x. key x = k) xs" "ys \<noteq> []"
proof -
  have "map_of (group_by key xs) k = Some ys"
    using assms distinct_group_by [of key xs] by simp
  then show "ys = filter (\<lambda>x. key x = k) xs" "ys \<noteq> []"
    by (auto simp: map_of_group_by split: list.splits)
qed

section \<open>Create-or-get\<close>

text \<open>Several operations look a row up by its key and create it only when there is none. Such a
  step never fails on a good state, keeps it good, and adds at most its own key to the table.
  What a run over a list of requests then does is proved once.\<close>

fun run_steps :: "('x \<Rightarrow> 's \<Rightarrow> 's result) \<Rightarrow> 'x list \<Rightarrow> 's \<Rightarrow> 's result" where
  "run_steps step [] s = Inr s"
| "run_steps step (x # xs) s = and_then (step x s) (run_steps step xs)"

locale create_or_get =
  fixes ok :: "'s \<Rightarrow> bool" and keys :: "'s \<Rightarrow> 'k list"
    and step :: "'x \<Rightarrow> 's \<Rightarrow> 's result" and target :: "'x \<Rightarrow> 'k option"
  assumes total: "ok s \<Longrightarrow> \<exists>s'. step x s = Inr s'"
    and keeps_ok: "ok s \<Longrightarrow> step x s = Inr s' \<Longrightarrow> ok s'"
    and new_keys: "ok s \<Longrightarrow> step x s = Inr s' \<Longrightarrow>
      keys s' = (case target x of Some k \<Rightarrow> if k \<in> set (keys s) then keys s else keys s @ [k] | None \<Rightarrow> keys s)"
begin

lemma run_total: "ok s \<Longrightarrow> \<exists>s'. run_steps step xs s = Inr s' \<and> ok s'"
proof (induction xs arbitrary: s)
  case (Cons x xs)
  from total [OF Cons.prems] obtain s1 where "step x s = Inr s1" by blast
  with Cons keeps_ok [OF Cons.prems] show ?case by fastforce
qed simp

lemma run_keys:
  "ok s \<Longrightarrow> run_steps step xs s = Inr s' \<Longrightarrow> set (keys s') = set (keys s) \<union> {k. \<exists>x \<in> set xs. target x = Some k}"
proof (induction xs arbitrary: s)
  case (Cons x xs)
  then obtain s1 where s1: "step x s = Inr s1" "run_steps step xs s1 = Inr s'" by auto
  have "ok s1" using keeps_ok [OF Cons.prems(1) s1(1)] .
  from Cons.IH [OF this s1(2)] new_keys [OF Cons.prems(1) s1(1)]
  show ?case by (auto split: option.splits)
qed auto

lemma run_prefix: "ok s \<Longrightarrow> run_steps step xs s = Inr s' \<Longrightarrow> \<exists>ks. keys s' = keys s @ ks"
proof (induction xs arbitrary: s)
  case (Cons x xs)
  then obtain s1 where s1: "step x s = Inr s1" "run_steps step xs s1 = Inr s'" by auto
  have "ok s1" using keeps_ok [OF Cons.prems(1) s1(1)] .
  from Cons.IH [OF this s1(2)] new_keys [OF Cons.prems(1) s1(1)]
  show ?case by (auto split: option.splits if_splits)
qed simp

lemma run_distinct:
  "ok s \<Longrightarrow> run_steps step xs s = Inr s' \<Longrightarrow> distinct (keys s) \<Longrightarrow> distinct (keys s')"
proof (induction xs arbitrary: s)
  case (Cons x xs)
  then obtain s1 where s1: "step x s = Inr s1" "run_steps step xs s1 = Inr s'" by auto
  have "ok s1" using keeps_ok [OF Cons.prems(1) s1(1)] .
  moreover have "distinct (keys s1)"
    using new_keys [OF Cons.prems(1) s1(1)] Cons.prems(3) by (auto split: option.splits)
  ultimately show ?case using Cons.IH s1(2) by blast
qed simp

lemma run_no_new:
  "ok s \<Longrightarrow> run_steps step xs s = Inr s' \<Longrightarrow> (\<And>x k. x \<in> set xs \<Longrightarrow> target x = Some k \<Longrightarrow> k \<in> set (keys s)) \<Longrightarrow>
     keys s' = keys s"
proof (induction xs arbitrary: s)
  case (Cons x xs)
  then obtain s1 where s1: "step x s = Inr s1" "run_steps step xs s1 = Inr s'" by auto
  have ok1: "ok s1" using keeps_ok [OF Cons.prems(1) s1(1)] .
  have "keys s1 = keys s"
    using new_keys [OF Cons.prems(1) s1(1)] Cons.prems(3) [of x] by (auto split: option.splits)
  then show ?case using Cons.IH [OF ok1 s1(2)] Cons.prems(3) by auto
qed simp

text \<open>Running the same requests again creates nothing.\<close>

lemma rerun:
  assumes "ok s" "run_steps step xs s = Inr s1" "run_steps step xs s1 = Inr s2"
  shows "keys s2 = keys s1"
proof (rule run_no_new)
  show "ok s1" using run_total [OF assms(1), of xs] assms(2) by simp
  show "run_steps step xs s1 = Inr s2" by fact
  show "k \<in> set (keys s1)" if "x \<in> set xs" "target x = Some k" for x k
    using run_keys [OF assms(1,2)] that by blast
qed

end

end
