(* ===== verification/PyFloat.thy ===== *)
theory PyFloat
  imports Prelude
begin

text \<open>
  Python floats. A finite float is represented by its exact value, a rational; every float
  operation of the source is the exact rational operation followed by \<open>fl\<close>, the IEEE-754
  round-to-nearest, ties-to-even rounding to 53 significant bits. The exponent is unbounded:
  overflow, subnormals, infinities and NaN are outside the model (the code works on hours,
  scores and percentages). The sign of zero is not represented: no comparison of the source
  depends on it.

  \<open>fround n\<close> is the builtin \<open>round(x, n)\<close> (correctly rounded decimal, ties to even, then the
  nearest float), \<open>fsum\<close> the builtin \<open>sum\<close> of Python 3.12 on floats (Neumaier's compensated
  summation; the Dockerfile pins \<open>python:3.12\<close>), \<open>fsqrt\<close> the correctly rounded \<open>math.sqrt\<close>.
\<close>

section \<open>Round half to even, and the rounding to 53 bits\<close>

definition rhe :: "rat \<Rightarrow> int" where
  "rhe x = (let n = \<lfloor>x\<rfloor>; r = x - of_int n
            in if r < 1 / 2 then n else if 1 / 2 < r then n + 1
               else if even n then n else n + 1)"

definition expo :: "rat \<Rightarrow> int" where
  "expo x = (let (p, q) = quotient_of x;
                 e = bitlen p - bitlen q - 53
             in if x < 2 powi (e + 53) then e else e + 1)"

definition flpos :: "rat \<Rightarrow> rat" where
  "flpos x = of_int (rhe (x / 2 powi (expo x))) * 2 powi (expo x)"

definition fl :: "rat \<Rightarrow> rat" where
  "fl x = (if x = 0 then 0 else if 0 < x then flpos x else - flpos (- x))"

definition fround :: "nat \<Rightarrow> rat \<Rightarrow> rat" where
  "fround n x = fl (of_int (rhe (x * 10 ^ n)) / 10 ^ n)"

section \<open>The float operations of the source\<close>

definition fadd :: "rat \<Rightarrow> rat \<Rightarrow> rat" where "fadd x y = fl (x + y)"
definition fsub :: "rat \<Rightarrow> rat \<Rightarrow> rat" where "fsub x y = fl (x - y)"
definition fmul :: "rat \<Rightarrow> rat \<Rightarrow> rat" where "fmul x y = fl (x * y)"

text \<open>Division; the callers check for a zero divisor where Python would raise.\<close>
definition fdiv :: "rat \<Rightarrow> rat \<Rightarrow> rat" where "fdiv x y = fl (x / y)"

fun fsum_loop :: "rat \<Rightarrow> rat \<Rightarrow> rat list \<Rightarrow> rat" where
  "fsum_loop s c [] = (if c = 0 then s else fadd s c)"
| "fsum_loop s c (x # xs) =
     (let t = fadd s x;
          c' = (if \<bar>x\<bar> \<le> \<bar>s\<bar> then fadd c (fadd (fsub s t) x) else fadd c (fadd (fsub x t) s))
      in fsum_loop t c' xs)"

fun fsum :: "rat list \<Rightarrow> rat" where
  "fsum [] = 0"
| "fsum (x # xs) = fsum_loop x 0 xs"

fun isqrt :: "nat \<Rightarrow> nat" where
  "isqrt n = (if n = 0 then 0
              else let r = 2 * isqrt (n div 4) in if (r + 1) ^ 2 \<le> n then r + 1 else r)"

declare isqrt.simps [simp del]

text \<open>
  \<open>s\<close> is the integer square root of \<open>x\<close> scaled to at least 56 bits of root; the last bit of
  \<open>2 * s\<close> records whether the root was inexact, so that rounding to 53 bits is correct.
\<close>
definition fsqrt :: "rat \<Rightarrow> rat" where
  "fsqrt x = (if x \<le> 0 then 0
     else let k = (112 - (expo x + 53)) div 2;
              y = x * 2 powi (2 * k);
              s = isqrt (nat \<lfloor>y\<rfloor>)
          in fl (of_int (2 * int s + (if rat_of_nat (s ^ 2) = y then 0 else 1)) / 2 powi (k + 1)))"

section \<open>Rounding to an integer\<close>

lemma rhe_of_int [simp]: "rhe (of_int n) = n"
  by (simp add: rhe_def)

lemma rhe_0 [simp]: "rhe 0 = 0"
  using rhe_of_int [of 0] by simp

lemma rhe_cases: "rhe x = \<lfloor>x\<rfloor> \<or> rhe x = \<lfloor>x\<rfloor> + 1"
  by (auto simp: rhe_def Let_def)

lemma rhe_le: "of_int (rhe x) \<le> x + 1 / 2"
proof -
  have "of_int \<lfloor>x\<rfloor> \<le> x" by simp
  then show ?thesis unfolding rhe_def Let_def by (simp split: if_splits) linarith
qed

lemma rhe_ge: "x - 1 / 2 \<le> of_int (rhe x)"
proof -
  have "x < of_int \<lfloor>x\<rfloor> + 1" using floor_correct [of x] by simp
  then show ?thesis unfolding rhe_def Let_def by (simp split: if_splits)
qed

lemma rhe_mono: assumes "x \<le> y" shows "rhe x \<le> rhe y"
proof (cases "\<lfloor>x\<rfloor> = \<lfloor>y\<rfloor>")
  case True
  with assms show ?thesis by (auto simp: rhe_def Let_def)
next
  case False
  with assms floor_mono [OF assms] have "\<lfloor>x\<rfloor> + 1 \<le> \<lfloor>y\<rfloor>" by simp
  with rhe_cases [of x] rhe_cases [of y] show ?thesis by auto
qed

lemma rhe_minus: "rhe (- x) = - rhe x"
proof (cases "x = of_int \<lfloor>x\<rfloor>")
  case True
  then have "rhe (- x) = rhe (of_int (- \<lfloor>x\<rfloor>))" "rhe x = rhe (of_int \<lfloor>x\<rfloor>)" by simp_all
  then show ?thesis by (simp only: rhe_of_int)
next
  case False
  then have "\<lfloor>- x\<rfloor> = - \<lfloor>x\<rfloor> - 1"
    using ceiling_altdef [of x] by (simp add: ceiling_def)
  then show ?thesis unfolding rhe_def Let_def by (simp split: if_splits)
qed

section \<open>The binary exponent\<close>

lemma quotient_of_pos:
  assumes "0 < x" "quotient_of x = (p, q)"
  shows "0 < p" "0 < q" "x = of_int p / of_int q"
proof -
  show q: "0 < q" and x: "x = of_int p / of_int q"
    using assms quotient_of_denom_pos quotient_of_div by auto
  show "0 < p" using q x assms(1) by (simp add: zero_less_divide_iff)
qed

lemma bitlen_powi:
  assumes "0 < (p::int)"
  shows "(2::rat) powi (bitlen p - 1) \<le> of_int p" "of_int p < (2::rat) powi (bitlen p)"
proof -
  have b: "bitlen p \<ge> 1" using assms bitlen_nonneg [of p] bitlen_eq_zero_iff [of p] by linarith
  have *: "2 ^ nat (bitlen p - 1) \<le> p" "p < 2 ^ nat (bitlen p)"
    using bitlen_bounds [OF assms] by auto
  have "(2::rat) powi (bitlen p - 1) = 2 ^ nat (bitlen p - 1)"
       "(2::rat) powi (bitlen p) = 2 ^ nat (bitlen p)"
    using b by (auto simp: power_int_def)
  with * show "(2::rat) powi (bitlen p - 1) \<le> of_int p" "of_int p < (2::rat) powi (bitlen p)"
    by (metis of_int_le_iff of_int_power of_int_numeral)
       (metis * \<open>2 powi bitlen p = 2 ^ nat (bitlen p)\<close> of_int_less_iff of_int_power of_int_numeral)
qed

lemma expo_bounds:
  assumes "0 < x"
  shows "2 powi (expo x + 52) \<le> x" "x < 2 powi (expo x + 53)"
proof -
  obtain p q where pq: "quotient_of x = (p, q)" by (cases "quotient_of x")
  note x = quotient_of_pos [OF assms pq]
  define e where "e = bitlen p - bitlen q - 53"
  have lo: "2 powi (e + 52) < x"
  proof -
    have "(2::rat) powi (e + 52) * of_int q < 2 powi (e + 52) * 2 powi (bitlen q)"
      using bitlen_powi(2) [OF x(2)] by simp
    also have "\<dots> = 2 powi (bitlen p - 1)"
      by (simp add: e_def flip: power_int_add)
    also have "\<dots> \<le> of_int p" by (rule bitlen_powi(1) [OF x(1)])
    finally show ?thesis using x by (simp add: pos_less_divide_eq)
  qed
  have hi: "x < 2 powi (e + 54)"
  proof -
    have "of_int p < (2::rat) powi (bitlen p)" by (rule bitlen_powi(2) [OF x(1)])
    also have "\<dots> = 2 powi (e + 54) * 2 powi (bitlen q - 1)"
      by (simp add: e_def flip: power_int_add)
    also have "\<dots> \<le> 2 powi (e + 54) * of_int q"
      using bitlen_powi(1) [OF x(2)] by simp
    finally show ?thesis using x by (simp add: pos_divide_less_eq)
  qed
  have ex: "expo x = (if x < 2 powi (e + 53) then e else e + 1)"
    by (simp add: expo_def pq e_def Let_def)
  show "2 powi (expo x + 52) \<le> x" "x < 2 powi (expo x + 53)"
    using lo hi by (auto simp: ex add.commute add.left_commute not_less)
qed

lemma powi2_less: "a < b \<Longrightarrow> (2::rat) powi a < 2 powi b"
  by (rule power_int_strict_increasing) simp_all

lemma powi2_less_iff: "(2::rat) powi a < 2 powi b \<longleftrightarrow> a < b"
  using powi2_less [of a b] powi2_less [of b a] by (cases a b rule: linorder_cases) auto

lemma powi2_le_iff: "(2::rat) powi a \<le> 2 powi b \<longleftrightarrow> a \<le> b"
  using powi2_less_iff [of b a] by (auto simp: not_less[symmetric])

lemma expo_eqI:
  assumes "2 powi (e + 52) \<le> x" "x < 2 powi (e + 53)"
  shows "expo x = e"
proof -
  have "0 < (2::rat) powi (e + 52)" by simp
  with assms(1) have x: "0 < x" by linarith
  have "(2::rat) powi (expo x + 52) < 2 powi (e + 53)" "(2::rat) powi (e + 52) < 2 powi (expo x + 53)"
    using expo_bounds [OF x] assms by linarith+
  then show ?thesis by (simp add: powi2_less_iff)
qed

lemma expo_mono:
  assumes "0 < x" "x \<le> y" shows "expo x \<le> expo y"
proof -
  have "(2::rat) powi (expo x + 52) < 2 powi (expo y + 53)"
    using expo_bounds [of x] expo_bounds [of y] assms by linarith
  then show ?thesis by (simp add: powi2_less_iff)
qed

lemma scaled_bounds:
  assumes "0 < x"
  shows "2 ^ 52 \<le> x / 2 powi (expo x)" "x / 2 powi (expo x) < 2 ^ 53"
  using expo_bounds [OF assms] by (simp_all add: power_int_add field_simps)

lemma rhe_scaled_bounds:
  assumes "0 < x"
  shows "2 ^ 52 \<le> rhe (x / 2 powi (expo x))" "rhe (x / 2 powi (expo x)) \<le> 2 ^ 53"
proof -
  have "rhe (of_int (2 ^ 52)) \<le> rhe (x / 2 powi (expo x))"
    by (rule rhe_mono) (use scaled_bounds(1) [OF assms] in simp)
  then show "2 ^ 52 \<le> rhe (x / 2 powi (expo x))" by (simp only: rhe_of_int)
  have "rhe (x / 2 powi (expo x)) \<le> rhe (of_int (2 ^ 53))"
    by (rule rhe_mono) (use scaled_bounds(2) [OF assms] in simp)
  then show "rhe (x / 2 powi (expo x)) \<le> 2 ^ 53" by (simp only: rhe_of_int)
qed

lemma flpos_bounds:
  assumes "0 < x"
  shows "2 powi (expo x + 52) \<le> flpos x" "flpos x \<le> 2 powi (expo x + 53)"
proof -
  let ?r = "of_int (rhe (x / 2 powi (expo x))) :: rat"
  have "(2::rat) ^ 52 \<le> ?r" "?r \<le> 2 ^ 53"
    using rhe_scaled_bounds [OF assms]
    by (metis of_int_le_iff of_int_power of_int_numeral)+
  then show "2 powi (expo x + 52) \<le> flpos x" "flpos x \<le> 2 powi (expo x + 53)"
    by (simp_all add: flpos_def power_int_add mult.commute mult_right_mono)
qed

lemma flpos_pos: "0 < x \<Longrightarrow> 0 < flpos x"
  using flpos_bounds(1) [of x] zero_less_power_int [of "2::rat" "expo x + 52"] by linarith

lemma flpos_mono: assumes "0 < x" "x \<le> y" shows "flpos x \<le> flpos y"
proof (cases "expo x = expo y")
  case True
  have "rhe (x / 2 powi (expo x)) \<le> rhe (y / 2 powi (expo y))"
    by (rule rhe_mono) (use assms True in \<open>simp add: divide_right_mono\<close>)
  with True show ?thesis by (simp add: flpos_def)
next
  case False
  with expo_mono [OF assms] have "expo x + 53 \<le> expo y + 52" by simp
  then have "(2::rat) powi (expo x + 53) \<le> 2 powi (expo y + 52)" by (simp only: powi2_le_iff)
  with flpos_bounds(2) [OF assms(1)] flpos_bounds(1) [of y] assms show ?thesis by linarith
qed

section \<open>Laws of the rounding\<close>

text \<open>
  What the proofs about the engines use of a rounding function: it is monotone and odd.
  Everything about signs and about bounds by representable constants follows.
\<close>

locale rounding =
  fixes r :: "rat \<Rightarrow> rat"
  assumes mono: "x \<le> y \<Longrightarrow> r x \<le> r y"
    and odd: "r (- x) = - r x"
begin

lemma zero: "r 0 = 0"
  using odd [of 0] by simp

lemma nonneg: "0 \<le> x \<Longrightarrow> 0 \<le> r x"
  using mono [of 0 x] by (simp add: zero)

lemma nonpos: "x \<le> 0 \<Longrightarrow> r x \<le> 0"
  using mono [of x 0] by (simp add: zero)

lemma pos_imp: "0 < r x \<Longrightarrow> 0 < x"
  using nonpos [of x] by linarith

lemma neg_imp: "r x < 0 \<Longrightarrow> x < 0"
  using nonneg [of x] by linarith

lemma le_fix: "x \<le> c \<Longrightarrow> r c = c \<Longrightarrow> r x \<le> c"
  using mono [of x c] by simp

lemma ge_fix: "c \<le> x \<Longrightarrow> r c = c \<Longrightarrow> c \<le> r x"
  using mono [of c x] by simp

lemma abs_comm: "\<bar>r x\<bar> = r \<bar>x\<bar>"
  using nonneg [of x] nonpos [of x] by (cases "0 \<le> x") (auto simp: odd abs_if)

end

text \<open>A rounding that also keeps the sign strictly and fixes what it returns.\<close>

locale exact_rounding = rounding +
  assumes pos: "0 < x \<Longrightarrow> 0 < r x"
    and idem: "r (r x) = r x"
begin

lemma zero_iff: "r x = 0 \<longleftrightarrow> x = 0"
  using pos [of x] pos [of "- x"] zero odd [of x] by (cases x "0::rat" rule: linorder_cases) auto

lemma pos_iff: "0 < r x \<longleftrightarrow> 0 < x"
  using pos pos_imp by blast

lemma neg_iff: "r x < 0 \<longleftrightarrow> x < 0"
  using pos_iff [of "- x"] by (simp add: odd)

lemma diff_pos_iff: "0 < r (x - y) \<longleftrightarrow> y < x"
  by (simp add: pos_iff)

end

section \<open>The rounding of a float satisfies the laws\<close>

lemma fl_minus: "fl (- x) = - fl x"
  by (cases x "0::rat" rule: linorder_cases) (simp_all add: fl_def)

lemma fl_mono: assumes "x \<le> y" shows "fl x \<le> fl y"
proof -
  consider "0 < x" | "x \<le> 0" "0 \<le> y" | "y < 0" by linarith
  then show ?thesis
  proof cases
    case 1
    with assms flpos_mono [of x y] show ?thesis by (simp add: fl_def)
  next
    case 2
    with flpos_pos [of "- x"] flpos_pos [of y] show ?thesis by (auto simp: fl_def)
  next
    case 3
    with assms flpos_mono [of "- y" "- x"] show ?thesis by (simp add: fl_def)
  qed
qed

lemma fl_pos: "0 < x \<Longrightarrow> 0 < fl x"
  by (simp add: fl_def flpos_pos)

text \<open>A multiple of a power of two with at most 53 significant bits is a float.\<close>

lemma flpos_dyadic:
  assumes "0 < n" "n \<le> 2 ^ 53" shows "flpos (of_int n * 2 powi k) = of_int n * 2 powi k"
proof -
  define x where "x = (of_int n * 2 powi k :: rat)"
  have x: "0 < x" using assms by (simp add: x_def)
  have "(2::rat) powi (expo x + 52) \<le> x" by (rule expo_bounds(1) [OF x])
  also have "x \<le> 2 powi (k + 53)"
  proof -
    have "(of_int n :: rat) \<le> 2 ^ 53"
      using assms(2) by (metis of_int_le_iff of_int_power of_int_numeral)
    then show ?thesis by (simp add: x_def power_int_add mult.commute mult_right_mono)
  qed
  finally have "expo x \<le> k + 1" by (simp add: powi2_le_iff)
  consider "expo x \<le> k" | "expo x = k + 1" using \<open>expo x \<le> k + 1\<close> by linarith
  then show ?thesis unfolding x_def [symmetric]
  proof cases
    case 1
    define e where "e = expo x"
    define m where "m = n * 2 ^ nat (k - e)"
    have "(2::rat) ^ nat (k - e) = 2 powi (k - e)"
      using 1 by (simp add: power_int_def e_def)
    then have "(2::rat) powi k = 2 powi e * 2 ^ nat (k - e)"
      by (simp flip: power_int_add)
    then have xm: "x = of_int m * 2 powi e" by (simp add: x_def m_def)
    have q: "x / 2 powi e = of_int m" unfolding xm by simp
    have "flpos x = of_int m * 2 powi e"
      unfolding flpos_def e_def [symmetric] q rhe_of_int ..
    then show "flpos x = x" unfolding xm [symmetric] .
  next
    case 2
    have "(2::rat) powi (k + 53) \<le> x" using expo_bounds(1) [OF x] 2 by (simp add: add.commute)
    with \<open>x \<le> 2 powi (k + 53)\<close> have xk: "x = 2 powi (k + 53)" by linarith
    have q: "x / 2 powi (k + 1) = of_int (2 ^ 52)" unfolding xk by (simp add: power_int_add)
    have "flpos x = of_int (2 ^ 52) * 2 powi (k + 1)"
      unfolding flpos_def 2 q rhe_of_int ..
    also have "\<dots> = 2 powi (k + 53)" by (simp add: power_int_add)
    finally show "flpos x = x" unfolding xk [symmetric] .
  qed
qed

lemma flpos_idem: assumes "0 < x" shows "flpos (flpos x) = flpos x"
proof -
  let ?n = "rhe (x / 2 powi (expo x))"
  have "0 < ?n" "?n \<le> 2 ^ 53" using rhe_scaled_bounds [OF assms] by simp_all
  from flpos_dyadic [OF this, of "expo x"] show ?thesis by (simp add: flpos_def)
qed

lemma fl_idem: "fl (fl x) = fl x"
  using flpos_pos [of x] flpos_pos [of "- x"] flpos_idem [of x] flpos_idem [of "- x"]
  by (cases x "0::rat" rule: linorder_cases) (auto simp: fl_def)

interpretation flr: exact_rounding fl
  by unfold_locales (fact fl_mono fl_minus fl_pos fl_idem)+

lemma fl_of_int [simp]: "\<bar>n\<bar> \<le> 2 ^ 53 \<Longrightarrow> fl (of_int n) = of_int n"
  using flpos_dyadic [of n 0] flpos_dyadic [of "- n" 0]
  by (cases n "0::int" rule: linorder_cases) (auto simp: fl_def)

lemma fl_of_nat [simp]: "n \<le> 2 ^ 53 \<Longrightarrow> fl (of_nat n) = of_nat n"
  using fl_of_int [of "int n"] by simp

lemma fl_numeral: "numeral k \<le> (2::int) ^ 53 \<Longrightarrow> fl (numeral k) = numeral k"
  using fl_of_int [of "numeral k"] by simp

lemma fl_0 [simp]: "fl 0 = 0" by (rule flr.zero)
lemma fl_1 [simp]: "fl 1 = 1" using fl_of_int [of 1] by simp

section \<open>Decimal rounding\<close>

lemma fround_mono: "x \<le> y \<Longrightarrow> fround n x \<le> fround n y"
  unfolding fround_def by (intro fl_mono divide_right_mono) (auto intro!: rhe_mono mult_right_mono)

lemma fround_minus: "fround n (- x) = - fround n x"
  using rhe_minus [of "x * 10 ^ n"] fl_minus [of "of_int (rhe (x * 10 ^ n)) / 10 ^ n"]
  by (simp add: fround_def)

interpretation frd: rounding "fround n" for n
  by unfold_locales (fact fround_mono fround_minus)+

lemma fround_0 [simp]: "fround n 0 = 0" by (rule frd.zero)

lemma fround_of_int [simp]:
  assumes "\<bar>k\<bar> \<le> 2 ^ 53" shows "fround n (of_int k) = of_int k"
proof -
  have "rhe (of_int k * 10 ^ n) = rhe (of_int (k * 10 ^ n))" by simp
  also have "\<dots> = k * 10 ^ n" by (rule rhe_of_int)
  finally have "rhe (of_int k * 10 ^ n) = k * 10 ^ n" .
  with assms show ?thesis by (simp add: fround_def)
qed

lemma fround_of_nat [simp]: "k \<le> 2 ^ 53 \<Longrightarrow> fround n (of_nat k) = of_nat k"
  using fround_of_int [of "int k"] by simp

lemma fround_1 [simp]: "fround n 1 = 1"
  using fround_of_int [of 1 n] by simp

section \<open>Relative error of one operation\<close>

lemma flpos_error: assumes "0 < x" shows "\<bar>flpos x - x\<bar> \<le> x / 2 ^ 53"
proof -
  let ?p = "2 powi (expo x) :: rat" and ?y = "x / 2 powi (expo x)"
  have p: "0 < ?p" by simp
  have "\<bar>of_int (rhe ?y) - ?y\<bar> \<le> 1 / 2" using rhe_le [of ?y] rhe_ge [of ?y] by linarith
  then have "\<bar>of_int (rhe ?y) - ?y\<bar> * ?p \<le> 1 / 2 * ?p" using p by (intro mult_right_mono) auto
  moreover have "\<bar>flpos x - x\<bar> = \<bar>of_int (rhe ?y) - ?y\<bar> * ?p"
  proof -
    have "flpos x - x = (of_int (rhe ?y) - ?y) * ?p" using p by (simp add: flpos_def algebra_simps)
    then show ?thesis using p by (simp add: abs_mult)
  qed
  moreover have "1 / 2 * ?p \<le> x / 2 ^ 53"
    using expo_bounds(1) [OF assms] by (simp add: power_int_add field_simps)
  ultimately show ?thesis by linarith
qed

lemma fl_error: "\<bar>fl x - x\<bar> \<le> \<bar>x\<bar> / 2 ^ 53"
proof (cases x "0::rat" rule: linorder_cases)
  case less
  with flpos_error [of "- x"] show ?thesis by (simp add: fl_def abs_minus_commute)
next
  case greater
  with flpos_error [of x] show ?thesis by (simp add: fl_def)
qed simp

lemma fround_error: "\<bar>fround n x - x\<bar> \<le> 1 / (2 * 10 ^ n) + (\<bar>x\<bar> + 1 / (2 * 10 ^ n)) / 2 ^ 53"
proof -
  let ?h = "1 / (2 * 10 ^ n) :: rat" and ?d = "of_int (rhe (x * 10 ^ n)) / 10 ^ n :: rat"
  have "\<bar>of_int (rhe (x * 10 ^ n)) - x * 10 ^ n\<bar> \<le> 1 / 2"
    using rhe_le [of "x * 10 ^ n"] rhe_ge [of "x * 10 ^ n"] by linarith
  then have "\<bar>of_int (rhe (x * 10 ^ n)) - x * 10 ^ n\<bar> / 10 ^ n \<le> 1 / 2 / 10 ^ n"
    by (intro divide_right_mono) auto
  moreover have "?d - x = (of_int (rhe (x * 10 ^ n)) - x * 10 ^ n) / 10 ^ n"
    by (simp add: field_simps)
  ultimately have d: "\<bar>?d - x\<bar> \<le> ?h" by (simp add: abs_divide)
  have "\<bar>fl ?d - ?d\<bar> \<le> \<bar>?d\<bar> / 2 ^ 53" by (rule fl_error)
  also have "\<dots> \<le> (\<bar>x\<bar> + ?h) / 2 ^ 53" using d by (intro divide_right_mono) (linarith, simp)
  finally show ?thesis using d unfolding fround_def by linarith
qed

section \<open>Square roots\<close>

lemma isqrt_spec: "isqrt n ^ 2 \<le> n \<and> n < (isqrt n + 1) ^ 2"
proof (induction n rule: isqrt.induct)
  case (1 n)
  show ?case
  proof (cases "n = 0")
    case True
    then show ?thesis by (simp add: isqrt.simps [of 0])
  next
    case False
    define r where "r = isqrt (n div 4)"
    have r: "r ^ 2 \<le> n div 4" "n div 4 < (r + 1) ^ 2" using 1 False by (simp_all add: r_def)
    have lo: "(2 * r) ^ 2 \<le> n" using r(1) by (simp add: power2_eq_square)
    have "n div 4 + 1 \<le> (r + 1) ^ 2" using r(2) by simp
    then have "4 * (n div 4 + 1) \<le> 4 * (r + 1) ^ 2" by simp
    then have hi: "n < (2 * r + 2) ^ 2" by (simp add: power2_eq_square algebra_simps)
    have "isqrt n = (if (2 * r + 1) ^ 2 \<le> n then 2 * r + 1 else 2 * r)"
      using False by (simp add: isqrt.simps [of n] r_def Let_def)
    with lo hi show ?thesis by auto
  qed
qed

lemma fsqrt_nonneg: "0 \<le> fsqrt x"
proof (cases "x \<le> 0")
  case False
  then show ?thesis unfolding fsqrt_def Let_def
    by (auto intro!: flr.nonneg divide_nonneg_nonneg)
qed (simp add: fsqrt_def)

lemma fsqrt_0 [simp]: "fsqrt 0 = 0"
  by (simp add: fsqrt_def)

text \<open>The root of a number that is at least the square of an integer is at least that integer.\<close>

lemma fsqrt_ge_nat:
  assumes "of_nat r ^ 2 \<le> x" "x < 2 ^ 112" "r < 2 ^ 50"
  shows "of_nat r \<le> fsqrt x"
proof (cases "x \<le> 0")
  case True
  have "(0::rat) \<le> of_nat r ^ 2" by simp
  with True assms(1) have "(of_nat r :: rat) ^ 2 = 0" by linarith
  then show ?thesis by (simp add: fsqrt_nonneg)
next
  case False
  then have x: "0 < x" by simp
  define k where "k = (112 - (expo x + 53)) div 2"
  have "2 powi (expo x + 52) < (2::rat) powi 112"
    using expo_bounds(1) [OF x] assms(2) by simp
  then have k: "0 \<le> k" unfolding powi2_less_iff k_def by simp
  define m where "m = nat k"
  have km: "k = int m" using k by (simp add: m_def)
  define y where "y = x * 2 powi (2 * k)"
  define s where "s = isqrt (nat \<lfloor>y\<rfloor>)"
  have "2 * k = int (2 * m)" by (simp add: km)
  then have "(2::rat) powi (2 * k) = 2 ^ (2 * m)" by (simp only: power_int_of_nat)
  then have y: "y = x * 4 ^ m" by (simp add: y_def power_mult)
  have "(of_nat ((r * 2 ^ m) ^ 2) :: rat) = of_nat r ^ 2 * 4 ^ m"
    by (simp add: power_mult_distrib) (simp add: power2_eq_square flip: power_mult_distrib)
  also have "\<dots> \<le> y" unfolding y using assms(1) by (intro mult_right_mono) auto
  finally have "(r * 2 ^ m) ^ 2 \<le> nat \<lfloor>y\<rfloor>" by (metis le_floor_iff nat_int nat_mono of_int_of_nat_eq)
  then have "(r * 2 ^ m) ^ 2 < (s + 1) ^ 2" using isqrt_spec [of "nat \<lfloor>y\<rfloor>"] unfolding s_def by linarith
  then have "r * 2 ^ m \<le> s" using power_less_imp_less_base [of "r * 2 ^ m" 2 "s + 1"] by simp
  then have "(of_nat r * 2 ^ m :: rat) \<le> of_nat s" by (metis of_nat_le_iff of_nat_mult of_nat_numeral of_nat_power)
  have p: "(2::rat) powi (k + 1) = 2 ^ (m + 1)"
    using power_int_of_nat [of "2::rat" "m + 1"] by (simp add: km add.commute)
  from \<open>of_nat r * 2 ^ m \<le> of_nat s\<close> have "of_nat r * 2 ^ (m + 1) \<le> (of_int (2 * int s + (if rat_of_nat (s ^ 2) = y then 0 else 1)) :: rat)"
    by simp
  then have "of_nat r \<le> (of_int (2 * int s + (if rat_of_nat (s ^ 2) = y then 0 else 1)) :: rat) / 2 ^ (m + 1)"
    by (simp add: le_divide_eq)
  then have "fl (of_nat r) \<le> fsqrt x"
    unfolding fsqrt_def Let_def k_def [symmetric] y_def [symmetric] s_def [symmetric]
    unfolding p using x by (simp add: fl_mono)
  moreover have "r \<le> 2 ^ 53" using assms(3) by simp
  ultimately show ?thesis by simp
qed

section \<open>Sums\<close>

lemma fsum_Nil [simp]: "fsum [] = 0" by simp

lemma fsum_single [simp]: "fsum [x] = x" by simp

section \<open>Accuracy of the compensated sum\<close>

abbreviation ulp53 :: rat where "ulp53 \<equiv> 1 / 2 ^ 53"

lemma fadd_error: "\<bar>x + y\<bar> \<le> b \<Longrightarrow> \<bar>fadd x y - (x + y)\<bar> \<le> b * ulp53"
  using fl_error [of "x + y"] by (simp add: fadd_def)

lemma fsub_error: "\<bar>x - y\<bar> \<le> b \<Longrightarrow> \<bar>fsub x y - (x - y)\<bar> \<le> b * ulp53"
  using fl_error [of "x - y"] by (simp add: fsub_def)

text \<open>The correction computed in one step is a few units in the last place.\<close>

lemma compensation_small:
  assumes "\<bar>s\<bar> \<le> M" "\<bar>x\<bar> \<le> M"
  shows "\<bar>fadd (fsub s (fadd s x)) x\<bar> \<le> 12 * M * ulp53"
proof -
  define t where "t = fadd s x"
  have M: "0 \<le> M" using assms(1) by linarith
  have t: "\<bar>t - (s + x)\<bar> \<le> 2 * M * ulp53"
    unfolding t_def by (rule fadd_error) (use assms in linarith)
  have small: "2 * M * ulp53 \<le> M" using M by simp
  have "\<bar>s - t\<bar> \<le> 3 * M" using t assms M small by linarith
  from fsub_error [OF this] have d: "\<bar>fsub s t - (s - t)\<bar> \<le> 3 * M * ulp53" .
  have *: "\<bar>fsub s t + x\<bar> \<le> 5 * M * ulp53" using t d by linarith
  from fadd_error [OF this] have "\<bar>fadd (fsub s t) x - (fsub s t + x)\<bar> \<le> 5 * M * ulp53 * ulp53" .
  moreover have "5 * M * ulp53 * ulp53 \<le> 5 * M * ulp53" using M by simp
  moreover have "0 \<le> M * ulp53" using M by simp
  ultimately show ?thesis using * unfolding t_def [symmetric] by linarith
qed

lemma fsum_loop_error:
  assumes "0 \<le> M" "\<bar>s\<bar> + (\<Sum>x\<leftarrow>xs. \<bar>x\<bar>) + 4 * of_nat (length xs) * M * ulp53 \<le> M"
    and "\<bar>c\<bar> + 26 * of_nat (length xs) * M * ulp53 \<le> M"
  shows "\<bar>fsum_loop s c xs - (s + sum_list xs)\<bar>
           \<le> \<bar>c\<bar> + (28 * of_nat (length xs) + 2) * M * ulp53"
  using assms(2,3)
proof (induction xs arbitrary: s c)
  case Nil
  have "\<bar>s + c\<bar> \<le> 2 * M" using Nil by simp
  from fadd_error [OF this] have "\<bar>fadd s c - (s + c)\<bar> \<le> 2 * M * ulp53" .
  then have "\<bar>fadd s c - s\<bar> \<le> \<bar>c\<bar> + 2 * M * ulp53" by linarith
  then show ?case using \<open>0 \<le> M\<close> by simp
next
  case (Cons x xs)
  define n where "n = rat_of_nat (length xs)"
  define S where "S = (\<Sum>x\<leftarrow>xs. \<bar>x\<bar>)"
  define t where "t = fadd s x"
  define d where "d = (if \<bar>x\<bar> \<le> \<bar>s\<bar> then fadd (fsub s t) x else fadd (fsub x t) s)"
  define c' where "c' = fadd c d"
  have n: "0 \<le> n * M * ulp53" using \<open>0 \<le> M\<close> by (simp add: n_def)
  have S: "0 \<le> S" unfolding S_def by (intro sum_list_nonneg) auto
  have prem: "\<bar>s\<bar> + (\<bar>x\<bar> + S) + 4 * (n + 1) * M * ulp53 \<le> M" "\<bar>c\<bar> + 26 * (n + 1) * M * ulp53 \<le> M"
    using Cons.prems by (simp_all add: n_def S_def algebra_simps)
  have u: "0 \<le> M * ulp53" using \<open>0 \<le> M\<close> by simp
  have dist: "k * (n + 1) * M * ulp53 = k * (n * M * ulp53) + k * (M * ulp53)" for k
    by (simp add: field_simps)
  have r4: "k * n * M * ulp53 = k * (n * M * ulp53)" for k by simp
  have sx: "\<bar>s\<bar> + \<bar>x\<bar> + S + 4 * (n * M * ulp53) + 4 * (M * ulp53) \<le> M"
    and cM: "\<bar>c\<bar> + 26 * (n * M * ulp53) + 26 * (M * ulp53) \<le> M"
    using prem dist [of 4] dist [of 26] by linarith+
  have s: "\<bar>s\<bar> \<le> M" and x: "\<bar>x\<bar> \<le> M" using sx n S u by linarith+
  have "\<bar>s + x\<bar> \<le> M" using sx n S u by linarith
  from fadd_error [OF this] have t: "\<bar>t - (s + x)\<bar> \<le> M * ulp53" by (simp add: t_def)
  have d: "\<bar>d\<bar> \<le> 12 * (M * ulp53)"
    using compensation_small [OF s x] compensation_small [OF x s]
    by (simp add: d_def t_def fadd_def add.commute)
  have "\<bar>c + d\<bar> \<le> 13 * M" using cM d n u \<open>0 \<le> M\<close> by linarith
  from fadd_error [OF this] have c': "\<bar>c' - (c + d)\<bar> \<le> 13 * (M * ulp53)" by (simp add: c'_def)
  have c'b: "\<bar>c'\<bar> \<le> \<bar>c\<bar> + 25 * (M * ulp53)" using c' d by linarith
  have IH: "\<bar>fsum_loop t c' xs - (t + sum_list xs)\<bar> \<le> \<bar>c'\<bar> + (28 * n + 2) * M * ulp53"
    unfolding n_def
  proof (rule Cons.IH)
    show "\<bar>t\<bar> + (\<Sum>x\<leftarrow>xs. \<bar>x\<bar>) + 4 * rat_of_nat (length xs) * M * ulp53 \<le> M"
      unfolding n_def [symmetric] S_def [symmetric] r4 using sx t u by linarith
    show "\<bar>c'\<bar> + 26 * rat_of_nat (length xs) * M * ulp53 \<le> M"
      unfolding n_def [symmetric] r4 using cM c'b u by linarith
  qed
  have "fsum_loop s c (x # xs) = fsum_loop t c' xs"
    by (simp add: t_def c'_def d_def Let_def)
  moreover have "(28 * n + 2) * M * ulp53 = 28 * (n * M * ulp53) + 2 * (M * ulp53)"
    "(28 * (n + 1) + 2) * M * ulp53 = 28 * (n * M * ulp53) + 30 * (M * ulp53)"
    by (simp_all add: algebra_simps)
  moreover have "rat_of_nat (length (x # xs)) = n + 1" by (simp add: n_def)
  moreover have "sum_list (x # xs) = x + sum_list xs" by simp
  ultimately show ?case using IH c'b t u by (simp only:)
qed

text \<open>For up to a thousand summands of total magnitude at most \<open>B\<close>, the compensated sum is
  within \<open>B / 10 ^ 11\<close> of the exact one.\<close>

lemma fsum_error:
  assumes "0 \<le> B" "(\<Sum>x\<leftarrow>xs. \<bar>x\<bar>) \<le> B" "length xs \<le> 1000"
  shows "\<bar>fsum xs - sum_list xs\<bar> \<le> B / 10 ^ 11"
proof (cases xs)
  case Nil
  with assms show ?thesis by simp
next
  case (Cons x ys)
  define n where "n = rat_of_nat (length ys)"
  have n: "0 \<le> n" "n \<le> 1000" using assms(3) Cons by (simp_all add: n_def)
  have nB: "n * B \<le> 1000 * B" "0 \<le> n * B" using n assms(1) by (simp_all add: mult_right_mono)
  have r: "k * n * (2 * B) * ulp53 = (2 * k * ulp53) * (n * B)" for k by (simp add: field_simps)
  have "\<bar>fsum_loop x 0 ys - (x + sum_list ys)\<bar> \<le> \<bar>0\<bar> + (28 * of_nat (length ys) + 2) * (2 * B) * ulp53"
  proof (rule fsum_loop_error)
    show "0 \<le> 2 * B" using assms(1) by simp
    show "\<bar>x\<bar> + (\<Sum>x\<leftarrow>ys. \<bar>x\<bar>) + 4 * rat_of_nat (length ys) * (2 * B) * ulp53 \<le> 2 * B"
      unfolding n_def [symmetric] r using nB assms(2) Cons by simp
    show "\<bar>0::rat\<bar> + 26 * rat_of_nat (length ys) * (2 * B) * ulp53 \<le> 2 * B"
      unfolding n_def [symmetric] r using nB assms(1) by simp
  qed
  then have le: "\<bar>fsum_loop x 0 ys - (x + sum_list ys)\<bar> \<le> (28 * n + 2) * (2 * B) * ulp53"
    by (simp only: n_def abs_zero add_0)
  have eq: "(28 * n + 2) * (2 * B) * ulp53 = (56 * ulp53) * (n * B) + 4 * ulp53 * B"
    by (simp add: field_simps)
  have "(56 * ulp53) * y + 4 * ulp53 * B \<le> B / 10 ^ 11" if "y \<le> 1000 * B" for y
    using that assms(1) by simp
  from this [OF nB(1)] le have "\<bar>fsum_loop x 0 ys - (x + sum_list ys)\<bar> \<le> B / 10 ^ 11"
    unfolding eq by (rule order_trans [rotated])
  then show ?thesis using Cons by simp
qed

text \<open>For up to a million summands of total magnitude at most \<open>B\<close>, the compensated sum is
  within \<open>B / 10 ^ 7\<close> of the exact one.\<close>

lemma fsum_error_million:
  assumes "0 \<le> B" "(\<Sum>x\<leftarrow>xs. \<bar>x\<bar>) \<le> B" "length xs \<le> 10 ^ 6"
  shows "\<bar>fsum xs - sum_list xs\<bar> \<le> B / 10 ^ 7"
proof (cases xs)
  case Nil
  with assms show ?thesis by simp
next
  case (Cons x ys)
  define n where "n = rat_of_nat (length ys)"
  have n: "0 \<le> n" "n \<le> 10 ^ 6" using assms(3) Cons by (simp_all add: n_def)
  have nB: "n * B \<le> 10 ^ 6 * B" "0 \<le> n * B" using n assms(1) by (simp_all add: mult_right_mono)
  have r: "k * n * (2 * B) * ulp53 = (2 * k * ulp53) * (n * B)" for k by (simp add: field_simps)
  have "\<bar>fsum_loop x 0 ys - (x + sum_list ys)\<bar> \<le> \<bar>0\<bar> + (28 * of_nat (length ys) + 2) * (2 * B) * ulp53"
  proof (rule fsum_loop_error)
    show "0 \<le> 2 * B" using assms(1) by simp
    show "\<bar>x\<bar> + (\<Sum>x\<leftarrow>ys. \<bar>x\<bar>) + 4 * rat_of_nat (length ys) * (2 * B) * ulp53 \<le> 2 * B"
      unfolding n_def [symmetric] r using nB assms(2) Cons by simp
    show "\<bar>0::rat\<bar> + 26 * rat_of_nat (length ys) * (2 * B) * ulp53 \<le> 2 * B"
      unfolding n_def [symmetric] r using nB assms(1) by simp
  qed
  then have le: "\<bar>fsum_loop x 0 ys - (x + sum_list ys)\<bar> \<le> (28 * n + 2) * (2 * B) * ulp53"
    by (simp only: n_def abs_zero add_0)
  have eq: "(28 * n + 2) * (2 * B) * ulp53 = (56 * ulp53) * (n * B) + 4 * ulp53 * B"
    by (simp add: field_simps)
  have "(56 * ulp53) * y + 4 * ulp53 * B \<le> B / 10 ^ 7" if "y \<le> 10 ^ 6 * B" for y
    using that assms(1) by simp
  from this [OF nB(1)] le have "\<bar>fsum_loop x 0 ys - (x + sum_list ys)\<bar> \<le> B / 10 ^ 7"
    unfolding eq by (rule order_trans [rotated])
  then show ?thesis using Cons by simp
qed

end
