(* ===== verification/Canonical.thy ===== *)
theory Canonical
  imports PyFloat
begin

text \<open>
  The canonical tables (\<open>apps/api/models/canonical.py\<close>, \<open>audit.py\<close>, \<open>config.py\<close>): one record
  per row type, one list per table. A vessel call keeps its nullable text and numeric columns
  as functions of the column, because survivorship and merging read and write columns by name
  (\<open>getattr\<close>, \<open>setattr\<close>); the columns with a role of their own are record fields.
  Primary keys are the strings \<open>str(id)\<close>.
\<close>

type_synonym uid = string

section \<open>Vessel calls\<close>

datatype text_col =
    License_number | Vessel_name | Imo_number | Vcn | Vessel_type | Flag
  | Last_port_of_call | Next_port_of_call | Port_of_lading | Port_of_discharge
  | Reason_for_visit | Cargo_type | Commodity | Quantity_unit | Loa_unit
  | Forward_draft_unit | Aft_draft_unit | Call_sign | Port_id | Terminal_id
  | Created_by | Updated_by | Source_lineage_id

datatype num_col =
    Vessel_size_teu | Quantity_value | Grt | Loa_value | Dwt
  | Forward_draft_value | Aft_draft_value | Version

text \<open>The columns can be enumerated, so that rows can be compared.\<close>

instantiation text_col :: enum
begin

definition "enum_text_col =
  [License_number, Vessel_name, Imo_number, Vcn, Vessel_type, Flag, Last_port_of_call,
   Next_port_of_call, Port_of_lading, Port_of_discharge, Reason_for_visit, Cargo_type, Commodity,
   Quantity_unit, Loa_unit, Forward_draft_unit, Aft_draft_unit, Call_sign, Port_id, Terminal_id,
   Created_by, Updated_by, Source_lineage_id]"
definition "enum_all_text_col P = list_all P (enum_class.enum :: text_col list)"
definition "enum_ex_text_col P = list_ex P (enum_class.enum :: text_col list)"

instance
proof
  have all: "c \<in> set (enum_class.enum :: text_col list)" for c :: text_col
    by (cases c) (simp_all add: enum_text_col_def)
  then show "UNIV = set (enum_class.enum :: text_col list)" by auto
  show "distinct (enum_class.enum :: text_col list)" by (simp add: enum_text_col_def)
  show "enum_class.enum_all P \<longleftrightarrow> Ball UNIV P" for P :: "text_col \<Rightarrow> bool"
    using all by (auto simp: enum_all_text_col_def list_all_iff)
  show "enum_class.enum_ex P \<longleftrightarrow> Bex UNIV P" for P :: "text_col \<Rightarrow> bool"
    using all by (auto simp: enum_ex_text_col_def list_ex_iff)
qed

end

instantiation num_col :: enum
begin

definition "enum_num_col =
  [Vessel_size_teu, Quantity_value, Grt, Loa_value, Dwt, Forward_draft_value, Aft_draft_value, Version]"
definition "enum_all_num_col P = list_all P (enum_class.enum :: num_col list)"
definition "enum_ex_num_col P = list_ex P (enum_class.enum :: num_col list)"

instance
proof
  have all: "c \<in> set (enum_class.enum :: num_col list)" for c :: num_col
    by (cases c) (simp_all add: enum_num_col_def)
  then show "UNIV = set (enum_class.enum :: num_col list)" by auto
  show "distinct (enum_class.enum :: num_col list)" by (simp add: enum_num_col_def)
  show "enum_class.enum_all P \<longleftrightarrow> Ball UNIV P" for P :: "num_col \<Rightarrow> bool"
    using all by (auto simp: enum_all_num_col_def list_all_iff)
  show "enum_class.enum_ex P \<longleftrightarrow> Bex UNIV P" for P :: "num_col \<Rightarrow> bool"
    using all by (auto simp: enum_ex_num_col_def list_ex_iff)
qed

end

record vessel_call =
  vc_id :: uid
  vc_created_at :: time
  vc_updated_at :: time
  vc_tenant_id :: string
  vc_is_merged :: bool
  vc_merged_into_id :: "uid option"
  vc_text :: "text_col \<Rightarrow> string option"
  vc_num :: "num_col \<Rightarrow> rat option"

abbreviation vc_vcn :: "vessel_call \<Rightarrow> string option" where
  "vc_vcn v \<equiv> vc_text v Vcn"

abbreviation vc_vessel_name :: "vessel_call \<Rightarrow> string option" where
  "vc_vessel_name v \<equiv> vc_text v Vessel_name"

section \<open>Events, services, delays, cargo\<close>

record event_occurrence =
  eo_id :: uid
  eo_source_lineage_id :: "fstring option"
  eo_vessel_call_id :: uid
  eo_event_definition_id :: uid
  eo_occurrence_index :: int
  eo_movement_scope :: string
  eo_original_string :: "string option"
  eo_parsed_value :: "time option"
  eo_source_timezone :: "string option"
  eo_utc_value :: time
  eo_operation_type :: "string option"
  eo_attributes :: "(string \<times> string option) list"
  eo_capture_method :: "string option"
  eo_confidence :: "rat option"
  eo_verification_status :: "string option"
  eo_source_system :: "string option"
  eo_source_record_id :: "string option"
  eo_ingestion_batch_id :: "string option"
  eo_correction_history :: "(string \<times> frag) list list"
  eo_inference_status :: "string option"
  eo_human_review_state :: "string option"
  eo_is_quarantined :: bool
  eo_superseded_by_id :: "uid option"
  eo_is_superseded :: bool
  eo_created_at :: time

record event_definition =
  ed_id :: uid
  ed_name :: string
  ed_category :: "string option"
  ed_description :: "string option"

record service_request =
  sr_id :: uid
  sr_source_lineage_id :: "fstring option"
  sr_vessel_call_id :: uid
  sr_service_type :: string
  sr_requested_time :: "time option"
  sr_movement_type :: "string option"
  sr_submission_time :: "time option"

record service_assignment =
  sa_id :: uid
  sa_source_lineage_id :: "fstring option"
  sa_service_request_id :: uid
  sa_scheduled_time :: "time option"
  sa_assigned_resource_id :: "string option"
  sa_resource_type :: "string option"

record service_execution =
  se_id :: uid
  se_source_lineage_id :: "fstring option"
  se_service_assignment_id :: uid
  se_served_time :: "time option"
  se_execution_status :: "string option"

record delay =
  dl_id :: uid
  dl_source_lineage_id :: "fstring option"
  dl_vessel_call_id :: uid
  dl_source_delay_id :: "string option"
  dl_movement_stage :: string
  dl_total_duration_hours :: rat
  dl_is_early_service :: bool
  dl_scheduled_time :: "time option"
  dl_served_time :: "time option"
  dl_delay_hours :: "rat option"
  dl_recalculated_delay_hours :: "rat option"
  dl_delay_reason :: "fstring option"
  dl_source_category :: "string option"
  dl_canonical_category :: "string option"
  dl_cause_status :: "string option"
  dl_confidence :: "string option"
  dl_resolution_status :: "string option"
  dl_has_reconciliation_mismatch :: bool
  dl_reconciliation_notes :: "fstring option"
  dl_requires_reason_review :: bool

record delay_allocation =
  da_id :: uid
  da_delay_id :: uid
  da_cause :: string
  da_canonical_category :: "string option"
  da_reason :: "fstring option"
  da_duration_hours :: rat
  da_is_primary :: bool
  da_cause_status :: string
  da_confidence :: "rat option"
  da_inference_evidence :: "(string \<times> fstring) list"
  da_human_review_state :: string

record cargo_operation =
  co_id :: uid
  co_source_lineage_id :: "fstring option"
  co_vessel_call_id :: uid
  co_operation_id :: "string option"
  co_cargo_type :: "string option"
  co_operation_type :: "string option"
  co_planned_quantity :: "rat option"
  co_unit :: "string option"
  co_cargo_start :: "time option"
  co_cargo_end :: "time option"
  co_working_hours :: "rat option"
  co_resources_deployed :: "int option"
  co_downtime_hours :: "rat option"
  co_actual_quantity :: "rat option"
  co_data_status :: "string option"
  co_attributes :: "(string \<times> string option) list"

section \<open>Quality rules and issues\<close>

datatype issue_status = ISSUE_OPEN | ISSUE_RESOLVED | ISSUE_QUARANTINED

record quality_rule =
  qr_id :: uid
  qr_rule_id :: string
  qr_scope :: string
  qr_severity :: string
  qr_pass_fail_expression :: string
  qr_remediation_guidance :: "string option"

record quality_issue =
  qi_id :: uid
  qi_rule_id :: uid
  qi_vessel_call_id :: "uid option"
  qi_record_reference :: string
  qi_issue_status :: issue_status

section \<open>The audit log and the session state\<close>

text \<open>\<open>draws\<close> counts the identifiers drawn so far: an operation that creates rows takes the
  sequence of values \<open>uuid.uuid4()\<close> returns as an argument of type \<open>nat \<Rightarrow> uid\<close>.\<close>

record audit_event =
  au_action :: string
  au_actor_id :: string
  au_actor_role :: string
  au_resource_type :: string
  au_resource_id :: string
  au_details :: "(string \<times> fstring) list"

record canon_db =
  vessel_calls :: "vessel_call list"
  event_occurrences :: "event_occurrence list"
  event_definitions :: "event_definition list"
  service_requests :: "service_request list"
  service_assignments :: "service_assignment list"
  service_executions :: "service_execution list"
  delays :: "delay list"
  delay_allocations :: "delay_allocation list"
  cargo_operations :: "cargo_operation list"
  quality_rules :: "quality_rule list"
  quality_issues :: "quality_issue list"
  audit_log :: "audit_event list"
  draws :: nat

text \<open>\<open>db.add\<close> of an audit row: the log only grows.\<close>

definition add_audit :: "audit_event \<Rightarrow> 'a canon_db_scheme \<Rightarrow> 'a canon_db_scheme" where
  "add_audit e s = s\<lparr>audit_log := audit_log s @ [e]\<rparr>"

lemma add_audit_sel [simp]:
  "vessel_calls (add_audit e s) = vessel_calls s"
  "event_occurrences (add_audit e s) = event_occurrences s"
  "event_definitions (add_audit e s) = event_definitions s"
  "service_requests (add_audit e s) = service_requests s"
  "service_assignments (add_audit e s) = service_assignments s"
  "service_executions (add_audit e s) = service_executions s"
  "delays (add_audit e s) = delays s"
  "delay_allocations (add_audit e s) = delay_allocations s"
  "cargo_operations (add_audit e s) = cargo_operations s"
  "quality_rules (add_audit e s) = quality_rules s"
  "quality_issues (add_audit e s) = quality_issues s"
  "draws (add_audit e s) = draws s"
  "audit_log (add_audit e s) = audit_log s @ [e]"
  "canon_db.more (add_audit e s) = canon_db.more s"
  by (simp_all add: add_audit_def)

section \<open>Durations\<close>

text \<open>\<open>timedelta.total_seconds()\<close>: one correctly rounded division of integers.\<close>

definition total_seconds :: "time \<Rightarrow> rat" where
  "total_seconds d = fl (of_int d / 10 ^ 6)"

text \<open>\<open>(end - start).total_seconds() / 3600.0\<close>.\<close>

definition raw_hours :: "time \<Rightarrow> time \<Rightarrow> rat" where
  "raw_hours start end' = fdiv (total_seconds (end' - start)) 3600"

lemma raw_hours_mono: "e \<le> e' \<Longrightarrow> raw_hours s e \<le> raw_hours s e'"
  unfolding raw_hours_def total_seconds_def fdiv_def
  by (intro fl_mono divide_right_mono) auto

lemma raw_hours_swap: "raw_hours e s = - raw_hours s e"
proof -
  have "fl (rat_of_int (s - e) / 10 ^ 6) = - fl (rat_of_int (e - s) / 10 ^ 6)"
    using fl_minus [of "rat_of_int (e - s) / 10 ^ 6"] by (simp add: minus_divide_left)
  then show ?thesis
    using fl_minus [of "fl (rat_of_int (e - s) / 10 ^ 6) / 3600"]
    by (simp add: raw_hours_def total_seconds_def fdiv_def)
qed

lemma raw_hours_pos_iff: "0 < raw_hours s e \<longleftrightarrow> s < e"
  by (simp add: raw_hours_def total_seconds_def fdiv_def flr.pos_iff zero_less_divide_iff)

lemma raw_hours_neg_iff: "raw_hours s e < 0 \<longleftrightarrow> e < s"
  using raw_hours_pos_iff [of e s] by (simp add: raw_hours_swap [of e s])

lemma raw_hours_zero_iff: "raw_hours s e = 0 \<longleftrightarrow> s = e"
  using raw_hours_pos_iff [of s e] raw_hours_neg_iff [of s e]
  by (cases s e rule: linorder_cases) auto

lemma raw_hours_nonneg_iff: "0 \<le> raw_hours s e \<longleftrightarrow> s \<le> e"
  using raw_hours_neg_iff [of s e] by (auto simp: not_less [symmetric])

section \<open>Sample rows for the witnesses\<close>

definition bare_call :: "uid \<Rightarrow> vessel_call" where
  "bare_call i = \<lparr>vc_id = i, vc_created_at = 0, vc_updated_at = 0, vc_tenant_id = ''t'', vc_is_merged = False,
     vc_merged_into_id = None, vc_text = (\<lambda>_. None), vc_num = (\<lambda>_. None)\<rparr>"

definition bare_event :: "uid \<Rightarrow> uid \<Rightarrow> uid \<Rightarrow> time \<Rightarrow> event_occurrence" where
  "bare_event i call def t = \<lparr>eo_id = i, eo_source_lineage_id = None, eo_vessel_call_id = call, eo_event_definition_id = def, eo_occurrence_index = 1,
     eo_movement_scope = ''ARRIVAL'', eo_original_string = None, eo_parsed_value = None, eo_source_timezone = None,
     eo_utc_value = t, eo_operation_type = None, eo_attributes = [], eo_capture_method = None, eo_confidence = None, eo_verification_status = None,
     eo_source_system = None, eo_source_record_id = None, eo_ingestion_batch_id = None,
     eo_correction_history = [], eo_inference_status = None, eo_human_review_state = None, eo_is_quarantined = False,
     eo_superseded_by_id = None, eo_is_superseded = False, eo_created_at = 0\<rparr>"

end
