(* ===== verification/Normalizer.thy ===== *)
theory Normalizer
  imports Canonical
begin

text \<open>
  \<open>apps/api/services/identity/normalizer.py\<close>: vessel-name normalisation and the name
  similarity. The similarity of two different normalised names is the ratio of Python's
  \<open>difflib.SequenceMatcher\<close>, whose matching-block search is modelled on the slices of the two
  strings that the recursion looks at.
\<close>

section \<open>Normalisation\<close>

definition is_upper_alnum :: "char \<Rightarrow> bool" where
  "is_upper_alnum c = (let n = (of_char c :: nat) in (65 \<le> n \<and> n \<le> 90) \<or> (48 \<le> n \<and> n \<le> 57))"

text \<open>\<open>re.sub(r"[...]+", " ", s)\<close>: every maximal run of matching characters becomes one space.\<close>

function re_sub_runs :: "(char \<Rightarrow> bool) \<Rightarrow> string \<Rightarrow> string" where
  "re_sub_runs p [] = []"
| "re_sub_runs p (x # xs) =
     (if p x then CHR '' '' # re_sub_runs p (dropWhile p xs) else x # re_sub_runs p xs)"
  by pat_completeness auto
termination
  by (relation "measure (length \<circ> snd)") (auto simp: le_imp_less_Suc length_dropWhile_le)

definition normalize_name :: "string option \<Rightarrow> string" where
  "normalize_name name =
     (case name of None \<Rightarrow> ''''
      | Some n \<Rightarrow>
          if n = '''' then ''''
          else let s = py_upper (py_strip n);
                   s = re_sub_runs (\<lambda>c. \<not> is_upper_alnum c) s;
                   s = py_strip (re_sub_runs py_isspace s)
               in s)"

section \<open>difflib.SequenceMatcher(None, a, b).ratio()\<close>

text \<open>\<open>autojunk\<close>: in a second string of 200 or more characters, those occurring more often than
  one percent (plus one) are ignored when a match is started.\<close>

definition popular :: "string \<Rightarrow> char \<Rightarrow> bool" where
  "popular b c \<longleftrightarrow> 200 \<le> length b \<and> length b div 100 + 1 < count_list b c"

type_synonym block = "nat \<times> nat \<times> nat"

text \<open>One row of the search: \<open>old\<close> holds, for each position of \<open>ys\<close>, the length of the match
  that ended one position earlier in both strings.\<close>

definition cell :: "(char \<Rightarrow> bool) \<Rightarrow> char \<Rightarrow> char \<Rightarrow> nat list \<Rightarrow> nat" where
  "cell P c y old = (if y = c \<and> \<not> P y then (case old of [] \<Rightarrow> 0 | p # _ \<Rightarrow> p) + 1 else 0)"

definition better :: "nat \<Rightarrow> nat \<Rightarrow> nat \<Rightarrow> block \<Rightarrow> block" where
  "better i j k best = (if snd (snd best) < k then (i + 1 - k, j + 1 - k, k) else best)"

fun scan_row :: "(char \<Rightarrow> bool) \<Rightarrow> char \<Rightarrow> nat \<Rightarrow> nat \<Rightarrow> string \<Rightarrow> nat list \<Rightarrow> block \<Rightarrow> nat list \<times> block" where
  "scan_row P c i j [] old best = ([], best)"
| "scan_row P c i j (y # ys) old best =
     (case scan_row P c i (Suc j) ys (tl old) (better i j (cell P c y old) best) of
        (row, best') \<Rightarrow> (cell P c y old # row, best'))"

fun scan_rows :: "(char \<Rightarrow> bool) \<Rightarrow> nat \<Rightarrow> string \<Rightarrow> string \<Rightarrow> nat list \<Rightarrow> block \<Rightarrow> block" where
  "scan_rows P i [] ys row best = best"
| "scan_rows P i (c # cs) ys row best =
     (case scan_row P c i 0 ys (0 # row) best of
        (row', best') \<Rightarrow> scan_rows P (Suc i) cs ys row' best')"

fun extend_back :: "string \<Rightarrow> string \<Rightarrow> nat \<Rightarrow> nat \<Rightarrow> nat \<Rightarrow> block" where
  "extend_back xs ys (Suc i) (Suc j) k =
     (if i < length xs \<and> j < length ys \<and> xs ! i = ys ! j then extend_back xs ys i j (Suc k)
      else (Suc i, Suc j, k))"
| "extend_back xs ys i j k = (i, j, k)"

function extend_fwd :: "string \<Rightarrow> string \<Rightarrow> nat \<Rightarrow> nat \<Rightarrow> nat \<Rightarrow> block" where
  "extend_fwd xs ys i j k =
     (if i + k < length xs \<and> j + k < length ys \<and> xs ! (i + k) = ys ! (j + k)
      then extend_fwd xs ys i j (Suc k) else (i, j, k))"
  by pat_completeness auto
termination by (relation "measure (\<lambda>(xs, ys, i, j, k). length xs - (i + k))") auto

declare extend_fwd.simps [simp del]

definition find_longest_match :: "(char \<Rightarrow> bool) \<Rightarrow> string \<Rightarrow> string \<Rightarrow> block" where
  "find_longest_match P xs ys =
     (let (i, j, k) = scan_rows P 0 xs ys [] (0, 0, 0);
          (i, j, k) = extend_back xs ys i j k
      in extend_fwd xs ys i j k)"

definition block_ok :: "string \<Rightarrow> string \<Rightarrow> block \<Rightarrow> bool" where
  "block_ok xs ys b = (case b of (i, j, k) \<Rightarrow> i + k \<le> length xs \<and> j + k \<le> length ys)"

definition row_ok :: "nat \<Rightarrow> nat \<Rightarrow> nat list \<Rightarrow> bool" where
  "row_ok i j old \<longleftrightarrow> (\<forall>n < length old. old ! n \<le> i \<and> old ! n \<le> j + n)"

lemma row_ok_tl: assumes "row_ok i j old" shows "row_ok i (Suc j) (tl old)"
  unfolding row_ok_def
proof (intro allI impI)
  fix n assume "n < length (tl old)"
  then have "Suc n < length old" "tl old ! n = old ! Suc n" by (auto simp: nth_tl)
  with assms show "tl old ! n \<le> i \<and> tl old ! n \<le> Suc j + n" by (auto simp: row_ok_def)
qed

lemma row_ok_Cons: "k \<le> i \<Longrightarrow> k \<le> j \<Longrightarrow> row_ok i (Suc j) row \<Longrightarrow> row_ok i j (k # row)"
  by (auto simp: row_ok_def nth_Cons split: nat.splits)

lemma cell_le: "row_ok i j old \<Longrightarrow> cell P c y old \<le> Suc i \<and> cell P c y old \<le> Suc j"
  by (auto simp: cell_def row_ok_def split: list.splits)

definition in_box :: "nat \<Rightarrow> nat \<Rightarrow> block \<Rightarrow> bool" where
  "in_box la lb b = (case b of (i, j, k) \<Rightarrow> i + k \<le> la \<and> j + k \<le> lb)"

lemma better_in_box:
  "in_box la lb b \<Longrightarrow> k \<le> Suc i \<Longrightarrow> k \<le> Suc j \<Longrightarrow> i < la \<Longrightarrow> j < lb \<Longrightarrow> in_box la lb (better i j k b)"
  by (auto simp: in_box_def better_def split: prod.splits)

lemma scan_row_ok:
  assumes "scan_row P c i j ys old best = (row, best')"
    and "row_ok i j old" "i < la" "j + length ys \<le> lb" "in_box la lb best"
  shows "in_box la lb best' \<and> row_ok (Suc i) (Suc j) row"
  using assms
proof (induction P c i j ys old best arbitrary: row best' rule: scan_row.induct)
  case (1 P c i j old best)
  then show ?case by (simp add: row_ok_def)
next
  case (2 P c i j y ys old best)
  from cell_le [OF "2.prems"(2)] have k: "cell P c y old \<le> Suc i" "cell P c y old \<le> Suc j" by auto
  obtain row0 where r0: "scan_row P c i (Suc j) ys (tl old) (better i j (cell P c y old) best) = (row0, best')"
    and row: "row = cell P c y old # row0"
    using "2.prems"(1) by (auto split: prod.splits)
  have "in_box la lb best' \<and> row_ok (Suc i) (Suc (Suc j)) row0"
    using "2.IH" [OF r0] "2.prems" k row_ok_tl better_in_box by simp
  with k row row_ok_Cons show ?case by simp
qed

lemma scan_rows_ok:
  "row_ok i 1 row \<Longrightarrow> in_box la lb best \<Longrightarrow> i + length cs \<le> la \<Longrightarrow> length ys \<le> lb \<Longrightarrow>
     in_box la lb (scan_rows P i cs ys row best)"
proof (induction P i cs ys row best rule: scan_rows.induct)
  case (2 P i c cs ys row best)
  obtain row' best' where r: "scan_row P c i 0 ys (0 # row) best = (row', best')"
    by (cases "scan_row P c i 0 ys (0 # row) best")
  have "row_ok i 0 (0 # row)" using "2.prems"(1) by (intro row_ok_Cons) auto
  from scan_row_ok [OF r this, of la lb] "2.prems"
  have "in_box la lb best'" "row_ok (Suc i) 1 row'" by auto
  with "2.IH" [OF r [symmetric]] "2.prems" r show ?case by simp
qed simp

lemma extend_back_ok:
  "i + k \<le> la \<Longrightarrow> j + k \<le> lb \<Longrightarrow> in_box la lb (extend_back xs ys i j k) \<and> k \<le> snd (snd (extend_back xs ys i j k))"
  by (induction xs ys i j k rule: extend_back.induct) (auto simp: in_box_def)

lemma extend_fwd_ok:
  "i + k \<le> length xs \<Longrightarrow> j + k \<le> length ys \<Longrightarrow> in_box (length xs) (length ys) (extend_fwd xs ys i j k)"
proof (induction xs ys i j k rule: extend_fwd.induct)
  case (1 xs ys i j k)
  then show ?case by (subst extend_fwd.simps) (auto simp: in_box_def)
qed

lemma find_longest_match_ok: "in_box (length xs) (length ys) (find_longest_match P xs ys)"
proof -
  have "in_box (length xs) (length ys) (scan_rows P 0 xs ys [] (0, 0, 0))"
    by (rule scan_rows_ok) (auto simp: row_ok_def in_box_def)
  moreover obtain i j k where s: "scan_rows P 0 xs ys [] (0, 0, 0) = (i, j, k)"
    by (cases "scan_rows P 0 xs ys [] (0, 0, 0)") auto
  ultimately have "in_box (length xs) (length ys) (extend_back xs ys i j k)"
    using extend_back_ok by (auto simp: in_box_def)
  then show ?thesis
    by (auto simp: find_longest_match_def s in_box_def intro: extend_fwd_ok split: prod.splits)
      (metis (no_types, lifting) extend_fwd_ok in_box_def case_prod_conv)+
qed

text \<open>The total size of the matching blocks: the block found, and the blocks to its left and right.\<close>

function matches :: "(char \<Rightarrow> bool) \<Rightarrow> string \<Rightarrow> string \<Rightarrow> nat" where
  "matches P xs ys =
     (case find_longest_match P xs ys of (i, j, k) \<Rightarrow>
        if k = 0 then 0
        else k + matches P (take i xs) (take j ys) + matches P (drop (i + k) xs) (drop (j + k) ys))"
  by pat_completeness auto
termination
proof (relation "measure (\<lambda>(P, xs, ys). length xs)", goal_cases)
  case (2 P xs ys i jk j k)
  then show ?case using find_longest_match_ok [of xs ys P] by (auto simp: in_box_def)
next
  case (3 P xs ys i jk j k)
  then show ?case using find_longest_match_ok [of xs ys P] by (auto simp: in_box_def)
qed auto

declare matches.simps [simp del]

definition seq_ratio :: "string \<Rightarrow> string \<Rightarrow> rat" where
  "seq_ratio a b =
     (if length a + length b = 0 then 1
      else fdiv (2 * of_nat (matches (popular b) a b)) (of_nat (length a + length b)))"

lemma matches_le: "matches P xs ys \<le> length xs \<and> matches P xs ys \<le> length ys"
proof (induction P xs ys rule: matches.induct)
  case (1 P xs ys)
  obtain i j k where f: "find_longest_match P xs ys = (i, j, k)" by (cases "find_longest_match P xs ys")
  have b: "i + k \<le> length xs" "j + k \<le> length ys"
    using find_longest_match_ok [of xs ys P] by (auto simp: f in_box_def)
  show ?case
  proof (cases "k = 0")
    case True
    then show ?thesis by (simp add: matches.simps [of P xs ys] f)
  next
    case False
    note IH = "1.IH" [OF f [symmetric] refl False]
    show ?thesis using IH b False by (auto simp: matches.simps [of P xs ys] f)
  qed
qed

lemma seq_ratio_bounds: "0 \<le> seq_ratio a b" "seq_ratio a b \<le> 1"
proof -
  let ?n = "rat_of_nat (length a + length b)" and ?m = "rat_of_nat (matches (popular b) a b)"
  have "2 * matches (popular b) a b \<le> length a + length b"
    using matches_le [of "popular b" a b] by linarith
  then have m: "2 * ?m \<le> ?n" by (metis of_nat_le_iff of_nat_mult of_nat_numeral)
  then have "length a + length b \<noteq> 0 \<Longrightarrow> 2 * ?m / ?n \<le> 1"
    unfolding divide_le_eq_1 using of_nat_0_le_iff [of "length a + length b", where 'a = rat] by linarith
  then show "0 \<le> seq_ratio a b" "seq_ratio a b \<le> 1"
    by (auto simp: seq_ratio_def fdiv_def intro!: flr.nonneg flr.le_fix)
qed

section \<open>Similarity of two names\<close>

datatype name_explanation =
    Names_empty                   \<comment> \<open>One or both names are empty\<close>
  | Exact_verbatim string         \<comment> \<open>Exact verbatim match\<close>
  | Exact_normalised string       \<comment> \<open>Exact match after normalisation\<close>
  | Close_match string string rat \<comment> \<open>Close normalisation match, ratio\<close>
  | Probabilistic_ratio rat       \<comment> \<open>Probabilistic string similarity ratio\<close>

definition similarity :: "string option \<Rightarrow> string option \<Rightarrow> rat \<times> name_explanation" where
  "similarity name1 name2 =
     (if or_empty name1 = '''' \<or> or_empty name2 = '''' then (0, Names_empty)
      else let raw1 = py_upper (py_strip (or_empty name1));
               raw2 = py_upper (py_strip (or_empty name2))
           in if raw1 = raw2 then (1, Exact_verbatim (or_empty name1))
              else let norm1 = normalize_name name1; norm2 = normalize_name name2
                   in if norm1 = norm2 then (fl (99 / 100), Exact_normalised norm1)
                      else let ratio = seq_ratio norm1 norm2
                           in if fl (9 / 10) \<le> ratio then (fround 4 ratio, Close_match norm1 norm2 ratio)
                              else (fround 4 ratio, Probabilistic_ratio ratio))"

lemma similarity_bounds: "0 \<le> fst (similarity n1 n2)" "fst (similarity n1 n2) \<le> 1"
proof -
  have *: "0 \<le> fround 4 (seq_ratio a b)" "fround 4 (seq_ratio a b) \<le> 1" for a b
    using seq_ratio_bounds [of a b] by (auto intro: frd.nonneg frd.le_fix)
  have f: "0 \<le> fl (99 / 100)" "fl (99 / 100) \<le> 1"
    by (auto intro: flr.nonneg flr.le_fix)
  show "0 \<le> fst (similarity n1 n2)" "fst (similarity n1 n2) \<le> 1"
    using * f by (simp_all add: similarity_def Let_def)
qed

section \<open>The normal form\<close>

lemma dropWhile_all: "\<forall>c \<in> set xs. \<not> p c \<Longrightarrow> dropWhile p xs = xs"
  by (cases xs) auto

lemma re_sub_runs_id: "\<forall>c \<in> set s. \<not> p c \<Longrightarrow> re_sub_runs p s = s"
  by (induction p s rule: re_sub_runs.induct) auto

text \<open>Words: what is left between runs of separators.\<close>

fun runs_ok :: "(char \<Rightarrow> bool) \<Rightarrow> string \<Rightarrow> bool" where
  "runs_ok p (x # y # zs) = (\<not> (p x \<and> p y) \<and> runs_ok p (y # zs))"
| "runs_ok p _ = True"

lemma set_re_sub_runs: "set (re_sub_runs p s) \<subseteq> insert (CHR '' '') {c. c \<in> set s \<and> \<not> p c}"
  by (induction p s rule: re_sub_runs.induct) (auto dest: set_dropWhileD)

lemma hd_dropWhile_not: "dropWhile p xs = y # ys \<Longrightarrow> \<not> p y"
  by (metis hd_dropWhile list.distinct(1) list.sel(1))

lemma re_sub_runs_fix:
  assumes "runs_ok p s" "\<forall>c \<in> set s. p c \<longrightarrow> c = CHR '' ''"
  shows "re_sub_runs p s = s"
  using assms
proof (induction p s rule: re_sub_runs.induct)
  case (2 p x xs)
  show ?case
  proof (cases "p x")
    case True
    with "2.prems" have "dropWhile p xs = xs" by (cases xs) auto
    moreover have "runs_ok p xs" using "2.prems"(1) by (cases xs) auto
    ultimately show ?thesis using True "2.IH"(1) "2.prems"(2) by auto
  next
    case False
    moreover have "runs_ok p xs" using "2.prems"(1) by (cases xs) auto
    ultimately show ?thesis using "2.IH"(2) "2.prems"(2) by auto
  qed
qed simp

lemma runs_ok_Cons: "runs_ok p (x # s) \<longleftrightarrow> (p x \<longrightarrow> s = [] \<or> \<not> p (hd s)) \<and> runs_ok p s"
  by (cases s) auto

lemma hd_re_sub_runs: "re_sub_runs p s \<noteq> [] \<Longrightarrow> \<not> p (hd s) \<Longrightarrow> hd (re_sub_runs p s) = hd s"
  by (cases s) auto

lemma runs_ok_re_sub_runs: "p (CHR '' '') \<Longrightarrow> runs_ok p (re_sub_runs p s)"
proof (induction p s rule: re_sub_runs.induct)
  case (2 p x xs)
  show ?case
  proof (cases "p x")
    case True
    have "re_sub_runs p (dropWhile p xs) = [] \<or> \<not> p (hd (re_sub_runs p (dropWhile p xs)))"
    proof (cases "dropWhile p xs")
      case (Cons y ys)
      then show ?thesis using hd_dropWhile_not [OF Cons] by simp
    next
      case Nil
      show ?thesis unfolding Nil by simp
    qed
    then show ?thesis using True 2 by (simp add: runs_ok_Cons)
  next
    case False
    then show ?thesis using 2 by (simp add: runs_ok_Cons)
  qed
qed simp

lemma runs_ok_append:
  "runs_ok p (a @ b) \<longleftrightarrow>
     runs_ok p a \<and> runs_ok p b \<and> (a \<noteq> [] \<longrightarrow> b \<noteq> [] \<longrightarrow> \<not> (p (last a) \<and> p (hd b)))"
proof (induction a)
  case (Cons x a)
  then show ?case by (cases "a = []") (auto simp: runs_ok_Cons)
qed simp

lemma runs_ok_rev [simp]: "runs_ok p (rev s) = runs_ok p s"
  by (induction s) (auto simp: runs_ok_append runs_ok_Cons last_rev)

lemma runs_ok_dropWhile: "runs_ok p s \<Longrightarrow> runs_ok p (dropWhile q s)"
  by (metis runs_ok_append takeWhile_dropWhile_id)

lemma runs_ok_mono: "runs_ok p s \<Longrightarrow> (\<And>c. q c \<Longrightarrow> p c) \<Longrightarrow> runs_ok q s"
  by (induction p s rule: runs_ok.induct) auto

lemma runs_ok_strip: "runs_ok p s \<Longrightarrow> runs_ok p (py_strip s)"
  by (simp add: py_strip_def runs_ok_dropWhile)

lemma set_py_strip: "set (py_strip s) \<subseteq> set s"
  by (auto simp: py_strip_def dest!: set_dropWhileD)

lemma hd_py_strip: assumes "py_strip s \<noteq> []" shows "\<not> py_isspace (hd (py_strip s))"
proof -
  let ?t = "dropWhile py_isspace s"
  have "\<exists>zs. ?t = py_strip s @ zs"
    using takeWhile_dropWhile_id [of py_isspace "rev ?t"]
    by (metis py_strip_def rev_append rev_rev_ident)
  then have "hd ?t = hd (py_strip s)" "?t \<noteq> []" using assms by (auto simp: hd_append simp del: dropWhile_eq_Nil_conv)
  then show ?thesis using hd_dropWhile [of py_isspace s] by simp
qed

lemma last_py_strip: assumes "py_strip s \<noteq> []" shows "\<not> py_isspace (last (py_strip s))"
  using assms hd_dropWhile [of py_isspace "rev (dropWhile py_isspace s)"]
  by (simp add: py_strip_def last_rev)

lemma py_strip_id:
  assumes "s \<noteq> [] \<Longrightarrow> \<not> py_isspace (hd s) \<and> \<not> py_isspace (last s)"
  shows "py_strip s = s"
proof (cases "s = []")
  case True
  then show ?thesis by (simp add: py_strip_def)
next
  case False
  with assms have "dropWhile py_isspace s = s" by (cases s) auto
  moreover have "dropWhile py_isspace (rev s) = rev s"
    using assms False by (cases "rev s") (auto simp flip: hd_rev)
  ultimately show ?thesis by (simp add: py_strip_def)
qed

lemma isspace_not_alnum: "py_isspace c \<Longrightarrow> \<not> is_upper_alnum c"
  by (auto simp: py_isspace_def is_upper_alnum_def Let_def)

lemma upper_alnum_upper: "is_upper_alnum c \<Longrightarrow> upper_char c = c"
  by (auto simp: upper_char_def is_upper_alnum_def Let_def)

lemma isspace_space [simp]:
  "py_isspace (CHR '' '')" "\<not> is_upper_alnum (CHR '' '')" "upper_char (CHR '' '') = CHR '' ''"
  by code_simp+

text \<open>Upper-case letters and digits, single inner spaces, no space at either end.\<close>

definition normal_form :: "string \<Rightarrow> bool" where
  "normal_form s \<longleftrightarrow>
     (\<forall>c \<in> set s. is_upper_alnum c \<or> c = CHR '' '') \<and> runs_ok (\<lambda>c. \<not> is_upper_alnum c) s \<and>
     (s \<noteq> [] \<longrightarrow> is_upper_alnum (hd s) \<and> is_upper_alnum (last s))"

definition squash :: "string \<Rightarrow> string" where
  "squash s = re_sub_runs (\<lambda>c. \<not> is_upper_alnum c) s"

lemma squash_chars: "c \<in> set (squash s) \<Longrightarrow> is_upper_alnum c \<or> c = CHR '' ''"
  using set_re_sub_runs [of "\<lambda>c. \<not> is_upper_alnum c" s] by (auto simp: squash_def)

lemma squash_runs: "runs_ok (\<lambda>c. \<not> is_upper_alnum c) (squash s)"
  unfolding squash_def by (rule runs_ok_re_sub_runs) simp

lemma squash_spaces: "re_sub_runs py_isspace (squash s) = squash s"
  using squash_chars [of _ s] isspace_not_alnum
  by (intro re_sub_runs_fix runs_ok_mono [OF squash_runs]) blast+

lemma normalize_name_unfold:
  "n \<noteq> '''' \<Longrightarrow> normalize_name (Some n) = py_strip (squash (py_upper (py_strip n)))"
  by (simp add: normalize_name_def Let_def squash_spaces flip: squash_def)

lemma normalize_name_normal_form: "normal_form (normalize_name name)"
proof (cases "name = None \<or> name = Some ''''")
  case True
  then have "normalize_name name = ''''" by (auto simp: normalize_name_def)
  then show ?thesis by (simp add: normal_form_def)
next
  case False
  then obtain n where n: "name = Some n" "n \<noteq> ''''" by (cases name) auto
  define t where "t = squash (py_upper (py_strip n))"
  have nt: "normalize_name name = py_strip t" using n by (simp add: normalize_name_unfold t_def)
  have chars: "\<forall>c \<in> set (py_strip t). is_upper_alnum c \<or> c = CHR '' ''"
    using set_py_strip [of t] squash_chars by (auto simp: t_def)
  then have "py_strip t \<noteq> [] \<Longrightarrow> is_upper_alnum (hd (py_strip t)) \<and> is_upper_alnum (last (py_strip t))"
    using hd_py_strip [of t] last_py_strip [of t] hd_in_set last_in_set isspace_space(1) by metis
  with chars show ?thesis
    by (simp add: nt normal_form_def runs_ok_strip squash_runs t_def)
qed

lemma normal_form_fixed: assumes "normal_form s" shows "normalize_name (Some s) = s"
proof (cases "s = ''''")
  case True
  then show ?thesis by (simp add: normalize_name_def)
next
  case False
  have strip: "py_strip s = s"
    using assms isspace_not_alnum [of "hd s"] isspace_not_alnum [of "last s"]
    by (intro py_strip_id) (simp add: normal_form_def, blast)
  have "py_upper s = s"
    unfolding py_upper_def
  proof (rule map_idI)
    show "upper_char c = c" if "c \<in> set s" for c
    proof -
      have "is_upper_alnum c \<or> c = CHR '' ''" using that assms unfolding normal_form_def by blast
      then show ?thesis using upper_alnum_upper [of c] isspace_space(3) by blast
    qed
  qed
  moreover have "squash s = s"
    unfolding squash_def by (rule re_sub_runs_fix) (use assms in \<open>unfold normal_form_def, blast+\<close>)
  ultimately show ?thesis using False strip normalize_name_unfold [of s] by argo
qed

section \<open>Properties\<close>

text \<open>Normalisation yields a normal form (upper-case letters and digits in words separated by
  single spaces, none at either end) and leaves a name in normal form alone, so normalising twice
  is normalising once.\<close>

theorem normalize_normal_form:
  "normal_form (normalize_name name) \<and>
   normalize_name (Some (normalize_name name)) = normalize_name name"
  using normalize_name_normal_form normal_form_fixed by blast

end
