(* ===== verification/Matcher.thy ===== *)
theory Matcher
  imports Normalizer
begin

text \<open>
  \<open>apps/api/services/identity/matcher.py\<close>: the comparison of two vessel-call records. Each of
  the six attributes yields a piece of evidence; the score is the compensated float sum of the
  contributions; a conflict of IMO numbers or VCNs blocks the pair whatever its score.
\<close>

section \<open>Data\<close>

datatype attribute = A_vessel_name | A_vcn | A_imo_number | A_vessel_type | A_flag | A_dimensions

datatype agreement = AGREED | DISAGREED | PARTIAL | MISSING

datatype explanation = Name_exp name_explanation | Text fstring

record attribute_evidence =
  ev_attribute :: attribute
  ev_value_1 :: frag
  ev_value_2 :: frag
  ev_agreement :: agreement
  ev_weight :: rat
  ev_contribution :: rat
  ev_explanation :: explanation

datatype match_type = DETERMINISTIC | PROBABILISTIC

datatype disposition = AUTO_MERGE_CANDIDATE | STEWARD_REVIEW | SEPARATE | BLOCKED_BY_CONFLICT

record match_result =
  mr_match_score :: rat
  mr_match_type :: match_type
  mr_status :: disposition
  mr_conflict_detected :: bool
  mr_conflict_reasons :: "fstring list"
  mr_evidence_breakdown :: "attribute_evidence list"
  mr_total_attributes_evaluated :: nat
  mr_auto_merge_eligible :: bool

section \<open>Thresholds\<close>

text \<open>What \<open>yaml.safe_load\<close> returns for the thresholds file, as far as the constructor looks:
  \<open>YOther\<close> is any value on which \<open>float\<close> (or \<open>get\<close>) raises. Every exception leaves the values
  set so far.\<close>

datatype yaml = YNum rat | YMap "(string \<times> yaml) list" | YOther

datatype thresholds_file = Unreadable | Parsed yaml

record matcher =
  auto_merge_threshold :: rat
  steward_review_threshold :: rat

definition default_matcher :: matcher where
  "default_matcher = \<lparr>auto_merge_threshold = fl (98 / 100), steward_review_threshold = fl (85 / 100)\<rparr>"

definition yaml_float :: "(string \<times> yaml) list \<Rightarrow> string \<Rightarrow> rat \<Rightarrow> rat option" where
  "yaml_float th key dflt =
     (case map_of th key of None \<Rightarrow> Some dflt | Some (YNum x) \<Rightarrow> Some x | Some _ \<Rightarrow> None)"

definition init_matcher :: "thresholds_file \<Rightarrow> matcher" where
  "init_matcher f =
     (case f of
        Parsed (YMap cfg) \<Rightarrow>
          (case (case map_of cfg ''thresholds'' of None \<Rightarrow> YMap [] | Some th \<Rightarrow> th) of
             YMap th \<Rightarrow>
               (case yaml_float th ''auto_merge'' (fl (98 / 100)) of
                  None \<Rightarrow> default_matcher
                | Some a \<Rightarrow>
                    (case yaml_float th ''steward_review'' (fl (85 / 100)) of
                       None \<Rightarrow> default_matcher\<lparr>auto_merge_threshold := a\<rparr>
                     | Some b \<Rightarrow> \<lparr>auto_merge_threshold = a, steward_review_threshold = b\<rparr>))
           | _ \<Rightarrow> default_matcher)
      | _ \<Rightarrow> default_matcher)"

text \<open>The shipped \<open>config/thresholds.yaml\<close>.\<close>

definition shipped_thresholds :: thresholds_file where
  "shipped_thresholds = Parsed (YMap [(''thresholds'', YMap
     [(''auto_merge'', YNum (fl (98 / 100))), (''steward_review'', YNum (fl (85 / 100)))])])"

section \<open>Evidence\<close>

fun weight :: "attribute \<Rightarrow> rat" where
  "weight A_vessel_name = fl (40 / 100)"
| "weight A_vcn = fl (25 / 100)"
| "weight A_imo_number = fl (20 / 100)"
| "weight A_vessel_type = fl (5 / 100)"
| "weight A_flag = fl (5 / 100)"
| "weight A_dimensions = fl (5 / 100)"

declare weight.simps [simp del]

definition name_evidence :: "vessel_call \<Rightarrow> vessel_call \<Rightarrow> attribute_evidence" where
  "name_evidence v1 v2 =
     (let (name_sim, name_exp) = similarity (vc_vessel_name v1) (vc_vessel_name v2);
          status = (if fl (98 / 100) \<le> name_sim then AGREED
                    else if fl (70 / 100) \<le> name_sim then PARTIAL
                    else if 0 < name_sim then DISAGREED else MISSING);
          contrib = fround 4 (fmul name_sim (weight A_vessel_name))
      in \<lparr>ev_attribute = A_vessel_name, ev_value_1 = OStr (vc_vessel_name v1),
          ev_value_2 = OStr (vc_vessel_name v2), ev_agreement = status,
          ev_weight = weight A_vessel_name, ev_contribution = contrib,
          ev_explanation = Name_exp name_exp\<rparr>)"

text \<open>The comparison the code repeats for each text attribute: \<open>k1\<close> and \<open>k2\<close> are the cleaned
  values, \<open>same\<close>, \<open>diff\<close> and \<open>absent\<close> the three messages.\<close>

definition key_evidence ::
    "attribute \<Rightarrow> string \<Rightarrow> string \<Rightarrow> fstring \<Rightarrow> fstring \<Rightarrow> fstring \<Rightarrow> attribute_evidence" where
  "key_evidence a k1 k2 same diff absent =
     (let (status, contrib, expl) =
            (if k1 \<noteq> '''' \<and> k2 \<noteq> '''' then
               if k1 = k2 then (AGREED, weight a, same) else (DISAGREED, 0, diff)
             else (MISSING, 0, absent))
      in \<lparr>ev_attribute = a, ev_value_1 = OStr (or_None k1), ev_value_2 = OStr (or_None k2),
          ev_agreement = status, ev_weight = weight a, ev_contribution = contrib,
          ev_explanation = Text expl\<rparr>)"

definition strip_col :: "text_col \<Rightarrow> vessel_call \<Rightarrow> string" where
  "strip_col c v = py_strip (or_empty (vc_text v c))"

definition upper_col :: "text_col \<Rightarrow> vessel_call \<Rightarrow> string" where
  "upper_col c v = py_upper (py_strip (or_empty (vc_text v c)))"

definition vcn_evidence :: "vessel_call \<Rightarrow> vessel_call \<Rightarrow> attribute_evidence" where
  "vcn_evidence v1 v2 =
     (let k1 = strip_col Vcn v1; k2 = strip_col Vcn v2
      in key_evidence A_vcn k1 k2 [Lit ''Exact VCN match'', Str k1]
           [Lit ''Conflicting VCN'', Str k1, Str k2] [Lit ''VCN missing on one or both records''])"

definition imo_evidence :: "vessel_call \<Rightarrow> vessel_call \<Rightarrow> attribute_evidence" where
  "imo_evidence v1 v2 =
     (let k1 = strip_col Imo_number v1; k2 = strip_col Imo_number v2
      in key_evidence A_imo_number k1 k2 [Lit ''Exact IMO match'', Str k1]
           [Lit ''Conflicting IMO'', Str k1, Str k2] [Lit ''IMO number missing on one or both records''])"

definition type_evidence :: "vessel_call \<Rightarrow> vessel_call \<Rightarrow> attribute_evidence" where
  "type_evidence v1 v2 =
     (let k1 = upper_col Vessel_type v1; k2 = upper_col Vessel_type v2
      in key_evidence A_vessel_type k1 k2 [Lit ''Matching vessel type'', Str k1]
           [Lit ''Different vessel types'', Str k1, Str k2]
           [Lit ''Vessel type absent on one or both records''])"

definition flag_evidence :: "vessel_call \<Rightarrow> vessel_call \<Rightarrow> attribute_evidence" where
  "flag_evidence v1 v2 =
     (let k1 = upper_col Flag v1; k2 = upper_col Flag v2
      in key_evidence A_flag k1 k2 [Lit ''Matching flag state'', Str k1]
           [Lit ''Different flags'', Str k1, Str k2] [Lit ''Flag missing on one or both records''])"

text \<open>A numeric column counts when it is present and not zero; lengths and tonnages are compared
  with a tolerance, the TEU size exactly.\<close>

definition dim_pair :: "num_col \<Rightarrow> vessel_call \<Rightarrow> vessel_call \<Rightarrow> (rat \<times> rat) option" where
  "dim_pair c v1 v2 =
     (case (vc_num v1 c, vc_num v2 c) of
        (Some a, Some b) \<Rightarrow> if a \<noteq> 0 \<and> b \<noteq> 0 then Some (a, b) else None
      | _ \<Rightarrow> None)"

definition close_to :: "rat \<Rightarrow> rat \<Rightarrow> bool" where
  "close_to a b \<longleftrightarrow> \<bar>fsub a b\<bar> \<le> fl (1 / 100)"

definition dim_results :: "vessel_call \<Rightarrow> vessel_call \<Rightarrow> bool list" where
  "dim_results v1 v2 =
     (case dim_pair Loa_value v1 v2 of None \<Rightarrow> [] | Some (a, b) \<Rightarrow> [close_to a b]) @
     (case dim_pair Vessel_size_teu v1 v2 of None \<Rightarrow> [] | Some (a, b) \<Rightarrow> [a = b]) @
     (case dim_pair Grt v1 v2 of None \<Rightarrow> [] | Some (a, b) \<Rightarrow> [close_to a b])"

definition first_nonzero :: "rat option \<Rightarrow> rat option \<Rightarrow> rat option" where
  "first_nonzero a b =
     (case a of Some x \<Rightarrow> if x \<noteq> 0 then Some x
                          else (case b of Some y \<Rightarrow> if y \<noteq> 0 then Some y else None | None \<Rightarrow> None)
      | None \<Rightarrow> (case b of Some y \<Rightarrow> if y \<noteq> 0 then Some y else None | None \<Rightarrow> None))"

definition dim_evidence :: "vessel_call \<Rightarrow> vessel_call \<Rightarrow> attribute_evidence" where
  "dim_evidence v1 v2 =
     (let results = dim_results v1 v2;
          dim_matches = length (filter id results);
          dim_compared = length results;
          (status, contrib, expl) =
            (if 0 < dim_compared then
               (let ratio = fdiv (of_nat dim_matches) (of_nat dim_compared)
                in (if ratio = 1 then AGREED else if 0 < ratio then PARTIAL else DISAGREED,
                    fround 4 (fmul ratio (weight A_dimensions)),
                    [NatF dim_matches, NatF dim_compared, Lit ''vessel dimensions matched'']))
             else (MISSING, 0, [Lit ''Dimensions missing on one or both records'']))
      in \<lparr>ev_attribute = A_dimensions,
          ev_value_1 = ONum (first_nonzero (vc_num v1 Loa_value) (vc_num v1 Vessel_size_teu)),
          ev_value_2 = ONum (first_nonzero (vc_num v2 Loa_value) (vc_num v2 Vessel_size_teu)),
          ev_agreement = status, ev_weight = weight A_dimensions, ev_contribution = contrib,
          ev_explanation = Text expl\<rparr>)"

definition evidences :: "vessel_call \<Rightarrow> vessel_call \<Rightarrow> attribute_evidence list" where
  "evidences v1 v2 =
     [name_evidence v1 v2, vcn_evidence v1 v2, imo_evidence v1 v2,
      type_evidence v1 v2, flag_evidence v1 v2, dim_evidence v1 v2]"

section \<open>Conflicts, score and disposition\<close>

definition key_conflict :: "text_col \<Rightarrow> vessel_call \<Rightarrow> vessel_call \<Rightarrow> bool" where
  "key_conflict c v1 v2 \<longleftrightarrow>
     strip_col c v1 \<noteq> '''' \<and> strip_col c v2 \<noteq> '''' \<and> strip_col c v1 \<noteq> strip_col c v2"

definition key_agrees :: "text_col \<Rightarrow> vessel_call \<Rightarrow> vessel_call \<Rightarrow> bool" where
  "key_agrees c v1 v2 \<longleftrightarrow> strip_col c v1 \<noteq> '''' \<and> strip_col c v1 = strip_col c v2"

definition conflicts :: "vessel_call \<Rightarrow> vessel_call \<Rightarrow> fstring list" where
  "conflicts v1 v2 =
     (if key_conflict Imo_number v1 v2
      then [[Lit ''Conflicting IMO numbers'', Str (strip_col Imo_number v1), Str (strip_col Imo_number v2)]]
      else []) @
     (if key_conflict Vcn v1 v2
      then [[Lit ''Conflicting VCNs'', Str (strip_col Vcn v1), Str (strip_col Vcn v2)]]
      else [])"

definition conflict_detected :: "vessel_call \<Rightarrow> vessel_call \<Rightarrow> bool" where
  "conflict_detected v1 v2 \<longleftrightarrow> key_conflict Imo_number v1 v2 \<or> key_conflict Vcn v1 v2"

definition deterministic_match :: "vessel_call \<Rightarrow> vessel_call \<Rightarrow> bool" where
  "deterministic_match v1 v2 \<longleftrightarrow>
     (key_agrees Vcn v1 v2 \<and> \<not> conflict_detected v1 v2) \<or>
     (key_agrees Imo_number v1 v2 \<and> \<not> conflict_detected v1 v2 \<and> \<not> key_conflict Vcn v1 v2)"

definition raw_prob_score :: "vessel_call \<Rightarrow> vessel_call \<Rightarrow> rat" where
  "raw_prob_score v1 v2 = fsum (map ev_contribution (evidences v1 v2))"

definition final_score :: "vessel_call \<Rightarrow> vessel_call \<Rightarrow> rat \<times> match_type" where
  "final_score v1 v2 =
     (let raw = raw_prob_score v1 v2; name_sim = fst (similarity (vc_vessel_name v1) (vc_vessel_name v2))
      in if deterministic_match v1 v2 \<and> \<not> conflict_detected v1 v2
         then (max raw (if fl (98 / 100) \<le> name_sim then fl (99 / 100) else fl (98 / 100)), DETERMINISTIC)
         else (fround 4 (min 1 (max 0 raw)), PROBABILISTIC))"

definition decide :: "matcher \<Rightarrow> bool \<Rightarrow> rat \<Rightarrow> disposition \<times> bool" where
  "decide m conflict score =
     (if conflict then (BLOCKED_BY_CONFLICT, False)
      else if auto_merge_threshold m \<le> score then (AUTO_MERGE_CANDIDATE, True)
      else if steward_review_threshold m \<le> score then (STEWARD_REVIEW, False)
      else (SEPARATE, False))"

definition evaluate_pair :: "matcher \<Rightarrow> vessel_call \<Rightarrow> vessel_call \<Rightarrow> match_result" where
  "evaluate_pair m v1 v2 =
     (let (score, mtype) = final_score v1 v2;
          (status, eligible) = decide m (conflict_detected v1 v2) score
      in \<lparr>mr_match_score = score, mr_match_type = mtype, mr_status = status,
          mr_conflict_detected = conflict_detected v1 v2,
          mr_conflict_reasons = conflicts v1 v2,
          mr_evidence_breakdown = evidences v1 v2,
          mr_total_attributes_evaluated = length (evidences v1 v2),
          mr_auto_merge_eligible = eligible\<rparr>)"

section \<open>Conflicts\<close>

lemma key_conflict_sym: "key_conflict c v1 v2 = key_conflict c v2 v1"
  by (auto simp: key_conflict_def)

lemma key_agrees_sym: "key_agrees c v1 v2 = key_agrees c v2 v1"
  by (auto simp: key_agrees_def)

lemma key_agrees_no_conflict: "key_agrees c v1 v2 \<Longrightarrow> \<not> key_conflict c v1 v2"
  by (auto simp: key_agrees_def key_conflict_def)

lemma conflict_detected_sym: "conflict_detected v1 v2 = conflict_detected v2 v1"
  by (simp add: conflict_detected_def key_conflict_sym [of _ v1 v2])

lemma deterministic_match_sym: "deterministic_match v1 v2 = deterministic_match v2 v1"
  by (simp add: deterministic_match_def key_agrees_sym [of _ v1 v2] key_conflict_sym [of _ v1 v2]
      conflict_detected_sym [of v1 v2])

lemma deterministic_match_iff:
  "deterministic_match v1 v2 \<longleftrightarrow>
     \<not> conflict_detected v1 v2 \<and> (key_agrees Vcn v1 v2 \<or> key_agrees Imo_number v1 v2)"
  by (auto simp: deterministic_match_def conflict_detected_def)

lemma evaluate_pair_fields:
  "mr_match_score (evaluate_pair m v1 v2) = fst (final_score v1 v2)"
  "mr_match_type (evaluate_pair m v1 v2) = snd (final_score v1 v2)"
  "mr_status (evaluate_pair m v1 v2) =
     fst (decide m (conflict_detected v1 v2) (fst (final_score v1 v2)))"
  "mr_auto_merge_eligible (evaluate_pair m v1 v2) =
     snd (decide m (conflict_detected v1 v2) (fst (final_score v1 v2)))"
  "mr_conflict_detected (evaluate_pair m v1 v2) = conflict_detected v1 v2"
  "mr_conflict_reasons (evaluate_pair m v1 v2) = conflicts v1 v2"
  "mr_evidence_breakdown (evaluate_pair m v1 v2) = evidences v1 v2"
  by (simp_all add: evaluate_pair_def split: prod.splits)

lemma conflicts_Nil_iff: "conflicts v1 v2 = [] \<longleftrightarrow> \<not> conflict_detected v1 v2"
  by (auto simp: conflicts_def conflict_detected_def)

lemma final_score_type: "snd (final_score v1 v2) = DETERMINISTIC \<longleftrightarrow> deterministic_match v1 v2"
  by (auto simp: final_score_def Let_def deterministic_match_iff)

section \<open>Bounds on the score\<close>

lemma weight_nonneg: "0 \<le> weight a"
  by (induction a) code_simp+

lemma round_weight: "fround 4 (weight a) = weight a"
  by (induction a) code_simp+

lemma scaled_contribution:
  assumes "0 \<le> x" "x \<le> 1"
  shows "0 \<le> fround 4 (fmul x (weight a))" "fround 4 (fmul x (weight a)) \<le> weight a"
proof -
  have "fmul x (weight a) \<le> fl (weight a)" unfolding fmul_def
    using assms weight_nonneg [of a] by (intro fl_mono) (simp add: mult_left_le_one_le)
  moreover have "fl (weight a) = weight a" by (cases a) (simp_all add: fl_idem weight.simps)
  ultimately have "fround 4 (fmul x (weight a)) \<le> fround 4 (weight a)" by (simp add: frd.mono)
  then show "fround 4 (fmul x (weight a)) \<le> weight a" by (simp add: round_weight)
  show "0 \<le> fround 4 (fmul x (weight a))"
    using assms weight_nonneg [of a] by (auto simp: fmul_def intro!: frd.nonneg flr.nonneg)
qed

lemma name_contribution:
  "0 \<le> ev_contribution (name_evidence v1 v2)"
  "ev_contribution (name_evidence v1 v2) \<le> weight A_vessel_name"
  using scaled_contribution [OF similarity_bounds, of "vc_vessel_name v1" "vc_vessel_name v2" A_vessel_name]
  by (auto simp: name_evidence_def Let_def split: prod.splits)

lemma key_contribution:
  "ev_contribution (key_evidence a k1 k2 x y z) =
     (if k1 \<noteq> '''' \<and> k1 = k2 then weight a else 0)"
  by (auto simp: key_evidence_def Let_def)

lemma key_contribution_bounds:
  "0 \<le> ev_contribution (key_evidence a k1 k2 x y z)"
  "ev_contribution (key_evidence a k1 k2 x y z) \<le> weight a"
  using weight_nonneg [of a] by (auto simp: key_contribution)

lemma dim_contribution:
  "0 \<le> ev_contribution (dim_evidence v1 v2)" "ev_contribution (dim_evidence v1 v2) \<le> weight A_dimensions"
proof -
  let ?rs = "dim_results v1 v2"
  let ?q = "fdiv (of_nat (length (filter id ?rs))) (of_nat (length ?rs))"
  have "rat_of_nat (length (filter id ?rs)) \<le> rat_of_nat (length ?rs)" by simp
  then have q: "0 \<le> ?q" "?q \<le> 1"
    by (auto simp: fdiv_def divide_le_eq_1 intro!: flr.nonneg flr.le_fix)
  show "0 \<le> ev_contribution (dim_evidence v1 v2)" "ev_contribution (dim_evidence v1 v2) \<le> weight A_dimensions"
    using scaled_contribution [OF q, of A_dimensions]
    by (auto simp: dim_evidence_def Let_def)
qed

lemmas contribution_bounds = name_contribution dim_contribution key_contribution_bounds

text \<open>The contributions are non-negative and bounded by the weights, which sum to one up to rounding.\<close>

definition contribs :: "vessel_call \<Rightarrow> vessel_call \<Rightarrow> rat list" where
  "contribs v1 v2 = map ev_contribution (evidences v1 v2)"

lemma contribs_eq:
  "contribs v1 v2 =
     [ev_contribution (name_evidence v1 v2),
      if key_agrees Vcn v1 v2 then weight A_vcn else 0,
      if key_agrees Imo_number v1 v2 then weight A_imo_number else 0,
      ev_contribution (type_evidence v1 v2), ev_contribution (flag_evidence v1 v2),
      ev_contribution (dim_evidence v1 v2)]"
  by (simp add: contribs_def evidences_def vcn_evidence_def imo_evidence_def key_contribution
      key_agrees_def Let_def)

lemma minor_contributions:
  "0 \<le> ev_contribution (type_evidence v1 v2)" "ev_contribution (type_evidence v1 v2) \<le> weight A_vessel_type"
  "0 \<le> ev_contribution (flag_evidence v1 v2)" "ev_contribution (flag_evidence v1 v2) \<le> weight A_flag"
  by (simp_all add: type_evidence_def flag_evidence_def Let_def key_contribution_bounds)

lemma weight_bounds:
  "weight A_vessel_name + weight A_vessel_type + weight A_flag + weight A_dimensions \<le> 551 / 1000"
  "weight A_vessel_name + weight A_vcn + weight A_imo_number + weight A_vessel_type + weight A_flag
     + weight A_dimensions \<le> 1 + 1 / 10 ^ 15"
  by code_simp+

lemma contribs_sum:
  "0 \<le> sum_list (contribs v1 v2)" "sum_list (contribs v1 v2) \<le> 1 + 1 / 10 ^ 15"
  "\<not> key_agrees Vcn v1 v2 \<Longrightarrow> \<not> key_agrees Imo_number v1 v2 \<Longrightarrow> sum_list (contribs v1 v2) \<le> 551 / 1000"
  using name_contribution [of v1 v2] dim_contribution [of v1 v2] minor_contributions [of v1 v2]
    weight_nonneg [of A_vcn] weight_nonneg [of A_imo_number] weight_bounds
  by (simp_all add: contribs_eq)

lemma contribs_nonneg: "x \<in> set (contribs v1 v2) \<Longrightarrow> 0 \<le> x"
  using name_contribution(1) dim_contribution(1) minor_contributions(1,3) weight_nonneg
  by (auto simp: contribs_eq split: if_splits)

lemma raw_prob_score_error:
  "\<bar>raw_prob_score v1 v2 - sum_list (contribs v1 v2)\<bar> \<le> 2 / 10 ^ 11"
proof -
  have "(\<Sum>x\<leftarrow>contribs v1 v2. \<bar>x\<bar>) = sum_list (contribs v1 v2)"
    using contribs_nonneg by (intro arg_cong [where f = sum_list] map_idI) auto
  then have "\<bar>fsum (contribs v1 v2) - sum_list (contribs v1 v2)\<bar> \<le> 2 / 10 ^ 11"
    using contribs_sum(2) [of v1 v2] by (intro fsum_error) (simp_all add: contribs_eq)
  then show ?thesis by (simp add: raw_prob_score_def contribs_def)
qed

section \<open>Correctness\<close>

lemma score_bounds:
  "0 \<le> mr_match_score (evaluate_pair m v1 v2)"
  "mr_match_score (evaluate_pair m v1 v2) \<le> 1 + 1 / 10 ^ 10"
  "mr_match_type (evaluate_pair m v1 v2) = PROBABILISTIC \<Longrightarrow> mr_match_score (evaluate_pair m v1 v2) \<le> 1"
proof -
  have c: "0 < fl (98 / 100)" "fl (99 / 100) \<le> 1 + 1 / 10 ^ 10" "fl (98 / 100) \<le> 1 + 1 / 10 ^ 10"
    "0 < fl (99 / 100)" by code_simp+
  have p: "0 \<le> fround 4 (min 1 (max 0 x))" "fround 4 (min 1 (max 0 x)) \<le> 1" for x
    by (auto intro!: frd.nonneg frd.le_fix)
  have raw: "raw_prob_score v1 v2 \<le> 1 + 1 / 10 ^ 10"
    using abs_le_D1 [OF raw_prob_score_error [of v1 v2]] contribs_sum(2) [of v1 v2] by simp
  show "0 \<le> mr_match_score (evaluate_pair m v1 v2)"
    "mr_match_score (evaluate_pair m v1 v2) \<le> 1 + 1 / 10 ^ 10"
    "mr_match_type (evaluate_pair m v1 v2) = PROBABILISTIC \<Longrightarrow> mr_match_score (evaluate_pair m v1 v2) \<le> 1"
    using c raw p [of "raw_prob_score v1 v2"]
    by (auto simp: evaluate_pair_fields final_score_def Let_def max_def intro: order_trans)
qed

lemma init_shipped: "init_matcher shipped_thresholds = default_matcher"
  by (simp add: init_matcher_def shipped_thresholds_def default_matcher_def yaml_float_def)

lemma final_score_deterministic:
  "deterministic_match v1 v2 \<Longrightarrow> fl (98 / 100) \<le> fst (final_score v1 v2)"
proof -
  have "fl (98 / 100) \<le> fl (99 / 100)" by (intro fl_mono) simp
  then show "deterministic_match v1 v2 \<Longrightarrow> fl (98 / 100) \<le> fst (final_score v1 v2)"
    by (auto simp: final_score_def Let_def deterministic_match_iff max_def)
qed

lemma final_score_weak:
  assumes "\<not> key_agrees Vcn v1 v2" "\<not> key_agrees Imo_number v1 v2"
  shows "fst (final_score v1 v2) \<le> fround 4 (56 / 100)"
proof -
  have "raw_prob_score v1 v2 \<le> 56 / 100"
    using abs_le_D1 [OF raw_prob_score_error [of v1 v2]] contribs_sum(3) [OF assms] by simp
  then have "fround 4 (min 1 (max 0 (raw_prob_score v1 v2))) \<le> fround 4 (56 / 100)"
    by (intro frd.mono) simp
  then show ?thesis using assms by (simp add: final_score_def Let_def deterministic_match_iff)
qed

lemma threshold_order:
  "fround 4 (56 / 100) < fl (85 / 100)" "fl (85 / 100) < fl (98 / 100)"
  by code_simp+

lemma default_status:
  "mr_status (evaluate_pair default_matcher v1 v2) =
     (if conflict_detected v1 v2 then BLOCKED_BY_CONFLICT
      else if key_agrees Vcn v1 v2 \<or> key_agrees Imo_number v1 v2 then AUTO_MERGE_CANDIDATE
      else SEPARATE)"
proof (cases "deterministic_match v1 v2")
  case True
  then show ?thesis using final_score_deterministic [OF True]
    by (simp add: evaluate_pair_fields decide_def default_matcher_def deterministic_match_iff)
next
  case False
  then show ?thesis using final_score_weak [of v1 v2] threshold_order
    by (auto simp: evaluate_pair_fields decide_def default_matcher_def deterministic_match_iff)
qed

section \<open>Properties\<close>


text \<open>The match score is never negative; a probabilistic score is at most one, a
  deterministic one exceeds one by at most the rounding of the float sum of the six weights.\<close>

theorem match_score_range:
  "0 \<le> mr_match_score (evaluate_pair m v1 v2) \<and>
   mr_match_score (evaluate_pair m v1 v2) \<le>
     (if mr_match_type (evaluate_pair m v1 v2) = PROBABILISTIC then 1 else 1 + 1 / 10 ^ 10)"
  using score_bounds [of m v1 v2] by simp

text \<open>With the shipped thresholds the disposition of a pair depends only on its keys: a
  conflict blocks, an equal VCN or IMO number without conflict is an auto-merge candidate, and every
  other pair is separate. So no pair is ever sent to steward review, however similar the names are,
  and the order of the two records does not matter.\<close>

theorem shipped_disposition:
  "mr_status (evaluate_pair (init_matcher shipped_thresholds) v1 v2) =
     (if conflict_detected v1 v2 then BLOCKED_BY_CONFLICT
      else if key_agrees Vcn v1 v2 \<or> key_agrees Imo_number v1 v2 then AUTO_MERGE_CANDIDATE
      else SEPARATE) \<and>
   mr_status (evaluate_pair (init_matcher shipped_thresholds) v1 v2) \<noteq> STEWARD_REVIEW \<and>
   mr_status (evaluate_pair (init_matcher shipped_thresholds) v2 v1) =
     mr_status (evaluate_pair (init_matcher shipped_thresholds) v1 v2)"
  unfolding init_shipped default_status
  using conflict_detected_sym [of v1 v2] key_agrees_sym [of Vcn v1 v2] key_agrees_sym [of Imo_number v1 v2]
  by simp

end
