(* ===== verification/Survivorship.thy ===== *)
theory Survivorship
  imports Normalizer
begin

text \<open>
  \<open>apps/api/services/identity/survivorship.py\<close>: which of two records survives a merge, and
  which value each comparable field takes. Columns are read and written by name; a column is
  \<open>Txt\<close> or \<open>Num_col\<close>, a value is \<open>FText\<close> or \<open>FNum\<close>.
\<close>

section \<open>Columns by name\<close>

datatype field = Txt text_col | Num_col num_col

datatype field_val = FText string | FNum rat

definition get_field :: "vessel_call \<Rightarrow> field \<Rightarrow> field_val option" where
  "get_field v f = (case f of Txt c \<Rightarrow> map_option FText (vc_text v c)
                    | Num_col c \<Rightarrow> map_option FNum (vc_num v c))"

text \<open>\<open>setattr\<close>; a value of the other kind does not occur (a text column is only ever given the
  value of a text column).\<close>

definition set_field :: "field \<Rightarrow> field_val option \<Rightarrow> vessel_call \<Rightarrow> vessel_call" where
  "set_field f x v =
     (case f of
        Txt c \<Rightarrow> (case x of None \<Rightarrow> v\<lparr>vc_text := (vc_text v)(c := None)\<rparr>
                   | Some (FText t) \<Rightarrow> v\<lparr>vc_text := (vc_text v)(c := Some t)\<rparr> | _ \<Rightarrow> v)
      | Num_col c \<Rightarrow> (case x of None \<Rightarrow> v\<lparr>vc_num := (vc_num v)(c := None)\<rparr>
                   | Some (FNum n) \<Rightarrow> v\<lparr>vc_num := (vc_num v)(c := Some n)\<rparr> | _ \<Rightarrow> v))"

datatype rule_type = Text_clean | First_non_null | Max_numeric

definition comparable_fields :: "(field \<times> string \<times> rule_type) list" where
  "comparable_fields =
    [(Txt Vessel_name, ''Vessel Name'', Text_clean),
     (Txt Imo_number, ''IMO Number'', First_non_null),
     (Txt Vcn, ''VCN'', First_non_null),
     (Txt Vessel_type, ''Vessel Type'', First_non_null),
     (Num_col Vessel_size_teu, ''TEU Capacity'', Max_numeric),
     (Txt Flag, ''Flag State'', First_non_null),
     (Txt Last_port_of_call, ''Last Port of Call'', First_non_null),
     (Txt Next_port_of_call, ''Next Port of Call'', First_non_null),
     (Txt Port_of_lading, ''Port of Lading'', First_non_null),
     (Txt Port_of_discharge, ''Port of Discharge'', First_non_null),
     (Txt Reason_for_visit, ''Reason for Visit'', First_non_null),
     (Txt Cargo_type, ''Cargo Type'', First_non_null),
     (Txt Commodity, ''Commodity'', First_non_null),
     (Num_col Quantity_value, ''Cargo Quantity'', Max_numeric),
     (Txt Quantity_unit, ''Quantity Unit'', First_non_null),
     (Num_col Grt, ''GRT'', Max_numeric),
     (Num_col Loa_value, ''LOA (m)'', Max_numeric),
     (Num_col Dwt, ''DWT'', Max_numeric),
     (Num_col Forward_draft_value, ''Forward Draft'', Max_numeric),
     (Num_col Aft_draft_value, ''Aft Draft'', Max_numeric),
     (Txt Call_sign, ''Call Sign'', First_non_null)]"

section \<open>The survivor\<close>

definition filled :: "field_val option \<Rightarrow> bool" where
  "filled x \<longleftrightarrow> x \<noteq> None \<and> x \<noteq> Some (FText '''')"

definition completeness :: "vessel_call \<Rightarrow> nat" where
  "completeness v = length (filter (\<lambda>(f, _, _). filled (get_field v f)) comparable_fields)"

definition odd_name :: "string \<Rightarrow> bool" where
  "odd_name n \<longleftrightarrow> py_in ''-'' n \<or> py_in ''.'' n"

definition survivor_score :: "vessel_call \<Rightarrow> int" where
  "survivor_score v =
     int (completeness v) - (if odd_name (or_empty (vc_vessel_name v)) then 2 else 0)"

definition determine_survivor_record ::
    "vessel_call \<Rightarrow> vessel_call \<Rightarrow> vessel_call \<times> vessel_call" where
  "determine_survivor_record v1 v2 =
     (if survivor_score v2 \<le> survivor_score v1 then (v1, v2) else (v2, v1))"

section \<open>One field\<close>

datatype rule_applied =
    Both_null | Completeness_val2_null | Completeness_val1_null | Unanimous_agreement
  | Clean_text_normalisation | Max_numeric_applied | Source_priority_recency

datatype provenance = Prov_none | Prov_record uid | Prov_both_records

record resolution =
  rs_field :: field
  rs_winner_value :: "field_val option"
  rs_winning_record_id :: uid
  rs_rule_applied :: rule_applied
  rs_provenance :: provenance

definition unclean :: "string \<Rightarrow> bool" where
  "unclean s \<longleftrightarrow> py_in ''-'' s \<or> py_endswith ''.'' s"

definition resolve_field ::
    "field \<Rightarrow> rule_type \<Rightarrow> field_val option \<Rightarrow> field_val option \<Rightarrow> uid \<Rightarrow> uid \<Rightarrow> resolution" where
  "resolve_field f rule val1 val2 v1_id v2_id =
     (let res = (\<lambda>x i r p. \<lparr>rs_field = f, rs_winner_value = x, rs_winning_record_id = i,
                   rs_rule_applied = r, rs_provenance = p\<rparr>)
      in case (val1, val2) of
           (None, None) \<Rightarrow> res None v1_id Both_null Prov_none
         | (Some a, None) \<Rightarrow> res (Some a) v1_id Completeness_val2_null (Prov_record v1_id)
         | (None, Some b) \<Rightarrow> res (Some b) v2_id Completeness_val1_null (Prov_record v2_id)
         | (Some a, Some b) \<Rightarrow>
             if a = b then res (Some a) v1_id Unanimous_agreement Prov_both_records
             else (case (rule, a, b) of
                 (Text_clean, FText t1, FText t2) \<Rightarrow>
                   if unclean (py_strip t1) \<and> \<not> unclean (py_strip t2)
                   then res (Some b) v2_id Clean_text_normalisation (Prov_record v2_id)
                   else res (Some a) v1_id Clean_text_normalisation (Prov_record v1_id)
               | (Max_numeric, FNum n1, FNum n2) \<Rightarrow>
                   if n2 \<le> n1 then res (Some a) v1_id Max_numeric_applied (Prov_record v1_id)
                   else res (Some b) v2_id Max_numeric_applied (Prov_record v2_id)
               | _ \<Rightarrow> res (Some a) v1_id Source_priority_recency (Prov_record v1_id)))"

section \<open>The preview\<close>

record field_comparison =
  fc_field :: field
  fc_label :: string
  fc_record_1_value :: "field_val option"
  fc_record_2_value :: "field_val option"
  fc_resolution :: resolution

record preview =
  pv_survivor_id :: uid
  pv_merged_id :: uid
  pv_survivor_vcn :: "string option"
  pv_merged_vcn :: "string option"
  pv_field_comparisons :: "field_comparison list"
  pv_consolidated :: "(field \<times> field_val option) list"

definition compare_field :: "vessel_call \<Rightarrow> vessel_call \<Rightarrow> field \<times> string \<times> rule_type \<Rightarrow> field_comparison" where
  "compare_field v1 v2 spec =
     (case spec of (attr, label, rule) \<Rightarrow>
        \<lparr>fc_field = attr, fc_label = label, fc_record_1_value = get_field v1 attr,
         fc_record_2_value = get_field v2 attr,
         fc_resolution = resolve_field attr rule (get_field v1 attr) (get_field v2 attr) (vc_id v1) (vc_id v2)\<rparr>)"

definition generate_preview :: "vessel_call \<Rightarrow> vessel_call \<Rightarrow> preview" where
  "generate_preview v1 v2 =
     (let (survivor, merged) = determine_survivor_record v1 v2;
          comparisons = map (compare_field v1 v2) comparable_fields
      in \<lparr>pv_survivor_id = vc_id survivor, pv_merged_id = vc_id merged,
          pv_survivor_vcn = vc_vcn survivor, pv_merged_vcn = vc_vcn merged,
          pv_field_comparisons = comparisons,
          pv_consolidated = map (\<lambda>c. (fc_field c, rs_winner_value (fc_resolution c))) comparisons\<rparr>)"

section \<open>Correctness\<close>

lemma determine_survivor_cases:
  obtains "determine_survivor_record v1 v2 = (v1, v2)" "survivor_score v2 \<le> survivor_score v1"
  | "determine_survivor_record v1 v2 = (v2, v1)" "survivor_score v1 < survivor_score v2"
  by (force simp: determine_survivor_record_def)

lemma survivor_has_best_score:
  "determine_survivor_record v1 v2 = (s, m) \<Longrightarrow> {s, m} = {v1, v2} \<and> survivor_score m \<le> survivor_score s"
  by (auto simp: determine_survivor_record_def split: if_splits)

lemma determine_survivor_sym:
  "survivor_score v1 \<noteq> survivor_score v2 \<Longrightarrow>
     determine_survivor_record v1 v2 = determine_survivor_record v2 v1"
  by (auto simp: determine_survivor_record_def)

lemma resolve_field_winner:
  "rs_winner_value (resolve_field f r x y i j) = x \<and> rs_winning_record_id (resolve_field f r x y i j) = i
   \<or> rs_winner_value (resolve_field f r x y i j) = y \<and> rs_winning_record_id (resolve_field f r x y i j) = j"
  by (auto simp: resolve_field_def Let_def split: option.splits rule_type.splits field_val.splits)

lemma resolve_field_None:
  "rs_winner_value (resolve_field f r x y i j) = None \<longleftrightarrow> x = None \<and> y = None"
  by (auto simp: resolve_field_def Let_def split: option.splits rule_type.splits field_val.splits)

lemma resolve_field_max:
  "rs_winner_value (resolve_field f Max_numeric (Some (FNum a)) (Some (FNum b)) i j) = Some (FNum (max a b))"
  by (auto simp: resolve_field_def Let_def max_def)

lemma resolve_field_clean:
  assumes "\<not> unclean (py_strip t1) \<or> \<not> unclean (py_strip t2)"
  shows "\<exists>t. rs_winner_value (resolve_field f Text_clean (Some (FText t1)) (Some (FText t2)) i j) = Some (FText t)
           \<and> \<not> unclean (py_strip t)"
  using assms by (auto simp: resolve_field_def Let_def)

section \<open>Reading back what was written\<close>

definition kind_ok :: "field \<Rightarrow> field_val option \<Rightarrow> bool" where
  "kind_ok f x = (case (f, x) of (Txt _, Some (FNum _)) \<Rightarrow> False | (Num_col _, Some (FText _)) \<Rightarrow> False | _ \<Rightarrow> True)"

lemma kind_ok_get_field [simp]: "kind_ok f (get_field v f)"
  by (auto simp: kind_ok_def get_field_def split: field.splits option.splits)

lemma get_set_field:
  "kind_ok f x \<Longrightarrow> get_field (set_field f x v) g = (if f = g then x else get_field v g)"
  by (auto simp: kind_ok_def get_field_def set_field_def split: field.splits option.splits field_val.splits)

lemma set_field_other [simp]:
  "vc_id (set_field f x v) = vc_id v" "vc_created_at (set_field f x v) = vc_created_at v"
  "vc_updated_at (set_field f x v) = vc_updated_at v" "vc_tenant_id (set_field f x v) = vc_tenant_id v"
  "vc_is_merged (set_field f x v) = vc_is_merged v"
  "vc_merged_into_id (set_field f x v) = vc_merged_into_id v"
  "vessel_call.more (set_field f x v) = vessel_call.more v"
  by (simp_all add: set_field_def split: field.splits option.splits field_val.splits)

definition set_fields :: "(field \<times> field_val option) list \<Rightarrow> vessel_call \<Rightarrow> vessel_call" where
  "set_fields kvs v = fold (\<lambda>(f, x). set_field f x) kvs v"

lemma set_fields_other [simp]:
  "vc_id (set_fields kvs v) = vc_id v" "vc_created_at (set_fields kvs v) = vc_created_at v"
  "vc_updated_at (set_fields kvs v) = vc_updated_at v" "vc_tenant_id (set_fields kvs v) = vc_tenant_id v"
  "vc_is_merged (set_fields kvs v) = vc_is_merged v"
  "vc_merged_into_id (set_fields kvs v) = vc_merged_into_id v"
  by (induction kvs arbitrary: v) (auto simp: set_fields_def split: prod.splits)

lemma get_set_fields:
  assumes "\<forall>(f, x) \<in> set kvs. kind_ok f x" "distinct (map fst kvs)"
  shows "get_field (set_fields kvs v) g = (case map_of kvs g of Some x \<Rightarrow> x | None \<Rightarrow> get_field v g)"
  using assms
proof (induction kvs arbitrary: v)
  case Nil
  then show ?case by (simp add: set_fields_def)
next
  case (Cons kv kvs)
  obtain f x where kv: "kv = (f, x)" by (cases kv)
  have "set_fields (kv # kvs) v = set_fields kvs (set_field f x v)" by (simp add: set_fields_def kv)
  moreover have "map_of kvs f = None" using Cons.prems(2) kv by (simp add: map_of_eq_None_iff)
  ultimately show ?case using Cons kv by (auto simp: get_set_field split: option.splits)
qed

lemma comparable_fields_distinct: "distinct (map fst comparable_fields)"
  by (simp add: comparable_fields_def)

lemma consolidated_eq:
  "pv_consolidated (generate_preview v1 v2) =
     map (\<lambda>(f, _, r). (f, rs_winner_value (resolve_field f r (get_field v1 f) (get_field v2 f) (vc_id v1) (vc_id v2))))
       comparable_fields"
  by (auto simp: generate_preview_def compare_field_def Let_def split: prod.splits intro!: map_cong)

lemma consolidated_fields: "map fst (pv_consolidated (generate_preview v1 v2)) = map fst comparable_fields"
  by (simp add: consolidated_eq case_prod_unfold o_def)

lemma consolidated_value:
  assumes "(f, x) \<in> set (pv_consolidated (generate_preview v1 v2))"
  shows "(x = get_field v1 f \<or> x = get_field v2 f) \<and> (x = None \<longleftrightarrow> get_field v1 f = None \<and> get_field v2 f = None)"
proof -
  obtain r where "x = rs_winner_value (resolve_field f r (get_field v1 f) (get_field v2 f) (vc_id v1) (vc_id v2))"
    using assms by (auto simp: consolidated_eq)
  then show ?thesis
    using resolve_field_winner [of f r "get_field v1 f" "get_field v2 f" "vc_id v1" "vc_id v2"]
      resolve_field_None [of f r "get_field v1 f" "get_field v2 f" "vc_id v1" "vc_id v2"] by auto
qed

lemma consolidated_kind: "(f, x) \<in> set (pv_consolidated (generate_preview v1 v2)) \<Longrightarrow> kind_ok f x"
  using consolidated_value [of f x v1 v2] kind_ok_get_field by metis

section \<open>Properties\<close>

text \<open>Consolidation loses nothing: there is one value per comparable field, it is the value of
  one of the two records, and it is null only when both are; the record that survives has the better
  score of completeness and clean name.\<close>

theorem consolidation_keeps_information:
  "map fst (pv_consolidated (generate_preview v1 v2)) = map fst comparable_fields \<and>
   list_all (\<lambda>(f, x). (x = get_field v1 f \<or> x = get_field v2 f) \<and>
       (x = None \<longleftrightarrow> get_field v1 f = None \<and> get_field v2 f = None))
     (pv_consolidated (generate_preview v1 v2)) \<and>
   survivor_score (snd (determine_survivor_record v1 v2)) \<le>
     survivor_score (fst (determine_survivor_record v1 v2))"
proof (intro conjI)
  show "map fst (pv_consolidated (generate_preview v1 v2)) = map fst comparable_fields"
    by (rule consolidated_fields)
  show "list_all (\<lambda>(f, x). (x = get_field v1 f \<or> x = get_field v2 f) \<and>
       (x = None \<longleftrightarrow> get_field v1 f = None \<and> get_field v2 f = None)) (pv_consolidated (generate_preview v1 v2))"
    unfolding list_all_iff using consolidated_value [of _ _ v1 v2] by blast
  show "survivor_score (snd (determine_survivor_record v1 v2)) \<le> survivor_score (fst (determine_survivor_record v1 v2))"
    by (simp add: determine_survivor_record_def)
qed

end
