(* ===== verification/Merger.thy ===== *)
theory Merger
  imports Matcher Survivorship
begin

text \<open>
  \<open>apps/api/models/identity.py\<close> and \<open>apps/api/services/identity/merger.py\<close>: match candidates,
  merge decisions with the snapshot of the prior state, the merge of two vessel calls and its
  reversal. A snapshot holds the two rows as they were and the ids of the children that moved.
\<close>

section \<open>Data\<close>

datatype candidate_status = Disp disposition | CAND_MERGED

record match_candidate =
  mc_id :: uid
  mc_source_record_1_id :: uid
  mc_source_record_2_id :: uid
  mc_match_score :: rat
  mc_status :: candidate_status
  mc_match_type :: match_type
  mc_conflict_detected :: bool
  mc_conflict_reasons :: "fstring list"

record match_evidence =
  me_match_candidate_id :: uid
  me_evidence :: attribute_evidence

datatype decision_kind = DEC_MERGED | DEC_REJECTED | DEC_UNMERGED

record snapshot =
  sn_survivor_id :: uid
  sn_survivor_fields :: vessel_call
  sn_merged_id :: uid
  sn_merged_fields :: vessel_call
  sn_event_occurrences :: "uid list"
  sn_service_requests :: "uid list"
  sn_delays :: "uid list"

record merge_decision =
  md_id :: uid
  md_match_candidate_id :: uid
  md_decision :: decision_kind
  md_is_reversible :: bool
  md_survivor_record_id :: uid
  md_merged_record_id :: uid
  md_evidence_snapshot :: "attribute_evidence list"
  md_prior_state_snapshot :: "snapshot option"
  md_rule_version :: string
  md_actor :: string
  md_notes :: fstring

record identity_db = canon_db +
  match_candidates :: "match_candidate list"
  match_evidence_rows :: "match_evidence list"
  merge_decisions :: "merge_decision list"

lemma add_audit_identity [simp]:
  "match_candidates (add_audit e s) = match_candidates s"
  "match_evidence_rows (add_audit e s) = match_evidence_rows s"
  "merge_decisions (add_audit e s) = merge_decisions s"
  by (simp_all add: add_audit_def)

section \<open>Merging\<close>

text \<open>\<open>_serialize_vessel_call\<close> keeps every column (\<open>None\<close> included), so that a serialised row is
  the row; \<open>_apply_serialized_fields\<close> writes all of them but \<open>id\<close> and \<open>created_at\<close>.\<close>

definition serialize_vessel_call :: "vessel_call \<Rightarrow> vessel_call" where
  "serialize_vessel_call v = v"

definition apply_serialized_fields :: "vessel_call \<Rightarrow> vessel_call \<Rightarrow> vessel_call" where
  "apply_serialized_fields data v = data\<lparr>vc_id := vc_id v, vc_created_at := vc_created_at v\<rparr>"

text \<open>\<open>onupdate=func.now()\<close>: a row whose columns changed gets a new \<open>updated_at\<close>.\<close>

definition touch :: "time \<Rightarrow> (vessel_call \<Rightarrow> vessel_call) \<Rightarrow> vessel_call \<Rightarrow> vessel_call" where
  "touch now f v = (if f v = v then v else (f v)\<lparr>vc_updated_at := now\<rparr>)"

text \<open>One event of the merged call: dropped when the survivor already has an event of that
  definition and index, moved to the survivor otherwise.\<close>

definition transfer_event ::
    "uid \<Rightarrow> event_occurrence \<Rightarrow> event_occurrence list \<times> uid list \<Rightarrow> (event_occurrence list \<times> uid list) result" where
  "transfer_event survivor_id ev st =
     (case st of (rows, moved) \<Rightarrow>
        and_then (one_or_none (filter (\<lambda>e. eo_vessel_call_id e = survivor_id \<and>
                    eo_event_definition_id e = eo_event_definition_id ev \<and>
                    eo_occurrence_index e = eo_occurrence_index ev) rows))
          (\<lambda>duplicate. case duplicate of
             Some _ \<Rightarrow> Inr (filter (\<lambda>e. eo_id e \<noteq> eo_id ev) rows, moved)
           | None \<Rightarrow> Inr (upd_by eo_id (eo_id ev) (\<lambda>e. e\<lparr>eo_vessel_call_id := survivor_id\<rparr>) rows,
                          moved @ [eo_id ev])))"

fun transfer_events ::
    "uid \<Rightarrow> event_occurrence list \<Rightarrow> event_occurrence list \<times> uid list \<Rightarrow> (event_occurrence list \<times> uid list) result" where
  "transfer_events sid [] st = Inr st"
| "transfer_events sid (ev # evs) st = and_then (transfer_event sid ev st) (transfer_events sid evs)"

text \<open>\<open>custom\<close> is the caller's \<open>custom_survivorship\<close> (its keys among the text and numeric
  columns): it overrides the consolidated values.\<close>

definition dict_update :: "('k \<times> 'v) list \<Rightarrow> ('k \<times> 'v) list \<Rightarrow> ('k \<times> 'v) list" where
  "dict_update d e = fold (\<lambda>(k, v). AList.update k v) e d"

definition merge_rows ::
    "time \<Rightarrow> vessel_call \<Rightarrow> vessel_call \<Rightarrow> (field \<times> field_val option) list \<Rightarrow> vessel_call list \<Rightarrow> vessel_call list" where
  "merge_rows now survivor merged values rows =
     upd_by vc_id (vc_id merged)
       (touch now (\<lambda>v. v\<lparr>vc_is_merged := True, vc_merged_into_id := Some (vc_id survivor)\<rparr>))
       (upd_by vc_id (vc_id survivor) (touch now (set_fields values)) rows)"

definition rehome_services :: "uid \<Rightarrow> uid \<Rightarrow> service_request list \<Rightarrow> service_request list" where
  "rehome_services from to = map (\<lambda>r. if sr_vessel_call_id r = from then r\<lparr>sr_vessel_call_id := to\<rparr> else r)"

definition rehome_delays :: "uid \<Rightarrow> uid \<Rightarrow> delay list \<Rightarrow> delay list" where
  "rehome_delays from to = map (\<lambda>d. if dl_vessel_call_id d = from then d\<lparr>dl_vessel_call_id := to\<rparr> else d)"

definition execute_merge ::
    "time \<Rightarrow> uid \<Rightarrow> uid \<Rightarrow> string \<Rightarrow> bool \<Rightarrow> (field \<times> field_val option) list \<Rightarrow>
     'a identity_db_scheme \<Rightarrow> (merge_decision \<times> 'a identity_db_scheme) result" where
  "execute_merge now new_id candidate_id actor manual custom s =
     and_then (get_by mc_id candidate_id (match_candidates s)) (\<lambda>c.
     case c of
       None \<Rightarrow> Inl (ValueError [Lit ''MatchCandidate'', Str candidate_id, Lit ''not found''])
     | Some candidate \<Rightarrow>
       if mc_conflict_detected candidate \<and> \<not> manual
       then Inl (ValueError ([Lit ''Cannot auto-merge candidate'', Str candidate_id,
              Lit ''with conflicting identifiers:''] @ concat (mc_conflict_reasons candidate)))
       else
     and_then (get_by vc_id (mc_source_record_1_id candidate) (vessel_calls s)) (\<lambda>o1.
     and_then (get_by vc_id (mc_source_record_2_id candidate) (vessel_calls s)) (\<lambda>o2.
     case (o1, o2) of
       (Some v1, Some v2) \<Rightarrow>
         (let (survivor, merged) = determine_survivor_record v1 v2;
              sid = vc_id survivor; mid = vc_id merged;
              evs = filter (\<lambda>e. eo_vessel_call_id e = mid) (event_occurrences s)
          in and_then (transfer_events sid evs (event_occurrences s, [])) (\<lambda>(rows, moved).
            let values = dict_update (pv_consolidated (generate_preview v1 v2)) custom;
                calls = merge_rows now survivor merged values (vessel_calls s);
                survivor' = set_fields values survivor;
                evidence = map me_evidence (filter (\<lambda>e. me_match_candidate_id e = mc_id candidate)
                             (match_evidence_rows s));
                snap = \<lparr>sn_survivor_id = sid, sn_survivor_fields = serialize_vessel_call survivor,
                  sn_merged_id = mid, sn_merged_fields = serialize_vessel_call merged,
                  sn_event_occurrences = moved,
                  sn_service_requests = map sr_id (filter (\<lambda>r. sr_vessel_call_id r = mid) (service_requests s)),
                  sn_delays = map dl_id (filter (\<lambda>d. dl_vessel_call_id d = mid) (delays s))\<rparr>;
                decision = \<lparr>md_id = new_id, md_match_candidate_id = mc_id candidate,
                  md_decision = DEC_MERGED, md_is_reversible = True, md_survivor_record_id = sid,
                  md_merged_record_id = mid, md_evidence_snapshot = evidence,
                  md_prior_state_snapshot = Some snap, md_rule_version = ''1.0'', md_actor = actor,
                  md_notes = [Lit ''Merged'', OStr (vc_vessel_name merged), OStr (vc_vcn merged),
                              Lit ''into'', OStr (vc_vessel_name survivor'), OStr (vc_vcn survivor')]\<rparr>;
                audit = \<lparr>au_action = ''IDENTITY_MERGE'', au_actor_id = actor,
                  au_actor_role = (if manual then ''DATA_STEWARD'' else ''SYSTEM''),
                  au_resource_type = ''vessel_call'', au_resource_id = sid,
                  au_details = [(''candidate_id'', [Str (mc_id candidate)]), (''survivor_id'', [Str sid]),
                    (''survivor_vcn'', [OStr (vc_vcn survivor')]), (''merged_id'', [Str mid]),
                    (''merged_vcn'', [OStr (vc_vcn merged)]), (''match_score'', [Num (mc_match_score candidate)]),
                    (''manual_override'', [Lit (if manual then ''true'' else ''false'')])]\<rparr>
            in Inr (decision, add_audit audit (s\<lparr>
                 event_occurrences := rows,
                 service_requests := rehome_services mid sid (service_requests s),
                 delays := rehome_delays mid sid (delays s),
                 vessel_calls := calls,
                 merge_decisions := merge_decisions s @ [decision],
                 match_candidates := upd_by mc_id (mc_id candidate)
                   (\<lambda>m. m\<lparr>mc_status := CAND_MERGED\<rparr>) (match_candidates s)\<rparr>))))
     | _ \<Rightarrow> Inl (ValueError [Lit ''One or both candidate vessel calls could not be found in canonical store'']))))"

section \<open>Unmerging\<close>

definition rehome_ids :: "('a \<Rightarrow> uid) \<Rightarrow> ('a \<Rightarrow> 'a) \<Rightarrow> uid list \<Rightarrow> 'a list \<Rightarrow> 'a list result" where
  "rehome_ids key f ids rows =
     foldl (\<lambda>acc i. and_then acc (\<lambda>rs. and_then (get_by key i rs) (\<lambda>o'.
        case o' of None \<Rightarrow> Inr rs | Some _ \<Rightarrow> Inr (upd_by key i f rs)))) (Inr rows) ids"

record unmerge_response =
  ur_message :: string
  ur_survivor_id :: uid
  ur_merged_id :: uid

definition execute_unmerge ::
    "uid \<Rightarrow> string \<Rightarrow> string option \<Rightarrow> 'a identity_db_scheme \<Rightarrow> (unmerge_response \<times> 'a identity_db_scheme) result" where
  "execute_unmerge decision_id actor notes s =
     and_then (get_by md_id decision_id (merge_decisions s)) (\<lambda>d.
     case d of
       None \<Rightarrow> Inl (ValueError [Lit ''MergeDecision'', Str decision_id, Lit ''not found''])
     | Some decision \<Rightarrow>
       if md_decision decision \<noteq> DEC_MERGED
       then Inl (ValueError [Lit ''Decision'', Str decision_id, Lit ''cannot unmerge''])
       else let snap = md_prior_state_snapshot decision;
                survivor_id = (case snap of Some p \<Rightarrow> sn_survivor_id p | None \<Rightarrow> md_survivor_record_id decision);
                merged_id = (case snap of Some p \<Rightarrow> sn_merged_id p | None \<Rightarrow> md_merged_record_id decision)
       in
     and_then (get_by vc_id survivor_id (vessel_calls s)) (\<lambda>o1.
     and_then (get_by vc_id merged_id (vessel_calls s)) (\<lambda>o2.
     case (o1, o2) of
       (Some _, Some _) \<Rightarrow>
         (let restore = (\<lambda>proj v. case snap of Some p \<Rightarrow> apply_serialized_fields (proj p) v | None \<Rightarrow> v);
              calls = upd_by vc_id merged_id
                        ((\<lambda>v. v\<lparr>vc_is_merged := False, vc_merged_into_id := None\<rparr>) \<circ> restore sn_merged_fields)
                        (upd_by vc_id survivor_id (restore sn_survivor_fields) (vessel_calls s));
              ids = (\<lambda>proj. case snap of Some p \<Rightarrow> proj p | None \<Rightarrow> [])
          in and_then (rehome_ids eo_id (\<lambda>e. e\<lparr>eo_vessel_call_id := merged_id\<rparr>)
                         (ids sn_event_occurrences) (event_occurrences s)) (\<lambda>evs.
             and_then (rehome_ids sr_id (\<lambda>r. r\<lparr>sr_vessel_call_id := merged_id\<rparr>)
                         (ids sn_service_requests) (service_requests s)) (\<lambda>srvs.
             and_then (rehome_ids dl_id (\<lambda>r. r\<lparr>dl_vessel_call_id := merged_id\<rparr>)
                         (ids sn_delays) (delays s)) (\<lambda>dls.
             and_then (get_by mc_id (md_match_candidate_id decision) (match_candidates s)) (\<lambda>oc.
             let audit = \<lparr>au_action = ''IDENTITY_UNMERGE'', au_actor_id = actor,
                   au_actor_role = ''DATA_STEWARD'', au_resource_type = ''vessel_call'',
                   au_resource_id = survivor_id,
                   au_details = [(''decision_id'', [Str (md_id decision)]), (''survivor_id'', [Str survivor_id]),
                     (''merged_id'', [Str merged_id]), (''reason'', [OStr notes])]\<rparr>
             in Inr (\<lparr>ur_message = ''Unmerge completed successfully. Records and children restored to prior state.'',
                      ur_survivor_id = survivor_id, ur_merged_id = merged_id\<rparr>,
                  add_audit audit (s\<lparr>
                    vessel_calls := calls, event_occurrences := evs, service_requests := srvs, delays := dls,
                    merge_decisions := upd_by md_id (md_id decision)
                      (\<lambda>m. m\<lparr>md_decision := DEC_UNMERGED, md_is_reversible := False,
                        md_notes := md_notes m @ [Lit ''| Unmerged by'', Str actor,
                          (case notes of Some n \<Rightarrow> if n = '''' then Lit ''no notes'' else Str n
                           | None \<Rightarrow> Lit ''no notes'')]\<rparr>) (merge_decisions s),
                    match_candidates := (case oc of
                        Some c \<Rightarrow> upd_by mc_id (mc_id c)
                          (\<lambda>m. m\<lparr>mc_status := Disp STEWARD_REVIEW\<rparr>) (match_candidates s)
                      | None \<Rightarrow> match_candidates s)\<rparr>)))))))
     | _ \<Rightarrow> Inl (ValueError [Lit ''Survivor or merged record missing, unmerge aborted'']))))"

section \<open>Children that change owner\<close>

text \<open>What merging uses of a table of children: a primary key that an update of the owner keeps,
  and an owner column that can be overwritten.\<close>

locale child_table =
  fixes key :: "'r \<Rightarrow> uid" and owner :: "'r \<Rightarrow> uid" and set_owner :: "uid \<Rightarrow> 'r \<Rightarrow> 'r"
  assumes key_set [simp]: "key (set_owner u r) = key r"
    and owner_set [simp]: "owner (set_owner u r) = u"
    and set_set [simp]: "set_owner u (set_owner w r) = set_owner u r"
    and set_same: "set_owner (owner r) r = r"
begin

definition rehome :: "uid \<Rightarrow> uid \<Rightarrow> 'r list \<Rightarrow> 'r list" where
  "rehome from to rows = map (\<lambda>r. if owner r = from then set_owner to r else r) rows"

lemma rehome_clears: "from \<noteq> to \<Longrightarrow> r \<in> set (rehome from to rows) \<Longrightarrow> owner r \<noteq> from"
  by (auto simp: rehome_def split: if_splits)

lemma rehome_keys [simp]: "map key (rehome from to rows) = map key rows"
  by (simp add: rehome_def)

lemma rehome_ids_eq:
  assumes "distinct (map key rows)"
  shows "rehome_ids key (set_owner u) ids rows =
           Inr (map (\<lambda>r. if key r \<in> set ids then set_owner u r else r) rows)"
proof (induction ids rule: rev_induct)
  case Nil
  then show ?case by (simp add: rehome_ids_def)
next
  case (snoc i ids)
  let ?rs = "map (\<lambda>r. if key r \<in> set ids then set_owner u r else r) rows"
  have keys: "map key ?rs = map key rows" by simp
  have "rehome_ids key (set_owner u) (ids @ [i]) rows =
    and_then (get_by key i ?rs) (\<lambda>o'. case o' of None \<Rightarrow> Inr ?rs | Some _ \<Rightarrow> Inr (upd_by key i (set_owner u) ?rs))"
    using snoc by (simp add: rehome_ids_def)
  also have "\<dots> = Inr (upd_by key i (set_owner u) ?rs)"
  proof -
    obtain o' where o': "get_by key i ?rs = Inr o'"
      using one_or_none_distinct [of key ?rs i, unfolded keys, OF assms] unfolding get_by_def by blast
    have "o' = None \<Longrightarrow> upd_by key i (set_owner u) ?rs = ?rs"
      using get_by_NoneD [of key i ?rs] o' by (auto simp: upd_by_def)
    then show ?thesis using o' by (cases o') auto
  qed
  also have "upd_by key i (set_owner u) ?rs =
      map (\<lambda>r. if key r \<in> set (ids @ [i]) then set_owner u r else r) rows"
    by (auto simp: upd_by_def)
  finally show ?case .
qed

text \<open>Moving the children of one owner away, and the moved ones back, changes nothing.\<close>

lemma rehome_back:
  assumes "distinct (map key rows)"
  shows "rehome_ids key (set_owner from) (map key (filter (\<lambda>r. owner r = from) rows)) (rehome from to rows) = Inr rows"
proof -
  have "key r \<in> key ` {x \<in> set rows. owner x = from} \<longleftrightarrow> owner r = from" if "r \<in> set rows" for r
    using assms that by (auto simp: distinct_map dest: inj_onD)
  then have "map (\<lambda>r. if key r \<in> set (map key (filter (\<lambda>r. owner r = from) rows)) then set_owner from r else r)
      (rehome from to rows) = rows"
    using set_same by (auto simp: rehome_def o_def intro!: map_idI)
  then show ?thesis using assms by (subst rehome_ids_eq) simp_all
qed

end

interpretation events: child_table eo_id eo_vessel_call_id "\<lambda>u e. e\<lparr>eo_vessel_call_id := u\<rparr>"
  by unfold_locales auto

interpretation services: child_table sr_id sr_vessel_call_id "\<lambda>u r. r\<lparr>sr_vessel_call_id := u\<rparr>"
  by unfold_locales auto

interpretation delays: child_table dl_id dl_vessel_call_id "\<lambda>u d. d\<lparr>dl_vessel_call_id := u\<rparr>"
  by unfold_locales auto

lemma rehome_services_eq: "rehome_services from to = services.rehome from to"
  by (simp add: rehome_services_def services.rehome_def fun_eq_iff)

lemma rehome_delays_eq: "rehome_delays from to = delays.rehome from to"
  by (simp add: rehome_delays_def delays.rehome_def fun_eq_iff)

section \<open>The transfer of the events\<close>

definition event_key :: "event_occurrence \<Rightarrow> uid \<times> uid \<times> int" where
  "event_key e = (eo_vessel_call_id e, eo_event_definition_id e, eo_occurrence_index e)"

text \<open>The survivor already has an event of that definition and index.\<close>

definition clashes :: "uid \<Rightarrow> event_occurrence list \<Rightarrow> event_occurrence \<Rightarrow> bool" where
  "clashes sid rows e \<longleftrightarrow>
     (sid, eo_event_definition_id e, eo_occurrence_index e) \<in> event_key ` set rows"

definition moved_rows :: "uid \<Rightarrow> event_occurrence list \<Rightarrow> uid set \<Rightarrow> event_occurrence list" where
  "moved_rows sid rows D =
     map (\<lambda>e. if eo_id e \<in> D then e\<lparr>eo_vessel_call_id := sid\<rparr> else e)
       (filter (\<lambda>e. \<not> (eo_id e \<in> D \<and> clashes sid rows e)) rows)"

lemma moved_rows_lookup:
  assumes key: "distinct (map event_key rows)" and ev: "ev \<in> set rows" "eo_vessel_call_id ev = mid"
    and D: "eo_id ev \<notin> D" "\<And>e. e \<in> set rows \<Longrightarrow> eo_id e \<in> D \<Longrightarrow> eo_vessel_call_id e = mid" "mid \<noteq> sid"
  defines "Q \<equiv> \<lambda>e. eo_vessel_call_id e = sid \<and> eo_event_definition_id e = eo_event_definition_id ev
                    \<and> eo_occurrence_index e = eo_occurrence_index ev"
  shows "filter Q (moved_rows sid rows D) = filter (\<lambda>e. event_key e = (sid, eo_event_definition_id ev, eo_occurrence_index ev)) rows"
proof -
  let ?f = "\<lambda>e. if eo_id e \<in> D then e\<lparr>eo_vessel_call_id := sid\<rparr> else e"
  have no: "\<not> Q (?f e)" if e: "e \<in> set rows" "eo_id e \<in> D" for e
  proof
    assume "Q (?f e)"
    then have "event_key e = event_key ev" using D(2) [OF e] e(2) ev(2) by (simp add: Q_def event_key_def)
    then have "e = ev" using key e(1) ev(1) by (auto simp: distinct_map dest: inj_onD)
    then show False using D(1) e(2) by simp
  qed
  have "filter Q (moved_rows sid rows D) =
      map ?f (filter (Q \<circ> ?f) (filter (\<lambda>e. \<not> (eo_id e \<in> D \<and> clashes sid rows e)) rows))"
    by (simp add: moved_rows_def filter_map)
  also have "filter (Q \<circ> ?f) (filter (\<lambda>e. \<not> (eo_id e \<in> D \<and> clashes sid rows e)) rows) =
      filter (\<lambda>e. eo_id e \<notin> D \<and> Q e) rows"
    unfolding filter_filter using no by (intro filter_cong) auto
  also have "map ?f (filter (\<lambda>e. eo_id e \<notin> D \<and> Q e) rows) = filter (\<lambda>e. eo_id e \<notin> D \<and> Q e) rows"
    by (rule map_idI) simp
  also have "\<dots> = filter (\<lambda>e. event_key e = (sid, eo_event_definition_id ev, eo_occurrence_index ev)) rows"
    using D(2,3) by (intro filter_cong) (auto simp: Q_def event_key_def)
  finally show ?thesis .
qed

lemma transfer_event_step:
  assumes ids: "distinct (map eo_id rows)" and key: "distinct (map event_key rows)"
    and ev: "ev \<in> set rows" "eo_vessel_call_id ev = mid" and D: "eo_id ev \<notin> D"
    "\<And>e. e \<in> set rows \<Longrightarrow> eo_id e \<in> D \<Longrightarrow> eo_vessel_call_id e = mid" "mid \<noteq> sid"
  shows "transfer_event sid ev (moved_rows sid rows D, moved) =
           Inr (moved_rows sid rows (insert (eo_id ev) D), moved @ (if clashes sid rows ev then [] else [eo_id ev]))"
proof -
  let ?k = "(sid, eo_event_definition_id ev, eo_occurrence_index ev)"
  have same: "e = ev" if "e \<in> set rows" "eo_id e = eo_id ev" for e
    using ids that ev(1) by (auto simp: distinct_map dest: inj_onD)
  note lookup = moved_rows_lookup [OF key ev D]
  show ?thesis
  proof (cases "clashes sid rows ev")
    case True
    then have "filter (\<lambda>e. event_key e = ?k) rows \<noteq> []"
      by (force simp: clashes_def filter_empty_conv)
    then obtain r where r: "filter (\<lambda>e. event_key e = ?k) rows = [r]"
      using filter_key_cases [OF key, of ?k] by auto
    have "filter (\<lambda>e. eo_id e \<noteq> eo_id ev) (moved_rows sid rows D) = moved_rows sid rows (insert (eo_id ev) D)"
      unfolding moved_rows_def filter_map filter_filter
      using same True by (intro map_cong filter_cong) (auto split: if_splits)
    then show ?thesis using r True by (simp add: transfer_event_def lookup)
  next
    case False
    then have none: "filter (\<lambda>e. event_key e = ?k) rows = []"
      by (force simp: clashes_def filter_empty_conv)
    have "filter (\<lambda>e. \<not> (eo_id e \<in> D \<and> clashes sid rows e)) rows =
        filter (\<lambda>e. \<not> (eo_id e \<in> insert (eo_id ev) D \<and> clashes sid rows e)) rows"
      using same False by (intro filter_cong) auto
    then have "upd_by eo_id (eo_id ev) (\<lambda>e. e\<lparr>eo_vessel_call_id := sid\<rparr>) (moved_rows sid rows D) =
        moved_rows sid rows (insert (eo_id ev) D)"
      by (auto simp: moved_rows_def upd_by_def)
    then show ?thesis using none False by (simp add: transfer_event_def lookup)
  qed
qed

lemma transfer_events_run:
  assumes "distinct (map eo_id rows)" "distinct (map event_key rows)" "mid \<noteq> sid"
    and "set evs \<subseteq> {e \<in> set rows. eo_vessel_call_id e = mid}" "distinct (map eo_id evs)"
    and "\<And>e. e \<in> set rows \<Longrightarrow> eo_id e \<in> D \<Longrightarrow> eo_vessel_call_id e = mid" "D \<inter> eo_id ` set evs = {}"
  shows "transfer_events sid evs (moved_rows sid rows D, moved) =
           Inr (moved_rows sid rows (D \<union> eo_id ` set evs), moved @ map eo_id (filter (Not \<circ> clashes sid rows) evs))"
  using assms(4-)
proof (induction evs arbitrary: D moved)
  case Nil
  then show ?case by simp
next
  case (Cons ev evs)
  have own: "e \<in> set rows \<Longrightarrow> eo_id e \<in> insert (eo_id ev) D \<Longrightarrow> eo_vessel_call_id e = mid" for e
    using Cons.prems(1,3) assms(1) by (auto simp: distinct_map dest: inj_onD)
  have "transfer_event sid ev (moved_rows sid rows D, moved) =
      Inr (moved_rows sid rows (insert (eo_id ev) D), moved @ (if clashes sid rows ev then [] else [eo_id ev]))"
    using Cons.prems assms(1-3) by (intro transfer_event_step [where mid = mid]) auto
  then show ?case using Cons.IH [of "insert (eo_id ev) D"] Cons.prems own by auto
qed

text \<open>Events of the merged call that the survivor lacks are kept, the others are dropped.\<close>

definition kept_rows :: "uid \<Rightarrow> uid \<Rightarrow> event_occurrence list \<Rightarrow> event_occurrence list" where
  "kept_rows mid sid rows = filter (\<lambda>e. \<not> (eo_vessel_call_id e = mid \<and> clashes sid rows e)) rows"

lemma transfer_events_eq:
  assumes ids: "distinct (map eo_id rows)" and key: "distinct (map event_key rows)" and ne: "mid \<noteq> sid"
  shows "transfer_events sid (filter (\<lambda>e. eo_vessel_call_id e = mid) rows) (rows, []) =
           Inr (events.rehome mid sid (kept_rows mid sid rows),
                map eo_id (filter (\<lambda>e. eo_vessel_call_id e = mid) (kept_rows mid sid rows)))"
proof -
  let ?evs = "filter (\<lambda>e. eo_vessel_call_id e = mid) rows"
  have mem: "eo_id e \<in> eo_id ` set ?evs \<longleftrightarrow> eo_vessel_call_id e = mid" if "e \<in> set rows" for e
    using that ids by (auto simp: distinct_map dest: inj_onD)
  have "moved_rows sid rows {} = rows" by (simp add: moved_rows_def)
  then have "transfer_events sid ?evs (rows, []) =
      Inr (moved_rows sid rows (eo_id ` set ?evs), map eo_id (filter (Not \<circ> clashes sid rows) ?evs))"
    using transfer_events_run [OF ids key ne, of ?evs "{}" "[]"] ids by (simp add: distinct_map_filter)
  moreover have "moved_rows sid rows (eo_id ` set ?evs) = events.rehome mid sid (kept_rows mid sid rows)"
  proof -
    have "filter (\<lambda>e. \<not> (eo_id e \<in> eo_id ` set ?evs \<and> clashes sid rows e)) rows = kept_rows mid sid rows"
      unfolding kept_rows_def using mem by (intro filter_cong) auto
    moreover have "set (kept_rows mid sid rows) \<subseteq> set rows" by (auto simp: kept_rows_def)
    ultimately show ?thesis unfolding moved_rows_def events.rehome_def
      using mem by (intro map_cong) auto
  qed
  moreover have "filter (Not \<circ> clashes sid rows) ?evs = filter (\<lambda>e. eo_vessel_call_id e = mid) (kept_rows mid sid rows)"
    unfolding kept_rows_def filter_filter by (intro filter_cong) auto
  ultimately show ?thesis by simp
qed

section \<open>What a merge does\<close>

text \<open>The primary keys and the unique constraint \<open>uq_event_occurrence\<close> of the tables involved.\<close>

definition identity_ok :: "'a identity_db_scheme \<Rightarrow> bool" where
  "identity_ok s \<longleftrightarrow>
     distinct (map vc_id (vessel_calls s)) \<and> distinct (map eo_id (event_occurrences s)) \<and>
     distinct (map event_key (event_occurrences s)) \<and> distinct (map sr_id (service_requests s)) \<and>
     distinct (map dl_id (delays s)) \<and> distinct (map mc_id (match_candidates s)) \<and>
     distinct (map md_id (merge_decisions s)) \<and>
     (\<forall>c \<in> set (match_candidates s). mc_source_record_1_id c \<noteq> mc_source_record_2_id c)"

lemma get_by_distinct:
  assumes "distinct (map key rows)" "r \<in> set rows"
  shows "get_by key (key r) rows = Inr (Some r)"
proof -
  obtain r' where r': "filter (\<lambda>x. key x = key r) rows = [r']"
    using filter_key_cases [OF assms(1), of "key r"] assms(2) by (auto simp: filter_empty_conv)
  have "r \<in> set (filter (\<lambda>x. key x = key r) rows)" using assms(2) by simp
  then have "r' = r" unfolding r' by simp
  then show ?thesis using r' by (simp add: get_by_def)
qed

record merge_facts =
  mf_survivor :: vessel_call
  mf_merged :: vessel_call
  mf_values :: "(field \<times> field_val option) list"

definition merge_outcome ::
    "time \<Rightarrow> bool \<Rightarrow> (field \<times> field_val option) list \<Rightarrow> 'a identity_db_scheme \<Rightarrow> match_candidate \<Rightarrow> merge_facts \<Rightarrow>
     merge_decision \<Rightarrow> 'a identity_db_scheme \<Rightarrow> bool" where
  "merge_outcome now manual custom s candidate f d s' \<longleftrightarrow>
     (let sid = vc_id (mf_survivor f); mid = vc_id (mf_merged f) in
        candidate \<in> set (match_candidates s) \<and> (mc_conflict_detected candidate \<longrightarrow> manual) \<and>
        mf_survivor f \<in> set (vessel_calls s) \<and> mf_merged f \<in> set (vessel_calls s) \<and> mid \<noteq> sid \<and>
        {sid, mid} = {mc_source_record_1_id candidate, mc_source_record_2_id candidate} \<and>
        vessel_calls s' = merge_rows now (mf_survivor f) (mf_merged f) (mf_values f) (vessel_calls s) \<and>
        event_occurrences s' = events.rehome mid sid (kept_rows mid sid (event_occurrences s)) \<and>
        service_requests s' = services.rehome mid sid (service_requests s) \<and>
        delays s' = delays.rehome mid sid (delays s) \<and>
        merge_decisions s' = merge_decisions s @ [d] \<and>
        match_candidates s' = upd_by mc_id (mc_id candidate) (\<lambda>m. m\<lparr>mc_status := CAND_MERGED\<rparr>) (match_candidates s) \<and>
        md_decision d = DEC_MERGED \<and> md_match_candidate_id d = mc_id candidate \<and>
        md_survivor_record_id d = sid \<and> md_merged_record_id d = mid \<and>
        md_prior_state_snapshot d = Some \<lparr>sn_survivor_id = sid, sn_survivor_fields = mf_survivor f,
          sn_merged_id = mid, sn_merged_fields = mf_merged f,
          sn_event_occurrences = map eo_id (filter (\<lambda>e. eo_vessel_call_id e = mid) (kept_rows mid sid (event_occurrences s))),
          sn_service_requests = map sr_id (filter (\<lambda>r. sr_vessel_call_id r = mid) (service_requests s)),
          sn_delays = map dl_id (filter (\<lambda>r. dl_vessel_call_id r = mid) (delays s))\<rparr>)"

lemma execute_merge_guard:
  assumes "get_by mc_id cid (match_candidates s) = Inr (Some c)" "mc_conflict_detected c"
  shows "\<exists>msg. execute_merge now new_id cid actor False custom s = Inl (ValueError msg)"
  using assms by (simp add: execute_merge_def)

lemma execute_merge_inputs:
  assumes run: "execute_merge now new_id cid actor manual custom s = Inr (d, s')"
  shows "\<exists>c v1 v2. get_by mc_id cid (match_candidates s) = Inr (Some c) \<and>
    get_by vc_id (mc_source_record_1_id c) (vessel_calls s) = Inr (Some v1) \<and>
    get_by vc_id (mc_source_record_2_id c) (vessel_calls s) = Inr (Some v2) \<and>
    (mc_conflict_detected c \<and> \<not> manual) = False"
proof -
  note run' = run [unfolded execute_merge_def]
  obtain o0 where o0: "get_by mc_id cid (match_candidates s) = Inr o0"
    using run' unfolding and_then_Inr_iff by blast
  obtain c where c: "o0 = Some c" using run' unfolding o0 and_then_simps by (cases o0) simp_all
  note run1 = run' [unfolded o0 c and_then_simps option.case]
  have g: "(mc_conflict_detected c \<and> \<not> manual) = False"
    using run1 by (cases "mc_conflict_detected c \<and> \<not> manual") simp_all
  note run2 = run1 [unfolded g if_False]
  obtain o1 where o1: "get_by vc_id (mc_source_record_1_id c) (vessel_calls s) = Inr o1"
    using run2 unfolding and_then_Inr_iff by blast
  note run3 = run2 [unfolded o1 and_then_simps]
  obtain o2 where o2: "get_by vc_id (mc_source_record_2_id c) (vessel_calls s) = Inr o2"
    using run3 unfolding and_then_Inr_iff by blast
  note run4 = run3 [unfolded o2 and_then_simps prod.case]
  obtain v1 v2 where "o1 = Some v1" "o2 = Some v2"
    using run4 by (cases o1; cases o2) simp_all
  then show ?thesis using o0 c g o1 o2 by blast
qed

lemma execute_merge_outcome:
  assumes ok: "identity_ok s" and run: "execute_merge now new_id cid actor manual custom s = Inr (d, s')"
  obtains c v1 v2 f where "mc_id c = cid" "get_by vc_id (mc_source_record_1_id c) (vessel_calls s) = Inr (Some v1)"
    "get_by vc_id (mc_source_record_2_id c) (vessel_calls s) = Inr (Some v2)"
    "determine_survivor_record v1 v2 = (mf_survivor f, mf_merged f)"
    "mf_values f = dict_update (pv_consolidated (generate_preview v1 v2)) custom"
    "merge_outcome now manual custom s c f d s'" "md_id d = new_id"
proof -
  obtain c v1 v2 where c: "get_by mc_id cid (match_candidates s) = Inr (Some c)"
    and v: "get_by vc_id (mc_source_record_1_id c) (vessel_calls s) = Inr (Some v1)"
      "get_by vc_id (mc_source_record_2_id c) (vessel_calls s) = Inr (Some v2)"
    and g: "(mc_conflict_detected c \<and> \<not> manual) = False"
    using execute_merge_inputs [OF run] by blast
  then have cm: "c \<in> set (match_candidates s)" "mc_id c = cid" and guard: "mc_conflict_detected c \<longrightarrow> manual"
    by (auto dest: get_by_SomeD)
  obtain survivor merged where sm: "determine_survivor_record v1 v2 = (survivor, merged)" by force
  define values' where "values' = dict_update (pv_consolidated (generate_preview v1 v2)) custom"
  define f where "f = \<lparr>mf_survivor = survivor, mf_merged = merged, mf_values = values'\<rparr>"
  have vm: "v1 \<in> set (vessel_calls s)" "vc_id v1 = mc_source_record_1_id c"
      "v2 \<in> set (vessel_calls s)" "vc_id v2 = mc_source_record_2_id c"
    using v by (auto dest: get_by_SomeD)
  have two: "{survivor, merged} = {v1, v2}" using survivor_has_best_score [OF sm] by simp
  have ne: "vc_id v1 \<noteq> vc_id v2" using ok cm vm by (auto simp: identity_ok_def)
  have mem: "survivor \<in> set (vessel_calls s)" "merged \<in> set (vessel_calls s)" "vc_id merged \<noteq> vc_id survivor"
      "{vc_id survivor, vc_id merged} = {mc_source_record_1_id c, mc_source_record_2_id c}"
    using two vm ne by (auto simp: doubleton_eq_iff)
  have ev: "transfer_events (vc_id survivor) (filter (\<lambda>e. eo_vessel_call_id e = vc_id merged) (event_occurrences s))
      (event_occurrences s, []) = Inr (events.rehome (vc_id merged) (vc_id survivor) (kept_rows (vc_id merged) (vc_id survivor) (event_occurrences s)),
        map eo_id (filter (\<lambda>e. eo_vessel_call_id e = vc_id merged) (kept_rows (vc_id merged) (vc_id survivor) (event_occurrences s))))"
    using ok mem by (intro transfer_events_eq) (auto simp: identity_ok_def)
  note run2 = run [unfolded execute_merge_def c v and_then_simps option.case prod.case g if_False sm Let_def ev
      sum.inject prod.inject]
  have "merge_outcome now manual custom s c f d s'"
    unfolding merge_outcome_def Let_def f_def values'_def
      run2 [THEN conjunct1, symmetric] run2 [THEN conjunct2, symmetric]
    using guard cm(1) mem by (simp add: serialize_vessel_call_def rehome_services_eq rehome_delays_eq)
  moreover have "md_id d = new_id" unfolding run2 [THEN conjunct1, symmetric] by simp
  ultimately show ?thesis using that [of c v1 v2 f] cm v sm by (simp add: f_def values'_def)
qed

section \<open>Unmerging restores\<close>

lemma same_row:
  "distinct (map vc_id rows) \<Longrightarrow> u \<in> set rows \<Longrightarrow> v \<in> set rows \<Longrightarrow> vc_id u = vc_id v \<Longrightarrow> u = v"
  by (auto simp: distinct_map dest: inj_onD)

lemma merge_rows_map:
  assumes "vc_id merged \<noteq> vc_id survivor"
  shows "merge_rows now survivor merged values rows =
     map (\<lambda>v. if vc_id v = vc_id survivor then touch now (set_fields values) v
              else if vc_id v = vc_id merged
                then touch now (\<lambda>v. v\<lparr>vc_is_merged := True, vc_merged_into_id := Some (vc_id survivor)\<rparr>) v
              else v) rows"
  using assms by (auto simp: merge_rows_def upd_by_def touch_def)

lemma touch_id [simp]: "(\<And>v. vc_id (f v) = vc_id v) \<Longrightarrow> vc_id (touch now f v) = vc_id v"
  by (simp add: touch_def)

lemma touch_created_at [simp]:
  "(\<And>v. vc_created_at (f v) = vc_created_at v) \<Longrightarrow> vc_created_at (touch now f v) = vc_created_at v"
  by (simp add: touch_def)

lemma merge_rows_ids: "map vc_id (merge_rows now survivor merged values rows) = map vc_id rows"
  unfolding merge_rows_def by (subst map_upd_by_key, simp)+ simp

lemma apply_serialized_back:
  "vc_id w = vc_id v \<Longrightarrow> vc_created_at w = vc_created_at v \<Longrightarrow> apply_serialized_fields v w = v"
  by (simp add: apply_serialized_fields_def)

lemma rows_restored:
  assumes d: "distinct (map vc_id rows)" and m: "survivor \<in> set rows" "merged \<in> set rows" "vc_id merged \<noteq> vc_id survivor"
    and fresh: "\<not> vc_is_merged merged" "vc_merged_into_id merged = None"
  shows "upd_by vc_id (vc_id merged)
           ((\<lambda>v. v\<lparr>vc_is_merged := False, vc_merged_into_id := None\<rparr>) \<circ> apply_serialized_fields merged)
           (upd_by vc_id (vc_id survivor) (apply_serialized_fields survivor)
             (merge_rows now survivor merged values rows)) = rows"
proof -
  let ?g = "\<lambda>v. if vc_id v = vc_id survivor then apply_serialized_fields survivor (touch now (set_fields values) v)
      else if vc_id v = vc_id merged then (apply_serialized_fields merged
        (touch now (\<lambda>v. v\<lparr>vc_is_merged := True, vc_merged_into_id := Some (vc_id survivor)\<rparr>) v))
          \<lparr>vc_is_merged := False, vc_merged_into_id := None\<rparr>
      else v"
  have "?g v = v" if v: "v \<in> set rows" for v
  proof -
    consider "v = survivor" | "v = merged" | "vc_id v \<noteq> vc_id survivor" "vc_id v \<noteq> vc_id merged"
      using same_row [OF d v m(1)] same_row [OF d v m(2)] by blast
    then show ?thesis
    proof cases
      case 1
      then show ?thesis by (simp add: apply_serialized_back)
    next
      case 2
      then show ?thesis using m(3) fresh by (simp add: apply_serialized_back)
    next
      case 3
      then show ?thesis by simp
    qed
  qed
  moreover have "upd_by vc_id (vc_id merged)
           ((\<lambda>v. v\<lparr>vc_is_merged := False, vc_merged_into_id := None\<rparr>) \<circ> apply_serialized_fields merged)
           (upd_by vc_id (vc_id survivor) (apply_serialized_fields survivor)
             (merge_rows now survivor merged values rows)) = map ?g rows"
    unfolding merge_rows_map [OF m(3)] upd_by_def map_map o_def
    by (rule map_cong [OF refl]) (use m(3) in \<open>auto simp: apply_serialized_fields_def\<close>)
  ultimately show ?thesis by (simp add: map_idI)
qed

lemma get_by_append_fresh:
  assumes "new \<notin> key ` set rows" "key r = new"
  shows "get_by key new (rows @ [r]) = Inr (Some r)"
proof -
  have "filter (\<lambda>x. key x = new) rows = []" using assms(1) by (auto simp: filter_empty_conv)
  then show ?thesis using assms(2) by (simp add: get_by_def)
qed

lemma get_by_upd_by:
  assumes "\<And>r. key (f r) = key r"
  shows "get_by key k (upd_by key j f rows) = map_sum id (map_option (\<lambda>r. if key r = j then f r else r)) (get_by key k rows)"
proof -
  have "filter (\<lambda>r. key r = k) (upd_by key j f rows) =
      map (\<lambda>r. if key r = j then f r else r) (filter (\<lambda>r. key r = k) rows)"
    unfolding upd_by_def filter_map o_def using assms by (intro map_cong filter_cong) auto
  then show ?thesis by (auto simp: get_by_def one_or_none_def split: list.splits)
qed

lemma unmerge_restores:
  assumes ok: "identity_ok s" and run: "execute_merge now new_id cid actor manual custom s = Inr (d, s1)"
    and new: "new_id \<notin> md_id ` set (merge_decisions s)"
    and fresh: "\<forall>v \<in> set (vessel_calls s). vc_id v = md_merged_record_id d \<longrightarrow> \<not> vc_is_merged v \<and> vc_merged_into_id v = None"
  shows "\<exists>r s2. execute_unmerge new_id actor' notes s1 = Inr (r, s2) \<and> vessel_calls s2 = vessel_calls s
     \<and> service_requests s2 = service_requests s \<and> delays s2 = delays s
     \<and> event_occurrences s2 = kept_rows (md_merged_record_id d) (md_survivor_record_id d) (event_occurrences s)"
proof -
  obtain c f where c: "mc_id c = cid" and out: "merge_outcome now manual custom s c f d s1" and "md_id d = new_id"
    using execute_merge_outcome [OF ok run] by metis
  define sid where "sid = vc_id (mf_survivor f)"
  define mid where "mid = vc_id (mf_merged f)"
  note o' = out [unfolded merge_outcome_def Let_def, folded sid_def mid_def]
  have d: "get_by md_id new_id (merge_decisions s1) = Inr (Some d)"
    using o' new \<open>md_id d = new_id\<close> by (simp add: get_by_append_fresh)
  have calls: "map vc_id (vessel_calls s1) = map vc_id (vessel_calls s)"
    using o' by (simp add: merge_rows_ids)
  have found: "\<exists>v. get_by vc_id i (vessel_calls s1) = Inr (Some v)" if "i \<in> {sid, mid}" for i
  proof -
    have "vc_id ` set (vessel_calls s1) = vc_id ` set (vessel_calls s)"
      using arg_cong [OF calls, of set] by simp
    moreover have "i \<in> vc_id ` set (vessel_calls s)" using o' that by (auto simp: sid_def mid_def)
    ultimately have "i \<in> vc_id ` set (vessel_calls s1)" by blast
    then obtain v where "v \<in> set (vessel_calls s1)" "vc_id v = i" by auto
    then show ?thesis using get_by_distinct [of vc_id "vessel_calls s1" v] ok calls by (auto simp: identity_ok_def)
  qed
  obtain vs vm where v: "get_by vc_id sid (vessel_calls s1) = Inr (Some vs)"
    "get_by vc_id mid (vessel_calls s1) = Inr (Some vm)" using found by blast
  have cand: "c \<in> set (match_candidates s)" "distinct (map mc_id (match_candidates s))"
    using o' ok by (auto simp: identity_ok_def)
  have oc: "get_by mc_id (mc_id c) (match_candidates s1) = Inr (Some (c\<lparr>mc_status := CAND_MERGED\<rparr>))"
    using o' get_by_distinct [OF cand(2,1)] by (simp add: get_by_upd_by)
  have kept: "distinct (map eo_id (kept_rows mid sid (event_occurrences s)))"
    using ok by (simp add: identity_ok_def kept_rows_def distinct_map_filter)
  have merged: "\<not> vc_is_merged (mf_merged f)" "vc_merged_into_id (mf_merged f) = None"
    using fresh o' by (auto simp: mid_def)
  have restored: "upd_by vc_id mid
           ((\<lambda>v. v\<lparr>vc_is_merged := False, vc_merged_into_id := None\<rparr>) \<circ> apply_serialized_fields (mf_merged f))
           (upd_by vc_id sid (apply_serialized_fields (mf_survivor f)) (vessel_calls s1)) = vessel_calls s"
    using rows_restored [of "vessel_calls s" "mf_survivor f" "mf_merged f" now "mf_values f"] ok o' merged
    by (simp add: identity_ok_def sid_def mid_def)
  have rehomed: "rehome_ids eo_id (\<lambda>e. e\<lparr>eo_vessel_call_id := mid\<rparr>)
      (map eo_id (filter (\<lambda>e. eo_vessel_call_id e = mid) (kept_rows mid sid (event_occurrences s)))) (event_occurrences s1)
      = Inr (kept_rows mid sid (event_occurrences s))"
    "rehome_ids sr_id (\<lambda>r. r\<lparr>sr_vessel_call_id := mid\<rparr>)
      (map sr_id (filter (\<lambda>r. sr_vessel_call_id r = mid) (service_requests s))) (service_requests s1) = Inr (service_requests s)"
    "rehome_ids dl_id (\<lambda>r. r\<lparr>dl_vessel_call_id := mid\<rparr>)
      (map dl_id (filter (\<lambda>r. dl_vessel_call_id r = mid) (delays s))) (delays s1) = Inr (delays s)"
    using o' kept ok events.rehome_back services.rehome_back delays.rehome_back by (auto simp: identity_ok_def)
  have fields: "md_decision d = DEC_MERGED" "md_match_candidate_id d = mc_id c"
      "md_survivor_record_id d = sid" "md_merged_record_id d = mid"
      "md_prior_state_snapshot d = Some \<lparr>sn_survivor_id = sid, sn_survivor_fields = mf_survivor f,
          sn_merged_id = mid, sn_merged_fields = mf_merged f,
          sn_event_occurrences = map eo_id (filter (\<lambda>e. eo_vessel_call_id e = mid) (kept_rows mid sid (event_occurrences s))),
          sn_service_requests = map sr_id (filter (\<lambda>r. sr_vessel_call_id r = mid) (service_requests s)),
          sn_delays = map dl_id (filter (\<lambda>r. dl_vessel_call_id r = mid) (delays s))\<rparr>"
    using o' by blast+
  show ?thesis
    by (simp add: execute_unmerge_def d v oc Let_def fields restored rehomed)
qed

text \<open>So nothing is lost exactly when no event of the merged call clashed with one of the survivor.\<close>

lemma kept_rows_all: "kept_rows mid sid rows = rows \<longleftrightarrow>
    (\<forall>e \<in> set rows. eo_vessel_call_id e = mid \<longrightarrow> \<not> clashes sid rows e)"
  by (auto simp: kept_rows_def filter_id_conv)

lemma unmerge_twice:
  assumes "get_by md_id i (merge_decisions s) = Inr (Some d)" "md_decision d \<noteq> DEC_MERGED"
  shows "\<exists>msg. execute_unmerge i actor notes s = Inl (ValueError msg)"
  using assms by (simp add: execute_unmerge_def)

end
