(* ===== verification/IdentityEngine.thy ===== *)
theory IdentityEngine
  imports Merger "HOL-Library.List_Lexorder" "HOL-Library.Char_ord"
begin

text \<open>
  \<open>apps/api/services/identity/engine.py\<close>: the scan that compares every pair of unmerged vessel
  calls of a tenant and stores a match candidate for each pair with something in common, the
  quality issues it registers for duplicates, and the automatic merge of the eligible candidates.
\<close>

section \<open>Quality issues for duplicates\<close>

definition register_quality_issue ::
    "(nat \<Rightarrow> uid) \<Rightarrow> string \<Rightarrow> uid \<Rightarrow> string \<Rightarrow> string \<Rightarrow> 'a canon_db_scheme \<Rightarrow> 'a canon_db_scheme result" where
  "register_quality_issue uuid rule_id vc ref severity s =
     and_then (get_by qr_rule_id rule_id (quality_rules s)) (\<lambda>found.
     let (rule, s1) = (case found of
            Some r \<Rightarrow> (r, s)
          | None \<Rightarrow>
              let r = \<lparr>qr_id = uuid (draws s), qr_rule_id = rule_id, qr_scope = ''vessel_call'',
                       qr_severity = severity, qr_pass_fail_expression = ''no duplicate vessel calls'',
                       qr_remediation_guidance = None\<rparr>
              in (r, s\<lparr>quality_rules := quality_rules s @ [r], draws := Suc (draws s)\<rparr>))
     in and_then (one_or_none (filter (\<lambda>i. qi_rule_id i = qr_id rule \<and> qi_vessel_call_id i = Some vc)
                    (quality_issues s1))) (\<lambda>existing.
        case existing of
          Some _ \<Rightarrow> Inr s1
        | None \<Rightarrow> Inr (s1\<lparr>quality_issues := quality_issues s1 @
            [\<lparr>qi_id = uuid (draws s1), qi_rule_id = qr_id rule, qi_vessel_call_id = Some vc,
              qi_record_reference = ref,
              qi_issue_status = (if severity = ''CRITICAL'' then ISSUE_RESOLVED else ISSUE_OPEN)\<rparr>],
            draws := Suc (draws s1)\<rparr>)))"

section \<open>The scan\<close>

definition pair_ids :: "vessel_call \<Rightarrow> vessel_call \<Rightarrow> uid \<times> uid" where
  "pair_ids v1 v2 = (if vc_id v2 < vc_id v1 then (vc_id v2, vc_id v1) else (vc_id v1, vc_id v2))"

text \<open>The blocking filter.\<close>

definition comparable :: "vessel_call \<Rightarrow> vessel_call \<Rightarrow> bool" where
  "comparable v1 v2 \<longleftrightarrow> key_agrees Vcn v1 v2 \<or> key_agrees Imo_number v1 v2 \<or>
     fl (70 / 100) \<le> fst (similarity (vc_vessel_name v1) (vc_vessel_name v2))"

definition cand_key :: "match_candidate \<Rightarrow> uid \<times> uid" where
  "cand_key c = (mc_source_record_1_id c, mc_source_record_2_id c)"

definition refresh_candidate :: "match_result \<Rightarrow> match_candidate \<Rightarrow> match_candidate" where
  "refresh_candidate r c = c\<lparr>mc_match_score := mr_match_score r, mc_status := Disp (mr_status r),
     mc_match_type := mr_match_type r, mc_conflict_detected := mr_conflict_detected r,
     mc_conflict_reasons := mr_conflict_reasons r\<rparr>"

definition new_candidate :: "uid \<Rightarrow> uid \<times> uid \<Rightarrow> match_result \<Rightarrow> match_candidate" where
  "new_candidate i ids r = \<lparr>mc_id = i, mc_source_record_1_id = fst ids, mc_source_record_2_id = snd ids,
     mc_match_score = mr_match_score r, mc_status = Disp (mr_status r), mc_match_type = mr_match_type r,
     mc_conflict_detected = mr_conflict_detected r, mc_conflict_reasons = mr_conflict_reasons r\<rparr>"

definition register_duplicate ::
    "(nat \<Rightarrow> uid) \<Rightarrow> vessel_call \<Rightarrow> vessel_call \<Rightarrow> match_result \<Rightarrow> 'a canon_db_scheme \<Rightarrow> 'a canon_db_scheme result" where
  "register_duplicate uuid v1 v2 r s =
     (let same_vcn = key_agrees Vcn v1 v2; sim = fst (similarity (vc_vessel_name v1) (vc_vessel_name v2))
      in if same_vcn \<and> sim = 1 \<and> fl (98 / 100) \<le> mr_match_score r
         then register_quality_issue uuid ''DQ-001'' (vc_id v2) (''VesselCall:'' @ vc_id v2) ''CRITICAL'' s
         else if same_vcn \<and> fl (98 / 100) \<le> sim \<and> fl (98 / 100) \<le> mr_match_score r
         then register_quality_issue uuid ''DQ-002'' (vc_id v2) (''VesselCall:'' @ vc_id v2) ''HIGH'' s
         else Inr s)"

definition process_pair ::
    "matcher \<Rightarrow> (nat \<Rightarrow> uid) \<Rightarrow> vessel_call \<times> vessel_call \<Rightarrow> uid list \<times> 'a identity_db_scheme \<Rightarrow>
     (uid list \<times> 'a identity_db_scheme) result" where
  "process_pair m uuid pr st =
     (case (pr, st) of ((v1, v2), (created, s)) \<Rightarrow>
        if \<not> comparable v1 v2 then Inr (created, s)
        else let result = evaluate_pair m v1 v2; ids = pair_ids v1 v2
        in and_then (get_by cand_key ids (match_candidates s)) (\<lambda>existing.
           case existing of
             None \<Rightarrow>
               (let c = new_candidate (uuid (draws s)) ids result;
                    s1 = s\<lparr>match_candidates := match_candidates s @ [c],
                      match_evidence_rows := match_evidence_rows s @
                        map (\<lambda>ev. \<lparr>me_match_candidate_id = mc_id c, me_evidence = ev\<rparr>) (mr_evidence_breakdown result),
                      draws := Suc (draws s)\<rparr>
                in and_then (register_duplicate uuid v1 v2 result s1) (\<lambda>s2. Inr (created @ [mc_id c], s2)))
           | Some c \<Rightarrow> Inr (created @ [mc_id c],
               s\<lparr>match_candidates := upd_by cand_key ids (refresh_candidate result) (match_candidates s)\<rparr>)))"

fun all_pairs :: "'a list \<Rightarrow> ('a \<times> 'a) list" where
  "all_pairs [] = []"
| "all_pairs (x # xs) = map (Pair x) xs @ all_pairs xs"

text \<open>\<open>VesselCall.is_merged == False\<close> within the tenant; an empty tenant id means every tenant.\<close>

definition unmerged_calls :: "string \<Rightarrow> 'a canon_db_scheme \<Rightarrow> vessel_call list" where
  "unmerged_calls tenant_id s =
     filter (\<lambda>v. \<not> vc_is_merged v \<and> (tenant_id = '''' \<or> vc_tenant_id v = tenant_id)) (vessel_calls s)"

definition generate_candidates ::
    "matcher \<Rightarrow> (nat \<Rightarrow> uid) \<Rightarrow> string \<Rightarrow> 'a identity_db_scheme \<Rightarrow> (uid list \<times> 'a identity_db_scheme) result" where
  "generate_candidates m uuid tenant_id s =
     run_steps (process_pair m uuid) (all_pairs (unmerged_calls tenant_id s)) ([], s)"

section \<open>Automatic merging\<close>

text \<open>The candidates are those the scan returned, read in their current state; an exception of
  one merge is printed and the loop goes on.\<close>

definition auto_merge_one ::
    "time \<Rightarrow> (nat \<Rightarrow> uid) \<Rightarrow> uid \<Rightarrow> merge_decision list \<times> 'a identity_db_scheme \<Rightarrow>
     merge_decision list \<times> 'a identity_db_scheme" where
  "auto_merge_one now uuid cid st =
     (case st of (ds, s) \<Rightarrow>
        (case get_by mc_id cid (match_candidates s) of
           Inr (Some c) \<Rightarrow>
             if mc_status c = Disp AUTO_MERGE_CANDIDATE \<and> \<not> mc_conflict_detected c
             then (case execute_merge now (uuid (draws s)) cid ''system:auto_merge'' False [] s of
                     Inr (d, s') \<Rightarrow> (ds @ [d], s'\<lparr>draws := Suc (draws s)\<rparr>)
                   | Inl _ \<Rightarrow> (ds, s))
             else (ds, s)
         | _ \<Rightarrow> (ds, s)))"

definition auto_merge_candidates ::
    "matcher \<Rightarrow> time \<Rightarrow> (nat \<Rightarrow> uid) \<Rightarrow> string \<Rightarrow> 'a identity_db_scheme \<Rightarrow>
     (merge_decision list \<times> 'a identity_db_scheme) result" where
  "auto_merge_candidates m now uuid tenant_id s =
     and_then (generate_candidates m uuid tenant_id s)
       (\<lambda>(cands, s'). Inr (fold (auto_merge_one now uuid) cands ([], s')))"

definition consolidated_population :: "string \<Rightarrow> 'a canon_db_scheme \<Rightarrow> nat" where
  "consolidated_population tenant_id s = length (unmerged_calls tenant_id s)"

section \<open>Good states of the scan\<close>

text \<open>The rules of the two duplicate cases have at most one issue per vessel call, and the
  identifiers still to be drawn are unused.\<close>

definition issues_ok :: "(nat \<Rightarrow> uid) \<Rightarrow> 'a canon_db_scheme \<Rightarrow> bool" where
  "issues_ok uuid s \<longleftrightarrow>
     inj uuid \<and> distinct (map qr_rule_id (quality_rules s)) \<and>
     (\<forall>r \<in> set (quality_rules s). qr_rule_id r \<in> {''DQ-001'', ''DQ-002''} \<longrightarrow>
        distinct (map qi_vessel_call_id (filter (\<lambda>i. qi_rule_id i = qr_id r) (quality_issues s)))) \<and>
     (\<forall>r \<in> set (quality_rules s). \<forall>r' \<in> set (quality_rules s). qr_id r = qr_id r' \<longrightarrow> r = r') \<and>
     (\<forall>n \<ge> draws s. uuid n \<notin> qr_id ` set (quality_rules s) \<and> uuid n \<notin> qi_rule_id ` set (quality_issues s))"

lemma issues_okD:
  assumes "issues_ok uuid s"
  shows "inj uuid" "distinct (map qr_rule_id (quality_rules s))"
    "\<And>r. r \<in> set (quality_rules s) \<Longrightarrow> qr_rule_id r \<in> {''DQ-001'', ''DQ-002''} \<Longrightarrow>
        distinct (map qi_vessel_call_id (filter (\<lambda>i. qi_rule_id i = qr_id r) (quality_issues s)))"
    "\<And>r r'. r \<in> set (quality_rules s) \<Longrightarrow> r' \<in> set (quality_rules s) \<Longrightarrow> qr_id r = qr_id r' \<Longrightarrow> r = r'"
    "\<And>n r. draws s \<le> n \<Longrightarrow> r \<in> set (quality_rules s) \<Longrightarrow> uuid n \<noteq> qr_id r"
    "\<And>n i. draws s \<le> n \<Longrightarrow> i \<in> set (quality_issues s) \<Longrightarrow> uuid n \<noteq> qi_rule_id i"
  using assms unfolding issues_ok_def by (blast, blast, blast, blast, metis imageI, metis imageI)

lemma issues_okI:
  assumes "inj uuid" "distinct (map qr_rule_id (quality_rules s))"
    "\<And>r. r \<in> set (quality_rules s) \<Longrightarrow> qr_rule_id r \<in> {''DQ-001'', ''DQ-002''} \<Longrightarrow>
        distinct (map qi_vessel_call_id (filter (\<lambda>i. qi_rule_id i = qr_id r) (quality_issues s)))"
    "\<And>r r'. r \<in> set (quality_rules s) \<Longrightarrow> r' \<in> set (quality_rules s) \<Longrightarrow> qr_id r = qr_id r' \<Longrightarrow> r = r'"
    "\<And>n r. draws s \<le> n \<Longrightarrow> r \<in> set (quality_rules s) \<Longrightarrow> uuid n \<noteq> qr_id r"
    "\<And>n i. draws s \<le> n \<Longrightarrow> i \<in> set (quality_issues s) \<Longrightarrow> uuid n \<noteq> qi_rule_id i"
  shows "issues_ok uuid s"
  unfolding issues_ok_def using assms by (intro conjI ballI impI allI) (blast | force)+

definition add_rule :: "quality_rule \<Rightarrow> 'a canon_db_scheme \<Rightarrow> 'a canon_db_scheme" where
  "add_rule r s = s\<lparr>quality_rules := quality_rules s @ [r], draws := Suc (draws s)\<rparr>"

definition add_issue :: "quality_issue \<Rightarrow> 'a canon_db_scheme \<Rightarrow> 'a canon_db_scheme" where
  "add_issue i s = s\<lparr>quality_issues := quality_issues s @ [i], draws := Suc (draws s)\<rparr>"

lemma issues_ok_add_rule:
  assumes ok: "issues_ok uuid s" and new: "\<forall>q \<in> set (quality_rules s). qr_rule_id q \<noteq> qr_rule_id r"
    and i: "qr_id r = uuid (draws s)"
  shows "issues_ok uuid (add_rule r s)"
proof (rule issues_okI)
  note D = issues_okD [OF ok]
  have none: "filter (\<lambda>x. qi_rule_id x = qr_id r) (quality_issues s) = []"
    using D(6) [OF le_refl] i by (force simp: filter_empty_conv)
  show "inj uuid" by (rule D(1))
  show "distinct (map qr_rule_id (quality_rules (add_rule r s)))"
    using D(2) new by (auto simp: add_rule_def)
  show "distinct (map qi_vessel_call_id (filter (\<lambda>i. qi_rule_id i = qr_id q) (quality_issues (add_rule r s))))"
    if "q \<in> set (quality_rules (add_rule r s))" "qr_rule_id q \<in> {''DQ-001'', ''DQ-002''}" for q
    using that D(3) [of q] none by (cases "q = r") (simp_all add: add_rule_def)
  show "q = q'" if "q \<in> set (quality_rules (add_rule r s))" "q' \<in> set (quality_rules (add_rule r s))" "qr_id q = qr_id q'" for q q'
    using that D(4) [of q q'] D(5) [OF le_refl] D(5) [OF le_refl, THEN not_sym] i by (auto simp: add_rule_def)
  show "uuid n \<noteq> qr_id q" if "draws (add_rule r s) \<le> n" "q \<in> set (quality_rules (add_rule r s))" for n q
    using that D(5) [of n q] i inj_eq [OF D(1)] by (auto simp: add_rule_def)
  show "uuid n \<noteq> qi_rule_id q" if "draws (add_rule r s) \<le> n" "q \<in> set (quality_issues (add_rule r s))" for n q
    using that D(6) [of n q] by (auto simp: add_rule_def)
qed

lemma issues_ok_add_issue:
  assumes ok: "issues_ok uuid s" and r: "r \<in> set (quality_rules s)" "qi_rule_id i = qr_id r"
    and none: "filter (\<lambda>j. qi_rule_id j = qr_id r \<and> qi_vessel_call_id j = qi_vessel_call_id i) (quality_issues s) = []"
  shows "issues_ok uuid (add_issue i s)"
proof (rule issues_okI)
  note D = issues_okD [OF ok]
  show "inj uuid" by (rule D(1))
  show "distinct (map qr_rule_id (quality_rules (add_issue i s)))" using D(2) by (simp add: add_issue_def)
  show "distinct (map qi_vessel_call_id (filter (\<lambda>i. qi_rule_id i = qr_id q) (quality_issues (add_issue i s))))"
    if "q \<in> set (quality_rules (add_issue i s))" "qr_rule_id q \<in> {''DQ-001'', ''DQ-002''}" for q
  proof (cases "qr_id q = qr_id r")
    case True
    then show ?thesis using D(3) [of q] that none r(2) by (auto simp: add_issue_def filter_empty_conv)
  next
    case False
    then show ?thesis using D(3) [of q] that r(2) by (auto simp: add_issue_def)
  qed
  show "q = q'" if "q \<in> set (quality_rules (add_issue i s))" "q' \<in> set (quality_rules (add_issue i s))" "qr_id q = qr_id q'" for q q'
    using that D(4) [of q q'] by (simp add: add_issue_def)
  show "uuid n \<noteq> qr_id q" if "draws (add_issue i s) \<le> n" "q \<in> set (quality_rules (add_issue i s))" for n q
    using that D(5) [of n q] by (simp add: add_issue_def)
  show "uuid n \<noteq> qi_rule_id q" if "draws (add_issue i s) \<le> n" "q \<in> set (quality_issues (add_issue i s))" for n q
    using that D(6) [of n q] D(5) [of n r] r by (auto simp: add_issue_def)
qed

text \<open>Only the rules, the issues and the counter differ.\<close>

definition besides_dq :: "'a canon_db_scheme \<Rightarrow> 'a canon_db_scheme" where
  "besides_dq s = s\<lparr>quality_rules := [], quality_issues := [], draws := 0\<rparr>"

definition dq_only :: "'a canon_db_scheme \<Rightarrow> 'a canon_db_scheme \<Rightarrow> bool" where
  "dq_only s s' \<longleftrightarrow> besides_dq s' = besides_dq s"

lemma dq_only_refl [intro]: "dq_only s s"
  by (simp add: dq_only_def)

lemma dq_only_add: "dq_only s s' \<Longrightarrow> dq_only s (add_rule r s')" "dq_only s s' \<Longrightarrow> dq_only s (add_issue i s')"
  by (simp_all add: dq_only_def besides_dq_def add_rule_def add_issue_def)

lemma besides_dq_sel:
  "vessel_calls (besides_dq s) = vessel_calls s" "event_occurrences (besides_dq s) = event_occurrences s"
  "service_requests (besides_dq s) = service_requests s" "delays (besides_dq s) = delays s"
  "audit_log (besides_dq s) = audit_log s" "canon_db.more (besides_dq s) = canon_db.more s"
  "match_candidates (besides_dq t) = match_candidates t" "merge_decisions (besides_dq t) = merge_decisions t"
  by (simp_all add: besides_dq_def)

lemma dq_only_sel:
  assumes "dq_only s s'"
  shows "vessel_calls s' = vessel_calls s" "event_occurrences s' = event_occurrences s"
    "service_requests s' = service_requests s" "delays s' = delays s" "audit_log s' = audit_log s"
    "canon_db.more s' = canon_db.more s"
  using assms besides_dq_sel unfolding dq_only_def by metis+

lemma dq_only_identity:
  assumes "dq_only s s'"
  shows "match_candidates s' = match_candidates s" "merge_decisions s' = merge_decisions s"
  using assms besides_dq_sel unfolding dq_only_def by metis+

lemma register_quality_issue_ok:
  assumes ok: "issues_ok uuid s" and rule: "rule_id \<in> {''DQ-001'', ''DQ-002''}"
  shows "\<exists>s'. register_quality_issue uuid rule_id vc ref sev s = Inr s' \<and> dq_only s s' \<and> issues_ok uuid s' \<and>
           draws s \<le> draws s'"
proof -
  obtain found where found: "get_by qr_rule_id rule_id (quality_rules s) = Inr found"
    using one_or_none_distinct [OF issues_okD(2) [OF ok], of rule_id] by (auto simp: get_by_def)
  define nr where "nr = \<lparr>qr_id = uuid (draws s), qr_rule_id = rule_id, qr_scope = ''vessel_call'',
       qr_severity = sev, qr_pass_fail_expression = ''no duplicate vessel calls'', qr_remediation_guidance = None\<rparr>"
  define s1 where "s1 = (case found of Some _ \<Rightarrow> s | None \<Rightarrow> add_rule nr s)"
  define r where "r = (case found of Some r \<Rightarrow> r | None \<Rightarrow> nr)"
  have s1: "issues_ok uuid s1 \<and> r \<in> set (quality_rules s1) \<and> qr_rule_id r = rule_id \<and> dq_only s s1 \<and> draws s \<le> draws s1"
  proof (cases found)
    case None
    then have "\<forall>q \<in> set (quality_rules s). qr_rule_id q \<noteq> qr_rule_id nr"
      using get_by_NoneD found by (fastforce simp: nr_def)
    from issues_ok_add_rule [OF ok this] show ?thesis
      using None dq_only_add(1) [OF dq_only_refl] by (simp add: s1_def r_def nr_def add_rule_def)
  next
    case (Some q)
    then show ?thesis using found get_by_SomeD [of qr_rule_id rule_id "quality_rules s" q] ok
      by (auto simp: s1_def r_def)
  qed
  let ?hits = "filter (\<lambda>i. qi_rule_id i = qr_id r \<and> qi_vessel_call_id i = Some vc) (quality_issues s1)"
  have "distinct (map qi_vessel_call_id (filter (\<lambda>i. qi_rule_id i = qr_id r) (quality_issues s1)))"
    using s1 rule issues_okD(3) [of uuid s1 r] by blast
  from one_or_none_distinct [OF this, of "Some vc"] obtain e where e: "one_or_none ?hits = Inr e"
    by (auto simp: conj_commute)
  define ni where "ni = \<lparr>qi_id = uuid (draws s1), qi_rule_id = qr_id r, qi_vessel_call_id = Some vc,
              qi_record_reference = ref,
              qi_issue_status = (if sev = ''CRITICAL'' then ISSUE_RESOLVED else ISSUE_OPEN)\<rparr>"
  have run: "register_quality_issue uuid rule_id vc ref sev s =
     (case e of Some _ \<Rightarrow> Inr s1 | None \<Rightarrow> Inr (add_issue ni s1))"
    using e by (cases found; cases e)
      (simp_all add: register_quality_issue_def found Let_def s1_def r_def nr_def ni_def add_rule_def add_issue_def)
  show ?thesis
  proof (cases e)
    case None
    then have "?hits = []" using e by (auto dest: one_or_none_NoneD)
    then have "issues_ok uuid (add_issue ni s1)"
      using s1 by (intro issues_ok_add_issue [of uuid s1 r]) (simp_all add: ni_def)
    moreover have "draws s \<le> draws (add_issue ni s1)" using s1 by (simp add: add_issue_def)
    ultimately show ?thesis using s1 run None dq_only_add(2) by auto
  next
    case (Some x)
    with s1 run show ?thesis by auto
  qed
qed

lemma register_duplicate_ok:
  assumes "issues_ok uuid s"
  shows "\<exists>s'. register_duplicate uuid v1 v2 r s = Inr s' \<and> dq_only s s' \<and> issues_ok uuid s' \<and> draws s \<le> draws s'"
  using register_quality_issue_ok [OF assms] assms by (auto simp: register_duplicate_def Let_def)

section \<open>The scan as a run of create-or-get steps\<close>

definition scan_ok :: "(nat \<Rightarrow> uid) \<Rightarrow> uid list \<times> 'a identity_db_scheme \<Rightarrow> bool" where
  "scan_ok uuid st \<longleftrightarrow> issues_ok uuid (snd st) \<and> distinct (map cand_key (match_candidates (snd st)))"

definition scan_target :: "vessel_call \<times> vessel_call \<Rightarrow> (uid \<times> uid) option" where
  "scan_target pr = (case pr of (v1, v2) \<Rightarrow> if comparable v1 v2 then Some (pair_ids v1 v2) else None)"

lemma refresh_candidate_key [simp]: "cand_key (refresh_candidate r c) = cand_key c"
  by (simp add: cand_key_def refresh_candidate_def)

lemma new_candidate_key [simp]: "cand_key (new_candidate i ids r) = ids"
  by (simp add: cand_key_def new_candidate_def)

definition scan_state :: "match_candidate \<Rightarrow> match_evidence list \<Rightarrow> 'a identity_db_scheme \<Rightarrow> 'a identity_db_scheme" where
  "scan_state c evs s = s\<lparr>match_candidates := match_candidates s @ [c],
     match_evidence_rows := match_evidence_rows s @ evs, draws := Suc (draws s)\<rparr>"

lemma issues_ok_cong:
  "quality_rules s' = quality_rules s \<Longrightarrow> quality_issues s' = quality_issues s \<Longrightarrow> draws s \<le> draws s' \<Longrightarrow>
     issues_ok uuid s \<Longrightarrow> issues_ok uuid s'"
proof (rule issues_okI)
  assume eq: "quality_rules s' = quality_rules s" "quality_issues s' = quality_issues s" "draws s \<le> draws s'"
    and ok: "issues_ok uuid s"
  note D = issues_okD [OF ok]
  show "inj uuid" "distinct (map qr_rule_id (quality_rules s'))" using D(1,2) eq by simp_all
  show "distinct (map qi_vessel_call_id (filter (\<lambda>i. qi_rule_id i = qr_id q) (quality_issues s')))"
    if "q \<in> set (quality_rules s')" "qr_rule_id q \<in> {''DQ-001'', ''DQ-002''}" for q
    using that D(3) [of q] eq by simp
  show "q = q'" if "q \<in> set (quality_rules s')" "q' \<in> set (quality_rules s')" "qr_id q = qr_id q'" for q q'
    using that D(4) [of q q'] eq by simp
  show "uuid n \<noteq> qr_id q" if "draws s' \<le> n" "q \<in> set (quality_rules s')" for n q
    using that D(5) [of n q] eq by simp
  show "uuid n \<noteq> qi_rule_id q" if "draws s' \<le> n" "q \<in> set (quality_issues s')" for n q
    using that D(6) [of n q] eq by simp
qed

lemma process_pair_cases:
  assumes "scan_ok uuid st"
  obtains (skip) "\<not> comparable v1 v2" "process_pair m uuid (v1, v2) st = Inr st"
  | (refresh) c where "comparable v1 v2" "c \<in> set (match_candidates (snd st))" "cand_key c = pair_ids v1 v2"
      "process_pair m uuid (v1, v2) st = Inr (fst st @ [mc_id c], (snd st)\<lparr>match_candidates :=
         upd_by cand_key (pair_ids v1 v2) (refresh_candidate (evaluate_pair m v1 v2)) (match_candidates (snd st))\<rparr>)"
  | (create) c evs s' where "comparable v1 v2" "pair_ids v1 v2 \<notin> cand_key ` set (match_candidates (snd st))"
      "c = new_candidate (uuid (draws (snd st))) (pair_ids v1 v2) (evaluate_pair m v1 v2)"
      "dq_only (scan_state c evs (snd st)) s'" "issues_ok uuid s'" "draws (snd st) < draws s'"
      "process_pair m uuid (v1, v2) st = Inr (fst st @ [mc_id c], s')"
proof (cases "comparable v1 v2")
  case False
  then show ?thesis using skip by (simp add: process_pair_def split: prod.splits)
next
  case True
  obtain created s where st: "st = (created, s)" by (cases st)
  let ?ids = "pair_ids v1 v2" and ?r = "evaluate_pair m v1 v2"
  obtain e where e: "get_by cand_key ?ids (match_candidates s) = Inr e"
    using assms st one_or_none_distinct [of cand_key "match_candidates s" ?ids] by (auto simp: scan_ok_def get_by_def)
  show ?thesis
  proof (cases e)
    case None
    define c where "c = new_candidate (uuid (draws s)) ?ids ?r"
    define evs where "evs = map (\<lambda>ev. \<lparr>me_match_candidate_id = mc_id c, me_evidence = ev\<rparr>) (mr_evidence_breakdown ?r)"
    have "issues_ok uuid (scan_state c evs s)"
      using assms by (intro issues_ok_cong [of "scan_state c evs s" s]) (auto simp: scan_ok_def st scan_state_def)
    from register_duplicate_ok [OF this, of v1 v2 ?r] obtain s' where
      s': "register_duplicate uuid v1 v2 ?r (scan_state c evs s) = Inr s'" "dq_only (scan_state c evs s) s'" "issues_ok uuid s'"
      "draws (scan_state c evs s) \<le> draws s'"
      by blast
    have "process_pair m uuid (v1, v2) st = Inr (created @ [mc_id c], s')"
      using s'(1) e None True by (simp add: process_pair_def st Let_def c_def evs_def scan_state_def)
    moreover have "?ids \<notin> cand_key ` set (match_candidates s)"
      using e None get_by_NoneD [of cand_key ?ids "match_candidates s"] by auto
    ultimately show ?thesis using create [of c evs s'] s' True st by (simp add: c_def scan_state_def)
  next
    case (Some c)
    then show ?thesis
      using refresh [of c] True e st get_by_SomeD [of cand_key ?ids "match_candidates s" c]
      by (simp add: process_pair_def Let_def)
  qed
qed

interpretation scan: create_or_get "scan_ok uuid" "\<lambda>st. map cand_key (match_candidates (snd st))"
    "process_pair m uuid" scan_target for m uuid
proof unfold_locales
  fix s :: "uid list \<times> 'a identity_db_scheme" and x :: "vessel_call \<times> vessel_call"
  assume ok: "scan_ok uuid s"
  obtain v1 v2 where x: "x = (v1, v2)" by (cases x)
  show "\<exists>s'. process_pair m uuid x s = Inr s'"
    unfolding x by (rule process_pair_cases [OF ok, of v1 v2 m]) auto
  fix s'
  assume run: "process_pair m uuid x s = Inr s'"
  have "scan_ok uuid s' \<and> map cand_key (match_candidates (snd s')) =
      (case scan_target x of Some k \<Rightarrow> if k \<in> set (map cand_key (match_candidates (snd s)))
          then map cand_key (match_candidates (snd s)) else map cand_key (match_candidates (snd s)) @ [k]
        | None \<Rightarrow> map cand_key (match_candidates (snd s)))"
  proof (rule process_pair_cases [OF ok, of v1 v2 m], goal_cases)
    case 1
    then show ?thesis using run ok by (simp add: x scan_target_def)
  next
    case (2 c)
    let ?st = "(snd s)\<lparr>match_candidates := upd_by cand_key (pair_ids v1 v2) (refresh_candidate (evaluate_pair m v1 v2)) (match_candidates (snd s))\<rparr>"
    have "issues_ok uuid ?st"
      using ok by (intro issues_ok_cong [of ?st "snd s"]) (auto simp: scan_ok_def)
    moreover have "pair_ids v1 v2 \<in> set (map cand_key (match_candidates (snd s)))"
      using 2(2,3) by force
    ultimately show ?thesis using run ok 2
      by (auto simp: x scan_target_def scan_ok_def map_upd_by_key)
  next
    case (3 c evs s1)
    have "match_candidates s1 = match_candidates (snd s) @ [c]"
      using dq_only_identity(1) [OF 3(4)] by (simp add: scan_state_def)
    then show ?thesis using run ok 3 by (auto simp: x scan_target_def scan_ok_def)
  qed
  then show "scan_ok uuid s'"
    "map cand_key (match_candidates (snd s')) =
      (case scan_target x of Some k \<Rightarrow> if k \<in> set (map cand_key (match_candidates (snd s)))
          then map cand_key (match_candidates (snd s)) else map cand_key (match_candidates (snd s)) @ [k]
        | None \<Rightarrow> map cand_key (match_candidates (snd s)))"
    by blast+
qed

section \<open>What the scan stores\<close>

text \<open>A candidate row holds the evaluation of a pair.\<close>

definition stored :: "matcher \<Rightarrow> vessel_call \<times> vessel_call \<Rightarrow> match_candidate \<Rightarrow> bool" where
  "stored m pr c \<longleftrightarrow> (case pr of (v1, v2) \<Rightarrow>
     let r = evaluate_pair m v1 v2 in
     scan_target pr = Some (cand_key c) \<and> mc_match_score c = mr_match_score r \<and> mc_status c = Disp (mr_status r) \<and>
     mc_match_type c = mr_match_type r \<and> mc_conflict_detected c = mr_conflict_detected r \<and>
     mc_conflict_reasons c = mr_conflict_reasons r)"

lemma stored_new: "comparable v1 v2 \<Longrightarrow> stored m (v1, v2) (new_candidate i (pair_ids v1 v2) (evaluate_pair m v1 v2))"
  by (simp add: stored_def scan_target_def) (simp add: new_candidate_def cand_key_def)

lemma stored_refresh:
  "comparable v1 v2 \<Longrightarrow> cand_key c = pair_ids v1 v2 \<Longrightarrow> stored m (v1, v2) (refresh_candidate (evaluate_pair m v1 v2) c)"
  by (simp add: stored_def scan_target_def) (simp add: refresh_candidate_def)

definition scanned :: "matcher \<Rightarrow> (vessel_call \<times> vessel_call) list \<Rightarrow> uid list \<times> 'a identity_db_scheme \<Rightarrow> bool" where
  "scanned m P st \<longleftrightarrow>
     (\<forall>p \<in> set P. scan_target p \<noteq> None \<longrightarrow> (\<exists>c \<in> set (match_candidates (snd st)). stored m p c)) \<and>
     (\<forall>i \<in> set (fst st). \<exists>c \<in> set (match_candidates (snd st)). mc_id c = i \<and> (\<exists>p \<in> set P. stored m p c))"

lemma process_pair_rows:
  assumes ok: "scan_ok uuid st" and run: "process_pair m uuid (v1, v2) st = Inr st'"
  shows "vessel_calls (snd st') = vessel_calls (snd st)"
    "\<And>c. c \<in> set (match_candidates (snd st)) \<Longrightarrow> scan_target (v1, v2) \<noteq> Some (cand_key c) \<Longrightarrow> c \<in> set (match_candidates (snd st'))"
    "comparable v1 v2 \<Longrightarrow> \<exists>c \<in> set (match_candidates (snd st')). stored m (v1, v2) c \<and> fst st' = fst st @ [mc_id c]"
    "\<not> comparable v1 v2 \<Longrightarrow> st' = st"
proof -
  have "vessel_calls (snd st') = vessel_calls (snd st) \<and>
    (\<forall>c \<in> set (match_candidates (snd st)). scan_target (v1, v2) \<noteq> Some (cand_key c) \<longrightarrow> c \<in> set (match_candidates (snd st'))) \<and>
    (comparable v1 v2 \<longrightarrow> (\<exists>c \<in> set (match_candidates (snd st')). stored m (v1, v2) c \<and> fst st' = fst st @ [mc_id c])) \<and>
    (\<not> comparable v1 v2 \<longrightarrow> st' = st)"
  proof (rule process_pair_cases [OF ok, of v1 v2 m], goal_cases)
    case 1
    then show ?thesis using run by simp
  next
    case (2 c)
    let ?r = "evaluate_pair m v1 v2"
    have st': "fst st' = fst st @ [mc_id c]" "vessel_calls (snd st') = vessel_calls (snd st)"
      "match_candidates (snd st') = upd_by cand_key (pair_ids v1 v2) (refresh_candidate ?r) (match_candidates (snd st))"
      using run 2(4) by auto
    have "refresh_candidate ?r c \<in> set (match_candidates (snd st'))" "mc_id (refresh_candidate ?r c) = mc_id c"
      using 2(2,3) st'(3) by (auto simp: upd_by_def refresh_candidate_def)
    moreover have "c' \<in> set (match_candidates (snd st'))"
      if "c' \<in> set (match_candidates (snd st))" "cand_key c' \<noteq> pair_ids v1 v2" for c'
      using that st'(3) by (auto simp: upd_by_def image_iff intro!: bexI [of _ c'])
    ultimately show ?thesis using 2(1) st' stored_refresh [OF 2(1,3), of m]
      by (fastforce simp: scan_target_def)
  next
    case (3 c evs s1)
    have "match_candidates s1 = match_candidates (snd st) @ [c]" "vessel_calls s1 = vessel_calls (snd st)"
      using dq_only_identity(1) [OF 3(4)] dq_only_sel(1) [OF 3(4)] by (simp_all add: scan_state_def)
    then show ?thesis using run 3(1,3,7) stored_new [OF 3(1), of m] by auto
  qed
  then show "vessel_calls (snd st') = vessel_calls (snd st)"
    "\<And>c. c \<in> set (match_candidates (snd st)) \<Longrightarrow> scan_target (v1, v2) \<noteq> Some (cand_key c) \<Longrightarrow> c \<in> set (match_candidates (snd st'))"
    "comparable v1 v2 \<Longrightarrow> \<exists>c \<in> set (match_candidates (snd st')). stored m (v1, v2) c \<and> fst st' = fst st @ [mc_id c]"
    "\<not> comparable v1 v2 \<Longrightarrow> st' = st"
    by blast+
qed

lemma scanned_step:
  assumes ok: "scan_ok uuid st" and run: "process_pair m uuid q st = Inr st'"
    and P: "scanned m P st" and new: "\<And>p. p \<in> set P \<Longrightarrow> scan_target q \<noteq> None \<Longrightarrow> scan_target p \<noteq> scan_target q"
  shows "scanned m (P @ [q]) st'"
proof -
  obtain v1 v2 where q: "q = (v1, v2)" by (cases q)
  note rows = process_pair_rows [OF ok run [unfolded q]]
  have keep: "c \<in> set (match_candidates (snd st'))"
    if "c \<in> set (match_candidates (snd st))" "stored m p c" "p \<in> set P" for c p
  proof (rule rows(2) [OF that(1)])
    have "scan_target p = Some (cand_key c)" using that(2) by (auto simp: stored_def Let_def split: prod.splits)
    then show "scan_target (v1, v2) \<noteq> Some (cand_key c)" using new [OF that(3)] q by auto
  qed
  show ?thesis
  proof (cases "comparable v1 v2")
    case True
    then obtain c where c: "c \<in> set (match_candidates (snd st'))" "stored m q c" "fst st' = fst st @ [mc_id c]"
      using rows(3) q by blast
    have "\<exists>c \<in> set (match_candidates (snd st')). stored m p c" if "p \<in> set (P @ [q])" "scan_target p \<noteq> None" for p
      using that P c keep unfolding scanned_def by (metis Un_iff empty_set list.simps(15) set_append singletonD)
    moreover have "\<exists>c \<in> set (match_candidates (snd st')). mc_id c = i \<and> (\<exists>p \<in> set (P @ [q]). stored m p c)"
      if "i \<in> set (fst st')" for i
    proof (cases "i \<in> set (fst st)")
      case True
      then show ?thesis using P keep unfolding scanned_def by fastforce
    next
      case False
      then have "i = mc_id c" using that c(3) by simp
      then show ?thesis using c by auto
    qed
    ultimately show ?thesis unfolding scanned_def by blast
  next
    case False
    then show ?thesis using P rows(4) q by (fastforce simp: scanned_def scan_target_def)
  qed
qed

lemma scanned_run:
  assumes "scan_ok uuid st" "run_steps (process_pair m uuid) qs st = Inr st'" "scanned m P st"
    and "\<And>p q. p \<in> set P \<Longrightarrow> q \<in> set qs \<Longrightarrow> scan_target q \<noteq> None \<Longrightarrow> scan_target p \<noteq> scan_target q"
    and "distinct (map scan_target (filter (\<lambda>q. scan_target q \<noteq> None) qs))"
  shows "scanned m (P @ qs) st' \<and> vessel_calls (snd st') = vessel_calls (snd st)"
  using assms
proof (induction qs arbitrary: st P)
  case Nil
  then show ?case by simp
next
  case (Cons q qs)
  then obtain st1 where run: "process_pair m uuid q st = Inr st1" "run_steps (process_pair m uuid) qs st1 = Inr st'" by auto
  have ok1: "scan_ok uuid st1" using scan.keeps_ok [OF Cons.prems(1) run(1)] .
  have s1: "scanned m (P @ [q]) st1" using scanned_step [OF Cons.prems(1) run(1) Cons.prems(3)] Cons.prems(4) by simp
  have "scan_target p \<noteq> scan_target q'" if "p \<in> set (P @ [q])" "q' \<in> set qs" "scan_target q' \<noteq> None" for p q'
    using that Cons.prems(4) [of p q'] Cons.prems(5) by (force split: if_splits)
  from Cons.IH [OF ok1 run(2) s1 this] Cons.prems(5)
  have "scanned m ((P @ [q]) @ qs) st' \<and> vessel_calls (snd st') = vessel_calls (snd st1)" by (simp split: if_splits)
  moreover obtain v1 v2 where "q = (v1, v2)" by (cases q)
  ultimately show ?case using process_pair_rows(1) [OF Cons.prems(1)] run(1) by simp
qed

lemma pair_ids_set: "{fst (pair_ids v1 v2), snd (pair_ids v1 v2)} = {vc_id v1, vc_id v2}"
  by (auto simp: pair_ids_def)

lemma pair_ids_inj:
  assumes "pair_ids a b = pair_ids c d" shows "{vc_id a, vc_id b} = {vc_id c, vc_id d}"
  using pair_ids_set [of a b] pair_ids_set [of c d] assms by metis

lemma all_pairs_mem: "(a, b) \<in> set (all_pairs xs) \<Longrightarrow> a \<in> set xs \<and> b \<in> set xs"
  by (induction xs) auto

lemma all_pairs_ne: "distinct (map vc_id xs) \<Longrightarrow> (a, b) \<in> set (all_pairs xs) \<Longrightarrow> vc_id a \<noteq> vc_id b"
  by (induction xs) auto

lemma all_pairs_keys: "distinct (map vc_id xs) \<Longrightarrow> distinct (map (\<lambda>(a, b). pair_ids a b) (all_pairs xs))"
proof (induction xs)
  case (Cons x xs)
  have "pair_ids x a = pair_ids x b \<Longrightarrow> a \<in> set xs \<Longrightarrow> b \<in> set xs \<Longrightarrow> a = b" for a b
    using pair_ids_inj [of x a x b] Cons.prems by (auto simp: doubleton_eq_iff distinct_map dest: inj_onD)
  moreover have "pair_ids c d \<noteq> pair_ids x a" if "a \<in> set xs" "(c, d) \<in> set (all_pairs xs)" for a c d
  proof
    assume "pair_ids c d = pair_ids x a"
    then have "pair_ids x a = pair_ids c d" by simp
    then have "vc_id x \<in> {vc_id c, vc_id d}" using pair_ids_inj by blast
    moreover have "c \<in> set xs" "d \<in> set xs" using all_pairs_mem [OF that(2)] by auto
    ultimately show False using Cons.prems by auto
  qed
  ultimately have "distinct (map (pair_ids x) xs)"
    "set (map (pair_ids x) xs) \<inter> set (map (\<lambda>(a, b). pair_ids a b) (all_pairs xs)) = {}"
    using Cons.prems by (simp add: distinct_map inj_on_def, auto)
  then show ?case using Cons by (simp add: o_def)
qed simp

lemma generate_candidates_stores:
  assumes ok: "scan_ok uuid ([], s)" and ids: "distinct (map vc_id (vessel_calls s))"
  obtains cids s' where "generate_candidates m uuid t s = Inr (cids, s')" "scan_ok uuid (cids, s')"
    "vessel_calls s' = vessel_calls s" "scanned m (all_pairs (unmerged_calls t s)) (cids, s')"
    "set (map cand_key (match_candidates s')) = set (map cand_key (match_candidates s)) \<union>
       {pair_ids a b | a b. (a, b) \<in> set (all_pairs (unmerged_calls t s)) \<and> comparable a b}"
proof -
  let ?ps = "all_pairs (unmerged_calls t s)"
  obtain cids s' where run: "run_steps (process_pair m uuid) ?ps ([], s) = Inr (cids, s')" "scan_ok uuid (cids, s')"
    using scan.run_total [OF ok, of m ?ps] by auto
  have "distinct (map vc_id (unmerged_calls t s))" using ids by (simp add: unmerged_calls_def distinct_map_filter)
  then have "distinct (map (\<lambda>(a, b). pair_ids a b) ?ps)" by (rule all_pairs_keys)
  then have "distinct (map scan_target (filter (\<lambda>q. scan_target q \<noteq> None) ?ps))"
    by (auto simp: distinct_map scan_target_def inj_on_def split: if_splits)
  then have "scanned m ([] @ ?ps) (cids, s') \<and> vessel_calls (snd (cids, s')) = vessel_calls (snd ([], s))"
    using scanned_run [OF ok run(1), of "[]"] by (simp add: scanned_def)
  moreover have "{k. \<exists>x \<in> set ?ps. scan_target x = Some k} = {pair_ids a b | a b. (a, b) \<in> set ?ps \<and> comparable a b}"
    by (force simp: scan_target_def split: prod.splits if_splits)
  ultimately show ?thesis
    using that [of cids s'] run scan.run_keys [OF ok run(1)] by (simp add: generate_candidates_def)
qed

lemma generate_candidates_twice:
  assumes ok: "scan_ok uuid ([], s)" and ids: "distinct (map vc_id (vessel_calls s))"
    and run: "generate_candidates m uuid t s = Inr (cids, s1)" "generate_candidates m uuid t s1 = Inr (cids2, s2)"
  shows "map cand_key (match_candidates s2) = map cand_key (match_candidates s1)"
proof -
  have s1: "scan_ok uuid (cids, s1)" "vessel_calls s1 = vessel_calls s"
    using generate_candidates_stores [OF ok ids, of m t] run(1) by auto
  then have "scan_ok uuid ([], s1)" "unmerged_calls t s1 = unmerged_calls t s"
    by (simp_all add: scan_ok_def unmerged_calls_def)
  then show ?thesis
    using scan.run_no_new [of uuid "([], s1)" m "all_pairs (unmerged_calls t s)" "(cids2, s2)"]
      scan.run_keys [OF ok, of m "all_pairs (unmerged_calls t s)" "(cids, s1)"] run
    by (auto simp: generate_candidates_def)
qed

section \<open>Automatic merges\<close>

lemma execute_merge_candidates:
  assumes run: "execute_merge now i cid actor manual custom s = Inr (d, s')"
  shows "\<exists>c. get_by mc_id cid (match_candidates s) = Inr (Some c) \<and> (mc_conflict_detected c \<longrightarrow> manual) \<and>
     match_candidates s' = upd_by mc_id cid (\<lambda>m. m\<lparr>mc_status := CAND_MERGED\<rparr>) (match_candidates s) \<and>
     md_decision d = DEC_MERGED \<and>
     {md_survivor_record_id d, md_merged_record_id d} = {mc_source_record_1_id c, mc_source_record_2_id c}"
proof -
  obtain c v1 v2 where c: "get_by mc_id cid (match_candidates s) = Inr (Some c)"
    and v: "get_by vc_id (mc_source_record_1_id c) (vessel_calls s) = Inr (Some v1)"
      "get_by vc_id (mc_source_record_2_id c) (vessel_calls s) = Inr (Some v2)"
    and guard: "(mc_conflict_detected c \<and> \<not> manual) = False"
    using execute_merge_inputs [OF run] by blast
  then have cid: "mc_id c = cid" by (auto dest: get_by_SomeD)
  obtain survivor merged where sm: "determine_survivor_record v1 v2 = (survivor, merged)" by force
  have ids: "{vc_id survivor, vc_id merged} = {mc_source_record_1_id c, mc_source_record_2_id c}"
    using survivor_has_best_score [OF sm] v by (auto simp: doubleton_eq_iff dest!: get_by_SomeD)
  note run1 = run [unfolded execute_merge_def c v and_then_simps option.case prod.case guard if_False sm Let_def]
  obtain rows moved where ev: "transfer_events (vc_id survivor) (filter (\<lambda>e. eo_vessel_call_id e = vc_id merged)
      (event_occurrences s)) (event_occurrences s, []) = Inr (rows, moved)"
    using run1 by (auto simp: and_then_Inr_iff)
  note run2 = run1 [unfolded ev and_then_simps prod.case sum.inject prod.inject]
  show ?thesis
    unfolding run2 [THEN conjunct1, symmetric] run2 [THEN conjunct2, symmetric]
    using c cid guard ids by simp
qed

definition marked :: "match_candidate list \<Rightarrow> match_candidate list \<Rightarrow> bool" where
  "marked = list_all2 (\<lambda>c c'. c' = c \<or> c' = c\<lparr>mc_status := CAND_MERGED\<rparr>)"

lemma marked_refl [intro]: "marked cs cs"
  by (simp add: marked_def list.rel_refl)

lemma marked_upd: "marked cs cs' \<Longrightarrow> marked cs (upd_by mc_id i (\<lambda>m. m\<lparr>mc_status := CAND_MERGED\<rparr>) cs')"
  unfolding marked_def upd_by_def by (induction rule: list_all2_induct) auto

lemma marked_get_by:
  assumes "marked cs cs'" "get_by mc_id i cs' = Inr (Some c')"
  obtains c where "filter (\<lambda>c. mc_id c = i) cs = [c]" "c' = c \<or> c' = c\<lparr>mc_status := CAND_MERGED\<rparr>"
proof -
  have "marked (filter (\<lambda>c. mc_id c = i) cs) (filter (\<lambda>c. mc_id c = i) cs')"
    using assms(1) unfolding marked_def by (induction rule: list_all2_induct) auto
  moreover have "filter (\<lambda>c. mc_id c = i) cs' = [c']"
    using assms(2) by (auto simp: get_by_def dest: one_or_none_SomeD)
  ultimately show ?thesis using that by (auto simp: marked_def list_all2_Cons2)
qed

definition approved :: "uid list \<Rightarrow> match_candidate list \<Rightarrow> merge_decision \<Rightarrow> bool" where
  "approved cids cs d \<longleftrightarrow> (\<exists>i \<in> set cids. \<exists>c. filter (\<lambda>c. mc_id c = i) cs = [c] \<and> mc_status c = Disp AUTO_MERGE_CANDIDATE \<and>
     \<not> mc_conflict_detected c \<and>
     {md_survivor_record_id d, md_merged_record_id d} = {mc_source_record_1_id c, mc_source_record_2_id c})"

lemma auto_merge_one_approved:
  assumes "marked cs (match_candidates s)" "\<forall>d \<in> set ds. approved cids cs d" "i \<in> set cids"
    and "auto_merge_one now uuid i (ds, s) = (ds', s')"
  shows "marked cs (match_candidates s') \<and> (\<forall>d \<in> set ds'. approved cids cs d)"
proof (cases "ds' = ds \<and> s' = s")
  case True
  with assms show ?thesis by simp
next
  case False
  then obtain c d s2 where c: "get_by mc_id i (match_candidates s) = Inr (Some c)"
      "mc_status c = Disp AUTO_MERGE_CANDIDATE" "\<not> mc_conflict_detected c"
    and run: "execute_merge now (uuid (draws s)) i ''system:auto_merge'' False [] s = Inr (d, s2)"
    and st: "ds' = ds @ [d]" "s' = s2\<lparr>draws := Suc (draws s)\<rparr>"
    using assms(4) by (auto simp: auto_merge_one_def split: sum.splits option.splits if_splits)
  from execute_merge_candidates [OF run] c(1)
  have d: "match_candidates s2 = upd_by mc_id i (\<lambda>m. m\<lparr>mc_status := CAND_MERGED\<rparr>) (match_candidates s)"
    "{md_survivor_record_id d, md_merged_record_id d} = {mc_source_record_1_id c, mc_source_record_2_id c}"
    by auto
  obtain c0 where "filter (\<lambda>c. mc_id c = i) cs = [c0]" "c = c0 \<or> c = c0\<lparr>mc_status := CAND_MERGED\<rparr>"
    using marked_get_by [OF assms(1) c(1)] by blast
  then have "approved cids cs d" using c(2,3) d(2) assms(3) unfolding approved_def by auto
  then show ?thesis using assms(1,2) d(1) st by (auto intro: marked_upd)
qed

lemma auto_merge_fold_approved:
  assumes "marked cs (match_candidates s)" "\<forall>d \<in> set ds. approved cids cs d" "set is \<subseteq> set cids"
    and "fold (auto_merge_one now uuid) is (ds, s) = (ds', s')"
  shows "\<forall>d \<in> set ds'. approved cids cs d"
  using assms
proof (induction "is" arbitrary: ds s)
  case (Cons i "is")
  obtain ds1 s1 where one: "auto_merge_one now uuid i (ds, s) = (ds1, s1)" by force
  have "i \<in> set cids" using Cons.prems(3) by simp
  note step = auto_merge_one_approved [OF Cons.prems(1,2) this one]
  show ?case using Cons.IH [of s1 ds1] step Cons.prems(3,4) by (simp add: one)
qed simp

lemma auto_merge_safe:
  assumes ok: "scan_ok uuid ([], s)" and ids: "distinct (map vc_id (vessel_calls s))"
    and run: "auto_merge_candidates default_matcher now uuid t s = Inr (ds, s')" and d: "d \<in> set ds"
  shows "\<exists>v1 v2. (v1, v2) \<in> set (all_pairs (unmerged_calls t s)) \<and>
     {md_survivor_record_id d, md_merged_record_id d} = {vc_id v1, vc_id v2} \<and>
     \<not> conflict_detected v1 v2 \<and> (key_agrees Vcn v1 v2 \<or> key_agrees Imo_number v1 v2)"
proof -
  obtain cids s1 where g: "generate_candidates default_matcher uuid t s = Inr (cids, s1)"
      "scanned default_matcher (all_pairs (unmerged_calls t s)) (cids, s1)"
    using generate_candidates_stores [OF ok ids, of default_matcher t] by metis
  have "fold (auto_merge_one now uuid) cids ([], s1) = (ds, s')"
    using run g(1) by (simp add: auto_merge_candidates_def)
  from auto_merge_fold_approved [OF marked_refl _ subset_refl this] d
  obtain i c where i: "i \<in> set cids" "filter (\<lambda>c. mc_id c = i) (match_candidates s1) = [c]"
    and c: "mc_status c = Disp AUTO_MERGE_CANDIDATE"
      "{md_survivor_record_id d, md_merged_record_id d} = {mc_source_record_1_id c, mc_source_record_2_id c}"
    by (auto simp: approved_def)
  from g(2) i(1) obtain c' v1 v2 where c': "c' \<in> set (match_candidates s1)" "mc_id c' = i"
      "(v1, v2) \<in> set (all_pairs (unmerged_calls t s))" "stored default_matcher (v1, v2) c'"
    by (force simp: scanned_def)
  have "c' \<in> set (filter (\<lambda>c. mc_id c = i) (match_candidates s1))" using c'(1,2) by simp
  then have "c' = c" using i(2) by simp
  then have st: "mr_status (evaluate_pair default_matcher v1 v2) = AUTO_MERGE_CANDIDATE" "cand_key c = pair_ids v1 v2"
    using c'(4) c(1) by (auto simp: stored_def Let_def scan_target_def split: if_splits)
  have "{md_survivor_record_id d, md_merged_record_id d} = {vc_id v1, vc_id v2}"
    using c(2) st(2) pair_ids_set [of v1 v2] by (simp add: cand_key_def) (metis fst_conv snd_conv)
  with c'(3) st(1) show ?thesis by (auto simp: default_status split: if_splits)
qed

end
