(* ===== verification/IdentityGaps.thy ===== *)
theory IdentityGaps
  imports IdentityEngine
begin

text \<open>
  Two runs of the automatic merge on three records of one call. The scan evaluates every pair
  before the first merge, and a merge neither re-evaluates the pairs of the consolidated survivor
  nor looks at \<open>is_merged\<close>. So the rule that conflicting IMO numbers never merge automatically
  is not transitive, and a merged record can itself become a survivor.
\<close>

section \<open>Merging records without children\<close>

lemma touch_sel [simp]:
  "vc_text (touch now f v) = vc_text (f v)" "vc_num (touch now f v) = vc_num (f v)"
  "vc_is_merged (touch now f v) = vc_is_merged (f v)"
  "vc_merged_into_id (touch now f v) = vc_merged_into_id (f v)"
  "vc_tenant_id (touch now f v) = vc_tenant_id (f v)"
  by (simp_all add: touch_def)

definition childless :: "'a canon_db_scheme \<Rightarrow> bool" where
  "childless s \<longleftrightarrow> event_occurrences s = [] \<and> service_requests s = [] \<and> delays s = []"

lemma auto_merge_one_childless:
  assumes c: "get_by mc_id i (match_candidates s) = Inr (Some c)"
      "mc_status c = Disp AUTO_MERGE_CANDIDATE" "\<not> mc_conflict_detected c"
    and v: "get_by vc_id (mc_source_record_1_id c) (vessel_calls s) = Inr (Some v1)"
      "get_by vc_id (mc_source_record_2_id c) (vessel_calls s) = Inr (Some v2)"
    and sm: "determine_survivor_record v1 v2 = (a, b)" and s: "childless s"
  shows "\<exists>d s'. auto_merge_one now uuid i (ds, s) = (ds @ [d], s') \<and> childless s' \<and>
     md_survivor_record_id d = vc_id a \<and> md_merged_record_id d = vc_id b \<and>
     vessel_calls s' = merge_rows now a b (pv_consolidated (generate_preview v1 v2)) (vessel_calls s) \<and>
     match_candidates s' = upd_by mc_id i (\<lambda>m. m\<lparr>mc_status := CAND_MERGED\<rparr>) (match_candidates s)"
proof -
  have "mc_id c = i" using c(1) by (auto dest: get_by_SomeD)
  then show ?thesis
    using s by (simp add: auto_merge_one_def execute_merge_def c v sm Let_def childless_def dict_update_def
        rehome_services_def rehome_delays_def)
qed

lemma auto_merge_one_skip:
  "get_by mc_id i (match_candidates s) = Inr (Some c) \<Longrightarrow> mc_status c \<noteq> Disp AUTO_MERGE_CANDIDATE \<Longrightarrow>
     auto_merge_one now uuid i (ds, s) = (ds, s)"
  by (simp add: auto_merge_one_def)

section \<open>The records\<close>

definition mk_call :: "uid \<Rightarrow> (text_col \<rightharpoonup> string) \<Rightarrow> vessel_call" where
  "mk_call i t = \<lparr>vc_id = i, vc_created_at = 0, vc_updated_at = 0, vc_tenant_id = ''T'',
     vc_is_merged = False, vc_merged_into_id = None, vc_text = t, vc_num = (\<lambda>_. None)\<rparr>"

definition calls_db :: "vessel_call list \<Rightarrow> identity_db" where
  "calls_db vs = \<lparr>vessel_calls = vs, event_occurrences = [], event_definitions = [], service_requests = [],
     service_assignments = [], service_executions = [], delays = [], delay_allocations = [],
     cargo_operations = [], quality_rules = [], quality_issues = [], audit_log = [], draws = 0,
     match_candidates = [], match_evidence_rows = [], merge_decisions = []\<rparr>"

lemma mk_call_sel [simp]:
  "vc_id (mk_call i t) = i" "vc_text (mk_call i t) = t" "vc_num (mk_call i t) = (\<lambda>_. None)"
  "vc_is_merged (mk_call i t) = False" "vc_tenant_id (mk_call i t) = ''T''"
  "vc_merged_into_id (mk_call i t) = None"
  by (simp_all add: mk_call_def)

lemma calls_db_sel [simp]:
  "vessel_calls (calls_db vs) = vs" "event_occurrences (calls_db vs) = []" "quality_rules (calls_db vs) = []"
  "quality_issues (calls_db vs) = []" "draws (calls_db vs) = 0" "match_candidates (calls_db vs) = []"
  "match_evidence_rows (calls_db vs) = []" "delays (calls_db vs) = []" "service_requests (calls_db vs) = []"
  "merge_decisions (calls_db vs) = []"
  by (simp_all add: calls_db_def)

lemma process_new_pair:
  assumes "scan_ok uuid (ids, s)" "comparable v w" "pair_ids v w \<notin> cand_key ` set (match_candidates s)"
    and "\<forall>c \<in> set (match_candidates s). \<exists>n < draws s. mc_id c = uuid n"
  shows "\<exists>i s'. process_pair m uuid (v, w) (ids, s) = Inr (ids @ [i], s') \<and> scan_ok uuid (ids @ [i], s') \<and>
     match_candidates s' = match_candidates s @ [new_candidate i (pair_ids v w) (evaluate_pair m v w)] \<and>
     vessel_calls s' = vessel_calls s \<and> (childless s \<longrightarrow> childless s') \<and> i \<notin> mc_id ` set (match_candidates s) \<and>
     (\<forall>c \<in> set (match_candidates s'). \<exists>n < draws s'. mc_id c = uuid n)"
proof (rule process_pair_cases [OF assms(1), of v w m], goal_cases)
  case 1
  then show ?case using assms(2) by simp
next
  case (2 c)
  then show ?case using assms(3) by force
next
  case (3 c evs s')
  have s': "match_candidates s' = match_candidates s @ [c]" "vessel_calls s' = vessel_calls s"
      "childless s \<longrightarrow> childless s'"
    using dq_only_identity(1) [OF 3(4)] dq_only_sel(1-4) [OF 3(4)] by (simp_all add: scan_state_def childless_def)
  have i: "mc_id c = uuid (draws s)" using 3(3) by (simp add: new_candidate_def)
  have "scan_ok uuid (ids @ [mc_id c], s')"
    using scan.keeps_ok [OF assms(1)] 3(7) by simp
  moreover have "mc_id c \<notin> mc_id ` set (match_candidates s)"
  proof
    assume "mc_id c \<in> mc_id ` set (match_candidates s)"
    then obtain n where "n < draws s" "uuid (draws s) = uuid n" using assms(4) i by force
    moreover have "inj uuid" using issues_okD(1) [of uuid s] assms(1) by (simp add: scan_ok_def)
    ultimately show False by (simp add: inj_eq)
  qed
  moreover have "\<exists>n < draws s'. mc_id c' = uuid n" if "c' \<in> set (match_candidates s')" for c'
    using that assms(4) s'(1) i 3(6) by auto (meson less_trans)
  moreover have "c = new_candidate (mc_id c) (pair_ids v w) (evaluate_pair m v w)"
    using 3(3) by (simp add: new_candidate_def)
  ultimately show ?case using 3(7) s' by (intro exI [of _ "mc_id c"] exI [of _ s']) auto
qed

lemma three_candidates:
  assumes inj: "inj uuid"
    and ids: "vc_id a = ''a''" "vc_id b = ''b''" "vc_id c = ''c''"
    and un: "\<not> vc_is_merged a" "\<not> vc_is_merged b" "\<not> vc_is_merged c"
      "vc_tenant_id a = ''T''" "vc_tenant_id b = ''T''" "vc_tenant_id c = ''T''"
    and agree: "key_agrees Vcn a b" "key_agrees Vcn a c" "key_agrees Vcn b c"
  obtains i j k s where "generate_candidates m uuid ''T'' (calls_db [a, b, c]) = Inr ([i, j, k], s)"
    "i \<noteq> j" "i \<noteq> k" "j \<noteq> k" "childless s" "vessel_calls s = [a, b, c]"
    "match_candidates s = [new_candidate i (''a'', ''b'') (evaluate_pair m a b),
       new_candidate j (''a'', ''c'') (evaluate_pair m a c), new_candidate k (''b'', ''c'') (evaluate_pair m b c)]"
proof -
  let ?s0 = "calls_db [a, b, c]"
  have comp: "comparable a b" "comparable a c" "comparable b c" using agree by (simp_all add: comparable_def)
  have pids: "pair_ids a b = (''a'', ''b'')" "pair_ids a c = (''a'', ''c'')" "pair_ids b c = (''b'', ''c'')"
    unfolding pair_ids_def ids by code_simp+
  have um: "unmerged_calls ''T'' ?s0 = [a, b, c]" using un by (simp add: unmerged_calls_def)
  have ok: "scan_ok uuid ([], ?s0)" using inj by (simp add: scan_ok_def issues_ok_def)
  obtain i s1 where 1: "process_pair m uuid (a, b) ([], ?s0) = Inr ([i], s1)" "scan_ok uuid ([i], s1)" "childless s1"
      "match_candidates s1 = [new_candidate i (''a'', ''b'') (evaluate_pair m a b)]" "vessel_calls s1 = [a, b, c]"
      "\<forall>c \<in> set (match_candidates s1). \<exists>n < draws s1. mc_id c = uuid n"
    using process_new_pair [OF ok comp(1), of m] by (auto simp: pids childless_def)
  obtain j s2 where 2: "process_pair m uuid (a, c) ([i], s1) = Inr ([i, j], s2)" "scan_ok uuid ([i, j], s2)" "childless s2"
      "match_candidates s2 = match_candidates s1 @ [new_candidate j (''a'', ''c'') (evaluate_pair m a c)]"
      "vessel_calls s2 = [a, b, c]" "j \<notin> mc_id ` set (match_candidates s1)"
      "\<forall>c \<in> set (match_candidates s2). \<exists>n < draws s2. mc_id c = uuid n"
    using process_new_pair [OF 1(2) comp(2) _ 1(6), of m] 1(3,4,5) by (auto simp: pids)
  obtain k s3 where 3: "process_pair m uuid (b, c) ([i, j], s2) = Inr ([i, j, k], s3)" "childless s3"
      "match_candidates s3 = match_candidates s2 @ [new_candidate k (''b'', ''c'') (evaluate_pair m b c)]"
      "vessel_calls s3 = [a, b, c]" "k \<notin> mc_id ` set (match_candidates s2)"
    using process_new_pair [OF 2(2) comp(3) _ 2(7), of m] 1(4) 2(3,4,5) by (auto simp: pids)
  have "mc_id (new_candidate x y z) = x" for x y z by (simp add: new_candidate_def)
  then show ?thesis
    using that [of i j k s3] 1(1,4) 2(1,4,6) 3 by (auto simp: generate_candidates_def um)
qed

section \<open>Conflicting IMO numbers merged through a record without one\<close>

definition aurora_a :: vessel_call where
  "aurora_a = mk_call ''a'' [Vessel_name \<mapsto> ''MSC AURORA'', Vcn \<mapsto> ''V1'', Flag \<mapsto> ''MT'', Call_sign \<mapsto> ''X'']"
definition aurora_b :: vessel_call where
  "aurora_b = mk_call ''b'' [Vessel_name \<mapsto> ''MSC AURORA'', Vcn \<mapsto> ''V1'', Imo_number \<mapsto> ''111'']"
definition aurora_c :: vessel_call where
  "aurora_c = mk_call ''c'' [Vessel_name \<mapsto> ''MSC AURORA'', Vcn \<mapsto> ''V1'', Imo_number \<mapsto> ''222'']"

lemmas aurora_defs = aurora_a_def aurora_b_def aurora_c_def

lemma strips [simp]:
  "py_strip ''V1'' = ''V1''" "py_strip ''111'' = ''111''" "py_strip ''222'' = ''222''" "py_strip '''' = ''''"
  by code_simp+

lemma aurora_facts:
  "key_agrees Vcn aurora_a aurora_b" "key_agrees Vcn aurora_a aurora_c" "key_agrees Vcn aurora_b aurora_c"
  "\<not> conflict_detected aurora_a aurora_b" "\<not> conflict_detected aurora_a aurora_c"
  "conflict_detected aurora_b aurora_c"
  by (simp_all add: key_agrees_def key_conflict_def conflict_detected_def strip_col_def aurora_defs)

lemma aurora_status:
  "mr_status (evaluate_pair default_matcher aurora_a aurora_b) = AUTO_MERGE_CANDIDATE"
  "mr_status (evaluate_pair default_matcher aurora_a aurora_c) = AUTO_MERGE_CANDIDATE"
  "mr_status (evaluate_pair default_matcher aurora_b aurora_c) = BLOCKED_BY_CONFLICT"
  by (simp_all add: default_status aurora_facts)

definition consolidate :: "time \<Rightarrow> vessel_call \<Rightarrow> vessel_call \<Rightarrow> vessel_call" where
  "consolidate now v w = touch now (set_fields (pv_consolidated (generate_preview v w))) v"

definition mark :: "time \<Rightarrow> uid \<Rightarrow> vessel_call \<Rightarrow> vessel_call" where
  "mark now i v = touch now (\<lambda>v. v\<lparr>vc_is_merged := True, vc_merged_into_id := Some i\<rparr>) v"

lemma consolidate_other [simp]:
  "vc_id (consolidate now v w) = vc_id v" "vc_is_merged (consolidate now v w) = vc_is_merged v"
  "vc_merged_into_id (consolidate now v w) = vc_merged_into_id v"
  by (simp_all add: consolidate_def)

lemma mark_other [simp]:
  "vc_id (mark now i v) = vc_id v" "vc_is_merged (mark now i v)" "vc_merged_into_id (mark now i v) = Some i"
  "vc_text (mark now i v) = vc_text v" "vc_num (mark now i v) = vc_num v"
  by (simp_all add: mark_def)

lemmas merge_eval = consolidate_def survivor_score_def completeness_def comparable_fields_def consolidated_eq
  resolve_field_def set_fields_def set_field_def get_field_def filled_def odd_name_def unclean_def
  py_startswith_def py_endswith_def determine_survivor_record_def

lemma aurora_scores:
  "survivor_score aurora_a = 4" "survivor_score aurora_b = 3" "survivor_score aurora_c = 3"
  "survivor_score (consolidate now aurora_a aurora_b) = 5"
  by (simp_all add: aurora_defs merge_eval Let_def)

lemma merge_rows_three:
  assumes "vc_id a = ''a''" "vc_id b = ''b''" "vc_id c = ''c''"
  shows
    "merge_rows now a b vals [a, b, c] = [touch now (set_fields vals) a, mark now ''a'' b, c]"
    "merge_rows now a c vals [a, b, c] = [touch now (set_fields vals) a, b, mark now ''a'' c]"
    "merge_rows now c a vals [a, b, c] = [mark now ''c'' a, b, touch now (set_fields vals) c]"
    "merge_rows now b c vals [a, b, c] = [a, touch now (set_fields vals) b, mark now ''b'' c]"
  using assms by (simp_all add: merge_rows_def upd_by_def mark_def)

lemma get_by_three:
  assumes "vc_id a = ''a''" "vc_id b = ''b''" "vc_id c = ''c''"
  shows "get_by vc_id ''a'' [a, b, c] = Inr (Some a)" "get_by vc_id ''b'' [a, b, c] = Inr (Some b)"
    "get_by vc_id ''c'' [a, b, c] = Inr (Some c)"
  using assms by (simp_all add: get_by_def)

text \<open>The three candidate rows after the scan and while they are being marked.\<close>

lemma new_candidate_sel [simp]:
  "mc_id (new_candidate i p r) = i" "mc_source_record_1_id (new_candidate i p r) = fst p"
  "mc_source_record_2_id (new_candidate i p r) = snd p" "mc_status (new_candidate i p r) = Disp (mr_status r)"
  "mc_conflict_detected (new_candidate i p r) = mr_conflict_detected r"
  by (simp_all add: new_candidate_def)

text \<open>One automatic merge of a candidate row holding the evaluation of two of the records.\<close>

lemma auto_step:
  assumes c: "filter (\<lambda>c. mc_id c = i) (match_candidates s) = [new_candidate i p r]"
    and r: "mr_status r = AUTO_MERGE_CANDIDATE" "\<not> mr_conflict_detected r"
    and v: "get_by vc_id (fst p) (vessel_calls s) = Inr (Some v1)" "get_by vc_id (snd p) (vessel_calls s) = Inr (Some v2)"
    and sm: "determine_survivor_record v1 v2 = (a, b)" and s: "childless s"
  obtains d s' where "auto_merge_one now uuid i (ds, s) = (ds @ [d], s')" "childless s'"
    "vessel_calls s' = merge_rows now a b (pv_consolidated (generate_preview v1 v2)) (vessel_calls s)"
    "match_candidates s' = upd_by mc_id i (\<lambda>m. m\<lparr>mc_status := CAND_MERGED\<rparr>) (match_candidates s)"
proof -
  have "get_by mc_id i (match_candidates s) = Inr (Some (new_candidate i p r))" by (simp add: get_by_def c)
  from auto_merge_one_childless [OF this _ _ _ _ sm s, of now uuid ds] r v that show ?thesis by auto
qed

lemma aurora_run:
  assumes "inj uuid"
  obtains ds s' where
    "auto_merge_candidates default_matcher now uuid ''T'' (calls_db [aurora_a, aurora_b, aurora_c]) = Inr (ds, s')"
    "vessel_calls s' = [consolidate now (consolidate now aurora_a aurora_b) aurora_c,
       mark now ''a'' aurora_b, mark now ''a'' aurora_c]" "ds \<noteq> []"
proof -
  let ?a = aurora_a and ?b = aurora_b and ?c = aurora_c and ?m = default_matcher
  let ?A = "consolidate now ?a ?b"
  have ids: "vc_id ?a = ''a''" "vc_id ?b = ''b''" "vc_id ?c = ''c''" by (simp_all add: aurora_defs)
  have un: "\<not> vc_is_merged ?a" "\<not> vc_is_merged ?b" "\<not> vc_is_merged ?c"
    "vc_tenant_id ?a = ''T''" "vc_tenant_id ?b = ''T''" "vc_tenant_id ?c = ''T''" by (simp_all add: aurora_defs)
  obtain i j k s where g: "generate_candidates ?m uuid ''T'' (calls_db [?a, ?b, ?c]) = Inr ([i, j, k], s)"
      "i \<noteq> j" "i \<noteq> k" "j \<noteq> k" "childless s" "vessel_calls s = [?a, ?b, ?c]"
      "match_candidates s = [new_candidate i (''a'', ''b'') (evaluate_pair ?m ?a ?b),
         new_candidate j (''a'', ''c'') (evaluate_pair ?m ?a ?c), new_candidate k (''b'', ''c'') (evaluate_pair ?m ?b ?c)]"
    by (rule three_candidates [OF assms ids un aurora_facts(1-3), of ?m])
  have conf: "mr_conflict_detected (evaluate_pair ?m v w) = conflict_detected v w" for v w
    by (simp add: evaluate_pair_fields)
  have d1: "determine_survivor_record ?a ?b = (?a, ?b)" "determine_survivor_record ?A ?c = (?A, ?c)"
    by (simp_all add: determine_survivor_record_def aurora_scores)
  obtain x1 s1 where 1: "auto_merge_one now uuid i ([], s) = ([] @ [x1], s1)" "childless s1"
      "vessel_calls s1 = merge_rows now ?a ?b (pv_consolidated (generate_preview ?a ?b)) (vessel_calls s)"
      "match_candidates s1 = upd_by mc_id i (\<lambda>m. m\<lparr>mc_status := CAND_MERGED\<rparr>) (match_candidates s)"
    by (rule auto_step [where now = now and uuid = uuid and ds = "[]" and i = i and p = "(''a'', ''b'')"
        and r = "evaluate_pair ?m ?a ?b", OF _ _ _ _ _ d1(1) g(5)])
      (use g ids in \<open>simp_all add: aurora_status conf aurora_facts get_by_three\<close>)
  have v1: "vessel_calls s1 = [?A, mark now ''a'' ?b, ?c]"
    using 1(3) ids by (simp add: g(6) merge_rows_three consolidate_def)
  obtain x2 s2 where 2: "auto_merge_one now uuid j ([x1], s1) = ([x1] @ [x2], s2)" "childless s2"
      "vessel_calls s2 = merge_rows now ?A ?c (pv_consolidated (generate_preview ?A ?c)) (vessel_calls s1)"
      "match_candidates s2 = upd_by mc_id j (\<lambda>m. m\<lparr>mc_status := CAND_MERGED\<rparr>) (match_candidates s1)"
    by (rule auto_step [where now = now and uuid = uuid and ds = "[x1]" and i = j and p = "(''a'', ''c'')"
        and r = "evaluate_pair ?m ?a ?c", OF _ _ _ _ _ d1(2) 1(2)])
      (use 1(4) g(2-4,7) ids in \<open>simp_all add: v1 upd_by_def aurora_status conf aurora_facts get_by_three\<close>)
  have "get_by mc_id k (match_candidates s2) = Inr (Some (new_candidate k (''b'', ''c'') (evaluate_pair ?m ?b ?c)))"
    using 1(4) 2(4) g(2-4,7) by (simp add: upd_by_def get_by_def)
  then have "auto_merge_one now uuid k ([x1, x2], s2) = ([x1, x2], s2)"
    by (rule auto_merge_one_skip) (simp add: aurora_status)
  moreover have "vessel_calls s2 = [consolidate now ?A ?c, mark now ''a'' ?b, mark now ''a'' ?c]"
    using 2(3) ids by (simp add: v1 merge_rows_three consolidate_def [of now ?A ?c])
  ultimately show ?thesis using that [of "[x1, x2]" s2] g(1) 1(1) 2(1) by (simp add: auto_merge_candidates_def)
qed

section \<open>Three duplicates merged into one another\<close>

definition mary_a :: vessel_call where
  "mary_a = mk_call ''a'' [Vessel_name \<mapsto> ''ST. MARY'', Vcn \<mapsto> ''V1'', Flag \<mapsto> ''MT'', Imo_number \<mapsto> ''1'']"
definition mary_b :: vessel_call where
  "mary_b = mk_call ''b'' [Vessel_name \<mapsto> ''ST MARY'', Vcn \<mapsto> ''V1'']"
definition mary_c :: vessel_call where
  "mary_c = mk_call ''c'' [Vessel_name \<mapsto> ''ST MARY'', Vcn \<mapsto> ''V1'', Flag \<mapsto> ''MT'']"

lemmas mary_defs = mary_a_def mary_b_def mary_c_def

lemma mary_strips [simp]:
  "py_strip ''1'' = ''1''" "py_strip ''ST. MARY'' = ''ST. MARY''" "py_strip ''ST MARY'' = ''ST MARY''"
  by code_simp+

lemma mary_facts:
  "key_agrees Vcn mary_a mary_b" "key_agrees Vcn mary_a mary_c" "key_agrees Vcn mary_b mary_c"
  "\<not> conflict_detected mary_a mary_b" "\<not> conflict_detected mary_a mary_c" "\<not> conflict_detected mary_b mary_c"
  by (simp_all add: key_agrees_def key_conflict_def conflict_detected_def strip_col_def mary_defs)

lemma mary_status:
  "mr_status (evaluate_pair default_matcher mary_a mary_b) = AUTO_MERGE_CANDIDATE"
  "mr_status (evaluate_pair default_matcher mary_a mary_c) = AUTO_MERGE_CANDIDATE"
  "mr_status (evaluate_pair default_matcher mary_b mary_c) = AUTO_MERGE_CANDIDATE"
  by (simp_all add: default_status mary_facts)

text \<open>The survivor takes the name with the inner dot, which the survivorship rule for names does
  not count as unclean but the choice of the survivor penalises.\<close>

lemma mary_scores:
  "survivor_score mary_a = 2" "survivor_score mary_b = 2" "survivor_score mary_c = 3"
  by (simp_all add: mary_defs merge_eval Let_def)

definition mary_A :: "time \<Rightarrow> vessel_call" where
  "mary_A now = consolidate now mary_a mary_b"
definition mary_C :: "time \<Rightarrow> vessel_call" where
  "mary_C now = touch now (set_fields (pv_consolidated (generate_preview (mary_A now) mary_c))) mary_c"

definition same_fields :: "vessel_call \<Rightarrow> vessel_call \<Rightarrow> bool" where
  "same_fields v w \<longleftrightarrow> (\<forall>(f, _, _) \<in> set comparable_fields. get_field v f = get_field w f)"

lemma same_fields_score: assumes "same_fields v w" shows "survivor_score v = survivor_score w"
proof -
  have "filter (\<lambda>(f, _, _). filled (get_field v f)) comparable_fields =
      filter (\<lambda>(f, _, _). filled (get_field w f)) comparable_fields"
    using assms by (intro filter_cong) (auto simp: same_fields_def)
  moreover have "get_field v (Txt Vessel_name) = get_field w (Txt Vessel_name)"
    using assms by (auto simp: same_fields_def comparable_fields_def)
  then have "vc_vessel_name v = vc_vessel_name w"
    by (cases "vc_vessel_name v"; cases "vc_vessel_name w") (auto simp: get_field_def)
  ultimately show ?thesis by (simp add: survivor_score_def completeness_def)
qed

lemma get_field_touch [simp]: "get_field (touch now f v) g = get_field (f v) g"
  by (cases g) (simp_all add: get_field_def)

lemma get_field_mark [simp]: "get_field (mark now i v) g = get_field v g"
  by (cases g) (simp_all add: get_field_def)

text \<open>After a merge every comparable column holds the value the survivorship rules chose.\<close>

lemma get_consolidated:
  assumes "(f, l, r) \<in> set comparable_fields"
  shows "get_field (set_fields (pv_consolidated (generate_preview v w)) u) f =
           rs_winner_value (resolve_field f r (get_field v f) (get_field w f) (vc_id v) (vc_id w))"
proof -
  let ?kvs = "pv_consolidated (generate_preview v w)"
  let ?x = "rs_winner_value (resolve_field f r (get_field v f) (get_field w f) (vc_id v) (vc_id w))"
  have d: "distinct (map fst ?kvs)" by (simp add: consolidated_fields comparable_fields_distinct)
  have "(f, ?x) \<in> set ?kvs" using assms by (force simp: consolidated_eq)
  then have "map_of ?kvs f = Some ?x" using d by simp
  moreover have "\<forall>(f, x) \<in> set ?kvs. kind_ok f x" using consolidated_kind by blast
  ultimately show ?thesis using get_set_fields [OF _ d] by simp
qed

lemma mary_resolved:
  assumes "w = mary_b \<or> w = mary_c"
  shows "\<forall>(f, _, r) \<in> set comparable_fields.
    rs_winner_value (resolve_field f r (get_field mary_a f) (get_field w f) i j) = get_field mary_a f"
  using assms by (elim disjE) (simp_all add: comparable_fields_def resolve_field_def get_field_def mary_defs Let_def
      unclean_def py_endswith_def py_startswith_def)

lemma mary_resolvedD:
  assumes "(f, l, r) \<in> set comparable_fields" "w = mary_b \<or> w = mary_c"
  shows "rs_winner_value (resolve_field f r (get_field mary_a f) (get_field w f) i j) = get_field mary_a f"
  using mary_resolved [OF assms(2), of i j] assms(1) by fast

lemma same_fieldsI:
  "(\<And>f l r. (f, l, r) \<in> set comparable_fields \<Longrightarrow> get_field v f = get_field w f) \<Longrightarrow> same_fields v w"
  by (auto simp: same_fields_def)

lemma mary_A_same: "same_fields (mary_A now) mary_a"
  by (rule same_fieldsI) (simp add: mary_A_def consolidate_def get_consolidated mary_resolvedD)

lemma mary_C_same: "same_fields (mary_C now) mary_a"
proof (rule same_fieldsI)
  fix f l r assume f: "(f, l, r) \<in> set comparable_fields"
  then have "get_field (mary_A now) f = get_field mary_a f"
    using mary_A_same [of now] by (auto simp: same_fields_def)
  then show "get_field (mary_C now) f = get_field mary_a f"
    by (simp add: mary_C_def get_consolidated [OF f] mary_resolvedD [OF f])
qed

lemma mary_ids [simp]: "vc_id mary_a = ''a''" "vc_id mary_b = ''b''" "vc_id mary_c = ''c''"
    "vc_id (mary_A now) = ''a''" "vc_id (mary_C now) = ''c''"
  by (simp_all add: mary_defs mary_A_def mary_C_def)

lemma mary_AC_scores: "survivor_score (mary_A now) = 2" "survivor_score (mary_C now) = 2"
  using same_fields_score [OF mary_A_same] same_fields_score [OF mary_C_same] by (simp_all add: mary_scores)

lemma mary_mark_score: "survivor_score (mark now i v) = survivor_score v"
  by (rule same_fields_score) (auto simp: same_fields_def)

lemma mary_run:
  assumes "inj uuid"
  obtains ds s' where
    "auto_merge_candidates default_matcher now uuid ''T'' (calls_db [mary_a, mary_b, mary_c]) = Inr (ds, s')"
    "map vc_is_merged (vessel_calls s') = [True, True, True]"
    "map vc_merged_into_id (vessel_calls s') = [Some ''c'', Some ''a'', Some ''b'']"
proof -
  let ?a = mary_a and ?b = mary_b and ?c = mary_c and ?m = default_matcher
  let ?A = "mary_A now" and ?C = "mary_C now" and ?B = "mark now ''a'' mary_b"
  have ids: "vc_id ?a = ''a''" "vc_id ?b = ''b''" "vc_id ?c = ''c''" by (simp_all add: mary_defs)
  have un: "\<not> vc_is_merged ?a" "\<not> vc_is_merged ?b" "\<not> vc_is_merged ?c"
    "vc_tenant_id ?a = ''T''" "vc_tenant_id ?b = ''T''" "vc_tenant_id ?c = ''T''" by (simp_all add: mary_defs)
  obtain i j k s where g: "generate_candidates ?m uuid ''T'' (calls_db [?a, ?b, ?c]) = Inr ([i, j, k], s)"
      "i \<noteq> j" "i \<noteq> k" "j \<noteq> k" "childless s" "vessel_calls s = [?a, ?b, ?c]"
      "match_candidates s = [new_candidate i (''a'', ''b'') (evaluate_pair ?m ?a ?b),
         new_candidate j (''a'', ''c'') (evaluate_pair ?m ?a ?c), new_candidate k (''b'', ''c'') (evaluate_pair ?m ?b ?c)]"
    by (rule three_candidates [OF assms ids un mary_facts(1-3), of ?m])
  have conf: "mr_conflict_detected (evaluate_pair ?m v w) = conflict_detected v w" for v w
    by (simp add: evaluate_pair_fields)
  have det: "determine_survivor_record ?a ?b = (?a, ?b)" "determine_survivor_record ?A ?c = (?c, ?A)"
    "determine_survivor_record ?B ?C = (?B, ?C)"
    by (simp_all add: determine_survivor_record_def mary_scores mary_AC_scores mary_mark_score)
  obtain x1 s1 where 1: "auto_merge_one now uuid i ([], s) = ([] @ [x1], s1)" "childless s1"
      "vessel_calls s1 = merge_rows now ?a ?b (pv_consolidated (generate_preview ?a ?b)) (vessel_calls s)"
      "match_candidates s1 = upd_by mc_id i (\<lambda>m. m\<lparr>mc_status := CAND_MERGED\<rparr>) (match_candidates s)"
    by (rule auto_step [where now = now and uuid = uuid and ds = "[]" and i = i and p = "(''a'', ''b'')"
        and r = "evaluate_pair ?m ?a ?b", OF _ _ _ _ _ det(1) g(5)])
      (use g ids in \<open>simp_all add: mary_status conf mary_facts get_by_three\<close>)
  have v1: "vessel_calls s1 = [?A, ?B, ?c]"
    using 1(3) ids by (simp add: g(6) merge_rows_three consolidate_def mary_A_def)
  obtain x2 s2 where 2: "auto_merge_one now uuid j ([x1], s1) = ([x1] @ [x2], s2)" "childless s2"
      "vessel_calls s2 = merge_rows now ?c ?A (pv_consolidated (generate_preview ?A ?c)) (vessel_calls s1)"
      "match_candidates s2 = upd_by mc_id j (\<lambda>m. m\<lparr>mc_status := CAND_MERGED\<rparr>) (match_candidates s1)"
    by (rule auto_step [where now = now and uuid = uuid and ds = "[x1]" and i = j and p = "(''a'', ''c'')"
        and r = "evaluate_pair ?m ?a ?c", OF _ _ _ _ _ det(2) 1(2)])
      (use 1(4) g(2-4,7) ids in \<open>simp_all add: v1 upd_by_def mary_status conf mary_facts get_by_three\<close>)
  have v2: "vessel_calls s2 = [mark now ''c'' ?A, ?B, ?C]"
    using 2(3) ids by (simp add: v1 merge_rows_three mary_C_def)
  obtain x3 s3 where 3: "auto_merge_one now uuid k ([x1, x2], s2) = ([x1, x2] @ [x3], s3)"
      "vessel_calls s3 = merge_rows now ?B ?C (pv_consolidated (generate_preview ?B ?C)) (vessel_calls s2)"
    by (rule auto_step [where now = now and uuid = uuid and ds = "[x1, x2]" and i = k and p = "(''b'', ''c'')"
        and r = "evaluate_pair ?m ?b ?c", OF _ _ _ _ _ det(3) 2(2)])
      (use 1(4) 2(4) g(2-4,7) ids in \<open>simp_all add: v2 upd_by_def mary_status conf mary_facts get_by_three\<close>)
  have "map vc_is_merged (vessel_calls s3) = [True, True, True]"
    "map vc_merged_into_id (vessel_calls s3) = [Some ''c'', Some ''a'', Some ''b'']"
    using 3(2) ids by (simp_all add: v2 merge_rows_three)
  then show ?thesis using that [of "[x1, x2, x3]" s3] g(1) 1(1) 2(1) 3(1) by (simp add: auto_merge_candidates_def)
qed

section \<open>Properties\<close>

definition demo_uuid :: "nat \<Rightarrow> uid" where
  "demo_uuid n = replicate n (CHR ''u'')"

lemma inj_demo_uuid: "inj demo_uuid"
proof (rule injI)
  fix m n assume "demo_uuid m = demo_uuid n"
  then have "length (demo_uuid m) = length (demo_uuid n)" by simp
  then show "m = n" by (simp add: demo_uuid_def)
qed

definition same_conflict_survives :: "vessel_call list \<Rightarrow> bool" where
  "same_conflict_survives vs \<longleftrightarrow>
     (\<exists>v \<in> set vs. \<exists>w \<in> set vs. key_conflict Imo_number v w \<and> vc_merged_into_id v = Some ''a'' \<and>
        vc_merged_into_id w = Some ''a'')"

text \<open>A merge of a candidate that is flagged as conflicting is refused unless it is a manual
  one, and refusing it changes nothing: the operation returns an error and no new state.\<close>

theorem auto_merge_of_conflict_refused:
  assumes "get_by mc_id cid (match_candidates s) = Inr (Some c)" "mc_conflict_detected c"
  shows "\<exists>msg. execute_merge now new_id cid actor False custom s = Inl (ValueError msg)"
  using execute_merge_guard [OF assms] .

theorem auto_merge_of_conflict_refused_witness:
  "\<exists>msg. execute_merge 1 ''d'' ''c1'' ''bot'' False []
     ((calls_db [aurora_b, aurora_c])\<lparr>match_candidates :=
        [new_candidate ''c1'' (''b'', ''c'') (evaluate_pair default_matcher aurora_b aurora_c)]\<rparr>)
     = Inl (ValueError msg)"
  by (rule auto_merge_of_conflict_refused [where c = "new_candidate ''c1'' (''b'', ''c'')
        (evaluate_pair default_matcher aurora_b aurora_c)"])
    (simp_all add: get_by_def evaluate_pair_fields aurora_facts)

text \<open>C35. Unmerging a merge restores the rows of both vessel calls, and every service request and
  delay, exactly. Of the events it restores all but those the merge deleted as duplicates of an
  event of the survivor (same definition and index): these are gone, although the response says that
  records and children are restored to the prior state.\<close>

theorem unmerge_after_merge:
  assumes "identity_ok s" "execute_merge now new_id cid actor manual custom s = Inr (d, s1)"
    and "new_id \<notin> md_id ` set (merge_decisions s)"
    and "\<forall>v \<in> set (vessel_calls s). vc_id v = md_merged_record_id d \<longrightarrow>
           \<not> vc_is_merged v \<and> vc_merged_into_id v = None"
  shows "\<exists>r s2. execute_unmerge new_id actor' notes s1 = Inr (r, s2) \<and> vessel_calls s2 = vessel_calls s \<and>
     service_requests s2 = service_requests s \<and> delays s2 = delays s \<and>
     event_occurrences s2 = filter (\<lambda>e. \<not> (eo_vessel_call_id e = md_merged_record_id d \<and>
       clashes (md_survivor_record_id d) (event_occurrences s) e)) (event_occurrences s)"
  using unmerge_restores [OF assms] by (simp add: kept_rows_def)

definition event_at :: "uid \<Rightarrow> uid \<Rightarrow> event_occurrence" where
  "event_at i v = \<lparr>eo_id = i, eo_source_lineage_id = None, eo_vessel_call_id = v, eo_event_definition_id = ''ATA'', eo_occurrence_index = 1,
     eo_movement_scope = ''ARRIVAL'', eo_original_string = None, eo_parsed_value = None,
     eo_source_timezone = None, eo_utc_value = 0, eo_operation_type = None, eo_attributes = [], eo_capture_method = None, eo_confidence = None,
     eo_verification_status = None, eo_source_system = None, eo_source_record_id = None,
     eo_ingestion_batch_id = None, eo_correction_history = [], eo_inference_status = None,
     eo_human_review_state = None, eo_is_quarantined = False, eo_superseded_by_id = None,
     eo_is_superseded = False, eo_created_at = 0\<rparr>"

definition two_calls_db :: identity_db where
  "two_calls_db = (calls_db [mary_a, mary_b])\<lparr>event_occurrences := [event_at ''e1'' ''a'', event_at ''e2'' ''b''],
     match_candidates := [new_candidate ''c1'' (''a'', ''b'') (evaluate_pair default_matcher mary_a mary_b)]\<rparr>"

lemma two_calls_merge:
  "\<exists>d s1. execute_merge 1 ''d1'' ''c1'' ''bot'' False [] two_calls_db = Inr (d, s1) \<and>
     md_merged_record_id d = ''b'' \<and> md_survivor_record_id d = ''a''"
proof -
  have "determine_survivor_record mary_a mary_b = (mary_a, mary_b)"
    by (simp add: determine_survivor_record_def mary_scores)
  moreover have "mr_conflict_detected (evaluate_pair default_matcher mary_a mary_b) = False"
    by (simp add: evaluate_pair_fields mary_facts)
  ultimately show ?thesis
    by (simp add: two_calls_db_def execute_merge_def get_by_def Let_def event_at_def transfer_event_def)
qed

theorem unmerge_after_merge_witness:
  "\<exists>d s1 r s2. execute_merge 1 ''d1'' ''c1'' ''bot'' False [] two_calls_db = Inr (d, s1) \<and>
     execute_unmerge ''d1'' ''ann'' None s1 = Inr (r, s2) \<and> vessel_calls s2 = [mary_a, mary_b] \<and>
     map eo_id (event_occurrences two_calls_db) = [''e1'', ''e2''] \<and> map eo_id (event_occurrences s2) = [''e1'']"
proof -
  obtain d s1 where run: "execute_merge 1 ''d1'' ''c1'' ''bot'' False [] two_calls_db = Inr (d, s1)"
    and d: "md_merged_record_id d = ''b''" "md_survivor_record_id d = ''a''"
    using two_calls_merge by blast
  have "identity_ok two_calls_db"
    by (simp add: identity_ok_def two_calls_db_def event_key_def event_at_def mary_defs)
  moreover have "''d1'' \<notin> md_id ` set (merge_decisions two_calls_db)"
    "\<forall>v \<in> set (vessel_calls two_calls_db). vc_id v = md_merged_record_id d \<longrightarrow>
       \<not> vc_is_merged v \<and> vc_merged_into_id v = None"
    by (simp_all add: two_calls_db_def mary_defs)
  ultimately obtain r s2 where
    u: "execute_unmerge ''d1'' ''ann'' None s1 = Inr (r, s2)" "vessel_calls s2 = vessel_calls two_calls_db"
      "event_occurrences s2 = filter (\<lambda>e. \<not> (eo_vessel_call_id e = md_merged_record_id d \<and>
         clashes (md_survivor_record_id d) (event_occurrences two_calls_db) e)) (event_occurrences two_calls_db)"
    using unmerge_after_merge [OF _ run, of "''ann''" None] by blast
  have "event_occurrences two_calls_db = [event_at ''e1'' ''a'', event_at ''e2'' ''b'']"
    "vessel_calls two_calls_db = [mary_a, mary_b]" by (simp_all add: two_calls_db_def)
  then have "map eo_id (event_occurrences s2) = [''e1'']" "map eo_id (event_occurrences two_calls_db) = [''e1'', ''e2'']"
    "vessel_calls s2 = [mary_a, mary_b]"
    using u(2,3) d by (simp_all add: clashes_def event_key_def event_at_def)
  with run u(1) show ?thesis by (intro exI conjI)
qed

text \<open>C37. The scan of a tenant always completes, leaves the vessel calls alone, stores exactly one
  candidate per pair of records, for every comparable pair of unmerged calls with the score and
  disposition of the matcher (overwriting whatever a steward or an unmerge had stored there), and a
  second scan adds no candidate.\<close>

theorem scan_complete_and_idempotent:
  assumes "scan_ok uuid ([], s)" "distinct (map vc_id (vessel_calls s))"
  shows "\<exists>cids s'. generate_candidates m uuid t s = Inr (cids, s') \<and> vessel_calls s' = vessel_calls s \<and>
     distinct (map cand_key (match_candidates s')) \<and>
     (\<forall>(a, b) \<in> set (all_pairs (unmerged_calls t s)). comparable a b \<longrightarrow>
        (\<exists>c \<in> set (match_candidates s'). cand_key c = pair_ids a b \<and>
           mc_match_score c = mr_match_score (evaluate_pair m a b) \<and>
           mc_status c = Disp (mr_status (evaluate_pair m a b)))) \<and>
     (\<forall>cids2 s2. generate_candidates m uuid t s' = Inr (cids2, s2) \<longrightarrow>
        map cand_key (match_candidates s2) = map cand_key (match_candidates s'))"
proof -
  obtain cids s' where g: "generate_candidates m uuid t s = Inr (cids, s')" "scan_ok uuid (cids, s')"
    "vessel_calls s' = vessel_calls s" "scanned m (all_pairs (unmerged_calls t s)) (cids, s')"
    by (rule generate_candidates_stores [OF assms, of m t])
  have "\<exists>c \<in> set (match_candidates s'). cand_key c = pair_ids a b \<and>
      mc_match_score c = mr_match_score (evaluate_pair m a b) \<and> mc_status c = Disp (mr_status (evaluate_pair m a b))"
    if ab: "(a, b) \<in> set (all_pairs (unmerged_calls t s))" and cmp: "comparable a b" for a b
  proof -
    have "scan_target (a, b) \<noteq> None" using cmp by (simp add: scan_target_def)
    then obtain c where c: "c \<in> set (match_candidates s')" "stored m (a, b) c"
      using bspec [OF conjunct1 [OF g(4) [unfolded scanned_def snd_conv]] ab] by fast
    have "scan_target (a, b) = Some (pair_ids a b)" using cmp by (simp add: scan_target_def)
    then show ?thesis using c(2) by (intro bexI [OF _ c(1)]) (simp add: stored_def Let_def)
  qed
  then have "\<forall>(a, b) \<in> set (all_pairs (unmerged_calls t s)). comparable a b \<longrightarrow>
      (\<exists>c \<in> set (match_candidates s'). cand_key c = pair_ids a b \<and>
        mc_match_score c = mr_match_score (evaluate_pair m a b) \<and>
        mc_status c = Disp (mr_status (evaluate_pair m a b)))" by fast
  moreover have "distinct (map cand_key (match_candidates s'))" using g(2) by (simp add: scan_ok_def)
  moreover have "\<forall>cids2 s2. generate_candidates m uuid t s' = Inr (cids2, s2) \<longrightarrow>
      map cand_key (match_candidates s2) = map cand_key (match_candidates s')"
    using generate_candidates_twice [OF assms g(1)] by blast
  ultimately show ?thesis using g(1,3) by (intro exI conjI) assumption+
qed

theorem scan_complete_and_idempotent_witness:
  "\<exists>cids s'. generate_candidates default_matcher demo_uuid ''T'' (calls_db [aurora_a, aurora_b, aurora_c]) = Inr (cids, s') \<and>
     (\<exists>c \<in> set (match_candidates s'). cand_key c = (''b'', ''c'') \<and> mc_status c = Disp BLOCKED_BY_CONFLICT)"
proof -
  let ?s = "calls_db [aurora_a, aurora_b, aurora_c]"
  have "scan_ok demo_uuid ([], ?s)" "distinct (map vc_id (vessel_calls ?s))"
    by (simp_all add: scan_ok_def issues_ok_def inj_demo_uuid aurora_defs)
  then obtain cids s' where g: "generate_candidates default_matcher demo_uuid ''T'' ?s = Inr (cids, s')"
    "\<forall>(a, b) \<in> set (all_pairs (unmerged_calls ''T'' ?s)). comparable a b \<longrightarrow>
        (\<exists>c \<in> set (match_candidates s'). cand_key c = pair_ids a b \<and>
           mc_match_score c = mr_match_score (evaluate_pair default_matcher a b) \<and>
           mc_status c = Disp (mr_status (evaluate_pair default_matcher a b)))"
    using scan_complete_and_idempotent [of demo_uuid ?s default_matcher "''T''"] by blast
  have "(aurora_b, aurora_c) \<in> set (all_pairs (unmerged_calls ''T'' ?s))"
    by (simp add: unmerged_calls_def aurora_defs)
  moreover have "comparable aurora_b aurora_c" by (simp add: comparable_def aurora_facts)
  moreover have "pair_ids aurora_b aurora_c = (''b'', ''c'')"
    unfolding pair_ids_def aurora_defs mk_call_sel by code_simp
  ultimately show ?thesis using g aurora_status(3) by fastforce
qed

text \<open>C31. Every automatic merge joins two unmerged records of the tenant which, as they were when the
  scan compared them, shared a VCN or an IMO number and had no conflict.\<close>

theorem auto_merge_only_agreeing_pairs:
  assumes "scan_ok uuid ([], s)" "distinct (map vc_id (vessel_calls s))"
    and "auto_merge_candidates default_matcher now uuid t s = Inr (ds, s')" "d \<in> set ds"
  shows "\<exists>v1 v2. (v1, v2) \<in> set (all_pairs (unmerged_calls t s)) \<and>
     {md_survivor_record_id d, md_merged_record_id d} = {vc_id v1, vc_id v2} \<and>
     \<not> conflict_detected v1 v2 \<and> (key_agrees Vcn v1 v2 \<or> key_agrees Imo_number v1 v2)"
  by (rule auto_merge_safe [OF assms])

theorem auto_merge_only_agreeing_pairs_witness:
  "\<exists>ds s' d v1 v2. auto_merge_candidates default_matcher 1 demo_uuid ''T''
       (calls_db [aurora_a, aurora_b, aurora_c]) = Inr (ds, s') \<and> d \<in> set ds \<and>
     {md_survivor_record_id d, md_merged_record_id d} = {vc_id v1, vc_id v2} \<and> \<not> conflict_detected v1 v2"
proof -
  let ?s = "calls_db [aurora_a, aurora_b, aurora_c]"
  obtain ds s' where run: "auto_merge_candidates default_matcher 1 demo_uuid ''T'' ?s = Inr (ds, s')" "ds \<noteq> []"
    by (rule aurora_run [OF inj_demo_uuid, of 1])
  then obtain d where d: "d \<in> set ds" by (cases ds) auto
  have "scan_ok demo_uuid ([], ?s)" "distinct (map vc_id (vessel_calls ?s))"
    by (simp_all add: scan_ok_def issues_ok_def inj_demo_uuid aurora_defs)
  from auto_merge_only_agreeing_pairs [OF this run(1) d] run(1) d show ?thesis by blast
qed

text \<open>That rule is not transitive: three records of one call, the first without an IMO number and
  the other two with different ones, end up merged into the first, although the other two conflict;
  the survivor then carries one of the two IMO numbers.\<close>

theorem conflicting_imo_numbers_auto_merged:
  "\<exists>ds s'. auto_merge_candidates default_matcher now demo_uuid ''T''
       (calls_db [aurora_a, aurora_b, aurora_c]) = Inr (ds, s') \<and>
     map vc_merged_into_id (vessel_calls s') = [None, Some ''a'', Some ''a''] \<and>
     key_conflict Imo_number aurora_b aurora_c"
proof -
  obtain ds s' where "auto_merge_candidates default_matcher now demo_uuid ''T''
      (calls_db [aurora_a, aurora_b, aurora_c]) = Inr (ds, s')"
    "vessel_calls s' = [consolidate now (consolidate now aurora_a aurora_b) aurora_c,
       mark now ''a'' aurora_b, mark now ''a'' aurora_c]"
    by (rule aurora_run [OF inj_demo_uuid])
  moreover have "vc_merged_into_id aurora_a = None" by (simp add: aurora_defs)
  moreover have "key_conflict Imo_number aurora_b aurora_c"
    by (simp add: key_conflict_def strip_col_def aurora_defs)
  ultimately show ?thesis by simp
qed

text \<open>Nor does a merge check that its records are still unmerged: the automatic merge of three
  duplicates of one call can merge each of them into another, so that no record survives and the
  consolidated population of the tenant is empty.\<close>

theorem three_duplicates_none_survives:
  "\<exists>ds s'. auto_merge_candidates default_matcher now demo_uuid ''T''
       (calls_db [mary_a, mary_b, mary_c]) = Inr (ds, s') \<and>
     map vc_merged_into_id (vessel_calls s') = [Some ''c'', Some ''a'', Some ''b''] \<and>
     consolidated_population ''T'' (calls_db [mary_a, mary_b, mary_c]) = 3 \<and>
     consolidated_population ''T'' s' = 0"
proof -
  obtain ds s' where s': "auto_merge_candidates default_matcher now demo_uuid ''T''
      (calls_db [mary_a, mary_b, mary_c]) = Inr (ds, s')"
    "map vc_is_merged (vessel_calls s') = [True, True, True]"
    "map vc_merged_into_id (vessel_calls s') = [Some ''c'', Some ''a'', Some ''b'']"
    by (rule mary_run [OF inj_demo_uuid])
  have "set (map vc_is_merged (vessel_calls s')) = {True}" using s'(2) by simp
  then have "unmerged_calls ''T'' s' = []"
    by (auto simp: unmerged_calls_def filter_empty_conv)
  moreover have "consolidated_population ''T'' (calls_db [mary_a, mary_b, mary_c]) = 3"
    by (simp add: consolidated_population_def unmerged_calls_def mary_defs)
  ultimately show ?thesis using s' by (simp add: consolidated_population_def)
qed

end
