(* ===== verification/Durations.thy ===== *)
theory Durations
  imports Canonical
begin

text \<open>
  \<open>apps/api/services/analytics/duration_semantics.py\<close>: the nine governed duration concepts. Each
  is an operation of its own; a missing input gives an unavailable result that names what is missing,
  never a number.
\<close>

section \<open>Results\<close>

datatype availability = AVAILABLE | UNAVAILABLE

datatype duration_unit = Hours | Ratio

record semantic_duration =
  sd_concept :: string
  sd_status :: availability
  sd_value_hours :: "rat option"
  sd_unit :: duration_unit
  sd_formula_version :: string
  sd_unavailable_reason :: "fstring option"
  sd_is_early_delivery :: bool
  sd_early_hours :: "rat option"     \<comment> \<open>\<open>metadata["early_hours"]\<close>\<close>

definition available :: "string \<Rightarrow> string \<Rightarrow> rat \<Rightarrow> semantic_duration" where
  "available concept version v =
     \<lparr>sd_concept = concept, sd_status = AVAILABLE, sd_value_hours = Some v, sd_unit = Hours,
      sd_formula_version = version, sd_unavailable_reason = None, sd_is_early_delivery = False,
      sd_early_hours = None\<rparr>"

definition unavailable :: "string \<Rightarrow> string \<Rightarrow> fstring \<Rightarrow> semantic_duration" where
  "unavailable concept version reason =
     \<lparr>sd_concept = concept, sd_status = UNAVAILABLE, sd_value_hours = None, sd_unit = Hours,
      sd_formula_version = version, sd_unavailable_reason = Some reason, sd_is_early_delivery = False,
      sd_early_hours = None\<rparr>"

text \<open>The elapsed hours between two instants, rounded to six decimals.\<close>

definition elapsed_hours :: "time \<Rightarrow> time \<Rightarrow> rat" where
  "elapsed_hours start end' = fround 6 (raw_hours start end')"

section \<open>The nine concepts\<close>

definition compute_lead_time :: "time option \<Rightarrow> time option \<Rightarrow> string \<Rightarrow> semantic_duration" where
  "compute_lead_time start_actual end_actual version =
     (case (start_actual, end_actual) of
        (Some s, Some e) \<Rightarrow> available ''Lead Time'' version (elapsed_hours s e)
      | (None, _) \<Rightarrow> unavailable ''Lead Time'' version [Lit ''Missing required timestamp: '', Lit ''start_actual'']
      | (Some _, None) \<Rightarrow> unavailable ''Lead Time'' version [Lit ''Missing required timestamp: '', Lit ''end_actual''])"

definition compute_planning_lead_time :: "time option \<Rightarrow> time option \<Rightarrow> string \<Rightarrow> semantic_duration" where
  "compute_planning_lead_time submission requested version =
     (case (submission, requested) of
        (Some s, Some r) \<Rightarrow> available ''Planning Lead Time'' version (elapsed_hours s r)
      | (None, _) \<Rightarrow> unavailable ''Planning Lead Time'' version
          [Lit ''Missing timestamp for Planning Lead Time: '', Lit ''submission_time'']
      | (Some _, None) \<Rightarrow> unavailable ''Planning Lead Time'' version
          [Lit ''Missing timestamp for Planning Lead Time: '', Lit ''requested_service_time''])"

definition compute_scheduling_gap :: "time option \<Rightarrow> time option \<Rightarrow> string \<Rightarrow> semantic_duration" where
  "compute_scheduling_gap requested scheduled version =
     (case (requested, scheduled) of
        (Some r, Some s) \<Rightarrow> available ''Scheduling Gap'' version (elapsed_hours r s)
      | (None, _) \<Rightarrow> unavailable ''Scheduling Gap'' version
          [Lit ''Missing timestamp for Scheduling Gap: '', Lit ''requested_service_time'']
      | (Some _, None) \<Rightarrow> unavailable ''Scheduling Gap'' version
          [Lit ''Missing timestamp for Scheduling Gap: '', Lit ''scheduled_time''])"

definition compute_execution_delay :: "time option \<Rightarrow> time option \<Rightarrow> string \<Rightarrow> semantic_duration" where
  "compute_execution_delay scheduled served version =
     (case (scheduled, served) of
        (Some s, Some e) \<Rightarrow>
          (let v = elapsed_hours s e
           in (available ''Execution Delay'' version v)\<lparr>sd_is_early_delivery := v < 0\<rparr>)
      | (None, _) \<Rightarrow> unavailable ''Execution Delay'' version
          [Lit ''Missing timestamp for Execution Delay: '', Lit ''scheduled_time'']
      | (Some _, None) \<Rightarrow> unavailable ''Execution Delay'' version
          [Lit ''Missing timestamp for Execution Delay: '', Lit ''served_time''])"

definition compute_target_variance :: "rat option \<Rightarrow> rat option \<Rightarrow> string \<Rightarrow> semantic_duration" where
  "compute_target_variance actual target version =
     (case (actual, target) of
        (Some a, Some t) \<Rightarrow> available ''Target Variance'' version (fround 6 (fsub a t))
      | (None, _) \<Rightarrow> unavailable ''Target Variance'' version
          [Lit ''Missing input for Target Variance: '', Lit ''actual_value'']
      | (Some _, None) \<Rightarrow> unavailable ''Target Variance'' version
          [Lit ''Missing input for Target Variance: '', Lit ''target_value''])"

text \<open>A stage as the two sums read it: its time category (\<open>""\<close> when absent) and its duration.\<close>

type_synonym stage_time = "string \<times> rat option"

definition wait_categories :: "string list" where
  "wait_categories = [''PASSIVE_WAIT'', ''HOLD'', ''WAITING'']"

definition service_categories :: "string list" where
  "service_categories = [''ACTIVE_SERVICE'', ''SERVICE'']"

definition stage_durations :: "string list \<Rightarrow> stage_time list \<Rightarrow> rat list" where
  "stage_durations cats stages = List.map_filter (\<lambda>(c, d). if c \<in> set cats then d else None) stages"

definition stage_total :: "string list \<Rightarrow> stage_time list \<Rightarrow> rat" where
  "stage_total cats stages = foldl fadd 0 (stage_durations cats stages)"

definition compute_waiting_time :: "stage_time list \<Rightarrow> string \<Rightarrow> semantic_duration" where
  "compute_waiting_time stages version =
     (if stage_durations wait_categories stages = []
      then unavailable ''Waiting Time'' version [Lit ''No available waiting stages in timeline'']
      else available ''Waiting Time'' version (fround 6 (stage_total wait_categories stages)))"

definition compute_service_time :: "stage_time list \<Rightarrow> string \<Rightarrow> semantic_duration" where
  "compute_service_time stages version =
     (if stage_durations service_categories stages = []
      then unavailable ''Service Time'' version [Lit ''No available active service stages in timeline'']
      else available ''Service Time'' version (fround 6 (stage_total service_categories stages)))"

definition compute_delay_frequency :: "int \<Rightarrow> int \<Rightarrow> string \<Rightarrow> semantic_duration" where
  "compute_delay_frequency delayed eligible version =
     (if eligible \<le> 0
      then (unavailable ''Delay Frequency'' version [Lit ''Total eligible events must be greater than zero''])
             \<lparr>sd_unit := Ratio\<rparr>
      else (available ''Delay Frequency'' version (fround 4 (fdiv (of_int delayed) (of_int eligible))))
             \<lparr>sd_unit := Ratio\<rparr>)"

definition compute_early_delivery :: "rat option \<Rightarrow> string \<Rightarrow> semantic_duration" where
  "compute_early_delivery execution_delay version =
     (case execution_delay of
        None \<Rightarrow> unavailable ''Early Delivery'' version [Lit ''Execution delay is unavailable'']
      | Some d \<Rightarrow>
          (let is_early = d < 0
           in (available ''Early Delivery'' version (if is_early then d else 0))
                \<lparr>sd_is_early_delivery := is_early, sd_early_hours := Some (if is_early then \<bar>d\<bar> else 0)\<rparr>))"

section \<open>Elapsed hours\<close>

lemma elapsed_hours_same [simp]: "elapsed_hours t t = 0"
  by (simp add: elapsed_hours_def raw_hours_zero_iff [THEN iffD2])

lemma elapsed_hours_swap: "elapsed_hours e s = - elapsed_hours s e"
  by (simp add: elapsed_hours_def raw_hours_swap [of e s] frd.odd)

lemma elapsed_hours_mono: "e \<le> e' \<Longrightarrow> elapsed_hours s e \<le> elapsed_hours s e'"
  by (simp add: elapsed_hours_def frd.mono raw_hours_mono)

lemma elapsed_hours_nonneg: "s \<le> e \<Longrightarrow> 0 \<le> elapsed_hours s e"
  by (simp add: elapsed_hours_def frd.nonneg raw_hours_nonneg_iff)

lemma elapsed_hours_neg: "elapsed_hours s e < 0 \<Longrightarrow> e < s"
  using elapsed_hours_nonneg [of s e] by linarith

text \<open>Two milliseconds are enough for a difference to survive the rounding.\<close>

lemma elapsed_hours_pos: assumes "s + 2000 \<le> e" shows "0 < elapsed_hours s e"
proof -
  have "0 < elapsed_hours 0 2000" by code_simp
  moreover have "elapsed_hours 0 2000 = elapsed_hours s (s + 2000)"
    by (simp add: elapsed_hours_def raw_hours_def)
  ultimately show ?thesis using elapsed_hours_mono [OF assms, of s] by simp
qed

text \<open>The exact number of hours, and how far the computed one is from it for intervals of up to a
  million hours.\<close>

definition exact_hours :: "time \<Rightarrow> time \<Rightarrow> rat" where
  "exact_hours s e = of_int (e - s) / 3600000000"

lemma abs_fl_error: "\<bar>x\<bar> \<le> b \<Longrightarrow> \<bar>fl x - x\<bar> \<le> b / 2 ^ 53"
  using fl_error [of x] by (rule order_trans) (simp add: divide_right_mono)

lemma abs_diffD: "\<bar>a - b\<bar> \<le> c \<Longrightarrow> a \<le> b + c \<and> b \<le> a + c" for a :: rat
  by linarith

lemma abs_diffI: "a \<le> b + c \<Longrightarrow> b \<le> a + c \<Longrightarrow> \<bar>a - b\<bar> \<le> c" for a :: rat
  by linarith

lemma raw_hours_error:
  assumes "\<bar>exact_hours s e\<bar> \<le> 10 ^ 6"
  shows "\<bar>raw_hours s e - exact_hours s e\<bar> \<le> 1 / 10 ^ 9"
proof -
  define x where "x = rat_of_int (e - s) / 10 ^ 6"
  have h: "exact_hours s e = x / 3600" by (simp add: exact_hours_def x_def)
  have "\<bar>x\<bar> \<le> 3600 * 10 ^ 6" using assms unfolding h by (simp add: abs_divide divide_le_eq)
  from abs_fl_error [OF this] have 1: "\<bar>fl x - x\<bar> \<le> 1 / 10 ^ 6" by simp
  have 2: "\<bar>fl x / 3600 - x / 3600\<bar> \<le> 1 / (3600 * 10 ^ 6)"
    using 1 by (simp add: abs_divide flip: diff_divide_distrib)
  have "\<bar>fl x / 3600\<bar> \<le> 10 ^ 6 + 1"
    using abs_diffD [OF 2] assms unfolding h abs_le_iff by simp
  from abs_fl_error [OF this] have "\<bar>fl (fl x / 3600) - fl x / 3600\<bar> \<le> (10 ^ 6 + 1) / 2 ^ 53" .
  moreover have "((10::rat) ^ 6 + 1) / 2 ^ 53 + 1 / (3600 * 10 ^ 6) \<le> 1 / 10 ^ 9" by simp
  ultimately have "\<bar>fl (fl x / 3600) - x / 3600\<bar> \<le> 1 / 10 ^ 9" using 2 by linarith
  then show ?thesis by (simp add: raw_hours_def total_seconds_def fdiv_def h x_def)
qed

lemma elapsed_hours_error:
  assumes "\<bar>exact_hours s e\<bar> \<le> 10 ^ 6"
  shows "\<bar>elapsed_hours s e - exact_hours s e\<bar> \<le> 6 / 10 ^ 7"
proof -
  define y where "y = raw_hours s e"
  have y: "\<bar>y - exact_hours s e\<bar> \<le> 1 / 10 ^ 9" using raw_hours_error [OF assms] by (simp add: y_def)
  have "\<bar>y\<bar> \<le> 10 ^ 6 + 1" using abs_diffD [OF y] assms unfolding abs_le_iff by simp
  then have "(\<bar>y\<bar> + 1 / (2 * 10 ^ 6)) / 2 ^ 53 \<le> (10 ^ 6 + 2) / 2 ^ 53"
    by (intro divide_right_mono) simp_all
  moreover have "((10::rat) ^ 6 + 2) / 2 ^ 53 + 1 / (2 * 10 ^ 6) + 1 / 10 ^ 9 \<le> 6 / 10 ^ 7" by simp
  ultimately have "\<bar>fround 6 y - exact_hours s e\<bar> \<le> 6 / 10 ^ 7"
    using fround_error [of 6 y] y by linarith
  then show ?thesis by (simp add: elapsed_hours_def y_def)
qed

lemma stage_durations_simps [simp]:
  "stage_durations cats [] = []"
  "stage_durations cats ((c, None) # st) = stage_durations cats st"
  "stage_durations cats ((c, Some x) # st) =
     (if c \<in> set cats then x # stage_durations cats st else stage_durations cats st)"
  by (simp_all add: stage_durations_def List.map_filter_simps)

lemma categories_disjoint: "c \<in> set wait_categories \<Longrightarrow> c \<notin> set service_categories"
  by (auto simp: wait_categories_def service_categories_def)

lemma stage_durations_len:
  "length (stage_durations wait_categories stages) + length (stage_durations service_categories stages)
     \<le> length stages"
proof (induction stages)
  case (Cons st stages)
  obtain c d where "st = (c, d)" by (cases st)
  then show ?case using Cons categories_disjoint [of c] by (cases d) auto
qed simp

lemma stage_durations_Nil:
  "stage_durations cats stages = [] \<longleftrightarrow> \<not> list_ex (\<lambda>(c, d). c \<in> set cats \<and> d \<noteq> None) stages"
proof (induction stages)
  case (Cons st stages)
  obtain c d where "st = (c, d)" by (cases st)
  then show ?case using Cons by (cases d) auto
qed simp

lemma stage_total_nonneg:
  assumes "list_all (\<lambda>(_, d). case d of Some x \<Rightarrow> 0 \<le> x | None \<Rightarrow> True) stages"
  shows "0 \<le> stage_total cats stages"
proof -
  have nn: "0 \<le> a \<Longrightarrow> list_all (\<lambda>x. 0 \<le> x) xs \<Longrightarrow> 0 \<le> foldl fadd a xs" for a :: rat and xs
  proof (induction xs arbitrary: a)
    case (Cons x xs)
    then have "0 \<le> fadd a x" by (simp add: fadd_def flr.nonneg)
    then show ?case using Cons by simp
  qed simp
  have "list_all (\<lambda>x. 0 \<le> x) (stage_durations cats stages)"
    using assms
  proof (induction stages)
    case (Cons st stages)
    obtain c d where "st = (c, d)" by (cases st)
    then show ?case using Cons by (cases d) auto
  qed simp
  then show ?thesis unfolding stage_total_def by (intro nn) simp
qed

section \<open>Properties\<close>

text \<open>Execution delay is available exactly when both instants are known; it is never positive for
  a service at or before its schedule and never negative for one at or after it; the early flag is the
  sign of the value, is raised only for a service before its schedule, and is always raised when that
  is by two milliseconds or more.\<close>

theorem execution_delay_sign:
  "(sd_status (compute_execution_delay s e ver) = AVAILABLE \<longleftrightarrow> s \<noteq> None \<and> e \<noteq> None) \<and>
   (sd_value_hours (compute_execution_delay s e ver) = None \<longleftrightarrow> s = None \<or> e = None) \<and>
   (case (s, e) of (Some sched, Some served) \<Rightarrow>
      (let r = compute_execution_delay s e ver; v = the (sd_value_hours r) in
         sd_is_early_delivery r = (v < 0) \<and> (if served \<le> sched then v \<le> 0 else 0 \<le> v) \<and>
         (sd_is_early_delivery r \<le> (served < sched)) \<and> ((served + 2000 \<le> sched) \<le> sd_is_early_delivery r))
    | _ \<Rightarrow> \<not> sd_is_early_delivery (compute_execution_delay s e ver))"
proof (cases s; cases e)
  fix sched served assume se: "s = Some sched" "e = Some served"
  have "served \<le> sched \<Longrightarrow> elapsed_hours sched served \<le> 0"
    using elapsed_hours_nonneg [of served sched] elapsed_hours_swap [of sched served] by simp
  moreover have "served + 2000 \<le> sched \<Longrightarrow> elapsed_hours sched served < 0"
    using elapsed_hours_pos [of served sched] elapsed_hours_swap [of sched served] by simp
  moreover have "\<not> served \<le> sched \<Longrightarrow> 0 \<le> elapsed_hours sched served" by (simp add: elapsed_hours_nonneg)
  ultimately show ?thesis using elapsed_hours_neg [of sched served]
    by (auto simp: se compute_execution_delay_def available_def Let_def)
qed (simp_all add: compute_execution_delay_def unavailable_def)

text \<open>The concepts add up: for a service requested, scheduled and served within a million hours,
  scheduling gap plus execution delay is the lead time from request to service, up to two millionths
  of an hour of rounding.\<close>

theorem gap_plus_delay_is_lead_time:
  assumes "\<bar>exact_hours r s\<bar> \<le> 10 ^ 6" "\<bar>exact_hours s e\<bar> \<le> 10 ^ 6" "\<bar>exact_hours r e\<bar> \<le> 10 ^ 6"
  shows "\<bar>the (sd_value_hours (compute_scheduling_gap (Some r) (Some s) ver)) +
          the (sd_value_hours (compute_execution_delay (Some s) (Some e) ver)) -
          the (sd_value_hours (compute_lead_time (Some r) (Some e) ver))\<bar> \<le> 2 / 10 ^ 6"
proof -
  have "exact_hours r s + exact_hours s e = exact_hours r e"
    by (simp add: exact_hours_def diff_divide_distrib)
  then show ?thesis
    using assms [THEN elapsed_hours_error, THEN abs_diffD] unfolding abs_le_iff
    by (simp add: compute_scheduling_gap_def compute_execution_delay_def compute_lead_time_def available_def Let_def)
qed

theorem gap_plus_delay_is_lead_time_witness:
  "\<bar>the (sd_value_hours (compute_scheduling_gap (Some 0) (Some 7200000000) ''1.0'')) +
    the (sd_value_hours (compute_execution_delay (Some 7200000000) (Some 3600000000) ''1.0'')) -
    the (sd_value_hours (compute_lead_time (Some 0) (Some 3600000000) ''1.0''))\<bar> \<le> 2 / 10 ^ 6"
  by (rule gap_plus_delay_is_lead_time) (simp_all add: exact_hours_def)

text \<open>Waiting time and service time count each stage at most once between them, each is available
  exactly when some stage of its categories has a duration, and with non-negative stage durations
  neither is negative.\<close>

theorem waiting_and_service_disjoint:
  assumes "list_all (\<lambda>(_, d). case d of Some x \<Rightarrow> 0 \<le> x | None \<Rightarrow> True) stages"
  shows "length (stage_durations wait_categories stages) + length (stage_durations service_categories stages)
       \<le> length stages \<and>
     list_all (\<lambda>(r, cats). (sd_status r = AVAILABLE \<longleftrightarrow>
         list_ex (\<lambda>(c, d). c \<in> set cats \<and> d \<noteq> None) stages) \<and>
         (case sd_value_hours r of Some v \<Rightarrow> 0 \<le> v | None \<Rightarrow> sd_status r = UNAVAILABLE))
       [(compute_waiting_time stages ver, wait_categories), (compute_service_time stages ver, service_categories)]"
proof -
  have "0 \<le> fround 6 (stage_total cats stages)" for cats
    using stage_total_nonneg [OF assms] by (rule frd.nonneg)
  then show ?thesis
    using stage_durations_len [of stages]
    by (simp add: compute_waiting_time_def compute_service_time_def available_def unavailable_def stage_durations_Nil)
qed

theorem waiting_and_service_disjoint_witness:
  "length (stage_durations wait_categories [(''HOLD'', Some 2), (''SERVICE'', Some 3), (''OTHER'', None)]) +
   length (stage_durations service_categories [(''HOLD'', Some 2), (''SERVICE'', Some 3), (''OTHER'', None)]) \<le> 3"
  using waiting_and_service_disjoint [of "[(''HOLD'', Some 2), (''SERVICE'', Some 3), (''OTHER'', None)]" "''1.0''"]
  by simp

end
