(* ===== verification/Stats.thy ===== *)
theory Stats
  imports Durations
begin

text \<open>
  The float statistics several engines compute in the same way: mean, sample variance, medians and
  nearest-rank percentiles of a list of durations, and the rows they are read from
  (\<open>apps/api/models/analytics.py\<close>).
\<close>

section \<open>Lead-time definitions and results\<close>

record lead_time_definition =
  ld_id :: uid
  ld_name :: string
  ld_start_event :: string
  ld_end_event :: string
  ld_description :: "string option"
  ld_formula_version :: string
  ld_unit :: string
  ld_null_handling :: string
  ld_occurrence_selection :: string
  ld_availability_status :: string
  ld_required_events :: "string list"
  ld_custom_builder :: bool
  ld_is_execution_delay :: bool
  ld_execution_delay_movement :: "string option"

datatype lead_time_status = LT_AVAILABLE | LT_UNAVAILABLE | LT_NO_SOURCE_DATA

record lead_time_result =
  lt_id :: uid
  lt_vessel_call_id :: uid
  lt_definition_id :: uid
  lt_vcn :: "string option"
  lt_duration_hours :: "rat option"
  lt_status :: lead_time_status
  lt_unavailable_reason :: "fstring option"
  lt_formula_version :: "string option"
  lt_source_record_ids :: "uid list option"
  lt_filter_context :: "(string \<times> fstring) list"
  lt_exclusions_applied :: "string list"
  lt_dq_status :: "string option"
  lt_calculated_at :: "time option"
  lt_start_event_occurrence_id :: "uid option"
  lt_end_event_occurrence_id :: "uid option"
  lt_start_time :: "time option"
  lt_end_time :: "time option"

definition available_hours :: "(lead_time_result \<Rightarrow> bool) \<Rightarrow> lead_time_result list \<Rightarrow> rat list" where
  "available_hours p rs =
     List.map_filter (\<lambda>r. if p r \<and> lt_status r = LT_AVAILABLE then lt_duration_hours r else None) rs"

section \<open>Statistics\<close>

definition fmean :: "rat list \<Rightarrow> rat" where
  "fmean xs = fdiv (fsum xs) (of_nat (length xs))"

text \<open>\<open>sum((x - mean) ** 2 for x in xs) / (n - 1) if n > 1 else 0.0\<close>; the square of a float is
  taken as correctly rounded.\<close>

definition sample_variance :: "rat list \<Rightarrow> rat \<Rightarrow> rat" where
  "sample_variance xs m =
     (if 1 < length xs
      then fdiv (fsum (map (\<lambda>x. fmul (fsub x m) (fsub x m)) xs)) (of_nat (length xs - 1)) else 0)"

definition sorted_vals :: "rat list \<Rightarrow> rat list" where
  "sorted_vals xs = sort xs"

text \<open>\<open>sorted_vals[n // 2]\<close>.\<close>
definition upper_median :: "rat list \<Rightarrow> rat" where
  "upper_median xs = sorted_vals xs ! (length xs div 2)"

definition midpoint_median :: "rat list \<Rightarrow> rat" where
  "midpoint_median xs =
     (let s = sorted_vals xs; n = length xs
      in if odd n then s ! (n div 2) else fdiv (fadd (s ! (n div 2 - 1)) (s ! (n div 2))) 2)"

text \<open>\<open>max(0, min(n - 1, int(math.ceil(0.90 * n)) - 1))\<close>.\<close>
definition p90_index :: "nat \<Rightarrow> nat" where
  "p90_index n = nat (max 0 (min (int n - 1) (\<lceil>fmul (fl (90 / 100)) (of_nat n)\<rceil> - 1)))"

definition p90 :: "rat list \<Rightarrow> rat" where
  "p90 xs = sorted_vals xs ! p90_index (length xs)"

section \<open>Facts\<close>

lemma p90_index_less: "0 < n \<Longrightarrow> p90_index n < n"
  by (simp add: p90_index_def)

lemma nth_sorted_mem: "i < length xs \<Longrightarrow> sorted_vals xs ! i \<in> set xs"
  unfolding sorted_vals_def by (metis length_sort nth_mem set_sort)

lemma p90_mem: "xs \<noteq> [] \<Longrightarrow> p90 xs \<in> set xs"
  by (simp add: p90_def nth_sorted_mem p90_index_less)

lemma upper_median_mem: "xs \<noteq> [] \<Longrightarrow> upper_median xs \<in> set xs"
  by (simp add: upper_median_def nth_sorted_mem)

lemma sorted_vals_nth_mono: "i \<le> j \<Longrightarrow> j < length xs \<Longrightarrow> sorted_vals xs ! i \<le> sorted_vals xs ! j"
  unfolding sorted_vals_def by (simp add: sorted_nth_mono)

lemma div_half: "2 * rat_of_nat (n div 2) \<le> rat_of_nat n"
  by (metis of_nat_le_iff of_nat_mult of_nat_numeral times_div_less_eq_dividend)

lemma half_le_p90_index:
  assumes "1 < n" shows "n div 2 \<le> p90_index n"
proof -
  define y where "y = fl (90 / 100) * rat_of_nat n"
  have "4 / 5 \<le> fl (90 / 100)" by code_simp
  then have y: "4 / 5 * rat_of_nat n \<le> y" unfolding y_def by (intro mult_right_mono) auto
  have y0: "0 \<le> y" using y by (rule order_trans [rotated]) simp
  have "y - y / 2 ^ 53 \<le> fl y" using abs_diffD [OF fl_error [of y]] y0 by simp
  then have "rat_of_nat n / 2 < fl y" using y y0 assms by simp
  then have "rat_of_nat (n div 2) < fl y"
    using div_half [of n] by linarith
  then have "int (n div 2) < \<lceil>fl y\<rceil>" by (simp add: less_ceiling_iff)
  moreover have "int (n div 2) \<le> int n - 1" using assms by linarith
  ultimately have "int (n div 2) \<le> min (int n - 1) (\<lceil>fl y\<rceil> - 1)" by simp
  then show ?thesis unfolding p90_index_def fmul_def y_def [symmetric] by linarith
qed

lemma median_le_p90:
  assumes "1 < length xs" shows "upper_median xs \<le> p90 xs"
  unfolding upper_median_def p90_def
  using assms half_le_p90_index [OF assms] p90_index_less [of "length xs"]
  by (intro sorted_vals_nth_mono) (assumption, force)

text \<open>The mean of non-negative values is not negative, and the variance never is, for up to a
  million of them.\<close>

lemma fsum_nonneg:
  assumes "\<forall>x \<in> set xs. 0 \<le> x" "length xs \<le> 10 ^ 6"
  shows "0 \<le> fsum xs" "fsum xs \<le> 2 * sum_list xs"
proof -
  have abs: "(\<Sum>x\<leftarrow>xs. \<bar>x\<bar>) = sum_list xs"
    using assms(1) by (intro arg_cong [where f = sum_list] map_idI) auto
  have S: "0 \<le> sum_list xs" using assms(1) by (intro sum_list_nonneg) auto
  have "\<bar>fsum xs - sum_list xs\<bar> \<le> sum_list xs / 10 ^ 7"
    using S assms(2) by (intro fsum_error_million) (simp_all add: abs)
  moreover have "sum_list xs / 10 ^ 7 \<le> sum_list xs" using S by simp
  ultimately show "0 \<le> fsum xs" "fsum xs \<le> 2 * sum_list xs" using abs_diffD by fastforce+
qed

lemma fmean_nonneg: "\<forall>x \<in> set xs. 0 \<le> x \<Longrightarrow> length xs \<le> 10 ^ 6 \<Longrightarrow> 0 \<le> fmean xs"
  unfolding fmean_def fdiv_def by (intro flr.nonneg divide_nonneg_nonneg fsum_nonneg(1)) auto

lemma sample_variance_nonneg: "length xs \<le> 10 ^ 6 \<Longrightarrow> 0 \<le> sample_variance xs m"
  unfolding sample_variance_def fdiv_def fmul_def
  by (auto intro!: flr.nonneg divide_nonneg_nonneg fsum_nonneg(1))

text \<open>Constant samples have variance zero.\<close>

lemma fsum_loop_zero: "\<forall>x \<in> set xs. x = 0 \<Longrightarrow> fsum_loop 0 0 xs = 0"
  by (induction xs) (auto simp: fadd_def fsub_def Let_def)

lemma fsum_zero: "\<forall>x \<in> set xs. x = 0 \<Longrightarrow> fsum xs = 0"
  by (cases xs) (auto simp: fsum_loop_zero)

lemma sample_variance_const: "\<forall>x \<in> set xs. x = m \<Longrightarrow> sample_variance xs m = 0"
proof -
  assume "\<forall>x \<in> set xs. x = m"
  then have "fsum (map (\<lambda>x. fmul (fsub x m) (fsub x m)) xs) = 0"
    by (intro fsum_zero) (auto simp: fmul_def fsub_def)
  then show ?thesis by (simp add: sample_variance_def fdiv_def)
qed

end
