(* ===== verification/Bottlenecks.thy ===== *)
theory Bottlenecks
  imports Stats
begin

text \<open>
  \<open>apps/api/services/bottlenecks/engine.py\<close>: the component scores of a process stage or resource,
  the composite bottleneck score with governed weights, the ranking and the replacement of the stored
  records. The queries are read from the tables of lead-time results, delays and services.
\<close>

section \<open>Component scores\<close>

record bn_scores =
  bn_mean_hours :: rat
  bn_median_hours :: rat
  bn_p90_hours :: rat
  bn_std_hours :: rat
  bn_cv :: rat
  bn_tail_risk_ratio :: rat
  bn_turnaround_contribution :: rat
  bn_breach_rate :: rat
  bn_breach_count :: nat
  bn_observations :: nat
  bn_business_criticality :: rat
  bn_duration_score :: rat
  bn_frequency_score :: rat
  bn_variability_score :: rat
  bn_tail_risk_score :: rat
  bn_contribution_score :: rat
  bn_breach_score :: rat

definition pct :: "rat \<Rightarrow> rat" where
  "pct x = fround 2 (fmul x 100)"

definition compute_metrics :: "rat list \<Rightarrow> rat \<Rightarrow> rat \<Rightarrow> rat \<Rightarrow> bool \<Rightarrow> bn_scores" where
  "compute_metrics values target_threshold biz_crit mean_turnaround is_delay =
     (let n = length values; mean_val = fmean values; median_val = midpoint_median values; p90_val = p90 values;
          std_val = fsqrt (sample_variance values mean_val);
          cv = (if fl (1 / 10000) < mean_val then fdiv std_val mean_val else 0);
          variability = min 100 (pct (fdiv cv (fl (15 / 10))));
          trr = (if fl (1 / 10000) < median_val then fdiv p90_val median_val
                 else if 1 < p90_val then p90_val else 1);
          tail = (if 1 \<le> trr then min 100 (pct (fdiv (fsub trr 1) (fl (25 / 10)))) else 0);
          breaches = filter (\<lambda>x. target_threshold < x) values;
          breach_rate = fdiv (of_nat (length breaches)) (of_nat n);
          total_calls = 72;
          frequency = min 100 (pct (fdiv (of_nat n) total_calls));
          contribution = (if 0 < mean_turnaround then fdiv mean_val mean_turnaround else 0);
          max_bench = (if is_delay then 10 else 48)
      in \<lparr>bn_mean_hours = fround 2 mean_val, bn_median_hours = fround 2 median_val,
          bn_p90_hours = fround 2 p90_val, bn_std_hours = fround 2 std_val, bn_cv = fround 3 cv,
          bn_tail_risk_ratio = fround 2 trr, bn_turnaround_contribution = fround 3 contribution,
          bn_breach_rate = fround 3 breach_rate, bn_breach_count = length breaches, bn_observations = n,
          bn_business_criticality = biz_crit,
          bn_duration_score = min 100 (pct (fdiv mean_val max_bench)),
          bn_frequency_score = frequency, bn_variability_score = variability, bn_tail_risk_score = tail,
          bn_contribution_score = min 100 (pct contribution), bn_breach_score = pct breach_rate\<rparr>)"

section \<open>Candidates\<close>

datatype bottleneck_type = PROCESS_BOTTLENECK | RESOURCE_BOTTLENECK

record candidate =
  cd_name :: string
  cd_type :: bottleneck_type
  cd_scores :: bn_scores
  cd_overall :: rat
  cd_rank :: nat

definition stage_specs :: "(string \<times> rat \<times> rat) list" where
  "stage_specs = [(''Anchorage Wait'', 2, 4), (''Inward Movement'', fl (25 / 10), fl (35 / 10)),
     (''Berth Stay'', 48, 3), (''Cargo Working'', 36, fl (35 / 10)), (''Outward Movement'', 2, 3)]"

text \<open>The lead-time results of the definitions of a name.\<close>

definition named_hours :: "lead_time_definition list \<Rightarrow> lead_time_result list \<Rightarrow> string \<Rightarrow> rat list" where
  "named_hours defs rs name =
     available_hours (\<lambda>r. list_ex (\<lambda>d. ld_id d = lt_definition_id r \<and> ld_name d = name) defs) rs"

definition mean_turnaround :: "lead_time_definition list \<Rightarrow> lead_time_result list \<Rightarrow> rat" where
  "mean_turnaround defs rs =
     (let t = named_hours defs rs ''Turnaround'' in if t = [] then 50 else fmean t)"

definition category_delays :: "string \<Rightarrow> delay list \<Rightarrow> rat list" where
  "category_delays cat ds =
     map dl_total_duration_hours (filter (\<lambda>d. dl_canonical_category d = Some cat \<and> 0 < dl_total_duration_hours d) ds)"

text \<open>The join of executions, assignments and requests whose service type contains the word, read
  as positive hours from schedule to service.\<close>

definition service_delays ::
    "string \<Rightarrow> service_request list \<Rightarrow> service_assignment list \<Rightarrow> service_execution list \<Rightarrow> rat list" where
  "service_delays word reqs asgs exes =
     concat (map (\<lambda>x. concat (map (\<lambda>a. concat (map (\<lambda>r.
       if se_service_assignment_id x = sa_id a \<and> sa_service_request_id a = sr_id r \<and>
          py_in word (py_lower (sr_service_type r))
       then (case (se_served_time x, sa_scheduled_time a) of
              (Some v, Some s) \<Rightarrow> if 0 < total_seconds (v - s) then [raw_hours s v] else []
            | _ \<Rightarrow> [])
       else []) reqs)) asgs)) exes)"

definition new_candidate_of :: "string \<Rightarrow> bottleneck_type \<Rightarrow> bn_scores \<Rightarrow> candidate" where
  "new_candidate_of name t sc = \<lparr>cd_name = name, cd_type = t, cd_scores = sc, cd_overall = 0, cd_rank = 0\<rparr>"

definition process_candidates :: "lead_time_definition list \<Rightarrow> lead_time_result list \<Rightarrow> candidate list" where
  "process_candidates defs rs =
     List.map_filter (\<lambda>(name, target, biz). let results = named_hours defs rs name in
         if results = [] then None
         else Some (new_candidate_of name PROCESS_BOTTLENECK
                (compute_metrics results target biz (mean_turnaround defs rs) False))) stage_specs"

definition resource_candidate :: "string \<Rightarrow> rat list \<Rightarrow> rat \<Rightarrow> rat \<Rightarrow> rat \<Rightarrow> candidate list" where
  "resource_candidate name values target biz mt =
     (if values = [] then []
      else [new_candidate_of name RESOURCE_BOTTLENECK (compute_metrics values target biz mt True)])"

definition resource_candidates ::
    "rat \<Rightarrow> delay list \<Rightarrow> service_request list \<Rightarrow> service_assignment list \<Rightarrow> service_execution list \<Rightarrow> candidate list" where
  "resource_candidates mt ds reqs asgs exes =
     (let pilot = category_delays ''Pilot'' ds; tug = category_delays ''Tug'' ds;
          pilot' = (if pilot = [] then service_delays ''pilot'' reqs asgs exes else pilot);
          tug' = (if tug = [] then service_delays ''tug'' reqs asgs exes else tug)
      in resource_candidate ''Pilot Availability / Shortage'' pilot' (fl (5 / 10)) (fl (45 / 10)) mt @
         resource_candidate ''Tug Availability / Shortage'' tug' (fl (5 / 10)) 4 mt @
         resource_candidate ''Berth Non-Availability / Congestion'' (category_delays ''Berth Non-Availability'' ds)
           1 (fl (45 / 10)) mt)"

section \<open>Composite score and ranking\<close>

definition default_weights :: "(string \<times> rat) list" where
  "default_weights = [(''duration'', fl (15 / 100)), (''frequency'', fl (20 / 100)), (''variability'', fl (20 / 100)),
     (''tail_risk'', fl (20 / 100)), (''turnaround_contribution'', fl (10 / 100)),
     (''repeated_target_breach'', fl (15 / 100))]"

definition merge_weights :: "(string \<times> rat) list \<Rightarrow> (string \<times> rat) list" where
  "merge_weights ws = fold (\<lambda>(k, v). AList.update k v) ws default_weights"

definition norm_weights :: "(string \<times> rat) list \<Rightarrow> (string \<Rightarrow> rat) result" where
  "norm_weights ws =
     (let w = merge_weights ws; total = fsum (map snd w)
      in if total = 0 then Inl ZeroDivisionError
         else Inr (\<lambda>k. case map_of w k of Some v \<Rightarrow> fdiv v total | None \<Rightarrow> 0))"

definition overall_of :: "(string \<Rightarrow> rat) \<Rightarrow> bn_scores \<Rightarrow> rat" where
  "overall_of nw c =
     fround 2 (fadd (fadd (fadd (fadd (fadd (fmul (nw ''duration'') (bn_duration_score c))
       (fmul (nw ''frequency'') (bn_frequency_score c))) (fmul (nw ''variability'') (bn_variability_score c)))
       (fmul (nw ''tail_risk'') (bn_tail_risk_score c)))
       (fmul (nw ''turnaround_contribution'') (bn_contribution_score c)))
       (fmul (nw ''repeated_target_breach'') (bn_breach_score c)))"

definition rank_candidates :: "(string \<Rightarrow> rat) \<Rightarrow> candidate list \<Rightarrow> candidate list" where
  "rank_candidates nw cs =
     map (\<lambda>(i, c). c\<lparr>cd_rank := i + 1\<rparr>)
       (enumerate 0 (sorted_by_desc cd_overall (map (\<lambda>c. c\<lparr>cd_overall := overall_of nw (cd_scores c)\<rparr>) cs)))"

text \<open>The ranked candidates and the new content of \<open>bottleneck_record\<close>.\<close>

definition calculate_bottlenecks ::
    "(string \<times> rat) list \<Rightarrow> bool \<Rightarrow> lead_time_definition list \<Rightarrow> lead_time_result list \<Rightarrow> 'a canon_db_scheme \<Rightarrow>
     candidate list \<Rightarrow> (candidate list \<times> candidate list) result" where
  "calculate_bottlenecks ws persist defs rs s records =
     and_then (norm_weights ws) (\<lambda>nw.
       let cs = rank_candidates nw (process_candidates defs rs @
             resource_candidates (mean_turnaround defs rs) (delays s) (service_requests s)
               (service_assignments s) (service_executions s))
       in Inr (cs, if persist \<and> cs \<noteq> [] then cs else records))"

section \<open>Correctness\<close>

definition six :: "bn_scores \<Rightarrow> rat list" where
  "six c = [bn_duration_score c, bn_frequency_score c, bn_variability_score c, bn_tail_risk_score c,
            bn_contribution_score c, bn_breach_score c]"

definition weight_names :: "string list" where
  "weight_names = [''duration'', ''frequency'', ''variability'', ''tail_risk'', ''turnaround_contribution'',
     ''repeated_target_breach'']"

definition weighted :: "rat list \<Rightarrow> rat list \<Rightarrow> rat" where
  "weighted ws xs = fround 2 (case map2 fmul ws xs of [] \<Rightarrow> 0 | p # ps \<Rightarrow> foldl fadd p ps)"

lemma overall_of_weighted: "overall_of nw c = weighted (map nw weight_names) (six c)"
  by (simp add: overall_of_def weighted_def six_def weight_names_def)

lemma foldl_fadd_mono: "a \<le> b \<Longrightarrow> list_all2 (\<le>) xs ys \<Longrightarrow> foldl fadd a xs \<le> foldl fadd b ys"
proof (induction xs arbitrary: a b ys)
  case (Cons x xs)
  then obtain y ys' where "ys = y # ys'" "x \<le> y" "list_all2 (\<le>) xs ys'" by (auto simp: list_all2_Cons1)
  moreover have "fadd a x \<le> fadd b y" using Cons.prems(1) \<open>x \<le> y\<close> by (simp add: fadd_def fl_mono add_mono)
  ultimately show ?case using Cons.IH by simp
qed simp

lemma map2_fmul_mono:
  "list_all (\<lambda>w. 0 \<le> w) ws \<Longrightarrow> list_all2 (\<le>) ws vs \<Longrightarrow> list_all (\<lambda>x. 0 \<le> x) xs \<Longrightarrow> list_all2 (\<le>) xs ys \<Longrightarrow>
     list_all2 (\<le>) (map2 fmul ws xs) (map2 fmul vs ys)"
proof (induction ws arbitrary: vs xs ys)
  case (Cons w ws)
  obtain v vs' where v: "vs = v # vs'" "w \<le> v" "list_all2 (\<le>) ws vs'" using Cons.prems(2) by (auto simp: list_all2_Cons1)
  show ?case
  proof (cases xs)
    case (Cons x xs')
    with Cons.prems obtain y ys' where y: "ys = y # ys'" "x \<le> y" "list_all2 (\<le>) xs' ys'" by (auto simp: list_all2_Cons1)
    have "fmul w x \<le> fmul v y"
      using Cons.prems v(2) y(2) \<open>xs = x # xs'\<close> by (simp add: fmul_def fl_mono mult_mono)
    then show ?thesis using Cons.IH [OF _ v(3)] Cons.prems v y \<open>xs = x # xs'\<close> by simp
  qed (use Cons.prems in simp)
qed simp

lemma weighted_mono:
  assumes "list_all (\<lambda>w. 0 \<le> w) ws" "list_all2 (\<le>) ws vs" "list_all (\<lambda>x. 0 \<le> x) xs" "list_all2 (\<le>) xs ys"
  shows "weighted ws xs \<le> weighted vs ys"
proof -
  have m: "list_all2 (\<le>) (map2 fmul ws xs) (map2 fmul vs ys)" by (rule map2_fmul_mono [OF assms])
  then show ?thesis unfolding weighted_def
    by (cases "map2 fmul ws xs"; cases "map2 fmul vs ys") (auto intro!: frd.mono foldl_fadd_mono)
qed

definition default_norm :: "string \<Rightarrow> rat" where
  "default_norm k = (case map_of default_weights k of Some v \<Rightarrow> fdiv v (fsum (map snd default_weights)) | None \<Rightarrow> 0)"

lemma default_total: "999 / 1000 \<le> fsum (map snd default_weights)" "fsum (map snd default_weights) \<le> 1001 / 1000"
proof -
  let ?ws = "map snd default_weights"
  have b: "sum_list (map abs ?ws) \<le> 2" "9999 / 10000 \<le> sum_list ?ws" "sum_list ?ws \<le> 10001 / 10000"
    by code_simp+
  have "length ?ws \<le> 10 ^ 6" by (simp add: default_weights_def)
  then have "\<bar>fsum ?ws - sum_list ?ws\<bar> \<le> 2 / 10 ^ 7"
    using fsum_error_million [of 2 ?ws] b(1) by simp
  then have "\<bar>fsum ?ws - sum_list ?ws\<bar> \<le> 1 / 10000" by simp
  note d = abs_diffD [OF this]
  show "999 / 1000 \<le> fsum ?ws" using conjunct2 [OF d] b(2) by linarith
  show "fsum ?ws \<le> 1001 / 1000" using conjunct1 [OF d] b(3) by linarith
qed

lemma norm_weights_default: "norm_weights [] = Inr default_norm"
proof -
  have "fsum (map snd default_weights) \<noteq> 0" using default_total(1) by linarith
  then show ?thesis by (simp add: norm_weights_def merge_weights_def default_norm_def [abs_def] Let_def del: fsum.simps)
qed

lemma weight_quotient_bounds:
  assumes "999 / 1000 \<le> t" "t \<le> 1001 / 1000" "0 \<le> v"
  shows "fl (v * 998 / 1000) \<le> fdiv v t" "fdiv v t \<le> fl (v * 1002 / 1000)"
proof -
  have vt: "v * (999 / 1000) \<le> v * t" "v * t \<le> v * (1001 / 1000)" by (rule mult_left_mono [OF assms(1,3)], rule mult_left_mono [OF assms(2,3)])
  have "v * 998 / 1000 * t \<le> v" using vt(2) assms(3) by (simp add: algebra_simps)
  then show "fl (v * 998 / 1000) \<le> fdiv v t"
    unfolding fdiv_def using assms(1) by (intro fl_mono) (simp add: le_divide_eq)
  have "v \<le> v * 1002 / 1000 * t" using vt(1) assms(3) by (simp add: algebra_simps)
  then show "fdiv v t \<le> fl (v * 1002 / 1000)"
    unfolding fdiv_def using assms(1) by (intro fl_mono) (simp add: divide_le_eq)
qed

definition floor_weights :: "rat list" where "floor_weights = [14 / 100, 19 / 100, 19 / 100, 19 / 100, 9 / 100, 14 / 100]"
definition ceiling_weights :: "rat list" where "ceiling_weights = [16 / 100, 21 / 100, 21 / 100, 21 / 100, 11 / 100, 16 / 100]"

lemma default_norm_bounds:
  "list_all2 (\<le>) floor_weights (map default_norm weight_names)"
  "list_all2 (\<le>) (map default_norm weight_names) ceiling_weights"
proof -
  have lo: "\<lbrakk>0 \<le> v; x \<le> fl (v * 998 / 1000)\<rbrakk> \<Longrightarrow> x \<le> fdiv v (fsum (map snd default_weights))"
    and hi: "\<lbrakk>0 \<le> v; fl (v * 1002 / 1000) \<le> x\<rbrakk> \<Longrightarrow> fdiv v (fsum (map snd default_weights)) \<le> x" for v x
    using weight_quotient_bounds [OF default_total, of v] by (auto intro: order_trans)
  have dn: "map default_norm weight_names = map (\<lambda>v. fdiv v (fsum (map snd default_weights)))
      [fl (15 / 100), fl (20 / 100), fl (20 / 100), fl (20 / 100), fl (10 / 100), fl (15 / 100)]"
    by (simp add: weight_names_def default_norm_def default_weights_def del: fsum.simps)
  show "list_all2 (\<le>) floor_weights (map default_norm weight_names)"
    unfolding dn floor_weights_def list.map list_all2_Cons list_all2_Nil by (intro conjI TrueI lo; code_simp)
  show "list_all2 (\<le>) (map default_norm weight_names) ceiling_weights"
    unfolding dn ceiling_weights_def list.map list_all2_Cons list_all2_Nil by (intro conjI TrueI hi; code_simp)
qed

lemma pct_nonneg: "0 \<le> x \<Longrightarrow> 0 \<le> pct x"
  by (simp add: pct_def fmul_def frd.nonneg flr.nonneg)

lemma fdiv_nonneg: "0 \<le> x \<Longrightarrow> 0 \<le> y \<Longrightarrow> 0 \<le> fdiv x y"
  by (simp add: fdiv_def flr.nonneg)

lemma scores_le_100: "list_all (\<lambda>x. x \<le> 100) (six (compute_metrics values target biz mt d))"
proof -
  let ?r = "fdiv (of_nat (length (filter (\<lambda>x. target < x) values))) (rat_of_nat (length values))"
  have "?r \<le> 1" unfolding fdiv_def
    by (rule flr.le_fix) (auto simp: divide_le_eq_1)
  then have "fmul ?r 100 \<le> fl 100" unfolding fmul_def by (intro fl_mono) simp
  then have "pct ?r \<le> fround 2 (fl 100)" unfolding pct_def by (rule frd.mono)
  also have "fround 2 (fl 100) = 100" by code_simp
  finally show ?thesis by (simp add: six_def compute_metrics_def Let_def)
qed

definition non_negative_sample :: "rat list \<Rightarrow> bool" where
  "non_negative_sample xs \<longleftrightarrow> (\<forall>x \<in> set xs. 0 \<le> x) \<and> length xs \<le> 10 ^ 6"

lemma scores_nonneg:
  assumes "non_negative_sample values"
  shows "list_all (\<lambda>x. 0 \<le> x) (six (compute_metrics values target biz mt d))"
proof -
  have m: "0 \<le> fmean values" using assms unfolding non_negative_sample_def by (intro fmean_nonneg) auto
  have c: "0 \<le> fl (15 / 10)" "0 \<le> fl (25 / 10)" by code_simp+
  have sub: "1 \<le> x \<Longrightarrow> 0 \<le> fsub x 1" for x by (simp add: fsub_def flr.nonneg)
  show ?thesis
    using m c by (auto simp: six_def compute_metrics_def Let_def intro!: pct_nonneg fdiv_nonneg fsqrt_nonneg sub)
qed

lemma extremes:
  "weighted ceiling_weights [100, 100, 0, 0, 100, 0] < weighted floor_weights [0, 0, 100, 100, 0, 100]"
proof -
  have "weighted ceiling_weights [100, 100, 0, 0, 100, 0] \<le> 49" by code_simp
  moreover have "51 \<le> weighted floor_weights [0, 0, 100, 100, 0, 100]" by code_simp
  ultimately show ?thesis by simp
qed

text \<open>A constant stage and a short one with a heavy tail.\<close>

lemma mean_of_tail: "fmean [1, 1, 100] = 34" by (simp add: fmean_def fadd_def fsub_def fdiv_def fl_numeral fl_minus Let_def)
lemma variance_of_tail: "sample_variance [1, 1, 100] 34 = 3267" by (simp add: sample_variance_def fmul_def fadd_def fsub_def fdiv_def fl_numeral Let_def fl_minus)
lemma p90_of_tail: "p90 [1, 1, 100] = 100" by code_simp
lemma median_of_tail: "midpoint_median [1, 1, 100] = 1" by code_simp
lemma mean_of_one: "fmean [40] = 40" by (simp add: fmean_def fadd_def fsub_def fdiv_def fl_numeral fl_minus Let_def)
lemma variance_of_one: "sample_variance [40] 40 = 0" by (simp add: sample_variance_const)
lemma p90_of_one: "p90 [40] = 40" by code_simp
lemma sqrt_of_tail: "57 \<le> fsqrt 3267" using fsqrt_ge_nat [of 57 3267] by simp
lemma median_of_one: "midpoint_median [40] = 40" by (simp add: midpoint_median_def sorted_vals_def)

lemma six_witness:
  "non_negative_sample [40]" "non_negative_sample [1, 1, 100]"
  "six (compute_metrics [40] 48 3 50 False) ! 2 = 0" "six (compute_metrics [40] 48 3 50 False) ! 3 = 0"
  "six (compute_metrics [40] 48 3 50 False) ! 5 = 0"
  "six (compute_metrics [1, 1, 100] (1 / 2) 4 50 True) ! 2 = 100"
  "six (compute_metrics [1, 1, 100] (1 / 2) 4 50 True) ! 3 = 100"
  "six (compute_metrics [1, 1, 100] (1 / 2) 4 50 True) ! 5 = 100"
proof -
  have c: "fl (1 / 10000) < 34" "fl (1 / 10000) < 40" "fl (1 / 10000) < 1" "pct (fdiv (fsub 1 1) (fl (25 / 10))) = 0"
    "pct (fdiv 0 (fl (15 / 10))) = 0" "100 \<le> pct (fdiv (fsub 100 1) (fl (25 / 10)))"
    "100 \<le> pct (fdiv (fdiv 57 34) (fl (15 / 10)))" "pct 1 = 100" "0 < fl (15 / 10)" "fdiv 40 40 = 1"
    "fdiv 100 1 = 100" "fdiv 3 3 = 1" "fdiv 0 1 = 0" "fdiv 0 40 = 0" "pct 0 = 0"
    by code_simp+
  have "pct (fdiv (fdiv 57 34) (fl (15 / 10))) \<le> pct (fdiv (fdiv (fsqrt 3267) 34) (fl (15 / 10)))"
    using sqrt_of_tail c(9) unfolding pct_def fmul_def fdiv_def
    by (intro frd.mono fl_mono mult_right_mono divide_right_mono) auto
  with c(7) have v: "100 \<le> pct (fdiv (fdiv (fsqrt 3267) 34) (fl (15 / 10)))" by linarith
  show "non_negative_sample [40]" "non_negative_sample [1, 1, 100]" by (simp_all add: non_negative_sample_def)
  show "six (compute_metrics [40] 48 3 50 False) ! 2 = 0" "six (compute_metrics [40] 48 3 50 False) ! 3 = 0"
    "six (compute_metrics [40] 48 3 50 False) ! 5 = 0"
    using c by (simp_all add: six_def compute_metrics_def Let_def mean_of_one variance_of_one p90_of_one median_of_one del: fsum.simps)
  show "six (compute_metrics [1, 1, 100] (1 / 2) 4 50 True) ! 2 = 100"
    "six (compute_metrics [1, 1, 100] (1 / 2) 4 50 True) ! 3 = 100"
    "six (compute_metrics [1, 1, 100] (1 / 2) 4 50 True) ! 5 = 100"
    using c v by (simp_all add: six_def compute_metrics_def Let_def mean_of_tail variance_of_tail p90_of_tail median_of_tail min_absorb1 del: fsum.simps)
qed

definition scored :: "(string \<Rightarrow> rat) \<Rightarrow> candidate list \<Rightarrow> candidate list" where
  "scored nw cs = sorted_by_desc cd_overall (map (\<lambda>c. c\<lparr>cd_overall := overall_of nw (cd_scores c)\<rparr>) cs)"

lemma rank_candidates_scored:
  "rank_candidates nw cs = map (\<lambda>(i, c). c\<lparr>cd_rank := i + 1\<rparr>) (enumerate 0 (scored nw cs))"
  by (simp add: rank_candidates_def scored_def)

lemma map_rank_fields:
  "map cd_rank (map (\<lambda>(i, c). c\<lparr>cd_rank := i + 1\<rparr>) (enumerate n xs)) = [n + 1..<n + length xs + 1]"
  "map (\<lambda>c. (cd_name c, cd_scores c, cd_overall c)) (map (\<lambda>(i, c). c\<lparr>cd_rank := i + 1\<rparr>) (enumerate n xs)) =
     map (\<lambda>c. (cd_name c, cd_scores c, cd_overall c)) xs"
  by (induction xs arbitrary: n) (simp_all add: upt_conv_Cons del: upt_Suc)

lemma rank_candidates_fields:
  "map (\<lambda>c. (cd_name c, cd_scores c, cd_overall c)) (rank_candidates nw cs) =
     map (\<lambda>c. (cd_name c, cd_scores c, cd_overall c)) (scored nw cs)"
  unfolding rank_candidates_scored by (rule map_rank_fields)

lemma rank_candidates_length: "length (rank_candidates nw cs) = length cs"
  by (simp add: rank_candidates_def)

lemma rank_candidates_ranks: "map cd_rank (rank_candidates nw cs) = [1..<length cs + 1]"
  unfolding rank_candidates_scored map_rank_fields by (simp add: scored_def)

lemma rank_candidates_sorted: "sorted_wrt (\<lambda>a b. cd_overall b \<le> cd_overall a) (rank_candidates nw cs)"
proof -
  have "sorted_wrt (\<lambda>a b. b \<le> a) (map cd_overall (scored nw cs))"
    using sorted_by_desc_sorted [of cd_overall] by (simp add: scored_def sorted_wrt_map)
  moreover have "map cd_overall (rank_candidates nw cs) = map cd_overall (scored nw cs)"
    using arg_cong [OF rank_candidates_fields, of "map (snd \<circ> snd)"] by (simp add: comp_def)
  ultimately have "sorted_wrt (\<lambda>a b. b \<le> a) (map cd_overall (rank_candidates nw cs))" by simp
  then show ?thesis by (simp add: sorted_wrt_map)
qed

lemma rank_candidates_scores: "list_all (\<lambda>c. cd_overall c = overall_of nw (cd_scores c)) (rank_candidates nw cs)"
proof -
  have "\<forall>c \<in> set (scored nw cs). cd_overall c = overall_of nw (cd_scores c)" by (auto simp: scored_def)
  then have "\<forall>t \<in> set (map (\<lambda>c. (cd_name c, cd_scores c, cd_overall c)) (scored nw cs)).
      snd (snd t) = overall_of nw (fst (snd t))" by auto
  then show ?thesis unfolding rank_candidates_fields [symmetric] by (auto simp: list_all_iff)
qed

lemma rank_candidates_names: "mset (map cd_name (rank_candidates nw cs)) = mset (map cd_name cs)"
proof -
  have "map cd_name (rank_candidates nw cs) = map cd_name (scored nw cs)"
    using arg_cong [OF rank_candidates_fields, of "map fst"] by (simp add: comp_def)
  then have "mset (map cd_name (rank_candidates nw cs)) = image_mset cd_name (mset (scored nw cs))" by simp
  then show ?thesis by (simp add: scored_def multiset.map_comp comp_def)
qed

section \<open>Properties\<close>

text \<open>The hard requirement of the engine: with the default weights a stable stage without breaches
  (scores zero for variability, tail risk and breaches) ranks below a candidate for which these three
  are saturated, however long the stage lasts and however often it occurs.\<close>

theorem stable_stage_ranks_lower:
  assumes "non_negative_sample xs" "non_negative_sample ys"
    and "six (compute_metrics xs tx bx mt dx) ! 2 = 0" "six (compute_metrics xs tx bx mt dx) ! 3 = 0"
      "six (compute_metrics xs tx bx mt dx) ! 5 = 0"
    and "six (compute_metrics ys ty bz mt dy) ! 2 = 100" "six (compute_metrics ys ty bz mt dy) ! 3 = 100"
      "six (compute_metrics ys ty bz mt dy) ! 5 = 100"
  shows "overall_of default_norm (compute_metrics xs tx bx mt dx) < overall_of default_norm (compute_metrics ys ty bz mt dy)"
proof -
  let ?a = "six (compute_metrics xs tx bx mt dx)" and ?b = "six (compute_metrics ys ty bz mt dy)"
  let ?w = "map default_norm weight_names"
  have w: "list_all (\<lambda>w. 0 \<le> w) ?w" "list_all (\<lambda>w. 0 \<le> w) floor_weights"
    using default_norm_bounds(1) by (auto simp: floor_weights_def weight_names_def)
  have "list_all2 (\<le>) ?a [100, 100, 0, 0, 100, 0]"
    using scores_le_100 [of xs tx bx mt dx] assms(3-5) by (simp add: six_def)
  moreover have "list_all (\<lambda>x. 0 \<le> x) ?a" by (rule scores_nonneg [OF assms(1)])
  ultimately have "weighted ?w ?a \<le> weighted ceiling_weights [100, 100, 0, 0, 100, 0]"
    using weighted_mono [OF w(1) default_norm_bounds(2)] by blast
  moreover have "list_all2 (\<le>) [0, 0, 100, 100, 0, 100] ?b"
    using scores_nonneg [OF assms(2), of ty bz mt dy] assms(6-8) by (simp add: six_def)
  then have "weighted floor_weights [0, 0, 100, 100, 0, 100] \<le> weighted ?w ?b"
    using weighted_mono [OF w(2) default_norm_bounds(1)] by simp
  ultimately show ?thesis unfolding overall_of_weighted using extremes by linarith
qed

theorem stable_stage_ranks_lower_witness:
  "overall_of default_norm (compute_metrics [40] 48 3 50 False) <
   overall_of default_norm (compute_metrics [1, 1, 100] (1 / 2) 4 50 True)"
  using stable_stage_ranks_lower [OF six_witness] .

text \<open>The calculation fails only when the merged weights sum to zero. Otherwise the candidates carry
  their weighted score, are listed by it from the highest, and are ranked 1, 2, 3 and so on in that order;
  the stored records are replaced by them exactly when persisting is asked for and there is a candidate.\<close>

theorem ranking_sorted:
  "case calculate_bottlenecks ws persist defs rs s records of
     Inl e \<Rightarrow> e = ZeroDivisionError \<and> fsum (map snd (merge_weights ws)) = 0
   | Inr (cs, stored) \<Rightarrow>
       map cd_rank cs = [1..<length cs + 1] \<and> sorted_wrt (\<lambda>a b. cd_overall b \<le> cd_overall a) cs \<and>
       (\<exists>nw. norm_weights ws = Inr nw \<and> list_all (\<lambda>c. cd_overall c = overall_of nw (cd_scores c)) cs) \<and>
       mset (map cd_name cs) = mset (map cd_name (process_candidates defs rs @ resource_candidates (mean_turnaround defs rs)
         (delays s) (service_requests s) (service_assignments s) (service_executions s))) \<and>
       stored = (if persist \<and> cs \<noteq> [] then cs else records)"
proof (cases "norm_weights ws")
  case (Inl e)
  then have "e = ZeroDivisionError \<and> fsum (map snd (merge_weights ws)) = 0"
    by (auto simp: norm_weights_def Let_def split: if_splits)
  with Inl show ?thesis by (simp add: calculate_bottlenecks_def)
next
  case (Inr nw)
  then show ?thesis
    using rank_candidates_ranks [of nw] rank_candidates_sorted [of nw] rank_candidates_scores [of nw]
      rank_candidates_names [of nw]
    by (simp add: calculate_bottlenecks_def Let_def rank_candidates_length del: upt_Suc)
qed

end
