(* ===== verification/Alerts.thy ===== *)
theory Alerts
  imports Bottlenecks IdentityEngine
begin

text \<open>
  \<open>apps/api/services/alerts/engine.py\<close>: the seeding of the governed alert rules, the evaluation of
  the five rules with deduplication of unresolved alerts, the alert state machine and the action items.
  \<open>now\<close> is the time of the transaction. A flag-free \<open>evidence\<close> dictionary is a \<open>json\<close> value.
\<close>

section \<open>Rows\<close>

datatype alert_status = NEW | ACKNOWLEDGED | RESOLVED | SUPPRESSED

record alert_rule =
  ar_id :: uid
  ar_rule_code :: string
  ar_name :: string
  ar_category :: string
  ar_severity :: string
  ar_description :: string
  ar_threshold_config :: "(string \<times> rat) list"
  ar_is_active :: bool
  ar_suppression_window_minutes :: int

record operational_alert =
  al_id :: uid
  al_alert_rule_id :: uid
  al_rule_code :: string
  al_severity :: string
  al_title :: fstring
  al_description :: fstring
  al_vessel_call_id :: "uid option"
  al_vcn :: "string option"
  al_status :: alert_status
  al_acknowledged_at :: "time option"
  al_acknowledged_by :: "string option"
  al_resolved_at :: "time option"
  al_resolved_by :: "string option"
  al_resolution_notes :: "string option"
  al_linked_entity_type :: string
  al_linked_entity_id :: string
  al_evidence :: json
  al_created_at :: time

record action_comment =
  cm_author :: string
  cm_text :: string
  cm_timestamp :: time

record action_item =
  ai_id :: uid
  ai_alert_id :: "uid option"
  ai_vessel_call_id :: "uid option"
  ai_title :: string
  ai_description :: string
  ai_assigned_to :: "string option"
  ai_due_date :: "time option"
  ai_status :: string
  ai_priority :: string
  ai_comments :: "action_comment list"
  ai_created_by :: string
  ai_created_at :: time

text \<open>\<open>br_details\<close> is the JSON dictionary the bottleneck engine writes with every record.\<close>

record bottleneck_record =
  br_id :: uid
  br_stage_or_resource :: string
  br_bottleneck_type :: string
  br_overall_bottleneck_score :: rat
  br_rank :: nat
  br_details :: "(string \<times> json) list"

record outlier_record =
  or_id :: uid
  or_tenant_id :: string
  or_vessel_call_id :: uid
  or_vcn :: string
  or_outlier_type :: string
  or_rule_id :: "string option"
  or_metric_name :: string
  or_observed_value :: "rat option"
  or_benchmark_or_p90 :: "rat option"
  or_divergence :: "rat option"
  or_severity :: string
  or_evidence :: json
  or_issue_text :: "string option"
  or_threshold_label :: "fstring option"
  or_reason :: "fstring option"
  or_movement_leg :: "string option"
  or_source_record_ids :: "string list option"
  or_is_excluded_from_kpi :: bool
  or_exclusion_rationale :: "string option"
  or_detected_at :: "time option"

type_synonym alert_key = "string \<times> string \<times> string"

text \<open>\<open>open_alerts\<close> is the engine's \<open>_open_alerts\<close> dictionary, \<open>None\<close> before the first evaluation.\<close>

record alert_db = identity_db +
  alert_rules :: "alert_rule list"
  bottleneck_records :: "bottleneck_record list"
  outlier_records :: "outlier_record list"
  operational_alerts :: "operational_alert list"
  action_items :: "action_item list"
  open_alerts :: "(alert_key \<rightharpoonup> operational_alert) option"

lemma add_audit_alerts [simp]:
  "alert_rules (add_audit e s) = alert_rules s"
  "bottleneck_records (add_audit e s) = bottleneck_records s"
  "outlier_records (add_audit e s) = outlier_records s"
  "operational_alerts (add_audit e s) = operational_alerts s"
  "action_items (add_audit e s) = action_items s"
  "open_alerts (add_audit e s) = open_alerts s"
  by (simp_all add: add_audit_def)

definition alert_key :: "operational_alert \<Rightarrow> alert_key" where
  "alert_key a = (al_rule_code a, al_linked_entity_type a, al_linked_entity_id a)"

definition is_unresolved :: "operational_alert \<Rightarrow> bool" where
  "is_unresolved a \<longleftrightarrow> al_status a \<in> {NEW, ACKNOWLEDGED}"

definition unresolved :: "'a alert_db_scheme \<Rightarrow> operational_alert list" where
  "unresolved s = filter is_unresolved (operational_alerts s)"

section \<open>Seeding the rules\<close>

definition rule_spec :: "string \<Rightarrow> string \<Rightarrow> string \<Rightarrow> string \<Rightarrow> string \<Rightarrow> (string \<times> rat) list \<Rightarrow> int \<Rightarrow> alert_rule" where
  "rule_spec code name category severity description threshold window =
     \<lparr>ar_id = '''', ar_rule_code = code, ar_name = name, ar_category = category, ar_severity = severity,
      ar_description = description, ar_threshold_config = threshold, ar_is_active = True,
      ar_suppression_window_minutes = window\<rparr>"

definition default_alert_rules :: "alert_rule list" where
  "default_alert_rules =
    [rule_spec ''RULE_MISSING_DELAY_REASON'' ''Missing Delay Reason Review (DQ-007)'' ''QUALITY'' ''MEDIUM''
       ''Positive movement execution delay without documented reason or category.''
       [(''delay_hours_min'', fl (5 / 100))] 120,
     rule_spec ''RULE_CRITICAL_BOTTLENECK'' ''Critical Bottleneck Detected'' ''BOTTLENECK'' ''HIGH''
       ''Operational stage or resource bottleneck score exceeded critical threshold.''
       [(''score_threshold'', 65)] 240,
     rule_spec ''RULE_EXTREME_P90_OUTLIER'' ''Extreme Outlier / P90 Tail Risk (DQ-008)'' ''OUTLIER'' ''CRITICAL''
       ''Turnaround or stage duration severely diverges from historical P90 or baseline.''
       [(''p90_multiplier'', 2)] 1440,
     rule_spec ''RULE_RESOURCE_SHORTAGE'' ''Marine Resource Shortage Delay'' ''RESOURCE'' ''MEDIUM''
       ''Pilot or tug service delay caused by resource unavailability or out-of-service condition.''
       [(''delay_hours_min'', 1)] 180,
     rule_spec ''RULE_BERTH_CONFLICT'' ''Berth Non-Availability Conflict'' ''RESOURCE'' ''HIGH''
       ''Vessel delayed waiting for available berth due to congestion or overstay.''
       [(''delay_hours_min'', 1)] 180]"

definition seed_rule :: "(nat \<Rightarrow> uid) \<Rightarrow> alert_rule \<Rightarrow> 'a alert_db_scheme \<Rightarrow> 'a alert_db_scheme result" where
  "seed_rule uuid spec s =
     and_then (get_by ar_rule_code (ar_rule_code spec) (alert_rules s)) (\<lambda>existing.
       case existing of
         Some _ \<Rightarrow> Inr s
       | None \<Rightarrow> Inr (s\<lparr>alert_rules := alert_rules s @ [spec\<lparr>ar_id := uuid (draws s)\<rparr>], draws := draws s + 1\<rparr>))"

definition seed_default_rules :: "(nat \<Rightarrow> uid) \<Rightarrow> 'a alert_db_scheme \<Rightarrow> 'a alert_db_scheme result" where
  "seed_default_rules uuid = run_steps (seed_rule uuid) default_alert_rules"

section \<open>Deduplicated creation\<close>

record alert_request =
  rq_rule :: alert_rule
  rq_vessel_call_id :: "uid option"
  rq_vcn :: "string option"
  rq_title :: fstring
  rq_description :: fstring
  rq_linked_entity_type :: string
  rq_linked_entity_id :: string
  rq_evidence :: json

definition request_key :: "alert_request \<Rightarrow> alert_key" where
  "request_key q = (ar_rule_code (rq_rule q), rq_linked_entity_type q, rq_linked_entity_id q)"

definition new_alert :: "uid \<Rightarrow> time \<Rightarrow> alert_request \<Rightarrow> operational_alert" where
  "new_alert i now q =
     \<lparr>al_id = i, al_alert_rule_id = ar_id (rq_rule q), al_rule_code = ar_rule_code (rq_rule q),
      al_severity = ar_severity (rq_rule q), al_title = rq_title q, al_description = rq_description q,
      al_vessel_call_id = rq_vessel_call_id q, al_vcn = rq_vcn q, al_status = NEW,
      al_acknowledged_at = None, al_acknowledged_by = None, al_resolved_at = None, al_resolved_by = None,
      al_resolution_notes = None, al_linked_entity_type = rq_linked_entity_type q,
      al_linked_entity_id = rq_linked_entity_id q, al_evidence = rq_evidence q, al_created_at = now\<rparr>"

text \<open>The lookup goes to the dictionary when it is loaded, to the table otherwise. The result is the
  state with the alert that was found or created.\<close>

definition create_or_get_alert ::
    "(nat \<Rightarrow> uid) \<Rightarrow> time \<Rightarrow> alert_request \<Rightarrow> 'a alert_db_scheme \<Rightarrow> ('a alert_db_scheme \<times> operational_alert) result" where
  "create_or_get_alert uuid now q s =
     and_then (case open_alerts s of
                 Some d \<Rightarrow> Inr (d (request_key q))
               | None \<Rightarrow> get_by alert_key (request_key q) (unresolved s)) (\<lambda>existing.
       case existing of
         Some a \<Rightarrow> Inr (s, a)
       | None \<Rightarrow>
           (let a = new_alert (uuid (draws s)) now q
            in Inr (s\<lparr>operational_alerts := operational_alerts s @ [a], draws := draws s + 1,
                      open_alerts := (case open_alerts s of None \<Rightarrow> None | Some d \<Rightarrow> Some (d(request_key q \<mapsto> a)))\<rparr>,
                    a)))"

section \<open>The five rules\<close>

definition call_vcn :: "'a canon_db_scheme \<Rightarrow> uid \<Rightarrow> string option list" where
  "call_vcn s i = map vc_vcn (filter (\<lambda>v. vc_id v = i) (vessel_calls s))"

text \<open>\<open>select(Delay, VesselCall.vcn).join(VesselCall)\<close> with a condition on the delay.\<close>

definition joined_delays :: "(delay \<Rightarrow> bool) \<Rightarrow> 'a canon_db_scheme \<Rightarrow> (delay \<times> string option) list" where
  "joined_delays p s =
     concat (map (\<lambda>d. map (Pair d) (call_vcn s (dl_vessel_call_id d))) (filter p (delays s)))"

definition missing_reason_requests :: "alert_rule \<Rightarrow> 'a canon_db_scheme \<Rightarrow> alert_request list" where
  "missing_reason_requests r s =
     map (\<lambda>(d, vcn).
       \<lparr>rq_rule = r, rq_vessel_call_id = Some (dl_vessel_call_id d), rq_vcn = vcn,
        rq_title = [Lit ''Mandatory Delay Reason Review: '', OStr vcn, Lit '' ('', Str (dl_movement_stage d), Lit '')''],
        rq_description = [Lit ''Vessel '', OStr vcn, Lit '' experienced positive execution delay of '',
          Num (dl_total_duration_hours d), Lit ''h on '', Str (dl_movement_stage d),
          Lit '' without documented reason or category. DQ-007 review required.''],
        rq_linked_entity_type = ''canonical.delay'', rq_linked_entity_id = dl_id d,
        rq_evidence = JObj [(''delay_id'', JStr (dl_id d)), (''movement_stage'', JStr (dl_movement_stage d)),
          (''delay_hours'', JNum (dl_total_duration_hours d)), (''rule_id'', JStr ''DQ-007'')]\<rparr>)
       (joined_delays dl_requires_reason_review s)"

text \<open>Quality issues joined with their rule and vessel call.\<close>

definition dq7_issues :: "'a canon_db_scheme \<Rightarrow> (quality_issue \<times> uid \<times> string option) list" where
  "dq7_issues s =
     concat (map (\<lambda>i. concat (map (\<lambda>r.
       if qr_id r = qi_rule_id i \<and> qr_rule_id r = ''DQ-007''
       then (case qi_vessel_call_id i of None \<Rightarrow> [] | Some v \<Rightarrow> map (\<lambda>vcn. (i, v, vcn)) (call_vcn s v))
       else []) (quality_rules s))) (quality_issues s))"

definition dq7_requests :: "alert_rule \<Rightarrow> 'a canon_db_scheme \<Rightarrow> alert_request list" where
  "dq7_requests r s =
     map (\<lambda>(i, v, vcn).
       \<lparr>rq_rule = r, rq_vessel_call_id = Some v, rq_vcn = vcn,
        rq_title = [Lit ''Mandatory Delay Reason Review: '', OStr vcn, Lit '' (DQ-007)''],
        rq_description = [Lit ''Vessel '', OStr vcn,
          Lit '' experienced positive execution delay without documented reason or category. DQ-007 review required at MEDIUM severity.''],
        rq_linked_entity_type = ''quality.quality_issue'', rq_linked_entity_id = qi_id i,
        rq_evidence = JObj [(''issue_id'', JStr (qi_id i)), (''rule_id'', JStr ''DQ-007''), (''severity'', JStr ''MEDIUM'')]\<rparr>)
       (dq7_issues s)"

definition json_get :: "(string \<times> json) list \<Rightarrow> string \<Rightarrow> json" where
  "json_get d k = (case map_of d k of Some v \<Rightarrow> v | None \<Rightarrow> JNull)"

definition bottleneck_requests :: "alert_rule \<Rightarrow> 'a alert_db_scheme \<Rightarrow> alert_request list" where
  "bottleneck_requests r s =
     (let thresh = (case map_of (ar_threshold_config r) ''score_threshold'' of Some t \<Rightarrow> t | None \<Rightarrow> 65)
      in map (\<lambda>b.
       \<lparr>rq_rule = r, rq_vessel_call_id = None, rq_vcn = None,
        rq_title = [Lit ''Critical Bottleneck: '', Str (br_stage_or_resource b), Lit '' (Rank #'', NatF (br_rank b), Lit '')''],
        rq_description = [Str (br_stage_or_resource b), Lit '' ('', Str (br_bottleneck_type b),
          Lit '') reached bottleneck score '', Num (br_overall_bottleneck_score b), Lit ''/100 with CV '',
          Js (json_get (br_details b) ''cv''), Lit '' and tail risk '',
          Js (json_get (br_details b) ''tail_risk_ratio''), Lit ''.''],
        rq_linked_entity_type = ''analytics.bottleneck_record'', rq_linked_entity_id = br_id b,
        rq_evidence = JObj [(''stage_or_resource'', JStr (br_stage_or_resource b)),
          (''overall_score'', JNum (br_overall_bottleneck_score b)), (''rank'', JInt (int (br_rank b))),
          (''details'', JObj (br_details b))]\<rparr>)
       (filter (\<lambda>b. thresh \<le> br_overall_bottleneck_score b) (bottleneck_records s)))"

definition outlier_requests :: "alert_rule \<Rightarrow> 'a alert_db_scheme \<Rightarrow> alert_request list" where
  "outlier_requests r s =
     map (\<lambda>x.
       \<lparr>rq_rule = r, rq_vessel_call_id = Some (or_vessel_call_id x), rq_vcn = Some (or_vcn x),
        rq_title = [Lit ''Extreme Outlier: '', Str (or_vcn x), Lit '' - '', Str (or_metric_name x)],
        rq_description = [Lit ''Vessel '', Str (or_vcn x), Lit '' observed '', Str (or_metric_name x), Lit '' of '',
          ONum (or_observed_value x), Lit '' (divergence +'', ONum (or_divergence x), Lit '' from benchmark '',
          ONum (or_benchmark_or_p90 x), Lit '').''],
        rq_linked_entity_type = ''analytics.outlier_record'', rq_linked_entity_id = or_id x,
        rq_evidence = or_evidence x\<rparr>)
       (filter (\<lambda>x. or_severity x \<in> {''HIGH'', ''CRITICAL''}) (outlier_records s))"

text \<open>Whether a text with interpolated values is a non-empty string.\<close>

definition fstring_truthy :: "fstring \<Rightarrow> bool" where
  "fstring_truthy f = list_ex (\<lambda>g. case g of
      Lit s \<Rightarrow> s \<noteq> '''' | Str s \<Rightarrow> s \<noteq> '''' | OStr (Some s) \<Rightarrow> s \<noteq> '''' | Strs ss \<Rightarrow> ss \<noteq> [] \<and> ss \<noteq> ['''']
    | _ \<Rightarrow> True) f"

text \<open>\<open>delay.delay_reason or delay.canonical_category\<close>.\<close>

definition reason_or_category :: "delay \<Rightarrow> fstring" where
  "reason_or_category d = (case dl_delay_reason d of
      Some f \<Rightarrow> if fstring_truthy f then f else [OStr (dl_canonical_category d)]
    | None \<Rightarrow> [OStr (dl_canonical_category d)])"

definition json_opt_str :: "string option \<Rightarrow> json" where
  "json_opt_str x = (case x of None \<Rightarrow> JNull | Some s \<Rightarrow> JStr s)"

definition json_opt_text :: "fstring option \<Rightarrow> json" where
  "json_opt_text x = (case x of None \<Rightarrow> JNull | Some f \<Rightarrow> JText f)"

definition resource_requests :: "alert_rule \<Rightarrow> 'a canon_db_scheme \<Rightarrow> alert_request list" where
  "resource_requests r s =
     map (\<lambda>(d, vcn).
       \<lparr>rq_rule = r, rq_vessel_call_id = Some (dl_vessel_call_id d), rq_vcn = vcn,
        rq_title = [Lit ''Marine Service Shortage: '', OStr vcn, Lit '' ('', OStr (dl_canonical_category d), Lit '')''],
        rq_description = [Lit ''Delay of '', Num (dl_total_duration_hours d), Lit ''h on '', Str (dl_movement_stage d),
          Lit '' due to ''] @ reason_or_category d @ [Lit ''.''],
        rq_linked_entity_type = ''canonical.delay'', rq_linked_entity_id = dl_id d,
        rq_evidence = JObj [(''reason'', json_opt_text (dl_delay_reason d)),
          (''category'', json_opt_str (dl_canonical_category d)), (''hours'', JNum (dl_total_duration_hours d))]\<rparr>)
       (joined_delays (\<lambda>d. dl_canonical_category d \<in> {Some ''Tug'', Some ''Pilot''} \<and> 1 \<le> dl_total_duration_hours d) s)"

definition berth_requests :: "alert_rule \<Rightarrow> 'a canon_db_scheme \<Rightarrow> alert_request list" where
  "berth_requests r s =
     map (\<lambda>(d, vcn).
       \<lparr>rq_rule = r, rq_vessel_call_id = Some (dl_vessel_call_id d), rq_vcn = vcn,
        rq_title = [Lit ''Berth Unavailable: '', OStr vcn, Lit '' ('', Num (dl_total_duration_hours d), Lit ''h)''],
        rq_description = [Lit ''Berth non-availability delay of '', Num (dl_total_duration_hours d),
          Lit ''h reported for call '', OStr vcn, Lit ''.''],
        rq_linked_entity_type = ''canonical.delay'', rq_linked_entity_id = dl_id d,
        rq_evidence = JObj [(''hours'', JNum (dl_total_duration_hours d)), (''movement'', JStr (dl_movement_stage d))]\<rparr>)
       (joined_delays (\<lambda>d. dl_canonical_category d = Some ''Berth Non-Availability'' \<and> 1 \<le> dl_total_duration_hours d) s)"

section \<open>Evaluation\<close>

text \<open>The dictionaries built by comprehension keep the last row of a key.\<close>

definition active_rules :: "'a alert_db_scheme \<Rightarrow> string \<rightharpoonup> alert_rule" where
  "active_rules s = map_of (rev (map (\<lambda>r. (ar_rule_code r, r)) (filter ar_is_active (alert_rules s))))"

definition load_open_alerts :: "'a alert_db_scheme \<Rightarrow> 'a alert_db_scheme" where
  "load_open_alerts s = s\<lparr>open_alerts := Some (map_of (rev (map (\<lambda>a. (alert_key a, a)) (unresolved s))))\<rparr>"

definition if_active :: "(string \<rightharpoonup> alert_rule) \<Rightarrow> string \<Rightarrow> (alert_rule \<Rightarrow> alert_request list) \<Rightarrow> alert_request list" where
  "if_active rules code f = (case rules code of Some r \<Rightarrow> f r | None \<Rightarrow> [])"

definition rule_requests :: "'a alert_db_scheme \<Rightarrow> alert_request list" where
  "rule_requests s =
     (let rules = active_rules s
      in if_active rules ''RULE_MISSING_DELAY_REASON'' (\<lambda>r. missing_reason_requests r s @ dq7_requests r s) @
         if_active rules ''RULE_CRITICAL_BOTTLENECK'' (\<lambda>r. bottleneck_requests r s) @
         if_active rules ''RULE_EXTREME_P90_OUTLIER'' (\<lambda>r. outlier_requests r s) @
         if_active rules ''RULE_RESOURCE_SHORTAGE'' (\<lambda>r. resource_requests r s) @
         if_active rules ''RULE_BERTH_CONFLICT'' (\<lambda>r. berth_requests r s))"

definition alert_step :: "(nat \<Rightarrow> uid) \<Rightarrow> time \<Rightarrow> alert_request \<Rightarrow> 'a alert_db_scheme \<Rightarrow> 'a alert_db_scheme result" where
  "alert_step uuid now q s = and_then (create_or_get_alert uuid now q s) (\<lambda>(s', _). Inr s')"

fun status_name :: "alert_status \<Rightarrow> string" where
  "status_name NEW = ''NEW''" | "status_name ACKNOWLEDGED = ''ACKNOWLEDGED''"
| "status_name RESOLVED = ''RESOLVED''" | "status_name SUPPRESSED = ''SUPPRESSED''"

definition list_alerts ::
    "string option \<Rightarrow> string option \<Rightarrow> string option \<Rightarrow> string option \<Rightarrow> nat \<Rightarrow>
     'a alert_db_scheme \<Rightarrow> (operational_alert \<times> nat) list" where
  "list_alerts status severity rule_code vcn limit s =
     (let q = opt_filter (\<lambda>p a. sql_ilike p (status_name (al_status a))) status (operational_alerts s);
          q = opt_filter (\<lambda>p a. sql_ilike p (al_severity a)) severity q;
          q = opt_filter (\<lambda>p a. al_rule_code a = p) rule_code q;
          q = opt_filter (\<lambda>p a. al_vcn a = Some p) vcn q
      in map (\<lambda>a. (a, length (filter (\<lambda>x. ai_alert_id x = Some (al_id a)) (action_items s))))
           (take limit (sorted_by_desc al_created_at q)))"

definition evaluate_rules ::
    "(nat \<Rightarrow> uid) \<Rightarrow> time \<Rightarrow> 'a alert_db_scheme \<Rightarrow> ('a alert_db_scheme \<times> (operational_alert \<times> nat) list) result" where
  "evaluate_rules uuid now s =
     and_then (seed_default_rules uuid s) (\<lambda>s1.
     and_then (run_steps (alert_step uuid now) (rule_requests s1) (load_open_alerts s1)) (\<lambda>s2.
       Inr (s2, list_alerts None None None None 100 s2)))"

section \<open>The state machine of an alert\<close>

definition alert_not_found :: "uid \<Rightarrow> py_error" where
  "alert_not_found i = ValueError [Lit ''Alert '', Str i, Lit '' not found'']"

definition ops_audit :: "string \<Rightarrow> string \<Rightarrow> string \<Rightarrow> uid \<Rightarrow> (string \<times> fstring) list \<Rightarrow> audit_event" where
  "ops_audit actor action resource_type resource_id details =
     \<lparr>au_action = action, au_actor_id = actor, au_actor_role = ''operator'', au_resource_type = resource_type,
      au_resource_id = resource_id, au_details = details\<rparr>"

definition acknowledge_alert :: "time \<Rightarrow> uid \<Rightarrow> string \<Rightarrow> 'a alert_db_scheme \<Rightarrow> 'a alert_db_scheme result" where
  "acknowledge_alert now i actor s =
     and_then (get_by al_id i (operational_alerts s)) (\<lambda>found.
       case found of
         None \<Rightarrow> Inl (alert_not_found i)
       | Some a \<Rightarrow> Inr (add_audit (ops_audit actor ''ACKNOWLEDGE_ALERT'' ''operational_alert'' i
             [(''status'', [Lit ''ACKNOWLEDGED'']), (''acknowledged_by'', [Str actor])])
           (s\<lparr>operational_alerts := upd_by al_id i (\<lambda>a. a\<lparr>al_status := ACKNOWLEDGED,
                al_acknowledged_at := Some now, al_acknowledged_by := Some actor\<rparr>) (operational_alerts s)\<rparr>)))"

definition resolve_alert :: "time \<Rightarrow> uid \<Rightarrow> string \<Rightarrow> string \<Rightarrow> 'a alert_db_scheme \<Rightarrow> 'a alert_db_scheme result" where
  "resolve_alert now i notes actor s =
     and_then (get_by al_id i (operational_alerts s)) (\<lambda>found.
       case found of
         None \<Rightarrow> Inl (alert_not_found i)
       | Some a \<Rightarrow> Inr (add_audit (ops_audit actor ''RESOLVE_ALERT'' ''operational_alert'' i
             [(''status'', [Lit ''RESOLVED'']), (''resolved_by'', [Str actor]), (''notes'', [Str notes])])
           (s\<lparr>operational_alerts := upd_by al_id i (\<lambda>a. a\<lparr>al_status := RESOLVED,
                al_resolved_at := Some now, al_resolved_by := Some actor, al_resolution_notes := Some notes\<rparr>)
                (operational_alerts s)\<rparr>)))"

section \<open>Action items\<close>

text \<open>The audit row is built before the new item is flushed, when \<open>action.id\<close> is still \<open>None\<close>: its
  resource id is the text \<open>None\<close>.\<close>

definition create_action_item ::
    "uid \<Rightarrow> time \<Rightarrow> string \<Rightarrow> string \<Rightarrow> string option \<Rightarrow> time option \<Rightarrow> string \<Rightarrow> uid option \<Rightarrow> uid option \<Rightarrow> string \<Rightarrow>
     'a alert_db_scheme \<Rightarrow> 'a alert_db_scheme" where
  "create_action_item new_id now title description assigned_to due_date priority alert_id vessel_call_id created_by s =
     add_audit (ops_audit created_by ''CREATE_ACTION_ITEM'' ''action_item'' ''None''
         [(''title'', [Str title]), (''assigned_to'', [OStr assigned_to]), (''priority'', [Str priority])])
       (s\<lparr>action_items := action_items s @ [\<lparr>ai_id = new_id, ai_alert_id = alert_id, ai_vessel_call_id = vessel_call_id,
            ai_title = title, ai_description = description, ai_assigned_to = assigned_to, ai_due_date = due_date,
            ai_status = ''OPEN'', ai_priority = priority, ai_comments = [], ai_created_by = created_by,
            ai_created_at = now\<rparr>]\<rparr>)"

definition update_item :: "time \<Rightarrow> string option \<Rightarrow> string option \<Rightarrow> string \<Rightarrow> action_item \<Rightarrow> action_item" where
  "update_item now status comment actor a =
     (let a = (case status of Some (c # cs) \<Rightarrow> a\<lparr>ai_status := c # cs\<rparr> | _ \<Rightarrow> a)
      in case comment of
           Some (c # cs) \<Rightarrow> a\<lparr>ai_comments := ai_comments a @ [\<lparr>cm_author = actor, cm_text = c # cs, cm_timestamp = now\<rparr>]\<rparr>
         | _ \<Rightarrow> a)"

definition update_action_item ::
    "time \<Rightarrow> uid \<Rightarrow> string option \<Rightarrow> string option \<Rightarrow> string \<Rightarrow> 'a alert_db_scheme \<Rightarrow> 'a alert_db_scheme result" where
  "update_action_item now i status comment actor s =
     and_then (get_by ai_id i (action_items s)) (\<lambda>found.
       case found of
         None \<Rightarrow> Inl (ValueError [Lit ''Action item '', Str i, Lit '' not found''])
       | Some a \<Rightarrow> Inr (add_audit (ops_audit actor ''UPDATE_ACTION_ITEM'' ''action_item'' i
             [(''old_status'', [Str (ai_status a)]), (''new_status'', [Str (ai_status (update_item now status comment actor a))]),
              (''comment_added'', [Js (JBool (comment \<noteq> None \<and> comment \<noteq> Some ''''))])])
           (s\<lparr>action_items := upd_by ai_id i (update_item now status comment actor) (action_items s)\<rparr>)))"

definition list_action_items :: "string option \<Rightarrow> 'a alert_db_scheme \<Rightarrow> action_item list" where
  "list_action_items status s =
     sorted_by_desc ai_created_at (opt_filter (\<lambda>p a. sql_ilike p (ai_status a)) status (action_items s))"

section \<open>Deduplication\<close>

definition open_keys :: "'a alert_db_scheme \<Rightarrow> alert_key list" where
  "open_keys s = map alert_key (unresolved s)"

definition rule_codes :: "'a alert_db_scheme \<Rightarrow> string list" where
  "rule_codes s = map ar_rule_code (alert_rules s)"

text \<open>The dictionary of open alerts is loaded and has the keys of the unresolved alerts.\<close>

definition dict_ok :: "'a alert_db_scheme \<Rightarrow> bool" where
  "dict_ok s = (case open_alerts s of Some d \<Rightarrow> dom d = set (open_keys s) | None \<Rightarrow> False)"

lemma alert_key_new [simp]: "alert_key (new_alert i now q) = request_key q"
  by (simp add: alert_key_def new_alert_def request_key_def)

lemma is_unresolved_new [simp]: "is_unresolved (new_alert i now q)"
  by (simp add: is_unresolved_def new_alert_def)

text \<open>What a step can change: alerts are appended, all of them new.\<close>

definition extended :: "'a alert_db_scheme \<Rightarrow> 'a alert_db_scheme \<Rightarrow> bool" where
  "extended s s' \<longleftrightarrow> (\<exists>new n d. list_all (\<lambda>a. al_status a = NEW \<and> al_acknowledged_at a = None \<and> al_resolved_at a = None) new \<and>
     s' = s\<lparr>operational_alerts := operational_alerts s @ new, draws := n, open_alerts := d\<rparr>)"

lemma extended_refl: "extended s s"
  unfolding extended_def by (rule exI [of _ "[]"], rule exI [of _ "draws s"], rule exI [of _ "open_alerts s"]) simp

lemma extended_trans: "extended s t \<Longrightarrow> extended t u \<Longrightarrow> extended s u"
proof (unfold extended_def, elim exE conjE)
  fix n1 k1 d1 n2 k2 d2
  assume "list_all (\<lambda>a. al_status a = NEW \<and> al_acknowledged_at a = None \<and> al_resolved_at a = None) n1"
    "t = s\<lparr>operational_alerts := operational_alerts s @ n1, draws := k1, open_alerts := d1\<rparr>"
    "list_all (\<lambda>a. al_status a = NEW \<and> al_acknowledged_at a = None \<and> al_resolved_at a = None) n2"
    "u = t\<lparr>operational_alerts := operational_alerts t @ n2, draws := k2, open_alerts := d2\<rparr>"
  then show "\<exists>new n d. list_all (\<lambda>a. al_status a = NEW \<and> al_acknowledged_at a = None \<and> al_resolved_at a = None) new \<and>
     u = s\<lparr>operational_alerts := operational_alerts s @ new, draws := n, open_alerts := d\<rparr>"
    by (intro exI [of _ "n1 @ n2"] exI [of _ k2] exI [of _ d2]) simp
qed

lemma alert_step_cases:
  assumes "dict_ok s"
  obtains "request_key q \<in> set (open_keys s)" "alert_step uuid now q s = Inr s"
  | s' where "request_key q \<notin> set (open_keys s)" "alert_step uuid now q s = Inr s'" "extended s s'" "dict_ok s'"
      "open_keys s' = open_keys s @ [request_key q]"
proof -
  from assms obtain d where d: "open_alerts s = Some d" "dom d = set (open_keys s)"
    by (auto simp: dict_ok_def split: option.splits)
  show thesis
  proof (cases "d (request_key q)")
    case (Some a)
    then have "request_key q \<in> set (open_keys s)" using d(2) by blast
    with Some d(1) show thesis by (intro that(1)) (simp_all add: alert_step_def create_or_get_alert_def)
  next
    case None
    define a where "a = new_alert (uuid (draws s)) now q"
    define s' where "s' = s\<lparr>operational_alerts := operational_alerts s @ [a], draws := draws s + 1,
      open_alerts := Some (d(request_key q \<mapsto> a))\<rparr>"
    have keys: "open_keys s' = open_keys s @ [request_key q]"
      by (simp add: open_keys_def unresolved_def s'_def a_def)
    show thesis
    proof (rule that(2))
      show "request_key q \<notin> set (open_keys s)" using None d(2) by blast
      show "alert_step uuid now q s = Inr s'"
        using None d(1) by (simp add: alert_step_def create_or_get_alert_def s'_def a_def Let_def)
      show "extended s s'"
        unfolding extended_def s'_def by (rule exI [of _ "[a]"]) (auto simp: a_def new_alert_def)
      have "open_alerts s' = Some (d(request_key q \<mapsto> a))" by (simp add: s'_def)
      then show "dict_ok s'" using d(2) by (simp add: dict_ok_def keys)
    qed (rule keys)
  qed
qed

interpretation alerting: create_or_get dict_ok open_keys "alert_step uuid now" "Some \<circ> request_key" for uuid now
proof unfold_locales
  fix s :: "'a alert_db_scheme" and q
  assume ok: "dict_ok s"
  show "\<exists>s'. alert_step uuid now q s = Inr s'" by (rule alert_step_cases [OF ok, of q uuid now]) auto
  fix s' assume st: "alert_step uuid now q s = Inr s'"
  show "dict_ok s'" using st ok by (rule_tac alert_step_cases [OF ok, of q uuid now]) auto
  show "open_keys s' = (case (Some \<circ> request_key) q of
      Some k \<Rightarrow> if k \<in> set (open_keys s) then open_keys s else open_keys s @ [k] | None \<Rightarrow> open_keys s)"
    using st by (rule_tac alert_step_cases [OF ok, of q uuid now]) auto
qed

lemma run_alerts_extended:
  "dict_ok s \<Longrightarrow> run_steps (alert_step uuid now) qs s = Inr s' \<Longrightarrow> extended s s'"
proof (induction qs arbitrary: s)
  case (Cons q qs)
  from Cons.prems(2) obtain t where t: "alert_step uuid now q s = Inr t" "run_steps (alert_step uuid now) qs t = Inr s'"
    by auto
  have "extended s t" using t(1) by (rule_tac alert_step_cases [OF Cons.prems(1), of q uuid now]) (auto simp: extended_refl)
  moreover have "dict_ok t" by (rule alerting.keeps_ok [OF Cons.prems(1) t(1)])
  ultimately show ?case using Cons.IH t(2) extended_trans by blast
qed (auto simp: extended_refl)

section \<open>Seeding\<close>

definition codes_ok :: "'a alert_db_scheme \<Rightarrow> bool" where
  "codes_ok s \<longleftrightarrow> distinct (rule_codes s)"

lemma seed_rule_cases:
  assumes "codes_ok s"
  obtains "ar_rule_code spec \<in> set (rule_codes s)" "seed_rule uuid spec s = Inr s"
  | "ar_rule_code spec \<notin> set (rule_codes s)"
    "seed_rule uuid spec s = Inr (s\<lparr>alert_rules := alert_rules s @ [spec\<lparr>ar_id := uuid (draws s)\<rparr>], draws := draws s + 1\<rparr>)"
proof -
  obtain r where r: "get_by ar_rule_code (ar_rule_code spec) (alert_rules s) = Inr r"
    using one_or_none_distinct [of ar_rule_code "alert_rules s" "ar_rule_code spec"] assms
    by (auto simp: codes_ok_def rule_codes_def get_by_def)
  show thesis
  proof (cases r)
    case None
    then have "ar_rule_code spec \<notin> set (rule_codes s)" using get_by_NoneD [of ar_rule_code _ "alert_rules s"] r
      by (force simp: rule_codes_def)
    then show thesis using that(2) r None by (simp add: seed_rule_def)
  next
    case (Some x)
    then have "x \<in> set (alert_rules s)" "ar_rule_code x = ar_rule_code spec"
      using get_by_SomeD [of ar_rule_code "ar_rule_code spec" "alert_rules s" x] r by auto
    then have "ar_rule_code spec \<in> set (rule_codes s)" unfolding rule_codes_def by (metis list.set_map imageI)
    then show thesis using that(1) r Some by (simp add: seed_rule_def)
  qed
qed

interpretation seeding: create_or_get codes_ok rule_codes "seed_rule uuid" "Some \<circ> ar_rule_code" for uuid
proof unfold_locales
  fix s :: "'a alert_db_scheme" and spec
  assume ok: "codes_ok s"
  show "\<exists>s'. seed_rule uuid spec s = Inr s'" by (rule seed_rule_cases [OF ok, of spec uuid]) auto
  fix s' assume st: "seed_rule uuid spec s = Inr s'"
  show "codes_ok s'" using st ok
    by (rule_tac seed_rule_cases [OF ok, of spec uuid]) (auto simp: codes_ok_def rule_codes_def)
  show "rule_codes s' = (case (Some \<circ> ar_rule_code) spec of
      Some k \<Rightarrow> if k \<in> set (rule_codes s) then rule_codes s else rule_codes s @ [k] | None \<Rightarrow> rule_codes s)"
    using st by (rule_tac seed_rule_cases [OF ok, of spec uuid]) (auto simp: rule_codes_def)
qed

lemma seed_steps_frame:
  "codes_ok s \<Longrightarrow> run_steps (seed_rule uuid) specs s = Inr s' \<Longrightarrow>
     \<exists>new n. s' = s\<lparr>alert_rules := alert_rules s @ new, draws := n\<rparr>"
proof (induction specs arbitrary: s)
  case Nil
  then show ?case by (intro exI [of _ "[]"] exI [of _ "draws s"]) simp
next
  case (Cons x xs)
  from Cons.prems(2) obtain t where t: "seed_rule uuid x s = Inr t" "run_steps (seed_rule uuid) xs t = Inr s'" by auto
  have "\<exists>new n. t = s\<lparr>alert_rules := alert_rules s @ new, draws := n\<rparr>"
  proof (rule seed_rule_cases [OF Cons.prems(1), of x uuid])
    assume "seed_rule uuid x s = Inr s"
    with t show ?thesis by (intro exI [of _ "[]"] exI [of _ "draws s"]) simp
  next
    assume "seed_rule uuid x s = Inr (s\<lparr>alert_rules := alert_rules s @ [x\<lparr>ar_id := uuid (draws s)\<rparr>], draws := draws s + 1\<rparr>)"
    with t(1) show ?thesis by auto
  qed
  then obtain n1 k1 where n1: "t = s\<lparr>alert_rules := alert_rules s @ n1, draws := k1\<rparr>" by blast
  have "codes_ok t" by (rule seeding.keeps_ok [OF Cons.prems(1) t(1)])
  from Cons.IH [OF this t(2)] obtain n2 k2 where "s' = t\<lparr>alert_rules := alert_rules t @ n2, draws := k2\<rparr>" by blast
  then show ?case unfolding n1 by (intro exI [of _ "n1 @ n2"] exI [of _ k2]) simp
qed

lemma seed_total:
  assumes "codes_ok s"
  obtains s' where "seed_default_rules uuid s = Inr s'" "codes_ok s'"
    "set (rule_codes s') = set (rule_codes s) \<union> set (map ar_rule_code default_alert_rules)"
    "\<exists>new n. s' = s\<lparr>alert_rules := alert_rules s @ new, draws := n\<rparr>"
proof -
  obtain s' where s': "seed_default_rules uuid s = Inr s'" "codes_ok s'"
    using seeding.run_total [OF assms] unfolding seed_default_rules_def by blast
  then show thesis
    using that [OF s'] seeding.run_keys [OF assms, of uuid default_alert_rules s']
      seed_steps_frame [OF assms, of uuid default_alert_rules s']
    by (force simp: seed_default_rules_def)
qed

lemma seed_again:
  assumes "codes_ok s" "set (map ar_rule_code default_alert_rules) \<subseteq> set (rule_codes s)"
  shows "seed_default_rules uuid s = Inr s"
proof -
  have "set (map ar_rule_code specs) \<subseteq> set (rule_codes s) \<Longrightarrow> run_steps (seed_rule uuid) specs s = Inr s" for specs
  proof (induction specs)
    case (Cons x xs)
    then show ?case by (rule_tac seed_rule_cases [OF assms(1), of x uuid]) auto
  qed simp
  then show ?thesis using assms(2) by (simp add: seed_default_rules_def)
qed

section \<open>One evaluation\<close>

lemma dict_ok_load: "dict_ok (load_open_alerts s)"
proof -
  have "set (open_keys (load_open_alerts s)) = set (open_keys s)"
    by (simp add: open_keys_def unresolved_def load_open_alerts_def)
  moreover have "dom (map_of (rev (map (\<lambda>a. (alert_key a, a)) (unresolved s)))) = set (open_keys s)"
    by (simp add: dom_map_of_conv_image_fst open_keys_def image_image)
  ultimately show ?thesis by (simp add: dict_ok_def) (simp add: load_open_alerts_def)
qed

lemma open_keys_load [simp]: "open_keys (load_open_alerts s) = open_keys s"
  by (simp add: open_keys_def unresolved_def load_open_alerts_def)

lemma rule_requests_cong:
  assumes "s' = s\<lparr>operational_alerts := a, draws := n, open_alerts := d\<rparr>"
  shows "rule_requests s' = rule_requests s"
proof -
  have v: "vessel_calls s' = vessel_calls s" and dl: "delays s' = delays s" using assms by simp_all
  have c: "call_vcn s' = call_vcn s" by (rule ext) (simp only: call_vcn_def v)
  have j: "joined_delays p s' = joined_delays p s" for p by (simp only: joined_delays_def c dl)
  have "quality_rules s' = quality_rules s" "quality_issues s' = quality_issues s" using assms by simp_all
  then have q: "dq7_issues s' = dq7_issues s" by (simp only: dq7_issues_def c)
  have "bottleneck_requests r s' = bottleneck_requests r s" "outlier_requests r s' = outlier_requests r s" for r
    using assms by (simp_all add: bottleneck_requests_def outlier_requests_def)
  moreover have "missing_reason_requests r s' = missing_reason_requests r s" "dq7_requests r s' = dq7_requests r s"
    "resource_requests r s' = resource_requests r s" "berth_requests r s' = berth_requests r s" for r
    by (simp_all only: missing_reason_requests_def dq7_requests_def resource_requests_def berth_requests_def j q)
  moreover have "active_rules s' = active_rules s" using assms by (simp add: active_rules_def)
  ultimately show ?thesis by (simp only: rule_requests_def)
qed

lemma evaluate_rules_run:
  assumes "codes_ok s"
  obtains s1 s2 new d n where "seed_default_rules uuid s = Inr s1" "codes_ok s1"
    "set (map ar_rule_code default_alert_rules) \<subseteq> set (rule_codes s1)"
    "evaluate_rules uuid now s = Inr (s2, list_alerts None None None None 100 s2)"
    "s2 = s1\<lparr>operational_alerts := operational_alerts s @ new, draws := n, open_alerts := d\<rparr>"
    "list_all (\<lambda>a. al_status a = NEW \<and> al_acknowledged_at a = None \<and> al_resolved_at a = None) new"
    "set (open_keys s2) = set (open_keys s) \<union> request_key ` set (rule_requests s1)"
    "distinct (open_keys s) \<longrightarrow> distinct (open_keys s2)"
    "request_key ` set (rule_requests s1) \<subseteq> set (open_keys s) \<longrightarrow> open_keys s2 = open_keys s"
    "\<exists>r m. s1 = s\<lparr>alert_rules := alert_rules s @ r, draws := m\<rparr>"
proof -
  obtain s1 where s1: "seed_default_rules uuid s = Inr s1" "codes_ok s1"
      "set (rule_codes s1) = set (rule_codes s) \<union> set (map ar_rule_code default_alert_rules)"
      "\<exists>new n. s1 = s\<lparr>alert_rules := alert_rules s @ new, draws := n\<rparr>"
    by (rule seed_total [OF assms])
  have same: "open_keys s1 = open_keys s" "operational_alerts s1 = operational_alerts s"
    using s1(4) by (auto simp: open_keys_def unresolved_def)
  obtain s2 where s2: "run_steps (alert_step uuid now) (rule_requests s1) (load_open_alerts s1) = Inr s2"
    using alerting.run_total [OF dict_ok_load] by blast
  note ok = dict_ok_load [of s1]
  have keys: "set (open_keys s2) = set (open_keys s) \<union> request_key ` set (rule_requests s1)"
    using alerting.run_keys [OF ok s2] same by (simp add: image_def) blast
  have dist: "distinct (open_keys s) \<longrightarrow> distinct (open_keys s2)"
    using alerting.run_distinct [OF ok s2] same by simp
  have no_new: "request_key ` set (rule_requests s1) \<subseteq> set (open_keys s) \<longrightarrow> open_keys s2 = open_keys s"
    using alerting.run_no_new [OF ok s2] unfolding open_keys_load same(1) comp_def option.inject by blast
  from run_alerts_extended [OF ok s2] obtain new n d where
    new: "list_all (\<lambda>a. al_status a = NEW \<and> al_acknowledged_at a = None \<and> al_resolved_at a = None) new" and
    s2': "s2 = (load_open_alerts s1)\<lparr>operational_alerts := operational_alerts (load_open_alerts s1) @ new, draws := n, open_alerts := d\<rparr>"
    unfolding extended_def by blast
  have eq: "s2 = s1\<lparr>operational_alerts := operational_alerts s @ new, draws := n, open_alerts := d\<rparr>"
    unfolding s2' by (simp add: load_open_alerts_def same)
  have ev: "evaluate_rules uuid now s = Inr (s2, list_alerts None None None None 100 s2)"
    using s1(1) s2 by (simp add: evaluate_rules_def)
  show thesis using that [OF s1(1,2) _ ev eq new keys dist no_new s1(4)] s1(3) by blast
qed

text \<open>C40. An evaluation never fails while rule codes are unique. Afterwards there is an unresolved alert
  for every entity some active rule flags, still at most one per rule and entity, no existing alert has
  changed, the new ones are NEW, and evaluating the same data again creates nothing.\<close>

theorem evaluation_deduplicates:
  assumes "distinct (rule_codes s)" "distinct (open_keys s)"
  shows "\<exists>s1 s' out new. seed_default_rules uuid s = Inr s1 \<and> evaluate_rules uuid now s = Inr (s', out) \<and>
     operational_alerts s' = operational_alerts s @ new \<and> list_all (\<lambda>a. al_status a = NEW) new \<and>
     set (open_keys s') = set (open_keys s) \<union> request_key ` set (rule_requests s1) \<and> distinct (open_keys s') \<and>
     (\<exists>s'' out'. evaluate_rules uuid' now' s' = Inr (s'', out') \<and> operational_alerts s'' = operational_alerts s')"
proof -
  have ok: "codes_ok s" using assms(1) by (simp add: codes_ok_def)
  obtain s1 s2 new d n where r1: "seed_default_rules uuid s = Inr s1" "codes_ok s1"
    "set (map ar_rule_code default_alert_rules) \<subseteq> set (rule_codes s1)"
    "evaluate_rules uuid now s = Inr (s2, list_alerts None None None None 100 s2)"
    "s2 = s1\<lparr>operational_alerts := operational_alerts s @ new, draws := n, open_alerts := d\<rparr>"
    "list_all (\<lambda>a. al_status a = NEW \<and> al_acknowledged_at a = None \<and> al_resolved_at a = None) new"
    "set (open_keys s2) = set (open_keys s) \<union> request_key ` set (rule_requests s1)"
    "distinct (open_keys s) \<longrightarrow> distinct (open_keys s2)"
    by (rule evaluate_rules_run [OF ok, of uuid now]) blast
  have codes: "rule_codes s2 = rule_codes s1" using r1(5) by (simp add: rule_codes_def)
  then have ok2: "codes_ok s2" using r1(2) by (simp add: codes_ok_def)
  have sd: "seed_default_rules uuid' s2 = Inr s2" using seed_again [OF ok2] r1(3) codes by simp
  have rq: "rule_requests s2 = rule_requests s1" by (rule rule_requests_cong [OF r1(5)])
  obtain t1 t2 new' d' n' where r2: "seed_default_rules uuid' s2 = Inr t1"
    "evaluate_rules uuid' now' s2 = Inr (t2, list_alerts None None None None 100 t2)"
    "t2 = t1\<lparr>operational_alerts := operational_alerts s2 @ new', draws := n', open_alerts := d'\<rparr>"
    "list_all (\<lambda>a. al_status a = NEW \<and> al_acknowledged_at a = None \<and> al_resolved_at a = None) new'"
    "request_key ` set (rule_requests t1) \<subseteq> set (open_keys s2) \<longrightarrow> open_keys t2 = open_keys s2"
    by (rule evaluate_rules_run [OF ok2, of uuid' now']) blast
  have t1: "t1 = s2" using sd r2(1) by simp
  have "open_keys t2 = open_keys s2" using r2(5) r1(7) unfolding t1 rq by blast
  moreover have "open_keys t2 = open_keys s2 @ map alert_key (filter is_unresolved new')"
    using r2(3) by (simp add: open_keys_def unresolved_def)
  moreover have "filter is_unresolved new' = new'"
    using r2(4) by (intro filter_True) (auto simp: list_all_iff is_unresolved_def)
  ultimately have "new' = []" by simp
  then have "operational_alerts t2 = operational_alerts s2" using r2(3) by simp
  moreover have "list_all (\<lambda>a. al_status a = NEW) new" using r1(6) by (simp add: list_all_iff)
  moreover have "operational_alerts s2 = operational_alerts s @ new" using r1(5) by simp
  moreover have "distinct (open_keys s2)" using r1(8) assms(2) by blast
  ultimately show ?thesis using r1(1,4,7) r2(2) by blast
qed

definition empty_alert_db :: "unit alert_db_scheme" where
  "empty_alert_db = \<lparr>vessel_calls = [], event_occurrences = [], event_definitions = [], service_requests = [],
     service_assignments = [], service_executions = [], delays = [], delay_allocations = [], cargo_operations = [],
     quality_rules = [], quality_issues = [], audit_log = [], draws = 0, match_candidates = [],
     match_evidence_rows = [], merge_decisions = [], alert_rules = [], bottleneck_records = [],
     outlier_records = [], operational_alerts = [], action_items = [], open_alerts = None\<rparr>"

theorem evaluation_deduplicates_witness:
  "\<exists>s' out. evaluate_rules (\<lambda>n. replicate n CHR ''i'') 5 empty_alert_db = Inr (s', out) \<and> distinct (open_keys s')"
  using evaluation_deduplicates [of empty_alert_db "\<lambda>n. replicate n CHR ''i''" 5 "\<lambda>n. replicate n CHR ''j''" 6]
  by (auto simp: empty_alert_db_def rule_codes_def open_keys_def unresolved_def)

section \<open>Acknowledging and resolving\<close>

lemma upd_by_split:
  assumes "distinct (map key rows)" "r \<in> set rows"
  obtains xs ys where "rows = xs @ r # ys" "upd_by key (key r) f rows = xs @ f r # ys"
proof -
  obtain xs ys where rows: "rows = xs @ r # ys" using split_list [OF assms(2)] by blast
  then have "\<forall>x \<in> set xs \<union> set ys. key x \<noteq> key r" using assms(1) by (auto simp: image_iff)
  then have "map (\<lambda>x. if key x = key r then f x else x) xs = xs" "map (\<lambda>x. if key x = key r then f x else x) ys = ys"
    by (auto intro: map_idI)
  then show thesis using that [OF rows] rows by (simp add: upd_by_def)
qed

lemma acknowledge_found:
  assumes "distinct (map al_id (operational_alerts s))" "a \<in> set (operational_alerts s)"
  obtains s' xs ys where "acknowledge_alert now (al_id a) actor s = Inr s'" "operational_alerts s = xs @ a # ys"
    "operational_alerts s' = xs @ a\<lparr>al_status := ACKNOWLEDGED, al_acknowledged_at := Some now,
       al_acknowledged_by := Some actor\<rparr> # ys"
proof -
  obtain r where r: "get_by al_id (al_id a) (operational_alerts s) = Inr r"
    using one_or_none_distinct [OF assms(1)] by (auto simp: get_by_def)
  have "r \<noteq> None" using get_by_NoneD [of al_id "al_id a" "operational_alerts s"] r assms(2) by auto
  then obtain b where b: "r = Some b" by blast
  let ?f = "\<lambda>a. a\<lparr>al_status := ACKNOWLEDGED, al_acknowledged_at := Some now, al_acknowledged_by := Some actor\<rparr>"
  obtain xs ys where xy: "operational_alerts s = xs @ a # ys" "upd_by al_id (al_id a) ?f (operational_alerts s) = xs @ ?f a # ys"
    by (rule upd_by_split [OF assms])
  show thesis
    by (rule that [OF _ xy(1)], simp add: acknowledge_alert_def r b, simp add: xy(2))
qed

text \<open>Acknowledging an alert keeps at most one unresolved alert per rule and entity exactly when
  the alert was unresolved or no other unresolved alert has its key: a resolved alert can be acknowledged
  back into the open ones beside the alert a later evaluation created for the same entity.\<close>

theorem acknowledge_uniqueness:
  assumes "distinct (map al_id (operational_alerts s))" "a \<in> set (operational_alerts s)" "distinct (open_keys s)"
  shows "\<exists>s'. acknowledge_alert now (al_id a) actor s = Inr s' \<and>
     (distinct (open_keys s') \<longleftrightarrow> is_unresolved a \<or> alert_key a \<notin> set (open_keys s))"
proof -
  obtain s' xs ys where s': "acknowledge_alert now (al_id a) actor s = Inr s'" "operational_alerts s = xs @ a # ys"
    "operational_alerts s' = xs @ a\<lparr>al_status := ACKNOWLEDGED, al_acknowledged_at := Some now,
       al_acknowledged_by := Some actor\<rparr> # ys"
    by (rule acknowledge_found [OF assms(1,2)])
  let ?k = "\<lambda>l. map alert_key (filter is_unresolved l)"
  have "alert_key (a\<lparr>al_status := ACKNOWLEDGED, al_acknowledged_at := Some now, al_acknowledged_by := Some actor\<rparr>) = alert_key a"
    "is_unresolved (a\<lparr>al_status := ACKNOWLEDGED, al_acknowledged_at := Some now, al_acknowledged_by := Some actor\<rparr>)"
    by (simp_all add: alert_key_def is_unresolved_def)
  then have 1: "open_keys s' = ?k xs @ alert_key a # ?k ys" by (simp add: open_keys_def unresolved_def s'(3))
  have 2: "open_keys s = ?k xs @ (if is_unresolved a then [alert_key a] else []) @ ?k ys"
    by (simp add: open_keys_def unresolved_def s'(2))
  have "distinct (open_keys s') \<longleftrightarrow> is_unresolved a \<or> alert_key a \<notin> set (open_keys s)"
    using assms(3) unfolding 1 2 by (cases "is_unresolved a") auto
  with s'(1) show ?thesis by blast
qed

text \<open>A resolved alert and the alert that a later evaluation created for the same delay.\<close>

definition demo_request :: alert_request where
  "demo_request = \<lparr>rq_rule = (default_alert_rules ! 0)\<lparr>ar_id := ''r0''\<rparr>, rq_vessel_call_id = Some ''v1'', rq_vcn = Some ''VCN1'',
     rq_title = [], rq_description = [], rq_linked_entity_type = ''canonical.delay'', rq_linked_entity_id = ''d1'',
     rq_evidence = JNull\<rparr>"

definition resolved_then_new :: "unit alert_db_scheme" where
  "resolved_then_new = empty_alert_db\<lparr>operational_alerts :=
     [(new_alert ''a1'' 1 demo_request)\<lparr>al_status := RESOLVED, al_resolved_at := Some 2, al_resolved_by := Some ''op'',
        al_resolution_notes := Some ''done''\<rparr>, new_alert ''a2'' 3 demo_request]\<rparr>"

theorem acknowledge_uniqueness_witness:
  "\<exists>s'. acknowledge_alert 4 ''a1'' ''op'' resolved_then_new = Inr s' \<and> \<not> distinct (open_keys s')"
  using acknowledge_uniqueness [of resolved_then_new "hd (operational_alerts resolved_then_new)" 4 "''op''"]
  by (simp add: resolved_then_new_def new_alert_def open_keys_def unresolved_def is_unresolved_def alert_key_def)

section \<open>The operations as a transition system\<close>

inductive ops_step :: "'a alert_db_scheme \<Rightarrow> 'a alert_db_scheme \<Rightarrow> bool" where
  evaluate: "evaluate_rules uuid now s = Inr (s', out) \<Longrightarrow> ops_step s s'"
| acknowledge: "acknowledge_alert now i actor s = Inr s' \<Longrightarrow> ops_step s s'"
| resolve: "resolve_alert now i notes actor s = Inr s' \<Longrightarrow> ops_step s s'"
| create_action: "ops_step s (create_action_item new_id now title descr assigned due priority alert_id call_id by' s)"
| update_action: "update_action_item now i status comment actor s = Inr s' \<Longrightarrow> ops_step s s'"

inductive ops_run :: "'a alert_db_scheme \<Rightarrow> 'a alert_db_scheme \<Rightarrow> bool" for s0 where
  start: "ops_run s0 s0"
| next_op: "ops_run s0 s \<Longrightarrow> ops_step s s' \<Longrightarrow> ops_run s0 s'"

definition lifecycle_ok :: "operational_alert \<Rightarrow> bool" where
  "lifecycle_ok a = (case al_status a of
      NEW \<Rightarrow> al_acknowledged_at a = None \<and> al_resolved_at a = None
    | ACKNOWLEDGED \<Rightarrow> al_acknowledged_at a \<noteq> None \<and> al_acknowledged_by a \<noteq> None
    | RESOLVED \<Rightarrow> al_resolved_at a \<noteq> None \<and> al_resolved_by a \<noteq> None \<and> al_resolution_notes a \<noteq> None
    | SUPPRESSED \<Rightarrow> False)"

definition ops_inv :: "'a alert_db_scheme \<Rightarrow> bool" where
  "ops_inv s \<longleftrightarrow> distinct (rule_codes s) \<and> list_all lifecycle_ok (operational_alerts s)"

text \<open>What every operation keeps: the invariant, every identifier and every audit row.\<close>

definition grows :: "'a alert_db_scheme \<Rightarrow> 'a alert_db_scheme \<Rightarrow> bool" where
  "grows s s' \<longleftrightarrow> (\<exists>xs. map al_id (operational_alerts s') = map al_id (operational_alerts s) @ xs) \<and>
     (\<exists>xs. map ai_id (action_items s') = map ai_id (action_items s) @ xs) \<and>
     (\<exists>xs. audit_log s' = audit_log s @ xs)"

lemma grows_trans: "grows s t \<Longrightarrow> grows t u \<Longrightarrow> grows s u"
  unfolding grows_def by (metis append_assoc)

lemma list_all_upd_by: "list_all P rows \<Longrightarrow> (\<And>r. P r \<Longrightarrow> P (f r)) \<Longrightarrow> list_all P (upd_by key k f rows)"
  by (auto simp: upd_by_def list_all_iff)

lemma acknowledge_step:
  assumes "acknowledge_alert now i actor s = Inr s'"
  shows "alert_rules s' = alert_rules s" "action_items s' = action_items s" "\<exists>xs. audit_log s' = audit_log s @ xs"
    "operational_alerts s' = upd_by al_id i (\<lambda>a. a\<lparr>al_status := ACKNOWLEDGED, al_acknowledged_at := Some now,
       al_acknowledged_by := Some actor\<rparr>) (operational_alerts s)"
  using assms by (auto simp: acknowledge_alert_def and_then_Inr_iff split: option.splits)

lemma resolve_step:
  assumes "resolve_alert now i notes actor s = Inr s'"
  shows "alert_rules s' = alert_rules s" "action_items s' = action_items s" "\<exists>xs. audit_log s' = audit_log s @ xs"
    "operational_alerts s' = upd_by al_id i (\<lambda>a. a\<lparr>al_status := RESOLVED, al_resolved_at := Some now,
       al_resolved_by := Some actor, al_resolution_notes := Some notes\<rparr>) (operational_alerts s)"
  using assms by (auto simp: resolve_alert_def and_then_Inr_iff split: option.splits)

lemma update_action_step:
  assumes "update_action_item now i status comment actor s = Inr s'"
  shows "alert_rules s' = alert_rules s" "operational_alerts s' = operational_alerts s"
    "\<exists>xs. audit_log s' = audit_log s @ xs"
    "action_items s' = upd_by ai_id i (update_item now status comment actor) (action_items s)"
  using assms by (auto simp: update_action_item_def and_then_Inr_iff split: option.splits)

lemma ops_step_inv: "ops_step s s' \<Longrightarrow> ops_inv s \<Longrightarrow> ops_inv s' \<and> grows s s'"
proof (induction rule: ops_step.induct)
  case (evaluate uuid now s s' out)
  have ok: "codes_ok s" using evaluate(2) by (simp add: ops_inv_def codes_ok_def)
  obtain s1 s2 new d n where r: "codes_ok s1" "evaluate_rules uuid now s = Inr (s2, list_alerts None None None None 100 s2)"
    "s2 = s1\<lparr>operational_alerts := operational_alerts s @ new, draws := n, open_alerts := d\<rparr>"
    "list_all (\<lambda>a. al_status a = NEW \<and> al_acknowledged_at a = None \<and> al_resolved_at a = None) new"
    "\<exists>r m. s1 = s\<lparr>alert_rules := alert_rules s @ r, draws := m\<rparr>"
    by (rule evaluate_rules_run [OF ok, of uuid now], rule that; assumption)
  have "s' = s2" using r(2) evaluate(1) by simp
  moreover have "list_all lifecycle_ok new" using r(4) by (simp add: list_all_iff lifecycle_ok_def)
  moreover have "operational_alerts s2 = operational_alerts s @ new" "rule_codes s2 = rule_codes s1"
    using r(3) by (simp_all add: rule_codes_def)
  moreover have "action_items s2 = action_items s" "audit_log s2 = audit_log s" using r(3,5) by auto
  moreover have "distinct (rule_codes s1)" using r(1) by (simp add: codes_ok_def)
  ultimately show ?case using evaluate(2) by (simp add: ops_inv_def grows_def)
next
  case (acknowledge now i actor s s')
  then show ?case
    using acknowledge_step [OF acknowledge(1)] by (simp add: ops_inv_def grows_def rule_codes_def map_upd_by_key lifecycle_ok_def list_all_upd_by)
next
  case (resolve now i remark actor s s')
  then show ?case
    using resolve_step [OF resolve(1)] by (simp add: ops_inv_def grows_def rule_codes_def map_upd_by_key lifecycle_ok_def list_all_upd_by)
next
  case create_action
  then show ?case by (simp add: create_action_item_def ops_inv_def grows_def rule_codes_def)
next
  case (update_action now i status comment actor s s')
  have "ai_id (update_item now status comment actor a) = ai_id a" for a
    by (simp add: update_item_def Let_def split: option.splits list.splits)
  then have "map ai_id (upd_by ai_id i (update_item now status comment actor) (action_items s)) = map ai_id (action_items s)"
    by (rule map_upd_by_key)
  with update_action show ?case
    using update_action_step [OF update_action(1)] by (simp add: ops_inv_def grows_def rule_codes_def)
qed

text \<open>In every state the operations reach from a good one, every alert's stamps agree with its
  status (new alerts carry none, acknowledged and resolved ones carry who and when, resolved ones the notes),
  rule codes stay unique, and no alert, action item or audit row has been removed.\<close>

theorem alert_lifecycle:
  assumes "ops_run s0 s" "ops_inv s0"
  shows "ops_inv s \<and> grows s0 s"
  using assms
proof (induction rule: ops_run.induct)
  case start
  then show ?case by (simp add: grows_def)
next
  case (next_op s s')
  then show ?case using ops_step_inv grows_trans by blast
qed

theorem alert_lifecycle_witness:
  "list_all lifecycle_ok (operational_alerts
     (create_action_item ''i1'' 5 ''Check'' ''text'' None None ''HIGH'' (Some ''a1'') None ''op'' resolved_then_new))"
  using alert_lifecycle [OF ops_run.next_op [OF ops_run.start ops_step.create_action
      [of resolved_then_new "''i1''" 5 "''Check''" "''text''" None None "''HIGH''" "Some ''a1''" None "''op''"]]]
  by (simp add: ops_inv_def resolved_then_new_def empty_alert_db_def rule_codes_def lifecycle_ok_def new_alert_def)

end
