(* ===== verification/Criticality.thy ===== *)
theory Criticality
  imports Stats
begin

text \<open>
  \<open>apps/api/services/criticality/engine.py\<close>: three component scores from one to five, their mean
  (or a weighted mean), and the criticality band, for one stage and for all governed lead times.
\<close>

section \<open>Bands\<close>

datatype crit_band = LOW | MODERATE | HIGH | CRITICAL

fun band_level :: "crit_band \<Rightarrow> nat" where
  "band_level LOW = 0" | "band_level MODERATE = 1" | "band_level HIGH = 2" | "band_level CRITICAL = 3"

instantiation crit_band :: linorder
begin

definition "a \<le> b \<longleftrightarrow> band_level a \<le> band_level b" for a b :: crit_band
definition "a < b \<longleftrightarrow> band_level a < band_level b" for a b :: crit_band

instance
proof
  fix a b c :: crit_band
  show "a < b \<longleftrightarrow> a \<le> b \<and> \<not> b \<le> a" by (auto simp: less_eq_crit_band_def less_crit_band_def)
  show "a \<le> a" by (simp add: less_eq_crit_band_def)
  show "a \<le> b \<Longrightarrow> b \<le> c \<Longrightarrow> a \<le> c" by (simp add: less_eq_crit_band_def)
  show "a \<le> b \<Longrightarrow> b \<le> a \<Longrightarrow> a = b" by (cases a; cases b) (simp_all add: less_eq_crit_band_def)
  show "a \<le> b \<or> b \<le> a" by (auto simp: less_eq_crit_band_def)
qed

end

section \<open>Scores\<close>

record crit_scores =
  cs_duration_score :: rat
  cs_variability_score :: rat
  cs_tail_risk_score :: rat
  cs_overall_score :: rat
  cs_band :: crit_band
  cs_duration_hours :: rat
  cs_cv :: rat
  cs_tail_risk_ratio :: rat

definition duration_score :: "rat \<Rightarrow> rat" where
  "duration_score d = (if d < 2 then 1 else if d < 6 then 2 else if d < 18 then 3 else if d < 36 then 4 else 5)"

definition variability_score :: "rat \<Rightarrow> rat" where
  "variability_score cv =
     (if cv < fl (20 / 100) then 1 else if cv < fl (50 / 100) then 2 else if cv < fl (80 / 100) then 3
      else if cv < fl (120 / 100) then 4 else 5)"

definition tail_score :: "rat \<Rightarrow> rat" where
  "tail_score t =
     (if t < fl (130 / 100) then 1 else if t < fl (180 / 100) then 2 else if t < fl (250 / 100) then 3
      else if t < fl (350 / 100) then 4 else 5)"

text \<open>The governed weights; \<open>None\<close> (or an empty dict) means the arithmetic mean. A total weight of
  zero raises.\<close>

definition third :: rat where "third = fdiv 1 3"

definition overall_score :: "(string \<times> rat) list option \<Rightarrow> rat \<Rightarrow> rat \<Rightarrow> rat \<Rightarrow> rat result" where
  "overall_score weights dur var tail =
     (case weights of
        Some (w # ws) \<Rightarrow>
          (let get = (\<lambda>k. case map_of (w # ws) k of Some x \<Rightarrow> x | None \<Rightarrow> third);
               w_dur = get ''duration''; w_var = get ''variability''; w_tail = get ''tail_risk'';
               tot_w = fadd (fadd w_dur w_var) w_tail
           in if tot_w = 0 then Inl ZeroDivisionError
              else Inr (fdiv (fadd (fadd (fmul w_dur dur) (fmul w_var var)) (fmul w_tail tail)) tot_w))
      | _ \<Rightarrow> Inr (fdiv (fadd (fadd dur var) tail) 3))"

definition band_of :: "rat \<Rightarrow> crit_band" where
  "band_of overall = (if overall < 2 then LOW else if overall < 3 then MODERATE else if overall < 4 then HIGH else CRITICAL)"

definition compute_component_scores ::
    "rat \<Rightarrow> rat \<Rightarrow> rat \<Rightarrow> (string \<times> rat) list option \<Rightarrow> crit_scores result" where
  "compute_component_scores duration_hours cv tail_risk_ratio weights =
     (let dur = duration_score duration_hours; var = variability_score cv; tail = tail_score tail_risk_ratio
      in and_then (overall_score weights dur var tail) (\<lambda>o'.
         let overall = fround 2 o'
         in Inr \<lparr>cs_duration_score = dur, cs_variability_score = var, cs_tail_risk_score = tail,
              cs_overall_score = overall, cs_band = band_of overall,
              cs_duration_hours = fround 2 duration_hours, cs_cv = fround 3 cv,
              cs_tail_risk_ratio = fround 2 tail_risk_ratio\<rparr>))"

section \<open>All stages\<close>

record stage_criticality =
  sc_stage_name :: string
  sc_definition_id :: uid
  sc_scores :: crit_scores
  sc_observations :: nat
  sc_mean_hours :: rat
  sc_median_hours :: rat
  sc_p90_hours :: rat
  sc_cv :: rat
  sc_tail_risk_ratio :: rat

definition evaluate_stage :: "lead_time_definition \<Rightarrow> rat list \<Rightarrow> stage_criticality result" where
  "evaluate_stage defn results =
     (let n = length results; mean_val = fmean results; med_val = upper_median results; p90_val = p90 results;
          std_val = fsqrt (sample_variance results mean_val);
          cv = (if 0 < mean_val then fdiv std_val mean_val else 0);
          trr = (if fl (1 / 10000) < med_val then fdiv p90_val med_val else 1)
      in and_then (compute_component_scores mean_val cv trr None) (\<lambda>crit.
         Inr \<lparr>sc_stage_name = ld_name defn, sc_definition_id = ld_id defn, sc_scores = crit,
              sc_observations = n, sc_mean_hours = fround 2 mean_val, sc_median_hours = fround 2 med_val,
              sc_p90_hours = fround 2 p90_val, sc_cv = fround 3 cv, sc_tail_risk_ratio = fround 2 trr\<rparr>))"

fun evaluate_stages :: "lead_time_result list \<Rightarrow> lead_time_definition list \<Rightarrow> stage_criticality list result" where
  "evaluate_stages rs [] = Inr []"
| "evaluate_stages rs (d # ds) =
     (let results = available_hours (\<lambda>r. lt_definition_id r = ld_id d) rs
      in if results = [] then evaluate_stages rs ds
         else and_then (evaluate_stage d results) (\<lambda>e.
              and_then (evaluate_stages rs ds) (\<lambda>es. Inr (e # es))))"

definition evaluate_all_stages :: "lead_time_definition list \<Rightarrow> lead_time_result list \<Rightarrow> stage_criticality list result" where
  "evaluate_all_stages defs rs =
     and_then (evaluate_stages rs defs) (\<lambda>es. Inr (sorted_by_desc (\<lambda>e. cs_overall_score (sc_scores e)) es))"

section \<open>Correctness\<close>

lemma cut_points:
  "fl (20 / 100) < fl (50 / 100)" "fl (50 / 100) < fl (80 / 100)" "fl (80 / 100) < fl (120 / 100)"
  "fl (130 / 100) < fl (180 / 100)" "fl (180 / 100) < fl (250 / 100)" "fl (250 / 100) < fl (350 / 100)"
  by code_simp+

lemma duration_score_mono: "d \<le> d' \<Longrightarrow> duration_score d \<le> duration_score d'"
  by (simp add: duration_score_def)

lemma variability_score_mono: "d \<le> d' \<Longrightarrow> variability_score d \<le> variability_score d'"
  using cut_points(1-3) by (simp add: variability_score_def)

lemma tail_score_mono: "d \<le> d' \<Longrightarrow> tail_score d \<le> tail_score d'"
  using cut_points(4-6) by (simp add: tail_score_def)

lemma score_range:
  "duration_score d \<in> {1, 2, 3, 4, 5}" "variability_score d \<in> {1, 2, 3, 4, 5}" "tail_score d \<in> {1, 2, 3, 4, 5}"
  by (simp_all add: duration_score_def variability_score_def tail_score_def)

lemma band_of_mono: "x \<le> y \<Longrightarrow> band_of x \<le> band_of y"
  by (simp add: band_of_def less_eq_crit_band_def)

definition mean_score :: "rat \<Rightarrow> rat \<Rightarrow> rat \<Rightarrow> rat" where
  "mean_score a b c = fround 2 (fdiv (fadd (fadd a b) c) 3)"

lemma mean_score_mono: "a \<le> a' \<Longrightarrow> b \<le> b' \<Longrightarrow> c \<le> c' \<Longrightarrow> mean_score a b c \<le> mean_score a' b' c'"
  unfolding mean_score_def fdiv_def fadd_def
  by (intro frd.mono fl_mono divide_right_mono add_mono) simp_all

lemma mean_score_bounds:
  "mean_score 1 1 1 = 1" "mean_score 5 5 5 = 5"
  by code_simp+

lemma compute_scores_default:
  "compute_component_scores d cv t None =
     Inr \<lparr>cs_duration_score = duration_score d, cs_variability_score = variability_score cv,
          cs_tail_risk_score = tail_score t,
          cs_overall_score = mean_score (duration_score d) (variability_score cv) (tail_score t),
          cs_band = band_of (mean_score (duration_score d) (variability_score cv) (tail_score t)),
          cs_duration_hours = fround 2 d, cs_cv = fround 3 cv, cs_tail_risk_ratio = fround 2 t\<rparr>"
  by (simp add: compute_component_scores_def overall_score_def mean_score_def Let_def)

lemma mean_score_range: "1 \<le> mean_score (duration_score d) (variability_score cv) (tail_score t)"
    "mean_score (duration_score d) (variability_score cv) (tail_score t) \<le> 5"
  using mean_score_mono [of 1 "duration_score d" 1 "variability_score cv" 1 "tail_score t"]
    mean_score_mono [of "duration_score d" 5 "variability_score cv" 5 "tail_score t" 5]
    score_range(1) [of d] score_range(2) [of cv] score_range(3) [of t]
  by (auto simp: mean_score_bounds)

section \<open>Properties\<close>

text \<open>Criticality is monotone: a longer, more variable stage with a heavier tail never gets a
  lower component score, overall score or band; without governed weights the overall score stays
  between one and five, and the computation never fails.\<close>

theorem criticality_monotone:
  assumes "d \<le> d'" "cv \<le> cv'" "t \<le> t'"
  shows "\<exists>r r'. compute_component_scores d cv t None = Inr r \<and> compute_component_scores d' cv' t' None = Inr r' \<and>
     cs_duration_score r \<le> cs_duration_score r' \<and> cs_variability_score r \<le> cs_variability_score r' \<and>
     cs_tail_risk_score r \<le> cs_tail_risk_score r' \<and> cs_overall_score r \<le> cs_overall_score r' \<and>
     cs_band r \<le> cs_band r' \<and> 1 \<le> cs_overall_score r \<and> cs_overall_score r' \<le> 5"
  using assms by (simp add: compute_scores_default duration_score_mono variability_score_mono tail_score_mono
      mean_score_mono band_of_mono mean_score_range)

theorem criticality_monotone_witness:
  "\<exists>r r'. compute_component_scores 3 0 1 None = Inr r \<and> compute_component_scores 40 2 4 None = Inr r' \<and>
     cs_band r \<le> cs_band r'"
  using criticality_monotone [of 3 40 0 2 1 4] by auto

text \<open>The stages are listed by overall score, highest first, one per definition that has at least
  one available result, and the listing never fails.\<close>

theorem all_stages_listed:
  "\<exists>es. evaluate_all_stages defs rs = Inr es \<and>
     sorted_wrt (\<lambda>a b. cs_overall_score (sc_scores b) \<le> cs_overall_score (sc_scores a)) es \<and>
     mset (map sc_definition_id es) = mset (map ld_id
       (filter (\<lambda>d. available_hours (\<lambda>r. lt_definition_id r = ld_id d) rs \<noteq> []) defs))"
proof -
  have "\<exists>es. evaluate_stages rs defs = Inr es \<and> map sc_definition_id es = map ld_id
       (filter (\<lambda>d. available_hours (\<lambda>r. lt_definition_id r = ld_id d) rs \<noteq> []) defs)"
    by (induction defs) (auto simp: evaluate_stage_def compute_scores_default Let_def)
  then obtain es where "evaluate_stages rs defs = Inr es" "map sc_definition_id es = map ld_id
       (filter (\<lambda>d. available_hours (\<lambda>r. lt_definition_id r = ld_id d) rs \<noteq> []) defs)" by blast
  then show ?thesis
    by (auto simp: evaluate_all_stages_def sorted_by_desc_sorted simp flip: mset_map)
      (metis mset_map mset_sorted_by_desc)
qed

end
