(* ===== verification/Quality.thy ===== *)
theory Quality
  imports IdentityEngine
begin

text \<open>
  \<open>apps/api/services/quality/engine.py\<close>: the deterministic data-quality rules. The engine loads the rules
  and the open issues into dictionaries, evaluates every vessel call and every staged source row, and
  creates an issue for each finding that has none, quarantining the event of a critical one.
  The date parser of \<open>dateutil\<close> is the parameter \<open>parse\<close>; the YAML files are arguments.
\<close>

section \<open>Staged source rows\<close>

text \<open>\<open>raw.staging.record\<close> (\<open>apps/api/models/ingestion.py\<close>): the cells of a row are strings by their
  canonical column.\<close>

record staging_record =
  st_id :: uid
  st_file_checksum :: string
  st_ingestion_batch_id :: string
  st_canonical_table :: string
  st_source_file_id :: "string option"
  st_worksheet_name :: string
  st_row_number :: nat
  st_parsed_data :: "(string \<times> string) list"
  st_validation_status :: string
  st_errors :: "(string \<times> fstring list) list"
  st_source_record_id :: string

definition pd_get :: "staging_record \<Rightarrow> string \<Rightarrow> string option" where
  "pd_get r k = map_of (st_parsed_data r) k"

text \<open>The result of \<open>dateutil.parser.parse\<close>; comparing a naive with an aware one raises \<open>TypeError\<close>.\<close>

datatype py_datetime = Naive time | Aware time

fun datetime_less :: "py_datetime \<Rightarrow> py_datetime \<Rightarrow> bool option" where
  "datetime_less (Naive a) (Naive b) = Some (a < b)"
| "datetime_less (Aware a) (Aware b) = Some (a < b)"
| "datetime_less _ _ = None"

section \<open>The engine's session\<close>

text \<open>\<open>self.rules\<close> and \<open>self._open_issues\<close>.\<close>

record quality_session =
  qs_rules :: "string \<rightharpoonup> quality_rule"
  qs_open :: "uid \<times> string \<rightharpoonup> quality_issue"

record rule_spec =
  rs_scope :: string
  rs_severity :: string
  rs_expression :: string
  rs_remediation :: string

definition spec :: "string \<Rightarrow> string \<Rightarrow> string \<Rightarrow> string \<Rightarrow> rule_spec" where
  "spec a b c d = \<lparr>rs_scope = a, rs_severity = b, rs_expression = c, rs_remediation = d\<rparr>"

definition rule_specs :: "(string \<times> rule_spec) list" where
  "rule_specs =
    [(''DQ-003'', spec ''vessel_call'' ''HIGH'' ''ATA is required'' ''Provide the actual arrival time.''),
     (''DQ-004'', spec ''vessel_call'' ''HIGH'' ''ETA must not be after ATA'' ''Verify the ETA/ATA source timestamps.''),
     (''DQ-005'', spec ''service_request'' ''HIGH'' ''Pilot request requires a scheduled time'' ''Provide the missing schedule.''),
     (''DQ-006'', spec ''event_occurrence'' ''CRITICAL'' ''Anchorage arrival must precede arrival pilot boarding''
        ''Review the source chronology.''),
     (''DQ-007'', spec ''delay'' ''MEDIUM'' ''Late service requires a recorded delay reason'' ''Provide a governed delay reason.''),
     (''DQ-010'', spec ''event_occurrence'' ''HIGH'' ''Conflicting source timestamps exceed the governed tolerance''
        ''Resolve the conflicting observations.''),
     (''DQ-SERVICE-REQUEST-MISSING'', spec ''service_request'' ''HIGH'' ''Requested service time is required''
        ''Provide Requested_Time; do not substitute a value.''),
     (''DQ-SERVICE-SCHEDULE-MISSING'', spec ''service_assignment'' ''HIGH'' ''Scheduled service time is required''
        ''Provide Scheduled_Time; do not infer it.''),
     (''DQ-SERVICE-SERVED-MISSING'', spec ''service_execution'' ''HIGH'' ''Actual/served service time is required''
        ''Provide Served_Time; do not infer it.''),
     (''DQ-SERVICE-SCHEDULE-BEFORE-REQUEST'', spec ''service_assignment'' ''HIGH'' ''Requested Time <= Scheduled Time''
        ''Correct the source chronology without swapping timestamps.''),
     (''DQ-INVALID-TIMESTAMP'', spec ''staging_record'' ''HIGH'' ''Timestamp must be parseable with its declared timezone''
        ''Correct the source value; raw evidence remains unchanged.''),
     (''DQ-MISSING-MANDATORY-FIELD'', spec ''staging_record'' ''HIGH'' ''Mandatory source field is blank''
        ''Provide the required source value.''),
     (''DQ-DUPLICATE-ROW'', spec ''staging_record'' ''MEDIUM'' ''Exact duplicate row in dataset group''
        ''Confirm the duplicate or exclude it from analysis.''),
     (''DQ-SEQUENCE-VIOLATION'', spec ''event_occurrence'' ''CRITICAL'' ''A configured DAG dependency has negative ordered duration''
        ''Review the ordered event pair; parallel activities are not evaluated by this rule.''),
     (''DQ-SERVICE-DURATION-NEGATIVE'', spec ''service_execution'' ''HIGH'' ''Service end must not precede service start''
        ''Correct the ordered service timestamps.'')]"

text \<open>A rule of \<open>config/quality_rules.yaml\<close>.\<close>

record configured_rule =
  cr_id :: "string option"
  cr_scope :: "string option"
  cr_severity :: "string option"
  cr_expression :: "string option"
  cr_remediation :: "string option"

definition or_default :: "string \<Rightarrow> string option \<Rightarrow> string" where
  "or_default d x = (case x of Some s \<Rightarrow> s | None \<Rightarrow> d)"

definition new_rule :: "uid \<Rightarrow> string \<Rightarrow> configured_rule \<Rightarrow> quality_rule" where
  "new_rule i n c = \<lparr>qr_id = i, qr_rule_id = n, qr_scope = or_default ''staging_record'' (cr_scope c),
     qr_severity = or_default ''HIGH'' (cr_severity c), qr_pass_fail_expression = or_default n (cr_expression c),
     qr_remediation_guidance = cr_remediation c\<rparr>"

definition add_rule :: "(nat \<Rightarrow> uid) \<Rightarrow> string set \<Rightarrow> 'a canon_db_scheme \<Rightarrow> configured_rule \<Rightarrow> 'a canon_db_scheme" where
  "add_rule uuid existing t c = (case cr_id c of
     Some (ch # cs) \<Rightarrow> if (ch # cs) \<in> existing then t
       else t\<lparr>quality_rules := quality_rules t @ [new_rule (uuid (draws t)) (ch # cs) c], draws := draws t + 1\<rparr>
   | _ \<Rightarrow> t)"

definition ensure_configured_rules :: "(nat \<Rightarrow> uid) \<Rightarrow> configured_rule list \<Rightarrow> 'a canon_db_scheme \<Rightarrow> 'a canon_db_scheme" where
  "ensure_configured_rules uuid cfg s =
     (let existing = qr_rule_id ` set (quality_rules s) in foldl (add_rule uuid existing) s cfg)"

definition open_issue :: "quality_issue \<Rightarrow> bool" where
  "open_issue i \<longleftrightarrow> qi_issue_status i \<noteq> ISSUE_RESOLVED"

definition load_session :: "'a canon_db_scheme \<Rightarrow> quality_session" where
  "load_session s =
     \<lparr>qs_rules = map_of (rev (map (\<lambda>r. (qr_rule_id r, r)) (quality_rules s))),
      qs_open = map_of (rev (map (\<lambda>i. ((qi_rule_id i, qi_record_reference i), i)) (filter open_issue (quality_issues s))))\<rparr>"

definition init_engine :: "(nat \<Rightarrow> uid) \<Rightarrow> configured_rule list \<Rightarrow> 'a canon_db_scheme \<Rightarrow> 'a canon_db_scheme \<times> quality_session" where
  "init_engine uuid cfg s = (let t = ensure_configured_rules uuid cfg s in (t, load_session t))"

section \<open>Creating an issue\<close>

record finding =
  fi_rule_id :: string
  fi_vessel_call_id :: "uid option"
  fi_ref :: string
  fi_severity :: string

definition finding_of :: "string \<Rightarrow> uid option \<Rightarrow> string \<Rightarrow> string \<Rightarrow> finding" where
  "finding_of rule vc ref sev = \<lparr>fi_rule_id = rule, fi_vessel_call_id = vc, fi_ref = ref, fi_severity = sev\<rparr>"

definition rule_from_spec :: "uid \<Rightarrow> finding \<Rightarrow> quality_rule" where
  "rule_from_spec i f =
     (let sp = (case map_of rule_specs (fi_rule_id f) of Some x \<Rightarrow> x
        | None \<Rightarrow> spec ''vessel_call'' (fi_severity f) (fi_rule_id f) ''Review the governed source record.'')
      in \<lparr>qr_id = i, qr_rule_id = fi_rule_id f, qr_scope = rs_scope sp, qr_severity = fi_severity f,
          qr_pass_fail_expression = rs_expression sp, qr_remediation_guidance = Some (rs_remediation sp)\<rparr>)"

definition find_rule ::
    "(nat \<Rightarrow> uid) \<Rightarrow> finding \<Rightarrow> 'a canon_db_scheme \<times> quality_session \<Rightarrow> quality_rule \<times> 'a canon_db_scheme \<times> quality_session" where
  "find_rule uuid f st = (case st of (s, q) \<Rightarrow>
     (case qs_rules q (fi_rule_id f) of
        Some r \<Rightarrow> (r, s, q)
      | None \<Rightarrow> let r = rule_from_spec (uuid (draws s)) f
          in (r, s\<lparr>quality_rules := quality_rules s @ [r], draws := draws s + 1\<rparr>,
              q\<lparr>qs_rules := (qs_rules q)(fi_rule_id f \<mapsto> r)\<rparr>)))"

text \<open>\<open>ref.split(":")[1]\<close>, the event of an event reference.\<close>

definition ref_event :: "string \<Rightarrow> uid option" where
  "ref_event ref = (if py_startswith ''EventOccurrence:'' ref
     then Some (takeWhile (\<lambda>c. c \<noteq> CHR '':'') (drop 16 ref)) else None)"

definition quarantine :: "uid \<Rightarrow> event_occurrence list \<Rightarrow> event_occurrence list" where
  "quarantine i evs = upd_by eo_id i (\<lambda>e. e\<lparr>eo_is_quarantined := True\<rparr>) evs"

definition create_issue ::
    "(nat \<Rightarrow> uid) \<Rightarrow> finding \<Rightarrow> 'a canon_db_scheme \<times> quality_session \<Rightarrow> 'a canon_db_scheme \<times> quality_session" where
  "create_issue uuid f st =
     (case find_rule uuid f st of (rule, s, q) \<Rightarrow>
       (case qs_open q (qr_id rule, fi_ref f) of
          Some _ \<Rightarrow> (s, q)
        | None \<Rightarrow>
            let i = \<lparr>qi_id = uuid (draws s), qi_rule_id = qr_id rule, qi_vessel_call_id = fi_vessel_call_id f,
                     qi_record_reference = fi_ref f, qi_issue_status = ISSUE_OPEN\<rparr>
            in (s\<lparr>quality_issues := quality_issues s @ [i], draws := draws s + 1,
                  event_occurrences := (if fi_severity f = ''CRITICAL''
                    then (case ref_event (fi_ref f) of Some e \<Rightarrow> quarantine e (event_occurrences s) | None \<Rightarrow> event_occurrences s)
                    else event_occurrences s)\<rparr>,
                q\<lparr>qs_open := (qs_open q)((qr_id rule, fi_ref f) \<mapsto> i)\<rparr>)))"

section \<open>The rules on staged rows\<close>

definition is_blank :: "string option \<Rightarrow> bool" where
  "is_blank v = (case v of None \<Rightarrow> True | Some s \<Rightarrow> py_strip s = '''')"

definition required_fields :: "(string \<times> string list) list" where
  "required_fields = [(''vessel_call'', [''VCN'', ''Vessel_Name'']),
     (''event_occurrence'', [''VCN'', ''Event_Name'', ''Event_Timestamp'']), (''service_request'', [''VCN'', ''Service_Type''])]"

definition timestamp_fields :: "(string \<times> string list) list" where
  "timestamp_fields = [(''vessel_call'', [''ETA'', ''ATA'', ''ETD'', ''ATD'']), (''event_occurrence'', [''Event_Timestamp'']),
     (''service_request'', [''Submission_Time'', ''Requested_Time'', ''Scheduled_Time'', ''Served_Time'']),
     (''delay'', [''Scheduled_Time'', ''Served_Time'']), (''cargo_ops'', [''Cargo_Start'', ''Cargo_End''])]"

definition fields_of :: "(string \<times> string list) list \<Rightarrow> staging_record \<Rightarrow> string list" where
  "fields_of table r = (case map_of table (st_canonical_table r) of Some fs \<Rightarrow> fs | None \<Rightarrow> [])"

definition staging_findings :: "(string \<Rightarrow> py_datetime option) \<Rightarrow> staging_record \<Rightarrow> finding list" where
  "staging_findings parse r =
     (let ref = ''StagingRecord:'' @ st_id r
      in (if list_ex (\<lambda>f. is_blank (pd_get r f)) (fields_of required_fields r)
          then [finding_of ''DQ-MISSING-MANDATORY-FIELD'' None ref ''HIGH''] else []) @
         (if st_validation_status r = ''DUPLICATE'' then [finding_of ''DQ-DUPLICATE-ROW'' None ref ''MEDIUM''] else []) @
         (if list_ex (\<lambda>f. \<not> is_blank (pd_get r f) \<and> parse (or_empty (pd_get r f)) = None) (fields_of timestamp_fields r)
          then [finding_of ''DQ-INVALID-TIMESTAMP'' None ref ''HIGH''] else []))"

section \<open>The rules on a vessel call\<close>

text \<open>The dictionaries built by comprehension keep the last row of a key.\<close>

definition last_by :: "('a \<Rightarrow> 'k) \<Rightarrow> 'k \<Rightarrow> 'a list \<Rightarrow> 'a option" where
  "last_by key k rows = (case rev (filter (\<lambda>r. key r = k) rows) of [] \<Rightarrow> None | r # _ \<Rightarrow> Some r)"

definition event_name :: "event_definition list \<Rightarrow> event_occurrence \<Rightarrow> string option" where
  "event_name defs e = map_option ed_name (last_by ed_id (eo_event_definition_id e) defs)"

definition events_named :: "'a canon_db_scheme \<Rightarrow> vessel_call \<Rightarrow> string option \<Rightarrow> event_occurrence list" where
  "events_named s vc n = filter (\<lambda>e. eo_vessel_call_id e = vc_id vc \<and> event_name (event_definitions s) e = n) (event_occurrences s)"

definition call_staging :: "string option \<Rightarrow> staging_record list \<Rightarrow> vessel_call \<Rightarrow> staging_record option" where
  "call_staging batch rows vc = (case vc_vcn vc of
      Some (c # cs) \<Rightarrow> last_by (\<lambda>r. pd_get r ''VCN'') (Some (c # cs))
        (filter (\<lambda>r. st_canonical_table r = ''vessel_call'' \<and>
           (case batch of Some (b # bs) \<Rightarrow> st_ingestion_batch_id r = b # bs | _ \<Rightarrow> True)) rows)
    | _ \<Rightarrow> None)"

definition vessel_ref :: "vessel_call \<Rightarrow> string" where "vessel_ref vc = ''VesselCall:'' @ vc_id vc"
definition event_ref :: "event_occurrence \<Rightarrow> string" where "event_ref e = ''EventOccurrence:'' @ eo_id e"

definition staged_arrival_findings :: "(string \<Rightarrow> py_datetime option) \<Rightarrow> vessel_call \<Rightarrow> staging_record option \<Rightarrow> finding list" where
  "staged_arrival_findings parse vc st =
     (case st of None \<Rightarrow> []
      | Some r \<Rightarrow>
          (if is_blank (pd_get r ''ATA'') then [finding_of ''DQ-003'' (Some (vc_id vc)) (vessel_ref vc) ''HIGH''] else []) @
          (case (pd_get r ''ETA'', pd_get r ''ATA'') of
             (Some (e # es), Some (a # as)) \<Rightarrow>
               (case (parse (e # es), parse (a # as)) of
                  (Some eta, Some ata) \<Rightarrow> if datetime_less ata eta = Some True
                    then [finding_of ''DQ-004'' (Some (vc_id vc)) (vessel_ref vc) ''HIGH''] else []
                | _ \<Rightarrow> [])
           | _ \<Rightarrow> []))"

definition arrival_event_findings :: "'a canon_db_scheme \<Rightarrow> vessel_call \<Rightarrow> finding list" where
  "arrival_event_findings s vc =
     (let etas = events_named s vc (Some ''ETA''); atas = events_named s vc (Some ''ATA'');
          reqs = events_named s vc (Some ''PILOT_REQUEST_ARRIVAL''); scheds = events_named s vc (Some ''PILOT_SCHEDULED_ARRIVAL'')
      in (case (etas, atas) of (e # _, a # _) \<Rightarrow> if eo_utc_value a < eo_utc_value e
            then [finding_of ''DQ-004'' (Some (vc_id vc)) (event_ref e) ''HIGH''] else [] | _ \<Rightarrow> []) @
         (case atas of a # b # _ \<Rightarrow> if 5 \<le> fdiv \<bar>total_seconds (eo_utc_value a - eo_utc_value b)\<bar> 3600
            then [finding_of ''DQ-010'' (Some (vc_id vc)) (event_ref a) ''HIGH''] else [] | _ \<Rightarrow> []) @
         (case reqs of r # _ \<Rightarrow> if scheds = [] then [finding_of ''DQ-005'' (Some (vc_id vc)) (event_ref r) ''HIGH''] else []
          | [] \<Rightarrow> []))"

text \<open>The sequence rules of the journey templates: pairs of event names.\<close>

definition sequence_finding :: "'a canon_db_scheme \<Rightarrow> vessel_call \<Rightarrow> string option \<times> string option \<Rightarrow> finding list" where
  "sequence_finding s vc rule =
     (case (events_named s vc (fst rule), events_named s vc (snd rule)) of
        (f # _, t # _) \<Rightarrow>
          if total_seconds (eo_utc_value t - eo_utc_value f) < - 300
          then [finding_of (if rule = (Some ''ANCHORAGE_ARRIVAL'', Some ''PILOT_ON_BOARD_ARRIVAL'') then ''DQ-006''
                  else ''DQ-SEQUENCE-VIOLATION'') (Some (vc_id vc)) (event_ref t) ''CRITICAL'']
          else []
      | _ \<Rightarrow> [])"

definition call_services :: "'a canon_db_scheme \<Rightarrow> vessel_call \<Rightarrow> service_request list" where
  "call_services s vc = filter (\<lambda>r. sr_vessel_call_id r = vc_id vc) (service_requests s)"

definition assignment_of :: "'a canon_db_scheme \<Rightarrow> service_request \<Rightarrow> service_assignment option" where
  "assignment_of s r = last_by sa_service_request_id (sr_id r) (service_assignments s)"

definition execution_of :: "'a canon_db_scheme \<Rightarrow> service_assignment \<Rightarrow> service_execution option" where
  "execution_of s a = last_by se_service_assignment_id (sa_id a) (service_executions s)"

definition service_findings :: "'a canon_db_scheme \<Rightarrow> vessel_call \<Rightarrow> service_request \<Rightarrow> finding list" where
  "service_findings s vc req =
     (let v = Some (vc_id vc); ass = assignment_of s req
      in (if sr_requested_time req = None
          then [finding_of ''DQ-SERVICE-REQUEST-MISSING'' v (''ServiceRequest:'' @ sr_id req) ''HIGH''] else []) @
         (case ass of
            None \<Rightarrow> [finding_of ''DQ-SERVICE-SCHEDULE-MISSING'' v (''ServiceRequest:'' @ sr_id req) ''HIGH'']
          | Some a \<Rightarrow>
              (case sa_scheduled_time a of
                 None \<Rightarrow> [finding_of ''DQ-SERVICE-SCHEDULE-MISSING'' v (''ServiceAssignment:'' @ sa_id a) ''HIGH'']
               | Some sched \<Rightarrow>
                   (case execution_of s a of
                      None \<Rightarrow> [finding_of ''DQ-SERVICE-SERVED-MISSING'' v (''ServiceAssignment:'' @ sa_id a) ''HIGH'']
                    | Some x \<Rightarrow> if se_served_time x = None
                        then [finding_of ''DQ-SERVICE-SERVED-MISSING'' v (''ServiceExecution:'' @ se_id x) ''HIGH''] else []) @
                   (case sr_requested_time req of
                      Some r \<Rightarrow> if sched < r
                        then [finding_of ''DQ-SERVICE-SCHEDULE-BEFORE-REQUEST'' v (''ServiceAssignment:'' @ sa_id a) ''HIGH''] else []
                    | None \<Rightarrow> []))))"

definition served_late :: "'a canon_db_scheme \<Rightarrow> service_request \<Rightarrow> bool" where
  "served_late s req = (case assignment_of s req of None \<Rightarrow> False
     | Some a \<Rightarrow> (case execution_of s a of None \<Rightarrow> False
        | Some x \<Rightarrow> (case (sa_scheduled_time a, se_served_time x) of
             (Some sched, Some served) \<Rightarrow> 0 < total_seconds (served - sched) | _ \<Rightarrow> False)))"

text \<open>Whether a text with interpolated values consists of white space.\<close>

definition fstring_blank :: "fstring \<Rightarrow> bool" where
  "fstring_blank f = list_all (\<lambda>g. case g of
      Lit s \<Rightarrow> py_strip s = '''' | Str s \<Rightarrow> py_strip s = '''' | OStr (Some s) \<Rightarrow> py_strip s = ''''
    | Strs [] \<Rightarrow> True | Strs [s] \<Rightarrow> py_strip s = '''' | _ \<Rightarrow> False) f"

definition reason_blank :: "delay \<Rightarrow> bool" where
  "reason_blank d = (case dl_delay_reason d of None \<Rightarrow> True | Some f \<Rightarrow> fstring_blank f)"

definition delay_reason_findings :: "'a canon_db_scheme \<Rightarrow> vessel_call \<Rightarrow> finding list" where
  "delay_reason_findings s vc =
     (if list_ex (served_late s) (call_services s vc) \<and>
         list_all reason_blank (filter (\<lambda>d. dl_vessel_call_id d = vc_id vc) (delays s))
      then [finding_of ''DQ-007'' (Some (vc_id vc)) (vessel_ref vc) ''MEDIUM''] else [])"

definition call_findings ::
    "(string \<Rightarrow> py_datetime option) \<Rightarrow> string option \<Rightarrow> (string option \<times> string option) list \<Rightarrow> staging_record list \<Rightarrow>
     'a canon_db_scheme \<Rightarrow> vessel_call \<Rightarrow> finding list" where
  "call_findings parse batch seq_rules rows s vc =
     staged_arrival_findings parse vc (call_staging batch rows vc) @ arrival_event_findings s vc @
     concat (map (sequence_finding s vc) seq_rules) @
     concat (map (service_findings s vc) (call_services s vc)) @ delay_reason_findings s vc"

text \<open>All findings, in the order the engine reaches them. No rule reads what a finding writes (issues,
  rules, the quarantine flag), so they are determined by the state before the first.\<close>

definition all_findings ::
    "(string \<Rightarrow> py_datetime option) \<Rightarrow> string option \<Rightarrow> (string option \<times> string option) list \<Rightarrow> staging_record list \<Rightarrow>
     'a canon_db_scheme \<Rightarrow> finding list" where
  "all_findings parse batch seq_rules rows s =
     concat (map (call_findings parse batch seq_rules rows s) (vessel_calls s)) @
     concat (map (staging_findings parse)
       (filter (\<lambda>r. case batch of Some (b # bs) \<Rightarrow> st_ingestion_batch_id r = b # bs | _ \<Rightarrow> True) rows))"

definition run_all ::
    "(nat \<Rightarrow> uid) \<Rightarrow> (string \<Rightarrow> py_datetime option) \<Rightarrow> string option \<Rightarrow> (string option \<times> string option) list \<Rightarrow>
     staging_record list \<Rightarrow> 'a canon_db_scheme \<times> quality_session \<Rightarrow> 'a canon_db_scheme \<times> quality_session" where
  "run_all uuid parse batch seq_rules rows st = fold (create_issue uuid) (all_findings parse batch seq_rules rows (fst st)) st"

section \<open>The session invariant\<close>

definition open_pairs :: "'a canon_db_scheme \<Rightarrow> (uid \<times> string) list" where
  "open_pairs s = map (\<lambda>i. (qi_rule_id i, qi_record_reference i)) (filter open_issue (quality_issues s))"

definition store_ok :: "(nat \<Rightarrow> uid) \<Rightarrow> 'a canon_db_scheme \<Rightarrow> bool" where
  "store_ok uuid s \<longleftrightarrow> inj uuid \<and> distinct (map qr_id (quality_rules s)) \<and> distinct (map qr_rule_id (quality_rules s)) \<and>
     (\<forall>n \<ge> draws s. uuid n \<notin> qr_id ` set (quality_rules s)) \<and>
     qi_rule_id ` set (quality_issues s) \<subseteq> qr_id ` set (quality_rules s)"

definition session_ok :: "(nat \<Rightarrow> uid) \<Rightarrow> 'a canon_db_scheme \<times> quality_session \<Rightarrow> bool" where
  "session_ok uuid st \<longleftrightarrow> store_ok uuid (fst st) \<and>
     qs_rules (snd st) = map_of (map (\<lambda>r. (qr_rule_id r, r)) (quality_rules (fst st))) \<and>
     dom (qs_open (snd st)) = set (open_pairs (fst st))"

text \<open>The open issues by the name of their rule and their reference.\<close>

definition rule_name :: "'a canon_db_scheme \<Rightarrow> uid \<Rightarrow> string" where
  "rule_name s i = (case map_of (map (\<lambda>r. (qr_id r, qr_rule_id r)) (quality_rules s)) i of Some n \<Rightarrow> n | None \<Rightarrow> '''')"

definition issue_keys :: "'a canon_db_scheme \<Rightarrow> (string \<times> string) list" where
  "issue_keys s = map (\<lambda>(i, ref). (rule_name s i, ref)) (open_pairs s)"

definition finding_key :: "finding \<Rightarrow> string \<times> string" where
  "finding_key f = (fi_rule_id f, fi_ref f)"

lemma rule_name_mem:
  "store_ok uuid s \<Longrightarrow> r \<in> set (quality_rules s) \<Longrightarrow> rule_name s (qr_id r) = qr_rule_id r"
proof -
  assume ok: "store_ok uuid s" and r: "r \<in> set (quality_rules s)"
  have "map_of (map (\<lambda>r. (qr_id r, qr_rule_id r)) (quality_rules s)) (qr_id r) = Some (qr_rule_id r)"
    using ok r by (intro map_of_is_SomeI) (auto simp: store_ok_def comp_def)
  then show ?thesis by (simp add: rule_name_def)
qed

lemma same_rule:
  "store_ok uuid s \<Longrightarrow> r \<in> set (quality_rules s) \<Longrightarrow> r' \<in> set (quality_rules s) \<Longrightarrow> qr_rule_id r = qr_rule_id r' \<Longrightarrow> r = r'"
  unfolding store_ok_def by (meson distinct_map inj_onD)

lemma open_pairs_rules:
  "store_ok uuid s \<Longrightarrow> (i, ref) \<in> set (open_pairs s) \<Longrightarrow> \<exists>r \<in> set (quality_rules s). qr_id r = i"
  by (force simp: store_ok_def open_pairs_def)

lemma session_rule:
  assumes "session_ok uuid (s, q)"
  shows "qs_rules q n = Some r \<longleftrightarrow> r \<in> set (quality_rules s) \<and> qr_rule_id r = n"
    "qs_rules q n = None \<longleftrightarrow> (\<forall>r \<in> set (quality_rules s). qr_rule_id r \<noteq> n)"
proof -
  let ?m = "map (\<lambda>r. (qr_rule_id r, r)) (quality_rules s)"
  have d: "distinct (map fst ?m)" using assms by (simp add: session_ok_def store_ok_def comp_def)
  have q: "qs_rules q = map_of ?m" using assms by (simp add: session_ok_def)
  show "qs_rules q n = Some r \<longleftrightarrow> r \<in> set (quality_rules s) \<and> qr_rule_id r = n"
    unfolding q using map_of_eq_Some_iff [OF d, of n r] by auto
  show "qs_rules q n = None \<longleftrightarrow> (\<forall>r \<in> set (quality_rules s). qr_rule_id r \<noteq> n)"
    unfolding q map_of_eq_None_iff by force
qed

lemma issue_keys_iff:
  assumes "store_ok uuid s" "r \<in> set (quality_rules s)"
  shows "(qr_rule_id r, ref) \<in> set (issue_keys s) \<longleftrightarrow> (qr_id r, ref) \<in> set (open_pairs s)"
proof
  assume "(qr_rule_id r, ref) \<in> set (issue_keys s)"
  then obtain i where i: "(i, ref) \<in> set (open_pairs s)" "rule_name s i = qr_rule_id r" by (auto simp: issue_keys_def)
  then obtain r' where r': "r' \<in> set (quality_rules s)" "qr_id r' = i" using open_pairs_rules [OF assms(1)] by blast
  have "qr_rule_id r' = qr_rule_id r" using i(2) rule_name_mem [OF assms(1) r'(1)] r'(2) by simp
  then have "r' = r" by (rule same_rule [OF assms(1) r'(1) assms(2)])
  then show "(qr_id r, ref) \<in> set (open_pairs s)" using i r' by simp
next
  assume "(qr_id r, ref) \<in> set (open_pairs s)"
  then show "(qr_rule_id r, ref) \<in> set (issue_keys s)"
    using rule_name_mem [OF assms] unfolding issue_keys_def set_map by (metis (mono_tags, lifting) case_prod_conv image_eqI)
qed

section \<open>One finding\<close>

definition mark :: "(uid \<Rightarrow> bool) \<Rightarrow> event_occurrence \<Rightarrow> event_occurrence" where
  "mark p e = (if p (eo_id e) then e\<lparr>eo_is_quarantined := True\<rparr> else e)"

lemma mark_sel [simp]:
  "eo_id (mark p e) = eo_id e" "eo_vessel_call_id (mark p e) = eo_vessel_call_id e"
  "eo_event_definition_id (mark p e) = eo_event_definition_id e" "eo_utc_value (mark p e) = eo_utc_value e"
  "eo_is_quarantined (mark p e) \<longleftrightarrow> p (eo_id e) \<or> eo_is_quarantined e"
  by (simp_all add: mark_def)

lemma mark_mark: "mark p (mark r e) = mark (\<lambda>i. p i \<or> r i) e"
  by (simp add: mark_def)

lemma mark_never: "mark (\<lambda>_. False) = id"
  by (rule ext) (simp add: mark_def)

lemma quarantine_mark: "quarantine i = map (mark (\<lambda>x. x = i))"
  by (rule ext) (simp add: quarantine_def upd_by_def mark_def)

text \<open>The events a finding quarantines when it is new.\<close>

definition quarantines :: "finding \<Rightarrow> uid \<Rightarrow> bool" where
  "quarantines f i \<longleftrightarrow> fi_severity f = ''CRITICAL'' \<and> ref_event (fi_ref f) = Some i"

text \<open>What a run changes: rules and issues are appended, the counter grows, events are marked.\<close>

definition dq_run :: "(uid \<Rightarrow> bool) \<Rightarrow> 'a canon_db_scheme \<Rightarrow> 'a canon_db_scheme \<Rightarrow> bool" where
  "dq_run p s s' \<longleftrightarrow> (\<exists>rs is n. s' = s\<lparr>quality_rules := quality_rules s @ rs, quality_issues := quality_issues s @ is,
     draws := n, event_occurrences := map (mark p) (event_occurrences s)\<rparr> \<and> draws s \<le> n)"

lemma dq_run_refl: "dq_run (\<lambda>_. False) s s"
  unfolding dq_run_def by (rule exI [of _ "[]"], rule exI [of _ "[]"], rule exI [of _ "draws s"]) (simp add: mark_never)

lemma dq_run_trans: "dq_run p s t \<Longrightarrow> dq_run r t u \<Longrightarrow> dq_run (\<lambda>i. r i \<or> p i) s u"
proof (unfold dq_run_def, elim exE conjE)
  fix rs1 is1 n1 rs2 is2 n2
  assume "t = s\<lparr>quality_rules := quality_rules s @ rs1, quality_issues := quality_issues s @ is1,
     draws := n1, event_occurrences := map (mark p) (event_occurrences s)\<rparr>" "draws s \<le> n1"
    "u = t\<lparr>quality_rules := quality_rules t @ rs2, quality_issues := quality_issues t @ is2,
     draws := n2, event_occurrences := map (mark r) (event_occurrences t)\<rparr>" "draws t \<le> n2"
  then show "\<exists>rs is n. u = s\<lparr>quality_rules := quality_rules s @ rs, quality_issues := quality_issues s @ is,
     draws := n, event_occurrences := map (mark (\<lambda>i. r i \<or> p i)) (event_occurrences s)\<rparr> \<and> draws s \<le> n"
    by (intro exI [of _ "rs1 @ rs2"] exI [of _ "is1 @ is2"] exI [of _ n2]) (simp add: mark_mark comp_def)
qed

lemma find_rule_cases:
  assumes "session_ok uuid (s, q)"
  obtains r where "find_rule uuid f (s, q) = (r, s, q)" "r \<in> set (quality_rules s)" "qr_rule_id r = fi_rule_id f"
  | r s' q' where "find_rule uuid f (s, q) = (r, s', q')" "\<forall>x \<in> set (quality_rules s). qr_rule_id x \<noteq> fi_rule_id f"
      "r = rule_from_spec (uuid (draws s)) f"
      "s' = s\<lparr>quality_rules := quality_rules s @ [r], draws := draws s + 1\<rparr>"
      "q' = q\<lparr>qs_rules := (qs_rules q)(fi_rule_id f \<mapsto> r)\<rparr>"
proof (cases "qs_rules q (fi_rule_id f)")
  case None
  show ?thesis
  proof (rule that(2))
    show "\<forall>x \<in> set (quality_rules s). qr_rule_id x \<noteq> fi_rule_id f" using None session_rule(2) [OF assms] by blast
  qed (simp_all add: find_rule_def Let_def None)
next
  case (Some r)
  then have "r \<in> set (quality_rules s)" "qr_rule_id r = fi_rule_id f" using session_rule(1) [OF assms] by blast+
  then show ?thesis using that(1) [of r] Some by (simp add: find_rule_def)
qed

lemma session_ok_new_rule:
  assumes ok: "session_ok uuid (s, q)" and new: "\<forall>x \<in> set (quality_rules s). qr_rule_id x \<noteq> qr_rule_id r"
    and i: "qr_id r = uuid (draws s)"
    and s': "s' = s\<lparr>quality_rules := quality_rules s @ [r], draws := draws s + 1\<rparr>"
    and q': "q' = q\<lparr>qs_rules := (qs_rules q)(qr_rule_id r \<mapsto> r)\<rparr>"
  shows "session_ok uuid (s', q')" "issue_keys s' = issue_keys s"
proof -
  have st: "store_ok uuid s" using ok by (simp add: session_ok_def)
  have fresh: "qr_id r \<notin> qr_id ` set (quality_rules s)" using st i by (simp add: store_ok_def)
  have "uuid n \<noteq> qr_id r" if "draws s + 1 \<le> n" for n using st i that inj_eq by (fastforce simp: store_ok_def)
  then have "store_ok uuid s'" using st new fresh unfolding s' store_ok_def by auto
  moreover have "open_pairs s' = open_pairs s" by (simp add: open_pairs_def s')
  moreover have "map_of (map (\<lambda>r. (qr_rule_id r, r)) (quality_rules s @ [r])) =
      (map_of (map (\<lambda>r. (qr_rule_id r, r)) (quality_rules s)))(qr_rule_id r \<mapsto> r)"
  proof
    fix n
    have "map_of (map (\<lambda>r. (qr_rule_id r, r)) (quality_rules s)) (qr_rule_id r) = None"
      using new by (force simp: map_of_eq_None_iff)
    then show "map_of (map (\<lambda>r. (qr_rule_id r, r)) (quality_rules s @ [r])) n =
      ((map_of (map (\<lambda>r. (qr_rule_id r, r)) (quality_rules s)))(qr_rule_id r \<mapsto> r)) n"
      by (auto simp: map_add_def split: option.splits)
  qed
  ultimately show "session_ok uuid (s', q')" using ok by (simp add: session_ok_def s' q')
  have "rule_name s' j = rule_name s j" if "(j, ref) \<in> set (open_pairs s)" for j ref
    using open_pairs_rules [OF st that] rule_name_mem [OF st] rule_name_mem [OF \<open>store_ok uuid s'\<close>] by (auto simp: s')
  then show "issue_keys s' = issue_keys s"
    unfolding issue_keys_def \<open>open_pairs s' = open_pairs s\<close> by auto
qed

text \<open>One finding: nothing happens when its key is open, otherwise one issue is added.\<close>

lemma create_issue_cases:
  assumes ok: "session_ok uuid (s, q)"
  obtains "finding_key f \<in> set (issue_keys s)" "create_issue uuid f (s, q) = (s, q)"
  | s' q' where "finding_key f \<notin> set (issue_keys s)" "create_issue uuid f (s, q) = (s', q')" "session_ok uuid (s', q')"
      "issue_keys s' = issue_keys s @ [finding_key f]" "dq_run (quarantines f) s s'"
proof -
  have st: "store_ok uuid s" using ok by (simp add: session_ok_def)
  obtain r s1 q1 where r: "find_rule uuid f (s, q) = (r, s1, q1)" "session_ok uuid (s1, q1)" "issue_keys s1 = issue_keys s"
    "r \<in> set (quality_rules s1)" "qr_rule_id r = fi_rule_id f" "dq_run (\<lambda>_. False) s s1"
    "finding_key f \<in> set (issue_keys s) \<longrightarrow> s1 = s \<and> q1 = q"
  proof (rule find_rule_cases [OF ok, of f])
    fix r assume "find_rule uuid f (s, q) = (r, s, q)" "r \<in> set (quality_rules s)" "qr_rule_id r = fi_rule_id f"
    then show ?thesis using that [of r s q] ok dq_run_refl [of s] by blast
  next
    fix r s' q' assume new: "find_rule uuid f (s, q) = (r, s', q')" "\<forall>x \<in> set (quality_rules s). qr_rule_id x \<noteq> fi_rule_id f"
      "r = rule_from_spec (uuid (draws s)) f" "s' = s\<lparr>quality_rules := quality_rules s @ [r], draws := draws s + 1\<rparr>"
      "q' = q\<lparr>qs_rules := (qs_rules q)(fi_rule_id f \<mapsto> r)\<rparr>"
    have n: "qr_rule_id r = fi_rule_id f" "qr_id r = uuid (draws s)" by (simp_all add: new(3) rule_from_spec_def Let_def)
    have ok': "session_ok uuid (s', q')" "issue_keys s' = issue_keys s"
      using session_ok_new_rule [OF ok, of r s' q'] new(2,4,5) n by simp_all
    have "dq_run (\<lambda>_. False) s s'"
      unfolding dq_run_def by (rule exI [of _ "[r]"], rule exI [of _ "[]"], rule exI [of _ "draws s + 1"]) (simp add: new(4) mark_never)
    moreover have "finding_key f \<notin> set (issue_keys s)"
    proof
      assume "finding_key f \<in> set (issue_keys s)"
      then obtain i where i: "(i, fi_ref f) \<in> set (open_pairs s)" "rule_name s i = fi_rule_id f"
        by (auto simp: issue_keys_def finding_key_def)
      then show False using open_pairs_rules [OF st i(1)] rule_name_mem [OF st] new(2) by force
    qed
    moreover have "r \<in> set (quality_rules s')" by (simp add: new(4))
    ultimately show ?thesis using that [OF new(1) ok' _ n(1)] by blast
  qed
  have st1: "store_ok uuid s1" using r(2) by (simp add: session_ok_def)
  have key: "finding_key f \<in> set (issue_keys s) \<longleftrightarrow> (qr_id r, fi_ref f) \<in> dom (qs_open q1)"
    using issue_keys_iff [OF st1 r(4), of "fi_ref f"] r(2,3,5) by (simp add: finding_key_def session_ok_def)
  show thesis
  proof (cases "qs_open q1 (qr_id r, fi_ref f)")
    case (Some i)
    then have "finding_key f \<in> set (issue_keys s)" using key by blast
    then show thesis using that(1) r(1,7) Some by (simp add: create_issue_def)
  next
    case None
    define i where "i = \<lparr>qi_id = uuid (draws s1), qi_rule_id = qr_id r, qi_vessel_call_id = fi_vessel_call_id f,
      qi_record_reference = fi_ref f, qi_issue_status = ISSUE_OPEN\<rparr>"
    define s' where "s' = s1\<lparr>quality_issues := quality_issues s1 @ [i], draws := draws s1 + 1,
      event_occurrences := map (mark (quarantines f)) (event_occurrences s1)\<rparr>"
    define q' where "q' = q1\<lparr>qs_open := (qs_open q1)((qr_id r, fi_ref f) \<mapsto> i)\<rparr>"
    have ev: "(if fi_severity f = ''CRITICAL''
        then (case ref_event (fi_ref f) of Some e \<Rightarrow> quarantine e (event_occurrences s1) | None \<Rightarrow> event_occurrences s1)
        else event_occurrences s1) = map (mark (quarantines f)) (event_occurrences s1)"
    proof (cases "ref_event (fi_ref f)")
      case (Some e)
      have "quarantines f = (if fi_severity f = ''CRITICAL'' then (\<lambda>x. x = e) else (\<lambda>_. False))"
        by (rule ext) (simp add: quarantines_def Some eq_commute)
      then show ?thesis by (simp add: Some quarantine_mark mark_never)
    next
      case None
      then have "quarantines f = (\<lambda>_. False)" by (simp add: quarantines_def fun_eq_iff)
      then show ?thesis by (simp add: None mark_never)
    qed
    have run: "create_issue uuid f (s, q) = (s', q')"
      unfolding create_issue_def r(1) using None ev by (simp add: i_def [symmetric] s'_def q'_def Let_def)
    have pairs: "open_pairs s' = open_pairs s1 @ [(qr_id r, fi_ref f)]" by (simp add: open_pairs_def s'_def i_def open_issue_def)
    have rules: "quality_rules s' = quality_rules s1" by (simp add: s'_def)
    have "store_ok uuid s'" using st1 r(4) by (auto simp: store_ok_def s'_def i_def)
    then have "session_ok uuid (s', q')"
      using r(2) pairs rules by (auto simp: session_ok_def q'_def)
    moreover have "rule_name s' = rule_name s1" by (rule ext) (simp add: rule_name_def rules)
    then have "issue_keys s' = issue_keys s @ [finding_key f]"
      using rule_name_mem [OF st1 r(4)] r(3,5) by (simp add: issue_keys_def pairs finding_key_def)
    moreover have "dq_run (quarantines f) s1 s'"
      unfolding dq_run_def by (rule exI [of _ "[]"], rule exI [of _ "[i]"], rule exI [of _ "draws s1 + 1"]) (simp add: s'_def)
    then have "dq_run (quarantines f) s s'" using dq_run_trans [OF r(6)] by simp
    moreover have "finding_key f \<notin> set (issue_keys s)" using key None by blast
    ultimately show thesis using that(2) run by blast
  qed
qed

definition issue_step :: "(nat \<Rightarrow> uid) \<Rightarrow> finding \<Rightarrow> 'a canon_db_scheme \<times> quality_session \<Rightarrow> ('a canon_db_scheme \<times> quality_session) result" where
  "issue_step uuid f st = Inr (create_issue uuid f st)"

interpretation issuing: create_or_get "session_ok uuid" "\<lambda>st. issue_keys (fst st)" "issue_step uuid" "Some \<circ> finding_key" for uuid
proof unfold_locales
  fix st :: "'a canon_db_scheme \<times> quality_session" and f
  assume ok: "session_ok uuid st"
  obtain s q where sq: "st = (s, q)" by (cases st)
  show "\<exists>st'. issue_step uuid f st = Inr st'" by (simp add: issue_step_def)
  fix st' assume st': "issue_step uuid f st = Inr st'"
  show "session_ok uuid st'" using st' ok unfolding sq
    by (rule_tac create_issue_cases [OF ok [unfolded sq], of f]) (auto simp: issue_step_def)
  show "issue_keys (fst st') = (case (Some \<circ> finding_key) f of
      Some k \<Rightarrow> if k \<in> set (issue_keys (fst st)) then issue_keys (fst st) else issue_keys (fst st) @ [k] | None \<Rightarrow> issue_keys (fst st))"
    using st' unfolding sq by (rule_tac create_issue_cases [OF ok [unfolded sq], of f]) (auto simp: issue_step_def)
qed

lemma run_steps_fold: "run_steps (issue_step uuid) fs st = Inr (fold (create_issue uuid) fs st)"
  by (induction fs arbitrary: st) (simp_all add: issue_step_def)

section \<open>What a run does\<close>

lemma all_open_no_op: "session_ok uuid (s, q) \<Longrightarrow> finding_key ` set fs \<subseteq> set (issue_keys s) \<Longrightarrow> fold (create_issue uuid) fs (s, q) = (s, q)"
proof (induction fs)
  case (Cons f fs)
  then have "create_issue uuid f (s, q) = (s, q)"
    by (rule_tac create_issue_cases [OF Cons.prems(1), of f]) auto
  then show ?case using Cons by simp
qed simp

text \<open>Only the two sequence rules are critical, so what a finding quarantines is determined by its key.\<close>

definition proper :: "finding \<Rightarrow> bool" where
  "proper f \<longleftrightarrow> (fi_severity f = ''CRITICAL'' \<longleftrightarrow> fi_rule_id f \<in> {''DQ-006'', ''DQ-SEQUENCE-VIOLATION''})"

lemma quarantines_key: "proper f \<Longrightarrow> proper g \<Longrightarrow> finding_key f = finding_key g \<Longrightarrow> quarantines f = quarantines g"
  by (simp add: quarantines_def fun_eq_iff proper_def finding_key_def)

definition new_quarantines :: "finding list \<Rightarrow> (string \<times> string) list \<Rightarrow> uid \<Rightarrow> bool" where
  "new_quarantines fs ks i \<longleftrightarrow> (\<exists>f \<in> set fs. quarantines f i \<and> finding_key f \<notin> set ks)"

lemma new_quarantines_Cons:
  assumes "list_all proper (f # fs)" "finding_key f \<notin> set ks"
  shows "new_quarantines (f # fs) ks = (\<lambda>i. new_quarantines fs (ks @ [finding_key f]) i \<or> quarantines f i)"
proof
  fix i
  have "quarantines g i \<longrightarrow> quarantines f i" if "g \<in> set fs" "finding_key g = finding_key f" for g
    using quarantines_key [of g f] that assms(1) by (simp add: list_all_iff)
  then show "new_quarantines (f # fs) ks i = (new_quarantines fs (ks @ [finding_key f]) i \<or> quarantines f i)"
    using assms(2) unfolding new_quarantines_def by auto
qed

text \<open>A run marks exactly the events of the critical findings whose key is new.\<close>

lemma fold_run:
  assumes "session_ok uuid (s, q)" "list_all proper fs"
  obtains s' q' where "fold (create_issue uuid) fs (s, q) = (s', q')" "session_ok uuid (s', q')"
    "dq_run (new_quarantines fs (issue_keys s)) s s'" "set (issue_keys s') = set (issue_keys s) \<union> finding_key ` set fs"
proof -
  have "\<exists>s' q'. fold (create_issue uuid) fs (s, q) = (s', q') \<and> session_ok uuid (s', q') \<and>
      dq_run (new_quarantines fs (issue_keys s)) s s' \<and> set (issue_keys s') = set (issue_keys s) \<union> finding_key ` set fs"
    using assms
  proof (induction fs arbitrary: s q)
    case Nil
    then show ?case using dq_run_refl [of s] by (simp add: new_quarantines_def)
  next
    case (Cons f fs)
    have fs: "list_all proper fs" using Cons.prems(2) by simp
    show ?case
    proof (rule create_issue_cases [OF Cons.prems(1), of f])
      assume old: "finding_key f \<in> set (issue_keys s)" "create_issue uuid f (s, q) = (s, q)"
      have "new_quarantines (f # fs) (issue_keys s) = new_quarantines fs (issue_keys s)"
        using old(1) by (auto simp: new_quarantines_def fun_eq_iff)
      then show ?case using Cons.IH [OF Cons.prems(1) fs] old by (auto simp: insert_absorb)
    next
      fix s1 q1 assume new: "finding_key f \<notin> set (issue_keys s)" "create_issue uuid f (s, q) = (s1, q1)" "session_ok uuid (s1, q1)"
        "issue_keys s1 = issue_keys s @ [finding_key f]" "dq_run (quarantines f) s s1"
      from Cons.IH [OF new(3) fs] obtain s' q' where r: "fold (create_issue uuid) fs (s1, q1) = (s', q')" "session_ok uuid (s', q')"
        "dq_run (new_quarantines fs (issue_keys s1)) s1 s'" "set (issue_keys s') = set (issue_keys s1) \<union> finding_key ` set fs" by blast
      have "dq_run (new_quarantines (f # fs) (issue_keys s)) s s'"
        unfolding new_quarantines_Cons [OF Cons.prems(2) new(1)] using dq_run_trans [OF new(5) r(3)] new(4) by simp
      then show ?case using r new(2,4) by auto
    qed
  qed
  then show thesis using that by blast
qed

text \<open>The rules do not read what the run writes.\<close>

lemma dq_run_reads:
  assumes "dq_run p s s'"
  shows "vessel_calls s' = vessel_calls s" "event_definitions s' = event_definitions s"
    "service_requests s' = service_requests s" "service_assignments s' = service_assignments s"
    "service_executions s' = service_executions s" "delays s' = delays s"
    "event_occurrences s' = map (mark p) (event_occurrences s)" "quality_rules s' = quality_rules s @ drop (length (quality_rules s)) (quality_rules s')"
  using assms by (auto simp: dq_run_def)

lemma events_named_run: "dq_run p s s' \<Longrightarrow> events_named s' vc n = map (mark p) (events_named s vc n)"
  by (simp add: events_named_def dq_run_reads(2,7) filter_map comp_def event_name_def)

lemma event_ref_mark [simp]: "event_ref (mark p e) = event_ref e"
  by (simp add: event_ref_def)

lemma call_findings_run:
  assumes run: "dq_run p s s'"
  shows "call_findings parse batch seq_rules rows s' vc = call_findings parse batch seq_rules rows s vc"
proof -
  have "arrival_event_findings s' vc = arrival_event_findings s vc"
    by (auto simp: arrival_event_findings_def Let_def events_named_run [OF run] split: list.splits)
  moreover have "sequence_finding s' vc = sequence_finding s vc"
    by (rule ext) (auto simp: sequence_finding_def events_named_run [OF run] split: list.splits)
  moreover have c: "assignment_of s' = assignment_of s" "execution_of s' = execution_of s" "call_services s' = call_services s"
    by (simp_all add: fun_eq_iff assignment_of_def execution_of_def call_services_def dq_run_reads [OF run])
  moreover have "service_findings s' = service_findings s" "served_late s' = served_late s"
    by (simp_all only: service_findings_def [abs_def] served_late_def [abs_def] c)
  moreover from this(2) have "delay_reason_findings s' = delay_reason_findings s"
    by (simp only: delay_reason_findings_def [abs_def] c dq_run_reads(6) [OF run])
  ultimately show ?thesis by (simp add: call_findings_def)
qed

lemma all_findings_run:
  "dq_run p s s' \<Longrightarrow> all_findings parse batch seq_rules rows s' = all_findings parse batch seq_rules rows s"
proof -
  assume run: "dq_run p s s'"
  have "call_findings parse batch seq_rules rows s' = call_findings parse batch seq_rules rows s"
    by (rule ext) (rule call_findings_run [OF run])
  then show ?thesis unfolding all_findings_def by (simp add: dq_run_reads(1) [OF run])
qed

lemma proper_call_findings: "list_all proper (call_findings parse batch seq_rules rows s vc)"
proof -
  have "list_all proper (staged_arrival_findings parse vc st)" for st
    by (auto simp: staged_arrival_findings_def proper_def finding_of_def split: option.splits list.splits)
  moreover have "list_all proper (arrival_event_findings s vc)"
    by (auto simp: arrival_event_findings_def Let_def proper_def finding_of_def split: list.splits)
  moreover have "list_all proper (sequence_finding s vc r)" for r
    by (auto simp: sequence_finding_def proper_def finding_of_def split: list.splits)
  moreover have "list_all proper (service_findings s vc r)" for r
    by (auto simp: service_findings_def Let_def proper_def finding_of_def split: option.splits)
  moreover have "list_all proper (delay_reason_findings s vc)"
    by (simp add: delay_reason_findings_def proper_def finding_of_def)
  ultimately show ?thesis by (auto simp: call_findings_def list_all_iff)
qed

lemma proper_staging: "list_all proper (staging_findings parse r)"
  by (simp add: staging_findings_def Let_def proper_def finding_of_def)

lemma list_all_concat_map: "(\<And>x. list_all P (F x)) \<Longrightarrow> list_all P (concat (map F xs))"
  by (induction xs) simp_all

lemma proper_all: "list_all proper (all_findings parse batch seq_rules rows s)"
  unfolding all_findings_def by (simp add: list_all_concat_map proper_call_findings proper_staging)

section \<open>Starting the engine\<close>

definition configured_ids :: "configured_rule list \<Rightarrow> string list" where
  "configured_ids cfg = List.map_filter (\<lambda>c. case cr_id c of Some (ch # cs) \<Rightarrow> Some (ch # cs) | _ \<Rightarrow> None) cfg"

lemma configured_ids_Cons:
  "configured_ids (c # cfg) = (case cr_id c of Some (ch # cs) \<Rightarrow> (ch # cs) # configured_ids cfg | _ \<Rightarrow> configured_ids cfg)"
  by (simp add: configured_ids_def List.map_filter_simps split: option.split list.split)

lemma store_ok_add:
  "store_ok uuid t \<Longrightarrow> qr_rule_id r \<notin> qr_rule_id ` set (quality_rules t) \<Longrightarrow> qr_id r = uuid (draws t) \<Longrightarrow>
     store_ok uuid (t\<lparr>quality_rules := quality_rules t @ [r], draws := draws t + 1\<rparr>)"
proof -
  assume ok: "store_ok uuid t" and n: "qr_rule_id r \<notin> qr_rule_id ` set (quality_rules t)" and i: "qr_id r = uuid (draws t)"
  have "uuid k \<noteq> qr_id r" if "draws t + 1 \<le> k" for k using ok i that inj_eq by (fastforce simp: store_ok_def)
  moreover have "qr_id r \<notin> qr_id ` set (quality_rules t)" using ok i by (simp add: store_ok_def)
  ultimately show ?thesis using ok n unfolding store_ok_def by auto
qed

lemma fold_add_rule:
  assumes "store_ok uuid t" "distinct (configured_ids cfg)"
    "\<And>n. n \<in> qr_rule_id ` set (quality_rules t) \<Longrightarrow> n \<in> set (configured_ids cfg) \<Longrightarrow> n \<in> ex"
    "ex \<subseteq> qr_rule_id ` set (quality_rules t)"
  shows "\<exists>rs n. foldl (add_rule uuid ex) t cfg = t\<lparr>quality_rules := quality_rules t @ rs, draws := n\<rparr> \<and> draws t \<le> n \<and>
      store_ok uuid (t\<lparr>quality_rules := quality_rules t @ rs, draws := n\<rparr>) \<and>
      set (configured_ids cfg) \<subseteq> qr_rule_id ` set (quality_rules t @ rs)"
  using assms
proof (induction cfg arbitrary: t)
  case Nil
  then show ?case by (intro exI [of _ "[]"] exI [of _ "draws t"]) (simp add: configured_ids_def List.map_filter_simps)
next
  case (Cons c cfg)
  show ?case
  proof (cases "\<exists>n. cr_id c = Some n \<and> n \<noteq> [] \<and> n \<notin> ex")
    case False
    then have sub: "add_rule uuid ex t c = t" "set (configured_ids (c # cfg)) \<subseteq> ex \<union> set (configured_ids cfg)"
      by (auto simp: add_rule_def configured_ids_Cons split: option.split list.split)
    have "distinct (configured_ids cfg)" "set (configured_ids cfg) \<subseteq> set (configured_ids (c # cfg))"
      using Cons.prems(2) by (auto simp: configured_ids_Cons split: option.splits list.splits)
    then obtain rs n where "foldl (add_rule uuid ex) t cfg = t\<lparr>quality_rules := quality_rules t @ rs, draws := n\<rparr>" "draws t \<le> n"
      "store_ok uuid (t\<lparr>quality_rules := quality_rules t @ rs, draws := n\<rparr>)"
      "set (configured_ids cfg) \<subseteq> qr_rule_id ` set (quality_rules t @ rs)"
      using Cons.IH [OF Cons.prems(1) \<open>distinct (configured_ids cfg)\<close> _ Cons.prems(4)] Cons.prems(3) \<open>set (configured_ids cfg) \<subseteq> set (configured_ids (c # cfg))\<close> by blast
    moreover from this sub(2) have "set (configured_ids (c # cfg)) \<subseteq> qr_rule_id ` set (quality_rules t @ rs)"
      using Cons.prems(4) unfolding set_append image_Un by blast
    ultimately show ?thesis using sub(1) by (intro exI [of _ rs] exI [of _ n]) simp
  next
    case True
    then obtain m where m: "cr_id c = Some m" "m \<noteq> []" "m \<notin> ex" by blast
    let ?r = "new_rule (uuid (draws t)) m c"
    let ?t = "t\<lparr>quality_rules := quality_rules t @ [?r], draws := draws t + 1\<rparr>"
    have ids: "configured_ids (c # cfg) = m # configured_ids cfg" using m by (cases m) (simp_all add: configured_ids_Cons)
    have r: "qr_rule_id ?r = m" "qr_id ?r = uuid (draws t)" by (simp_all add: new_rule_def)
    have m': "m \<notin> qr_rule_id ` set (quality_rules t)" using Cons.prems(3) [of m] m(3) ids by auto
    have step: "add_rule uuid ex t c = ?t" using m by (cases m) (simp_all add: add_rule_def)
    have "store_ok uuid ?t" using store_ok_add [OF Cons.prems(1), of ?r] m' r by simp
    moreover have "distinct (configured_ids cfg)" "m \<notin> set (configured_ids cfg)" using Cons.prems(2) ids by simp_all
    moreover have "n \<in> ex" if "n \<in> qr_rule_id ` set (quality_rules ?t)" "n \<in> set (configured_ids cfg)" for n
      using that Cons.prems(3) [of n] ids r(1) \<open>m \<notin> set (configured_ids cfg)\<close> by auto
    moreover have "ex \<subseteq> qr_rule_id ` set (quality_rules ?t)" using Cons.prems(4) by auto
    ultimately obtain rs n where ih: "foldl (add_rule uuid ex) ?t cfg = ?t\<lparr>quality_rules := quality_rules ?t @ rs, draws := n\<rparr>" "draws ?t \<le> n"
      "store_ok uuid (?t\<lparr>quality_rules := quality_rules ?t @ rs, draws := n\<rparr>)"
      "set (configured_ids cfg) \<subseteq> qr_rule_id ` set (quality_rules ?t @ rs)"
      using Cons.IH [of ?t] by blast
    then show ?thesis using step ids r(1) by (intro exI [of _ "?r # rs"] exI [of _ n]) auto
  qed
qed

lemma map_of_rev_distinct: "distinct (map fst xs) \<Longrightarrow> map_of (rev xs) = map_of xs"
  by (subst map_of_inject_set) (simp_all add: rev_map [symmetric])

lemma session_ok_load: "store_ok uuid s \<Longrightarrow> session_ok uuid (s, load_session s)"
  by (simp add: session_ok_def load_session_def store_ok_def map_of_rev_distinct comp_def dom_map_of_conv_image_fst
      rev_map [symmetric] open_pairs_def image_image)

lemma init_engine_ok:
  assumes "store_ok uuid s" "distinct (configured_ids cfg)"
  obtains t q where "init_engine uuid cfg s = (t, q)" "session_ok uuid (t, q)" "dq_run (\<lambda>_. False) s t" "issue_keys t = issue_keys s"
    "set (configured_ids cfg) \<subseteq> qr_rule_id ` set (quality_rules t)" "q = load_session t"
proof -
  obtain rs n where e: "ensure_configured_rules uuid cfg s = s\<lparr>quality_rules := quality_rules s @ rs, draws := n\<rparr>" "draws s \<le> n"
    and ok: "store_ok uuid (s\<lparr>quality_rules := quality_rules s @ rs, draws := n\<rparr>)"
    and ids: "set (configured_ids cfg) \<subseteq> qr_rule_id ` set (quality_rules s @ rs)"
    using fold_add_rule [OF assms, of "qr_rule_id ` set (quality_rules s)"] by (auto simp: ensure_configured_rules_def)
  let ?t = "s\<lparr>quality_rules := quality_rules s @ rs, draws := n\<rparr>"
  have "rule_name ?t i = rule_name s i" if "(i, ref) \<in> set (open_pairs s)" for i ref
    using open_pairs_rules [OF assms(1) that] rule_name_mem [OF assms(1)] rule_name_mem [OF ok] by auto
  then have "issue_keys ?t = issue_keys s" by (auto simp: issue_keys_def open_pairs_def)
  moreover have "dq_run (\<lambda>_. False) s ?t"
    unfolding dq_run_def using e(2) by (intro exI [of _ rs] exI [of _ "[]"] exI [of _ n]) (simp add: mark_never)
  ultimately show thesis
    using that [of ?t "load_session ?t"] session_ok_load [OF ok] ids by (simp add: init_engine_def e(1) Let_def)
qed

lemma ensure_again: "set (configured_ids cfg) \<subseteq> qr_rule_id ` set (quality_rules s) \<Longrightarrow> ensure_configured_rules uuid cfg s = s"
proof -
  have "set (configured_ids cfg) \<subseteq> ex \<Longrightarrow> foldl (add_rule uuid ex) s cfg = s" for ex
    by (induction cfg) (auto simp: configured_ids_Cons add_rule_def split: option.splits list.splits)
  then show "set (configured_ids cfg) \<subseteq> qr_rule_id ` set (quality_rules s) \<Longrightarrow> ensure_configured_rules uuid cfg s = s"
    by (simp add: ensure_configured_rules_def)
qed

section \<open>The properties\<close>

text \<open>One data-quality job: a new engine, then every rule.\<close>

definition quality_job ::
    "(nat \<Rightarrow> uid) \<Rightarrow> (string \<Rightarrow> py_datetime option) \<Rightarrow> configured_rule list \<Rightarrow> string option \<Rightarrow> (string option \<times> string option) list \<Rightarrow>
     staging_record list \<Rightarrow> 'a canon_db_scheme \<Rightarrow> 'a canon_db_scheme" where
  "quality_job uuid parse cfg batch seq_rules rows s = fst (run_all uuid parse batch seq_rules rows (init_engine uuid cfg s))"

lemma quality_job_cases:
  assumes "store_ok uuid s" "distinct (configured_ids cfg)"
  obtains s' where "quality_job uuid parse cfg batch seq_rules rows s = s'" "store_ok uuid s'"
    "dq_run (new_quarantines (all_findings parse batch seq_rules rows s) (issue_keys s)) s s'"
    "set (issue_keys s') = set (issue_keys s) \<union> finding_key ` set (all_findings parse batch seq_rules rows s)"
    "set (configured_ids cfg) \<subseteq> qr_rule_id ` set (quality_rules s')"
proof -
  let ?fs = "all_findings parse batch seq_rules rows s"
  obtain t q where t: "init_engine uuid cfg s = (t, q)" "session_ok uuid (t, q)" "dq_run (\<lambda>_. False) s t" "issue_keys t = issue_keys s"
    "set (configured_ids cfg) \<subseteq> qr_rule_id ` set (quality_rules t)"
    by (rule init_engine_ok [OF assms], rule that; assumption)
  obtain s' q' where s': "fold (create_issue uuid) ?fs (t, q) = (s', q')" "session_ok uuid (s', q')"
    "dq_run (new_quarantines ?fs (issue_keys t)) t s'" "set (issue_keys s') = set (issue_keys t) \<union> finding_key ` set ?fs"
    by (rule fold_run [OF t(2) proper_all], rule that; assumption)
  show thesis
  proof (rule that)
    show "quality_job uuid parse cfg batch seq_rules rows s = s'"
      using s'(1) all_findings_run [OF t(3)] by (simp add: quality_job_def run_all_def t(1))
    show "store_ok uuid s'" using s'(2) by (simp add: session_ok_def)
    show "dq_run (new_quarantines ?fs (issue_keys s)) s s'" using dq_run_trans [OF t(3) s'(3)] t(4) by simp
    show "set (issue_keys s') = set (issue_keys s) \<union> finding_key ` set ?fs" using s'(4) t(4) by simp
    show "set (configured_ids cfg) \<subseteq> qr_rule_id ` set (quality_rules s')"
      using t(5) dq_run_reads(8) [OF s'(3)] by (metis (no_types, lifting) image_mono le_supI1 set_append subset_trans sup_ge1)
  qed
qed


text \<open>A call whose pilot boarded an hour before it anchored.\<close>

definition disordered_db :: canon_db where
  "disordered_db = \<lparr>vessel_calls = [bare_call ''c''],
     event_occurrences = [bare_event ''e1'' ''c'' ''d1'' 7200000000, bare_event ''e2'' ''c'' ''d2'' 3600000000],
     event_definitions = [\<lparr>ed_id = ''d1'', ed_name = ''ANCHORAGE_ARRIVAL'', ed_category = None, ed_description = None\<rparr>, \<lparr>ed_id = ''d2'', ed_name = ''PILOT_ON_BOARD_ARRIVAL'', ed_category = None, ed_description = None\<rparr>],
     service_requests = [], service_assignments = [], service_executions = [], delays = [], delay_allocations = [],
     cargo_operations = [], quality_rules = [], quality_issues = [], audit_log = [], draws = 0\<rparr>"

lemma disordered_ok: "store_ok (\<lambda>n. replicate n CHR ''i'') disordered_db" "issue_keys disordered_db = []"
  by (auto simp: store_ok_def disordered_db_def issue_keys_def open_pairs_def inj_def dest: arg_cong [of _ _ length])


text \<open>A chronology violation quarantines its event: when the first events of the two names of a sequence rule
  exist for a vessel call, the later one happened more than 300 seconds before the earlier one, and no issue of that
  rule is open for it, the job leaves the event quarantined.\<close>

theorem sequence_violation_quarantined:
  assumes "store_ok uuid s" "distinct (configured_ids cfg)" "vc \<in> set (vessel_calls s)" "(from, to) \<in> set seq_rules"
    and "events_named s vc from = f # fs" "events_named s vc to = t # ts"
    and "total_seconds (eo_utc_value t - eo_utc_value f) < - 300"
    and "(''DQ-006'', event_ref t) \<notin> set (issue_keys s)" "(''DQ-SEQUENCE-VIOLATION'', event_ref t) \<notin> set (issue_keys s)"
    and "CHR '':'' \<notin> set (eo_id t)"
  shows "\<exists>e \<in> set (event_occurrences (quality_job uuid parse cfg batch seq_rules rows s)). eo_id e = eo_id t \<and> eo_is_quarantined e"
proof -
  let ?fs = "all_findings parse batch seq_rules rows s"
  define g where "g = finding_of (if (from, to) = (Some ''ANCHORAGE_ARRIVAL'', Some ''PILOT_ON_BOARD_ARRIVAL'')
     then ''DQ-006'' else ''DQ-SEQUENCE-VIOLATION'') (Some (vc_id vc)) (event_ref t) ''CRITICAL''"
  have "g \<in> set (sequence_finding s vc (from, to))" using assms(5-7) by (simp add: sequence_finding_def g_def)
  then have g: "g \<in> set ?fs" using assms(3,4) by (auto simp: all_findings_def call_findings_def)
  have key: "finding_key g \<notin> set (issue_keys s)" using assms(8,9) by (simp add: g_def finding_key_def finding_of_def)
  have "takeWhile (\<lambda>c. c \<noteq> CHR '':'') (eo_id t) = eo_id t" using assms(10) by (simp add: takeWhile_eq_all_conv) blast
  then have "quarantines g (eo_id t)"
    by (simp add: quarantines_def g_def finding_of_def ref_event_def event_ref_def py_startswith_def)
  then have p: "new_quarantines ?fs (issue_keys s) (eo_id t)" using g key by (auto simp: new_quarantines_def)
  have "t \<in> set (events_named s vc to)" by (simp add: assms(6))
  then have t: "t \<in> set (event_occurrences s)" by (simp add: events_named_def)
  obtain s' where s': "quality_job uuid parse cfg batch seq_rules rows s = s'" "dq_run (new_quarantines ?fs (issue_keys s)) s s'"
    by (rule quality_job_cases [OF assms(1,2)])
  have "mark (new_quarantines ?fs (issue_keys s)) t \<in> set (event_occurrences s')" using t dq_run_reads(7) [OF s'(2)] by simp
  then show ?thesis unfolding s'(1) using p by (intro bexI [of _ "mark (new_quarantines ?fs (issue_keys s)) t"]) simp_all
qed

theorem sequence_violation_quarantined_witness:
  "\<exists>e \<in> set (event_occurrences (quality_job (\<lambda>n. replicate n CHR ''i'') (\<lambda>_. None) [] None
      [(Some ''ANCHORAGE_ARRIVAL'', Some ''PILOT_ON_BOARD_ARRIVAL'')] [] disordered_db)).
     eo_id e = ''e2'' \<and> eo_is_quarantined e"
proof -
  have ev: "events_named disordered_db (bare_call ''c'') (Some ''ANCHORAGE_ARRIVAL'') = [bare_event ''e1'' ''c'' ''d1'' 7200000000]"
    "events_named disordered_db (bare_call ''c'') (Some ''PILOT_ON_BOARD_ARRIVAL'') = [bare_event ''e2'' ''c'' ''d2'' 3600000000]"
    by (simp_all add: events_named_def event_name_def last_by_def disordered_db_def bare_call_def bare_event_def)
  have late: "total_seconds (eo_utc_value (bare_event ''e2'' ''c'' ''d2'' 3600000000) -
      eo_utc_value (bare_event ''e1'' ''c'' ''d1'' 7200000000)) < - 300" by code_simp
  have "vessel_calls disordered_db = [bare_call ''c'']" by (simp add: disordered_db_def)
  moreover have "eo_id (bare_event ''e2'' ''c'' ''d2'' 3600000000) = ''e2''" by (simp add: bare_event_def)
  ultimately show ?thesis
    using sequence_violation_quarantined [OF disordered_ok(1) _ _ _ ev late, of "[]"
        "[(Some ''ANCHORAGE_ARRIVAL'', Some ''PILOT_ON_BOARD_ARRIVAL'')]" "\<lambda>_. None" None "[]"]
    by (simp add: disordered_ok(2) configured_ids_def List.map_filter_simps)
qed

end
