(* ===== verification/Platform.thy ===== *)
theory Platform
  imports Alerts Stats
begin

text \<open>
  The tables of the schemas \<open>journey\<close> and \<open>analytics\<close> that the journey, delay and lead-time services share
  (\<open>apps/api/models/journey.py\<close>, \<open>apps/api/models/analytics.py\<close>), and the session state that holds them.
\<close>

section \<open>Lead-time aggregates\<close>

text \<open>The aggregate of one definition over a cohort. The statistics are absent when nothing was observed.\<close>

record aggregate_stats =
  ag_mean :: rat
  ag_median :: rat
  ag_std :: rat
  ag_cv :: "rat option"
  ag_min :: rat
  ag_max :: rat
  ag_p25 :: rat
  ag_p75 :: rat
  ag_p90 :: rat
  ag_p95 :: rat
  ag_fastest_vcn :: "string option"
  ag_slowest_vcn :: "string option"
  ag_tail_risk_ratio :: "rat option"

record statistical_aggregate =
  ag_id :: uid
  ag_tenant_id :: string
  ag_definition_id :: uid
  ag_cohort_key :: string
  ag_cohort_filters :: "(string \<times> json) list"
  ag_observation_count :: nat
  ag_missing_count :: nat
  ag_stats :: "aggregate_stats option"
  ag_right_skew_flag :: bool
  ag_small_sample_warning :: bool
  ag_outlier_vcns :: "string list"
  ag_formula_version :: string
  ag_percentile_method :: string
  ag_quarantine_excluded :: bool
  ag_calculated_at :: time

section \<open>Journeys\<close>

record journey_template =
  jt_id :: uid
  jt_name :: string
  jt_rule_version :: string

record journey_stage =
  js_id :: uid
  js_template_id :: uid
  js_stage_name :: string
  js_sequence_index :: int
  js_start_event_name :: "string option"
  js_end_event_name :: "string option"
  js_time_category :: string
  js_actor_from :: "string option"
  js_actor_to :: "string option"
  js_is_optional :: bool
  js_is_repeatable :: bool

datatype stage_status = STAGE_AVAILABLE | STAGE_MISSING | STAGE_DEVIATED

record deviation =
  dv_stage :: string
  dv_description :: fstring
  dv_duration_hours :: rat

record stage_occurrence =
  so_id :: uid
  so_journey_instance_id :: uid
  so_stage_id :: uid
  so_stage_name :: string
  so_sequence_index :: int
  so_shift_occurrence_index :: nat
  so_start_event_occurrence_id :: "uid option"
  so_end_event_occurrence_id :: "uid option"
  so_start_time :: "time option"
  so_end_time :: "time option"
  so_duration_hours :: "rat option"
  so_available :: bool            \<comment> \<open>\<open>availability == "AVAILABLE"\<close>\<close>
  so_is_missing :: bool
  so_is_inferred :: bool
  so_inference_reason :: "fstring option"
  so_time_category :: string
  so_status :: stage_status
  so_deviation :: "deviation option"   \<comment> \<open>\<open>deviation_type\<close> and \<open>deviation_detail\<close>\<close>

record coverage =
  cv_stages_total :: nat
  cv_stages_available :: nat
  cv_stages_missing :: nat
  cv_stages_inferred :: nat
  cv_shifting_occurrences :: nat

record decomposition =
  dc_buckets :: "(string \<times> rat) list"
  dc_total_hours :: "rat option"

datatype journey_status = JOURNEY_PENDING | JOURNEY_RECONSTRUCTED | JOURNEY_FAILED

record journey_instance =
  ji_id :: uid
  ji_vessel_call_id :: uid
  ji_template_id :: uid
  ji_status :: journey_status
  ji_reconstruction_version :: nat
  ji_rule_version :: "string option"
  ji_computed_at :: "time option"
  ji_coverage_summary :: "coverage option"
  ji_time_decomposition :: "decomposition option"
  ji_deviation_report :: "deviation list"

record handover =
  ho_from_stage_occurrence_id :: uid
  ho_to_stage_occurrence_id :: uid
  ho_available :: bool
  ho_from_actor :: "string option"
  ho_to_actor :: "string option"
  ho_handover_time :: "time option"
  ho_wait_duration_hours :: "rat option"

datatype selection_method = AUTOMATIC | STEWARD_OVERRIDE

record canonical_observation =
  cn_id :: uid
  cn_vessel_call_id :: uid
  cn_event_definition_id :: uid
  cn_candidate_event_occurrence_ids :: "uid list"
  cn_selected_event_occurrence_id :: "uid option"
  cn_conflict_detected :: bool
  cn_selection_method :: selection_method
  cn_selection_reasoning :: json
  cn_quality_issue_id :: "uid option"
  cn_decided_by :: "string option"
  cn_decided_at :: "time option"
  cn_rule_version :: "string option"

record observation_correction =
  oc_id :: uid
  oc_vessel_call_id :: uid
  oc_event_definition_id :: uid
  oc_prior_event_occurrence_id :: "uid option"
  oc_new_event_occurrence_id :: uid
  oc_reason :: string
  oc_actor :: string
  oc_approval_state :: string
  oc_approved_by :: "string option"
  oc_approved_at :: "time option"
  oc_recalculated_at :: "time option"

text \<open>The snapshot of a reconstruction run: the instance's summary and the stages without their row ids.\<close>

record reconstruction_history =
  rh_journey_instance_id :: uid
  rh_vessel_call_id :: uid
  rh_run_version :: nat
  rh_rule_version :: string
  rh_triggered_by :: string
  rh_status :: journey_status
  rh_coverage_summary :: "coverage option"
  rh_time_decomposition :: "decomposition option"
  rh_deviation_report :: "deviation list"
  rh_stages :: "stage_occurrence list"

section \<open>The session state\<close>

record platform_db = alert_db +
  lead_time_definitions :: "lead_time_definition list"
  lead_time_results :: "lead_time_result list"
  statistical_aggregates :: "statistical_aggregate list"
  journey_templates :: "journey_template list"
  journey_stages :: "journey_stage list"
  journey_instances :: "journey_instance list"
  stage_occurrences :: "stage_occurrence list"
  handovers :: "handover list"
  canonical_observations :: "canonical_observation list"
  observation_corrections :: "observation_correction list"
  reconstruction_histories :: "reconstruction_history list"

lemma add_audit_platform [simp]:
  "lead_time_definitions (add_audit e s) = lead_time_definitions s"
  "lead_time_results (add_audit e s) = lead_time_results s"
  "statistical_aggregates (add_audit e s) = statistical_aggregates s"
  "journey_templates (add_audit e s) = journey_templates s"
  "journey_stages (add_audit e s) = journey_stages s"
  "journey_instances (add_audit e s) = journey_instances s"
  "stage_occurrences (add_audit e s) = stage_occurrences s"
  "handovers (add_audit e s) = handovers s"
  "canonical_observations (add_audit e s) = canonical_observations s"
  "observation_corrections (add_audit e s) = observation_corrections s"
  "reconstruction_histories (add_audit e s) = reconstruction_histories s"
  by (simp_all add: add_audit_def)

end
