(* ===== verification/Delays.thy ===== *)
theory Delays
  imports Platform Durations Stats
begin

text \<open>
  Delays (\<open>apps/api/services/delays\<close>): the mapping onto the canonical categories, the inference of probable
  causes, the allocation of a delay to causes, the review of reasons, the listings and the summaries.
\<close>

section \<open>Canonical categories (\<open>mapping.py\<close>)\<close>

definition canonical_delay_categories :: "string list" where
  "canonical_delay_categories = [''Pilot'', ''Tug'', ''Berth Non-Availability'', ''Weather'', ''Regulatory Clearance'',
     ''Terminal Readiness'', ''Cargo Operation'', ''Equipment Breakdown'', ''Crane Downtime'', ''Mooring'',
     ''Documentation'', ''Vessel-Side'', ''Port-Side'', ''External/Uncontrollable'', ''Other'']"

definition has_any :: "string list \<Rightarrow> string \<Rightarrow> bool" where
  "has_any ws s = list_ex (\<lambda>w. py_in w s) ws"

definition map_to_canonical_category :: "string option \<Rightarrow> string option \<Rightarrow> string" where
  "map_to_canonical_category source_category reason =
     (if or_empty source_category = '''' \<and> or_empty reason = '''' then ''Other''
      else let src = py_lower (py_strip (or_empty source_category)); rsn = py_lower (py_strip (or_empty reason))
      in if py_in ''weather'' src \<or> has_any [''weather'', ''swells'', ''wind'', ''fog'', ''storm''] rsn then ''Weather''
      else if py_in ''tug'' rsn then ''Tug''
      else if py_in ''pilot'' rsn then ''Pilot''
      else if has_any [''berth'', ''berth unavailable'', ''berth congestion''] rsn then ''Berth Non-Availability''
      else if has_any [''cargo'', ''awaiting cargo'', ''terminal awaiting''] rsn then ''Terminal Readiness''
      else if py_in ''crane'' rsn then ''Crane Downtime''
      else if has_any [''equipment'', ''breakdown''] rsn then ''Equipment Breakdown''
      else if has_any [''mooring'', ''lines''] rsn then ''Mooring''
      else if has_any [''documentation'', ''customs'', ''paperwork''] rsn then ''Documentation''
      else if py_in ''ship not ready'' rsn \<or> py_in ''vessel'' src then ''Vessel-Side''
      else if has_any [''clearance'', ''regulatory'', ''quarantine'', ''immigration''] rsn then ''Regulatory Clearance''
      else if py_in ''shift'' rsn \<or> py_in ''marine service'' src then ''Port-Side''
      else (case find (\<lambda>c. py_lower c = src) canonical_delay_categories of Some c \<Rightarrow> c | None \<Rightarrow> ''Other''))"

section \<open>Inferred causes (\<open>inference.py\<close>)\<close>

text \<open>The outer joins of a request with its assignments and their executions.\<close>

definition outer_rows :: "'a list \<Rightarrow> 'a option list" where
  "outer_rows xs = (case xs of [] \<Rightarrow> [None] | _ \<Rightarrow> map Some xs)"

definition service_rows ::
    "service_request list \<Rightarrow> 'a canon_db_scheme \<Rightarrow> (service_request \<times> service_assignment option \<times> service_execution option) list" where
  "service_rows reqs s = concat (map (\<lambda>r. concat (map (\<lambda>a. map (\<lambda>x. (r, a, x)) (case a of
        None \<Rightarrow> [None]
      | Some a' \<Rightarrow> outer_rows (filter (\<lambda>x. se_service_assignment_id x = sa_id a') (service_executions s))))
     (outer_rows (filter (\<lambda>a. sa_service_request_id a = sr_id r) (service_assignments s))))) reqs)"

text \<open>The last delay above three minutes of each kind of service: pilot, tug, berth.\<close>

record service_lateness =
  pilot_delay :: "rat option"
  tug_delay :: "rat option"
  berthing_delay :: "rat option"

definition observe_service ::
    "string \<Rightarrow> service_request \<times> service_assignment option \<times> service_execution option \<Rightarrow> service_lateness \<Rightarrow> service_lateness" where
  "observe_service stage row ev =
     (case row of (req, ass, exe) \<Rightarrow>
        (case (Option.bind ass sa_scheduled_time, Option.bind exe se_served_time) of
           (Some sched, Some served) \<Rightarrow>
             (let diff = raw_hours sched served; stype = py_lower (sr_service_type req);
                  mtype = py_lower (or_empty (sr_movement_type req)); here = py_in stage mtype \<or> mtype = '''';
                  keep = (\<lambda>old. if fl (5 / 100) < diff then Some diff else old)
              in if py_in ''pilot'' stype \<and> here then ev\<lparr>pilot_delay := keep (pilot_delay ev)\<rparr>
                 else if py_in ''tug'' stype \<and> here then ev\<lparr>tug_delay := keep (tug_delay ev)\<rparr>
                 else if py_in ''berth'' stype \<and> here then ev\<lparr>berthing_delay := keep (berthing_delay ev)\<rparr>
                 else ev)
         | _ \<Rightarrow> ev))"

definition service_evidence :: "delay \<Rightarrow> 'a canon_db_scheme \<Rightarrow> service_lateness" where
  "service_evidence d s = fold (observe_service (py_lower (dl_movement_stage d)))
     (service_rows (filter (\<lambda>r. sr_vessel_call_id r = dl_vessel_call_id d) (service_requests s)) s)
     \<lparr>pilot_delay = None, tug_delay = None, berthing_delay = None\<rparr>"

record proposal =
  pr_category :: string
  pr_reason :: fstring
  pr_confidence :: rat
  pr_supporting :: "fstring list"
  pr_opposing :: "fstring list"

definition above :: "rat \<Rightarrow> rat option \<Rightarrow> bool" where
  "above t x = (case x of Some v \<Rightarrow> t < v | None \<Rightarrow> False)"

definition below :: "rat \<Rightarrow> rat option \<Rightarrow> bool" where
  "below t x = (case x of Some v \<Rightarrow> v < t | None \<Rightarrow> False)"

definition hours_text :: "rat option \<Rightarrow> frag" where
  "hours_text x = ONum (map_option (fround 2) x)"

definition proposal_of :: "string \<Rightarrow> fstring \<Rightarrow> rat \<Rightarrow> fstring list \<Rightarrow> fstring list \<Rightarrow> proposal" where
  "proposal_of c r conf support against = \<lparr>pr_category = c, pr_reason = r, pr_confidence = conf, pr_supporting = support, pr_opposing = against\<rparr>"

definition propose :: "delay \<Rightarrow> service_lateness \<Rightarrow> proposal" where
  "propose d ev =
     (let st = dl_movement_stage d; stage = py_lower st;
          base = [Lit ''Movement stage is identified as '', Str st];
          tug = tug_delay ev; pilot = pilot_delay ev
      in if above (fl (1 / 10)) tug then
           proposal_of ''Tug'' [Lit ''Tug service execution delayed by '', hours_text tug, Lit ''h after scheduled time''] (fl (75 / 100))
             ([base, [Lit ''Recorded tug execution delay of '', hours_text tug, Lit ''h on '', Str st]] @
              (if below (fl (5 / 100)) pilot then [[Lit ''Pilot was on time, isolating towage as primary bottleneck'']] else [])) []
         else if above (fl (1 / 10)) pilot then
           proposal_of ''Pilot'' [Lit ''Pilot boarding delayed by '', hours_text pilot, Lit ''h past scheduled time''] (fl (78 / 100))
             ([base, [Lit ''Recorded pilot execution delay of '', hours_text pilot, Lit ''h on '', Str st]] @
              (if below (fl (5 / 100)) tug then [[Lit ''Tug assistance was available on schedule'']] else [])) []
         else if above (fl (1 / 10)) (berthing_delay ev) then
           proposal_of ''Berth Non-Availability''
             [Lit ''Berthing/mooring service commenced '', hours_text (berthing_delay ev), Lit ''h past schedule''] (fl (70 / 100))
             [base, [Lit ''Mooring service experienced scheduling lag'']] []
         else if py_in ''arrival'' stage then
           proposal_of ''Berth Non-Availability'' [Lit ''Inferred berth congestion or terminal readiness constraint''] (fl (60 / 100))
             [base, [Lit ''Positive delay during arrival movement prior to all-fast'']]
             [[Lit ''No marine service execution delays logged for pilot or tug'']]
         else if py_in ''sailing'' stage then
           proposal_of ''Terminal Readiness'' [Lit ''Inferred terminal cargo completion or documentation clearance delay''] (fl (58 / 100))
             [base, [Lit ''Delay occurred in departure movement sequence'']]
             [[Lit ''Departure pilot dispatch records show normal turnaround'']]
         else
           proposal_of ''Port-Side'' [Lit ''Inferred operational buffer or coordination wait''] (fl (50 / 100)) [base]
             [[Lit ''Limited telemetry data available for fine-grained root-cause attribution'']])"

text \<open>The answer of the engine: declined with the preserved facts, or the proposal.\<close>

datatype inference_outcome =
    Declined "string option" "fstring option" "string option"  \<comment> \<open>\<open>cause_status\<close>, \<open>delay_reason\<close>, \<open>canonical_category\<close>\<close>
  | Inferred proposal

definition is_confirmed :: "delay \<Rightarrow> bool" where
  "is_confirmed d \<longleftrightarrow> py_lower (or_empty (dl_cause_status d)) = ''confirmed''"

definition inference_evidence :: "time \<Rightarrow> string \<Rightarrow> proposal \<Rightarrow> (string \<times> fstring) list" where
  "inference_evidence now actor p =
     [(''proposed_cause'', pr_reason p), (''proposed_category'', [Str (pr_category p)]), (''confidence'', [Num (pr_confidence p)]),
      (''supporting_factors'', [Js (JList (map JText (pr_supporting p)))]),
      (''opposing_factors'', [Js (JList (map JText (pr_opposing p)))]),
      (''inferred_at'', [Js (JInt now)]), (''inferred_by'', [Str actor]),
      (''rule'', [Lit ''RULE_HEURISTIC_SERVICE_EXECUTION_EVIDENCE''])]"

definition inferred_reason :: "proposal \<Rightarrow> fstring" where
  "inferred_reason p = Lit ''[INFERRED] '' # pr_reason p"

definition new_inferred :: "uid \<Rightarrow> time \<Rightarrow> string \<Rightarrow> proposal \<Rightarrow> delay \<Rightarrow> delay_allocation" where
  "new_inferred i now actor p d =
     \<lparr>da_id = i, da_delay_id = dl_id d, da_cause = pr_category p, da_canonical_category = Some (pr_category p),
      da_reason = Some (inferred_reason p), da_duration_hours = dl_total_duration_hours d, da_is_primary = True,
      da_cause_status = ''INFERRED'', da_confidence = Some (pr_confidence p),
      da_inference_evidence = inference_evidence now actor p, da_human_review_state = ''PENDING_REVIEW''\<rparr>"

definition reinfer :: "time \<Rightarrow> string \<Rightarrow> proposal \<Rightarrow> delay_allocation \<Rightarrow> delay_allocation" where
  "reinfer now actor p a = a\<lparr>da_cause := pr_category p, da_canonical_category := Some (pr_category p),
      da_reason := Some (inferred_reason p), da_confidence := Some (pr_confidence p),
      da_inference_evidence := inference_evidence now actor p, da_human_review_state := ''PENDING_REVIEW''\<rparr>"

definition mark_inferred :: "proposal \<Rightarrow> delay \<Rightarrow> delay" where
  "mark_inferred p d = d\<lparr>dl_cause_status := Some ''Inferred'', dl_canonical_category := Some (pr_category p),
      dl_confidence := Some (if fl (6 / 10) \<le> pr_confidence p then ''Medium'' else ''Low''),
      dl_delay_reason := Some (inferred_reason p)\<rparr>"

definition delay_audit :: "string \<Rightarrow> string \<Rightarrow> string \<Rightarrow> string \<Rightarrow> uid \<Rightarrow> (string \<times> fstring) list \<Rightarrow> audit_event" where
  "delay_audit actor role action rtype i details =
     \<lparr>au_action = action, au_actor_id = actor, au_actor_role = role, au_resource_type = rtype, au_resource_id = i, au_details = details\<rparr>"

definition delay_not_found :: "uid \<Rightarrow> py_error" where
  "delay_not_found i = ValueError [Lit ''Delay '', Str i, Lit '' not found'']"

text \<open>The writes: the allocation is created or updated, the header marked, the audit row added.\<close>

definition apply_inference ::
    "(nat \<Rightarrow> uid) \<Rightarrow> time \<Rightarrow> string \<Rightarrow> proposal \<Rightarrow> delay \<Rightarrow> delay_allocation option \<Rightarrow> 'a canon_db_scheme \<Rightarrow> 'a canon_db_scheme" where
  "apply_inference uuid now actor p d alloc s =
     (let s1 = (case alloc of
            None \<Rightarrow> s\<lparr>delay_allocations := delay_allocations s @ [new_inferred (uuid (draws s)) now actor p d], draws := draws s + 1\<rparr>
          | Some a \<Rightarrow> s\<lparr>delay_allocations := upd_by da_id (da_id a) (reinfer now actor p) (delay_allocations s)\<rparr>)
      in add_audit (delay_audit actor ''ai_agent'' ''INFER_DELAY_CAUSE'' ''delay'' (dl_id d)
           [(''inferred_category'', [Str (pr_category p)]), (''inferred_reason'', pr_reason p), (''confidence'', [Num (pr_confidence p)]),
            (''supporting_factors'', [Js (JList (map JText (pr_supporting p)))]),
            (''opposing_factors'', [Js (JList (map JText (pr_opposing p)))]), (''review_state'', [Lit ''PENDING_REVIEW''])])
         (s1\<lparr>delays := upd_by dl_id (dl_id d) (mark_inferred p) (delays s1)\<rparr>))"

definition inferred_allocations :: "uid \<Rightarrow> 'a canon_db_scheme \<Rightarrow> delay_allocation list" where
  "inferred_allocations i s = filter (\<lambda>a. da_delay_id a = i \<and> da_cause_status a = ''INFERRED'') (delay_allocations s)"

definition infer_delay_cause ::
    "(nat \<Rightarrow> uid) \<Rightarrow> time \<Rightarrow> uid \<Rightarrow> string \<Rightarrow> bool \<Rightarrow> 'a canon_db_scheme \<Rightarrow> (inference_outcome \<times> 'a canon_db_scheme) result" where
  "infer_delay_cause uuid now i actor force_reevaluate s =
     and_then (get_by dl_id i (delays s)) (\<lambda>found.
     case found of
       None \<Rightarrow> Inl (delay_not_found i)
     | Some d \<Rightarrow>
         if is_confirmed d \<and> \<not> force_reevaluate
         then Inr (Declined (dl_cause_status d) (dl_delay_reason d) (dl_canonical_category d), s)
         else let p = propose d (service_evidence d s)
              in and_then (one_or_none (inferred_allocations (dl_id d) s))
                   (\<lambda>alloc. Inr (Inferred p, apply_inference uuid now actor p d alloc s)))"

section \<open>Service timings (\<open>service.py\<close>)\<close>

definition delay_leg :: "string option \<Rightarrow> string" where
  "delay_leg movement_type =
     (let value = py_upper (py_strip (or_empty movement_type))
      in if value \<in> {''ARRIVAL'', ''INWARD''} then ''ARRIVAL_INWARD''
         else if value \<in> {''SAILING'', ''OUTWARD'', ''DEPARTURE''} then ''SAILING_OUTWARD''
         else if value = ''SHIFTING'' then ''SHIFTING'' else ''UNCLASSIFIED'')"

datatype timing_status = TIMING_UNAVAILABLE | EARLY | ON_TIME | LATE

datatype timing_quality = CLEAN | DQ_SCHEDULE_BEFORE_REQUEST | MISSING_DATA

record service_timing =
  tm_service_request_id :: uid
  tm_service_assignment_id :: "uid option"
  tm_service_execution_id :: "uid option"
  tm_vessel_call_id :: uid
  tm_vcn :: "string option"
  tm_vessel_name :: "string option"
  tm_movement :: "string option"
  tm_leg :: string
  tm_service_type :: string
  tm_submission_time :: "time option"
  tm_requested_time :: "time option"
  tm_scheduled_time :: "time option"
  tm_served_time :: "time option"
  tm_planning_lead_time_hours :: "rat option"
  tm_scheduling_gap_hours :: "rat option"
  tm_execution_delay_hours :: "rat option"
  tm_requested_to_served_hours :: "rat option"
  tm_execution_delay_status :: timing_status
  tm_source_record_ids :: "uid list"
  tm_data_quality_status :: timing_quality
  tm_unavailable_inputs :: "string list"

definition timing_status_of :: "rat option \<Rightarrow> timing_status" where
  "timing_status_of delay = (case delay of None \<Rightarrow> TIMING_UNAVAILABLE
     | Some v \<Rightarrow> if v < 0 then EARLY else if v = 0 then ON_TIME else LATE)"

definition missing_inputs :: "time option \<Rightarrow> time option \<Rightarrow> time option \<Rightarrow> string list" where
  "missing_inputs requested scheduled served =
     (if requested = None then [''requested_time missing''] else []) @
     (if scheduled = None then [''scheduled_time missing''] else []) @
     (if served = None then [''served_time missing''] else [])"

definition service_timing_of ::
    "vessel_call \<Rightarrow> service_request \<times> service_assignment option \<times> service_execution option \<Rightarrow> service_timing" where
  "service_timing_of vc row = (case row of (req, ass, exe) \<Rightarrow>
     (let scheduled = Option.bind ass sa_scheduled_time; served = Option.bind exe se_served_time;
          gap = sd_value_hours (compute_scheduling_gap (sr_requested_time req) scheduled ''1.0'');
          delay = sd_value_hours (compute_execution_delay scheduled served ''1.0'');
          missing = missing_inputs (sr_requested_time req) scheduled served
      in \<lparr>tm_service_request_id = sr_id req, tm_service_assignment_id = map_option sa_id ass,
          tm_service_execution_id = map_option se_id exe, tm_vessel_call_id = vc_id vc, tm_vcn = vc_vcn vc,
          tm_vessel_name = vc_vessel_name vc, tm_movement = sr_movement_type req, tm_leg = delay_leg (sr_movement_type req),
          tm_service_type = sr_service_type req, tm_submission_time = sr_submission_time req,
          tm_requested_time = sr_requested_time req, tm_scheduled_time = scheduled, tm_served_time = served,
          tm_planning_lead_time_hours =
            sd_value_hours (compute_planning_lead_time (sr_submission_time req) (sr_requested_time req) ''1.0''),
          tm_scheduling_gap_hours = gap, tm_execution_delay_hours = delay,
          tm_requested_to_served_hours = sd_value_hours (compute_lead_time (sr_requested_time req) served ''service-timing-v1.0''),
          tm_execution_delay_status = timing_status_of delay,
          tm_source_record_ids = sr_id req # (case ass of None \<Rightarrow> [] | Some a \<Rightarrow> [sa_id a]) @ (case exe of None \<Rightarrow> [] | Some x \<Rightarrow> [se_id x]),
          tm_data_quality_status = (if (case gap of Some g \<Rightarrow> g < 0 | None \<Rightarrow> False) then DQ_SCHEDULE_BEFORE_REQUEST
             else if missing \<noteq> [] then MISSING_DATA else CLEAN),
          tm_unavailable_inputs = missing\<rparr>))"

definition tenant_calls :: "string \<Rightarrow> 'a canon_db_scheme \<Rightarrow> vessel_call list" where
  "tenant_calls tenant s = filter (\<lambda>v. \<not> vc_is_merged v \<and> vc_tenant_id v = tenant) (vessel_calls s)"

definition timing_calls :: "string \<Rightarrow> 'a canon_db_scheme \<Rightarrow> vessel_call list" where
  "timing_calls tenant s = filter (\<lambda>v. \<not> vc_is_merged v \<and> (tenant \<noteq> ''*'' \<longrightarrow> vc_tenant_id v = tenant)) (vessel_calls s)"

definition all_timings :: "string \<Rightarrow> 'a canon_db_scheme \<Rightarrow> service_timing list" where
  "all_timings tenant s = concat (map (\<lambda>r. concat (map (\<lambda>v. map (service_timing_of v) (service_rows [r] s))
     (filter (\<lambda>v. vc_id v = sr_vessel_call_id r) (timing_calls tenant s)))) (service_requests s))"

subsection \<open>Frequency and overview\<close>

datatype frequency_class = ACCEPTABLE | WATCH | CRITICAL_FREQUENCY | FREQUENCY_UNAVAILABLE
datatype frequency_band = GREEN | ORANGE | RED | GRAY

definition classify_delay_frequency :: "rat \<Rightarrow> frequency_class \<times> frequency_band" where
  "classify_delay_frequency p =
     (if p < 40 then (ACCEPTABLE, GREEN) else if p \<le> 60 then (WATCH, ORANGE) else (CRITICAL_FREQUENCY, RED))"

record leg_frequency =
  lf_leg :: string
  lf_label :: string
  lf_eligible :: nat
  lf_delayed :: nat
  lf_percent :: "rat option"
  lf_class :: frequency_class
  lf_band :: frequency_band

definition leg_frequency_of :: "service_timing list \<Rightarrow> string \<times> string \<Rightarrow> leg_frequency" where
  "leg_frequency_of rows l =
     (let eligible = filter (\<lambda>r. tm_leg r = fst l \<and> tm_execution_delay_hours r \<noteq> None) rows;
          delayed = filter (\<lambda>r. above 0 (tm_execution_delay_hours r)) eligible;
          percent = (if eligible = [] then None
            else Some (fround 1 (fmul (fdiv (of_nat (length delayed)) (of_nat (length eligible))) 100)));
          cls = (case percent of Some p \<Rightarrow> classify_delay_frequency p | None \<Rightarrow> (FREQUENCY_UNAVAILABLE, GRAY))
      in \<lparr>lf_leg = fst l, lf_label = snd l, lf_eligible = length eligible, lf_delayed = length delayed,
          lf_percent = percent, lf_class = fst cls, lf_band = snd cls\<rparr>)"

definition delay_frequency_by_leg :: "service_timing list \<Rightarrow> leg_frequency list" where
  "delay_frequency_by_leg rows = map (leg_frequency_of rows)
     [(''ARRIVAL_INWARD'', ''Arrival / Inward''), (''SAILING_OUTWARD'', ''Sailing / Outward''), (''SHIFTING'', ''Shifting'')]"

definition service_kind :: "string \<Rightarrow> string" where
  "service_kind service_type =
     (let value = py_upper service_type
      in if py_in ''PILOT'' value then ''PILOTAGE''
         else if py_in ''BERTH'' value \<or> py_in ''MOOR'' value then ''BERTHING''
         else if py_in ''TUG'' value \<or> py_in ''TOW'' value then ''TOWAGE'' else ''OTHER'')"

text \<open>An overview widget. The counts are absent for the widgets that are waits, not delays.\<close>

record overview_item =
  ov_key :: string
  ov_label :: string
  ov_average_hours :: "rat option"
  ov_observation_count :: nat
  ov_unavailable_reason :: "string option"
  ov_counts :: "(nat \<times> nat \<times> nat) option"    \<comment> \<open>delayed, on time, early\<close>

definition average_hours :: "rat list \<Rightarrow> rat option" where
  "average_hours vs = (if vs = [] then None else Some (fround 6 (fdiv (fsum vs) (of_nat (length vs)))))"

definition summarize_values :: "string \<Rightarrow> string \<Rightarrow> rat option list \<Rightarrow> bool \<Rightarrow> overview_item" where
  "summarize_values key label column context =
     (let values = List.map_filter id column
      in \<lparr>ov_key = key, ov_label = label, ov_average_hours = average_hours values, ov_observation_count = length values,
          ov_unavailable_reason = (if values = [] then Some ''No eligible governed observations are available for this leg.'' else None),
          ov_counts = (if context then Some (length (filter (\<lambda>v. 0 < v) values), length (filter (\<lambda>v. v = 0) values),
             length (filter (\<lambda>v. v < 0) values)) else None)\<rparr>)"

definition anchorage_wait_values :: "string \<Rightarrow> 'a platform_db_scheme \<Rightarrow> rat list" where
  "anchorage_wait_values tenant s = List.map_filter (\<lambda>r.
     if lt_status r = LT_AVAILABLE \<and>
        list_ex (\<lambda>d. ld_id d = lt_definition_id r \<and> ld_name d = ''Anchorage Wait'') (lead_time_definitions s) \<and>
        list_ex (\<lambda>v. vc_id v = lt_vessel_call_id r) (tenant_calls tenant s)
     then lt_duration_hours r else None) (lead_time_results s)"

definition anchorage_wait_summary :: "string \<Rightarrow> string \<Rightarrow> 'a platform_db_scheme \<Rightarrow> overview_item" where
  "anchorage_wait_summary tenant leg s =
     (let base = \<lparr>ov_key = ''ANCHORAGE_WAIT'', ov_label = ''Anchorage Wait'', ov_average_hours = None, ov_observation_count = 0,
            ov_unavailable_reason = Some ''Anchorage wait applies only to the Arrival / Inward leg.'', ov_counts = None\<rparr>;
          values = anchorage_wait_values tenant s
      in if leg \<notin> {''ALL'', ''ARRIVAL_INWARD''} then base
         else if values = [] then base\<lparr>ov_unavailable_reason := Some ''No eligible governed anchorage observations are available.''\<rparr>
         else base\<lparr>ov_average_hours := average_hours values, ov_observation_count := length values, ov_unavailable_reason := None\<rparr>)"

definition service_delay_overview :: "string \<Rightarrow> service_timing list \<Rightarrow> string \<Rightarrow> 'a platform_db_scheme \<Rightarrow> overview_item list" where
  "service_delay_overview tenant rows leg s =
     (let kind = (\<lambda>k. filter (\<lambda>r. service_kind (tm_service_type r) = k) rows); towage = kind ''TOWAGE''
      in [summarize_values ''PILOTAGE_DELAY'' ''Pilotage Delay'' (map tm_execution_delay_hours (kind ''PILOTAGE'')) True,
          summarize_values ''BERTHING_DELAY'' ''Berthing Delay'' (map tm_execution_delay_hours (kind ''BERTHING'')) True,
          summarize_values ''TOWAGE_WAIT'' ''Towage Wait'' (map tm_requested_to_served_hours towage) False,
          summarize_values ''TUG_TOWAGE_DELAY'' ''Tug / Towage Delay'' (map tm_execution_delay_hours towage) True,
          anchorage_wait_summary tenant leg s])"

subsection \<open>Duration ranges\<close>

record pair_observation =
  po_value :: rat
  po_vcn :: "string option"
  po_vessel_name :: "string option"
  po_source_record_ids :: "uid list"

text \<open>A dictionary comprehension keeps the last row of a key.\<close>

definition last_with :: "('a \<Rightarrow> bool) \<Rightarrow> 'a list \<Rightarrow> 'a option" where
  "last_with p xs = (case rev (filter p xs) of [] \<Rightarrow> None | x # _ \<Rightarrow> Some x)"

definition definition_named :: "string \<Rightarrow> 'a canon_db_scheme \<Rightarrow> uid option" where
  "definition_named n s = map_option ed_id (last_with (\<lambda>d. ed_name d = n) (event_definitions s))"

text \<open>The live occurrences of one of the two events, in the order of the query.\<close>

definition live_occurrences :: "uid list \<Rightarrow> uid list \<Rightarrow> 'a canon_db_scheme \<Rightarrow> event_occurrence list" where
  "live_occurrences call_ids def_ids s =
     sorted_by eo_occurrence_index (sorted_by eo_utc_value (filter (\<lambda>e. eo_vessel_call_id e \<in> set call_ids \<and>
        eo_event_definition_id e \<in> set def_ids \<and> \<not> eo_is_superseded e \<and> \<not> eo_is_quarantined e) (event_occurrences s)))"

definition selected_occurrence ::
    "event_occurrence list \<Rightarrow> canonical_observation list \<Rightarrow> uid \<Rightarrow> uid \<Rightarrow> event_occurrence option" where
  "selected_occurrence occs observations call_id def_id =
     (let winner_id = Option.bind (last_with (\<lambda>w. cn_vessel_call_id w = call_id \<and> cn_event_definition_id w = def_id) observations)
            cn_selected_event_occurrence_id
      in case Option.bind winner_id (\<lambda>i. last_with (\<lambda>e. eo_id e = i) occs) of
           Some e \<Rightarrow> Some e
         | None \<Rightarrow> find (\<lambda>e. eo_vessel_call_id e = call_id \<and> eo_event_definition_id e = def_id) occs)"

definition event_pair_duration_observations :: "string \<Rightarrow> string \<Rightarrow> string \<Rightarrow> 'a platform_db_scheme \<Rightarrow> pair_observation list" where
  "event_pair_duration_observations tenant start_name end_name s =
     (case (definition_named start_name s, definition_named end_name s) of
        (Some start_id, Some end_id) \<Rightarrow>
          (let calls = tenant_calls tenant s; ids = map vc_id calls;
               occs = live_occurrences ids [start_id, end_id] s;
               winners = filter (\<lambda>w. cn_vessel_call_id w \<in> set ids \<and> cn_event_definition_id w \<in> {start_id, end_id}) (canonical_observations s)
           in List.map_filter (\<lambda>vc.
                case (selected_occurrence occs winners (vc_id vc) start_id, selected_occurrence occs winners (vc_id vc) end_id) of
                  (Some a, Some b) \<Rightarrow> if eo_utc_value a \<le> eo_utc_value b
                    then Some \<lparr>po_value = raw_hours (eo_utc_value a) (eo_utc_value b), po_vcn = vc_vcn vc,
                      po_vessel_name = vc_vessel_name vc, po_source_record_ids = [eo_id a, eo_id b]\<rparr>
                    else None
                | _ \<Rightarrow> None) calls)
      | _ \<Rightarrow> [])"

record duration_range =
  dr_service_type :: string
  dr_start_event :: string
  dr_end_event :: string
  dr_min_hours :: "rat option"
  dr_max_hours :: "rat option"
  dr_minimum :: "pair_observation option"
  dr_maximum :: "pair_observation option"
  dr_observation_count :: nat
  dr_unavailable_reason :: "string option"

definition range_pairs :: "(string \<times> string \<times> string \<times> string) list" where
  "range_pairs =
     [(''Pilotage Service'', ''PILOT_ON_BOARD_ARRIVAL'', ''PILOT_DISEMBARK_ARRIVAL'',
         ''No eligible pilot-on-board to pilot-disembark observations are available.''),
      (''Towage / Tug Service'', ''TUG_SERVICE_START_ARRIVAL'', ''TUG_SERVICE_END_ARRIVAL'',
         ''A governed tug service-end event is not present in the active dataset.''),
      (''Berthing Service'', ''FIRST_LINE_TIED_ARRIVAL'', ''ALL_FAST_ARRIVAL'',
         ''No eligible first-line-tied to all-fast observations are available.'')]"

definition service_duration_ranges :: "string \<Rightarrow> 'a platform_db_scheme \<Rightarrow> duration_range list" where
  "service_duration_ranges tenant s = map (\<lambda>(service, start, end', reason).
     (let obs = event_pair_duration_observations tenant start end' s; lo = min_by po_value obs; hi = max_by po_value obs
      in \<lparr>dr_service_type = service, dr_start_event = start, dr_end_event = end',
          dr_min_hours = map_option (\<lambda>o'. fround 6 (po_value o')) lo, dr_max_hours = map_option (\<lambda>o'. fround 6 (po_value o')) hi,
          dr_minimum = lo, dr_maximum = hi, dr_observation_count = length obs,
          dr_unavailable_reason = (if obs = [] then Some reason else None)\<rparr>)) range_pairs"

record timing_listing =
  tl_leg :: string
  tl_items :: "service_timing list"
  tl_total :: nat
  tl_overview :: "overview_item list"
  tl_frequency :: "leg_frequency list"
  tl_ranges :: "duration_range list"

definition list_service_timings :: "string \<Rightarrow> string \<Rightarrow> 'a platform_db_scheme \<Rightarrow> timing_listing" where
  "list_service_timings tenant leg s =
     (let all_rows = all_timings tenant s; rows = filter (\<lambda>r. leg = ''ALL'' \<or> tm_leg r = leg) all_rows
      in \<lparr>tl_leg = leg, tl_items = rows, tl_total = length rows, tl_overview = service_delay_overview tenant all_rows ''ALL'' s,
          tl_frequency = delay_frequency_by_leg all_rows, tl_ranges = service_duration_ranges tenant s\<rparr>)"

section \<open>Delay records (\<open>service.py\<close>)\<close>

text \<open>A delay with its call and allocations: the item of the listing and the detail. The remainder that no
  allocation explains is explicit.\<close>

record delay_item =
  di_delay :: delay
  di_vcn :: "string option"
  di_vessel_name :: "string option"
  di_allocated_duration_hours :: rat
  di_unallocated_duration_hours :: rat
  di_allocations :: "delay_allocation list"

definition allocations_of :: "uid \<Rightarrow> 'a canon_db_scheme \<Rightarrow> delay_allocation list" where
  "allocations_of i s = filter (\<lambda>a. da_delay_id a = i) (delay_allocations s)"

definition unallocated :: "rat \<Rightarrow> rat \<Rightarrow> rat" where
  "unallocated whole allocated = max 0 (fround 4 (fsub whole allocated))"

definition delay_item_of :: "delay_allocation list \<Rightarrow> delay \<times> vessel_call \<Rightarrow> delay_item" where
  "delay_item_of allocs row = (case row of (d, v) \<Rightarrow>
     (let allocated = fsum (map da_duration_hours allocs)
      in \<lparr>di_delay = d, di_vcn = vc_vcn v, di_vessel_name = vc_vessel_name v,
          di_allocated_duration_hours = fround 4 allocated,
          di_unallocated_duration_hours = unallocated (dl_total_duration_hours d) allocated, di_allocations = allocs\<rparr>))"

definition joined_delay_rows :: "'a canon_db_scheme \<Rightarrow> (delay \<times> vessel_call) list" where
  "joined_delay_rows s = concat (map (\<lambda>d. map (\<lambda>v. (d, v)) (filter (\<lambda>v. vc_id v = dl_vessel_call_id d) (vessel_calls s))) (delays s))"

text \<open>The arguments of the listing. A stored reason may hold interpolated numbers; \<open>shown\<close> is its text.\<close>

record delay_query =
  dq_leg :: string
  dq_movement_stage :: "string option"
  dq_canonical_category :: "string option"
  dq_cause_status :: "string option"
  dq_resolution_status :: "string option"
  dq_search :: "string option"
  dq_has_mismatch :: "bool option"
  dq_requires_review :: "bool option"

definition ilike_opt :: "string \<Rightarrow> string option \<Rightarrow> bool" where
  "ilike_opt pat x = (case x of Some v \<Rightarrow> sql_ilike pat v | None \<Rightarrow> False)"

definition containing :: "string \<Rightarrow> string" where "containing x = ''%'' @ x @ ''%''"

definition in_leg :: "string \<Rightarrow> string \<Rightarrow> bool" where
  "in_leg leg stage =
     (if leg = ''ARRIVAL_INWARD'' then sql_ilike ''%Arrival%'' stage \<or> sql_ilike ''%Inward%'' stage
      else if leg = ''SAILING_OUTWARD'' then sql_ilike ''%Sailing%'' stage \<or> sql_ilike ''%Outward%'' stage
      else if leg = ''SHIFTING'' then sql_ilike ''%Shifting%'' stage else True)"

definition search_hit :: "(fstring \<Rightarrow> string) \<Rightarrow> string \<Rightarrow> delay \<times> vessel_call \<Rightarrow> bool" where
  "search_hit shown x row = (case row of (d, v) \<Rightarrow> (let p = containing x in
     ilike_opt p (vc_vcn v) \<or> ilike_opt p (vc_vessel_name v) \<or> ilike_opt p (dl_source_delay_id d) \<or>
     ilike_opt p (map_option shown (dl_delay_reason d)) \<or> ilike_opt p (dl_source_category d) \<or> ilike_opt p (dl_canonical_category d)))"

definition matching_delays :: "(fstring \<Rightarrow> string) \<Rightarrow> delay_query \<Rightarrow> 'a canon_db_scheme \<Rightarrow> (delay \<times> vessel_call) list" where
  "matching_delays shown q s =
     opt_filter (search_hit shown) (dq_search q)
     (filter (\<lambda>(d, v). case dq_requires_review q of None \<Rightarrow> True | Some b \<Rightarrow> dl_requires_reason_review d = b)
     (filter (\<lambda>(d, v). case dq_has_mismatch q of None \<Rightarrow> True | Some b \<Rightarrow> dl_has_reconciliation_mismatch d = b)
     (opt_filter (\<lambda>x (d, v). ilike_opt x (dl_resolution_status d)) (dq_resolution_status q)
     (opt_filter (\<lambda>x (d, v). ilike_opt x (dl_cause_status d)) (dq_cause_status q)
     (opt_filter (\<lambda>x (d, v). dl_canonical_category d = Some x) (dq_canonical_category q)
     (filter (\<lambda>(d, v). in_leg (dq_leg q) (dl_movement_stage d))
     (opt_filter (\<lambda>x (d, v). sql_ilike (containing x) (dl_movement_stage d)) (dq_movement_stage q) (joined_delay_rows s))))))))"

text \<open>The sort column that \<open>sort_by\<close> names is the argument \<open>col\<close> (where NULLs go is the database's choice).\<close>

definition list_delays ::
    "(fstring \<Rightarrow> string) \<Rightarrow> delay_query \<Rightarrow> (delay \<Rightarrow> 'k::linorder) \<Rightarrow> string \<Rightarrow> nat \<Rightarrow> nat \<Rightarrow> 'a canon_db_scheme \<Rightarrow> nat \<times> delay_item list" where
  "list_delays shown q col sort_order skip limit s =
     (let matching = matching_delays shown q s;
          ordered = (if py_lower sort_order = ''desc'' then sorted_by_desc (col \<circ> fst) matching else sorted_by (col \<circ> fst) matching)
      in (length matching, map (\<lambda>(d, v). delay_item_of (allocations_of (dl_id d) s) (d, v)) (take limit (drop skip ordered))))"

definition get_delay_detail :: "uid \<Rightarrow> 'a canon_db_scheme \<Rightarrow> delay_item option" where
  "get_delay_detail i s = (case filter (\<lambda>(d, v). dl_id d = i) (joined_delay_rows s) of
       [] \<Rightarrow> None
     | row # _ \<Rightarrow> Some (delay_item_of (sorted_by_desc da_is_primary (sorted_by_desc da_duration_hours (allocations_of i s))) row))"

subsection \<open>The summary\<close>

record bucket =
  bk_name :: string
  bk_count :: nat
  bk_hours :: rat

definition empty_bucket :: "string \<Rightarrow> bucket" where
  "empty_bucket n = \<lparr>bk_name = n, bk_count = 0, bk_hours = 0\<rparr>"

definition bump :: "rat \<Rightarrow> bucket \<Rightarrow> bucket" where
  "bump h b = b\<lparr>bk_count := bk_count b + 1, bk_hours := fround 2 (fadd (bk_hours b) h)\<rparr>"

definition count_in :: "string \<Rightarrow> rat \<Rightarrow> bucket list \<Rightarrow> bucket list" where
  "count_in n h bs = upd_by bk_name n (bump h) (if n \<in> set (map bk_name bs) then bs else bs @ [empty_bucket n])"

definition non_empty_or :: "string \<Rightarrow> string option \<Rightarrow> string" where
  "non_empty_or d x = (case x of Some (c # cs) \<Rightarrow> c # cs | _ \<Rightarrow> d)"

definition category_buckets :: "delay list \<Rightarrow> bucket list" where
  "category_buckets ds = foldl (\<lambda>bs d. count_in (non_empty_or ''Other'' (dl_canonical_category d)) (dl_total_duration_hours d) bs)
     (map empty_bucket canonical_delay_categories) ds"

definition stage_buckets :: "delay list \<Rightarrow> bucket list" where
  "stage_buckets ds = foldl (\<lambda>bs d. count_in (non_empty_or ''Unknown'' (Some (dl_movement_stage d))) (dl_total_duration_hours d) bs) [] ds"

fun cumulate :: "rat \<Rightarrow> rat \<Rightarrow> bucket list \<Rightarrow> (bucket \<times> rat) list" where
  "cumulate whole running [] = []"
| "cumulate whole running (b # bs) =
     (let running' = fadd running (bk_hours b)
      in (b, if 0 < whole then fround 1 (fmul (fdiv running' whole) 100) else 0) # cumulate whole running' bs)"

record delays_summary =
  su_total_delays :: nat
  su_total_delay_hours :: rat
  su_confirmed_count :: nat
  su_inferred_count :: nat
  su_total_allocated_hours :: rat
  su_total_unallocated_hours :: rat
  su_mismatches_count :: nat
  su_review_required_count :: nat
  su_pareto_categories :: "(bucket \<times> rat) list"
  su_stage_breakdown :: "bucket list"

definition get_delays_summary :: "string \<Rightarrow> 'a canon_db_scheme \<Rightarrow> delays_summary" where
  "get_delays_summary leg s =
     (let ds = (if leg = ''ALL'' then delays s else filter (\<lambda>d. delay_leg (Some (dl_movement_stage d)) = leg) (delays s));
          allocs = filter (\<lambda>a. da_delay_id a \<in> set (map dl_id ds)) (delay_allocations s);
          whole = fround 2 (fsum (map dl_total_duration_hours ds));
          allocated = fsum (map da_duration_hours allocs);
          status = (\<lambda>x. length (filter (\<lambda>d. py_lower (or_empty (dl_cause_status d)) = x) ds))
      in \<lparr>su_total_delays = length ds, su_total_delay_hours = whole, su_confirmed_count = status ''confirmed'',
          su_inferred_count = status ''inferred'', su_total_allocated_hours = fround 2 allocated,
          su_total_unallocated_hours = max 0 (fround 2 (fsub whole allocated)),
          su_mismatches_count = length (filter dl_has_reconciliation_mismatch ds),
          su_review_required_count = length (filter dl_requires_reason_review ds),
          su_pareto_categories = cumulate whole 0 (sorted_by_desc bk_hours (filter (\<lambda>b. 0 < bk_count b) (category_buckets ds))),
          su_stage_breakdown = stage_buckets ds\<rparr>)"

subsection \<open>Allocating causes\<close>

record allocation_input =
  ai_canonical_category :: "string option"
  ai_reason :: string
  ai_duration_hours :: rat
  ai_is_primary :: bool
  ai_cause_status :: string
  ai_confidence :: "rat option"

definition new_allocation :: "uid \<Rightarrow> uid \<Rightarrow> bool \<Rightarrow> allocation_input \<Rightarrow> delay_allocation" where
  "new_allocation i delay_id primary a =
     (let cat = (case ai_canonical_category a of Some (c # cs) \<Rightarrow> c # cs | _ \<Rightarrow> map_to_canonical_category None (Some (ai_reason a)))
      in \<lparr>da_id = i, da_delay_id = delay_id, da_cause = cat, da_canonical_category = Some cat,
          da_reason = Some [Str (ai_reason a)], da_duration_hours = ai_duration_hours a, da_is_primary = primary,
          da_cause_status = ai_cause_status a, da_confidence = ai_confidence a, da_inference_evidence = [],
          da_human_review_state = ''APPROVED''\<rparr>)"

text \<open>Only the first input that asks to be primary is; when none asks, the first one is.\<close>

fun build_allocations :: "(nat \<Rightarrow> uid) \<Rightarrow> nat \<Rightarrow> uid \<Rightarrow> bool \<Rightarrow> allocation_input list \<Rightarrow> delay_allocation list" where
  "build_allocations uuid n i found [] = []"
| "build_allocations uuid n i found (a # as) =
     new_allocation (uuid n) i (ai_is_primary a \<and> \<not> found) a # build_allocations uuid (n + 1) i (found \<or> ai_is_primary a) as"

definition ensure_primary :: "delay_allocation list \<Rightarrow> delay_allocation list" where
  "ensure_primary as = (case as of [] \<Rightarrow> []
     | a # rest \<Rightarrow> if list_ex da_is_primary as then as else a\<lparr>da_is_primary := True\<rparr> # rest)"

definition allocate_causes ::
    "(nat \<Rightarrow> uid) \<Rightarrow> uid \<Rightarrow> allocation_input list \<Rightarrow> string \<Rightarrow> string \<Rightarrow> 'a canon_db_scheme \<Rightarrow> (delay_item option \<times> 'a canon_db_scheme) result" where
  "allocate_causes uuid i data actor rationale s =
     and_then (get_by dl_id i (delays s)) (\<lambda>found.
     case found of
       None \<Rightarrow> Inl (delay_not_found i)
     | Some d \<Rightarrow>
         (let sum_hours = fround 4 (fsum (map ai_duration_hours data)); whole = dl_total_duration_hours d
          in if fadd (fround 4 whole) (fl (1 / 100)) < sum_hours
             then Inl (ValueError [Lit ''Sum of allocations ('', Num sum_hours, Lit ''h) exceeds delay total duration ('', Num whole, Lit ''h)''])
             else let new = ensure_primary (build_allocations uuid (draws s) (dl_id d) False data);
                      s' = add_audit (delay_audit actor ''lead_analyst'' ''ALLOCATE_CAUSES'' ''delay_allocation'' (dl_id d)
                        [(''delay_id'', [Str (dl_id d)]), (''total_duration'', [Num whole]), (''allocations_count'', [NatF (length new)]),
                         (''allocated_hours'', [Num sum_hours]), (''unallocated_hours'', [Num (unallocated whole sum_hours)]),
                         (''rationale'', [Str rationale])])
                        (s\<lparr>delay_allocations := filter (\<lambda>a. da_delay_id a \<noteq> i) (delay_allocations s) @ new, draws := draws s + length new\<rparr>)
             in Inr (get_delay_detail (dl_id d) s', s')))"

subsection \<open>Reviewing a reason\<close>

definition reviewed_allocation :: "string \<Rightarrow> string \<Rightarrow> string \<Rightarrow> delay_allocation \<Rightarrow> delay_allocation" where
  "reviewed_allocation cat reason decision a = a\<lparr>da_canonical_category := Some cat, da_cause := cat, da_reason := Some [Str reason],
     da_human_review_state := decision, da_cause_status := (if decision = ''APPROVED'' then ''CONFIRMED'' else da_cause_status a)\<rparr>"

definition new_reviewed :: "uid \<Rightarrow> string \<Rightarrow> string \<Rightarrow> string \<Rightarrow> delay \<Rightarrow> delay_allocation" where
  "new_reviewed i cat reason decision d =
     \<lparr>da_id = i, da_delay_id = dl_id d, da_cause = cat, da_canonical_category = Some cat, da_reason = Some [Str reason],
      da_duration_hours = dl_total_duration_hours d, da_is_primary = True,
      da_cause_status = (if decision = ''APPROVED'' then ''CONFIRMED'' else ''INFERRED''), da_confidence = Some 1,
      da_inference_evidence = [], da_human_review_state = decision\<rparr>"

definition reviewed_delay :: "string \<Rightarrow> string \<Rightarrow> string \<Rightarrow> delay \<Rightarrow> delay" where
  "reviewed_delay cat reason decision d = d\<lparr>dl_canonical_category := Some cat, dl_delay_reason := Some [Str reason],
     dl_requires_reason_review := False, dl_resolution_status := Some (if decision = ''APPROVED'' then ''Closed'' else ''Under Review'')\<rparr>"

definition review_delay_reason ::
    "(nat \<Rightarrow> uid) \<Rightarrow> uid \<Rightarrow> string \<Rightarrow> string \<Rightarrow> string \<Rightarrow> string \<Rightarrow> string option \<Rightarrow> 'a canon_db_scheme \<Rightarrow>
     (delay_item option \<times> 'a canon_db_scheme) result" where
  "review_delay_reason uuid i cat reason actor decision notes' s =
     and_then (get_by dl_id i (delays s)) (\<lambda>found.
     case found of
       None \<Rightarrow> Inl (delay_not_found i)
     | Some d \<Rightarrow>
         and_then (one_or_none (filter (\<lambda>a. da_delay_id a = dl_id d \<and> da_is_primary a) (delay_allocations s))) (\<lambda>alloc.
           let s1 = (case alloc of
                 Some a \<Rightarrow> s\<lparr>delay_allocations := upd_by da_id (da_id a) (reviewed_allocation cat reason decision) (delay_allocations s)\<rparr>
               | None \<Rightarrow> s\<lparr>delay_allocations := delay_allocations s @ [new_reviewed (uuid (draws s)) cat reason decision d], draws := draws s + 1\<rparr>);
               s' = add_audit (delay_audit actor ''lead_analyst'' ''REVIEW_DELAY_REASON'' ''delay'' (dl_id d)
                 [(''decision'', [Str decision]), (''canonical_category'', [Str cat]), (''reason'', [Str reason]), (''notes'', [OStr notes'])])
                 (s1\<lparr>delays := upd_by dl_id (dl_id d) (reviewed_delay cat reason decision) (delays s1)\<rparr>)
           in Inr (get_delay_detail (dl_id d) s', s')))"

section \<open>Lookups after an update\<close>

lemma get_by_upd_same:
  assumes "get_by key k rows = Inr (Some r)" "\<And>x. key (f x) = key x"
  shows "get_by key k (upd_by key k f rows) = Inr (Some (f r))"
proof -
  have "filter (\<lambda>x. key x = k) (upd_by key k f rows) = map f (filter (\<lambda>x. key x = k) rows)"
    unfolding upd_by_def by (induction rows) (simp_all add: assms(2))
  moreover have "filter (\<lambda>x. key x = k) rows = [r]" using assms(1) one_or_none_SomeD by (simp add: get_by_def)
  ultimately show ?thesis by (simp add: get_by_def)
qed

lemma filter_upd_by_other:
  "(\<And>x. key (f x) = key x) \<Longrightarrow> filter (\<lambda>x. key x \<noteq> k) (upd_by key k f rows) = filter (\<lambda>x. key x \<noteq> k) rows"
  unfolding upd_by_def by (induction rows) simp_all

text \<open>Updating one row by its identifier, seen through a filter: the row leaves or stays as the update decides.\<close>

lemma filter_upd_by_one:
  assumes "distinct (map key rows)" "r \<in> set rows" "\<not> p r" "\<not> p (f r)"
  shows "filter p (upd_by key (key r) f rows) = filter p rows"
  using assms
proof (induction rows)
  case (Cons a rows)
  then show ?case
  proof (cases "a = r")
    case True
    then have "\<forall>x \<in> set rows. key x \<noteq> key r" using Cons.prems(1) by (auto simp: image_iff)
    then have "upd_by key (key r) f rows = rows" unfolding upd_by_def by (simp add: map_idI)
    then show ?thesis using True Cons.prems by (simp add: upd_by_def)
  next
    case False
    then have "r \<in> set rows" "key a \<noteq> key r" using Cons.prems(1,2) by (auto simp: image_iff)
    then show ?thesis using Cons.IH Cons.prems by (simp add: upd_by_def)
  qed
qed simp

lemma dl_id_updates [simp]: "dl_id (mark_inferred p d) = dl_id d" "dl_id (reviewed_delay c r dec d) = dl_id d"
  by (simp_all add: mark_inferred_def reviewed_delay_def)

lemma da_updates [simp]:
  "da_id (reinfer now actor p a) = da_id a" "da_delay_id (reinfer now actor p a) = da_delay_id a"
  "da_cause_status (reinfer now actor p a) = da_cause_status a" "da_is_primary (reinfer now actor p a) = da_is_primary a"
  "da_id (reviewed_allocation c r dec a) = da_id a" "da_delay_id (reviewed_allocation c r dec a) = da_delay_id a"
  "da_is_primary (reviewed_allocation c r dec a) = da_is_primary a"
  "da_cause_status (new_inferred i now actor p d) = ''INFERRED''" "da_delay_id (new_inferred i now actor p d) = dl_id d"
  "da_is_primary (new_inferred i now actor p d)" "da_human_review_state (new_inferred i now actor p d) = ''PENDING_REVIEW''"
  "da_human_review_state (reinfer now actor p a) = ''PENDING_REVIEW''"
  by (simp_all add: reinfer_def reviewed_allocation_def new_inferred_def)

section \<open>Inference\<close>

lemma apply_inference_sel [simp]:
  "delays (apply_inference uuid now actor p d alloc s) = upd_by dl_id (dl_id d) (mark_inferred p) (delays s)"
  "delay_allocations (apply_inference uuid now actor p d None s) = delay_allocations s @ [new_inferred (uuid (draws s)) now actor p d]"
  "delay_allocations (apply_inference uuid now actor p d (Some a) s) = upd_by da_id (da_id a) (reinfer now actor p) (delay_allocations s)"
  by (cases alloc; simp add: apply_inference_def)+

lemma infer_open:
  assumes "get_by dl_id i (delays s) = Inr (Some d)" "\<not> is_confirmed d \<or> force"
  shows "infer_delay_cause uuid now i actor force s = and_then (one_or_none (inferred_allocations i s))
     (\<lambda>alloc. Inr (Inferred (propose d (service_evidence d s)), apply_inference uuid now actor (propose d (service_evidence d s)) d alloc s))"
proof -
  have "dl_id d = i" "(is_confirmed d \<and> \<not> force) = False" using get_by_SomeD [OF assms(1)] assms(2) by blast+
  then show ?thesis by (simp only: infer_delay_cause_def assms(1) and_then_simps option.case if_False Let_def)
qed

text \<open>The outcomes of an inference on an existing delay.\<close>

lemma infer_cases:
  assumes "get_by dl_id i (delays s) = Inr (Some d)" "infer_delay_cause uuid now i actor force s = Inr (out, s')"
  obtains "is_confirmed d" "\<not> force" "out = Declined (dl_cause_status d) (dl_delay_reason d) (dl_canonical_category d)" "s' = s"
  | p alloc where "\<not> is_confirmed d \<or> force" "out = Inferred p" "s' = apply_inference uuid now actor p d alloc s"
      "one_or_none (inferred_allocations i s) = Inr alloc"
proof (cases "is_confirmed d \<and> \<not> force")
  case True
  then show ?thesis using that(1) assms by (simp add: infer_delay_cause_def)
next
  case False
  then have o': "\<not> is_confirmed d \<or> force" by blast
  show ?thesis using assms(2) that(2) [OF o'] unfolding infer_open [OF assms(1) o'] by auto
qed


definition bare_delay :: "uid \<Rightarrow> string \<Rightarrow> delay" where
  "bare_delay i status = \<lparr>dl_id = i, dl_source_lineage_id = None, dl_vessel_call_id = ''c'', dl_source_delay_id = None, dl_movement_stage = ''Arrival'',
     dl_total_duration_hours = 2, dl_is_early_service = False, dl_scheduled_time = None, dl_served_time = None,
     dl_delay_hours = Some 2, dl_recalculated_delay_hours = None, dl_delay_reason = None, dl_source_category = None,
     dl_canonical_category = None, dl_cause_status = Some status, dl_confidence = None, dl_resolution_status = None,
     dl_has_reconciliation_mismatch = False, dl_reconciliation_notes = None, dl_requires_reason_review = True\<rparr>"

definition one_delay_db :: "string \<Rightarrow> canon_db" where
  "one_delay_db status = \<lparr>vessel_calls = [], event_occurrences = [], event_definitions = [], service_requests = [],
     service_assignments = [], service_executions = [], delays = [bare_delay ''d'' status], delay_allocations = [],
     cargo_operations = [], quality_rules = [], quality_issues = [], audit_log = [], draws = 0\<rparr>"

lemma one_delay_db_sel [simp]:
  "get_by dl_id ''d'' (delays (one_delay_db status)) = Inr (Some (bare_delay ''d'' status))"
  "delay_allocations (one_delay_db status) = []" "draws (one_delay_db status) = 0"
  "dl_id (bare_delay i status) = i" "dl_cause_status (bare_delay i status) = Some status"
  by (simp_all add: one_delay_db_def bare_delay_def get_by_def)


section \<open>Review and inference\<close>

lemma review_run:
  assumes "get_by dl_id i (delays s) = Inr (Some d)" "review_delay_reason uuid i cat reason actor decision n s = Inr (x, s')"
  obtains alloc where "delays s' = upd_by dl_id i (reviewed_delay cat reason decision) (delays s)"
    "one_or_none (filter (\<lambda>a. da_delay_id a = i \<and> da_is_primary a) (delay_allocations s)) = Inr alloc"
    "delay_allocations s' = (case alloc of
        Some a \<Rightarrow> upd_by da_id (da_id a) (reviewed_allocation cat reason decision) (delay_allocations s)
      | None \<Rightarrow> delay_allocations s @ [new_reviewed (uuid (draws s)) cat reason decision d])"
    "service_requests s' = service_requests s" "service_assignments s' = service_assignments s" "service_executions s' = service_executions s"
proof -
  have i: "dl_id d = i" using get_by_SomeD [OF assms(1)] by simp
  obtain alloc where alloc: "one_or_none (filter (\<lambda>a. da_delay_id a = i \<and> da_is_primary a) (delay_allocations s)) = Inr alloc"
    using assms(2) unfolding review_delay_reason_def assms(1) and_then_simps option.case i by (auto elim!: and_then_InrE)
  have "delays s' = upd_by dl_id i (reviewed_delay cat reason decision) (delays s) \<and>
      delay_allocations s' = (case alloc of
        Some a \<Rightarrow> upd_by da_id (da_id a) (reviewed_allocation cat reason decision) (delay_allocations s)
      | None \<Rightarrow> delay_allocations s @ [new_reviewed (uuid (draws s)) cat reason decision d]) \<and>
      service_requests s' = service_requests s \<and> service_assignments s' = service_assignments s \<and> service_executions s' = service_executions s"
    using assms(2) unfolding review_delay_reason_def assms(1) and_then_simps option.case i alloc Let_def by (cases alloc) auto
  then show thesis using that alloc by blast
qed

text \<open>The steward's decision on an inferred delay does not last. An approved review closes the delay with the
  steward's reason, but leaves its header status Inferred; the next inference on the same delay is therefore not
  declined: it replaces the approved reason by an inferred one, although its contract is never to override a
  confirmed reason.\<close>

theorem approved_reason_overwritten:
  assumes "get_by dl_id i (delays s) = Inr (Some d)" "\<not> is_confirmed d"
    and "review_delay_reason uuid i cat reason actor ''APPROVED'' n s = Inr (x, s')"
    and "inferred_allocations i s' = []"
  shows "\<exists>p s''. infer_delay_cause uuid now i agent False s' = Inr (Inferred p, s'') \<and>
    get_by dl_id i (delays s') = Inr (Some (reviewed_delay cat reason ''APPROVED'' d)) \<and>
    get_by dl_id i (delays s'') = Inr (Some (mark_inferred p (reviewed_delay cat reason ''APPROVED'' d))) \<and>
    dl_delay_reason (mark_inferred p (reviewed_delay cat reason ''APPROVED'' d)) = Some (inferred_reason p)"
proof -
  let ?d = "reviewed_delay cat reason ''APPROVED'' d"
  have i: "dl_id d = i" using get_by_SomeD [OF assms(1)] by simp
  have ds: "delays s' = upd_by dl_id i (reviewed_delay cat reason ''APPROVED'') (delays s)" by (rule review_run [OF assms(1,3)])
  have d': "get_by dl_id i (delays s') = Inr (Some ?d)" unfolding ds by (rule get_by_upd_same [OF assms(1)]) simp
  have "\<not> is_confirmed ?d" using assms(2) by (simp add: is_confirmed_def reviewed_delay_def)
  then have run: "infer_delay_cause uuid now i agent False s' = Inr (Inferred (propose ?d (service_evidence ?d s')),
      apply_inference uuid now agent (propose ?d (service_evidence ?d s')) ?d None s')"
    using infer_open [OF d', of False] by (simp add: assms(4))
  moreover have "get_by dl_id i (delays (apply_inference uuid now agent p ?d None s')) = Inr (Some (mark_inferred p ?d))" for p
    using get_by_upd_same [OF d', of "mark_inferred p"] by (simp add: i)
  ultimately show ?thesis using d' by (intro exI conjI) (auto simp: mark_inferred_def)
qed

theorem approved_reason_overwritten_witness:
  "\<exists>s' x p s''. review_delay_reason (\<lambda>n. replicate n CHR ''a'') ''d'' ''Tug'' ''no tug'' ''st'' ''APPROVED'' None (one_delay_db ''Inferred'') = Inr (x, s') \<and>
     infer_delay_cause (\<lambda>n. replicate n CHR ''a'') 0 ''d'' ''x'' False s' = Inr (Inferred p, s'')"
proof -
  have d: "\<not> is_confirmed (bare_delay ''d'' ''Inferred'')" by (simp add: is_confirmed_def) code_simp
  obtain x s' where run: "review_delay_reason (\<lambda>n. replicate n CHR ''a'') ''d'' ''Tug'' ''no tug'' ''st'' ''APPROVED'' None (one_delay_db ''Inferred'') = Inr (x, s')"
      "delay_allocations s' = [new_reviewed ''''  ''Tug'' ''no tug'' ''APPROVED'' (bare_delay ''d'' ''Inferred'')]"
    by (simp add: review_delay_reason_def Let_def)
  then have "inferred_allocations ''d'' s' = []" by (simp add: inferred_allocations_def new_reviewed_def)
  from approved_reason_overwritten [OF one_delay_db_sel(1) d run(1) this, of 0 "''x''"] run(1) show ?thesis by blast
qed

section \<open>Allocating causes\<close>

lemma build_allocations_sel:
  "length (build_allocations uuid n i found as) = length as"
  "map da_duration_hours (build_allocations uuid n i found as) = map ai_duration_hours as"
  "\<forall>a \<in> set (build_allocations uuid n i found as). da_delay_id a = i"
  by (induction as arbitrary: n found) (simp_all add: new_allocation_def Let_def)

lemma build_allocations_found: "filter da_is_primary (build_allocations uuid n i True as) = []"
  by (induction as arbitrary: n) (simp_all add: new_allocation_def Let_def)

lemma build_allocations_primary: "length (filter da_is_primary (build_allocations uuid n i False as)) \<le> 1"
  by (induction as arbitrary: n) (simp_all add: new_allocation_def Let_def build_allocations_found)

lemma ensure_primary_sel:
  "length (ensure_primary as) = length as" "map da_duration_hours (ensure_primary as) = map da_duration_hours as"
  "\<forall>a \<in> set as. da_delay_id a = i \<Longrightarrow> \<forall>a \<in> set (ensure_primary as). da_delay_id a = i"
  by (cases as; simp add: ensure_primary_def)+

lemma ensure_primary_one:
  assumes "length (filter da_is_primary as) \<le> 1" "as \<noteq> []"
  shows "length (filter da_is_primary (ensure_primary as)) = 1"
proof (cases "list_ex da_is_primary as")
  case True
  then have "filter da_is_primary as \<noteq> []" by (auto simp: list_ex_iff filter_empty_conv)
  then have "length (filter da_is_primary as) = 1" using assms(1) by (cases "filter da_is_primary as") auto
  then show ?thesis using True assms(2) by (cases as) (simp_all add: ensure_primary_def)
next
  case False
  then have "filter da_is_primary as = []" by (auto simp: list_ex_iff filter_empty_conv)
  then show ?thesis using False assms(2) by (cases as) (auto simp: ensure_primary_def)
qed

text \<open>Allocating causes replaces all allocations of the delay: one row per input with its duration, exactly one
  primary (none when there is no input), the computed sum within the delay's duration plus 0.01 hours, and the
  allocations of every other delay untouched. An input that exceeds the duration is refused.\<close>

theorem allocate_causes_replaces:
  assumes "get_by dl_id i (delays s) = Inr (Some d)"
  shows "\<exists>total cap. total = fround 4 (fsum (map ai_duration_hours data)) \<and> cap = fadd (fround 4 (dl_total_duration_hours d)) (fl (1 / 100)) \<and>
    (case allocate_causes uuid i data actor why s of
       Inl e \<Rightarrow> cap < total
     | Inr (x, s') \<Rightarrow> total \<le> cap \<and> map da_duration_hours (allocations_of i s') = map ai_duration_hours data \<and>
         length (filter da_is_primary (allocations_of i s')) = (if data = [] then 0 else 1) \<and>
         filter (\<lambda>a. da_delay_id a \<noteq> i) (delay_allocations s') = filter (\<lambda>a. da_delay_id a \<noteq> i) (delay_allocations s))"
proof (intro exI conjI refl)
  let ?total = "fround 4 (fsum (map ai_duration_hours data))" and ?cap = "fadd (fround 4 (dl_total_duration_hours d)) (fl (1 / 100))"
  have i: "dl_id d = i" using get_by_SomeD [OF assms] by simp
  let ?new = "ensure_primary (build_allocations uuid (draws s) i False data)"
  have new: "\<forall>a \<in> set ?new. da_delay_id a = i" by (intro ensure_primary_sel(3) build_allocations_sel)
  have split: "filter (\<lambda>a. da_delay_id a = i) (filter (\<lambda>a. da_delay_id a \<noteq> i) xs @ ?new) = ?new"
    "filter (\<lambda>a. da_delay_id a \<noteq> i) (filter (\<lambda>a. da_delay_id a \<noteq> i) xs @ ?new) = filter (\<lambda>a. da_delay_id a \<noteq> i) xs" for xs
    using new by (simp_all add: filter_empty_conv filter_id_conv)
  have one: "length (filter da_is_primary ?new) = (if data = [] then 0 else 1)"
  proof (cases "data = []")
    case False
    then have "build_allocations uuid (draws s) i False data \<noteq> []" by (cases data) simp_all
    then show ?thesis using ensure_primary_one [OF build_allocations_primary] False by simp
  qed (simp add: ensure_primary_def)
  show "case allocate_causes uuid i data actor why s of
       Inl e \<Rightarrow> ?cap < ?total
     | Inr (x, s') \<Rightarrow> ?total \<le> ?cap \<and> map da_duration_hours (allocations_of i s') = map ai_duration_hours data \<and>
         length (filter da_is_primary (allocations_of i s')) = (if data = [] then 0 else 1) \<and>
         filter (\<lambda>a. da_delay_id a \<noteq> i) (delay_allocations s') = filter (\<lambda>a. da_delay_id a \<noteq> i) (delay_allocations s)"
  proof (cases "?cap < ?total")
    case True
    then show ?thesis by (simp add: allocate_causes_def assms Let_def)
  next
    case False
    then obtain x s' where run: "allocate_causes uuid i data actor why s = Inr (x, s')"
      "delay_allocations s' = filter (\<lambda>a. da_delay_id a \<noteq> i) (delay_allocations s) @ ?new"
      by (simp add: allocate_causes_def assms Let_def i)
    have a: "allocations_of i s' = ?new" unfolding allocations_of_def run(2) by (rule split(1))
    have b: "filter (\<lambda>a. da_delay_id a \<noteq> i) (delay_allocations s') = filter (\<lambda>a. da_delay_id a \<noteq> i) (delay_allocations s)"
      unfolding run(2) by (rule split(2))
    show ?thesis using False b by (simp only: run(1) sum.case prod.case a one ensure_primary_sel(2) build_allocations_sel(2)) simp
  qed
qed (rule refl)+

theorem allocate_causes_replaces_witness:
  "\<exists>x s'. allocate_causes (\<lambda>n. replicate n CHR ''a'') ''d'' [] ''x'' ''y'' (one_delay_db ''Open'') = Inr (x, s') \<and> allocations_of ''d'' s' = []"
proof -
  have "\<not> fadd (fround 4 2) (fl (1 / 100)) < fround 4 (fsum [])" by code_simp
  then show ?thesis
    using allocate_causes_replaces [OF one_delay_db_sel(1) [of "''Open''"], of "[]" "\<lambda>n. replicate n CHR ''a''" "''x''" "''y''"]
    by (auto simp: bare_delay_def split: sum.splits)
qed

section \<open>The summary\<close>

lemma upd_by_absent: "k \<notin> set (map key rows) \<Longrightarrow> upd_by key k f rows = rows"
  unfolding upd_by_def by (rule map_idI) (auto simp: image_iff)

lemma sum_list_upd_by:
  assumes "distinct (map key rows)" "k \<in> set (map key rows)" "\<And>r. g (f r) = g r + 1"
  shows "sum_list (map g (upd_by key k f rows)) = sum_list (map g rows) + (1 :: nat)"
  using assms(1,2)
proof (induction rows)
  case (Cons a rows)
  show ?case
  proof (cases "key a = k")
    case True
    then have "k \<notin> set (map key rows)" using Cons.prems(1) by simp
    from upd_by_absent [OF this, of f] show ?thesis using True by (simp add: upd_by_def assms(3))
  next
    case False
    then show ?thesis using Cons by (auto simp: upd_by_def)
  qed
qed simp

lemma bump_sel [simp]: "bk_name (bump h b) = bk_name b" "bk_count (bump h b) = bk_count b + 1"
  by (simp_all add: bump_def)

lemma names_count_in: "map bk_name (count_in n h bs) = map bk_name bs @ (if n \<in> set (map bk_name bs) then [] else [n])"
  unfolding count_in_def by (subst map_upd_by_key) (simp_all add: empty_bucket_def)

lemma total_count_in:
  assumes "distinct (map bk_name bs)"
  shows "sum_list (map bk_count (count_in n h bs)) = sum_list (map bk_count bs) + 1"
proof -
  let ?bs = "if n \<in> set (map bk_name bs) then bs else bs @ [empty_bucket n]"
  have "distinct (map bk_name ?bs)" "n \<in> set (map bk_name ?bs)" using assms by (auto simp: empty_bucket_def)
  from sum_list_upd_by [OF this, of bk_count "bump h"] show ?thesis
    unfolding count_in_def by (simp add: empty_bucket_def)
qed

text \<open>Counting the items of a list into buckets by name.\<close>

lemma count_all:
  assumes "distinct (map bk_name bs)"
  shows "distinct (map bk_name (foldl (\<lambda>bs d. count_in (nm d) (hr d) bs) bs ds))"
    and "sum_list (map bk_count (foldl (\<lambda>bs d. count_in (nm d) (hr d) bs) bs ds)) = sum_list (map bk_count bs) + length ds"
proof -
  have next_ok: "distinct (map bk_name bs) \<Longrightarrow> distinct (map bk_name (count_in n h bs))" for n h bs
    by (auto simp: names_count_in)
  show "distinct (map bk_name (foldl (\<lambda>bs d. count_in (nm d) (hr d) bs) bs ds))"
    using assms by (induction ds arbitrary: bs) (simp_all add: next_ok)
  show "sum_list (map bk_count (foldl (\<lambda>bs d. count_in (nm d) (hr d) bs) bs ds)) = sum_list (map bk_count bs) + length ds"
    using assms by (induction ds arbitrary: bs) (simp_all add: next_ok total_count_in)
qed

lemma sum_list_filter_pos: "sum_list (map g (filter (\<lambda>b. 0 < g b) bs)) = (sum_list (map g bs) :: nat)"
  by (induction bs) simp_all

lemma list_all_via: "map f xs = ys \<Longrightarrow> list_all P ys \<Longrightarrow> list_all (\<lambda>x. P (f x)) xs"
  by (auto simp: list_all_iff)

lemma sorted_wrt_via: "map f xs = ys \<Longrightarrow> sorted_wrt R ys \<Longrightarrow> sorted_wrt (\<lambda>a b. R (f a) (f b)) xs"
  by (auto simp: sorted_wrt_map)

lemma map_fst_cumulate: "map fst (cumulate whole r bs) = bs"
  by (induction bs arbitrary: r) (simp_all add: Let_def)

text \<open>The Pareto table accounts for every delay of the leg once: its categories are distinct and non-empty,
  their counts add up to the number of delays (so do those of the stages), and it is ordered by falling hours.\<close>

theorem pareto_accounts_for_all:
  "sum_list (map (bk_count \<circ> fst) (su_pareto_categories (get_delays_summary leg s))) = su_total_delays (get_delays_summary leg s) \<and>
   sum_list (map bk_count (su_stage_breakdown (get_delays_summary leg s))) = su_total_delays (get_delays_summary leg s) \<and>
   distinct (map (bk_name \<circ> fst) (su_pareto_categories (get_delays_summary leg s))) \<and>
   list_all (\<lambda>b. 0 < bk_count (fst b)) (su_pareto_categories (get_delays_summary leg s)) \<and>
   sorted_wrt (\<lambda>a b. bk_hours (fst b) \<le> bk_hours (fst a)) (su_pareto_categories (get_delays_summary leg s))"
proof -
  define ds where "ds = (if leg = ''ALL'' then delays s else filter (\<lambda>d. delay_leg (Some (dl_movement_stage d)) = leg) (delays s))"
  define ranked where "ranked = sorted_by_desc bk_hours (filter (\<lambda>b. 0 < bk_count b) (category_buckets ds))"
  have init: "distinct (map bk_name (map empty_bucket canonical_delay_categories))"
    "sum_list (map bk_count (map empty_bucket canonical_delay_categories)) = 0"
    by (simp_all add: canonical_delay_categories_def empty_bucket_def)
  have cat: "distinct (map bk_name (category_buckets ds))" "sum_list (map bk_count (category_buckets ds)) = length ds"
    unfolding category_buckets_def count_all(2) [OF init(1)] init(2) by (rule count_all(1) [OF init(1)]) simp
  have stage: "sum_list (map bk_count (stage_buckets ds)) = length ds"
    unfolding stage_buckets_def by (subst count_all(2)) simp_all
  obtain whole where p: "su_pareto_categories (get_delays_summary leg s) = cumulate whole 0 ranked"
    "su_total_delays (get_delays_summary leg s) = length ds" "su_stage_breakdown (get_delays_summary leg s) = stage_buckets ds"
    by (simp add: get_delays_summary_def ds_def ranked_def Let_def)
  have c: "map fst (cumulate whole 0 ranked) = ranked" by (rule map_fst_cumulate)
  have m: "map (g \<circ> fst) (cumulate whole 0 ranked) = map g ranked" for g :: "bucket \<Rightarrow> 'b"
    using arg_cong [OF c, of "map g"] by simp
  have perm: "mset ranked = mset (filter (\<lambda>b. 0 < bk_count b) (category_buckets ds))" by (simp add: ranked_def)
  have "sum_list (map bk_count ranked) = sum_list (map bk_count (filter (\<lambda>b. 0 < bk_count b) (category_buckets ds)))"
    using arg_cong [OF perm, of "\<lambda>m. sum_mset (image_mset bk_count m)"] by (simp only: sum_mset_sum_list flip: mset_map)
  then have "sum_list (map (bk_count \<circ> fst) (cumulate whole 0 ranked)) = length ds"
    unfolding m sum_list_filter_pos cat(2) .
  moreover have "mset (map bk_name ranked) = mset (map bk_name (filter (\<lambda>b. 0 < bk_count b) (category_buckets ds)))"
    using perm by simp
  then have "distinct (map (bk_name \<circ> fst) (cumulate whole 0 ranked))"
    unfolding m using distinct_map_filter [OF cat(1)] mset_eq_imp_distinct_iff by blast
  moreover have "list_all (\<lambda>b. 0 < bk_count (fst b)) (cumulate whole 0 ranked)"
    by (rule list_all_via [OF c]) (auto simp: ranked_def list_all_iff)
  moreover have "sorted_wrt (\<lambda>a b. bk_hours (fst b) \<le> bk_hours (fst a)) (cumulate whole 0 ranked)"
    by (rule sorted_wrt_via [OF c]) (unfold ranked_def, rule sorted_by_desc_sorted)
  ultimately show ?thesis unfolding p using stage by blast
qed

end
