(* ===== verification/Journey.thy ===== *)
theory Journey
  imports Platform Delays "HOL-Library.Product_Lexorder" "HOL-Library.List_Lexorder" "HOL-Library.Char_ord"
begin

text \<open>
  Vessel journeys (\<open>apps/api/services/journey\<close>): the template catalogue, the selection of the governing
  observation, the reconstruction of a call's journey with its time decomposition, and steward corrections.
  The YAML files are arguments. A reconstruction that raises keeps what it wrote before, so the operations
  return the state together with the result.
\<close>

section \<open>Operations that may fail half-way\<close>

type_synonym ('s, 'a) attempt = "'s \<times> 'a result"

definition seq_try :: "('s, 'a) attempt \<Rightarrow> ('a \<Rightarrow> 's \<Rightarrow> ('s, 'b) attempt) \<Rightarrow> ('s, 'b) attempt" where
  "seq_try m k = (case m of (s, Inl e) \<Rightarrow> (s, Inl e) | (s, Inr x) \<Rightarrow> k x s)"

lemma seq_try_simps [simp]: "seq_try (s, Inl e) k = (s, Inl e)" "seq_try (s, Inr x) k = k x s"
  by (simp_all add: seq_try_def)

lemma seq_try_Inr: "seq_try m k = (s', Inr y) \<longleftrightarrow> (\<exists>s1 x. m = (s1, Inr x) \<and> k x s1 = (s', Inr y))"
  by (cases m; cases "snd m") (auto simp: seq_try_def)

text \<open>A loop over a list that collects results.\<close>

fun each_try :: "('x \<Rightarrow> 's \<Rightarrow> ('s, 'a) attempt) \<Rightarrow> 'x list \<Rightarrow> 's \<Rightarrow> ('s, 'a list) attempt" where
  "each_try f [] s = (s, Inr [])"
| "each_try f (x # xs) s = seq_try (f x s) (\<lambda>y s1. seq_try (each_try f xs s1) (\<lambda>ys s2. (s2, Inr (y # ys))))"

section \<open>Templates (\<open>template_loader.py\<close>)\<close>

definition repeatable_events :: "string list" where
  "repeatable_events = [''SHIFT_PILOT_ON_BOARD'', ''SHIFT_ALL_FAST'']"

text \<open>A stage and a template of \<open>config/journey_templates.yaml\<close>.\<close>

record stage_config =
  sg_name :: string
  sg_sequence_index :: "int option"
  sg_start_event :: "string option"
  sg_end_event :: "string option"
  sg_time_category :: "string option"
  sg_actor_from :: "string option"
  sg_actor_to :: "string option"
  sg_is_optional :: bool
  sg_is_repeatable :: bool

record template_config =
  tg_name :: string
  tg_rule_version :: "string option"
  tg_stages :: "stage_config list"

definition load_raw_template :: "string \<Rightarrow> template_config list \<Rightarrow> template_config result" where
  "load_raw_template path templates = (case templates of
       [] \<Rightarrow> Inl (ValueError [Lit ''No journey templates defined in '', Str path])
     | t # _ \<Rightarrow> Inr t)"

definition stage_row :: "uid \<Rightarrow> uid \<Rightarrow> stage_config \<Rightarrow> journey_stage" where
  "stage_row i template_id c =
     \<lparr>js_id = i, js_template_id = template_id, js_stage_name = sg_name c,
      js_sequence_index = (case sg_sequence_index c of Some n \<Rightarrow> n | None \<Rightarrow> 0),
      js_start_event_name = sg_start_event c, js_end_event_name = sg_end_event c,
      js_time_category = (case sg_time_category c of Some t \<Rightarrow> t | None \<Rightarrow> ''UNCLASSIFIED''),
      js_actor_from = sg_actor_from c, js_actor_to = sg_actor_to c, js_is_optional = sg_is_optional c,
      js_is_repeatable = sg_is_repeatable c\<rparr>"

definition upsert_stage ::
    "(nat \<Rightarrow> uid) \<Rightarrow> uid \<Rightarrow> journey_stage list \<Rightarrow> stage_config \<Rightarrow> 'a platform_db_scheme \<Rightarrow> journey_stage \<times> 'a platform_db_scheme" where
  "upsert_stage uuid template_id existing c s =
     (case last_with (\<lambda>r. js_stage_name r = sg_name c) existing of
        Some r \<Rightarrow> (let row = stage_row (js_id r) template_id c
                   in (row, s\<lparr>journey_stages := upd_by js_id (js_id r) (\<lambda>_. row) (journey_stages s)\<rparr>))
      | None \<Rightarrow> (let row = stage_row (uuid (draws s)) template_id c
                 in (row, s\<lparr>journey_stages := journey_stages s @ [row], draws := draws s + 1\<rparr>)))"

fun upsert_stages ::
    "(nat \<Rightarrow> uid) \<Rightarrow> uid \<Rightarrow> journey_stage list \<Rightarrow> stage_config list \<Rightarrow> 'a platform_db_scheme \<Rightarrow> journey_stage list \<times> 'a platform_db_scheme" where
  "upsert_stages uuid t existing [] s = ([], s)"
| "upsert_stages uuid t existing (c # cs) s =
     (let (row, s1) = upsert_stage uuid t existing c s; (rows, s2) = upsert_stages uuid t existing cs s1 in (row # rows, s2))"

definition upsert_template ::
    "(nat \<Rightarrow> uid) \<Rightarrow> template_config \<Rightarrow> journey_template option \<Rightarrow> 'a platform_db_scheme \<Rightarrow> journey_template \<times> 'a platform_db_scheme" where
  "upsert_template uuid raw found s =
     (let version = (case tg_rule_version raw of Some v \<Rightarrow> v | None \<Rightarrow> ''1.0'')
      in case found of
           Some t \<Rightarrow> (t\<lparr>jt_rule_version := version\<rparr>,
             s\<lparr>journey_templates := upd_by jt_id (jt_id t) (\<lambda>t. t\<lparr>jt_rule_version := version\<rparr>) (journey_templates s)\<rparr>)
         | None \<Rightarrow> (let t = \<lparr>jt_id = uuid (draws s), jt_name = tg_name raw, jt_rule_version = version\<rparr>
             in (t, s\<lparr>journey_templates := journey_templates s @ [t], draws := draws s + 1\<rparr>)))"

definition ensure_template ::
    "(nat \<Rightarrow> uid) \<Rightarrow> template_config \<Rightarrow> 'a platform_db_scheme \<Rightarrow> ((journey_template \<times> journey_stage list) \<times> 'a platform_db_scheme) result" where
  "ensure_template uuid raw s =
     and_then (get_by jt_name (tg_name raw) (journey_templates s)) (\<lambda>found.
       let (template, s1) = upsert_template uuid raw found s;
           (rows, s2) = upsert_stages uuid (jt_id template) (filter (\<lambda>r. js_template_id r = jt_id template) (journey_stages s1))
             (tg_stages raw) s1
       in Inr ((template, sorted_by js_sequence_index rows), s2))"

section \<open>The governing observation (\<open>canonical_selector.py\<close>)\<close>

record selector =
  sl_verification_priority :: "string list"
  sl_source_priority :: "string list"

definition default_selector :: selector where
  "default_selector = \<lparr>sl_verification_priority = [''Verified'', ''Conflicting''], sl_source_priority = []\<rparr>"

text \<open>\<open>xs.index(x)\<close>, or \<open>len(xs)\<close> when \<open>x\<close> is not in it.\<close>

definition index_or_len :: "string option \<Rightarrow> string list \<Rightarrow> nat" where
  "index_or_len x xs = length (takeWhile (\<lambda>y. x \<noteq> Some y) xs)"

definition occurrence_rank :: "selector \<Rightarrow> event_occurrence \<Rightarrow> nat \<times> rat \<times> nat \<times> time" where
  "occurrence_rank sel e =
     (index_or_len (eo_verification_status e) (sl_verification_priority sel),
      - (case eo_confidence e of Some c \<Rightarrow> c | None \<Rightarrow> 0),
      index_or_len (eo_source_system e) (sl_source_priority sel), eo_created_at e)"

definition find_related_quality_issue :: "uid \<Rightarrow> uid list \<Rightarrow> 'a canon_db_scheme \<Rightarrow> uid option" where
  "find_related_quality_issue call_id ids s =
     map_option qi_id (find (\<lambda>i. qi_record_reference i \<in> set (map (\<lambda>x. ''EventOccurrence:'' @ x) ids))
       (filter (\<lambda>i. qi_vessel_call_id i = Some call_id \<and> list_ex (\<lambda>r. qr_id r = qi_rule_id i) (quality_rules s)) (quality_issues s)))"

definition or_zero :: "rat option \<Rightarrow> rat" where
  "or_zero x = (case x of Some v \<Rightarrow> v | None \<Rightarrow> 0)"

text \<open>A value between apostrophes.\<close>

definition quoted :: "string option \<Rightarrow> fstring" where
  "quoted x = [Lit [CHR 0x27], OStr x, Lit [CHR 0x27]]"

definition explain :: "event_occurrence \<Rightarrow> event_occurrence list \<Rightarrow> fstring" where
  "explain selected occs =
     (case filter (\<lambda>o'. eo_id o' \<noteq> eo_id selected) occs of
        [] \<Rightarrow> [Lit ''Only observation available.'']
      | other # _ \<Rightarrow>
          if eo_verification_status selected \<noteq> eo_verification_status other
          then Lit ''Selected because verification status '' # quoted (eo_verification_status selected) @ Lit '' outranks '' #
                quoted (eo_verification_status other) @ [Lit ''.'']
          else if or_zero (eo_confidence selected) \<noteq> or_zero (eo_confidence other)
          then [Lit ''Selected because confidence '', ONum (eo_confidence selected), Lit '' exceeds '', ONum (eo_confidence other), Lit ''.'']
          else Lit ''Selected because source '' # quoted (eo_source_system selected) @ [Lit '' has higher configured priority.''])"

definition json_opt :: "string option \<Rightarrow> json" where
  "json_opt x = (case x of Some v \<Rightarrow> JStr v | None \<Rightarrow> JNull)"

definition selection_reasoning :: "event_occurrence \<Rightarrow> event_occurrence list \<Rightarrow> json" where
  "selection_reasoning selected occs = JObj
     [(''method'', JStr ''verification_status, then confidence, then source priority''),
      (''comparison'', JList (map (\<lambda>e. JObj [(''event_occurrence_id'', JStr (eo_id e)), (''source_system'', json_opt (eo_source_system e)),
         (''verification_status'', json_opt (eo_verification_status e)),
         (''confidence'', case eo_confidence e of Some c \<Rightarrow> JNum c | None \<Rightarrow> JNull), (''utc_value'', JInt (eo_utc_value e)),
         (''selected'', JBool (eo_id e = eo_id selected))]) occs)),
      (''winning_reason'', JText (explain selected occs))]"

definition get_observation :: "uid \<Rightarrow> uid \<Rightarrow> 'a platform_db_scheme \<Rightarrow> canonical_observation option result" where
  "get_observation call_id def_id s =
     one_or_none (filter (\<lambda>w. cn_vessel_call_id w = call_id \<and> cn_event_definition_id w = def_id) (canonical_observations s))"

definition blank_observation :: "uid \<Rightarrow> uid \<Rightarrow> uid \<Rightarrow> canonical_observation" where
  "blank_observation i call_id def_id =
     \<lparr>cn_id = i, cn_vessel_call_id = call_id, cn_event_definition_id = def_id, cn_candidate_event_occurrence_ids = [],
      cn_selected_event_occurrence_id = None, cn_conflict_detected = False, cn_selection_method = AUTOMATIC,
      cn_selection_reasoning = JNull, cn_quality_issue_id = None, cn_decided_by = None, cn_decided_at = None, cn_rule_version = None\<rparr>"

definition save_observation ::
    "(nat \<Rightarrow> uid) \<Rightarrow> uid \<Rightarrow> uid \<Rightarrow> canonical_observation option \<Rightarrow> (canonical_observation \<Rightarrow> canonical_observation) \<Rightarrow>
     'a platform_db_scheme \<Rightarrow> canonical_observation \<times> 'a platform_db_scheme" where
  "save_observation uuid call_id def_id existing f s =
     (case existing of
        Some w \<Rightarrow> (f w, s\<lparr>canonical_observations := upd_by cn_id (cn_id w) f (canonical_observations s)\<rparr>)
      | None \<Rightarrow> (let w = f (blank_observation (uuid (draws s)) call_id def_id)
                 in (w, s\<lparr>canonical_observations := canonical_observations s @ [w], draws := draws s + 1\<rparr>)))"

text \<open>One group: the live occurrences of a call for one event definition.\<close>

definition resolve_group ::
    "(nat \<Rightarrow> uid) \<Rightarrow> time \<Rightarrow> selector \<Rightarrow> vessel_call \<Rightarrow> uid \<times> event_occurrence list \<Rightarrow> 'a platform_db_scheme \<Rightarrow>
     ('a platform_db_scheme, canonical_observation list) attempt" where
  "resolve_group uuid now sel vc grp s = (case grp of (def_id, occs) \<Rightarrow>
     (let name = (case last_with (\<lambda>d. ed_id d = def_id) (event_definitions s) of Some d \<Rightarrow> ed_name d | None \<Rightarrow> '''')
      in if name \<in> set repeatable_events \<or> length occs \<le> 1 then (s, Inr [])
         else (case get_observation (vc_id vc) def_id s of
             Inl e \<Rightarrow> (s, Inl e)
           | Inr existing \<Rightarrow>
               if (case existing of Some w \<Rightarrow> cn_selection_method w = STEWARD_OVERRIDE | None \<Rightarrow> False)
               then (s, Inr [the existing])
               else let selected = hd (sorted_by (occurrence_rank sel) occs); ids = map eo_id occs;
                        issue = find_related_quality_issue (vc_id vc) ids s;
                        (w, s') = save_observation uuid (vc_id vc) def_id existing (\<lambda>w. w\<lparr>cn_candidate_event_occurrence_ids := ids,
                          cn_selected_event_occurrence_id := Some (eo_id selected), cn_conflict_detected := True,
                          cn_selection_method := AUTOMATIC, cn_selection_reasoning := selection_reasoning selected occs,
                          cn_quality_issue_id := issue, cn_decided_by := Some ''system:canonical_selector'',
                          cn_decided_at := Some now, cn_rule_version := Some ''1.0''\<rparr>) s
                    in (s', Inr [w]))))"

definition unsuperseded :: "vessel_call \<Rightarrow> 'a canon_db_scheme \<Rightarrow> event_occurrence list" where
  "unsuperseded vc s = filter (\<lambda>e. eo_vessel_call_id e = vc_id vc \<and> \<not> eo_is_superseded e) (event_occurrences s)"

definition resolve_vessel_call ::
    "(nat \<Rightarrow> uid) \<Rightarrow> time \<Rightarrow> selector \<Rightarrow> vessel_call \<Rightarrow> 'a platform_db_scheme \<Rightarrow> ('a platform_db_scheme, canonical_observation list) attempt" where
  "resolve_vessel_call uuid now sel vc s =
     seq_try (each_try (resolve_group uuid now sel vc) (group_by eo_event_definition_id (unsuperseded vc s)) s)
       (\<lambda>res s'. (s', Inr (concat res)))"

definition get_canonical_occurrence_id :: "uid \<Rightarrow> uid \<Rightarrow> 'a platform_db_scheme \<Rightarrow> uid option result" where
  "get_canonical_occurrence_id call_id def_id s =
     and_then (get_observation call_id def_id s) (\<lambda>w. Inr (Option.bind w cn_selected_event_occurrence_id))"

section \<open>Reconstruction (\<open>reconstructor.py\<close>)\<close>

definition time_categories :: "string list" where
  "time_categories = [''ACTIVE_SERVICE'', ''PASSIVE_WAIT'', ''HOLD'', ''DELAY'', ''UNCLASSIFIED'']"

definition main_path_max_sequence :: int where "main_path_max_sequence = 99"

record journey_engine =
  je_template :: journey_template
  je_stages :: "journey_stage list"
  je_selector :: selector

subsection \<open>Event resolution\<close>

text \<open>\<open>event_def_by_id\<close>, the inverse of the dictionary from sample_ids to identifiers.\<close>

definition event_label :: "'a canon_db_scheme \<Rightarrow> uid \<Rightarrow> string option" where
  "event_label s i = map_option ed_name (last_with (\<lambda>d. ed_id d = i \<and> definition_named (ed_name d) s = Some i) (event_definitions s))"

definition live_events :: "vessel_call \<Rightarrow> 'a canon_db_scheme \<Rightarrow> event_occurrence list" where
  "live_events vc s = filter (\<lambda>e. \<not> eo_is_quarantined e) (unsuperseded vc s)"

fun instant_entries ::
    "uid \<Rightarrow> (uid \<times> event_occurrence list) list \<Rightarrow> 'a platform_db_scheme \<Rightarrow>
     ((string \<times> event_occurrence) list \<times> (string \<times> event_occurrence list) list) result" where
  "instant_entries call_id [] s = Inr ([], [])"
| "instant_entries call_id ((def_id, occs) # grps) s =
     (case event_label s def_id of
        Some (c # cs) \<Rightarrow>
          if (c # cs) \<in> set repeatable_events
          then and_then (instant_entries call_id grps s) (\<lambda>(one, many). Inr (one, (c # cs, sorted_by eo_utc_value occs) # many))
          else and_then (if length occs = 1 then Inr (hd occs)
                 else and_then (get_canonical_occurrence_id call_id def_id s) (\<lambda>i.
                   Inr (case find (\<lambda>e. Some (eo_id e) = i) occs of Some e \<Rightarrow> e | None \<Rightarrow> hd occs))) (\<lambda>e.
               and_then (instant_entries call_id grps s) (\<lambda>(one, many). Inr ((c # cs, e) # one, many)))
      | _ \<Rightarrow> instant_entries call_id grps s)"

definition build_event_instant_map ::
    "vessel_call \<Rightarrow> 'a platform_db_scheme \<Rightarrow> ((string \<times> event_occurrence) list \<times> (string \<times> event_occurrence list) list) result" where
  "build_event_instant_map vc s = instant_entries (vc_id vc) (group_by eo_event_definition_id (live_events vc s)) s"

subsection \<open>Stages\<close>

record interval =
  iv_category :: string
  iv_start :: time
  iv_end :: time
  iv_hours :: rat

definition named_instant :: "(string \<times> 'b) list \<Rightarrow> string option \<Rightarrow> 'b option" where
  "named_instant m n = Option.bind n (map_of m)"

text \<open>A row before the flush that draws its identifier.\<close>

definition new_stage :: "uid \<Rightarrow> journey_stage \<Rightarrow> nat \<Rightarrow> stage_occurrence" where
  "new_stage instance_id d k =
     \<lparr>so_id = '''', so_journey_instance_id = instance_id, so_stage_id = js_id d, so_stage_name = js_stage_name d,
      so_sequence_index = js_sequence_index d, so_shift_occurrence_index = k, so_start_event_occurrence_id = None,
      so_end_event_occurrence_id = None, so_start_time = None, so_end_time = None, so_duration_hours = None,
      so_available = False, so_is_missing = False, so_is_inferred = False, so_inference_reason = None,
      so_time_category = js_time_category d, so_status = STAGE_MISSING, so_deviation = None\<rparr>"

definition missing_stage :: "fstring \<Rightarrow> stage_occurrence \<Rightarrow> stage_occurrence" where
  "missing_stage reason r = r\<lparr>so_is_missing := True, so_inference_reason := Some reason\<rparr>"

definition timed_stage :: "event_occurrence \<Rightarrow> event_occurrence \<Rightarrow> stage_occurrence \<Rightarrow> stage_occurrence" where
  "timed_stage a b r = r\<lparr>so_start_event_occurrence_id := Some (eo_id a), so_end_event_occurrence_id := Some (eo_id b),
     so_start_time := Some (eo_utc_value a), so_end_time := Some (eo_utc_value b),
     so_duration_hours := Some (elapsed_hours (eo_utc_value a) (eo_utc_value b)), so_available := True, so_status := STAGE_AVAILABLE\<rparr>"

definition build_stage_occurrence ::
    "uid \<Rightarrow> (string \<times> event_occurrence) list \<Rightarrow> journey_stage \<Rightarrow> stage_occurrence \<times> interval option" where
  "build_stage_occurrence instance_id instants d =
     (let row = new_stage instance_id d 0 in
      case (named_instant instants (js_start_event_name d), named_instant instants (js_end_event_name d)) of
        (Some a, Some b) \<Rightarrow>
          (let h = elapsed_hours (eo_utc_value a) (eo_utc_value b); r = timed_stage a b row
           in (if h < 0 then r\<lparr>so_status := STAGE_DEVIATED, so_deviation := Some \<lparr>dv_stage = js_stage_name d,
                 dv_description = quoted (js_end_event_name d) @ Lit '' occurred before '' # quoted (js_start_event_name d) @
                   [Lit '': duration preserved as negative, not corrected.''], dv_duration_hours = h\<rparr>\<rparr> else r,
               Some \<lparr>iv_category = js_time_category d, iv_start = eo_utc_value a, iv_end = eo_utc_value b, iv_hours = h\<rparr>))
      | (a, _) \<Rightarrow> (missing_stage (Lit ''No canonical observation recorded for '' #
            quoted (if a = None then js_start_event_name d else js_end_event_name d) @ [Lit ''.'']) row, None))"

definition nth_opt :: "'b list \<Rightarrow> nat \<Rightarrow> 'b option" where
  "nth_opt xs i = (if i < length xs then Some (xs ! i) else None)"

definition shift_row :: "uid \<Rightarrow> journey_stage \<Rightarrow> event_occurrence list \<Rightarrow> event_occurrence list \<Rightarrow> nat \<Rightarrow> stage_occurrence" where
  "shift_row instance_id d starts ends i =
     (let row = new_stage instance_id d (i + 1) in
      case (nth_opt starts i, nth_opt ends i) of
        (Some a, Some b) \<Rightarrow> timed_stage a b row
      | _ \<Rightarrow> missing_stage [Lit ''Shift start/end event incomplete for this occurrence.''] row)"

definition build_shift_occurrences ::
    "uid \<Rightarrow> journey_stage list \<Rightarrow> (string \<times> event_occurrence list) list \<Rightarrow> stage_occurrence list" where
  "build_shift_occurrences instance_id defs repeatable =
     (case defs of [] \<Rightarrow> []
      | d # _ \<Rightarrow>
          (let starts = (case named_instant repeatable (js_start_event_name d) of Some es \<Rightarrow> es | None \<Rightarrow> []);
               ends = (case named_instant repeatable (js_end_event_name d) of Some es \<Rightarrow> es | None \<Rightarrow> [])
           in map (shift_row instance_id d starts ends) [0..<max (length starts) (length ends)]))"

subsection \<open>The time decomposition\<close>

definition bucket_get :: "string \<Rightarrow> (string \<times> rat) list \<Rightarrow> rat" where
  "bucket_get cat bs = (case map_of bs cat of Some v \<Rightarrow> v | None \<Rightarrow> 0)"

definition add_interval :: "interval \<Rightarrow> (string \<times> rat) list \<Rightarrow> (string \<times> rat) list" where
  "add_interval iv bs = AList.update (iv_category iv) (fadd (bucket_get (iv_category iv) bs) (iv_hours iv)) bs"

definition find_overlapping_interval :: "interval list \<Rightarrow> time option \<Rightarrow> time option \<Rightarrow> interval option" where
  "find_overlapping_interval ivs start end' = (case (start, end') of
       (Some a, Some b) \<Rightarrow> find (\<lambda>iv. iv_start iv \<le> a \<and> b \<le> iv_end iv) ivs | _ \<Rightarrow> None)"

definition carve_shift :: "interval list \<Rightarrow> stage_occurrence \<Rightarrow> (string \<times> rat) list \<times> rat \<Rightarrow> (string \<times> rat) list \<times> rat" where
  "carve_shift ivs shift st = (case st of (bs, delay) \<Rightarrow>
     (case so_duration_hours shift of
        Some h \<Rightarrow>
          if \<not> so_available shift then (bs, delay)
          else (case find_overlapping_interval ivs (so_start_time shift) (so_end_time shift) of
              Some iv \<Rightarrow> (let b = bucket_get (iv_category iv) bs; carve = min h b
                in (AList.update (iv_category iv) (fsub b carve) bs, fadd delay carve))
            | None \<Rightarrow> (bs, fadd delay h))
      | None \<Rightarrow> (bs, delay)))"

definition round_bucket :: "string \<Rightarrow> (string \<times> rat) list \<Rightarrow> (string \<times> rat) list" where
  "round_bucket cat bs = AList.update cat (fround 6 (bucket_get cat bs)) bs"

definition compute_decomposition :: "interval list \<Rightarrow> stage_occurrence list \<Rightarrow> decomposition" where
  "compute_decomposition ivs shifts =
     (let (bs, delay) = fold (carve_shift ivs) shifts (fold add_interval ivs (map (\<lambda>c. (c, 0)) time_categories), 0);
          bs1 = AList.update ''DELAY'' (fround 6 (fadd (bucket_get ''DELAY'' bs) delay)) bs;
          bs2 = fold round_bucket time_categories bs1
      in \<lparr>dc_buckets = bs2, dc_total_hours = (if ivs = [] then None else Some (fround 6 (fsum (map snd bs2))))\<rparr>)"

subsection \<open>Coverage, handovers, history\<close>

definition coverage_of :: "stage_occurrence list \<Rightarrow> stage_occurrence list \<Rightarrow> coverage" where
  "coverage_of rows shifts =
     \<lparr>cv_stages_total = length rows, cv_stages_available = length (filter so_available rows),
      cv_stages_missing = length (filter so_is_missing rows), cv_stages_inferred = length (filter so_is_inferred rows),
      cv_shifting_occurrences = length shifts\<rparr>"

definition build_handover :: "journey_stage list \<Rightarrow> stage_occurrence \<times> stage_occurrence \<Rightarrow> handover" where
  "build_handover defs pr = (case pr of (cur, nxt) \<Rightarrow>
     (let def = (\<lambda>r. last_with (\<lambda>d. js_stage_name d = so_stage_name r) defs); ok = so_available cur \<and> so_available nxt
      in \<lparr>ho_from_stage_occurrence_id = so_id cur, ho_to_stage_occurrence_id = so_id nxt, ho_available = ok,
          ho_from_actor = Option.bind (def cur) js_actor_to, ho_to_actor = Option.bind (def nxt) js_actor_from,
          ho_handover_time = (if ok then so_end_time cur else None),
          ho_wait_duration_hours = (if ok then (case (so_end_time cur, so_start_time nxt) of
             (Some a, Some b) \<Rightarrow> Some (elapsed_hours a b) | _ \<Rightarrow> None) else None)\<rparr>))"

definition build_handovers :: "journey_stage list \<Rightarrow> stage_occurrence list \<Rightarrow> handover list" where
  "build_handovers defs rows =
     (let ordered = sorted_by so_sequence_index (filter (\<lambda>r. so_sequence_index r \<le> main_path_max_sequence \<and> so_shift_occurrence_index r = 0) rows)
      in map (build_handover defs) (zip ordered (tl ordered)))"

text \<open>The flush of the new rows draws their identifiers in order.\<close>

definition number_rows :: "(nat \<Rightarrow> uid) \<Rightarrow> nat \<Rightarrow> stage_occurrence list \<Rightarrow> stage_occurrence list" where
  "number_rows uuid n rows = map (\<lambda>(k, r). r\<lparr>so_id := uuid k\<rparr>) (enumerate n rows)"

definition history_of :: "journey_instance \<Rightarrow> string \<Rightarrow> string \<Rightarrow> stage_occurrence list \<Rightarrow> reconstruction_history" where
  "history_of i version triggered_by rows =
     \<lparr>rh_journey_instance_id = ji_id i, rh_vessel_call_id = ji_vessel_call_id i, rh_run_version = ji_reconstruction_version i,
      rh_rule_version = version, rh_triggered_by = triggered_by, rh_status = ji_status i, rh_coverage_summary = ji_coverage_summary i,
      rh_time_decomposition = ji_time_decomposition i, rh_deviation_report = ji_deviation_report i,
      rh_stages = map (\<lambda>r. r\<lparr>so_id := ''''\<rparr>) rows\<rparr>"

subsection \<open>One vessel call\<close>

text \<open>Getting the instance: a new one starts at version 1; an existing one gets the next version and loses its
  stage rows and their handovers.\<close>

definition open_instance ::
    "(nat \<Rightarrow> uid) \<Rightarrow> journey_engine \<Rightarrow> vessel_call \<Rightarrow> journey_instance option \<Rightarrow> 'a platform_db_scheme \<Rightarrow> journey_instance \<times> 'a platform_db_scheme" where
  "open_instance uuid g vc found s =
     (case found of
        None \<Rightarrow>
          (let i = \<lparr>ji_id = uuid (draws s), ji_vessel_call_id = vc_id vc, ji_template_id = jt_id (je_template g), ji_status = JOURNEY_PENDING,
                 ji_reconstruction_version = 1, ji_rule_version = Some (jt_rule_version (je_template g)), ji_computed_at = None,
                 ji_coverage_summary = None, ji_time_decomposition = None, ji_deviation_report = []\<rparr>
           in (i, s\<lparr>journey_instances := journey_instances s @ [i], draws := draws s + 1\<rparr>))
      | Some i \<Rightarrow>
          (let i' = i\<lparr>ji_reconstruction_version := (if ji_reconstruction_version i = 0 then 1 else ji_reconstruction_version i) + 1,
                 ji_rule_version := Some (jt_rule_version (je_template g))\<rparr>;
               prior = map so_id (filter (\<lambda>r. so_journey_instance_id r = ji_id i) (stage_occurrences s))
           in (i', s\<lparr>handovers := filter (\<lambda>h. ho_from_stage_occurrence_id h \<notin> set prior \<and> ho_to_stage_occurrence_id h \<notin> set prior) (handovers s),
                 stage_occurrences := filter (\<lambda>r. so_journey_instance_id r \<noteq> ji_id i) (stage_occurrences s)\<rparr>)))"

definition journey_rows ::
    "journey_engine \<Rightarrow> uid \<Rightarrow> (string \<times> event_occurrence) list \<Rightarrow> (string \<times> event_occurrence list) list \<Rightarrow>
     stage_occurrence list \<times> stage_occurrence list \<times> interval list" where
  "journey_rows g instance_id instants repeatable =
     (let main = map (build_stage_occurrence instance_id instants)
            (filter (\<lambda>d. js_sequence_index d \<le> main_path_max_sequence \<and> \<not> js_is_repeatable d) (je_stages g));
          branch = map (build_stage_occurrence instance_id instants)
            (filter (\<lambda>d. main_path_max_sequence < js_sequence_index d) (je_stages g));
          shifts = build_shift_occurrences instance_id (filter js_is_repeatable (je_stages g)) repeatable
      in (map fst main @ map fst branch @ shifts, shifts, List.map_filter snd main))"

definition write_journey ::
    "(nat \<Rightarrow> uid) \<Rightarrow> time \<Rightarrow> journey_engine \<Rightarrow> string \<Rightarrow> journey_instance \<Rightarrow>
     stage_occurrence list \<times> stage_occurrence list \<times> interval list \<Rightarrow> 'a platform_db_scheme \<Rightarrow> journey_instance \<times> 'a platform_db_scheme" where
  "write_journey uuid now g triggered_by i built s = (case built of (unnumbered, shifts, ivs) \<Rightarrow>
     (let rows = number_rows uuid (draws s) unnumbered; cov = coverage_of rows shifts;
          i' = i\<lparr>ji_coverage_summary := Some cov, ji_time_decomposition := Some (compute_decomposition ivs shifts),
                 ji_deviation_report := List.map_filter so_deviation rows,
                 ji_status := (if 0 < cv_stages_available cov then JOURNEY_RECONSTRUCTED else JOURNEY_FAILED), ji_computed_at := Some now\<rparr>
      in (i', s\<lparr>draws := draws s + length rows, stage_occurrences := stage_occurrences s @ rows,
            journey_instances := upd_by ji_id (ji_id i) (\<lambda>_. i') (journey_instances s),
            handovers := handovers s @ build_handovers (je_stages g) rows,
            reconstruction_histories := reconstruction_histories s @ [history_of i' (jt_rule_version (je_template g)) triggered_by rows]\<rparr>)))"

definition reconstruct_vessel_call ::
    "(nat \<Rightarrow> uid) \<Rightarrow> time \<Rightarrow> journey_engine \<Rightarrow> string \<Rightarrow> vessel_call \<Rightarrow> 'a platform_db_scheme \<Rightarrow> ('a platform_db_scheme, journey_instance) attempt" where
  "reconstruct_vessel_call uuid now g triggered_by vc s =
     seq_try (resolve_vessel_call uuid now (je_selector g) vc s) (\<lambda>_ s1.
     case and_then (build_event_instant_map vc s1) (\<lambda>m.
       and_then (one_or_none (filter (\<lambda>i. ji_vessel_call_id i = vc_id vc) (journey_instances s1))) (\<lambda>found. Inr (m, found))) of
       Inl e \<Rightarrow> (s1, Inl e)
     | Inr ((instants, repeatable), found) \<Rightarrow>
         (let (i, s2) = open_instance uuid g vc found s1;
              (i', s3) = write_journey uuid now g triggered_by i (journey_rows g (ji_id i) instants repeatable) s2
          in (s3, Inr i')))"

text \<open>All calls: an exception is counted and the loop goes on.\<close>

fun reconstruct_calls ::
    "(nat \<Rightarrow> uid) \<Rightarrow> time \<Rightarrow> journey_engine \<Rightarrow> string \<Rightarrow> vessel_call list \<Rightarrow> 'a platform_db_scheme \<Rightarrow> nat \<times> nat \<times> 'a platform_db_scheme" where
  "reconstruct_calls uuid now g trig [] s = (0, 0, s)"
| "reconstruct_calls uuid now g trig (vc # vcs) s =
     (case reconstruct_vessel_call uuid now g trig vc s of (s1, r) \<Rightarrow>
       (case reconstruct_calls uuid now g trig vcs s1 of (done', failed, s2) \<Rightarrow>
          (case r of Inr _ \<Rightarrow> (done' + 1, failed, s2) | Inl _ \<Rightarrow> (done', failed + 1, s2))))"

definition reconstruct_all ::
    "(nat \<Rightarrow> uid) \<Rightarrow> time \<Rightarrow> journey_engine \<Rightarrow> string option \<Rightarrow> string \<Rightarrow> 'a platform_db_scheme \<Rightarrow> (nat \<times> nat \<times> nat) \<times> 'a platform_db_scheme" where
  "reconstruct_all uuid now g tenant trig s =
     (let calls = filter (\<lambda>v. \<not> vc_is_merged v \<and> (case tenant of Some (c # cs) \<Rightarrow> vc_tenant_id v = c # cs | _ \<Rightarrow> True)) (vessel_calls s);
          (ok, failed, s') = reconstruct_calls uuid now g trig calls s
      in ((length calls, ok, failed), s'))"

section \<open>Corrections (\<open>corrections.py\<close>)\<close>

definition initial_engine ::
    "(nat \<Rightarrow> uid) \<Rightarrow> template_config \<Rightarrow> selector \<Rightarrow> 'a platform_db_scheme \<Rightarrow> (journey_engine \<times> 'a platform_db_scheme) result" where
  "initial_engine uuid raw sel s = and_then (ensure_template uuid raw s)
     (\<lambda>((t, stages), s'). Inr (\<lparr>je_template = t, je_stages = stages, je_selector = sel\<rparr>, s'))"

record correction_request =
  cq_event_definition_id :: uid
  cq_new_utc_value :: time
  cq_reason :: string
  cq_actor :: string
  cq_prior_event_occurrence_id :: "uid option"
  cq_approval_state :: string

definition corrected_occurrence ::
    "uid \<Rightarrow> time \<Rightarrow> vessel_call \<Rightarrow> event_occurrence option \<Rightarrow> correction_request \<Rightarrow> event_occurrence" where
  "corrected_occurrence i now vc prior q =
     \<lparr>eo_id = i, eo_source_lineage_id = None, eo_vessel_call_id = vc_id vc, eo_event_definition_id = cq_event_definition_id q,
      eo_occurrence_index = (case prior of Some p \<Rightarrow> eo_occurrence_index p + 1000 | None \<Rightarrow> 1),
      eo_movement_scope = (case prior of Some p \<Rightarrow> eo_movement_scope p | None \<Rightarrow> ''ARRIVAL''), eo_original_string = None,
      eo_parsed_value = Some (cq_new_utc_value q),
      eo_source_timezone = (case prior of Some p \<Rightarrow> eo_source_timezone p | None \<Rightarrow> Some ''Africa/Johannesburg''),
      eo_utc_value = cq_new_utc_value q, eo_operation_type = None, eo_attributes = [], eo_capture_method = Some ''STEWARD_CORRECTION'', eo_confidence = Some 1,
      eo_verification_status = Some ''Verified'', eo_source_system = Some ''STEWARD_CORRECTION'', eo_source_record_id = None,
      eo_ingestion_batch_id = None,
      eo_correction_history = [[(''reason'', Str (cq_reason q)), (''actor'', Str (cq_actor q)),
        (''prior_event_occurrence_id'', OStr (map_option eo_id prior)), (''timestamp'', Js (JInt now))]],
      eo_inference_status = None, eo_human_review_state = Some (cq_approval_state q), eo_is_quarantined = False,
      eo_superseded_by_id = None, eo_is_superseded = False, eo_created_at = now\<rparr>"

text \<open>The unique constraint on call, definition and index.\<close>

definition occurrence_key :: "event_occurrence \<Rightarrow> uid \<times> uid \<times> int" where
  "occurrence_key e = (eo_vessel_call_id e, eo_event_definition_id e, eo_occurrence_index e)"

definition record_canonical_override ::
    "(nat \<Rightarrow> uid) \<Rightarrow> time \<Rightarrow> uid \<Rightarrow> uid \<Rightarrow> uid \<Rightarrow> uid option \<Rightarrow> uid \<Rightarrow> correction_request \<Rightarrow> 'a platform_db_scheme \<Rightarrow> 'a platform_db_scheme result" where
  "record_canonical_override uuid now call_id def_id new_id prior_id correction_id q s =
     and_then (get_observation call_id def_id s) (\<lambda>existing.
       Inr (snd (save_observation uuid call_id def_id existing (\<lambda>w.
         let candidates = sort (remdups (cn_candidate_event_occurrence_ids w @ new_id # (case prior_id of Some i \<Rightarrow> [i] | None \<Rightarrow> [])))
         in w\<lparr>cn_candidate_event_occurrence_ids := candidates, cn_selected_event_occurrence_id := Some new_id,
              cn_selection_method := STEWARD_OVERRIDE, cn_conflict_detected := cn_conflict_detected w \<or> 1 < length candidates,
              cn_selection_reasoning := JObj [(''correction_id'', JStr correction_id), (''reason'', JStr (cq_reason q)), (''actor'', JStr (cq_actor q))],
              cn_decided_by := Some (cq_actor q), cn_decided_at := Some now\<rparr>) s)))"

definition is_approved :: "correction_request \<Rightarrow> bool" where
  "is_approved q \<longleftrightarrow> cq_approval_state q = ''APPROVED''"

definition supersede :: "uid \<Rightarrow> event_occurrence \<Rightarrow> event_occurrence" where
  "supersede i e = e\<lparr>eo_is_superseded := True, eo_superseded_by_id := Some i\<rparr>"

definition correction_record ::
    "uid \<Rightarrow> time \<Rightarrow> vessel_call \<Rightarrow> event_occurrence option \<Rightarrow> uid \<Rightarrow> correction_request \<Rightarrow> observation_correction" where
  "correction_record i now vc prior new_id q =
     \<lparr>oc_id = i, oc_vessel_call_id = vc_id vc, oc_event_definition_id = cq_event_definition_id q,
      oc_prior_event_occurrence_id = map_option eo_id prior, oc_new_event_occurrence_id = new_id, oc_reason = cq_reason q,
      oc_actor = cq_actor q, oc_approval_state = cq_approval_state q,
      oc_approved_by = (if is_approved q then Some (cq_actor q) else None),
      oc_approved_at = (if is_approved q then Some now else None), oc_recalculated_at = None\<rparr>"

definition correction_audit :: "vessel_call \<Rightarrow> event_occurrence option \<Rightarrow> observation_correction \<Rightarrow> correction_request \<Rightarrow> audit_event" where
  "correction_audit vc prior c q =
     \<lparr>au_action = ''JOURNEY_OBSERVATION_CORRECTION'', au_actor_id = cq_actor q, au_actor_role = '''',
      au_resource_type = ''event_occurrence'', au_resource_id = oc_new_event_occurrence_id c,
      au_details = [(''vessel_call_id'', [Str (vc_id vc)]), (''correction_id'', [Str (oc_id c)]),
        (''prior_event_occurrence_id'', [OStr (map_option eo_id prior)]), (''reason'', [Str (cq_reason q)]),
        (''approval_state'', [Str (cq_approval_state q)])]\<rparr>"

definition after_supersession :: "uid \<Rightarrow> event_occurrence option \<Rightarrow> correction_request \<Rightarrow> event_occurrence list \<Rightarrow> event_occurrence list" where
  "after_supersession new_id prior q es =
     (case prior of Some p \<Rightarrow> if is_approved q then upd_by eo_id (eo_id p) (supersede new_id) es else es | None \<Rightarrow> es)"

text \<open>Up to the audit event, which commits.\<close>

definition record_correction ::
    "(nat \<Rightarrow> uid) \<Rightarrow> time \<Rightarrow> vessel_call \<Rightarrow> event_occurrence option \<Rightarrow> correction_request \<Rightarrow> 'a platform_db_scheme \<Rightarrow>
     (observation_correction \<times> 'a platform_db_scheme) result" where
  "record_correction uuid now vc prior q s =
     (let e = corrected_occurrence (uuid (draws s)) now vc prior q;
          c = correction_record (uuid (draws s + 1)) now vc prior (eo_id e) q;
          s1 = s\<lparr>event_occurrences := after_supersession (eo_id e) prior q (event_occurrences s) @ [e],
                 observation_corrections := observation_corrections s @ [c], draws := draws s + 2\<rparr>
      in if occurrence_key e \<in> occurrence_key ` set (event_occurrences s) then Inl IntegrityError
         else and_then (if is_approved q then record_canonical_override uuid now (vc_id vc) (cq_event_definition_id q) (eo_id e)
                (map_option eo_id prior) (oc_id c) q s1 else Inr s1) (\<lambda>s2. Inr (c, add_audit (correction_audit vc prior c q) s2)))"

definition find_prior :: "uid option \<Rightarrow> 'a canon_db_scheme \<Rightarrow> event_occurrence option result" where
  "find_prior i s = (case i of Some (c # cs) \<Rightarrow> get_by eo_id (c # cs) (event_occurrences s) | _ \<Rightarrow> Inr None)"

definition create_correction ::
    "(nat \<Rightarrow> uid) \<Rightarrow> time \<Rightarrow> template_config \<Rightarrow> selector \<Rightarrow> uid \<Rightarrow> correction_request \<Rightarrow> 'a platform_db_scheme \<Rightarrow>
     ('a platform_db_scheme, observation_correction) attempt" where
  "create_correction uuid now raw sel call_id q s =
     (case and_then (get_by vc_id call_id (vessel_calls s)) (\<lambda>found.
        case found of None \<Rightarrow> Inl (ValueError [Lit ''VesselCall '', Str call_id, Lit '' not found''])
        | Some vc \<Rightarrow> and_then (find_prior (cq_prior_event_occurrence_id q) s) (\<lambda>prior.
            and_then (record_correction uuid now vc prior q s) (\<lambda>(c, s1). Inr (vc, c, s1)))) of
       Inl e \<Rightarrow> (s, Inl e)
     | Inr (vc, c, s1) \<Rightarrow>
         if \<not> is_approved q then (s1, Inr c)
         else (case initial_engine uuid raw sel s1 of
             Inl e \<Rightarrow> (s1, Inl e)
           | Inr (g, s2) \<Rightarrow>
               (case reconstruct_vessel_call uuid now g ''CORRECTION'' vc s2 of
                  (_, Inl e) \<Rightarrow> (s1, Inl e)
                | (s3, Inr _) \<Rightarrow>
                    (s3\<lparr>observation_corrections := upd_by oc_id (oc_id c) (\<lambda>c. c\<lparr>oc_recalculated_at := Some now\<rparr>) (observation_corrections s3)\<rparr>,
                     Inr (c\<lparr>oc_recalculated_at := Some now\<rparr>)))))"

section \<open>Observations by their slot\<close>

definition slot :: "canonical_observation \<Rightarrow> uid \<times> uid" where
  "slot w = (cn_vessel_call_id w, cn_event_definition_id w)"

definition observation_at :: "uid \<times> uid \<Rightarrow> 'a platform_db_scheme \<Rightarrow> canonical_observation option" where
  "observation_at k s = map_of (map (\<lambda>w. (slot w, w)) (canonical_observations s)) k"

definition observations_ok :: "(nat \<Rightarrow> uid) \<Rightarrow> 'a platform_db_scheme \<Rightarrow> bool" where
  "observations_ok uuid s \<longleftrightarrow> inj uuid \<and> distinct (map cn_id (canonical_observations s)) \<and> distinct (map slot (canonical_observations s)) \<and>
     (\<forall>n \<ge> draws s. uuid n \<notin> cn_id ` set (canonical_observations s))"

lemma observation_at_eq:
  "distinct (map slot (canonical_observations s)) \<Longrightarrow> observation_at k s = Some w \<longleftrightarrow> w \<in> set (canonical_observations s) \<and> slot w = k"
  by (auto simp: observation_at_def map_of_eq_Some_iff comp_def)

lemma get_observation_at:
  assumes "distinct (map slot (canonical_observations s))"
  shows "get_observation c d s = Inr (observation_at (c, d) s)"
proof -
  have eq: "(\<lambda>w. cn_vessel_call_id w = c \<and> cn_event_definition_id w = d) = (\<lambda>w. slot w = (c, d))" by (auto simp: slot_def)
  from filter_key_cases [OF assms, of "(c, d)"] show ?thesis
  proof
    assume none: "filter (\<lambda>w. slot w = (c, d)) (canonical_observations s) = []"
    then have "observation_at (c, d) s = None"
      by (auto simp: observation_at_def map_of_eq_None_iff filter_empty_conv)
    then show ?thesis by (simp add: get_observation_def eq none)
  next
    assume "\<exists>w. filter (\<lambda>w. slot w = (c, d)) (canonical_observations s) = [w]"
    then obtain w where one: "filter (\<lambda>w. slot w = (c, d)) (canonical_observations s) = [w]" by blast
    then have "w \<in> set (filter (\<lambda>w. slot w = (c, d)) (canonical_observations s))" by simp
    then have "observation_at (c, d) s = Some w" using observation_at_eq [OF assms] by simp
    then show ?thesis by (simp add: get_observation_def eq one)
  qed
qed

lemma lookup_append_new:
  "key w \<notin> set (map key rows) \<Longrightarrow>
     map_of (map (\<lambda>r. (key r, r)) (rows @ [w])) k = (if k = key w then Some w else map_of (map (\<lambda>r. (key r, r)) rows) k)"
  by (induction rows) auto

lemma lookup_replace:
  "distinct (map key (xs @ v # ys)) \<Longrightarrow> key v' = key v \<Longrightarrow>
     map_of (map (\<lambda>r. (key r, r)) (xs @ v' # ys)) k = (if k = key v then Some v' else map_of (map (\<lambda>r. (key r, r)) (xs @ v # ys)) k)"
  by (induction xs) auto

text \<open>What selecting and correcting change: the observations and the counter.\<close>

definition observations_change :: "'a platform_db_scheme \<Rightarrow> 'a platform_db_scheme \<Rightarrow> bool" where
  "observations_change s s' \<longleftrightarrow> (\<exists>ws n. s' = s\<lparr>canonical_observations := ws, draws := n\<rparr> \<and> draws s \<le> n)"

lemma observations_change_refl: "observations_change s s"
  unfolding observations_change_def by (intro exI [of _ "canonical_observations s"] exI [of _ "draws s"]) simp

lemma observations_change_trans: "observations_change s t \<Longrightarrow> observations_change t u \<Longrightarrow> observations_change s u"
  unfolding observations_change_def by force

lemma observations_change_sel:
  assumes "observations_change s s'"
  shows "vessel_calls s' = vessel_calls s" "event_occurrences s' = event_occurrences s" "event_definitions s' = event_definitions s"
    "quality_issues s' = quality_issues s" "quality_rules s' = quality_rules s" "draws s \<le> draws s'" "audit_log s' = audit_log s"
    "journey_instances s' = journey_instances s" "stage_occurrences s' = stage_occurrences s" "handovers s' = handovers s"
    "reconstruction_histories s' = reconstruction_histories s" "observation_corrections s' = observation_corrections s"
  using assms by (auto simp: observations_change_def)

lemma save_observation_at:
  assumes ok: "observations_ok uuid s" and slot: "\<And>w. slot (f w) = slot w" and i: "\<And>w. cn_id (f w) = cn_id w"
    and sv: "save_observation uuid c d (observation_at (c, d) s) f s = (w, s')"
  shows "observations_ok uuid s'" "observations_change s s'"
    "observation_at k s' = (if k = (c, d) then Some w else observation_at k s)"
    "w = f (case observation_at (c, d) s of Some w \<Rightarrow> w | None \<Rightarrow> blank_observation (uuid (draws s)) c d)"
proof -
  have dist: "distinct (map cn_id (canonical_observations s))" "distinct (map slot (canonical_observations s))"
    and fresh: "\<forall>n \<ge> draws s. uuid n \<notin> cn_id ` set (canonical_observations s)" and inj: "inj uuid"
    using ok by (auto simp: observations_ok_def)
  have "observations_ok uuid s' \<and> observations_change s s' \<and>
    (\<forall>k. observation_at k s' = (if k = (c, d) then Some w else observation_at k s)) \<and>
    w = f (case observation_at (c, d) s of Some w \<Rightarrow> w | None \<Rightarrow> blank_observation (uuid (draws s)) c d)"
  proof (cases "observation_at (c, d) s")
    case None
    let ?w = "f (blank_observation (uuid (draws s)) c d)"
    have s': "s' = s\<lparr>canonical_observations := canonical_observations s @ [?w], draws := draws s + 1\<rparr>" "w = ?w"
      using sv None by (auto simp: save_observation_def Let_def)
    have w: "slot ?w = (c, d)" "cn_id ?w = uuid (draws s)" by (simp_all add: slot i, simp_all add: slot_def blank_observation_def)
    have new: "(c, d) \<notin> set (map slot (canonical_observations s))"
      using None by (force simp: observation_at_def map_of_eq_None_iff)
    have "uuid n \<noteq> uuid (draws s)" if "draws s + 1 \<le> n" for n using injD [OF inj, of n "draws s"] that by auto
    then have "observations_ok uuid s'" using dist fresh inj new by (auto simp: observations_ok_def s' w)
    moreover have "observation_at k s' = (if k = (c, d) then Some ?w else observation_at k s)" for k
      using lookup_append_new [of slot ?w "canonical_observations s" k] new by (simp only: observation_at_def s' w) simp
    moreover have "observations_change s s'" unfolding observations_change_def s' by (intro exI [of _ "canonical_observations s @ [?w]"] exI [of _ "draws s + 1"]) simp
    ultimately show ?thesis using None s'(2) by simp
  next
    case (Some v)
    have s': "s' = s\<lparr>canonical_observations := upd_by cn_id (cn_id v) f (canonical_observations s)\<rparr>" "w = f v"
      using sv Some by (auto simp: save_observation_def)
    have v: "v \<in> set (canonical_observations s)" "slot v = (c, d)" using Some observation_at_eq [OF dist(2)] by auto
    have keys: "map cn_id (canonical_observations s') = map cn_id (canonical_observations s)"
      "map slot (canonical_observations s') = map slot (canonical_observations s)"
      by (simp_all add: s' map_upd_by_key i slot)
    then have "cn_id ` set (canonical_observations s') = cn_id ` set (canonical_observations s)" by (metis set_map)
    then have ok': "observations_ok uuid s'" using ok keys by (simp add: observations_ok_def s'(1))
    obtain xs ys where sp: "canonical_observations s = xs @ v # ys" "upd_by cn_id (cn_id v) f (canonical_observations s) = xs @ f v # ys"
      using upd_by_split [OF dist(1) v(1)] .
    have "observation_at k s' = (if k = (c, d) then Some (f v) else observation_at k s)" for k
    proof -
      have "canonical_observations s' = xs @ f v # ys" using sp(2) by (simp add: s'(1))
      then show ?thesis
        using lookup_replace [of slot xs v ys "f v" k] dist(2) unfolding observation_at_def sp(1) slot v(2) by simp
    qed
    moreover have "observations_change s s'" unfolding observations_change_def s'
      by (intro exI [of _ "upd_by cn_id (cn_id v) f (canonical_observations s)"] exI [of _ "draws s"]) simp
    ultimately show ?thesis using ok' Some s'(2) by simp
  qed
  then show "observations_ok uuid s'" "observations_change s s'"
    "observation_at k s' = (if k = (c, d) then Some w else observation_at k s)"
    "w = f (case observation_at (c, d) s of Some w \<Rightarrow> w | None \<Rightarrow> blank_observation (uuid (draws s)) c d)" by blast+
qed

section \<open>Selection\<close>

text \<open>The observation the selector writes for a group of conflicting occurrences.\<close>

definition automatic_choice :: "time \<Rightarrow> selector \<Rightarrow> event_occurrence list \<Rightarrow> uid option \<Rightarrow> canonical_observation \<Rightarrow> canonical_observation" where
  "automatic_choice now sel occs issue w =
     (let selected = hd (sorted_by (occurrence_rank sel) occs)
      in w\<lparr>cn_candidate_event_occurrence_ids := map eo_id occs, cn_selected_event_occurrence_id := Some (eo_id selected),
           cn_conflict_detected := True, cn_selection_method := AUTOMATIC, cn_selection_reasoning := selection_reasoning selected occs,
           cn_quality_issue_id := issue, cn_decided_by := Some ''system:canonical_selector'', cn_decided_at := Some now,
           cn_rule_version := Some ''1.0''\<rparr>)"

lemma automatic_choice_sel [simp]:
  "slot (automatic_choice now sel occs issue w) = slot w" "cn_id (automatic_choice now sel occs issue w) = cn_id w"
  "cn_selection_method (automatic_choice now sel occs issue w) = AUTOMATIC"
  "cn_selected_event_occurrence_id (automatic_choice now sel occs issue w) = Some (eo_id (hd (sorted_by (occurrence_rank sel) occs)))"
  by (simp_all add: automatic_choice_def slot_def Let_def)

definition is_override :: "canonical_observation option \<Rightarrow> bool" where
  "is_override w \<longleftrightarrow> (case w of Some w \<Rightarrow> cn_selection_method w = STEWARD_OVERRIDE | None \<Rightarrow> False)"

definition conflicting :: "'a canon_db_scheme \<Rightarrow> uid \<times> event_occurrence list \<Rightarrow> bool" where
  "conflicting s grp \<longleftrightarrow> (case last_with (\<lambda>d. ed_id d = fst grp) (event_definitions s) of Some d \<Rightarrow> ed_name d | None \<Rightarrow> '''') \<notin> set repeatable_events \<and>
     1 < length (snd grp)"

lemma resolve_group_eq:
  assumes "observations_ok uuid s"
  shows "resolve_group uuid now sel vc grp s =
     (if \<not> conflicting s grp then (s, Inr [])
      else if is_override (observation_at (vc_id vc, fst grp) s) then (s, Inr [the (observation_at (vc_id vc, fst grp) s)])
      else let (w, s') = save_observation uuid (vc_id vc) (fst grp) (observation_at (vc_id vc, fst grp) s)
             (automatic_choice now sel (snd grp) (find_related_quality_issue (vc_id vc) (map eo_id (snd grp)) s)) s
           in (s', Inr [w]))"
proof -
  obtain d occs where grp: "grp = (d, occs)" by (cases grp)
  have get: "get_observation (vc_id vc) d s = Inr (observation_at (vc_id vc, d) s)"
    using assms by (simp add: get_observation_at observations_ok_def)
  show ?thesis
    unfolding resolve_group_def grp prod.case get sum.case fst_conv snd_conv Let_def
    by (simp add: conflicting_def is_override_def automatic_choice_def [abs_def] Let_def not_less)
qed

text \<open>One group: it never fails, keeps the table consistent and the observations of other slots, leaves a steward's
  decision alone, and otherwise records the occurrence of least rank.\<close>

lemma resolve_group_spec:
  assumes ok: "observations_ok uuid s"
  obtains s' ws where "resolve_group uuid now sel vc grp s = (s', Inr ws)" "observations_ok uuid s'" "observations_change s s'"
    "\<And>k. k \<noteq> (vc_id vc, fst grp) \<Longrightarrow> observation_at k s' = observation_at k s"
    "\<not> conflicting s grp \<or> is_override (observation_at (vc_id vc, fst grp) s) \<Longrightarrow>
       observation_at (vc_id vc, fst grp) s' = observation_at (vc_id vc, fst grp) s"
    "conflicting s grp \<Longrightarrow> \<not> is_override (observation_at (vc_id vc, fst grp) s) \<Longrightarrow>
       \<exists>w issue. observation_at (vc_id vc, fst grp) s' = Some (automatic_choice now sel (snd grp) issue w)"
proof (cases "\<not> conflicting s grp \<or> is_override (observation_at (vc_id vc, fst grp) s)")
  case True
  then obtain ws where "resolve_group uuid now sel vc grp s = (s, Inr ws)"
    unfolding resolve_group_eq [OF ok] by (cases "conflicting s grp") auto
  then show ?thesis by (rule that) (use ok True observations_change_refl in auto)
next
  case False
  obtain w s' where sv: "save_observation uuid (vc_id vc) (fst grp) (observation_at (vc_id vc, fst grp) s)
      (automatic_choice now sel (snd grp) (find_related_quality_issue (vc_id vc) (map eo_id (snd grp)) s)) s = (w, s')" by fastforce
  note spec = save_observation_at [OF ok automatic_choice_sel(1,2) sv]
  have "resolve_group uuid now sel vc grp s = (s', Inr [w])"
    unfolding resolve_group_eq [OF ok] using False by (simp add: sv)
  then show ?thesis
  proof (rule that)
    show "observations_ok uuid s'" "observations_change s s'" by (rule spec)+
    show "observation_at k s' = observation_at k s" if "k \<noteq> (vc_id vc, fst grp)" for k using spec(3) [of k] that by simp
    show "\<exists>w issue. observation_at (vc_id vc, fst grp) s' = Some (automatic_choice now sel (snd grp) issue w)"
      using spec(3) [of "(vc_id vc, fst grp)"] spec(4) by auto
  qed (use False in blast)
qed

text \<open>The observation of a slot after all groups of a call.\<close>

lemma conflicting_change: "observations_change s s' \<Longrightarrow> conflicting s' grp = conflicting s grp"
  by (simp add: conflicting_def observations_change_sel)

lemma resolve_groups_spec:
  assumes "observations_ok uuid s" "distinct (map fst grps)"
  obtains s' wss where "each_try (resolve_group uuid now sel vc) grps s = (s', Inr wss)" "observations_ok uuid s'" "observations_change s s'"
    "\<And>k. fst k \<noteq> vc_id vc \<or> snd k \<notin> fst ` set grps \<Longrightarrow> observation_at k s' = observation_at k s"
    "\<And>grp. grp \<in> set grps \<Longrightarrow> \<not> conflicting s grp \<or> is_override (observation_at (vc_id vc, fst grp) s) \<Longrightarrow>
       observation_at (vc_id vc, fst grp) s' = observation_at (vc_id vc, fst grp) s"
    "\<And>grp. grp \<in> set grps \<Longrightarrow> conflicting s grp \<Longrightarrow> \<not> is_override (observation_at (vc_id vc, fst grp) s) \<Longrightarrow>
       \<exists>w issue. observation_at (vc_id vc, fst grp) s' = Some (automatic_choice now sel (snd grp) issue w)"
proof -
  have "\<exists>s' wss. each_try (resolve_group uuid now sel vc) grps s = (s', Inr wss) \<and> observations_ok uuid s' \<and> observations_change s s' \<and>
    (\<forall>k. fst k \<noteq> vc_id vc \<or> snd k \<notin> fst ` set grps \<longrightarrow> observation_at k s' = observation_at k s) \<and>
    (\<forall>grp \<in> set grps. \<not> conflicting s grp \<or> is_override (observation_at (vc_id vc, fst grp) s) \<longrightarrow>
       observation_at (vc_id vc, fst grp) s' = observation_at (vc_id vc, fst grp) s) \<and>
    (\<forall>grp \<in> set grps. conflicting s grp \<longrightarrow> \<not> is_override (observation_at (vc_id vc, fst grp) s) \<longrightarrow>
       (\<exists>w issue. observation_at (vc_id vc, fst grp) s' = Some (automatic_choice now sel (snd grp) issue w)))"
    using assms
  proof (induction grps arbitrary: s)
    case Nil
    then show ?case by (simp add: observations_change_refl)
  next
    case (Cons g grps)
    obtain s1 ws where g: "resolve_group uuid now sel vc g s = (s1, Inr ws)" "observations_ok uuid s1" "observations_change s s1"
      and other: "\<And>k. k \<noteq> (vc_id vc, fst g) \<Longrightarrow> observation_at k s1 = observation_at k s"
      and keep: "\<not> conflicting s g \<or> is_override (observation_at (vc_id vc, fst g) s) \<Longrightarrow>
        observation_at (vc_id vc, fst g) s1 = observation_at (vc_id vc, fst g) s"
      and choose: "conflicting s g \<Longrightarrow> \<not> is_override (observation_at (vc_id vc, fst g) s) \<Longrightarrow>
        \<exists>w issue. observation_at (vc_id vc, fst g) s1 = Some (automatic_choice now sel (snd g) issue w)"
      by (rule resolve_group_spec [OF Cons.prems(1), of now sel vc g], rule that; assumption)
    have d: "fst g \<notin> fst ` set grps" "distinct (map fst grps)" using Cons.prems(2) by simp_all
    from Cons.IH [OF g(2) d(2)] obtain s' wss where ih: "each_try (resolve_group uuid now sel vc) grps s1 = (s', Inr wss)"
      "observations_ok uuid s'" "observations_change s1 s'"
      and ih1: "\<forall>k. fst k \<noteq> vc_id vc \<or> snd k \<notin> fst ` set grps \<longrightarrow> observation_at k s' = observation_at k s1"
      and ih2: "\<forall>grp \<in> set grps. \<not> conflicting s1 grp \<or> is_override (observation_at (vc_id vc, fst grp) s1) \<longrightarrow>
        observation_at (vc_id vc, fst grp) s' = observation_at (vc_id vc, fst grp) s1"
      and ih3: "\<forall>grp \<in> set grps. conflicting s1 grp \<longrightarrow> \<not> is_override (observation_at (vc_id vc, fst grp) s1) \<longrightarrow>
        (\<exists>w issue. observation_at (vc_id vc, fst grp) s' = Some (automatic_choice now sel (snd grp) issue w))" by blast
    have same: "observation_at (vc_id vc, fst grp) s1 = observation_at (vc_id vc, fst grp) s" if "grp \<in> set grps" for grp
    proof (rule other)
      have "fst grp \<in> fst ` set grps" using that by simp
      then have "fst grp \<noteq> fst g" using d(1) by (rule_tac notI) simp
      then show "(vc_id vc, fst grp) \<noteq> (vc_id vc, fst g)" by simp
    qed
    have mine: "observation_at (vc_id vc, fst g) s' = observation_at (vc_id vc, fst g) s1" using ih1 d(1) by simp
    have r: "each_try (resolve_group uuid now sel vc) (g # grps) s = (s', Inr (ws # wss))" by (simp add: g(1) ih(1))
    have c: "observations_change s s'" by (rule observations_change_trans [OF g(3) ih(3)])
    have f1: "observation_at k s' = observation_at k s" if "fst k \<noteq> vc_id vc \<or> snd k \<notin> fst ` set (g # grps)" for k
    proof -
      have "fst k \<noteq> vc_id vc \<or> snd k \<notin> fst ` set grps" using that by auto
      then have "observation_at k s' = observation_at k s1" by (rule ih1 [rule_format])
      moreover have "k \<noteq> (vc_id vc, fst g)" using that by auto
      ultimately show ?thesis using other by simp
    qed
    have f2: "observation_at (vc_id vc, fst grp) s' = observation_at (vc_id vc, fst grp) s"
      if "grp \<in> set (g # grps)" "\<not> conflicting s grp \<or> is_override (observation_at (vc_id vc, fst grp) s)" for grp
    proof (cases "grp = g")
      case True
      then show ?thesis using mine keep that(2) by simp
    next
      case False
      then have m: "grp \<in> set grps" using that(1) by simp
      then show ?thesis using ih2 [rule_format, OF m] that(2) same [OF m] by (simp add: conflicting_change [OF g(3)])
    qed
    have f3: "\<exists>w issue. observation_at (vc_id vc, fst grp) s' = Some (automatic_choice now sel (snd grp) issue w)"
      if "grp \<in> set (g # grps)" "conflicting s grp" "\<not> is_override (observation_at (vc_id vc, fst grp) s)" for grp
    proof (cases "grp = g")
      case True
      then show ?thesis using mine choose that(2,3) by simp
    next
      case False
      then have m: "grp \<in> set grps" using that(1) by simp
      then show ?thesis using ih3 [rule_format, OF m] that(2,3) same [OF m] by (simp add: conflicting_change [OF g(3)])
    qed
    show ?case using r ih(2) c f1 f2 f3 by blast
  qed
  then show thesis using that by blast
qed

text \<open>The occurrences of a call for one event definition, and what the selector decides for them.\<close>

definition observed :: "vessel_call \<Rightarrow> uid \<Rightarrow> 'a canon_db_scheme \<Rightarrow> event_occurrence list" where
  "observed vc d s = filter (\<lambda>e. eo_event_definition_id e = d) (unsuperseded vc s)"

lemma observed_group: "observed vc d s \<noteq> [] \<Longrightarrow> (d, observed vc d s) \<in> set (group_by eo_event_definition_id (unsuperseded vc s))"
proof -
  assume "observed vc d s \<noteq> []"
  then have "map_of (group_by eo_event_definition_id (unsuperseded vc s)) d = Some (observed vc d s)"
    by (auto simp: map_of_group_by observed_def split: list.splits)
  then show ?thesis by (rule map_of_SomeD)
qed

lemma resolve_spec:
  assumes ok: "observations_ok uuid s"
  obtains s' ws where "resolve_vessel_call uuid now sel vc s = (s', Inr ws)" "observations_ok uuid s'" "observations_change s s'"
    "\<And>k. fst k \<noteq> vc_id vc \<Longrightarrow> observation_at k s' = observation_at k s"
    "\<And>d. is_override (observation_at (vc_id vc, d) s) \<Longrightarrow> observation_at (vc_id vc, d) s' = observation_at (vc_id vc, d) s"
    "\<And>d. conflicting s (d, observed vc d s) \<Longrightarrow> \<not> is_override (observation_at (vc_id vc, d) s) \<Longrightarrow>
       \<exists>w issue. observation_at (vc_id vc, d) s' = Some (automatic_choice now sel (observed vc d s) issue w)"
proof -
  obtain s' wss where r: "each_try (resolve_group uuid now sel vc) (group_by eo_event_definition_id (unsuperseded vc s)) s = (s', Inr wss)"
      "observations_ok uuid s'" "observations_change s s'"
    and a: "\<And>k. fst k \<noteq> vc_id vc \<or> snd k \<notin> fst ` set (group_by eo_event_definition_id (unsuperseded vc s)) \<Longrightarrow> observation_at k s' = observation_at k s"
    and b: "\<And>grp. grp \<in> set (group_by eo_event_definition_id (unsuperseded vc s)) \<Longrightarrow>
       \<not> conflicting s grp \<or> is_override (observation_at (vc_id vc, fst grp) s) \<Longrightarrow>
       observation_at (vc_id vc, fst grp) s' = observation_at (vc_id vc, fst grp) s"
    and c: "\<And>grp. grp \<in> set (group_by eo_event_definition_id (unsuperseded vc s)) \<Longrightarrow> conflicting s grp \<Longrightarrow>
       \<not> is_override (observation_at (vc_id vc, fst grp) s) \<Longrightarrow>
       \<exists>w issue. observation_at (vc_id vc, fst grp) s' = Some (automatic_choice now sel (snd grp) issue w)"
    by (rule resolve_groups_spec [OF ok distinct_group_by, of now sel vc eo_event_definition_id "unsuperseded vc s"], rule that; assumption)
  show thesis
  proof (rule that)
    show "resolve_vessel_call uuid now sel vc s = (s', Inr (concat wss))" by (simp add: resolve_vessel_call_def r(1))
    show "observations_ok uuid s'" "observations_change s s'" by (rule r)+
    show "observation_at k s' = observation_at k s" if "fst k \<noteq> vc_id vc" for k using a that by blast
    show "observation_at (vc_id vc, d) s' = observation_at (vc_id vc, d) s" if "is_override (observation_at (vc_id vc, d) s)" for d
    proof (cases "d \<in> fst ` set (group_by eo_event_definition_id (unsuperseded vc s))")
      case True
      then obtain occs where "(d, occs) \<in> set (group_by eo_event_definition_id (unsuperseded vc s))" by auto
      from b [OF this] that show ?thesis by simp
    next
      case False
      then show ?thesis using a [of "(vc_id vc, d)"] by simp
    qed
    show "\<exists>w issue. observation_at (vc_id vc, d) s' = Some (automatic_choice now sel (observed vc d s) issue w)"
      if "conflicting s (d, observed vc d s)" "\<not> is_override (observation_at (vc_id vc, d) s)" for d
    proof -
      have "observed vc d s \<noteq> []" using that(1) by (auto simp: conflicting_def)
      from c [OF observed_group [OF this] that(1)] that(2) show ?thesis by simp
    qed
  qed
qed

text \<open>C11. Selection never fails on a consistent table and never changes an observation itself: afterwards every
  conflicting, non-repeatable event of the call is governed by an observation, which is the steward's where a steward
  has decided and otherwise one of least rank (verification, then confidence, then source, then age); every other
  slot is as before.\<close>

theorem selection_governs_every_conflict:
  assumes "observations_ok uuid s"
  shows "\<exists>s' ws. resolve_vessel_call uuid now sel vc s = (s', Inr ws) \<and> observations_ok uuid s' \<and>
    event_occurrences s' = event_occurrences s \<and>
    (\<forall>k. fst k \<noteq> vc_id vc \<longrightarrow> observation_at k s' = observation_at k s) \<and>
    (\<forall>d. is_override (observation_at (vc_id vc, d) s) \<longrightarrow> observation_at (vc_id vc, d) s' = observation_at (vc_id vc, d) s) \<and>
    (\<forall>d. conflicting s (d, observed vc d s) \<and> \<not> is_override (observation_at (vc_id vc, d) s) \<longrightarrow>
      (\<exists>w e. observation_at (vc_id vc, d) s' = Some w \<and> cn_selected_event_occurrence_id w = Some (eo_id e) \<and>
         e \<in> set (observed vc d s) \<and> list_all (\<lambda>x. occurrence_rank sel e \<le> occurrence_rank sel x) (observed vc d s)))"
proof -
  obtain s' ws where r: "resolve_vessel_call uuid now sel vc s = (s', Inr ws)" "observations_ok uuid s'" "observations_change s s'"
    and a: "\<And>k. fst k \<noteq> vc_id vc \<Longrightarrow> observation_at k s' = observation_at k s"
    and b: "\<And>d. is_override (observation_at (vc_id vc, d) s) \<Longrightarrow> observation_at (vc_id vc, d) s' = observation_at (vc_id vc, d) s"
    and c: "\<And>d. conflicting s (d, observed vc d s) \<Longrightarrow> \<not> is_override (observation_at (vc_id vc, d) s) \<Longrightarrow>
       \<exists>w issue. observation_at (vc_id vc, d) s' = Some (automatic_choice now sel (observed vc d s) issue w)"
    by (rule resolve_spec [OF assms, of now sel vc], rule that; assumption)
  have least: "\<exists>w e. observation_at (vc_id vc, d) s' = Some w \<and> cn_selected_event_occurrence_id w = Some (eo_id e) \<and>
         e \<in> set (observed vc d s) \<and> list_all (\<lambda>x. occurrence_rank sel e \<le> occurrence_rank sel x) (observed vc d s)"
    if d: "conflicting s (d, observed vc d s)" "\<not> is_override (observation_at (vc_id vc, d) s)" for d
  proof -
    from c [OF d] obtain w issue where w: "observation_at (vc_id vc, d) s' = Some (automatic_choice now sel (observed vc d s) issue w)" by blast
    have "observed vc d s \<noteq> []" using d(1) by (auto simp: conflicting_def)
    from hd_sorted_by [OF this, of "occurrence_rank sel"] w show ?thesis
      by (intro exI [of _ "automatic_choice now sel (observed vc d s) issue w"]
          exI [of _ "hd (sorted_by (occurrence_rank sel) (observed vc d s))"]) (simp add: list_all_iff)
  qed
  show ?thesis using r(1,2) observations_change_sel(2) [OF r(3)] a b least by blast
qed

section \<open>What a reconstruction writes\<close>

definition without_journeys :: "'a platform_db_scheme \<Rightarrow> 'a platform_db_scheme" where
  "without_journeys s = s\<lparr>draws := 0, journey_instances := [], stage_occurrences := [], handovers := [], reconstruction_histories := []\<rparr>"

definition journey_change :: "'a platform_db_scheme \<Rightarrow> 'a platform_db_scheme \<Rightarrow> bool" where
  "journey_change s s' \<longleftrightarrow> without_journeys s' = without_journeys s \<and> draws s \<le> draws s'"

lemma journey_change_trans: "journey_change s t \<Longrightarrow> journey_change t u \<Longrightarrow> journey_change s u"
  by (simp add: journey_change_def)

lemma without_journeys_sel:
  "vessel_calls (without_journeys s) = vessel_calls s" "event_occurrences (without_journeys s) = event_occurrences s"
  "event_definitions (without_journeys s) = event_definitions s" "canonical_observations (without_journeys s) = canonical_observations s"
  "observation_corrections (without_journeys s) = observation_corrections s" "audit_log (without_journeys s) = audit_log s"
  by (simp_all add: without_journeys_def)

lemma journey_change_sel:
  assumes "journey_change s s'"
  shows "vessel_calls s' = vessel_calls s" "event_occurrences s' = event_occurrences s" "event_definitions s' = event_definitions s"
    "canonical_observations s' = canonical_observations s" "draws s \<le> draws s'" "observation_corrections s' = observation_corrections s"
    "observation_at k s' = observation_at k s" "audit_log s' = audit_log s"
proof -
  have eq: "without_journeys s' = without_journeys s" and "draws s \<le> draws s'" using assms by (simp_all add: journey_change_def)
  then show "draws s \<le> draws s'" by simp
  show "vessel_calls s' = vessel_calls s" "event_occurrences s' = event_occurrences s" "event_definitions s' = event_definitions s"
    "observation_corrections s' = observation_corrections s" "audit_log s' = audit_log s"
    by (metis eq without_journeys_sel)+
  show "canonical_observations s' = canonical_observations s" by (metis eq without_journeys_sel(4))
  then show "observation_at k s' = observation_at k s" by (simp add: observation_at_def)
qed

lemma journey_change_ok: "journey_change s s' \<Longrightarrow> observations_ok uuid s \<Longrightarrow> observations_ok uuid s'"
  unfolding observations_ok_def using journey_change_sel(4,5) by (metis order_trans)

lemma open_instance_change: "open_instance uuid g vc found s = (i, s') \<Longrightarrow> journey_change s s'"
  by (auto simp: open_instance_def journey_change_def without_journeys_def Let_def split: option.splits)

lemma write_journey_change: "write_journey uuid now g trig i built s = (i', s') \<Longrightarrow> journey_change s s'"
  by (cases built) (auto simp: write_journey_def journey_change_def without_journeys_def Let_def)

text \<open>On a consistent table the events of a call are always resolved.\<close>

lemma get_canonical_total:
  "observations_ok uuid s \<Longrightarrow> get_canonical_occurrence_id c d s = Inr (Option.bind (observation_at (c, d) s) cn_selected_event_occurrence_id)"
  by (simp add: get_canonical_occurrence_id_def get_observation_at observations_ok_def)

lemma instant_entries_total: "observations_ok uuid s \<Longrightarrow> \<exists>m. instant_entries c grps s = Inr m"
proof (induction grps)
  case (Cons grp grps)
  obtain d occs where grp: "grp = (d, occs)" by (cases grp)
  from Cons obtain one many where m: "instant_entries c grps s = Inr (one, many)" by auto
  show ?case by (auto simp: grp m get_canonical_total [OF Cons.prems] split: option.split list.split)
qed simp

lemma find_instance_total:
  "distinct (map ji_vessel_call_id (journey_instances s)) \<Longrightarrow>
     \<exists>r. one_or_none (filter (\<lambda>i. ji_vessel_call_id i = c) (journey_instances s)) = Inr r"
  by (rule one_or_none_distinct)

lemma reconstruct_run:
  assumes "observations_ok uuid s" "distinct (map ji_vessel_call_id (journey_instances s))"
  obtains s1 ws instants repeatable found i s2 i' s3 where "resolve_vessel_call uuid now (je_selector g) vc s = (s1, Inr ws)"
    "observations_ok uuid s1" "observations_change s s1" "build_event_instant_map vc s1 = Inr (instants, repeatable)"
    "one_or_none (filter (\<lambda>i. ji_vessel_call_id i = vc_id vc) (journey_instances s)) = Inr found"
    "open_instance uuid g vc found s1 = (i, s2)"
    "write_journey uuid now g trig i (journey_rows g (ji_id i) instants repeatable) s2 = (i', s3)"
    "reconstruct_vessel_call uuid now g trig vc s = (s3, Inr i')"
proof -
  obtain s1 ws where r: "resolve_vessel_call uuid now (je_selector g) vc s = (s1, Inr ws)" "observations_ok uuid s1" "observations_change s s1"
    by (rule resolve_spec [OF assms(1), of now "je_selector g" vc], rule that; assumption)
  have inst: "journey_instances s1 = journey_instances s" using r(3) by (rule observations_change_sel)
  obtain instants repeatable where m: "build_event_instant_map vc s1 = Inr (instants, repeatable)"
    using instant_entries_total [OF r(2)] unfolding build_event_instant_map_def by fast
  obtain found where f: "one_or_none (filter (\<lambda>i. ji_vessel_call_id i = vc_id vc) (journey_instances s)) = Inr found"
    using find_instance_total [OF assms(2)] by blast
  obtain i s2 where o': "open_instance uuid g vc found s1 = (i, s2)" by fastforce
  obtain i' s3 where w: "write_journey uuid now g trig i (journey_rows g (ji_id i) instants repeatable) s2 = (i', s3)" by fastforce
  have "reconstruct_vessel_call uuid now g trig vc s = (s3, Inr i')"
    by (simp add: reconstruct_vessel_call_def r(1) m inst f o' w)
  then show thesis by (rule that [OF r m f o' w])
qed

section \<open>The journey tables stay consistent\<close>

definition run_versions :: "uid \<Rightarrow> reconstruction_history list \<Rightarrow> nat list" where
  "run_versions i hs = map rh_run_version (filter (\<lambda>h. rh_journey_instance_id h = i) hs)"

text \<open>One instance per call, and the history of an instance holds exactly the versions 1 to its current one.\<close>

definition journeys_ok :: "(nat \<Rightarrow> uid) \<Rightarrow> 'a platform_db_scheme \<Rightarrow> bool" where
  "journeys_ok uuid s \<longleftrightarrow> observations_ok uuid s \<and> distinct (map ji_id (journey_instances s)) \<and>
     distinct (map ji_vessel_call_id (journey_instances s)) \<and> (\<forall>n \<ge> draws s. uuid n \<notin> ji_id ` set (journey_instances s)) \<and>
     list_all (\<lambda>i. 1 \<le> ji_reconstruction_version i \<and>
       run_versions (ji_id i) (reconstruction_histories s) = [1..<Suc (ji_reconstruction_version i)]) (journey_instances s) \<and>
     rh_journey_instance_id ` set (reconstruction_histories s) \<subseteq> ji_id ` set (journey_instances s)"

lemma run_versions_snoc:
  "run_versions i (hs @ [h]) = run_versions i hs @ (if rh_journey_instance_id h = i then [rh_run_version h] else [])"
  by (simp add: run_versions_def)

lemma run_versions_absent: "i \<notin> rh_journey_instance_id ` set hs \<Longrightarrow> run_versions i hs = []"
  by (auto simp: run_versions_def filter_empty_conv)

lemma write_journey_sel:
  assumes "write_journey uuid now g trig i (rows, shifts, ivs) s = (i', s')"
  shows "ji_id i' = ji_id i" "ji_vessel_call_id i' = ji_vessel_call_id i" "ji_reconstruction_version i' = ji_reconstruction_version i"
    "journey_instances s' = upd_by ji_id (ji_id i) (\<lambda>_. i') (journey_instances s)"
    "reconstruction_histories s' = reconstruction_histories s @ [history_of i' (jt_rule_version (je_template g)) trig (number_rows uuid (draws s) rows)]"
    "ji_coverage_summary i' = Some (coverage_of (number_rows uuid (draws s) rows) shifts)"
    "stage_occurrences s' = stage_occurrences s @ number_rows uuid (draws s) rows"
  using assms by (auto simp: write_journey_def Let_def)

lemma history_of_sel [simp]:
  "rh_journey_instance_id (history_of i v t rows) = ji_id i" "rh_run_version (history_of i v t rows) = ji_reconstruction_version i"
  "rh_vessel_call_id (history_of i v t rows) = ji_vessel_call_id i"
  by (simp_all add: history_of_def)

text \<open>Every stage row is either available or missing.\<close>

lemma number_rows_filter: "(\<And>r i. p (r\<lparr>so_id := i\<rparr>) = p r) \<Longrightarrow> length (filter p (number_rows uuid n rows)) = length (filter p rows)"
  unfolding number_rows_def by (induction rows arbitrary: n) simp_all

lemma stage_available_or_missing:
  "so_is_missing (fst (build_stage_occurrence i m d)) \<longleftrightarrow> \<not> so_available (fst (build_stage_occurrence i m d))"
  by (auto simp: build_stage_occurrence_def Let_def timed_stage_def missing_stage_def new_stage_def split: option.split)

lemma shift_available_or_missing:
  "r \<in> set (build_shift_occurrences i ds m) \<Longrightarrow> so_is_missing r \<longleftrightarrow> \<not> so_available r"
proof -
  have row: "so_is_missing (shift_row i d a b k) \<longleftrightarrow> \<not> so_available (shift_row i d a b k)" for d a b k
    by (simp add: shift_row_def Let_def timed_stage_def missing_stage_def new_stage_def split: option.split)
  assume "r \<in> set (build_shift_occurrences i ds m)"
  then obtain d a b k where "r = shift_row i d a b k" by (auto simp: build_shift_occurrences_def Let_def split: list.splits)
  then show ?thesis by (simp only: row)
qed

lemma journey_rows_partition:
  assumes "journey_rows g i instants repeatable = (rows, shifts, ivs)"
  shows "length (filter so_available rows) + length (filter so_is_missing rows) = length rows"
proof -
  have "so_is_missing r \<longleftrightarrow> \<not> so_available r" if "r \<in> set rows" for r
  proof -
    define b where "b = build_stage_occurrence i instants"
    have "rows = map fst (map b (filter (\<lambda>d. js_sequence_index d \<le> main_path_max_sequence \<and> \<not> js_is_repeatable d) (je_stages g))) @
        map fst (map b (filter (\<lambda>d. main_path_max_sequence < js_sequence_index d) (je_stages g))) @
        build_shift_occurrences i (filter js_is_repeatable (je_stages g)) repeatable"
      using assms by (auto simp: journey_rows_def Let_def b_def)
    then have "(\<exists>d. r = fst (b d)) \<or> r \<in> set (build_shift_occurrences i (filter js_is_repeatable (je_stages g)) repeatable)"
      using that by auto
    then show ?thesis
    proof
      assume "\<exists>d. r = fst (b d)"
      then show ?thesis unfolding b_def by (elim exE) (simp only: stage_available_or_missing)
    qed (rule shift_available_or_missing)
  qed
  then have "filter so_is_missing rows = filter (\<lambda>r. \<not> so_available r) rows" by (intro filter_cong refl) simp
  then show ?thesis by (simp add: sum_length_filter_compl)
qed

lemma journeys_ok_observations: "journeys_ok uuid s \<Longrightarrow> observations_ok uuid s"
  by (simp add: journeys_ok_def)

text \<open>Writing the instance, new or found, keeps the tables consistent.\<close>

lemma journeys_ok_new:
  assumes ok: "journeys_ok uuid s" and oc: "observations_ok uuid s'" and d: "draws s \<le> n" "n < draws s'"
    and new: "ji_vessel_call_id i \<notin> ji_vessel_call_id ` set (journey_instances s)" "ji_id i = uuid n" "ji_reconstruction_version i = 1"
    and s': "journey_instances s' = journey_instances s @ [i]"
      "reconstruction_histories s' = reconstruction_histories s @ [h]" "rh_journey_instance_id h = ji_id i" "rh_run_version h = 1"
  shows "journeys_ok uuid s'"
proof -
  have fresh: "ji_id i \<notin> ji_id ` set (journey_instances s)" using ok d(1) new(2) by (simp add: journeys_ok_def)
  have none: "run_versions (ji_id i) (reconstruction_histories s) = []"
    by (rule run_versions_absent) (use ok fresh in \<open>auto simp: journeys_ok_def\<close>)
  have "uuid m \<noteq> uuid n" if "draws s' \<le> m" for m
    using ok d(2) that by (auto simp: journeys_ok_def observations_ok_def inj_eq)
  moreover have "uuid m \<notin> ji_id ` set (journey_instances s)" if "draws s' \<le> m" for m
  proof -
    have "draws s \<le> m" using d that by simp
    then show ?thesis using ok by (simp add: journeys_ok_def)
  qed
  moreover have "ji_id j \<noteq> ji_id i" if "j \<in> set (journey_instances s)" for j using fresh that by (metis imageI)
  ultimately show ?thesis using ok oc fresh none new
    by (auto simp: journeys_ok_def s' run_versions_snoc list_all_iff)
qed

lemma ids_upd_by:
  "(\<And>r. key r = k \<Longrightarrow> g (f r) = g r) \<Longrightarrow> map g (upd_by key k f rows) = map g rows"
  by (simp add: upd_by_def)

lemma journeys_ok_found:
  assumes ok: "journeys_ok uuid s" and oc: "observations_ok uuid s'" and d: "draws s \<le> draws s'"
    and i: "i \<in> set (journey_instances s)" "ji_id i' = ji_id i" "ji_vessel_call_id i' = ji_vessel_call_id i"
      "ji_reconstruction_version i' = ji_reconstruction_version i + 1"
    and s': "journey_instances s' = upd_by ji_id (ji_id i) (\<lambda>_. i') (journey_instances s)"
      "reconstruction_histories s' = reconstruction_histories s @ [h]" "rh_journey_instance_id h = ji_id i"
      "rh_run_version h = ji_reconstruction_version i + 1"
  shows "journeys_ok uuid s'"
proof -
  have dist: "distinct (map ji_id (journey_instances s))" using ok by (simp add: journeys_ok_def)
  obtain xs ys where sp: "journey_instances s = xs @ i # ys" "journey_instances s' = xs @ i' # ys"
    using upd_by_split [OF dist i(1), of "\<lambda>_. i'"] s'(1) by auto
  define good where "good hs j \<longleftrightarrow> 1 \<le> ji_reconstruction_version j \<and> run_versions (ji_id j) hs = [1..<Suc (ji_reconstruction_version j)]" for hs and j :: journey_instance
  have all_good: "list_all (good (reconstruction_histories s)) (xs @ i # ys)" using ok by (simp add: journeys_ok_def good_def [abs_def] sp)
  have other: "good (reconstruction_histories s') j" if j: "j \<in> set xs \<union> set ys" for j
  proof -
    have "ji_id j \<in> set (map ji_id xs @ map ji_id ys)" using j by auto
    moreover have "ji_id i \<notin> set (map ji_id xs @ map ji_id ys)" using dist unfolding sp(1) by simp
    ultimately have "ji_id j \<noteq> ji_id i" by metis
    moreover have "good (reconstruction_histories s) j" using all_good j by (auto simp: list_all_iff)
    ultimately show ?thesis by (simp add: good_def s'(2,3) run_versions_snoc)
  qed
  have keys: "map ji_id (journey_instances s') = map ji_id (journey_instances s)"
    "map ji_vessel_call_id (journey_instances s') = map ji_vessel_call_id (journey_instances s)" by (simp_all add: sp i)
  then have ids: "ji_id ` set (journey_instances s') = ji_id ` set (journey_instances s)" by (metis set_map)
  have "good (reconstruction_histories s') i'"
    using all_good by (simp add: good_def s'(2-4) run_versions_snoc i)
  then have "list_all (good (reconstruction_histories s')) (journey_instances s')" unfolding sp(2) using other by (simp add: list_all_iff)
  moreover have "\<forall>n \<ge> draws s'. uuid n \<notin> ji_id ` set (journey_instances s')" using ok d ids by (simp add: journeys_ok_def)
  moreover have "rh_journey_instance_id ` set (reconstruction_histories s') \<subseteq> ji_id ` set (journey_instances s')"
    using ok i(1) by (auto simp: ids s'(2,3) journeys_ok_def)
  ultimately show ?thesis using ok oc keys unfolding journeys_ok_def good_def [abs_def] by simp
qed

text \<open>One reconstruction on consistent tables.\<close>

lemma reconstruct_keeps:
  assumes ok: "journeys_ok uuid s"
  obtains s' i cov where "reconstruct_vessel_call uuid now g trig vc s = (s', Inr i)" "journeys_ok uuid s'"
    "i \<in> set (journey_instances s')" "ji_vessel_call_id i = vc_id vc" "ji_coverage_summary i = Some cov"
    "cv_stages_available cov + cv_stages_missing cov = cv_stages_total cov"
    "\<exists>h. reconstruction_histories s' = reconstruction_histories s @ [h] \<and> rh_vessel_call_id h = vc_id vc"
    "event_occurrences s' = event_occurrences s" "vessel_calls s' = vessel_calls s"
proof -
  have oc: "observations_ok uuid s" and d: "distinct (map ji_vessel_call_id (journey_instances s))" "distinct (map ji_id (journey_instances s))"
    using ok by (simp_all add: journeys_ok_def)
  obtain s1 ws instants repeatable found i s2 i' s' where run: "observations_ok uuid s1" "observations_change s s1"
    "one_or_none (filter (\<lambda>i. ji_vessel_call_id i = vc_id vc) (journey_instances s)) = Inr found" "open_instance uuid g vc found s1 = (i, s2)"
    "write_journey uuid now g trig i (journey_rows g (ji_id i) instants repeatable) s2 = (i', s')"
    "reconstruct_vessel_call uuid now g trig vc s = (s', Inr i')"
    by (rule reconstruct_run [OF oc d(1), of now g vc trig], rule that; assumption)
  obtain rows shifts ivs where rows: "journey_rows g (ji_id i) instants repeatable = (rows, shifts, ivs)" by (cases "journey_rows g (ji_id i) instants repeatable")
  note w = write_journey_sel [OF run(5) [unfolded rows]]
  note c1 = observations_change_sel [OF run(2)] and c2 = open_instance_change [OF run(4)] and c3 = write_journey_change [OF run(5)]
  note c = journey_change_trans [OF c2 c3]
  have oc': "observations_ok uuid s'" by (rule journey_change_ok [OF c run(1)])
  have hist: "reconstruction_histories s2 = reconstruction_histories s"
    using run(4) c1(11) by (auto simp: open_instance_def Let_def split: option.splits)
  let ?h = "history_of i' (jt_rule_version (je_template g)) trig (number_rows uuid (draws s2) rows)"
  have "journeys_ok uuid s' \<and> i' \<in> set (journey_instances s') \<and> ji_vessel_call_id i' = vc_id vc"
  proof (cases found)
    case None
    have new: "vc_id vc \<notin> ji_vessel_call_id ` set (journey_instances s)"
      using one_or_none_NoneD [of "filter (\<lambda>i. ji_vessel_call_id i = vc_id vc) (journey_instances s)"] run(3) None by (auto simp: filter_empty_conv)
    have i: "ji_id i = uuid (draws s1)" "ji_vessel_call_id i = vc_id vc" "ji_reconstruction_version i = 1"
      "journey_instances s2 = journey_instances s @ [i]" "draws s2 = draws s1 + 1"
      using run(4) None c1(8) by (auto simp: open_instance_def Let_def)
    have fresh: "ji_id i \<notin> ji_id ` set (journey_instances s)" using ok c1(6) i(1) by (simp add: journeys_ok_def)
    have inst: "journey_instances s' = journey_instances s @ [i']"
      using w(4) upd_by_absent [of "ji_id i" ji_id "journey_instances s"] fresh unfolding i(4) by (auto simp: upd_by_def)
    have "journeys_ok uuid s'"
      by (rule journeys_ok_new [OF ok oc' c1(6), of i' ?h]) (use journey_change_sel(5) [OF c3] new i w inst hist in auto)
    then show ?thesis by (simp add: inst w i)
  next
    case (Some j)
    have j: "j \<in> set (journey_instances s)" "ji_vessel_call_id j = vc_id vc"
      using one_or_none_SomeD [of "filter (\<lambda>i. ji_vessel_call_id i = vc_id vc) (journey_instances s)" j] run(3) Some
      by (auto simp: filter_eq_Cons_iff)
    then have v: "1 \<le> ji_reconstruction_version j" using ok by (simp add: journeys_ok_def list_all_iff)
    have i: "ji_id i = ji_id j" "ji_vessel_call_id i = ji_vessel_call_id j" "ji_reconstruction_version i = ji_reconstruction_version j + 1"
      "journey_instances s2 = journey_instances s"
      using run(4) Some c1(8) v by (auto simp: open_instance_def Let_def)
    have "journeys_ok uuid s'"
      by (rule journeys_ok_found [OF ok oc' _ j(1), of i' ?h]) (use journey_change_sel(5) [OF c] c1(6) i w hist in auto)
    moreover have "i' \<in> set (journey_instances s')" unfolding w(4) i(1,4) using j(1) by (force simp: upd_by_def)
    ultimately show ?thesis by (simp add: w i j)
  qed
  moreover have "cv_stages_available (coverage_of (number_rows uuid (draws s2) rows) shifts) +
      cv_stages_missing (coverage_of (number_rows uuid (draws s2) rows) shifts) = cv_stages_total (coverage_of (number_rows uuid (draws s2) rows) shifts)"
    using journey_rows_partition [OF rows] number_rows_filter [of so_available uuid "draws s2" rows] number_rows_filter [of so_is_missing uuid "draws s2" rows]
    by (simp add: coverage_of_def) (simp add: number_rows_def)
  moreover have "event_occurrences s' = event_occurrences s" "vessel_calls s' = vessel_calls s"
    using journey_change_sel(1,2) [OF c] c1(1,2) by simp_all
  ultimately show thesis using that [OF run(6)] w(5,6) hist by simp
qed

definition journey_calls :: "string option \<Rightarrow> 'a canon_db_scheme \<Rightarrow> vessel_call list" where
  "journey_calls tenant s = filter (\<lambda>v. \<not> vc_is_merged v \<and> (case tenant of Some (c # cs) \<Rightarrow> vc_tenant_id v = c # cs | _ \<Rightarrow> True)) (vessel_calls s)"

definition covered :: "'a platform_db_scheme \<Rightarrow> vessel_call \<Rightarrow> bool" where
  "covered s vc \<longleftrightarrow> list_ex (\<lambda>i. ji_vessel_call_id i = vc_id vc) (journey_instances s)"

lemma reconstruct_calls_keeps:
  assumes "journeys_ok uuid s"
  shows "\<exists>s'. reconstruct_calls uuid now g trig vcs s = (length vcs, 0, s') \<and> journeys_ok uuid s' \<and>
    (\<exists>hs. reconstruction_histories s' = reconstruction_histories s @ hs \<and> map rh_vessel_call_id hs = map vc_id vcs) \<and>
    event_occurrences s' = event_occurrences s"
  using assms
proof (induction vcs arbitrary: s)
  case (Cons vc vcs)
  obtain s1 i where s1: "reconstruct_vessel_call uuid now g trig vc s = (s1, Inr i)" "journeys_ok uuid s1"
    "\<exists>h. reconstruction_histories s1 = reconstruction_histories s @ [h] \<and> rh_vessel_call_id h = vc_id vc" "event_occurrences s1 = event_occurrences s"
    by (rule reconstruct_keeps [OF Cons.prems, of now g trig vc], rule that; assumption)
  then obtain h where h: "reconstruction_histories s1 = reconstruction_histories s @ [h]" "rh_vessel_call_id h = vc_id vc" by blast
  from Cons.IH [OF s1(2)] obtain s' hs where s': "reconstruct_calls uuid now g trig vcs s1 = (length vcs, 0, s')" "journeys_ok uuid s'"
    "reconstruction_histories s' = reconstruction_histories s1 @ hs" "map rh_vessel_call_id hs = map vc_id vcs" "event_occurrences s' = event_occurrences s1"
    by blast
  show ?case
  proof (intro exI conjI)
    show "reconstruct_calls uuid now g trig (vc # vcs) s = (length (vc # vcs), 0, s')" by (simp add: s1(1) s'(1))
    show "journeys_ok uuid s'" by (rule s'(2))
    show "reconstruction_histories s' = reconstruction_histories s @ h # hs" by (simp add: s'(3) h(1))
    show "map rh_vessel_call_id (h # hs) = map vc_id (vc # vcs)" by (simp add: h(2) s'(4))
    show "event_occurrences s' = event_occurrences s" by (simp add: s'(5) s1(4))
  qed
qed simp

text \<open>C14. A reconstruction of all calls never fails on consistent tables and keeps them consistent: one instance per
  call whose history holds exactly its versions 1 to n, in order. Every run appends one history row per unmerged call
  of the tenant, in order, removes none, and changes no observation.\<close>

theorem reconstruction_versions_histories:
  assumes "journeys_ok uuid s"
  shows "\<exists>s' hs. reconstruct_all uuid now g tenant trig s =
      ((length (journey_calls tenant s), length (journey_calls tenant s), 0), s') \<and> journeys_ok uuid s' \<and>
    reconstruction_histories s' = reconstruction_histories s @ hs \<and>
    map rh_vessel_call_id hs = map vc_id (journey_calls tenant s) \<and> event_occurrences s' = event_occurrences s"
proof -
  from reconstruct_calls_keeps [OF assms, of now g trig "journey_calls tenant s"] obtain s' hs where
    "reconstruct_calls uuid now g trig (journey_calls tenant s) s = (length (journey_calls tenant s), 0, s')" "journeys_ok uuid s'"
    "reconstruction_histories s' = reconstruction_histories s @ hs" "map rh_vessel_call_id hs = map vc_id (journey_calls tenant s)"
    "event_occurrences s' = event_occurrences s" by blast
  moreover have "reconstruct_all uuid now g tenant trig s = (case reconstruct_calls uuid now g trig (journey_calls tenant s) s of
      (ok, failed, s') \<Rightarrow> ((length (journey_calls tenant s), ok, failed), s'))"
    by (simp add: reconstruct_all_def journey_calls_def Let_def)
  ultimately show ?thesis by (intro exI [of _ s'] exI [of _ hs]) simp
qed

section \<open>The decomposition is a partition of non-negative time\<close>

lemma bucket_get_update: "bucket_get c (AList.update k v bs) = (if c = k then v else bucket_get c bs)"
  by (simp add: bucket_get_def update_conv')

lemma set_update_nonneg:
  "list_all (\<lambda>b. 0 \<le> snd b) bs \<Longrightarrow> (0 :: rat) \<le> v \<Longrightarrow> list_all (\<lambda>b. 0 \<le> snd b) (AList.update k v bs)"
  by (induction bs) auto

lemma bucket_get_nonneg: "list_all (\<lambda>b. 0 \<le> snd b) bs \<Longrightarrow> 0 \<le> bucket_get c bs"
  by (induction bs) (auto simp: bucket_get_def)

lemma fadd_nonneg: "0 \<le> x \<Longrightarrow> 0 \<le> y \<Longrightarrow> 0 \<le> fadd x y"
  unfolding fadd_def by (rule flr.nonneg) simp

lemma fsub_nonneg: "y \<le> x \<Longrightarrow> 0 \<le> fsub x y"
  unfolding fsub_def by (rule flr.nonneg) simp

lemma add_interval_nonneg:
  "list_all (\<lambda>b. 0 \<le> snd b) bs \<Longrightarrow> 0 \<le> iv_hours iv \<Longrightarrow> list_all (\<lambda>b. 0 \<le> snd b) (add_interval iv bs)"
  by (simp add: add_interval_def set_update_nonneg fadd_nonneg bucket_get_nonneg)

lemma carve_shift_nonneg:
  assumes "list_all (\<lambda>b. 0 \<le> snd b) bs" "0 \<le> delay" "case so_duration_hours r of Some h \<Rightarrow> 0 \<le> h | None \<Rightarrow> True"
  shows "case carve_shift ivs r (bs, delay) of (bs', delay') \<Rightarrow> list_all (\<lambda>b. 0 \<le> snd b) bs' \<and> 0 \<le> delay'"
proof -
  have "min h b \<le> b" for h b :: rat by simp
  then show ?thesis using assms bucket_get_nonneg [OF assms(1)]
    by (auto simp: carve_shift_def Let_def fadd_nonneg fsub_nonneg set_update_nonneg split: option.splits)
qed

lemma fold_keeps: "(\<And>x a. x \<in> set xs \<Longrightarrow> P a \<Longrightarrow> P (f x a)) \<Longrightarrow> P a \<Longrightarrow> P (fold f xs a)"
  by (induction xs arbitrary: a) simp_all

definition nonneg_shift :: "stage_occurrence \<Rightarrow> bool" where
  "nonneg_shift r \<longleftrightarrow> (case so_duration_hours r of Some h \<Rightarrow> 0 \<le> h | None \<Rightarrow> True)"

text \<open>Carving shifting time out of the main path never makes a bucket negative: when no stage of the main path and
  no shift has a negative duration, every bucket of the decomposition is non-negative, the five categories are
  always there, and a total exists exactly when some main-path stage was observed.\<close>

theorem decomposition_nonneg:
  assumes "list_all (\<lambda>iv. 0 \<le> iv_hours iv) ivs" "list_all nonneg_shift shifts"
  shows "list_all (\<lambda>b. 0 \<le> snd b) (dc_buckets (compute_decomposition ivs shifts)) \<and>
    set time_categories \<subseteq> fst ` set (dc_buckets (compute_decomposition ivs shifts)) \<and>
    (dc_total_hours (compute_decomposition ivs shifts) = None \<longleftrightarrow> ivs = [])"
proof -
  define start where "start = (fold add_interval ivs (map (\<lambda>c. (c, 0)) time_categories), 0 :: rat)"
  obtain bs delay where carved: "fold (carve_shift ivs) shifts start = (bs, delay)" by fastforce
  define bs1 where "bs1 = AList.update ''DELAY'' (fround 6 (fadd (bucket_get ''DELAY'' bs) delay)) bs"
  have buckets: "dc_buckets (compute_decomposition ivs shifts) = fold round_bucket time_categories bs1"
    using carved by (simp add: compute_decomposition_def start_def bs1_def Let_def)
  let ?good = "\<lambda>st. list_all (\<lambda>b. 0 \<le> snd b) (fst st) \<and> 0 \<le> snd (st :: (string \<times> rat) list \<times> rat)"
  have "list_all (\<lambda>b. 0 \<le> snd b) (fold add_interval ivs (map (\<lambda>c. (c, 0)) time_categories))"
  proof (rule fold_keeps)
    fix iv and bs :: "(string \<times> rat) list" assume iv: "iv \<in> set ivs" "list_all (\<lambda>b. 0 \<le> snd b) bs"
    have "0 \<le> iv_hours iv" using assms(1) iv(1) unfolding list_all_iff by blast
    with iv(2) show "list_all (\<lambda>b. 0 \<le> snd b) (add_interval iv bs)" by (rule add_interval_nonneg)
  qed (simp add: list_all_iff)
  then have "?good start" by (simp add: start_def)
  then have "?good (fold (carve_shift ivs) shifts start)"
  proof (rule fold_keeps [rotated])
    fix r st assume r: "r \<in> set shifts" "?good st"
    have "nonneg_shift r" using assms(2) r(1) unfolding list_all_iff by blast
    then have h: "case so_duration_hours r of Some h \<Rightarrow> 0 \<le> h | None \<Rightarrow> True" by (simp add: nonneg_shift_def)
    obtain bs delay where st: "st = (bs, delay)" by (cases st)
    show "?good (carve_shift ivs r st)"
      using carve_shift_nonneg [OF _ _ h, of bs delay ivs] r(2) unfolding st by (cases "carve_shift ivs r (bs, delay)") simp
  qed
  then have nonneg: "list_all (\<lambda>b. 0 \<le> snd b) bs" "0 \<le> delay" by (simp_all add: carved)
  have "list_all (\<lambda>b. 0 \<le> snd b) bs1"
    unfolding bs1_def using nonneg by (simp add: set_update_nonneg frd.nonneg fadd_nonneg bucket_get_nonneg)
  then have "list_all (\<lambda>b. 0 \<le> snd b) (fold round_bucket time_categories bs1)"
    by (rule fold_keeps [rotated]) (simp add: round_bucket_def set_update_nonneg frd.nonneg bucket_get_nonneg)
  moreover have "set time_categories \<subseteq> fst ` set (fold round_bucket time_categories bs1)"
    by (auto simp: time_categories_def round_bucket_def dom_update)
  moreover have "dc_total_hours (compute_decomposition ivs shifts) = None \<longleftrightarrow> ivs = []"
    by (simp add: compute_decomposition_def Let_def split: prod.split)
  ultimately show ?thesis unfolding buckets by blast
qed

section \<open>Corrections\<close>

lemma add_audit_observations [simp]:
  "observations_ok uuid (add_audit a s) = observations_ok uuid s" "observation_at k (add_audit a s) = observation_at k s"
  "observed vc d (add_audit a s) = observed vc d s" "conflicting (add_audit a s) grp = conflicting s grp"
  by (simp_all add: observations_ok_def observation_at_def observed_def unsuperseded_def conflicting_def)

lemma corrected_occurrence_sel [simp]:
  "eo_id (corrected_occurrence i now vc p q) = i" "eo_vessel_call_id (corrected_occurrence i now vc p q) = vc_id vc"
  "eo_event_definition_id (corrected_occurrence i now vc p q) = cq_event_definition_id q"
  "\<not> eo_is_superseded (corrected_occurrence i now vc p q)" "\<not> eo_is_quarantined (corrected_occurrence i now vc p q)"
  "eo_utc_value (corrected_occurrence i now vc p q) = cq_new_utc_value q"
  "eo_verification_status (corrected_occurrence i now vc p q) = Some ''Verified''" "eo_confidence (corrected_occurrence i now vc p q) = Some 1"
  by (simp_all add: corrected_occurrence_def)

lemma correction_record_sel [simp]:
  "oc_id (correction_record i now vc p n q) = i" "oc_new_event_occurrence_id (correction_record i now vc p n q) = n"
  "oc_approval_state (correction_record i now vc p n q) = cq_approval_state q"
  by (simp_all add: correction_record_def)

lemma after_supersession_simps [simp]:
  "\<not> is_approved q \<Longrightarrow> after_supersession i prior q es = es"
  "is_approved q \<Longrightarrow> after_supersession i (Some p) q es = upd_by eo_id (eo_id p) (supersede i) es"
  by (simp_all add: after_supersession_def split: option.split)

lemma record_correction_cases:
  assumes "record_correction uuid now vc prior q s = Inr (c, s1)"
  shows "\<exists>s2. s1 = add_audit (correction_audit vc prior c q) s2 \<and> c = correction_record (uuid (draws s + 1)) now vc prior (uuid (draws s)) q \<and>
    (if is_approved q then record_canonical_override uuid now (vc_id vc) (cq_event_definition_id q) (uuid (draws s)) (map_option eo_id prior) (oc_id c) q
       else Inr)
      (s\<lparr>event_occurrences := after_supersession (uuid (draws s)) prior q (event_occurrences s) @ [corrected_occurrence (uuid (draws s)) now vc prior q],
         observation_corrections := observation_corrections s @ [c], draws := draws s + 2\<rparr>) = Inr s2"
  using assms unfolding record_correction_def Let_def
  by (cases "occurrence_key (corrected_occurrence (uuid (draws s)) now vc prior q) \<in> occurrence_key ` set (event_occurrences s)")
     (auto elim!: and_then_InrE split: if_splits)

lemma hd_sorted_by_two: "k b < k a \<Longrightarrow> hd (sorted_by k [a, b]) = b"
  by (auto simp: sorted_by_def)

text \<open>A correction that was not approved governs all the same. Its observation is entered live, verified and with
  full confidence, so at the next selection it is chosen over the single existing observation whenever that one is
  unverified or less than certain, although the correction is still pending or was rejected.\<close>

theorem unapproved_correction_governs:
  assumes "observations_ok uuid s" "get_by vc_id call (vessel_calls s) = Inr (Some vc)" "\<not> is_approved q"
    and "create_correction uuid now raw sel call q s = (s1, Inr c)"
    and "observed vc (cq_event_definition_id q) s = [p]" "conflicting s (cq_event_definition_id q, [p, p])"
    and "\<not> is_override (observation_at (vc_id vc, cq_event_definition_id q) s)"
    and "sl_verification_priority sel = ''Verified'' # lower"
    and "eo_verification_status p \<noteq> Some ''Verified'' \<or> or_zero (eo_confidence p) < 1"
  shows "\<exists>s2 ws w. resolve_vessel_call uuid now' sel vc s1 = (s2, Inr ws) \<and>
    observation_at (vc_id vc, cq_event_definition_id q) s2 = Some w \<and>
    cn_selected_event_occurrence_id w = Some (oc_new_event_occurrence_id c) \<and> oc_approval_state c = cq_approval_state q"
proof -
  let ?d = "cq_event_definition_id q"
  obtain prior where prior: "find_prior (cq_prior_event_occurrence_id q) s = Inr prior" and
    rec: "record_correction uuid now vc prior q s = Inr (c, s1)"
    using assms(2-4) by (auto simp: create_correction_def and_then_def split: sum.splits option.splits)
  define e where "e = corrected_occurrence (uuid (draws s)) now vc prior q"
  obtain a where s1: "s1 = add_audit a (s\<lparr>event_occurrences := event_occurrences s @ [e], observation_corrections := observation_corrections s @ [c], draws := draws s + 2\<rparr>)"
    and c: "oc_new_event_occurrence_id c = eo_id e" "oc_approval_state c = cq_approval_state q"
    using record_correction_cases [OF rec] assms(3) unfolding e_def by fastforce
  have ok: "observations_ok uuid s1" using assms(1) by (auto simp: s1 observations_ok_def)
  have at: "observation_at k s1 = observation_at k s" for k by (simp add: s1) (simp add: observation_at_def)
  have two: "observed vc ?d s1 = [p, e]" using assms(5) by (simp add: s1 e_def) (simp add: observed_def unsuperseded_def)
  have conf: "conflicting s1 (?d, observed vc ?d s1)" using assms(6) unfolding two by (simp add: s1) (simp add: conflicting_def)
  have no: "\<not> is_override (observation_at (vc_id vc, ?d) s1)" using assms(7) by (simp add: at)
  have less: "occurrence_rank sel e < occurrence_rank sel p"
    using assms(9) by (auto simp: occurrence_rank_def index_or_len_def assms(8) e_def or_zero_def)
  obtain s2 ws where r: "resolve_vessel_call uuid now' sel vc s1 = (s2, Inr ws)"
    and chosen: "\<And>d. conflicting s1 (d, observed vc d s1) \<Longrightarrow> \<not> is_override (observation_at (vc_id vc, d) s1) \<Longrightarrow>
       \<exists>w issue. observation_at (vc_id vc, d) s2 = Some (automatic_choice now' sel (observed vc d s1) issue w)"
    by (rule resolve_spec [OF ok, of now' sel vc], rule that; assumption)
  from chosen [OF conf no] obtain w issue where "observation_at (vc_id vc, ?d) s2 = Some (automatic_choice now' sel [p, e] issue w)"
    unfolding two by blast
  then show ?thesis using r c hd_sorted_by_two [of "occurrence_rank sel" e p, OF less] by (intro exI conjI) auto
qed

text \<open>An approved correction.\<close>

lemma save_override:
  assumes "observations_ok uuid s" "record_canonical_override uuid now c d new_id prior_id cid q s = Inr s'"
  shows "observations_ok uuid s'" "observations_change s s'"
    "\<exists>w. observation_at (c, d) s' = Some w \<and> cn_selected_event_occurrence_id w = Some new_id \<and> cn_selection_method w = STEWARD_OVERRIDE"
proof -
  define f where "f = (\<lambda>w :: canonical_observation. let candidates = sort (remdups (cn_candidate_event_occurrence_ids w @ new_id # (case prior_id of Some i \<Rightarrow> [i] | None \<Rightarrow> [])))
         in w\<lparr>cn_candidate_event_occurrence_ids := candidates, cn_selected_event_occurrence_id := Some new_id,
              cn_selection_method := STEWARD_OVERRIDE, cn_conflict_detected := cn_conflict_detected w \<or> 1 < length candidates,
              cn_selection_reasoning := JObj [(''correction_id'', JStr cid), (''reason'', JStr (cq_reason q)), (''actor'', JStr (cq_actor q))],
              cn_decided_by := Some (cq_actor q), cn_decided_at := Some now\<rparr>)"
  have f: "slot (f w) = slot w" "cn_id (f w) = cn_id w" "cn_selected_event_occurrence_id (f w) = Some new_id"
      "cn_selection_method (f w) = STEWARD_OVERRIDE" for w
    by (simp_all add: f_def Let_def slot_def)
  have "s' = snd (save_observation uuid c d (observation_at (c, d) s) f s)"
    using assms by (simp add: record_canonical_override_def get_observation_at observations_ok_def f_def)
  then obtain w where sv: "save_observation uuid c d (observation_at (c, d) s) f s = (w, s')"
    by (cases "save_observation uuid c d (observation_at (c, d) s) f s") simp
  note spec = save_observation_at [OF assms(1) f(1,2) sv]
  show "observations_ok uuid s'" "observations_change s s'" by (rule spec)+
  show "\<exists>w. observation_at (c, d) s' = Some w \<and> cn_selected_event_occurrence_id w = Some new_id \<and> cn_selection_method w = STEWARD_OVERRIDE"
    using spec(3) [of "(c, d)"] spec(4) f(3,4) by simp
qed

lemma upsert_stages_sel:
  "upsert_stages uuid t ex cs s = (rows, s') \<Longrightarrow> event_occurrences s' = event_occurrences s \<and>
     canonical_observations s' = canonical_observations s \<and> draws s \<le> draws s' \<and> journey_instances s' = journey_instances s \<and>
     observation_corrections s' = observation_corrections s"
proof (induction cs arbitrary: s rows)
  case (Cons c cs)
  obtain row s1 where u: "upsert_stage uuid t ex c s = (row, s1)" by fastforce
  obtain rows' where "upsert_stages uuid t ex cs s1 = (rows', s')" using Cons.prems u by (auto split: prod.splits)
  from Cons.IH [OF this] u show ?case by (auto simp: upsert_stage_def Let_def split: option.splits)
qed simp

lemma initial_engine_sel:
  assumes "initial_engine uuid raw sel s = Inr (g, s')"
  shows "event_occurrences s' = event_occurrences s" "canonical_observations s' = canonical_observations s" "draws s \<le> draws s'"
    "journey_instances s' = journey_instances s" "je_selector g = sel" "observation_corrections s' = observation_corrections s"
proof -
  obtain t stages where e: "ensure_template uuid raw s = Inr ((t, stages), s')" "g = \<lparr>je_template = t, je_stages = stages, je_selector = sel\<rparr>"
    using assms by (auto simp: initial_engine_def)
  obtain found where found: "get_by jt_name (tg_name raw) (journey_templates s) = Inr found"
    using e(1) by (auto simp: ensure_template_def)
  obtain template s1 where t: "upsert_template uuid raw found s = (template, s1)" by fastforce
  obtain rows s2 where u: "upsert_stages uuid (jt_id template) (filter (\<lambda>r. js_template_id r = jt_id template) (journey_stages s1))
      (tg_stages raw) s1 = (rows, s2)" by fastforce
  have "s2 = s'" using e(1) by (simp add: ensure_template_def found t u)
  with upsert_stages_sel [OF u] t
  show "event_occurrences s' = event_occurrences s" "canonical_observations s' = canonical_observations s" "draws s \<le> draws s'"
    "journey_instances s' = journey_instances s" "observation_corrections s' = observation_corrections s"
    by (auto simp: upsert_template_def Let_def split: option.splits)
  show "je_selector g = sel" by (simp add: e(2))
qed

lemma reconstruct_observations:
  assumes "observations_ok uuid s" "reconstruct_vessel_call uuid now g trig vc s = (s', Inr i)"
  shows "is_override (observation_at (vc_id vc, d) s) \<Longrightarrow> observation_at (vc_id vc, d) s' = observation_at (vc_id vc, d) s"
    "event_occurrences s' = event_occurrences s"
proof -
  obtain s1 ws where r: "resolve_vessel_call uuid now (je_selector g) vc s = (s1, Inr ws)" "observations_change s s1"
    and kept: "\<And>d. is_override (observation_at (vc_id vc, d) s) \<Longrightarrow> observation_at (vc_id vc, d) s1 = observation_at (vc_id vc, d) s"
    by (rule resolve_spec [OF assms(1), of now "je_selector g" vc], rule that; assumption)
  have "journey_change s1 s'"
    using assms(2) unfolding reconstruct_vessel_call_def r(1) seq_try_simps
    by (auto simp: Let_def split: sum.splits prod.splits intro: journey_change_trans dest: open_instance_change write_journey_change)
  note change = journey_change_sel(2,7) [OF this]
  show "event_occurrences s' = event_occurrences s" using change(1) observations_change_sel(2) [OF r(2)] by simp
  show "observation_at (vc_id vc, d) s' = observation_at (vc_id vc, d) s" if "is_override (observation_at (vc_id vc, d) s)"
    using kept [OF that] change(2) by simp
qed

lemma approved_effect:
  assumes "observations_ok uuid s" "get_by vc_id call (vessel_calls s) = Inr (Some vc)" "is_approved q"
    and "find_prior (cq_prior_event_occurrence_id q) s = Inr (Some p)"
    and "create_correction uuid now raw sel call q s = (s', Inr c)"
  shows "(\<exists>w. observation_at (vc_id vc, cq_event_definition_id q) s' = Some w \<and>
      cn_selected_event_occurrence_id w = Some (oc_new_event_occurrence_id c) \<and> cn_selection_method w = STEWARD_OVERRIDE) \<and>
    event_occurrences s' = upd_by eo_id (eo_id p) (supersede (oc_new_event_occurrence_id c)) (event_occurrences s) @
      [corrected_occurrence (oc_new_event_occurrence_id c) now vc (Some p) q] \<and> oc_recalculated_at c = Some now"
proof -
  obtain c1 s1 where rec: "record_correction uuid now vc (Some p) q s = Inr (c1, s1)"
    using assms(2-5) by (auto simp: create_correction_def and_then_def split: sum.splits)
  with assms(2-5) obtain g s2 s3 i where g: "initial_engine uuid raw sel s1 = Inr (g, s2)"
    and r: "reconstruct_vessel_call uuid now g ''CORRECTION'' vc s2 = (s3, Inr i)" and c: "c = c1\<lparr>oc_recalculated_at := Some now\<rparr>"
    and s': "canonical_observations s' = canonical_observations s3" "event_occurrences s' = event_occurrences s3"
    by (auto simp: create_correction_def split: sum.splits prod.splits)
  define t0 where "t0 = s\<lparr>event_occurrences := upd_by eo_id (eo_id p) (supersede (uuid (draws s))) (event_occurrences s) @
      [corrected_occurrence (uuid (draws s)) now vc (Some p) q], observation_corrections := observation_corrections s @ [c1], draws := draws s + 2\<rparr>"
  obtain a t where t: "s1 = add_audit a t" "record_canonical_override uuid now (vc_id vc) (cq_event_definition_id q)
       (uuid (draws s)) (Some (eo_id p)) (oc_id c1) q t0 = Inr t" and new: "oc_new_event_occurrence_id c1 = uuid (draws s)"
    using record_correction_cases [OF rec] assms(3) unfolding t0_def by fastforce
  have "observations_ok uuid t0" using assms(1) by (simp add: observations_ok_def t0_def)
  note saved = save_override [OF this t(2)]
  obtain w where w: "observation_at (vc_id vc, cq_event_definition_id q) t = Some w"
      "cn_selected_event_occurrence_id w = Some (uuid (draws s))" "cn_selection_method w = STEWARD_OVERRIDE"
    using saved(3) by blast
  note engine = initial_engine_sel [OF g]
  have at: "observation_at k s2 = observation_at k t" for k using engine(2) t(1) by (simp add: observation_at_def)
  have ok: "observations_ok uuid s2" using saved(1) engine(2,3) t(1) by (auto simp: observations_ok_def)
  have "is_override (observation_at (vc_id vc, cq_event_definition_id q) s2)" using w by (simp add: at is_override_def)
  from reconstruct_observations(1) [OF ok r this] w(1) have "observation_at (vc_id vc, cq_event_definition_id q) s3 = Some w" by (simp add: at)
  then have "observation_at (vc_id vc, cq_event_definition_id q) s' = Some w" by (simp add: s' observation_at_def)
  moreover have "event_occurrences s' = event_occurrences t"
    using reconstruct_observations(2) [OF ok r] engine(1) t(1) s'(2) by simp
  ultimately show ?thesis using w(2,3) observations_change_sel(2) [OF saved(2)] by (simp add: c new t0_def)
qed

text \<open>An approved correction goes through when the template is unambiguous, the call has at most one journey and the
  index of the corrected observation is free.\<close>

lemma initial_engine_total: "get_by jt_name (tg_name raw) (journey_templates s) = Inr t \<Longrightarrow> \<exists>g s'. initial_engine uuid raw sel s = Inr (g, s')"
  by (auto simp: initial_engine_def ensure_template_def Let_def split: prod.split)

lemma override_total: "observations_ok uuid s \<Longrightarrow> \<exists>s'. record_canonical_override uuid now c d n p i q s = Inr s'"
  by (simp add: record_canonical_override_def get_observation_at observations_ok_def)

lemma approved_run:
  assumes "observations_ok uuid s" "distinct (map ji_vessel_call_id (journey_instances s))" "get_by vc_id call (vessel_calls s) = Inr (Some vc)"
    and "is_approved q" "find_prior (cq_prior_event_occurrence_id q) s = Inr (Some p)"
    and "get_by jt_name (tg_name raw) (journey_templates s) = Inr t"
    and "(vc_id vc, cq_event_definition_id q, eo_occurrence_index p + 1000) \<notin> occurrence_key ` set (event_occurrences s)"
  shows "\<exists>s' c. create_correction uuid now raw sel call q s = (s', Inr c)"
proof -
  define e where "e = corrected_occurrence (uuid (draws s)) now vc (Some p) q"
  define s0 where "s0 = s\<lparr>event_occurrences := after_supersession (eo_id e) (Some p) q (event_occurrences s) @ [e],
    observation_corrections := observation_corrections s @ [correction_record (uuid (draws s + 1)) now vc (Some p) (eo_id e) q], draws := draws s + 2\<rparr>"
  have ok0: "observations_ok uuid s0" using assms(1) by (simp add: s0_def observations_ok_def)
  obtain s1 where s1: "record_canonical_override uuid now (vc_id vc) (cq_event_definition_id q) (eo_id e) (Some (eo_id p)) (uuid (draws s + 1)) q s0 = Inr s1"
    using override_total [OF ok0] by blast
  have key: "occurrence_key e \<notin> occurrence_key ` set (event_occurrences s)"
    using assms(7) by (simp add: occurrence_key_def e_def corrected_occurrence_def)
  obtain c s2 where rec: "record_correction uuid now vc (Some p) q s = Inr (c, s2)" and s2: "\<exists>a. s2 = add_audit a s1"
    unfolding record_correction_def Let_def e_def [symmetric] using key assms(4) s1 unfolding s0_def by auto
  note saved = save_override [OF ok0 s1]
  have ok2: "observations_ok uuid s2" using saved(1) s2 by auto
  have same: "journey_templates s1 = journey_templates s" "journey_instances s1 = journey_instances s"
    using saved(2) by (auto simp: observations_change_def s0_def)
  then have "get_by jt_name (tg_name raw) (journey_templates s2) = Inr t" using assms(6) s2 by auto
  then obtain g s3 where g: "initial_engine uuid raw sel s2 = Inr (g, s3)" using initial_engine_total by blast
  note engine = initial_engine_sel [OF g]
  have ok3: "observations_ok uuid s3" using ok2 engine(2,3) by (auto simp: observations_ok_def)
  have one: "distinct (map ji_vessel_call_id (journey_instances s3))" using assms(2) same engine(4) s2 by auto
  obtain s4 i where "reconstruct_vessel_call uuid now g ''CORRECTION'' vc s3 = (s4, Inr i)"
    by (rule reconstruct_run [OF ok3 one, of now g vc "''CORRECTION''"], rule that)
  then show ?thesis using assms(3-5) rec g by (simp add: create_correction_def)
qed

text \<open>An approved correction takes effect at once and stays: the corrected observation is appended, the one it
  corrects is marked superseded by it, and after the recalculation, which runs the automatic selection again, the
  canonical observation of the event still points at the corrected one as a steward's override.\<close>

theorem approved_correction_overrides:
  assumes "observations_ok uuid s" "distinct (map ji_vessel_call_id (journey_instances s))" "get_by vc_id call (vessel_calls s) = Inr (Some vc)"
    and "is_approved q" "find_prior (cq_prior_event_occurrence_id q) s = Inr (Some p)"
    and "get_by jt_name (tg_name raw) (journey_templates s) = Inr t"
    and "(vc_id vc, cq_event_definition_id q, eo_occurrence_index p + 1000) \<notin> occurrence_key ` set (event_occurrences s)"
  shows "\<exists>s' c w. create_correction uuid now raw sel call q s = (s', Inr c) \<and> oc_recalculated_at c = Some now \<and>
    observation_at (vc_id vc, cq_event_definition_id q) s' = Some w \<and> cn_selection_method w = STEWARD_OVERRIDE \<and>
    cn_selected_event_occurrence_id w = Some (oc_new_event_occurrence_id c) \<and>
    event_occurrences s' = upd_by eo_id (eo_id p) (supersede (oc_new_event_occurrence_id c)) (event_occurrences s) @
      [corrected_occurrence (oc_new_event_occurrence_id c) now vc (Some p) q]"
proof -
  obtain s' c where run: "create_correction uuid now raw sel call q s = (s', Inr c)" using approved_run [OF assms] by blast
  from approved_effect [OF assms(1,3-5) run] run show ?thesis by blast
qed

section \<open>Witnesses\<close>

definition call_db :: "event_occurrence list \<Rightarrow> platform_db" where
  "call_db es = \<lparr>vessel_calls = [bare_call ''c''], event_occurrences = es, event_definitions = [], service_requests = [],
     service_assignments = [], service_executions = [], delays = [], delay_allocations = [], cargo_operations = [],
     quality_rules = [], quality_issues = [], audit_log = [], draws = 0, match_candidates = [], match_evidence_rows = [], merge_decisions = [], alert_rules = [], bottleneck_records = [],
     outlier_records = [], operational_alerts = [], action_items = [], open_alerts = None, lead_time_definitions = [], lead_time_results = [], statistical_aggregates = [],
     journey_templates = [], journey_stages = [], journey_instances = [], stage_occurrences = [], handovers = [],
     canonical_observations = [], observation_corrections = [], reconstruction_histories = []\<rparr>"

lemma call_db_sel [simp]:
  "vessel_calls (call_db es) = [bare_call ''c'']" "event_occurrences (call_db es) = es" "event_definitions (call_db es) = []"
  "draws (call_db es) = 0" "journey_instances (call_db es) = []" "journey_templates (call_db es) = []"
  "canonical_observations (call_db es) = []" "reconstruction_histories (call_db es) = []" "observation_corrections (call_db es) = []"
  by (simp_all add: call_db_def)

abbreviation sample_ids :: "nat \<Rightarrow> uid" where "sample_ids \<equiv> \<lambda>n. replicate n CHR ''a''"

lemma inj_sample_ids: "inj sample_ids" by (rule injI) (metis length_replicate)

lemma call_db_ok: "observations_ok sample_ids (call_db es)" "journeys_ok sample_ids (call_db es)"
  by (simp_all add: journeys_ok_def observations_ok_def inj_sample_ids)

theorem selection_governs_every_conflict_witness:
  "\<exists>s' ws w. resolve_vessel_call sample_ids 0 default_selector (bare_call ''c'') (call_db [bare_event ''e1'' ''c'' ''d'' 2, bare_event ''e2'' ''c'' ''d'' 1]) = (s', Inr ws) \<and>
     observation_at (''c'', ''d'') s' = Some w \<and> cn_selected_event_occurrence_id w \<noteq> None"
proof -
  let ?s = "call_db [bare_event ''e1'' ''c'' ''d'' 2, bare_event ''e2'' ''c'' ''d'' 1]"
  have "conflicting ?s (''d'', observed (bare_call ''c'') ''d'' ?s)"
    by (simp add: conflicting_def observed_def unsuperseded_def last_with_def bare_call_def bare_event_def repeatable_events_def)
  moreover have "\<not> is_override (observation_at (vc_id (bare_call ''c''), ''d'') ?s)" by (simp add: is_override_def observation_at_def)
  moreover have "vc_id (bare_call ''c'') = ''c''" by (simp add: bare_call_def)
  ultimately show ?thesis
    using selection_governs_every_conflict [OF call_db_ok(1), of 0 default_selector "bare_call ''c''" "[bare_event ''e1'' ''c'' ''d'' 2, bare_event ''e2'' ''c'' ''d'' 1]"]
    by (metis option.distinct(1))
qed

theorem reconstruction_versions_histories_witness:
  "\<exists>s' h. reconstruct_all sample_ids 0 \<lparr>je_template = \<lparr>jt_id = ''t'', jt_name = ''n'', jt_rule_version = ''1''\<rparr>, je_stages = [], je_selector = default_selector\<rparr>
      None ''x'' (call_db []) = ((1, 1, 0), s') \<and> reconstruction_histories s' = [h] \<and> rh_vessel_call_id h = ''c''"
proof -
  have "journey_calls None (call_db []) = [bare_call ''c'']" "vc_id (bare_call ''c'') = ''c''"
    by (simp_all add: journey_calls_def bare_call_def)
  with reconstruction_versions_histories [OF call_db_ok(2), of 0 _ None "''x''" "[]"] show ?thesis
    by (fastforce simp: map_eq_Cons_conv)
qed

theorem decomposition_nonneg_witness:
  "list_all (\<lambda>b. 0 \<le> snd b) (dc_buckets (compute_decomposition [\<lparr>iv_category = ''DELAY'', iv_start = 0, iv_end = 5, iv_hours = 6\<rparr>] []))"
  using decomposition_nonneg [of "[\<lparr>iv_category = ''DELAY'', iv_start = 0, iv_end = 5, iv_hours = 6\<rparr>]" "[]"] by simp

definition sample_correction :: "string \<Rightarrow> correction_request" where
  "sample_correction st = \<lparr>cq_event_definition_id = ''d'', cq_new_utc_value = 7, cq_reason = ''log book'', cq_actor = ''st'',
     cq_prior_event_occurrence_id = Some ''e'', cq_approval_state = st\<rparr>"

lemma sample_correction_run:
  "\<not> is_approved (sample_correction st) \<Longrightarrow>
    \<exists>s1 c. create_correction sample_ids 0 \<lparr>tg_name = ''n'', tg_rule_version = None, tg_stages = []\<rparr> default_selector ''c'' (sample_correction st)
      (call_db [bare_event ''e'' ''c'' ''d'' 2]) = (s1, Inr c) \<and> oc_approval_state c = st"
  by (simp add: create_correction_def find_prior_def get_by_def sample_correction_def bare_call_def bare_event_def record_correction_def
      Let_def occurrence_key_def corrected_occurrence_def)

theorem unapproved_correction_governs_witness:
  "\<exists>s1 c s2 ws w. create_correction sample_ids 0 \<lparr>tg_name = ''n'', tg_rule_version = None, tg_stages = []\<rparr> default_selector ''c'' (sample_correction ''REJECTED'')
      (call_db [bare_event ''e'' ''c'' ''d'' 2]) = (s1, Inr c) \<and>
    resolve_vessel_call sample_ids 0 default_selector (bare_call ''c'') s1 = (s2, Inr ws) \<and> observation_at (''c'', ''d'') s2 = Some w \<and>
    cn_selected_event_occurrence_id w = Some (oc_new_event_occurrence_id c) \<and> oc_approval_state c = ''REJECTED''"
proof -
  let ?s = "call_db [bare_event ''e'' ''c'' ''d'' 2]" and ?q = "sample_correction ''REJECTED''"
  have na: "\<not> is_approved ?q" by (simp add: is_approved_def sample_correction_def)
  from sample_correction_run [OF this] obtain s1 c where run:
    "create_correction sample_ids 0 \<lparr>tg_name = ''n'', tg_rule_version = None, tg_stages = []\<rparr> default_selector ''c'' ?q ?s = (s1, Inr c)" by blast
  have vc: "get_by vc_id ''c'' (vessel_calls ?s) = Inr (Some (bare_call ''c''))" "vc_id (bare_call ''c'') = ''c''"
    by (simp_all add: get_by_def bare_call_def)
  have q: "cq_event_definition_id ?q = ''d''" "cq_approval_state ?q = ''REJECTED''" by (simp_all add: sample_correction_def)
  have "observed (bare_call ''c'') (cq_event_definition_id ?q) ?s = [bare_event ''e'' ''c'' ''d'' 2]"
    by (simp add: observed_def unsuperseded_def bare_call_def bare_event_def q)
  moreover have "conflicting ?s (cq_event_definition_id ?q, [bare_event ''e'' ''c'' ''d'' 2, bare_event ''e'' ''c'' ''d'' 2])"
    by (simp add: conflicting_def last_with_def repeatable_events_def)
  moreover have "\<not> is_override (observation_at (vc_id (bare_call ''c''), cq_event_definition_id ?q) ?s)"
    by (simp add: is_override_def observation_at_def)
  moreover have "sl_verification_priority default_selector = ''Verified'' # [''Conflicting'']" by (simp add: default_selector_def)
  moreover have "eo_verification_status (bare_event ''e'' ''c'' ''d'' 2) \<noteq> Some ''Verified'' \<or> or_zero (eo_confidence (bare_event ''e'' ''c'' ''d'' 2)) < 1"
    by (simp add: bare_event_def)
  ultimately show ?thesis
    using unapproved_correction_governs [OF call_db_ok(1) vc(1) na run, of "bare_event ''e'' ''c'' ''d'' 2" "[''Conflicting'']" 0] run vc(2) q by metis
qed

theorem approved_correction_overrides_witness:
  "\<exists>s' c w. create_correction sample_ids 0 \<lparr>tg_name = ''n'', tg_rule_version = None, tg_stages = []\<rparr> default_selector ''c'' (sample_correction ''APPROVED'')
      (call_db [bare_event ''e'' ''c'' ''d'' 2]) = (s', Inr c) \<and> observation_at (''c'', ''d'') s' = Some w \<and>
    cn_selected_event_occurrence_id w = Some (oc_new_event_occurrence_id c)"
proof -
  let ?s = "call_db [bare_event ''e'' ''c'' ''d'' 2]" and ?q = "sample_correction ''APPROVED''"
  have vc: "get_by vc_id ''c'' (vessel_calls ?s) = Inr (Some (bare_call ''c''))" "vc_id (bare_call ''c'') = ''c''"
    by (simp_all add: get_by_def bare_call_def)
  have q: "cq_event_definition_id ?q = ''d''" "is_approved ?q" "cq_prior_event_occurrence_id ?q = Some ''e''"
    by (simp_all add: sample_correction_def is_approved_def)
  have prior: "find_prior (cq_prior_event_occurrence_id ?q) ?s = Inr (Some (bare_event ''e'' ''c'' ''d'' 2))"
    by (simp add: find_prior_def q get_by_def bare_event_def)
  have key: "(vc_id (bare_call ''c''), cq_event_definition_id ?q, eo_occurrence_index (bare_event ''e'' ''c'' ''d'' 2) + 1000) \<notin>
      occurrence_key ` set (event_occurrences ?s)"
    by (simp add: occurrence_key_def bare_event_def)
  have "distinct (map ji_vessel_call_id (journey_instances ?s))"
    "get_by jt_name (tg_name \<lparr>tg_name = ''n'', tg_rule_version = None, tg_stages = []\<rparr>) (journey_templates ?s) = Inr None"
    by (simp_all add: get_by_def)
  from approved_correction_overrides [OF call_db_ok(1) this(1) vc(1) q(2) prior this(2) key, of 0 default_selector] show ?thesis
    unfolding vc(2) q(1) by blast
qed

end
