(* ===== verification/Staging.thy ===== *)
theory Staging
  imports Platform Quality
begin

text \<open>
  The ingestion tables (\<open>apps/api/models/ingestion.py\<close>) beside the canonical, journey and analytics ones:
  raw cells, staged rows, dataset batches and their file manifests, and the session state that holds them all.
\<close>

record raw_record =
  rw_file_checksum :: string
  rw_worksheet_name :: string
  rw_row_number :: nat
  rw_column_name :: string
  rw_original_value :: string
  rw_ingestion_batch_id :: string
  rw_source_record_id :: string
  rw_source_file_id :: "string option"

record batch_row =
  bt_batch_id :: string
  bt_file_name :: fstring
  bt_file_checksum :: string
  bt_status :: string
  bt_error_message :: "fstring option"
  bt_tenant_id :: string
  bt_is_synthetic :: bool
  bt_is_active :: bool
  bt_created_at :: time

record file_row =
  im_id :: uid
  im_group_batch_id :: string
  im_original_filename :: string
  im_file_checksum :: string
  im_byte_size :: nat
  im_storage_reference :: "string option"
  im_parse_status :: string
  im_validation_status :: string
  im_error_message :: "fstring option"

record ingest_db = platform_db +
  raw_records :: "raw_record list"
  staging_records :: "staging_record list"
  batch_rows :: "batch_row list"
  file_rows :: "file_row list"

end
