(* ===== verification/LeadTimes.thy ===== *)
theory LeadTimes
  imports Staging Journey
begin

text \<open>
  The lead-time catalogue and the analytics engine (\<open>apps/api/services/analytics/catalogue.py\<close> and
  \<open>engine.py\<close>): the governed definitions, one result per definition and vessel call, and the statistics over a
  definition's results. The descriptive statistics of \<open>polars\<close> are parameters.
\<close>

section \<open>The catalogue\<close>

text \<open>A seed is a definition without its identifier. Text is a list of bytes, UTF-8 outside ASCII.\<close>

definition catalogue_seed ::
    "string \<Rightarrow> string \<Rightarrow> string \<Rightarrow> string \<Rightarrow> string \<Rightarrow> string list \<Rightarrow> string option \<Rightarrow> lead_time_definition" where
  "catalogue_seed name start end' description availability required movement =
     \<lparr>ld_id = '''', ld_name = name, ld_start_event = start, ld_end_event = end', ld_description = Some description,
      ld_formula_version = ''1.0'', ld_unit = ''hours'', ld_null_handling = ''UNAVAILABLE'', ld_occurrence_selection = ''first'',
      ld_availability_status = availability, ld_required_events = required, ld_custom_builder = False,
      ld_is_execution_delay = movement \<noteq> None, ld_execution_delay_movement = movement\<rparr>"

definition computable_seed :: "string \<Rightarrow> string \<Rightarrow> string \<Rightarrow> string \<Rightarrow> lead_time_definition" where
  "computable_seed name a b description = catalogue_seed name a b description ''COMPUTABLE'' [a, b] None"

definition unsourced_seed :: "string \<Rightarrow> string \<Rightarrow> string \<Rightarrow> string \<Rightarrow> lead_time_definition" where
  "unsourced_seed name a b description = catalogue_seed name a b description ''NO_SOURCE_DATA'' [a, b] None"

definition delay_seed :: "string \<Rightarrow> string \<Rightarrow> string list \<Rightarrow> string \<Rightarrow> lead_time_definition" where
  "delay_seed name description required movement =
     catalogue_seed name ''SCHEDULED_TIME'' ''SERVED_TIME'' description ''COMPUTABLE'' required (Some movement)"

definition reconciliation_targets :: "lead_time_definition list" where
  "reconciliation_targets =
    [computable_seed ''Turnaround'' ''ATA'' ''ATD''
       ''Total port stay from Actual Time of Arrival (ATA) to Actual Time of Departure (ATD).'',
     computable_seed ''Anchorage Wait'' ''ANCHORAGE_ARRIVAL'' ''PILOT_ON_BOARD_ARRIVAL''
       ''Waiting time at anchorage awaiting pilot boarding for arrival movement.'',
     computable_seed ''Inward Movement'' ''PILOT_ON_BOARD_ARRIVAL'' ''ALL_FAST_ARRIVAL''
       ''Inward transit from pilot boarding at anchorage to all fast at designated berth.'',
     computable_seed ''Berth Stay'' ''ALL_FAST_ARRIVAL'' ''LAST_LINE_UNTIED_SAILING''
       ''Total duration alongside berth from all lines secured to last line cast off for departure.'',
     computable_seed ''Cargo Working'' ''CARGO_START'' ''CARGO_END''
       ''Net cargo working duration between cargo operations commencement and completion.'',
     computable_seed ''Outward Movement'' ''PILOT_ON_BOARD_SAILING'' ''BREAKWATER_OUT''
       ''Outward transit from departure pilot boarding to clearing breakwater outward.'',
     delay_seed ''Arrival Execution Delay'' (''Execution delay for Arrival Pilotage Service: Served_Time '' @ [CHR 0xE2, CHR 0x88, CHR 0x92] @ '' Scheduled_Time. Negative values represent early service.'') [''PILOT_SCHEDULED_ARRIVAL'', ''PILOT_ON_BOARD_ARRIVAL''] ''Arrival'',
     delay_seed ''Sailing Execution Delay'' (''Execution delay for Sailing Pilotage Service: Served_Time '' @ [CHR 0xE2, CHR 0x88, CHR 0x92] @ '' Scheduled_Time. Negative values represent early service.'') [''PILOT_SCHEDULED_SAILING'', ''PILOT_ON_BOARD_SAILING''] ''Sailing'']"

definition additional_calculations :: "lead_time_definition list" where
  "additional_calculations =
    [computable_seed ''Pre-Arrival'' ''NOMINATION_SUBMITTED'' ''ATA''
       ''Planning duration from vessel nomination submission to actual arrival.'',
     computable_seed ''Pilot Response Arrival'' ''PILOT_REQUEST_ARRIVAL'' ''PILOT_ON_BOARD_ARRIVAL''
       ''Arrival pilot response duration from request time to pilot boarding.'',
     computable_seed ''Breakwater In to All Fast'' ''BREAKWATER_IN'' ''ALL_FAST_ARRIVAL''
       ''Harbour basin transit duration from breakwater entry to all fast.'',
     computable_seed ''First Line to All Fast'' ''FIRST_LINE_TIED_ARRIVAL'' ''ALL_FAST_ARRIVAL''
       ''Mooring duration from first mooring line secured to all lines fast.'',
     computable_seed ''Unberthing Duration'' ''FIRST_LINE_UNTIED_SAILING'' ''LAST_LINE_UNTIED_SAILING''
       ''Mooring team unberthing duration from first line untied to last line untied.'',
     computable_seed ''Breakwater Out to ATD'' ''BREAKWATER_OUT'' ''ATD''
       ''Duration from clearing breakwater to recorded Actual Time of Departure.'']"

definition no_source_definitions :: "lead_time_definition list" where
  "no_source_definitions =
    [unsourced_seed ''Crane Start to Last Move'' ''FIRST_CRANE_MOVEMENT'' ''LAST_CRANE_MOVEMENT''
       ''Crane operating duration between first and last container crane movement.'',
     unsourced_seed ''First Container to ATD'' ''FIRST_CONTAINER_MOVEMENT'' ''ATD''
       ''Elapsed duration from first container lifted to vessel departure.'',
     unsourced_seed ''Berthing End to Unmooring Start'' ''BERTHING_END'' ''UNMOORING_START''
       ''Waiting time at berth between commercial completion and unmooring commencement.'',
     unsourced_seed ''Lashing End to ATD'' ''LASHING_END'' ''ATD''
       ''Departure clearance and unberthing buffer after container lashing completion.'',
     unsourced_seed ''Anchor Drop to Aweigh'' ''ANCHOR_DROP'' ''ANCHOR_AWEIGH''
       ''Net anchor physical deployment time from anchor drop to anchor aweigh.'',
     unsourced_seed ''Truck Gate Turnaround'' ''GATE_IN'' ''GATE_OUT''
       ''Landside terminal truck turnaround duration from gate-in to gate-out.'']"

definition catalogue_seeds :: "lead_time_definition list" where
  "catalogue_seeds = reconciliation_targets @ additional_calculations @ no_source_definitions"

text \<open>An existing row keeps its identifier and its origin, the other columns are refreshed.\<close>

definition upsert_definition ::
    "(nat \<Rightarrow> uid) \<Rightarrow> lead_time_definition list \<Rightarrow> lead_time_definition \<Rightarrow> 'a platform_db_scheme \<Rightarrow> lead_time_definition \<times> 'a platform_db_scheme" where
  "upsert_definition uuid existing seed s =
     (case last_with (\<lambda>d. ld_name d = ld_name seed) existing of
        None \<Rightarrow> (let row = seed\<lparr>ld_id := uuid (draws s)\<rparr>
                 in (row, s\<lparr>lead_time_definitions := lead_time_definitions s @ [row], draws := draws s + 1\<rparr>))
      | Some d \<Rightarrow> (let row = seed\<lparr>ld_id := ld_id d, ld_custom_builder := ld_custom_builder d\<rparr>
                   in (row, s\<lparr>lead_time_definitions := upd_by ld_id (ld_id d) (\<lambda>_. row) (lead_time_definitions s)\<rparr>)))"

fun upsert_definitions ::
    "(nat \<Rightarrow> uid) \<Rightarrow> lead_time_definition list \<Rightarrow> lead_time_definition list \<Rightarrow> 'a platform_db_scheme \<Rightarrow>
     lead_time_definition list \<times> 'a platform_db_scheme" where
  "upsert_definitions uuid existing [] s = ([], s)"
| "upsert_definitions uuid existing (seed # seeds) s =
     (let (row, s1) = upsert_definition uuid existing seed s; (rows, s2) = upsert_definitions uuid existing seeds s1 in (row # rows, s2))"

definition ensure_catalogue :: "(nat \<Rightarrow> uid) \<Rightarrow> 'a platform_db_scheme \<Rightarrow> lead_time_definition list \<times> 'a platform_db_scheme" where
  "ensure_catalogue uuid s = upsert_definitions uuid (lead_time_definitions s) catalogue_seeds s"

section \<open>The engine\<close>

record analytics_engine =
  an_tenant_id :: string
  an_exclude_quarantined :: bool

definition within_tolerance :: "rat option \<Rightarrow> rat option \<Rightarrow> rat \<Rightarrow> bool" where
  "within_tolerance actual expected tolerance =
     (case (actual, expected) of (Some a, Some e) \<Rightarrow> fround 6 \<bar>fsub a e\<bar> \<le> tolerance | _ \<Rightarrow> False)"

text \<open>The tenant filter: an empty tenant and \<open>*\<close> stand for all tenants.\<close>

definition tenant_visible :: "string \<Rightarrow> vessel_call \<Rightarrow> bool" where
  "tenant_visible tenant v \<longleftrightarrow> tenant = '''' \<or> tenant = ''*'' \<or> vc_tenant_id v = tenant"

definition target_calls :: "analytics_engine \<Rightarrow> uid list \<Rightarrow> 'a canon_db_scheme \<Rightarrow> vessel_call list" where
  "target_calls g ids s = filter (\<lambda>v. \<not> vc_is_merged v \<and> tenant_visible (an_tenant_id g) v \<and> (ids = [] \<or> vc_id v \<in> set ids)) (vessel_calls s)"

definition purge_merged :: "analytics_engine \<Rightarrow> 'a platform_db_scheme \<Rightarrow> 'a platform_db_scheme" where
  "purge_merged g s = s\<lparr>lead_time_results := filter (\<lambda>r. lt_vessel_call_id r \<notin>
     vc_id ` set (filter (\<lambda>v. vc_is_merged v \<and> tenant_visible (an_tenant_id g) v) (vessel_calls s))) (lead_time_results s)\<rparr>"

definition new_result :: "lead_time_definition \<Rightarrow> vessel_call \<Rightarrow> lead_time_result" where
  "new_result d vc =
     \<lparr>lt_id = '''', lt_vessel_call_id = vc_id vc, lt_definition_id = ld_id d, lt_vcn = vc_vcn vc, lt_duration_hours = None,
      lt_status = LT_UNAVAILABLE, lt_unavailable_reason = None, lt_formula_version = None, lt_source_record_ids = None,
      lt_filter_context = [], lt_exclusions_applied = [], lt_dq_status = None, lt_calculated_at = None,
      lt_start_event_occurrence_id = None, lt_end_event_occurrence_id = None, lt_start_time = None, lt_end_time = None\<rparr>"

text \<open>The rows of a definition for these calls: the first one of a call is kept, the others are deleted.\<close>

fun first_only :: "('r \<Rightarrow> bool) \<Rightarrow> ('r \<Rightarrow> 'k) \<Rightarrow> 'k list \<Rightarrow> 'r list \<Rightarrow> 'r list" where
  "first_only p key seen [] = []"
| "first_only p key seen (r # rs) =
     (if p r then if key r \<in> set seen then first_only p key seen rs else r # first_only p key (key r # seen) rs
      else r # first_only p key seen rs)"

definition existing_result :: "lead_time_definition \<Rightarrow> vessel_call \<Rightarrow> 'a platform_db_scheme \<Rightarrow> lead_time_result option" where
  "existing_result d vc s = find (\<lambda>r. lt_definition_id r = ld_id d \<and> lt_vessel_call_id r = vc_id vc) (lead_time_results s)"

definition dedupe_results :: "lead_time_definition \<Rightarrow> vessel_call list \<Rightarrow> 'a platform_db_scheme \<Rightarrow> 'a platform_db_scheme" where
  "dedupe_results d vcs s = s\<lparr>lead_time_results :=
     first_only (\<lambda>r. lt_definition_id r = ld_id d \<and> lt_vessel_call_id r \<in> vc_id ` set vcs) lt_vessel_call_id [] (lead_time_results s)\<rparr>"

text \<open>\<open>db.add(row)\<close>: a new row draws its identifier.\<close>

definition save_result ::
    "(nat \<Rightarrow> uid) \<Rightarrow> lead_time_result option \<Rightarrow> lead_time_result \<Rightarrow> 'a platform_db_scheme \<Rightarrow> lead_time_result \<times> 'a platform_db_scheme" where
  "save_result uuid existing row s =
     (case existing of
        Some old \<Rightarrow> (row, s\<lparr>lead_time_results := upd_by lt_id (lt_id old) (\<lambda>_. row) (lead_time_results s)\<rparr>)
      | None \<Rightarrow> (let row' = row\<lparr>lt_id := uuid (draws s)\<rparr>
                 in (row', s\<lparr>lead_time_results := lead_time_results s @ [row'], draws := draws s + 1\<rparr>)))"

definition base_row :: "lead_time_definition \<Rightarrow> vessel_call \<Rightarrow> lead_time_result option \<Rightarrow> lead_time_result" where
  "base_row d vc existing = (case existing of Some r \<Rightarrow> r | None \<Rightarrow> new_result d vc)\<lparr>lt_vcn := vc_vcn vc, lt_formula_version := Some (ld_formula_version d)\<rparr>"

definition engine_context :: "analytics_engine \<Rightarrow> (string \<times> fstring) list" where
  "engine_context g = [(''tenant_id'', [Str (an_tenant_id g)]), (''exclude_quarantined'', [Js (JBool (an_exclude_quarantined g))])]"

text \<open>The list in the reason is printed by Python.\<close>

definition unsourced_row :: "time \<Rightarrow> analytics_engine \<Rightarrow> lead_time_definition \<Rightarrow> vessel_call \<Rightarrow> lead_time_result option \<Rightarrow> lead_time_result" where
  "unsourced_row now g d vc existing = (base_row d vc existing)
     \<lparr>lt_status := LT_NO_SOURCE_DATA, lt_duration_hours := None,
      lt_unavailable_reason := Some [Lit ''No source data available for required events: '', Js (JList (map JStr (ld_required_events d)))],
      lt_source_record_ids := Some [], lt_filter_context := engine_context g, lt_exclusions_applied := [],
      lt_dq_status := Some ''NO_SOURCE_DATA'', lt_calculated_at := Some now\<rparr>"

text \<open>A result that is not available keeps every column this does not set.\<close>

definition unavailable_row :: "fstring \<Rightarrow> string \<Rightarrow> lead_time_result \<Rightarrow> lead_time_result" where
  "unavailable_row reason dq row = row\<lparr>lt_status := LT_UNAVAILABLE, lt_duration_hours := None, lt_unavailable_reason := Some reason,
     lt_dq_status := Some dq\<rparr>"

section \<open>Durations between events\<close>

definition staged_call :: "analytics_engine \<Rightarrow> vessel_call \<Rightarrow> 'a ingest_db_scheme \<Rightarrow> staging_record option" where
  "staged_call g vc s =
     (case sorted_by_desc (\<lambda>(r, b). bt_created_at b)
        (concat (map (\<lambda>r. map (\<lambda>b. (r, b)) (filter (\<lambda>b. bt_batch_id b = st_ingestion_batch_id r \<and>
            bt_tenant_id b = an_tenant_id g \<and> bt_status b \<in> {''PROCESSING'', ''COMMITTED''}) (batch_rows s)))
          (filter (\<lambda>r. st_canonical_table r = ''vessel_call'' \<and> pd_get r ''VCN'' = vc_vcn vc) (staging_records s)))) of
        [] \<Rightarrow> None | (r, b) # _ \<Rightarrow> Some r)"

definition blank_arrival :: "analytics_engine \<Rightarrow> lead_time_definition \<Rightarrow> vessel_call \<Rightarrow> 'a ingest_db_scheme \<Rightarrow> bool" where
  "blank_arrival g d vc s \<longleftrightarrow> ld_name d = ''Turnaround'' \<and>
     (case staged_call g vc s of Some r \<Rightarrow> is_blank (pd_get r ''ATA'') | None \<Rightarrow> False)"

definition usable :: "analytics_engine \<Rightarrow> event_occurrence \<Rightarrow> bool" where
  "usable g e \<longleftrightarrow> \<not> eo_is_superseded e \<and> \<not> (an_exclude_quarantined g \<and> eo_is_quarantined e)"

text \<open>The governed selection of the event, when it names one.\<close>

definition governed_occurrence :: "uid \<Rightarrow> uid \<Rightarrow> 'a platform_db_scheme \<Rightarrow> event_occurrence option result" where
  "governed_occurrence call_id def_id s =
     and_then (get_observation call_id def_id s) (\<lambda>obs.
       case Option.bind obs cn_selected_event_occurrence_id of
         Some i \<Rightarrow> get_by eo_id i (event_occurrences s)
       | None \<Rightarrow> Inr None)"

definition default_occurrence :: "analytics_engine \<Rightarrow> uid \<Rightarrow> uid \<Rightarrow> string \<Rightarrow> 'a canon_db_scheme \<Rightarrow> event_occurrence option" where
  "default_occurrence g call_id def_id selection s =
     (let es = filter (\<lambda>e. eo_vessel_call_id e = call_id \<and> eo_event_definition_id e = def_id \<and> usable g e) (event_occurrences s);
          key = (\<lambda>e. (eo_occurrence_index e, eo_utc_value e))
      in case (if selection = ''last'' then sorted_by_desc key es else sorted_by key es) of [] \<Rightarrow> None | e # _ \<Rightarrow> Some e)"

definition resolve_event_occurrence ::
    "analytics_engine \<Rightarrow> uid \<Rightarrow> string \<Rightarrow> string \<Rightarrow> 'a platform_db_scheme \<Rightarrow> event_occurrence option result" where
  "resolve_event_occurrence g call_id name selection s =
     and_then (get_by ed_name name (event_definitions s)) (\<lambda>found. case found of
       None \<Rightarrow> Inr None
     | Some d \<Rightarrow> and_then (governed_occurrence call_id (ed_id d) s) (\<lambda>chosen.
         case chosen of
           Some e \<Rightarrow> Inr (if usable g e then Some e else default_occurrence g call_id (ed_id d) selection s)
         | None \<Rightarrow> Inr (default_occurrence g call_id (ed_id d) selection s)))"

definition event_row :: "lead_time_definition \<Rightarrow> event_occurrence option \<Rightarrow> event_occurrence option \<Rightarrow> lead_time_result \<Rightarrow> lead_time_result" where
  "event_row d start end' row =
     (case (start, end') of
        (None, None) \<Rightarrow> (unavailable_row (Lit ''Both required events '' # quoted (Some (ld_start_event d)) @ Lit '' and '' #
            quoted (Some (ld_end_event d)) @ [Lit '' are missing'']) ''MISSING_DATA'' row)\<lparr>lt_source_record_ids := Some []\<rparr>
      | (None, Some e) \<Rightarrow> (unavailable_row (Lit ''Required start event '' # quoted (Some (ld_start_event d)) @ [Lit '' is missing'']) ''MISSING_DATA'' row)
            \<lparr>lt_source_record_ids := Some [eo_id e], lt_end_event_occurrence_id := Some (eo_id e), lt_end_time := Some (eo_utc_value e)\<rparr>
      | (Some a, None) \<Rightarrow> (unavailable_row (Lit ''Required end event '' # quoted (Some (ld_end_event d)) @ [Lit '' is missing'']) ''MISSING_DATA'' row)
            \<lparr>lt_source_record_ids := Some [eo_id a], lt_start_event_occurrence_id := Some (eo_id a), lt_start_time := Some (eo_utc_value a)\<rparr>
      | (Some a, Some e) \<Rightarrow> row\<lparr>lt_status := LT_AVAILABLE, lt_duration_hours := Some (elapsed_hours (eo_utc_value a) (eo_utc_value e)),
            lt_unavailable_reason := None, lt_start_event_occurrence_id := Some (eo_id a), lt_end_event_occurrence_id := Some (eo_id e),
            lt_start_time := Some (eo_utc_value a), lt_end_time := Some (eo_utc_value e), lt_source_record_ids := Some [eo_id a, eo_id e],
            lt_dq_status := Some (if eo_is_quarantined a \<or> eo_is_quarantined e then ''DQ_ISSUES'' else ''CLEAN'')\<rparr>)"

definition compute_event_duration ::
    "(nat \<Rightarrow> uid) \<Rightarrow> time \<Rightarrow> analytics_engine \<Rightarrow> lead_time_definition \<Rightarrow> vessel_call \<Rightarrow> 'a ingest_db_scheme \<Rightarrow>
     (lead_time_result \<times> 'a ingest_db_scheme) result" where
  "compute_event_duration uuid now g d vc s =
     (let existing = existing_result d vc s;
          row = (base_row d vc existing)\<lparr>lt_filter_context := engine_context g,
            lt_exclusions_applied := (if an_exclude_quarantined g then [''quarantined''] else []), lt_calculated_at := Some now\<rparr>
      in if blank_arrival g d vc s
         then Inr (save_result uuid existing (unavailable_row (Lit ''Required timestamp '' # quoted (Some ''ATA'') @ [Lit '' is blank in VesselCalls (DQ-003)'']) ''MISSING_DATA'' row) s)
         else and_then (resolve_event_occurrence g (vc_id vc) (ld_start_event d) (ld_occurrence_selection d) s) (\<lambda>start.
           and_then (resolve_event_occurrence g (vc_id vc) (ld_end_event d) (ld_occurrence_selection d) s) (\<lambda>end'.
             Inr (save_result uuid existing (event_row d start end' row) s))))"

section \<open>Execution delays\<close>

type_synonym service_row = "service_request \<times> service_assignment \<times> service_execution"

text \<open>\<open>order_by(scheduled_time.asc())\<close> puts the missing ones last.\<close>

definition pilotage_services :: "vessel_call \<Rightarrow> 'a canon_db_scheme \<Rightarrow> service_row list" where
  "pilotage_services vc s =
     sorted_by (\<lambda>(r, a, e). (sa_scheduled_time a = None, case sa_scheduled_time a of Some t \<Rightarrow> t | None \<Rightarrow> 0))
       (concat (map (\<lambda>r. concat (map (\<lambda>a. map (\<lambda>e. (r, a, e))
            (filter (\<lambda>e. se_service_assignment_id e = sa_id a) (service_executions s)))
          (filter (\<lambda>a. sa_service_request_id a = sr_id r) (service_assignments s))))
        (filter (\<lambda>r. sr_vessel_call_id r = vc_id vc \<and> sr_service_type r = ''Pilotage Service'') (service_requests s))))"

definition target_movement :: "lead_time_definition \<Rightarrow> string" where
  "target_movement d = (case ld_execution_delay_movement d of Some (c # cs) \<Rightarrow> c # cs | _ \<Rightarrow> ''Arrival'')"

definition movement_is :: "string \<Rightarrow> service_request \<Rightarrow> bool" where
  "movement_is target r \<longleftrightarrow> (case sr_movement_type r of Some (c # cs) \<Rightarrow> py_lower (c # cs) = py_lower target | _ \<Rightarrow> False)"

definition select_service :: "string \<Rightarrow> service_row list \<Rightarrow> service_row option" where
  "select_service target rows =
     (case find (\<lambda>(r, a, e). movement_is target r) rows of
        Some m \<Rightarrow> Some m
      | None \<Rightarrow>
          if rows = [] then None
          else if py_lower target = ''arrival'' then Some (hd rows)
          else if py_lower target = ''sailing'' then (if 1 < length rows then Some (last rows) else None)
          else None)"

definition delay_row :: "string \<Rightarrow> service_row option \<Rightarrow> lead_time_result \<Rightarrow> lead_time_result" where
  "delay_row target chosen row =
     (case chosen of
        None \<Rightarrow> (unavailable_row [Lit ''No '', Str target, Lit '' Pilotage Service record found''] ''MISSING_DATA'' row)
                  \<lparr>lt_source_record_ids := Some []\<rparr>
      | Some (r, a, e) \<Rightarrow>
          (let ids = [sr_id r, sa_id a, se_id e]
           in case (sa_scheduled_time a, se_served_time e) of
                (Some t, Some u) \<Rightarrow> row\<lparr>lt_status := LT_AVAILABLE, lt_duration_hours := Some (elapsed_hours t u), lt_unavailable_reason := None,
                   lt_start_time := Some t, lt_end_time := Some u, lt_source_record_ids := Some ids, lt_dq_status := Some ''CLEAN''\<rparr>
              | _ \<Rightarrow> (unavailable_row [Lit ''Missing scheduled_time or served_time on service record''] ''INCOMPLETE_TIMESTAMPS'' row)
                       \<lparr>lt_source_record_ids := Some ids\<rparr>))"

definition delay_context :: "analytics_engine \<Rightarrow> lead_time_definition \<Rightarrow> (string \<times> fstring) list" where
  "delay_context g d = [(''tenant_id'', [Str (an_tenant_id g)]), (''movement'', [OStr (ld_execution_delay_movement d)]),
     (''service_type'', [Str ''Pilotage Service''])]"

definition compute_delay_result ::
    "(nat \<Rightarrow> uid) \<Rightarrow> time \<Rightarrow> analytics_engine \<Rightarrow> lead_time_definition \<Rightarrow> vessel_call \<Rightarrow> 'a platform_db_scheme \<Rightarrow>
     lead_time_result \<times> 'a platform_db_scheme" where
  "compute_delay_result uuid now g d vc s =
     (let existing = existing_result d vc s;
          row = (base_row d vc existing)\<lparr>lt_filter_context := delay_context g d, lt_exclusions_applied := [], lt_calculated_at := Some now\<rparr>
      in save_result uuid existing (delay_row (target_movement d) (select_service (target_movement d) (pilotage_services vc s)) row) s)"

section \<open>All metrics\<close>

fun over_calls :: "(vessel_call \<Rightarrow> 's \<Rightarrow> (lead_time_result \<times> 's) result) \<Rightarrow> vessel_call list \<Rightarrow> 's \<Rightarrow> (lead_time_result list \<times> 's) result" where
  "over_calls f [] s = Inr ([], s)"
| "over_calls f (vc # vcs) s = and_then (f vc s) (\<lambda>(r, s1). and_then (over_calls f vcs s1) (\<lambda>(rs, s2). Inr (r # rs, s2)))"

definition compute_result ::
    "(nat \<Rightarrow> uid) \<Rightarrow> time \<Rightarrow> analytics_engine \<Rightarrow> lead_time_definition \<Rightarrow> vessel_call \<Rightarrow> 'a ingest_db_scheme \<Rightarrow>
     (lead_time_result \<times> 'a ingest_db_scheme) result" where
  "compute_result uuid now g d vc s =
     (if ld_availability_status d = ''NO_SOURCE_DATA''
      then Inr (save_result uuid (existing_result d vc s) (unsourced_row now g d vc (existing_result d vc s)) s)
      else if ld_is_execution_delay d then Inr (compute_delay_result uuid now g d vc s)
      else compute_event_duration uuid now g d vc s)"

definition compute_single_definition ::
    "(nat \<Rightarrow> uid) \<Rightarrow> time \<Rightarrow> analytics_engine \<Rightarrow> lead_time_definition \<Rightarrow> vessel_call list \<Rightarrow> 'a ingest_db_scheme \<Rightarrow>
     (lead_time_result list \<times> 'a ingest_db_scheme) result" where
  "compute_single_definition uuid now g d vcs s =
     over_calls (compute_result uuid now g d) vcs (dedupe_results d vcs s)"

record metric_summary =
  ms_name :: string
  ms_definition_id :: uid
  ms_total :: nat
  ms_available :: nat
  ms_unavailable :: nat
  ms_availability_status :: string

definition metric_of :: "lead_time_definition \<Rightarrow> lead_time_result list \<Rightarrow> metric_summary" where
  "metric_of d rs = \<lparr>ms_name = ld_name d, ms_definition_id = ld_id d, ms_total = length rs,
     ms_available = length (filter (\<lambda>r. lt_status r = LT_AVAILABLE) rs),
     ms_unavailable = length (filter (\<lambda>r. lt_status r \<noteq> LT_AVAILABLE) rs),
     ms_availability_status = ld_availability_status d\<rparr>"

fun over_definitions ::
    "(lead_time_definition \<Rightarrow> 's \<Rightarrow> (lead_time_result list \<times> 's) result) \<Rightarrow> lead_time_definition list \<Rightarrow> 's \<Rightarrow> (metric_summary list \<times> 's) result" where
  "over_definitions f [] s = Inr ([], s)"
| "over_definitions f (d # ds) s =
     and_then (f d s) (\<lambda>(rs, s1). and_then (over_definitions f ds s1) (\<lambda>(ms, s2). Inr (metric_of d rs # ms, s2)))"

text \<open>The catalogue is committed first; an exception leaves the rest uncommitted.\<close>

definition compute_all_metrics ::
    "(nat \<Rightarrow> uid) \<Rightarrow> time \<Rightarrow> analytics_engine \<Rightarrow> uid list \<Rightarrow> 'a ingest_db_scheme \<Rightarrow> ('a ingest_db_scheme, metric_summary list) attempt" where
  "compute_all_metrics uuid now g ids s =
     (let (catalogue, s1) = ensure_catalogue uuid s
      in case over_definitions (\<lambda>d. compute_single_definition uuid now g d (target_calls g ids s1)) catalogue (purge_merged g s1) of
           Inl e \<Rightarrow> (s1, Inl e)
         | Inr (ms, s2) \<Rightarrow> (s2, Inr ms))"

section \<open>Statistics\<close>

record polars =
  pl_mean :: "rat list \<Rightarrow> rat"
  pl_median :: "rat list \<Rightarrow> rat"
  pl_std :: "rat list \<Rightarrow> rat"
  pl_min :: "rat list \<Rightarrow> rat"
  pl_max :: "rat list \<Rightarrow> rat"
  pl_quantile :: "rat \<Rightarrow> rat list \<Rightarrow> rat"   \<comment> \<open>linear interpolation\<close>

definition dec :: "int \<Rightarrow> rat" where "dec n = fl (of_int n / 10)"

text \<open>The rows of the data frame are pairs of the call number and the duration.\<close>

definition stats_of :: "polars \<Rightarrow> (string \<times> rat) list \<Rightarrow> aggregate_stats" where
  "stats_of pl frame =
     (let xs = map snd frame; r6 = (\<lambda>x. fround 6 x);
          mean_val = r6 (pl_mean pl xs); median_val = r6 (pl_median pl xs);
          std_val = (if 1 < length xs then r6 (pl_std pl xs) else 0);
          min_val = r6 (pl_min pl xs); max_val = r6 (pl_max pl xs); p90 = r6 (pl_quantile pl (dec 9) xs)
      in \<lparr>ag_mean = mean_val, ag_median = median_val, ag_std = std_val,
          ag_cv = (if fl (1 / 1000) \<le> \<bar>mean_val\<bar> then Some (fround 4 (fdiv std_val mean_val)) else None),
          ag_min = min_val, ag_max = max_val, ag_p25 = r6 (pl_quantile pl (1 / 4) xs), ag_p75 = r6 (pl_quantile pl (3 / 4) xs),
          ag_p90 = p90, ag_p95 = r6 (pl_quantile pl (fl (95 / 100)) xs),
          ag_fastest_vcn = map_option fst (find (\<lambda>(v, x). x = min_val) frame),
          ag_slowest_vcn = map_option fst (find (\<lambda>(v, x). x = max_val) frame),
          ag_tail_risk_ratio = (if 0 < median_val then Some (fround 4 (fdiv p90 median_val)) else None)\<rparr>)"

definition right_skew :: "aggregate_stats \<Rightarrow> bool" where
  "right_skew a \<longleftrightarrow> 0 < ag_median a \<and> fmul (ag_median a) (dec 12) < ag_mean a"

definition fence_outliers :: "aggregate_stats \<Rightarrow> (string \<times> rat) list \<Rightarrow> string list" where
  "fence_outliers a frame =
     (let iqr = fsub (ag_p75 a) (ag_p25 a); lower = fsub (ag_p25 a) (fmul (3 / 2) iqr); upper = fadd (ag_p75 a) (fmul (3 / 2) iqr)
      in map fst (filter (\<lambda>(v, x). x < lower \<or> upper < x) frame))"

definition statistic_rows :: "analytics_engine \<Rightarrow> uid \<Rightarrow> 'a platform_db_scheme \<Rightarrow> lead_time_result list" where
  "statistic_rows g def_id s = filter (\<lambda>r. lt_definition_id r = def_id \<and>
     list_ex (\<lambda>v. vc_id v = lt_vessel_call_id r \<and> vc_tenant_id v = an_tenant_id g) (vessel_calls s)) (lead_time_results s)"

definition frame_of :: "lead_time_result list \<Rightarrow> (string \<times> rat) list" where
  "frame_of rs = List.map_filter (\<lambda>r. if lt_status r = LT_AVAILABLE
     then map_option (\<lambda>h. (or_empty (lt_vcn r), h)) (lt_duration_hours r) else None) rs"

definition aggregate_row ::
    "polars \<Rightarrow> time \<Rightarrow> analytics_engine \<Rightarrow> lead_time_definition \<Rightarrow> string \<Rightarrow> (string \<times> json) list \<Rightarrow> lead_time_result list \<Rightarrow> uid \<Rightarrow> statistical_aggregate" where
  "aggregate_row pl now g d cohort filters rows i =
     (let frame = frame_of rows; st = (if frame = [] then None else Some (stats_of pl frame))
      in \<lparr>ag_id = i, ag_tenant_id = an_tenant_id g, ag_definition_id = ld_id d, ag_cohort_key = cohort, ag_cohort_filters = filters,
          ag_observation_count = length frame, ag_missing_count = length rows - length frame, ag_stats = st,
          ag_right_skew_flag = (case st of Some a \<Rightarrow> right_skew a | None \<Rightarrow> False), ag_small_sample_warning = length frame < 5,
          ag_outlier_vcns = (case st of Some a \<Rightarrow> fence_outliers a frame | None \<Rightarrow> []), ag_formula_version = ld_formula_version d,
          ag_percentile_method = ''linear_interpolation'', ag_quarantine_excluded = an_exclude_quarantined g, ag_calculated_at = now\<rparr>)"

definition compute_statistics ::
    "(nat \<Rightarrow> uid) \<Rightarrow> polars \<Rightarrow> time \<Rightarrow> analytics_engine \<Rightarrow> uid \<Rightarrow> string \<Rightarrow> (string \<times> json) list \<Rightarrow> 'a platform_db_scheme \<Rightarrow>
     (statistical_aggregate \<times> 'a platform_db_scheme) result" where
  "compute_statistics uuid pl now g def_id cohort filters s =
     and_then (get_by ld_id def_id (lead_time_definitions s)) (\<lambda>found. case found of
       None \<Rightarrow> Inl NoResultFound
     | Some d \<Rightarrow> and_then (one_or_none (filter (\<lambda>a. ag_definition_id a = def_id \<and> ag_cohort_key a = cohort \<and> ag_tenant_id a = an_tenant_id g)
           (statistical_aggregates s))) (\<lambda>existing.
         let row = aggregate_row pl now g d cohort filters (statistic_rows g def_id s)
         in case existing of
              Some a \<Rightarrow> Inr (row (ag_id a), s\<lparr>statistical_aggregates := upd_by ag_id (ag_id a) (\<lambda>_. row (ag_id a)) (statistical_aggregates s)\<rparr>)
            | None \<Rightarrow> Inr (row (uuid (draws s)), s\<lparr>statistical_aggregates := statistical_aggregates s @ [row (uuid (draws s))], draws := draws s + 1\<rparr>)))"

fun over_ids :: "(uid \<Rightarrow> 's \<Rightarrow> ('r \<times> 's) result) \<Rightarrow> uid list \<Rightarrow> 's \<Rightarrow> ('r list \<times> 's) result" where
  "over_ids f [] s = Inr ([], s)"
| "over_ids f (i # is) s = and_then (f i s) (\<lambda>(r, s1). and_then (over_ids f is s1) (\<lambda>(rs, s2). Inr (r # rs, s2)))"

definition compute_all_statistics ::
    "(nat \<Rightarrow> uid) \<Rightarrow> polars \<Rightarrow> time \<Rightarrow> analytics_engine \<Rightarrow> 'a platform_db_scheme \<Rightarrow> (statistical_aggregate list \<times> 'a platform_db_scheme) result" where
  "compute_all_statistics uuid pl now g s =
     over_ids (\<lambda>i. compute_statistics uuid pl now g i ''all'' []) (map ld_id (lead_time_definitions s)) s"

section \<open>Rows by their key\<close>

definition rkey :: "lead_time_result \<Rightarrow> uid \<times> uid" where
  "rkey r = (lt_definition_id r, lt_vessel_call_id r)"

definition rows_at :: "uid \<times> uid \<Rightarrow> 'a platform_db_scheme \<Rightarrow> lead_time_result list" where
  "rows_at k s = filter (\<lambda>r. rkey r = k) (lead_time_results s)"

definition result_ids_ok :: "(nat \<Rightarrow> uid) \<Rightarrow> 'a platform_db_scheme \<Rightarrow> bool" where
  "result_ids_ok uuid s \<longleftrightarrow> inj uuid \<and> distinct (map lt_id (lead_time_results s)) \<and> (\<forall>n \<ge> draws s. uuid n \<notin> lt_id ` set (lead_time_results s))"

text \<open>What the computation of results changes.\<close>

definition results_change :: "'a platform_db_scheme \<Rightarrow> 'a platform_db_scheme \<Rightarrow> bool" where
  "results_change s s' \<longleftrightarrow> (\<exists>rs n. s' = s\<lparr>lead_time_results := rs, draws := n\<rparr> \<and> draws s \<le> n)"

lemma results_changeI: "draws s \<le> n \<Longrightarrow> s' = s\<lparr>lead_time_results := rs, draws := n\<rparr> \<Longrightarrow> results_change s s'"
  by (auto simp: results_change_def)

lemma results_change_refl: "results_change s s"
  by (rule results_changeI [where rs = "lead_time_results s" and n = "draws s"]) simp_all

lemma results_change_trans: "results_change s t \<Longrightarrow> results_change t u \<Longrightarrow> results_change s u"
  unfolding results_change_def by force

lemma find_filter_cases: "find p xs = (case filter p xs of [] \<Rightarrow> None | x # _ \<Rightarrow> Some x)"
  by (induction xs) auto

lemma existing_rows_at:
  "existing_result d vc s = (case rows_at (ld_id d, vc_id vc) s of [] \<Rightarrow> None | r # _ \<Rightarrow> Some r)"
  by (simp add: existing_result_def rows_at_def rkey_def find_filter_cases) 

lemma filter_upd_row:
  assumes "distinct (map lt_id rs)" "filter (\<lambda>r. rkey r = rkey old) rs = [old]" "rkey row = rkey old"
  shows "filter (\<lambda>r. rkey r = k) (upd_by lt_id (lt_id old) (\<lambda>_. row) rs) = (if k = rkey old then [row] else filter (\<lambda>r. rkey r = k) rs)"
proof -
  have "old \<in> set rs" using assms(2) by (auto simp: filter_eq_Cons_iff)
  then obtain xs ys where sp: "rs = xs @ old # ys" "upd_by lt_id (lt_id old) (\<lambda>_. row) rs = xs @ row # ys"
    using upd_by_split [OF assms(1)] by blast
  have "filter (\<lambda>r. rkey r = rkey old) xs = []" "filter (\<lambda>r. rkey r = rkey old) ys = []"
    using assms(2) unfolding sp(1) by (auto simp: filter_eq_Cons_iff append_eq_Cons_conv)
  then show ?thesis using assms(3) unfolding sp(2) by (auto simp: sp(1))
qed

lemma save_result_spec:
  assumes ok: "result_ids_ok uuid s" and one: "length (rows_at (ld_id d, vc_id vc) s) \<le> 1"
    and sv: "save_result uuid (existing_result d vc s) row s = (row', s')"
    and key: "rkey row = (ld_id d, vc_id vc)" and same: "\<And>old. existing_result d vc s = Some old \<Longrightarrow> lt_id row = lt_id old"
  shows "result_ids_ok uuid s'" "results_change s s'" "\<exists>i. row' = row\<lparr>lt_id := i\<rparr>"
    "rows_at k s' = (if k = (ld_id d, vc_id vc) then [row'] else rows_at k s)"
proof -
  have dist: "distinct (map lt_id (lead_time_results s))" and fresh: "\<forall>n \<ge> draws s. uuid n \<notin> lt_id ` set (lead_time_results s)" and inj: "inj uuid"
    using ok by (auto simp: result_ids_ok_def)
  have "result_ids_ok uuid s' \<and> results_change s s' \<and> (\<exists>i. row' = row\<lparr>lt_id := i\<rparr>) \<and>
      (\<forall>k. rows_at k s' = (if k = (ld_id d, vc_id vc) then [row'] else rows_at k s))"
  proof (cases "existing_result d vc s")
    case None
    then have none: "rows_at (ld_id d, vc_id vc) s = []" by (simp add: existing_rows_at split: list.splits)
    have s': "s' = s\<lparr>lead_time_results := lead_time_results s @ [row\<lparr>lt_id := uuid (draws s)\<rparr>], draws := draws s + 1\<rparr>"
        "row' = row\<lparr>lt_id := uuid (draws s)\<rparr>"
      using sv None by (auto simp: save_result_def Let_def)
    have k: "rkey (row\<lparr>lt_id := i\<rparr>) = rkey row" for i by (simp add: rkey_def)
    have "result_ids_ok uuid s'"
      using dist fresh inj by (auto simp: s' result_ids_ok_def inj_eq)
    moreover have "results_change s s'" by (rule results_changeI [OF _ s'(1)]) simp
    moreover have "rows_at k s' = (if k = (ld_id d, vc_id vc) then [row'] else rows_at k s)" for k
      using none by (auto simp: s' rows_at_def k key)
    ultimately show ?thesis using s'(2) by blast
  next
    case (Some old)
    then have old: "rows_at (ld_id d, vc_id vc) s = [old]"
      using one by (auto simp: existing_rows_at split: list.splits)
    then have ok_key: "rkey old = (ld_id d, vc_id vc)" by (auto simp: rows_at_def filter_eq_Cons_iff)
    have s': "s' = s\<lparr>lead_time_results := upd_by lt_id (lt_id old) (\<lambda>_. row) (lead_time_results s)\<rparr>" "row' = row"
      using sv Some by (auto simp: save_result_def)
    have id: "lt_id row = lt_id old" by (rule same [OF Some])
    have ids: "map lt_id (upd_by lt_id (lt_id old) (\<lambda>_. row) (lead_time_results s)) = map lt_id (lead_time_results s)"
      by (rule ids_upd_by) (simp add: id)
    then have "lt_id ` set (upd_by lt_id (lt_id old) (\<lambda>_. row) (lead_time_results s)) = lt_id ` set (lead_time_results s)"
      by (metis list.set_map)
    then have "result_ids_ok uuid s'" using ok ids by (simp add: s' result_ids_ok_def)
    moreover have "results_change s s'"
      by (rule results_changeI [where rs = "upd_by lt_id (lt_id old) (\<lambda>_. row) (lead_time_results s)" and n = "draws s"]) (simp_all add: s')
    moreover have "row' = row\<lparr>lt_id := lt_id row\<rparr>" by (simp add: s')
    moreover have "rows_at k s' = (if k = (ld_id d, vc_id vc) then [row'] else rows_at k s)" for k
      using filter_upd_row [OF dist, of old row k] old unfolding rows_at_def s' by (simp add: ok_key key)
    ultimately show ?thesis by blast
  qed
  then show "result_ids_ok uuid s'" "results_change s s'" "\<exists>i. row' = row\<lparr>lt_id := i\<rparr>"
    "rows_at k s' = (if k = (ld_id d, vc_id vc) then [row'] else rows_at k s)" by blast+
qed

section \<open>Every row that is written is consistent\<close>

definition result_ok :: "lead_time_definition \<Rightarrow> lead_time_result \<Rightarrow> bool" where
  "result_ok d r \<longleftrightarrow> (lt_status r = LT_AVAILABLE \<longleftrightarrow> lt_duration_hours r \<noteq> None) \<and>
     (lt_status r = LT_AVAILABLE \<longleftrightarrow> lt_unavailable_reason r = None) \<and>
     (lt_status r = LT_NO_SOURCE_DATA \<longleftrightarrow> ld_availability_status d = ''NO_SOURCE_DATA'') \<and>
     lt_formula_version r = Some (ld_formula_version d) \<and>
     (case lt_duration_hours r of None \<Rightarrow> True | Some h \<Rightarrow>
        (case (lt_start_time r, lt_end_time r) of (Some a, Some e) \<Rightarrow> h = elapsed_hours a e | _ \<Rightarrow> False))"

definition sources_ok :: "'a platform_db_scheme \<Rightarrow> bool" where
  "sources_ok s \<longleftrightarrow> distinct (map ed_name (event_definitions s)) \<and> distinct (map slot (canonical_observations s)) \<and>
     distinct (map eo_id (event_occurrences s))"

lemma get_by_total: "distinct (map key rows) \<Longrightarrow> \<exists>x. get_by key k rows = Inr x"
  unfolding get_by_def by (rule one_or_none_distinct)

lemma resolve_total:
  assumes "sources_ok s" shows "\<exists>x. resolve_event_occurrence g c n sel s = Inr x"
proof -
  have d: "\<exists>x. get_by ed_name n (event_definitions s) = Inr x" and o': "\<And>d. get_observation c d s = Inr (observation_at (c, d) s)"
    and e: "\<And>i. \<exists>x. get_by eo_id i (event_occurrences s) = Inr x"
    using assms by (auto simp: sources_ok_def get_by_total get_observation_at)
  obtain found where found: "get_by ed_name n (event_definitions s) = Inr found" using d by blast
  have sel: "\<exists>x. governed_occurrence c i s = Inr x" for i
    using e by (auto simp: governed_occurrence_def o' split: option.split)
  show ?thesis
  proof (cases found)
    case None
    then show ?thesis by (simp add: resolve_event_occurrence_def found)
  next
    case (Some d)
    obtain chosen where "governed_occurrence c (ed_id d) s = Inr chosen" using sel by blast
    then show ?thesis by (cases chosen) (simp_all add: resolve_event_occurrence_def found Some)
  qed
qed

lemma base_row_sel [simp]:
  "lt_formula_version (base_row d vc existing) = Some (ld_formula_version d)"
  "lt_id (base_row d vc (Some old)) = lt_id old"
  by (simp_all add: base_row_def)

lemma rkey_base_row: "rkey (base_row d vc (existing_result d vc s)) = (ld_id d, vc_id vc)"
  by (auto simp: base_row_def rkey_def new_result_def existing_result_def find_Some_iff split: option.split)

lemma unavailable_row_sel [simp]:
  "lt_status (unavailable_row reason dq r) = LT_UNAVAILABLE" "lt_duration_hours (unavailable_row reason dq r) = None"
  "lt_unavailable_reason (unavailable_row reason dq r) = Some reason" "lt_formula_version (unavailable_row reason dq r) = lt_formula_version r"
  "lt_id (unavailable_row reason dq r) = lt_id r" "rkey (unavailable_row reason dq r) = rkey r"
  "lt_start_time (unavailable_row reason dq r) = lt_start_time r" "lt_end_time (unavailable_row reason dq r) = lt_end_time r"
  by (simp_all add: unavailable_row_def rkey_def)

lemma event_row_sel:
  "lt_id (event_row d a e r) = lt_id r" "rkey (event_row d a e r) = rkey r"
  by (simp_all add: event_row_def unavailable_row_def rkey_def split: option.split)

lemma event_row_ok:
  "ld_availability_status d \<noteq> ''NO_SOURCE_DATA'' \<Longrightarrow> lt_formula_version r = Some (ld_formula_version d) \<Longrightarrow> result_ok d (event_row d a e r)"
  by (simp add: event_row_def result_ok_def unavailable_row_def split: option.split)

lemma delay_row_sel:
  "lt_id (delay_row m c r) = lt_id r" "rkey (delay_row m c r) = rkey r"
  by (simp_all add: delay_row_def unavailable_row_def rkey_def Let_def split: option.split)

lemma delay_row_ok:
  "ld_availability_status d \<noteq> ''NO_SOURCE_DATA'' \<Longrightarrow> lt_formula_version r = Some (ld_formula_version d) \<Longrightarrow> result_ok d (delay_row m c r)"
  by (simp add: delay_row_def result_ok_def unavailable_row_def Let_def split: option.split)

lemma result_ok_id: "result_ok d (r\<lparr>lt_id := i\<rparr>) = result_ok d r"
  by (simp add: result_ok_def split: option.split)

text \<open>What a result is saved as.\<close>

lemma compute_result_saves:
  assumes "sources_ok s"
  obtains row where "compute_result uuid now g d vc s = Inr (save_result uuid (existing_result d vc s) row s)" "result_ok d row"
    "rkey row = (ld_id d, vc_id vc)" "\<And>old. existing_result d vc s = Some old \<Longrightarrow> lt_id row = lt_id old"
proof -
  define base where "base = base_row d vc (existing_result d vc s)"
  have base: "lt_formula_version base = Some (ld_formula_version d)" "rkey base = (ld_id d, vc_id vc)"
      "\<And>old. existing_result d vc s = Some old \<Longrightarrow> lt_id base = lt_id old"
    by (simp_all add: base_def rkey_base_row)
  consider (none) "ld_availability_status d = ''NO_SOURCE_DATA''"
    | (delay) "ld_availability_status d \<noteq> ''NO_SOURCE_DATA''" "ld_is_execution_delay d"
    | (event) "ld_availability_status d \<noteq> ''NO_SOURCE_DATA''" "\<not> ld_is_execution_delay d" by blast
  then show thesis
  proof cases
    case none
    show thesis
    proof (rule that)
      show "compute_result uuid now g d vc s = Inr (save_result uuid (existing_result d vc s) (unsourced_row now g d vc (existing_result d vc s)) s)"
        by (simp add: compute_result_def none)
    qed (use base none in \<open>simp_all add: unsourced_row_def base_def [symmetric] result_ok_def rkey_def\<close>)
  next
    case delay
    define row where "row = base\<lparr>lt_filter_context := delay_context g d, lt_exclusions_applied := [], lt_calculated_at := Some now\<rparr>"
    have row: "lt_formula_version row = Some (ld_formula_version d)" "rkey row = (ld_id d, vc_id vc)"
        "\<And>old. existing_result d vc s = Some old \<Longrightarrow> lt_id row = lt_id old"
      using base by (simp_all add: row_def rkey_def)
    show thesis
    proof (rule that)
      show "compute_result uuid now g d vc s = Inr (save_result uuid (existing_result d vc s)
          (delay_row (target_movement d) (select_service (target_movement d) (pilotage_services vc s)) row) s)"
        by (simp add: compute_result_def delay compute_delay_result_def Let_def row_def base_def)
    qed (use row delay(1) in \<open>simp_all add: delay_row_sel delay_row_ok\<close>)
  next
    case event
    define row where "row = base\<lparr>lt_filter_context := engine_context g,
            lt_exclusions_applied := (if an_exclude_quarantined g then [''quarantined''] else []), lt_calculated_at := Some now\<rparr>"
    have row: "lt_formula_version row = Some (ld_formula_version d)" "rkey row = (ld_id d, vc_id vc)"
        "\<And>old. existing_result d vc s = Some old \<Longrightarrow> lt_id row = lt_id old"
      using base by (simp_all add: row_def rkey_def)
    obtain a e where ae: "resolve_event_occurrence g (vc_id vc) (ld_start_event d) (ld_occurrence_selection d) s = Inr a"
        "resolve_event_occurrence g (vc_id vc) (ld_end_event d) (ld_occurrence_selection d) s = Inr e"
      using resolve_total [OF assms] by metis
    define final where "final = (if blank_arrival g d vc s
      then unavailable_row (Lit ''Required timestamp '' # quoted (Some ''ATA'') @ [Lit '' is blank in VesselCalls (DQ-003)'']) ''MISSING_DATA'' row
      else event_row d a e row)"
    show thesis
    proof (rule that)
      show "compute_result uuid now g d vc s = Inr (save_result uuid (existing_result d vc s) final s)"
        by (simp add: compute_result_def event compute_event_duration_def Let_def row_def base_def final_def ae)
      show "result_ok d final"
        using row event(1) by (simp add: final_def event_row_ok) (simp add: result_ok_def)
    qed (use row in \<open>simp_all add: final_def event_row_sel\<close>)
  qed
qed

section \<open>One row per definition and call\<close>

lemma results_change_keeps:
  assumes "results_change s s'"
  shows "vessel_calls s' = vessel_calls s" "sources_ok s' = sources_ok s" "lead_time_definitions s' = lead_time_definitions s" "draws s \<le> draws s'"
    "event_occurrences s' = event_occurrences s"
  using assms by (auto simp: results_change_def sources_ok_def)

lemma compute_result_spec:
  fixes s :: "'a ingest_db_scheme"
  assumes "sources_ok s" "result_ids_ok uuid s" "length (rows_at (ld_id d, vc_id vc) s) \<le> 1"
  obtains row s' where "compute_result uuid now g d vc s = Inr (row, s')" "result_ids_ok uuid s'" "results_change s s'" "result_ok d row"
    "\<And>k. rows_at k s' = (if k = (ld_id d, vc_id vc) then [row] else rows_at k s)"
proof -
  obtain row0 where c: "compute_result uuid now g d vc s = Inr (save_result uuid (existing_result d vc s) row0 s)" "result_ok d row0"
    "rkey row0 = (ld_id d, vc_id vc)" "\<And>old. existing_result d vc s = Some old \<Longrightarrow> lt_id row0 = lt_id old"
    by (rule compute_result_saves [OF assms(1), of uuid now g d vc], rule that; assumption)
  obtain row s' where sv: "save_result uuid (existing_result d vc s) row0 s = (row, s')" by fastforce
  note spec = save_result_spec [OF assms(2,3) sv c(3,4)]
  have "result_ok d row" using spec(3) c(2) result_ok_id by metis
  with c(1) sv spec(1,2,4) that show thesis by simp
qed

lemma over_calls_spec:
  assumes "distinct (map vc_id vcs)" "sources_ok s" "result_ids_ok uuid s"
    and "\<And>vc. vc \<in> set vcs \<Longrightarrow> length (rows_at (ld_id d, vc_id vc) s) \<le> 1"
  shows "\<exists>rs s'. over_calls (compute_result uuid now g d) vcs s = Inr (rs, s') \<and> result_ids_ok uuid s' \<and> results_change s s' \<and>
    length rs = length vcs \<and> (\<forall>k. fst k \<noteq> ld_id d \<or> snd k \<notin> vc_id ` set vcs \<longrightarrow> rows_at k s' = rows_at k s) \<and>
    (\<forall>vc \<in> set vcs. \<exists>r. rows_at (ld_id d, vc_id vc) s' = [r] \<and> result_ok d r)"
  using assms
proof (induction vcs arbitrary: s)
  case Nil
  then show ?case by (auto simp: results_change_refl)
next
  case (Cons vc vcs)
  have one: "length (rows_at (ld_id d, vc_id vc) s) \<le> 1" by (rule Cons.prems(4)) simp
  obtain row s1 where c: "compute_result uuid now g d vc s = Inr (row, s1)" "result_ids_ok uuid s1" "results_change s s1" "result_ok d row"
    and at: "\<And>k. rows_at k s1 = (if k = (ld_id d, vc_id vc) then [row] else rows_at k s)"
    by (rule compute_result_spec [OF Cons.prems(2,3) one, of now g], rule that; assumption)
  have prems: "distinct (map vc_id vcs)" "sources_ok s1" "vc_id vc \<notin> vc_id ` set vcs"
    using Cons.prems(1,2) results_change_keeps(2) [OF c(3)] by auto
  have ones: "length (rows_at (ld_id d, vc_id v) s1) \<le> 1" if "v \<in> set vcs" for v using Cons.prems(4) [of v] that by (simp add: at)
  from Cons.IH [OF prems(1,2) c(2) ones] obtain rs s' where ih: "over_calls (compute_result uuid now g d) vcs s1 = Inr (rs, s')"
      "result_ids_ok uuid s'" "results_change s1 s'" "length rs = length vcs"
      "\<forall>k. fst k \<noteq> ld_id d \<or> snd k \<notin> vc_id ` set vcs \<longrightarrow> rows_at k s' = rows_at k s1"
      "\<forall>v \<in> set vcs. \<exists>r. rows_at (ld_id d, vc_id v) s' = [r] \<and> result_ok d r" by blast
  have run: "over_calls (compute_result uuid now g d) (vc # vcs) s = Inr (row # rs, s')" using c(1) ih(1) by simp
  have rest: "\<forall>k. fst k \<noteq> ld_id d \<or> snd k \<notin> vc_id ` set (vc # vcs) \<longrightarrow> rows_at k s' = rows_at k s"
    using ih(5) at by auto
  have "rows_at (ld_id d, vc_id vc) s' = rows_at (ld_id d, vc_id vc) s1" using ih(5) prems(3) by simp
  then have "rows_at (ld_id d, vc_id vc) s' = [row]" by (simp add: at)
  with ih(6) c(4) have all: "\<forall>v \<in> set (vc # vcs). \<exists>r. rows_at (ld_id d, vc_id v) s' = [r] \<and> result_ok d r" by simp
  from run ih(2) results_change_trans [OF c(3) ih(3)] ih(4) rest all
  show ?case by (intro exI [of _ "row # rs"] exI [of _ s']) simp
qed

text \<open>Removing duplicates.\<close>

lemma first_only_filter:
  "filter q (first_only p key seen rs) = (if \<forall>r. q r \<longrightarrow> \<not> p r then filter q rs else filter q (first_only p key seen rs))"
proof -
  have "\<forall>r. q r \<longrightarrow> \<not> p r \<Longrightarrow> filter q (first_only p key seen rs) = filter q rs"
    by (induction rs arbitrary: seen) auto
  then show ?thesis by simp
qed

lemma first_only_seen: "k \<in> set seen \<Longrightarrow> filter (\<lambda>r. p r \<and> key r = k) (first_only p key seen rs) = []"
  by (induction rs arbitrary: seen) auto

lemma first_only_one: "length (filter (\<lambda>r. p r \<and> key r = k) (first_only p key seen rs)) \<le> 1"
  by (induction rs arbitrary: seen) (auto simp: first_only_seen)

lemma first_only_sub: "set (first_only p key seen rs) \<subseteq> set rs"
  by (induction rs arbitrary: seen) auto

lemma first_only_distinct: "distinct (map f rs) \<Longrightarrow> distinct (map f (first_only p key seen rs))"
  by (induction rs arbitrary: seen) (use first_only_sub in \<open>fastforce split: if_splits\<close>)+

lemma dedupe_results_spec:
  assumes "result_ids_ok uuid s"
  shows "result_ids_ok uuid (dedupe_results d vcs s)" "results_change s (dedupe_results d vcs s)"
    "fst k \<noteq> ld_id d \<or> snd k \<notin> vc_id ` set vcs \<Longrightarrow> rows_at k (dedupe_results d vcs s) = rows_at k s"
    "vc \<in> set vcs \<Longrightarrow> length (rows_at (ld_id d, vc_id vc) (dedupe_results d vcs s)) \<le> 1"
proof -
  let ?p = "\<lambda>r. lt_definition_id r = ld_id d \<and> lt_vessel_call_id r \<in> vc_id ` set vcs"
  show "result_ids_ok uuid (dedupe_results d vcs s)"
    using assms first_only_sub [of ?p lt_vessel_call_id "[]" "lead_time_results s"] first_only_distinct [of lt_id "lead_time_results s" ?p]
    by (fastforce simp: result_ids_ok_def dedupe_results_def)
  show "results_change s (dedupe_results d vcs s)"
    by (rule results_changeI [where n = "draws s" and rs = "first_only ?p lt_vessel_call_id [] (lead_time_results s)"]) (simp_all add: dedupe_results_def)
  show "rows_at k (dedupe_results d vcs s) = rows_at k s" if "fst k \<noteq> ld_id d \<or> snd k \<notin> vc_id ` set vcs"
  proof -
    have "\<forall>r. rkey r = k \<longrightarrow> \<not> ?p r" using that by (auto simp: rkey_def)
    then show ?thesis
      using first_only_filter [of "\<lambda>r. rkey r = k" ?p lt_vessel_call_id "[]" "lead_time_results s"] by (simp add: rows_at_def dedupe_results_def)
  qed
  show "length (rows_at (ld_id d, vc_id vc) (dedupe_results d vcs s)) \<le> 1" if "vc \<in> set vcs"
  proof -
    have "(\<lambda>r. rkey r = (ld_id d, vc_id vc)) = (\<lambda>r. ?p r \<and> lt_vessel_call_id r = vc_id vc)" using that by (auto simp: rkey_def fun_eq_iff)
    then show ?thesis using first_only_one [of ?p lt_vessel_call_id "vc_id vc" "[]"] by (simp add: rows_at_def dedupe_results_def)
  qed
qed

lemma compute_single_spec:
  assumes "distinct (map vc_id vcs)" "sources_ok s" "result_ids_ok uuid s"
  shows "\<exists>rs s'. compute_single_definition uuid now g d vcs s = Inr (rs, s') \<and> result_ids_ok uuid s' \<and> results_change s s' \<and>
    length rs = length vcs \<and> (\<forall>k. fst k \<noteq> ld_id d \<or> snd k \<notin> vc_id ` set vcs \<longrightarrow> rows_at k s' = rows_at k s) \<and>
    (\<forall>vc \<in> set vcs. \<exists>r. rows_at (ld_id d, vc_id vc) s' = [r] \<and> result_ok d r)"
proof -
  define t where "t = dedupe_results d vcs s"
  note spec = dedupe_results_spec [where d = d and vcs = vcs, OF assms(3), folded t_def]
  have "sources_ok t" using assms(2) results_change_keeps(2) [OF spec(2)] by simp
  from over_calls_spec [OF assms(1) this spec(1) spec(4)] obtain rs s' where c: "over_calls (compute_result uuid now g d) vcs t = Inr (rs, s')"
     "result_ids_ok uuid s'" "results_change t s'" "length rs = length vcs"
     "\<forall>k. fst k \<noteq> ld_id d \<or> snd k \<notin> vc_id ` set vcs \<longrightarrow> rows_at k s' = rows_at k t"
     "\<forall>vc \<in> set vcs. \<exists>r. rows_at (ld_id d, vc_id vc) s' = [r] \<and> result_ok d r" by blast
  have "\<forall>k. fst k \<noteq> ld_id d \<or> snd k \<notin> vc_id ` set vcs \<longrightarrow> rows_at k s' = rows_at k s" using c(5) spec(3) by metis
  with c results_change_trans [OF spec(2) c(3)] show ?thesis
    by (intro exI [of _ rs] exI [of _ s']) (simp add: compute_single_definition_def t_def)
qed

lemma metric_of_sel: "ms_total (metric_of d rs) = length rs" "ms_available (metric_of d rs) + ms_unavailable (metric_of d rs) = ms_total (metric_of d rs)"
  by (simp_all add: metric_of_def sum_length_filter_compl)

lemma over_definitions_spec:
  assumes "distinct (map ld_id ds)" "distinct (map vc_id vcs)" "sources_ok s" "result_ids_ok uuid s"
  shows "\<exists>ms s'. over_definitions (\<lambda>d. compute_single_definition uuid now g d vcs) ds s = Inr (ms, s') \<and> results_change s s' \<and>
    map ms_name ms = map ld_name ds \<and>
    list_all (\<lambda>m. ms_total m = length vcs \<and> ms_available m + ms_unavailable m = ms_total m) ms \<and> result_ids_ok uuid s' \<and>
    (\<forall>k. fst k \<notin> ld_id ` set ds \<or> snd k \<notin> vc_id ` set vcs \<longrightarrow> rows_at k s' = rows_at k s) \<and>
    (\<forall>d \<in> set ds. \<forall>vc \<in> set vcs. \<exists>r. rows_at (ld_id d, vc_id vc) s' = [r] \<and> result_ok d r)"
  using assms
proof (induction ds arbitrary: s)
  case Nil
  then show ?case by (auto simp: results_change_refl)
next
  case (Cons d ds)
  from compute_single_spec [OF Cons.prems(2-4), of now g d] obtain rs s1 where
    c: "compute_single_definition uuid now g d vcs s = Inr (rs, s1)" "result_ids_ok uuid s1" "results_change s s1" "length rs = length vcs"
     "\<forall>k. fst k \<noteq> ld_id d \<or> snd k \<notin> vc_id ` set vcs \<longrightarrow> rows_at k s1 = rows_at k s"
     "\<forall>vc \<in> set vcs. \<exists>r. rows_at (ld_id d, vc_id vc) s1 = [r] \<and> result_ok d r" by blast
  have prems: "distinct (map ld_id ds)" "ld_id d \<notin> ld_id ` set ds" "sources_ok s1"
    using Cons.prems(1,3) results_change_keeps(2) [OF c(3)] by auto
  from Cons.IH [OF prems(1) Cons.prems(2) prems(3) c(2)] obtain ms s' where
    ih: "over_definitions (\<lambda>d. compute_single_definition uuid now g d vcs) ds s1 = Inr (ms, s')" "results_change s1 s'"
      "list_all (\<lambda>m. ms_total m = length vcs \<and> ms_available m + ms_unavailable m = ms_total m) ms" "result_ids_ok uuid s'"
      "map ms_name ms = map ld_name ds"
      "\<forall>k. fst k \<notin> ld_id ` set ds \<or> snd k \<notin> vc_id ` set vcs \<longrightarrow> rows_at k s' = rows_at k s1"
      "\<forall>d \<in> set ds. \<forall>vc \<in> set vcs. \<exists>r. rows_at (ld_id d, vc_id vc) s' = [r] \<and> result_ok d r" by blast
  have run: "over_definitions (\<lambda>d. compute_single_definition uuid now g d vcs) (d # ds) s = Inr (metric_of d rs # ms, s')"
    using c(1) ih(1) by simp
  have all: "list_all (\<lambda>m. ms_total m = length vcs \<and> ms_available m + ms_unavailable m = ms_total m) (metric_of d rs # ms)"
    using ih(3) c(4) by (simp add: metric_of_sel)
  have rest: "\<forall>k. fst k \<notin> ld_id ` set (d # ds) \<or> snd k \<notin> vc_id ` set vcs \<longrightarrow> rows_at k s' = rows_at k s"
    using ih(6) c(5) by simp
  have "rows_at (ld_id d, vc_id vc) s' = rows_at (ld_id d, vc_id vc) s1" for vc :: vessel_call using ih(6) prems(2) by simp
  with c(6) ih(7) have rows: "\<forall>e \<in> set (d # ds). \<forall>vc \<in> set vcs. \<exists>r. rows_at (ld_id e, vc_id vc) s' = [r] \<and> result_ok e r" by simp
  have "map ms_name (metric_of d rs # ms) = map ld_name (d # ds)" using ih(5) by (simp add: metric_of_def)
  with run results_change_trans [OF c(3) ih(2)] all ih(4) rest rows show ?case
    by (intro exI [of _ "metric_of d rs # ms"] exI [of _ s']) simp
qed

section \<open>The catalogue\<close>

definition definitions_ok :: "(nat \<Rightarrow> uid) \<Rightarrow> 'a platform_db_scheme \<Rightarrow> bool" where
  "definitions_ok uuid s \<longleftrightarrow> inj uuid \<and> distinct (map ld_id (lead_time_definitions s)) \<and> distinct (map ld_name (lead_time_definitions s)) \<and>
     (\<forall>n \<ge> draws s. uuid n \<notin> ld_id ` set (lead_time_definitions s))"

lemma last_with_Some: "last_with p xs = Some x \<Longrightarrow> x \<in> set xs \<and> p x"
proof -
  assume "last_with p xs = Some x"
  then obtain ys where "rev (filter p xs) = x # ys" by (cases "rev (filter p xs)") (simp_all add: last_with_def)
  then have "x \<in> set (rev (filter p xs))" by (metis list.set_intros(1))
  then show ?thesis by simp
qed

lemma upsert_definition_spec:
  assumes "upsert_definition uuid ex seed s = (row, s')"
  shows "ld_name row = ld_name seed \<and> ld_availability_status row = ld_availability_status seed \<and> draws s \<le> draws s' \<and>
    ((\<exists>d \<in> set ex. ld_name d = ld_name row \<and> ld_id row = ld_id d) \<or> (ld_id row = uuid (draws s) \<and> draws s' = draws s + 1)) \<and>
    lead_time_results s' = lead_time_results s \<and> vessel_calls s' = vessel_calls s \<and> sources_ok s' = sources_ok s \<and>
    event_occurrences s' = event_occurrences s"
proof (cases "last_with (\<lambda>d. ld_name d = ld_name seed) ex")
  case None
  then show ?thesis using assms by (auto simp: upsert_definition_def sources_ok_def Let_def)
next
  case (Some d)
  from last_with_Some [OF Some] show ?thesis using assms Some by (auto simp: upsert_definition_def sources_ok_def Let_def)
qed

lemma upsert_definitions_spec:
  assumes "inj uuid" "distinct (map ld_id ex)" "distinct (map ld_name ex)" "\<forall>n \<ge> draws s. uuid n \<notin> ld_id ` set ex"
    and "distinct (map ld_name seeds)" "upsert_definitions uuid ex seeds s = (rows, s')"
  shows "map ld_name rows = map ld_name seeds \<and> map ld_availability_status rows = map ld_availability_status seeds \<and>
    distinct (map ld_id rows) \<and> draws s \<le> draws s' \<and>
    list_all (\<lambda>row. (\<exists>d \<in> set ex. ld_name d = ld_name row \<and> ld_id row = ld_id d) \<or> (\<exists>n \<ge> draws s. ld_id row = uuid n)) rows \<and>
    lead_time_results s' = lead_time_results s \<and> vessel_calls s' = vessel_calls s \<and> sources_ok s' = sources_ok s \<and>
    event_occurrences s' = event_occurrences s"
  using assms(4-6)
proof (induction seeds arbitrary: s rows)
  case (Cons seed seeds)
  obtain row s1 where u: "upsert_definition uuid ex seed s = (row, s1)" by fastforce
  note spec = upsert_definition_spec [OF u]
  have one: "ld_name row = ld_name seed" "ld_availability_status row = ld_availability_status seed" "draws s \<le> draws s1"
    "(\<exists>d \<in> set ex. ld_name d = ld_name row \<and> ld_id row = ld_id d) \<or> (ld_id row = uuid (draws s) \<and> draws s1 = draws s + 1)"
    using spec by blast+
  obtain rows' where us: "upsert_definitions uuid ex seeds s1 = (rows', s')" "rows = row # rows'"
    using Cons.prems(3) u by (auto split: prod.splits)
  have prems: "\<forall>n \<ge> draws s1. uuid n \<notin> ld_id ` set ex" "distinct (map ld_name seeds)" using Cons.prems(1,2) one(3) by auto
  note ih = Cons.IH [OF prems us(1)]
  have "ld_id row \<noteq> ld_id r" if r: "r \<in> set rows'" for r
  proof -
    have "ld_name r \<in> set (map ld_name seeds)" using ih r by (metis image_eqI list.set_map)
    then have name: "ld_name r \<noteq> ld_name row" using Cons.prems(2) one(1) by auto
    have "(\<exists>d \<in> set ex. ld_name d = ld_name r \<and> ld_id r = ld_id d) \<or> (\<exists>n \<ge> draws s1. ld_id r = uuid n)"
      using ih r unfolding list_all_iff by blast
    then consider (old) d where "d \<in> set ex" "ld_name d = ld_name r" "ld_id r = ld_id d" | (new) n where "n \<ge> draws s1" "ld_id r = uuid n" by blast
    then show ?thesis
    proof cases
      case old
      from one(4) show ?thesis
      proof
        assume "\<exists>e \<in> set ex. ld_name e = ld_name row \<and> ld_id row = ld_id e"
        then obtain e where e: "e \<in> set ex" "ld_name e = ld_name row" "ld_id row = ld_id e" by blast
        then have "e \<noteq> d" using old(2) name by auto
        then show ?thesis using assms(2) e old by (auto simp: distinct_map dest: inj_onD)
      next
        assume "ld_id row = uuid (draws s) \<and> draws s1 = draws s + 1"
        then show ?thesis using Cons.prems(1) old by auto
      qed
    next
      case new
      from one(4) show ?thesis
      proof
        assume "\<exists>e \<in> set ex. ld_name e = ld_name row \<and> ld_id row = ld_id e"
        then show ?thesis using prems(1) new by auto
      next
        assume "ld_id row = uuid (draws s) \<and> draws s1 = draws s + 1"
        then show ?thesis using assms(1) new by (auto simp: inj_eq)
      qed
    qed
  qed
  then have "distinct (map ld_id rows)" using ih unfolding us(2) by auto
  moreover have "list_all (\<lambda>row. (\<exists>d \<in> set ex. ld_name d = ld_name row \<and> ld_id row = ld_id d) \<or> (\<exists>n \<ge> draws s. ld_id row = uuid n)) rows"
    using ih one(3,4) unfolding us(2) list_all_iff by (auto intro: order_trans)
  ultimately show ?case using ih spec unfolding us(2) by simp
qed simp

lemma seed_names: "distinct (map ld_name catalogue_seeds)"
  by (simp add: catalogue_seeds_def reconciliation_targets_def additional_calculations_def no_source_definitions_def
      computable_seed_def unsourced_seed_def delay_seed_def catalogue_seed_def)

lemma ensure_catalogue_spec:
  assumes "definitions_ok uuid s" "ensure_catalogue uuid s = (ds, s')"
  shows "map ld_name ds = map ld_name catalogue_seeds" "distinct (map ld_id ds)" "draws s \<le> draws s'"
    "lead_time_results s' = lead_time_results s" "vessel_calls s' = vessel_calls s" "sources_ok s' = sources_ok s"
    "event_occurrences s' = event_occurrences s"
proof -
  have ok: "inj uuid" "distinct (map ld_id (lead_time_definitions s))" "distinct (map ld_name (lead_time_definitions s))"
    "\<forall>n \<ge> draws s. uuid n \<notin> ld_id ` set (lead_time_definitions s)" using assms(1) by (simp_all add: definitions_ok_def)
  note upsert_definitions_spec [OF ok seed_names assms(2) [unfolded ensure_catalogue_def]]
  then show "map ld_name ds = map ld_name catalogue_seeds" "distinct (map ld_id ds)" "draws s \<le> draws s'"
    "lead_time_results s' = lead_time_results s" "vessel_calls s' = vessel_calls s" "sources_ok s' = sources_ok s"
    "event_occurrences s' = event_occurrences s" by blast+
qed

lemma purge_merged_spec:
  "result_ids_ok uuid s \<Longrightarrow> result_ids_ok uuid (purge_merged g s)" "results_change s (purge_merged g s)"
  "vc \<in> set (vessel_calls s) \<Longrightarrow> vc_is_merged vc \<Longrightarrow> tenant_visible (an_tenant_id g) vc \<Longrightarrow> rows_at (d, vc_id vc) (purge_merged g s) = []"
proof -
  show "result_ids_ok uuid s \<Longrightarrow> result_ids_ok uuid (purge_merged g s)" by (auto simp: result_ids_ok_def purge_merged_def distinct_map_filter)
  show "results_change s (purge_merged g s)"
    unfolding results_change_def purge_merged_def by (intro exI [of _ "draws s"] exI conjI, rule_tac [2] order_refl) simp
  show "vc \<in> set (vessel_calls s) \<Longrightarrow> vc_is_merged vc \<Longrightarrow> tenant_visible (an_tenant_id g) vc \<Longrightarrow> rows_at (d, vc_id vc) (purge_merged g s) = []"
    by (auto simp: rows_at_def purge_merged_def rkey_def filter_empty_conv)
qed

section \<open>Properties\<close>

text \<open>C9. On consistent tables the computation of all metrics never fails. Every definition of the catalogue has exactly
  one result for every live call in scope, whatever duplicates there were, each result is available exactly when it
  has a duration, which is the one between its two recorded instants, and otherwise carries a reason; results of
  merged calls are gone; and the counts of the summary add up.\<close>

theorem metrics_complete:
  assumes "definitions_ok uuid s" "result_ids_ok uuid s" "sources_ok s" "distinct (map vc_id (vessel_calls s))"
  shows "\<exists>s' ms. compute_all_metrics uuid now g [] s = (s', Inr ms) \<and> map ms_name ms = map ld_name catalogue_seeds \<and>
    list_all (\<lambda>m. ms_total m = length (target_calls g [] s) \<and> ms_available m + ms_unavailable m = ms_total m) ms \<and>
    (\<forall>d \<in> set (fst (ensure_catalogue uuid s)). \<forall>vc \<in> set (target_calls g [] s). \<exists>r. rows_at (ld_id d, vc_id vc) s' = [r] \<and> result_ok d r) \<and>
    (\<forall>vc \<in> set (vessel_calls s). vc_is_merged vc \<and> tenant_visible (an_tenant_id g) vc \<longrightarrow> (\<forall>d. rows_at (d, vc_id vc) s' = []))"
proof -
  obtain ds s1 where cat: "ensure_catalogue uuid s = (ds, s1)" by fastforce
  note c = ensure_catalogue_spec [OF assms(1) cat]
  let ?vcs = "target_calls g [] s" and ?t = "purge_merged g s1"
  have vcs: "target_calls g [] s1 = ?vcs" "distinct (map vc_id ?vcs)"
    using assms(4) c(5) by (simp_all add: target_calls_def distinct_map_filter)
  have ids: "result_ids_ok uuid s1" using assms(2) c(3,4) by (auto simp: result_ids_ok_def)
  note purge = purge_merged_spec(2) [of s1 g]
  have "sources_ok ?t" using assms(3) c(6) results_change_keeps(2) [OF purge] by simp
  from over_definitions_spec [OF c(2) vcs(2) this purge_merged_spec(1) [OF ids], of now g] obtain ms s' where
    run: "over_definitions (\<lambda>d. compute_single_definition uuid now g d ?vcs) ds ?t = Inr (ms, s')" "map ms_name ms = map ld_name ds"
      "list_all (\<lambda>m. ms_total m = length ?vcs \<and> ms_available m + ms_unavailable m = ms_total m) ms"
      "\<forall>k. fst k \<notin> ld_id ` set ds \<or> snd k \<notin> vc_id ` set ?vcs \<longrightarrow> rows_at k s' = rows_at k ?t"
      "\<forall>d \<in> set ds. \<forall>vc \<in> set ?vcs. \<exists>r. rows_at (ld_id d, vc_id vc) s' = [r] \<and> result_ok d r" by blast
  have "compute_all_metrics uuid now g [] s = (s', Inr ms)" by (simp add: compute_all_metrics_def cat vcs(1) run(1))
  moreover have "rows_at (d, vc_id vc) s' = []"
    if vc: "vc \<in> set (vessel_calls s)" "vc_is_merged vc" "tenant_visible (an_tenant_id g) vc" for vc d
  proof -
    have "vc_id vc \<notin> vc_id ` set ?vcs"
      using assms(4) vc by (auto simp: target_calls_def distinct_map dest: inj_onD)
    then have "rows_at (d, vc_id vc) s' = rows_at (d, vc_id vc) ?t" using run(4) by simp
    then show ?thesis using purge_merged_spec(3) [of vc s1 g d] vc c(5) by simp
  qed
  ultimately show ?thesis using run(2,3,5) c(1) cat by (intro exI [of _ s'] exI [of _ ms]) simp
qed

text \<open>The engine's results are the governed duration concepts: an event result is the lead time between the resolved
  instants, an execution delay result the execution delay of the selected service record, available exactly when the
  concept is.\<close>

theorem results_follow_semantics:
  "lt_duration_hours (event_row d a e row) = sd_value_hours (compute_lead_time (map_option eo_utc_value a) (map_option eo_utc_value e) ver) \<and>
   (lt_status (event_row d a e row) = LT_AVAILABLE) =
     (sd_status (compute_lead_time (map_option eo_utc_value a) (map_option eo_utc_value e) ver) = AVAILABLE) \<and>
   lt_duration_hours (delay_row m chosen row) = (case chosen of None \<Rightarrow> None
     | Some (r, sa, se) \<Rightarrow> sd_value_hours (compute_execution_delay (sa_scheduled_time sa) (se_served_time se) ver)) \<and>
   (lt_status (delay_row m chosen row) = LT_AVAILABLE) = (case chosen of None \<Rightarrow> False
     | Some (r, sa, se) \<Rightarrow> sd_status (compute_execution_delay (sa_scheduled_time sa) (se_served_time se) ver) = AVAILABLE)"
proof -
  have "lt_duration_hours (event_row d a e row) = sd_value_hours (compute_lead_time (map_option eo_utc_value a) (map_option eo_utc_value e) ver) \<and>
   (lt_status (event_row d a e row) = LT_AVAILABLE) =
     (sd_status (compute_lead_time (map_option eo_utc_value a) (map_option eo_utc_value e) ver) = AVAILABLE)"
    by (cases a; cases e) (simp_all add: event_row_def unavailable_row_def compute_lead_time_def available_def unavailable_def)
  moreover have "lt_duration_hours (delay_row m (Some (r, sa, se)) row) =
      sd_value_hours (compute_execution_delay (sa_scheduled_time sa) (se_served_time se) ver) \<and>
    (lt_status (delay_row m (Some (r, sa, se)) row) = LT_AVAILABLE) =
      (sd_status (compute_execution_delay (sa_scheduled_time sa) (se_served_time se) ver) = AVAILABLE)" for r sa se
    by (cases "sa_scheduled_time sa"; cases "se_served_time se")
       (simp_all add: delay_row_def unavailable_row_def compute_execution_delay_def available_def unavailable_def Let_def)
  moreover have "lt_duration_hours (delay_row m None row) = None \<and> lt_status (delay_row m None row) \<noteq> LT_AVAILABLE"
    by (simp add: delay_row_def)
  ultimately show ?thesis by (cases chosen) auto
qed

text \<open>For the wildcard tenant the engine computes results for the live calls of all tenants, but its statistics are
  filtered by a tenant of that name: no observation, no missing one, no statistics.\<close>

theorem wildcard_statistics_empty:
  assumes "an_tenant_id g = ''*''" "list_all (\<lambda>v. vc_tenant_id v \<noteq> ''*'') (vessel_calls s)"
    and "compute_statistics uuid pl now g i cohort filters s = Inr (a, s')"
  shows "target_calls g [] s = filter (\<lambda>v. \<not> vc_is_merged v) (vessel_calls s) \<and>
    ag_observation_count a = 0 \<and> ag_missing_count a = 0 \<and> ag_stats a = None"
proof -
  have "statistic_rows g i s = []"
    using assms(1,2) by (auto simp: statistic_rows_def list_ex_iff list_all_iff filter_empty_conv)
  then have "\<exists>d j. a = aggregate_row pl now g d cohort filters [] j"
    using assms(3) by (auto simp: compute_statistics_def Let_def and_then_Inr_iff split: option.splits)
  moreover have "target_calls g [] s = filter (\<lambda>v. \<not> vc_is_merged v) (vessel_calls s)"
    by (simp add: target_calls_def tenant_visible_def assms(1))
  ultimately show ?thesis by (auto simp: aggregate_row_def frame_of_def Let_def List.map_filter_simps)
qed

section \<open>The extreme calls\<close>

lemma rhe_near: "\<bar>y - of_int k\<bar> < 1 / 2 \<Longrightarrow> rhe y = k"
  using rhe_le [of y] rhe_ge [of y] by linarith

lemma fround_idem:
  assumes "\<bar>x\<bar> * 10 ^ n \<le> 2 ^ 51" shows "fround n (fround n x) = fround n x"
proof -
  define k where "k = rhe (x * 10 ^ n)"
  have "\<bar>rat_of_int k\<bar> \<le> \<bar>x * 10 ^ n\<bar> + 1 / 2"
    using rhe_le [of "x * 10 ^ n"] rhe_ge [of "x * 10 ^ n"] by (simp add: k_def abs_le_iff abs_if)
  also have "\<dots> < 2 ^ 52" using assms by (simp add: abs_mult)
  finally have k: "\<bar>rat_of_int k\<bar> < 2 ^ 52" .
  have "\<bar>fl (of_int k / 10 ^ n) - of_int k / 10 ^ n\<bar> \<le> \<bar>of_int k / 10 ^ n\<bar> / 2 ^ 53" by (rule fl_error)
  then have "\<bar>fl (of_int k / 10 ^ n) - of_int k / 10 ^ n\<bar> * 10 ^ n \<le> \<bar>of_int k / 10 ^ n\<bar> / 2 ^ 53 * 10 ^ n"
    by (rule mult_right_mono) simp
  moreover have "\<bar>fl (of_int k / 10 ^ n) - of_int k / 10 ^ n\<bar> * 10 ^ n = \<bar>(fl (of_int k / 10 ^ n) - of_int k / 10 ^ n) * 10 ^ n\<bar>"
    by (simp add: abs_mult)
  moreover have "(fl (of_int k / 10 ^ n) - of_int k / 10 ^ n) * 10 ^ n = fl (of_int k / 10 ^ n) * 10 ^ n - of_int k"
    by (simp add: left_diff_distrib)
  moreover have "\<bar>rat_of_int k / 10 ^ n\<bar> / 2 ^ 53 * 10 ^ n = \<bar>of_int k\<bar> / 2 ^ 53" by (simp add: abs_divide)
  ultimately have "\<bar>fl (of_int k / 10 ^ n) * 10 ^ n - of_int k\<bar> \<le> \<bar>of_int k\<bar> / 2 ^ 53" by simp
  also have "\<dots> < 1 / 2" using k by simp
  finally have "rhe (fl (of_int k / 10 ^ n) * 10 ^ n) = k" by (rule rhe_near)
  then show ?thesis by (simp add: fround_def k_def)
qed

text \<open>The documented behaviour of the extremes: members of the column, bounds of it.\<close>

definition polars_ok :: "polars \<Rightarrow> bool" where
  "polars_ok pl \<longleftrightarrow> (\<forall>xs. xs \<noteq> [] \<longrightarrow> pl_min pl xs \<in> set xs \<and> pl_max pl xs \<in> set xs \<and> (\<forall>x \<in> set xs. pl_min pl xs \<le> x \<and> x \<le> pl_max pl xs))"

definition six_decimals :: "rat \<Rightarrow> bool" where
  "six_decimals x \<longleftrightarrow> fround 6 x = x"

lemma six_decimals_elapsed: "\<bar>raw_hours s e\<bar> * 10 ^ 6 \<le> 2 ^ 51 \<Longrightarrow> six_decimals (elapsed_hours s e)"
  by (simp add: six_decimals_def elapsed_hours_def fround_idem)

lemma find_member: "(v, y) \<in> set frame \<Longrightarrow> \<exists>w. map_option fst (find (\<lambda>(v, x). x = y) frame) = Some w \<and> (w, y) \<in> set frame"
  by (induction frame) auto

text \<open>The fastest and the slowest call of the statistics are named whenever there are observations, and they are
  calls of the data frame with its smallest and its largest duration; this rests on durations having six decimals,
  because the extremes are rounded before they are looked up.\<close>

theorem extreme_calls_named:
  assumes "polars_ok pl" "frame \<noteq> []" "list_all (\<lambda>r. six_decimals (snd r)) frame"
  shows "\<exists>v w. ag_fastest_vcn (stats_of pl frame) = Some v \<and> (v, ag_min (stats_of pl frame)) \<in> set frame \<and>
    ag_slowest_vcn (stats_of pl frame) = Some w \<and> (w, ag_max (stats_of pl frame)) \<in> set frame \<and>
    list_all (\<lambda>r. ag_min (stats_of pl frame) \<le> snd r \<and> snd r \<le> ag_max (stats_of pl frame)) frame"
proof -
  let ?xs = "map snd frame"
  have pl: "pl_min pl ?xs \<in> set ?xs" "pl_max pl ?xs \<in> set ?xs" "\<forall>x \<in> set ?xs. pl_min pl ?xs \<le> x \<and> x \<le> pl_max pl ?xs"
    using assms(1,2) by (auto simp: polars_ok_def)
  have six: "\<forall>x \<in> set ?xs. fround 6 x = x" using assms(3) by (auto simp: list_all_iff six_decimals_def)
  then have ext: "ag_min (stats_of pl frame) = pl_min pl ?xs" "ag_max (stats_of pl frame) = pl_max pl ?xs"
    using pl(1,2) by (auto simp: stats_of_def Let_def)
  obtain v w where "(v, pl_min pl ?xs) \<in> set frame" "(w, pl_max pl ?xs) \<in> set frame" using pl(1,2) by auto
  from this [THEN find_member] obtain v' w' where
    "map_option fst (find (\<lambda>(v, x). x = pl_min pl ?xs) frame) = Some v'" "(v', pl_min pl ?xs) \<in> set frame"
    "map_option fst (find (\<lambda>(v, x). x = pl_max pl ?xs) frame) = Some w'" "(w', pl_max pl ?xs) \<in> set frame" by blast
  moreover have "fround 6 (pl_min pl ?xs) = pl_min pl ?xs" "fround 6 (pl_max pl ?xs) = pl_max pl ?xs" using six pl(1,2) by blast+
  moreover have "list_all (\<lambda>r. pl_min pl ?xs \<le> snd r \<and> snd r \<le> pl_max pl ?xs) frame" using pl(3) by (simp add: list_all_iff)
  ultimately show ?thesis unfolding ext by (simp add: stats_of_def Let_def) blast
qed

section \<open>Witnesses\<close>

definition staged_db :: "event_occurrence list \<Rightarrow> ingest_db" where
  "staged_db es = platform_db.extend (call_db es) (ingest_db.fields [] [] [] [])"

lemma staged_db_sel [simp]:
  "vessel_calls (staged_db es) = [bare_call ''c'']" "event_occurrences (staged_db es) = es" "event_definitions (staged_db es) = []"
  "draws (staged_db es) = 0" "canonical_observations (staged_db es) = []" "lead_time_definitions (staged_db es) = []"
  "lead_time_results (staged_db es) = []" "statistical_aggregates (staged_db es) = []"
  by (simp_all add: staged_db_def platform_db.defs ingest_db.defs call_db_def)

lemma staged_db_ok: "definitions_ok sample_ids (staged_db [])" "result_ids_ok sample_ids (staged_db [])" "sources_ok (staged_db [])"
  by (simp_all add: definitions_ok_def result_ids_ok_def sources_ok_def inj_sample_ids)

theorem metrics_complete_witness:
  "\<exists>s' ms. compute_all_metrics sample_ids 0 \<lparr>an_tenant_id = ''t'', an_exclude_quarantined = True\<rparr> [] (staged_db []) = (s', Inr ms) \<and> length ms = 20"
proof -
  have "distinct (map vc_id (vessel_calls (staged_db [])))" by simp
  from metrics_complete [OF staged_db_ok this, of 0 "\<lparr>an_tenant_id = ''t'', an_exclude_quarantined = True\<rparr>"] obtain s' ms where
    run: "compute_all_metrics sample_ids 0 \<lparr>an_tenant_id = ''t'', an_exclude_quarantined = True\<rparr> [] (staged_db []) = (s', Inr ms)"
    and "map ms_name ms = map ld_name catalogue_seeds" by blast
  then have "length ms = length catalogue_seeds" by (metis length_map)
  moreover have "length catalogue_seeds = 20"
    by (simp add: catalogue_seeds_def reconciliation_targets_def additional_calculations_def no_source_definitions_def)
  ultimately show ?thesis using run by auto
qed

definition simple_polars :: polars where
  "simple_polars = \<lparr>pl_mean = fmean, pl_median = midpoint_median, pl_std = (\<lambda>_. 0), pl_min = (\<lambda>xs. Min (set xs)), pl_max = (\<lambda>xs. Max (set xs)),
     pl_quantile = (\<lambda>_ xs. Max (set xs))\<rparr>"

lemma simple_polars_ok: "polars_ok simple_polars"
  by (simp add: polars_ok_def simple_polars_def)

theorem extreme_calls_named_witness:
  "ag_fastest_vcn (stats_of simple_polars [(''a'', 2), (''b'', 5)]) \<noteq> None \<and> ag_slowest_vcn (stats_of simple_polars [(''a'', 2), (''b'', 5)]) \<noteq> None"
proof -
  have "six_decimals 2" "six_decimals 5" by (simp_all add: six_decimals_def) (code_simp+)
  then have "list_all (\<lambda>r. six_decimals (snd r)) [(''a'', 2), (''b'', 5)]" by simp
  from extreme_calls_named [OF simple_polars_ok _ this] show ?thesis by fastforce
qed

definition lead_definition :: lead_time_definition where
  "lead_definition = (computable_seed ''Turnaround'' ''ATA'' ''ATD'' '''')\<lparr>ld_id := ''d''\<rparr>"

theorem wildcard_statistics_empty_witness:
  "\<exists>a s'. compute_statistics sample_ids simple_polars 0 \<lparr>an_tenant_id = ''*'', an_exclude_quarantined = True\<rparr> ''d'' ''all'' []
      ((staged_db [])\<lparr>lead_time_definitions := [lead_definition], lead_time_results := [(new_result lead_definition (bare_call ''c''))
        \<lparr>lt_status := LT_AVAILABLE, lt_duration_hours := Some 3\<rparr>]\<rparr>) = Inr (a, s') \<and> ag_observation_count a = 0"
proof -
  let ?g = "\<lparr>an_tenant_id = ''*'', an_exclude_quarantined = True\<rparr>"
  let ?s = "(staged_db [])\<lparr>lead_time_definitions := [lead_definition], lead_time_results := [(new_result lead_definition (bare_call ''c''))
        \<lparr>lt_status := LT_AVAILABLE, lt_duration_hours := Some 3\<rparr>]\<rparr>"
  have "get_by ld_id ''d'' [lead_definition] = Inr (Some lead_definition)"
    by (simp add: get_by_def lead_definition_def)
  then have "\<exists>a s'. compute_statistics sample_ids simple_polars 0 ?g ''d'' ''all'' [] ?s = Inr (a, s')"
    by (simp add: compute_statistics_def Let_def)
  then obtain a s' where run: "compute_statistics sample_ids simple_polars 0 ?g ''d'' ''all'' [] ?s = Inr (a, s')" by blast
  have "an_tenant_id ?g = ''*''" "list_all (\<lambda>v. vc_tenant_id v \<noteq> ''*'') (vessel_calls ?s)" by (simp_all add: bare_call_def)
  from wildcard_statistics_empty [OF this run] run show ?thesis by blast
qed

end
