(* ===== verification/KpiRegistry.thy ===== *)
theory KpiRegistry
  imports LeadTimes
begin

text \<open>
  The governed KPI registry (\<open>apps/api/services/kpi/registry.py\<close>) and its tables: the 55 definitions, their
  upsert with formula versions and alias links, and the peer benchmarks (\<open>benchmarks.py\<close>).
\<close>

section \<open>The registered definitions\<close>

record kpi_item =
  ki_number :: nat
  ki_code :: string
  ki_name :: string
  ki_category :: string
  ki_description :: string
  ki_formula :: string
  ki_numerator :: string
  ki_denominator :: string
  ki_unit :: string
  ki_aggregation_method :: string
  ki_eligible_population :: string
  ki_required_events :: "string list"
  ki_required_fields :: "string list"
  ki_exclusions :: "string list"
  ki_target :: rat
  ki_target_direction :: string
  ki_thresholds :: "(string \<times> rat) list"
  ki_owner :: string
  ki_availability_status :: string
  ki_required_source_systems :: "string list"
  ki_is_primary :: bool
  ki_alias_of_code :: "string option"

text \<open>Text is a list of bytes, UTF-8 outside ASCII.\<close>

definition kpi_items_01_06 :: "kpi_item list" where
  "kpi_items_01_06 =
    [\<lparr>ki_number = 1, ki_code = ''KPI-01'', ki_name = ''Number of Vessel Calls'',
       ki_category = ''Pre-arrival and anchorage'',
       ki_description = ''Total count of unique vessel arrivals completed within the reporting period.'',
       ki_formula = ''COUNT(DISTINCT vessel_call_id)'',
       ki_numerator = ''Unique vessel arrivals'',
       ki_denominator = ''None (integer count)'',
       ki_unit = ''calls'', ki_aggregation_method = ''COUNT'',
       ki_eligible_population = ''All active unmerged vessel calls with recorded ATA'',
       ki_required_events = [''ATA''],
       ki_required_fields = [''vcn''],
       ki_exclusions = [''Quarantined records'', ''Merged duplicates''],
       ki_target = 75, ki_target_direction = ''HIGHER_IS_BETTER'', ki_thresholds = [(''green'', 70), (''amber'', 60), (''red'', 50)],
       ki_owner = ''Marine Operations'', ki_availability_status = ''COMPUTED'',
       ki_required_source_systems = [], ki_is_primary = True, ki_alias_of_code = None\<rparr>,
     \<lparr>ki_number = 2, ki_code = ''KPI-02'', ki_name = ''Average Vessel Call Size'',
       ki_category = ''Pre-arrival and anchorage'',
       ki_description = ''Total cargo handled divided by vessel calls, strictly segmented by unit (TEU, MT, or Units). Never mixes units into an unqualified total.'',
       ki_formula = ''SUM(actual_quantity) / COUNT(DISTINCT vessel_call_id) [by unit]'',
       ki_numerator = ''Sum of actual cargo quantity for specified cargo unit'',
       ki_denominator = ''Distinct vessel calls carrying that cargo unit'',
       ki_unit = ''TEU/call or MT/call'', ki_aggregation_method = ''AVG'',
       ki_eligible_population = ''Vessel calls with valid cargo operations in the specified unit'',
       ki_required_events = [''CARGO_START'', ''CARGO_END''],
       ki_required_fields = [''actual_quantity'', ''unit''],
       ki_exclusions = [''Calls without cargo records in matching unit''],
       ki_target = 15000, ki_target_direction = ''HIGHER_IS_BETTER'', ki_thresholds = [(''green'', 12000), (''amber'', 8000), (''red'', 5000)],
       ki_owner = ''Commercial Operations'', ki_availability_status = ''COMPUTED'',
       ki_required_source_systems = [], ki_is_primary = True, ki_alias_of_code = None\<rparr>,
     \<lparr>ki_number = 3, ki_code = ''KPI-03'', ki_name = ''Average Pre-Berthing Waiting Time'',
       ki_category = ''Pre-arrival and anchorage'',
       ki_description = ''Total pre-berthing waiting time at anchorage prior to pilot boarding divided by eligible vessels.'',
       ki_formula = ''SUM(PILOT_ON_BOARD_ARRIVAL - ANCHORAGE_ARRIVAL) / COUNT(eligible_vessels)'',
       ki_numerator = ''Sum of anchorage wait hours'',
       ki_denominator = ''Vessels calling at anchorage'',
       ki_unit = ''hours'', ki_aggregation_method = ''AVG'',
       ki_eligible_population = ''Vessels anchoring before pilot boarding'',
       ki_required_events = [''ANCHORAGE_ARRIVAL'', ''PILOT_ON_BOARD_ARRIVAL''],
       ki_required_fields = [''utc_value''],
       ki_exclusions = [''Direct berthing calls without anchorage stay'', ''Quarantined chronology defects''],
       ki_target = 4, ki_target_direction = ''LOWER_IS_BETTER'', ki_thresholds = [(''green'', 5), (''amber'', 10), (''red'', 24)],
       ki_owner = ''Harbour Master'', ki_availability_status = ''COMPUTED'',
       ki_required_source_systems = [], ki_is_primary = True, ki_alias_of_code = None\<rparr>,
     \<lparr>ki_number = 4, ki_code = ''KPI-04'', ki_name = ''Pre-Berthing Delay'',
       ki_category = ''Pre-arrival and anchorage'',
       ki_description = ''Average elapsed interval between Anchorage Arrival and First Mooring Line Tied (Berth Commencement).'',
       ki_formula = ''AVG(FIRST_LINE_TIED_ARRIVAL - ANCHORAGE_ARRIVAL)'',
       ki_numerator = ''Sum of elapsed hours from anchorage to first line tied'',
       ki_denominator = ''Count of eligible anchored vessels'',
       ki_unit = ''hours'', ki_aggregation_method = ''AVG'',
       ki_eligible_population = ''Anchored vessels completing inward berthing'',
       ki_required_events = [''ANCHORAGE_ARRIVAL'', ''FIRST_LINE_TIED_ARRIVAL''],
       ki_required_fields = [''utc_value''],
       ki_exclusions = [''Quarantined chronology defects''],
       ki_target = 6, ki_target_direction = ''LOWER_IS_BETTER'', ki_thresholds = [(''green'', 6), (''amber'', 12), (''red'', 24)],
       ki_owner = ''Harbour Master'', ki_availability_status = ''COMPUTED'',
       ki_required_source_systems = [], ki_is_primary = True, ki_alias_of_code = None\<rparr>,
     \<lparr>ki_number = 5, ki_code = ''KPI-05'', ki_name = ''Anchorage Time Variation Index'',
       ki_category = ''Pre-arrival and anchorage'',
       ki_description = ''Standard deviation of anchorage waiting duration (Pilot Boarding - Anchorage Arrival), segmented by vessel type.'',
       ki_formula = ''STDDEV(PILOT_ON_BOARD_ARRIVAL - ANCHORAGE_ARRIVAL)'',
       ki_numerator = ''Standard deviation of wait duration'',
       ki_denominator = ''N/A (dispersion measure)'',
       ki_unit = ''hours'', ki_aggregation_method = ''STDDEV'',
       ki_eligible_population = ''Vessel calls with verified anchorage stay'',
       ki_required_events = [''ANCHORAGE_ARRIVAL'', ''PILOT_ON_BOARD_ARRIVAL''],
       ki_required_fields = [''utc_value''],
       ki_exclusions = [''Single-call cohorts where N < 2''],
       ki_target = 2, ki_target_direction = ''LOWER_IS_BETTER'', ki_thresholds = [(''green'', 5 / 2), (''amber'', 5), (''red'', 10)],
       ki_owner = ''Harbour Master'', ki_availability_status = ''COMPUTED'',
       ki_required_source_systems = [], ki_is_primary = True, ki_alias_of_code = None\<rparr>,
     \<lparr>ki_number = 6, ki_code = ''KPI-06'', ki_name = ''VTS Clearance Time'',
       ki_category = ''Pre-arrival and anchorage'',
       ki_description = ''Average duration from Anchorage Arrival to VTS Clearance confirmation.'',
       ki_formula = ''AVG(VTS_CLEARANCE - ANCHORAGE_ARRIVAL)'',
       ki_numerator = ''Sum of clearance intervals'',
       ki_denominator = ''Count of cleared calls'',
       ki_unit = ''hours'', ki_aggregation_method = ''AVG'',
       ki_eligible_population = ''Vessels requiring formal VTS clearance'',
       ki_required_events = [''ANCHORAGE_ARRIVAL'', ''VTS_CLEARANCE''],
       ki_required_fields = [''utc_value''],
       ki_exclusions = [''Calls lacking explicit VTS log''],
       ki_target = 1 / 2, ki_target_direction = ''LOWER_IS_BETTER'', ki_thresholds = [(''green'', 1 / 2), (''amber'', 1), (''red'', 2)],
       ki_owner = ''VTS Operations'', ki_availability_status = ''NO_SOURCE_DATA'',
       ki_required_source_systems = [''VTS_RADAR_LOG''], ki_is_primary = True, ki_alias_of_code = None\<rparr>]"

definition kpi_items_07_12 :: "kpi_item list" where
  "kpi_items_07_12 =
    [\<lparr>ki_number = 7, ki_code = ''KPI-07'', ki_name = ''Average Inward Movement Time'',
       ki_category = ''Inward movement'',
       ki_description = ''Inward transit time from Pilot On Board at anchorage to All Fast at berth.'',
       ki_formula = ''AVG(ALL_FAST_ARRIVAL - PILOT_ON_BOARD_ARRIVAL)'',
       ki_numerator = ''Sum of inward transit durations'',
       ki_denominator = ''Count of berthed vessel calls'',
       ki_unit = ''hours'', ki_aggregation_method = ''AVG'',
       ki_eligible_population = ''Berthed vessels with pilotage arrival service'',
       ki_required_events = [''PILOT_ON_BOARD_ARRIVAL'', ''ALL_FAST_ARRIVAL''],
       ki_required_fields = [''utc_value''],
       ki_exclusions = [''Vessels anchoring inside harbour without pilot'', ''Quarantined events''],
       ki_target = 3 / 2, ki_target_direction = ''LOWER_IS_BETTER'', ki_thresholds = [(''green'', 3 / 2), (''amber'', 5 / 2), (''red'', 4)],
       ki_owner = ''Marine Pilotage'', ki_availability_status = ''COMPUTED'',
       ki_required_source_systems = [], ki_is_primary = True, ki_alias_of_code = None\<rparr>,
     \<lparr>ki_number = 8, ki_code = ''KPI-08'', ki_name = ''Average Inward Towage Duration'',
       ki_category = ''Inward movement'',
       ki_description = ''Summed inward tug service duration divided by assisted vessels. Requires an explicit tug release/end event; berth arrival is not used as a proxy.'',
       ki_formula = ''SUM(tug_duration) / COUNT(assisted_vessels)'',
       ki_numerator = ''Total tug service hours on arrival'',
       ki_denominator = ''Count of assisted vessel calls (default)'',
       ki_unit = ''hours'', ki_aggregation_method = ''AVG'',
       ki_eligible_population = ''Arrival movements requiring towage assistance'',
       ki_required_events = [''TUG_SERVICE_START_ARRIVAL'', ''TUG_SERVICE_END_ARRIVAL''],
       ki_required_fields = [''service_type''],
       ki_exclusions = [''Unassisted berthing calls''],
       ki_target = 1, ki_target_direction = ''LOWER_IS_BETTER'', ki_thresholds = [(''green'', fl (6 / 5)), (''amber'', 2), (''red'', 3)],
       ki_owner = ''Towage Operations'', ki_availability_status = ''NO_SOURCE_DATA'',
       ki_required_source_systems = [''TUG_SERVICE_RELEASE_LOG''], ki_is_primary = True, ki_alias_of_code = None\<rparr>,
     \<lparr>ki_number = 9, ki_code = ''KPI-09'', ki_name = ''Tug Availability'',
       ki_category = ''Inward movement'',
       ki_description = ''Available tug service hours divided by requested tug hours expressed as percentage.'',
       ki_formula = ''(available_tug_hours / requested_tug_hours) * 100'',
       ki_numerator = ''Served tug hours without delay'',
       ki_denominator = ''Total requested tug hours'',
       ki_unit = ''%'', ki_aggregation_method = ''RATIO'',
       ki_eligible_population = ''All towage service orders'',
       ki_required_events = [],
       ki_required_fields = [''service_type'', ''requested_time'', ''served_time''],
       ki_exclusions = [''Cancelled service requests''],
       ki_target = 98, ki_target_direction = ''HIGHER_IS_BETTER'', ki_thresholds = [(''green'', 95), (''amber'', 90), (''red'', 80)],
       ki_owner = ''Towage Operations'', ki_availability_status = ''NO_SOURCE_DATA'',
       ki_required_source_systems = [''TUG_FLEET_AVAILABILITY''], ki_is_primary = True, ki_alias_of_code = None\<rparr>,
     \<lparr>ki_number = 10, ki_code = ''KPI-10'', ki_name = ''Pilot Availability'',
       ki_category = ''Inward movement'',
       ki_description = ''Available pilot hours divided by requested pilot hours expressed as percentage.'',
       ki_formula = ''(available_pilot_hours / requested_pilot_hours) * 100'',
       ki_numerator = ''Served pilotage hours without delay'',
       ki_denominator = ''Total requested pilotage hours'',
       ki_unit = ''%'', ki_aggregation_method = ''RATIO'',
       ki_eligible_population = ''All pilotage service requests'',
       ki_required_events = [],
       ki_required_fields = [''service_type'', ''requested_time'', ''served_time''],
       ki_exclusions = [''Cancelled service requests''],
       ki_target = 98, ki_target_direction = ''HIGHER_IS_BETTER'', ki_thresholds = [(''green'', 95), (''amber'', 90), (''red'', 80)],
       ki_owner = ''Marine Pilotage'', ki_availability_status = ''NO_SOURCE_DATA'',
       ki_required_source_systems = [''PILOT_ROSTER_OR_AVAILABILITY''], ki_is_primary = True, ki_alias_of_code = None\<rparr>,
     \<lparr>ki_number = 11, ki_code = ''KPI-11'', ki_name = ''Tug Response Time'',
       ki_category = ''Inward movement'',
       ki_description = ''Average duration from Tug Request to Tug Arrival on scene. (Primary metric for tug responsiveness; alias is KPI-53).'',
       ki_formula = ''AVG(Tug_Arrival - Tug_Request)'',
       ki_numerator = ''Sum of tug response intervals'',
       ki_denominator = ''Total tug requests served'',
       ki_unit = ''hours'', ki_aggregation_method = ''AVG'',
       ki_eligible_population = ''Towage service requests with arrival logged'',
       ki_required_events = [],
       ki_required_fields = [''requested_time'', ''served_time''],
       ki_exclusions = [],
       ki_target = 3 / 4, ki_target_direction = ''LOWER_IS_BETTER'', ki_thresholds = [(''green'', fl (4 / 5)), (''amber'', 3 / 2), (''red'', 5 / 2)],
       ki_owner = ''Towage Operations'', ki_availability_status = ''NO_SOURCE_DATA'',
       ki_required_source_systems = [''TUG_POSITION_OR_ARRIVAL_LOG''], ki_is_primary = True, ki_alias_of_code = None\<rparr>,
     \<lparr>ki_number = 12, ki_code = ''KPI-12'', ki_name = ''Pilot Boarding Time'',
       ki_category = ''Inward movement'',
       ki_description = ''Average duration between Pilot Assigned / Scheduled and Pilot On Board.'',
       ki_formula = ''AVG(PILOT_ON_BOARD - PILOT_SCHEDULED)'',
       ki_numerator = ''Sum of pilot boarding intervals'',
       ki_denominator = ''Count of pilot boarding events'',
       ki_unit = ''hours'', ki_aggregation_method = ''AVG'',
       ki_eligible_population = ''Pilotage assignments with confirmed boarding'',
       ki_required_events = [''PILOT_SCHEDULED_ARRIVAL'', ''PILOT_ON_BOARD_ARRIVAL''],
       ki_required_fields = [''scheduled_time'', ''served_time''],
       ki_exclusions = [''Cancelled pilot movements''],
       ki_target = 1 / 2, ki_target_direction = ''LOWER_IS_BETTER'', ki_thresholds = [(''green'', 1 / 2), (''amber'', 1), (''red'', 2)],
       ki_owner = ''Marine Pilotage'', ki_availability_status = ''COMPUTED'',
       ki_required_source_systems = [], ki_is_primary = True, ki_alias_of_code = None\<rparr>]"

definition kpi_items_13_18 :: "kpi_item list" where
  "kpi_items_13_18 =
    [\<lparr>ki_number = 13, ki_code = ''KPI-13'', ki_name = ''Pilot-to-Berth Time'',
       ki_category = ''Inward movement'',
       ki_description = ''Average navigation duration from Pilot On Board at seaward station to All Fast alongside berth.'',
       ki_formula = ''AVG(ALL_FAST_ARRIVAL - PILOT_ON_BOARD_ARRIVAL)'',
       ki_numerator = ''Sum of pilot inward transit durations'',
       ki_denominator = ''Total completed inward transits'',
       ki_unit = ''hours'', ki_aggregation_method = ''AVG'',
       ki_eligible_population = ''Vessels completing piloted inward transit'',
       ki_required_events = [''PILOT_ON_BOARD_ARRIVAL'', ''ALL_FAST_ARRIVAL''],
       ki_required_fields = [''utc_value''],
       ki_exclusions = [''Quarantined events''],
       ki_target = 5 / 4, ki_target_direction = ''LOWER_IS_BETTER'', ki_thresholds = [(''green'', fl (13 / 10)), (''amber'', 2), (''red'', 3)],
       ki_owner = ''Marine Pilotage'', ki_availability_status = ''COMPUTED'',
       ki_required_source_systems = [], ki_is_primary = True, ki_alias_of_code = None\<rparr>,
     \<lparr>ki_number = 14, ki_code = ''KPI-14'', ki_name = ''Berth Occupancy Rate'',
       ki_category = ''Berthing and at berth'',
       ki_description = ''Occupied berth hours divided by available berth hours over the period * 100. (Primary metric; alias is KPI-51).'',
       ki_formula = ''(SUM(berth_stay_hours) / available_berth_hours) * 100'',
       ki_numerator = ''Total hours berths were occupied by active calls'',
       ki_denominator = ''Total theoretical capacity hours for active berths in period'',
       ki_unit = ''%'', ki_aggregation_method = ''RATIO'',
       ki_eligible_population = ''Active commercial berths'',
       ki_required_events = [''ALL_FAST_ARRIVAL'', ''LAST_LINE_UNTIED_SAILING''],
       ki_required_fields = [''utc_value''],
       ki_exclusions = [''Berths under scheduled capital dredging or civil repair''],
       ki_target = 65, ki_target_direction = ''BAND'', ki_thresholds = [(''green'', 70), (''amber'', 80), (''red'', 90)],
       ki_owner = ''Terminal Operations'', ki_availability_status = ''NO_SOURCE_DATA'',
       ki_required_source_systems = [''BERTH_INVENTORY_AND_AVAILABILITY''], ki_is_primary = True, ki_alias_of_code = None\<rparr>,
     \<lparr>ki_number = 15, ki_code = ''KPI-15'', ki_name = ''Average Berthing Time'',
       ki_category = ''Berthing and at berth'',
       ki_description = ''Total alongside berth duration divided by vessel count.'',
       ki_formula = ''AVG(LAST_LINE_UNTIED_SAILING - ALL_FAST_ARRIVAL)'',
       ki_numerator = ''Sum of all berth stays'',
       ki_denominator = ''Count of berthed calls'',
       ki_unit = ''hours'', ki_aggregation_method = ''AVG'',
       ki_eligible_population = ''Completed vessel calls alongside'',
       ki_required_events = [''ALL_FAST_ARRIVAL'', ''LAST_LINE_UNTIED_SAILING''],
       ki_required_fields = [''utc_value''],
       ki_exclusions = [''Quarantined calls''],
       ki_target = 24, ki_target_direction = ''LOWER_IS_BETTER'', ki_thresholds = [(''green'', 24), (''amber'', 48), (''red'', 72)],
       ki_owner = ''Terminal Operations'', ki_availability_status = ''COMPUTED'',
       ki_required_source_systems = [], ki_is_primary = True, ki_alias_of_code = None\<rparr>,
     \<lparr>ki_number = 16, ki_code = ''KPI-16'', ki_name = ''Berthing Time Variation Index'',
       ki_category = ''Berthing and at berth'',
       ki_description = ''Standard deviation of alongside berth stay across vessel types.'',
       ki_formula = ''STDDEV(LAST_LINE_UNTIED_SAILING - ALL_FAST_ARRIVAL)'',
       ki_numerator = ''Standard deviation of alongside stay'',
       ki_denominator = ''N/A (dispersion measure)'',
       ki_unit = ''hours'', ki_aggregation_method = ''STDDEV'',
       ki_eligible_population = ''Completed berthed calls'',
       ki_required_events = [''ALL_FAST_ARRIVAL'', ''LAST_LINE_UNTIED_SAILING''],
       ki_required_fields = [''utc_value''],
       ki_exclusions = [''Cohorts with N < 2''],
       ki_target = 12, ki_target_direction = ''LOWER_IS_BETTER'', ki_thresholds = [(''green'', 12), (''amber'', 24), (''red'', 48)],
       ki_owner = ''Terminal Operations'', ki_availability_status = ''COMPUTED'',
       ki_required_source_systems = [], ki_is_primary = True, ki_alias_of_code = None\<rparr>,
     \<lparr>ki_number = 17, ki_code = ''KPI-17'', ki_name = ''Average Non-Working Time at Berth'',
       ki_category = ''Berthing and at berth'',
       ki_description = ''Total non-working alongside time (Berth Stay minus Cargo Working duration) divided by vessels.'',
       ki_formula = ''AVG((LAST_LINE_UNTIED - ALL_FAST) - (CARGO_END - CARGO_START))'',
       ki_numerator = ''Sum of non-working buffer hours'',
       ki_denominator = ''Completed vessel calls'',
       ki_unit = ''hours'', ki_aggregation_method = ''AVG'',
       ki_eligible_population = ''Calls with recorded cargo operations'',
       ki_required_events = [''ALL_FAST_ARRIVAL'', ''CARGO_START'', ''CARGO_END'', ''LAST_LINE_UNTIED_SAILING''],
       ki_required_fields = [''utc_value''],
       ki_exclusions = [''Calls without cargo operations (e.g. bunker only)''],
       ki_target = 4, ki_target_direction = ''LOWER_IS_BETTER'', ki_thresholds = [(''green'', 4), (''amber'', 8), (''red'', 16)],
       ki_owner = ''Terminal Operations'', ki_availability_status = ''COMPUTED'',
       ki_required_source_systems = [], ki_is_primary = True, ki_alias_of_code = None\<rparr>,
     \<lparr>ki_number = 18, ki_code = ''KPI-18'', ki_name = ''Idle Time at Berth'',
       ki_category = ''Berthing and at berth'',
       ki_description = ''Idle alongside time divided by total berth stay duration * 100.'',
       ki_formula = ''(SUM(idle_hours) / SUM(berth_stay_hours)) * 100'',
       ki_numerator = ''Total non-working alongside hours'',
       ki_denominator = ''Total berth stay hours'',
       ki_unit = ''%'', ki_aggregation_method = ''RATIO'',
       ki_eligible_population = ''Completed berthed calls'',
       ki_required_events = [''ALL_FAST_ARRIVAL'', ''CARGO_START'', ''CARGO_END'', ''LAST_LINE_UNTIED_SAILING''],
       ki_required_fields = [''utc_value''],
       ki_exclusions = [''Zero denominator calls''],
       ki_target = 15, ki_target_direction = ''LOWER_IS_BETTER'', ki_thresholds = [(''green'', 15), (''amber'', 25), (''red'', 40)],
       ki_owner = ''Terminal Operations'', ki_availability_status = ''COMPUTED'',
       ki_required_source_systems = [], ki_is_primary = True, ki_alias_of_code = None\<rparr>]"

definition kpi_items_19_24 :: "kpi_item list" where
  "kpi_items_19_24 =
    [\<lparr>ki_number = 19, ki_code = ''KPI-19'', ki_name = ''Number of Vessel Shifts'',
       ki_category = ''Berthing and at berth'',
       ki_description = ''Total count of vessel shifting movements executed between berths or along berth.'',
       ki_formula = ''COUNT(shifting_events)'',
       ki_numerator = ''Count of executed shifting stages'',
       ki_denominator = ''None (count)'',
       ki_unit = ''shifts'', ki_aggregation_method = ''COUNT'',
       ki_eligible_population = ''All active calls'',
       ki_required_events = [''SHIFT_PILOT_ON_BOARD'', ''SHIFT_ALL_FAST''],
       ki_required_fields = [''utc_value''],
       ki_exclusions = [],
       ki_target = 8, ki_target_direction = ''LOWER_IS_BETTER'', ki_thresholds = [(''green'', 8), (''amber'', 15), (''red'', 25)],
       ki_owner = ''Harbour Master'', ki_availability_status = ''COMPUTED'',
       ki_required_source_systems = [], ki_is_primary = True, ki_alias_of_code = None\<rparr>,
     \<lparr>ki_number = 20, ki_code = ''KPI-20'', ki_name = ''Shifting Time'',
       ki_category = ''Berthing and at berth'',
       ki_description = ''Sum of shifting durations divided by completed shifts.'',
       ki_formula = ''AVG(SHIFT_ALL_FAST - SHIFT_PILOT_ON_BOARD)'',
       ki_numerator = ''Sum of shifting durations'',
       ki_denominator = ''Completed shift count'',
       ki_unit = ''hours'', ki_aggregation_method = ''AVG'',
       ki_eligible_population = ''Calls executing optional shifting'',
       ki_required_events = [''SHIFT_PILOT_ON_BOARD'', ''SHIFT_ALL_FAST''],
       ki_required_fields = [''utc_value''],
       ki_exclusions = [''Calls without shift stages''],
       ki_target = 5 / 2, ki_target_direction = ''LOWER_IS_BETTER'', ki_thresholds = [(''green'', 5 / 2), (''amber'', 4), (''red'', 6)],
       ki_owner = ''Harbour Master'', ki_availability_status = ''COMPUTED'',
       ki_required_source_systems = [], ki_is_primary = True, ki_alias_of_code = None\<rparr>,
     \<lparr>ki_number = 21, ki_code = ''KPI-21'', ki_name = ''Berth Productivity'',
       ki_category = ''Berthing and at berth'',
       ki_description = ''Total container moves divided by summed individual crane-hours.'',
       ki_formula = ''SUM(container_moves) / SUM(working_hours * resources_deployed)'',
       ki_numerator = ''Total container moves (or TEU)'',
       ki_denominator = ''Summed crane working hours across all deployed resources'',
       ki_unit = ''moves/crane-hr'', ki_aggregation_method = ''RATIO'',
       ki_eligible_population = ''Container vessel calls with cargo operations'',
       ki_required_events = [''CARGO_START'', ''CARGO_END''],
       ki_required_fields = [''actual_quantity'', ''working_hours''],
       ki_exclusions = [''Non-container vessel calls''],
       ki_target = 28, ki_target_direction = ''HIGHER_IS_BETTER'', ki_thresholds = [(''green'', 28), (''amber'', 22), (''red'', 16)],
       ki_owner = ''Terminal Operations'', ki_availability_status = ''COMPUTED'',
       ki_required_source_systems = [], ki_is_primary = True, ki_alias_of_code = None\<rparr>,
     \<lparr>ki_number = 22, ki_code = ''KPI-22'', ki_name = ''Berth Utilisation Ratio'',
       ki_category = ''Berthing and at berth'',
       ki_description = ''Productive working berth hours divided by available berth hours over reporting period * 100.'',
       ki_formula = ''(SUM(cargo_working_hours) / available_berth_hours) * 100'',
       ki_numerator = ''Productive working cargo hours alongside'',
       ki_denominator = ''Available theoretical berth hours'',
       ki_unit = ''%'', ki_aggregation_method = ''RATIO'',
       ki_eligible_population = ''Commercial working berths'',
       ki_required_events = [''CARGO_START'', ''CARGO_END''],
       ki_required_fields = [''working_hours''],
       ki_exclusions = [],
       ki_target = 55, ki_target_direction = ''HIGHER_IS_BETTER'', ki_thresholds = [(''green'', 55), (''amber'', 40), (''red'', 30)],
       ki_owner = ''Terminal Operations'', ki_availability_status = ''NO_SOURCE_DATA'',
       ki_required_source_systems = [''BERTH_INVENTORY_AND_AVAILABILITY''], ki_is_primary = True, ki_alias_of_code = None\<rparr>,
     \<lparr>ki_number = 23, ki_code = ''KPI-23'', ki_name = ''Cargo Handled in MT'',
       ki_category = ''Cargo handling'',
       ki_description = ''Total metric tonnes of bulk/general cargo handled during the period.'',
       ki_formula = (''SUM(actual_quantity) WHERE unit = '' @ [CHR 0x27] @ ''MT'' @ [CHR 0x27]),
       ki_numerator = ''Total actual cargo metric tonnes'',
       ki_denominator = ''None (sum)'',
       ki_unit = ''MT'', ki_aggregation_method = ''SUM'',
       ki_eligible_population = (''Cargo operations with unit='' @ [CHR 0x27] @ ''MT'' @ [CHR 0x27]),
       ki_required_events = [''CARGO_START'', ''CARGO_END''],
       ki_required_fields = [''actual_quantity'', ''unit''],
       ki_exclusions = [''Container TEU or vehicle Unit operations''],
       ki_target = 500000, ki_target_direction = ''HIGHER_IS_BETTER'', ki_thresholds = [(''green'', 500000), (''amber'', 400000), (''red'', 300000)],
       ki_owner = ''Commercial Operations'', ki_availability_status = ''COMPUTED'',
       ki_required_source_systems = [], ki_is_primary = True, ki_alias_of_code = None\<rparr>,
     \<lparr>ki_number = 24, ki_code = ''KPI-24'', ki_name = ''Container Traffic in TEUs'',
       ki_category = ''Cargo handling'',
       ki_description = ''Total container traffic in TEUs (loaded + unloaded + transshipped, with configured treatment of restows).'',
       ki_formula = (''SUM(actual_quantity) WHERE unit = '' @ [CHR 0x27] @ ''TEU'' @ [CHR 0x27] @ '' AND operation_type IN (Load, Discharge, Transshipment)''),
       ki_numerator = ''Summed container TEU moves'',
       ki_denominator = ''None (sum)'',
       ki_unit = ''TEU'', ki_aggregation_method = ''SUM'',
       ki_eligible_population = ''Container cargo operations'',
       ki_required_events = [''CARGO_START'', ''CARGO_END''],
       ki_required_fields = [''actual_quantity'', ''unit'', ''operation_type''],
       ki_exclusions = [''Bulk MT operations'', ''Restows and TEU rows without an FRD traffic operation type''],
       ki_target = 50000, ki_target_direction = ''HIGHER_IS_BETTER'', ki_thresholds = [(''green'', 50000), (''amber'', 35000), (''red'', 20000)],
       ki_owner = ''Commercial Operations'', ki_availability_status = ''COMPUTED'',
       ki_required_source_systems = [], ki_is_primary = True, ki_alias_of_code = None\<rparr>]"

definition kpi_items_25_30 :: "kpi_item list" where
  "kpi_items_25_30 =
    [\<lparr>ki_number = 25, ki_code = ''KPI-25'', ki_name = ''Voyage Productivity'',
       ki_category = ''Cargo handling'',
       ki_description = ''Total container moves or cargo throughput divided by vessel calls.'',
       ki_formula = ''SUM(actual_quantity) / COUNT(DISTINCT vessel_call_id)'',
       ki_numerator = ''Sum of cargo quantity'',
       ki_denominator = ''Distinct vessel calls'',
       ki_unit = ''moves/call'', ki_aggregation_method = ''AVG'',
       ki_eligible_population = ''Active completed vessel calls with cargo operations'',
       ki_required_events = [''CARGO_START'', ''CARGO_END''],
       ki_required_fields = [''actual_quantity''],
       ki_exclusions = [''Bunkering-only calls''],
       ki_target = 2000, ki_target_direction = ''HIGHER_IS_BETTER'', ki_thresholds = [(''green'', 2000), (''amber'', 1200), (''red'', 800)],
       ki_owner = ''Terminal Operations'', ki_availability_status = ''COMPUTED'',
       ki_required_source_systems = [], ki_is_primary = True, ki_alias_of_code = None\<rparr>,
     \<lparr>ki_number = 26, ki_code = ''KPI-26'', ki_name = ''First Container Lift Time'',
       ki_category = ''Cargo handling'',
       ki_description = ''Average duration from All Fast (or berthing reference point) to first container lifted.'',
       ki_formula = ''AVG(FIRST_CONTAINER_LIFT - ALL_FAST_ARRIVAL)'',
       ki_numerator = ''Elapsed hours from all fast to first lift'',
       ki_denominator = ''Container vessel calls'',
       ki_unit = ''hours'', ki_aggregation_method = ''AVG'',
       ki_eligible_population = ''Container calls'',
       ki_required_events = [''ALL_FAST_ARRIVAL'', ''FIRST_CONTAINER_LIFT''],
       ki_required_fields = [''utc_value''],
       ki_exclusions = [''Non-container calls''],
       ki_target = 3 / 4, ki_target_direction = ''LOWER_IS_BETTER'', ki_thresholds = [(''green'', 3 / 4), (''amber'', 3 / 2), (''red'', 3)],
       ki_owner = ''Terminal Operations'', ki_availability_status = ''NO_SOURCE_DATA'',
       ki_required_source_systems = [''TOS_CRANE_LOG''], ki_is_primary = True, ki_alias_of_code = None\<rparr>,
     \<lparr>ki_number = 27, ki_code = ''KPI-27'', ki_name = ''Average Ship Berth-Day Output'',
       ki_category = ''Cargo handling'',
       ki_description = ''Total cargo handled divided by ship berth-days (berth stay in days).'',
       ki_formula = ''SUM(actual_quantity) / (SUM(berth_stay_hours) / 24.0)'',
       ki_numerator = ''Total cargo handled (TEU or MT)'',
       ki_denominator = ''Total ship berth days'',
       ki_unit = ''units/berth-day'', ki_aggregation_method = ''RATIO'',
       ki_eligible_population = ''Vessel calls alongside berth'',
       ki_required_events = [''ALL_FAST_ARRIVAL'', ''LAST_LINE_UNTIED_SAILING''],
       ki_required_fields = [''actual_quantity''],
       ki_exclusions = [''Calls with zero berth stay''],
       ki_target = 3500, ki_target_direction = ''HIGHER_IS_BETTER'', ki_thresholds = [(''green'', 3500), (''amber'', 2500), (''red'', 1500)],
       ki_owner = ''Terminal Operations'', ki_availability_status = ''COMPUTED'',
       ki_required_source_systems = [], ki_is_primary = True, ki_alias_of_code = None\<rparr>,
     \<lparr>ki_number = 28, ki_code = ''KPI-28'', ki_name = ''Number of Cranes per Vessel'',
       ki_category = ''Cargo handling'',
       ki_description = ''Average number of cranes deployed per worked vessel call.'',
       ki_formula = ''AVG(resources_deployed)'',
       ki_numerator = ''Sum of deployed resources'',
       ki_denominator = ''Worked vessel calls'',
       ki_unit = ''cranes'', ki_aggregation_method = ''AVG'',
       ki_eligible_population = ''Calls with crane assignments'',
       ki_required_events = [''CARGO_START'', ''CARGO_END''],
       ki_required_fields = [''resources_deployed''],
       ki_exclusions = [],
       ki_target = 5 / 2, ki_target_direction = ''HIGHER_IS_BETTER'', ki_thresholds = [(''green'', 5 / 2), (''amber'', 2), (''red'', 3 / 2)],
       ki_owner = ''Terminal Operations'', ki_availability_status = ''COMPUTED'',
       ki_required_source_systems = [], ki_is_primary = True, ki_alias_of_code = None\<rparr>,
     \<lparr>ki_number = 29, ki_code = ''KPI-29'', ki_name = ''Equipment Downtime'',
       ki_category = ''Cargo handling'',
       ki_description = ''Validated crane/equipment downtime divided by total equipment operating time * 100.'',
       ki_formula = ''(SUM(downtime_hours) / SUM(working_hours + downtime_hours)) * 100'',
       ki_numerator = ''Total recorded downtime hours'',
       ki_denominator = ''Total gross operating hours'',
       ki_unit = ''%'', ki_aggregation_method = ''RATIO'',
       ki_eligible_population = ''Crane operations with downtime tracking'',
       ki_required_events = [],
       ki_required_fields = [''downtime_hours'', ''working_hours''],
       ki_exclusions = [],
       ki_target = 3, ki_target_direction = ''LOWER_IS_BETTER'', ki_thresholds = [(''green'', 3), (''amber'', 6), (''red'', 10)],
       ki_owner = ''Engineering'', ki_availability_status = ''COMPUTED'',
       ki_required_source_systems = [], ki_is_primary = True, ki_alias_of_code = None\<rparr>,
     \<lparr>ki_number = 30, ki_code = ''KPI-30'', ki_name = ''Crane Moves per Hour per Crane'',
       ki_category = ''Cargo handling'',
       ki_description = (''Total container moves divided by summed productive crane-hours (spec '' @ [CHR 0xC2, CHR 0xA7] @ ''11).''),
       ki_formula = ''SUM(actual_quantity) / SUM(working_hours * resources_deployed)'',
       ki_numerator = ''Total container moves'',
       ki_denominator = ''Summed individual crane hours across deployed cranes'',
       ki_unit = ''moves/crane-hr'', ki_aggregation_method = ''RATIO'',
       ki_eligible_population = ''Container calls with crane logs'',
       ki_required_events = [],
       ki_required_fields = [''actual_quantity'', ''working_hours'', ''resources_deployed''],
       ki_exclusions = [''Bulk and passenger operations''],
       ki_target = 25, ki_target_direction = ''HIGHER_IS_BETTER'', ki_thresholds = [(''green'', 25), (''amber'', 20), (''red'', 15)],
       ki_owner = ''Terminal Operations'', ki_availability_status = ''COMPUTED'',
       ki_required_source_systems = [], ki_is_primary = True, ki_alias_of_code = None\<rparr>]"

definition kpi_items_31_36 :: "kpi_item list" where
  "kpi_items_31_36 =
    [\<lparr>ki_number = 31, ki_code = ''KPI-31'', ki_name = ''Import Container Dwell Time'',
       ki_category = ''Yard operations'',
       ki_description = ''Average elapsed time from container vessel discharge to gate exit.'',
       ki_formula = ''AVG(GATE_OUT - CONTAINER_DISCHARGE)'',
       ki_numerator = ''Sum of import dwell hours'',
       ki_denominator = ''Exited import containers'',
       ki_unit = ''days'', ki_aggregation_method = ''AVG'',
       ki_eligible_population = ''Import containers'',
       ki_required_events = [''CONTAINER_DISCHARGE'', ''GATE_OUT''],
       ki_required_fields = [''container_id''],
       ki_exclusions = [''Transshipment containers''],
       ki_target = 7 / 2, ki_target_direction = ''LOWER_IS_BETTER'', ki_thresholds = [(''green'', 7 / 2), (''amber'', 5), (''red'', 7)],
       ki_owner = ''Yard Operations'', ki_availability_status = ''NO_SOURCE_DATA'',
       ki_required_source_systems = [''YARD_TOS'', ''GATE_OCR''], ki_is_primary = True, ki_alias_of_code = None\<rparr>,
     \<lparr>ki_number = 32, ki_code = ''KPI-32'', ki_name = ''Export Container Dwell Time'',
       ki_category = ''Yard operations'',
       ki_description = ''Average elapsed time from container gate-in to vessel loading.'',
       ki_formula = ''AVG(CONTAINER_LOAD - GATE_IN)'',
       ki_numerator = ''Sum of export dwell hours'',
       ki_denominator = ''Loaded export containers'',
       ki_unit = ''days'', ki_aggregation_method = ''AVG'',
       ki_eligible_population = ''Export containers'',
       ki_required_events = [''GATE_IN'', ''CONTAINER_LOAD''],
       ki_required_fields = [''container_id''],
       ki_exclusions = [],
       ki_target = 5 / 2, ki_target_direction = ''LOWER_IS_BETTER'', ki_thresholds = [(''green'', 5 / 2), (''amber'', 4), (''red'', 6)],
       ki_owner = ''Yard Operations'', ki_availability_status = ''NO_SOURCE_DATA'',
       ki_required_source_systems = [''YARD_TOS'', ''GATE_OCR''], ki_is_primary = True, ki_alias_of_code = None\<rparr>,
     \<lparr>ki_number = 33, ki_code = ''KPI-33'', ki_name = ''Yard Utilisation Rate'',
       ki_category = ''Yard operations'',
       ki_description = ''Occupied yard ground slots divided by total available capacity * 100.'',
       ki_formula = ''(occupied_teu_slots / total_teu_slots) * 100'',
       ki_numerator = ''Occupied yard slots'',
       ki_denominator = ''Total operational yard slots'',
       ki_unit = ''%'', ki_aggregation_method = ''RATIO'',
       ki_eligible_population = ''Active container yard blocks'',
       ki_required_events = [],
       ki_required_fields = [''occupied_slots'', ''total_slots''],
       ki_exclusions = [''Blocks undergoing pavement maintenance''],
       ki_target = 70, ki_target_direction = ''BAND'', ki_thresholds = [(''green'', 75), (''amber'', 85), (''red'', 92)],
       ki_owner = ''Yard Operations'', ki_availability_status = ''NO_SOURCE_DATA'',
       ki_required_source_systems = [''YARD_TOS''], ki_is_primary = True, ki_alias_of_code = None\<rparr>,
     \<lparr>ki_number = 34, ki_code = ''KPI-34'', ki_name = ''Container Re-handling Rate'',
       ki_category = ''Yard operations'',
       ki_description = ''Non-productive container re-handles divided by total handled containers * 100.'',
       ki_formula = ''(rehandled_moves / total_moves) * 100'',
       ki_numerator = ''Productive and unproductive re-handles'',
       ki_denominator = ''Total gross yard moves'',
       ki_unit = ''%'', ki_aggregation_method = ''RATIO'',
       ki_eligible_population = ''Container yard stacks'',
       ki_required_events = [],
       ki_required_fields = [''rehandle_moves'', ''gross_moves''],
       ki_exclusions = [],
       ki_target = 12, ki_target_direction = ''LOWER_IS_BETTER'', ki_thresholds = [(''green'', 12), (''amber'', 18), (''red'', 25)],
       ki_owner = ''Yard Operations'', ki_availability_status = ''NO_SOURCE_DATA'',
       ki_required_source_systems = [''YARD_TOS_EQUIPMENT''], ki_is_primary = True, ki_alias_of_code = None\<rparr>,
     \<lparr>ki_number = 35, ki_code = ''KPI-35'', ki_name = ''Yard Productivity'',
       ki_category = ''Yard operations'',
       ki_description = ''Total container yard moves divided by RTG/RMG crane-hours.'',
       ki_formula = ''yard_moves / yard_crane_hours'',
       ki_numerator = ''Total container moves in yard'',
       ki_denominator = ''Yard crane working hours'',
       ki_unit = ''moves/crane-hr'', ki_aggregation_method = ''RATIO'',
       ki_eligible_population = ''Yard crane operations'',
       ki_required_events = [],
       ki_required_fields = [''yard_moves'', ''crane_hours''],
       ki_exclusions = [],
       ki_target = 18, ki_target_direction = ''HIGHER_IS_BETTER'', ki_thresholds = [(''green'', 18), (''amber'', 14), (''red'', 10)],
       ki_owner = ''Yard Operations'', ki_availability_status = ''NO_SOURCE_DATA'',
       ki_required_source_systems = [''YARD_TOS_EQUIPMENT''], ki_is_primary = True, ki_alias_of_code = None\<rparr>,
     \<lparr>ki_number = 36, ki_code = ''KPI-36'', ki_name = ''Truck Gate Turnaround'',
       ki_category = ''Gate and landside'',
       ki_description = ''Elapsed duration from terminal gate-in to gate-out for external road trucks.'',
       ki_formula = ''AVG(GATE_OUT - GATE_IN)'',
       ki_numerator = ''Total truck time on terminal'',
       ki_denominator = ''Total processed external trucks'',
       ki_unit = ''minutes'', ki_aggregation_method = ''AVG'',
       ki_eligible_population = ''External road trucks'',
       ki_required_events = [''GATE_IN'', ''GATE_OUT''],
       ki_required_fields = [''truck_id''],
       ki_exclusions = [''Trucks detained for customs physical inspection''],
       ki_target = 45, ki_target_direction = ''LOWER_IS_BETTER'', ki_thresholds = [(''green'', 45), (''amber'', 60), (''red'', 90)],
       ki_owner = ''Landside Logistics'', ki_availability_status = ''NO_SOURCE_DATA'',
       ki_required_source_systems = [''GATE_OCR'', ''APPOINTMENT_SYSTEM''], ki_is_primary = True, ki_alias_of_code = None\<rparr>]"

definition kpi_items_37_42 :: "kpi_item list" where
  "kpi_items_37_42 =
    [\<lparr>ki_number = 37, ki_code = ''KPI-37'', ki_name = ''Gate Transactions per Hour'',
       ki_category = ''Gate and landside'',
       ki_description = ''Total gate transactions completed per lane-hour.'',
       ki_formula = ''gate_transactions / active_lane_hours'',
       ki_numerator = ''Total completed gate transactions'',
       ki_denominator = ''Active operational lane-hours'',
       ki_unit = ''trucks/lane-hr'', ki_aggregation_method = ''RATIO'',
       ki_eligible_population = ''Terminal gate lanes'',
       ki_required_events = [],
       ki_required_fields = [''transactions'', ''lane_hours''],
       ki_exclusions = [''Closed gate lanes''],
       ki_target = 30, ki_target_direction = ''HIGHER_IS_BETTER'', ki_thresholds = [(''green'', 30), (''amber'', 22), (''red'', 15)],
       ki_owner = ''Landside Logistics'', ki_availability_status = ''NO_SOURCE_DATA'',
       ki_required_source_systems = [''GATE_OCR''], ki_is_primary = True, ki_alias_of_code = None\<rparr>,
     \<lparr>ki_number = 38, ki_code = ''KPI-38'', ki_name = ''Truck Waiting at Entry'',
       ki_category = ''Gate and landside'',
       ki_description = ''Queuing duration outside terminal from gate arrival to gate-in barrier entry.'',
       ki_formula = ''AVG(GATE_IN - GATE_ARRIVAL)'',
       ki_numerator = ''Sum of road queue duration'',
       ki_denominator = ''Arriving trucks'',
       ki_unit = ''minutes'', ki_aggregation_method = ''AVG'',
       ki_eligible_population = ''Arriving container hauliers'',
       ki_required_events = [''GATE_ARRIVAL'', ''GATE_IN''],
       ki_required_fields = [''truck_id''],
       ki_exclusions = [''Trucks arriving outside appointment window''],
       ki_target = 15, ki_target_direction = ''LOWER_IS_BETTER'', ki_thresholds = [(''green'', 15), (''amber'', 30), (''red'', 60)],
       ki_owner = ''Landside Logistics'', ki_availability_status = ''NO_SOURCE_DATA'',
       ki_required_source_systems = [''GATE_OCR'', ''ROAD_QUEUE_SENSORS''], ki_is_primary = True, ki_alias_of_code = None\<rparr>,
     \<lparr>ki_number = 39, ki_code = ''KPI-39'', ki_name = ''Rail Dwell Time'',
       ki_category = ''Gate and landside'',
       ki_description = ''Average dwell time of intermodal rail wagons on terminal sidings from arrival to dispatch.'',
       ki_formula = ''AVG(RAIL_DISPATCH - RAIL_ARRIVAL)'',
       ki_numerator = ''Total rail wagon dwell hours'',
       ki_denominator = ''Dispatched rail wagons'',
       ki_unit = ''hours'', ki_aggregation_method = ''AVG'',
       ki_eligible_population = ''Intermodal rail wagons'',
       ki_required_events = [''RAIL_ARRIVAL'', ''RAIL_DISPATCH''],
       ki_required_fields = [''train_id''],
       ki_exclusions = [''Damaged wagons held for mechanical repair''],
       ki_target = 12, ki_target_direction = ''LOWER_IS_BETTER'', ki_thresholds = [(''green'', 12), (''amber'', 18), (''red'', 24)],
       ki_owner = ''Intermodal Operations'', ki_availability_status = ''NO_SOURCE_DATA'',
       ki_required_source_systems = [''RAIL_OPERATOR_TOS''], ki_is_primary = True, ki_alias_of_code = None\<rparr>,
     \<lparr>ki_number = 40, ki_code = ''KPI-40'', ki_name = ''Rail Rake Handling Time'',
       ki_category = ''Gate and landside'',
       ki_description = ''Elapsed time to load and discharge a complete train rake.'',
       ki_formula = ''AVG(RAIL_OPS_END - RAIL_OPS_START)'',
       ki_numerator = ''Elapsed rake working hours'',
       ki_denominator = ''Worked rail rakes'',
       ki_unit = ''hours'', ki_aggregation_method = ''AVG'',
       ki_eligible_population = ''Container rail rakes'',
       ki_required_events = [''RAIL_OPS_START'', ''RAIL_OPS_END''],
       ki_required_fields = [''train_id''],
       ki_exclusions = [],
       ki_target = 4, ki_target_direction = ''LOWER_IS_BETTER'', ki_thresholds = [(''green'', 4), (''amber'', 6), (''red'', 10)],
       ki_owner = ''Intermodal Operations'', ki_availability_status = ''NO_SOURCE_DATA'',
       ki_required_source_systems = [''RAIL_OPERATOR_TOS''], ki_is_primary = True, ki_alias_of_code = None\<rparr>,
     \<lparr>ki_number = 41, ki_code = ''KPI-41'', ki_name = ''Turnaround Time'',
       ki_category = ''Departure and turnaround'',
       ki_description = (''Average total turnaround duration from Anchorage Arrival (or ATA if no anchorage) to Departure (ATD), distinct from the pure ATA-to-ATD turnaround (spec '' @ [CHR 0xC2, CHR 0xA7] @ ''11).''),
       ki_formula = ''AVG(ATD - ANCHORAGE_ARRIVAL)'',
       ki_numerator = ''Sum of total port turnaround hours'',
       ki_denominator = ''Count of departed vessel calls'',
       ki_unit = ''hours'', ki_aggregation_method = ''AVG'',
       ki_eligible_population = ''Completed vessel calls'',
       ki_required_events = [''ANCHORAGE_ARRIVAL'', ''ATD''],
       ki_required_fields = [''utc_value''],
       ki_exclusions = [''Quarantined calls'', ''Documented litigation/engine repair holds''],
       ki_target = 36, ki_target_direction = ''LOWER_IS_BETTER'', ki_thresholds = [(''green'', 36), (''amber'', 60), (''red'', 120)],
       ki_owner = ''Harbour Master'', ki_availability_status = ''COMPUTED'',
       ki_required_source_systems = [], ki_is_primary = True, ki_alias_of_code = None\<rparr>,
     \<lparr>ki_number = 42, ki_code = ''KPI-42'', ki_name = ''Berth Turnaround'',
       ki_category = ''Departure and turnaround'',
       ki_description = ''Average interval between All Fast and Last Line Untied (berth departure).'',
       ki_formula = ''AVG(LAST_LINE_UNTIED_SAILING - ALL_FAST_ARRIVAL)'',
       ki_numerator = ''Sum of alongside durations'',
       ki_denominator = ''Completed berthed calls'',
       ki_unit = ''hours'', ki_aggregation_method = ''AVG'',
       ki_eligible_population = ''Completed berthed calls'',
       ki_required_events = [''ALL_FAST_ARRIVAL'', ''LAST_LINE_UNTIED_SAILING''],
       ki_required_fields = [''utc_value''],
       ki_exclusions = [''Quarantined calls''],
       ki_target = 24, ki_target_direction = ''LOWER_IS_BETTER'', ki_thresholds = [(''green'', 24), (''amber'', 48), (''red'', 72)],
       ki_owner = ''Terminal Operations'', ki_availability_status = ''COMPUTED'',
       ki_required_source_systems = [], ki_is_primary = True, ki_alias_of_code = None\<rparr>]"

definition kpi_items_43_48 :: "kpi_item list" where
  "kpi_items_43_48 =
    [\<lparr>ki_number = 43, ki_code = ''KPI-43'', ki_name = ''Average Outward Movement'',
       ki_category = ''Departure and turnaround'',
       ki_description = ''Average duration from departure unberthing / pilot boarding to clearing Port Limit Out (or breakwater out).'',
       ki_formula = ''AVG(BREAKWATER_OUT - PILOT_ON_BOARD_SAILING)'',
       ki_numerator = ''Sum of outward transit durations'',
       ki_denominator = ''Departed calls'',
       ki_unit = ''hours'', ki_aggregation_method = ''AVG'',
       ki_eligible_population = ''Departed calls with sailing pilotage'',
       ki_required_events = [''PILOT_ON_BOARD_SAILING'', ''BREAKWATER_OUT''],
       ki_required_fields = [''utc_value''],
       ki_exclusions = [''Quarantined calls''],
       ki_target = 5 / 4, ki_target_direction = ''LOWER_IS_BETTER'', ki_thresholds = [(''green'', fl (6 / 5)), (''amber'', 2), (''red'', 3)],
       ki_owner = ''Marine Pilotage'', ki_availability_status = ''COMPUTED'',
       ki_required_source_systems = [], ki_is_primary = True, ki_alias_of_code = None\<rparr>,
     \<lparr>ki_number = 44, ki_code = ''KPI-44'', ki_name = ''Average Outward Towage Duration'',
       ki_category = ''Departure and turnaround'',
       ki_description = ''Average duration of towage operations executed during departure unberthing.'',
       ki_formula = ''AVG(unberthing_towage_duration)'',
       ki_numerator = ''Total sailing tug service hours'',
       ki_denominator = ''Sailing towage operations'',
       ki_unit = ''hours'', ki_aggregation_method = ''AVG'',
       ki_eligible_population = ''Vessels requiring sailing towage'',
       ki_required_events = [''FIRST_LINE_UNTIED_SAILING'', ''BREAKWATER_OUT''],
       ki_required_fields = [''service_type''],
       ki_exclusions = [''Unassisted unberthing calls''],
       ki_target = fl (4 / 5), ki_target_direction = ''LOWER_IS_BETTER'', ki_thresholds = [(''green'', fl (4 / 5)), (''amber'', 3 / 2), (''red'', 5 / 2)],
       ki_owner = ''Towage Operations'', ki_availability_status = ''NO_SOURCE_DATA'',
       ki_required_source_systems = [''TUG_SERVICE_START_AND_RELEASE_LOG''], ki_is_primary = True, ki_alias_of_code = None\<rparr>,
     \<lparr>ki_number = 45, ki_code = ''KPI-45'', ki_name = ''Outward Movements per Day'',
       ki_category = ''Departure and turnaround'',
       ki_description = ''Average number of outward vessel departures handled per calendar day.'',
       ki_formula = ''COUNT(departures) / number_of_days'',
       ki_numerator = ''Total vessel departures in period'',
       ki_denominator = ''Calendar days in period'',
       ki_unit = ''departures/day'', ki_aggregation_method = ''RATIO'',
       ki_eligible_population = ''Completed vessel calls'',
       ki_required_events = [''ATD''],
       ki_required_fields = [''utc_value''],
       ki_exclusions = [],
       ki_target = 4, ki_target_direction = ''HIGHER_IS_BETTER'', ki_thresholds = [(''green'', 4), (''amber'', 3), (''red'', 2)],
       ki_owner = ''Harbour Master'', ki_availability_status = ''COMPUTED'',
       ki_required_source_systems = [], ki_is_primary = True, ki_alias_of_code = None\<rparr>,
     \<lparr>ki_number = 46, ki_code = ''KPI-46'', ki_name = ''Crane Availability Ratio'',
       ki_category = ''Operational efficiency and coordination'',
       ki_description = ''Total available operational crane-hours divided by planned crane-hours * 100.'',
       ki_formula = ''(available_crane_hours / planned_crane_hours) * 100'',
       ki_numerator = ''Available crane hours'',
       ki_denominator = ''Planned operating crane hours'',
       ki_unit = ''%'', ki_aggregation_method = ''RATIO'',
       ki_eligible_population = ''Ship-to-shore gantry cranes'',
       ki_required_events = [],
       ki_required_fields = [],
       ki_exclusions = [],
       ki_target = 95, ki_target_direction = ''HIGHER_IS_BETTER'', ki_thresholds = [(''green'', 95), (''amber'', 90), (''red'', 80)],
       ki_owner = ''Engineering'', ki_availability_status = ''NO_SOURCE_DATA'',
       ki_required_source_systems = [''TOS_ENGINEERING_SCADA''], ki_is_primary = True, ki_alias_of_code = None\<rparr>,
     \<lparr>ki_number = 47, ki_code = ''KPI-47'', ki_name = ''Average Moves per Gang Shift'',
       ki_category = ''Operational efficiency and coordination'',
       ki_description = ''Container moves achieved per stevedore gang shift.'',
       ki_formula = ''total_moves / stevedore_gang_shifts'',
       ki_numerator = ''Total container moves'',
       ki_denominator = ''Gang shifts deployed'',
       ki_unit = ''moves/gang-shift'', ki_aggregation_method = ''RATIO'',
       ki_eligible_population = ''Stevedoring operations'',
       ki_required_events = [],
       ki_required_fields = [],
       ki_exclusions = [],
       ki_target = 180, ki_target_direction = ''HIGHER_IS_BETTER'', ki_thresholds = [(''green'', 180), (''amber'', 140), (''red'', 100)],
       ki_owner = ''Stevedoring Operations'', ki_availability_status = ''NO_SOURCE_DATA'',
       ki_required_source_systems = [''LABOUR_MANAGEMENT_SYSTEM''], ki_is_primary = True, ki_alias_of_code = None\<rparr>,
     \<lparr>ki_number = 48, ki_code = ''KPI-48'', ki_name = ''Unproductive Moves Ratio'',
       ki_category = ''Operational efficiency and coordination'',
       ki_description = ''Unproductive hatch cover and gear moves divided by total crane moves * 100.'',
       ki_formula = ''(unproductive_moves / total_moves) * 100'',
       ki_numerator = ''Unproductive equipment cycles'',
       ki_denominator = ''Total equipment cycles'',
       ki_unit = ''%'', ki_aggregation_method = ''RATIO'',
       ki_eligible_population = ''Crane moves'',
       ki_required_events = [],
       ki_required_fields = [],
       ki_exclusions = [],
       ki_target = 5, ki_target_direction = ''LOWER_IS_BETTER'', ki_thresholds = [(''green'', 5), (''amber'', 8), (''red'', 12)],
       ki_owner = ''Terminal Operations'', ki_availability_status = ''NO_SOURCE_DATA'',
       ki_required_source_systems = [''TOS_CRANE_LOG''], ki_is_primary = True, ki_alias_of_code = None\<rparr>]"

definition kpi_items_49_54 :: "kpi_item list" where
  "kpi_items_49_54 =
    [\<lparr>ki_number = 49, ki_code = ''KPI-49'', ki_name = ''Pilot Utilisation'',
       ki_category = ''Resource utilisation'',
       ki_description = ''Pilot on-duty service hours divided by available scheduled pilot hours * 100.'',
       ki_formula = ''(pilot_service_hours / available_scheduled_pilot_hours) * 100'',
       ki_numerator = ''Actual pilotage service hours performed'',
       ki_denominator = ''Total scheduled pilot rostered hours'',
       ki_unit = ''%'', ki_aggregation_method = ''RATIO'',
       ki_eligible_population = ''Marine pilots on duty'',
       ki_required_events = [],
       ki_required_fields = [''service_type'', ''served_time''],
       ki_exclusions = [],
       ki_target = 75, ki_target_direction = ''BAND'', ki_thresholds = [(''green'', 75), (''amber'', 85), (''red'', 92)],
       ki_owner = ''Marine Pilotage'', ki_availability_status = ''NO_SOURCE_DATA'',
       ki_required_source_systems = [''PILOT_ROSTER_OR_AVAILABILITY''], ki_is_primary = True, ki_alias_of_code = None\<rparr>,
     \<lparr>ki_number = 50, ki_code = ''KPI-50'', ki_name = ''Tug Utilisation'',
       ki_category = ''Resource utilisation'',
       ki_description = ''Tug operational service hours divided by available tug operational hours * 100.'',
       ki_formula = ''(tug_service_hours / available_tug_operational_hours) * 100'',
       ki_numerator = ''Actual towage service hours performed'',
       ki_denominator = ''Total available tug fleet operational hours'',
       ki_unit = ''%'', ki_aggregation_method = ''RATIO'',
       ki_eligible_population = ''Tug fleet in service'',
       ki_required_events = [],
       ki_required_fields = [''service_type'', ''served_time''],
       ki_exclusions = [''Tugs under scheduled maintenance''],
       ki_target = 65, ki_target_direction = ''BAND'', ki_thresholds = [(''green'', 65), (''amber'', 75), (''red'', 88)],
       ki_owner = ''Towage Operations'', ki_availability_status = ''NO_SOURCE_DATA'',
       ki_required_source_systems = [''TUG_FLEET_AVAILABILITY''], ki_is_primary = True, ki_alias_of_code = None\<rparr>,
     \<lparr>ki_number = 51, ki_code = ''KPI-51'', ki_name = ''Berth Occupancy'',
       ki_category = ''Resource utilisation'',
       ki_description = (''Vessel berth time divided by available berth time * 100. (Duplicate concept of KPI-14; registered as ALIAS of KPI-14 to prevent double-counting per spec '' @ [CHR 0xC2, CHR 0xA7] @ ''11).''),
       ki_formula = ''ALIAS(KPI-14)'',
       ki_numerator = ''Alias of KPI-14'',
       ki_denominator = ''Alias of KPI-14'',
       ki_unit = ''%'', ki_aggregation_method = ''RATIO'',
       ki_eligible_population = ''Alias of KPI-14'',
       ki_required_events = [''ALL_FAST_ARRIVAL'', ''LAST_LINE_UNTIED_SAILING''],
       ki_required_fields = [''utc_value''],
       ki_exclusions = [],
       ki_target = 65, ki_target_direction = ''BAND'', ki_thresholds = [(''green'', 70), (''amber'', 80), (''red'', 90)],
       ki_owner = ''Terminal Operations'', ki_availability_status = ''NO_SOURCE_DATA'',
       ki_required_source_systems = [''BERTH_INVENTORY_AND_AVAILABILITY''], ki_is_primary = False, ki_alias_of_code = Some ''KPI-14''\<rparr>,
     \<lparr>ki_number = 52, ki_code = ''KPI-52'', ki_name = ''Crane Utilisation'',
       ki_category = ''Resource utilisation'',
       ki_description = ''Productive crane working hours divided by available crane hours * 100.'',
       ki_formula = ''(working_crane_hours / available_crane_hours) * 100'',
       ki_numerator = ''Productive crane working hours'',
       ki_denominator = ''Total available operational crane hours'',
       ki_unit = ''%'', ki_aggregation_method = ''RATIO'',
       ki_eligible_population = ''Quayside gantry cranes'',
       ki_required_events = [],
       ki_required_fields = [],
       ki_exclusions = [],
       ki_target = 70, ki_target_direction = ''BAND'', ki_thresholds = [(''green'', 70), (''amber'', 80), (''red'', 90)],
       ki_owner = ''Terminal Operations'', ki_availability_status = ''NO_SOURCE_DATA'',
       ki_required_source_systems = [''TOS_CRANE_LOG''], ki_is_primary = True, ki_alias_of_code = None\<rparr>,
     \<lparr>ki_number = 53, ki_code = ''KPI-53'', ki_name = ''Average Tug Response'',
       ki_category = ''Resource utilisation'',
       ki_description = (''Average Tug Arrival minus Request duration. (Duplicate concept of KPI-11; registered as ALIAS of KPI-11 to prevent double-counting per spec '' @ [CHR 0xC2, CHR 0xA7] @ ''11).''),
       ki_formula = ''ALIAS(KPI-11)'',
       ki_numerator = ''Alias of KPI-11'',
       ki_denominator = ''Alias of KPI-11'',
       ki_unit = ''hours'', ki_aggregation_method = ''AVG'',
       ki_eligible_population = ''Alias of KPI-11'',
       ki_required_events = [],
       ki_required_fields = [''requested_time'', ''served_time''],
       ki_exclusions = [],
       ki_target = 3 / 4, ki_target_direction = ''LOWER_IS_BETTER'', ki_thresholds = [(''green'', fl (4 / 5)), (''amber'', 3 / 2), (''red'', 5 / 2)],
       ki_owner = ''Towage Operations'', ki_availability_status = ''NO_SOURCE_DATA'',
       ki_required_source_systems = [''TUG_POSITION_OR_ARRIVAL_LOG''], ki_is_primary = False, ki_alias_of_code = Some ''KPI-11''\<rparr>,
     \<lparr>ki_number = 54, ki_code = ''KPI-54'', ki_name = ''Average Pilot Response'',
       ki_category = ''Resource utilisation'',
       ki_description = ''Average duration between Pilot Request and Pilot On Board.'',
       ki_formula = ''AVG(PILOT_ON_BOARD_ARRIVAL - PILOT_REQUEST_ARRIVAL)'',
       ki_numerator = ''Sum of pilot request-to-boarding intervals'',
       ki_denominator = ''Served pilotage requests'',
       ki_unit = ''hours'', ki_aggregation_method = ''AVG'',
       ki_eligible_population = ''Pilotage service requests'',
       ki_required_events = [''PILOT_REQUEST_ARRIVAL'', ''PILOT_ON_BOARD_ARRIVAL''],
       ki_required_fields = [''utc_value''],
       ki_exclusions = [''Cancelled requests''],
       ki_target = 3 / 2, ki_target_direction = ''LOWER_IS_BETTER'', ki_thresholds = [(''green'', 3 / 2), (''amber'', 5 / 2), (''red'', 4)],
       ki_owner = ''Marine Pilotage'', ki_availability_status = ''COMPUTED'',
       ki_required_source_systems = [], ki_is_primary = True, ki_alias_of_code = None\<rparr>]"

definition kpi_items_55_55 :: "kpi_item list" where
  "kpi_items_55_55 =
    [\<lparr>ki_number = 55, ki_code = ''KPI-55'', ki_name = ''Average Crane Downtime'',
       ki_category = ''Resource utilisation'',
       ki_description = ''Total equipment downtime divided by incident count, with optional vessel-level total downtime / worked vessel calls.'',
       ki_formula = ''SUM(downtime_hours) / COUNT(incidents)'',
       ki_numerator = ''Total downtime hours'',
       ki_denominator = ''Count of recorded equipment breakdown incidents'',
       ki_unit = ''hours/incident'', ki_aggregation_method = ''AVG'',
       ki_eligible_population = ''Recorded crane incidents'',
       ki_required_events = [],
       ki_required_fields = [],
       ki_exclusions = [],
       ki_target = 1, ki_target_direction = ''LOWER_IS_BETTER'', ki_thresholds = [(''green'', 1), (''amber'', 2), (''red'', 4)],
       ki_owner = ''Engineering'', ki_availability_status = ''NO_SOURCE_DATA'',
       ki_required_source_systems = [''CMMS_MAINTENANCE_LOG''], ki_is_primary = True, ki_alias_of_code = None\<rparr>]"

definition kpi_registry_definitions :: "kpi_item list" where
  "kpi_registry_definitions = kpi_items_01_06 @ kpi_items_07_12 @ kpi_items_13_18 @ kpi_items_19_24 @ kpi_items_25_30 @ kpi_items_31_36 @ kpi_items_37_42 @ kpi_items_43_48 @ kpi_items_49_54 @ kpi_items_55_55"

section \<open>The table of the registry\<close>

definition item_facts :: "kpi_item \<Rightarrow> string \<times> string \<times> string \<times> bool \<times> string option" where
  "item_facts c = (ki_code c, ki_name c, ki_availability_status c, ki_is_primary c, ki_alias_of_code c)"

lemma facts_01_06: "map item_facts kpi_items_01_06 =
  [(''KPI-01'', ''Number of Vessel Calls'', ''COMPUTED'', True, None),
   (''KPI-02'', ''Average Vessel Call Size'', ''COMPUTED'', True, None),
   (''KPI-03'', ''Average Pre-Berthing Waiting Time'', ''COMPUTED'', True, None),
   (''KPI-04'', ''Pre-Berthing Delay'', ''COMPUTED'', True, None),
   (''KPI-05'', ''Anchorage Time Variation Index'', ''COMPUTED'', True, None),
   (''KPI-06'', ''VTS Clearance Time'', ''NO_SOURCE_DATA'', True, None)]"
  by (simp add: kpi_items_01_06_def item_facts_def)

lemma facts_07_12: "map item_facts kpi_items_07_12 =
  [(''KPI-07'', ''Average Inward Movement Time'', ''COMPUTED'', True, None),
   (''KPI-08'', ''Average Inward Towage Duration'', ''NO_SOURCE_DATA'', True, None),
   (''KPI-09'', ''Tug Availability'', ''NO_SOURCE_DATA'', True, None),
   (''KPI-10'', ''Pilot Availability'', ''NO_SOURCE_DATA'', True, None),
   (''KPI-11'', ''Tug Response Time'', ''NO_SOURCE_DATA'', True, None),
   (''KPI-12'', ''Pilot Boarding Time'', ''COMPUTED'', True, None)]"
  by (simp add: kpi_items_07_12_def item_facts_def)

lemma facts_13_18: "map item_facts kpi_items_13_18 =
  [(''KPI-13'', ''Pilot-to-Berth Time'', ''COMPUTED'', True, None),
   (''KPI-14'', ''Berth Occupancy Rate'', ''NO_SOURCE_DATA'', True, None),
   (''KPI-15'', ''Average Berthing Time'', ''COMPUTED'', True, None),
   (''KPI-16'', ''Berthing Time Variation Index'', ''COMPUTED'', True, None),
   (''KPI-17'', ''Average Non-Working Time at Berth'', ''COMPUTED'', True, None),
   (''KPI-18'', ''Idle Time at Berth'', ''COMPUTED'', True, None)]"
  by (simp add: kpi_items_13_18_def item_facts_def)

lemma facts_19_24: "map item_facts kpi_items_19_24 =
  [(''KPI-19'', ''Number of Vessel Shifts'', ''COMPUTED'', True, None),
   (''KPI-20'', ''Shifting Time'', ''COMPUTED'', True, None),
   (''KPI-21'', ''Berth Productivity'', ''COMPUTED'', True, None),
   (''KPI-22'', ''Berth Utilisation Ratio'', ''NO_SOURCE_DATA'', True, None),
   (''KPI-23'', ''Cargo Handled in MT'', ''COMPUTED'', True, None),
   (''KPI-24'', ''Container Traffic in TEUs'', ''COMPUTED'', True, None)]"
  by (simp add: kpi_items_19_24_def item_facts_def)

lemma facts_25_30: "map item_facts kpi_items_25_30 =
  [(''KPI-25'', ''Voyage Productivity'', ''COMPUTED'', True, None),
   (''KPI-26'', ''First Container Lift Time'', ''NO_SOURCE_DATA'', True, None),
   (''KPI-27'', ''Average Ship Berth-Day Output'', ''COMPUTED'', True, None),
   (''KPI-28'', ''Number of Cranes per Vessel'', ''COMPUTED'', True, None),
   (''KPI-29'', ''Equipment Downtime'', ''COMPUTED'', True, None),
   (''KPI-30'', ''Crane Moves per Hour per Crane'', ''COMPUTED'', True, None)]"
  by (simp add: kpi_items_25_30_def item_facts_def)

lemma facts_31_36: "map item_facts kpi_items_31_36 =
  [(''KPI-31'', ''Import Container Dwell Time'', ''NO_SOURCE_DATA'', True, None),
   (''KPI-32'', ''Export Container Dwell Time'', ''NO_SOURCE_DATA'', True, None),
   (''KPI-33'', ''Yard Utilisation Rate'', ''NO_SOURCE_DATA'', True, None),
   (''KPI-34'', ''Container Re-handling Rate'', ''NO_SOURCE_DATA'', True, None),
   (''KPI-35'', ''Yard Productivity'', ''NO_SOURCE_DATA'', True, None),
   (''KPI-36'', ''Truck Gate Turnaround'', ''NO_SOURCE_DATA'', True, None)]"
  by (simp add: kpi_items_31_36_def item_facts_def)

lemma facts_37_42: "map item_facts kpi_items_37_42 =
  [(''KPI-37'', ''Gate Transactions per Hour'', ''NO_SOURCE_DATA'', True, None),
   (''KPI-38'', ''Truck Waiting at Entry'', ''NO_SOURCE_DATA'', True, None),
   (''KPI-39'', ''Rail Dwell Time'', ''NO_SOURCE_DATA'', True, None),
   (''KPI-40'', ''Rail Rake Handling Time'', ''NO_SOURCE_DATA'', True, None),
   (''KPI-41'', ''Turnaround Time'', ''COMPUTED'', True, None),
   (''KPI-42'', ''Berth Turnaround'', ''COMPUTED'', True, None)]"
  by (simp add: kpi_items_37_42_def item_facts_def)

lemma facts_43_48: "map item_facts kpi_items_43_48 =
  [(''KPI-43'', ''Average Outward Movement'', ''COMPUTED'', True, None),
   (''KPI-44'', ''Average Outward Towage Duration'', ''NO_SOURCE_DATA'', True, None),
   (''KPI-45'', ''Outward Movements per Day'', ''COMPUTED'', True, None),
   (''KPI-46'', ''Crane Availability Ratio'', ''NO_SOURCE_DATA'', True, None),
   (''KPI-47'', ''Average Moves per Gang Shift'', ''NO_SOURCE_DATA'', True, None),
   (''KPI-48'', ''Unproductive Moves Ratio'', ''NO_SOURCE_DATA'', True, None)]"
  by (simp add: kpi_items_43_48_def item_facts_def)

lemma facts_49_54: "map item_facts kpi_items_49_54 =
  [(''KPI-49'', ''Pilot Utilisation'', ''NO_SOURCE_DATA'', True, None),
   (''KPI-50'', ''Tug Utilisation'', ''NO_SOURCE_DATA'', True, None),
   (''KPI-51'', ''Berth Occupancy'', ''NO_SOURCE_DATA'', False, Some ''KPI-14''),
   (''KPI-52'', ''Crane Utilisation'', ''NO_SOURCE_DATA'', True, None),
   (''KPI-53'', ''Average Tug Response'', ''NO_SOURCE_DATA'', False, Some ''KPI-11''),
   (''KPI-54'', ''Average Pilot Response'', ''COMPUTED'', True, None)]"
  by (simp add: kpi_items_49_54_def item_facts_def)

lemma facts_55_55: "map item_facts kpi_items_55_55 =
  [(''KPI-55'', ''Average Crane Downtime'', ''NO_SOURCE_DATA'', True, None)]"
  by (simp add: kpi_items_55_55_def item_facts_def)

lemmas registry_facts = kpi_registry_definitions_def map_append facts_01_06 facts_07_12 facts_13_18 facts_19_24 facts_25_30 facts_31_36 facts_37_42 facts_43_48 facts_49_54 facts_55_55

lemma map_via_facts: "map ki_code xs = map fst (map item_facts xs)" "map ki_name xs = map (fst o snd) (map item_facts xs)" by (simp_all add: item_facts_def)
lemma registry_codes_distinct: "distinct (map ki_code kpi_registry_definitions)"
  unfolding map_via_facts registry_facts by simp
lemma registry_names_distinct: "distinct (map ki_name kpi_registry_definitions)"
  unfolding map_via_facts registry_facts by simp
lemma registry_length: "length kpi_registry_definitions = 55"
proof -
  have "length (map item_facts kpi_registry_definitions) = 55" unfolding registry_facts by simp
  then show ?thesis by simp
qed

section \<open>The tables\<close>

record kpi =
  kp_id :: uid
  kp_name :: string
  kp_description :: "string option"
  kp_kpi_number :: "nat option"
  kp_code :: "string option"
  kp_category :: "string option"
  kp_formula :: "string option"
  kp_numerator :: "string option"
  kp_denominator :: "string option"
  kp_unit :: "string option"
  kp_eligible_population :: "string option"
  kp_required_events :: "string list"
  kp_required_fields :: "string list"
  kp_exclusions :: "string list"
  kp_aggregation_method :: string
  kp_vessel_applicability :: string
  kp_target :: "rat option"
  kp_target_direction :: "string option"
  kp_thresholds :: "(string \<times> rat) list"
  kp_owner :: "string option"
  kp_effective_from :: "time option"
  kp_is_primary :: bool
  kp_alias_of_id :: "uid option"
  kp_availability_status :: string
  kp_required_source_systems :: "string list"
  kp_is_active :: bool
  kp_retired_at :: "time option"
  kp_retirement_reason :: "string option"

record kpi_formula_version =
  kf_id :: uid
  kf_kpi_id :: uid
  kf_version :: string
  kf_expression :: string

datatype kpi_status = KPI_COMPUTED | KPI_UNAVAILABLE | KPI_NO_SOURCE_DATA

datatype band = GREEN | AMBER | RED | GRAY

record kpi_result =
  kr_id :: uid
  kr_tenant_id :: string
  kr_kpi_id :: uid
  kr_value :: "rat option"
  kr_status :: kpi_status
  kr_period_start :: "time option"
  kr_period_end :: "time option"
  kr_grain :: string
  kr_cohort_key :: fstring
  kr_cohort_filters :: "(string \<times> string) list"
  kr_numerator_value :: "rat option"
  kr_denominator_value :: "rat option"
  kr_target_value :: "rat option"
  kr_band :: band
  kr_unavailable_reason :: "fstring option"
  kr_formula_version :: string
  kr_data_quality_summary :: "(string \<times> json) list"
  kr_calculated_at :: time
  kr_is_recalculation :: bool

record kpi_benchmark =
  kb_id :: uid
  kb_kpi_id :: uid
  kb_peer_port :: string
  kb_benchmark_value :: rat
  kb_source :: "string option"
  kb_period :: "string option"
  kb_notes :: "string option"
  kb_created_by :: string
  kb_created_at :: time

record kpi_db = ingest_db +
  kpis :: "kpi list"
  kpi_formula_versions :: "kpi_formula_version list"
  kpi_results :: "kpi_result list"
  kpi_benchmarks :: "kpi_benchmark list"

section \<open>The upsert\<close>

definition current_formula_version :: string where "current_formula_version = ''2.1''"

text \<open>\<open>datetime(2026, 1, 1, tzinfo=UTC)\<close>.\<close>

definition registry_effective_from :: time where "registry_effective_from = 1767225600 * 10 ^ 6"

definition kpi_columns :: "kpi_item \<Rightarrow> kpi \<Rightarrow> kpi" where
  "kpi_columns c k = k\<lparr>kp_name := ki_name c, kp_code := Some (ki_code c), kp_kpi_number := Some (ki_number c),
     kp_category := Some (ki_category c), kp_description := Some (ki_description c), kp_formula := Some (ki_formula c),
     kp_numerator := Some (ki_numerator c), kp_denominator := Some (ki_denominator c), kp_unit := Some (ki_unit c),
     kp_eligible_population := Some (ki_eligible_population c), kp_required_events := ki_required_events c,
     kp_required_fields := ki_required_fields c, kp_exclusions := ki_exclusions c, kp_aggregation_method := ki_aggregation_method c,
     kp_vessel_applicability := ''All'', kp_target := Some (ki_target c), kp_target_direction := Some (ki_target_direction c),
     kp_thresholds := ki_thresholds c, kp_owner := Some (ki_owner c), kp_is_primary := ki_is_primary c,
     kp_availability_status := ki_availability_status c, kp_required_source_systems := ki_required_source_systems c,
     kp_is_active := True, kp_retired_at := None, kp_retirement_reason := None\<rparr>"

definition blank_kpi :: "uid \<Rightarrow> kpi" where
  "blank_kpi i = \<lparr>kp_id = i, kp_name = '''', kp_description = None, kp_kpi_number = None, kp_code = None, kp_category = None,
     kp_formula = None, kp_numerator = None, kp_denominator = None, kp_unit = None, kp_eligible_population = None,
     kp_required_events = [], kp_required_fields = [], kp_exclusions = [], kp_aggregation_method = ''AVG'',
     kp_vessel_applicability = ''All'', kp_target = None, kp_target_direction = None, kp_thresholds = [], kp_owner = None,
     kp_effective_from = Some registry_effective_from, kp_is_primary = True, kp_alias_of_id = None, kp_availability_status = ''COMPUTED'',
     kp_required_source_systems = [], kp_is_active = True, kp_retired_at = None, kp_retirement_reason = None\<rparr>"

text \<open>\<open>existing_kpis.get(code) or existing_by_name.get(name)\<close> on the rows read at the start.\<close>

definition find_kpi :: "kpi list \<Rightarrow> kpi_item \<Rightarrow> uid option" where
  "find_kpi existing c =
     (case last_with (\<lambda>k. kp_code k = Some (ki_code c)) existing of
        Some k \<Rightarrow> Some (kp_id k)
      | None \<Rightarrow> map_option kp_id (last_with (\<lambda>k. kp_name k = ki_name c) existing))"

text \<open>The unique constraint on the name is checked when the row is flushed.\<close>

definition upsert_kpi :: "(nat \<Rightarrow> uid) \<Rightarrow> kpi list \<Rightarrow> kpi_item \<Rightarrow> 'a kpi_db_scheme \<Rightarrow> (uid \<times> 'a kpi_db_scheme) result" where
  "upsert_kpi uuid existing c s =
     (case find_kpi existing c of
        None \<Rightarrow> (let i = uuid (draws s)
          in if list_ex (\<lambda>k. kp_name k = ki_name c) (kpis s) then Inl IntegrityError
             else Inr (i, s\<lparr>kpis := kpis s @ [kpi_columns c (blank_kpi i)], draws := draws s + 1\<rparr>))
      | Some i \<Rightarrow>
          if list_ex (\<lambda>k. kp_name k = ki_name c \<and> kp_id k \<noteq> i) (kpis s) then Inl IntegrityError
          else Inr (i, s\<lparr>kpis := upd_by kp_id i (kpi_columns c) (kpis s)\<rparr>))"

definition ensure_formula_version :: "(nat \<Rightarrow> uid) \<Rightarrow> uid \<Rightarrow> kpi_item \<Rightarrow> 'a kpi_db_scheme \<Rightarrow> 'a kpi_db_scheme result" where
  "ensure_formula_version uuid i c s =
     and_then (one_or_none (filter (\<lambda>f. kf_kpi_id f = i \<and> kf_version f = current_formula_version) (kpi_formula_versions s))) (\<lambda>found.
       case found of
         Some _ \<Rightarrow> Inr s
       | None \<Rightarrow> Inr (s\<lparr>kpi_formula_versions := kpi_formula_versions s @
           [\<lparr>kf_id = uuid (draws s), kf_kpi_id = i, kf_version = current_formula_version, kf_expression = ki_formula c\<rparr>], draws := draws s + 1\<rparr>))"

fun upsert_kpis ::
    "(nat \<Rightarrow> uid) \<Rightarrow> kpi list \<Rightarrow> kpi_item list \<Rightarrow> 'a kpi_db_scheme \<Rightarrow> ((string \<times> uid) list \<times> 'a kpi_db_scheme) result" where
  "upsert_kpis uuid existing [] s = Inr ([], s)"
| "upsert_kpis uuid existing (c # cs) s =
     and_then (upsert_kpi uuid existing c s) (\<lambda>(i, s1).
     and_then (ensure_formula_version uuid i c s1) (\<lambda>s2.
     and_then (upsert_kpis uuid existing cs s2) (\<lambda>(m, s3). Inr ((ki_code c, i) # m, s3))))"

definition link_alias :: "(string \<times> uid) list \<Rightarrow> kpi_item \<Rightarrow> 'a kpi_db_scheme \<Rightarrow> 'a kpi_db_scheme" where
  "link_alias m c s =
     (case (Option.bind (ki_alias_of_code c) (map_of m), map_of m (ki_code c)) of
        (Some primary, Some i) \<Rightarrow> s\<lparr>kpis := upd_by kp_id i (\<lambda>k. k\<lparr>kp_alias_of_id := Some primary, kp_is_primary := False\<rparr>) (kpis s)\<rparr>
      | _ \<Rightarrow> s)"

text \<open>The map from codes to the rows, by identifier.\<close>

definition ensure_kpi_registry :: "(nat \<Rightarrow> uid) \<Rightarrow> 'a kpi_db_scheme \<Rightarrow> ((string \<times> uid) list \<times> 'a kpi_db_scheme) result" where
  "ensure_kpi_registry uuid s =
     and_then (upsert_kpis uuid (kpis s) kpi_registry_definitions s) (\<lambda>(m, s1).
       Inr (m, fold (link_alias m) kpi_registry_definitions s1))"

section \<open>Benchmarks (\<open>benchmarks.py\<close>)\<close>

text \<open>\<open>parse_uuid\<close> is the constructor \<open>UUID\<close> of the standard library: \<open>None\<close> for the \<open>ValueError\<close>.\<close>

definition find_kpi_row :: "(string \<Rightarrow> uid option) \<Rightarrow> string \<Rightarrow> 'a kpi_db_scheme \<Rightarrow> kpi result" where
  "find_kpi_row parse_uuid code_or_id s =
     and_then (case parse_uuid code_or_id of
         Some i \<Rightarrow> get_by kp_id i (kpis s)
       | None \<Rightarrow> get_by kp_code (Some code_or_id) (kpis s)) (\<lambda>found.
     case found of
       None \<Rightarrow> Inl (ValueError [Lit ''KPI '', Lit [CHR 0x27], Str code_or_id, Lit [CHR 0x27], Lit '' not found.''])
     | Some k \<Rightarrow> Inr k)"

record benchmark_report =
  br_kpi_id :: uid
  br_kpi_code :: "string option"
  br_kpi_name :: string
  br_has_benchmarks :: bool
  br_benchmarks :: "kpi_benchmark list"
  br_absent_notice :: "string option"

definition absent_notice :: string where
  "absent_notice = ''Peer-port benchmark data is absent for this metric. '' @
     ''Source and period fields are intentionally unpopulated; no values are fabricated.''"

definition get_benchmarks_for_kpi :: "(string \<Rightarrow> uid option) \<Rightarrow> string \<Rightarrow> 'a kpi_db_scheme \<Rightarrow> benchmark_report result" where
  "get_benchmarks_for_kpi parse_uuid code_or_id s =
     and_then (find_kpi_row parse_uuid code_or_id s) (\<lambda>k.
       let rows = filter (\<lambda>b. kb_kpi_id b = kp_id k) (kpi_benchmarks s)
       in Inr \<lparr>br_kpi_id = kp_id k, br_kpi_code = kp_code k, br_kpi_name = kp_name k, br_has_benchmarks = (rows \<noteq> []),
               br_benchmarks = rows, br_absent_notice = (if rows = [] then Some absent_notice else None)\<rparr>)"

definition list_all_benchmarks :: "'a kpi_db_scheme \<Rightarrow> (kpi_benchmark \<times> kpi) list" where
  "list_all_benchmarks s = sorted_by (\<lambda>(b, k). (kp_code k = None, or_empty (kp_code k)))
     (concat (map (\<lambda>b. map (\<lambda>k. (b, k)) (filter (\<lambda>k. kp_id k = kb_kpi_id b) (kpis s))) (kpi_benchmarks s)))"

definition create_benchmark ::
    "(nat \<Rightarrow> uid) \<Rightarrow> time \<Rightarrow> (string \<Rightarrow> uid option) \<Rightarrow> string \<Rightarrow> string \<Rightarrow> rat \<Rightarrow> string option \<Rightarrow> string option \<Rightarrow> string option \<Rightarrow> string \<Rightarrow>
     'a kpi_db_scheme \<Rightarrow> (kpi_benchmark \<times> 'a kpi_db_scheme) result" where
  "create_benchmark uuid now parse_uuid code_or_id peer v source period remarks actor s =
     and_then (find_kpi_row parse_uuid code_or_id s) (\<lambda>k.
       let b = \<lparr>kb_id = uuid (draws s), kb_kpi_id = kp_id k, kb_peer_port = peer, kb_benchmark_value = v, kb_source = source,
                kb_period = period, kb_notes = remarks, kb_created_by = actor, kb_created_at = now\<rparr>
       in Inr (b, s\<lparr>kpi_benchmarks := kpi_benchmarks s @ [b], draws := draws s + 1\<rparr>))"

section \<open>Synchronising the table\<close>

definition versions_of :: "uid \<Rightarrow> 'a kpi_db_scheme \<Rightarrow> kpi_formula_version list" where
  "versions_of i s = filter (\<lambda>f. kf_kpi_id f = i \<and> kf_version f = current_formula_version) (kpi_formula_versions s)"

text \<open>Keyed rows, fresh identifiers, registry names and registry codes that go together, one current version each.\<close>

definition registry_ok :: "(nat \<Rightarrow> uid) \<Rightarrow> 'a kpi_db_scheme \<Rightarrow> bool" where
  "registry_ok uuid s \<longleftrightarrow> inj uuid \<and> distinct (map kp_id (kpis s)) \<and> distinct (map kp_name (kpis s)) \<and>
     (\<forall>n \<ge> draws s. uuid n \<notin> kp_id ` set (kpis s)) \<and>
     (\<forall>k \<in> set (kpis s). \<forall>c \<in> set kpi_registry_definitions. kp_code k = Some (ki_code c) \<longleftrightarrow> kp_name k = ki_name c) \<and>
     (\<forall>i. length (versions_of i s) \<le> 1)"

text \<open>One item of the loop, looking the row up in the table itself.\<close>

definition sync_item :: "(nat \<Rightarrow> uid) \<Rightarrow> kpi_item \<Rightarrow> 'a kpi_db_scheme \<Rightarrow> 'a kpi_db_scheme result" where
  "sync_item uuid c s = (if c \<in> set kpi_registry_definitions
     then and_then (upsert_kpi uuid (kpis s) c s) (\<lambda>(i, s). ensure_formula_version uuid i c s) else Inr s)"

definition sync_target :: "kpi_item \<Rightarrow> string option" where
  "sync_target c = (if c \<in> set kpi_registry_definitions then Some (ki_name c) else None)"

definition name_ids :: "'a kpi_db_scheme \<Rightarrow> (string \<times> uid) list" where
  "name_ids s = map (\<lambda>k. (kp_name k, kp_id k)) (kpis s)"

lemma registry_same_item:
  assumes "c \<in> set kpi_registry_definitions" "c' \<in> set kpi_registry_definitions"
  shows "ki_code c = ki_code c' \<longleftrightarrow> c = c'" "ki_name c = ki_name c' \<longleftrightarrow> c = c'"
  using registry_codes_distinct registry_names_distinct assms by (auto simp: distinct_map inj_on_def)

lemma last_with_eq: "last_with p rows = (if filter p rows = [] then None else Some (last (filter p rows)))"
  by (cases "filter p rows" rule: rev_cases) (simp_all add: last_with_def)

lemma last_with_None: "last_with p rows = None \<longleftrightarrow> (\<forall>r \<in> set rows. \<not> p r)"
  by (simp add: last_with_eq filter_empty_conv)

lemma last_with_SomeD:
  assumes "last_with p rows = Some k" shows "k \<in> set rows \<and> p k"
proof -
  have "filter p rows \<noteq> []" "k = last (filter p rows)" using assms by (simp_all add: last_with_eq split: if_splits)
  then have "k \<in> set (filter p rows)" using last_in_set by blast
  then show ?thesis by simp
qed

lemma last_with_key:
  assumes d: "distinct (map key rows)" and k: "k \<in> set rows"
  shows "last_with (\<lambda>r. key r = key k) rows = Some k"
proof -
  have "last_with (\<lambda>r. key r = key k) rows \<noteq> None" using k by (auto simp: last_with_None)
  then obtain k' where k': "last_with (\<lambda>r. key r = key k) rows = Some k'" by blast
  then have "k' \<in> set rows" "key k' = key k" using last_with_SomeD [OF k'] by simp_all
  then have "k' = k" using d k by (simp add: distinct_map inj_on_def)
  then show ?thesis using k' by simp
qed

text \<open>On a good table the row of an item is the one with its name.\<close>

lemma find_kpi_name:
  assumes ok: "registry_ok uuid s" and c: "c \<in> set kpi_registry_definitions"
  shows "find_kpi (kpis s) c = map_option kp_id (last_with (\<lambda>k. kp_name k = ki_name c) (kpis s))"
proof -
  have "(kp_code k = Some (ki_code c)) = (kp_name k = ki_name c)" if "k \<in> set (kpis s)" for k
    using ok c that by (simp add: registry_ok_def)
  then have "filter (\<lambda>k. kp_code k = Some (ki_code c)) (kpis s) = filter (\<lambda>k. kp_name k = ki_name c) (kpis s)"
    by (simp cong: filter_cong)
  then show ?thesis by (simp add: find_kpi_def last_with_eq)
qed

lemma name_ids_row:
  assumes ok: "registry_ok uuid s" and k: "k \<in> set (kpis s)"
  shows "map_of (name_ids s) (kp_name k) = Some (kp_id k)"
proof (rule map_of_is_SomeI)
  show "distinct (map fst (name_ids s))" using ok by (simp add: registry_ok_def name_ids_def comp_def)
  show "(kp_name k, kp_id k) \<in> set (name_ids s)" using k by (force simp: name_ids_def)
qed

lemma find_kpi_ids:
  assumes ok: "registry_ok uuid s" and c: "c \<in> set kpi_registry_definitions"
  shows "find_kpi (kpis s) c = map_of (name_ids s) (ki_name c)"
proof (cases "last_with (\<lambda>k. kp_name k = ki_name c) (kpis s)")
  case None
  then have "map_of (name_ids s) (ki_name c) = None" by (force simp: last_with_None name_ids_def map_of_eq_None_iff)
  then show ?thesis using None by (simp add: find_kpi_name [OF ok c])
next
  case (Some k)
  have "map_of (name_ids s) (ki_name c) = Some (kp_id k)"
    using last_with_SomeD [OF Some] name_ids_row [OF ok, of k] by simp
  then show ?thesis using Some by (simp add: find_kpi_name [OF ok c])
qed

section \<open>One item\<close>

lemma name_ids_upd:
  assumes "\<And>k. k \<in> set (kpis s) \<Longrightarrow> kp_id k = i \<Longrightarrow> kp_name k = ki_name c"
  shows "map (\<lambda>k. (kp_name k, kp_id k)) (upd_by kp_id i (kpi_columns c) (kpis s)) = name_ids s"
  using assms by (simp add: upd_by_def name_ids_def kpi_columns_def)

lemma distinct_id_row:
  "registry_ok uuid s \<Longrightarrow> k \<in> set (kpis s) \<Longrightarrow> k' \<in> set (kpis s) \<Longrightarrow> kp_id k = kp_id k' \<Longrightarrow> k = k'"
  by (auto simp: registry_ok_def distinct_map dest: inj_onD)

lemma upsert_old:
  assumes ok: "registry_ok uuid s" and c: "c \<in> set kpi_registry_definitions" and k: "k \<in> set (kpis s)" "kp_name k = ki_name c"
  shows "upsert_kpi uuid (kpis s) c s = Inr (kp_id k, s\<lparr>kpis := upd_by kp_id (kp_id k) (kpi_columns c) (kpis s)\<rparr>)"
proof -
  have d: "distinct (map kp_name (kpis s))" using ok by (simp add: registry_ok_def)
  have same: "k' = k" if "k' \<in> set (kpis s)" "kp_name k' = ki_name c" for k'
    using d that k by (simp add: distinct_map inj_on_def)
  have "find_kpi (kpis s) c = Some (kp_id k)"
    using last_with_key [OF d k(1)] k(2) by (simp add: find_kpi_name [OF ok c])
  moreover have "\<not> list_ex (\<lambda>k'. kp_name k' = ki_name c \<and> kp_id k' \<noteq> kp_id k) (kpis s)"
    using same by (auto simp: list_ex_iff)
  ultimately show ?thesis by (simp add: upsert_kpi_def)
qed

lemma upsert_new:
  assumes ok: "registry_ok uuid s" and c: "c \<in> set kpi_registry_definitions" and none: "ki_name c \<notin> kp_name ` set (kpis s)"
  shows "upsert_kpi uuid (kpis s) c s =
     Inr (uuid (draws s), s\<lparr>kpis := kpis s @ [kpi_columns c (blank_kpi (uuid (draws s)))], draws := draws s + 1\<rparr>)"
proof -
  have "find_kpi (kpis s) c = None" using none by (auto simp: find_kpi_name [OF ok c] last_with_None image_iff)
  moreover have "\<not> list_ex (\<lambda>k. kp_name k = ki_name c) (kpis s)" using none by (auto simp: list_ex_iff image_iff)
  ultimately show ?thesis by (simp add: upsert_kpi_def Let_def)
qed

lemma kpi_columns_simps [simp]:
  "kp_id (kpi_columns c k) = kp_id k" "kp_name (kpi_columns c k) = ki_name c" "kp_code (kpi_columns c k) = Some (ki_code c)"
  "kpi_columns c (kpi_columns c k) = kpi_columns c k" "kp_id (blank_kpi i) = i"
  by (simp_all add: kpi_columns_def blank_kpi_def)

lemma upsert_ok:
  assumes ok: "registry_ok uuid s" and c: "c \<in> set kpi_registry_definitions" and u: "upsert_kpi uuid (kpis s) c s = Inr (i, s')"
  shows "registry_ok uuid s'"
proof (cases "ki_name c \<in> kp_name ` set (kpis s)")
  case True
  then obtain k where k: "k \<in> set (kpis s)" "kp_name k = ki_name c" by auto
  have s': "s' = s\<lparr>kpis := upd_by kp_id (kp_id k) (kpi_columns c) (kpis s)\<rparr>" using u upsert_old [OF ok c k] by auto
  have row: "k' = k" if "k' \<in> set (kpis s)" "kp_id k' = kp_id k" for k' using distinct_id_row [OF ok that(1) k(1) that(2)] .
  have rn: "kp_name k' = ki_name c" if "k' \<in> set (kpis s)" "kp_id k' = kp_id k" for k' using row [OF that] k(2) by simp
  have names: "map kp_name (upd_by kp_id (kp_id k) (kpi_columns c) (kpis s)) = map kp_name (kpis s)"
    using rn by (auto simp: upd_by_def)
  have ids: "map kp_id (upd_by kp_id (kp_id k) (kpi_columns c) (kpis s)) = map kp_id (kpis s)"
    by (simp add: upd_by_def)
  have ids_set: "kp_id ` set (upd_by kp_id (kp_id k) (kpi_columns c) (kpis s)) = kp_id ` set (kpis s)"
    using ids by (metis image_set)
  have "kp_code k' = Some (ki_code c') \<longleftrightarrow> kp_name k' = ki_name c'"
    if "k' \<in> set (upd_by kp_id (kp_id k) (kpi_columns c) (kpis s))" "c' \<in> set kpi_registry_definitions" for k' c'
    using that ok registry_same_item [OF c that(2)] by (auto simp: registry_ok_def upd_by_def)
  then show ?thesis using ok unfolding s' by (simp add: registry_ok_def names ids ids_set versions_of_def)
next
  case False
  have s': "s' = s\<lparr>kpis := kpis s @ [kpi_columns c (blank_kpi (uuid (draws s)))], draws := draws s + 1\<rparr>"
    using u upsert_new [OF ok c False] by auto
  have "kp_code k' = Some (ki_code c') \<longleftrightarrow> kp_name k' = ki_name c'"
    if "k' \<in> set (kpis s')" "c' \<in> set kpi_registry_definitions" for k' c'
    using that ok registry_same_item [OF c that(2)] by (auto simp: registry_ok_def s')
  then show ?thesis using ok False by (auto simp: registry_ok_def s' versions_of_def inj_eq)
qed

lemma version_step:
  assumes ok: "registry_ok uuid s"
  obtains s' where "ensure_formula_version uuid i c s = Inr s'" "registry_ok uuid s'" "kpis s' = kpis s" "kpi_results s' = kpi_results s"
proof -
  have "length (versions_of i s) \<le> 1" using ok by (simp add: registry_ok_def)
  then consider "versions_of i s = []" | f where "versions_of i s = [f]"
    by (cases "versions_of i s" rule: list.exhaust [case_product list.exhaust]) (auto simp: length_Suc_conv le_Suc_eq)
  then show thesis
  proof cases
    case 1
    let ?s = "s\<lparr>kpi_formula_versions := kpi_formula_versions s @
       [\<lparr>kf_id = uuid (draws s), kf_kpi_id = i, kf_version = current_formula_version, kf_expression = ki_formula c\<rparr>], draws := draws s + 1\<rparr>"
    have "length (versions_of j ?s) \<le> 1" for j
      using ok 1 by (cases "j = i") (auto simp: versions_of_def registry_ok_def)
    then have "registry_ok uuid ?s" using ok by (simp add: registry_ok_def)
    moreover have "ensure_formula_version uuid i c s = Inr ?s" using 1 by (simp add: ensure_formula_version_def versions_of_def)
    ultimately show thesis using that [of ?s] by simp
  next
    case 2
    then have "ensure_formula_version uuid i c s = Inr s" by (simp add: ensure_formula_version_def versions_of_def)
    then show thesis by (rule that) (simp_all add: ok)
  qed
qed

lemma sync_item_cases:
  assumes ok: "registry_ok uuid s" and c: "c \<in> set kpi_registry_definitions"
  obtains i s1 s2 where "upsert_kpi uuid (kpis s) c s = Inr (i, s1)" "ensure_formula_version uuid i c s1 = Inr s2" "registry_ok uuid s2"
    "kpis s2 = kpis s1" "kpi_results s2 = kpi_results s"
    "name_ids s1 = (if ki_name c \<in> kp_name ` set (kpis s) then name_ids s else name_ids s @ [(ki_name c, i)])"
    "map_of (name_ids s1) (ki_name c) = Some i"
    "\<forall>k \<in> set (kpis s1). kp_name k = ki_name c \<longrightarrow> kpi_columns c k = k"
    "\<forall>k \<in> set (kpis s1). kp_name k \<noteq> ki_name c \<longrightarrow> k \<in> set (kpis s)"
proof (cases "ki_name c \<in> kp_name ` set (kpis s)")
  case True
  then obtain k where k: "k \<in> set (kpis s)" "kp_name k = ki_name c" by auto
  let ?s = "s\<lparr>kpis := upd_by kp_id (kp_id k) (kpi_columns c) (kpis s)\<rparr>"
  note u = upsert_old [OF ok c k]
  note ok1 = upsert_ok [OF ok c u]
  obtain s2 where s2: "ensure_formula_version uuid (kp_id k) c ?s = Inr s2" "registry_ok uuid s2" "kpis s2 = kpis ?s"
      "kpi_results s2 = kpi_results ?s" using version_step [OF ok1] by metis
  have row: "k' = k" if "k' \<in> set (kpis s)" "kp_id k' = kp_id k" for k' using distinct_id_row [OF ok that(1) k(1) that(2)] .
  have rn: "kp_name k' = ki_name c" if "k' \<in> set (kpis s)" "kp_id k' = kp_id k" for k' using row [OF that] k(2) by simp
  have n: "name_ids ?s = name_ids s" using name_ids_upd [of s "kp_id k" c, OF rn] by (simp add: name_ids_def)
  have "map_of (name_ids s) (ki_name c) = Some (kp_id k)"
    using name_ids_row [OF ok k(1)] k(2) by simp
  moreover have "\<forall>k' \<in> set (kpis ?s). kp_name k' = ki_name c \<longrightarrow> kpi_columns c k' = k'"
  proof (intro ballI impI)
    fix k' assume k': "k' \<in> set (kpis ?s)" "kp_name k' = ki_name c"
    then obtain k0 where k0: "k0 \<in> set (kpis s)" "k' = (if kp_id k0 = kp_id k then kpi_columns c k0 else k0)" by (auto simp: upd_by_def)
    have "kp_id k0 = kp_id k"
    proof (rule ccontr)
      assume ne: "kp_id k0 \<noteq> kp_id k"
      then have "kp_name k0 = kp_name k" using k0(2) k'(2) k(2) by simp
      then have "k0 = k" using ok k0(1) k(1) by (simp add: registry_ok_def distinct_map inj_on_def)
      then show False using ne by simp
    qed
    then show "kpi_columns c k' = k'" using k0(2) by simp
  qed
  moreover have "\<forall>k' \<in> set (kpis ?s). kp_name k' \<noteq> ki_name c \<longrightarrow> k' \<in> set (kpis s)" by (auto simp: upd_by_def)
  ultimately show thesis using that [OF u s2(1,2,3)] s2(4) True n by simp
next
  case False
  let ?s = "s\<lparr>kpis := kpis s @ [kpi_columns c (blank_kpi (uuid (draws s)))], draws := draws s + 1\<rparr>"
  note u = upsert_new [OF ok c False]
  note ok1 = upsert_ok [OF ok c u]
  obtain s2 where s2: "ensure_formula_version uuid (uuid (draws s)) c ?s = Inr s2" "registry_ok uuid s2" "kpis s2 = kpis ?s"
      "kpi_results s2 = kpi_results ?s" using version_step [OF ok1] by metis
  have r: "kpi_results s2 = kpi_results s" using s2(4) by simp
  have n: "name_ids ?s = (if ki_name c \<in> kp_name ` set (kpis s) then name_ids s else name_ids s @ [(ki_name c, uuid (draws s))])"
    using False by (simp add: name_ids_def)
  have "map_of (name_ids s) (ki_name c) = None" using False by (force simp: name_ids_def map_of_eq_None_iff)
  then have m: "map_of (name_ids ?s) (ki_name c) = Some (uuid (draws s))" using False n by (simp add: map_add_def)
  have e: "\<forall>k' \<in> set (kpis ?s). kp_name k' = ki_name c \<longrightarrow> kpi_columns c k' = k'"
  proof (intro ballI impI)
    fix k' assume k': "k' \<in> set (kpis ?s)" "kp_name k' = ki_name c"
    have "k' \<notin> set (kpis s)" using False k'(2) by (metis imageI)
    then show "kpi_columns c k' = k'" using k'(1) by simp
  qed
  have f: "\<forall>k' \<in> set (kpis ?s). kp_name k' \<noteq> ki_name c \<longrightarrow> k' \<in> set (kpis s)" by simp
  show thesis by (rule that [OF u s2(1,2,3) r n m e f])
qed

interpretation registry_sync: create_or_get "registry_ok uuid" "\<lambda>s. map kp_name (kpis s)" "sync_item uuid" sync_target for uuid
proof unfold_locales
  fix s :: "'a kpi_db_scheme" and c s'
  assume ok: "registry_ok uuid s"
  show "\<exists>s'. sync_item uuid c s = Inr s'"
    by (cases "c \<in> set kpi_registry_definitions") (auto simp: sync_item_def elim!: sync_item_cases [OF ok])
  assume step: "sync_item uuid c s = Inr s'"
  show "registry_ok uuid s'"
    using step ok by (cases "c \<in> set kpi_registry_definitions") (auto simp: sync_item_def elim!: sync_item_cases [OF ok])
  show "map kp_name (kpis s') = (case sync_target c of Some k \<Rightarrow> if k \<in> set (map kp_name (kpis s)) then map kp_name (kpis s)
      else map kp_name (kpis s) @ [k] | None \<Rightarrow> map kp_name (kpis s))"
  proof (cases "c \<in> set kpi_registry_definitions")
    case True
    obtain i s1 s2 where d: "upsert_kpi uuid (kpis s) c s = Inr (i, s1)" "ensure_formula_version uuid i c s1 = Inr s2" "kpis s2 = kpis s1"
      "name_ids s1 = (if ki_name c \<in> kp_name ` set (kpis s) then name_ids s else name_ids s @ [(ki_name c, i)])"
      using sync_item_cases [OF ok True] by metis
    have "map fst (name_ids s1) = (if ki_name c \<in> kp_name ` set (kpis s) then map fst (name_ids s) else map fst (name_ids s) @ [ki_name c])"
      by (simp add: d(4))
    then show ?thesis using step d(1-3) True by (simp add: sync_item_def sync_target_def name_ids_def comp_def)
  qed (use step in \<open>simp add: sync_item_def sync_target_def\<close>)
qed

text \<open>The loop of the source, which looks rows up in the table as it was at the start, does the same.\<close>

definition synced :: "kpi_item list \<Rightarrow> 'a kpi_db_scheme \<Rightarrow> bool" where
  "synced cs s \<longleftrightarrow> (\<forall>k \<in> set (kpis s). \<forall>c \<in> set cs. kp_name k = ki_name c \<longrightarrow> kpi_columns c k = k)"

lemma upsert_kpis_run:
  assumes "registry_ok uuid s" "set cs \<subseteq> set kpi_registry_definitions" "distinct cs"
    "\<forall>c \<in> set cs. find_kpi existing c = find_kpi (kpis s) c"
  shows "\<exists>m s'. upsert_kpis uuid existing cs s = Inr (m, s') \<and> run_steps (sync_item uuid) cs s = Inr s' \<and> map fst m = map ki_code cs \<and>
     synced cs s' \<and> (\<forall>k \<in> set (kpis s'). k \<in> set (kpis s) \<or> (\<exists>c \<in> set cs. kp_name k = ki_name c)) \<and>
     list_all2 (\<lambda>c x. map_of (name_ids s') (ki_name c) = Some (snd x)) cs m \<and> kpi_results s' = kpi_results s \<and> 
     (\<exists>t. name_ids s' = name_ids s @ t)"
  using assms
proof (induction cs arbitrary: s)
  case Nil
  then show ?case by (simp add: synced_def)
next
  case (Cons c cs)
  from Cons.prems have c: "c \<in> set kpi_registry_definitions" and cs: "set cs \<subseteq> set kpi_registry_definitions" "distinct cs" "c \<notin> set cs" by auto
  obtain i s1 s2 where d: "upsert_kpi uuid (kpis s) c s = Inr (i, s1)" "ensure_formula_version uuid i c s1 = Inr s2" "registry_ok uuid s2"
      "kpis s2 = kpis s1" "kpi_results s2 = kpi_results s"
      "name_ids s1 = (if ki_name c \<in> kp_name ` set (kpis s) then name_ids s else name_ids s @ [(ki_name c, i)])"
      "map_of (name_ids s1) (ki_name c) = Some i"
      "\<forall>k \<in> set (kpis s1). kp_name k = ki_name c \<longrightarrow> kpi_columns c k = k"
      "\<forall>k \<in> set (kpis s1). kp_name k \<noteq> ki_name c \<longrightarrow> k \<in> set (kpis s)"
    using sync_item_cases [OF Cons.prems(1) c] by blast
  have n2: "name_ids s2 = name_ids s1" using d(4) by (simp add: name_ids_def)
  have u: "upsert_kpi uuid existing c s = Inr (i, s1)"
    using d(1) Cons.prems(4) by (simp add: upsert_kpi_def)
  have other: "ki_name c' \<noteq> ki_name c" if "c' \<in> set cs" for c'
    using registry_same_item(2) [OF c, of c'] cs that by auto
  have found: "\<forall>c' \<in> set cs. find_kpi existing c' = find_kpi (kpis s2) c'"
  proof
    fix c' assume c': "c' \<in> set cs"
    have r: "c' \<in> set kpi_registry_definitions" using cs c' by auto
    have "map_of (name_ids s2) (ki_name c') = map_of (name_ids s) (ki_name c')"
      using other [OF c'] by (simp add: n2 d(6) map_add_def split: option.split)
    then show "find_kpi existing c' = find_kpi (kpis s2) c'"
      using Cons.prems(4) c' find_kpi_ids [OF Cons.prems(1) r] find_kpi_ids [OF d(3) r] by simp
  qed
  obtain m s' where ih: "upsert_kpis uuid existing cs s2 = Inr (m, s')" "run_steps (sync_item uuid) cs s2 = Inr s'" "map fst m = map ki_code cs"
      "synced cs s'" "\<forall>k \<in> set (kpis s'). k \<in> set (kpis s2) \<or> (\<exists>c \<in> set cs. kp_name k = ki_name c)"
      "list_all2 (\<lambda>c x. map_of (name_ids s') (ki_name c) = Some (snd x)) cs m" "kpi_results s' = kpi_results s2" "\<exists>t. name_ids s' = name_ids s2 @ t"
    using Cons.IH [OF d(3) cs(1,2) found] by blast
  have "kpi_columns c k = k" if "k \<in> set (kpis s')" "kp_name k = ki_name c" for k
    using ih(5) that other d(4,8) by metis
  then have "synced (c # cs) s'" using ih(4) by (auto simp: synced_def)
  moreover have "\<forall>k \<in> set (kpis s'). k \<in> set (kpis s) \<or> (\<exists>c' \<in> set (c # cs). kp_name k = ki_name c')"
    using ih(5) d(4,9) by auto
  moreover have "map_of (name_ids s') (ki_name c) = Some i" using ih(8) d(7) n2 by (auto simp: map_add_def)
  moreover have "\<exists>t. name_ids s' = name_ids s @ t" using ih(8) n2 d(6) by auto
  moreover have "sync_item uuid c s = Inr s2" using d(1,2) c by (simp add: sync_item_def)
  ultimately show ?case using u d(2,5) ih(1,2,3,6,7) by simp
qed

section \<open>Alias links\<close>

definition codes_ok :: "(string \<times> uid) list \<Rightarrow> 'a kpi_db_scheme \<Rightarrow> bool" where
  "codes_ok m s \<longleftrightarrow> (\<forall>c \<in> set kpi_registry_definitions. \<forall>i. map_of m (ki_code c) = Some i \<longrightarrow> map_of (name_ids s) (ki_name c) = Some i)"

lemma aliases_not_primary: "list_all (\<lambda>c. ki_alias_of_code c = None \<or> \<not> ki_is_primary c) kpi_registry_definitions"
proof -
  have "list_all (\<lambda>(code, name, st, p, al). al = None \<or> \<not> p) (map item_facts kpi_registry_definitions)"
    unfolding registry_facts by simp
  then show ?thesis by (simp add: list.pred_map comp_def item_facts_def)
qed

lemma link_alias_step:
  assumes ok: "registry_ok uuid s" and sy: "synced kpi_registry_definitions s" and m: "codes_ok m s" and c: "c \<in> set kpi_registry_definitions"
  shows "registry_ok uuid (link_alias m c s) \<and> synced kpi_registry_definitions (link_alias m c s) \<and> name_ids (link_alias m c s) = name_ids s \<and>
     kpi_results (link_alias m c s) = kpi_results s"
proof (cases "(Option.bind (ki_alias_of_code c) (map_of m), map_of m (ki_code c))")
  case (Pair a b)
  show ?thesis
  proof (cases "a = None \<or> b = None")
    case True
    then have "link_alias m c s = s" using Pair by (auto simp: link_alias_def split: option.splits)
    then show ?thesis using ok sy by simp
  next
    case False
    then obtain p i where pi: "a = Some p" "b = Some i" by auto
    let ?f = "\<lambda>k. k\<lparr>kp_alias_of_id := Some p, kp_is_primary := False\<rparr>"
    have s': "link_alias m c s = s\<lparr>kpis := upd_by kp_id i ?f (kpis s)\<rparr>" using Pair pi by (simp add: link_alias_def)
    have np: "\<not> ki_is_primary c" using aliases_not_primary c Pair pi by (auto simp: list_all_iff)
    have "map_of (name_ids s) (ki_name c) = Some i" using m c Pair pi by (simp add: codes_ok_def)
    then have "(ki_name c, i) \<in> set (name_ids s)" by (rule map_of_SomeD)
    then obtain k0 where k0: "k0 \<in> set (kpis s)" "kp_name k0 = ki_name c" "kp_id k0 = i" by (auto simp: name_ids_def)
    have row: "kp_name k = ki_name c" if "k \<in> set (kpis s)" "kp_id k = i" for k
      using distinct_id_row [OF ok that(1) k0(1)] that(2) k0 by simp
    have keep: "map kp_id (upd_by kp_id i ?f (kpis s)) = map kp_id (kpis s)" "map kp_name (upd_by kp_id i ?f (kpis s)) = map kp_name (kpis s)"
      by (simp_all add: upd_by_def)
    have ids: "kp_id ` set (upd_by kp_id i ?f (kpis s)) = kp_id ` set (kpis s)" using keep(1) by (metis image_set)
    have codes: "(kp_code k = Some (ki_code c')) = (kp_name k = ki_name c')"
      if "k \<in> set (upd_by kp_id i ?f (kpis s))" "c' \<in> set kpi_registry_definitions" for k c'
      using that ok by (auto simp: upd_by_def registry_ok_def)
    have "registry_ok uuid (link_alias m c s)" using ok codes unfolding s' by (simp add: registry_ok_def keep ids versions_of_def)
    moreover have "synced kpi_registry_definitions (link_alias m c s)"
      unfolding synced_def
    proof (intro ballI impI)
      fix k c' assume k: "k \<in> set (kpis (link_alias m c s))" and c': "c' \<in> set kpi_registry_definitions" "kp_name k = ki_name c'"
      then obtain k1 where k1: "k1 \<in> set (kpis s)" "k = (if kp_id k1 = i then ?f k1 else k1)" by (auto simp: s' upd_by_def)
      have n1: "kp_name k1 = ki_name c'" using k1(2) c'(2) by (simp split: if_splits)
      have col: "kpi_columns c' k1 = k1" using sy k1(1) c'(1) n1 by (simp add: synced_def)
      show "kpi_columns c' k = k"
      proof (cases "kp_id k1 = i")
        case True
        then have "c' = c" using row [OF k1(1)] n1 registry_same_item(2) [OF c c'(1)] by simp
        then have "\<not> ki_is_primary c'" using np by simp
        then have "kpi_columns c' (?f k1) = (kpi_columns c' k1)\<lparr>kp_alias_of_id := Some p, kp_is_primary := False\<rparr>" by (simp add: kpi_columns_def)
        then show ?thesis using k1(2) True col by simp
      qed (use k1(2) col in simp)
    qed
    moreover have "name_ids (link_alias m c s) = name_ids s" by (simp add: s' name_ids_def upd_by_def)
    ultimately show ?thesis by (simp add: s')
  qed
qed

lemma link_all:
  assumes "registry_ok uuid s" "synced kpi_registry_definitions s" "codes_ok m s" "set cs \<subseteq> set kpi_registry_definitions"
  shows "registry_ok uuid (fold (link_alias m) cs s) \<and> synced kpi_registry_definitions (fold (link_alias m) cs s) \<and>
     name_ids (fold (link_alias m) cs s) = name_ids s \<and> kpi_results (fold (link_alias m) cs s) = kpi_results s"
  using assms
proof (induction cs arbitrary: s)
  case (Cons c cs)
  have c: "c \<in> set kpi_registry_definitions" using Cons.prems(4) by simp
  note st = link_alias_step [OF Cons.prems(1-3) c]
  have "codes_ok m (link_alias m c s)" using Cons.prems(3) st by (simp add: codes_ok_def)
  then show ?case using Cons.IH [of "link_alias m c s"] Cons.prems(4) st by simp
qed simp

section \<open>The synchronised registry\<close>

lemma codes_okI:
  assumes "list_all2 (\<lambda>c x. map_of (name_ids s) (ki_name c) = Some (snd x)) kpi_registry_definitions m"
    "map fst m = map ki_code kpi_registry_definitions"
  shows "codes_ok m s"
  unfolding codes_ok_def
proof (intro ballI allI impI)
  fix c i assume c: "c \<in> set kpi_registry_definitions" and i: "map_of m (ki_code c) = Some i"
  from map_of_SomeD [OF i] obtain j where j: "j < length m" "m ! j = (ki_code c, i)" by (metis in_set_conv_nth)
  have len: "length m = length kpi_registry_definitions" using assms(1) list_all2_lengthD by fastforce
  have "ki_code (kpi_registry_definitions ! j) = ki_code c" using assms(2) j len by (metis nth_map fst_conv)
  then have "kpi_registry_definitions ! j = c" using registry_same_item(1) [OF _ c] j(1) len by simp
  then show "map_of (name_ids s) (ki_name c) = Some i" using list_all2_nthD [OF assms(1), of j] j len by simp
qed

lemma ensure_registry:
  assumes ok: "registry_ok uuid s"
  obtains m s' where "ensure_kpi_registry uuid s = Inr (m, s')" "registry_ok uuid s'" "synced kpi_registry_definitions s'" "codes_ok m s'"
    "map fst m = map ki_code kpi_registry_definitions" "kpi_results s' = kpi_results s" "ki_name ` set kpi_registry_definitions \<subseteq> kp_name ` set (kpis s')"
    "\<exists>t. name_ids s' = name_ids s @ t" 
    "ki_name ` set kpi_registry_definitions \<subseteq> kp_name ` set (kpis s) \<Longrightarrow> name_ids s' = name_ids s"
proof -
  have d: "distinct kpi_registry_definitions" using registry_codes_distinct by (simp add: distinct_map)
  obtain m s1 where u: "upsert_kpis uuid (kpis s) kpi_registry_definitions s = Inr (m, s1)"
      "run_steps (sync_item uuid) kpi_registry_definitions s = Inr s1" "map fst m = map ki_code kpi_registry_definitions"
      "synced kpi_registry_definitions s1" "list_all2 (\<lambda>c x. map_of (name_ids s1) (ki_name c) = Some (snd x)) kpi_registry_definitions m"
      "kpi_results s1 = kpi_results s" "\<exists>t. name_ids s1 = name_ids s @ t"
    using upsert_kpis_run [OF ok order_refl d, of "kpis s"] by auto
  have ok1: "registry_ok uuid s1" using registry_sync.run_total [OF ok, of kpi_registry_definitions] u(2) by simp
  have co: "codes_ok m s1" by (rule codes_okI [OF u(5,3)])
  define s' where "s' = fold (link_alias m) kpi_registry_definitions s1"
  note l = link_all [OF ok1 u(4) co order_refl, folded s'_def]
  have names: "set (map kp_name (kpis s1)) = set (map kp_name (kpis s)) \<union> {k. \<exists>c \<in> set kpi_registry_definitions. sync_target c = Some k}"
    by (rule registry_sync.run_keys [OF ok u(2)])
  have sub: "ki_name ` set kpi_registry_definitions \<subseteq> kp_name ` set (kpis s1)" using names by (auto simp: sync_target_def)
  have same: "kp_name ` set (kpis x) = fst ` set (name_ids x)" for x :: "'a kpi_db_scheme" by (force simp: name_ids_def)
  show thesis
  proof (rule that)
    show "ensure_kpi_registry uuid s = Inr (m, s')" using u(1) by (simp add: ensure_kpi_registry_def s'_def)
    show "registry_ok uuid s'" "synced kpi_registry_definitions s'" using l by simp_all
    show "codes_ok m s'" using co l by (simp add: codes_ok_def)
    show "ki_name ` set kpi_registry_definitions \<subseteq> kp_name ` set (kpis s')" using sub l by (simp add: same)
    show "kpi_results s' = kpi_results s" "\<exists>t. name_ids s' = name_ids s @ t" using l u(6,7) by simp_all
    show "map fst m = map ki_code kpi_registry_definitions" by (rule u(3))
    assume all: "ki_name ` set kpi_registry_definitions \<subseteq> kp_name ` set (kpis s)"
    have "map kp_name (kpis s1) = map kp_name (kpis s)"
      by (rule registry_sync.run_no_new [OF ok u(2)]) (use all in \<open>auto simp: sync_target_def split: if_splits\<close>)
    then have "length (name_ids s1) = length (name_ids s)" by (simp add: name_ids_def) (metis length_map)
    then have "name_ids s1 = name_ids s" using u(7) by auto
    then show "name_ids s' = name_ids s" using l by simp
  qed
qed

text \<open>C21. On a consistent table the registry step always succeeds: every one of the 55 codes is returned and has a row with
  exactly the columns of its definition, no stored result is touched, the table stays consistent, and running it again
  creates no row.\<close>
theorem registry_synchronised:
  assumes ok: "registry_ok uuid s"
  shows "\<exists>m s' m' s''. ensure_kpi_registry uuid s = Inr (m, s') \<and> registry_ok uuid s' \<and> map fst m = map ki_code kpi_registry_definitions \<and>
     list_all (\<lambda>c. list_ex (\<lambda>k. kp_code k = Some (ki_code c) \<and> kpi_columns c k = k) (kpis s')) kpi_registry_definitions \<and>
     kpi_results s' = kpi_results s \<and> ensure_kpi_registry uuid s' = Inr (m', s'') \<and> map kp_id (kpis s'') = map kp_id (kpis s')"
proof -
  obtain m s' where r: "ensure_kpi_registry uuid s = Inr (m, s')" "registry_ok uuid s'" "synced kpi_registry_definitions s'"
      "map fst m = map ki_code kpi_registry_definitions" "kpi_results s' = kpi_results s"
      "ki_name ` set kpi_registry_definitions \<subseteq> kp_name ` set (kpis s')"
    using ensure_registry [OF ok] by metis
  obtain m' s'' where r2: "ensure_kpi_registry uuid s' = Inr (m', s'')" "name_ids s'' = name_ids s'"
    using ensure_registry [OF r(2)] r(6) by metis
  have "list_ex (\<lambda>k. kp_code k = Some (ki_code c) \<and> kpi_columns c k = k) (kpis s')" if "c \<in> set kpi_registry_definitions" for c
  proof -
    have "ki_name c \<in> kp_name ` set (kpis s')" using r(6) that by blast
    then obtain k where k: "k \<in> set (kpis s')" "kp_name k = ki_name c" by (metis imageE)
    then have "kpi_columns c k = k" using r(3) that by (simp add: synced_def)
    then show ?thesis using k(1) kpi_columns_simps(3) [of c k] by (auto simp: list_ex_iff)
  qed
  moreover have "map kp_id (kpis s'') = map kp_id (kpis s')"
    using arg_cong [OF r2(2), of "map snd"] by (simp add: name_ids_def comp_def)
  ultimately have "list_all (\<lambda>c. list_ex (\<lambda>k. kp_code k = Some (ki_code c) \<and> kpi_columns c k = k) (kpis s')) kpi_registry_definitions"
      "map kp_id (kpis s'') = map kp_id (kpis s')"
    by (simp_all add: list_all_iff)
  then show ?thesis using r(1,2,4,5) r2(1) by blast
qed

definition kpi_tables :: "ingest_db \<Rightarrow> kpi_db" where
  "kpi_tables s = ingest_db.extend s (kpi_db.fields [] [] [] [])"

lemma kpi_tables_sel [simp]:
  "kpis (kpi_tables s) = []" "kpi_formula_versions (kpi_tables s) = []" "kpi_results (kpi_tables s) = []"
  by (simp_all add: kpi_tables_def ingest_db.defs kpi_db.defs)

lemma kpi_tables_ok: "registry_ok sample_ids (kpi_tables s)"
  by (simp add: registry_ok_def inj_sample_ids versions_of_def)

theorem registry_synchronised_witness:
  "\<exists>m s'. ensure_kpi_registry sample_ids (kpi_tables (staged_db [])) = Inr (m, s') \<and> length m = 55"
proof -
  obtain m s' where r: "ensure_kpi_registry sample_ids (kpi_tables (staged_db [])) = Inr (m, s')" "map fst m = map ki_code kpi_registry_definitions"
    using registry_synchronised [OF kpi_tables_ok [of "staged_db []"]] by blast
  have "length m = 55" using arg_cong [OF r(2), of length] by (simp only: length_map registry_length)
  then show ?thesis using r(1) by blast
qed

end
