(* ===== verification/KpiEngine.thy ===== *)
theory KpiEngine
  imports KpiRegistry
begin

text \<open>
  The KPI engine (\<open>apps/api/services/kpi/engine.py\<close>): population, event resolution, bands, the formulas of all
  codes, calculation with its persisted results, the scorecard, audited recalculation and trends. Cohort filters
  are a list of string pairs; \<open>None\<close> and the empty dictionary are the empty list.
\<close>

section \<open>The engine and its population\<close>

record kpi_engine =
  ke_tenant_id :: string
  ke_exclude_quarantined :: bool

type_synonym filters = "(string \<times> string) list"

definition filter_by :: "string \<Rightarrow> (vessel_call \<Rightarrow> string option) \<Rightarrow> filters \<Rightarrow> vessel_call \<Rightarrow> bool" where
  "filter_by key col fs v \<longleftrightarrow> (case truthy (map_of fs key) of None \<Rightarrow> True | Some x \<Rightarrow> col v = Some x)"

text \<open>\<open>{d.name: d.id}\<close> and its inverse.\<close>

definition event_def_id :: "'a canon_db_scheme \<Rightarrow> string \<Rightarrow> uid option" where
  "event_def_id s n = map_option ed_id (last_with (\<lambda>d. ed_name d = n) (event_definitions s))"

definition arrival_of :: "uid \<Rightarrow> vessel_call \<Rightarrow> 'a canon_db_scheme \<Rightarrow> time option" where
  "arrival_of ata vc s = map_option eo_utc_value (find (\<lambda>e. eo_vessel_call_id e = vc_id vc \<and> eo_event_definition_id e = ata \<and>
     \<not> eo_is_superseded e) (event_occurrences s))"

definition in_period :: "time option \<Rightarrow> time option \<Rightarrow> time option \<Rightarrow> bool" where
  "in_period start end' t \<longleftrightarrow> (case t of None \<Rightarrow> True
     | Some t \<Rightarrow> (case start of Some a \<Rightarrow> a \<le> t | None \<Rightarrow> True) \<and> (case end' of Some b \<Rightarrow> t \<le> b | None \<Rightarrow> True))"

definition get_eligible_vessel_calls ::
    "kpi_engine \<Rightarrow> filters \<Rightarrow> time option \<Rightarrow> time option \<Rightarrow> 'a canon_db_scheme \<Rightarrow> vessel_call list" where
  "get_eligible_vessel_calls g fs start end' s =
     (let calls = sorted_by vc_created_at (filter (\<lambda>v. \<not> vc_is_merged v \<and> tenant_visible (ke_tenant_id g) v \<and>
            filter_by ''vessel_type'' (\<lambda>v. vc_text v Vessel_type) fs v \<and> filter_by ''terminal_code'' (\<lambda>v. vc_text v Terminal_id) fs v \<and>
            filter_by ''unit'' (\<lambda>v. vc_text v Quantity_unit) fs v) (vessel_calls s))
      in if start = None \<and> end' = None then calls
         else case event_def_id s ''ATA'' of
                None \<Rightarrow> calls
              | Some ata \<Rightarrow> filter (\<lambda>v. in_period start end' (arrival_of ata v s)) calls)"

section \<open>Events, services and cargo of the population\<close>

definition event_name_of :: "'a canon_db_scheme \<Rightarrow> uid \<Rightarrow> string option" where
  "event_name_of s i = truthy (map_option ed_name (last_with (\<lambda>d. ed_id d = i) (event_definitions s)))"

text \<open>The winner recorded for a call and a definition; the dictionary keeps the last row.\<close>

definition winner_of :: "'a platform_db_scheme \<Rightarrow> event_occurrence \<Rightarrow> uid option" where
  "winner_of s e = Option.bind (last_with (\<lambda>w. cn_vessel_call_id w = eo_vessel_call_id e \<and> cn_event_definition_id w = eo_event_definition_id e)
     (canonical_observations s)) cn_selected_event_occurrence_id"

definition governing :: "kpi_engine \<Rightarrow> 'a platform_db_scheme \<Rightarrow> event_occurrence \<Rightarrow> bool" where
  "governing g s e \<longleftrightarrow> \<not> eo_is_superseded e \<and> \<not> (ke_exclude_quarantined g \<and> eo_is_quarantined e) \<and>
     (case winner_of s e of Some i \<Rightarrow> eo_id e = i | None \<Rightarrow> True)"

text \<open>The events of a call by name: the first one in time of each name.\<close>

definition event_of :: "kpi_engine \<Rightarrow> 'a platform_db_scheme \<Rightarrow> uid \<Rightarrow> string \<Rightarrow> event_occurrence option" where
  "event_of g s c n = find (\<lambda>e. eo_vessel_call_id e = c \<and> governing g s e \<and> event_name_of s (eo_event_definition_id e) = Some n)
     (sorted_by eo_utc_value (event_occurrences s))"

record service_view =
  sv_service_type :: string
  sv_movement_type :: "string option"
  sv_requested_time :: "time option"
  sv_scheduled_time :: "time option"
  sv_served_time :: "time option"

definition services_of :: "'a canon_db_scheme \<Rightarrow> uid \<Rightarrow> service_view list" where
  "services_of s c = concat (map (\<lambda>e. concat (map (\<lambda>a. map (\<lambda>r. \<lparr>sv_service_type = sr_service_type r, sv_movement_type = sr_movement_type r,
         sv_requested_time = sr_requested_time r, sv_scheduled_time = sa_scheduled_time a, sv_served_time = se_served_time e\<rparr>)
       (filter (\<lambda>r. sr_id r = sa_service_request_id a \<and> sr_vessel_call_id r = c) (service_requests s)))
     (filter (\<lambda>a. sa_id a = se_service_assignment_id e) (service_assignments s)))) (service_executions s))"

text \<open>What the formulas read, by vessel call.\<close>

record kpi_inputs =
  in_calls :: "vessel_call list"
  in_event :: "uid \<Rightarrow> string \<Rightarrow> event_occurrence option"
  in_services :: "uid \<Rightarrow> service_view list"
  in_cargo :: "uid \<Rightarrow> cargo_operation list"
  in_delays :: "uid \<Rightarrow> delay list"
  in_shifts :: "(rat \<times> uid \<times> uid) list"
  in_filters :: filters
  in_start :: "time option"
  in_end :: "time option"

text \<open>Completed shifts, paired by the occurrence index.\<close>

definition shift_pair :: "uid \<Rightarrow> uid \<Rightarrow> event_occurrence list \<Rightarrow> (rat \<times> uid \<times> uid) option" where
  "shift_pair start_id end_id es =
     (case (last_with (\<lambda>e. eo_event_definition_id e = start_id) es, last_with (\<lambda>e. eo_event_definition_id e = end_id) es) of
        (Some a, Some b) \<Rightarrow> if eo_utc_value b < eo_utc_value a then None
                            else Some (raw_hours (eo_utc_value a) (eo_utc_value b), eo_id a, eo_id b)
      | _ \<Rightarrow> None)"

definition shift_pairs :: "vessel_call list \<Rightarrow> 'a canon_db_scheme \<Rightarrow> (rat \<times> uid \<times> uid) list" where
  "shift_pairs calls s =
     (case (event_def_id s ''SHIFT_PILOT_ON_BOARD'', event_def_id s ''SHIFT_ALL_FAST'') of
        (Some start_id, Some end_id) \<Rightarrow>
          List.map_filter (\<lambda>(k, es). shift_pair start_id end_id es)
            (group_by (\<lambda>e. (eo_vessel_call_id e, eo_occurrence_index e))
              (filter (\<lambda>e. eo_vessel_call_id e \<in> vc_id ` set calls \<and> eo_event_definition_id e \<in> {start_id, end_id} \<and>
                 \<not> eo_is_superseded e \<and> \<not> eo_is_quarantined e) (event_occurrences s)))
      | _ \<Rightarrow> [])"

definition load_inputs ::
    "kpi_engine \<Rightarrow> filters \<Rightarrow> time option \<Rightarrow> time option \<Rightarrow> 'a platform_db_scheme \<Rightarrow> kpi_inputs" where
  "load_inputs g fs start end' s =
     (let calls = get_eligible_vessel_calls g fs start end' s
      in \<lparr>in_calls = calls, in_event = event_of g s, in_services = services_of s,
          in_cargo = (\<lambda>c. filter (\<lambda>o'. co_vessel_call_id o' = c) (cargo_operations s)),
          in_delays = (\<lambda>c. filter (\<lambda>d. dl_vessel_call_id d = c) (delays s)), in_shifts = shift_pairs calls s,
          in_filters = fs, in_start = start, in_end = end'\<rparr>)"

section \<open>Bands\<close>

definition evaluate_band :: "rat option \<Rightarrow> rat option \<Rightarrow> string option \<Rightarrow> (string \<times> rat) list \<Rightarrow> band" where
  "evaluate_band v target direction th =
     (case v of None \<Rightarrow> GRAY
      | Some v \<Rightarrow>
          (let lower = (case truthy direction of Some d \<Rightarrow> d = ''LOWER_IS_BETTER'' | None \<Rightarrow> True);
               limit = (\<lambda>key default. case map_of th key of Some x \<Rightarrow> Some x | None \<Rightarrow> default);
               green = limit ''green'' target;
               amber = limit ''amber'' (map_option (\<lambda>t. fmul t (if lower then dec 12 else dec 8)) target);
               meets = (\<lambda>l. case l of Some x \<Rightarrow> if lower then v \<le> x else x \<le> v | None \<Rightarrow> False)
           in if meets green then GREEN else if meets amber then AMBER else RED))"
end
