(* ===== verification/KpiFormulas.thy ===== *)
theory KpiFormulas
  imports KpiEngine
begin

text \<open>
  The formula set in force of the KPI engine (\<open>_compute_kpi_value\<close>, the branches that return first): one definition
  per branch, and the dispatch on the code, \<open>None\<close> where the code falls through to the older branches.
\<close>

section \<open>Outcomes\<close>

record kpi_value =
  kv_value :: "rat option"
  kv_numerator :: "rat option"
  kv_denominator :: "rat option"
  kv_status :: kpi_status
  kv_band :: band
  kv_reason :: "fstring option"
  kv_summary :: "(string \<times> json) list"

definition kpi_band :: "kpi \<Rightarrow> rat \<Rightarrow> band" where
  "kpi_band k v = evaluate_band (Some v) (kp_target k) (kp_target_direction k) (kp_thresholds k)"

text \<open>The band is that of the value before it is rounded.\<close>

definition computed :: "kpi \<Rightarrow> rat \<Rightarrow> rat option \<Rightarrow> rat option \<Rightarrow> (string \<times> json) list \<Rightarrow> kpi_value" where
  "computed k v num den d = \<lparr>kv_value = Some (fround 4 v), kv_numerator = num, kv_denominator = den, kv_status = KPI_COMPUTED,
     kv_band = kpi_band k v, kv_reason = None, kv_summary = d\<rparr>"

definition kpi_unavailable :: "fstring \<Rightarrow> kpi_value" where
  "kpi_unavailable reason = \<lparr>kv_value = None, kv_numerator = None, kv_denominator = None, kv_status = KPI_UNAVAILABLE,
     kv_band = GRAY, kv_reason = Some reason, kv_summary = []\<rparr>"

section \<open>Shared readings\<close>

fun get_time :: "(string \<Rightarrow> event_occurrence option) \<Rightarrow> string list \<Rightarrow> time option" where
  "get_time evs [] = None"
| "get_time evs (n # ns) = (case evs n of Some e \<Rightarrow> Some (eo_utc_value e) | None \<Rightarrow> get_time evs ns)"

definition call_time :: "kpi_inputs \<Rightarrow> vessel_call \<Rightarrow> string list \<Rightarrow> time option" where
  "call_time inp vc names = get_time (in_event inp (vc_id vc)) names"

definition span_hours :: "kpi_inputs \<Rightarrow> string list \<Rightarrow> string list \<Rightarrow> vessel_call \<Rightarrow> rat option" where
  "span_hours inp start end' vc = (case (call_time inp vc start, call_time inp vc end') of
     (Some a, Some b) \<Rightarrow> if a \<le> b then Some (raw_hours a b) else None | _ \<Rightarrow> None)"

definition span_durations :: "kpi_inputs \<Rightarrow> string list \<Rightarrow> string list \<Rightarrow> rat list" where
  "span_durations inp start end' = List.map_filter (span_hours inp start end') (in_calls inp)"

abbreviation size_of :: "'a list \<Rightarrow> json" where
  "size_of xs \<equiv> JInt (int (length xs))"

abbreviation count_of :: "'a list \<Rightarrow> rat option" where
  "count_of xs \<equiv> Some (of_nat (length xs))"

definition avg_of :: "kpi \<Rightarrow> rat list \<Rightarrow> (string \<times> json) list \<Rightarrow> kpi_value" where
  "avg_of k xs d = computed k (fmean xs) (Some (fround 4 (fsum xs))) (count_of xs) d"

definition avg_duration :: "kpi \<Rightarrow> kpi_inputs \<Rightarrow> string list \<Rightarrow> string list \<Rightarrow> string \<Rightarrow> kpi_value" where
  "avg_duration k inp start end' label =
     (let xs = span_durations inp start end'
      in if xs = [] then kpi_unavailable [Lit ''No eligible '', Str label, Lit '' records with both required timestamps.'']
         else avg_of k xs [(''sample_size'', size_of xs)])"

definition stdev_of :: "kpi \<Rightarrow> rat list \<Rightarrow> (string \<times> json) list \<Rightarrow> kpi_value" where
  "stdev_of k xs d = computed k (fsqrt (sample_variance xs (fmean xs))) (Some (fround 4 (fsum xs))) (count_of xs) d"

definition all_cargo :: "kpi_inputs \<Rightarrow> vessel_call list \<Rightarrow> cargo_operation list" where
  "all_cargo inp vcs = concat (map (\<lambda>vc. in_cargo inp (vc_id vc)) vcs)"

text \<open>\<open>op.actual_quantity or 0.0\<close> over the operations of one unit.\<close>

definition or_zero :: "rat option \<Rightarrow> rat" where
  "or_zero q = (case q of Some x \<Rightarrow> x | None \<Rightarrow> 0)"

definition unit_quantity :: "string \<Rightarrow> cargo_operation list \<Rightarrow> rat" where
  "unit_quantity u ops = fsum (map (\<lambda>o'. or_zero (co_actual_quantity o')) (filter (\<lambda>o'. co_unit o' = Some u) ops))"

definition is_container :: "vessel_call \<Rightarrow> bool" where
  "is_container vc \<longleftrightarrow> (case truthy (vc_text vc Vessel_type) of Some t \<Rightarrow> py_in ''container'' (py_lower t) | None \<Rightarrow> False)"

definition cargo_unit :: "kpi_inputs \<Rightarrow> string option" where
  "cargo_unit inp = truthy (map_of (in_filters inp) ''unit'')"

section \<open>Calls, cargo per call and waiting\<close>

definition frd_kpi_01 :: "kpi \<Rightarrow> kpi_inputs \<Rightarrow> kpi_value" where
  "frd_kpi_01 k inp =
     (let arrivals = filter (\<lambda>vc. call_time inp vc [''ATA''] \<noteq> None) (in_calls inp)
      in if arrivals = [] then kpi_unavailable [Lit ''No vessel calls with an actual arrival timestamp.'']
         else computed k (of_nat (length arrivals)) (count_of arrivals) None [(''distinct_vessel_calls'', size_of arrivals)])"

definition quantities_per_call :: "kpi_inputs \<Rightarrow> string \<Rightarrow> rat list" where
  "quantities_per_call inp u = filter (\<lambda>q. q \<noteq> 0) (map (\<lambda>vc. unit_quantity u (in_cargo inp (vc_id vc))) (in_calls inp))"

definition frd_kpi_02 :: "kpi \<Rightarrow> kpi_inputs \<Rightarrow> kpi_value" where
  "frd_kpi_02 k inp =
     (case cargo_unit inp of
        None \<Rightarrow> kpi_unavailable [Lit ''A cargo unit filter is required; TEU, MT, and Units cannot be combined.'']
      | Some u \<Rightarrow>
          (let per_call = quantities_per_call inp u
           in if per_call = [] then kpi_unavailable [Lit ''No eligible cargo records for unit '', Str u, Lit ''.'']
              else avg_of k per_call [(''unit'', JStr u), (''distinct_vessel_calls'', size_of per_call)]))"

definition index_summary :: "rat list \<Rightarrow> (string \<times> json) list" where
  "index_summary xs = [(''sample_size'', size_of xs), (''grouping'', JStr ''vessel_type; use vessel_type cohort filter for a type-specific index'')]"

definition frd_kpi_05 :: "kpi \<Rightarrow> kpi_inputs \<Rightarrow> kpi_value" where
  "frd_kpi_05 k inp =
     (let xs = span_durations inp [''ANCHORAGE_ARRIVAL''] [''PILOT_ON_BOARD_ARRIVAL'']
      in if length xs < 2 then kpi_unavailable [Lit ''At least two eligible anchorage waits are required for standard deviation.'']
         else stdev_of k xs (index_summary xs))"

definition frd_kpi_16 :: "kpi \<Rightarrow> kpi_inputs \<Rightarrow> kpi_value" where
  "frd_kpi_16 k inp =
     (let xs = span_durations inp [''PILOT_ON_BOARD_ARRIVAL''] [''ALL_FAST_ARRIVAL'']
      in if length xs < 2 then kpi_unavailable [Lit ''At least two eligible pilot-to-berth records are required for standard deviation.'']
         else stdev_of k xs (index_summary xs))"

section \<open>Idle time at berth\<close>

text \<open>Berth stay and idle hours of a call with both intervals.\<close>

definition idle_and_stay :: "kpi_inputs \<Rightarrow> vessel_call \<Rightarrow> (rat \<times> rat) option" where
  "idle_and_stay inp vc =
     (case (span_hours inp [''ALL_FAST_ARRIVAL''] [''LAST_LINE_UNTIED_SAILING''] vc, span_hours inp [''CARGO_START''] [''CARGO_END''] vc) of
        (Some stay, Some work) \<Rightarrow> Some (max (fsub stay work) 0, stay) | _ \<Rightarrow> None)"

definition frd_kpi_17_18 :: "kpi \<Rightarrow> kpi_inputs \<Rightarrow> kpi_value" where
  "frd_kpi_17_18 k inp =
     (let rows = List.map_filter (idle_and_stay inp) (in_calls inp); idle = map fst rows; berth = map snd rows
      in if idle = [] then kpi_unavailable [Lit ''No eligible berth and cargo-operation intervals.'']
         else if kp_code k = Some ''KPI-17'' then avg_of k idle [(''definition'', JStr ''berth stay minus cargo working interval'')]
         else if fsum berth = 0 then kpi_unavailable [Lit ''Total berth time is zero.'']
         else computed k (fmul (fdiv (fsum idle) (fsum berth)) 100) (Some (fround 4 (fsum idle))) (Some (fround 4 (fsum berth)))
                [(''definition'', JStr ''idle hours / berth hours'')])"

definition frd_kpi_19_20 :: "kpi \<Rightarrow> kpi_inputs \<Rightarrow> kpi_value" where
  "frd_kpi_19_20 k inp =
     (let pairs = in_shifts inp; xs = map fst pairs;
          d = [(''shift_pairs'', size_of xs), (''source_event_ids'', JList (concat (map (\<lambda>(h, a, b). [JStr a, JStr b]) pairs)))]
      in if pairs = [] then kpi_unavailable [Lit ''No eligible intra-port shift event pairs.'']
         else if kp_code k = Some ''KPI-19'' then computed k (of_nat (length xs)) (count_of xs) None d
         else avg_of k xs d)"

section \<open>Cargo and cranes\<close>

text \<open>The quantity, working hours and resources of the operations that have all three, zero hours or cranes left out.\<close>

definition crane_work :: "cargo_operation \<Rightarrow> (rat \<times> rat \<times> int) option" where
  "crane_work o' = (case (co_actual_quantity o', co_working_hours o', co_resources_deployed o') of
     (Some q, Some h, Some r) \<Rightarrow> if co_unit o' = Some ''TEU'' \<and> h \<noteq> 0 \<and> r \<noteq> 0 then Some (q, h, r) else None | _ \<Rightarrow> None)"

definition frd_kpi_21_30 :: "kpi \<Rightarrow> kpi_inputs \<Rightarrow> kpi_value" where
  "frd_kpi_21_30 k inp =
     (let ops = List.map_filter crane_work (all_cargo inp (in_calls inp));
          denominator = fsum (map (\<lambda>(q, h, r). fmul h (of_int r)) ops); numerator = fsum (map fst ops)
      in if ops = [] \<or> denominator \<le> 0 then kpi_unavailable [Lit ''No eligible container moves with positive crane-hours.'']
         else computed k (fdiv numerator denominator) (Some (fround 4 numerator)) (Some (fround 4 denominator))
                [(''unit'', JStr ''TEU''), (''crane_hours'', JStr (''working_hours '' @ [CHR 0xC3, CHR 0x97] @ '' cranes_deployed''))])"

definition frd_kpi_23 :: "kpi \<Rightarrow> kpi_inputs \<Rightarrow> kpi_value" where
  "frd_kpi_23 k inp =
     (let quantity = unit_quantity ''MT'' (all_cargo inp (in_calls inp))
      in if quantity = 0 then kpi_unavailable [Lit ''No MT cargo-handling records.'']
         else computed k quantity (Some (fround 4 quantity)) None [(''unit'', JStr ''MT'')])"

text \<open>\<open>s.split(c)\<close> for one character.\<close>

fun split_char :: "char \<Rightarrow> string \<Rightarrow> string list" where
  "split_char c [] = [[]]"
| "split_char c (x # xs) = (if x = c then [] # split_char c xs
     else case split_char c xs of [] \<Rightarrow> [[x]] | p # ps \<Rightarrow> (x # p) # ps)"

definition included_operation_types :: "string list" where
  "included_operation_types = [''load'', ''discharge'', ''unload'', ''transshipment'', ''transhipment'']"

definition operation_tokens :: "string option \<Rightarrow> string list" where
  "operation_tokens t = map (\<lambda>x. py_lower (py_strip x)) (filter (\<lambda>x. py_strip x \<noteq> '''')
     (split_char (CHR '','') (map (\<lambda>c. if c = CHR ''/'' then CHR '','' else c) (or_empty t))))"

definition is_counted_container_operation :: "cargo_operation \<Rightarrow> bool" where
  "is_counted_container_operation o' \<longleftrightarrow>
     list_ex (\<lambda>t. List.member included_operation_types t) (operation_tokens (co_operation_type o'))"

definition frd_kpi_24 :: "kpi \<Rightarrow> kpi_inputs \<Rightarrow> kpi_value" where
  "frd_kpi_24 k inp =
     (let quantity = unit_quantity ''TEU'' (filter is_counted_container_operation (all_cargo inp (in_calls inp)))
      in if quantity = 0 then kpi_unavailable [Lit ''No eligible loaded, discharged, or transshipped TEU records.'']
         else computed k quantity (Some (fround 4 quantity)) None [(''unit'', JStr ''TEU''), (''included_operation_types'',
                JList (map JStr [''discharge'', ''load'', ''transhipment'', ''transshipment'', ''unload'']))])"

definition frd_kpi_25 :: "kpi \<Rightarrow> kpi_inputs \<Rightarrow> kpi_value" where
  "frd_kpi_25 k inp =
     (let calls = filter is_container (in_calls inp); moves = unit_quantity ''TEU'' (all_cargo inp calls)
      in if calls = [] \<or> moves = 0 then kpi_unavailable [Lit ''No eligible container vessel calls with TEU moves.'']
         else computed k (fdiv moves (of_nat (length calls))) (Some (fround 4 moves)) (count_of calls)
                [(''unit'', JStr ''TEU''), (''distinct_vessel_calls'', size_of calls)])"

text \<open>\<open>x += \<dots>\<close> in a loop: plain float addition in order.\<close>

definition accumulate :: "rat list \<Rightarrow> rat" where
  "accumulate xs = foldl fadd 0 xs"

definition frd_kpi_27 :: "kpi \<Rightarrow> kpi_inputs \<Rightarrow> kpi_value" where
  "frd_kpi_27 k inp =
     (case cargo_unit inp of
        None \<Rightarrow> kpi_unavailable [Lit ''A cargo unit filter is required; cargo units cannot be combined for berth-day output.'']
      | Some u \<Rightarrow>
          (let cargo = accumulate (map (\<lambda>vc. unit_quantity u (in_cargo inp (vc_id vc))) (in_calls inp));
               berth_hours = accumulate (span_durations inp [''ALL_FAST_ARRIVAL''] [''LAST_LINE_UNTIED_SAILING'']);
               days = fdiv berth_hours 24
           in if cargo = 0 \<or> berth_hours \<le> 0 then kpi_unavailable [Lit ''No eligible '', Str u, Lit '' cargo and berth-time records.'']
              else computed k (fdiv cargo days) (Some (fround 4 cargo)) (Some (fround 4 days)) [(''unit'', JStr u)]))"

definition frd_kpi_28 :: "kpi \<Rightarrow> kpi_inputs \<Rightarrow> kpi_value" where
  "frd_kpi_28 k inp =
     (let xs = List.map_filter co_resources_deployed (all_cargo inp (filter is_container (in_calls inp)))
      in if xs = [] then kpi_unavailable [Lit ''No eligible container operations with cranes deployed.'']
         else computed k (fdiv (of_int (sum_list xs)) (of_nat (length xs))) (Some (fl (of_int (sum_list xs)))) (count_of xs)
                [(''container_operations'', size_of xs)])"

definition equipment_hours :: "cargo_operation \<Rightarrow> (rat \<times> rat) option" where
  "equipment_hours o' = (case (co_working_hours o', co_downtime_hours o') of (Some w, Some d) \<Rightarrow> Some (w, d) | _ \<Rightarrow> None)"

definition frd_kpi_29 :: "kpi \<Rightarrow> kpi_inputs \<Rightarrow> kpi_value" where
  "frd_kpi_29 k inp =
     (let ops = List.map_filter equipment_hours (all_cargo inp (in_calls inp));
          total = fsum (map (\<lambda>(w, d). fadd w d) ops); downtime = fsum (map snd ops)
      in if ops = [] \<or> total \<le> 0 then kpi_unavailable [Lit ''No eligible equipment working and downtime hours.'']
         else computed k (fmul (fdiv downtime total) 100) (Some (fround 4 downtime)) (Some (fround 4 total))
                [(''total_equipment_hours'', JStr ''productive working + downtime'')])"

section \<open>Departures\<close>

text \<open>\<open>date()\<close> as a day number.\<close>

definition day_of :: "time \<Rightarrow> int" where
  "day_of t = t div (86400 * 10 ^ 6)"

definition departure_times :: "kpi_inputs \<Rightarrow> time list" where
  "departure_times inp = List.map_filter (\<lambda>vc. call_time inp vc [''ATD'', ''BREAKWATER_OUT'', ''PORT_LIMIT_OUT'']) (in_calls inp)"

definition calendar_days :: "kpi_inputs \<Rightarrow> time list \<Rightarrow> int" where
  "calendar_days inp ts =
     (let start = (case in_start inp of Some t \<Rightarrow> t | None \<Rightarrow> Min (set ts)); end' = (case in_end inp of Some t \<Rightarrow> t | None \<Rightarrow> Max (set ts))
      in max (day_of end' - day_of start + 1) 1)"

definition frd_kpi_45 :: "kpi \<Rightarrow> kpi_inputs \<Rightarrow> kpi_value" where
  "frd_kpi_45 k inp =
     (let ts = departure_times inp; days = calendar_days inp ts
      in if ts = [] then kpi_unavailable [Lit ''No outward departure timestamps.'']
         else computed k (fdiv (of_nat (length ts)) (of_int days)) (count_of ts) (Some (of_int days)) [(''calendar_days'', JInt days)])"

section \<open>Dispatch\<close>

definition frd_value :: "kpi \<Rightarrow> kpi_inputs \<Rightarrow> kpi_value option" where
  "frd_value k inp =
     (let code = (\<lambda>c. kp_code k = Some c)
      in if code ''KPI-01'' then Some (frd_kpi_01 k inp)
         else if code ''KPI-02'' then Some (frd_kpi_02 k inp)
         else if code ''KPI-05'' then Some (frd_kpi_05 k inp)
         else if code ''KPI-07'' \<or> code ''KPI-13'' then Some (avg_duration k inp [''PILOT_ON_BOARD_ARRIVAL''] [''ALL_FAST_ARRIVAL''] ''pilot-to-berth movement'')
         else if code ''KPI-12'' then Some (avg_duration k inp [''PILOT_SCHEDULED_ARRIVAL''] [''PILOT_ON_BOARD_ARRIVAL''] ''pilot boarding'')
         else if code ''KPI-15'' then Some (avg_duration k inp [''ALL_FAST_ARRIVAL''] [''LAST_LINE_UNTIED_SAILING''] ''berth stay'')
         else if code ''KPI-16'' then Some (frd_kpi_16 k inp)
         else if code ''KPI-17'' \<or> code ''KPI-18'' then Some (frd_kpi_17_18 k inp)
         else if code ''KPI-19'' \<or> code ''KPI-20'' then Some (frd_kpi_19_20 k inp)
         else if code ''KPI-21'' \<or> code ''KPI-30'' then Some (frd_kpi_21_30 k inp)
         else if code ''KPI-23'' then Some (frd_kpi_23 k inp)
         else if code ''KPI-24'' then Some (frd_kpi_24 k inp)
         else if code ''KPI-25'' then Some (frd_kpi_25 k inp)
         else if code ''KPI-27'' then Some (frd_kpi_27 k inp)
         else if code ''KPI-28'' then Some (frd_kpi_28 k inp)
         else if code ''KPI-29'' then Some (frd_kpi_29 k inp)
         else if code ''KPI-41'' then Some (avg_duration k inp [''ANCHORAGE_ARRIVAL''] [''BREAKWATER_OUT'', ''ATD''] ''turnaround'')
         else if code ''KPI-42'' then Some (avg_duration k inp [''ALL_FAST_ARRIVAL''] [''LAST_LINE_UNTIED_SAILING''] ''berth turnaround'')
         else if code ''KPI-43'' then Some (avg_duration k inp [''LAST_LINE_UNTIED_SAILING''] [''BREAKWATER_OUT'', ''PORT_LIMIT_OUT''] ''outward movement'')
         else if code ''KPI-45'' then Some (frd_kpi_45 k inp)
         else if code ''KPI-54'' then Some (avg_duration k inp [''PILOT_REQUEST_ARRIVAL''] [''PILOT_ON_BOARD_ARRIVAL''] ''pilot response'')
         else None)"

end
