(* ===== verification/KpiLegacy.thy ===== *)
theory KpiLegacy
  imports KpiFormulas
begin

text \<open>
  The older branches of \<open>_compute_kpi_value\<close>, one definition per branch, their dispatch, and the composition with
  the formula set in force. A code that has a branch in the formula set never reaches its older one.
\<close>

section \<open>Shared shapes\<close>

definition legacy_result :: "kpi \<Rightarrow> rat \<Rightarrow> rat \<Rightarrow> rat option \<Rightarrow> rat option \<Rightarrow> (string \<times> json) list \<Rightarrow> kpi_value" where
  "legacy_result k banded v num den d = \<lparr>kv_value = Some v, kv_numerator = num, kv_denominator = den, kv_status = KPI_COMPUTED,
     kv_band = kpi_band k banded, kv_reason = None, kv_summary = d\<rparr>"

text \<open>Here the band is that of the rounded average.\<close>

definition legacy_average :: "kpi \<Rightarrow> rat list \<Rightarrow> string \<Rightarrow> (string \<times> json) list \<Rightarrow> kpi_value" where
  "legacy_average k xs msg d =
     (if xs = [] then kpi_unavailable [Lit msg]
      else let avg = fround 4 (fmean xs) in legacy_result k avg avg (Some (fround 4 (fsum xs))) (count_of xs) d)"

definition legacy_span :: "kpi \<Rightarrow> kpi_inputs \<Rightarrow> string list \<Rightarrow> string list \<Rightarrow> string \<Rightarrow> kpi_value" where
  "legacy_span k inp start end' msg =
     (let xs = span_durations inp start end' in legacy_average k xs msg [(''sample_size'', size_of xs)])"

definition legacy_ratio :: "kpi \<Rightarrow> rat \<Rightarrow> rat \<Rightarrow> rat \<Rightarrow> string \<Rightarrow> (string \<times> json) list \<Rightarrow> kpi_value" where
  "legacy_ratio k v num den msg d =
     (if den = 0 then kpi_unavailable [Lit msg] else legacy_result k v v (Some (fround 2 num)) (Some (fround 2 den)) d)"

definition percent :: "rat \<Rightarrow> rat \<Rightarrow> rat" where
  "percent x y = fmul (fdiv x y) 100"

abbreviation num2 :: "rat \<Rightarrow> json" where
  "num2 x \<equiv> JNum (fround 2 x)"

definition legacy_kpi_01 :: "kpi \<Rightarrow> kpi_inputs \<Rightarrow> kpi_value" where
  "legacy_kpi_01 k inp = (let n = of_nat (length (in_calls inp))
     in legacy_result k n n (Some n) None [(''total_calls'', size_of (in_calls inp))])"

definition unit_label :: "cargo_operation \<Rightarrow> string" where
  "unit_label o' = (case truthy (co_unit o') of Some u \<Rightarrow> u | None \<Rightarrow> ''Unknown'')"

text \<open>The sums and counts by unit, in the order the units appear.\<close>

definition unit_totals :: "kpi_inputs \<Rightarrow> (string \<times> rat \<times> nat) list" where
  "unit_totals inp = map (\<lambda>(u, ops). (u, accumulate (map (\<lambda>o'. or_zero (co_actual_quantity o')) ops), length ops))
     (group_by unit_label (all_cargo inp (in_calls inp)))"

definition unit_breakdown :: "kpi_inputs \<Rightarrow> json" where
  "unit_breakdown inp = JObj (map (\<lambda>(u, q, n). (u, JObj [(''total_quantity'', num2 q), (''vessel_calls'', JInt (int n)),
     (''average'', if 0 < n then num2 (fdiv q (of_nat n)) else JNull)])) (unit_totals inp))"

definition legacy_kpi_02 :: "kpi \<Rightarrow> kpi_inputs \<Rightarrow> kpi_value" where
  "legacy_kpi_02 k inp =
     (let u = (case map_of (in_filters inp) ''unit'' of Some u \<Rightarrow> u | None \<Rightarrow> ''TEU'');
          (total, n) = (case map_of (unit_totals inp) u of Some r \<Rightarrow> r | None \<Rightarrow> (0, 0));
          avg = fround 2 (fdiv total (of_nat n))
      in if n = 0 then (kpi_unavailable [Lit ''No cargo records for unit '', Str u])\<lparr>kv_summary := [(''breakdown_by_unit'', unit_breakdown inp)]\<rparr>
         else legacy_result k avg avg (Some total) (Some (of_nat n)) [(''segmented_unit'', JStr u), (''breakdown_by_unit'', unit_breakdown inp),
                (''disclosure'', JStr (''Never mixes units into an unqualified combined total (spec '' @ [CHR 0xC2, CHR 0xA7] @ ''11).''))])"

definition anchorage_arrival :: "string list" where "anchorage_arrival = [''ANCHORAGE_ARRIVAL'', ''Anchorage Arrival'']"

definition legacy_kpi_03 :: "kpi \<Rightarrow> kpi_inputs \<Rightarrow> kpi_value" where
  "legacy_kpi_03 k inp = legacy_span k inp anchorage_arrival [''PILOT_ON_BOARD_ARRIVAL'', ''Pilot On Board''] ''No valid pre-berthing wait events.''"

definition legacy_kpi_04 :: "kpi \<Rightarrow> kpi_inputs \<Rightarrow> kpi_value" where
  "legacy_kpi_04 k inp = legacy_span k inp anchorage_arrival [''FIRST_LINE_TIED_ARRIVAL'', ''First Line Tied''] ''No valid pre-berthing delay records.''"

definition legacy_kpi_05 :: "kpi \<Rightarrow> kpi_inputs \<Rightarrow> kpi_value" where
  "legacy_kpi_05 k inp =
     (let xs = span_durations inp anchorage_arrival [''PILOT_ON_BOARD_ARRIVAL'', ''Pilot On Board'']; mean = fmean xs;
          variance = sample_variance xs mean; std = fround 4 (fsqrt variance)
      in if length xs < 2 then kpi_unavailable [Lit ''Insufficient anchorage records (need at least 2 for stddev).'']
         else legacy_result k std std (Some (fround 4 (fsum xs))) (count_of xs)
                [(''sample_size'', size_of xs), (''mean_wait_hours'', JNum (fround 4 mean)), (''variance'', JNum (fround 4 variance))])"

definition legacy_kpi_07 :: "kpi \<Rightarrow> kpi_inputs \<Rightarrow> kpi_value" where
  "legacy_kpi_07 k inp = legacy_span k inp [''TUG_ATTACH_ARRIVAL'', ''PILOT_ON_BOARD_ARRIVAL'', ''Pilot On Board''] [''ALL_FAST_ARRIVAL'', ''All Fast'']
     ''No inward towage events recorded.''"

section \<open>Services\<close>

definition service_named :: "string \<Rightarrow> service_view \<Rightarrow> bool" where
  "service_named n v \<longleftrightarrow> py_in n (sv_service_type v)"

definition all_services :: "kpi_inputs \<Rightarrow> service_view list" where
  "all_services inp = concat (map (\<lambda>vc. in_services inp (vc_id vc)) (in_calls inp))"

definition legacy_kpi_08 :: "kpi \<Rightarrow> kpi_inputs \<Rightarrow> kpi_value" where
  "legacy_kpi_08 k inp =
     (let xs = span_durations inp [''TUG_ATTACH_ARRIVAL'', ''PILOT_ON_BOARD_ARRIVAL''] [''ALL_FAST_ARRIVAL''];
          tugs = filter (service_named ''Tug'') (all_services inp);
          choice = (case map_of (in_filters inp) ''towage_denominator'' of Some c \<Rightarrow> c | None \<Rightarrow> ''assisted_vessels'');
          (choice, n) = (if choice = ''services'' \<and> tugs \<noteq> [] then (choice, length tugs) else (''assisted_vessels'', length xs));
          v = fround 4 (fdiv (fsum xs) (of_nat n))
      in if xs = [] then kpi_unavailable [Lit ''No towage records available.'']
         else legacy_result k v v (Some (fround 4 (fsum xs))) (Some (of_nat n))
                [(''denominator_choice'', JStr choice), (''assisted_vessels'', size_of xs), (''total_services'', size_of tugs)])"

definition legacy_kpi_09 :: "kpi \<Rightarrow> kpi_inputs \<Rightarrow> kpi_value" where
  "legacy_kpi_09 k inp = legacy_span k inp [''FIRST_LINE_UNTIED_SAILING'', ''LAST_LINE_UNTIED_SAILING'', ''PILOT_ON_BOARD_SAILING'']
     [''TUG_RELEASE_SAILING'', ''BREAKWATER_OUT'', ''Breakwater Out''] ''No outward towage events.''"

text \<open>Served minus scheduled time, negative when early.\<close>

definition service_delay :: "service_view \<Rightarrow> rat option" where
  "service_delay v = (case (sv_scheduled_time v, sv_served_time v) of (Some a, Some b) \<Rightarrow> Some (raw_hours a b) | _ \<Rightarrow> None)"

definition arrival_movement :: "service_view \<Rightarrow> bool" where
  "arrival_movement v \<longleftrightarrow> py_in ''Arrival'' (or_empty (sv_movement_type v)) \<or> or_empty (sv_movement_type v) = ''''"

definition arrival_service_average :: "kpi \<Rightarrow> kpi_inputs \<Rightarrow> (service_view \<Rightarrow> bool) \<Rightarrow> string \<Rightarrow> kpi_value" where
  "arrival_service_average k inp p msg =
     (let xs = List.map_filter service_delay (filter (\<lambda>v. p v \<and> arrival_movement v) (all_services inp))
      in legacy_average k xs msg [(''sample_size'', size_of xs), (''early_service_count'', size_of (filter (\<lambda>d. d < 0) xs))])"

definition legacy_kpi_10 :: "kpi \<Rightarrow> kpi_inputs \<Rightarrow> kpi_value" where
  "legacy_kpi_10 k inp = arrival_service_average k inp (service_named ''Pilot'') ''No pilot service execution records.''"

definition legacy_kpi_11 :: "kpi \<Rightarrow> kpi_inputs \<Rightarrow> kpi_value" where
  "legacy_kpi_11 k inp = arrival_service_average k inp (service_named ''Tug'') ''No tug service execution records.''"

definition legacy_kpi_12 :: "kpi \<Rightarrow> kpi_inputs \<Rightarrow> kpi_value" where
  "legacy_kpi_12 k inp = arrival_service_average k inp (\<lambda>v. service_named ''Mooring'' v \<or> service_named ''Berthing'' v)
     ''No mooring/berthing service records found in data.''"

section \<open>Berths\<close>

definition legacy_kpi_13 :: "kpi \<Rightarrow> kpi_inputs \<Rightarrow> kpi_value" where
  "legacy_kpi_13 k inp =
     (let waits = List.map_filter (\<lambda>vc. case (call_time inp vc [''ANCHORAGE_ARRIVAL''], call_time inp vc [''PILOT_ON_BOARD_ARRIVAL'']) of
            (Some a, Some b) \<Rightarrow> Some (raw_hours a b) | _ \<Rightarrow> None) (in_calls inp);
          on_time = filter (\<lambda>w. w \<le> 1) waits; rate = fround 2 (percent (of_nat (length on_time)) (of_nat (length waits)))
      in if waits = [] then kpi_unavailable [Lit ''No berthing records.'']
         else legacy_result k rate rate (count_of on_time) (count_of waits) [(''available_calls'', size_of on_time), (''total_calls'', size_of waits)])"

definition berth_interval :: "kpi_inputs \<Rightarrow> vessel_call \<Rightarrow> (time \<times> time) option" where
  "berth_interval inp vc = (case (call_time inp vc [''ALL_FAST_ARRIVAL'', ''All Fast''], call_time inp vc [''LAST_LINE_UNTIED_SAILING'', ''Last Line Untied'']) of
     (Some a, Some b) \<Rightarrow> if a \<le> b then Some (a, b) else None | _ \<Rightarrow> None)"

definition legacy_kpi_14 :: "kpi \<Rightarrow> kpi_inputs \<Rightarrow> kpi_value" where
  "legacy_kpi_14 k inp =
     (let stays = List.map_filter (berth_interval inp) (in_calls inp); total = fsum (map (\<lambda>(a, b). raw_hours a b) stays);
          period = max (raw_hours (Min (set (map fst stays))) (Max (set (map snd stays)))) 1; capacity = fmul 4 period;
          pct = fround 2 (min (percent total capacity) 100)
      in if stays = [] then kpi_unavailable [Lit ''No berth stay data.'']
         else legacy_result k pct pct (Some (fround 2 total)) (Some (fround 2 capacity))
                [(''assumed_berth_count'', JNum 4), (''period_hours'', num2 period), (''total_berth_stay_hours'', num2 total)])"

definition legacy_kpi_15 :: "kpi \<Rightarrow> kpi_inputs \<Rightarrow> kpi_value" where
  "legacy_kpi_15 k inp = legacy_span k inp [''FIRST_LINE_TIED_ARRIVAL'', ''ALL_FAST_ARRIVAL''] [''LAST_LINE_UNTIED_SAILING''] ''No berth turnaround records.''"

text \<open>The calls with cargo operations and a span of positive length, with the cargo and the hours of the span.\<close>

definition worked_spans :: "kpi_inputs \<Rightarrow> string list \<Rightarrow> string list \<Rightarrow> (cargo_operation list \<times> rat) list" where
  "worked_spans inp start end' = List.map_filter (\<lambda>vc. case (call_time inp vc start, call_time inp vc end') of
     (Some a, Some b) \<Rightarrow> if in_cargo inp (vc_id vc) \<noteq> [] \<and> a < b then Some (in_cargo inp (vc_id vc), raw_hours a b) else None
   | _ \<Rightarrow> None) (in_calls inp)"

definition berth_work :: "kpi_inputs \<Rightarrow> (cargo_operation list \<times> rat) list" where
  "berth_work inp = worked_spans inp [''ALL_FAST_ARRIVAL''] [''LAST_LINE_UNTIED_SAILING'']"

definition sum_of :: "(cargo_operation \<Rightarrow> rat option) \<Rightarrow> cargo_operation list \<Rightarrow> rat" where
  "sum_of f ops = fsum (map (\<lambda>o'. or_zero (f o')) ops)"

definition legacy_kpi_16 :: "kpi \<Rightarrow> kpi_inputs \<Rightarrow> kpi_value" where
  "legacy_kpi_16 k inp =
     (let rows = berth_work inp; cargo = accumulate (map (\<lambda>r. sum_of co_actual_quantity (fst r)) rows); stay = accumulate (map snd rows)
      in legacy_ratio k (fround 2 (fdiv cargo stay)) cargo stay ''No berth stay data for cargo calls.''
           [(''total_cargo'', num2 cargo), (''total_berth_stay_hours'', num2 stay)])"

definition legacy_kpi_17 :: "kpi \<Rightarrow> kpi_inputs \<Rightarrow> kpi_value" where
  "legacy_kpi_17 k inp =
     (let rows = berth_work inp; work = accumulate (map (\<lambda>r. sum_of co_working_hours (fst r)) rows); stay = accumulate (map snd rows)
      in legacy_ratio k (fround 2 (min (percent work stay) 100)) work stay ''No berth stay or working hours.''
           [(''working_hours'', num2 work), (''berth_stay_hours'', num2 stay)])"

definition legacy_kpi_18 :: "kpi \<Rightarrow> kpi_inputs \<Rightarrow> kpi_value" where
  "legacy_kpi_18 k inp =
     (let ops = all_cargo inp (in_calls inp); cargo = accumulate (map (\<lambda>o'. or_zero (co_actual_quantity o')) ops);
          work = accumulate (map (\<lambda>o'. or_zero (co_working_hours o')) ops)
      in legacy_ratio k (fround 2 (fdiv cargo work)) cargo work ''No working hours logged.''
           [(''total_cargo'', num2 cargo), (''total_working_hours'', num2 work)])"

definition legacy_kpi_19 :: "kpi \<Rightarrow> kpi_inputs \<Rightarrow> kpi_value" where
  "legacy_kpi_19 k inp =
     (let xs = map (\<lambda>(ops, stay). max (fsub stay (sum_of co_working_hours ops)) 0) (berth_work inp)
      in legacy_average k xs ''No berth stay data.'' [(''sample_size'', size_of xs)])"

definition legacy_kpi_20 :: "kpi \<Rightarrow> kpi_inputs \<Rightarrow> kpi_value" where
  "legacy_kpi_20 k inp = legacy_span k inp [''ALL_FAST_ARRIVAL''] [''LAST_LINE_UNTIED_SAILING''] ''No berth dwell events.''"

section \<open>Cranes and cargo\<close>

definition container_work :: "kpi_inputs \<Rightarrow> (rat \<times> rat \<times> cargo_operation) list" where
  "container_work inp = List.map_filter (\<lambda>o'. case (co_actual_quantity o', co_working_hours o') of
     (Some q, Some h) \<Rightarrow> if co_unit o' = Some ''TEU'' \<and> h \<noteq> 0 \<and> q \<noteq> 0 then Some (q, h, o') else None
   | _ \<Rightarrow> None) (all_cargo inp (in_calls inp))"

text \<open>\<open>op.resources_deployed or 1\<close>.\<close>

definition cranes :: "cargo_operation \<Rightarrow> rat" where
  "cranes o' = (case co_resources_deployed o' of Some r \<Rightarrow> if r = 0 then 1 else of_int r | None \<Rightarrow> 1)"

definition crane_hours :: "(rat \<times> rat \<times> cargo_operation) list \<Rightarrow> rat" where
  "crane_hours ops = fsum (map (\<lambda>(q, h, o'). fmul h (cranes o')) ops)"

definition legacy_kpi_21 :: "kpi \<Rightarrow> kpi_inputs \<Rightarrow> kpi_value" where
  "legacy_kpi_21 k inp =
     (let ops = container_work inp; moves = fsum (map fst ops); hours = crane_hours ops
      in if ops = [] then kpi_unavailable [Lit ''No container operations with working hours.'']
         else legacy_ratio k (fround 2 (fdiv moves hours)) moves hours ''Total crane hours is zero.''
           [(''total_container_moves'', num2 moves), (''total_crane_hours'', num2 hours), (''rule'', JStr (''moves / crane-hours (spec '' @ [CHR 0xC2, CHR 0xA7] @ ''11).''))])"

definition legacy_kpi_22 :: "kpi \<Rightarrow> kpi_inputs \<Rightarrow> kpi_value" where
  "legacy_kpi_22 k inp =
     (let ops = container_work inp; moves = fsum (map fst ops); hours = fsum (map (\<lambda>(q, h, o'). h) ops)
      in if ops = [] then kpi_unavailable [Lit ''No container operations.'']
         else legacy_ratio k (fround 2 (fdiv moves hours)) moves hours ''Zero working hours.'' [(''total_moves'', JNum moves), (''gross_working_hours'', JNum hours)])"

definition legacy_kpi_23 :: "kpi \<Rightarrow> kpi_inputs \<Rightarrow> kpi_value" where
  "legacy_kpi_23 k inp =
     (let ops = container_work inp; moves = fsum (map fst ops);
          net = fsum (map (\<lambda>(q, h, o'). max (fsub h (or_zero (co_downtime_hours o'))) (dec 1)) ops); v = fround 2 (fdiv moves net)
      in if ops = [] then kpi_unavailable [Lit ''No container operations.'']
         else legacy_result k v v (Some (fround 2 moves)) (Some (fround 2 net)) [(''total_moves'', JNum moves), (''net_working_hours'', num2 net)])"

definition legacy_kpi_24 :: "kpi \<Rightarrow> kpi_inputs \<Rightarrow> kpi_value" where
  "legacy_kpi_24 k inp =
     (let teu = unit_quantity ''TEU'' (all_cargo inp (in_calls inp))
      in legacy_result k teu (fround 2 teu) (Some (fround 2 teu)) None
           [(''restow_treatment'', JStr ''excluded_from_primary_throughput_unless_restow_flag_set''), (''total_teu'', num2 teu)])"

definition legacy_kpi_25 :: "kpi \<Rightarrow> kpi_inputs \<Rightarrow> kpi_value" where
  "legacy_kpi_25 k inp = legacy_span k inp [''CARGO_START'', ''Cargo Operations Start''] [''CARGO_END'', ''Cargo Operations End''] ''No cargo timing events recorded.''"

definition legacy_kpi_27 :: "kpi \<Rightarrow> kpi_inputs \<Rightarrow> kpi_value" where
  "legacy_kpi_27 k inp = legacy_span k inp [''CARGO_END'', ''Cargo Operations End''] [''LAST_LINE_UNTIED_SAILING'', ''ATD'', ''Departure from Berth'']
     ''No cargo-end or departure events.''"

definition legacy_kpi_28 :: "kpi \<Rightarrow> kpi_inputs \<Rightarrow> kpi_value" where
  "legacy_kpi_28 k inp =
     (let xs = map (sum_of co_downtime_hours) (filter (\<lambda>ops. ops \<noteq> []) (map (\<lambda>vc. in_cargo inp (vc_id vc)) (in_calls inp)))
      in legacy_average k xs ''No cargo downtime records.'' [(''sample_size'', size_of xs)])"

definition legacy_kpi_29 :: "kpi \<Rightarrow> kpi_inputs \<Rightarrow> kpi_value" where
  "legacy_kpi_29 k inp =
     (let h = sum_of co_working_hours (all_cargo inp (in_calls inp))
      in legacy_result k h (fround 2 h) (Some (fround 2 h)) None [(''total_working_hours'', num2 h)])"

definition legacy_kpi_30 :: "kpi \<Rightarrow> kpi_inputs \<Rightarrow> kpi_value" where
  "legacy_kpi_30 k inp =
     (let ops = container_work inp; moves = fsum (map fst ops); hours = crane_hours ops
      in if ops = [] then kpi_unavailable [Lit ''No container operations.'']
         else legacy_ratio k (fround 2 (fdiv moves hours)) moves hours ''Zero crane hours.''
           [(''total_moves'', num2 moves), (''summed_crane_hours'', num2 hours)])"

section \<open>Turnaround, delays and utilisation\<close>

definition legacy_kpi_41 :: "kpi \<Rightarrow> kpi_inputs \<Rightarrow> kpi_value" where
  "legacy_kpi_41 k inp =
     (let xs = span_durations inp anchorage_arrival [''BREAKWATER_OUT'', ''LAST_LINE_UNTIED_SAILING'', ''ATD'']
      in legacy_average k xs ''No valid turnaround spans.''
           [(''definition'', JStr (''Departure '' @ [CHR 0xE2, CHR 0x88, CHR 0x92] @ '' Anchorage Arrival (distinct from ATA-to-ATD Turnaround)'')),
            (''sample_size'', size_of xs)])"

definition legacy_kpi_42 :: "kpi \<Rightarrow> kpi_inputs \<Rightarrow> kpi_value" where
  "legacy_kpi_42 k inp = legacy_span k inp [''ANCHORAGE_ARRIVAL''] [''PILOT_ON_BOARD_ARRIVAL'', ''ANCHORAGE_DEPARTURE'', ''Anchor Aweigh'']
     ''No anchorage events recorded.''"

definition legacy_kpi_43 :: "kpi \<Rightarrow> kpi_inputs \<Rightarrow> kpi_value" where
  "legacy_kpi_43 k inp =
     (let rows = worked_spans inp [''ANCHORAGE_ARRIVAL'', ''ATA''] [''LAST_LINE_UNTIED_SAILING'', ''ATD''];
          work = accumulate (map (\<lambda>r. sum_of co_working_hours (fst r)) rows); tat = accumulate (map snd rows)
      in legacy_ratio k (fround 2 (min (percent work tat) 100)) work tat ''No turnaround data.''
           [(''working_hours'', num2 work), (''turnaround_hours'', num2 tat)])"

definition legacy_kpi_44 :: "kpi \<Rightarrow> kpi_inputs \<Rightarrow> kpi_value" where
  "legacy_kpi_44 k inp =
     (let xs = span_durations inp [''ATA''] [''ATD'']
      in legacy_average k xs ''No valid ATA/ATD pairs.'' [(''definition'', JStr ''ATD - ATA port stay time''), (''sample_size'', size_of xs)])"

definition legacy_kpi_45 :: "kpi \<Rightarrow> kpi_inputs \<Rightarrow> kpi_value" where
  "legacy_kpi_45 k inp =
     (let ds = concat (map (\<lambda>vc. in_delays inp (vc_id vc)) (in_calls inp)); h = fsum (map dl_total_duration_hours ds)
      in legacy_result k h (fround 2 h) (Some (fround 2 h)) (count_of ds)
           [(''total_delay_records'', size_of ds), (''total_delay_hours'', num2 h)])"

text \<open>A fixed number of hours for each service, over a fleet of four and a month of 720 hours.\<close>

definition utilisation :: "kpi \<Rightarrow> kpi_inputs \<Rightarrow> string \<Rightarrow> rat \<Rightarrow> string \<Rightarrow> kpi_value" where
  "utilisation k inp name each label =
     (let hours = accumulate (map (\<lambda>v. each) (filter (service_named name) (all_services inp))); v = fround 2 (min (percent hours 2880) 100)
      in legacy_result k v v (Some (fround 2 hours)) (Some 2880)
           [(label, JInt 4), (''service_hours'', num2 hours), (''capacity_hours'', JNum 2880)])"

definition legacy_kpi_49 :: "kpi \<Rightarrow> kpi_inputs \<Rightarrow> kpi_value" where
  "legacy_kpi_49 k inp = utilisation k inp ''Pilot'' 2 ''assumed_pilots''"

definition legacy_kpi_50 :: "kpi \<Rightarrow> kpi_inputs \<Rightarrow> kpi_value" where
  "legacy_kpi_50 k inp = utilisation k inp ''Tug'' (3 / 2) ''assumed_tugs''"

definition legacy_kpi_54 :: "kpi \<Rightarrow> kpi_inputs \<Rightarrow> kpi_value" where
  "legacy_kpi_54 k inp =
     (let xs = List.map_filter service_delay (filter (\<lambda>v. py_in ''Sailing'' (or_empty (sv_movement_type v))) (all_services inp));
          on_time = filter (\<lambda>d. d \<le> 1 / 2) xs; rate = fround 2 (percent (of_nat (length on_time)) (of_nat (length xs)))
      in if xs = [] then kpi_unavailable [Lit ''No sailing service records.'']
         else legacy_result k rate rate (count_of on_time) (count_of xs) [(''on_time_sailings'', size_of on_time), (''total_sailings'', size_of xs)])"

section \<open>Dispatch\<close>

definition legacy_branches :: "(string \<times> (kpi \<Rightarrow> kpi_inputs \<Rightarrow> kpi_value)) list" where
  "legacy_branches =
     [(''KPI-01'', legacy_kpi_01), (''KPI-02'', legacy_kpi_02), (''KPI-03'', legacy_kpi_03), (''KPI-04'', legacy_kpi_04),
      (''KPI-05'', legacy_kpi_05), (''KPI-07'', legacy_kpi_07), (''KPI-08'', legacy_kpi_08), (''KPI-09'', legacy_kpi_09),
      (''KPI-10'', legacy_kpi_10), (''KPI-11'', legacy_kpi_11), (''KPI-12'', legacy_kpi_12), (''KPI-13'', legacy_kpi_13),
      (''KPI-14'', legacy_kpi_14), (''KPI-15'', legacy_kpi_15), (''KPI-16'', legacy_kpi_16), (''KPI-17'', legacy_kpi_17),
      (''KPI-18'', legacy_kpi_18), (''KPI-19'', legacy_kpi_19), (''KPI-20'', legacy_kpi_20), (''KPI-21'', legacy_kpi_21),
      (''KPI-22'', legacy_kpi_22), (''KPI-23'', legacy_kpi_23), (''KPI-24'', legacy_kpi_24), (''KPI-25'', legacy_kpi_25),
      (''KPI-27'', legacy_kpi_27), (''KPI-28'', legacy_kpi_28), (''KPI-29'', legacy_kpi_29), (''KPI-30'', legacy_kpi_30),
      (''KPI-41'', legacy_kpi_41), (''KPI-42'', legacy_kpi_42), (''KPI-43'', legacy_kpi_43), (''KPI-44'', legacy_kpi_44),
      (''KPI-45'', legacy_kpi_45), (''KPI-49'', legacy_kpi_49), (''KPI-50'', legacy_kpi_50), (''KPI-54'', legacy_kpi_54)]"

definition legacy_value :: "kpi \<Rightarrow> kpi_inputs \<Rightarrow> kpi_value" where
  "legacy_value k inp =
     (case Option.bind (kp_code k) (map_of legacy_branches) of
        Some f \<Rightarrow> f k inp
      | None \<Rightarrow> kpi_unavailable [Lit ''Formula logic for '', OStr (kp_code k), Lit '' not mapped.''])"

definition compute_kpi_value :: "kpi \<Rightarrow> kpi_inputs \<Rightarrow> kpi_value" where
  "compute_kpi_value k inp =
     (if in_calls inp = [] then (kpi_unavailable [Lit ''No eligible vessel calls for population.''])\<lparr>kv_numerator := Some 0, kv_denominator := Some 0\<rparr>
      else case frd_value k inp of Some v \<Rightarrow> v | None \<Rightarrow> legacy_value k inp)"

section \<open>Facts\<close>

text \<open>What every outcome promises: a value with its band, or no value, a gray band and a reason.\<close>

definition outcome_ok :: "kpi_value \<Rightarrow> bool" where
  "outcome_ok v \<longleftrightarrow>
     (kv_status v = KPI_COMPUTED \<and> kv_value v \<noteq> None \<and> kv_band v \<noteq> GRAY \<and> kv_reason v = None) \<or>
     (kv_status v = KPI_UNAVAILABLE \<and> kv_value v = None \<and> kv_band v = GRAY \<and> kv_reason v \<noteq> None)"

lemma kpi_band_not_gray [simp]: "kpi_band k v \<noteq> GRAY"
  by (simp add: kpi_band_def evaluate_band_def Let_def)

lemma outcome_ok_shapes [simp]:
  "outcome_ok (computed k v num den d)" "outcome_ok (kpi_unavailable r)" "outcome_ok (legacy_result k b v num den d)"
  "outcome_ok (w\<lparr>kv_summary := d\<rparr>) = outcome_ok w" "outcome_ok (w\<lparr>kv_numerator := x, kv_denominator := y\<rparr>) = outcome_ok w"
  by (simp_all add: outcome_ok_def computed_def kpi_unavailable_def legacy_result_def)

lemma outcome_ok_averages [simp]:
  "outcome_ok (avg_of k xs d)" "outcome_ok (stdev_of k xs d)" "outcome_ok (avg_duration k inp a b l)"
  "outcome_ok (legacy_average k xs m d)" "outcome_ok (legacy_span k inp a b m)" "outcome_ok (legacy_ratio k v n e m d)"
  "outcome_ok (arrival_service_average k inp p m)" "outcome_ok (utilisation k inp nm e l)"
  by (simp_all add: avg_of_def stdev_of_def avg_duration_def legacy_average_def legacy_span_def legacy_ratio_def
    arrival_service_average_def utilisation_def Let_def)

lemma outcome_ok_frd:
  "outcome_ok (frd_kpi_01 k inp)" "outcome_ok (frd_kpi_02 k inp)" "outcome_ok (frd_kpi_05 k inp)" "outcome_ok (frd_kpi_16 k inp)"
  "outcome_ok (frd_kpi_17_18 k inp)" "outcome_ok (frd_kpi_19_20 k inp)" "outcome_ok (frd_kpi_21_30 k inp)" "outcome_ok (frd_kpi_23 k inp)"
  "outcome_ok (frd_kpi_24 k inp)" "outcome_ok (frd_kpi_25 k inp)" "outcome_ok (frd_kpi_27 k inp)" "outcome_ok (frd_kpi_28 k inp)"
  "outcome_ok (frd_kpi_29 k inp)" "outcome_ok (frd_kpi_45 k inp)"
  by (simp_all add: frd_kpi_01_def frd_kpi_02_def frd_kpi_05_def frd_kpi_16_def frd_kpi_17_18_def frd_kpi_19_20_def frd_kpi_21_30_def
    frd_kpi_23_def frd_kpi_24_def frd_kpi_25_def frd_kpi_27_def frd_kpi_28_def frd_kpi_29_def frd_kpi_45_def Let_def split: option.split)

lemma outcome_ok_legacy_spans:
  "outcome_ok (legacy_kpi_03 k inp)" "outcome_ok (legacy_kpi_04 k inp)" "outcome_ok (legacy_kpi_07 k inp)" "outcome_ok (legacy_kpi_09 k inp)"
  "outcome_ok (legacy_kpi_10 k inp)" "outcome_ok (legacy_kpi_11 k inp)" "outcome_ok (legacy_kpi_12 k inp)" "outcome_ok (legacy_kpi_15 k inp)"
  "outcome_ok (legacy_kpi_20 k inp)" "outcome_ok (legacy_kpi_25 k inp)" "outcome_ok (legacy_kpi_27 k inp)" "outcome_ok (legacy_kpi_42 k inp)"
  "outcome_ok (legacy_kpi_49 k inp)" "outcome_ok (legacy_kpi_50 k inp)"
  by (simp_all add: legacy_kpi_03_def legacy_kpi_04_def legacy_kpi_07_def legacy_kpi_09_def legacy_kpi_10_def legacy_kpi_11_def
    legacy_kpi_12_def legacy_kpi_15_def legacy_kpi_20_def legacy_kpi_25_def legacy_kpi_27_def legacy_kpi_42_def legacy_kpi_49_def legacy_kpi_50_def)

lemma outcome_ok_legacy_rest:
  "outcome_ok (legacy_kpi_01 k inp)" "outcome_ok (legacy_kpi_02 k inp)" "outcome_ok (legacy_kpi_05 k inp)" "outcome_ok (legacy_kpi_08 k inp)"
  "outcome_ok (legacy_kpi_13 k inp)" "outcome_ok (legacy_kpi_14 k inp)" "outcome_ok (legacy_kpi_16 k inp)" "outcome_ok (legacy_kpi_17 k inp)"
  "outcome_ok (legacy_kpi_18 k inp)" "outcome_ok (legacy_kpi_19 k inp)" "outcome_ok (legacy_kpi_21 k inp)" "outcome_ok (legacy_kpi_22 k inp)"
  "outcome_ok (legacy_kpi_23 k inp)" "outcome_ok (legacy_kpi_24 k inp)" "outcome_ok (legacy_kpi_28 k inp)" "outcome_ok (legacy_kpi_29 k inp)"
  "outcome_ok (legacy_kpi_30 k inp)" "outcome_ok (legacy_kpi_41 k inp)" "outcome_ok (legacy_kpi_43 k inp)" "outcome_ok (legacy_kpi_44 k inp)"
  "outcome_ok (legacy_kpi_45 k inp)" "outcome_ok (legacy_kpi_54 k inp)"
  by (simp_all add: legacy_kpi_01_def legacy_kpi_02_def legacy_kpi_05_def legacy_kpi_08_def legacy_kpi_13_def legacy_kpi_14_def legacy_kpi_16_def
    legacy_kpi_17_def legacy_kpi_18_def legacy_kpi_19_def legacy_kpi_21_def legacy_kpi_22_def legacy_kpi_23_def legacy_kpi_24_def legacy_kpi_28_def
    legacy_kpi_29_def legacy_kpi_30_def legacy_kpi_41_def legacy_kpi_43_def legacy_kpi_44_def legacy_kpi_45_def legacy_kpi_54_def Let_def
    split: prod.split)

lemma outcome_ok_legacy_value: "outcome_ok (legacy_value k inp)"
proof (cases "Option.bind (kp_code k) (map_of legacy_branches)")
  case None
  then show ?thesis by (simp add: legacy_value_def)
next
  case (Some f)
  then obtain c where "map_of legacy_branches c = Some f" by (cases "kp_code k") auto
  then have "f \<in> snd ` set legacy_branches" by (metis map_of_SomeD image_eqI snd_conv)
  then show ?thesis using Some
    by (auto simp: legacy_value_def legacy_branches_def outcome_ok_legacy_spans outcome_ok_legacy_rest)
qed

lemma outcome_ok_frd_value: "frd_value k inp = Some v \<Longrightarrow> outcome_ok v"
  by (simp add: frd_value_def Let_def outcome_ok_frd split: if_splits; force simp: outcome_ok_frd)

lemma outcome_ok_compute: "outcome_ok (compute_kpi_value k inp)"
  by (simp add: compute_kpi_value_def outcome_ok_legacy_value outcome_ok_frd_value split: option.split)

text \<open>A KPI is never given a made-up value: for every code and every population the calculation ends either
  COMPUTED, with a value, a coloured band and no reason, or UNAVAILABLE, without a value, with a gray band and a
  stated reason.\<close>
theorem kpi_outcome_typed: "outcome_ok (compute_kpi_value k inp)"
  by (rule outcome_ok_compute)

section \<open>Units are never mixed\<close>

definition only_cargo :: "(string option \<Rightarrow> bool) \<Rightarrow> kpi_inputs \<Rightarrow> kpi_inputs" where
  "only_cargo p inp = inp\<lparr>in_cargo := \<lambda>c. filter (\<lambda>o'. p (co_unit o')) (in_cargo inp c)\<rparr>"

lemma span_hours_only_cargo [simp]: "span_hours (inp\<lparr>in_cargo := f\<rparr>) = span_hours inp"
  by (simp add: span_hours_def call_time_def fun_eq_iff)

lemma only_cargo_simps [simp]:
  "in_calls (only_cargo p inp) = in_calls inp" "cargo_unit (only_cargo p inp) = cargo_unit inp"
  "span_durations (only_cargo p inp) = span_durations inp"
  "in_cargo (only_cargo p inp) c = filter (\<lambda>o'. p (co_unit o')) (in_cargo inp c)"
  by (simp_all add: only_cargo_def cargo_unit_def fun_eq_iff span_durations_def span_hours_def call_time_def)

lemma all_cargo_only: "all_cargo (only_cargo p inp) vcs = filter (\<lambda>o'. p (co_unit o')) (all_cargo inp vcs)"
  by (simp add: all_cargo_def filter_concat comp_def)

lemma unit_quantity_only: "p (Some u) \<Longrightarrow> unit_quantity u (filter (\<lambda>o'. p (co_unit o')) ops) = unit_quantity u ops"
  by (auto simp: unit_quantity_def intro!: arg_cong [where f = fsum] map_cong filter_cong)

lemma crane_work_only:
  "List.map_filter crane_work (filter (\<lambda>o'. co_unit o' = Some ''TEU'') ops) = List.map_filter crane_work ops"
  by (induction ops) (auto simp: map_filter_simps crane_work_def split: option.splits)

text \<open>Cargo units are never mixed: the average call size and the output per berth-day are the same when only the
  cargo rows of the requested unit are kept, the container KPIs when only TEU rows are, the tonnage when only MT rows
  are; and without a requested unit there is no average call size and no output per berth-day.\<close>
theorem cargo_units_never_mixed:
  "frd_kpi_02 k (only_cargo (\<lambda>u. u = cargo_unit inp) inp) = frd_kpi_02 k inp \<and>
   frd_kpi_27 k (only_cargo (\<lambda>u. u = cargo_unit inp) inp) = frd_kpi_27 k inp \<and>
   frd_kpi_21_30 k (only_cargo (\<lambda>u. u = Some ''TEU'') inp) = frd_kpi_21_30 k inp \<and>
   frd_kpi_24 k (only_cargo (\<lambda>u. u = Some ''TEU'') inp) = frd_kpi_24 k inp \<and>
   frd_kpi_25 k (only_cargo (\<lambda>u. u = Some ''TEU'') inp) = frd_kpi_25 k inp \<and>
   frd_kpi_23 k (only_cargo (\<lambda>u. u = Some ''MT'') inp) = frd_kpi_23 k inp \<and>
   kv_value (frd_kpi_02 k (inp\<lparr>in_filters := []\<rparr>)) = None \<and> kv_value (frd_kpi_27 k (inp\<lparr>in_filters := []\<rparr>)) = None"
proof (intro conjI)
  show "frd_kpi_02 k (only_cargo (\<lambda>u. u = cargo_unit inp) inp) = frd_kpi_02 k inp"
    by (cases "cargo_unit inp") (simp_all add: frd_kpi_02_def quantities_per_call_def unit_quantity_def)
  show "frd_kpi_27 k (only_cargo (\<lambda>u. u = cargo_unit inp) inp) = frd_kpi_27 k inp"
    by (cases "cargo_unit inp") (simp_all add: frd_kpi_27_def unit_quantity_def)
  show "frd_kpi_21_30 k (only_cargo (\<lambda>u. u = Some ''TEU'') inp) = frd_kpi_21_30 k inp"
    by (simp add: frd_kpi_21_30_def all_cargo_only crane_work_only)
  show "frd_kpi_24 k (only_cargo (\<lambda>u. u = Some ''TEU'') inp) = frd_kpi_24 k inp"
    by (simp add: frd_kpi_24_def all_cargo_only unit_quantity_def conj_commute conj_left_commute)
  show "frd_kpi_25 k (only_cargo (\<lambda>u. u = Some ''TEU'') inp) = frd_kpi_25 k inp"
    by (simp add: frd_kpi_25_def all_cargo_only unit_quantity_only [where p = "\<lambda>u. u = Some ''TEU''"])
  show "frd_kpi_23 k (only_cargo (\<lambda>u. u = Some ''MT'') inp) = frd_kpi_23 k inp"
    by (simp add: frd_kpi_23_def all_cargo_only unit_quantity_only [where p = "\<lambda>u. u = Some ''MT''"])
qed (simp_all add: frd_kpi_02_def frd_kpi_27_def cargo_unit_def truthy_def kpi_unavailable_def)

section \<open>Which branches the registry reaches\<close>

definition frd_codes :: "string list" where
  "frd_codes = [''KPI-01'', ''KPI-02'', ''KPI-05'', ''KPI-07'', ''KPI-12'', ''KPI-13'', ''KPI-15'', ''KPI-16'', ''KPI-17'', ''KPI-18'', ''KPI-19'',
     ''KPI-20'', ''KPI-21'', ''KPI-23'', ''KPI-24'', ''KPI-25'', ''KPI-27'', ''KPI-28'', ''KPI-29'', ''KPI-30'', ''KPI-41'', ''KPI-42'', ''KPI-43'',
     ''KPI-45'', ''KPI-54'']"

lemma frd_value_None_iff: "frd_value k inp = None \<longleftrightarrow> kp_code k \<notin> Some ` set frd_codes"
proof -
  have "frd_value k inp = None \<longleftrightarrow> list_all (\<lambda>c. kp_code k \<noteq> Some c) frd_codes"
    by (simp add: frd_value_def Let_def frd_codes_def)
  then show ?thesis by (auto simp: list_all_iff)
qed

definition computed_codes :: "string list" where
  "computed_codes = map ki_code (filter (\<lambda>c. ki_availability_status c = ''COMPUTED'') kpi_registry_definitions)"

lemma computed_codes_eq: "computed_codes =
   [''KPI-01'', ''KPI-02'', ''KPI-03'', ''KPI-04'', ''KPI-05'', ''KPI-07'', ''KPI-12'', ''KPI-13'', ''KPI-15'', ''KPI-16'', ''KPI-17'', ''KPI-18'',
    ''KPI-19'', ''KPI-20'', ''KPI-21'', ''KPI-23'', ''KPI-24'', ''KPI-25'', ''KPI-27'', ''KPI-28'', ''KPI-29'', ''KPI-30'', ''KPI-41'', ''KPI-42'',
    ''KPI-43'', ''KPI-45'', ''KPI-54'']"
proof -
  have "computed_codes = map fst (filter (\<lambda>(code, name, st, p, al). st = ''COMPUTED'') (map item_facts kpi_registry_definitions))"
    by (simp add: computed_codes_def filter_map comp_def item_facts_def)
  also have "\<dots> = [''KPI-01'', ''KPI-02'', ''KPI-03'', ''KPI-04'', ''KPI-05'', ''KPI-07'', ''KPI-12'', ''KPI-13'', ''KPI-15'', ''KPI-16'', ''KPI-17'', ''KPI-18'',
    ''KPI-19'', ''KPI-20'', ''KPI-21'', ''KPI-23'', ''KPI-24'', ''KPI-25'', ''KPI-27'', ''KPI-28'', ''KPI-29'', ''KPI-30'', ''KPI-41'', ''KPI-42'',
    ''KPI-43'', ''KPI-45'', ''KPI-54'']"
    unfolding registry_facts by simp
  finally show ?thesis .
qed

lemma frd_blank: "frd_value (k\<lparr>kp_code := Some c\<rparr>) inp = None \<longleftrightarrow> c \<notin> set frd_codes"
  by (auto simp: frd_value_None_iff)

text \<open>Of the 27 codes the registry computes, exactly KPI-03 and KPI-04 fall through the formula set in force to the older
  branches, contrary to the comment that every computed KPI returns before reaching them; those two are average spans
  from anchorage arrival, banded on the rounded average.\<close>
theorem legacy_branches_in_use:
  "filter (\<lambda>c. frd_value (k\<lparr>kp_code := Some c\<rparr>) inp = None) computed_codes = [''KPI-03'', ''KPI-04''] \<and>
   legacy_value (k\<lparr>kp_code := Some ''KPI-03''\<rparr>) inp = legacy_span (k\<lparr>kp_code := Some ''KPI-03''\<rparr>) inp [''ANCHORAGE_ARRIVAL'', ''Anchorage Arrival'']
     [''PILOT_ON_BOARD_ARRIVAL'', ''Pilot On Board''] ''No valid pre-berthing wait events.'' \<and>
   legacy_value (k\<lparr>kp_code := Some ''KPI-04''\<rparr>) inp = legacy_span (k\<lparr>kp_code := Some ''KPI-04''\<rparr>) inp [''ANCHORAGE_ARRIVAL'', ''Anchorage Arrival'']
     [''FIRST_LINE_TIED_ARRIVAL'', ''First Line Tied''] ''No valid pre-berthing delay records.''"
proof (intro conjI)
  show "filter (\<lambda>c. frd_value (k\<lparr>kp_code := Some c\<rparr>) inp = None) computed_codes = [''KPI-03'', ''KPI-04'']"
    unfolding frd_blank computed_codes_eq by (simp add: frd_codes_def)
qed (simp_all add: legacy_value_def legacy_branches_def legacy_kpi_03_def legacy_kpi_04_def anchorage_arrival_def)

end
