(* ===== verification/KpiService.thy ===== *)
theory KpiService
  imports KpiLegacy
begin

text \<open>
  The operations of the KPI engine: the calculation of one KPI with its persisted result, the scorecard of all,
  the audited recalculation and the trend.

  \<open>calculate_kpi\<close> follows an alias to its primary by calling itself; its first argument is the interpreter's
  recursion depth, and \<open>RecursionError\<close> is what Python raises when it is exhausted. A commit changes nothing a
  later query of the session sees, so \<open>persist\<close> has no counterpart.
\<close>

section \<open>One KPI\<close>

record kpi_query =
  kq_filters :: filters
  kq_start :: "time option"
  kq_end :: "time option"
  kq_grain :: string
  kq_is_recalculation :: bool

definition cohort_key_of :: "filters \<Rightarrow> fstring" where
  "cohort_key_of fs = (if fs = [] then [Lit ''all''] else [Js (JObj (map (\<lambda>(a, b). (a, JStr b)) fs))])"

definition kpi_row :: "time \<Rightarrow> kpi_engine \<Rightarrow> kpi_query \<Rightarrow> kpi \<Rightarrow> kpi_value \<Rightarrow> kpi_result" where
  "kpi_row now g q k v = \<lparr>kr_id = '''', kr_tenant_id = ke_tenant_id g, kr_kpi_id = kp_id k, kr_value = kv_value v, kr_status = kv_status v,
     kr_period_start = kq_start q, kr_period_end = kq_end q, kr_grain = kq_grain q, kr_cohort_key = cohort_key_of (kq_filters q),
     kr_cohort_filters = kq_filters q, kr_numerator_value = kv_numerator v, kr_denominator_value = kv_denominator v,
     kr_target_value = kp_target k, kr_band = kv_band v, kr_unavailable_reason = kv_reason v,
     kr_formula_version = current_formula_version, kr_data_quality_summary = kv_summary v, kr_calculated_at = now,
     kr_is_recalculation = kq_is_recalculation q\<rparr>"

definition no_source_value :: "kpi \<Rightarrow> kpi_value" where
  "no_source_value k = \<lparr>kv_value = None, kv_numerator = None, kv_denominator = None, kv_status = KPI_NO_SOURCE_DATA, kv_band = GRAY,
     kv_reason = Some [Lit ''No connected source system supplies inputs for '', Str (kp_name k), Lit ''. Required: '',
       Strs (kp_required_source_systems k), Lit ''.''],
     kv_summary = [(''required_source_systems'', JList (map JStr (kp_required_source_systems k)))]\<rparr>"

definition alias_row :: "time \<Rightarrow> kpi_engine \<Rightarrow> kpi_query \<Rightarrow> kpi \<Rightarrow> kpi \<Rightarrow> kpi_result \<Rightarrow> kpi_result" where
  "alias_row now g q k p r = r\<lparr>kr_id := '''', kr_tenant_id := ke_tenant_id g, kr_kpi_id := kp_id k, kr_period_start := kq_start q,
     kr_period_end := kq_end q, kr_grain := kq_grain q, kr_cohort_filters := kq_filters q, kr_target_value := kp_target k,
     kr_band := evaluate_band (kr_value r) (kp_target k) (kp_target_direction k) (kp_thresholds k),
     kr_data_quality_summary := [(''alias_of'', case kp_code p of Some c \<Rightarrow> JStr c | None \<Rightarrow> JNull), (''primary_result_id'', JStr (kr_id r)),
       (''notice'', JStr ''This metric is an alias for administrative reporting; primary logic executed.'')],
     kr_calculated_at := now, kr_is_recalculation := kq_is_recalculation q\<rparr>"

definition add_result :: "(nat \<Rightarrow> uid) \<Rightarrow> kpi_result \<Rightarrow> 'a kpi_db_scheme \<Rightarrow> kpi_result \<times> 'a kpi_db_scheme" where
  "add_result uuid r s = (let r = r\<lparr>kr_id := uuid (draws s)\<rparr> in (r, s\<lparr>kpi_results := kpi_results s @ [r], draws := draws s + 1\<rparr>))"

definition active_kpi :: "string option \<Rightarrow> 'a kpi_db_scheme \<Rightarrow> kpi option result" where
  "active_kpi code s = one_or_none (filter (\<lambda>k. kp_code k = code \<and> kp_is_active k) (kpis s))"

definition kpi_not_found :: "string option \<Rightarrow> fstring" where
  "kpi_not_found code = [Lit ''KPI with code ''] @ quoted code @ [Lit '' not found in registry.'']"

text \<open>The primary of an alias row, if it is one and the primary exists.\<close>

definition primary_of :: "kpi \<Rightarrow> 'a kpi_db_scheme \<Rightarrow> kpi option result" where
  "primary_of k s = (case kp_alias_of_id k of
     Some i \<Rightarrow> if kp_is_primary k then Inr None else get_by kp_id i (kpis s)
   | None \<Rightarrow> Inr None)"

primrec calculate_kpi ::
    "nat \<Rightarrow> (nat \<Rightarrow> uid) \<Rightarrow> time \<Rightarrow> kpi_engine \<Rightarrow> kpi_query \<Rightarrow> string option \<Rightarrow> 'a kpi_db_scheme \<Rightarrow> (kpi_result \<times> 'a kpi_db_scheme) result" where
  "calculate_kpi 0 uuid now g q code s = Inl RecursionError"
| "calculate_kpi (Suc n) uuid now g q code s =
     and_then (ensure_kpi_registry uuid s) (\<lambda>(m, s).
     and_then (active_kpi code s) (\<lambda>found. case found of
         None \<Rightarrow> Inl (ValueError (kpi_not_found code))
       | Some k \<Rightarrow>
           if kp_availability_status k = ''NO_SOURCE_DATA'' then Inr (add_result uuid (kpi_row now g q k (no_source_value k)) s)
           else and_then (primary_of k s) (\<lambda>primary. case primary of
               Some p \<Rightarrow> and_then (calculate_kpi n uuid now g q (kp_code p) s) (\<lambda>(r, s).
                 Inr (add_result uuid (alias_row now g q k p r) s))
             | None \<Rightarrow> Inr (add_result uuid (kpi_row now g q k
                 (compute_kpi_value k (load_inputs g (kq_filters q) (kq_start q) (kq_end q) s))) s))))"

section \<open>The scorecard\<close>

datatype score_entry =
    Score uid string string "rat option" kpi_status band "string option" "rat option" bool
  | Score_error string string py_error

definition entry_status :: "score_entry \<Rightarrow> kpi_status" where
  "entry_status e = (case e of Score _ _ _ _ st _ _ _ _ \<Rightarrow> st | Score_error _ _ _ \<Rightarrow> KPI_UNAVAILABLE)"

text \<open>\<open>kpi_map[code]\<close>: the row as it is when it is read.\<close>

definition mapped_kpi :: "(string \<times> uid) list \<Rightarrow> string \<Rightarrow> 'a kpi_db_scheme \<Rightarrow> kpi" where
  "mapped_kpi m code s = (case Option.bind (map_of m code) (\<lambda>i. last_with (\<lambda>k. kp_id k = i) (kpis s)) of
     Some k \<Rightarrow> k | None \<Rightarrow> blank_kpi '''')"

definition score_kpi ::
    "nat \<Rightarrow> (nat \<Rightarrow> uid) \<Rightarrow> time \<Rightarrow> kpi_engine \<Rightarrow> kpi_query \<Rightarrow> (string \<times> uid) list \<Rightarrow> string \<Rightarrow> 'a kpi_db_scheme \<Rightarrow>
     score_entry \<times> 'a kpi_db_scheme" where
  "score_kpi n uuid now g q m code s =
     (case calculate_kpi n uuid now g q (Some code) s of
        Inr (r, s) \<Rightarrow> (let k = mapped_kpi m code s
          in (Score (kr_kpi_id r) code (kp_name k) (kr_value r) (kr_status r) (kr_band r) (kp_unit k) (kr_target_value r) (kp_is_primary k), s))
      | Inl e \<Rightarrow> (Score_error code (kp_name (mapped_kpi m code s)) e, s))"

fun score_all ::
    "nat \<Rightarrow> (nat \<Rightarrow> uid) \<Rightarrow> time \<Rightarrow> kpi_engine \<Rightarrow> kpi_query \<Rightarrow> (string \<times> uid) list \<Rightarrow> string list \<Rightarrow> 'a kpi_db_scheme \<Rightarrow>
     (string \<times> score_entry) list \<times> 'a kpi_db_scheme" where
  "score_all n uuid now g q m [] s = ([], s)"
| "score_all n uuid now g q m (c # cs) s =
     (let (e, s) = score_kpi n uuid now g q m c s; (es, s) = score_all n uuid now g q m cs s in ((c, e) # es, s))"

record scorecard =
  sc_total_kpis :: nat
  sc_computed :: nat
  sc_no_source_data :: nat
  sc_unavailable :: nat
  sc_results :: "(string \<times> score_entry) list"

text \<open>A dictionary keyed by the code; the codes of the registry are distinct.\<close>

definition scorecard_of :: "(string \<times> score_entry) list \<Rightarrow> scorecard" where
  "scorecard_of es = (let count = (\<lambda>st. length (filter (\<lambda>(c, e). entry_status e = st) es))
     in \<lparr>sc_total_kpis = card (fst ` set es), sc_computed = count KPI_COMPUTED, sc_no_source_data = count KPI_NO_SOURCE_DATA,
         sc_unavailable = count KPI_UNAVAILABLE, sc_results = es\<rparr>)"

definition calculate_all_kpis ::
    "nat \<Rightarrow> (nat \<Rightarrow> uid) \<Rightarrow> time \<Rightarrow> kpi_engine \<Rightarrow> kpi_query \<Rightarrow> 'a kpi_db_scheme \<Rightarrow> (scorecard \<times> 'a kpi_db_scheme) result" where
  "calculate_all_kpis n uuid now g q s =
     and_then (ensure_kpi_registry uuid s) (\<lambda>(m, s).
       let (es, s) = score_all n uuid now g (q\<lparr>kq_is_recalculation := False\<rparr>) m (map ki_code kpi_registry_definitions) s
       in Inr (scorecard_of es, s))"

section \<open>Recalculation\<close>

record actor =
  ac_id :: string
  ac_role :: "string option"


definition recalculation_audit :: "actor \<Rightarrow> string option \<Rightarrow> filters \<Rightarrow> string \<Rightarrow> kpi \<Rightarrow> kpi_result option \<Rightarrow> kpi_result \<Rightarrow> audit_event" where
  "recalculation_audit a reason fs code k prev r = \<lparr>au_action = ''RECALCULATE'', au_actor_id = ac_id a,
     au_actor_role = (case truthy (ac_role a) of Some x \<Rightarrow> x | None \<Rightarrow> ''Operations''), au_resource_type = ''kpi_result'', au_resource_id = kr_id r,
     au_details = [(''kpi_code'', [Str code]), (''kpi_name'', [Str (kp_name k)]), (''previous_result_id'', [OStr (map_option kr_id prev)]),
       (''previous_value'', [ONum (Option.bind prev kr_value)]), (''new_value'', [ONum (kr_value r)]),
       (''reason'', case truthy reason of Some x \<Rightarrow> [Str x] | None \<Rightarrow> [Lit ''Governed KPI recalculation requested'']),
       (''cohort_filters'', [Js (JObj (map (\<lambda>(x, y). (x, JStr y)) fs))])]\<rparr>"

definition newest_result :: "kpi_engine \<Rightarrow> kpi \<Rightarrow> 'a kpi_db_scheme \<Rightarrow> kpi_result option" where
  "newest_result g k s = (case sorted_by_desc kr_calculated_at
     (filter (\<lambda>r. kr_kpi_id r = kp_id k \<and> kr_tenant_id r = ke_tenant_id g) (kpi_results s)) of [] \<Rightarrow> None | r # rs \<Rightarrow> Some r)"

text \<open>The attributes of a row read before are those the session holds when they are used.\<close>

definition reread :: "kpi \<Rightarrow> 'a kpi_db_scheme \<Rightarrow> kpi" where
  "reread k s = (case last_with (\<lambda>x. kp_id x = kp_id k) (kpis s) of Some k' \<Rightarrow> k' | None \<Rightarrow> k)"

definition recalculate_kpi ::
    "nat \<Rightarrow> (nat \<Rightarrow> uid) \<Rightarrow> time \<Rightarrow> kpi_engine \<Rightarrow> string \<Rightarrow> actor \<Rightarrow> string option \<Rightarrow> filters \<Rightarrow> 'a kpi_db_scheme \<Rightarrow> (kpi_result \<times> 'a kpi_db_scheme) result" where
  "recalculate_kpi n uuid now g code a reason fs s =
     and_then (active_kpi (Some code) s) (\<lambda>found. case found of
         None \<Rightarrow> Inl (ValueError [Lit ''KPI '', Str code, Lit '' not found.''])
       | Some k \<Rightarrow>
           (let prev = newest_result g k s
            in and_then (calculate_kpi n uuid now g \<lparr>kq_filters = fs, kq_start = None, kq_end = None, kq_grain = ''ALL'', kq_is_recalculation = True\<rparr> (Some code) s)
                 (\<lambda>(r, s). Inr (r, add_audit (recalculation_audit a reason fs code (reread k s) prev r) s))))"

section \<open>Trends\<close>

text \<open>\<open>strftime\<close> of a month or of a minute.\<close>

datatype period_label = Month time | Minute time

datatype direction = STABLE | IMPROVING | DETERIORATING

record trend_point =
  tp_period :: period_label
  tp_value :: "rat option"
  tp_band :: band

record trend_report =
  tr_name :: string
  tr_computed :: bool
  tr_unit :: "string option"
  tr_target :: "rat option"
  tr_target_direction :: "string option"
  tr_direction :: direction
  tr_delta :: "rat option"
  tr_percentage_change :: "rat option"
  tr_rolling_average_3p :: "rat option"
  tr_points :: "trend_point list"

datatype trend = No_trend string | Trend trend_report

definition stored_point :: "kpi_result \<Rightarrow> trend_point" where
  "stored_point r = \<lparr>tp_period = (case kr_period_start r of Some t \<Rightarrow> Month t | None \<Rightarrow> Minute (kr_calculated_at r)), tp_value = kr_value r, tp_band = kr_band r\<rparr>"

definition stored_points :: "kpi_engine \<Rightarrow> kpi \<Rightarrow> nat \<Rightarrow> 'a kpi_db_scheme \<Rightarrow> trend_point list" where
  "stored_points g k periods s = map stored_point (rev (take periods (sorted_by_desc kr_calculated_at
     (filter (\<lambda>r. kr_kpi_id r = kp_id k \<and> kr_tenant_id r = ke_tenant_id g \<and> kr_status r = KPI_COMPUTED) (kpi_results s)))))"

text \<open>Slices of 30 days ending \<open>i * 30\<close> days ago, the oldest first; every slice persists its result.\<close>

definition days30 :: time where "days30 = 30 * 86400 * 10 ^ 6"

primrec slice_points ::
    "nat \<Rightarrow> nat \<Rightarrow> (nat \<Rightarrow> uid) \<Rightarrow> time \<Rightarrow> kpi_engine \<Rightarrow> string \<Rightarrow> string \<Rightarrow> 'a kpi_db_scheme \<Rightarrow> (trend_point list \<times> 'a kpi_db_scheme) result" where
  "slice_points 0 n uuid now g code grain s = Inr ([], s)"
| "slice_points (Suc i) n uuid now g code grain s =
     (let p_end = now - int i * days30; p_start = p_end - days30
      in and_then (calculate_kpi n uuid now g \<lparr>kq_filters = [], kq_start = Some p_start, kq_end = Some p_end, kq_grain = grain,
             kq_is_recalculation = False\<rparr> (Some code) s) (\<lambda>(r, s).
         and_then (slice_points i n uuid now g code grain s) (\<lambda>(ps, s).
           Inr (if kr_status r = KPI_COMPUTED then \<lparr>tp_period = Month p_start, tp_value = kr_value r, tp_band = kr_band r\<rparr> # ps else ps, s))))"

definition trend_delta :: "rat list \<Rightarrow> rat option" where
  "trend_delta xs = (case rev xs of cur # prev # _ \<Rightarrow> Some (fround 4 (fsub cur prev)) | _ \<Rightarrow> None)"

definition trend_percentage :: "rat list \<Rightarrow> rat option" where
  "trend_percentage xs = (case rev xs of cur # prev # _ \<Rightarrow>
       if prev = 0 then None else Some (fround 2 (fmul (fdiv (fround 4 (fsub cur prev)) prev) 100)) | _ \<Rightarrow> None)"

definition trend_direction :: "string option \<Rightarrow> rat option \<Rightarrow> direction" where
  "trend_direction d delta =
     (case delta of None \<Rightarrow> STABLE
      | Some x \<Rightarrow>
          (let lower = (case truthy d of Some d \<Rightarrow> d = ''LOWER_IS_BETTER'' | None \<Rightarrow> True); eps = fl (1 / 100)
           in if x < - eps then if lower then IMPROVING else DETERIORATING
              else if eps < x then if lower then DETERIORATING else IMPROVING else STABLE))"

definition rolling_average :: "rat list \<Rightarrow> rat option" where
  "rolling_average xs = (if xs = [] then None else Some (fround 4 (fmean (drop (length xs - 3) xs))))"

definition trend_of :: "kpi \<Rightarrow> trend_point list \<Rightarrow> trend_report" where
  "trend_of k ps =
     (let xs = List.map_filter tp_value ps
      in \<lparr>tr_name = kp_name k, tr_computed = (ps \<noteq> []), tr_unit = kp_unit k, tr_target = kp_target k, tr_target_direction = kp_target_direction k,
          tr_direction = trend_direction (kp_target_direction k) (trend_delta xs), tr_delta = trend_delta xs,
          tr_percentage_change = trend_percentage xs, tr_rolling_average_3p = rolling_average xs, tr_points = ps\<rparr>)"

definition get_trends ::
    "nat \<Rightarrow> (nat \<Rightarrow> uid) \<Rightarrow> time \<Rightarrow> kpi_engine \<Rightarrow> string \<Rightarrow> string \<Rightarrow> nat \<Rightarrow> 'a kpi_db_scheme \<Rightarrow> (trend \<times> 'a kpi_db_scheme) result" where
  "get_trends n uuid now g code grain periods s =
     and_then (active_kpi (Some code) s) (\<lambda>found. case found of
         None \<Rightarrow> Inl (ValueError [Lit ''KPI '', Str code, Lit '' not found.''])
       | Some k \<Rightarrow>
           if kp_availability_status k = ''NO_SOURCE_DATA'' then Inr (No_trend ''No connected source data for trends.'', s)
           else (let ps = stored_points g k periods s
                 in if length ps < 2
                    then and_then (slice_points periods n uuid now g code grain s) (\<lambda>(ps, s). Inr (Trend (trend_of (reread k s) ps), s))
                    else Inr (Trend (trend_of k ps), s)))"

section \<open>Facts\<close>

definition row_ok :: "kpi_result \<Rightarrow> bool" where
  "row_ok r \<longleftrightarrow>
     (kr_status r = KPI_COMPUTED \<and> kr_value r \<noteq> None \<and> kr_band r \<noteq> GRAY \<and> kr_unavailable_reason r = None) \<or>
     (kr_status r \<noteq> KPI_COMPUTED \<and> kr_value r = None \<and> kr_band r = GRAY \<and> kr_unavailable_reason r \<noteq> None)"

lemma evaluate_band_gray [simp]: "evaluate_band v t d th = GRAY \<longleftrightarrow> v = None"
  by (cases v) (simp_all add: evaluate_band_def Let_def)

lemma row_ok_shapes:
  "outcome_ok v \<Longrightarrow> row_ok (kpi_row now g q k v)" "row_ok (kpi_row now g q k (no_source_value k))"
  "row_ok r \<Longrightarrow> row_ok (alias_row now g q k p r)" "row_ok (r\<lparr>kr_id := i\<rparr>) = row_ok r"
  by (auto simp: row_ok_def outcome_ok_def kpi_row_def no_source_value_def alias_row_def)

lemma add_result_eq: "add_result uuid r s = (r', s') \<longleftrightarrow>
   r' = r\<lparr>kr_id := uuid (draws s)\<rparr> \<and> s' = s\<lparr>kpi_results := kpi_results s @ [r'], draws := draws s + 1\<rparr>"
  by (auto simp: add_result_def Let_def)

text \<open>The registry step touches no result.\<close>

lemma ensure_version_results: "ensure_formula_version uuid i c s = Inr s' \<Longrightarrow> kpi_results s' = kpi_results s \<and> audit_log s' = audit_log s"
  unfolding ensure_formula_version_def
  by (cases "one_or_none (filter (\<lambda>f. kf_kpi_id f = i \<and> kf_version f = current_formula_version) (kpi_formula_versions s))")
    (auto simp del: one_or_none_simps split: option.splits)

lemma upsert_kpi_results: "upsert_kpi uuid existing c s = Inr (i, s') \<Longrightarrow> kpi_results s' = kpi_results s \<and> audit_log s' = audit_log s"
  by (auto simp: upsert_kpi_def Let_def split: option.splits if_splits)

lemma upsert_kpis_results: "upsert_kpis uuid existing cs s = Inr (m, s') \<Longrightarrow> kpi_results s' = kpi_results s \<and> audit_log s' = audit_log s"
  by (induction cs arbitrary: s m) (auto simp: and_then_Inr_iff dest!: upsert_kpi_results ensure_version_results)

lemma link_results: "kpi_results (fold (link_alias m) cs s) = kpi_results s \<and> audit_log (fold (link_alias m) cs s) = audit_log s"
  by (induction cs arbitrary: s) (auto simp: link_alias_def split: option.splits)

lemma ensure_results: "ensure_kpi_registry uuid s = Inr (m, s') \<Longrightarrow> kpi_results s' = kpi_results s \<and> audit_log s' = audit_log s"
  by (auto simp: ensure_kpi_registry_def and_then_Inr_iff link_results dest!: upsert_kpis_results)

lemma add_result_typed:
  assumes "row_ok r" "list_all row_ok (kpi_results s)" "add_result uuid r s = (r', s')"
  shows "row_ok r' \<and> list_all row_ok (kpi_results s')"
  using assms by (auto simp: add_result_eq row_ok_shapes)

lemma calculate_typed:
  "calculate_kpi n uuid now g q code s = Inr (r, s') \<Longrightarrow> list_all row_ok (kpi_results s) \<Longrightarrow> row_ok r \<and> list_all row_ok (kpi_results s')"
proof (induction n arbitrary: code s r s')
  case (Suc n)
  from Suc.prems(1) obtain m s1 where e: "ensure_kpi_registry uuid s = Inr (m, s1)"
    by (auto simp: and_then_Inr_iff)
  have typed: "list_all row_ok (kpi_results s1)" using ensure_results [OF e] Suc.prems(2) by simp
  from Suc.prems(1) e obtain k where k: "active_kpi code s1 = Inr (Some k)"
    by (cases "active_kpi code s1") (auto split: option.splits)
  show ?case
  proof (cases "kp_availability_status k = ''NO_SOURCE_DATA''")
    case True
    then have "add_result uuid (kpi_row now g q k (no_source_value k)) s1 = (r, s')" using Suc.prems(1) e k by simp
    then show ?thesis by (rule add_result_typed [OF row_ok_shapes(2) typed])
  next
    case False
    from Suc.prems(1) e k False obtain primary where p: "primary_of k s1 = Inr primary"
      by (cases "primary_of k s1") auto
    show ?thesis
    proof (cases primary)
      case None
      then have "add_result uuid (kpi_row now g q k (compute_kpi_value k (load_inputs g (kq_filters q) (kq_start q) (kq_end q) s1))) s1 = (r, s')"
        using Suc.prems(1) e k False p by simp
      then show ?thesis by (rule add_result_typed [OF row_ok_shapes(1) [OF outcome_ok_compute] typed])
    next
      case (Some pk)
      then obtain r1 s2 where c: "calculate_kpi n uuid now g q (kp_code pk) s1 = Inr (r1, s2)"
          "add_result uuid (alias_row now g q k pk r1) s2 = (r, s')"
        using Suc.prems(1) e k False p by (auto simp: and_then_Inr_iff)
      note ih = Suc.IH [OF c(1) typed]
      show ?thesis by (rule add_result_typed [OF row_ok_shapes(3) _ c(2)]) (use ih in simp_all)
    qed
  qed
qed simp

section \<open>The codes of the registry\<close>

lemma unsourced_or_primary: "list_all (\<lambda>c. ki_availability_status c = ''NO_SOURCE_DATA'' \<or> ki_is_primary c) kpi_registry_definitions"
proof -
  have "list_all (\<lambda>(code, name, st, p, al). st = ''NO_SOURCE_DATA'' \<or> p) (map item_facts kpi_registry_definitions)"
    unfolding registry_facts by simp
  then show ?thesis by (simp add: list.pred_map comp_def item_facts_def)
qed

lemma synced_columns:
  assumes "kpi_columns c k = k"
  shows "kp_is_active k" "kp_is_primary k = ki_is_primary c" "kp_availability_status k = ki_availability_status c"
    "kp_code k = Some (ki_code c)" "kp_name k = ki_name c"
  by (subst assms [symmetric], simp add: kpi_columns_def)+

lemma registered_row:
  assumes ok: "registry_ok uuid s" and sy: "synced kpi_registry_definitions s" and c: "c \<in> set kpi_registry_definitions"
    and sub: "ki_name ` set kpi_registry_definitions \<subseteq> kp_name ` set (kpis s)"
  obtains k where "active_kpi (Some (ki_code c)) s = Inr (Some k)" "kpi_columns c k = k" "k \<in> set (kpis s)"
proof -
  have "ki_name c \<in> kp_name ` set (kpis s)" using sub c by blast
  then obtain k where k: "k \<in> set (kpis s)" "kp_name k = ki_name c" by (metis imageE)
  have col: "kpi_columns c k = k" using sy k c by (simp add: synced_def)
  have d: "distinct (map kp_name (kpis s))" using ok by (simp add: registry_ok_def)
  have code: "(kp_code k' = Some (ki_code c)) = (kp_name k' = ki_name c)" if "k' \<in> set (kpis s)" for k'
    using ok that c by (simp add: registry_ok_def)
  have same: "k' = k" if "k' \<in> set (kpis s)" "kp_name k' = ki_name c" for k'
    using d that k by (simp add: distinct_map inj_on_def)
  have "filter (\<lambda>k'. kp_code k' = Some (ki_code c) \<and> kp_is_active k') (kpis s) = filter (\<lambda>k'. kp_name k' = ki_name c) (kpis s)"
    by (rule filter_cong) (use code same synced_columns(1) [OF col] in auto)
  moreover have "filter (\<lambda>k'. kp_name k' = ki_name c) (kpis s) = [k]"
  proof -
    have "k \<in> set (filter (\<lambda>k'. kp_name k' = ki_name c) (kpis s))" using k by simp
    moreover obtain r where "filter (\<lambda>k'. kp_name k' = ki_name c) (kpis s) = [] \<or> filter (\<lambda>k'. kp_name k' = ki_name c) (kpis s) = [r]"
      using filter_key_cases [OF d, of "ki_name c"] by blast
    ultimately show ?thesis by fastforce
  qed
  ultimately have "active_kpi (Some (ki_code c)) s = Inr (Some k)" by (simp add: active_kpi_def)
  then show thesis by (rule that [OF _ col k(1)])
qed

lemma add_result_registry: "registry_ok uuid s \<Longrightarrow> add_result uuid r s = (r', s') \<Longrightarrow> registry_ok uuid s'"
  by (auto simp: add_result_eq registry_ok_def versions_of_def)

text \<open>A registered code is calculated without an error and without following an alias.\<close>

lemma calculate_registered:
  assumes ok: "registry_ok uuid s" and c: "c \<in> set kpi_registry_definitions"
  obtains r s' where "calculate_kpi (Suc n) uuid now g q (Some (ki_code c)) s = Inr (r, s')" "registry_ok uuid s'" 
    "kpi_results s' = kpi_results s @ [r]" "row_ok r"
    "(kr_status r = KPI_NO_SOURCE_DATA) = (ki_availability_status c = ''NO_SOURCE_DATA'')"
    "kr_tenant_id r = ke_tenant_id g" "kr_is_recalculation r = kq_is_recalculation q"
    "\<exists>k \<in> set (kpis s'). kp_id k = kr_kpi_id r \<and> kp_code k = Some (ki_code c)" "audit_log s' = audit_log s"
proof -
  obtain m s1 where e: "ensure_kpi_registry uuid s = Inr (m, s1)" "registry_ok uuid s1" "synced kpi_registry_definitions s1"
      "kpi_results s1 = kpi_results s" "ki_name ` set kpi_registry_definitions \<subseteq> kp_name ` set (kpis s1)"
    using ensure_registry [OF ok] by metis
  obtain k where k: "active_kpi (Some (ki_code c)) s1 = Inr (Some k)" "kpi_columns c k = k" "k \<in> set (kpis s1)"
    using registered_row [OF e(2,3) c e(5)] by metis
  note col = synced_columns [OF k(2)]
  define v where "v = (if ki_availability_status c = ''NO_SOURCE_DATA'' then no_source_value k
     else compute_kpi_value k (load_inputs g (kq_filters q) (kq_start q) (kq_end q) s1))"
  have prim: "primary_of k s1 = Inr None" if "ki_availability_status c \<noteq> ''NO_SOURCE_DATA''"
    using unsourced_or_primary c that col(2) by (auto simp: primary_of_def list_all_iff split: option.splits)
  obtain r s' where a: "add_result uuid (kpi_row now g q k v) s1 = (r, s')" by (metis surj_pair)
  have calc: "calculate_kpi (Suc n) uuid now g q (Some (ki_code c)) s = Inr (r, s')"
    using a by (cases "ki_availability_status c = ''NO_SOURCE_DATA''") (simp_all add: e(1) k(1) col(3) v_def prim)
  note eq = a [unfolded add_result_eq]
  have st: "outcome_ok v \<or> v = no_source_value k" using v_def outcome_ok_compute by metis
  show thesis
  proof (rule that [OF calc add_result_registry [OF e(2) a]])
    show "kpi_results s' = kpi_results s @ [r]" using eq e(4) by simp
    show "row_ok r" using st eq row_ok_shapes(1,2,4) by metis
    have "(kv_status v = KPI_NO_SOURCE_DATA) = (ki_availability_status c = ''NO_SOURCE_DATA'')"
      using outcome_ok_compute [of k "load_inputs g (kq_filters q) (kq_start q) (kq_end q) s1"]
      by (auto simp: v_def no_source_value_def outcome_ok_def)
    then show "(kr_status r = KPI_NO_SOURCE_DATA) = (ki_availability_status c = ''NO_SOURCE_DATA'')" using eq by (simp add: kpi_row_def)
    show "kr_tenant_id r = ke_tenant_id g" "kr_is_recalculation r = kq_is_recalculation q" using eq by (simp_all add: kpi_row_def)
    show "\<exists>k \<in> set (kpis s'). kp_id k = kr_kpi_id r \<and> kp_code k = Some (ki_code c)" using eq k(3) col(4) by (auto simp: kpi_row_def)
    show "audit_log s' = audit_log s" using eq ensure_results [OF e(1)] by simp
  qed
qed

lemma score_all_registered:
  assumes "registry_ok uuid s" "set cs \<subseteq> set kpi_registry_definitions"
  shows "\<exists>es s' rs. score_all (Suc n) uuid now g q m (map ki_code cs) s = (es, s') \<and> registry_ok uuid s' \<and> map fst es = map ki_code cs \<and>
     map (\<lambda>(c, e). entry_status e = KPI_NO_SOURCE_DATA) es = map (\<lambda>c. ki_availability_status c = ''NO_SOURCE_DATA'') cs \<and>
     kpi_results s' = kpi_results s @ rs \<and> map (entry_status \<circ> snd) es = map kr_status rs"
  using assms
proof (induction cs arbitrary: s)
  case (Cons c cs)
  have c: "c \<in> set kpi_registry_definitions" and sub: "set cs \<subseteq> set kpi_registry_definitions" using Cons.prems(2) by simp_all
  obtain r s1 where r: "calculate_kpi (Suc n) uuid now g q (Some (ki_code c)) s = Inr (r, s1)" "registry_ok uuid s1"
      "kpi_results s1 = kpi_results s @ [r]" "(kr_status r = KPI_NO_SOURCE_DATA) = (ki_availability_status c = ''NO_SOURCE_DATA'')"
    using calculate_registered [OF Cons.prems(1) c] by metis
  obtain es s' rs where ih: "score_all (Suc n) uuid now g q m (map ki_code cs) s1 = (es, s')" "registry_ok uuid s'" "map fst es = map ki_code cs"
      "map (\<lambda>(c, e). entry_status e = KPI_NO_SOURCE_DATA) es = map (\<lambda>c. ki_availability_status c = ''NO_SOURCE_DATA'') cs"
      "kpi_results s' = kpi_results s1 @ rs" "map (entry_status \<circ> snd) es = map kr_status rs"
    using Cons.IH [OF r(2) sub] by blast
  obtain e where e: "score_kpi (Suc n) uuid now g q m (ki_code c) s = (e, s1)" "entry_status e = kr_status r"
    unfolding score_kpi_def r(1) by (simp add: Let_def entry_status_def)
  show ?case
    using e ih r(3,4) by (intro exI [of _ "(ki_code c, e) # es"] exI [of _ s'] exI [of _ "r # rs"]) (simp add: comp_def)
qed simp

lemma unsourced_count: "length (filter (\<lambda>c. ki_availability_status c = ''NO_SOURCE_DATA'') kpi_registry_definitions) = 28"
proof -
  have "length (filter (\<lambda>(code, name, st, p, al). st = ''NO_SOURCE_DATA'') (map item_facts kpi_registry_definitions)) = 28"
    unfolding registry_facts by simp
  then show ?thesis by (simp add: filter_map comp_def item_facts_def)
qed

lemma status_counts:
  "length (filter (\<lambda>(c, e). entry_status e = KPI_COMPUTED) es) + length (filter (\<lambda>(c, e). entry_status e = KPI_NO_SOURCE_DATA) es) +
   length (filter (\<lambda>(c, e). entry_status e = KPI_UNAVAILABLE) es) = length es"
proof (induction es)
  case (Cons x es)
  then show ?case by (cases x; cases "entry_status (snd x)") auto
qed simp

text \<open>C20. On a consistent registry the scorecard is complete: it never fails, reports every one of the 55 codes once and in
  registry order, 28 of them without a source, the other 27 computed or unavailable, and stores exactly one result for
  each, in that order and with that status.\<close>
theorem scorecard_complete:
  assumes "registry_ok uuid s"
  shows "\<exists>sc s' rs. calculate_all_kpis (Suc n) uuid now g q s = Inr (sc, s') \<and> sc_total_kpis sc = 55 \<and>
     map fst (sc_results sc) = map ki_code kpi_registry_definitions \<and> sc_no_source_data sc = 28 \<and> sc_computed sc + sc_unavailable sc = 27 \<and>
     kpi_results s' = kpi_results s @ rs \<and> map (entry_status \<circ> snd) (sc_results sc) = map kr_status rs"
proof -
  obtain m s1 where e: "ensure_kpi_registry uuid s = Inr (m, s1)" "registry_ok uuid s1" "kpi_results s1 = kpi_results s"
    using ensure_registry [OF assms] by metis
  obtain es s' rs where r: "score_all (Suc n) uuid now g (q\<lparr>kq_is_recalculation := False\<rparr>) m (map ki_code kpi_registry_definitions) s1 = (es, s')"
      "map fst es = map ki_code kpi_registry_definitions"
      "map (\<lambda>(c, e). entry_status e = KPI_NO_SOURCE_DATA) es = map (\<lambda>c. ki_availability_status c = ''NO_SOURCE_DATA'') kpi_registry_definitions"
      "kpi_results s' = kpi_results s1 @ rs" "map (entry_status \<circ> snd) es = map kr_status rs"
    using score_all_registered [OF e(2) order_refl] by blast
  have len: "length es = 55" using arg_cong [OF r(2), of length] by (simp only: length_map registry_length)
  have "card (fst ` set es) = 55"
    using registry_codes_distinct r(2) len by (metis distinct_card image_set length_map)
  moreover have ns: "length (filter (\<lambda>(c, e). entry_status e = KPI_NO_SOURCE_DATA) es) = 28"
    using arg_cong [OF r(3), of "\<lambda>bs. length (filter id bs)"] by (simp add: filter_map comp_def unsourced_count case_prod_unfold)
  moreover have "length (filter (\<lambda>(c, e). entry_status e = KPI_COMPUTED) es) + length (filter (\<lambda>(c, e). entry_status e = KPI_UNAVAILABLE) es) = 27"
    using status_counts [of es] ns len by simp
  ultimately show ?thesis
    using e r by (intro exI [of _ "scorecard_of es"] exI [of _ s'] exI [of _ rs]) (simp add: calculate_all_kpis_def scorecard_of_def Let_def)
qed

theorem scorecard_complete_witness:
  "\<exists>sc s'. calculate_all_kpis 1 sample_ids 0 \<lparr>ke_tenant_id = ''t'', ke_exclude_quarantined = True\<rparr>
     \<lparr>kq_filters = [], kq_start = None, kq_end = None, kq_grain = ''ALL'', kq_is_recalculation = False\<rparr> (kpi_tables (staged_db [])) = Inr (sc, s') \<and>
     sc_total_kpis sc = 55"
  using scorecard_complete [OF kpi_tables_ok [of "staged_db []"], of 0 0 "\<lparr>ke_tenant_id = ''t'', ke_exclude_quarantined = True\<rparr>"
    "\<lparr>kq_filters = [], kq_start = None, kq_end = None, kq_grain = ''ALL'', kq_is_recalculation = False\<rparr>"]
  by (auto simp only: One_nat_def)

text \<open>C15. No operation of the engine stores an ill-formed result: a stored result has a value, a coloured band and no reason when it
  is COMPUTED, and otherwise no value, a gray band and a reason; alias results included, for every recursion depth.\<close>
theorem stored_results_typed:
  assumes "calculate_kpi n uuid now g q code s = Inr (r, s')" "list_all row_ok (kpi_results s)"
  shows "row_ok r \<and> list_all row_ok (kpi_results s')"
  by (rule calculate_typed [OF assms])

theorem stored_results_typed_witness:
  "\<exists>r s'. calculate_kpi 1 sample_ids 0 \<lparr>ke_tenant_id = ''t'', ke_exclude_quarantined = True\<rparr>
     \<lparr>kq_filters = [], kq_start = None, kq_end = None, kq_grain = ''ALL'', kq_is_recalculation = False\<rparr> (Some (ki_code (hd kpi_items_55_55)))
     (kpi_tables (staged_db [])) = Inr (r, s') \<and> row_ok r \<and> list_all row_ok (kpi_results s')"
proof -
  let ?g = "\<lparr>ke_tenant_id = ''t'', ke_exclude_quarantined = True\<rparr>"
  let ?q = "\<lparr>kq_filters = [], kq_start = None, kq_end = None, kq_grain = ''ALL'', kq_is_recalculation = False\<rparr>"
  have "hd kpi_items_55_55 \<in> set kpi_items_55_55" by (rule hd_in_set) (simp add: kpi_items_55_55_def)
  then have c: "hd kpi_items_55_55 \<in> set kpi_registry_definitions" by (simp add: kpi_registry_definitions_def)
  obtain r s' where r: "calculate_kpi (Suc 0) sample_ids 0 ?g ?q (Some (ki_code (hd kpi_items_55_55))) (kpi_tables (staged_db [])) = Inr (r, s')"
    using calculate_registered [OF kpi_tables_ok [of "staged_db []"] c] by metis
  have "list_all row_ok (kpi_results (kpi_tables (staged_db [])))" by simp
  from stored_results_typed [OF r this] show ?thesis using r by (auto simp only: One_nat_def)
qed

text \<open>A recalculation of a registered KPI stores exactly one new result, marked as a recalculation, and appends exactly one audit
  event, which names that result, the value of the newest earlier result of the same tenant and KPI, and the new value.\<close>
theorem recalculation_audited:
  assumes ok: "registry_ok uuid s" and c: "c \<in> set kpi_registry_definitions" and k: "active_kpi (Some (ki_code c)) s = Inr (Some k)"
  shows "\<exists>r s' e. recalculate_kpi (Suc n) uuid now g (ki_code c) a reason fs s = Inr (r, s') \<and> kpi_results s' = kpi_results s @ [r] \<and>
     kr_is_recalculation r \<and> kr_tenant_id r = ke_tenant_id g \<and> audit_log s' = audit_log s @ [e] \<and> au_resource_id e = kr_id r \<and> au_actor_id e = ac_id a \<and>
     map_of (au_details e) ''previous_value'' = Some [ONum (Option.bind (newest_result g k s) kr_value)] \<and>
     map_of (au_details e) ''new_value'' = Some [ONum (kr_value r)]"
proof -
  let ?q = "\<lparr>kq_filters = fs, kq_start = None, kq_end = None, kq_grain = ''ALL'', kq_is_recalculation = True\<rparr>"
  obtain r s1 where r: "calculate_kpi (Suc n) uuid now g ?q (Some (ki_code c)) s = Inr (r, s1)" "kpi_results s1 = kpi_results s @ [r]"
      "kr_tenant_id r = ke_tenant_id g" "kr_is_recalculation r = kq_is_recalculation ?q" "audit_log s1 = audit_log s"
    using calculate_registered [OF ok c] by metis
  let ?e = "recalculation_audit a reason fs (ki_code c) (reread k s1) (newest_result g k s) r"
  have "recalculate_kpi (Suc n) uuid now g (ki_code c) a reason fs s = Inr (r, add_audit ?e s1)"
    unfolding recalculate_kpi_def k and_then_simps option.case Let_def r(1) prod.case by (rule refl)
  moreover have "kr_is_recalculation r" using r(4) by simp
  ultimately show ?thesis
    using r(2,3,5) by (intro exI [of _ r] exI [of _ "add_audit ?e s1"] exI [of _ ?e]) (simp add: add_audit_def recalculation_audit_def)
qed

theorem recalculation_audited_witness:
  "\<exists>s :: kpi_db. \<exists>r s' e. recalculate_kpi 1 sample_ids 0 \<lparr>ke_tenant_id = ''t'', ke_exclude_quarantined = True\<rparr> (ki_code (hd kpi_items_55_55))
     \<lparr>ac_id = ''u'', ac_role = None\<rparr> None [] s = Inr (r, s') \<and> audit_log s' = audit_log s @ [e]"
proof -
  have "hd kpi_items_55_55 \<in> set kpi_items_55_55" by (rule hd_in_set) (simp add: kpi_items_55_55_def)
  then have c: "hd kpi_items_55_55 \<in> set kpi_registry_definitions" by (simp add: kpi_registry_definitions_def)
  obtain m s where s: "ensure_kpi_registry sample_ids (kpi_tables (staged_db [])) = Inr (m, s)" "registry_ok sample_ids s"
      "synced kpi_registry_definitions s" "ki_name ` set kpi_registry_definitions \<subseteq> kp_name ` set (kpis s)"
    using ensure_registry [OF kpi_tables_ok [of "staged_db []"]] by metis
  obtain k where k: "active_kpi (Some (ki_code (hd kpi_items_55_55))) s = Inr (Some k)"
    using registered_row [OF s(2,3) c s(4)] by metis
  show ?thesis
    using recalculation_audited [OF s(2) c k, of 0 0 "\<lparr>ke_tenant_id = ''t'', ke_exclude_quarantined = True\<rparr>" "\<lparr>ac_id = ''u'', ac_role = None\<rparr>" None "[]"]
    unfolding One_nat_def by blast
qed

section \<open>Trends\<close>

text \<open>Reading a trend writes: when fewer than two computed results are stored, asking for the trend of a registered KPI over p
  periods stores p new results, which later trends and recalculations then read as history.\<close>
theorem trend_reading_stores_results:
  assumes "registry_ok uuid s" "c \<in> set kpi_registry_definitions" "active_kpi (Some (ki_code c)) s = Inr (Some k)"
    "kp_availability_status k \<noteq> ''NO_SOURCE_DATA''" "length (stored_points g k p s) < 2"
  shows "\<exists>t s'. get_trends (Suc n) uuid now g (ki_code c) grain p s = Inr (t, s') \<and> length (kpi_results s') = length (kpi_results s) + p"
proof -
  have "\<exists>ps s'. slice_points i (Suc n) uuid now g (ki_code c) grain s = Inr (ps, s') \<and> length (kpi_results s') = length (kpi_results s) + i"
    if "registry_ok uuid s" for i and s :: "'a kpi_db_scheme"
    using that
  proof (induction i arbitrary: s)
    case (Suc i)
    let ?q = "\<lparr>kq_filters = [], kq_start = Some (now - int i * days30 - days30), kq_end = Some (now - int i * days30), kq_grain = grain,
      kq_is_recalculation = False\<rparr>"
    obtain r s1 where r: "calculate_kpi (Suc n) uuid now g ?q (Some (ki_code c)) s = Inr (r, s1)" "registry_ok uuid s1" "kpi_results s1 = kpi_results s @ [r]"
      using calculate_registered [OF Suc.prems assms(2)] by metis
    obtain ps s' where "slice_points i (Suc n) uuid now g (ki_code c) grain s1 = Inr (ps, s')" "length (kpi_results s') = length (kpi_results s1) + i"
      using Suc.IH [OF r(2)] by blast
    then show ?case using r unfolding slice_points.simps Let_def r(1) by simp
  qed simp
  from this [OF assms(1), of p] obtain ps s' where "slice_points p (Suc n) uuid now g (ki_code c) grain s = Inr (ps, s')"
    "length (kpi_results s') = length (kpi_results s) + p" by blast
  then show ?thesis using assms(3-5) by (simp add: get_trends_def Let_def)
qed

theorem trend_reading_stores_results_witness:
  "\<exists>s :: kpi_db. \<exists>t s'. get_trends 1 sample_ids 0 \<lparr>ke_tenant_id = ''t'', ke_exclude_quarantined = True\<rparr> (ki_code (hd kpi_items_01_06)) ''MONTHLY'' 6 s = Inr (t, s') \<and>
     kpi_results s = [] \<and> length (kpi_results s') = 6"
proof -
  have "hd kpi_items_01_06 \<in> set kpi_items_01_06" by (rule hd_in_set) (simp add: kpi_items_01_06_def)
  then have c: "hd kpi_items_01_06 \<in> set kpi_registry_definitions" by (simp add: kpi_registry_definitions_def)
  obtain m s where s: "ensure_kpi_registry sample_ids (kpi_tables (staged_db [])) = Inr (m, s)" "registry_ok sample_ids s"
      "synced kpi_registry_definitions s" "ki_name ` set kpi_registry_definitions \<subseteq> kp_name ` set (kpis s)" "kpi_results s = kpi_results (kpi_tables (staged_db []))"
    using ensure_registry [OF kpi_tables_ok [of "staged_db []"]] by metis
  obtain k where k: "active_kpi (Some (ki_code (hd kpi_items_01_06))) s = Inr (Some k)" "kpi_columns (hd kpi_items_01_06) k = k"
    using registered_row [OF s(2,3) c s(4)] by metis
  have "kp_availability_status k \<noteq> ''NO_SOURCE_DATA''"
    unfolding synced_columns(3) [OF k(2)] by (simp add: kpi_items_01_06_def)
  moreover have "length (stored_points g k 6 s) < 2" for g using s(5) by (simp add: stored_points_def sorted_by_desc_def)
  ultimately show ?thesis
    using trend_reading_stores_results [OF s(2) c k(1), of "\<lparr>ke_tenant_id = ''t'', ke_exclude_quarantined = True\<rparr>" 6 0 0 "''MONTHLY''"] s(5)
    unfolding One_nat_def by (metis add_0 kpi_tables_sel(3) list.size(3))
qed

section \<open>Termination of the alias recursion\<close>

lemma calculate_deeper:
  assumes "calculate_kpi n uuid now g q code s = Inr x" "n \<le> m"
  shows "calculate_kpi m uuid now g q code s = Inr x"
  using assms
proof (induction n arbitrary: code s m x)
  case (Suc n)
  then obtain m' where m: "m = Suc m'" "n \<le> m'" by (cases m) auto
  from Suc.prems(1) obtain t s1 where e: "ensure_kpi_registry uuid s = Inr (t, s1)"
    by (cases "ensure_kpi_registry uuid s") auto
  from Suc.prems(1) e obtain k where k: "active_kpi code s1 = Inr (Some k)"
    by (cases "active_kpi code s1") (auto split: option.splits)
  show ?case
  proof (cases "kp_availability_status k = ''NO_SOURCE_DATA''")
    case True
    then show ?thesis using Suc.prems(1) e k unfolding m(1) by simp
  next
    case False
    from Suc.prems(1) e k False obtain p where p: "primary_of k s1 = Inr p" by (cases "primary_of k s1") auto
    show ?thesis
    proof (cases p)
      case None
      then show ?thesis using Suc.prems(1) e k False p unfolding m(1) by simp
    next
      case (Some pk)
      then obtain r s2 where r: "calculate_kpi n uuid now g q (kp_code pk) s1 = Inr (r, s2)"
        using Suc.prems(1) e k False p by (cases "calculate_kpi n uuid now g q (kp_code pk) s1") auto
      show ?thesis using Suc.prems(1) e k False p Some r Suc.IH [OF r m(2)] unfolding m(1) by simp
    qed
  qed
qed simp

text \<open>C23. The recursion of calculate_kpi through alias rows ends on every registered code, and its depth is one: on
  tables that satisfy the registry invariant, whatever else they hold, each of the 55 codes is calculated without an error,
  with one result that does not depend on the recursion depth available.\<close>

theorem registered_calculation_terminates:
  assumes "registry_ok uuid s" "c \<in> set kpi_registry_definitions"
  shows "\<exists>r s'. (\<forall>n. calculate_kpi (Suc n) uuid now g q (Some (ki_code c)) s = Inr (r, s')) \<and> kpi_results s' = kpi_results s @ [r]"
proof -
  obtain r s' where "calculate_kpi (Suc 0) uuid now g q (Some (ki_code c)) s = Inr (r, s')" "kpi_results s' = kpi_results s @ [r]"
    using calculate_registered [OF assms] by metis
  moreover from this(1) have "calculate_kpi (Suc n) uuid now g q (Some (ki_code c)) s = Inr (r, s')" for n
    by (rule calculate_deeper) simp
  ultimately show ?thesis by blast
qed

theorem registered_calculation_terminates_witness:
  "\<exists>r s'. (\<forall>n. calculate_kpi (Suc n) sample_ids 0 \<lparr>ke_tenant_id = ''t'', ke_exclude_quarantined = True\<rparr>
     \<lparr>kq_filters = [], kq_start = None, kq_end = None, kq_grain = ''ALL'', kq_is_recalculation = False\<rparr> (Some (ki_code (hd kpi_items_55_55)))
     (kpi_tables (staged_db [])) = Inr (r, s')) \<and> length (kpi_results s') = 1"
proof -
  have "hd kpi_items_55_55 \<in> set kpi_items_55_55" by (rule hd_in_set) (simp add: kpi_items_55_55_def)
  then have c: "hd kpi_items_55_55 \<in> set kpi_registry_definitions" by (simp add: kpi_registry_definitions_def)
  have "kpi_results (kpi_tables (staged_db [])) = []" by simp
  then show ?thesis
    using registered_calculation_terminates [OF kpi_tables_ok [of "staged_db []"] c, of 0 "\<lparr>ke_tenant_id = ''t'', ke_exclude_quarantined = True\<rparr>"
      "\<lparr>kq_filters = [], kq_start = None, kq_end = None, kq_grain = ''ALL'', kq_is_recalculation = False\<rparr>"]
    by (metis One_nat_def append_Nil list.size(3) list.size(4) add_0_right add_Suc_right)
qed

end
