(* ===== verification/Standardization.thy ===== *)
theory Standardization
  imports Staging
begin

text \<open>
  Standardisation of source columns and event names (\<open>apps/api/services/ingestion/standardization.py\<close>): the tables
  of the class, the dictionary and the aliases of \<open>config/\<close>, and the operations of the registry. Dictionaries
  that are only looked up are maps; \<open>isalnum\<close> is that of ASCII, and a header does not end in a line break.
\<close>

section \<open>Tables\<close>

record alias_entry =
  al_alias :: string
  al_event_name :: string
  al_match_type :: string
  al_movement_scope :: "string option"

definition alias_of :: "string \<Rightarrow> string \<Rightarrow> string \<Rightarrow> string option \<Rightarrow> alias_entry" where
  "alias_of a e m sc = \<lparr>al_alias = a, al_event_name = e, al_match_type = m, al_movement_scope = sc\<rparr>"

definition vessel_target_columns :: "(string \<times> string) list" where
  "vessel_target_columns =
     [(''license_number'', ''License_Number''), (''imo_number'', ''IMO_Number''), (''vcn'', ''VCN''), (''vessel_name'', ''Vessel_Name''),
      (''vessel_type'', ''Vessel_Type''), (''vessel_size_teu'', ''Vessel_Size_TEU''), (''flag'', ''Flag''),
      (''last_port_of_call'', ''Last_Port_Of_Call''), (''next_port_of_call'', ''Next_Port_Of_Call''), (''port_of_lading'', ''Port_Of_Lading''),
      (''port_of_discharge'', ''Port_Of_Discharge''), (''reason_for_visit'', ''Reason_For_Visit''), (''cargo_type'', ''Cargo_Type''),
      (''commodity'', ''Commodity''), (''quantity_value'', ''Planned_Quantity''), (''grt'', ''GRT''), (''loa_value'', ''LOA_Value''),
      (''dwt'', ''DWT''), (''forward_draft_value'', ''Forward_Draft''), (''aft_draft_value'', ''Aft_Draft''), (''call_sign'', ''Call_Sign'')]"

definition berth_target_columns :: "(string \<times> string) list" where
  "berth_target_columns =
     [(''CARGO_START'', ''Cargo_Start''), (''CARGO_END'', ''Cargo_End''), (''resources_deployed'', ''Resources_Deployed'')]"

definition vessel_call_aliases :: "(string \<times> string) list" where
  "vessel_call_aliases =
     [(''licenseno'', ''License_Number''), (''imonumber'', ''IMO_Number''), (''imono'', ''IMO_Number''), (''vcn'', ''VCN''),
      (''vesselname'', ''Vessel_Name''), (''vesseltype'', ''Vessel_Type''), (''vesselsizeteus'', ''Vessel_Size_TEU''), (''flag'', ''Flag''),
      (''lastportofcall'', ''Last_Port_Of_Call''), (''lastport'', ''Last_Port_Of_Call''), (''nextportofcall'', ''Next_Port_Of_Call''),
      (''nextport'', ''Next_Port_Of_Call''), (''portoflading'', ''Port_Of_Lading''), (''portofdischarge'', ''Port_Of_Discharge''),
      (''reasonforvisit'', ''Reason_For_Visit''), (''cargotype'', ''Cargo_Type''), (''commodity'', ''Commodity''),
      (''quantity'', ''Planned_Quantity''), (''grt'', ''GRT''), (''loa'', ''LOA_Value''), (''dwt'', ''DWT''), (''fwddraft'', ''Forward_Draft''),
      (''forwarddraft'', ''Forward_Draft''), (''aftdraft'', ''Aft_Draft''), (''callsign'', ''Call_Sign'')]"

definition event_aliases :: "(string \<times> string) list" where
  "event_aliases =
     [(''vcn'', ''VCN''), (''eventname'', ''Event_Name''), (''eventtimestamp'', ''Event_Timestamp''), (''movementtype'', ''Movement_Type''),
      (''operationtype'', ''Operation_Type''), (''timezone'', ''Timezone''), (''sourcesystem'', ''Source_System''), (''eventid'', ''Event_ID''),
      (''verificationstatus'', ''Verification_Status''), (''confidencescore'', ''Confidence_Score'')]"

definition service_aliases :: "(string \<times> string) list" where
  "service_aliases =
     [(''vcn'', ''VCN''), (''servicetype'', ''Service_Type''), (''movementtype'', ''Movement_Type''),
      (''servicerequestsubmissiontime'', ''Submission_Time''), (''submissiontime'', ''Submission_Time''),
      (''servicerequestedtime'', ''Requested_Time''), (''requestedtime'', ''Requested_Time''), (''pilotrequesttime'', ''Requested_Time''),
      (''scheduledservicetime'', ''Scheduled_Time''), (''scheduledtime'', ''Scheduled_Time''), (''pilotassignedtime'', ''Scheduled_Time''),
      (''actualscheduleddatetime'', ''Scheduled_Time''), (''actualservicetime'', ''Served_Time''), (''servedtime'', ''Served_Time''),
      (''serveddatetime'', ''Served_Time''), (''pilotagestart'', ''Served_Time''), (''resourceassigned'', ''Resource_Assigned''),
      (''datastatus'', ''Data_Status'')]"

definition cargo_ops_aliases :: "(string \<times> string) list" where
  "cargo_ops_aliases =
     [(''vcn'', ''VCN''), (''cargooperationid'', ''Cargo_Operation_ID''), (''cargotype'', ''Cargo_Type''), (''operationtype'', ''Operation_Type''),
      (''plannedquantity'', ''Planned_Quantity''), (''unit'', ''Unit''), (''startofcargooperations'', ''Cargo_Start''),
      (''cargostart'', ''Cargo_Start''), (''endofcargooperations'', ''Cargo_End''), (''cargoend'', ''Cargo_End''),
      (''workinghours'', ''Working_Hours''), (''numberofcranesdeployedforavessel'', ''Resources_Deployed''),
      (''resourcesdeployed'', ''Resources_Deployed''), (''downtimehours'', ''Downtime_Hours''), (''actualquantity'', ''Actual_Quantity''),
      (''datastatus'', ''Data_Status'')]"

definition delay_aliases :: "(string \<times> string) list" where
  "delay_aliases =
     [(''vcn'', ''VCN''), (''delayid'', ''Delay_ID''), (''movementtype'', ''Movement_Type''), (''scheduledtime'', ''Scheduled_Time''),
      (''servedtime'', ''Served_Time''), (''actualservicetime'', ''Served_Time''), (''delayhours'', ''Delay_Hours''),
      (''durationhours'', ''Duration_Hours''), (''delayreason'', ''Delay_Reason''), (''delaycategory'', ''Delay_Category'')]"

definition shipped_vessel_attributes :: "(string \<times> string) list" where
  "shipped_vessel_attributes =
     [(''License No.'', ''license_number''), (''IMO No.'', ''imo_number''), (''VCN'', ''vcn''), (''Vessel Name'', ''vessel_name''),
      (''Vessel Type'', ''vessel_type''), (''Vessel Size (TEUs)'', ''vessel_size_teu''), (''Flag'', ''flag''),
      (''Last Port of call'', ''last_port_of_call''), (''Next Port of call'', ''next_port_of_call''), (''Port of Lading'', ''port_of_lading''),
      (''Port of Discharge'', ''port_of_discharge''), (''Reason for Visit'', ''reason_for_visit''), (''Cargo Type'', ''cargo_type''),
      (''Commodity'', ''commodity''), (''Quantity'', ''quantity_value''), (''GRT'', ''grt''), (''LOA'', ''loa_value''), (''DWT'', ''dwt''),
      (''Fwd Draft'', ''forward_draft_value''), (''Aft Draft'', ''aft_draft_value''), (''Call sign'', ''call_sign'')]"

definition shipped_event_attributes :: "(string \<times> string) list" where
  "shipped_event_attributes =
     [(''Nomination details submission'', ''NOMINATION_SUBMITTED''), (''ISPS Submission'', ''ISPS_SUBMISSION''),
      (''ISPS Clearance'', ''ISPS_CLEARANCE''), (''PHO Submission'', ''PHO_SUBMISSION''), (''PHO Issuance'', ''PHO_ISSUANCE''),
      (''IMDG Submission'', ''IMDG_SUBMISSION''), (''IMDG Issuance'', ''IMDG_ISSUANCE''), (''ETA'', ''ETA''), (''ATA'', ''ATA''),
      (''Anchorage Arrival Time'', ''ANCHORAGE_ARRIVAL''), (''Anchor drop time'', ''ANCHOR_DROP''), (''Anchor Aweigh time'', ''ANCHOR_AWEIGH''),
      (''Port Limit In'', ''PORT_LIMIT_IN''), (''Port Limit Out'', ''PORT_LIMIT_OUT''),
      (''Pilot Request time for arrival'', ''PILOT_REQUEST_ARRIVAL''), (''Pilot Assigned Time for arrival'', ''PILOT_ASSIGNED_ARRIVAL''),
      (''Pilot Boat Assigned for arrival'', ''PILOT_BOAT_ASSIGNED_ARRIVAL''), (''Pilot Boat Start time for arrival'', ''PILOT_BOAT_START_ARRIVAL''),
      (''Pilot Boat End time for arrival'', ''PILOT_BOAT_END_ARRIVAL''), (''Pilotage Start Time for arrival'', ''PILOTAGE_START_ARRIVAL''),
      (''Pilot On Board Time for arrival'', ''PILOT_ON_BOARD_ARRIVAL''), (''Breakwater in Time'', ''BREAKWATER_IN''),
      (''Tug 1 Request Time for arrival'', ''TUG_1_REQUEST_ARRIVAL''), (''Tug 1 Assigned Time for arrival'', ''TUG_1_ASSIGNED_ARRIVAL''),
      (''Tug 1 Arrival Time for arrival'', ''TUG_1_ARRIVAL_ARRIVAL''), (''Tug 1 Service Start Time for arrival'', ''TUG_1_SERVICE_START_ARRIVAL''),
      (''Tug 1 Line-up for arrival'', ''TUG_1_LINE_UP_ARRIVAL''), (''Tug 1 Line-down for arrival'', ''TUG_1_LINE_DOWN_ARRIVAL''),
      (''Tug 1 Service End Time for arrival'', ''TUG_1_SERVICE_END_ARRIVAL''), (''Tug 2 Request Time for arrival'', ''TUG_2_REQUEST_ARRIVAL''),
      (''Tug 2 Arrival Time for arrival'', ''TUG_2_ARRIVAL_ARRIVAL''), (''Tug 2 Assigned Time for arrival'', ''TUG_2_ASSIGNED_ARRIVAL''),
      (''Tug 2 Service Start Time for arrival'', ''TUG_2_SERVICE_START_ARRIVAL''), (''Tug 2 Line-up for arrival'', ''TUG_2_LINE_UP_ARRIVAL''),
      (''Tug 2 Line-down for arrival'', ''TUG_2_LINE_DOWN_ARRIVAL''), (''Tug 2 Service End Time for arrival'', ''TUG_2_SERVICE_END_ARRIVAL''),
      (''First line tied for arrival'', ''FIRST_LINE_TIED_ARRIVAL''), (''Stern line tied for arrival'', ''STERN_LINE_TIED_ARRIVAL''),
      (''Last line tied for arrival'', ''LAST_LINE_TIED_ARRIVAL''), (''Planned Berthing Time for arrival'', ''PLANNED_BERTHING_TIME_ARRIVAL''),
      (''All Fast Time for arrival'', ''ALL_FAST_ARRIVAL''), (''Pilot Disembark time for arrival'', ''PILOT_DISEMBARK_ARRIVAL''),
      (''Pilot Boat Assigned for arrival return'', ''PILOT_BOAT_ASSIGNED_ARRIVAL_RETURN''),
      (''Pilot Boat Start time for arrival return'', ''PILOT_BOAT_START_ARRIVAL_RETURN''),
      (''Pilot Boat End time for arrival return'', ''PILOT_BOAT_END_ARRIVAL_RETURN''), (''Pilotage End Time for arrival'', ''PILOTAGE_END_ARRIVAL''),
      (''Pilot Request time for shifting'', ''PILOT_REQUEST_SHIFTING''), (''Pilot Assigned Time for shifting'', ''PILOT_ASSIGNED_SHIFTING''),
      (''Pilot Boat Assigned for shifting'', ''PILOT_BOAT_ASSIGNED_SHIFTING''),
      (''Pilot Boat Start time for shifting'', ''PILOT_BOAT_START_SHIFTING''), (''Pilot Boat End time for shifting'', ''PILOT_BOAT_END_SHIFTING''),
      (''Pilotage Start Time for shifting'', ''PILOTAGE_START_SHIFTING''), (''Pilot On Board Time for shifting'', ''PILOT_ON_BOARD_SHIFTING''),
      (''Tug 1 Request Time for shifting'', ''TUG_1_REQUEST_SHIFTING''), (''Tug 1 Assigned Time for shifting'', ''TUG_1_ASSIGNED_SHIFTING''),
      (''Tug 1 Arrival Time for shifting'', ''TUG_1_ARRIVAL_SHIFTING''),
      (''Tug 1 Service Start Time for shifting'', ''TUG_1_SERVICE_START_SHIFTING''), (''Tug 1 Line-up for shifting'', ''TUG_1_LINE_UP_SHIFTING''),
      (''Tug 1 Line-down for shifting'', ''TUG_1_LINE_DOWN_SHIFTING''), (''Tug 1 Service End Time for shifting'', ''TUG_1_SERVICE_END_SHIFTING''),
      (''Tug 2 Request Time for shifting'', ''TUG_2_REQUEST_SHIFTING''), (''Tug 2 Arrival Time for shifting'', ''TUG_2_ARRIVAL_SHIFTING''),
      (''Tug 2 Assigned Time for shifting'', ''TUG_2_ASSIGNED_SHIFTING''),
      (''Tug 2 Service Start Time for shifting'', ''TUG_2_SERVICE_START_SHIFTING''), (''Tug 2 Line-up for shifting'', ''TUG_2_LINE_UP_SHIFTING''),
      (''Tug 2 Line-down for shifting'', ''TUG_2_LINE_DOWN_SHIFTING''), (''Tug 2 Service End Time for shifting'', ''TUG_2_SERVICE_END_SHIFTING''),
      (''First line tied for shifting'', ''FIRST_LINE_TIED_SHIFTING''), (''Stern line tied for shifting'', ''STERN_LINE_TIED_SHIFTING''),
      (''Last line tied for shifting'', ''LAST_LINE_TIED_SHIFTING''), (''Planned Berthing Time for shifting'', ''PLANNED_BERTHING_TIME_SHIFTING''),
      (''All Fast Time for shifting'', ''ALL_FAST_SHIFTING''), (''Pilot Disembark time for shifting'', ''PILOT_DISEMBARK_SHIFTING''),
      (''Pilot Boat Assigned for shifting return'', ''PILOT_BOAT_ASSIGNED_SHIFTING_RETURN''),
      (''Pilot Boat Start time for shifting return'', ''PILOT_BOAT_START_SHIFTING_RETURN''),
      (''Pilot Boat End time for shifting return'', ''PILOT_BOAT_END_SHIFTING_RETURN''),
      (''Pilotage End Time for shifting'', ''PILOTAGE_END_SHIFTING''), (''First line untied for sailing'', ''FIRST_LINE_UNTIED_SAILING''),
      (''Last line untied for sailing'', ''LAST_LINE_UNTIED_SAILING''), (''ETD'', ''ETD''),
      (''Pilot Assigned Time for Sailing'', ''PILOT_ASSIGNED_SAILING''), (''Pilot Boat Assigned for sailing'', ''PILOT_BOAT_ASSIGNED_SAILING''),
      (''Pilot Boat Start time for sailing'', ''PILOT_BOAT_START_SAILING''), (''Pilot Boat End time for sailing'', ''PILOT_BOAT_END_SAILING''),
      (''Pilotage Start Time for Sailing'', ''PILOTAGE_START_SAILING''), (''Pilot Onboard Time for Sailing'', ''PILOT_ON_BOARD_SAILING''),
      (''Tug 1 Request Time for Sailing'', ''TUG_1_REQUEST_SAILING''), (''Tug 1 Arrival Time for Sailing'', ''TUG_1_ARRIVAL_SAILING''),
      (''Tug 1 Service Start Time for Sailing'', ''TUG_1_SERVICE_START_SAILING''), (''Tug 1 Assigned Time for Sailing'', ''TUG_1_ASSIGNED_SAILING''),
      (''Tug 1 Line-up for Sailing'', ''TUG_1_LINE_UP_SAILING''), (''Tug 1 Line-down for Sailing'', ''TUG_1_LINE_DOWN_SAILING''),
      (''Tug 1 Service End Time for Sailing'', ''TUG_1_SERVICE_END_SAILING''), (''Tug 2 Request Time for Sailing'', ''TUG_2_REQUEST_SAILING''),
      (''Tug 2 Arrival Time for Sailing'', ''TUG_2_ARRIVAL_SAILING''), (''Tug 2 Assigned Time for Sailing'', ''TUG_2_ASSIGNED_SAILING''),
      (''Tug 2 Service Start Time for Sailing'', ''TUG_2_SERVICE_START_SAILING''), (''Tug 2 Line-up for Sailing'', ''TUG_2_LINE_UP_SAILING''),
      (''Tug 2 Line-down for Sailing'', ''TUG_2_LINE_DOWN_SAILING''), (''Tug 2 Service End Time for Sailing'', ''TUG_2_SERVICE_END_SAILING''),
      (''Tug 3 Request Time'', ''TUG_3_REQUEST_SAILING''), (''Tug 3 Arrival Time'', ''TUG_3_ARRIVAL_SAILING''),
      (''Tug 3 Assigned Time'', ''TUG_3_ASSIGNED_SAILING''), (''Tug 3 Service Start Time'', ''TUG_3_SERVICE_START_SAILING''),
      (''Tug 3 Line-up'', ''TUG_3_LINE_UP_SAILING''), (''Tug 3 Line-down'', ''TUG_3_LINE_DOWN_SAILING''),
      (''Tug 3 Service End Time'', ''TUG_3_SERVICE_END_SAILING''), (''Breakwater Out Time'', ''BREAKWATER_OUT''),
      (''Pilot Disembark for Sailing'', ''PILOT_DISEMBARK_SAILING''),
      (''Pilot Boat Assigned for Sailing return'', ''PILOT_BOAT_ASSIGNED_SAILING_RETURN''),
      (''Pilot Boat Start time for Sailing return'', ''PILOT_BOAT_START_SAILING_RETURN''),
      (''Pilot Boat End time for Sailing return'', ''PILOT_BOAT_END_SAILING_RETURN''), (''Pilotage End Time for Sailing'', ''PILOTAGE_END_SAILING''),
      (''ATD'', ''ATD''), (''Incident Reporting time'', ''INCIDENT_REPORTING_TIME''), (''Incident Response Time'', ''INCIDENT_RESPONSE_TIME'')]"

definition shipped_berth_attributes :: "(string \<times> string \<times> string) list" where
  "shipped_berth_attributes =
     [(''Vessel Inspection by Customs Start Time'', ''CUSTOMS_INSPECTION_START'', ''DATETIME''),
      (''Vessel Inspection by Customs End Time'', ''CUSTOMS_INSPECTION_END'', ''DATETIME''),
      (''Stevedores Onboard'', ''STEVEDORES_ONBOARD'', ''DATETIME''), (''Stevedores offboard'', ''STEVEDORES_OFFBOARD'', ''DATETIME''),
      (''Unlashing Start Time'', ''UNLASHING_START'', ''DATETIME''), (''Unlashing End Time'', ''UNLASHING_END'', ''DATETIME''),
      (''Start of cargo operations'', ''CARGO_START'', ''DATETIME''), (''End of cargo operations'', ''CARGO_END'', ''DATETIME''),
      (''First Crane Movement'', ''FIRST_CRANE_MOVEMENT'', ''DATETIME''),
      (''First Container Movement Loaded'', ''FIRST_CONTAINER_MOVEMENT_LOADED'', ''DATETIME''),
      (''Last Container Movement Loaded'', ''LAST_CONTAINER_MOVEMENT_LOADED'', ''DATETIME''),
      (''First Container Movement Unloaded'', ''FIRST_CONTAINER_MOVEMENT_UNLOADED'', ''DATETIME''),
      (''Last Container Movement Unloaded'', ''LAST_CONTAINER_MOVEMENT_UNLOADED'', ''DATETIME''),
      (''Last Crane Movement'', ''LAST_CRANE_MOVEMENT'', ''DATETIME''), (''Crane downtime Start'', ''CRANE_DOWNTIME_START'', ''DATETIME''),
      (''Crane downtime End'', ''CRANE_DOWNTIME_END'', ''DATETIME''), (''Lashing starts'', ''LASHING_START'', ''DATETIME''),
      (''Lashing Ends'', ''LASHING_END'', ''DATETIME''), (''Number of cranes deployed for a vessel'', ''resources_deployed'', ''NUMERIC''),
      (''Crane numbers'', ''crane_numbers'', ''NUMERIC''), (''Total Container moves per vessel'', ''total_container_moves'', ''NUMERIC''),
      (''Total Crane Moves per vessel'', ''total_crane_moves'', ''NUMERIC''), (''TEUs loaded'', ''teus_loaded'', ''NUMERIC''),
      (''TEUs unloaded'', ''teus_unloaded'', ''NUMERIC''), (''TEUs transhipped'', ''teus_transhipped'', ''NUMERIC''),
      (''TEUs restowed'', ''teus_restowed'', ''NUMERIC''), (''Stowaway Search Start Time'', ''STOWAWAY_SEARCH_START'', ''DATETIME''),
      (''Stowaway Search End Time'', ''STOWAWAY_SEARCH_END'', ''DATETIME''),
      (''Vessel Inspection by Immigration Start Time'', ''IMMIGRATION_INSPECTION_START'', ''DATETIME''),
      (''Vessel Inspection by Immigration End Time'', ''IMMIGRATION_INSPECTION_END'', ''DATETIME''),
      (''Berthing End Time'', ''BERTHING_END'', ''DATETIME'')]"

definition shipped_aliases :: "alias_entry list" where
  "shipped_aliases =
     [alias_of ''Expected Time of Arrival'' ''ETA'' ''EXACT'' None, alias_of ''Actual Time of Arrival'' ''ATA'' ''EXACT'' None,
      alias_of ''Expected Time of Departure'' ''ETD'' ''EXACT'' None, alias_of ''Actual Time of Departure'' ''ATD'' ''EXACT'' None,
      alias_of ''Port Limits'' ''Port Limit In'' ''EXACT'' None, alias_of ''PILOT_ON_BOARD_ARRIVAL'' ''Pilot On Board'' ''EXACT'' None,
      alias_of ''ALL_FAST_ARRIVAL'' ''All Fast'' ''EXACT'' None, alias_of ''LAST_LINE_UNTIED_SAILING'' ''Last Line Untied'' ''EXACT'' None,
      alias_of ''BREAKWATER_OUT'' ''Breakwater Out'' ''EXACT'' None, alias_of ''CARGO_START'' ''Cargo Operations Start'' ''EXACT'' None,
      alias_of ''CARGO_END'' ''Cargo Operations End'' ''EXACT'' None,
      alias_of ''Nomination Date'' ''NOMINATION_SUBMITTED'' ''CASE_INSENSITIVE'' None,
      alias_of ''Submission Date'' ''NOMINATION_SUBMITTED'' ''CASE_INSENSITIVE'' None,
      alias_of ''Pilot Request Time 1'' ''PILOT_REQUEST_ARRIVAL'' ''CASE_INSENSITIVE'' None,
      alias_of ''Pilot Assigned Time 1'' ''PILOT_ASSIGNED_ARRIVAL'' ''CASE_INSENSITIVE'' None,
      alias_of ''Actual scheduled Date/Time'' ''PILOT_ASSIGNED_ARRIVAL'' ''CASE_INSENSITIVE'' (Some ''ARRIVAL''),
      alias_of ''Pilotage Start Time 1'' ''PILOTAGE_START_ARRIVAL'' ''CASE_INSENSITIVE'' None,
      alias_of ''Pilot On-Board 1'' ''PILOT_ON_BOARD_ARRIVAL'' ''CASE_INSENSITIVE'' None,
      alias_of ''Pilot Off-Board 1'' ''PILOT_DISEMBARK_ARRIVAL'' ''CASE_INSENSITIVE'' None,
      alias_of ''Pilotage End Time 1'' ''PILOTAGE_END_ARRIVAL'' ''CASE_INSENSITIVE'' None,
      alias_of ''Pilot Request Time 2'' ''PILOT_REQUEST_SHIFTING'' ''CASE_INSENSITIVE'' None,
      alias_of ''Pilot Assigned Time 2'' ''PILOT_ASSIGNED_SHIFTING'' ''CASE_INSENSITIVE'' None,
      alias_of ''Pilotage Start Time 2'' ''PILOTAGE_START_SHIFTING'' ''CASE_INSENSITIVE'' None,
      alias_of ''Pilot On-Board 2'' ''PILOT_ON_BOARD_SHIFTING'' ''CASE_INSENSITIVE'' None,
      alias_of ''Pilot Off-Board 2'' ''PILOT_DISEMBARK_SHIFTING'' ''CASE_INSENSITIVE'' None,
      alias_of ''Pilotage End Time 2'' ''PILOTAGE_END_SHIFTING'' ''CASE_INSENSITIVE'' None,
      alias_of ''Pilot Request Time 3'' ''PILOT_REQUEST_SAILING'' ''CASE_INSENSITIVE'' None,
      alias_of ''Pilot Assigned Time 3'' ''PILOT_ASSIGNED_SAILING'' ''CASE_INSENSITIVE'' None,
      alias_of ''Pilotage Start Time 3'' ''PILOTAGE_START_SAILING'' ''CASE_INSENSITIVE'' None,
      alias_of ''Pilot On-Board 3'' ''PILOT_ON_BOARD_SAILING'' ''CASE_INSENSITIVE'' None,
      alias_of ''Pilot Off-Board 3'' ''PILOT_DISEMBARK_SAILING'' ''CASE_INSENSITIVE'' None,
      alias_of ''Pilotage End Time 3'' ''PILOTAGE_END_SAILING'' ''CASE_INSENSITIVE'' None,
      alias_of ''Requested time'' ''PILOT_REQUEST_{MOVEMENT}'' ''MOVEMENT_SCOPED'' None,
      alias_of ''Scheduled time'' ''PILOT_ASSIGNED_{MOVEMENT}'' ''MOVEMENT_SCOPED'' None,
      alias_of ''Served Date and Time'' ''PILOTAGE_START_{MOVEMENT}'' ''MOVEMENT_SCOPED'' None,
      alias_of ''From Loc'' ''from_location'' ''FIELD_ALIAS'' None, alias_of ''To Loc'' ''to_location'' ''FIELD_ALIAS'' None,
      alias_of ''Last Port'' ''last_port_of_call'' ''FIELD_ALIAS'' None, alias_of ''Next Port'' ''next_port_of_call'' ''FIELD_ALIAS'' None]"


section \<open>The registry\<close>

definition py_isalnum :: "char \<Rightarrow> bool" where
  "py_isalnum c = (let n = (of_char c :: nat) in (48 \<le> n \<and> n \<le> 57) \<or> (65 \<le> n \<and> n \<le> 90) \<or> (97 \<le> n \<and> n \<le> 122))"

definition token :: "string \<Rightarrow> string" where
  "token s = map lower_char (filter py_isalnum s)"

definition is_digit :: "char \<Rightarrow> bool" where
  "is_digit c = (let n = (of_char c :: nat) in 48 \<le> n \<and> n \<le> 57)"

text \<open>\<open>re.sub("__duplicate_[0-9]+$", "", s)\<close>, ignoring case.\<close>

definition strip_duplicate_suffix :: "string \<Rightarrow> string" where
  "strip_duplicate_suffix s =
     (let rest = dropWhile is_digit (rev s); mark = ''__duplicate_''
      in if length rest < length s \<and> py_endswith mark (py_lower (rev rest)) then take (length rest - length mark) s else s)"

record data_dictionary =
  dd_vessel :: "(string \<times> string) list"
  dd_events :: "(string \<times> string) list"
  dd_berth :: "(string \<times> string \<times> string) list"

definition shipped_dictionary :: data_dictionary where
  "shipped_dictionary = \<lparr>dd_vessel = shipped_vessel_attributes, dd_events = shipped_event_attributes, dd_berth = shipped_berth_attributes\<rparr>"

record std_registry =
  rg_columns :: "string \<Rightarrow> string \<Rightarrow> string option"
  rg_event_names :: "string \<Rightarrow> string option"
  rg_berth_datetime_fields :: "string list"
  rg_aliases :: "alias_entry list"

definition base_aliases :: "string \<Rightarrow> (string \<times> string) list" where
  "base_aliases worksheet =
     (if worksheet = ''VesselCalls'' then vessel_call_aliases else if worksheet = ''Events'' then event_aliases
      else if worksheet = ''Services'' then service_aliases else if worksheet = ''CargoOps'' then cargo_ops_aliases
      else if worksheet = ''Delays'' then delay_aliases else [])"

definition berth_column :: "string \<Rightarrow> string" where
  "berth_column f = (case map_of berth_target_columns f of Some c \<Rightarrow> c | None \<Rightarrow> f)"

text \<open>Assignments into a dictionary in order: the last one of a key counts.\<close>

definition assign :: "(string \<times> string) list \<Rightarrow> (string \<Rightarrow> string option) \<Rightarrow> string \<Rightarrow> string option" where
  "assign kvs m k = (case map_of (rev kvs) k of Some v \<Rightarrow> Some v | None \<Rightarrow> m k)"

definition vessel_columns :: "data_dictionary \<Rightarrow> (string \<times> string) list" where
  "vessel_columns d = List.map_filter (\<lambda>(src, c). map_option (\<lambda>t. (token src, t)) (map_of vessel_target_columns c)) (dd_vessel d)"

definition datetime_berths :: "data_dictionary \<Rightarrow> (string \<times> string) list" where
  "datetime_berths d = List.map_filter (\<lambda>(src, c, ty). if ty = ''DATETIME'' then Some (src, c) else None) (dd_berth d)"

definition init_registry :: "data_dictionary \<Rightarrow> alias_entry list \<Rightarrow> std_registry result" where
  "init_registry d al =
     (case find (\<lambda>(src, c). map_of vessel_target_columns c = None) (dd_vessel d) of
        Some (src, c) \<Rightarrow> Inl (KeyError c)
      | None \<Rightarrow> Inr
          \<lparr>rg_columns = (\<lambda>w. assign (if w = ''VesselCalls'' then vessel_columns d
               else if w = ''CargoOps'' then map (\<lambda>(src, c, ty). (token src, berth_column c)) (dd_berth d) else []) (map_of (base_aliases w))),
           rg_event_names = assign (map (\<lambda>(src, c). (token src, c)) (datetime_berths d))
             (assign (map (\<lambda>(src, c). (token src, c)) (dd_events d)) (\<lambda>k. None)),
           rg_berth_datetime_fields = map snd (datetime_berths d), rg_aliases = al\<rparr>)"

definition canonical_column :: "std_registry \<Rightarrow> string \<Rightarrow> string \<Rightarrow> string" where
  "canonical_column rg worksheet source_column =
     (let c = py_strip (strip_duplicate_suffix source_column)
      in case rg_columns rg worksheet (token c) of Some t \<Rightarrow> t | None \<Rightarrow> c)"

definition recognized_columns :: "std_registry \<Rightarrow> string \<Rightarrow> string list \<Rightarrow> string list" where
  "recognized_columns rg worksheet cols = remdups (List.map_filter (\<lambda>c. rg_columns rg worksheet (token (strip_duplicate_suffix c))) cols)"

section \<open>Event names\<close>

function py_replace :: "string \<Rightarrow> string \<Rightarrow> string \<Rightarrow> string" where
  "py_replace p r [] = []"
| "py_replace p r (c # cs) = (if p \<noteq> [] \<and> py_startswith p (c # cs) then r @ py_replace p r (drop (length p) (c # cs)) else c # py_replace p r cs)"
  by pat_completeness auto
termination by (relation "measure (\<lambda>(p, r, s). length s)") auto

definition movement_key :: "string option \<Rightarrow> string" where
  "movement_key movement =
     (let k = py_upper (py_strip (or_empty movement))
      in case map_of [(''INWARD'', ''ARRIVAL''), (''OUTWARD'', ''SAILING''), (''DEPARTURE'', ''SAILING'')] k of Some x \<Rightarrow> x | None \<Rightarrow> k)"

definition movements :: "string list" where "movements = [''ARRIVAL'', ''SHIFTING'', ''SAILING'']"

fun resolve_alias :: "string \<Rightarrow> string \<Rightarrow> alias_entry list \<Rightarrow> string" where
  "resolve_alias movement v [] = v"
| "resolve_alias movement v (a # as) =
     (let scope = py_upper (or_empty (al_movement_scope a)); target = (if al_event_name a = '''' then v else al_event_name a)
      in if token (al_alias a) \<noteq> token v \<or> (scope \<noteq> '''' \<and> scope \<noteq> movement) then resolve_alias movement v as
         else if py_in ''{MOVEMENT}'' target \<and> \<not> List.member movements movement then v
         else if al_match_type a \<noteq> ''FIELD_ALIAS'' then py_replace ''{MOVEMENT}'' movement target
         else resolve_alias movement v as)"

definition is_canonical_key :: "string \<Rightarrow> bool" where
  "is_canonical_key v \<longleftrightarrow> v \<noteq> '''' \<and> v = py_upper v \<and> \<not> List.member v (CHR '' '')"

definition canonical_event_name :: "std_registry \<Rightarrow> string \<Rightarrow> string option \<Rightarrow> string" where
  "canonical_event_name rg source_name movement =
     (let v = py_strip source_name
      in if is_canonical_key v then v
         else case truthy (rg_event_names rg (token v)) of
                Some direct \<Rightarrow> direct
              | None \<Rightarrow> resolve_alias (movement_key movement) v (rg_aliases rg))"

section \<open>Cells and rows\<close>

text \<open>A cell of a worksheet as the reader delivers it: a number with its \<open>str\<close> and, where \<open>from_excel\<close> converts it, the
  converted date in ISO form; a date or time in ISO form.\<close>

datatype cell = Blank | Text string | Number rat string "string option" | Stamp string

definition source_value :: "bool \<Rightarrow> cell \<Rightarrow> string" where
  "source_value is_datetime_column c =
     (case c of Blank \<Rightarrow> '''' | Text s \<Rightarrow> s | Stamp t \<Rightarrow> t
      | Number x s converted \<Rightarrow> (case converted of Some t \<Rightarrow> if is_datetime_column then t else s | None \<Rightarrow> s))"

text \<open>What \<open>normalize_row\<close> does with a value, for cells and for the strings of the raw table: \<open>value in {None, ""}\<close>,
  equality, truth, \<open>str\<close>, and \<open>(value or "").strip()\<close>.\<close>

record 'v row_value =
  rv_blank :: "'v \<Rightarrow> bool"
  rv_same :: "'v \<Rightarrow> 'v \<Rightarrow> bool"
  rv_true :: "'v \<Rightarrow> bool"
  rv_str :: "'v \<Rightarrow> string"
  rv_text :: "string \<Rightarrow> 'v"
  rv_strip :: "'v \<Rightarrow> string result"

definition text_value :: "string row_value" where
  "text_value = \<lparr>rv_blank = (\<lambda>v. v = ''''), rv_same = (\<lambda>v w. v = w), rv_true = (\<lambda>v. v \<noteq> ''''), rv_str = (\<lambda>v. v), rv_text = (\<lambda>v. v), rv_strip = Inr\<rparr>"

definition cell_value :: "cell row_value" where
  "cell_value = \<lparr>rv_blank = (\<lambda>v. v = Blank \<or> v = Text ''''),
     rv_same = (\<lambda>v w. case (v, w) of (Number x _ _, Number y _ _) \<Rightarrow> x = y | _ \<Rightarrow> v = w),
     rv_true = (\<lambda>v. case v of Blank \<Rightarrow> False | Text s \<Rightarrow> s \<noteq> '''' | Number x _ _ \<Rightarrow> x \<noteq> 0 | Stamp _ \<Rightarrow> True),
     rv_str = (\<lambda>v. case v of Blank \<Rightarrow> ''None'' | Text s \<Rightarrow> s | Number _ s _ \<Rightarrow> s | Stamp t \<Rightarrow> t), rv_text = Text,
     rv_strip = (\<lambda>v. case v of Blank \<Rightarrow> Inr '''' | Text s \<Rightarrow> Inr s | Number x _ _ \<Rightarrow> if x = 0 then Inr '''' else Inl AttributeError | Stamp _ \<Rightarrow> Inl AttributeError)\<rparr>"

fun digits_of :: "nat \<Rightarrow> string" where
  "digits_of n = (if n < 10 then [char_of (48 + n)] else digits_of (n div 10) @ [char_of (48 + n mod 10)])"

declare digits_of.simps [simp del]

type_synonym 'v row_state = "(string \<times> 'v) list \<times> (string \<times> nat) list"

definition place_value :: "'v row_value \<Rightarrow> string \<Rightarrow> 'v \<Rightarrow> 'v row_state \<Rightarrow> 'v row_state" where
  "place_value ops c v st =
     (let (row, counts) = st
      in case map_of row c of
           None \<Rightarrow> (AList.update c v row, counts)
         | Some old \<Rightarrow>
             if rv_blank ops old then (AList.update c v row, counts)
             else if rv_blank ops v \<or> rv_same ops v old then st
             else let n = (case map_of counts c of Some n \<Rightarrow> n | None \<Rightarrow> 1) + 1
                  in (AList.update (c @ ''__source_'' @ digits_of n) v row, AList.update c n counts))"

definition collect_row :: "'v row_value \<Rightarrow> std_registry \<Rightarrow> string \<Rightarrow> (string \<times> 'v) list \<Rightarrow> (string \<times> 'v) list" where
  "collect_row ops rg worksheet vals = fst (fold (\<lambda>(col, v). place_value ops (canonical_column rg worksheet col) v) vals ([], []))"

definition normalize_row :: "'v row_value \<Rightarrow> std_registry \<Rightarrow> string \<Rightarrow> (string \<times> 'v) list \<Rightarrow> (string \<times> 'v) list result" where
  "normalize_row ops rg worksheet vals =
     (let row = collect_row ops rg worksheet vals
      in case map_of row ''Event_Name'' of
           None \<Rightarrow> Inr row
         | Some n \<Rightarrow> if worksheet \<noteq> ''Events'' \<or> \<not> rv_true ops n then Inr row
             else and_then (if is_canonical_key (py_strip (rv_str ops n)) \<or> truthy (rg_event_names rg (token (py_strip (rv_str ops n)))) \<noteq> None then Inr ''''
                 else case map_of row ''Movement_Type'' of None \<Rightarrow> Inr '''' | Some m \<Rightarrow> rv_strip ops m) (\<lambda>m.
               Inr (AList.update ''Event_Name'' (rv_text ops (canonical_event_name rg (rv_str ops n) (Some m))) row)))"

end
