(* ===== verification/Workbook.thy ===== *)
theory Workbook
  imports Standardization
begin

text \<open>
  From a workbook to validated staging rows (\<open>apps/api/services/ingestion/pipeline.py\<close>): header detection and
  classification, raw records, the mapping to staging, timestamps, and the validation of a dataset group.

  The workbook reader, the date parser and the time zone database are parameters (\<open>ingest_env\<close>). An operation that
  raises keeps what it has written, since the caller commits it: it returns the state beside its result. A Python set
  is iterated in an arbitrary order; here it is a list.
\<close>

section \<open>Environment\<close>

record sheet =
  sh_title :: string
  sh_rows :: "cell list list"

record ingest_env =
  ie_load_workbook :: "string \<Rightarrow> sheet list option"
  ie_file_sha :: "string \<Rightarrow> string"
  ie_sha :: "string \<Rightarrow> string"
  ie_file_size :: "string \<Rightarrow> nat"
  ie_storage_path :: string
  ie_error_text :: "py_error \<Rightarrow> fstring"
  ie_parse_date :: "string \<Rightarrow> py_datetime option"
  ie_localize :: "string \<Rightarrow> time \<Rightarrow> time option"
  ie_known_zone :: "string \<Rightarrow> bool"
  ie_registry :: std_registry

definition try_then :: "'s \<times> 'a result \<Rightarrow> ('a \<Rightarrow> 's \<Rightarrow> 's \<times> 'b result) \<Rightarrow> 's \<times> 'b result" where
  "try_then m k = (case m of (s, Inl e) \<Rightarrow> (s, Inl e) | (s, Inr x) \<Rightarrow> k x s)"

lemma try_then_simps [simp]: "try_then (s, Inl e) k = (s, Inl e)" "try_then (s, Inr x) k = k x s"
  by (simp_all add: try_then_def)

abbreviation in_quotes :: "string \<Rightarrow> fstring" where
  "in_quotes x \<equiv> [Lit [CHR 0x27], Str x, Lit [CHR 0x27]]"

section \<open>Targets\<close>

definition governed_worksheets :: "string list" where
  "governed_worksheets = [''VesselCalls'', ''Events'', ''Services'', ''CargoOps'', ''Delays'']"

definition required_columns :: "string \<Rightarrow> string list" where
  "required_columns target =
     (if target = ''VesselCalls'' then [''VCN'', ''Vessel_Name''] else if target = ''Events'' then [''VCN'', ''Event_Name'', ''Event_Timestamp'']
      else if target = ''Services'' then [''VCN'', ''Service_Type''] else [''VCN''])"

definition datetime_columns_of :: "string \<Rightarrow> string list" where
  "datetime_columns_of target =
     (if target = ''Events'' then [''Event_Timestamp'']
      else if target = ''Services'' then [''Submission_Time'', ''Requested_Time'', ''Scheduled_Time'', ''Served_Time'']
      else if target = ''CargoOps'' then [''Cargo_Start'', ''Cargo_End''] else if target = ''Delays'' then [''Scheduled_Time'', ''Served_Time''] else [])"

definition datetime_columns :: "std_registry \<Rightarrow> string \<Rightarrow> string list" where
  "datetime_columns rg target = remdups (datetime_columns_of target @
     (if target = ''CargoOps'' then map berth_column (rg_berth_datetime_fields rg) else []))"

definition canonical_tables :: "(string \<times> string) list" where
  "canonical_tables = [(''VesselCalls'', ''vessel_call''), (''Events'', ''event_occurrence''), (''Services'', ''service_request''),
     (''CargoOps'', ''cargo_ops''), (''Delays'', ''delay'')]"

definition target_from_sheet_name :: "string \<Rightarrow> string option" where
  "target_from_sheet_name nm = find (\<lambda>t. token nm = token t) governed_worksheets"

section \<open>Headers\<close>

definition header_candidate :: "std_registry \<Rightarrow> string list \<Rightarrow> string option \<Rightarrow> string \<Rightarrow> (nat \<times> string) option" where
  "header_candidate rg headers exact target =
     (let recognized = recognized_columns rg target headers
      in if \<not> list_all (\<lambda>c. List.member recognized c) (required_columns target) then None
         else if List.member [''CargoOps'', ''Delays''] target \<and> exact = None \<and> filter (\<lambda>c. c \<noteq> ''VCN'') recognized = [] then None
         else Some (length recognized, target))"

definition classify_headers :: "std_registry \<Rightarrow> string list \<Rightarrow> string \<Rightarrow> (string \<times> nat) option" where
  "classify_headers rg headers sheet_name =
     (let exact = target_from_sheet_name sheet_name;
          candidates = List.map_filter (header_candidate rg headers exact) governed_worksheets
      in case exact of
           Some t \<Rightarrow> map_option (\<lambda>(n, t). (t, n)) (find (\<lambda>(n, t'). t' = t) candidates)
         | None \<Rightarrow>
             (case max_by fst candidates of
                None \<Rightarrow> None
              | Some (m, u) \<Rightarrow> (case filter (\<lambda>(n, t). n = m) candidates of [(n, t)] \<Rightarrow> Some (t, n) | _ \<Rightarrow> None)))"

definition filled_cell :: "cell \<Rightarrow> bool" where
  "filled_cell c \<longleftrightarrow> \<not> rv_blank cell_value c"

definition header_scan_limit :: nat where "header_scan_limit = 50"

text \<open>The non-blank cells of a row with their column numbers, from 1.\<close>

definition raw_headers :: "cell list \<Rightarrow> (nat \<times> string) list" where
  "raw_headers row = map (\<lambda>(i, c). (i, rv_str cell_value c)) (filter (\<lambda>(i, c). filled_cell c) (enumerate 1 (take 512 row)))"

fun best_header :: "std_registry \<Rightarrow> string \<Rightarrow> (nat \<times> cell list) list \<Rightarrow> (nat \<times> string \<times> nat \<times> (nat \<times> string) list) option \<Rightarrow>
    (nat \<times> string \<times> nat \<times> (nat \<times> string) list) option" where
  "best_header rg title [] best = best"
| "best_header rg title ((i, row) # rows) best = best_header rg title rows
     (let hs = raw_headers row
      in if hs = [] then best
         else case classify_headers rg (map snd hs) title of
                None \<Rightarrow> best
              | Some (target, score) \<Rightarrow>
                  (case best of Some (m, _) \<Rightarrow> if m < score then Some (score, target, i, hs) else best | None \<Rightarrow> Some (score, target, i, hs)))"

fun number_headers :: "(string \<times> nat) list \<Rightarrow> (nat \<times> string) list \<Rightarrow> (nat \<times> string) list" where
  "number_headers counts [] = []"
| "number_headers counts ((i, h) # hs) =
     (let key = py_lower (py_strip h); n = (case map_of counts key of Some n \<Rightarrow> n | None \<Rightarrow> 0) + 1
      in (i, if 1 < n then h @ ''__duplicate_'' @ digits_of n else h) # number_headers (AList.update key n counts) hs)"

definition detect_header :: "std_registry \<Rightarrow> sheet \<Rightarrow> (string \<times> nat \<times> (nat \<times> string) list) option" where
  "detect_header rg sh = (case best_header rg (sh_title sh) (enumerate 1 (take header_scan_limit (sh_rows sh))) None of
     None \<Rightarrow> None | Some (score, target, i, hs) \<Rightarrow> Some (target, i, number_headers [] hs))"

definition sheet_has_content :: "sheet \<Rightarrow> bool" where
  "sheet_has_content sh \<longleftrightarrow> list_ex (\<lambda>row. list_ex filled_cell row) (take header_scan_limit (sh_rows sh))"

definition best_header_values :: "std_registry \<Rightarrow> sheet \<Rightarrow> string \<Rightarrow> string list" where
  "best_header_values rg sh target = snd (fold (\<lambda>row best.
       let hs = map py_strip (map snd (raw_headers row)); n = length (recognized_columns rg target hs)
       in if fst best < n then (n, hs) else best) (take header_scan_limit (sh_rows sh)) (0, []))"

section \<open>Raw records\<close>

definition cell_at :: "cell list \<Rightarrow> nat \<Rightarrow> cell" where
  "cell_at row i = (if 0 < i \<and> i \<le> length row then row ! (i - 1) else Blank)"

definition row_values :: "(nat \<times> string) list \<Rightarrow> cell list \<Rightarrow> (string \<times> cell) list" where
  "row_values hs row = fold (\<lambda>(i, h). AList.update h (cell_at row i)) hs []"

text \<open>\<open>a or b or ""\<close> on the cells of a row.\<close>

definition first_true :: "(string \<times> cell) list \<Rightarrow> string list \<Rightarrow> string" where
  "first_true row cols = (case find (rv_true cell_value) (List.map_filter (map_of row) cols) of Some c \<Rightarrow> rv_str cell_value c | None \<Rightarrow> '''')"

record source_file =
  sf_id :: uid
  sf_checksum :: string

definition raw_rows :: "std_registry \<Rightarrow> string \<Rightarrow> string \<Rightarrow> string \<Rightarrow> source_file \<Rightarrow> nat \<Rightarrow> string \<Rightarrow> (string \<times> cell) list \<Rightarrow> raw_record list" where
  "raw_rows rg target title batch_id sf n record_id vals =
     map (\<lambda>(col, c). \<lparr>rw_file_checksum = sf_checksum sf, rw_worksheet_name = title, rw_row_number = n, rw_column_name = col,
       rw_original_value = source_value (List.member (datetime_columns rg target) (canonical_column rg target col)) c,
       rw_ingestion_batch_id = batch_id, rw_source_record_id = record_id, rw_source_file_id = Some (sf_id sf)\<rparr>) vals"

text \<open>A row is kept when it holds a governed value; a lone value after blank rows is a footer.\<close>

definition row_records :: "std_registry \<Rightarrow> string \<Rightarrow> string \<Rightarrow> (nat \<times> string) list \<Rightarrow> string \<Rightarrow> source_file \<Rightarrow> nat \<Rightarrow> nat \<Rightarrow> (string \<times> cell) list \<Rightarrow>
    raw_record list result" where
  "row_records rg target title hs batch_id sf blanks n vals =
     and_then (normalize_row cell_value rg target vals) (\<lambda>row.
       let recognized = recognized_columns rg target (map snd hs);
           governed = filter (\<lambda>(c, v). List.member recognized c \<and> filled_cell v) row
       in Inr (if governed = [] \<or> (0 < blanks \<and> length governed = 1 \<and> length (filter (\<lambda>(h, v). filled_cell v) vals) = 1) then []
               else raw_rows rg target title batch_id sf n (first_true row [''VCN'', ''Source_Call_ID'']) vals))"

text \<open>The rows of a sheet: pending records reach the table in blocks of 5000, and at the end.\<close>

definition flush_raw :: "raw_record list \<Rightarrow> 'a ingest_db_scheme \<Rightarrow> 'a ingest_db_scheme" where
  "flush_raw rs s = s\<lparr>raw_records := raw_records s @ rs\<rparr>"

fun write_rows :: "std_registry \<Rightarrow> string \<Rightarrow> string \<Rightarrow> (nat \<times> string) list \<Rightarrow> string \<Rightarrow> source_file \<Rightarrow> nat \<Rightarrow> raw_record list \<Rightarrow> (nat \<times> cell list) list \<Rightarrow>
    'a ingest_db_scheme \<Rightarrow> 'a ingest_db_scheme \<times> unit result" where
  "write_rows rg target title hs batch_id sf blanks pending [] s = (flush_raw pending s, Inr ())"
| "write_rows rg target title hs batch_id sf blanks pending ((n, row) # rows) s =
     (let vals = row_values hs row
      in if \<not> list_ex (\<lambda>(h, v). filled_cell v) vals then write_rows rg target title hs batch_id sf (blanks + 1) pending rows s
         else case row_records rg target title hs batch_id sf blanks n vals of
                Inl e \<Rightarrow> (s, Inl e)
              | Inr rs \<Rightarrow>
                  (let all = pending @ rs
                   in if 5000 \<le> length all then write_rows rg target title hs batch_id sf 0 [] rows (flush_raw all s)
                      else write_rows rg target title hs batch_id sf 0 all rows s))"

definition write_sheet :: "std_registry \<Rightarrow> string \<Rightarrow> nat \<Rightarrow> (nat \<times> string) list \<Rightarrow> string \<Rightarrow> source_file \<Rightarrow> sheet \<Rightarrow> 'a ingest_db_scheme \<Rightarrow>
    'a ingest_db_scheme \<times> unit result" where
  "write_sheet rg target header_row hs batch_id sf sh s =
     write_rows rg target (sh_title sh) hs batch_id sf 0 [] (drop header_row (enumerate 1 (sh_rows sh))) s"

definition missing_columns_error :: "std_registry \<Rightarrow> string \<Rightarrow> sheet \<Rightarrow> string \<Rightarrow> py_error" where
  "missing_columns_error rg filename sh target =
     (let cols = map (canonical_column rg target) (best_header_values rg sh target)
      in ValueError ([Lit ''Worksheet ''] @ in_quotes (sh_title sh) @ [Lit '' in ''] @ in_quotes filename @
           [Lit '' is missing required column(s): '', Strs (sorted_by id (filter (\<lambda>c. \<not> List.member cols c) (required_columns target)))]))"

text \<open>The sheets in order; the targets seen and the titles of the unrecognised sheets with content.\<close>

fun parse_sheets :: "std_registry \<Rightarrow> string \<Rightarrow> string \<Rightarrow> source_file \<Rightarrow> sheet list \<Rightarrow> 'a ingest_db_scheme \<Rightarrow>
    'a ingest_db_scheme \<times> (string list \<times> string list) result" where
  "parse_sheets rg filename batch_id sf [] s = (s, Inr ([], []))"
| "parse_sheets rg filename batch_id sf (sh # shs) s =
     (case detect_header rg sh of
        None \<Rightarrow>
          (case (target_from_sheet_name (sh_title sh), sheet_has_content sh) of
             (Some t, True) \<Rightarrow> (s, Inl (missing_columns_error rg filename sh t))
           | (_, content) \<Rightarrow> try_then (parse_sheets rg filename batch_id sf shs s) (\<lambda>(seen, skipped) s.
               (s, Inr (seen, if content then sh_title sh # skipped else skipped))))
      | Some (target, header_row, hs) \<Rightarrow>
          try_then (write_sheet rg target header_row hs batch_id sf sh s) (\<lambda>u s.
          try_then (parse_sheets rg filename batch_id sf shs s) (\<lambda>(seen, skipped) s. (s, Inr (List.insert target seen, skipped)))))"

definition set_batch_status :: "string \<Rightarrow> string \<Rightarrow> 'a ingest_db_scheme \<Rightarrow> 'a ingest_db_scheme" where
  "set_batch_status i st s = s\<lparr>batch_rows := upd_by bt_batch_id i (\<lambda>b. b\<lparr>bt_status := st\<rparr>) (batch_rows s)\<rparr>"

definition upd_file :: "uid \<Rightarrow> (file_row \<Rightarrow> file_row) \<Rightarrow> 'a ingest_db_scheme \<Rightarrow> 'a ingest_db_scheme" where
  "upd_file i f s = s\<lparr>file_rows := upd_by im_id i f (file_rows s)\<rparr>"

definition parse_to_raw :: "ingest_env \<Rightarrow> string \<Rightarrow> string \<Rightarrow> string \<Rightarrow> source_file \<Rightarrow> 'a ingest_db_scheme \<Rightarrow> 'a ingest_db_scheme \<times> string list result" where
  "parse_to_raw env path filename batch_id sf s =
     (case ie_load_workbook env path of
        None \<Rightarrow> (s, Inl (ValueError ([Lit ''Workbook ''] @ in_quotes filename @ [Lit '' is corrupt or unsupported.''])))
      | Some shs \<Rightarrow> try_then (parse_sheets (ie_registry env) filename batch_id sf shs s) (\<lambda>(seen, skipped) s.
          (set_batch_status batch_id ''PARSED''
             (if seen \<noteq> [] \<and> skipped \<noteq> [] then upd_file (sf_id sf) (\<lambda>f. f\<lparr>im_error_message :=
                Some [Lit ''Skipped unrecognized worksheet(s): '', Strs skipped, Lit ''.'']\<rparr>) s else s), Inr seen)))"

section \<open>Timestamps\<close>

definition digits_value :: "string \<Rightarrow> nat" where
  "digits_value ds = foldl (\<lambda>n c. 10 * n + (of_char c - 48)) 0 ds"

text \<open>A digit run of a length in the given range, and what follows it.\<close>

definition digit_run :: "nat \<Rightarrow> nat \<Rightarrow> string \<Rightarrow> (string \<times> string) option" where
  "digit_run lo hi s = (let ds = takeWhile is_digit s in if lo \<le> length ds \<and> length ds \<le> hi then Some (ds, dropWhile is_digit s) else None)"

definition am_pm_tail :: "string \<Rightarrow> bool" where
  "am_pm_tail s = List.member ['''', ''am'', ''pm''] (py_lower (dropWhile py_isspace s))"

definition seconds_tail :: "string \<Rightarrow> bool" where
  "seconds_tail s = (case s of
       c # r \<Rightarrow> if c = CHR '':'' then (case digit_run 2 2 r of
              Some (_, d # r') \<Rightarrow> if d = CHR ''.'' then takeWhile is_digit r' \<noteq> [] \<and> am_pm_tail (dropWhile is_digit r') else am_pm_tail (d # r')
            | Some (_, []) \<Rightarrow> True | None \<Rightarrow> False)
          else am_pm_tail s
     | [] \<Rightarrow> True)"

text \<open>A time of day without a date.\<close>

definition time_only :: "string \<Rightarrow> bool" where
  "time_only s = (case digit_run 1 2 s of
       Some (_, c # r) \<Rightarrow> c = CHR '':'' \<and> (case digit_run 2 2 r of Some (_, r') \<Rightarrow> seconds_tail r' | None \<Rightarrow> False)
     | _ \<Rightarrow> False)"

text \<open>A numeric date whose day and month could be exchanged.\<close>

definition ambiguous_date :: "string \<Rightarrow> bool" where
  "ambiguous_date s = (case digit_run 1 2 s of
       Some (a, c # r) \<Rightarrow> List.member ''/-'' c \<and> (case digit_run 1 2 r of
           Some (b, d # r') \<Rightarrow> List.member ''/-'' d \<and> digit_run 2 4 r' \<noteq> None \<and> digits_value a \<le> 12 \<and> digits_value b \<le> 12
         | _ \<Rightarrow> False)
     | _ \<Rightarrow> False)"

definition source_zone :: string where "source_zone = ''Africa/Johannesburg''"

definition parse_datetime :: "ingest_env \<Rightarrow> string \<Rightarrow> string \<Rightarrow> time option" where
  "parse_datetime env zone v =
     (let source = py_strip v
      in if v = '''' \<or> time_only source \<or> ambiguous_date source then None
         else case ie_parse_date env source of
                None \<Rightarrow> None
              | Some (Aware t) \<Rightarrow> Some t
              | Some (Naive t) \<Rightarrow> ie_localize env zone t)"

text \<open>On an optional value in the default zone.\<close>

definition dt_parse :: "ingest_env \<Rightarrow> string option \<Rightarrow> time option" where
  "dt_parse env v = Option.bind v (parse_datetime env source_zone)"

section \<open>Staging\<close>

definition new_staging :: "(nat \<Rightarrow> uid) \<Rightarrow> nat \<Rightarrow> string \<Rightarrow> string \<Rightarrow> raw_record \<Rightarrow> (string \<times> string) list \<Rightarrow> staging_record" where
  "new_staging uuid n table batch_id r row = \<lparr>st_id = uuid n, st_file_checksum = rw_file_checksum r, st_ingestion_batch_id = batch_id,
     st_canonical_table = table, st_source_file_id = rw_source_file_id r, st_worksheet_name = rw_worksheet_name r, st_row_number = rw_row_number r,
     st_parsed_data = row, st_validation_status = ''PENDING'', st_errors = [], st_source_record_id = rw_source_record_id r\<rparr>"

definition raw_data :: "raw_record list \<Rightarrow> (string \<times> string) list" where
  "raw_data rs = fold (\<lambda>r. AList.update (rw_column_name r) (rw_original_value r)) rs []"

fun stage_rows :: "(nat \<Rightarrow> uid) \<Rightarrow> std_registry \<Rightarrow> string \<Rightarrow> string \<Rightarrow> (nat \<times> raw_record list) list \<Rightarrow> nat \<Rightarrow> staging_record list result" where
  "stage_rows uuid rg target batch_id [] n = Inr []"
| "stage_rows uuid rg target batch_id ((k, rs) # rows) n =
     and_then (normalize_row text_value rg target (raw_data rs)) (\<lambda>row.
     and_then (stage_rows uuid rg target batch_id rows (n + 1)) (\<lambda>rest.
       Inr (new_staging uuid n (or_empty (map_of canonical_tables target)) batch_id (hd rs) row # rest)))"

definition map_sheet :: "(nat \<Rightarrow> uid) \<Rightarrow> std_registry \<Rightarrow> string \<Rightarrow> string option \<times> string \<Rightarrow> 'a ingest_db_scheme \<Rightarrow> 'a ingest_db_scheme \<times> unit result" where
  "map_sheet uuid rg batch_id fs s =
     (let rows = filter (\<lambda>r. rw_ingestion_batch_id r = batch_id \<and> rw_source_file_id r = fst fs \<and> rw_worksheet_name r = snd fs) (raw_records s)
      in case classify_headers rg (map rw_column_name rows) (snd fs) of
           None \<Rightarrow> (s, Inl (ValueError ([Lit ''Worksheet ''] @ in_quotes (snd fs) @ [Lit '' could not be mapped unambiguously after parsing.''])))
         | Some (target, score) \<Rightarrow>
             (case stage_rows uuid rg target batch_id (group_by rw_row_number rows) (draws s) of
                Inl e \<Rightarrow> (s, Inl e)
              | Inr new \<Rightarrow> (s\<lparr>staging_records := staging_records s @ new, draws := draws s + length new\<rparr>, Inr ())))"

fun map_sheets :: "(nat \<Rightarrow> uid) \<Rightarrow> std_registry \<Rightarrow> string \<Rightarrow> (string option \<times> string) list \<Rightarrow> 'a ingest_db_scheme \<Rightarrow> 'a ingest_db_scheme \<times> unit result" where
  "map_sheets uuid rg batch_id [] s = (s, Inr ())"
| "map_sheets uuid rg batch_id (fs # rest) s = try_then (map_sheet uuid rg batch_id fs s) (\<lambda>u s. map_sheets uuid rg batch_id rest s)"

definition map_to_staging :: "(nat \<Rightarrow> uid) \<Rightarrow> std_registry \<Rightarrow> string \<Rightarrow> 'a ingest_db_scheme \<Rightarrow> 'a ingest_db_scheme \<times> unit result" where
  "map_to_staging uuid rg batch_id s =
     (let sheets = remdups (map (\<lambda>r. (rw_source_file_id r, rw_worksheet_name r)) (filter (\<lambda>r. rw_ingestion_batch_id r = batch_id) (raw_records s)))
      in try_then (map_sheets uuid rg batch_id sheets s) (\<lambda>u s. (set_batch_status batch_id ''MAPPED'' s, Inr ())))"

section \<open>Validation\<close>

definition timestamp_errors :: "ingest_env \<Rightarrow> staging_record \<Rightarrow> fstring list" where
  "timestamp_errors env r =
     (case find (\<lambda>(t, table). table = st_canonical_table r) canonical_tables of
        None \<Rightarrow> []
      | Some (target, _) \<Rightarrow> concat (map (\<lambda>col. case pd_get r col of
            None \<Rightarrow> []
          | Some v \<Rightarrow> if v = '''' \<or> parse_datetime env source_zone v \<noteq> None then []
              else [[Lit ''Column ''] @ in_quotes col @ [Lit '' contains an invalid or ambiguous timestamp: '', Str v]])
          (datetime_columns (ie_registry env) target)))"

text \<open>The fingerprint: the table and the data irrespective of the order of its keys.\<close>

definition same_data :: "staging_record \<Rightarrow> staging_record \<Rightarrow> bool" where
  "same_data r q \<longleftrightarrow> st_canonical_table r = st_canonical_table q \<and> set (st_parsed_data r) = set (st_parsed_data q)"

definition judge_row :: "ingest_env \<Rightarrow> staging_record list \<Rightarrow> staging_record \<Rightarrow> staging_record" where
  "judge_row env seen r =
     (let errs = timestamp_errors env r
      in if errs \<noteq> [] then r\<lparr>st_validation_status := ''INVALID'', st_errors := [(''invalid_timestamps'', errs)]\<rparr>
         else if list_ex (same_data r) seen then
           r\<lparr>st_validation_status := ''DUPLICATE'', st_errors := [(''duplicate'', [[Lit ''Exact duplicate row in dataset group'']])]\<rparr>
         else r\<lparr>st_validation_status := ''VALID''\<rparr>)"

fun judge_rows :: "ingest_env \<Rightarrow> staging_record list \<Rightarrow> staging_record list \<Rightarrow> staging_record list" where
  "judge_rows env seen [] = []"
| "judge_rows env seen (r # rs) =
     (let r' = judge_row env seen r in r' # judge_rows env (if st_validation_status r' = ''VALID'' then r # seen else seen) rs)"

definition in_batch :: "string \<Rightarrow> staging_record \<Rightarrow> bool" where
  "in_batch b r \<longleftrightarrow> st_ingestion_batch_id r = b"

definition replace_row :: "staging_record \<Rightarrow> staging_record list \<Rightarrow> staging_record list" where
  "replace_row r = upd_by st_id (st_id r) (\<lambda>x. r)"

definition validate_staging :: "ingest_env \<Rightarrow> string \<Rightarrow> 'a ingest_db_scheme \<Rightarrow> 'a ingest_db_scheme \<times> unit result" where
  "validate_staging env batch_id s =
     (let rows = filter (in_batch batch_id) (staging_records s)
      in if \<not> list_ex (\<lambda>r. st_canonical_table r = ''vessel_call'') rows
         then (s, Inl (ValueError [Lit ''Dataset group requires at least one VesselCalls worksheet'']))
         else (set_batch_status batch_id ''VALIDATED''
                (s\<lparr>staging_records := fold replace_row (judge_rows env [] rows) (staging_records s)\<rparr>), Inr ()))"

end
