(* ===== verification/IngestCommit.thy ===== *)
theory IngestCommit
  imports Workbook Delays
begin

text \<open>
  The commit of staged rows to the canonical tables (\<open>IngestionPipeline._commit_to_canonical\<close>): vessel calls,
  events with automatic registration of their names, services, delays with their allocation, cargo operations and the
  berth events they carry.

  \<open>py_float\<close> is \<open>float\<close> on decimal literals; the texts of infinities and NaN and digit separators are outside the
  model. No step can raise, so the state is simply passed on.
\<close>

section \<open>Reading numbers\<close>

definition exponent_part :: "string \<Rightarrow> int option" where
  "exponent_part s = (case s of
       [] \<Rightarrow> Some 0
     | c # r \<Rightarrow> if \<not> List.member ''eE'' c then None
         else let (neg, ds) = (case r of d # r' \<Rightarrow> if d = CHR ''-'' then (True, r') else if d = CHR ''+'' then (False, r') else (False, r) | [] \<Rightarrow> (False, []))
              in if ds = [] \<or> \<not> list_all is_digit ds then None else Some (if neg then - int (digits_value ds) else int (digits_value ds)))"

definition unsigned_float :: "string \<Rightarrow> rat option" where
  "unsigned_float s =
     (let ip = takeWhile is_digit s; r = dropWhile is_digit s;
          (fp, r) = (case r of c # r' \<Rightarrow> if c = CHR ''.'' then (takeWhile is_digit r', dropWhile is_digit r') else ([], r) | [] \<Rightarrow> ([], []))
      in if ip @ fp = [] then None
         else map_option (\<lambda>e. of_nat (digits_value (ip @ fp)) * 10 powi (e - int (length fp))) (exponent_part r))"

definition py_float :: "string \<Rightarrow> rat option" where
  "py_float s = (case py_strip s of
       [] \<Rightarrow> None
     | c # r \<Rightarrow> if c = CHR ''-'' then map_option (\<lambda>x. - fl x) (unsigned_float r)
         else if c = CHR ''+'' then map_option fl (unsigned_float r) else map_option fl (unsigned_float (c # r)))"

text \<open>\<open>float(v)\<close> of a true value, \<open>None\<close> when it fails; \<open>int\<close> of it truncates.\<close>

definition opt_float :: "string option \<Rightarrow> rat option" where
  "opt_float v = Option.bind (truthy v) py_float"

definition truncate_rat :: "rat \<Rightarrow> int" where
  "truncate_rat x = (if x < 0 then \<lceil>x\<rceil> else \<lfloor>x\<rfloor>)"

section \<open>Rows\<close>

definition committed :: "string \<Rightarrow> string \<Rightarrow> staging_record \<Rightarrow> bool" where
  "committed batch_id table r \<longleftrightarrow> in_batch batch_id r \<and> st_canonical_table r = table \<and>
     \<not> List.member [''DUPLICATE'', ''EXCLUDED'', ''INVALID''] (st_validation_status r)"

definition lineage :: "staging_record \<Rightarrow> string" where
  "lineage r = (case st_source_file_id r of Some f \<Rightarrow> f | None \<Rightarrow> ''None'') @ '':'' @ st_worksheet_name r @ '':'' @ digits_of (st_row_number r)"

definition pd_default :: "staging_record \<Rightarrow> string \<Rightarrow> string \<Rightarrow> string" where
  "pd_default r k d = (case pd_get r k of Some v \<Rightarrow> v | None \<Rightarrow> d)"

record commit_ctx =
  cc_calls :: "(string \<times> uid) list"
  cc_counters :: "uid \<times> uid \<Rightarrow> nat"
  cc_sourced :: "(uid \<times> uid) list"

definition call_of :: "commit_ctx \<Rightarrow> staging_record \<Rightarrow> uid option" where
  "call_of cx r = Option.bind (pd_get r ''VCN'') (map_of (cc_calls cx))"

section \<open>Vessel calls\<close>

definition vessel_source_column :: "text_col \<Rightarrow> string option" where
  "vessel_source_column c = (case c of
       License_number \<Rightarrow> Some ''License_Number'' | Imo_number \<Rightarrow> Some ''IMO_Number'' | Vessel_type \<Rightarrow> Some ''Vessel_Type'' | Flag \<Rightarrow> Some ''Flag''
     | Last_port_of_call \<Rightarrow> Some ''Last_Port_Of_Call'' | Next_port_of_call \<Rightarrow> Some ''Next_Port_Of_Call'' | Port_of_lading \<Rightarrow> Some ''Port_Of_Lading''
     | Port_of_discharge \<Rightarrow> Some ''Port_Of_Discharge'' | Reason_for_visit \<Rightarrow> Some ''Reason_For_Visit'' | Cargo_type \<Rightarrow> Some ''Cargo_Type''
     | Commodity \<Rightarrow> Some ''Commodity'' | Call_sign \<Rightarrow> Some ''Call_Sign'' | _ \<Rightarrow> None)"

definition vessel_text :: "staging_record \<Rightarrow> text_col \<Rightarrow> string option" where
  "vessel_text r c = (case c of
       Vcn \<Rightarrow> pd_get r ''VCN''
     | Vessel_name \<Rightarrow> (case truthy (pd_get r ''Vessel_Name'') of Some n \<Rightarrow> Some n | None \<Rightarrow> Some ''UNKNOWN'')
     | Source_lineage_id \<Rightarrow> Some (lineage r)
     | _ \<Rightarrow> truthy (Option.bind (vessel_source_column c) (pd_get r)))"

definition vessel_num :: "staging_record \<Rightarrow> num_col \<Rightarrow> rat option" where
  "vessel_num r c = (case c of
       Vessel_size_teu \<Rightarrow> opt_float (pd_get r ''Vessel_Size_TEU'') | Quantity_value \<Rightarrow> opt_float (pd_get r ''Planned_Quantity'')
     | Grt \<Rightarrow> opt_float (pd_get r ''GRT'') | Loa_value \<Rightarrow> opt_float (pd_get r ''LOA_Value'') | Dwt \<Rightarrow> opt_float (pd_get r ''DWT'')
     | Forward_draft_value \<Rightarrow> opt_float (pd_get r ''Forward_Draft'') | Aft_draft_value \<Rightarrow> opt_float (pd_get r ''Aft_Draft'') | Version \<Rightarrow> Some 1)"

definition new_call :: "uid \<Rightarrow> time \<Rightarrow> string \<Rightarrow> staging_record \<Rightarrow> vessel_call" where
  "new_call i now tenant r = \<lparr>vc_id = i, vc_created_at = now, vc_updated_at = now, vc_tenant_id = tenant, vc_is_merged = False,
     vc_merged_into_id = None, vc_text = vessel_text r, vc_num = vessel_num r\<rparr>"

text \<open>The first call of a number is the one its rows refer to.\<close>

definition commit_vessels :: "(nat \<Rightarrow> uid) \<Rightarrow> time \<Rightarrow> string \<Rightarrow> string \<Rightarrow> 'a ingest_db_scheme \<Rightarrow> commit_ctx \<times> 'a ingest_db_scheme" where
  "commit_vessels uuid now tenant batch_id s =
     (let rows = filter (committed batch_id ''vessel_call'') (staging_records s);
          new = map (\<lambda>(n, r). new_call (uuid n) now tenant r) (enumerate (draws s) rows)
      in (\<lparr>cc_calls = List.map_filter (\<lambda>v. map_option (\<lambda>n. (n, vc_id v)) (truthy (vc_vcn v))) new, cc_counters = (\<lambda>k. 0), cc_sourced = []\<rparr>,
          s\<lparr>vessel_calls := vessel_calls s @ new, draws := draws s + length new\<rparr>))"

section \<open>Events\<close>

definition register_names :: "(nat \<Rightarrow> uid) \<Rightarrow> string \<Rightarrow> 'a ingest_db_scheme \<Rightarrow> 'a ingest_db_scheme" where
  "register_names uuid batch_id s =
     (let rows = filter (committed batch_id ''event_occurrence'') (staging_records s);
          names = filter (\<lambda>n. definition_named n s = None) (remdups (List.map_filter (\<lambda>r. truthy (pd_get r ''Event_Name'')) rows));
          new = map (\<lambda>(i, n). \<lparr>ed_id = uuid i, ed_name = n, ed_category = Some ''Ingested'',
                    ed_description = Some (''Auto-registered from workbook: '' @ n)\<rparr>) (enumerate (draws s) (sorted_by id names))
      in s\<lparr>event_definitions := event_definitions s @ new, draws := draws s + length new\<rparr>)"

definition scope_of :: "string option \<Rightarrow> string \<Rightarrow> string" where
  "scope_of movement nm =
     (let k = movement_key movement; scope = (if List.member movements k then k else ''ARRIVAL'')
      in if truthy movement = None \<and> nm \<noteq> '''' \<and> has_any [''SAILING'', ''DEPARTURE'', ''OUT''] nm then ''SAILING''
         else if truthy movement = None \<and> nm \<noteq> '''' \<and> py_in ''SHIFT'' nm then ''SHIFTING'' else scope)"

definition event_columns :: "string list" where
  "event_columns = [''VCN'', ''Event_Name'', ''Event_Timestamp'', ''Movement_Type'', ''Operation_Type'', ''Timezone'', ''Source_System'', ''Event_ID'',
     ''Verification_Status'', ''Confidence_Score'']"

text \<open>The columns of a row that have no place of their own and hold a value.\<close>

definition other_columns :: "string list \<Rightarrow> staging_record \<Rightarrow> (string \<times> string option) list" where
  "other_columns known r = map (\<lambda>(k, v). (k, Some v)) (filter (\<lambda>(k, v). \<not> List.member known k \<and> v \<noteq> '''') (st_parsed_data r))"

definition quarantine_row :: "uid \<Rightarrow> 'a ingest_db_scheme \<Rightarrow> 'a ingest_db_scheme" where
  "quarantine_row i s = s\<lparr>staging_records := upd_by st_id i (\<lambda>r. r\<lparr>st_validation_status := ''QUARANTINED'',
     st_errors := [(''VCN'', [[Lit ''Orphan event: VCN not found'']])]\<rparr>) (staging_records s)\<rparr>"

definition blank_occurrence :: "uid \<Rightarrow> time \<Rightarrow> string \<Rightarrow> uid \<Rightarrow> uid \<Rightarrow> nat \<Rightarrow> string \<Rightarrow> time \<Rightarrow> staging_record \<Rightarrow> event_occurrence" where
  "blank_occurrence i now batch_id c d n scope t r = \<lparr>eo_id = i, eo_source_lineage_id = Some [Str (lineage r)], eo_vessel_call_id = c,
     eo_event_definition_id = d, eo_occurrence_index = int n, eo_movement_scope = scope, eo_original_string = None, eo_parsed_value = None,
     eo_source_timezone = None, eo_utc_value = t, eo_operation_type = pd_get r ''Operation_Type'', eo_attributes = [], eo_capture_method = Some ''SYSTEM'',
     eo_confidence = None, eo_verification_status = None, eo_source_system = None, eo_source_record_id = None, eo_ingestion_batch_id = Some batch_id,
     eo_correction_history = [], eo_inference_status = None, eo_human_review_state = None, eo_is_quarantined = False, eo_superseded_by_id = None,
     eo_is_superseded = False, eo_created_at = now\<rparr>"

definition row_event_name :: "ingest_env \<Rightarrow> staging_record \<Rightarrow> string" where
  "row_event_name env r = canonical_event_name (ie_registry env) (or_empty (pd_get r ''Event_Name'')) (pd_get r ''Movement_Type'')"

definition row_zone :: "staging_record \<Rightarrow> string" where
  "row_zone r = pd_default r ''Timezone'' source_zone"

definition event_time :: "ingest_env \<Rightarrow> staging_record \<Rightarrow> time option" where
  "event_time env r = Option.bind (truthy (pd_get r ''Event_Timestamp'')) (parse_datetime env (row_zone r))"

definition new_event :: "ingest_env \<Rightarrow> uid \<Rightarrow> time \<Rightarrow> string \<Rightarrow> uid \<Rightarrow> uid \<Rightarrow> nat \<Rightarrow> time \<Rightarrow> staging_record \<Rightarrow> event_occurrence" where
  "new_event env i now batch_id c d n t r =
     (blank_occurrence i now batch_id c d n (scope_of (pd_get r ''Movement_Type'') (row_event_name env r)) t r)
       \<lparr>eo_original_string := pd_get r ''Event_Timestamp'', eo_parsed_value := (if ie_known_zone env (row_zone r) then Some t else None),
        eo_source_timezone := Some (row_zone r), eo_confidence := opt_float (pd_get r ''Confidence_Score''),
        eo_verification_status := truthy (pd_get r ''Verification_Status''), eo_source_system := pd_get r ''Source_System'',
        eo_source_record_id := pd_get r ''Event_ID'',
        eo_attributes := AList.update ''source_event_name'' (pd_get r ''Event_Name'') (other_columns event_columns r)\<rparr>"

text \<open>The next occurrence of a definition in a call, and the mark that the pair has a source.\<close>

definition count_event :: "uid \<times> uid \<Rightarrow> commit_ctx \<Rightarrow> commit_ctx" where
  "count_event k cx = cx\<lparr>cc_counters := (cc_counters cx)(k := cc_counters cx k + 1), cc_sourced := k # cc_sourced cx\<rparr>"

definition commit_event ::
    "ingest_env \<Rightarrow> (nat \<Rightarrow> uid) \<Rightarrow> time \<Rightarrow> string \<Rightarrow> staging_record \<Rightarrow> commit_ctx \<times> 'a ingest_db_scheme \<Rightarrow> commit_ctx \<times> 'a ingest_db_scheme" where
  "commit_event env uuid now batch_id r st =
     (let (cx, s) = st
      in case call_of cx r of
           None \<Rightarrow> (cx, quarantine_row (st_id r) s)
         | Some c \<Rightarrow>
             (case (event_time env r, definition_named (row_event_name env r) s) of
                (Some t, Some d) \<Rightarrow> (count_event (c, d) cx,
                   s\<lparr>event_occurrences := event_occurrences s @ [new_event env (uuid (draws s)) now batch_id c d (cc_counters cx (c, d) + 1) t r],
                     draws := draws s + 1\<rparr>)
              | _ \<Rightarrow> (cx, s)))"

section \<open>Services\<close>

definition commit_service ::
    "ingest_env \<Rightarrow> (nat \<Rightarrow> uid) \<Rightarrow> staging_record \<Rightarrow> commit_ctx \<times> 'a ingest_db_scheme \<Rightarrow> commit_ctx \<times> 'a ingest_db_scheme" where
  "commit_service env uuid r st =
     (let (cx, s) = st
      in case call_of cx r of
           None \<Rightarrow> (cx, s)
         | Some c \<Rightarrow>
             (let n = draws s;
                  req = \<lparr>sr_id = uuid n, sr_source_lineage_id = Some [Str (lineage r)], sr_vessel_call_id = c, sr_service_type = pd_default r ''Service_Type'' ''Unknown'',
                         sr_requested_time = dt_parse env (pd_get r ''Requested_Time''), sr_movement_type = pd_get r ''Movement_Type'',
                         sr_submission_time = dt_parse env (pd_get r ''Submission_Time'')\<rparr>;
                  ass = \<lparr>sa_id = uuid (n + 1), sa_source_lineage_id = Some [Str (lineage r)], sa_service_request_id = uuid n,
                         sa_scheduled_time = dt_parse env (pd_get r ''Scheduled_Time''), sa_assigned_resource_id = pd_get r ''Resource_Assigned'',
                         sa_resource_type = pd_get r ''Service_Type''\<rparr>;
                  exe = \<lparr>se_id = uuid (n + 2), se_source_lineage_id = Some [Str (lineage r)], se_service_assignment_id = uuid (n + 1),
                         se_served_time = dt_parse env (pd_get r ''Served_Time''), se_execution_status = pd_get r ''Data_Status''\<rparr>
              in (cx, s\<lparr>service_requests := service_requests s @ [req], service_assignments := service_assignments s @ [ass],
                        service_executions := service_executions s @ [exe], draws := n + 3\<rparr>)))"

section \<open>Delays\<close>

definition recalculated :: "ingest_env \<Rightarrow> staging_record \<Rightarrow> rat option" where
  "recalculated env r = (case (dt_parse env (pd_get r ''Scheduled_Time''), dt_parse env (pd_get r ''Served_Time'')) of
     (Some a, Some b) \<Rightarrow> Some (fround 4 (raw_hours a b)) | _ \<Rightarrow> None)"

definition stated_hours :: "staging_record \<Rightarrow> rat option" where
  "stated_hours r = opt_float (case truthy (pd_get r ''Duration_Hours'') of Some v \<Rightarrow> Some v | None \<Rightarrow> pd_get r ''Delay_Hours'')"

definition hours_mismatch :: "rat option \<Rightarrow> rat option \<Rightarrow> bool" where
  "hours_mismatch stated recalc = (case (stated, recalc) of
     (Some v, Some x) \<Rightarrow> fl (2 / 100) < fround 6 \<bar>fsub x v\<bar> | _ \<Rightarrow> False)"

definition delay_hours_of :: "ingest_env \<Rightarrow> staging_record \<Rightarrow> rat" where
  "delay_hours_of env r = (case stated_hours r of Some v \<Rightarrow> v | None \<Rightarrow> (case recalculated env r of Some x \<Rightarrow> x | None \<Rightarrow> 0))"

definition stripped :: "staging_record \<Rightarrow> string \<Rightarrow> string \<Rightarrow> string" where
  "stripped r k d = py_strip (case truthy (pd_get r k) of Some v \<Rightarrow> v | None \<Rightarrow> d)"

definition row_category :: "staging_record \<Rightarrow> string" where
  "row_category r = map_to_canonical_category (Some (stripped r ''Delay_Category'' '''')) (Some (stripped r ''Delay_Reason'' ''''))"

definition opt_text :: "string \<Rightarrow> fstring option" where
  "opt_text x = (if x = '''' then None else Some [Str x])"

definition new_delay :: "ingest_env \<Rightarrow> uid \<Rightarrow> uid \<Rightarrow> staging_record \<Rightarrow> delay" where
  "new_delay env i c r =
     (let v = stated_hours r; x = recalculated env r; h = delay_hours_of env r; reason = stripped r ''Delay_Reason'' ''''; cat = stripped r ''Delay_Category'' ''''
      in \<lparr>dl_id = i, dl_source_lineage_id = Some [Str (lineage r)], dl_vessel_call_id = c, dl_source_delay_id = pd_get r ''Delay_ID'',
          dl_movement_stage = pd_default r ''Movement_Type'' ''Unknown'', dl_total_duration_hours = h, dl_is_early_service = (h < 0),
          dl_scheduled_time = dt_parse env (pd_get r ''Scheduled_Time''), dl_served_time = dt_parse env (pd_get r ''Served_Time''),
          dl_delay_hours = v, dl_recalculated_delay_hours = x, dl_delay_reason = opt_text reason, dl_source_category = or_None cat,
          dl_canonical_category = Some (row_category r), dl_cause_status = Some (stripped r ''Cause_Status'' ''Confirmed''),
          dl_confidence = Some (stripped r ''Confidence'' ''High''), dl_resolution_status = Some (stripped r ''Resolution_Status'' ''Open''),
          dl_has_reconciliation_mismatch = hours_mismatch v x,
          dl_reconciliation_notes = (if hours_mismatch v x then Some [Lit ''Stated: '', ONum v, Lit ''h vs Recalculated: '', ONum x, Lit ''h''] else None),
          dl_requires_reason_review = (0 < h \<and> (reason = '''' \<or> cat = ''''))\<rparr>)"

definition ingested_allocation :: "ingest_env \<Rightarrow> uid \<Rightarrow> uid \<Rightarrow> staging_record \<Rightarrow> delay_allocation" where
  "ingested_allocation env i d r =
     (let sure = py_lower (stripped r ''Cause_Status'' ''Confirmed'') = ''confirmed''; conf = py_lower (stripped r ''Confidence'' ''High'')
      in \<lparr>da_id = i, da_delay_id = d, da_cause = row_category r, da_canonical_category = Some (row_category r),
          da_reason = opt_text (stripped r ''Delay_Reason'' ''''), da_duration_hours = delay_hours_of env r, da_is_primary = True,
          da_cause_status = (if sure then ''CONFIRMED'' else ''INFERRED''),
          da_confidence = Some (if conf = ''high'' then 1 else if conf = ''medium'' then fl (7 / 10) else 1 / 2), da_inference_evidence = [],
          da_human_review_state = (if sure then ''APPROVED'' else ''PENDING_REVIEW'')\<rparr>)"

definition commit_delay ::
    "ingest_env \<Rightarrow> (nat \<Rightarrow> uid) \<Rightarrow> staging_record \<Rightarrow> commit_ctx \<times> 'a ingest_db_scheme \<Rightarrow> commit_ctx \<times> 'a ingest_db_scheme" where
  "commit_delay env uuid r st =
     (let (cx, s) = st
      in case call_of cx r of
           None \<Rightarrow> (cx, s)
         | Some c \<Rightarrow> (let n = draws s
             in (cx, s\<lparr>delays := delays s @ [new_delay env (uuid n) c r],
                      delay_allocations := delay_allocations s @ [ingested_allocation env (uuid (n + 1)) (uuid n) r], draws := n + 2\<rparr>)))"

section \<open>Cargo\<close>

definition cargo_columns :: "string list" where
  "cargo_columns = [''VCN'', ''Cargo_Operation_ID'', ''Cargo_Type'', ''Operation_Type'', ''Planned_Quantity'', ''Unit'', ''Cargo_Start'', ''Cargo_End'',
     ''Working_Hours'', ''Resources_Deployed'', ''Downtime_Hours'', ''Actual_Quantity'', ''Data_Status'']"

definition new_cargo :: "ingest_env \<Rightarrow> uid \<Rightarrow> uid \<Rightarrow> staging_record \<Rightarrow> cargo_operation" where
  "new_cargo env i c r = \<lparr>co_id = i, co_source_lineage_id = Some [Str (lineage r)], co_vessel_call_id = c, co_operation_id = pd_get r ''Cargo_Operation_ID'',
     co_cargo_type = pd_get r ''Cargo_Type'', co_operation_type = pd_get r ''Operation_Type'', co_planned_quantity = opt_float (pd_get r ''Planned_Quantity''),
     co_unit = pd_get r ''Unit'', co_cargo_start = dt_parse env (pd_get r ''Cargo_Start''), co_cargo_end = dt_parse env (pd_get r ''Cargo_End''),
     co_working_hours = opt_float (pd_get r ''Working_Hours''), co_resources_deployed = map_option truncate_rat (opt_float (pd_get r ''Resources_Deployed'')),
     co_downtime_hours = opt_float (pd_get r ''Downtime_Hours''), co_actual_quantity = opt_float (pd_get r ''Actual_Quantity''),
     co_data_status = pd_get r ''Data_Status'', co_attributes = other_columns cargo_columns r\<rparr>"

text \<open>An explicit observation of the Events sheet wins over the berth attribute of the same definition.\<close>

definition ensure_berth_definition :: "(nat \<Rightarrow> uid) \<Rightarrow> string \<Rightarrow> 'a ingest_db_scheme \<Rightarrow> uid \<times> 'a ingest_db_scheme" where
  "ensure_berth_definition uuid nm s =
     (case definition_named nm s of
        Some d \<Rightarrow> (d, s)
      | None \<Rightarrow> (uuid (draws s), s\<lparr>event_definitions := event_definitions s @ [\<lparr>ed_id = uuid (draws s), ed_name = nm, ed_category = Some ''Berth'',
          ed_description = Some (''FRD v2 berth attribute: '' @ nm)\<rparr>], draws := draws s + 1\<rparr>))"

definition new_berth_event :: "uid \<Rightarrow> time \<Rightarrow> string \<Rightarrow> uid \<Rightarrow> uid \<Rightarrow> nat \<Rightarrow> string \<Rightarrow> time \<Rightarrow> staging_record \<Rightarrow> event_occurrence" where
  "new_berth_event i now batch_id c d n nm t r =
     (blank_occurrence i now batch_id c d n ''ARRIVAL'' t r)
       \<lparr>eo_attributes := [(''source_field'', Some nm), (''source_worksheet'', Some ''CargoOps'')], eo_original_string := pd_get r (berth_column nm),
        eo_parsed_value := Some t, eo_source_timezone := Some source_zone, eo_verification_status := Some ''Unverified'',
        eo_source_system := Some ''CargoOps'', eo_source_record_id := pd_get r ''Cargo_Operation_ID''\<rparr>"

definition commit_berth_event ::
    "ingest_env \<Rightarrow> (nat \<Rightarrow> uid) \<Rightarrow> time \<Rightarrow> string \<Rightarrow> uid \<Rightarrow> staging_record \<Rightarrow> string \<Rightarrow> commit_ctx \<times> 'a ingest_db_scheme \<Rightarrow> commit_ctx \<times> 'a ingest_db_scheme" where
  "commit_berth_event env uuid now batch_id c r nm st =
     (let (cx, s) = st
      in case dt_parse env (pd_get r (berth_column nm)) of
           None \<Rightarrow> (cx, s)
         | Some t \<Rightarrow>
             (let (d, s) = ensure_berth_definition uuid nm s
              in if List.member (cc_sourced cx) (c, d) then (cx, s)
                 else (count_event (c, d) cx,
                       s\<lparr>event_occurrences := event_occurrences s @ [new_berth_event (uuid (draws s)) now batch_id c d (cc_counters cx (c, d) + 1) nm t r],
                         draws := draws s + 1\<rparr>)))"

definition set_quantity :: "staging_record \<Rightarrow> vessel_call \<Rightarrow> vessel_call" where
  "set_quantity r v = v\<lparr>vc_text := (case truthy (pd_get r ''Unit'') of Some u \<Rightarrow> (vc_text v)(Quantity_unit := Some u) | None \<Rightarrow> vc_text v),
     vc_num := (case opt_float (pd_get r ''Actual_Quantity'') of Some q \<Rightarrow> (vc_num v)(Quantity_value := Some q) | None \<Rightarrow> vc_num v)\<rparr>"

definition commit_cargo ::
    "ingest_env \<Rightarrow> (nat \<Rightarrow> uid) \<Rightarrow> time \<Rightarrow> string \<Rightarrow> staging_record \<Rightarrow> commit_ctx \<times> 'a ingest_db_scheme \<Rightarrow> commit_ctx \<times> 'a ingest_db_scheme" where
  "commit_cargo env uuid now batch_id r st =
     (let (cx, s) = st
      in case call_of cx r of
           None \<Rightarrow> (cx, s)
         | Some c \<Rightarrow>
             (let s1 = s\<lparr>cargo_operations := cargo_operations s @ [new_cargo env (uuid (draws s)) c r], draws := draws s + 1\<rparr>;
                  (cx, s2) = fold (commit_berth_event env uuid now batch_id c r) (rg_berth_datetime_fields (ie_registry env)) (cx, s1)
              in (cx, s2\<lparr>vessel_calls := upd_by vc_id c (set_quantity r) (vessel_calls s2)\<rparr>)))"

section \<open>The whole commit\<close>

text \<open>Each kind of row is selected from the table when its turn comes.\<close>

definition commit_rows ::
    "string \<Rightarrow> string \<Rightarrow> (staging_record \<Rightarrow> commit_ctx \<times> 'a ingest_db_scheme \<Rightarrow> commit_ctx \<times> 'a ingest_db_scheme) \<Rightarrow>
     commit_ctx \<times> 'a ingest_db_scheme \<Rightarrow> commit_ctx \<times> 'a ingest_db_scheme" where
  "commit_rows batch_id table step st = fold step (filter (committed batch_id table) (staging_records (snd st))) st"

definition commit_observations ::
    "ingest_env \<Rightarrow> (nat \<Rightarrow> uid) \<Rightarrow> time \<Rightarrow> batch_row \<Rightarrow> 'a ingest_db_scheme \<Rightarrow> commit_ctx \<times> 'a ingest_db_scheme" where
  "commit_observations env uuid now b s =
     (let i = bt_batch_id b; (cx, s) = commit_vessels uuid now (bt_tenant_id b) i s
      in commit_rows i ''event_occurrence'' (commit_event env uuid now i) (cx, register_names uuid i s))"

definition commit_to_canonical ::
    "ingest_env \<Rightarrow> (nat \<Rightarrow> uid) \<Rightarrow> time \<Rightarrow> batch_row \<Rightarrow> string \<Rightarrow> 'a ingest_db_scheme \<Rightarrow> 'a ingest_db_scheme" where
  "commit_to_canonical env uuid now b completion_status s =
     (let i = bt_batch_id b;
          st = commit_observations env uuid now b s;
          st = commit_rows i ''service_request'' (commit_service env uuid) st;
          st = commit_rows i ''delay'' (commit_delay env uuid) st;
          st = commit_rows i ''cargo_ops'' (commit_cargo env uuid now i) st
      in set_batch_status i completion_status (snd st))"

end
