(* ===== verification/Ingestion.thy ===== *)
theory Ingestion
  imports IngestCommit
begin

text \<open>
  One dataset group from its files to the canonical tables: \<open>process_files\<close> of
  \<open>apps/api/services/ingestion/pipeline.py\<close> with all its commits, and the upload and append endpoints of
  \<open>apps/api/routers/ingestion.py\<close> that call it. Every operation returns the state beside its result, because what was
  committed before an exception stays. Copying the accepted workbook into the object store is left out; the text of an
  exception that the interpreter words is the parameter \<open>ie_error_text\<close>.
\<close>

section \<open>The batch\<close>

definition error_message_of :: "ingest_env \<Rightarrow> py_error \<Rightarrow> fstring" where
  "error_message_of env e = (case e of ValueError m \<Rightarrow> m | _ \<Rightarrow> ie_error_text env e)"

definition group_size_ok :: "'f list \<Rightarrow> bool" where
  "group_size_ok files \<longleftrightarrow> 1 \<le> length files \<and> length files \<le> 15"

definition group_size_error :: py_error where
  "group_size_error = ValueError [Lit ''A dataset group must contain between 1 and 15 workbooks'']"

definition group_name :: "(string \<times> string) list \<Rightarrow> fstring" where
  "group_name files = (case files of [(path, filename)] \<Rightarrow> [Str filename] | _ \<Rightarrow> [NatF (length files), Lit '' workbooks''])"

definition group_checksum :: "ingest_env \<Rightarrow> (string \<times> string) list \<Rightarrow> string" where
  "group_checksum env files = ie_sha env (concat (sorted_by id (map (ie_file_sha env \<circ> fst) files)))"

definition existing_batch :: "string \<Rightarrow> string \<Rightarrow> 'a ingest_db_scheme \<Rightarrow> batch_row option result" where
  "existing_batch tenant checksum s =
     one_or_none (filter (\<lambda>b. bt_file_checksum b = checksum \<and> bt_tenant_id b = tenant) (batch_rows s))"

definition upd_batch :: "string \<Rightarrow> (batch_row \<Rightarrow> batch_row) \<Rightarrow> 'a ingest_db_scheme \<Rightarrow> 'a ingest_db_scheme" where
  "upd_batch i f s = s\<lparr>batch_rows := upd_by bt_batch_id i f (batch_rows s)\<rparr>"

definition uploaded_batch :: "string \<Rightarrow> fstring \<Rightarrow> string \<Rightarrow> string \<Rightarrow> bool \<Rightarrow> time \<Rightarrow> batch_row" where
  "uploaded_batch i nm checksum tenant synthetic now = \<lparr>bt_batch_id = i, bt_file_name = nm, bt_file_checksum = checksum, bt_status = ''UPLOADED'',
     bt_error_message = None, bt_tenant_id = tenant, bt_is_synthetic = synthetic, bt_is_active = False, bt_created_at = now\<rparr>"

section \<open>The files\<close>

definition py_basename :: "string \<Rightarrow> string" where
  "py_basename p = rev (takeWhile (\<lambda>c. c \<noteq> CHR ''/'') (rev p))"

definition stored_path :: "ingest_env \<Rightarrow> string \<Rightarrow> string \<Rightarrow> string \<Rightarrow> string \<Rightarrow> string" where
  "stored_path env tenant batch_id checksum filename =
     ie_storage_path env @ ''/'' @ tenant @ ''/'' @ batch_id @ ''/'' @ checksum @ ''_'' @ py_basename filename"

definition new_manifest :: "ingest_env \<Rightarrow> uid \<Rightarrow> string \<Rightarrow> string \<Rightarrow> string \<times> string \<Rightarrow> file_row" where
  "new_manifest env i tenant batch_id f = \<lparr>im_id = i, im_group_batch_id = batch_id, im_original_filename = snd f, im_file_checksum = ie_file_sha env (fst f),
     im_byte_size = ie_file_size env (fst f), im_storage_reference = Some (stored_path env tenant batch_id (ie_file_sha env (fst f)) (snd f)),
     im_parse_status = ''QUEUED'', im_validation_status = ''PENDING'', im_error_message = None\<rparr>"

definition add_manifests :: "ingest_env \<Rightarrow> (nat \<Rightarrow> uid) \<Rightarrow> string \<Rightarrow> string \<Rightarrow> (string \<times> string) list \<Rightarrow> 'a ingest_db_scheme \<Rightarrow>
    (string \<times> file_row) list \<times> 'a ingest_db_scheme" where
  "add_manifests env uuid tenant batch_id files s =
     (let new = map (\<lambda>(n, f). (fst f, new_manifest env (uuid n) tenant batch_id f)) (enumerate (draws s) files)
      in (new, s\<lparr>file_rows := file_rows s @ map snd new, draws := draws s + length new\<rparr>))"

definition non_governed_message :: fstring where
  "non_governed_message = [Lit ''No supported Marine Time & Motion worksheet found.'']"

definition mark_parsed :: "bool \<Rightarrow> file_row \<Rightarrow> file_row" where
  "mark_parsed governed f =
     (if governed then f\<lparr>im_parse_status := ''PARSED''\<rparr>
      else f\<lparr>im_parse_status := ''SKIPPED'', im_validation_status := ''SKIPPED'', im_error_message := Some non_governed_message\<rparr>)"

definition mark_failed :: "fstring \<Rightarrow> file_row \<Rightarrow> file_row" where
  "mark_failed msg f = f\<lparr>im_parse_status := ''FAILED'', im_validation_status := ''FAILED'', im_error_message := Some msg\<rparr>"

text \<open>The targets found in all the files; the first failing file ends the group.\<close>

fun parse_files :: "ingest_env \<Rightarrow> string \<Rightarrow> (string \<times> file_row) list \<Rightarrow> 'a ingest_db_scheme \<Rightarrow> 'a ingest_db_scheme \<times> string list result" where
  "parse_files env batch_id [] s = (s, Inr [])"
| "parse_files env batch_id ((path, m) # rest) s =
     (case parse_to_raw env path (im_original_filename m) batch_id \<lparr>sf_id = im_id m, sf_checksum = im_file_checksum m\<rparr> s of
        (s, Inl e) \<Rightarrow> (upd_file (im_id m) (mark_failed (error_message_of env e)) s, Inl e)
      | (s, Inr seen) \<Rightarrow>
          try_then (parse_files env batch_id rest (upd_file (im_id m) (mark_parsed (seen \<noteq> [])) s)) (\<lambda>more s. (s, Inr (seen @ more))))"

definition validation_of :: "string \<Rightarrow> 'a ingest_db_scheme \<Rightarrow> file_row \<Rightarrow> file_row" where
  "validation_of batch_id s f =
     (if im_parse_status f \<noteq> ''PARSED'' then f
      else f\<lparr>im_validation_status := (if list_ex (\<lambda>r. in_batch batch_id r \<and> st_source_file_id r = Some (im_id f) \<and> st_validation_status r = ''INVALID'') (staging_records s)
                                      then ''VALIDATED_WITH_ISSUES'' else ''VALIDATED'')\<rparr>)"

definition judge_files :: "string \<Rightarrow> uid list \<Rightarrow> 'a ingest_db_scheme \<Rightarrow> 'a ingest_db_scheme" where
  "judge_files batch_id ids s = fold (\<lambda>i s. upd_file i (validation_of batch_id s) s) ids s"

section \<open>The group\<close>

text \<open>A dry run opens a savepoint, but the commit at the end of \<open>_commit_to_canonical\<close> ends the outermost transaction: the
  rollback that follows has nothing to undo.\<close>

definition finish_group :: "ingest_env \<Rightarrow> (nat \<Rightarrow> uid) \<Rightarrow> time \<Rightarrow> bool \<Rightarrow> bool \<Rightarrow> batch_row \<Rightarrow> 'a ingest_db_scheme \<Rightarrow> 'a ingest_db_scheme" where
  "finish_group env uuid now dry_run commit_canonical b s =
     (let i = bt_batch_id b
      in if dry_run then set_batch_status i ''DRY_RUN_COMPLETED'' (commit_to_canonical env uuid now b ''COMMITTED'' s)
         else if commit_canonical then upd_batch i (\<lambda>b. b\<lparr>bt_is_active := True\<rparr>) (commit_to_canonical env uuid now b ''COMMITTED'' s)
         else set_batch_status i ''VALIDATED'' s)"

definition no_governed_error :: py_error where
  "no_governed_error = ValueError [Lit ''No governed worksheets were found across the uploaded files.'']"

definition run_group :: "ingest_env \<Rightarrow> (nat \<Rightarrow> uid) \<Rightarrow> time \<Rightarrow> (string \<times> string) list \<Rightarrow> bool \<Rightarrow> bool \<Rightarrow> batch_row \<Rightarrow> 'a ingest_db_scheme \<Rightarrow>
    'a ingest_db_scheme \<times> string result" where
  "run_group env uuid now files dry_run commit_canonical b s =
     (let i = bt_batch_id b; (ms, s) = add_manifests env uuid (bt_tenant_id b) i files s
      in try_then (parse_files env i ms s) (\<lambda>governed s.
           if governed = [] then (s, Inl no_governed_error)
           else try_then (map_to_staging uuid (ie_registry env) i s) (\<lambda>u s.
                try_then (validate_staging env i s) (\<lambda>u s.
                  (finish_group env uuid now dry_run commit_canonical b (judge_files i (map (im_id \<circ> snd) ms) s), Inr i)))))"

definition fail_batch :: "string \<Rightarrow> fstring \<Rightarrow> 'a ingest_db_scheme \<Rightarrow> 'a ingest_db_scheme" where
  "fail_batch i msg = upd_batch i (\<lambda>b. b\<lparr>bt_status := ''FAILED'', bt_error_message := Some msg\<rparr>)"

definition accept_group :: "ingest_env \<Rightarrow> (nat \<Rightarrow> uid) \<Rightarrow> time \<Rightarrow> string \<Rightarrow> (string \<times> string) list \<Rightarrow> bool \<Rightarrow> bool \<Rightarrow> bool \<Rightarrow> 'a ingest_db_scheme \<Rightarrow>
    'a ingest_db_scheme \<times> string result" where
  "accept_group env uuid now tenant files synthetic dry_run commit_canonical s =
     (let b = uploaded_batch (uuid (draws s)) (group_name files) (group_checksum env files) tenant synthetic now
      in case run_group env uuid now files dry_run commit_canonical b (s\<lparr>batch_rows := batch_rows s @ [b], draws := draws s + 1\<rparr>) of
           (s, Inl e) \<Rightarrow> (fail_batch (bt_batch_id b) (error_message_of env e) s, Inl e)
         | (s, Inr i) \<Rightarrow> (s, Inr i))"

definition reactivate :: "(string \<times> string) list \<Rightarrow> batch_row \<Rightarrow> 'a ingest_db_scheme \<Rightarrow> 'a ingest_db_scheme" where
  "reactivate files b = upd_batch (bt_batch_id b) (\<lambda>b. b\<lparr>bt_file_name := group_name files, bt_is_active := True\<rparr>)"

definition process_files :: "ingest_env \<Rightarrow> (nat \<Rightarrow> uid) \<Rightarrow> time \<Rightarrow> string \<Rightarrow> (string \<times> string) list \<Rightarrow> bool \<Rightarrow> bool \<Rightarrow> bool \<Rightarrow> bool \<Rightarrow> 'a ingest_db_scheme \<Rightarrow>
    'a ingest_db_scheme \<times> string result" where
  "process_files env uuid now tenant files synthetic dry_run force_new commit_canonical s =
     (if \<not> group_size_ok files then (s, Inl group_size_error)
      else case (if force_new then Inr None else existing_batch tenant (group_checksum env files) s) of
             Inl e \<Rightarrow> (s, Inl e)
           | Inr found \<Rightarrow>
               (case found of
                  Some b \<Rightarrow> if bt_status b = ''COMMITTED'' then (reactivate files b s, Inr (bt_batch_id b))
                            else accept_group env uuid now tenant files synthetic dry_run commit_canonical s
                | None \<Rightarrow> accept_group env uuid now tenant files synthetic dry_run commit_canonical s))"

end
