(* ===== verification/IngestionFacts.thy ===== *)
theory IngestionFacts
  imports Ingestion LeadTimes
begin

text \<open>
  What ingestion guarantees: parsing, mapping and validation touch only the ingestion tables, so a rejected group leaves
  the operational data alone; a dry run does not; the verdicts of the validation; the events of a commit.
\<close>

section \<open>What the phases before the commit touch\<close>

text \<open>Every table outside of ingestion.\<close>

definition same_platform :: "'a ingest_db_scheme \<Rightarrow> 'b ingest_db_scheme \<Rightarrow> bool" where
  "same_platform s s' \<longleftrightarrow> platform_db.truncate s' = (platform_db.truncate s)\<lparr>draws := draws s'\<rparr>"

lemma same_platform_refl [simp]: "same_platform s s"
  by (simp add: same_platform_def platform_db.truncate_def)

lemma same_platform_trans [trans]: "same_platform s t \<Longrightarrow> same_platform t u \<Longrightarrow> same_platform s u"
  by (simp add: same_platform_def)

lemma same_platform_upd [simp]:
  "same_platform s (s\<lparr>raw_records := x\<rparr>)" "same_platform s (s\<lparr>staging_records := y\<rparr>)" "same_platform s (s\<lparr>batch_rows := z\<rparr>)"
  "same_platform s (s\<lparr>file_rows := w\<rparr>)" "same_platform s (s\<lparr>draws := n\<rparr>)"
  "same_platform s (s\<lparr>batch_rows := z, draws := n\<rparr>)" "same_platform s (s\<lparr>draws := n, batch_rows := z\<rparr>)"
  "same_platform s (s\<lparr>file_rows := w, draws := n\<rparr>)" "same_platform s (s\<lparr>draws := n, file_rows := w\<rparr>)"
  "same_platform s (s\<lparr>staging_records := y, draws := n\<rparr>)" "same_platform s (s\<lparr>draws := n, staging_records := y\<rparr>)"
  by (simp_all add: same_platform_def platform_db.truncate_def)

text \<open>The rows of the batch table, except for their state.\<close>

definition batch_key :: "batch_row \<Rightarrow> string \<times> string \<times> string \<times> bool" where
  "batch_key b = (bt_batch_id b, bt_file_checksum b, bt_tenant_id b, bt_is_active b)"

text \<open>One step of a group: the other tables, and every batch but the group's own, stay.\<close>

definition quiet :: "string \<Rightarrow> 'a ingest_db_scheme \<Rightarrow> 'a ingest_db_scheme \<Rightarrow> bool" where
  "quiet i s s' \<longleftrightarrow> same_platform s s' \<and> map batch_key (batch_rows s') = map batch_key (batch_rows s) \<and>
     filter (\<lambda>b. bt_batch_id b \<noteq> i) (batch_rows s') = filter (\<lambda>b. bt_batch_id b \<noteq> i) (batch_rows s)"

lemma quiet_refl [simp]: "quiet i s s"
  by (simp add: quiet_def)

lemma quiet_trans [trans]: "quiet i s t \<Longrightarrow> quiet i t u \<Longrightarrow> quiet i s u"
  unfolding quiet_def using same_platform_trans by metis

lemma upd_by_others:
  assumes "\<And>b. bt_batch_id (f b) = bt_batch_id b"
  shows "filter (\<lambda>b. bt_batch_id b \<noteq> i) (upd_by bt_batch_id i f bs) = filter (\<lambda>b. bt_batch_id b \<noteq> i) bs"
  by (induction bs) (auto simp: upd_by_def assms)

lemma upd_by_keys:
  assumes "\<And>b. batch_key (f b) = batch_key b"
  shows "map batch_key (upd_by bt_batch_id i f bs) = map batch_key bs"
  by (induction bs) (auto simp: upd_by_def assms)

lemma quiet_upd_batch:
  assumes "\<And>b. batch_key (f b) = batch_key b"
  shows "quiet i s (upd_batch i f s)"
  using assms upd_by_others [of f] upd_by_keys [of f] by (simp add: quiet_def upd_batch_def batch_key_def)

lemma set_batch_status_upd: "set_batch_status i st s = upd_batch i (\<lambda>b. b\<lparr>bt_status := st\<rparr>) s"
  by (simp add: set_batch_status_def upd_batch_def)

lemma quiet_status [simp]: "quiet i s (set_batch_status i st s)"
  unfolding set_batch_status_upd by (rule quiet_upd_batch) (simp add: batch_key_def)

lemma quiet_fail [simp]: "quiet i s (fail_batch i msg s)"
  unfolding fail_batch_def by (rule quiet_upd_batch) (simp add: batch_key_def)

lemma quiet_simple [simp]:
  "quiet i s (upd_file j f s)" "quiet i s (flush_raw rs s)" "quiet i s (s\<lparr>staging_records := y\<rparr>)"
  "quiet i s (s\<lparr>staging_records := y, draws := n\<rparr>)" "quiet i s (s\<lparr>file_rows := w, draws := n\<rparr>)"
  by (simp_all add: quiet_def upd_file_def flush_raw_def)

lemma quiet_try_then:
  assumes "quiet i s (fst m)" "\<And>x t. m = (t, Inr x) \<Longrightarrow> quiet i t (fst (k x t))"
  shows "quiet i s (fst (try_then m k))"
proof (cases m)
  case (Pair t r)
  then show ?thesis using assms quiet_trans [of i s t] by (cases r) auto
qed

lemma quiet_write_rows: "quiet i s (fst (write_rows rg target title hs b sf blanks pending rows s))"
  by (induction rg target title hs b sf blanks pending rows s rule: write_rows.induct)
     (auto simp: Let_def split: sum.splits intro: quiet_trans [OF quiet_simple(2)])

lemma quiet_parse_sheets: "quiet i s (fst (parse_sheets rg nm b sf shs s))"
proof (induction rg nm b sf shs s rule: parse_sheets.induct)
  case (2 rg nm b sf sh shs s)
  show ?case
    using 2 by (auto simp: write_sheet_def quiet_write_rows split: option.splits bool.splits intro!: quiet_try_then)
qed simp

lemma quiet_parse_to_raw: "quiet i s (fst (parse_to_raw env path nm i sf s))"
  unfolding parse_to_raw_def
  by (auto simp: split_beta split: option.splits intro!: quiet_try_then quiet_parse_sheets intro: quiet_trans [OF quiet_simple(1) quiet_status])

lemma quiet_parse_files: "quiet i s (fst (parse_files env i ms s))"
proof (induction ms arbitrary: s)
  case (Cons m ms)
  obtain path f where m: "m = (path, f)" by (cases m)
  let ?p = "parse_to_raw env path (im_original_filename f) i \<lparr>sf_id = im_id f, sf_checksum = im_file_checksum f\<rparr> s"
  have p: "quiet i s (fst ?p)" by (rule quiet_parse_to_raw)
  obtain t r where tr: "?p = (t, r)" by (cases ?p)
  then have q: "quiet i s (upd_file j g t)" for j g using quiet_trans [OF p quiet_simple(1)] by simp
  show ?case unfolding m using tr q Cons
    by (cases r) (auto intro!: quiet_try_then intro: quiet_trans)
qed simp

lemma quiet_map_sheets: "quiet i s (fst (map_sheets uuid rg i fss s))"
proof (induction fss arbitrary: s)
  case (Cons fs fss)
  have "quiet i s (fst (map_sheet uuid rg i fs s))"
    unfolding map_sheet_def by (auto simp: Let_def split: option.splits sum.splits)
  with Cons show ?case by (auto intro!: quiet_try_then)
qed simp

lemma quiet_map_to_staging: "quiet i s (fst (map_to_staging uuid rg i s))"
  unfolding map_to_staging_def Let_def by (auto intro!: quiet_try_then quiet_map_sheets)

lemma quiet_validate: "quiet i s (fst (validate_staging env i s))"
  unfolding validate_staging_def Let_def by (auto intro: quiet_trans [OF quiet_simple(3) quiet_status])

lemma quiet_judge_files: "quiet i s (judge_files i ids s)"
  unfolding judge_files_def by (induction ids arbitrary: s) (auto intro: quiet_trans [OF quiet_simple(1)])

lemma quiet_manifests: "quiet i s (snd (add_manifests env uuid tenant i files s))"
  by (simp add: add_manifests_def Let_def)

text \<open>What the group does before its last step.\<close>

definition prepare_group :: "ingest_env \<Rightarrow> (nat \<Rightarrow> uid) \<Rightarrow> (string \<times> string) list \<Rightarrow> batch_row \<Rightarrow> 'a ingest_db_scheme \<Rightarrow> 'a ingest_db_scheme \<times> unit result" where
  "prepare_group env uuid files b s =
     (let i = bt_batch_id b; (ms, s) = add_manifests env uuid (bt_tenant_id b) i files s
      in try_then (parse_files env i ms s) (\<lambda>governed s.
           if governed = [] then (s, Inl no_governed_error)
           else try_then (map_to_staging uuid (ie_registry env) i s) (\<lambda>u s.
                try_then (validate_staging env i s) (\<lambda>u s. (judge_files i (map (im_id \<circ> snd) ms) s, Inr ())))))"

lemma try_then_assoc: "try_then (try_then m k) l = try_then m (\<lambda>x s. try_then (k x s) l)"
  by (cases m; cases "snd m") auto

lemma run_group_split:
  "run_group env uuid now files dry_run commit_canonical b s =
     try_then (prepare_group env uuid files b s) (\<lambda>u s. (finish_group env uuid now dry_run commit_canonical b s, Inr (bt_batch_id b)))"
proof -
  have *: "try_then (if c then (x, Inl e) else m) k = (if c then (x, Inl e) else try_then m k)"
    for c :: bool and x :: "'a ingest_db_scheme" and e and m :: "'a ingest_db_scheme \<times> unit result" and k :: "unit \<Rightarrow> 'a ingest_db_scheme \<Rightarrow> 'a ingest_db_scheme \<times> string result"
    by simp
  show ?thesis unfolding run_group_def prepare_group_def Let_def split_beta
    by (simp add: try_then_assoc * cong: if_cong)
qed

lemma quiet_prepare: "quiet (bt_batch_id b) s (fst (prepare_group env uuid files b s))"
proof -
  let ?i = "bt_batch_id b"
  obtain ms t where m: "add_manifests env uuid (bt_tenant_id b) ?i files s = (ms, t)" by fastforce
  then have t: "quiet ?i s t" using quiet_manifests [of ?i s env uuid "bt_tenant_id b" files] by simp
  have "quiet ?i t (fst (prepare_group env uuid files b s))"
    unfolding prepare_group_def Let_def m split
    by (auto intro!: quiet_try_then quiet_parse_files quiet_map_to_staging quiet_validate quiet_judge_files)
  with t show ?thesis by (rule quiet_trans)
qed

section \<open>A rejected group\<close>

lemma existing_none_or: "existing_batch tenant c s = Inr (Some b) \<Longrightarrow> b \<in> set (batch_rows s) \<and> bt_file_checksum b = c \<and> bt_tenant_id b = tenant"
  unfolding existing_batch_def one_or_none_def by (auto split: list.splits simp: filter_eq_Cons_iff)

lemma quiet_batches:
  assumes "quiet i (s\<lparr>batch_rows := batch_rows s @ [b], draws := n\<rparr>) s'" "bt_batch_id b = i" "i \<notin> bt_batch_id ` set (batch_rows s)"
  obtains b' where "batch_rows s' = batch_rows s @ [b']" "batch_key b' = batch_key b"
proof -
  let ?o = "filter (\<lambda>b. bt_batch_id b \<noteq> i)"
  have k: "map batch_key (batch_rows s') = map batch_key (batch_rows s) @ [batch_key b]" and o: "?o (batch_rows s') = ?o (batch_rows s @ [b])"
    using assms(1) by (simp_all add: quiet_def)
  have ne: "batch_rows s' \<noteq> []" using k by auto
  define h l where hl: "h = butlast (batch_rows s')" "l = last (batch_rows s')"
  have s': "batch_rows s' = h @ [l]" using ne by (simp add: hl)
  have kh: "map batch_key h = map batch_key (batch_rows s)" and kl: "batch_key l = batch_key b" using k unfolding s' by simp_all
  have "map bt_batch_id h = map bt_batch_id (batch_rows s)" using arg_cong [OF kh, of "map fst"] by (simp add: batch_key_def comp_def)
  then have "i \<notin> bt_batch_id ` set h" using assms(3) by (metis set_map)
  then have "?o h = h" "?o (batch_rows s) = batch_rows s" using assms(3) by (auto simp: filter_id_conv)
  moreover have "bt_batch_id l = i" using kl assms(2) by (simp add: batch_key_def)
  ultimately have "h = batch_rows s" using o assms(2) unfolding s' by simp
  then show ?thesis using that s' kl by simp
qed

lemma upd_batch_snoc:
  assumes "batch_rows t = bs @ [b]" "bt_batch_id b = i" "i \<notin> bt_batch_id ` set bs"
  shows "batch_rows (upd_batch i f t) = bs @ [f b]"
proof -
  have "map (\<lambda>r. if bt_batch_id r = i then f r else r) bs = bs" using assms(3) by (auto intro!: map_idI)
  then show ?thesis using assms(1,2) by (simp add: upd_batch_def upd_by_def)
qed

definition opened_batch :: "ingest_env \<Rightarrow> (nat \<Rightarrow> uid) \<Rightarrow> time \<Rightarrow> string \<Rightarrow> (string \<times> string) list \<Rightarrow> bool \<Rightarrow> 'a ingest_db_scheme \<Rightarrow> batch_row" where
  "opened_batch env uuid now tenant files synthetic s =
     uploaded_batch (uuid (draws s)) (group_name files) (group_checksum env files) tenant synthetic now"

definition opened :: "batch_row \<Rightarrow> 'a ingest_db_scheme \<Rightarrow> 'a ingest_db_scheme" where
  "opened b s = s\<lparr>batch_rows := batch_rows s @ [b], draws := draws s + 1\<rparr>"

lemma accept_group_split:
  "accept_group env uuid now tenant files synthetic dry_run cc s =
     (let b = opened_batch env uuid now tenant files synthetic s
      in case prepare_group env uuid files b (opened b s) of
           (t, Inl e) \<Rightarrow> (fail_batch (bt_batch_id b) (error_message_of env e) t, Inl e)
         | (t, Inr u) \<Rightarrow> (finish_group env uuid now dry_run cc b t, Inr (bt_batch_id b)))"
  unfolding accept_group_def run_group_split Let_def opened_batch_def [symmetric] opened_def [symmetric]
  by (cases "prepare_group env uuid files (opened_batch env uuid now tenant files synthetic s) (opened (opened_batch env uuid now tenant files synthetic s) s)")
     (auto split: sum.splits)

lemma accept_failed:
  assumes "accept_group env uuid now tenant files synthetic dry_run cc s = (s', Inl e)" "uuid (draws s) \<notin> bt_batch_id ` set (batch_rows s)"
  obtains b where "same_platform s s'" "batch_rows s' = batch_rows s @ [b]" "bt_status b = ''FAILED''" "\<not> bt_is_active b"
    "bt_error_message b = Some (error_message_of env e)"
proof -
  let ?b = "opened_batch env uuid now tenant files synthetic s"
  let ?s = "opened ?b s"
  obtain t where p: "prepare_group env uuid files ?b ?s = (t, Inl e)" and s': "s' = fail_batch (bt_batch_id ?b) (error_message_of env e) t"
    using assms(1) unfolding accept_group_split Let_def by (auto split: prod.splits sum.splits)
  have i: "bt_batch_id ?b = uuid (draws s)" by (simp add: opened_batch_def uploaded_batch_def)
  have q: "quiet (bt_batch_id ?b) ?s t" using quiet_prepare [of ?b ?s env uuid files] unfolding p by simp
  obtain b' where b': "batch_rows t = batch_rows s @ [b']" "batch_key b' = batch_key ?b"
    using quiet_batches [OF q [unfolded opened_def] refl] assms(2) i by metis
  have id: "bt_batch_id b' = bt_batch_id ?b" and off: "\<not> bt_is_active b'" using b'(2) by (simp_all add: batch_key_def opened_batch_def uploaded_batch_def)
  have "same_platform ?s t" using q by (simp add: quiet_def)
  moreover have "same_platform t s'" using quiet_fail [of "bt_batch_id ?b" t] unfolding s' quiet_def by blast
  moreover have "same_platform s ?s" by (simp add: opened_def)
  ultimately have "same_platform s s'" using same_platform_trans by metis
  moreover have "batch_rows s' = batch_rows s @ [b'\<lparr>bt_status := ''FAILED'', bt_error_message := Some (error_message_of env e)\<rparr>]"
    unfolding s' fail_batch_def using upd_batch_snoc [OF b'(1) id] assms(2) i by simp
  ultimately show ?thesis using that off by simp
qed



section \<open>Uploading a failed group again\<close>

text \<open>A fold over commit steps keeps what each step keeps.\<close>

lemma steps_keep:
  assumes "\<And>x st. x \<in> set xs \<Longrightarrow> f (g x st) = f st"
  shows "f (fold g xs st) = f st"
  using assms by (induction xs arbitrary: st) auto

lemma commit_steps_keep_batches:
  "batch_rows (snd (commit_event env uuid now i r st)) = batch_rows (snd st)"
  "batch_rows (snd (commit_service env uuid r st)) = batch_rows (snd st)"
  "batch_rows (snd (commit_delay env uuid r st)) = batch_rows (snd st)"
  "batch_rows (snd (commit_berth_event env uuid now i c r nm st)) = batch_rows (snd st)"
  by (auto simp: commit_event_def commit_service_def commit_delay_def commit_berth_event_def quarantine_row_def
    ensure_berth_definition_def Let_def split_beta split: option.splits)

lemma commit_cargo_keeps_batches: "batch_rows (snd (commit_cargo env uuid now i r st)) = batch_rows (snd st)"
  by (auto simp: commit_cargo_def Let_def split_beta commit_steps_keep_batches
    steps_keep [where f = "\<lambda>st. batch_rows (snd st)"] split: option.splits)

lemma commit_keeps_batches:
  "batch_rows (commit_to_canonical env uuid now b st s) = upd_by bt_batch_id (bt_batch_id b) (\<lambda>b. b\<lparr>bt_status := st\<rparr>) (batch_rows s)"
proof -
  have keep: "batch_rows (snd (commit_rows i t step x)) = batch_rows (snd x)"
    if "\<And>r st. batch_rows (snd (step r st)) = batch_rows (snd st)" for i t step and x :: "commit_ctx \<times> 'a ingest_db_scheme"
    unfolding commit_rows_def by (rule steps_keep) (rule that)
  show ?thesis
    by (simp add: commit_to_canonical_def commit_observations_def commit_vessels_def register_names_def set_batch_status_def Let_def split_beta
      keep commit_steps_keep_batches commit_cargo_keeps_batches)
qed

definition group_key :: "batch_row \<Rightarrow> string \<times> string" where
  "group_key b = (bt_file_checksum b, bt_tenant_id b)"

lemma upd_by_group_keys:
  assumes "\<And>b. group_key (f b) = group_key b"
  shows "map group_key (upd_by bt_batch_id i f bs) = map group_key bs"
  by (induction bs) (auto simp: upd_by_def assms)

lemma finish_group_keys: "map group_key (batch_rows (finish_group env uuid now dry_run cc b s)) = map group_key (batch_rows s)"
  by (simp add: finish_group_def Let_def upd_batch_def set_batch_status_def commit_keeps_batches upd_by_group_keys group_key_def)

lemma quiet_group_keys: "quiet i s t \<Longrightarrow> map group_key (batch_rows t) = map group_key (batch_rows s)"
proof -
  assume "quiet i s t"
  then have "map batch_key (batch_rows t) = map batch_key (batch_rows s)" by (simp add: quiet_def)
  from arg_cong [OF this, of "map (\<lambda>(i, c, t, a). (c, t))"] show ?thesis by (simp add: batch_key_def group_key_def [abs_def] comp_def)
qed

lemma accept_group_keys:
  "map group_key (batch_rows (fst (accept_group env uuid now tenant files synthetic dry_run cc s))) =
     map group_key (batch_rows s) @ [(group_checksum env files, tenant)]"
proof -
  let ?b = "opened_batch env uuid now tenant files synthetic s"
  obtain t r where p: "prepare_group env uuid files ?b (opened ?b s) = (t, r)" by fastforce
  have t: "map group_key (batch_rows t) = map group_key (batch_rows s) @ [(group_checksum env files, tenant)]"
    using quiet_group_keys [OF quiet_prepare [of ?b "opened ?b s" env uuid files]]
    unfolding p by (simp add: opened_def opened_batch_def uploaded_batch_def group_key_def)
  have "map group_key (batch_rows (fail_batch i m t)) = map group_key (batch_rows t)" for i m
    by (rule quiet_group_keys [OF quiet_fail])
  then show ?thesis unfolding accept_group_split Let_def p by (cases r) (simp_all add: t finish_group_keys)
qed

lemma existing_batch_keys:
  "existing_batch tenant c s =
     (case filter (\<lambda>b. group_key b = (c, tenant)) (batch_rows s) of [] \<Rightarrow> Inr None | [b] \<Rightarrow> Inr (Some b) | _ \<Rightarrow> Inl MultipleResultsFound)"
  by (simp add: existing_batch_def one_or_none_def group_key_def)

lemma existing_batch_many:
  assumes "2 \<le> length (filter (\<lambda>k. k = (c, tenant)) (map group_key (batch_rows s)))"
  shows "existing_batch tenant c s = Inl MultipleResultsFound"
proof -
  have "2 \<le> length (filter (\<lambda>b. group_key b = (c, tenant)) (batch_rows s))" using assms by (simp add: filter_map comp_def)
  then show ?thesis unfolding existing_batch_keys by (auto split: list.splits)
qed

text \<open>A dataset group whose batch did not get committed can be uploaded again once, and then never more: after the
  retry two batches carry the checksum, and every further process_files of the same files for that tenant without
  force_new raises MultipleResultsFound in scalar_one_or_none, whether or not the retry was successful.\<close>

theorem retried_group_is_locked_out:
  assumes "existing_batch tenant (group_checksum env files) s = Inr (Some b)" "bt_status b \<noteq> ''COMMITTED''" "group_size_ok files"
  shows "process_files env uuid2 later tenant files synthetic2 dry_run2 False cc2 (fst (process_files env uuid now tenant files synthetic dry_run False cc s)) =
    (fst (process_files env uuid now tenant files synthetic dry_run False cc s), Inl MultipleResultsFound)"
proof -
  let ?k = "(group_checksum env files, tenant)" and ?s = "fst (accept_group env uuid now tenant files synthetic dry_run cc s)"
  have first: "fst (process_files env uuid now tenant files synthetic dry_run False cc s) = ?s" using assms by (simp add: process_files_def)
  have "b \<in> set (filter (\<lambda>b. group_key b = ?k) (batch_rows s))" using existing_none_or [OF assms(1)] by (simp add: group_key_def)
  then have "1 \<le> length (filter (\<lambda>b. group_key b = ?k) (batch_rows s))" by (cases "filter (\<lambda>b. group_key b = ?k) (batch_rows s)") auto
  then have "2 \<le> length (filter (\<lambda>k. k = ?k) (map group_key (batch_rows ?s)))" unfolding accept_group_keys by (simp add: filter_map comp_def)
  then have "existing_batch tenant (group_checksum env files) ?s = Inl MultipleResultsFound" by (rule existing_batch_many)
  then show ?thesis unfolding first using assms(3) by (simp add: process_files_def)
qed

section \<open>The events of a commit\<close>

definition pair_of :: "event_occurrence \<Rightarrow> uid \<times> uid" where
  "pair_of e = (eo_vessel_call_id e, eo_event_definition_id e)"

definition events_of :: "uid \<times> uid \<Rightarrow> event_occurrence list \<Rightarrow> event_occurrence list" where
  "events_of k es = filter (\<lambda>e. pair_of e = k) es"

lemma events_of_simps [simp]: "events_of k [] = []" "events_of k (xs @ ys) = events_of k xs @ events_of k ys"
  "events_of k [e] = (if pair_of e = k then [e] else [])"
  by (simp_all add: events_of_def)

text \<open>The events \<open>es\<close> written so far, seen from the counters: the indexes of a pair run from 1, and a pair with an event
  is marked.\<close>

definition slots_ok :: "event_occurrence list \<Rightarrow> commit_ctx \<Rightarrow> bool" where
  "slots_ok es cx \<longleftrightarrow> (\<forall>k. cc_counters cx k = length (events_of k es) \<and>
     map eo_occurrence_index (events_of k es) = map int [1..<length (events_of k es) + 1] \<and>
     (k \<in> set (cc_sourced cx) \<longleftrightarrow> events_of k es \<noteq> []))"

lemma slots_add:
  assumes "slots_ok es cx" "pair_of e = k" "eo_occurrence_index e = int (cc_counters cx k + 1)"
  shows "slots_ok (es @ [e]) (count_event k cx)"
  unfolding slots_ok_def
proof (intro allI)
  fix j
  have "cc_counters cx j = length (events_of j es)" "map eo_occurrence_index (events_of j es) = map int [1..<length (events_of j es) + 1]"
      "j \<in> set (cc_sourced cx) \<longleftrightarrow> events_of j es \<noteq> []"
    using assms(1) unfolding slots_ok_def by blast+
  then show "cc_counters (count_event k cx) j = length (events_of j (es @ [e])) \<and>
      map eo_occurrence_index (events_of j (es @ [e])) = map int [1..<length (events_of j (es @ [e])) + 1] \<and>
      (j \<in> set (cc_sourced (count_event k cx)) \<longleftrightarrow> events_of j (es @ [e]) \<noteq> [])"
    using assms(2,3) by (cases "j = k") (simp_all add: count_event_def)
qed

text \<open>A step of the commit adds at most one event, which takes the next slot of its pair.\<close>

definition event_step :: "(event_occurrence \<Rightarrow> commit_ctx \<Rightarrow> bool) \<Rightarrow> commit_ctx \<times> 'a ingest_db_scheme \<Rightarrow> commit_ctx \<times> 'a ingest_db_scheme \<Rightarrow> bool" where
  "event_step allowed st st' \<longleftrightarrow> cc_calls (fst st') = cc_calls (fst st) \<and>
     ((event_occurrences (snd st') = event_occurrences (snd st) \<and> fst st' = fst st) \<or>
      (\<exists>e. event_occurrences (snd st') = event_occurrences (snd st) @ [e] \<and> fst st' = count_event (pair_of e) (fst st) \<and> allowed e (fst st) \<and>
         eo_occurrence_index e = int (cc_counters (fst st) (pair_of e) + 1) \<and> eo_vessel_call_id e \<in> snd ` set (cc_calls (fst st))))"

definition unsourced :: "event_occurrence \<Rightarrow> commit_ctx \<Rightarrow> bool" where
  "unsourced e cx \<longleftrightarrow> pair_of e \<notin> set (cc_sourced cx)"

lemma call_of_known: "call_of cx r = Some c \<Longrightarrow> c \<in> snd ` set (cc_calls cx)"
  unfolding call_of_def by (force simp: bind_eq_Some_conv dest: map_of_SomeD)

lemma new_event_sel [simp]:
  "pair_of (new_event env i now b c d n t r) = (c, d)" "eo_occurrence_index (new_event env i now b c d n t r) = int n"
  "pair_of (new_berth_event i now b c d n nm t r) = (c, d)" "eo_occurrence_index (new_berth_event i now b c d n nm t r) = int n"
  "eo_vessel_call_id (new_event env i now b c d n t r) = c" "eo_vessel_call_id (new_berth_event i now b c d n nm t r) = c"
  by (simp_all add: new_event_def new_berth_event_def blank_occurrence_def pair_of_def)

lemma event_step_commit_event: "event_step (\<lambda>e cx. True) st (commit_event env uuid now i r st)"
  using call_of_known [of "fst st" r]
  by (auto simp: event_step_def commit_event_def quarantine_row_def count_event_def Let_def split_beta split: option.splits)

lemma event_step_berth:
  assumes "c \<in> snd ` set (cc_calls (fst st))"
  shows "event_step unsourced st (commit_berth_event env uuid now i c r nm st)"
proof (cases "dt_parse env (pd_get r (berth_column nm))")
  case None
  then show ?thesis by (simp add: event_step_def commit_berth_event_def split_beta)
next
  case (Some t)
  obtain d s' where d: "ensure_berth_definition uuid nm (snd st) = (d, s')" by fastforce
  have s': "event_occurrences s' = event_occurrences (snd st)"
    using d by (auto simp: ensure_berth_definition_def split: option.splits)
  show ?thesis
    using assms s' by (auto simp: event_step_def commit_berth_event_def Some d split_beta unsourced_def count_event_def)
qed

text \<open>Several steps: the events of a run, with its counters.\<close>

definition event_run :: "bool \<Rightarrow> commit_ctx \<times> 'a ingest_db_scheme \<Rightarrow> commit_ctx \<times> 'a ingest_db_scheme \<Rightarrow> bool" where
  "event_run fills st st' \<longleftrightarrow> cc_calls (fst st') = cc_calls (fst st) \<and>
     (\<exists>new. event_occurrences (snd st') = event_occurrences (snd st) @ new \<and> (\<forall>e \<in> set new. eo_vessel_call_id e \<in> snd ` set (cc_calls (fst st))) \<and>
       (\<forall>es. slots_ok es (fst st) \<longrightarrow> slots_ok (es @ new) (fst st') \<and>
          (fills \<longrightarrow> (\<forall>k. events_of k new = [] \<or> events_of k es = [] \<and> length (events_of k new) = 1))))"

lemma event_run_refl [simp]: "event_run fills st st"
  by (auto simp: event_run_def)

lemma event_run_same: "fst st' = fst st \<Longrightarrow> event_occurrences (snd st') = event_occurrences (snd st) \<Longrightarrow> event_run fills st st'"
  by (auto simp: event_run_def)

lemma event_run_trans:
  assumes "event_run fills st t" "event_run fills t u"
  shows "event_run fills st u"
proof -
  obtain xs where xs: "event_occurrences (snd t) = event_occurrences (snd st) @ xs" "\<forall>e \<in> set xs. eo_vessel_call_id e \<in> snd ` set (cc_calls (fst st))"
      "\<And>es. slots_ok es (fst st) \<Longrightarrow> slots_ok (es @ xs) (fst t)"
      "\<And>es k. slots_ok es (fst st) \<Longrightarrow> fills \<Longrightarrow> events_of k xs = [] \<or> events_of k es = [] \<and> length (events_of k xs) = 1"
    using assms(1) unfolding event_run_def by blast
  obtain ys where ys: "event_occurrences (snd u) = event_occurrences (snd t) @ ys" "\<forall>e \<in> set ys. eo_vessel_call_id e \<in> snd ` set (cc_calls (fst t))"
      "\<And>es. slots_ok es (fst t) \<Longrightarrow> slots_ok (es @ ys) (fst u)"
      "\<And>es k. slots_ok es (fst t) \<Longrightarrow> fills \<Longrightarrow> events_of k ys = [] \<or> events_of k es = [] \<and> length (events_of k ys) = 1"
    using assms(2) unfolding event_run_def by blast
  have calls: "cc_calls (fst t) = cc_calls (fst st)" "cc_calls (fst u) = cc_calls (fst st)" using assms by (simp_all add: event_run_def)
  have "slots_ok (es @ xs @ ys) (fst u) \<and> (fills \<longrightarrow> (\<forall>k. events_of k (xs @ ys) = [] \<or> events_of k es = [] \<and> length (events_of k (xs @ ys)) = 1))"
    if es: "slots_ok es (fst st)" for es
  proof (intro conjI impI allI)
    have t: "slots_ok (es @ xs) (fst t)" by (rule xs(3) [OF es])
    show "slots_ok (es @ xs @ ys) (fst u)" using ys(3) [OF t] by simp
    fix k assume f: fills
    show "events_of k (xs @ ys) = [] \<or> events_of k es = [] \<and> length (events_of k (xs @ ys)) = 1"
      using xs(4) [OF es f, of k] ys(4) [OF t f, of k] by auto
  qed
  then show ?thesis using xs(1,2) ys(1,2) calls unfolding event_run_def by (intro conjI exI [of _ "xs @ ys"]) auto
qed

lemma event_run_step:
  assumes "event_step allowed st st'" "\<And>e. fills \<Longrightarrow> allowed e (fst st) \<Longrightarrow> unsourced e (fst st)"
  shows "event_run fills st st'"
proof (cases "event_occurrences (snd st') = event_occurrences (snd st) \<and> fst st' = fst st")
  case False
  then obtain e where e: "event_occurrences (snd st') = event_occurrences (snd st) @ [e]" "fst st' = count_event (pair_of e) (fst st)" "allowed e (fst st)"
      "eo_occurrence_index e = int (cc_counters (fst st) (pair_of e) + 1)" "eo_vessel_call_id e \<in> snd ` set (cc_calls (fst st))"
    using assms(1) unfolding event_step_def by blast
  have "slots_ok (es @ [e]) (fst st') \<and> (fills \<longrightarrow> (\<forall>k. events_of k [e] = [] \<or> events_of k es = [] \<and> length (events_of k [e]) = 1))"
    if "slots_ok es (fst st)" for es
    using slots_add [OF that refl e(4)] assms(2) [OF _ e(3)] that unfolding e(2) unsourced_def slots_ok_def by auto
  then show ?thesis using assms(1) e(1,5) unfolding event_run_def event_step_def by (intro conjI exI [of _ "[e]"]) auto
qed (simp add: event_run_same)

lemma event_run_fold:
  assumes "\<And>x st. cc_calls (fst st) = calls \<Longrightarrow> event_run fills st (g x st)" "cc_calls (fst st) = calls"
  shows "event_run fills st (fold g xs st)"
  using assms(2)
proof (induction xs arbitrary: st)
  case (Cons x xs)
  have one: "event_run fills st (g x st)" using assms(1) Cons.prems by blast
  then have "cc_calls (fst (g x st)) = calls" using Cons.prems by (simp add: event_run_def)
  from event_run_trans [OF one Cons.IH [OF this]] show ?case by simp
qed simp

lemma event_run_cargo: "event_run True st (commit_cargo env uuid now i r st)"
proof (cases "call_of (fst st) r")
  case None
  then show ?thesis by (simp add: commit_cargo_def split_beta)
next
  case (Some c)
  define s1 where "s1 = (snd st)\<lparr>cargo_operations := cargo_operations (snd st) @ [new_cargo env (uuid (draws (snd st))) c r], draws := draws (snd st) + 1\<rparr>"
  define st2 where "st2 = fold (commit_berth_event env uuid now i c r) (rg_berth_datetime_fields (ie_registry env)) (fst st, s1)"
  have "event_run True (fst st, s1) st2"
    unfolding st2_def
  proof (rule event_run_fold)
    show "event_run True st' (commit_berth_event env uuid now i c r nm st')" if "cc_calls (fst st') = cc_calls (fst st)" for nm st'
      by (rule event_run_step [OF event_step_berth]) (use call_of_known [OF Some] that in simp_all)
  qed simp
  moreover have "event_run True st (fst st, s1)" by (rule event_run_same) (simp_all add: s1_def)
  moreover have "event_run True st2 (commit_cargo env uuid now i r st)"
    by (rule event_run_same) (simp_all add: commit_cargo_def split_beta Some Let_def s1_def st2_def)
  ultimately show ?thesis using event_run_trans by blast
qed

lemma event_run_rows:
  assumes "\<And>r st. event_run fills st (step r st)"
  shows "event_run fills st (commit_rows i table step st)"
  unfolding commit_rows_def by (rule event_run_fold [OF assms]) simp_all

lemma event_run_observation: "event_run False st (commit_event env uuid now i r st)"
  by (rule event_run_step [OF event_step_commit_event]) simp

lemma event_run_others: "event_run True st (commit_service env uuid r st)" "event_run True st (commit_delay env uuid r st)"
  by (rule event_run_same; simp add: commit_service_def commit_delay_def split_beta Let_def split: option.splits)+

lemma calls_of_new: "snd ` set (cc_calls (fst (commit_vessels uuid now tenant i s))) \<subseteq> vc_id ` set (vessel_calls (snd (commit_vessels uuid now tenant i s)))"
  by (force simp: commit_vessels_def Let_def List.map_filter_def)

definition commit_calls :: "(nat \<Rightarrow> uid) \<Rightarrow> time \<Rightarrow> batch_row \<Rightarrow> 'a ingest_db_scheme \<Rightarrow> vessel_call list" where
  "commit_calls uuid now b s = map (\<lambda>(n, r). new_call (uuid n) now (bt_tenant_id b) r)
     (enumerate (draws s) (filter (committed (bt_batch_id b) ''vessel_call'') (staging_records s)))"

text \<open>C8. The occurrences that a commit writes. They all belong to calls the same commit created; for each call and event
  definition their indexes run from 1 without a gap, in the order of writing; and the berth times of the CargoOps sheet
  only fill: after the observations of the Events sheet (commit_observations), a pair that has an occurrence gets
  no other one, and a pair without gets at most one.\<close>

theorem commit_fills_event_slots:
  "\<exists>observed filled. event_occurrences (snd (commit_observations env uuid now b s)) = event_occurrences s @ observed \<and>
     event_occurrences (commit_to_canonical env uuid now b st s) = event_occurrences s @ observed @ filled \<and>
     list_all (\<lambda>e. eo_vessel_call_id e \<in> vc_id ` set (commit_calls uuid now b s)) (observed @ filled) \<and>
     (\<forall>k. map eo_occurrence_index (events_of k (observed @ filled)) = map int [1..<length (events_of k (observed @ filled)) + 1] \<and>
          (events_of k filled = [] \<or> events_of k observed = [] \<and> length (events_of k filled) = 1))"
proof -
  let ?i = "bt_batch_id b"
  obtain cx s1 where v: "commit_vessels uuid now (bt_tenant_id b) ?i s = (cx, s1)" by fastforce
  define st0 where "st0 = (cx, register_names uuid ?i s1)"
  define st1 where "st1 = commit_observations env uuid now b s"
  define st2 where "st2 = commit_rows ?i ''service_request'' (commit_service env uuid) st1"
  define st3 where "st3 = commit_rows ?i ''delay'' (commit_delay env uuid) st2"
  define st4 where "st4 = commit_rows ?i ''cargo_ops'' (commit_cargo env uuid now ?i) st3"
  have a: "event_run False st0 st1" unfolding st1_def commit_observations_def st0_def
    by (simp add: v Let_def event_run_rows event_run_observation)
  have "event_run True st1 st2" "event_run True st2 st3" "event_run True st3 st4"
    unfolding st2_def st3_def st4_def by (simp_all add: event_run_rows event_run_others event_run_cargo)
  then have c: "event_run True st1 st4" using event_run_trans by blast
  have e0: "event_occurrences (snd st0) = event_occurrences s" and e4: "event_occurrences (commit_to_canonical env uuid now b st s) = event_occurrences (snd st4)"
    using v by (auto simp: st0_def register_names_def commit_vessels_def Let_def commit_to_canonical_def st1_def st2_def st3_def st4_def set_batch_status_def)
  have z: "slots_ok [] (fst st0)" using v by (auto simp: st0_def slots_ok_def commit_vessels_def Let_def)
  have calls: "snd ` set (cc_calls (fst st0)) \<subseteq> vc_id ` set (commit_calls uuid now b s)"
    using v by (force simp: st0_def commit_vessels_def Let_def List.map_filter_def commit_calls_def)
  obtain xs where xs: "event_occurrences (snd st1) = event_occurrences s @ xs" "\<forall>e \<in> set xs. eo_vessel_call_id e \<in> snd ` set (cc_calls (fst st0))"
      "slots_ok xs (fst st1)" using a z e0 unfolding event_run_def by (metis append_Nil)
  obtain ys where ys: "event_occurrences (snd st4) = event_occurrences (snd st1) @ ys" "\<forall>e \<in> set ys. eo_vessel_call_id e \<in> snd ` set (cc_calls (fst st1))"
      "slots_ok (xs @ ys) (fst st4)" "\<And>k. events_of k ys = [] \<or> events_of k xs = [] \<and> length (events_of k ys) = 1"
    using c xs(3) unfolding event_run_def by metis
  have "cc_calls (fst st1) = cc_calls (fst st0)" using a by (simp add: event_run_def)
  then have "list_all (\<lambda>e. eo_vessel_call_id e \<in> vc_id ` set (commit_calls uuid now b s)) (xs @ ys)"
    using xs(2) ys(2) calls unfolding list_all_iff by auto
  moreover have "map eo_occurrence_index (events_of k (xs @ ys)) = map int [1..<length (events_of k (xs @ ys)) + 1]" for k
    using ys(3) unfolding slots_ok_def by blast
  ultimately show ?thesis
    using xs(1) ys(1,4) e4 unfolding st1_def [symmetric]
    by (intro exI [where x = xs and P = "\<lambda>x. \<exists>y. Q x y" for Q] exI [where x = ys] conjI allI) simp_all
qed

section \<open>The verdicts of the validation\<close>

text \<open>The verdict on a row, from the rows before it in the dataset group.\<close>

definition verdict :: "ingest_env \<Rightarrow> staging_record list \<Rightarrow> staging_record \<Rightarrow> staging_record" where
  "verdict env earlier r =
     (if timestamp_errors env r \<noteq> [] then r\<lparr>st_validation_status := ''INVALID'', st_errors := [(''invalid_timestamps'', timestamp_errors env r)]\<rparr>
      else if list_ex (\<lambda>q. timestamp_errors env q = [] \<and> same_data r q) earlier
      then r\<lparr>st_validation_status := ''DUPLICATE'', st_errors := [(''duplicate'', [[Lit ''Exact duplicate row in dataset group'']])]\<rparr>
      else r\<lparr>st_validation_status := ''VALID''\<rparr>)"

lemma same_data_equiv: "same_data r r" "same_data r q \<Longrightarrow> same_data q r" "same_data r q \<Longrightarrow> same_data q p \<Longrightarrow> same_data r p"
  by (simp_all add: same_data_def)

lemma judge_rows_verdicts:
  assumes "\<And>r. list_ex (same_data r) seen = list_ex (\<lambda>q. timestamp_errors env q = [] \<and> same_data r q) earlier"
  shows "judge_rows env seen rs = map (\<lambda>n. verdict env (earlier @ take n rs) (rs ! n)) [0..<length rs]"
  using assms
proof (induction rs arbitrary: seen earlier)
  case (Cons r rs)
  let ?seen = "if st_validation_status (judge_row env seen r) = ''VALID'' then r # seen else seen"
  have head: "judge_row env seen r = verdict env earlier r"
    unfolding judge_row_def verdict_def Let_def Cons.prems by simp
  have inv: "list_ex (same_data q) ?seen = list_ex (\<lambda>p. timestamp_errors env p = [] \<and> same_data q p) (earlier @ [r])" for q
  proof (cases "timestamp_errors env r = [] \<and> \<not> list_ex (same_data r) seen")
    case True
    then show ?thesis using Cons.prems [of q] by (auto simp: judge_row_def Let_def)
  next
    case False
    then have seen: "?seen = seen" by (auto simp: judge_row_def Let_def)
    have "list_ex (\<lambda>p. timestamp_errors env p = [] \<and> same_data q p) earlier" if "timestamp_errors env r = []" "same_data q r"
    proof -
      have "list_ex (\<lambda>p. timestamp_errors env p = [] \<and> same_data r p) earlier" using False that(1) Cons.prems [of r] by simp
      then show ?thesis using same_data_equiv(3) [OF that(2)] unfolding list_ex_iff by blast
    qed
    then show ?thesis unfolding seen using Cons.prems [of q] by auto
  qed
  have "judge_rows env ?seen rs = map (\<lambda>n. verdict env ((earlier @ [r]) @ take n rs) (rs ! n)) [0..<length rs]"
    by (rule Cons.IH [OF inv])
  then have "judge_rows env seen (r # rs) = verdict env (earlier @ take 0 (r # rs)) ((r # rs) ! 0) #
      map (\<lambda>n. verdict env (earlier @ take (Suc n) (r # rs)) ((r # rs) ! Suc n)) [0..<length rs]"
    by (simp add: Let_def head)
  then show ?case by (simp only: list.size(4) map_upt_Suc add_Suc_right add_0_right)
qed simp

text \<open>C10. The validation of a group against its specification: row by row, a row with an invalid or ambiguous
  timestamp is INVALID with the list of its errors, a row is a DUPLICATE exactly when an earlier row of the group has the
  same table and data and valid timestamps, and every other row is VALID. In particular each data set is accepted once.\<close>

theorem validation_meets_specification:
  "judge_rows env [] rs = map (\<lambda>n. verdict env (take n rs) (rs ! n)) [0..<length rs]"
  using judge_rows_verdicts [of "[]" env "[]" rs] by simp

section \<open>Events that are dropped without a trace\<close>

text \<open>A row of the Events sheet with a blank Timezone cell passes the validation, which reads its timestamp in the
  default zone, and is then skipped by the commit without an occurrence, a quarantine mark or an error: the default of
  pd.get("Timezone", ...) is for a missing key, and the zone of an empty name is unknown to pytz.\<close>

theorem blank_timezone_drops_event:
  assumes "\<And>t. ie_localize env '''' t = None" "\<And>t. ie_localize env source_zone t \<noteq> None"
    "st_canonical_table r = ''event_occurrence''" "pd_get r ''Timezone'' = Some ''''" "pd_get r ''Event_Timestamp'' = Some v"
    "ie_parse_date env (py_strip v) = Some (Naive t)" "time_only (py_strip v) = False" "ambiguous_date (py_strip v) = False" "v \<noteq> ''''"
    "call_of cx r = Some c"
  shows "timestamp_errors env r = [] \<and> commit_event env uuid now i r (cx, s) = (cx, s)"
proof -
  have ok: "parse_datetime env source_zone v \<noteq> None" using assms(2,6-9) by (simp add: parse_datetime_def)
  have "datetime_columns (ie_registry env) ''Events'' = [''Event_Timestamp'']" by (simp add: datetime_columns_def datetime_columns_of_def)
  then have "timestamp_errors env r = []" using assms(3,5) ok by (simp add: timestamp_errors_def canonical_tables_def)
  moreover have "event_time env r = None"
    using assms(1,4-9) by (cases v) (simp_all add: event_time_def row_zone_def pd_default_def parse_datetime_def truthy_def)
  ultimately show ?thesis using assms(10) by (simp add: commit_event_def)
qed

section \<open>Concrete runs\<close>

text \<open>An environment whose only workbook is corrupt, and whose zones are the default one.\<close>

definition sample_env :: ingest_env where
  "sample_env = \<lparr>ie_load_workbook = (\<lambda>p. None), ie_file_sha = (\<lambda>p. p), ie_sha = (\<lambda>c. c), ie_file_size = (\<lambda>p. 1), ie_storage_path = ''/data'',
     ie_error_text = (\<lambda>e. []), ie_parse_date = (\<lambda>v. Some (Naive 0)), ie_localize = (\<lambda>z t. if z = source_zone then Some t else None),
     ie_known_zone = (\<lambda>z. z = source_zone),
     ie_registry = \<lparr>rg_columns = (\<lambda>w. map_of (base_aliases w)), rg_event_names = (\<lambda>k. None), rg_berth_datetime_fields = [], rg_aliases = []\<rparr>\<rparr>"

definition sample_batch :: batch_row where
  "sample_batch = \<lparr>bt_batch_id = ''b0'', bt_file_name = [Str ''f.xlsx''], bt_file_checksum = ''p'', bt_status = ''FAILED'', bt_error_message = None,
     bt_tenant_id = ''t'', bt_is_synthetic = False, bt_is_active = False, bt_created_at = 0\<rparr>"

definition sample_row :: staging_record where
  "sample_row = \<lparr>st_id = ''r'', st_file_checksum = ''p'', st_ingestion_batch_id = ''b'', st_canonical_table = ''event_occurrence'',
     st_source_file_id = None, st_worksheet_name = ''Events'', st_row_number = 2,
     st_parsed_data = [(''VCN'', ''V1''), (''Event_Name'', ''PORT_LIMIT_IN''), (''Event_Timestamp'', ''2026-01-31 10:00''), (''Timezone'', '''')],
     st_validation_status = ''PENDING'', st_errors = [], st_source_record_id = ''V1''\<rparr>"

lemma sorted_by_single [simp]: "sorted_by f [x] = [x]"
  by (simp add: sorted_by_def)

lemma sample_checksum: "group_checksum sample_env [(''p'', ''f.xlsx'')] = ''p''"
  by (simp add: group_checksum_def sample_env_def)


theorem retried_group_is_locked_out_witness:
  "\<exists>s'. process_files sample_env sample_ids 1 ''t'' [(''p'', ''f.xlsx'')] False False False True s' = (s', Inl MultipleResultsFound) \<and>
     s' = fst (process_files sample_env sample_ids 0 ''t'' [(''p'', ''f.xlsx'')] False False False True ((staged_db [])\<lparr>batch_rows := [sample_batch]\<rparr>))"
proof -
  have "existing_batch ''t'' (group_checksum sample_env [(''p'', ''f.xlsx'')]) ((staged_db [])\<lparr>batch_rows := [sample_batch]\<rparr>) = Inr (Some sample_batch)"
    unfolding sample_checksum by (simp add: existing_batch_def sample_batch_def)
  from retried_group_is_locked_out [OF this] show ?thesis by (simp add: sample_batch_def group_size_ok_def)
qed

theorem blank_timezone_drops_event_witness:
  "timestamp_errors sample_env sample_row = [] \<and>
   commit_event sample_env sample_ids 0 ''b'' sample_row (\<lparr>cc_calls = [(''V1'', ''c'')], cc_counters = (\<lambda>k. 0), cc_sourced = []\<rparr>, staged_db []) =
     (\<lparr>cc_calls = [(''V1'', ''c'')], cc_counters = (\<lambda>k. 0), cc_sourced = []\<rparr>, staged_db [])"
proof (rule blank_timezone_drops_event)
  show "ie_localize sample_env '''' t = None" "ie_localize sample_env source_zone t \<noteq> None" for t
    by (simp_all add: sample_env_def source_zone_def)
  show "st_canonical_table sample_row = ''event_occurrence''" "pd_get sample_row ''Timezone'' = Some ''''"
    "pd_get sample_row ''Event_Timestamp'' = Some ''2026-01-31 10:00''" by (simp_all add: sample_row_def pd_get_def)
  show "ie_parse_date sample_env (py_strip ''2026-01-31 10:00'') = Some (Naive 0)" by (simp add: sample_env_def)
  show "time_only (py_strip ''2026-01-31 10:00'') = False" "ambiguous_date (py_strip ''2026-01-31 10:00'') = False" by code_simp+
  show "call_of \<lparr>cc_calls = [(''V1'', ''c'')], cc_counters = (\<lambda>k. 0), cc_sourced = []\<rparr> sample_row = Some ''c''"
    by (simp add: call_of_def sample_row_def pd_get_def)
qed simp

end
