(* ===== verification/Tenant.thy ===== *)
theory Tenant
  imports Prelude
begin

text \<open>
  The settings the services read (\<open>apps/api/core/config.py\<close>) and the tenant of an authenticated principal
  (\<open>apps/api/auth/tenant.py\<close>), which every router resolves before it touches a table. An HTTP error is its status and message.
\<close>

section \<open>Requests\<close>

datatype request_error = Http nat fstring | Raised py_error | Runtime_error fstring

record principal =
  pr_tenant_id :: "string option"
  pr_is_synthetic :: bool

record settings =
  cf_environment :: string
  cf_development_tenant_id :: string
  cf_upload_max_bytes :: nat
  cf_access_token_expire_minutes :: int
  cf_refresh_token_expire_days :: int
  cf_session_idle_timeout_minutes :: int

definition tenant_scope :: "settings \<Rightarrow> principal \<Rightarrow> string" where
  "tenant_scope cf p =
     (let t = py_strip (or_empty (pr_tenant_id p))
      in if t = ''*'' \<and> cf_environment cf = ''development'' \<and> pr_is_synthetic p then cf_development_tenant_id cf else t)"

definition resolve_principal_tenant :: "settings \<Rightarrow> principal \<Rightarrow> string option \<Rightarrow> request_error + string" where
  "resolve_principal_tenant cf p requested =
     (let t = tenant_scope cf p
      in if t = '''' \<or> t = ''*'' then Inl (Http 403 [Lit ''A concrete authenticated tenant scope is required''])
         else if requested \<noteq> None \<and> requested \<noteq> Some t
         then Inl (Http 403 [Lit ''The requested tenant does not match the authenticated tenant scope'']) else Inr t)"

end
