(* ===== verification/Datasets.thy ===== *)
theory Datasets
  imports IngestionFacts KpiRegistry Tenant
begin

text \<open>
  The dataset endpoints of \<open>apps/api/routers/ingestion.py\<close> (upload, append, remove, active dataset, list, reprocess) and
  \<open>reset_tenant_dataset\<close> (\<open>apps/api/services/ingestion/synthetic.py\<close>).

  Log lines, temporary files and the tables of narratives and dashboard
  snapshots are left out. No foreign key makes a deletion fail. The manifests of a group are inserted in one transaction
  and share their time, so they are listed in the order of their identifiers.
\<close>

section \<open>Uploads\<close>

text \<open>An uploaded file: its name, the temporary file it was written to, its size and its first four bytes.\<close>

record upload =
  up_filename :: "string option"
  up_path :: string
  up_size :: nat
  up_magic :: string

fun path_parts :: "string \<Rightarrow> string \<Rightarrow> string list" where
  "path_parts acc [] = [acc]"
| "path_parts acc (c # cs) = (if c = CHR ''/'' then acc # path_parts [] cs else path_parts (acc @ [c]) cs)"

text \<open>\<open>Path(p).name\<close>.\<close>

definition path_name :: "string \<Rightarrow> string" where
  "path_name p = (case rev (filter (\<lambda>x. x \<noteq> '''' \<and> x \<noteq> ''.'') (path_parts [] p)) of [] \<Rightarrow> '''' | x # xs \<Rightarrow> x)"

definition safe_name :: "upload \<Rightarrow> string" where
  "safe_name u = path_name (or_empty (up_filename u))"

definition upload_error :: "settings \<Rightarrow> upload \<Rightarrow> request_error option" where
  "upload_error cf u =
     (if \<not> py_endswith ''.xlsx'' (py_lower (safe_name u)) then Some (Http 415 [Lit ''Only .xlsx workbooks are accepted for governed dataset groups''])
      else if cf_upload_max_bytes cf < up_size u then Some (Http 413 [Str (safe_name u), Lit '' exceeds configured file size limit''])
      else if up_magic u \<noteq> ''PK'' @ [CHR 0x03, CHR 0x04] then Some (Http 415 [Str (safe_name u), Lit '' is not a valid OOXML XLSX container''])
      else None)"

definition write_uploads :: "settings \<Rightarrow> upload list \<Rightarrow> request_error + (string \<times> string) list" where
  "write_uploads cf us = (case List.map_filter (upload_error cf) us of
     e # es \<Rightarrow> Inl e | [] \<Rightarrow> Inr (map (\<lambda>u. (up_path u, safe_name u)) us))"

section \<open>Queueing a candidate\<close>

record queued_group =
  qg_batch_id :: string
  qg_received_file_count :: nat
  qg_added_file_count :: nat
  qg_duplicate_files :: "string list"
  qg_files :: "file_row list"
  qg_governed_file_count :: nat
  qg_skipped_file_count :: nat
  qg_task :: "string \<times> string \<times> string"   \<comment> \<open>the message sent to the worker\<close>

definition manifests_of :: "string \<Rightarrow> 'a ingest_db_scheme \<Rightarrow> file_row list" where
  "manifests_of i s = sorted_by im_id (filter (\<lambda>f. im_group_batch_id f = i) (file_rows s))"

definition raised :: "'s \<times> 'a result \<Rightarrow> 's \<times> (request_error + 'a)" where
  "raised m = (case m of (s, Inl e) \<Rightarrow> (s, Inl (Raised e)) | (s, Inr x) \<Rightarrow> (s, Inr x))"

definition queue_group ::
    "ingest_env \<Rightarrow> (nat \<Rightarrow> uid) \<Rightarrow> time \<Rightarrow> string \<Rightarrow> (string \<times> string) list \<Rightarrow> nat \<Rightarrow> nat \<Rightarrow> string list \<Rightarrow> bool \<Rightarrow> 'a ingest_db_scheme \<Rightarrow>
     'a ingest_db_scheme \<times> (request_error + queued_group)" where
  "queue_group env uuid now tenant files received added duplicates synthetic s =
     (case raised (process_files env uuid now tenant files synthetic False True False s) of
        (s, Inl e) \<Rightarrow> (s, Inl e)
      | (s, Inr i) \<Rightarrow>
          (case find (\<lambda>b. bt_batch_id b = i) (batch_rows s) of
             None \<Rightarrow> (s, Inl (Runtime_error [Lit ''Accepted ingestion batch could not be found'']))
           | Some b \<Rightarrow>
               (let s = upd_batch i (\<lambda>b. b\<lparr>bt_status := ''PROCESSING'', bt_is_active := False\<rparr>) s; fs = manifests_of i s;
                    skipped = length (filter (\<lambda>f. im_parse_status f = ''SKIPPED'') fs)
                in (s, Inr \<lparr>qg_batch_id = i, qg_received_file_count = received, qg_added_file_count = added, qg_duplicate_files = duplicates,
                     qg_files = fs, qg_governed_file_count = length fs - skipped, qg_skipped_file_count = skipped,
                     qg_task = (i, tenant, bt_file_checksum b)\<rparr>))))"

definition starts_no_governed :: "fstring \<Rightarrow> bool" where
  "starts_no_governed m = (case m of Lit t # fs \<Rightarrow> py_startswith ''No governed worksheets were found'' t | _ \<Rightarrow> False)"

definition upload_failure :: "request_error \<Rightarrow> request_error" where
  "upload_failure e = (case e of
       Http st m \<Rightarrow> Http st m
     | Raised (ValueError m) \<Rightarrow> Http (if starts_no_governed m then 400 else 422) m
     | _ \<Rightarrow> Http 500 [Lit ''The workbooks could not be processed. The prior active dataset was not changed.''])"

definition map_error :: "('e \<Rightarrow> 'e) \<Rightarrow> 's \<times> ('e + 'a) \<Rightarrow> 's \<times> ('e + 'a)" where
  "map_error f m = (case m of (s, Inl e) \<Rightarrow> (s, Inl (f e)) | (s, Inr x) \<Rightarrow> (s, Inr x))"

definition upload_files ::
    "settings \<Rightarrow> ingest_env \<Rightarrow> (nat \<Rightarrow> uid) \<Rightarrow> time \<Rightarrow> principal \<Rightarrow> upload list \<Rightarrow> 'a ingest_db_scheme \<Rightarrow> 'a ingest_db_scheme \<times> (request_error + queued_group)" where
  "upload_files cf env uuid now p us s =
     (case resolve_principal_tenant cf p None of
        Inl e \<Rightarrow> (s, Inl e)
      | Inr tenant \<Rightarrow>
          if \<not> group_size_ok us then (s, Inl (Http 400 [Lit ''Upload between 1 and 15 Excel workbooks per dataset group'']))
          else (case write_uploads cf us of
             Inl e \<Rightarrow> (s, Inl e)
           | Inr files \<Rightarrow> map_error upload_failure (queue_group env uuid now tenant files (length us) (length us) [] False s)))"

section \<open>Appending\<close>

definition active_dataset :: "string \<Rightarrow> 'a ingest_db_scheme \<Rightarrow> batch_row option" where
  "active_dataset tenant s = (case sorted_by_desc bt_created_at
       (filter (\<lambda>b. bt_tenant_id b = tenant \<and> bt_is_active b \<and> bt_status b = ''COMMITTED'') (batch_rows s)) of
     [] \<Rightarrow> None | b # bs \<Rightarrow> Some b)"

text \<open>The files whose checksum has not been seen, and the names of the others.\<close>

fun split_new :: "ingest_env \<Rightarrow> string list \<Rightarrow> (string \<times> string) list \<Rightarrow> (string \<times> string) list \<times> string list" where
  "split_new env seen [] = ([], [])"
| "split_new env seen ((path, nm) # fs) =
     (let c = ie_file_sha env path
      in if List.member seen c then (let (new, dup) = split_new env seen fs in (new, nm # dup))
         else (let (new, dup) = split_new env (c # seen) fs in ((path, nm) # new, dup)))"

text \<open>The stored originals; the first one that is not a file is an error.\<close>

definition stored_files :: "(string \<Rightarrow> bool) \<Rightarrow> file_row list \<Rightarrow> request_error + (string \<times> string) list" where
  "stored_files is_file ms =
     (case find (\<lambda>m. or_empty (im_storage_reference m) = '''' \<or> \<not> is_file (or_empty (im_storage_reference m))) ms of
        Some m \<Rightarrow> Inl (Runtime_error ([Lit ''Stored source workbook ''] @ in_quotes (im_original_filename m) @ [Lit '' is unavailable for atomic append'']))
      | None \<Rightarrow> Inr (map (\<lambda>m. (or_empty (im_storage_reference m), im_original_filename m)) ms))"

definition append_failure :: "request_error \<Rightarrow> request_error" where
  "append_failure e = (case e of
       Http st m \<Rightarrow> Http st m
     | Raised (ValueError m) \<Rightarrow> Http 422 m
     | _ \<Rightarrow> Http 500 [Lit ''The workbooks could not be added. The existing active dataset was not changed.''])"

text \<open>The candidate of an append: the stored originals, the new files and the names of the duplicates.\<close>

definition append_candidate ::
    "ingest_env \<Rightarrow> (string \<Rightarrow> bool) \<Rightarrow> file_row list \<Rightarrow> (string \<times> string) list \<Rightarrow> request_error + ((string \<times> string) list \<times> nat \<times> string list)" where
  "append_candidate env is_file ms temp =
     (let (new, dup) = split_new env (map im_file_checksum ms) temp
      in if new = [] then Inl (Http 409 [Lit ''The selected workbook is already present in the active dataset.''])
         else if 15 < length ms + length new
         then Inl (Http 400 [Lit ''The active dataset has '', NatF (length ms), Lit '' workbooks; only '', NatF (15 - length ms),
                Lit '' more can be added (15 total maximum).''])
         else (case stored_files is_file ms of Inl e \<Rightarrow> Inl e | Inr old \<Rightarrow> Inr (old @ new, length new, dup)))"

definition append_files ::
    "settings \<Rightarrow> ingest_env \<Rightarrow> (string \<Rightarrow> bool) \<Rightarrow> (nat \<Rightarrow> uid) \<Rightarrow> time \<Rightarrow> principal \<Rightarrow> upload list \<Rightarrow> 'a ingest_db_scheme \<Rightarrow>
     'a ingest_db_scheme \<times> (request_error + queued_group)" where
  "append_files cf env is_file uuid now p us s =
     (case resolve_principal_tenant cf p None of
        Inl e \<Rightarrow> (s, Inl e)
      | Inr tenant \<Rightarrow>
          if \<not> group_size_ok us then (s, Inl (Http 400 [Lit ''Select between 1 and 15 Excel workbooks to add'']))
          else (case active_dataset tenant s of
             None \<Rightarrow> (s, Inl (Http 409 [Lit ''No active dataset exists. Use the initial upload flow first.'']))
           | Some b \<Rightarrow>
               (let ms = manifests_of (bt_batch_id b) s
                in if 15 \<le> length ms then (s, Inl (Http 400 [Lit ''The active dataset already contains the maximum of 15 workbooks'']))
                   else map_error append_failure (case write_uploads cf us of
                       Inl e \<Rightarrow> (s, Inl e)
                     | Inr temp \<Rightarrow> (case append_candidate env is_file ms temp of
                           Inl e \<Rightarrow> (s, Inl e)
                         | Inr (files, added, dup) \<Rightarrow> queue_group env uuid now tenant files (length us) added dup (bt_is_synthetic b) s)))))"

section \<open>Removing a dataset\<close>

definition deleted :: "('r \<Rightarrow> bool) \<Rightarrow> 'r list \<Rightarrow> 'r list" where
  "deleted P rows = filter (\<lambda>r. \<not> P r) rows"

definition call_ids :: "string \<Rightarrow> 'a canon_db_scheme \<Rightarrow> uid list" where
  "call_ids tenant s = map vc_id (filter (\<lambda>v. vc_tenant_id v = tenant) (vessel_calls s))"

definition batch_ids :: "string \<Rightarrow> 'a ingest_db_scheme \<Rightarrow> string list" where
  "batch_ids tenant s = map bt_batch_id (filter (\<lambda>b. bt_tenant_id b = tenant) (batch_rows s))"

definition delete_batches :: "string \<Rightarrow> 'a ingest_db_scheme \<Rightarrow> 'a ingest_db_scheme" where
  "delete_batches tenant s =
     (let ids = batch_ids tenant s
      in s\<lparr>staging_records := deleted (\<lambda>r. List.member ids (st_ingestion_batch_id r)) (staging_records s),
           raw_records := deleted (\<lambda>r. List.member ids (rw_ingestion_batch_id r)) (raw_records s),
           batch_rows := deleted (\<lambda>b. bt_tenant_id b = tenant) (batch_rows s)\<rparr>)"

definition delete_shared :: "'a platform_db_scheme \<Rightarrow> 'a platform_db_scheme" where
  "delete_shared s = s\<lparr>merge_decisions := [], match_evidence_rows := [], match_candidates := [], action_items := [], operational_alerts := [],
     outlier_records := [], bottleneck_records := []\<rparr>"

definition delete_journeys :: "uid list \<Rightarrow> 'a platform_db_scheme \<Rightarrow> 'a platform_db_scheme" where
  "delete_journeys calls s =
     (let instances = map ji_id (filter (\<lambda>j. List.member calls (ji_vessel_call_id j)) (journey_instances s));
          stages = map so_id (filter (\<lambda>x. List.member instances (so_journey_instance_id x)) (stage_occurrences s))
      in s\<lparr>reconstruction_histories := deleted (\<lambda>h. List.member calls (rh_vessel_call_id h)) (reconstruction_histories s),
           observation_corrections := deleted (\<lambda>c. List.member calls (oc_vessel_call_id c)) (observation_corrections s),
           canonical_observations := deleted (\<lambda>c. List.member calls (cn_vessel_call_id c)) (canonical_observations s),
           handovers := deleted (\<lambda>h. List.member stages (ho_from_stage_occurrence_id h)) (handovers s),
           stage_occurrences := deleted (\<lambda>x. List.member instances (so_journey_instance_id x)) (stage_occurrences s),
           journey_instances := deleted (\<lambda>j. List.member calls (ji_vessel_call_id j)) (journey_instances s)\<rparr>)"

definition delete_operations :: "uid list \<Rightarrow> 'a canon_db_scheme \<Rightarrow> 'a canon_db_scheme" where
  "delete_operations calls s =
     (let requests = map sr_id (filter (\<lambda>r. List.member calls (sr_vessel_call_id r)) (service_requests s));
          assignments = map sa_id (filter (\<lambda>a. List.member requests (sa_service_request_id a)) (service_assignments s))
      in s\<lparr>quality_issues := deleted (\<lambda>q. case qi_vessel_call_id q of Some c \<Rightarrow> List.member calls c | None \<Rightarrow> False) (quality_issues s),
           event_occurrences := deleted (\<lambda>e. List.member calls (eo_vessel_call_id e)) (event_occurrences s),
           service_executions := deleted (\<lambda>x. List.member assignments (se_service_assignment_id x)) (service_executions s),
           service_assignments := deleted (\<lambda>a. List.member requests (sa_service_request_id a)) (service_assignments s),
           service_requests := deleted (\<lambda>r. List.member calls (sr_vessel_call_id r)) (service_requests s),
           delays := deleted (\<lambda>d. List.member calls (dl_vessel_call_id d)) (delays s)\<rparr>)"

text \<open>Deletes the tenant's rows; the identity tables, alerts, action items, outliers and bottlenecks are emptied for everyone.\<close>

definition reset_tenant_dataset :: "string \<Rightarrow> bool \<Rightarrow> 'a kpi_db_scheme \<Rightarrow> 'a kpi_db_scheme" where
  "reset_tenant_dataset tenant keep_batches s =
     (let s = delete_shared (if keep_batches then s else delete_batches tenant s); calls = call_ids tenant s;
          delay_ids = map dl_id (filter (\<lambda>d. List.member calls (dl_vessel_call_id d)) (delays s));
          s = s\<lparr>kpi_results := deleted (\<lambda>r. kr_tenant_id r = tenant) (kpi_results s)\<rparr>;
          s = s\<lparr>statistical_aggregates := deleted (\<lambda>a. ag_tenant_id a = tenant) (statistical_aggregates s),
                lead_time_results := deleted (\<lambda>r. List.member calls (lt_vessel_call_id r)) (lead_time_results s)\<rparr>;
          s = s\<lparr>delay_allocations := deleted (\<lambda>a. List.member delay_ids (da_delay_id a)) (delay_allocations s),
                cargo_operations := deleted (\<lambda>c. List.member calls (co_vessel_call_id c)) (cargo_operations s)\<rparr>;
          s = delete_operations calls (delete_journeys calls s)
      in s\<lparr>vessel_calls := deleted (\<lambda>v. vc_tenant_id v = tenant) (vessel_calls s)\<rparr>)"

definition clear_dataset :: "settings \<Rightarrow> principal \<Rightarrow> 'a kpi_db_scheme \<Rightarrow> 'a kpi_db_scheme \<times> (request_error + string)" where
  "clear_dataset cf p s = (case resolve_principal_tenant cf p None of
     Inl e \<Rightarrow> (s, Inl e)
   | Inr tenant \<Rightarrow> (let s = reset_tenant_dataset tenant False s
       in (s\<lparr>batch_rows := deleted (\<lambda>b. bt_tenant_id b = tenant) (batch_rows s)\<rparr>, Inr tenant)))"

section \<open>Reading\<close>

definition get_active_dataset :: "settings \<Rightarrow> principal \<Rightarrow> 'a ingest_db_scheme \<Rightarrow> request_error + (batch_row \<times> file_row list \<times> nat \<times> nat) option" where
  "get_active_dataset cf p s = (case resolve_principal_tenant cf p None of
     Inl e \<Rightarrow> Inl e
   | Inr tenant \<Rightarrow> Inr (map_option (\<lambda>b. let fs = manifests_of (bt_batch_id b) s
       in (b, fs, length (filter (\<lambda>f. im_parse_status f \<noteq> ''SKIPPED'') fs), length (filter (\<lambda>f. im_parse_status f = ''SKIPPED'') fs)))
       (active_dataset tenant s)))"

definition list_batches :: "settings \<Rightarrow> principal \<Rightarrow> 'a ingest_db_scheme \<Rightarrow> request_error + (batch_row \<times> file_row list) list" where
  "list_batches cf p s = (case resolve_principal_tenant cf p None of
     Inl e \<Rightarrow> Inl e
   | Inr tenant \<Rightarrow> Inr (map (\<lambda>b. (b, manifests_of (bt_batch_id b) s))
       (sorted_by_desc bt_created_at (filter (\<lambda>b. bt_tenant_id b = tenant) (batch_rows s)))))"

section \<open>Reprocessing\<close>

text \<open>\<open>analytics\<close> is \<open>run_full_analytics_pipeline\<close>, whose own commits stay when it raises.\<close>

definition newest_active :: "string \<Rightarrow> 'a ingest_db_scheme \<Rightarrow> batch_row option" where
  "newest_active tenant s = (case sorted_by_desc bt_created_at (filter (\<lambda>b. bt_tenant_id b = tenant \<and> bt_is_active b) (batch_rows s)) of
     [] \<Rightarrow> None | b # bs \<Rightarrow> Some b)"

definition reprocess_active_dataset ::
    "(string \<Rightarrow> string \<Rightarrow> string \<Rightarrow> 'a kpi_db_scheme \<Rightarrow> 'a kpi_db_scheme \<times> unit result) \<Rightarrow> settings \<Rightarrow> ingest_env \<Rightarrow> (nat \<Rightarrow> uid) \<Rightarrow> time \<Rightarrow> principal \<Rightarrow>
     'a kpi_db_scheme \<Rightarrow> 'a kpi_db_scheme \<times> (request_error + string)" where
  "reprocess_active_dataset analytics cf env uuid now p s = (case resolve_principal_tenant cf p None of
     Inl e \<Rightarrow> (s, Inl e)
   | Inr tenant \<Rightarrow> (case newest_active tenant s of
       None \<Rightarrow> (s, Inl (Http 404 [Lit ''No active dataset found for this tenant'']))
     | Some b \<Rightarrow>
         (let s = commit_to_canonical env uuid now b ''COMMITTED'' (reset_tenant_dataset tenant True s);
              s = upd_batch (bt_batch_id b) (\<lambda>b. b\<lparr>bt_is_active := True, bt_status := ''COMMITTED''\<rparr>) s
          in case analytics tenant (bt_batch_id b) (bt_file_checksum b) s of
               (s, Inl e) \<Rightarrow> (s, Inl (Http 500 (error_message_of env e)))
             | (s, Inr u) \<Rightarrow> (s, Inr (bt_batch_id b)))))"

section \<open>What an upload leaves alone\<close>

definition active_untouched :: "'a ingest_db_scheme \<Rightarrow> 'a ingest_db_scheme \<Rightarrow> bool" where
  "active_untouched s s' \<longleftrightarrow> same_platform s s' \<and>
     (\<exists>new. batch_rows s' = batch_rows s @ new \<and> length new \<le> 1 \<and> list_all (\<lambda>b. \<not> bt_is_active b) new)"

lemma active_untouched_refl [simp]: "active_untouched s s"
  by (simp add: active_untouched_def)

lemma accept_untouched:
  assumes "uuid (draws s) \<notin> bt_batch_id ` set (batch_rows s)"
  obtains s' r b where "accept_group env uuid now tenant files synthetic False False s = (s', r)" "same_platform s s'"
    "batch_rows s' = batch_rows s @ [b]" "\<not> bt_is_active b" "\<And>i. r = Inr i \<Longrightarrow> bt_batch_id b = i" "\<And>i. r = Inr i \<Longrightarrow> i = uuid (draws s)"
proof -
  let ?b = "opened_batch env uuid now tenant files synthetic s"
  have i: "bt_batch_id ?b = uuid (draws s)" by (simp add: opened_batch_def uploaded_batch_def)
  obtain t r where p: "prepare_group env uuid files ?b (opened ?b s) = (t, r)" by fastforce
  have q: "quiet (bt_batch_id ?b) (opened ?b s) t" using quiet_prepare [of ?b "opened ?b s" env uuid files] unfolding p by simp
  define s' where "s' = fst (accept_group env uuid now tenant files synthetic False False s)"
  have "quiet (bt_batch_id ?b) t s'"
    unfolding s'_def accept_group_split Let_def p by (cases r) (simp_all add: finish_group_def)
  then have q': "quiet (bt_batch_id ?b) (opened ?b s) s'" using q quiet_trans by metis
  obtain b' where b': "batch_rows s' = batch_rows s @ [b']" "batch_key b' = batch_key ?b"
    using quiet_batches [OF q' [unfolded opened_def] refl] assms i by metis
  have "same_platform s (opened ?b s)" by (simp add: opened_def)
  moreover have "same_platform (opened ?b s) s'" using q' by (simp add: quiet_def)
  ultimately have "same_platform s s'" by (rule same_platform_trans)
  moreover have "\<not> bt_is_active b'" "bt_batch_id b' = uuid (draws s)" using b'(2) i by (simp_all add: batch_key_def opened_batch_def uploaded_batch_def)
  moreover have "j = uuid (draws s)" if "snd (accept_group env uuid now tenant files synthetic False False s) = Inr j" for j
    using that unfolding accept_group_split Let_def p by (cases r) (simp_all add: i)
  ultimately show ?thesis using that [of s' "snd (accept_group env uuid now tenant files synthetic False False s)" b'] b'(1) s'_def by simp
qed

lemma find_snoc: "(\<And>x. x \<in> set xs \<Longrightarrow> \<not> P x) \<Longrightarrow> P y \<Longrightarrow> find P (xs @ [y]) = Some y"
  by (induction xs) auto

lemma queue_untouched:
  assumes "uuid (draws s) \<notin> bt_batch_id ` set (batch_rows s)"
  shows "active_untouched s (fst (queue_group env uuid now tenant files received added dup synthetic s))"
proof (cases "group_size_ok files")
  case True
  then have p: "process_files env uuid now tenant files synthetic False True False s = accept_group env uuid now tenant files synthetic False False s"
    by (simp add: process_files_def)
  obtain s' r b where a: "accept_group env uuid now tenant files synthetic False False s = (s', r)" "same_platform s s'"
      "batch_rows s' = batch_rows s @ [b]" "\<not> bt_is_active b" "\<And>i. r = Inr i \<Longrightarrow> bt_batch_id b = i" "\<And>i. r = Inr i \<Longrightarrow> i = uuid (draws s)"
    by (rule accept_untouched [where uuid = uuid and s = s and env = env and now = now and tenant = tenant and files = files and synthetic = synthetic]) (use assms in auto)
  show ?thesis
  proof (cases r)
    case (Inl e)
    then show ?thesis using a(1-4) by (simp add: queue_group_def p raised_def active_untouched_def)
  next
    case (Inr i)
    have "find (\<lambda>b. bt_batch_id b = i) (batch_rows s @ [b]) = Some b"
      by (rule find_snoc) (use assms a(5,6) [OF Inr] in force)+
    then have "fst (queue_group env uuid now tenant files received added dup synthetic s) =
        upd_batch i (\<lambda>b. b\<lparr>bt_status := ''PROCESSING'', bt_is_active := False\<rparr>) s'"
      by (simp add: queue_group_def p raised_def a(1) Inr a(3) Let_def)
    moreover have "batch_rows (upd_batch i (\<lambda>b. b\<lparr>bt_status := ''PROCESSING'', bt_is_active := False\<rparr>) s') =
        batch_rows s @ [b\<lparr>bt_status := ''PROCESSING'', bt_is_active := False\<rparr>]"
      by (rule upd_batch_snoc [OF a(3) a(5) [OF Inr]]) (use assms a(6) [OF Inr] in simp)
    moreover have "same_platform s (upd_batch i f s')" for f
      by (rule same_platform_trans [OF a(2)]) (simp add: upd_batch_def)
    ultimately show ?thesis by (simp add: active_untouched_def)
  qed
next
  case False
  then show ?thesis by (simp add: queue_group_def process_files_def raised_def)
qed

lemma fst_map_error [simp]: "fst (map_error f m) = fst m"
  by (cases m; cases "snd m") (auto simp: map_error_def)

text \<open>C7. Uploading or appending never touches the dataset in use. Whatever the files, the limits, the environment and the
  outcome (queued, refused with any HTTP status, or failed while parsing or validating), the canonical, identity, journey and
  analytics tables and every existing batch are as before; at most one batch is added, and it is not active. (uuid4
  gives a batch number not in use.)\<close>

theorem uploads_keep_the_active_dataset:
  assumes "uuid (draws s) \<notin> bt_batch_id ` set (batch_rows s)"
  shows "active_untouched s (fst (upload_files cf env uuid now p us s)) \<and> active_untouched s (fst (append_files cf env is_file uuid now p us s))"
  using queue_untouched [where uuid = uuid and s = s, OF assms]
  by (auto simp: upload_files_def append_files_def Let_def split: sum.splits option.splits prod.splits)

lemma split_new_distinct:
  "distinct (map (ie_file_sha env \<circ> fst) (fst (split_new env seen fs))) \<and> set (map (ie_file_sha env \<circ> fst) (fst (split_new env seen fs))) \<inter> set seen = {}"
proof (induction env seen fs rule: split_new.induct)
  case (2 env seen path nm fs)
  then show ?case by (cases "ie_file_sha env path \<in> set seen") (auto simp: Let_def split_beta)
qed simp

text \<open>The candidate of an append: it joins the stored originals of the active dataset, in order, with the new files;
  it has at most 15 workbooks, so that process_files does not refuse its size; no two of the new files have the same
  checksum and none has the checksum of a workbook of the dataset.\<close>

theorem append_candidate_is_admissible:
  assumes "append_candidate env is_file ms temp = Inr (files, added, dup)"
  shows "\<exists>new. files = map (\<lambda>m. (or_empty (im_storage_reference m), im_original_filename m)) ms @ new \<and> new \<noteq> [] \<and> added = length new \<and>
     group_size_ok files \<and> distinct (map (ie_file_sha env \<circ> fst) new) \<and>
     set (map (ie_file_sha env \<circ> fst) new) \<inter> set (map im_file_checksum ms) = {}"
proof -
  obtain new dup' where n: "split_new env (map im_file_checksum ms) temp = (new, dup')" by fastforce
  have "new \<noteq> []" "length ms + length new \<le> 15" "files = map (\<lambda>m. (or_empty (im_storage_reference m), im_original_filename m)) ms @ new" "added = length new"
    using assms n by (auto simp: append_candidate_def stored_files_def Let_def split: if_splits sum.splits option.splits)
  then show ?thesis using split_new_distinct [of env "map im_file_checksum ms" temp] unfolding n fst_conv
    by (intro exI [of _ new]) (cases new; auto simp: group_size_ok_def)
qed

section \<open>What a reset deletes\<close>

definition foreign_calls :: "string \<Rightarrow> 'a canon_db_scheme \<Rightarrow> vessel_call list" where
  "foreign_calls tenant s = filter (\<lambda>v. vc_tenant_id v \<noteq> tenant) (vessel_calls s)"

lemma reset_calls: "vessel_calls (reset_tenant_dataset tenant keep s) = foreign_calls tenant s"
  by (simp add: reset_tenant_dataset_def delete_shared_def delete_batches_def delete_operations_def delete_journeys_def deleted_def foreign_calls_def Let_def)


section \<open>Concrete runs\<close>

definition sample_settings :: settings where
  "sample_settings = \<lparr>cf_environment = ''development'', cf_development_tenant_id = ''t'', cf_upload_max_bytes = 1000,
     cf_access_token_expire_minutes = 1440, cf_refresh_token_expire_days = 7, cf_session_idle_timeout_minutes = 1440\<rparr>"

definition sample_upload :: upload where
  "sample_upload = \<lparr>up_filename = Some ''f.xlsx'', up_path = ''/tmp/f'', up_size = 10, up_magic = ''PK'' @ [CHR 0x03, CHR 0x04]\<rparr>"

theorem uploads_keep_the_active_dataset_witness:
  "active_untouched ((staged_db [])\<lparr>batch_rows := [sample_batch]\<rparr>)
     (fst (upload_files sample_settings sample_env sample_ids 0 \<lparr>pr_tenant_id = Some ''*'', pr_is_synthetic = True\<rparr> [sample_upload]
       ((staged_db [])\<lparr>batch_rows := [sample_batch]\<rparr>)))"
proof -
  have "sample_ids (draws ((staged_db [])\<lparr>batch_rows := [sample_batch]\<rparr>)) \<notin> bt_batch_id ` set (batch_rows ((staged_db [])\<lparr>batch_rows := [sample_batch]\<rparr>))"
    by (simp add: sample_batch_def)
  from uploads_keep_the_active_dataset [where uuid = sample_ids, OF this] show ?thesis by blast
qed

theorem append_candidate_is_admissible_witness:
  "\<exists>new. [(''stored'', ''old.xlsx''), (''p2'', ''new.xlsx'')] = [(''stored'', ''old.xlsx'')] @ new \<and> new \<noteq> [] \<and> group_size_ok [(''stored'', ''old.xlsx''), (''p2'', ''new.xlsx'')]"
proof -
  define m where "m = \<lparr>im_id = ''m'', im_group_batch_id = ''b'', im_original_filename = ''old.xlsx'', im_file_checksum = ''p1'', im_byte_size = 1,
    im_storage_reference = Some ''stored'', im_parse_status = ''PARSED'', im_validation_status = ''VALIDATED'', im_error_message = None\<rparr>"
  have "append_candidate sample_env (\<lambda>p. True) [m] [(''p1'', ''again.xlsx''), (''p2'', ''new.xlsx'')] =
      Inr ([(''stored'', ''old.xlsx''), (''p2'', ''new.xlsx'')], 1, [''again.xlsx''])"
    by (simp add: append_candidate_def stored_files_def m_def sample_env_def Let_def)
  from append_candidate_is_admissible [OF this] show ?thesis by (auto simp: m_def)
qed

end
