(* ===== verification/Worker.thy ===== *)
theory Worker
  imports Prelude
begin

text \<open>
  \<open>apps/worker/main.py\<close>: the durable task that activates an uploaded dataset. A tenant's batches, the
  tenant's dataset, the advisory lock of the tenant and the position of every task are the state; uploads
  are accepted at any time. \<open>work\<close> stands for the body of the transaction (reset, commit to the canonical
  tables, analytics pipeline): it turns the tenant's dataset into a new one or raises. Between two steps
  of a task the other tasks and the uploads can move.
\<close>

section \<open>State\<close>

datatype batch_status = UPLOADED | VALIDATED | PROCESSING | COMMITTED | SUPERSEDED | FAILED

record ingestion_batch =
  ib_batch_id :: string
  ib_tenant_id :: string
  ib_status :: batch_status
  ib_is_active :: bool
  ib_error_message :: "fstring option"
  ib_created_at :: time

text \<open>Where a task is: not sent, in the queue, before the lock, in the lock before the recheck, in the
  transaction, at the end of the transaction with its uncommitted dataset, in one of the two exception
  handlers, before the unlock, finished.\<close>

datatype 'd pc =
    Unsent | Queued | Waiting | Entered | Working | Computed 'd | Stale | Crashed py_error | Leaving | Done

record 'd worker_sys =
  batches :: "ingestion_batch list"
  dataset :: "string \<Rightarrow> 'd"                 \<comment> \<open>by tenant\<close>
  tenant_lock :: "string \<Rightarrow> string option"  \<comment> \<open>the task that holds the advisory lock\<close>
  pcs :: "string \<Rightarrow> 'd pc"                  \<comment> \<open>by batch\<close>

definition find_batch :: "string \<Rightarrow> 'd worker_sys \<Rightarrow> ingestion_batch option" where
  "find_batch i s = find (\<lambda>b. ib_batch_id b = i) (batches s)"

definition tenant_batches :: "string \<Rightarrow> 'd worker_sys \<Rightarrow> ingestion_batch list" where
  "tenant_batches t s = filter (\<lambda>b. ib_tenant_id b = t) (batches s)"

text \<open>\<open>order_by(created_at.desc()).limit(1)\<close>.\<close>

definition newest_batch_id :: "string \<Rightarrow> 'd worker_sys \<Rightarrow> string option" where
  "newest_batch_id t s = (case sorted_by_desc ib_created_at (tenant_batches t s) of [] \<Rightarrow> None | b # _ \<Rightarrow> Some (ib_batch_id b))"

definition set_batch :: "string \<Rightarrow> batch_status \<Rightarrow> bool \<Rightarrow> fstring option \<Rightarrow> 'd worker_sys \<Rightarrow> 'd worker_sys" where
  "set_batch i st active msg s = s\<lparr>batches := upd_by ib_batch_id i
     (\<lambda>b. b\<lparr>ib_status := st, ib_is_active := active, ib_error_message := msg\<rparr>) (batches s)\<rparr>"

definition goto_pc :: "string \<Rightarrow> 'd pc \<Rightarrow> 'd worker_sys \<Rightarrow> 'd worker_sys" where
  "goto_pc i p s = s\<lparr>pcs := (pcs s)(i := p)\<rparr>"

section \<open>The steps of a task\<close>

text \<open>A finished batch is not processed again.\<close>

definition nothing_to_do :: "ingestion_batch \<Rightarrow> bool" where
  "nothing_to_do b \<longleftrightarrow> ib_status b \<in> {SUPERSEDED, FAILED} \<or> (ib_status b = COMMITTED \<and> ib_is_active b)"

text \<open>The activation: every older batch of the tenant is superseded, the candidate becomes active.\<close>

definition activated :: "ingestion_batch \<Rightarrow> ingestion_batch \<Rightarrow> ingestion_batch" where
  "activated b x =
     (if ib_batch_id x = ib_batch_id b then x\<lparr>ib_status := COMMITTED, ib_is_active := True, ib_error_message := None\<rparr>
      else if ib_tenant_id x = ib_tenant_id b \<and> ib_created_at x < ib_created_at b
      then x\<lparr>ib_is_active := False, ib_status := SUPERSEDED\<rparr> else x)"

definition activate :: "ingestion_batch \<Rightarrow> 'd worker_sys \<Rightarrow> 'd worker_sys" where
  "activate b s = s\<lparr>batches := map (activated b) (batches s)\<rparr>"

definition superseded_text :: fstring where
  "superseded_text = [Lit ''Superseded by a newer dataset upload before processing completed.'']"

definition failure_text :: "string \<Rightarrow> py_error \<Rightarrow> fstring" where
  "failure_text i e = (case e of ValueError msg \<Rightarrow> msg
     | _ \<Rightarrow> [Lit ''Dataset processing failed during governed analytics. Reference ingestion run '', Str i, Lit ''.''])"

definition job_step :: "(ingestion_batch \<Rightarrow> 'd \<Rightarrow> 'd result) \<Rightarrow> string \<Rightarrow> 'd worker_sys \<Rightarrow> 'd worker_sys option" where
  "job_step work i s =
     (case find_batch i s of
        None \<Rightarrow> None
      | Some b \<Rightarrow>
          (let t = ib_tenant_id b
           in case pcs s i of
                Unsent \<Rightarrow> None
              | Queued \<Rightarrow> Some (goto_pc i (if nothing_to_do b then Done else Waiting) s)
              | Waiting \<Rightarrow> (case tenant_lock s t of
                    Some _ \<Rightarrow> None
                  | None \<Rightarrow> Some (goto_pc i Entered (s\<lparr>tenant_lock := (tenant_lock s)(t := Some i)\<rparr>)))
              | Entered \<Rightarrow>
                  (if ib_status b \<in> {SUPERSEDED, FAILED} \<or> newest_batch_id t s \<noteq> Some i
                   then Some (goto_pc i Leaving (set_batch i SUPERSEDED False (ib_error_message b) s))
                   else Some (goto_pc i Working (set_batch i PROCESSING (ib_is_active b) None s)))
              | Working \<Rightarrow> (case work b (dataset s t) of
                    Inl e \<Rightarrow> Some (goto_pc i (Crashed e) s)
                  | Inr d \<Rightarrow> Some (goto_pc i (if newest_batch_id t s \<noteq> Some i then Stale else Computed d) s))
              | Computed d \<Rightarrow> Some (goto_pc i Leaving ((activate b s)\<lparr>dataset := (dataset s)(t := d)\<rparr>))
              | Stale \<Rightarrow> Some (goto_pc i Leaving (set_batch i SUPERSEDED False (Some superseded_text) s))
              | Crashed e \<Rightarrow> Some (goto_pc i Leaving (set_batch i FAILED False (Some (failure_text i e)) s))
              | Leaving \<Rightarrow> Some (goto_pc i Done (s\<lparr>tenant_lock := (tenant_lock s)(t := None)\<rparr>))
              | Done \<Rightarrow> None))"

section \<open>The whole system\<close>

text \<open>\<open>apps/api/services/ingestion/pipeline.py\<close> (\<open>process_files\<close>) commits a new inactive batch before it
  parses the files; \<open>apps/api/routers/ingestion.py\<close> (\<open>_queue_candidate\<close>) marks a validated one and sends
  its task; a parsing or validation error leaves the batch failed and unsent. Dramatiq may deliver a
  task again after it ended.\<close>

definition new_batch :: "string \<Rightarrow> string \<Rightarrow> time \<Rightarrow> ingestion_batch" where
  "new_batch i t stamp = \<lparr>ib_batch_id = i, ib_tenant_id = t, ib_status = UPLOADED, ib_is_active = False,
     ib_error_message = None, ib_created_at = stamp\<rparr>"

definition accept_upload :: "string \<Rightarrow> string \<Rightarrow> time \<Rightarrow> 'd worker_sys \<Rightarrow> 'd worker_sys" where
  "accept_upload i t stamp s = goto_pc i Unsent (s\<lparr>batches := batches s @ [new_batch i t stamp]\<rparr>)"

definition queue_candidate :: "string \<Rightarrow> 'd worker_sys \<Rightarrow> 'd worker_sys" where
  "queue_candidate i s = goto_pc i Queued (set_batch i PROCESSING False None s)"

definition reject_upload :: "string \<Rightarrow> fstring \<Rightarrow> 'd worker_sys \<Rightarrow> 'd worker_sys" where
  "reject_upload i msg s = set_batch i FAILED False (Some msg) s"

inductive sys_step :: "(ingestion_batch \<Rightarrow> 'd \<Rightarrow> 'd result) \<Rightarrow> 'd worker_sys \<Rightarrow> 'd worker_sys \<Rightarrow> bool" for work where
  accept: "\<lbrakk>i \<notin> ib_batch_id ` set (batches s);
            \<forall>b \<in> set (batches s). ib_tenant_id b = t \<longrightarrow> ib_created_at b \<noteq> stamp\<rbrakk> \<Longrightarrow>
           sys_step work s (accept_upload i t stamp s)"
| queue: "pcs s i = Unsent \<Longrightarrow> find_batch i s = Some b \<Longrightarrow> ib_status b = UPLOADED \<Longrightarrow> sys_step work s (queue_candidate i s)"
| reject: "pcs s i = Unsent \<Longrightarrow> find_batch i s = Some b \<Longrightarrow> ib_status b = UPLOADED \<Longrightarrow> sys_step work s (reject_upload i msg s)"
| job: "job_step work i s = Some s' \<Longrightarrow> sys_step work s s'"
| redeliver: "pcs s i = Done \<Longrightarrow> sys_step work s (goto_pc i Queued s)"

inductive reachable_sys :: "(ingestion_batch \<Rightarrow> 'd \<Rightarrow> 'd result) \<Rightarrow> (string \<Rightarrow> 'd) \<Rightarrow> 'd worker_sys \<Rightarrow> bool" for work d0 where
  init: "reachable_sys work d0 \<lparr>batches = [], dataset = d0, tenant_lock = (\<lambda>_. None), pcs = (\<lambda>_. Unsent)\<rparr>"
| step: "reachable_sys work d0 s \<Longrightarrow> sys_step work s s' \<Longrightarrow> reachable_sys work d0 s'"

section \<open>Invariant\<close>

fun holding :: "'d pc \<Rightarrow> bool" where
  "holding Unsent = False" | "holding Queued = False" | "holding Waiting = False" | "holding Done = False"
| "holding _ = True"

text \<open>A task on its way to the activation of its batch.\<close>

fun pending :: "'d pc \<Rightarrow> bool" where
  "pending Unsent = True" | "pending Queued = False" | "pending Leaving = False" | "pending Done = False"
| "pending _ = True"

definition keys_ok :: "ingestion_batch list \<Rightarrow> bool" where
  "keys_ok bs \<longleftrightarrow> distinct (map ib_batch_id bs) \<and> distinct (map (\<lambda>b. (ib_tenant_id b, ib_created_at b)) bs)"

definition active_ok :: "ingestion_batch list \<Rightarrow> bool" where
  "active_ok bs \<longleftrightarrow> (\<forall>b \<in> set bs. ib_is_active b \<longrightarrow> ib_status b = COMMITTED \<and>
     (\<forall>c \<in> set bs. ib_is_active c \<and> ib_tenant_id c = ib_tenant_id b \<longrightarrow> ib_batch_id c = ib_batch_id b))"

definition task_ok :: "'d worker_sys \<Rightarrow> ingestion_batch \<Rightarrow> bool" where
  "task_ok s b \<longleftrightarrow>
     (pending (pcs s (ib_batch_id b)) \<longrightarrow> \<not> ib_is_active b) \<and>
     (holding (pcs s (ib_batch_id b)) \<longleftrightarrow> tenant_lock s (ib_tenant_id b) = Some (ib_batch_id b)) \<and>
     (case pcs s (ib_batch_id b) of
        Computed _ \<Rightarrow> \<forall>c \<in> set (batches s). ib_is_active c \<and> ib_tenant_id c = ib_tenant_id b \<longrightarrow> ib_created_at c < ib_created_at b
      | _ \<Rightarrow> True)"

lemma task_okI:
  assumes "pending (pcs s (ib_batch_id b)) \<Longrightarrow> \<not> ib_is_active b"
    "holding (pcs s (ib_batch_id b)) \<longleftrightarrow> tenant_lock s (ib_tenant_id b) = Some (ib_batch_id b)"
    "\<And>d c. pcs s (ib_batch_id b) = Computed d \<Longrightarrow> c \<in> set (batches s) \<Longrightarrow> ib_is_active c \<Longrightarrow>
       ib_tenant_id c = ib_tenant_id b \<Longrightarrow> ib_created_at c < ib_created_at b"
  shows "task_ok s b"
  using assms unfolding task_ok_def by (cases "pcs s (ib_batch_id b)") simp_all

lemma task_okD:
  assumes "task_ok s b"
  shows "pending (pcs s (ib_batch_id b)) \<Longrightarrow> \<not> ib_is_active b"
    "holding (pcs s (ib_batch_id b)) \<longleftrightarrow> tenant_lock s (ib_tenant_id b) = Some (ib_batch_id b)"
    "\<And>d c. pcs s (ib_batch_id b) = Computed d \<Longrightarrow> c \<in> set (batches s) \<Longrightarrow> ib_is_active c \<Longrightarrow>
       ib_tenant_id c = ib_tenant_id b \<Longrightarrow> ib_created_at c < ib_created_at b"
  using assms unfolding task_ok_def by simp_all

definition sys_inv :: "'d worker_sys \<Rightarrow> bool" where
  "sys_inv s \<longleftrightarrow> keys_ok (batches s) \<and> active_ok (batches s) \<and> (\<forall>b \<in> set (batches s). task_ok s b) \<and>
     (\<forall>t i. tenant_lock s t = Some i \<longrightarrow> (\<exists>b \<in> set (batches s). ib_batch_id b = i \<and> ib_tenant_id b = t))"

lemma goto_pc_sel [simp]:
  "batches (goto_pc i p s) = batches s" "dataset (goto_pc i p s) = dataset s"
  "tenant_lock (goto_pc i p s) = tenant_lock s" "pcs (goto_pc i p s) = (pcs s)(i := p)"
  by (simp_all add: goto_pc_def)

lemma set_batch_sel [simp]:
  "dataset (set_batch i st a m s) = dataset s" "tenant_lock (set_batch i st a m s) = tenant_lock s"
  "pcs (set_batch i st a m s) = pcs s"
  "batches (set_batch i st a m s) = upd_by ib_batch_id i
     (\<lambda>b. b\<lparr>ib_status := st, ib_is_active := a, ib_error_message := m\<rparr>) (batches s)"
  by (simp_all add: set_batch_def)

lemma find_batch_SomeD: "find_batch i s = Some b \<Longrightarrow> b \<in> set (batches s) \<and> ib_batch_id b = i"
  by (auto simp: find_batch_def find_Some_iff)

lemma same_batch:
  "keys_ok bs \<Longrightarrow> b \<in> set bs \<Longrightarrow> c \<in> set bs \<Longrightarrow> ib_batch_id b = ib_batch_id c \<Longrightarrow> b = c"
  unfolding keys_ok_def by (meson distinct_map inj_onD)

lemma newest_is_last:
  assumes "keys_ok (batches s)" "newest_batch_id (ib_tenant_id b) s = Some (ib_batch_id b)" "b \<in> set (batches s)"
    "c \<in> set (batches s)" "ib_tenant_id c = ib_tenant_id b" "c \<noteq> b"
  shows "ib_created_at c < ib_created_at b"
proof -
  let ?l = "sorted_by_desc ib_created_at (tenant_batches (ib_tenant_id b) s)"
  obtain h rest where l: "?l = h # rest" "ib_batch_id h = ib_batch_id b"
    using assms(2) by (auto simp: newest_batch_id_def split: list.splits)
  have "h \<in> set ?l" unfolding l(1) by simp
  then have "h \<in> set (batches s)" by (simp add: tenant_batches_def)
  then have h: "h = b" using same_batch [OF assms(1) _ assms(3) l(2)] by simp
  have "c \<in> set ?l" using assms(4,5) by (simp add: tenant_batches_def)
  then have "c \<in> set rest" using l(1) h assms(6) by auto
  then have le: "ib_created_at c \<le> ib_created_at b"
    using sorted_by_desc_sorted [of ib_created_at "tenant_batches (ib_tenant_id b) s"] unfolding l(1) h by simp
  have inj: "inj_on (\<lambda>b. (ib_tenant_id b, ib_created_at b)) (set (batches s))"
    using assms(1) by (simp add: keys_ok_def distinct_map)
  have "ib_created_at c \<noteq> ib_created_at b" using inj_onD [OF inj _ assms(4,3)] assms(5,6) by blast
  with le show ?thesis by simp
qed

text \<open>A change of the batches that keeps identifiers, tenants and times, and activates none.\<close>

lemma map_keeps:
  assumes "\<And>b. b \<in> set bs \<Longrightarrow> ib_batch_id (f b) = ib_batch_id b \<and> ib_tenant_id (f b) = ib_tenant_id b \<and> ib_created_at (f b) = ib_created_at b"
  shows "keys_ok (map f bs) \<longleftrightarrow> keys_ok bs"
proof -
  have "map ib_batch_id (map f bs) = map ib_batch_id bs"
    "map (\<lambda>b. (ib_tenant_id b, ib_created_at b)) (map f bs) = map (\<lambda>b. (ib_tenant_id b, ib_created_at b)) bs"
    using assms by simp_all
  then show ?thesis unfolding keys_ok_def by (simp only:)
qed

lemma quiet_change:
  assumes inv: "sys_inv s"
    and b: "batches s' = map f (batches s)"
    and f: "\<And>x. x \<in> set (batches s) \<Longrightarrow> ib_batch_id (f x) = ib_batch_id x \<and> ib_tenant_id (f x) = ib_tenant_id x \<and>
      ib_created_at (f x) = ib_created_at x \<and> (ib_is_active (f x) \<longrightarrow> ib_is_active x \<and> ib_status (f x) = ib_status x)"
    and l: "\<And>t i. tenant_lock s' t = Some i \<Longrightarrow> \<exists>x \<in> set (batches s). ib_batch_id x = i \<and> ib_tenant_id x = t"
    and t: "\<And>x. x \<in> set (batches s) \<Longrightarrow> task_ok s x \<Longrightarrow> task_ok s' (f x)"
  shows "sys_inv s'"
proof -
  have k: "keys_ok (batches s')" using inv map_keeps [of "batches s" f] f unfolding b sys_inv_def by blast
  have ok: "active_ok (batches s)" using inv by (simp add: sys_inv_def)
  have a: "active_ok (batches s')"
    unfolding active_ok_def b
  proof (intro ballI impI conjI)
    fix x' assume "x' \<in> set (map f (batches s))" and act: "ib_is_active x'"
    then obtain x where x: "x \<in> set (batches s)" "x' = f x" by auto
    with act f have x_act: "ib_is_active x" "ib_status x' = ib_status x" by blast+
    then show "ib_status x' = COMMITTED" using ok x(1) by (simp add: active_ok_def)
    fix y' assume "y' \<in> set (map f (batches s))" and y': "ib_is_active y' \<and> ib_tenant_id y' = ib_tenant_id x'"
    then obtain y where y: "y \<in> set (batches s)" "y' = f y" by auto
    then have "ib_is_active y" "ib_tenant_id y = ib_tenant_id x" using f [OF y(1)] f [OF x(1)] y' x(2) by auto
    then have "ib_batch_id y = ib_batch_id x" using ok x(1) x_act(1) y(1) unfolding active_ok_def by blast
    then show "ib_batch_id y' = ib_batch_id x'" using f [OF y(1)] f [OF x(1)] y(2) x(2) by simp
  qed
  have "\<forall>x \<in> set (batches s'). task_ok s' x" using inv t unfolding b sys_inv_def by auto
  moreover have "\<forall>t i. tenant_lock s' t = Some i \<longrightarrow> (\<exists>x \<in> set (batches s'). ib_batch_id x = i \<and> ib_tenant_id x = t)"
    using l f unfolding b by fastforce
  ultimately show ?thesis using k a by (simp add: sys_inv_def)
qed

lemma upd_by_map: "upd_by key k f rows = map (\<lambda>r. if key r = k then f r else r) rows"
  by (simp add: upd_by_def)

text \<open>A step of task \<open>i\<close> that leaves the lock alone: what has to be checked for the task itself.\<close>

lemma own_step:
  assumes inv: "sys_inv s" and b: "b \<in> set (batches s)" "ib_batch_id b = i"
    and s': "batches s' = map (\<lambda>x. if ib_batch_id x = i then g x else x) (batches s)" "pcs s' = (pcs s)(i := p)"
      "tenant_lock s' = tenant_lock s"
    and g: "ib_batch_id (g b) = i \<and> ib_tenant_id (g b) = ib_tenant_id b \<and> ib_created_at (g b) = ib_created_at b \<and>
      (ib_is_active (g b) \<longrightarrow> ib_is_active b \<and> ib_status (g b) = ib_status b)"
    and p: "pending p \<longrightarrow> \<not> ib_is_active (g b)" "holding p \<longleftrightarrow> holding (pcs s i)"
      "\<And>d c. p = Computed d \<Longrightarrow> c \<in> set (batches s) \<Longrightarrow> ib_is_active c \<Longrightarrow> ib_tenant_id c = ib_tenant_id b \<Longrightarrow>
         ib_created_at c < ib_created_at b"
  shows "sys_inv s'"
proof (rule quiet_change [OF inv s'(1)])
  have keys: "keys_ok (batches s)" using inv by (simp add: sys_inv_def)
  have own: "x = b" if "x \<in> set (batches s)" "ib_batch_id x = i" for x
    using same_batch [OF keys that(1) b(1)] that(2) b(2) by simp
  have tb: "task_ok s b" using inv b(1) by (simp add: sys_inv_def)
  let ?f = "\<lambda>x. if ib_batch_id x = i then g x else x"
  show fx: "ib_batch_id (?f x) = ib_batch_id x \<and> ib_tenant_id (?f x) = ib_tenant_id x \<and>
      ib_created_at (?f x) = ib_created_at x \<and> (ib_is_active (?f x) \<longrightarrow> ib_is_active x \<and> ib_status (?f x) = ib_status x)"
    if "x \<in> set (batches s)" for x using own [OF that] g by auto
  show "\<exists>x \<in> set (batches s). ib_batch_id x = j \<and> ib_tenant_id x = t" if "tenant_lock s' t = Some j" for t j
    using inv that s'(3) by (simp add: sys_inv_def)
  show "task_ok s' (?f x)" if x: "x \<in> set (batches s)" "task_ok s x" for x
  proof (cases "x = b")
    case True
    have "\<forall>c \<in> set (batches s'). ib_is_active c \<and> ib_tenant_id c = ib_tenant_id b \<longrightarrow> ib_created_at c < ib_created_at b"
      if "p = Computed d" for d
    proof (intro ballI impI)
      fix c assume c: "c \<in> set (batches s')" "ib_is_active c \<and> ib_tenant_id c = ib_tenant_id b"
      then obtain y where y: "y \<in> set (batches s)" "c = ?f y" unfolding s'(1) by auto
      then show "ib_created_at c < ib_created_at b" using fx [OF y(1)] p(3) [OF that y(1)] c(2) by simp
    qed
    then show ?thesis using True b g p(1,2) tb unfolding task_ok_def s'(2,3) by (auto split: pc.splits)
  next
    case False
    then have ne: "ib_batch_id x \<noteq> i" using own x(1) by blast
    have "\<forall>c \<in> set (batches s'). ib_is_active c \<and> ib_tenant_id c = ib_tenant_id x \<longrightarrow> ib_created_at c < ib_created_at x"
      if "pcs s (ib_batch_id x) = Computed d" for d
    proof (intro ballI impI)
      fix c assume c: "c \<in> set (batches s')" "ib_is_active c \<and> ib_tenant_id c = ib_tenant_id x"
      then obtain y where y: "y \<in> set (batches s)" "c = ?f y" unfolding s'(1) by auto
      then show "ib_created_at c < ib_created_at x" using fx [OF y(1)] x(2) that c(2) by (simp add: task_ok_def)
    qed
    then show ?thesis using ne x(2) unfolding task_ok_def s'(2,3) by (auto split: pc.splits)
  qed
qed

text \<open>The activation: the task's batch is the newest active one, all others of the tenant are older.\<close>

lemma activated_keys [simp]:
  "ib_batch_id (activated b x) = ib_batch_id x" "ib_tenant_id (activated b x) = ib_tenant_id x"
  "ib_created_at (activated b x) = ib_created_at x"
  by (simp_all add: activated_def)

lemma activate_sel [simp]:
  "batches (activate b s) = map (activated b) (batches s)" "dataset (activate b s) = dataset s"
  "tenant_lock (activate b s) = tenant_lock s" "pcs (activate b s) = pcs s"
  by (simp_all add: activate_def)

lemma activated_other:
  assumes "ib_batch_id x \<noteq> ib_batch_id b" "ib_is_active (activated b x)"
    "ib_is_active x \<Longrightarrow> ib_tenant_id x = ib_tenant_id b \<Longrightarrow> ib_created_at x < ib_created_at b"
  shows "activated b x = x" "ib_is_active x" "ib_tenant_id x \<noteq> ib_tenant_id b"
  using assms by (auto simp: activated_def split: if_splits)

lemma activation_step:
  assumes inv: "sys_inv s" and b: "b \<in> set (batches s)" "ib_batch_id b = i" and c: "pcs s i = Computed d"
  shows "sys_inv (goto_pc i Leaving ((activate b s)\<lparr>dataset := ds\<rparr>))" (is "sys_inv ?s'")
proof -
  have keys: "keys_ok (batches s)" and ok: "active_ok (batches s)" and tasks: "\<forall>x \<in> set (batches s). task_ok s x"
    using inv by (simp_all add: sys_inv_def)
  let ?f = "activated b"
  have s': "batches ?s' = map ?f (batches s)" "pcs ?s' = (pcs s)(i := Leaving)" "tenant_lock ?s' = tenant_lock s"
    by (simp_all add: activate_def)
  have older: "ib_created_at x < ib_created_at b"
    if "x \<in> set (batches s)" "ib_is_active x" "ib_tenant_id x = ib_tenant_id b" for x
    using task_okD(3) [of s b d x] tasks b c that by simp
  have other: "?f x = x \<and> ib_is_active x \<and> ib_tenant_id x \<noteq> ib_tenant_id b"
    if "x \<in> set (batches s)" "ib_is_active (?f x)" "ib_batch_id x \<noteq> i" for x
    using activated_other [of x b] that older [OF that(1)] b(2) by blast
  have own: "x = b" if "x \<in> set (batches s)" "ib_batch_id x = i" for x
    using same_batch [OF keys that(1) b(1)] that(2) b(2) by simp
  have fb: "ib_status (?f b) = COMMITTED" by (simp add: activated_def)
  have "keys_ok (batches ?s')" unfolding s'(1) using map_keeps [of "batches s" ?f] keys by simp
  moreover have "active_ok (batches ?s')"
    unfolding active_ok_def s'(1)
  proof (intro ballI impI conjI)
    fix x' assume "x' \<in> set (map ?f (batches s))" and x': "ib_is_active x'"
    then obtain x where x: "x \<in> set (batches s)" "x' = ?f x" by auto
    show "ib_status x' = COMMITTED"
    proof (cases "ib_batch_id x = i")
      case True
      then show ?thesis using own [OF x(1)] fb x(2) by simp
    next
      case False
      then have "x' = x" "ib_is_active x" using other [OF x(1)] x' x(2) by simp_all
      then show ?thesis using ok x(1) unfolding active_ok_def by blast
    qed
    fix y' assume "y' \<in> set (map ?f (batches s))" and y': "ib_is_active y' \<and> ib_tenant_id y' = ib_tenant_id x'"
    then obtain y where y: "y \<in> set (batches s)" "y' = ?f y" by auto
    have t: "ib_tenant_id y = ib_tenant_id x" using y' x(2) y(2) by simp
    have "ib_batch_id y = ib_batch_id x"
    proof (cases "ib_batch_id x = i"; cases "ib_batch_id y = i")
      assume "ib_batch_id x = i" "ib_batch_id y \<noteq> i"
      then show ?thesis using other [OF y(1)] own [OF x(1)] t y' y(2) by simp
    next
      assume "ib_batch_id x \<noteq> i" "ib_batch_id y = i"
      then show ?thesis using other [OF x(1)] own [OF y(1)] t x' x(2) by simp
    next
      assume "ib_batch_id x \<noteq> i" "ib_batch_id y \<noteq> i"
      then have "ib_is_active x" "ib_is_active y" using other x y x' y' by simp_all
      then show ?thesis using ok x(1) y(1) t unfolding active_ok_def by blast
    qed simp
    then show "ib_batch_id y' = ib_batch_id x'" using x(2) y(2) by simp
  qed
  moreover have "\<forall>x' \<in> set (batches ?s'). task_ok ?s' x'"
  proof
    fix x' assume "x' \<in> set (batches ?s')"
    then obtain x where x: "x \<in> set (batches s)" "x' = ?f x" unfolding s'(1) by auto
    have tx: "task_ok s x" using tasks x(1) by blast
    show "task_ok ?s' x'"
    proof (cases "ib_batch_id x = i")
      case True
      then have "holding (pcs s (ib_batch_id x))" using c by simp
      then have "tenant_lock s (ib_tenant_id x) = Some (ib_batch_id x)" using task_okD(2) [OF tx] by simp
      then show ?thesis using True by (intro task_okI) (simp_all add: s' x(2))
    next
      case False
      have tb: "tenant_lock s (ib_tenant_id b) = Some i" using task_okD(2) [of s b] tasks b c by simp
      have id: "ib_batch_id x' = ib_batch_id x" "ib_tenant_id x' = ib_tenant_id x" "ib_created_at x' = ib_created_at x"
        using x(2) by simp_all
      have pc: "pcs ?s' (ib_batch_id x') = pcs s (ib_batch_id x)" using False id s'(2) by simp
      show ?thesis
      proof (rule task_okI)
        assume "pending (pcs ?s' (ib_batch_id x'))"
        then have "\<not> ib_is_active x" using task_okD(1) [OF tx] pc by simp
        then show "\<not> ib_is_active x'" using other [OF x(1)] x(2) False by blast
      next
        show "holding (pcs ?s' (ib_batch_id x')) \<longleftrightarrow> tenant_lock ?s' (ib_tenant_id x') = Some (ib_batch_id x')"
          using task_okD(2) [OF tx] pc s'(3) id by simp
      next
        fix e y' assume e: "pcs ?s' (ib_batch_id x') = Computed e" and y': "y' \<in> set (batches ?s')"
          "ib_is_active y'" "ib_tenant_id y' = ib_tenant_id x'"
        obtain y where y: "y \<in> set (batches s)" "y' = ?f y" using y'(1) unfolding s'(1) by auto
        have "holding (pcs s (ib_batch_id x))" using e unfolding pc by simp
        then have "tenant_lock s (ib_tenant_id x) = Some (ib_batch_id x)" using task_okD(2) [OF tx] by simp
        then have "ib_tenant_id x \<noteq> ib_tenant_id b" using tb False by auto
        then have "ib_batch_id y \<noteq> i" using own [OF y(1)] y'(3) y(2) id by auto
        then have yy: "y' = y" "ib_is_active y" using other [OF y(1)] y'(2) y(2) by simp_all
        moreover have "pcs s (ib_batch_id x) = Computed e" using e unfolding pc .
        ultimately show "ib_created_at y' < ib_created_at x'"
          unfolding id using task_okD(3) [OF tx, of e y] y(1) y'(3) id by simp
      qed
    qed
  qed
  moreover have "\<forall>t j. tenant_lock ?s' t = Some j \<longrightarrow> (\<exists>x' \<in> set (batches ?s'). ib_batch_id x' = j \<and> ib_tenant_id x' = t)"
    using inv unfolding s' by (simp add: sys_inv_def)
  ultimately show ?thesis by (simp add: sys_inv_def)
qed

text \<open>Taking and releasing the lock.\<close>

lemma lock_step:
  assumes inv: "sys_inv s" and b: "b \<in> set (batches s)" "ib_batch_id b = i"
    and l: "l = Some i \<and> tenant_lock s (ib_tenant_id b) = None \<and> p = Entered \<and> pcs s i = Waiting \<or>
      l = None \<and> p = Done \<and> pcs s i = Leaving"
  shows "sys_inv (goto_pc i p (s\<lparr>tenant_lock := (tenant_lock s)(ib_tenant_id b := l)\<rparr>))" (is "sys_inv ?s'")
proof (rule quiet_change [OF inv, where f = id])
  have keys: "keys_ok (batches s)" using inv by (simp add: sys_inv_def)
  have tb: "task_ok s b" using inv b(1) by (simp add: sys_inv_def)
  show "batches ?s' = map id (batches s)" by simp
  show "\<exists>x \<in> set (batches s). ib_batch_id x = j \<and> ib_tenant_id x = t" if "tenant_lock ?s' t = Some j" for t j
    using that inv b l unfolding sys_inv_def by (auto split: if_splits)
  show "task_ok ?s' (id x)" if x: "x \<in> set (batches s)" "task_ok s x" for x
  proof (cases "ib_batch_id x = i")
    case True
    then have "x = b" using same_batch [OF keys x(1) b(1)] b(2) by simp
    then show ?thesis using l task_okD(1) [OF tb] b(2) by (intro task_okI) auto
  next
    case False
    have "(if ib_tenant_id x = ib_tenant_id b then l else tenant_lock s (ib_tenant_id x)) = Some (ib_batch_id x) \<longleftrightarrow>
        tenant_lock s (ib_tenant_id x) = Some (ib_batch_id x)"
      using False l task_okD(2) [OF tb] b(2) by auto
    then show ?thesis using False task_okD [OF x(2)] by (intro task_okI) simp_all
  qed
qed simp

lemma job_step_inv:
  assumes inv: "sys_inv s" and st: "job_step work i s = Some s'"
  shows "sys_inv s'"
proof -
  obtain b where b: "find_batch i s = Some b" "b \<in> set (batches s)" "ib_batch_id b = i"
    using st find_batch_SomeD by (fastforce simp: job_step_def split: option.splits)
  have keys: "keys_ok (batches s)" and ok: "active_ok (batches s)" and tb: "task_ok s b"
    using inv b(2) by (simp_all add: sys_inv_def)
  note act = task_okD(1) [OF tb, unfolded b(3)]
  have com: "ib_is_active b \<Longrightarrow> ib_status b = COMMITTED" using ok b(2) by (simp add: active_ok_def)
  have move: "sys_inv (goto_pc i p s)"
    if "pending p \<longrightarrow> \<not> ib_is_active b" "holding p \<longleftrightarrow> holding (pcs s i)"
      "\<And>d c. p = Computed d \<Longrightarrow> c \<in> set (batches s) \<Longrightarrow> ib_is_active c \<Longrightarrow> ib_tenant_id c = ib_tenant_id b \<Longrightarrow>
         ib_created_at c < ib_created_at b" for p
    by (rule own_step [OF inv b(2,3), of _ id p]) (use that b(3) in \<open>simp_all add: map_idI\<close>)
  have mark: "sys_inv (goto_pc i p (set_batch i st a m s))"
    if "a \<longrightarrow> ib_is_active b \<and> st = ib_status b" "pending p \<longrightarrow> \<not> a" "holding p \<longleftrightarrow> holding (pcs s i)" "\<forall>d. p \<noteq> Computed d"
    for p st a m
    by (rule own_step [OF inv b(2,3), where p = p and
          g = "\<lambda>b. b\<lparr>ib_status := st, ib_is_active := a, ib_error_message := m\<rparr>"]) (use that b in \<open>simp_all add: upd_by_map\<close>)
  show ?thesis
  proof (cases "pcs s i")
    case Queued
    then have "s' = goto_pc i (if nothing_to_do b then Done else Waiting) s" using st b(1) by (simp add: job_step_def)
    then show ?thesis using com by (auto intro!: move simp: Queued nothing_to_do_def)
  next
    case Waiting
    then have "tenant_lock s (ib_tenant_id b) = None"
      "s' = goto_pc i Entered (s\<lparr>tenant_lock := (tenant_lock s)(ib_tenant_id b := Some i)\<rparr>)"
      using st b(1) by (auto simp: job_step_def Let_def split: option.splits)
    then show ?thesis using lock_step [OF inv b(2,3), of "Some i" Entered] Waiting by simp
  next
    case Entered
    then show ?thesis using st b(1) act by (auto simp: job_step_def intro!: mark split: if_splits)
  next
    case Working
    show ?thesis
    proof (cases "work b (dataset s (ib_tenant_id b))")
      case (Inl e)
      then have "s' = goto_pc i (Crashed e) s" using st b(1) Working by (simp add: job_step_def)
      then show ?thesis using act Working by (auto intro!: move)
    next
      case (Inr d)
      show ?thesis
      proof (cases "newest_batch_id (ib_tenant_id b) s = Some i")
        case True
        then have "s' = goto_pc i (Computed d) s" using st b(1) Working Inr by (simp add: job_step_def)
        moreover have "ib_created_at c < ib_created_at b"
          if "c \<in> set (batches s)" "ib_is_active c" "ib_tenant_id c = ib_tenant_id b" for c
          using newest_is_last [OF keys _ b(2) that(1,3)] True b(3) act that(2) Working by auto
        ultimately show ?thesis using act Working by (auto intro!: move)
      next
        case False
        then have "s' = goto_pc i Stale s" using st b(1) Working Inr by (simp add: job_step_def)
        then show ?thesis using act Working by (auto intro!: move)
      qed
    qed
  next
    case (Computed d)
    then have "s' = goto_pc i Leaving ((activate b s)\<lparr>dataset := (dataset s)(ib_tenant_id b := d)\<rparr>)"
      using st b(1) by (simp add: job_step_def)
    then show ?thesis using activation_step [OF inv b(2,3) Computed] by simp
  next
    case Leaving
    then have "s' = goto_pc i Done (s\<lparr>tenant_lock := (tenant_lock s)(ib_tenant_id b := None)\<rparr>)"
      using st b(1) by (simp add: job_step_def)
    then show ?thesis using lock_step [OF inv b(2,3), of None Done] Leaving by simp
  qed (use st b(1) in \<open>auto simp: job_step_def intro!: mark\<close>)
qed

lemma find_batch_mem: "keys_ok (batches s) \<Longrightarrow> b \<in> set (batches s) \<Longrightarrow> find_batch (ib_batch_id b) s = Some b"
proof -
  assume k: "keys_ok (batches s)" and b: "b \<in> set (batches s)"
  have "find_batch (ib_batch_id b) s \<noteq> None" using b by (auto simp: find_batch_def find_None_iff)
  then obtain c where c: "find_batch (ib_batch_id b) s = Some c" by blast
  then have "c = b" using find_batch_SomeD [OF c] same_batch [OF k _ b] by blast
  with c show ?thesis by simp
qed

lemma accept_upload_inv:
  assumes inv: "sys_inv s" and i: "i \<notin> ib_batch_id ` set (batches s)"
    and t: "\<forall>b \<in> set (batches s). ib_tenant_id b = t \<longrightarrow> ib_created_at b \<noteq> stamp"
  shows "sys_inv (accept_upload i t stamp s)" (is "sys_inv ?s'")
proof -
  let ?n = "new_batch i t stamp"
  have b: "batches ?s' = batches s @ [?n]" "tenant_lock ?s' = tenant_lock s" "pcs ?s' = (pcs s)(i := Unsent)"
    by (simp_all add: accept_upload_def)
  have n: "ib_batch_id ?n = i" "ib_tenant_id ?n = t" "ib_created_at ?n = stamp" "\<not> ib_is_active ?n"
    by (simp_all add: new_batch_def)
  have keys: "keys_ok (batches ?s')"
    using inv i t unfolding b sys_inv_def keys_ok_def by (auto simp: n)
  have "active_ok (batches ?s')"
    using inv n(4) unfolding b sys_inv_def active_ok_def set_append list.set by blast
  moreover have "\<forall>x \<in> set (batches ?s'). task_ok ?s' x"
  proof
    fix x assume "x \<in> set (batches ?s')"
    then consider "x = ?n" | "x \<in> set (batches s)" unfolding b by auto
    then show "task_ok ?s' x"
    proof cases
      case 1
      have "tenant_lock s t \<noteq> Some i" using inv i unfolding sys_inv_def by force
      then show ?thesis unfolding 1 by (intro task_okI) (simp_all add: b n)
    next
      case 2
      then have tx: "task_ok s x" and ne: "ib_batch_id x \<noteq> i" using inv i by (auto simp: sys_inv_def)
      show ?thesis
      proof (rule task_okI)
        fix d c assume "pcs ?s' (ib_batch_id x) = Computed d" "c \<in> set (batches ?s')" "ib_is_active c"
          "ib_tenant_id c = ib_tenant_id x"
        then show "ib_created_at c < ib_created_at x" using task_okD(3) [OF tx] ne n(4) unfolding b by auto
      qed (use task_okD(1,2) [OF tx] ne in \<open>simp_all add: b\<close>)
    qed
  qed
  moreover have "\<forall>u j. tenant_lock ?s' u = Some j \<longrightarrow> (\<exists>x \<in> set (batches ?s'). ib_batch_id x = j \<and> ib_tenant_id x = u)"
    using inv unfolding b sys_inv_def by fastforce
  ultimately show ?thesis using keys by (simp add: sys_inv_def)
qed

lemma sys_step_inv: "sys_step work s s' \<Longrightarrow> sys_inv s \<Longrightarrow> sys_inv s'"
proof (induction rule: sys_step.induct)
  case (accept i s t stamp)
  then show ?case by (intro accept_upload_inv) auto
next
  case (queue s i b)
  note b = find_batch_SomeD [OF queue(2)]
  show ?case unfolding queue_candidate_def
    by (rule own_step [OF queue(4) conjunct1 [OF b] conjunct2 [OF b], where p = Queued and
        g = "\<lambda>b. b\<lparr>ib_status := PROCESSING, ib_is_active := False, ib_error_message := None\<rparr>"])
      (use queue(1) b in \<open>simp_all add: upd_by_map\<close>)
next
  case (reject s i b msg)
  note b = find_batch_SomeD [OF reject(2)]
  show ?case unfolding reject_upload_def
    by (rule own_step [OF reject(4) conjunct1 [OF b] conjunct2 [OF b], where p = Unsent and
        g = "\<lambda>b. b\<lparr>ib_status := FAILED, ib_is_active := False, ib_error_message := Some msg\<rparr>"])
      (use reject(1) b in \<open>simp_all add: upd_by_map fun_upd_idem\<close>)
next
  case (job i s s')
  then show ?case by (rule_tac job_step_inv)
next
  case (redeliver s i)
  show ?case
  proof (cases "i \<in> ib_batch_id ` set (batches s)")
    case True
    then obtain b where b: "b \<in> set (batches s)" "ib_batch_id b = i" by blast
    show ?thesis
      by (rule own_step [OF redeliver(2) b, where p = Queued and g = id])
        (use redeliver(1) b in \<open>simp_all add: map_idI\<close>)
  next
    case False
    then have ne: "\<And>x. x \<in> set (batches s) \<Longrightarrow> ib_batch_id x \<noteq> i" by blast
    show ?thesis
    proof (rule quiet_change [OF redeliver(2), where f = id])
      show "task_ok (goto_pc i Queued s) (id x)" if "x \<in> set (batches s)" "task_ok s x" for x
        using task_okD [OF that(2)] ne [OF that(1)] by (intro task_okI) simp_all
    qed (use redeliver(2) in \<open>simp_all add: sys_inv_def\<close>)
  qed
qed

lemma reachable_sys_inv: "reachable_sys work d0 s \<Longrightarrow> sys_inv s"
proof (induction rule: reachable_sys.induct)
  case init
  show ?case by (simp add: sys_inv_def keys_ok_def active_ok_def)
qed (rule sys_step_inv)

section \<open>One task without interference\<close>

text \<open>The executions of a task up to a number of steps; it stops at the lock of another task.\<close>

fun run_job :: "(ingestion_batch \<Rightarrow> 'd \<Rightarrow> 'd result) \<Rightarrow> string \<Rightarrow> nat \<Rightarrow> 'd worker_sys \<Rightarrow> 'd worker_sys" where
  "run_job work i 0 s = s"
| "run_job work i (Suc n) s = (case job_step work i s of None \<Rightarrow> s | Some s' \<Rightarrow> run_job work i n s')"

lemma newest_cong:
  assumes "batches s' = map f (batches s)"
    "\<And>x. ib_batch_id (f x) = ib_batch_id x \<and> ib_tenant_id (f x) = ib_tenant_id x \<and> ib_created_at (f x) = ib_created_at x"
  shows "newest_batch_id t s' = newest_batch_id t s"
proof -
  have tb: "tenant_batches t s' = map f (tenant_batches t s)"
    unfolding tenant_batches_def assms(1) filter_map comp_def using assms(2) by simp
  have "map ib_batch_id (sorted_by_desc ib_created_at (map f l)) = map ib_batch_id (sorted_by_desc ib_created_at l)" for l
  proof -
    have ins: "insort_key ib_created_at (f x) (map f xs) = map f (insort_key ib_created_at x xs)" for x xs
      by (induction xs) (simp_all add: assms(2))
    have "sort_key ib_created_at (map f xs) = map f (sort_key ib_created_at xs)" for xs
      by (induction xs) (simp_all add: ins)
    then have "sorted_by_desc ib_created_at (map f l) = map f (sorted_by_desc ib_created_at l)"
      by (simp add: sorted_by_desc_def rev_map)
    then show ?thesis using assms(2) by simp
  qed
  from this [of "tenant_batches t s"] show ?thesis unfolding newest_batch_id_def tb
    by (auto split: list.splits)
qed

lemma find_upd_by:
  assumes "find_batch i s = Some b" "\<And>x. ib_batch_id (f x) = ib_batch_id x"
  shows "find (\<lambda>x. ib_batch_id x = i) (upd_by ib_batch_id i f (batches s)) = Some (f b)"
  using assms(1) unfolding find_batch_def
proof (induction "batches s" arbitrary: s)
  case (Cons x xs)
  then show ?case using Cons(1) [of "s\<lparr>batches := xs\<rparr>"] by (cases "ib_batch_id x = i") (auto simp: upd_by_def assms(2) Cons(2) [symmetric])
qed simp

lemma find_batch_simps [simp]:
  "find_batch i (goto_pc j p s) = find_batch i s" "find_batch i (s\<lparr>tenant_lock := l\<rparr>) = find_batch i s"
  "newest_batch_id t (goto_pc j p s) = newest_batch_id t s" "newest_batch_id t (s\<lparr>tenant_lock := l\<rparr>) = newest_batch_id t s"
  by (simp_all add: find_batch_def newest_batch_id_def tenant_batches_def)

lemma find_batch_set:
  "find_batch i s = Some b \<Longrightarrow> find_batch i (set_batch i st a m s) =
     Some (b\<lparr>ib_status := st, ib_is_active := a, ib_error_message := m\<rparr>)"
  using find_upd_by [of i s b "\<lambda>b. b\<lparr>ib_status := st, ib_is_active := a, ib_error_message := m\<rparr>"]
  by (simp add: find_batch_def)

lemma newest_set [simp]: "newest_batch_id t (set_batch i st a m s) = newest_batch_id t s"
  by (rule newest_cong [where f = "\<lambda>x. if ib_batch_id x = i
        then x\<lparr>ib_status := st, ib_is_active := a, ib_error_message := m\<rparr> else x"]) (simp_all add: upd_by_def)

lemma find_batch_activated:
  assumes "find_batch i s = Some b"
  shows "find (\<lambda>x. ib_batch_id x = i) (map (activated b) (batches s)) = Some (activated b b)"
proof -
  have "find (\<lambda>x. ib_batch_id x = i) (map (activated b) xs) = map_option (activated b) (find (\<lambda>x. ib_batch_id x = i) xs)" for xs
    by (induction xs) simp_all
  then show ?thesis using assms by (simp add: find_batch_def)
qed

definition processing :: "ingestion_batch \<Rightarrow> ingestion_batch" where
  "processing b = b\<lparr>ib_status := PROCESSING, ib_error_message := None\<rparr>"

definition finished :: "(ingestion_batch \<Rightarrow> 'd \<Rightarrow> 'd result) \<Rightarrow> string \<Rightarrow> ingestion_batch \<Rightarrow> 'd worker_sys \<Rightarrow> ingestion_batch \<times> (string \<Rightarrow> 'd)" where
  "finished work i b s =
     (if nothing_to_do b then (b, dataset s)
      else if newest_batch_id (ib_tenant_id b) s \<noteq> Some i then (b\<lparr>ib_status := SUPERSEDED, ib_is_active := False\<rparr>, dataset s)
      else case work (processing b) (dataset s (ib_tenant_id b)) of
             Inl e \<Rightarrow> (b\<lparr>ib_status := FAILED, ib_is_active := False, ib_error_message := Some (failure_text i e)\<rparr>, dataset s)
           | Inr d \<Rightarrow> (b\<lparr>ib_status := COMMITTED, ib_is_active := True, ib_error_message := None\<rparr>,
                       (dataset s)(ib_tenant_id b := d)))"

lemma processing_sel [simp]:
  "ib_batch_id (processing b) = ib_batch_id b" "ib_tenant_id (processing b) = ib_tenant_id b"
  by (simp_all add: processing_def)

text \<open>The state in which a task enters its transaction.\<close>

definition locked :: "string \<Rightarrow> ingestion_batch \<Rightarrow> 'd worker_sys \<Rightarrow> 'd worker_sys" where
  "locked i b s = goto_pc i Entered ((goto_pc i Waiting s)\<lparr>tenant_lock := (tenant_lock s)(ib_tenant_id b := Some i)\<rparr>)"

definition in_transaction :: "string \<Rightarrow> ingestion_batch \<Rightarrow> 'd worker_sys \<Rightarrow> 'd worker_sys" where
  "in_transaction i b s = goto_pc i Working (set_batch i PROCESSING (ib_is_active b) None (locked i b s))"

lemma in_transaction_sel [simp]:
  "pcs (in_transaction i b s) i = Working" "dataset (in_transaction i b s) = dataset s"
  "tenant_lock (in_transaction i b s) = (tenant_lock s)(ib_tenant_id b := Some i)"
  "newest_batch_id t (in_transaction i b s) = newest_batch_id t s"
  by (simp_all add: in_transaction_def locked_def)

lemma task_enters:
  assumes "find_batch i s = Some b" "pcs s i = Queued" "tenant_lock s (ib_tenant_id b) = None"
    and "\<not> nothing_to_do b" "newest_batch_id (ib_tenant_id b) s = Some i"
  shows "run_job work i 6 s = run_job work i 3 (in_transaction i b s)"
    "find_batch i (in_transaction i b s) = Some (processing b)"
proof -
  have "job_step work i s = Some (goto_pc i Waiting s)" using assms by (simp add: job_step_def)
  moreover have "job_step work i (goto_pc i Waiting s) = Some (locked i b s)"
    using assms by (simp add: job_step_def locked_def)
  moreover have "\<not> ib_status b \<in> {SUPERSEDED, FAILED}" using assms(4) by (simp add: nothing_to_do_def)
  then have "job_step work i (locked i b s) = Some (in_transaction i b s)"
    using assms(5) by (simp add: job_step_def assms(1) locked_def in_transaction_def)
  moreover have "run_job work i 6 s = run_job work i (Suc (Suc (Suc 3))) s" by (simp add: eval_nat_numeral)
  ultimately show "run_job work i 6 s = run_job work i 3 (in_transaction i b s)"
    by (simp only: run_job.simps option.case)
  show "find_batch i (in_transaction i b s) = Some (processing b)"
    using find_batch_set [of i "locked i b s" b] assms(1) by (simp add: in_transaction_def locked_def processing_def)
qed

lemma task_fails:
  assumes "find_batch i w = Some p" "pcs w i = Working" "work p (dataset w (ib_tenant_id p)) = Inl e"
  shows "run_job work i 3 w = goto_pc i Done ((goto_pc i Leaving (set_batch i FAILED False (Some (failure_text i e))
      (goto_pc i (Crashed e) w)))\<lparr>tenant_lock := (tenant_lock w)(ib_tenant_id p := None)\<rparr>)"
    "find_batch i (set_batch i FAILED False (Some (failure_text i e)) (goto_pc i (Crashed e) w)) =
       Some (p\<lparr>ib_status := FAILED, ib_is_active := False, ib_error_message := Some (failure_text i e)\<rparr>)"
proof -
  let ?c = "goto_pc i (Crashed e) w"
  show f: "find_batch i (set_batch i FAILED False (Some (failure_text i e)) ?c) =
      Some (p\<lparr>ib_status := FAILED, ib_is_active := False, ib_error_message := Some (failure_text i e)\<rparr>)"
    using find_batch_set [of i ?c p] assms(1) by simp
  have "job_step work i w = Some ?c" using assms by (simp add: job_step_def)
  moreover have "job_step work i ?c = Some (goto_pc i Leaving (set_batch i FAILED False (Some (failure_text i e)) ?c))"
    using assms(1) by (simp add: job_step_def)
  ultimately show "run_job work i 3 w = goto_pc i Done ((goto_pc i Leaving (set_batch i FAILED False (Some (failure_text i e)) ?c))
      \<lparr>tenant_lock := (tenant_lock w)(ib_tenant_id p := None)\<rparr>)"
    using f by (simp add: eval_nat_numeral job_step_def)
qed

lemma task_succeeds:
  assumes "find_batch i w = Some p" "pcs w i = Working" "work p (dataset w (ib_tenant_id p)) = Inr d"
    and "newest_batch_id (ib_tenant_id p) w = Some i"
  shows "run_job work i 3 w = goto_pc i Done ((goto_pc i Leaving ((activate p (goto_pc i (Computed d) w))
      \<lparr>dataset := (dataset w)(ib_tenant_id p := d)\<rparr>))\<lparr>tenant_lock := (tenant_lock w)(ib_tenant_id p := None)\<rparr>)"
    "find_batch i ((activate p (goto_pc i (Computed d) w))\<lparr>dataset := x\<rparr>) =
       Some (p\<lparr>ib_status := COMMITTED, ib_is_active := True, ib_error_message := None\<rparr>)"
proof -
  let ?c = "goto_pc i (Computed d) w"
  show f: "find_batch i ((activate p ?c)\<lparr>dataset := x\<rparr>) =
      Some (p\<lparr>ib_status := COMMITTED, ib_is_active := True, ib_error_message := None\<rparr>)" for x
    using find_batch_activated [of i ?c p] assms(1) by (simp add: find_batch_def activated_def)
  let ?l = "goto_pc i Leaving ((activate p ?c)\<lparr>dataset := (dataset w)(ib_tenant_id p := d)\<rparr>)"
  have "job_step work i w = Some ?c" using assms by (simp add: job_step_def)
  moreover have "job_step work i ?c = Some ?l" using assms(1) by (simp add: job_step_def)
  moreover have "job_step work i ?l = Some (goto_pc i Done (?l\<lparr>tenant_lock := (tenant_lock w)(ib_tenant_id p := None)\<rparr>))"
    using f by (simp add: job_step_def)
  ultimately show "run_job work i 3 w = goto_pc i Done (?l\<lparr>tenant_lock := (tenant_lock w)(ib_tenant_id p := None)\<rparr>)"
    by (simp add: eval_nat_numeral)
qed


definition demo_batch :: ingestion_batch where
  "demo_batch = (new_batch ''b1'' ''t'' 1)\<lparr>ib_status := PROCESSING\<rparr>"

definition demo_sys :: "nat worker_sys" where
  "demo_sys = \<lparr>batches = [demo_batch], dataset = (\<lambda>_. 0), tenant_lock = (\<lambda>_. None), pcs = (\<lambda>_. Queued)\<rparr>"


section \<open>All interleavings\<close>


definition idle_sys :: "nat worker_sys" where
  "idle_sys = \<lparr>batches = [], dataset = (\<lambda>_. 0), tenant_lock = (\<lambda>_. None), pcs = (\<lambda>_. Unsent)\<rparr>"


text \<open>How far a task is from its end.\<close>

fun pc_rank :: "'d pc \<Rightarrow> nat" where
  "pc_rank Unsent = 0" | "pc_rank Done = 0" | "pc_rank Leaving = 1"
| "pc_rank (Computed _) = 2" | "pc_rank Stale = 2" | "pc_rank (Crashed _) = 2"
| "pc_rank Working = 3" | "pc_rank Entered = 4" | "pc_rank Waiting = 5" | "pc_rank Queued = 6"

lemma job_step_enabled:
  assumes "find_batch i s = Some b" "pcs s i \<notin> {Unsent, Done}" "pcs s i = Waiting \<longrightarrow> tenant_lock s (ib_tenant_id b) = None"
  shows "\<exists>s'. job_step work i s = Some s' \<and> pc_rank (pcs s' i) < pc_rank (pcs s i) \<and> (\<forall>j. j \<noteq> i \<longrightarrow> pcs s' j = pcs s j)"
proof (cases "pcs s i")
  case Working
  then show ?thesis using assms(1) by (cases "work b (dataset s (ib_tenant_id b))") (simp_all add: job_step_def)
qed (use assms in \<open>simp_all add: job_step_def Let_def\<close>)




end
