(* ===== verification/WorkerRefinement.thy ===== *)
theory WorkerRefinement
  imports Worker
begin

text \<open>
  The worker refines an atomic service: seen from outside, a tenant's dataset and its active batch change together,
  in one step, and to the result of the whole work on the dataset that was there before. Locks, positions, crashes,
  withdrawals and the interleaving of tasks are invisible.
\<close>

section \<open>The abstract service\<close>

text \<open>The dataset of each tenant, and its active batch with the time it was created.\<close>

record 'd service =
  sv_dataset :: "string \<Rightarrow> 'd"
  sv_active :: "string \<Rightarrow> (string \<times> time) option"

definition newer :: "time \<Rightarrow> (string \<times> time) option \<Rightarrow> bool" where
  "newer t a = (case a of None \<Rightarrow> True | Some (i, u) \<Rightarrow> u < t)"

definition replaced :: "ingestion_batch \<Rightarrow> 'd \<Rightarrow> 'd service \<Rightarrow> 'd service" where
  "replaced b d v = \<lparr>sv_dataset = (sv_dataset v)(ib_tenant_id b := d),
     sv_active = (sv_active v)(ib_tenant_id b := Some (ib_batch_id b, ib_created_at b))\<rparr>"

inductive serve :: "(ingestion_batch \<Rightarrow> 'd \<Rightarrow> 'd result) \<Rightarrow> 'd service \<Rightarrow> 'd service \<Rightarrow> bool" for work where
  idle: "serve work v v"
| replace: "work b (sv_dataset v (ib_tenant_id b)) = Inr d \<Longrightarrow> newer (ib_created_at b) (sv_active v (ib_tenant_id b)) \<Longrightarrow>
    serve work v (replaced b d v)"

inductive served :: "(ingestion_batch \<Rightarrow> 'd \<Rightarrow> 'd result) \<Rightarrow> (string \<Rightarrow> 'd) \<Rightarrow> 'd service \<Rightarrow> bool" for work d0 where
  start: "served work d0 \<lparr>sv_dataset = d0, sv_active = (\<lambda>t. None)\<rparr>"
| next_service: "served work d0 v \<Longrightarrow> serve work v v' \<Longrightarrow> served work d0 v'"

section \<open>The abstraction\<close>

definition active_entry :: "ingestion_batch \<Rightarrow> string \<times> string \<times> time" where
  "active_entry b = (ib_tenant_id b, ib_batch_id b, ib_created_at b)"

definition active_entries :: "ingestion_batch list \<Rightarrow> (string \<times> string \<times> time) list" where
  "active_entries bs = map active_entry (filter ib_is_active bs)"

definition service_of :: "'d worker_sys \<Rightarrow> 'd service" where
  "service_of s = \<lparr>sv_dataset = dataset s, sv_active = map_of (active_entries (batches s))\<rparr>"

lemma active_entries_map:
  assumes "\<And>b. b \<in> set bs \<Longrightarrow> ib_is_active (f b) = ib_is_active b \<and> (ib_is_active b \<longrightarrow> active_entry (f b) = active_entry b)"
  shows "active_entries (map f bs) = active_entries bs"
  using assms by (induction bs) (auto simp: active_entries_def)

lemma active_entries_tenant:
  assumes "\<And>b. b \<in> set bs \<Longrightarrow> ib_tenant_id (f b) = ib_tenant_id b \<and> (ib_tenant_id b = t \<longrightarrow> f b = b)"
  shows "map_of (active_entries (map f bs)) t = map_of (active_entries bs) t"
  using assms by (induction bs) (auto simp: active_entries_def active_entry_def)

lemma active_entries_found:
  assumes "keys_ok bs" "active_ok bs" "b \<in> set bs" "ib_is_active b"
  shows "map_of (active_entries bs) (ib_tenant_id b) = Some (ib_batch_id b, ib_created_at b)"
proof -
  have mem: "active_entry b \<in> set (active_entries bs)" using assms(3,4) by (simp add: active_entries_def)
  then obtain e where e: "map_of (active_entries bs) (ib_tenant_id b) = Some e"
    unfolding active_entry_def using weak_map_of_SomeI [of "ib_tenant_id b"] by metis
  then obtain c where c: "c \<in> set bs" "ib_is_active c" "active_entry c = (ib_tenant_id b, e)"
    using map_of_SomeD [OF e] by (auto simp: active_entries_def)
  then have "ib_batch_id c = ib_batch_id b" using assms(2-4) unfolding active_ok_def active_entry_def by fastforce
  then have "c = b" using same_batch [OF assms(1) c(1) assms(3)] by simp
  then show ?thesis using e c(3) by (simp add: active_entry_def)
qed

text \<open>A change of one row that is not active before and after, or changes neither activity nor identity.\<close>

lemma same_service:
  assumes "dataset s' = dataset s" "batches s' = map (\<lambda>x. if ib_batch_id x = i then g x else x) (batches s)"
    "\<And>x. x \<in> set (batches s) \<Longrightarrow> ib_batch_id x = i \<Longrightarrow> ib_is_active (g x) = ib_is_active x \<and> active_entry (g x) = active_entry x"
  shows "service_of s' = service_of s"
  unfolding service_of_def using assms(1) assms(3) by (simp add: assms(2) active_entries_map)

lemma service_goto [simp]: "service_of (goto_pc i p s) = service_of s"
  by (simp add: service_of_def)

lemma service_lock [simp]: "service_of (s\<lparr>tenant_lock := l\<rparr>) = service_of s"
  by (simp add: service_of_def)

lemma service_set_batch:
  assumes "sys_inv s" "find_batch i s = Some b" "a = ib_is_active b"
  shows "service_of (set_batch i st a m s) = service_of s"
proof (rule same_service)
  have keys: "keys_ok (batches s)" using assms(1) by (simp add: sys_inv_def)
  note b = find_batch_SomeD [OF assms(2)]
  show "batches (set_batch i st a m s) = map (\<lambda>x. if ib_batch_id x = i then x\<lparr>ib_status := st, ib_is_active := a, ib_error_message := m\<rparr> else x) (batches s)"
    by (simp add: upd_by_map)
  fix x assume x: "x \<in> set (batches s)" "ib_batch_id x = i"
  then have "x = b" using same_batch [OF keys x(1), of b] b by simp
  then show "ib_is_active (x\<lparr>ib_status := st, ib_is_active := a, ib_error_message := m\<rparr>) = ib_is_active x \<and>
      active_entry (x\<lparr>ib_status := st, ib_is_active := a, ib_error_message := m\<rparr>) = active_entry x"
    using assms(3) by (simp add: active_entry_def)
qed simp

section \<open>The uncommitted dataset is the result of the work\<close>

definition computed_ok :: "(ingestion_batch \<Rightarrow> 'd \<Rightarrow> 'd result) \<Rightarrow> 'd worker_sys \<Rightarrow> bool" where
  "computed_ok work s \<longleftrightarrow> (\<forall>b d. b \<in> set (batches s) \<longrightarrow> pcs s (ib_batch_id b) = Computed d \<longrightarrow> work b (dataset s (ib_tenant_id b)) = Inr d)"

lemma computed_step:
  assumes "computed_ok work s" "pcs s' = (pcs s)(i := p)"
    "\<And>x d. x \<in> set (batches s') \<Longrightarrow> ib_batch_id x \<noteq> i \<Longrightarrow> pcs s (ib_batch_id x) = Computed d \<Longrightarrow>
       x \<in> set (batches s) \<and> dataset s' (ib_tenant_id x) = dataset s (ib_tenant_id x)"
    "\<And>x d. x \<in> set (batches s') \<Longrightarrow> ib_batch_id x = i \<Longrightarrow> p = Computed d \<Longrightarrow> work x (dataset s' (ib_tenant_id x)) = Inr d"
  shows "computed_ok work s'"
  unfolding computed_ok_def
proof (intro allI impI)
  fix b d assume b: "b \<in> set (batches s')" and d: "pcs s' (ib_batch_id b) = Computed d"
  show "work b (dataset s' (ib_tenant_id b)) = Inr d"
  proof (cases "ib_batch_id b = i")
    case True
    then show ?thesis using assms(4) [OF b True] d assms(2) by simp
  next
    case False
    then have "pcs s (ib_batch_id b) = Computed d" using d assms(2) by simp
    then show ?thesis using assms(1) assms(3) [OF b False] unfolding computed_ok_def by metis
  qed
qed

lemma set_batch_mem: "x \<in> set (batches (set_batch i st a m s)) \<Longrightarrow> ib_batch_id x \<noteq> i \<Longrightarrow> x \<in> set (batches s)"
  by (auto simp: upd_by_def split: if_splits)

lemma computed_goto:
  "computed_ok work s \<Longrightarrow> (\<And>x d. x \<in> set (batches s) \<Longrightarrow> ib_batch_id x = i \<Longrightarrow> p = Computed d \<Longrightarrow> work x (dataset s (ib_tenant_id x)) = Inr d) \<Longrightarrow>
    computed_ok work (goto_pc i p s)"
  by (rule computed_step [where i = i and p = p]) auto

lemma computed_set_batch: "computed_ok work s \<Longrightarrow> (\<And>d. p \<noteq> Computed d) \<Longrightarrow> computed_ok work (goto_pc i p (set_batch i st a m s))"
  by (rule computed_step [where i = i and p = p]) (use set_batch_mem in auto)

text \<open>Two tasks of a tenant never hold results at the same time, so that an activation does not touch the other's row or data.\<close>

lemma activated_foreign:
  assumes "sys_inv s" "b \<in> set (batches s)" "pcs s (ib_batch_id b) = Computed d" "x \<in> set (batches s)" "ib_batch_id x \<noteq> ib_batch_id b"
    "pcs s (ib_batch_id x) = Computed e"
  shows "ib_tenant_id x \<noteq> ib_tenant_id b" "activated b x = x"
proof -
  have "tenant_lock s (ib_tenant_id b) = Some (ib_batch_id b)" "tenant_lock s (ib_tenant_id x) = Some (ib_batch_id x)"
    using task_okD(2) [of s b] task_okD(2) [of s x] assms by (simp_all add: sys_inv_def)
  then show t: "ib_tenant_id x \<noteq> ib_tenant_id b" using assms(5) by auto
  then show "activated b x = x" using assms(5) by (simp add: activated_def)
qed

section \<open>Each step of a task\<close>

text \<open>A move of a task: what the outside sees, and that the invariant stays.\<close>

definition simulates :: "(ingestion_batch \<Rightarrow> 'd \<Rightarrow> 'd result) \<Rightarrow> 'd worker_sys \<Rightarrow> 'd worker_sys \<Rightarrow> bool" where
  "simulates work s s' \<longleftrightarrow> serve work (service_of s) (service_of s') \<and> computed_ok work s'"

lemma simulates_goto:
  assumes "computed_ok work s" "\<And>x d. x \<in> set (batches s) \<Longrightarrow> ib_batch_id x = i \<Longrightarrow> p = Computed d \<Longrightarrow> work x (dataset s (ib_tenant_id x)) = Inr d"
  shows "simulates work s (goto_pc i p s)"
  unfolding simulates_def using computed_goto [OF assms] by (simp add: serve.idle)

lemma simulates_set_batch:
  assumes "sys_inv s" "computed_ok work s" "find_batch i s = Some b" "a = ib_is_active b" "\<And>d. p \<noteq> Computed d"
  shows "simulates work s (goto_pc i p (set_batch i st a m s))"
  unfolding simulates_def using service_set_batch [OF assms(1,3,4)] computed_set_batch [OF assms(2,5)] by (simp add: serve.idle)

lemma simulates_activation:
  assumes inv: "sys_inv s" and ok: "computed_ok work s" and b: "b \<in> set (batches s)" "ib_batch_id b = i" and d: "pcs s i = Computed d"
  shows "simulates work s (goto_pc i Leaving ((activate b s)\<lparr>dataset := (dataset s)(ib_tenant_id b := d)\<rparr>))" (is "simulates work s ?s'")
proof -
  have inv': "sys_inv ?s'" by (rule activation_step [OF inv b d])
  have rows: "batches ?s' = map (activated b) (batches s)" by simp
  have mem: "activated b b \<in> set (batches ?s')" using b(1) unfolding rows by simp
  have entry: "ib_is_active (activated b b)" by (simp add: activated_def)
  have mine: "map_of (active_entries (batches ?s')) (ib_tenant_id b) = Some (i, ib_created_at b)"
    using active_entries_found [OF _ _ mem entry] inv' b(2) by (simp add: sys_inv_def)
  have other: "map_of (active_entries (batches ?s')) t = map_of (active_entries (batches s)) t" if "t \<noteq> ib_tenant_id b" for t
    unfolding rows
  proof (rule active_entries_tenant)
    fix x assume x: "x \<in> set (batches s)"
    have "activated b x = x" if "ib_tenant_id x = t"
    proof -
      have "ib_batch_id x \<noteq> i" using same_batch [of "batches s" x b] inv x b that \<open>t \<noteq> ib_tenant_id b\<close> by (auto simp: sys_inv_def)
      then show ?thesis using that \<open>t \<noteq> ib_tenant_id b\<close> b(2) by (simp add: activated_def)
    qed
    then show "ib_tenant_id (activated b x) = ib_tenant_id x \<and> (ib_tenant_id x = t \<longrightarrow> activated b x = x)" by simp
  qed
  have "service_of ?s' = replaced b d (service_of s)"
    unfolding service_of_def replaced_def using mine other b(2) by (auto simp: fun_eq_iff)
  moreover have "serve work (service_of s) (replaced b d (service_of s))"
  proof (rule serve.replace)
    show "work b (sv_dataset (service_of s) (ib_tenant_id b)) = Inr d"
      using ok b d unfolding computed_ok_def by (simp add: service_of_def)
    show "newer (ib_created_at b) (sv_active (service_of s) (ib_tenant_id b))"
    proof (cases "map_of (active_entries (batches s)) (ib_tenant_id b)")
      case (Some e)
      then obtain c where c: "c \<in> set (batches s)" "ib_is_active c" "active_entry c = (ib_tenant_id b, e)"
        using map_of_SomeD [OF Some] by (auto simp: active_entries_def)
      then have "ib_created_at c < ib_created_at b"
        using task_okD(3) [of s b d c] inv b d by (simp add: sys_inv_def active_entry_def)
      then show ?thesis using c(3) Some by (auto simp: newer_def service_of_def active_entry_def)
    qed (simp add: newer_def service_of_def)
  qed
  moreover have "computed_ok work ?s'"
  proof (rule computed_step [OF ok, where i = i and p = Leaving])
    fix x' e assume x': "x' \<in> set (batches ?s')" "ib_batch_id x' \<noteq> i" "pcs s (ib_batch_id x') = Computed e"
    then obtain x where x: "x \<in> set (batches s)" "x' = activated b x" unfolding rows by auto
    then show "x' \<in> set (batches s) \<and> dataset ?s' (ib_tenant_id x') = dataset s (ib_tenant_id x')"
      using activated_foreign [OF inv b(1) _ x(1), of d e] x' b(2) d by simp
  qed simp_all
  ultimately show ?thesis unfolding simulates_def by simp
qed

lemma simulates_job:
  assumes inv: "sys_inv s" and ok: "computed_ok work s" and st: "job_step work i s = Some s'"
  shows "simulates work s s'"
proof -
  obtain b where b: "find_batch i s = Some b" "b \<in> set (batches s)" "ib_batch_id b = i"
    using st find_batch_SomeD by (fastforce simp: job_step_def split: option.splits)
  have own: "x = b" if "x \<in> set (batches s)" "ib_batch_id x = i" for x
    using same_batch [of "batches s" x b] inv that b(2,3) by (simp add: sys_inv_def)
  have off: "pending (pcs s i) \<Longrightarrow> ib_is_active b = False"
    using task_okD(1) [of s b] inv b(2,3) by (simp add: sys_inv_def)
  have mark: "simulates work s (goto_pc i p (set_batch i st a m s))" if "a = ib_is_active b" "\<And>d. p \<noteq> Computed d" for p st a m
    by (rule simulates_set_batch [OF inv ok b(1) that])
  have lock: "simulates work s (goto_pc i p (s\<lparr>tenant_lock := l\<rparr>))" if "\<And>d. p \<noteq> Computed d" for p l
    using computed_step [OF ok, of "goto_pc i p (s\<lparr>tenant_lock := l\<rparr>)" i p] that by (simp add: simulates_def serve.idle)
  show ?thesis
  proof (cases "pcs s i")
    case Queued
    then show ?thesis using st b(1) by (auto simp: job_step_def intro!: simulates_goto [OF ok] split: if_splits)
  next
    case Waiting
    then show ?thesis using st b(1) by (auto simp: job_step_def Let_def intro!: lock split: option.splits)
  next
    case Entered
    then show ?thesis using st b(1) off by (auto simp: job_step_def intro!: mark split: if_splits)
  next
    case Working
    show ?thesis
    proof (cases "work b (dataset s (ib_tenant_id b))")
      case (Inl e)
      then show ?thesis using st b(1) Working by (auto simp: job_step_def intro!: simulates_goto [OF ok])
    next
      case (Inr d)
      have res: "work x (dataset s (ib_tenant_id x)) = Inr d" if "x \<in> set (batches s)" "ib_batch_id x = i" for x
        using own [OF that] Inr by simp
      show ?thesis
      proof (cases "newest_batch_id (ib_tenant_id b) s = Some i")
        case True
        then have "s' = goto_pc i (Computed d) s" using st b(1) Working Inr by (simp add: job_step_def)
        then show ?thesis using simulates_goto [OF ok, of i "Computed d"] res by simp
      next
        case False
        then have "s' = goto_pc i Stale s" using st b(1) Working Inr by (simp add: job_step_def)
        then show ?thesis using simulates_goto [OF ok, of i Stale] by simp
      qed
    qed
  next
    case (Computed d)
    then show ?thesis using st b(1) simulates_activation [OF inv ok b(2,3) Computed] by (simp add: job_step_def)
  next
    case Stale
    then show ?thesis using st b(1) off by (auto simp: job_step_def intro!: mark)
  next
    case (Crashed e)
    then show ?thesis using st b(1) off by (auto simp: job_step_def intro!: mark)
  next
    case Leaving
    then show ?thesis using st b(1) by (auto simp: job_step_def Let_def intro!: lock)
  qed (use st b(1) in \<open>simp_all add: job_step_def\<close>)
qed

lemma simulates_sys_step:
  assumes "sys_step work s s'" "sys_inv s" "computed_ok work s"
  shows "simulates work s s'"
  using assms
proof (induction rule: sys_step.induct)
  case (accept i s t stamp)
  have "active_entries (batches s @ [new_batch i t stamp]) = active_entries (batches s)"
    by (simp add: active_entries_def new_batch_def)
  then have "service_of (accept_upload i t stamp s) = service_of s" by (simp add: service_of_def accept_upload_def)
  moreover have "computed_ok work (accept_upload i t stamp s)"
    by (rule computed_step [OF accept(4), where i = i and p = Unsent]) (auto simp: accept_upload_def new_batch_def)
  ultimately show ?case by (simp add: simulates_def serve.idle)
next
  case (queue s i b)
  note b = find_batch_SomeD [OF queue(2)]
  have "ib_is_active b = False" using task_okD(1) [of s b] queue(1,4) b by (simp add: sys_inv_def)
  then show ?case unfolding queue_candidate_def by (intro simulates_set_batch [OF queue(4,5,2)]) simp_all
next
  case (reject s i b msg)
  note b = find_batch_SomeD [OF reject(2)]
  have "ib_is_active b = False" using task_okD(1) [of s b] reject(1,4) b by (simp add: sys_inv_def)
  then have "simulates work s (goto_pc i Unsent (set_batch i FAILED False (Some msg) s))"
    by (intro simulates_set_batch [OF reject(4,5,2)]) simp_all
  moreover have "goto_pc i Unsent (reject_upload i msg s) = reject_upload i msg s"
    using reject(1) by (simp add: goto_pc_def reject_upload_def fun_upd_idem)
  ultimately show ?case by (simp add: reject_upload_def)
next
  case (job i s s')
  then show ?case by (intro simulates_job) auto
next
  case (redeliver s i)
  then show ?case by (intro simulates_goto) auto
qed

lemma reachable_computed: "reachable_sys work d0 s \<Longrightarrow> computed_ok work s"
proof (induction rule: reachable_sys.induct)
  case (step s s')
  then show ?case using simulates_sys_step reachable_sys_inv unfolding simulates_def by blast
qed (simp add: computed_ok_def)

lemma reachable_served: "reachable_sys work d0 s \<Longrightarrow> served work d0 (service_of s)"
proof (induction rule: reachable_sys.induct)
  case init
  then show ?case using served.start by (simp add: service_of_def active_entries_def)
next
  case (step s s')
  have "serve work (service_of s) (service_of s')"
    using simulates_sys_step [OF step(2) reachable_sys_inv [OF step(1)] reachable_computed [OF step(1)]] by (simp add: simulates_def)
  with step.IH show ?case by (rule served.next_service)
qed



end
