(* ===== verification/CustomBuilder.thy ===== *)
theory CustomBuilder
  imports LeadTimes
begin

text \<open>
  The custom lead-time builder (\<open>apps/api/services/analytics/custom_builder.py\<close>): the durations between two chosen events over
  a cohort of vessel calls, their statistics, outliers and histogram, and the optional entry in the catalogue.

  A Python index may be negative; \<open>py_index\<close> says what it does. The statistics of polars are parameters, as in the engine.
  The arrow of a formula is written with two characters.
\<close>

section \<open>Choosing occurrences\<close>

definition py_index :: "'a list \<Rightarrow> int \<Rightarrow> 'a result" where
  "py_index xs i =
     (if 0 \<le> i \<and> nat i < length xs then Inr (xs ! nat i)
      else if i < 0 \<and> nat (- i) \<le> length xs then Inr (xs ! (length xs - nat (- i)))
      else Inl IndexError)"

definition pick_occurrence :: "string \<Rightarrow> int \<Rightarrow> 'a list \<Rightarrow> 'a option result" where
  "pick_occurrence selection n xs =
     (if selection = ''first'' then Inr (if xs = [] then None else Some (hd xs))
      else if selection = ''last'' then Inr (if xs = [] then None else Some (last xs))
      else if selection = ''nth'' then (if n \<le> int (length xs) then and_then (py_index xs (n - 1)) (\<lambda>x. Inr (Some x)) else Inr None)
      else Inr None)"

record custom_request =
  cu_start_event :: string
  cu_end_event :: string
  cu_selection :: string
  cu_n :: int
  cu_movement_scope :: "string option"
  cu_cohort_filters :: "(string \<times> string option) list"
  cu_vessel_call_ids :: "uid list"
  cu_exclude_quarantined :: bool
  cu_save_as_name :: "string option"
  cu_description :: "string option"

definition custom_occurrences :: "custom_request \<Rightarrow> uid \<Rightarrow> uid \<Rightarrow> 'a canon_db_scheme \<Rightarrow> event_occurrence list" where
  "custom_occurrences q c d s = sorted_by eo_occurrence_index (sorted_by eo_utc_value (filter (\<lambda>e. eo_vessel_call_id e = c \<and> eo_event_definition_id e = d \<and>
     \<not> eo_is_superseded e \<and> \<not> (cu_exclude_quarantined q \<and> eo_is_quarantined e) \<and>
     (case truthy (cu_movement_scope q) of Some m \<Rightarrow> eo_movement_scope e = m | None \<Rightarrow> True)) (event_occurrences s)))"

section \<open>The cohort\<close>

definition cohort_filter :: "custom_request \<Rightarrow> string \<Rightarrow> text_col \<Rightarrow> vessel_call \<Rightarrow> bool" where
  "cohort_filter q key c v \<longleftrightarrow> (case truthy (Option.bind (map_of (cu_cohort_filters q) key) id) of
       Some x \<Rightarrow> x = ''*'' \<or> x = ''ALL'' \<or> vc_text v c = Some x
     | None \<Rightarrow> True)"

definition custom_cohort :: "string \<Rightarrow> custom_request \<Rightarrow> 'a canon_db_scheme \<Rightarrow> vessel_call list" where
  "custom_cohort tenant q s = filter (\<lambda>v. \<not> vc_is_merged v \<and> tenant_visible tenant v \<and>
     (cu_vessel_call_ids q = [] \<or> List.member (cu_vessel_call_ids q) (vc_id v)) \<and> cohort_filter q ''vessel_type'' Vessel_type v \<and>
     cohort_filter q ''cargo_type'' Cargo_type v \<and> cohort_filter q ''port_id'' Port_id v \<and> cohort_filter q ''terminal_id'' Terminal_id v) (vessel_calls s)"

section \<open>Results of a call\<close>

text \<open>A result is available when it has a duration; its events give the times and identifiers shown.\<close>

record custom_result =
  cx_call :: vessel_call
  cx_pair_index :: "nat option"
  cx_duration_hours :: "rat option"
  cx_events :: "event_occurrence list"
  cx_unavailable_reason :: "fstring option"

definition measured :: "vessel_call \<Rightarrow> nat option \<Rightarrow> event_occurrence \<Rightarrow> event_occurrence \<Rightarrow> custom_result" where
  "measured v idx a b = \<lparr>cx_call = v, cx_pair_index = idx, cx_duration_hours = Some (fround 6 (raw_hours (eo_utc_value a) (eo_utc_value b))),
     cx_events = [a, b], cx_unavailable_reason = None\<rparr>"

definition unmeasured :: "vessel_call \<Rightarrow> event_occurrence list \<Rightarrow> fstring \<Rightarrow> custom_result" where
  "unmeasured v es reason = \<lparr>cx_call = v, cx_pair_index = None, cx_duration_hours = None, cx_events = es, cx_unavailable_reason = Some reason\<rparr>"

definition paired_results :: "custom_request \<Rightarrow> vessel_call \<Rightarrow> event_occurrence list \<Rightarrow> event_occurrence list \<Rightarrow> custom_result list" where
  "paired_results q v starts ends =
     (case zip starts ends of
        [] \<Rightarrow> [unmeasured v [] [Lit ''No paired occurrences of '', Str (cu_start_event q), Lit '' and '', Str (cu_end_event q)]]
      | pairs \<Rightarrow> map (\<lambda>(i, a, b). measured v (Some i) a b) (enumerate 1 pairs))"

definition single_result :: "custom_request \<Rightarrow> vessel_call \<Rightarrow> event_occurrence option \<Rightarrow> event_occurrence option \<Rightarrow> custom_result" where
  "single_result q v a b = (case (a, b) of
       (Some x, Some y) \<Rightarrow> measured v None x y
     | _ \<Rightarrow> unmeasured v (List.map_filter id [a, b])
         [Lit ''Missing '', Str (if a = None then cu_start_event q else cu_end_event q), Lit '' (selection: '', Str (cu_selection q), Lit '')''])"

definition call_results :: "custom_request \<Rightarrow> uid \<Rightarrow> uid \<Rightarrow> 'a canon_db_scheme \<Rightarrow> vessel_call \<Rightarrow> custom_result list result" where
  "call_results q start_id end_id s v =
     (let starts = custom_occurrences q (vc_id v) start_id s; ends = custom_occurrences q (vc_id v) end_id s
      in if cu_selection q = ''all'' then Inr (paired_results q v starts ends)
         else and_then (pick_occurrence (cu_selection q) (cu_n q) starts) (\<lambda>a. and_then (pick_occurrence (cu_selection q) (cu_n q) ends) (\<lambda>b.
           Inr [single_result q v a b])))"

fun results_of_calls :: "(vessel_call \<Rightarrow> 'r list result) \<Rightarrow> vessel_call list \<Rightarrow> 'r list result" where
  "results_of_calls f [] = Inr []"
| "results_of_calls f (v # vs) = and_then (f v) (\<lambda>xs. and_then (results_of_calls f vs) (\<lambda>ys. Inr (xs @ ys)))"

section \<open>Aggregate, outliers and histogram\<close>

definition durations_of :: "custom_result list \<Rightarrow> rat list" where
  "durations_of rs = List.map_filter cx_duration_hours rs"

definition custom_stats :: "polars \<Rightarrow> rat list \<Rightarrow> aggregate_stats" where
  "custom_stats pl xs =
     (let st = stats_of pl (map (Pair '''') xs)
      in st\<lparr>ag_tail_risk_ratio := (if 0 < ag_median st then Some (fround 4 (fdiv (pl_quantile pl (dec 9) xs) (ag_median st))) else None)\<rparr>)"

record custom_aggregate =
  cg_observation_count :: nat
  cg_missing_count :: nat
  cg_stats :: "aggregate_stats option"
  cg_small_sample_warning :: bool

definition custom_aggregate_of :: "polars \<Rightarrow> custom_result list \<Rightarrow> custom_aggregate" where
  "custom_aggregate_of pl rs =
     (let xs = durations_of rs
      in \<lparr>cg_observation_count = length xs, cg_missing_count = length rs - length xs,
          cg_stats = (if xs = [] then None else Some (custom_stats pl xs)), cg_small_sample_warning = length xs < 5\<rparr>)"

definition custom_outliers :: "custom_aggregate \<Rightarrow> custom_result list \<Rightarrow> custom_result list" where
  "custom_outliers a rs = (case cg_stats a of
       None \<Rightarrow> []
     | Some st \<Rightarrow> filter (\<lambda>r. case cx_duration_hours r of Some d \<Rightarrow> ag_p90 st < d \<or> d < 0 | None \<Rightarrow> False) rs)"

record histogram_bin =
  hb_start :: rat
  hb_end :: rat
  hb_count :: nat
  hb_pct :: rat

definition bin_of :: "rat \<Rightarrow> rat \<Rightarrow> rat list \<Rightarrow> nat \<Rightarrow> histogram_bin" where
  "bin_of min_d step xs i =
     (let a = fround 2 (fadd min_d (fmul (of_nat i) step)); b = fround 2 (fadd a step);
          n = length (filter (\<lambda>d. (a \<le> d \<and> d < b) \<or> (i = 4 \<and> d = b)) xs)
      in \<lparr>hb_start = a, hb_end = b, hb_count = n, hb_pct = fround 1 (fmul (fdiv (of_nat n) (of_nat (length xs))) 100)\<rparr>)"

definition custom_distribution :: "custom_aggregate \<Rightarrow> rat list \<Rightarrow> histogram_bin list" where
  "custom_distribution a xs = (case cg_stats a of
       None \<Rightarrow> []
     | Some st \<Rightarrow> if ag_min st < ag_max st then map (bin_of (ag_min st) (fdiv (fsub (ag_max st) (ag_min st)) 5) xs) [0, 1, 2, 3, 4] else [])"

section \<open>The calculation\<close>

definition custom_definition :: "uid \<Rightarrow> custom_request \<Rightarrow> string \<Rightarrow> lead_time_definition" where
  "custom_definition i q n = \<lparr>ld_id = i, ld_name = n, ld_start_event = cu_start_event q, ld_end_event = cu_end_event q,
     ld_description = Some (case truthy (cu_description q) of Some d \<Rightarrow> d
       | None \<Rightarrow> ''Custom lead-time: '' @ cu_start_event q @ '' -> '' @ cu_end_event q),
     ld_formula_version = ''1.0'', ld_unit = ''hours'', ld_null_handling = ''UNAVAILABLE'', ld_occurrence_selection = cu_selection q,
     ld_availability_status = ''COMPUTABLE'', ld_required_events = [cu_start_event q, cu_end_event q], ld_custom_builder = True,
     ld_is_execution_delay = False, ld_execution_delay_movement = None\<rparr>"

definition save_custom ::
    "(nat \<Rightarrow> uid) \<Rightarrow> custom_request \<Rightarrow> 'a platform_db_scheme \<Rightarrow> (uid option \<times> 'a platform_db_scheme) result" where
  "save_custom uuid q s = (case truthy (cu_save_as_name q) of
       None \<Rightarrow> Inr (None, s)
     | Some n \<Rightarrow> and_then (one_or_none (filter (\<lambda>d. ld_name d = n) (lead_time_definitions s))) (\<lambda>found. Inr (case found of
         Some d \<Rightarrow> (Some (ld_id d), s)
       | None \<Rightarrow> (Some (uuid (draws s)), s\<lparr>lead_time_definitions := lead_time_definitions s @ [custom_definition (uuid (draws s)) q n], draws := draws s + 1\<rparr>))))"

record custom_response =
  cs_aggregate :: custom_aggregate
  cs_distribution :: "histogram_bin list"
  cs_outliers :: "custom_result list"
  cs_results :: "custom_result list"
  cs_saved_definition_id :: "uid option"

definition unknown_event :: "string \<Rightarrow> string \<Rightarrow> py_error" where
  "unknown_event which n = ValueError [Lit ''Unknown '', Str which, Lit ('' event: '' @ [CHR 0x27]), Str n, Lit [CHR 0x27]]"

definition build ::
    "(nat \<Rightarrow> uid) \<Rightarrow> polars \<Rightarrow> string \<Rightarrow> custom_request \<Rightarrow> 'a platform_db_scheme \<Rightarrow> (custom_response \<times> 'a platform_db_scheme) result" where
  "build uuid pl tenant q s =
     and_then (one_or_none (filter (\<lambda>d. ed_name d = cu_start_event q) (event_definitions s))) (\<lambda>start_def.
     and_then (one_or_none (filter (\<lambda>d. ed_name d = cu_end_event q) (event_definitions s))) (\<lambda>end_def.
       case (start_def, end_def) of
         (None, _) \<Rightarrow> Inl (unknown_event ''start'' (cu_start_event q))
       | (Some a, None) \<Rightarrow> Inl (unknown_event ''end'' (cu_end_event q))
       | (Some a, Some b) \<Rightarrow> and_then (results_of_calls (call_results q (ed_id a) (ed_id b) s) (custom_cohort tenant q s)) (\<lambda>rs.
           let agg = custom_aggregate_of pl rs
           in and_then (save_custom uuid q s) (\<lambda>(saved, s'). Inr (\<lparr>cs_aggregate = agg, cs_distribution = custom_distribution agg (durations_of rs),
                cs_outliers = custom_outliers agg rs, cs_results = rs, cs_saved_definition_id = saved\<rparr>, s')))))"

section \<open>What a calculation reports\<close>

text \<open>The event is a live occurrence of the definition in the call, as the request asks for it.\<close>

definition eligible_event :: "custom_request \<Rightarrow> vessel_call \<Rightarrow> uid \<Rightarrow> 'a canon_db_scheme \<Rightarrow> event_occurrence \<Rightarrow> bool" where
  "eligible_event q v d s e \<longleftrightarrow> e \<in> set (event_occurrences s) \<and> eo_vessel_call_id e = vc_id v \<and> eo_event_definition_id e = d \<and> \<not> eo_is_superseded e \<and>
     \<not> (cu_exclude_quarantined q \<and> eo_is_quarantined e) \<and> (case truthy (cu_movement_scope q) of Some m \<Rightarrow> eo_movement_scope e = m | None \<Rightarrow> True)"

definition sound_result :: "custom_request \<Rightarrow> uid \<Rightarrow> uid \<Rightarrow> 'a canon_db_scheme \<Rightarrow> custom_result \<Rightarrow> bool" where
  "sound_result q a b s r \<longleftrightarrow> (case cx_duration_hours r of
       None \<Rightarrow> cx_unavailable_reason r \<noteq> None
     | Some h \<Rightarrow> (case cx_events r of [x, y] \<Rightarrow> eligible_event q (cx_call r) a s x \<and> eligible_event q (cx_call r) b s y \<and>
         h = fround 6 (raw_hours (eo_utc_value x) (eo_utc_value y)) | _ \<Rightarrow> False))"

lemma eligible_occurrences: "e \<in> set (custom_occurrences q (vc_id v) d s) \<Longrightarrow> eligible_event q v d s e"
  by (auto simp: custom_occurrences_def eligible_event_def)

lemma py_index_member: "py_index xs i = Inr x \<Longrightarrow> x \<in> set xs"
  by (auto simp: py_index_def split: if_splits)

lemma picked_member: "pick_occurrence sel n xs = Inr (Some x) \<Longrightarrow> x \<in> set xs"
  by (auto simp: pick_occurrence_def and_then_Inr_iff dest: py_index_member split: if_splits)

lemma sound_measured:
  "eligible_event q v a s x \<Longrightarrow> eligible_event q v b s y \<Longrightarrow> sound_result q a b s (measured v i x y) \<and> cx_call (measured v i x y) = v"
  "sound_result q a b s (unmeasured v es t) \<and> cx_call (unmeasured v es t) = v"
  by (simp_all add: sound_result_def measured_def unmeasured_def)

lemma paired_sound:
  assumes "r \<in> set (paired_results q v (custom_occurrences q (vc_id v) a s) (custom_occurrences q (vc_id v) b s))"
  shows "sound_result q a b s r \<and> cx_call r = v"
proof (cases "zip (custom_occurrences q (vc_id v) a s) (custom_occurrences q (vc_id v) b s)")
  case Nil
  obtain t where "r = unmeasured v [] t" using assms unfolding paired_results_def Nil by auto
  then show ?thesis by (simp add: sound_measured(2))
next
  case (Cons p ps)
  obtain z where z: "z \<in> set (enumerate 1 (p # ps))" "r = (case z of (i, x, y) \<Rightarrow> measured v (Some i) x y)"
    using assms unfolding paired_results_def Cons list.case set_map by blast
  obtain i x y where zi: "z = (i, x, y)" by (cases z) blast
  have r: "r = measured v (Some i) x y" using z(2) by (simp add: zi)
  have "(x, y) \<in> set (zip (custom_occurrences q (vc_id v) a s) (custom_occurrences q (vc_id v) b s))"
    using z(1) unfolding Cons zi by (metis map_snd_enumerate image_eqI list.set_map snd_conv)
  then show ?thesis unfolding r by (intro sound_measured(1) eligible_occurrences) (auto dest: set_zip_leftD set_zip_rightD)
qed

lemma paired_nonempty: "paired_results q v xs ys \<noteq> []"
proof (cases "zip xs ys")
  case (Cons p ps)
  have "length (enumerate 1 (p # ps)) \<noteq> 0" by simp
  then show ?thesis unfolding paired_results_def Cons length_0_conv by (auto simp only: list.case list.map_disc_iff)
next
  case Nil
  show ?thesis unfolding paired_results_def Nil by simp
qed

lemma call_results_sound:
  assumes "call_results q a b s v = Inr rs"
  shows "rs \<noteq> [] \<and> (\<forall>r \<in> set rs. sound_result q a b s r \<and> cx_call r = v)"
proof (cases "cu_selection q = ''all''")
  case True
  then have rs: "rs = paired_results q v (custom_occurrences q (vc_id v) a s) (custom_occurrences q (vc_id v) b s)"
    using assms by (simp add: call_results_def)
  show ?thesis unfolding rs using paired_sound paired_nonempty by blast
next
  case False
  then obtain x y where x: "pick_occurrence (cu_selection q) (cu_n q) (custom_occurrences q (vc_id v) a s) = Inr x"
    and y: "pick_occurrence (cu_selection q) (cu_n q) (custom_occurrences q (vc_id v) b s) = Inr y" and rs: "rs = [single_result q v x y]"
    using assms by (auto simp: call_results_def Let_def and_then_Inr_iff)
  have "sound_result q a b s (single_result q v x y) \<and> cx_call (single_result q v x y) = v"
    using picked_member [of _ _ "custom_occurrences q (vc_id v) a s"] picked_member [of _ _ "custom_occurrences q (vc_id v) b s"] x y
    by (auto simp: single_result_def sound_measured(2) split: option.split intro!: sound_measured(1) [THEN conjunct1] sound_measured(1) [THEN conjunct2] eligible_occurrences)
  then show ?thesis by (simp add: rs)
qed

lemma results_of_calls_sound:
  assumes "results_of_calls (call_results q a b s) vs = Inr rs"
  shows "set (map cx_call rs) = set vs \<and> list_all (sound_result q a b s) rs"
  using assms
proof (induction vs arbitrary: rs)
  case (Cons v vs)
  then obtain xs ys where xs: "call_results q a b s v = Inr xs" and ys: "results_of_calls (call_results q a b s) vs = Inr ys" and rs: "rs = xs @ ys"
    by (auto simp: and_then_Inr_iff)
  have "xs \<noteq> []" "\<forall>r \<in> set xs. sound_result q a b s r \<and> cx_call r = v" using call_results_sound [OF xs] by auto
  then have "cx_call ` set xs = {v}" by (cases xs) auto
  then show ?case using Cons.IH [OF ys] \<open>\<forall>r \<in> set xs. _ r\<close> by (auto simp: rs list_all_iff)
qed simp

lemma durations_count: "length (durations_of rs) = length (filter (\<lambda>r. cx_duration_hours r \<noteq> None) rs)"
  by (induction rs) (auto simp: durations_of_def List.map_filter_def split: option.splits)

definition only_definitions :: "'a platform_db_scheme \<Rightarrow> 'a platform_db_scheme \<Rightarrow> bool" where
  "only_definitions s s' \<longleftrightarrow> s' = s\<lparr>lead_time_definitions := lead_time_definitions s', draws := draws s'\<rparr> \<and>
     (\<exists>ds. lead_time_definitions s' = lead_time_definitions s @ ds)"

lemma save_custom_only: "save_custom uuid q s = Inr (i, s') \<Longrightarrow> only_definitions s s'"
  by (auto simp: save_custom_def only_definitions_def and_then_Inr_iff split: option.splits)

text \<open>C33. A custom calculation covers exactly the calls of the tenant's cohort. Each duration it reports is the time between two
  eligible events of that call, of the requested start and end definitions; a call without one has a reason. The number of
  observations is the number of durations, the missing ones are the rest, and nothing changes but the catalogue, to which at
  most one entry is added.\<close>

theorem custom_results_correct:
  assumes "build uuid pl tenant q s = Inr (r, s')"
  shows "\<exists>a b. List.member (event_definitions s) a \<and> ed_name a = cu_start_event q \<and> List.member (event_definitions s) b \<and> ed_name b = cu_end_event q \<and>
    set (map cx_call (cs_results r)) = set (custom_cohort tenant q s) \<and> list_all (sound_result q (ed_id a) (ed_id b) s) (cs_results r) \<and>
    cg_observation_count (cs_aggregate r) = length (filter (\<lambda>x. cx_duration_hours x \<noteq> None) (cs_results r)) \<and>
    cg_missing_count (cs_aggregate r) = length (filter (\<lambda>x. cx_duration_hours x = None) (cs_results r)) \<and> only_definitions s s'"
proof -
  obtain a b rs i where a: "one_or_none (filter (\<lambda>d. ed_name d = cu_start_event q) (event_definitions s)) = Inr (Some a)"
    and b: "one_or_none (filter (\<lambda>d. ed_name d = cu_end_event q) (event_definitions s)) = Inr (Some b)"
    and rs: "results_of_calls (call_results q (ed_id a) (ed_id b) s) (custom_cohort tenant q s) = Inr rs"
    and save: "save_custom uuid q s = Inr (i, s')" and r: "cs_results r = rs" "cs_aggregate r = custom_aggregate_of pl rs"
    using assms unfolding build_def Let_def
    by (elim and_then_InrE) (fastforce split: option.splits elim!: and_then_InrE)
  have ab: "a \<in> set (event_definitions s)" "ed_name a = cu_start_event q" "b \<in> set (event_definitions s)" "ed_name b = cu_end_event q"
    using one_or_none_SomeD [OF a] one_or_none_SomeD [OF b] by (metis (mono_tags) filter_eq_Cons_iff in_set_conv_decomp)+
  have "length rs = length (filter (\<lambda>x. cx_duration_hours x \<noteq> None) rs) + length (filter (\<lambda>x. cx_duration_hours x = None) rs)"
    using sum_length_filter_compl [of "\<lambda>x. cx_duration_hours x \<noteq> None" rs] by simp
  then show ?thesis
    using ab results_of_calls_sound [OF rs] save_custom_only [OF save]
    by (intro exI [of _ a] exI [of _ b]) (simp add: r custom_aggregate_of_def Let_def durations_count)
qed

text \<open>The zeroth occurrence is the last one, and an \<open>IndexError\<close> when there is none.\<close>

lemma zeroth_occurrence: "pick_occurrence ''nth'' 0 xs = (if xs = [] then Inl IndexError else pick_occurrence ''last'' n xs)"
  by (cases xs) (auto simp: pick_occurrence_def py_index_def last_conv_nth)

section \<open>Witness\<close>

definition sample_custom :: custom_request where
  "sample_custom = \<lparr>cu_start_event = ''A'', cu_end_event = ''B'', cu_selection = ''first'', cu_n = 1, cu_movement_scope = None, cu_cohort_filters = [],
     cu_vessel_call_ids = [], cu_exclude_quarantined = True, cu_save_as_name = None, cu_description = None\<rparr>"

definition custom_db :: platform_db where
  "custom_db = (call_db [bare_event ''e1'' ''c'' ''d1'' 1, bare_event ''e2'' ''c'' ''d2'' 2])\<lparr>event_definitions :=
     [\<lparr>ed_id = ''d1'', ed_name = ''A'', ed_category = None, ed_description = None\<rparr>, \<lparr>ed_id = ''d2'', ed_name = ''B'', ed_category = None, ed_description = None\<rparr>]\<rparr>"

lemma custom_results_correct_witness:
  "\<exists>r s'. build sample_ids simple_polars ''*'' sample_custom custom_db = Inr (r, s') \<and> set (map cx_call (cs_results r)) = {bare_call ''c''}"
proof -
  have defs: "one_or_none (filter (\<lambda>d. ed_name d = ''A'') (event_definitions custom_db)) = Inr (Some \<lparr>ed_id = ''d1'', ed_name = ''A'', ed_category = None, ed_description = None\<rparr>)"
    "one_or_none (filter (\<lambda>d. ed_name d = ''B'') (event_definitions custom_db)) = Inr (Some \<lparr>ed_id = ''d2'', ed_name = ''B'', ed_category = None, ed_description = None\<rparr>)"
    by (simp_all add: custom_db_def one_or_none_def)
  have cohort: "custom_cohort ''*'' sample_custom custom_db = [bare_call ''c'']"
    by (simp add: custom_cohort_def sample_custom_def custom_db_def bare_call_def tenant_visible_def cohort_filter_def truthy_def)
  have "\<exists>rs. call_results sample_custom ''d1'' ''d2'' custom_db (bare_call ''c'') = Inr rs"
    by (simp add: call_results_def sample_custom_def pick_occurrence_def Let_def)
  then obtain rs where "results_of_calls (call_results sample_custom ''d1'' ''d2'' custom_db) (custom_cohort ''*'' sample_custom custom_db) = Inr rs"
    by (auto simp: cohort)
  then obtain r s' where run: "build sample_ids simple_polars ''*'' sample_custom custom_db = Inr (r, s')"
    using defs by (simp add: build_def sample_custom_def save_custom_def truthy_def Let_def)
  from custom_results_correct [OF run] run cohort show ?thesis by auto
qed

end
