(* ===== verification/Access.thy ===== *)
theory Access
  imports KpiRegistry Tenant
begin

text \<open>
  Authentication, sessions and permissions (\<open>apps/api/services/auth_service.py\<close>, \<open>apps/api/core/security.py\<close>,
  \<open>apps/api/auth\<close>, \<open>apps/api/routers/auth.py\<close>, \<open>apps/api/services/dev_auth_provider.py\<close>), the rows they keep
  (\<open>apps/api/models/auth.py\<close>) and the log of requests (\<open>apps/api/services/audit.py\<close>).

  The JWT library and the hash are parameters; \<open>secrets.compare_digest\<close> is equality. The clock is read several times in
  one operation: \<open>clk k\<close> is the reading at its \<open>k\<close>-th place. The set of permissions of a user has no fixed
  order; the model lists it by first occurrence. No caller chooses the lifetime
  or the identifier of a token. Cookies, the OIDC redirect and its PKCE pair are left out.
\<close>

section \<open>Rows\<close>

record role_row =
  rl_id :: uid
  rl_name :: string

record permission_row =
  pm_id :: uid
  pm_action :: string

record role_permission =
  rp_role_id :: uid
  rp_permission_id :: uid

record user_row =
  us_id :: uid
  us_email :: string
  us_full_name :: string
  us_tenant_id :: string
  us_port_id :: "string option"
  us_terminal_id :: "string option"
  us_is_active :: bool
  us_is_synthetic :: bool

record user_role =
  ur_user_id :: uid
  ur_role_id :: uid

record service_account =
  sac_id :: uid
  sac_client_id :: string
  sac_client_secret_hash :: string
  sac_name :: string
  sac_role_id :: uid
  sac_tenant_id :: string
  sac_port_id :: "string option"
  sac_terminal_id :: "string option"
  sac_is_active :: bool
  sac_expires_at :: "time option"

record session_row =
  ses_jti :: string
  ses_user_id :: string
  ses_is_revoked :: bool
  ses_expires_at :: time
  ses_last_active_at :: time

record audit_row =
  lg_actor_id :: "string option"
  lg_actor_email :: "string option"
  lg_actor_role :: "string option"
  lg_action :: string
  lg_resource_type :: "string option"
  lg_resource_id :: "string option"
  lg_correlation_id :: "string option"
  lg_ip_address :: "string option"
  lg_user_agent :: "string option"
  lg_details :: "(string \<times> json) list"

text \<open>The audit table is split by writer: rows of requests here, rows that services add themselves in \<open>audit_log\<close>.\<close>

record access_db = kpi_db +
  roles :: "role_row list"
  permissions :: "permission_row list"
  role_permissions :: "role_permission list"
  users :: "user_row list"
  user_roles :: "user_role list"
  service_accounts :: "service_account list"
  sessions :: "session_row list"
  request_log :: "audit_row list"

section \<open>Settings, tokens and requests\<close>

text \<open>The claims of a token. A claim that is not there is \<open>None\<close>; \<open>data_scope\<close> is a dictionary.\<close>

record token_payload =
  tp_sub :: "string option"
  tp_email :: "string option"
  tp_roles :: "string list option"
  tp_permissions :: "string list option"
  tp_data_scope :: "(string \<times> string option) list option"
  tp_is_service_account :: "bool option"
  tp_is_synthetic :: "bool option"
  tp_jti :: "string option"
  tp_type :: string
  tp_iat :: int
  tp_exp :: int

datatype jwt_error = Expired_signature | Invalid_token string

record auth_env =
  ae_encode :: "token_payload \<Rightarrow> string"
  ae_decode :: "time \<Rightarrow> string \<Rightarrow> jwt_error + token_payload"
  ae_sha256 :: "string \<Rightarrow> string"

text \<open>A refused request (status, code, message), or an exception that reaches the server.\<close>

datatype denial = Denied nat string fstring | Crashed py_error

record request_info =
  ri_bearer :: "string option"
  ri_cookie :: "string option"
  ri_path :: string
  ri_correlation_id :: string
  ri_ip :: "string option"
  ri_user_agent :: "string option"

definition apostrophes :: "string \<Rightarrow> fstring" where
  "apostrophes x = [Lit [CHR 0x27], Str x, Lit [CHR 0x27]]"

text \<open>\<open>str(e)\<close> of an exception the services raise.\<close>

definition error_text :: "py_error \<Rightarrow> fstring" where
  "error_text e = (case e of ValueError m \<Rightarrow> m | KeyError k \<Rightarrow> apostrophes k | _ \<Rightarrow> [])"

section \<open>Scopes and principals\<close>

record data_scope =
  sc_tenant_id :: string
  sc_port_id :: "string option"
  sc_terminal_id :: "string option"

definition allows_tenant :: "data_scope \<Rightarrow> string \<Rightarrow> bool" where
  "allows_tenant sc t \<longleftrightarrow> sc_tenant_id sc = ''*'' \<or> sc_tenant_id sc = t"

definition allows_port :: "data_scope \<Rightarrow> string option \<Rightarrow> bool" where
  "allows_port sc p \<longleftrightarrow> sc_port_id sc = Some ''*'' \<or> sc_port_id sc = None \<or> sc_port_id sc = p"

definition allows_terminal :: "data_scope \<Rightarrow> string option \<Rightarrow> bool" where
  "allows_terminal sc p \<longleftrightarrow> sc_terminal_id sc = Some ''*'' \<or> sc_terminal_id sc = None \<or> sc_terminal_id sc = p"

record user_principal =
  pn_user_id :: string
  pn_email :: string
  pn_roles :: "string list"
  pn_permissions :: "string list"
  pn_data_scope :: data_scope
  pn_is_service_account :: bool
  pn_is_synthetic :: bool
  pn_session_jti :: "string option"

definition has_role :: "user_principal \<Rightarrow> string \<Rightarrow> bool" where
  "has_role p r \<longleftrightarrow> List.member (pn_roles p) r"

definition has_permission :: "user_principal \<Rightarrow> string \<Rightarrow> bool" where
  "has_permission p a \<longleftrightarrow> List.member (pn_roles p) ''Platform Administrator'' \<or> List.member (pn_permissions p) a"

section \<open>The log of requests\<close>

fun comma_join :: "string list \<Rightarrow> string" where
  "comma_join [] = []"
| "comma_join [x] = x"
| "comma_join (x # y # xs) = x @ '','' @ comma_join (y # xs)"

text \<open>The details of an entry, with its images, filters and row count when they are given.\<close>

definition merged_details ::
    "(string \<times> json) list \<Rightarrow> json option \<Rightarrow> json option \<Rightarrow> json option \<Rightarrow> nat option \<Rightarrow> (string \<times> json) list" where
  "merged_details ds before after filters rows =
     (let put = (\<lambda>k v ds. case v of Some j \<Rightarrow> AList.update k j ds | None \<Rightarrow> ds)
      in put ''row_count'' (map_option (\<lambda>n. JInt (int n)) rows)
           (put ''filter_set'' filters (put ''after'' after (put ''before'' before ds))))"

definition log_row :: "audit_row \<Rightarrow> 'a access_db_scheme \<Rightarrow> 'a access_db_scheme" where
  "log_row r s = s\<lparr>request_log := request_log s @ [r]\<rparr>"

definition request_row :: "request_info \<Rightarrow> string \<Rightarrow> (string \<times> json) list \<Rightarrow> audit_row" where
  "request_row rq action details = \<lparr>lg_actor_id = None, lg_actor_email = None, lg_actor_role = None, lg_action = action, lg_resource_type = None,
     lg_resource_id = None, lg_correlation_id = Some (ri_correlation_id rq), lg_ip_address = ri_ip rq, lg_user_agent = ri_user_agent rq, lg_details = details\<rparr>"

definition by_principal :: "user_principal \<Rightarrow> audit_row \<Rightarrow> audit_row" where
  "by_principal p r = r\<lparr>lg_actor_id := Some (pn_user_id p), lg_actor_email := Some (pn_email p), lg_actor_role := Some (comma_join (pn_roles p))\<rparr>"

section \<open>Tokens\<close>

definition minutes :: "int \<Rightarrow> int" where "minutes n = n * 60 * 1000000"

definition access_payload ::
    "settings \<Rightarrow> time \<Rightarrow> string \<Rightarrow> string \<Rightarrow> string \<Rightarrow> string list \<Rightarrow> string list \<Rightarrow> (string \<times> string option) list \<Rightarrow> bool \<Rightarrow> token_payload" where
  "access_payload cf now jti subject email rls perms scope service =
     \<lparr>tp_sub = Some subject, tp_email = Some email, tp_roles = Some rls, tp_permissions = Some perms, tp_data_scope = Some scope,
      tp_is_service_account = Some service, tp_is_synthetic = None, tp_jti = Some jti, tp_type = ''access'',
      tp_iat = now div 1000000, tp_exp = (now + minutes (cf_access_token_expire_minutes cf)) div 1000000\<rparr>"

definition create_access_token ::
    "auth_env \<Rightarrow> settings \<Rightarrow> time \<Rightarrow> string \<Rightarrow> string \<Rightarrow> string \<Rightarrow> string list \<Rightarrow> string list \<Rightarrow> (string \<times> string option) list \<Rightarrow> bool \<Rightarrow> string \<times> string \<times> time" where
  "create_access_token env cf now jti subject email rls perms scope service =
     (ae_encode env (access_payload cf now jti subject email rls perms scope service), jti, now + minutes (cf_access_token_expire_minutes cf))"

definition refresh_payload :: "settings \<Rightarrow> time \<Rightarrow> string \<Rightarrow> string \<Rightarrow> token_payload" where
  "refresh_payload cf now jti subject =
     \<lparr>tp_sub = Some subject, tp_email = None, tp_roles = None, tp_permissions = None, tp_data_scope = None, tp_is_service_account = None,
      tp_is_synthetic = None, tp_jti = Some jti, tp_type = ''refresh'', tp_iat = now div 1000000,
      tp_exp = (now + minutes (cf_refresh_token_expire_days cf * 24 * 60)) div 1000000\<rparr>"

definition create_refresh_token :: "auth_env \<Rightarrow> settings \<Rightarrow> time \<Rightarrow> string \<Rightarrow> string \<Rightarrow> string \<times> string \<times> time" where
  "create_refresh_token env cf now jti subject =
     (ae_encode env (refresh_payload cf now jti subject), jti, now + minutes (cf_refresh_token_expire_days cf * 24 * 60))"

definition decode_token :: "auth_env \<Rightarrow> time \<Rightarrow> string \<Rightarrow> token_payload result" where
  "decode_token env now t = (case ae_decode env now t of
       Inr p \<Rightarrow> Inr p
     | Inl Expired_signature \<Rightarrow> Inl (ValueError [Lit ''Token has expired''])
     | Inl (Invalid_token m) \<Rightarrow> Inl (ValueError [Lit ''Invalid token: '', Str m]))"

definition hash_secret :: "auth_env \<Rightarrow> string \<Rightarrow> string" where
  "hash_secret env secret = ae_sha256 env secret"

definition verify_secret :: "auth_env \<Rightarrow> string \<Rightarrow> string \<Rightarrow> bool" where
  "verify_secret env raw hash \<longleftrightarrow> ae_sha256 env raw = hash"

section \<open>Sessions\<close>

definition whole_seconds :: "int \<Rightarrow> int" where
  "whole_seconds d = (if d < 0 then - ((- d) div 1000000) else d div 1000000)"

record session_data =
  sd_access_token :: string
  sd_refresh_token :: string
  sd_expires_in :: int
  sd_roles :: "string list"
  sd_permissions :: "string list"
  sd_data_scope :: "(string \<times> string option) list"
  sd_session_id :: string

text \<open>The clock is read for the access token, the refresh token and the session.\<close>

definition create_user_session ::
    "auth_env \<Rightarrow> settings \<Rightarrow> (nat \<Rightarrow> uid) \<Rightarrow> (nat \<Rightarrow> time) \<Rightarrow> string \<Rightarrow> string \<Rightarrow> string list \<Rightarrow> string list \<Rightarrow>
     (string \<times> string option) list \<Rightarrow> bool \<Rightarrow> 'a access_db_scheme \<Rightarrow> 'a access_db_scheme \<times> session_data" where
  "create_user_session env cf uuid clk user_id email rls perms scope service s =
     (let (access, jti, exp') = create_access_token env cf (clk 0) (uuid (draws s)) user_id email rls perms scope service;
          (refresh, rjti, rexp) = create_refresh_token env cf (clk 1) (uuid (draws s + 1)) user_id;
          now = clk 2
      in (s\<lparr>sessions := sessions s @ [\<lparr>ses_jti = jti, ses_user_id = user_id, ses_is_revoked = False, ses_expires_at = exp', ses_last_active_at = now\<rparr>],
            draws := draws s + 2\<rparr>,
          \<lparr>sd_access_token = access, sd_refresh_token = refresh, sd_expires_in = whole_seconds (exp' - now), sd_roles = rls, sd_permissions = perms,
           sd_data_scope = scope, sd_session_id = jti\<rparr>))"

definition session_of :: "string \<Rightarrow> 'a access_db_scheme \<Rightarrow> session_row option" where
  "session_of jti s = find (\<lambda>r. ses_jti r = jti) (sessions s)"

definition upd_session :: "string \<Rightarrow> (session_row \<Rightarrow> session_row) \<Rightarrow> 'a access_db_scheme \<Rightarrow> 'a access_db_scheme" where
  "upd_session jti f s = s\<lparr>sessions := upd_by ses_jti jti f (sessions s)\<rparr>"

definition revoke_session :: "string \<Rightarrow> 'a access_db_scheme \<Rightarrow> 'a access_db_scheme \<times> bool" where
  "revoke_session jti s = (case session_of jti s of
       Some r \<Rightarrow> (upd_session jti (\<lambda>r. r\<lparr>ses_is_revoked := True\<rparr>) s, True)
     | None \<Rightarrow> (s, False))"

definition is_session_active :: "settings \<Rightarrow> time \<Rightarrow> string \<Rightarrow> 'a access_db_scheme \<Rightarrow> 'a access_db_scheme \<times> bool" where
  "is_session_active cf now jti s = (case session_of jti s of
       None \<Rightarrow> (s, True)
     | Some r \<Rightarrow>
         if ses_is_revoked r then (s, False)
         else if minutes (cf_session_idle_timeout_minutes cf) < now - ses_last_active_at r then (upd_session jti (\<lambda>r. r\<lparr>ses_is_revoked := True\<rparr>) s, False)
         else if ses_expires_at r < now then (upd_session jti (\<lambda>r. r\<lparr>ses_is_revoked := True\<rparr>) s, False)
         else (upd_session jti (\<lambda>r. r\<lparr>ses_last_active_at := now\<rparr>) s, True))"

section \<open>Users and service accounts\<close>

definition roles_of_user :: "uid \<Rightarrow> 'a access_db_scheme \<Rightarrow> string list" where
  "roles_of_user u s = concat (map (\<lambda>r. map (\<lambda>x. rl_name r) (filter (\<lambda>x. ur_role_id x = rl_id r \<and> ur_user_id x = u) (user_roles s))) (roles s))"

text \<open>The permissions of a role, and those of the roles of a user without repetition.\<close>

definition actions_of_role :: "uid \<Rightarrow> 'a access_db_scheme \<Rightarrow> string list" where
  "actions_of_role i s = concat (map (\<lambda>p. map (\<lambda>x. pm_action p)
     (filter (\<lambda>x. rp_permission_id x = pm_id p \<and> rp_role_id x = i) (role_permissions s))) (permissions s))"

definition permissions_of_user :: "uid \<Rightarrow> 'a access_db_scheme \<Rightarrow> string list" where
  "permissions_of_user u s = rev (remdups (rev (concat (map (\<lambda>x. concat (map (\<lambda>r. actions_of_role (rl_id r) s)
     (filter (\<lambda>r. rl_id r = ur_role_id x) (roles s)))) (filter (\<lambda>x. ur_user_id x = u) (user_roles s))))))"

definition user_scope :: "user_row \<Rightarrow> (string \<times> string option) list" where
  "user_scope u = [(''tenant_id'', Some (us_tenant_id u)), (''port_id'', us_port_id u), (''terminal_id'', us_terminal_id u)]"

text \<open>A refresh decodes the token (reading 0 of the clock) and opens a session (readings 1 to 3).\<close>

definition refresh_user_session ::
    "auth_env \<Rightarrow> settings \<Rightarrow> (nat \<Rightarrow> uid) \<Rightarrow> (nat \<Rightarrow> time) \<Rightarrow> string \<Rightarrow> 'a access_db_scheme \<Rightarrow> 'a access_db_scheme \<times> session_data result" where
  "refresh_user_session env cf uuid clk t s = (case decode_token env (clk 0) t of
       Inl e \<Rightarrow> (s, Inl e)
     | Inr p \<Rightarrow>
         if tp_type p \<noteq> ''refresh'' then (s, Inl (ValueError [Lit ''Invalid token type for refresh'']))
         else (case tp_sub p of
           None \<Rightarrow> (s, Inl (KeyError ''sub''))
         | Some i \<Rightarrow> (case find (\<lambda>u. us_id u = i \<and> us_is_active u) (users s) of
             None \<Rightarrow> (s, Inl (ValueError [Lit ''User not found or inactive'']))
           | Some u \<Rightarrow> (let (s', d) = create_user_session env cf uuid (\<lambda>k. clk (k + 1)) (us_id u) (us_email u)
                              (roles_of_user (us_id u) s) (permissions_of_user (us_id u) s) (user_scope u) False s
                        in (s', Inr d)))))"

definition authenticate_service_account ::
    "auth_env \<Rightarrow> settings \<Rightarrow> (nat \<Rightarrow> uid) \<Rightarrow> (nat \<Rightarrow> time) \<Rightarrow> string \<Rightarrow> string \<Rightarrow> 'a access_db_scheme \<Rightarrow> 'a access_db_scheme \<times> session_data option" where
  "authenticate_service_account env cf uuid clk client secret s = (case find (\<lambda>a. sac_client_id a = client \<and> sac_is_active a) (service_accounts s) of
       None \<Rightarrow> (s, None)
     | Some a \<Rightarrow>
         if (case sac_expires_at a of Some t \<Rightarrow> t < clk 0 | None \<Rightarrow> False) then (s, None)
         else if \<not> verify_secret env secret (sac_client_secret_hash a) then (s, None)
         else (let rl = (case find (\<lambda>r. rl_id r = sac_role_id a) (roles s) of Some r \<Rightarrow> rl_name r | None \<Rightarrow> ''Integration Service Account'');
                   (s', d) = create_user_session env cf uuid (\<lambda>k. clk (k + 1)) (sac_id a) (sac_name a) [rl] (actions_of_role (sac_role_id a) s)
                     [(''tenant_id'', Some (sac_tenant_id a)), (''port_id'', sac_port_id a), (''terminal_id'', sac_terminal_id a)] True s
               in (s', Some d)))"

section \<open>The principal of a request\<close>

text \<open>The token of a request: the bearer credentials, else the cookie. An empty one is no token.\<close>

definition token_of :: "request_info \<Rightarrow> string option" where
  "token_of rq = (case truthy (ri_bearer rq) of Some t \<Rightarrow> Some t | None \<Rightarrow> truthy (ri_cookie rq))"

definition dev_principal :: "settings \<Rightarrow> user_principal" where
  "dev_principal cf = \<lparr>pn_user_id = ''dev-user-admin'', pn_email = ''admin@port.local'', pn_roles = [''Platform Administrator''],
     pn_permissions = [''view'', ''create'', ''edit'', ''approve'', ''reject'', ''merge'', ''unmerge'', ''recalculate'', ''publish'', ''export'',
       ''configure'', ''administer'', ''audit''],
     pn_data_scope = \<lparr>sc_tenant_id = cf_development_tenant_id cf, sc_port_id = Some ''*'', sc_terminal_id = Some ''*''\<rparr>,
     pn_is_service_account = False, pn_is_synthetic = True, pn_session_jti = None\<rparr>"

text \<open>\<open>payload.get(k, default)\<close> for a claim, and for the data scope: a null tenant fails the validation of the scope.\<close>

definition claim :: "'a option \<Rightarrow> 'a \<Rightarrow> 'a" where
  "claim v d = (case v of Some x \<Rightarrow> x | None \<Rightarrow> d)"

definition scope_of_claims :: "(string \<times> string option) list \<Rightarrow> data_scope result" where
  "scope_of_claims ds = (case claim (map_of ds ''tenant_id'') (Some ''default-tenant'') of
       None \<Rightarrow> Inl (ValueError [Lit ''tenant_id must be a string''])
     | Some t \<Rightarrow> Inr \<lparr>sc_tenant_id = t, sc_port_id = claim (map_of ds ''port_id'') None, sc_terminal_id = claim (map_of ds ''terminal_id'') None\<rparr>)"

definition principal_of_claims :: "token_payload \<Rightarrow> data_scope \<Rightarrow> user_principal" where
  "principal_of_claims p sc = \<lparr>pn_user_id = claim (tp_sub p) '''', pn_email = claim (tp_email p) '''', pn_roles = claim (tp_roles p) [],
     pn_permissions = claim (tp_permissions p) [], pn_data_scope = sc, pn_is_service_account = claim (tp_is_service_account p) False,
     pn_is_synthetic = claim (tp_is_synthetic p) True, pn_session_jti = tp_jti p\<rparr>"

text \<open>The clock is read by the JWT library and for the session.\<close>

definition get_current_principal ::
    "auth_env \<Rightarrow> settings \<Rightarrow> (nat \<Rightarrow> time) \<Rightarrow> request_info \<Rightarrow> 'a access_db_scheme \<Rightarrow> 'a access_db_scheme \<times> (denial + user_principal)" where
  "get_current_principal env cf clk rq s = (case token_of rq of
       None \<Rightarrow> (s, Inl (Denied 401 ''UNAUTHORIZED'' [Lit ''Missing authentication credentials'']))
     | Some t \<Rightarrow>
         if t = ''dev-token'' \<and> cf_environment cf = ''development'' then (s, Inr (dev_principal cf))
         else (case decode_token env (clk 0) t of
           Inl e \<Rightarrow> (s, Inl (Denied 401 ''INVALID_TOKEN'' (error_text e)))
         | Inr p \<Rightarrow> (let (s', active) = (case truthy (tp_jti p) of Some j \<Rightarrow> is_session_active cf (clk 1) j s | None \<Rightarrow> (s, True))
             in if \<not> active then (s', Inl (Denied 401 ''SESSION_EXPIRED'' [Lit ''Session has been revoked or expired due to inactivity'']))
                else (case scope_of_claims (claim (tp_data_scope p) []) of
                    Inl e \<Rightarrow> (s', Inl (Crashed e))
                  | Inr sc \<Rightarrow> (s', Inr (principal_of_claims p sc))))))"

definition refused_row :: "request_info \<Rightarrow> string \<Rightarrow> string option \<Rightarrow> user_principal \<Rightarrow> audit_row" where
  "refused_row rq permission resource p = (by_principal p (request_row rq ''failed_auth''
     [(''required_permission'', JStr permission), (''principal_permissions'', JList (map JStr (pn_permissions p))),
      (''reason'', JStr ''Forbidden: missing required action permission'')]))
     \<lparr>lg_resource_type := Some (case truthy resource of Some r \<Rightarrow> r | None \<Rightarrow> ''endpoint''), lg_resource_id := Some (ri_path rq)\<rparr>"

definition require ::
    "string \<Rightarrow> string option \<Rightarrow> auth_env \<Rightarrow> settings \<Rightarrow> (nat \<Rightarrow> time) \<Rightarrow> request_info \<Rightarrow> 'a access_db_scheme \<Rightarrow>
     'a access_db_scheme \<times> (denial + user_principal)" where
  "require permission resource env cf clk rq s = (case get_current_principal env cf clk rq s of
       (s', Inl e) \<Rightarrow> (s', Inl e)
     | (s', Inr p) \<Rightarrow>
         if has_permission p permission then (s', Inr p)
         else (log_row (refused_row rq permission resource p) s',
           Inl (Denied 403 ''FORBIDDEN'' (Lit ''Action '' # apostrophes permission @ [Lit '' not permitted for role(s): '', Strs (pn_roles p)]))))"

text \<open>A protected endpoint: its body runs with the principal, once the permission is granted.\<close>

definition protected ::
    "string \<Rightarrow> string \<Rightarrow> auth_env \<Rightarrow> settings \<Rightarrow> (nat \<Rightarrow> time) \<Rightarrow> request_info \<Rightarrow>
     (user_principal \<Rightarrow> 'a access_db_scheme \<Rightarrow> 'a access_db_scheme \<times> (denial + 'b)) \<Rightarrow> 'a access_db_scheme \<Rightarrow> 'a access_db_scheme \<times> (denial + 'b)" where
  "protected permission resource env cf clk rq body s = (case require permission (Some resource) env cf clk rq s of
       (s', Inl e) \<Rightarrow> (s', Inl e)
     | (s', Inr p) \<Rightarrow> body p s')"

section \<open>The endpoints of authentication\<close>

definition service_account_token ::
    "auth_env \<Rightarrow> settings \<Rightarrow> (nat \<Rightarrow> uid) \<Rightarrow> (nat \<Rightarrow> time) \<Rightarrow> request_info \<Rightarrow> string \<Rightarrow> string \<Rightarrow> 'a access_db_scheme \<Rightarrow>
     'a access_db_scheme \<times> (denial + session_data)" where
  "service_account_token env cf uuid clk rq client secret s = (case authenticate_service_account env cf uuid clk client secret s of
       (s', None) \<Rightarrow> (log_row ((request_row rq ''failed_auth'' [(''reason'', JStr ''Invalid service account client_id or secret'')])
            \<lparr>lg_actor_email := Some client, lg_resource_type := Some ''service_account''\<rparr>) s',
          Inl (Denied 401 ''INVALID_CREDENTIALS'' [Lit ''Invalid service credentials'']))
     | (s', Some d) \<Rightarrow> (log_row ((request_row rq ''login'' [(''type'', JStr ''machine_token_issued'')])
            \<lparr>lg_actor_id := Some (sd_session_id d), lg_actor_email := Some client, lg_actor_role := Some ''Integration Service Account'',
             lg_resource_type := Some ''service_account''\<rparr>) s', Inr d))"

definition dev_provider_error :: "settings \<Rightarrow> denial option" where
  "dev_provider_error cf = (if cf_environment cf \<noteq> ''development''
     then Some (Denied 403 '''' (Lit ''Development authentication provider is strictly forbidden when ENVIRONMENT != '' # apostrophes ''development'' @
        Lit ''. Current: '' # apostrophes (cf_environment cf))) else None)"

text \<open>A user as the development provider shows it.\<close>

record dev_user =
  du_user :: user_row
  du_roles :: "string list"
  du_permissions :: "string list"

definition dev_user_of :: "'a access_db_scheme \<Rightarrow> user_row \<Rightarrow> dev_user" where
  "dev_user_of s u = \<lparr>du_user = u, du_roles = roles_of_user (us_id u) s, du_permissions = permissions_of_user (us_id u) s\<rparr>"

definition get_dev_users :: "'a access_db_scheme \<Rightarrow> dev_user list" where
  "get_dev_users s = map (dev_user_of s) (filter us_is_active (users s))"

definition list_dev_users :: "settings \<Rightarrow> 'a access_db_scheme \<Rightarrow> denial + dev_user list" where
  "list_dev_users cf s = (case dev_provider_error cf of Some e \<Rightarrow> Inl e | None \<Rightarrow> Inr (get_dev_users s))"

definition authenticate_dev_user :: "string \<Rightarrow> 'a access_db_scheme \<Rightarrow> dev_user option" where
  "authenticate_dev_user x s =
     map_option (dev_user_of s) (case find (\<lambda>u. us_email u = x \<or> sql_ilike (''%'' @ x @ ''%'') (us_full_name u)) (users s) of
       Some u \<Rightarrow> Some u
     | None \<Rightarrow> Option.bind (find (\<lambda>r. sql_ilike x (rl_name r)) (roles s)) (\<lambda>r.
         Option.bind (find (\<lambda>y. ur_role_id y = rl_id r) (user_roles s)) (\<lambda>y. find (\<lambda>u. us_id u = ur_user_id y) (users s))))"

definition dev_login ::
    "auth_env \<Rightarrow> settings \<Rightarrow> (nat \<Rightarrow> uid) \<Rightarrow> (nat \<Rightarrow> time) \<Rightarrow> request_info \<Rightarrow> string \<Rightarrow> 'a access_db_scheme \<Rightarrow>
     'a access_db_scheme \<times> (denial + session_data)" where
  "dev_login env cf uuid clk rq x s = (case dev_provider_error cf of
       Some e \<Rightarrow> (s, Inl e)
     | None \<Rightarrow> (case authenticate_dev_user x s of
         None \<Rightarrow> (log_row ((request_row rq ''failed_auth'' [(''reason'', JStr ''Unknown development user/role'')])\<lparr>lg_actor_email := Some x\<rparr>) s,
           Inl (Denied 404 ''USER_NOT_FOUND'' (Lit ''Seeded user for '' # apostrophes x @ [Lit '' not found''])))
       | Some d \<Rightarrow> (let u = du_user d;
             (s', sd) = create_user_session env cf uuid clk (us_id u) (us_email u) (du_roles d) (du_permissions d) (user_scope u) False s
           in (log_row ((request_row rq ''login'' [(''login_method'', JStr ''development_provider'')])
                 \<lparr>lg_actor_id := Some (us_id u), lg_actor_email := Some (us_email u), lg_actor_role := Some (comma_join (du_roles d))\<rparr>) s', Inr sd))))"

definition refresh_session ::
    "auth_env \<Rightarrow> settings \<Rightarrow> (nat \<Rightarrow> uid) \<Rightarrow> (nat \<Rightarrow> time) \<Rightarrow> string \<Rightarrow> 'a access_db_scheme \<Rightarrow> 'a access_db_scheme \<times> (denial + session_data)" where
  "refresh_session env cf uuid clk t s = (case refresh_user_session env cf uuid clk t s of
       (s', Inr d) \<Rightarrow> (s', Inr d)
     | (s', Inl e) \<Rightarrow> (s', Inl (Denied 401 ''REFRESH_FAILED'' (error_text e))))"

definition logout ::
    "auth_env \<Rightarrow> settings \<Rightarrow> (nat \<Rightarrow> time) \<Rightarrow> request_info \<Rightarrow> 'a access_db_scheme \<Rightarrow> 'a access_db_scheme \<times> (denial + unit)" where
  "logout env cf clk rq = protected ''view'' ''auth'' env cf clk rq (\<lambda>p s.
     (log_row (by_principal p (request_row rq ''logout'' []))
        (case truthy (pn_session_jti p) of Some j \<Rightarrow> fst (revoke_session j s) | None \<Rightarrow> s), Inr ()))"

definition get_me ::
    "auth_env \<Rightarrow> settings \<Rightarrow> (nat \<Rightarrow> time) \<Rightarrow> request_info \<Rightarrow> 'a access_db_scheme \<Rightarrow> 'a access_db_scheme \<times> (denial + user_principal)" where
  "get_me env cf clk rq = protected ''view'' ''user_profile'' env cf clk rq (\<lambda>p s. (s, Inr p))"

end
