(* ===== verification/AccessFacts.thy ===== *)
theory AccessFacts
  imports Access
begin

text \<open>
  What authentication guarantees and what it does not: a revoked session stays dead in every run of the service, an admitted
  request has the permission and a live session; but a logout does not end the refresh token, so the user's next session
  starts without a login.
\<close>

section \<open>Session rows\<close>

lemma find_key_upd_by:
  assumes "\<And>r. key (f r) = key r"
  shows "find (\<lambda>r. key r = j) (upd_by key k f rows) = map_option (\<lambda>r. if key r = k then f r else r) (find (\<lambda>r. key r = j) rows)"
  using assms by (induction rows) (auto simp: upd_by_def)

lemma find_append: "find p (xs @ ys) = (case find p xs of Some x \<Rightarrow> Some x | None \<Rightarrow> find p ys)"
  by (induction xs) auto

lemma session_of_upd:
  assumes "\<And>r. ses_jti (f r) = ses_jti r"
  shows "session_of j (upd_session i f s) = map_option (\<lambda>r. if ses_jti r = i then f r else r) (session_of j s)"
  using assms by (simp add: session_of_def upd_session_def find_key_upd_by)

lemma session_of_jti: "session_of j s = Some r \<Longrightarrow> ses_jti r = j"
  by (auto simp: session_of_def find_Some_iff)

lemma log_row_sel [simp]: "sessions (log_row r s) = sessions s" "users (log_row r s) = users s" "roles (log_row r s) = roles s"
  "user_roles (log_row r s) = user_roles s" "permissions (log_row r s) = permissions s" "role_permissions (log_row r s) = role_permissions s"
  "draws (log_row r s) = draws s" "session_of j (log_row r s) = session_of j s"
  by (simp_all add: log_row_def session_of_def)

lemma upd_session_sel [simp]: "users (upd_session j f s) = users s" "roles (upd_session j f s) = roles s" "user_roles (upd_session j f s) = user_roles s"
  "permissions (upd_session j f s) = permissions s" "role_permissions (upd_session j f s) = role_permissions s" "draws (upd_session j f s) = draws s"
  by (simp_all add: upd_session_def)

definition revoked :: "string \<Rightarrow> 'a access_db_scheme \<Rightarrow> bool" where
  "revoked j s \<longleftrightarrow> (case session_of j s of Some r \<Rightarrow> ses_is_revoked r | None \<Rightarrow> False)"

lemma revoked_sessions: "sessions s' = sessions s \<Longrightarrow> revoked j s' = revoked j s"
  by (simp add: revoked_def session_of_def)

lemma revoked_upd:
  assumes "\<And>r. ses_jti (f r) = ses_jti r" "\<And>r. ses_is_revoked r \<Longrightarrow> ses_is_revoked (f r)" "revoked j s"
  shows "revoked j (upd_session i f s)"
  using assms by (auto simp: revoked_def session_of_upd split: option.splits)

lemma revoked_append: "revoked j s \<Longrightarrow> revoked j (s\<lparr>sessions := sessions s @ [r], draws := n\<rparr>)"
  by (auto simp: revoked_def session_of_def find_append split: option.splits)

lemma revoked_session_create: "revoked j s \<Longrightarrow> revoked j (fst (create_user_session env cf uuid clk u e rls ps sc b s))"
  by (simp add: create_user_session_def create_access_token_def create_refresh_token_def Let_def revoked_append)

lemma revoked_log [simp]: "revoked j (log_row r s) = revoked j s"
  by (rule revoked_sessions) simp

lemma revoked_operations:
  assumes "revoked j s"
  shows "revoked j (fst (is_session_active cf now i s))" "revoked j (fst (revoke_session i s))"
  using assms by (auto simp: is_session_active_def revoke_session_def intro!: revoked_upd split: option.splits)

lemma principal_state: "fst (get_current_principal env cf clk rq s) = s \<or> (\<exists>i. fst (get_current_principal env cf clk rq s) = fst (is_session_active cf (clk 1) i s))"
proof (cases "token_of rq")
  case (Some t)
  then show ?thesis
    by (cases "decode_token env (clk 0) t")
       (auto simp: get_current_principal_def Let_def split_beta split: option.split sum.split)
qed (simp add: get_current_principal_def)

lemma revoked_principal: "revoked j s \<Longrightarrow> revoked j (fst (get_current_principal env cf clk rq s))"
  using principal_state [of env cf clk rq s] by (elim disjE exE) (simp_all add: revoked_operations(1))

lemma revoked_require: "revoked j s \<Longrightarrow> revoked j (fst (require perm res env cf clk rq s))"
  using revoked_principal [of j s env cf clk rq] by (auto simp: require_def split: prod.splits sum.splits)

lemma revoked_endpoints:
  assumes "revoked j s"
  shows "revoked j (fst (service_account_token env cf uuid clk rq c x s))" "revoked j (fst (dev_login env cf uuid clk rq y s))"
    "revoked j (fst (refresh_session env cf uuid clk t s))" "revoked j (fst (logout env cf clk rq s))"
proof -
  have create: "revoked j (fst (create_user_session env cf uuid ck u e rls ps sc b s))" for ck u e rls ps sc b
    by (rule revoked_session_create [OF assms])
  show "revoked j (fst (service_account_token env cf uuid clk rq c x s))"
    using assms create by (auto simp: service_account_token_def authenticate_service_account_def Let_def split_beta split: option.splits)
  show "revoked j (fst (dev_login env cf uuid clk rq y s))"
    using assms create by (auto simp: dev_login_def Let_def split_beta split: option.splits)
  show "revoked j (fst (refresh_session env cf uuid clk t s))"
    using assms create by (auto simp: refresh_session_def refresh_user_session_def Let_def split_beta split: option.splits sum.splits)
  show "revoked j (fst (logout env cf clk rq s))"
    using revoked_require [OF assms, of "''view''" "Some ''auth''" env cf clk rq]
    by (auto simp: logout_def protected_def split: prod.splits sum.splits option.splits dest: revoked_operations(2))
qed

section \<open>Runs of the service\<close>

text \<open>A step is a call of an endpoint of authentication, the guard of any protected endpoint, or any other work: nothing else
  in the program touches the sessions.\<close>

inductive auth_step :: "auth_env \<Rightarrow> settings \<Rightarrow> (nat \<Rightarrow> uid) \<Rightarrow> 'a access_db_scheme \<Rightarrow> 'a access_db_scheme \<Rightarrow> bool"
  for env cf uuid where
  service_login: "auth_step env cf uuid s (fst (service_account_token env cf uuid clk rq client secret s))"
| developer_login: "auth_step env cf uuid s (fst (dev_login env cf uuid clk rq x s))"
| token_refresh: "auth_step env cf uuid s (fst (refresh_session env cf uuid clk t s))"
| user_logout: "auth_step env cf uuid s (fst (logout env cf clk rq s))"
| guarded_request: "auth_step env cf uuid s (fst (require permission resource env cf clk rq s))"
| other_work: "sessions s' = sessions s \<Longrightarrow> auth_step env cf uuid s s'"

lemma revoked_step: "auth_step env cf uuid s s' \<Longrightarrow> revoked j s \<Longrightarrow> revoked j s'"
proof (induction rule: auth_step.induct)
  case (other_work s' s)
  then show ?case using revoked_sessions [of s' s j] by simp
qed (simp_all add: revoked_endpoints revoked_require)

lemma revoked_run: "(auth_step env cf uuid)\<^sup>*\<^sup>* s s' \<Longrightarrow> revoked j s \<Longrightarrow> revoked j s'"
  by (induction rule: rtranclp_induct) (auto intro: revoked_step)

text \<open>C12. A session that was revoked, by a logout or a timeout, is dead for ever: after any run of the service (logins, refreshes,
  logouts, protected requests, other work) a request with a token of that session is refused with status 401 at every protected
  endpoint, whatever the permission, and changes nothing.\<close>

theorem revoked_session_stays_dead:
  assumes "(auth_step env cf uuid)\<^sup>*\<^sup>* s s'" "revoked j s" "j \<noteq> ''''"
    and "token_of rq = Some t" "\<not> (t = ''dev-token'' \<and> cf_environment cf = ''development'')"
    and "ae_decode env (clk 0) t = Inr p" "tp_jti p = Some j"
  shows "require permission resource env cf clk rq s' =
    (s', Inl (Denied 401 ''SESSION_EXPIRED'' [Lit ''Session has been revoked or expired due to inactivity'']))"
proof -
  have "revoked j s'" by (rule revoked_run [OF assms(1,2)])
  then have "is_session_active cf (clk 1) j s' = (s', False)" by (auto simp: is_session_active_def revoked_def split: option.splits)
  moreover have "truthy (tp_jti p) = Some j" using assms(3,7) by (simp add: truthy_def split: list.split)
  ultimately show ?thesis using assms(4-6) by (auto simp: require_def get_current_principal_def decode_token_def)
qed

section \<open>Admitted requests\<close>

definition live_session :: "settings \<Rightarrow> time \<Rightarrow> session_row \<Rightarrow> bool" where
  "live_session cf now r \<longleftrightarrow> \<not> ses_is_revoked r \<and> now - ses_last_active_at r \<le> minutes (cf_session_idle_timeout_minutes cf) \<and> now \<le> ses_expires_at r"

lemma session_active_iff:
  "snd (is_session_active cf now j s) \<longleftrightarrow> (case session_of j s of Some r \<Rightarrow> live_session cf now r | None \<Rightarrow> True)"
  by (auto simp: is_session_active_def live_session_def split: option.splits)

lemma principal_admitted:
  assumes "get_current_principal env cf clk rq s = (s', Inr q)" "\<not> (token_of rq = Some ''dev-token'' \<and> cf_environment cf = ''development'')"
  shows "\<exists>t p sc. token_of rq = Some t \<and> ae_decode env (clk 0) t = Inr p \<and> q = principal_of_claims p sc \<and>
    (case truthy (tp_jti p) of Some j \<Rightarrow> (case session_of j s of Some r \<Rightarrow> live_session cf (clk 1) r | None \<Rightarrow> True) | None \<Rightarrow> True)"
  using assms session_active_iff [of cf "clk 1" _ s]
  by (fastforce simp: get_current_principal_def decode_token_def Let_def split: option.splits sum.splits if_splits prod.splits jwt_error.splits)

text \<open>C13. A protected endpoint runs only for a caller who has the permission or the role Platform Administrator, and, outside the
  development token, only with a token that the JWT library accepts at that moment and whose session, when it is recorded, is
  not revoked, not idle for too long and not past its end; the caller's identity, roles and scope are those of the token.\<close>

theorem admitted_requests:
  assumes "require permission resource env cf clk rq s = (s', Inr q)"
    and "\<not> (token_of rq = Some ''dev-token'' \<and> cf_environment cf = ''development'')"
  shows "has_permission q permission \<and> (\<exists>t p sc. token_of rq = Some t \<and> ae_decode env (clk 0) t = Inr p \<and> q = principal_of_claims p sc \<and>
    (case truthy (tp_jti p) of Some j \<Rightarrow> (case session_of j s of Some r \<Rightarrow> live_session cf (clk 1) r | None \<Rightarrow> True) | None \<Rightarrow> True))"
proof -
  have q: "get_current_principal env cf clk rq s = (s', Inr q)" "has_permission q permission"
    using assms(1) by (auto simp: require_def split: prod.splits sum.splits if_splits)
  then show ?thesis using principal_admitted [OF q(1) assms(2)] by blast
qed

section \<open>Logout and refresh\<close>

definition same_accounts :: "'a access_db_scheme \<Rightarrow> 'a access_db_scheme \<Rightarrow> bool" where
  "same_accounts s s' \<longleftrightarrow> users s' = users s \<and> roles s' = roles s \<and> user_roles s' = user_roles s \<and> permissions s' = permissions s \<and>
     role_permissions s' = role_permissions s \<and> draws s' = draws s"

lemma same_accounts_trans: "same_accounts s s' \<Longrightarrow> same_accounts s' s'' \<Longrightarrow> same_accounts s s''"
  by (simp add: same_accounts_def)

lemma same_accounts_parts [simp]:
  "same_accounts s s" "same_accounts s (log_row r s') \<longleftrightarrow> same_accounts s s'" "same_accounts s (upd_session j f s') \<longleftrightarrow> same_accounts s s'"
  by (simp_all add: same_accounts_def)

lemma session_ops_accounts: "same_accounts s (fst (is_session_active cf now j s))" "same_accounts s (fst (revoke_session j s))"
  by (auto simp: is_session_active_def revoke_session_def split: option.splits)

lemma principal_accounts: "same_accounts s (fst (get_current_principal env cf clk rq s))"
  using principal_state [of env cf clk rq s] by (elim disjE exE) (simp_all add: session_ops_accounts(1))

lemma require_accounts: "same_accounts s (fst (require perm res env cf clk rq s))"
  using principal_accounts [of s env cf clk rq] by (auto simp: require_def split: prod.splits sum.splits)

lemma logout_accounts: "same_accounts s (fst (logout env cf clk rq s))"
  using require_accounts [of s "''view''" "Some ''auth''" env cf clk rq]
  by (auto simp: logout_def protected_def split: prod.splits sum.splits option.splits
      intro: same_accounts_trans [OF _ session_ops_accounts(2)])

definition session_ids :: "'a access_db_scheme \<Rightarrow> string list" where
  "session_ids s = map ses_jti (sessions s)"

lemma session_ops_ids: "session_ids (fst (is_session_active cf now j s)) = session_ids s" "session_ids (fst (revoke_session j s)) = session_ids s"
  by (auto simp: is_session_active_def revoke_session_def session_ids_def upd_session_def map_upd_by_key split: option.splits)

lemma principal_ids: "session_ids (fst (get_current_principal env cf clk rq s)) = session_ids s"
  using principal_state [of env cf clk rq s] by (elim disjE exE) (simp_all add: session_ops_ids(1))

lemma require_ids: "session_ids (fst (require perm res env cf clk rq s)) = session_ids s"
  using principal_ids [of env cf clk rq s] by (auto simp: require_def session_ids_def split: prod.splits sum.splits)

lemma logout_ids: "session_ids (fst (logout env cf clk rq s)) = session_ids s"
proof -
  have log: "session_ids (log_row r s) = session_ids s" for r s by (simp add: session_ids_def)
  show ?thesis using require_ids [of "''view''" "Some ''auth''" env cf clk rq s]
    by (auto simp: logout_def protected_def log session_ops_ids(2) split: prod.splits sum.splits option.splits)
qed

text \<open>C24. A logout does not end a login: the refresh token that came with the session is not recorded anywhere and is not
  revoked, so while the user is active it opens a new session with all roles and permissions of the user.\<close>

theorem logout_keeps_refresh_token:
  assumes "ae_decode env (clk' 0) t = Inr p" "tp_type p = ''refresh''" "tp_sub p = Some i"
    and "find (\<lambda>u. us_id u = i \<and> us_is_active u) (users s) = Some u" and "uuid (draws s) \<notin> set (session_ids s)"
    and "logout env cf clk rq s = (s', Inr ())"
  shows "\<exists>s'' d. refresh_session env cf uuid clk' t s' = (s'', Inr d) \<and> sd_roles d = roles_of_user (us_id u) s \<and>
    sd_permissions d = permissions_of_user (us_id u) s \<and> sd_data_scope d = user_scope u \<and> \<not> revoked (sd_session_id d) s''"
proof -
  have acc: "same_accounts s s'" using logout_accounts [of s env cf clk rq] assms(6) by simp
  have "session_ids s' = session_ids s" using logout_ids [of env cf clk rq s] assms(6) by simp
  then have "uuid (draws s') \<notin> set (session_ids s')" using assms(5) acc by (simp add: same_accounts_def)
  then have "find (\<lambda>r. ses_jti r = uuid (draws s')) (sessions s') = None"
    by (force simp: find_None_iff session_ids_def)
  then show ?thesis using assms(1-4) acc
    by (simp add: refresh_session_def refresh_user_session_def decode_token_def create_user_session_def create_access_token_def
        create_refresh_token_def Let_def same_accounts_def roles_of_user_def permissions_of_user_def actions_of_role_def revoked_def session_of_def find_append)
qed

section \<open>Witnesses\<close>

definition sample_account :: user_row where
  "sample_account = \<lparr>us_id = ''u1'', us_email = ''a@port.local'', us_full_name = ''Analyst User'', us_tenant_id = ''t'', us_port_id = Some ''ZADUR'',
     us_terminal_id = None, us_is_active = True, us_is_synthetic = True\<rparr>"

definition session_row_of :: "bool \<Rightarrow> session_row" where
  "session_row_of dead = \<lparr>ses_jti = ''j1'', ses_user_id = ''u1'', ses_is_revoked = dead, ses_expires_at = 5, ses_last_active_at = 0\<rparr>"

definition sample_access :: "bool \<Rightarrow> access_db" where
  "sample_access dead = kpi_db.extend (kpi_tables (staged_db []))
    \<lparr>roles = [\<lparr>rl_id = ''r1'', rl_name = ''Analyst''\<rparr>], permissions = [\<lparr>pm_id = ''p1'', pm_action = ''view''\<rparr>],
     role_permissions = [\<lparr>rp_role_id = ''r1'', rp_permission_id = ''p1''\<rparr>], users = [sample_account], user_roles = [\<lparr>ur_user_id = ''u1'', ur_role_id = ''r1''\<rparr>],
     service_accounts = [], sessions = [session_row_of dead], request_log = []\<rparr>"

lemma sample_access_sel [simp]: "sessions (sample_access dead) = [session_row_of dead]" "users (sample_access dead) = [sample_account]" "draws (sample_access dead) = 0"
  by (simp_all add: sample_access_def kpi_tables_def staged_db_def call_db_def platform_db.defs ingest_db.defs kpi_db.defs access_db.defs)

definition sample_cf :: settings where
  "sample_cf = \<lparr>cf_environment = ''production'', cf_development_tenant_id = ''dev'', cf_upload_max_bytes = 0, cf_access_token_expire_minutes = 1440,
     cf_refresh_token_expire_days = 7, cf_session_idle_timeout_minutes = 1440\<rparr>"

definition sample_claims :: token_payload where
  "sample_claims = access_payload sample_cf 0 ''j1'' ''u1'' ''a@port.local'' [''Analyst''] [''view''] (user_scope sample_account) False"

text \<open>A library that accepts the access token "a" and the refresh token "r" of the sample user.\<close>

definition sample_auth :: auth_env where
  "sample_auth = \<lparr>ae_encode = (\<lambda>p. if tp_type p = ''access'' then ''a'' else ''r''),
     ae_decode = (\<lambda>now t. if t = ''a'' then Inr sample_claims else if t = ''r'' then Inr (refresh_payload sample_cf 0 ''j2'' ''u1'') else Inl (Invalid_token ''unknown'')),
     ae_sha256 = id\<rparr>"

definition sample_request :: request_info where
  "sample_request = \<lparr>ri_bearer = Some ''a'', ri_cookie = None, ri_path = ''/api/v1/auth/me'', ri_correlation_id = ''c'', ri_ip = None, ri_user_agent = None\<rparr>"

lemma sample_token: "token_of sample_request = Some ''a''" "ae_decode sample_auth now ''a'' = Inr sample_claims" "tp_jti sample_claims = Some ''j1''"
  "\<not> cf_environment sample_cf = ''development''" "ae_decode sample_auth now ''r'' = Inr (refresh_payload sample_cf 0 ''j2'' ''u1'')"
  by (simp_all add: sample_request_def token_of_def truthy_def sample_auth_def sample_claims_def access_payload_def sample_cf_def)

lemma revoked_session_stays_dead_witness:
  "require ''view'' None sample_auth sample_cf (\<lambda>k. 1) sample_request (fst (refresh_session sample_auth sample_cf (\<lambda>n. ''new'') (\<lambda>k. 1) ''r'' (sample_access True))) =
    (fst (refresh_session sample_auth sample_cf (\<lambda>n. ''new'') (\<lambda>k. 1) ''r'' (sample_access True)),
     Inl (Denied 401 ''SESSION_EXPIRED'' [Lit ''Session has been revoked or expired due to inactivity'']))"
  by (rule revoked_session_stays_dead [where t = "''a''" and j = "''j1''" and p = sample_claims, OF r_into_rtranclp, OF token_refresh])
     (simp_all add: sample_token revoked_def session_of_def session_row_of_def)

lemma sample_admitted: "\<exists>s' q. require ''view'' None sample_auth sample_cf (\<lambda>k. 1) sample_request (sample_access False) = (s', Inr q)"
  by (simp add: require_def get_current_principal_def sample_token decode_token_def truthy_def is_session_active_def session_of_def session_row_of_def
      minutes_def sample_cf_def sample_claims_def access_payload_def user_scope_def scope_of_claims_def claim_def principal_of_claims_def has_permission_def)

lemma admitted_requests_witness:
  "\<exists>s' q. require ''view'' None sample_auth sample_cf (\<lambda>k. 1) sample_request (sample_access False) = (s', Inr q) \<and> has_permission q ''view''"
proof -
  obtain s' q where run: "require ''view'' None sample_auth sample_cf (\<lambda>k. 1) sample_request (sample_access False) = (s', Inr q)"
    using sample_admitted by blast
  then show ?thesis using admitted_requests [OF run] sample_token(4) by blast
qed

lemma logout_keeps_refresh_token_witness:
  "\<exists>s' s'' d. logout sample_auth sample_cf (\<lambda>k. 1) sample_request (sample_access False) = (s', Inr ()) \<and>
     refresh_session sample_auth sample_cf (\<lambda>n. ''new'') (\<lambda>k. 2) ''r'' s' = (s'', Inr d) \<and> sd_data_scope d = user_scope sample_account"
proof -
  obtain s1 q where "require ''view'' (Some ''auth'') sample_auth sample_cf (\<lambda>k. 1) sample_request (sample_access False) = (s1, Inr q)"
    using sample_admitted by (auto simp: require_def split: prod.splits sum.splits if_splits)
  then obtain s' where run: "logout sample_auth sample_cf (\<lambda>k. 1) sample_request (sample_access False) = (s', Inr ())"
    by (simp add: logout_def protected_def)
  have "find (\<lambda>u. us_id u = ''u1'' \<and> us_is_active u) (users (sample_access False)) = Some sample_account" by (simp add: sample_account_def)
  from logout_keeps_refresh_token [OF sample_token(5) _ _ this _ run, where uuid = "\<lambda>n. ''new''" and clk' = "\<lambda>k. 2"] run show ?thesis
    by (auto simp: refresh_payload_def session_ids_def session_row_of_def)
qed

end
