(* ===== verification/Seeds.thy ===== *)
theory Seeds
  imports Access
begin

text \<open>
  The seeding of a new installation (\<open>seed.py\<close>, \<open>config/roles.yaml\<close>): event definitions, permissions, roles, one user per role
  and the service account. Every step looks a row up before it adds it. The aliases and KPI names of the seed are left out: their
  tables are not part of this state. Descriptions of roles and permissions are not stored.
\<close>

section \<open>Roles and permissions\<close>

record role_spec =
  rs_name :: string
  rs_permissions :: "string list"

definition seeded_actions :: "string list" where
  "seeded_actions = [''view'', ''create'', ''edit'', ''approve'', ''reject'', ''merge'', ''unmerge'', ''recalculate'', ''publish'', ''export'',
     ''configure'', ''administer'', ''audit'']"

definition shipped_roles :: "role_spec list" where
  "shipped_roles = map (\<lambda>(n, ps). \<lparr>rs_name = n, rs_permissions = ps\<rparr>)
     [(''Platform Administrator'', [''view'', ''create'', ''edit'', ''approve'', ''reject'', ''merge'', ''unmerge'', ''recalculate'', ''publish'', ''export'',
        ''configure'', ''administer'', ''audit'']),
      (''Data Steward'', [''view'', ''create'', ''edit'', ''approve'', ''reject'', ''merge'', ''unmerge'', ''audit'']),
      (''Marine Operations Controller'', [''view'', ''create'', ''edit'', ''approve'']),
      (''Analyst'', [''view'', ''recalculate'', ''export'']),
      (''Department Head'', [''view'', ''approve'', ''reject'', ''publish'', ''export'']),
      (''Executive'', [''view'', ''export'']),
      (''Report Manager'', [''view'', ''create'', ''edit'', ''publish'', ''export'']),
      (''Auditor'', [''view'', ''audit'', ''export'']),
      (''Integration Service Account'', [''view'', ''create'', ''edit''])]"

definition permission_named :: "string \<Rightarrow> 'a access_db_scheme \<Rightarrow> permission_row option" where
  "permission_named a s = find (\<lambda>p. pm_action p = a) (permissions s)"

definition role_named :: "string \<Rightarrow> 'a access_db_scheme \<Rightarrow> role_row option" where
  "role_named n s = find (\<lambda>r. rl_name r = n) (roles s)"

definition seed_permission :: "(nat \<Rightarrow> uid) \<Rightarrow> string \<Rightarrow> 'a access_db_scheme \<Rightarrow> 'a access_db_scheme" where
  "seed_permission uuid a s = (case permission_named a s of
       Some p \<Rightarrow> s
     | None \<Rightarrow> s\<lparr>permissions := permissions s @ [\<lparr>pm_id = uuid (draws s), pm_action = a\<rparr>], draws := draws s + 1\<rparr>)"

definition link_permission :: "uid \<Rightarrow> string \<Rightarrow> 'a access_db_scheme \<Rightarrow> 'a access_db_scheme" where
  "link_permission i a s = (case permission_named a s of
       Some p \<Rightarrow> if find (\<lambda>x. rp_role_id x = i \<and> rp_permission_id x = pm_id p) (role_permissions s) = None
                 then s\<lparr>role_permissions := role_permissions s @ [\<lparr>rp_role_id = i, rp_permission_id = pm_id p\<rparr>]\<rparr> else s
     | None \<Rightarrow> s)"

definition seed_role :: "(nat \<Rightarrow> uid) \<Rightarrow> role_spec \<Rightarrow> 'a access_db_scheme \<Rightarrow> 'a access_db_scheme" where
  "seed_role uuid rs s =
     (let (i, s) = (case role_named (rs_name rs) s of
            Some r \<Rightarrow> (rl_id r, s)
          | None \<Rightarrow> (uuid (draws s), s\<lparr>roles := roles s @ [\<lparr>rl_id = uuid (draws s), rl_name = rs_name rs\<rparr>], draws := draws s + 1\<rparr>))
      in fold (link_permission i) (filter (\<lambda>a. List.member seeded_actions a) (rs_permissions rs)) s)"

definition seed_roles_and_permissions :: "(nat \<Rightarrow> uid) \<Rightarrow> role_spec list \<Rightarrow> 'a access_db_scheme \<Rightarrow> 'a access_db_scheme" where
  "seed_roles_and_permissions uuid specs s = fold (seed_role uuid) specs (fold (seed_permission uuid) seeded_actions s)"

section \<open>Users and the service account\<close>

definition seeded_email :: "string \<Rightarrow> string" where
  "seeded_email n = map (\<lambda>c. if c = CHR '' '' then CHR ''_'' else c) (py_lower n) @ ''@port.local''"

definition seeded_user :: "settings \<Rightarrow> uid \<Rightarrow> string \<Rightarrow> user_row" where
  "seeded_user cf i n = \<lparr>us_id = i, us_email = seeded_email n, us_full_name = n @ '' User'', us_tenant_id = cf_development_tenant_id cf,
     us_port_id = Some (if py_in ''Administrator'' n \<or> py_in ''Auditor'' n \<or> py_in ''Executive'' n then ''*'' else ''ZADUR''),
     us_terminal_id = Some (if py_in ''Administrator'' n then ''*'' else ''DCT''), us_is_active = True, us_is_synthetic = True\<rparr>"

definition seed_user :: "settings \<Rightarrow> (nat \<Rightarrow> uid) \<Rightarrow> role_spec \<Rightarrow> 'a access_db_scheme \<Rightarrow> 'a access_db_scheme" where
  "seed_user cf uuid rs s = (case role_named (rs_name rs) s of
       None \<Rightarrow> s
     | Some r \<Rightarrow> (case find (\<lambda>u. us_email u = seeded_email (rs_name rs)) (users s) of
         Some u \<Rightarrow> s
       | None \<Rightarrow> (let u = seeded_user cf (uuid (draws s)) (rs_name rs); s = s\<lparr>users := users s @ [u], draws := draws s + 1\<rparr>
           in if find (\<lambda>x. ur_user_id x = us_id u \<and> ur_role_id x = rl_id r) (user_roles s) = None
              then s\<lparr>user_roles := user_roles s @ [\<lparr>ur_user_id = us_id u, ur_role_id = rl_id r\<rparr>]\<rparr> else s)))"

definition seed_users :: "settings \<Rightarrow> (nat \<Rightarrow> uid) \<Rightarrow> role_spec list \<Rightarrow> 'a access_db_scheme \<Rightarrow> 'a access_db_scheme" where
  "seed_users cf uuid specs s = fold (seed_user cf uuid) specs s"

definition seed_service_accounts :: "auth_env \<Rightarrow> settings \<Rightarrow> (nat \<Rightarrow> uid) \<Rightarrow> 'a access_db_scheme \<Rightarrow> 'a access_db_scheme" where
  "seed_service_accounts env cf uuid s = (case role_named ''Integration Service Account'' s of
       None \<Rightarrow> s
     | Some r \<Rightarrow> (case find (\<lambda>a. sac_client_id a = ''svc-integration-01'') (service_accounts s) of
         Some a \<Rightarrow> s
       | None \<Rightarrow> s\<lparr>service_accounts := service_accounts s @ [\<lparr>sac_id = uuid (draws s), sac_client_id = ''svc-integration-01'',
             sac_client_secret_hash = ae_sha256 env ''secret-service-key-2026'', sac_name = ''PMS Connector Service Account'', sac_role_id = rl_id r,
             sac_tenant_id = cf_development_tenant_id cf, sac_port_id = Some ''ZADUR'', sac_terminal_id = Some ''DCT'', sac_is_active = True,
             sac_expires_at = None\<rparr>], draws := draws s + 1\<rparr>))"

section \<open>Event definitions\<close>

definition fixture_event_names :: "(string \<times> string) list" where
  "fixture_event_names =
     [(''ANCHORAGE_ARRIVAL'', ''Anchorage''), (''PILOT_REQUEST_ARRIVAL'', ''Pilotage''), (''PILOT_ASSIGNED_ARRIVAL'', ''Pilotage''),
      (''PILOT_ON_BOARD_ARRIVAL'', ''Pilotage''), (''PILOT_DISEMBARK_ARRIVAL'', ''Pilotage''), (''PILOT_SCHEDULED_ARRIVAL'', ''Pilotage''),
      (''PILOT_REQUEST_SAILING'', ''Pilotage''), (''PILOT_ASSIGNED_SAILING'', ''Pilotage''), (''PILOT_ON_BOARD_SAILING'', ''Pilotage''),
      (''PILOT_DISEMBARK_SAILING'', ''Pilotage''), (''PILOT_SCHEDULED_SAILING'', ''Pilotage''), (''TUG_REQUEST_ARRIVAL'', ''Towage''),
      (''TUG_ASSIGNED_ARRIVAL'', ''Towage''), (''TUG_SERVICE_START_ARRIVAL'', ''Towage''), (''TUG_SERVICE_END_ARRIVAL'', ''Towage''),
      (''TUG_REQUEST_SAILING'', ''Towage''), (''TUG_ASSIGNED_SAILING'', ''Towage''), (''TUG_SERVICE_START_SAILING'', ''Towage''),
      (''TUG_SERVICE_END_SAILING'', ''Towage''), (''BREAKWATER_IN'', ''Movement''), (''BREAKWATER_OUT'', ''Movement''),
      (''FIRST_LINE_TIED_ARRIVAL'', ''Berthing''), (''LAST_LINE_TIED_ARRIVAL'', ''Berthing''), (''ALL_FAST_ARRIVAL'', ''Berthing''),
      (''FIRST_LINE_UNTIED_SAILING'', ''Sailing''), (''LAST_LINE_UNTIED_SAILING'', ''Sailing''), (''CARGO_START'', ''Cargo''), (''CARGO_END'', ''Cargo''),
      (''SHIFT_PILOT_ON_BOARD'', ''Shifting''), (''SHIFT_ALL_FAST'', ''Shifting''), (''NOMINATION_SUBMITTED'', ''Pre-arrival and clearance''),
      (''ISPS_CLEARANCE'', ''Pre-arrival and clearance''), (''PHO_CLEARANCE'', ''Pre-arrival and clearance''), (''IMDG_CLEARANCE'', ''Pre-arrival and clearance''),
      (''PORT_LIMIT_IN'', ''Movement''), (''PORT_LIMIT_OUT'', ''Movement''), (''ANCHOR_DROP'', ''Anchorage''), (''ANCHOR_AWEIGH'', ''Anchorage'')]"

definition seed_event :: "(nat \<Rightarrow> uid) \<Rightarrow> string \<times> string option \<times> string \<Rightarrow> 'a canon_db_scheme \<Rightarrow> 'a canon_db_scheme" where
  "seed_event uuid e s = (case e of (n, category, description) \<Rightarrow>
     if find (\<lambda>d. ed_name d = n) (event_definitions s) = None
     then s\<lparr>event_definitions := event_definitions s @ [\<lparr>ed_id = uuid (draws s), ed_name = n, ed_category = category, ed_description = Some description\<rparr>],
            draws := draws s + 1\<rparr>
     else s)"

text \<open>The events of the configuration file, then the names of the fixture workbook.\<close>

definition seed_events :: "(nat \<Rightarrow> uid) \<Rightarrow> (string \<times> string option \<times> string) list \<Rightarrow> 'a canon_db_scheme \<Rightarrow> 'a canon_db_scheme" where
  "seed_events uuid es s = fold (seed_event uuid) (es @ map (\<lambda>(n, c). (n, Some c, ''Canonical event: '' @ n)) fixture_event_names) s"

definition seed_installation ::
    "auth_env \<Rightarrow> settings \<Rightarrow> (nat \<Rightarrow> uid) \<Rightarrow> (string \<times> string option \<times> string) list \<Rightarrow> role_spec list \<Rightarrow> 'a access_db_scheme \<Rightarrow> 'a access_db_scheme" where
  "seed_installation env cf uuid es specs s =
     seed_service_accounts env cf uuid (seed_users cf uuid specs (seed_roles_and_permissions uuid specs (seed_events uuid es s)))"

section \<open>What the seed grants\<close>

definition actions :: "'a access_db_scheme \<Rightarrow> string set" where
  "actions s = pm_action ` set (permissions s)"

lemma seed_permission_actions: "actions (seed_permission uuid a s) = insert a (actions s)"
  by (force simp: seed_permission_def permission_named_def actions_def find_Some_iff split: option.splits)

lemma seed_permissions_actions: "actions (fold (seed_permission uuid) as s) = set as \<union> actions s"
  by (induction as arbitrary: s) (auto simp: seed_permission_actions)

lemma link_permissions: "permissions (fold (link_permission i) as s) = permissions s"
proof (induction as arbitrary: s)
  case (Cons a as)
  have "permissions (link_permission i a s) = permissions s" by (simp add: link_permission_def split: option.split)
  with Cons show ?case by simp
qed simp

lemma seed_role_actions: "actions (seed_role uuid rs s) = actions s"
  by (auto simp: seed_role_def actions_def link_permissions Let_def split: option.splits)

lemma seed_roles_actions: "actions (fold (seed_role uuid) specs s) = actions s"
  by (induction specs arbitrary: s) (simp_all add: seed_role_actions)

lemma seeded_roles_actions: "actions (seed_roles_and_permissions uuid specs s) = set seeded_actions \<union> actions s"
  by (simp add: seed_roles_and_permissions_def seed_roles_actions seed_permissions_actions)

lemma other_seeds_actions:
  "actions (seed_users cf uuid specs s) = actions s" "actions (seed_service_accounts env cf uuid s) = actions s" "actions (seed_events uuid es s) = actions s"
proof -
  have user: "permissions (seed_user cf uuid rs s) = permissions s" for rs s by (auto simp: seed_user_def Let_def split: option.split)
  show "actions (seed_users cf uuid specs s) = actions s"
    unfolding seed_users_def by (induction specs arbitrary: s) (simp_all add: actions_def user)
  show "actions (seed_service_accounts env cf uuid s) = actions s" by (auto simp: seed_service_accounts_def actions_def split: option.split)
  have event: "permissions (seed_event uuid e s) = permissions s" for e and s :: "'a access_db_scheme" by (auto simp: seed_event_def split: prod.split)
  have "permissions (fold (seed_event uuid) es s) = permissions s" for es and s :: "'a access_db_scheme" by (induction es arbitrary: s) (simp_all add: event)
  then show "actions (seed_events uuid es s) = actions s" by (simp add: actions_def seed_events_def)
qed

lemma seeded_installation_actions: "actions (seed_installation env cf uuid es specs s) = set seeded_actions \<union> actions s"
  by (simp add: seed_installation_def other_seeds_actions seeded_roles_actions)

lemma user_permissions_known: "set (permissions_of_user u s) \<subseteq> actions s"
  by (auto simp: permissions_of_user_def actions_of_role_def actions_def)

lemma role_permissions_known: "set (actions_of_role i s) \<subseteq> actions s"
  by (auto simp: actions_of_role_def actions_def)

end
