(* ===== verification/Outliers.thy ===== *)
theory Outliers
  imports Journey
begin

text \<open>
  The outlier engine (\<open>apps/api/services/outliers/engine.py\<close>): percentile and three-sigma rules on lead times, event
  pairs and pilot services, sequence and quality rules, detection with persistence, exclusions and the listing.

  \<open>statistics.mean\<close> and \<open>statistics.stdev\<close> compute exactly and round once. Rows of a query without \<open>order_by\<close> come in
  table order, and a descending order puts NULL first, as PostgreSQL does. A row that refers to a missing call does not
  occur (foreign keys). Instants inside the evidence are kept as instants, and the greater-or-equal sign of one label is
  written with two characters.
\<close>

section \<open>Percentiles\<close>

definition linear_percentile :: "rat list \<Rightarrow> rat \<Rightarrow> rat option" where
  "linear_percentile xs q =
     (let ordered = sort xs
      in case ordered of [] \<Rightarrow> None | [x] \<Rightarrow> Some x
       | _ \<Rightarrow> (let position = fmul (of_nat (length ordered - 1)) q; lower = nat \<lfloor>position\<rfloor>; upper = nat \<lceil>position\<rceil>
              in Some (if lower = upper then ordered ! lower
                 else fadd (ordered ! lower) (fmul (fsub (ordered ! upper) (ordered ! lower)) (fsub position (of_nat lower))))))"

definition exact_mean :: "rat list \<Rightarrow> rat" where
  "exact_mean xs = fl (sum_list xs / of_nat (length xs))"

definition exact_stdev :: "rat list \<Rightarrow> rat" where
  "exact_stdev xs = (let m = sum_list xs / of_nat (length xs)
     in fsqrt (sum_list (map (\<lambda>x. (x - m) ^ 2) xs) / of_nat (length xs - 1)))"

section \<open>Items\<close>

record outlier_item =
  oi_call :: vessel_call
  oi_rule_id :: string
  oi_category :: string
  oi_metric :: string
  oi_observed :: "rat option"
  oi_threshold :: "rat option"
  oi_divergence :: "rat option"
  oi_issue :: string
  oi_threshold_label :: fstring
  oi_reason :: fstring
  oi_leg :: "string option"
  oi_sources :: "string list"
  oi_severity :: string
  oi_evidence :: json

text \<open>A rule: its identifier, category, metric, issue and movement leg.\<close>

record rule_meta =
  rm_rule_id :: string
  rm_category :: string
  rm_metric :: string
  rm_issue :: string
  rm_leg :: "string option"

definition make_item :: "rule_meta \<Rightarrow> vessel_call \<Rightarrow> rat option \<Rightarrow> rat option \<Rightarrow> fstring \<Rightarrow> fstring \<Rightarrow> string list \<Rightarrow> string \<Rightarrow> json \<Rightarrow> outlier_item" where
  "make_item rm call obs_value threshold label reason sources severity evidence = \<lparr>oi_call = call, oi_rule_id = rm_rule_id rm, oi_category = rm_category rm,
     oi_metric = rm_metric rm, oi_observed = map_option (fround 6) obs_value, oi_threshold = map_option (fround 6) threshold,
     oi_divergence = (case (obs_value, threshold) of (Some x, Some t) \<Rightarrow> Some (fround 6 (fsub x t)) | _ \<Rightarrow> None), oi_issue = rm_issue rm,
     oi_threshold_label = label, oi_reason = reason, oi_leg = rm_leg rm, oi_sources = sources, oi_severity = severity, oi_evidence = evidence\<rparr>"

record timed_row =
  tr_call :: vessel_call
  tr_value :: rat
  tr_sources :: "string list"
  tr_leg :: "string option"

definition percent_of :: "rat \<Rightarrow> nat" where
  "percent_of q = nat \<lfloor>fmul q 100\<rfloor>"

definition high_item :: "rat \<Rightarrow> rule_meta \<Rightarrow> nat \<Rightarrow> rat \<Rightarrow> timed_row \<Rightarrow> outlier_item" where
  "high_item q rm n t r = make_item rm (tr_call r) (Some (tr_value r)) (Some t) [Lit ''P'', NatF (percent_of q), Lit '' (linear): '', Fix 2 t, Lit ''h'']
     [Lit ''Observed '', Fix 2 (tr_value r), Lit ''h exceeds the governed P'', NatF (percent_of q), Lit '' threshold of '', Fix 2 t, Lit ''h.''] (tr_sources r)
     (if 0 < t \<and> fmul t (fl (15 / 10)) < tr_value r then ''CRITICAL'' else ''HIGH'')
     (JObj [(''percentile_method'', JStr ''linear_interpolation''), (''quantile'', JNum q), (''eligible_population'', JInt (int n))])"

definition high_rule :: "rat \<Rightarrow> rule_meta \<Rightarrow> timed_row list \<Rightarrow> outlier_item list" where
  "high_rule q rm rows =
     (let eligible = filter (\<lambda>r. 0 \<le> tr_value r) rows
      in case linear_percentile (map tr_value eligible) q of
           None \<Rightarrow> []
         | Some t \<Rightarrow> map (high_item q rm (length eligible) t) (filter (\<lambda>r. t < tr_value r) eligible))"

definition sd_item :: "rule_meta \<Rightarrow> nat \<Rightarrow> rat \<Rightarrow> rat \<Rightarrow> rat \<Rightarrow> timed_row \<Rightarrow> outlier_item" where
  "sd_item rm n m sd t r = make_item rm (tr_call r) (Some (tr_value r)) (Some t) [Lit ''Mean + 3 sample SD: '', Fix 2 t, Lit ''h'']
     [Lit ''Observed '', Fix 2 (tr_value r), Lit ''h exceeds mean '', Fix 2 m, Lit ''h plus three sample SD ('', Fix 2 sd, Lit ''h).''] (tr_sources r) ''HIGH''
     (JObj [(''mean_hours'', JNum m), (''sample_standard_deviation_hours'', JNum sd), (''eligible_population'', JInt (int n))])"

definition three_sd_rule :: "rule_meta \<Rightarrow> timed_row list \<Rightarrow> outlier_item list" where
  "three_sd_rule rm rows =
     (let xs = map tr_value rows
      in if length xs < 2 then []
         else (let m = exact_mean xs; sd = exact_stdev xs; t = fadd m (fmul 3 sd)
               in map (sd_item rm (length xs) m sd t) (filter (\<lambda>r. t < tr_value r) rows)))"

section \<open>Rows\<close>

definition scoped_calls :: "string \<Rightarrow> 'a platform_db_scheme \<Rightarrow> vessel_call list" where
  "scoped_calls tenant s = filter (\<lambda>v. \<not> vc_is_merged v \<and> (tenant = ''*'' \<or> vc_tenant_id v = tenant)) (vessel_calls s)"

definition call_named :: "vessel_call list \<Rightarrow> uid \<Rightarrow> vessel_call option" where
  "call_named calls i = last_with (\<lambda>v. vc_id v = i) calls"

definition lead_time_rows :: "string \<Rightarrow> vessel_call list \<Rightarrow> 'a platform_db_scheme \<Rightarrow> timed_row list" where
  "lead_time_rows nm calls s = concat (map (\<lambda>r. List.map_filter (\<lambda>d.
       if ld_id d = lt_definition_id r \<and> ld_name d = nm \<and> lt_status r = LT_AVAILABLE then
         (case (call_named calls (lt_vessel_call_id r), lt_duration_hours r) of
            (Some c, Some h) \<Rightarrow> Some \<lparr>tr_call = c, tr_value = h, tr_sources = (case lt_source_record_ids r of Some ids \<Rightarrow> ids | None \<Rightarrow> []), tr_leg = None\<rparr>
          | _ \<Rightarrow> None)
       else None) (lead_time_definitions s)) (lead_time_results s))"

definition definition_name :: "string list \<Rightarrow> 'a platform_db_scheme \<Rightarrow> uid \<Rightarrow> string option" where
  "definition_name names s i = map_option ed_name (last_with (\<lambda>d. ed_id d = i \<and> List.member names (ed_name d)) (event_definitions s))"

definition live_named_events :: "vessel_call list \<Rightarrow> (uid \<Rightarrow> string option) \<Rightarrow> 'a platform_db_scheme \<Rightarrow> event_occurrence list" where
  "live_named_events calls nm s = sorted_by eo_occurrence_index (sorted_by eo_utc_value
     (filter (\<lambda>e. call_named calls (eo_vessel_call_id e) \<noteq> None \<and> nm (eo_event_definition_id e) \<noteq> None \<and> \<not> eo_is_quarantined e \<and> \<not> eo_is_superseded e)
       (event_occurrences s)))"

definition selected_event :: "event_occurrence list \<Rightarrow> 'a platform_db_scheme \<Rightarrow> event_occurrence \<Rightarrow> event_occurrence option" where
  "selected_event es s e =
     Option.bind (last_with (\<lambda>o'. cn_vessel_call_id o' = eo_vessel_call_id e \<and> cn_event_definition_id o' = eo_event_definition_id e \<and>
       truthy (cn_selected_event_occurrence_id o') \<noteq> None) (canonical_observations s))
     (\<lambda>o'. Option.bind (cn_selected_event_occurrence_id o') (\<lambda>i. last_with (\<lambda>x. eo_id x = i) es))"

text \<open>The occurrence of an event in a call: the selected one if it is live, else the first.\<close>

definition events_by_name :: "vessel_call list \<Rightarrow> string list \<Rightarrow> 'a platform_db_scheme \<Rightarrow> uid \<times> string \<Rightarrow> event_occurrence option" where
  "events_by_name calls names s =
     (let nm = definition_name names s; es = live_named_events calls nm s
      in fold (\<lambda>e m. let k = (eo_vessel_call_id e, the (nm (eo_event_definition_id e)))
           in case selected_event es s e of Some x \<Rightarrow> m(k \<mapsto> x) | None \<Rightarrow> if m k = None then m(k \<mapsto> e) else m) es (\<lambda>k. None))"

definition event_pair_rows :: "string \<Rightarrow> string \<Rightarrow> vessel_call list \<Rightarrow> 'a platform_db_scheme \<Rightarrow> timed_row list" where
  "event_pair_rows start end' calls s =
     (let ev = events_by_name calls [start, end'] s
      in List.map_filter (\<lambda>c. case (ev (vc_id c, start), ev (vc_id c, end')) of
           (Some a, Some b) \<Rightarrow> Some \<lparr>tr_call = c, tr_value = raw_hours (eo_utc_value a) (eo_utc_value b), tr_sources = [eo_id a, eo_id b], tr_leg = None\<rparr>
         | _ \<Rightarrow> None) calls)"

definition pilot_leg :: "string option \<Rightarrow> string" where
  "pilot_leg m = (case map_of [(''ARRIVAL'', ''ARRIVAL_INWARD''), (''SAILING'', ''SAILING_OUTWARD''), (''SHIFTING'', ''SHIFTING'')] (py_upper (or_empty m)) of
     Some l \<Rightarrow> l | None \<Rightarrow> ''UNCLASSIFIED'')"

definition pilot_row :: "vessel_call list \<Rightarrow> service_request \<Rightarrow> service_assignment \<Rightarrow> service_execution \<Rightarrow> timed_row option" where
  "pilot_row calls r a x =
     (case (call_named calls (sr_vessel_call_id r), sa_scheduled_time a, se_served_time x) of
        (Some c, Some scheduled, Some served) \<Rightarrow>
          if sa_service_request_id a = sr_id r \<and> se_service_assignment_id x = sa_id a \<and> sql_ilike ''%pilot%'' (sr_service_type r)
          then Some \<lparr>tr_call = c, tr_value = raw_hours scheduled served, tr_sources = [sr_id r, sa_id a, se_id x], tr_leg = Some (pilot_leg (sr_movement_type r))\<rparr>
          else None
      | _ \<Rightarrow> None)"

definition pilot_rows :: "vessel_call list \<Rightarrow> 'a platform_db_scheme \<Rightarrow> timed_row list" where
  "pilot_rows calls s = concat (map (\<lambda>r. concat (map (\<lambda>a. List.map_filter (pilot_row calls r a) (service_executions s)) (service_assignments s))) (service_requests s))"

section \<open>Quality issues\<close>

fun title_from :: "bool \<Rightarrow> string \<Rightarrow> string" where
  "title_from start [] = []"
| "title_from start (c # cs) =
     (let letter = (upper_char c \<noteq> c \<or> lower_char c \<noteq> c)
      in (if start then upper_char c else lower_char c) # title_from (\<not> letter) cs)"

definition quality_meta :: "quality_rule \<Rightarrow> rule_meta option" where
  "quality_meta rule =
     (let x = py_upper (qr_rule_id rule); metric = title_from True (map (\<lambda>c. if c = CHR ''_'' then CHR '' '' else c) (qr_scope rule))
      in if py_in ''SEQUENCE'' x \<or> py_in ''CHRONO'' x \<or> List.member [''DQ-004'', ''DQ-006''] x
         then Some \<lparr>rm_rule_id = ''OUT-V2-031'', rm_category = ''Sequence Outlier'', rm_metric = metric,
                rm_issue = ''Invalid chronological sequence detected.'', rm_leg = None\<rparr>
         else if py_in ''MISSING'' x \<or> py_in ''DUPLICATE'' x
         then Some \<lparr>rm_rule_id = ''OUT-V2-032'', rm_category = ''Data Quality Outlier'', rm_metric = metric,
                rm_issue = ''A critical timestamp is missing or duplicated.'', rm_leg = None\<rparr>
         else None)"

definition quality_item :: "vessel_call list \<Rightarrow> quality_issue \<Rightarrow> quality_rule \<Rightarrow> outlier_item option" where
  "quality_item calls q rule =
     (case (Option.bind (qi_vessel_call_id q) (call_named calls), quality_meta rule) of
        (Some c, Some rm) \<Rightarrow>
          if qi_rule_id q = qr_id rule \<and> qi_issue_status q \<noteq> ISSUE_RESOLVED then
            Some (make_item rm c None None [Str (qr_pass_fail_expression rule)]
              [Str (case truthy (qr_remediation_guidance rule) of Some g \<Rightarrow> g | None \<Rightarrow> qr_pass_fail_expression rule)] [qi_record_reference q] (qr_severity rule)
              (JObj [(''quality_rule_id'', JStr (py_upper (qr_rule_id rule))), (''quality_issue_id'', JStr (qi_id q))]))
          else None
      | _ \<Rightarrow> None)"

definition quality_outliers :: "vessel_call list \<Rightarrow> 'a platform_db_scheme \<Rightarrow> outlier_item list" where
  "quality_outliers calls s = concat (map (\<lambda>q. List.map_filter (quality_item calls q) (quality_rules s)) (quality_issues s))"

section \<open>Detection\<close>

definition meta :: "string \<Rightarrow> string \<Rightarrow> string \<Rightarrow> string \<Rightarrow> string option \<Rightarrow> rule_meta" where
  "meta i category metric issue leg = \<lparr>rm_rule_id = i, rm_category = category, rm_metric = metric, rm_issue = issue, rm_leg = leg\<rparr>"

definition time_based :: string where "time_based = ''Time-based Outlier''"
definition performance :: string where "performance = ''Operational Performance Outlier''"

definition early_items :: "timed_row list \<Rightarrow> outlier_item list" where
  "early_items rows =
     (case linear_percentile (map tr_value rows) (fl (30 / 100)) of
        None \<Rightarrow> []
      | Some t \<Rightarrow> map (\<lambda>r. make_item (meta ''OUT-V2-007'' time_based ''Pilot Boarding Execution Delay''
            ''Pilot boarding occurred significantly earlier than scheduled.'' (tr_leg r)) (tr_call r) (Some (tr_value r)) (Some t)
          [Lit ''P30 (linear): '', Fix 2 t, Lit ''h'']
          [Lit ''Execution delay '', Fix 2 (tr_value r), Lit ''h is below P30 ('', Fix 2 t, Lit ''h); its negative sign remains early service.''] (tr_sources r) ''MEDIUM''
          (JObj [(''percentile_method'', JStr ''linear_interpolation''), (''quantile'', JNum (fl (30 / 100))), (''semantics'', JStr ''negative values are early service'')]))
          (filter (\<lambda>r. tr_value r < t) rows))"

definition lead_time_items :: "vessel_call list \<Rightarrow> 'a platform_db_scheme \<Rightarrow> outlier_item list" where
  "lead_time_items calls s =
     high_rule (fl (95 / 100)) (meta ''OUT-V2-006'' time_based ''Anchorage Waiting'' ''Anchorage waiting time exceeds the P95 threshold.'' (Some ''ARRIVAL_INWARD''))
       (lead_time_rows ''Anchorage Wait'' calls s) @
     three_sd_rule (meta ''OUT-V2-010'' time_based ''Mooring Completion'' ''Mooring completion exceeds the historical upper control limit.'' (Some ''ARRIVAL_INWARD''))
       (lead_time_rows ''First Line to All Fast'' calls s) @
     high_rule (fl (90 / 100)) (meta ''OUT-V2-015'' time_based ''Unmooring Duration'' ''Unmooring duration exceeds the P90 threshold.'' (Some ''SAILING_OUTWARD''))
       (lead_time_rows ''Unberthing Duration'' calls s) @
     high_rule (fl (90 / 100)) (meta ''OUT-V2-025'' time_based ''Breakwater In to All Fast'' ''Breakwater-in to all-fast duration exceeds the P90 threshold.''
       (Some ''ARRIVAL_INWARD'')) (lead_time_rows ''Breakwater In to All Fast'' calls s)"

definition event_pairs :: "(string \<times> string \<times> string \<times> string \<times> string \<times> string) list" where
  "event_pairs =
     [(''ALL_FAST_ARRIVAL'', ''CARGO_START'', ''OUT-V2-011'', ''Cargo Start Readiness'', ''Cargo operations started unusually late after all fast.'', ''ARRIVAL_INWARD''),
      (''CARGO_END'', ''PILOT_ON_BOARD_SAILING'', ''OUT-V2-012'', ''Cargo Completion to Sailing Readiness'',
       ''Cargo completion to sailing readiness exceeds the P90 threshold.'', ''SAILING_OUTWARD''),
      (''CARGO_END'', ''LAST_LINE_UNTIED_SAILING'', ''OUT-V2-013'', ''Post-cargo Berth Time'',
       ''The vessel remained at berth unusually long after cargo completion.'', ''SAILING_OUTWARD''),
      (''PILOT_ON_BOARD_ARRIVAL'', ''BREAKWATER_IN'', ''OUT-V2-024'', ''Pilot Boarding to Breakwater In'',
       ''Pilot boarding to breakwater-in duration exceeds the P90 threshold.'', ''ARRIVAL_INWARD''),
      (''BREAKWATER_OUT'', ''PORT_LIMIT_OUT'', ''OUT-V2-026'', ''Breakwater Out to Port Limit Out'',
       ''Breakwater-out to port-limit-out duration exceeds the P90 threshold.'', ''SAILING_OUTWARD''),
      (''FIRST_LINE_TIED_ARRIVAL'', ''LAST_LINE_TIED_ARRIVAL'', ''OUT-V2-042'', ''Line Handling (Berthing)'',
       ''First-line-tied to last-line-tied duration exceeds the P90 threshold.'', ''ARRIVAL_INWARD'')]"

definition pair_items :: "vessel_call list \<Rightarrow> 'a platform_db_scheme \<Rightarrow> outlier_item list" where
  "pair_items calls s = concat (map (\<lambda>(start, end', i, metric, issue, leg).
     high_rule (fl (90 / 100)) (meta i time_based metric issue (Some leg)) (event_pair_rows start end' calls s)) event_pairs)"

definition tug_item :: "vessel_call \<Rightarrow> event_occurrence \<Rightarrow> event_occurrence \<Rightarrow> outlier_item" where
  "tug_item c tug pilot = make_item (meta ''OUT-V2-004'' ''Sequence Outlier'' ''Arrival Tug Sequence'' ''Tug service started before pilot boarding.'' (Some ''ARRIVAL_INWARD''))
     c (Some (raw_hours (eo_utc_value pilot) (eo_utc_value tug))) (Some 0) [Lit ''Tug service start >= pilot on board'']
     [Lit ''The governed tug service start timestamp precedes pilot boarding.''] [eo_id tug, eo_id pilot] ''HIGH''
     (JObj [(''tug_service_start'', JInt (eo_utc_value tug)), (''pilot_on_board'', JInt (eo_utc_value pilot))])"

definition tug_items :: "vessel_call list \<Rightarrow> 'a platform_db_scheme \<Rightarrow> outlier_item list" where
  "tug_items calls s =
     (let names = [''PILOT_ON_BOARD_ARRIVAL'', ''TUG_1_SERVICE_START_ARRIVAL'', ''TUG_2_SERVICE_START_ARRIVAL'']; ev = events_by_name calls names s
      in concat (map (\<lambda>c. List.map_filter (\<lambda>nm. case (ev (vc_id c, ''PILOT_ON_BOARD_ARRIVAL''), ev (vc_id c, nm)) of
           (Some pilot, Some tug) \<Rightarrow> if eo_utc_value tug < eo_utc_value pilot then Some (tug_item c tug pilot) else None
         | _ \<Rightarrow> None) (tl names)) calls))"

definition shift_item :: "vessel_call \<Rightarrow> event_occurrence list \<Rightarrow> outlier_item" where
  "shift_item c es = make_item (meta ''OUT-V2-028'' performance ''Berth Shifts'' ''Multiple berth shifts were recorded in one vessel call.'' (Some ''SHIFTING''))
     c (Some (of_nat (length es))) (Some 1) [Lit ''More than 1 shifting movement'']
     [NatF (length es), Lit '' governed shifting movements were found for the vessel call.''] (map eo_id es) ''MEDIUM'' (JObj [])"

definition shift_items :: "vessel_call list \<Rightarrow> 'a platform_db_scheme \<Rightarrow> outlier_item list result" where
  "shift_items calls s =
     and_then (one_or_none (filter (\<lambda>d. ed_name d = ''PILOT_ON_BOARD_SHIFTING'') (event_definitions s))) (\<lambda>found. Inr (case found of
       None \<Rightarrow> []
     | Some d \<Rightarrow> List.map_filter (\<lambda>(i, es). if 1 < length es then map_option (\<lambda>c. shift_item c es) (call_named calls i) else None)
         (group_by eo_vessel_call_id (filter (\<lambda>e. call_named calls (eo_vessel_call_id e) \<noteq> None \<and> eo_event_definition_id e = ed_id d \<and>
            \<not> eo_is_quarantined e \<and> \<not> eo_is_superseded e) (event_occurrences s)))))"

definition variance_rows :: "vessel_call list \<Rightarrow> 'a platform_db_scheme \<Rightarrow> timed_row list" where
  "variance_rows calls s = map (\<lambda>r. r\<lparr>tr_value := \<bar>tr_value r\<bar>\<rparr>) (event_pair_rows ''ETD'' ''ATD'' calls s)"

definition found_items :: "string \<Rightarrow> 'a platform_db_scheme \<Rightarrow> outlier_item list result" where
  "found_items tenant s =
     (let calls = scoped_calls tenant s; pilots = pilot_rows calls s
      in and_then (shift_items calls s) (\<lambda>shifts. Inr (
        high_rule (fl (90 / 100)) (meta ''OUT-V2-001'' time_based ''Vessel Turnaround'' ''Vessel turnaround time exceeds the P90 threshold.'' None)
          (lead_time_rows ''Turnaround'' calls s) @
        three_sd_rule (meta ''OUT-V2-002'' time_based ''Pilot Boarding Execution Delay''
          ''Pilot boarding delay exceeds the historical average by three standard deviations.'' None) pilots @
        early_items pilots @ lead_time_items calls s @ pair_items calls s @ tug_items calls s @ shifts @
        high_rule (fl (90 / 100)) (meta ''OUT-V2-034'' performance ''Planned vs Actual Sailing Variance''
          ''Planned versus actual sailing variance exceeds the P90 threshold.'' (Some ''SAILING_OUTWARD'')) (variance_rows calls s) @
        quality_outliers calls s)))"

definition outlier_categories :: "string list" where
  "outlier_categories = [''Time-based Outlier'', ''Sequence Outlier'', ''Resource Utilization Outlier'', ''Data Quality Outlier'', ''Operational Performance Outlier'']"

definition item_key :: "outlier_item \<Rightarrow> string \<times> uid" where
  "item_key x = (oi_rule_id x, vc_id (oi_call x))"

text \<open>A later item of a rule and call replaces an earlier one in its place.\<close>

definition unique_items :: "outlier_item list \<Rightarrow> outlier_item list" where
  "unique_items xs = map snd (fold (\<lambda>x. AList.update (item_key x) x) xs [])"

definition detect_outliers :: "string \<Rightarrow> 'a platform_db_scheme \<Rightarrow> outlier_item list result" where
  "detect_outliers tenant s = and_then (found_items tenant s) (\<lambda>xs.
     case find (\<lambda>x. \<not> List.member outlier_categories (oi_category x)) xs of
       Some x \<Rightarrow> Inl (ValueError [Lit ''Unsupported FRD v2 category: '', Str (oi_category x)])
     | None \<Rightarrow> Inr (unique_items xs))"

definition record_key :: "outlier_record \<Rightarrow> string option \<times> uid" where
  "record_key r = (or_rule_id r, or_vessel_call_id r)"

definition exclusion_of :: "string \<Rightarrow> 'a platform_db_scheme \<Rightarrow> outlier_item \<Rightarrow> bool \<times> string option" where
  "exclusion_of tenant s x = (case last_with (\<lambda>r. or_tenant_id r = tenant \<and> record_key r = (Some (oi_rule_id x), vc_id (oi_call x))) (outlier_records s) of
     Some r \<Rightarrow> (or_is_excluded_from_kpi r, or_exclusion_rationale r) | None \<Rightarrow> (False, None))"

definition stored_outlier :: "uid \<Rightarrow> string \<Rightarrow> time \<Rightarrow> bool \<times> string option \<Rightarrow> outlier_item \<Rightarrow> outlier_record" where
  "stored_outlier i tenant now ex x = \<lparr>or_id = i, or_tenant_id = tenant, or_vessel_call_id = vc_id (oi_call x),
     or_vcn = (case truthy (vc_vcn (oi_call x)) of Some v \<Rightarrow> v | None \<Rightarrow> ''UNKNOWN''), or_outlier_type = oi_category x, or_rule_id = Some (oi_rule_id x),
     or_metric_name = oi_metric x, or_observed_value = oi_observed x, or_benchmark_or_p90 = oi_threshold x, or_divergence = oi_divergence x,
     or_severity = oi_severity x, or_evidence = oi_evidence x, or_issue_text = Some (oi_issue x), or_threshold_label = Some (oi_threshold_label x),
     or_reason = Some (oi_reason x), or_movement_leg = oi_leg x, or_source_record_ids = Some (oi_sources x), or_is_excluded_from_kpi = fst ex,
     or_exclusion_rationale = snd ex, or_detected_at = Some now\<rparr>"

definition replace_outliers :: "(nat \<Rightarrow> uid) \<Rightarrow> time \<Rightarrow> string \<Rightarrow> outlier_item list \<Rightarrow> 'a platform_db_scheme \<Rightarrow> 'a platform_db_scheme" where
  "replace_outliers uuid now tenant xs s =
     s\<lparr>outlier_records := filter (\<lambda>r. or_tenant_id r \<noteq> tenant) (outlier_records s) @
          map (\<lambda>(n, x). stored_outlier (uuid n) tenant now (exclusion_of tenant s x) x) (enumerate (draws s) xs),
       draws := draws s + length xs\<rparr>"

definition detect_all_outliers ::
    "(nat \<Rightarrow> uid) \<Rightarrow> time \<Rightarrow> string \<Rightarrow> bool \<Rightarrow> 'a platform_db_scheme \<Rightarrow> (outlier_item list \<times> 'a platform_db_scheme) result" where
  "detect_all_outliers uuid now tenant persist s =
     and_then (detect_outliers tenant s) (\<lambda>xs. Inr (xs, if persist then replace_outliers uuid now tenant xs s else s))"

section \<open>Exclusions\<close>

definition bool_text :: "bool \<Rightarrow> fstring" where
  "bool_text b = [Js (JBool b)]"

definition exclusion_audit :: "string \<Rightarrow> string \<Rightarrow> bool \<Rightarrow> string \<Rightarrow> outlier_record \<Rightarrow> audit_event" where
  "exclusion_audit tenant actor excluded rationale r = \<lparr>au_action = ''TOGGLE_OUTLIER_EXCLUSION'', au_actor_id = actor, au_actor_role = ''data_steward'',
     au_resource_type = ''outlier_record'', au_resource_id = or_id r,
     au_details = [(''tenant_id'', [Str tenant]), (''vcn'', [Str (or_vcn r)]), (''rule_id'', [OStr (or_rule_id r)]), (''metric_name'', [Str (or_metric_name r)]),
       (''previous_excluded'', bool_text (or_is_excluded_from_kpi r)), (''new_excluded'', bool_text excluded), (''rationale'', [Str rationale])]\<rparr>"

definition toggle_outlier_exclusion ::
    "string \<Rightarrow> uid \<Rightarrow> bool \<Rightarrow> string \<Rightarrow> string \<Rightarrow> 'a platform_db_scheme \<Rightarrow> (outlier_record \<times> 'a platform_db_scheme) result" where
  "toggle_outlier_exclusion tenant i excluded rationale actor s =
     and_then (one_or_none (filter (\<lambda>r. or_id r = i \<and> or_tenant_id r = tenant) (outlier_records s))) (\<lambda>found.
       case found of
         None \<Rightarrow> Inl (ValueError [Lit ''Outlier record '', Str i, Lit '' not found''])
       | Some r \<Rightarrow> (let r' = r\<lparr>or_is_excluded_from_kpi := excluded, or_exclusion_rationale := Some rationale\<rparr>
           in Inr (r', add_audit (exclusion_audit tenant actor excluded rationale r)
                (s\<lparr>outlier_records := upd_by or_id i (\<lambda>x. r') (outlier_records s)\<rparr>))))"

section \<open>Listing\<close>

definition is_legacy :: "outlier_record \<Rightarrow> bool" where
  "is_legacy r \<longleftrightarrow> or_outlier_type r = ''OPERATIONAL_OUTLIER'' \<and> or_metric_name r = ''Turnaround'' \<and> truthy (or_rule_id r) = None"

definition presented_category :: "string \<Rightarrow> string \<Rightarrow> string" where
  "presented_category ty metric = (if ty = ''OPERATIONAL_OUTLIER'' \<and> metric = ''Turnaround'' then time_based else ty)"

definition type_matches :: "string \<Rightarrow> outlier_record \<Rightarrow> bool" where
  "type_matches ty r \<longleftrightarrow> or_outlier_type r = ty \<or> (ty = time_based \<and> or_outlier_type r = ''OPERATIONAL_OUTLIER'' \<and> or_metric_name r = ''Turnaround'')"

definition selected_records :: "string \<Rightarrow> string option \<Rightarrow> string option \<Rightarrow> bool option \<Rightarrow> string option \<Rightarrow> 'a platform_db_scheme \<Rightarrow>
    (outlier_record \<times> string option) list" where
  "selected_records tenant ty severity excluded vcn s =
     (let rows = filter (\<lambda>r. or_tenant_id r = tenant) (outlier_records s);
          rows = opt_filter type_matches ty rows; rows = opt_filter (\<lambda>x r. or_severity r = x) severity rows;
          rows = (case excluded of Some b \<Rightarrow> filter (\<lambda>r. or_is_excluded_from_kpi r = b) rows | None \<Rightarrow> rows);
          rows = opt_filter (\<lambda>x r. or_vcn r = x) vcn rows;
          joined = List.map_filter (\<lambda>r. map_option (\<lambda>v. (r, vc_vessel_name v))
            (last_with (\<lambda>v. vc_id v = or_vessel_call_id r \<and> vc_tenant_id v = tenant) (vessel_calls s))) rows;
          by_divergence = filter (\<lambda>(r, n). or_divergence r = None) joined @
            sorted_by_desc (\<lambda>(r, n). case or_divergence r of Some d \<Rightarrow> d | None \<Rightarrow> 0) (filter (\<lambda>(r, n). or_divergence r \<noteq> None) joined)
      in sorted_by_desc (\<lambda>(r, n). or_severity r) by_divergence)"

text \<open>The sources of a legacy row: those of the call's turnaround results, the latest first.\<close>

definition legacy_lineage :: "uid \<Rightarrow> 'a platform_db_scheme \<Rightarrow> string list" where
  "legacy_lineage c s =
     (let turnarounds = filter (\<lambda>d. ld_name d = ''Turnaround'') (lead_time_definitions s);
          results = filter (\<lambda>r. lt_vessel_call_id r = c \<and> List.member (map ld_id turnarounds) (lt_definition_id r)) (lead_time_results s);
          undated = filter (\<lambda>r. lt_calculated_at r = None) results;
          dated = sorted_by_desc (\<lambda>r. case lt_calculated_at r of Some t \<Rightarrow> t | None \<Rightarrow> 0) (filter (\<lambda>r. lt_calculated_at r \<noteq> None) results)
      in fold (\<lambda>i xs. if List.member xs i then xs else xs @ [i])
           (concat (map (\<lambda>r. case lt_source_record_ids r of Some ids \<Rightarrow> ids | None \<Rightarrow> []) (undated @ dated))) [])"

definition or_text :: "fstring option \<Rightarrow> bool \<Rightarrow> string \<Rightarrow> fstring option" where
  "or_text v legacy fallback = (case v of Some (f # fs) \<Rightarrow> Some (f # fs) | _ \<Rightarrow> if legacy then Some [Lit fallback] else None)"

text \<open>A row as it is shown: with its category, texts and sources, the vessel's name and the legacy mark.\<close>

definition present_outlier :: "'a platform_db_scheme \<Rightarrow> outlier_record \<times> string option \<Rightarrow> outlier_record \<times> string option \<times> bool" where
  "present_outlier s rn =
     (let (r, nm) = rn; legacy = is_legacy r; native = (case or_source_record_ids r of Some ids \<Rightarrow> ids | None \<Rightarrow> [])
      in (r\<lparr>or_outlier_type := presented_category (or_outlier_type r) (or_metric_name r),
            or_issue_text := (case truthy (or_issue_text r) of Some t \<Rightarrow> Some t
              | None \<Rightarrow> if legacy then Some ''Vessel turnaround time exceeded the historical outlier threshold.'' else None),
            or_threshold_label := or_text (or_threshold_label r) legacy ''Historical threshold'',
            or_reason := or_text (or_reason r) legacy ''Flagged by the legacy outlier rule used when this dataset was processed.'',
            or_movement_leg := (case truthy (or_movement_leg r) of Some t \<Rightarrow> Some t | None \<Rightarrow> if legacy then Some ''Unavailable / Legacy record'' else None),
            or_source_record_ids := Some (if native \<noteq> [] then native else if legacy then legacy_lineage (or_vessel_call_id r) s else [])\<rparr>, nm, legacy))"

definition list_outliers :: "string \<Rightarrow> string option \<Rightarrow> string option \<Rightarrow> bool option \<Rightarrow> string option \<Rightarrow> 'a platform_db_scheme \<Rightarrow>
    (outlier_record \<times> string option \<times> bool) list" where
  "list_outliers tenant ty severity excluded vcn s = map (present_outlier s) (selected_records tenant ty severity excluded vcn s)"

end
