(* ===== verification/OutlierFacts.thy ===== *)
theory OutlierFacts
  imports Outliers KpiService
begin

text \<open>
  What the outlier engine guarantees: every item has a category of the catalogue, a detection rewrites the tenant's
  records and nothing else, keeps the stewards' exclusions and finds the same again; and what an exclusion does to the
  KPIs, namely nothing.
\<close>

section \<open>Categories\<close>

lemma category_simps [simp]:
  "oi_category (make_item rm c x t l r srcs sev ev) = rm_category rm" "oi_rule_id (make_item rm c x t l r srcs sev ev) = rm_rule_id rm"
  "oi_call (make_item rm c x t l r srcs sev ev) = c" "rm_category (meta i cat m iss leg) = cat"
  by (simp_all add: make_item_def meta_def)

definition categorised :: "outlier_item list \<Rightarrow> bool" where
  "categorised xs \<longleftrightarrow> list_all (\<lambda>x. List.member outlier_categories (oi_category x)) xs"

lemma categorised_append [simp]: "categorised (xs @ ys) \<longleftrightarrow> categorised xs \<and> categorised ys"
  by (simp add: categorised_def)

lemma categorised_nil [simp]: "categorised []"
  by (simp add: categorised_def)

lemma categorised_concat: "(\<And>x. x \<in> set xs \<Longrightarrow> categorised (f x)) \<Longrightarrow> categorised (concat (map f xs))"
  by (induction xs) auto

lemma known_categories [simp]:
  "time_based \<in> set outlier_categories" "performance \<in> set outlier_categories" "''Sequence Outlier'' \<in> set outlier_categories"
  "''Data Quality Outlier'' \<in> set outlier_categories"
  by (simp_all add: outlier_categories_def time_based_def performance_def)

lemma categorised_high: "List.member outlier_categories (rm_category rm) \<Longrightarrow> categorised (high_rule q rm rows)"
  by (auto simp: high_rule_def high_item_def categorised_def list_all_iff Let_def split: option.splits)

lemma categorised_sd: "List.member outlier_categories (rm_category rm) \<Longrightarrow> categorised (three_sd_rule rm rows)"
  by (auto simp: three_sd_rule_def sd_item_def categorised_def list_all_iff Let_def)

lemma categorised_map_filter: "(\<And>x y. f x = Some y \<Longrightarrow> List.member outlier_categories (oi_category y)) \<Longrightarrow> categorised (List.map_filter f xs)"
  by (induction xs) (auto simp: List.map_filter_def categorised_def split: option.splits)

lemma categorised_quality: "categorised (quality_outliers calls s)"
  unfolding quality_outliers_def
  by (intro categorised_concat categorised_map_filter)
     (auto simp: quality_item_def quality_meta_def Let_def split: option.splits if_splits)

lemma categorised_others:
  "categorised (early_items rows)" "categorised (lead_time_items calls s)" "categorised (pair_items calls s)" "categorised (tug_items calls s)"
  "shift_items calls s = Inr xs \<Longrightarrow> categorised xs"
proof -
  show "categorised (early_items rows)" by (auto simp: early_items_def categorised_def list_all_iff split: option.splits)
  show "categorised (lead_time_items calls s)" by (simp add: lead_time_items_def categorised_high categorised_sd)
  show "categorised (pair_items calls s)" unfolding pair_items_def by (rule categorised_concat) (auto simp: categorised_high)
  show "categorised (tug_items calls s)" unfolding tug_items_def Let_def
    by (intro categorised_concat categorised_map_filter) (auto simp: tug_item_def split: option.splits if_splits)
  show "categorised xs" if "shift_items calls s = Inr xs"
    using that unfolding shift_items_def
    by (auto simp: and_then_Inr_iff shift_item_def intro!: categorised_map_filter split: option.splits if_splits)
qed

lemma found_categorised: "found_items tenant s = Inr xs \<Longrightarrow> categorised xs"
  unfolding found_items_def Let_def
  by (elim and_then_InrE) (auto simp: categorised_high categorised_sd categorised_others categorised_quality)

lemma detect_outliers_eq: "detect_outliers tenant s = and_then (found_items tenant s) (\<lambda>xs. Inr (unique_items xs))"
proof (cases "found_items tenant s")
  case (Inr xs)
  have "find (\<lambda>x. \<not> List.member outlier_categories (oi_category x)) xs = None"
    using found_categorised [OF Inr] by (simp add: categorised_def find_None_iff list_all_iff)
  then show ?thesis using Inr by (simp add: detect_outliers_def)
qed (simp add: detect_outliers_def)

section \<open>One item per rule and call\<close>

definition keyed :: "((string \<times> uid) \<times> outlier_item) list \<Rightarrow> bool" where
  "keyed kvs \<longleftrightarrow> distinct (map fst kvs) \<and> (\<forall>(k, x) \<in> set kvs. item_key x = k)"

lemma keyed_update: "keyed kvs \<Longrightarrow> keyed (AList.update (item_key x) x kvs)"
proof -
  assume k: "keyed kvs"
  have "(k', y) = (item_key x, x) \<or> (k', y) \<in> set kvs" if "(k', y) \<in> set (AList.update (item_key x) x ls)" "set ls \<subseteq> set kvs" for k' y ls
    using that by (induction ls) (auto split: if_splits)
  then show ?thesis using k distinct_update [of kvs "item_key x" x] unfolding keyed_def by fastforce
qed

lemma keyed_run: "keyed kvs \<Longrightarrow> keyed (fold (\<lambda>x. AList.update (item_key x) x) xs kvs)"
  by (induction xs arbitrary: kvs) (simp_all add: keyed_update)

lemma unique_items_distinct: "distinct (map item_key (unique_items xs))"
proof -
  define kvs where "kvs = fold (\<lambda>x. AList.update (item_key x) x) xs []"
  have k: "keyed kvs" unfolding kvs_def by (rule keyed_run) (simp add: keyed_def)
  then have "map (\<lambda>p. item_key (snd p)) kvs = map fst kvs" unfolding keyed_def by (intro map_cong) auto
  then have "map item_key (unique_items xs) = map fst kvs" by (simp add: unique_items_def kvs_def comp_def)
  then show ?thesis using k by (simp add: keyed_def)
qed

section \<open>A detection\<close>

definition records_of :: "string \<Rightarrow> 'a platform_db_scheme \<Rightarrow> outlier_record list" where
  "records_of tenant s = filter (\<lambda>r. or_tenant_id r = tenant) (outlier_records s)"

definition only_outliers :: "'a platform_db_scheme \<Rightarrow> 'a platform_db_scheme \<Rightarrow> bool" where
  "only_outliers s s' \<longleftrightarrow> s' = s\<lparr>outlier_records := outlier_records s', draws := draws s'\<rparr>"

lemma found_items_outliers: "found_items tenant (s\<lparr>outlier_records := x, draws := n\<rparr>) = found_items tenant s"
proof -
  let ?s = "s\<lparr>outlier_records := x, draws := n\<rparr>"
  have rows: "lead_time_rows nm calls ?s = lead_time_rows nm calls s" "pilot_rows calls ?s = pilot_rows calls s"
    "quality_outliers calls ?s = quality_outliers calls s" "scoped_calls tenant ?s = scoped_calls tenant s" "shift_items calls ?s = shift_items calls s" for nm calls
    by (simp_all add: lead_time_rows_def pilot_rows_def quality_outliers_def scoped_calls_def shift_items_def cong: option.case_cong)
  have names: "definition_name nms ?s = definition_name nms s" for nms by (rule ext) (simp add: definition_name_def)
  have ev: "events_by_name calls nms ?s = events_by_name calls nms s" for calls nms
    by (rule ext) (simp add: events_by_name_def names live_named_events_def selected_event_def)
  have "event_pair_rows a b calls ?s = event_pair_rows a b calls s" for a b calls by (simp add: event_pair_rows_def ev)
  then show ?thesis
    by (simp add: found_items_def rows lead_time_items_def pair_items_def tug_items_def ev variance_rows_def)
qed

lemma stored_sel [simp]: "or_tenant_id (stored_outlier i tenant now ex x) = tenant"
  "record_key (stored_outlier i tenant now ex x) = (Some (oi_rule_id x), vc_id (oi_call x))"
  "or_is_excluded_from_kpi (stored_outlier i tenant now ex x) = fst ex" "or_exclusion_rationale (stored_outlier i tenant now ex x) = snd ex"
  by (simp_all add: stored_outlier_def record_key_def)

lemma replaced_records:
  "records_of tenant (replace_outliers uuid now tenant xs s) =
     map (\<lambda>(n, x). stored_outlier (uuid n) tenant now (exclusion_of tenant s x) x) (enumerate (draws s) xs)"
proof -
  have "filter (\<lambda>r. or_tenant_id r = tenant) (map (\<lambda>(n, x). stored_outlier (uuid n) tenant now (exclusion_of tenant s x) x) ps) =
      map (\<lambda>(n, x). stored_outlier (uuid n) tenant now (exclusion_of tenant s x) x) ps" for ps
    by (induction ps) auto
  then show ?thesis by (simp add: records_of_def replace_outliers_def)
qed

text \<open>C28. A detection that is stored rewrites the tenant's outlier records and nothing else: the other tenants' records
  and every other table stay. The tenant then has exactly one record per rule and vessel call, one for each item reported. If
  its records had distinct keys before, a steward's exclusion, with its rationale, is carried over to the new record of
  the same rule and call. Detecting again reports the same items.\<close>

theorem detection_keeps_exclusions:
  assumes "detect_all_outliers uuid now tenant True s = Inr (xs, s')"
  shows "only_outliers s s' \<and> filter (\<lambda>r. or_tenant_id r \<noteq> tenant) (outlier_records s') = filter (\<lambda>r. or_tenant_id r \<noteq> tenant) (outlier_records s) \<and>
    map record_key (records_of tenant s') = map (\<lambda>x. (Some (oi_rule_id x), vc_id (oi_call x))) xs \<and> distinct (map record_key (records_of tenant s')) \<and>
    (distinct (map record_key (records_of tenant s)) \<longrightarrow> list_all (\<lambda>r'. list_all (\<lambda>r. record_key r = record_key r' \<longrightarrow>
       or_is_excluded_from_kpi r' = or_is_excluded_from_kpi r \<and> or_exclusion_rationale r' = or_exclusion_rationale r) (records_of tenant s)) (records_of tenant s')) \<and>
    detect_outliers tenant s' = Inr xs"
proof (intro conjI impI)
  obtain ys where ys: "found_items tenant s = Inr ys" "xs = unique_items ys" and s': "s' = replace_outliers uuid now tenant xs s"
    using assms by (auto simp: detect_all_outliers_def detect_outliers_eq and_then_Inr_iff)
  have recs: "records_of tenant s' = map (\<lambda>(n, x). stored_outlier (uuid n) tenant now (exclusion_of tenant s x) x) (enumerate (draws s) xs)"
    unfolding s' by (rule replaced_records)
  show "only_outliers s s'" by (simp add: only_outliers_def s' replace_outliers_def)
  have "filter (\<lambda>r. or_tenant_id r \<noteq> tenant) (map (\<lambda>(n, x). stored_outlier (uuid n) tenant now (exclusion_of tenant s x) x) ps) = []" for ps
    by (induction ps) auto
  then show "filter (\<lambda>r. or_tenant_id r \<noteq> tenant) (outlier_records s') = filter (\<lambda>r. or_tenant_id r \<noteq> tenant) (outlier_records s)"
    by (simp add: s' replace_outliers_def)
  have "map (\<lambda>(n, x). (Some (oi_rule_id x), vc_id (oi_call x))) ps = map (\<lambda>x. (Some (oi_rule_id x), vc_id (oi_call x))) (map snd ps)" for ps :: "(nat \<times> outlier_item) list"
    by (induction ps) auto
  then show keys: "map record_key (records_of tenant s') = map (\<lambda>x. (Some (oi_rule_id x), vc_id (oi_call x))) xs"
    unfolding recs map_map by (simp add: comp_def split_beta del: map_map) (metis (no_types, lifting) map_map comp_apply map_cong map_snd_enumerate)
  have "distinct (map (\<lambda>k. (Some (fst k), snd k)) (map item_key xs))"
    using unique_items_distinct [of ys] unfolding ys(2) [symmetric] by (subst distinct_map) (auto simp: inj_on_def prod_eq_iff)
  then show "distinct (map record_key (records_of tenant s'))" unfolding keys by (simp add: item_key_def comp_def)
  show "detect_outliers tenant s' = Inr xs"
    unfolding detect_outliers_eq s' replace_outliers_def found_items_outliers using ys by simp
  assume d: "distinct (map record_key (records_of tenant s))"
  have "or_is_excluded_from_kpi r' = or_is_excluded_from_kpi r \<and> or_exclusion_rationale r' = or_exclusion_rationale r"
    if r': "r' \<in> set (records_of tenant s')" and r: "r \<in> set (records_of tenant s)" and k: "record_key r = record_key r'" for r r'
  proof -
    obtain n x where x: "r' = stored_outlier (uuid n) tenant now (exclusion_of tenant s x) x" using r' unfolding recs by auto
    have "last_with (\<lambda>q. or_tenant_id q = tenant \<and> record_key q = (Some (oi_rule_id x), vc_id (oi_call x))) (outlier_records s) =
        last_with (\<lambda>q. record_key q = record_key r) (records_of tenant s)"
      using k by (simp add: x last_with_def records_of_def filter_filter conj_commute)
    also have "\<dots> = Some r" by (rule last_with_key [OF d r])
    finally show ?thesis by (simp add: x exclusion_of_def)
  qed
  then show "list_all (\<lambda>r'. list_all (\<lambda>r. record_key r = record_key r' \<longrightarrow>
       or_is_excluded_from_kpi r' = or_is_excluded_from_kpi r \<and> or_exclusion_rationale r' = or_exclusion_rationale r) (records_of tenant s)) (records_of tenant s')"
    by (auto simp: list_all_iff)
qed

section \<open>What an exclusion changes\<close>

lemma outlier_reads:
  "winner_of (add_audit e (s\<lparr>outlier_records := x\<rparr>)) = winner_of s" "governing g (add_audit e (s\<lparr>outlier_records := x\<rparr>)) = governing g s"
  "arrival_of d v (add_audit e (s\<lparr>outlier_records := x\<rparr>)) = arrival_of d v s" "event_name_of (add_audit e (s\<lparr>outlier_records := x\<rparr>)) = event_name_of s"
  "event_def_id (add_audit e (s\<lparr>outlier_records := x\<rparr>)) = event_def_id s"
proof -
  show win: "winner_of (add_audit e (s\<lparr>outlier_records := x\<rparr>)) = winner_of s" by (simp add: fun_eq_iff winner_of_def)
  show "governing g (add_audit e (s\<lparr>outlier_records := x\<rparr>)) = governing g s" by (simp add: fun_eq_iff governing_def win)
qed (simp_all add: fun_eq_iff arrival_of_def event_name_of_def event_def_id_def)

lemma eligible_outliers:
  fixes s :: "'a platform_db_scheme"
  shows "get_eligible_vessel_calls g fs a b (add_audit e (s\<lparr>outlier_records := x\<rparr>)) = get_eligible_vessel_calls g fs a b s"
  by (simp add: get_eligible_vessel_calls_def outlier_reads cong: if_cong option.case_cong)

lemma load_inputs_outliers:
  fixes s :: "'a platform_db_scheme"
  shows "load_inputs g fs a b (add_audit e (s\<lparr>outlier_records := x\<rparr>)) = load_inputs g fs a b s"
proof -
  have ev: "event_of g (add_audit e (s\<lparr>outlier_records := x\<rparr>)) = event_of g s" by (intro ext) (simp add: event_of_def outlier_reads)
  have sv: "services_of (add_audit e (s\<lparr>outlier_records := x\<rparr>)) = services_of s" by (rule ext) (simp add: services_of_def)
  have sh: "shift_pairs calls (add_audit e (s\<lparr>outlier_records := x\<rparr>)) = shift_pairs calls s" for calls
    by (simp add: shift_pairs_def outlier_reads cong: option.case_cong)
  show ?thesis by (simp add: load_inputs_def eligible_outliers ev sv sh)
qed

text \<open>Excluding an outlier from the KPIs excludes it from nothing: after toggle_outlier_exclusion has set
  is_excluded_from_kpi on a record, the population, the inputs and the value of every KPI, for every filter and
  period, are the same as before. No calculation reads the flag.\<close>

theorem exclusion_never_reaches_kpis:
  assumes "toggle_outlier_exclusion tenant i excluded rationale actor s = Inr (r, s')"
  shows "or_is_excluded_from_kpi r = excluded \<and> get_eligible_vessel_calls g fs a b s' = get_eligible_vessel_calls g fs a b s \<and>
    compute_kpi_value k (load_inputs g fs a b s') = compute_kpi_value k (load_inputs g fs a b s)"
proof -
  obtain e x where s': "s' = add_audit e (s\<lparr>outlier_records := x\<rparr>)" and r: "or_is_excluded_from_kpi r = excluded"
    using assms by (auto simp: toggle_outlier_exclusion_def and_then_Inr_iff Let_def split: option.splits)
  then show ?thesis using r by (simp add: s' eligible_outliers load_inputs_outliers)
qed

section \<open>Witnesses\<close>

definition excludable :: outlier_record where
  "excludable = \<lparr>or_id = ''o'', or_tenant_id = ''t'', or_vessel_call_id = ''c'', or_vcn = ''V1'', or_outlier_type = time_based, or_rule_id = Some ''OUT-V2-001'',
     or_metric_name = ''Vessel Turnaround'', or_observed_value = Some 90, or_benchmark_or_p90 = Some 40, or_divergence = Some 50, or_severity = ''CRITICAL'',
     or_evidence = JObj [], or_issue_text = None, or_threshold_label = None, or_reason = None, or_movement_leg = None, or_source_record_ids = None,
     or_is_excluded_from_kpi = True, or_exclusion_rationale = Some ''dry dock'', or_detected_at = None\<rparr>"

definition outlier_db :: platform_db where
  "outlier_db = (call_db [])\<lparr>outlier_records := [excludable]\<rparr>"

lemma exclusion_never_reaches_kpis_witness:
  "\<exists>r s'. toggle_outlier_exclusion ''t'' ''o'' False ''back'' ''ds'' outlier_db = Inr (r, s') \<and> or_is_excluded_from_kpi r = False \<and>
    (\<forall>k g fs a b. compute_kpi_value k (load_inputs g fs a b s') = compute_kpi_value k (load_inputs g fs a b outlier_db))"
proof -
  obtain r s' where run: "toggle_outlier_exclusion ''t'' ''o'' False ''back'' ''ds'' outlier_db = Inr (r, s')"
    by (simp add: toggle_outlier_exclusion_def outlier_db_def excludable_def one_or_none_def Let_def)
  from exclusion_never_reaches_kpis [OF this] run show ?thesis by blast
qed

lemma detection_keeps_exclusions_witness:
  "\<exists>xs s'. detect_all_outliers sample_ids 0 ''t'' True outlier_db = Inr (xs, s') \<and> only_outliers outlier_db s' \<and> detect_outliers ''t'' s' = Inr xs"
proof -
  have "shift_items calls outlier_db = Inr []" for calls by (simp add: shift_items_def outlier_db_def one_or_none_def)
  then obtain xs s' where "detect_all_outliers sample_ids 0 ''t'' True outlier_db = Inr (xs, s')"
    by (simp add: detect_all_outliers_def detect_outliers_eq found_items_def Let_def)
  from detection_keeps_exclusions [OF this] this show ?thesis by blast
qed

end
