(* ===== verification/Endpoints.thy ===== *)
theory Endpoints
  imports AccessFacts Seeds OutlierFacts Criticality
begin

text \<open>
  The endpoints of alerts, action items, outliers, bottlenecks and criticality (\<open>apps/api/routers/alerts.py\<close>, \<open>outliers.py\<close>,
  \<open>bottlenecks.py\<close>, \<open>criticality.py\<close>): the guard, the tenant of the caller, the check of the request body, and the call of the
  engine with its errors as status codes. The recalculation of bottlenecks, which stores records, is left out.

  The guard reads the clock at places 0 and 1, the engine at place 2.
\<close>

section \<open>From the principal to the engine\<close>

definition tenant_principal :: "user_principal \<Rightarrow> principal" where
  "tenant_principal p = \<lparr>pr_tenant_id = Some (sc_tenant_id (pn_data_scope p)), pr_is_synthetic = pn_is_synthetic p\<rparr>"

definition tenant_denial :: "request_error \<Rightarrow> denial" where
  "tenant_denial e = (case e of Http st m \<Rightarrow> Denied st '''' m | Raised x \<Rightarrow> Crashed x | Runtime_error m \<Rightarrow> Crashed (ValueError m))"

text \<open>\<open>principal.email or default\<close>.\<close>

definition actor_of :: "user_principal \<Rightarrow> string \<Rightarrow> string" where
  "actor_of p d = (if pn_email p = '''' then d else pn_email p)"

definition in_tenant :: "settings \<Rightarrow> user_principal \<Rightarrow> string option \<Rightarrow> (string \<Rightarrow> 's \<Rightarrow> 's \<times> (denial + 'b)) \<Rightarrow> 's \<Rightarrow> 's \<times> (denial + 'b)" where
  "in_tenant cf p requested body s = (case resolve_principal_tenant cf (tenant_principal p) requested of
       Inl e \<Rightarrow> (s, Inl (tenant_denial e))
     | Inr tenant \<Rightarrow> body tenant s)"

text \<open>\<open>except ValueError\<close> becomes status 404; another exception reaches the server.\<close>

definition or_404 :: "'s \<Rightarrow> ('b \<times> 's) result \<Rightarrow> 's \<times> (denial + 'b)" where
  "or_404 s m = (case m of
       Inr (x, s') \<Rightarrow> (s', Inr x)
     | Inl (ValueError t) \<Rightarrow> (s, Inl (Denied 404 '''' t))
     | Inl e \<Rightarrow> (s, Inl (Crashed e)))"

definition silent :: "'s result \<Rightarrow> (unit \<times> 's) result" where
  "silent m = and_then m (\<lambda>s. Inr ((), s))"

definition uncaught :: "'s \<Rightarrow> ('b \<times> 's) result \<Rightarrow> 's \<times> (denial + 'b)" where
  "uncaught s m = (case m of Inr (x, s') \<Rightarrow> (s', Inr x) | Inl e \<Rightarrow> (s, Inl (Crashed e)))"

text \<open>A request body that fails its declared checks is refused with status 422.\<close>

definition checked :: "bool \<Rightarrow> ('s \<Rightarrow> 's \<times> (denial + 'b)) \<Rightarrow> 's \<Rightarrow> 's \<times> (denial + 'b)" where
  "checked ok body s = (if ok then body s else (s, Inl (Denied 422 '''' [])))"

section \<open>Alerts\<close>

definition list_alerts_endpoint ::
    "auth_env \<Rightarrow> settings \<Rightarrow> (nat \<Rightarrow> time) \<Rightarrow> request_info \<Rightarrow> string option \<Rightarrow> string option \<Rightarrow> string option \<Rightarrow> string option \<Rightarrow> nat \<Rightarrow>
     'a access_db_scheme \<Rightarrow> 'a access_db_scheme \<times> (denial + (operational_alert \<times> nat) list)" where
  "list_alerts_endpoint env cf clk rq status severity rule_code vcn limit =
     protected ''view'' ''operations'' env cf clk rq (\<lambda>p. checked (1 \<le> limit \<and> limit \<le> 500)
       (in_tenant cf p None (\<lambda>tenant s. (s, Inr (list_alerts status severity rule_code vcn limit s)))))"

definition evaluate_alerts_endpoint ::
    "auth_env \<Rightarrow> settings \<Rightarrow> (nat \<Rightarrow> uid) \<Rightarrow> (nat \<Rightarrow> time) \<Rightarrow> request_info \<Rightarrow> 'a access_db_scheme \<Rightarrow> 'a access_db_scheme \<times> (denial + (operational_alert \<times> nat) list)" where
  "evaluate_alerts_endpoint env cf uuid clk rq = protected ''manage'' ''operations'' env cf clk rq (\<lambda>p. in_tenant cf p None (\<lambda>tenant s.
     uncaught s (and_then (evaluate_rules uuid (clk 2) (s\<lparr>open_alerts := None\<rparr>)) (\<lambda>(s', xs). Inr (xs, s')))))"

definition acknowledge_alert_endpoint ::
    "auth_env \<Rightarrow> settings \<Rightarrow> (nat \<Rightarrow> time) \<Rightarrow> request_info \<Rightarrow> uid \<Rightarrow> 'a access_db_scheme \<Rightarrow> 'a access_db_scheme \<times> (denial + unit)" where
  "acknowledge_alert_endpoint env cf clk rq i = protected ''manage'' ''operations'' env cf clk rq (\<lambda>p. in_tenant cf p None (\<lambda>tenant s.
     or_404 s (silent (acknowledge_alert (clk 2) i (actor_of p ''operator'') s))))"

definition resolve_alert_endpoint ::
    "auth_env \<Rightarrow> settings \<Rightarrow> (nat \<Rightarrow> time) \<Rightarrow> request_info \<Rightarrow> uid \<Rightarrow> string \<Rightarrow> 'a access_db_scheme \<Rightarrow> 'a access_db_scheme \<times> (denial + unit)" where
  "resolve_alert_endpoint env cf clk rq i notes = protected ''manage'' ''operations'' env cf clk rq (\<lambda>p. checked (3 \<le> length notes)
     (in_tenant cf p None (\<lambda>tenant s. or_404 s (silent (resolve_alert (clk 2) i notes (actor_of p ''operator'') s)))))"

definition list_action_items_endpoint ::
    "auth_env \<Rightarrow> settings \<Rightarrow> (nat \<Rightarrow> time) \<Rightarrow> request_info \<Rightarrow> string option \<Rightarrow> 'a access_db_scheme \<Rightarrow> 'a access_db_scheme \<times> (denial + action_item list)" where
  "list_action_items_endpoint env cf clk rq status = protected ''view'' ''operations'' env cf clk rq (\<lambda>p. in_tenant cf p None (\<lambda>tenant s.
     (s, Inr (list_action_items status s))))"

record action_request =
  aq_title :: string
  aq_description :: string
  aq_assigned_to :: "string option"
  aq_due_date :: "time option"
  aq_priority :: string
  aq_alert_id :: "uid option"
  aq_vessel_call_id :: "uid option"

definition create_action_item_endpoint ::
    "auth_env \<Rightarrow> settings \<Rightarrow> (nat \<Rightarrow> uid) \<Rightarrow> (nat \<Rightarrow> time) \<Rightarrow> request_info \<Rightarrow> action_request \<Rightarrow> 'a access_db_scheme \<Rightarrow> 'a access_db_scheme \<times> (denial + unit)" where
  "create_action_item_endpoint env cf uuid clk rq a = protected ''manage'' ''operations'' env cf clk rq (\<lambda>p.
     checked (3 \<le> length (aq_title a) \<and> List.member [''LOW'', ''MEDIUM'', ''HIGH'', ''URGENT''] (aq_priority a)) (in_tenant cf p None (\<lambda>tenant s.
       ((create_action_item (uuid (draws s)) (clk 2) (aq_title a) (aq_description a) (aq_assigned_to a) (aq_due_date a) (aq_priority a) (aq_alert_id a)
           (aq_vessel_call_id a) (actor_of p ''operator'') s)\<lparr>draws := draws s + 1\<rparr>, Inr ()))))"

definition update_action_item_endpoint ::
    "auth_env \<Rightarrow> settings \<Rightarrow> (nat \<Rightarrow> time) \<Rightarrow> request_info \<Rightarrow> uid \<Rightarrow> string option \<Rightarrow> string option \<Rightarrow> 'a access_db_scheme \<Rightarrow> 'a access_db_scheme \<times> (denial + unit)" where
  "update_action_item_endpoint env cf clk rq i status comment = protected ''manage'' ''operations'' env cf clk rq (\<lambda>p.
     checked (case status of Some x \<Rightarrow> List.member [''OPEN'', ''IN_PROGRESS'', ''COMPLETED'', ''CANCELLED''] x | None \<Rightarrow> True) (in_tenant cf p None (\<lambda>tenant s.
       or_404 s (silent (update_action_item (clk 2) i status comment (actor_of p ''operator'') s)))))"

section \<open>Outliers\<close>

definition list_outliers_endpoint ::
    "auth_env \<Rightarrow> settings \<Rightarrow> (nat \<Rightarrow> time) \<Rightarrow> request_info \<Rightarrow> string option \<Rightarrow> string option \<Rightarrow> bool option \<Rightarrow> string option \<Rightarrow>
     'a access_db_scheme \<Rightarrow> 'a access_db_scheme \<times> (denial + (outlier_record \<times> string option \<times> bool) list)" where
  "list_outliers_endpoint env cf clk rq ty severity excluded vcn = protected ''view'' ''analytics'' env cf clk rq (\<lambda>p. in_tenant cf p None (\<lambda>tenant s.
     (s, Inr (list_outliers tenant ty severity excluded vcn s))))"

definition detect_outliers_endpoint ::
    "auth_env \<Rightarrow> settings \<Rightarrow> (nat \<Rightarrow> uid) \<Rightarrow> (nat \<Rightarrow> time) \<Rightarrow> request_info \<Rightarrow> 'a access_db_scheme \<Rightarrow> 'a access_db_scheme \<times> (denial + outlier_item list)" where
  "detect_outliers_endpoint env cf uuid clk rq = protected ''manage'' ''analytics'' env cf clk rq (\<lambda>p. in_tenant cf p None (\<lambda>tenant s.
     uncaught s (detect_all_outliers uuid (clk 2) tenant True s)))"

definition toggle_outlier_endpoint ::
    "auth_env \<Rightarrow> settings \<Rightarrow> (nat \<Rightarrow> time) \<Rightarrow> request_info \<Rightarrow> uid \<Rightarrow> bool \<Rightarrow> string \<Rightarrow> 'a access_db_scheme \<Rightarrow> 'a access_db_scheme \<times> (denial + outlier_record)" where
  "toggle_outlier_endpoint env cf clk rq i excluded rationale = protected ''manage'' ''analytics'' env cf clk rq (\<lambda>p. checked (3 \<le> length rationale)
     (in_tenant cf p None (\<lambda>tenant s. or_404 s (toggle_outlier_exclusion tenant i excluded rationale (actor_of p ''data_steward'') s))))"

section \<open>Bottlenecks and criticality\<close>

definition get_bottlenecks_endpoint ::
    "auth_env \<Rightarrow> settings \<Rightarrow> (nat \<Rightarrow> time) \<Rightarrow> request_info \<Rightarrow> 'a access_db_scheme \<Rightarrow> 'a access_db_scheme \<times> (denial + candidate list)" where
  "get_bottlenecks_endpoint env cf clk rq = protected ''view'' ''analytics'' env cf clk rq (\<lambda>p. in_tenant cf p None (\<lambda>tenant s.
     uncaught s (and_then (calculate_bottlenecks [] False (lead_time_definitions s) (lead_time_results s) s []) (\<lambda>(cs, _). Inr (cs, s)))))"

definition criticality_endpoint ::
    "auth_env \<Rightarrow> settings \<Rightarrow> (nat \<Rightarrow> time) \<Rightarrow> request_info \<Rightarrow> 'a access_db_scheme \<Rightarrow> 'a access_db_scheme \<times> (denial + stage_criticality list)" where
  "criticality_endpoint env cf clk rq = protected ''view'' ''analytics'' env cf clk rq (\<lambda>p. in_tenant cf p None (\<lambda>tenant s.
     uncaught s (and_then (evaluate_all_stages (lead_time_definitions s) (lead_time_results s)) (\<lambda>xs. Inr (xs, s)))))"

definition custom_criticality_endpoint ::
    "auth_env \<Rightarrow> settings \<Rightarrow> (nat \<Rightarrow> time) \<Rightarrow> request_info \<Rightarrow> rat \<Rightarrow> rat \<Rightarrow> rat \<Rightarrow> (string \<times> rat) list option \<Rightarrow> 'a access_db_scheme \<Rightarrow>
     'a access_db_scheme \<times> (denial + crit_scores)" where
  "custom_criticality_endpoint env cf clk rq hours cv tail weights = protected ''view'' ''analytics'' env cf clk rq (\<lambda>p.
     checked (0 \<le> hours \<and> 0 \<le> cv \<and> 0 \<le> tail) (in_tenant cf p None (\<lambda>tenant s.
       uncaught s (and_then (compute_component_scores hours cv tail weights) (\<lambda>x. Inr (x, s))))))"

section \<open>Who may manage\<close>

text \<open>What a refused request leaves alone.\<close>

definition operations_untouched :: "'a access_db_scheme \<Rightarrow> 'a access_db_scheme \<Rightarrow> bool" where
  "operations_untouched s s' \<longleftrightarrow> s' = s\<lparr>sessions := sessions s', request_log := request_log s'\<rparr>"

lemma untouched_parts [simp]:
  "operations_untouched s s" "operations_untouched s (upd_session j f s)"
  by (simp_all add: operations_untouched_def upd_session_def)

lemma untouched_log:
  assumes "operations_untouched s s'" shows "operations_untouched s (log_row r s')"
proof -
  obtain a b where "s' = s\<lparr>sessions := a, request_log := b\<rparr>" using assms unfolding operations_untouched_def by blast
  then show ?thesis by (simp add: operations_untouched_def log_row_def)
qed

lemma principal_untouched: "operations_untouched s (fst (get_current_principal env cf clk rq s))"
proof -
  have "operations_untouched s (fst (is_session_active cf now i s))" for now i
    by (simp add: is_session_active_def split: option.split)
  then show ?thesis using principal_state [of env cf clk rq s] by (elim disjE exE) simp_all
qed

lemma require_untouched: "operations_untouched s (fst (require perm res env cf clk rq s))"
  using principal_untouched [of s env cf clk rq] by (auto simp: require_def untouched_log split: prod.splits sum.splits)

lemma refused:
  assumes "\<And>s' q. get_current_principal env cf clk rq s = (s', Inr q) \<Longrightarrow> \<not> has_permission q permission"
  shows "\<exists>s' e. protected permission resource env cf clk rq body s = (s', Inl e) \<and> operations_untouched s s'"
  using assms require_untouched [of s permission "Some resource" env cf clk rq]
  by (cases "get_current_principal env cf clk rq s" rule: prod.exhaust; cases "snd (get_current_principal env cf clk rq s)")
     (auto simp: protected_def require_def)

definition is_refused :: "'a access_db_scheme \<Rightarrow> 'a access_db_scheme \<times> (denial + 'b) \<Rightarrow> bool" where
  "is_refused s m \<longleftrightarrow> (\<exists>e. snd m = Inl e) \<and> operations_untouched s (fst m)"

lemma no_manage:
  assumes "''manage'' \<notin> actions s0" "ae_decode env (clk 0) t = Inr c" "token_of rq = Some t" "\<not> (t = ''dev-token'' \<and> cf_environment cf = ''development'')"
    and "set (claim (tp_permissions c) []) \<subseteq> actions (seed_installation env cf uuid es specs s0)" "''Platform Administrator'' \<notin> set (claim (tp_roles c) [])"
  shows "is_refused s (protected ''manage'' resource env cf clk rq body s)"
proof -
  have "''manage'' \<notin> set seeded_actions" by (simp add: seeded_actions_def)
  then have "''manage'' \<notin> set (claim (tp_permissions c) [])" using assms(1,5) by (auto simp: seeded_installation_actions)
  moreover have "\<exists>sc. q = principal_of_claims c sc" if "get_current_principal env cf clk rq s = (s', Inr q)" for s' q
    using principal_admitted [OF that] assms(2-4) by auto
  ultimately have deny: "\<And>s' q. get_current_principal env cf clk rq s = (s', Inr q) \<Longrightarrow> \<not> has_permission q ''manage''"
    using assms(6) by (fastforce simp: has_permission_def principal_of_claims_def)
  have "\<exists>s' e. protected ''manage'' resource env cf clk rq body s = (s', Inl e) \<and> operations_untouched s s'"
    by (rule refused) (rule deny)
  then show ?thesis by (auto simp: is_refused_def)
qed

text \<open>C17. The alert, action and outlier operations need the permission "manage", which the seed does not know: on an installation
  seeded from the shipped or any other role file, no user and no service account whose roles do not include Platform
  Administrator can evaluate, acknowledge or resolve an alert, create or update an action item, or detect or exclude outliers. Each
  attempt is refused and leaves every table but the sessions and the request log alone.\<close>

theorem only_administrators_manage:
  assumes "''manage'' \<notin> actions s0" "ae_decode env (clk 0) t = Inr c" "token_of rq = Some t" "\<not> (t = ''dev-token'' \<and> cf_environment cf = ''development'')"
    and "seeded = seed_installation env cf uuid es specs s0" "''Platform Administrator'' \<notin> set (claim (tp_roles c) [])"
    and "tp_permissions c = Some (permissions_of_user u seeded) \<or> tp_permissions c = Some (actions_of_role i seeded)"
  shows "is_refused s (evaluate_alerts_endpoint env cf uuid clk rq s) \<and> is_refused s (acknowledge_alert_endpoint env cf clk rq x s) \<and>
    is_refused s (resolve_alert_endpoint env cf clk rq x notes s) \<and> is_refused s (create_action_item_endpoint env cf uuid clk rq a s) \<and>
    is_refused s (update_action_item_endpoint env cf clk rq x status comment s) \<and> is_refused s (detect_outliers_endpoint env cf uuid clk rq s) \<and>
    is_refused s (toggle_outlier_endpoint env cf clk rq x excluded rationale s)"
proof -
  have "set (claim (tp_permissions c) []) \<subseteq> actions (seed_installation env cf uuid es specs s0)"
    using assms(5,7) user_permissions_known [of u seeded] role_permissions_known [of i seeded] by (auto simp: claim_def)
  note refuse = no_manage [where clk = clk, OF assms(1-4) this assms(6)]
  show ?thesis
    unfolding evaluate_alerts_endpoint_def acknowledge_alert_endpoint_def resolve_alert_endpoint_def create_action_item_endpoint_def
      update_action_item_endpoint_def detect_outliers_endpoint_def toggle_outlier_endpoint_def
    by (intro conjI refuse)
qed

section \<open>Tenants\<close>

lemma protected_ok:
  assumes "protected perm res env cf clk rq body s = (s', Inr x)"
  obtains q s1 where "require perm (Some res) env cf clk rq s = (s1, Inr q)" "body q s1 = (s', Inr x)"
  using assms by (auto simp: protected_def split: prod.splits sum.splits)

lemma in_tenant_ok: "in_tenant cf p requested body s = (s', Inr x) \<Longrightarrow> \<exists>tenant. body tenant s = (s', Inr x)"
  by (auto simp: in_tenant_def split: sum.splits)

lemma list_alerts_ok:
  assumes "list_alerts_endpoint env cf clk rq status severity rule_code vcn limit s = (s', Inr xs)"
  shows "xs = list_alerts status severity rule_code vcn limit s"
proof -
  obtain q s1 where s1: "require ''view'' (Some ''operations'') env cf clk rq s = (s1, Inr q)"
    and "checked (1 \<le> limit \<and> limit \<le> 500) (in_tenant cf q None (\<lambda>tenant s. (s, Inr (list_alerts status severity rule_code vcn limit s)))) s1 = (s', Inr xs)"
    using assms unfolding list_alerts_endpoint_def by (elim protected_ok)
  then have xs: "xs = list_alerts status severity rule_code vcn limit s1"
    by (auto simp: checked_def dest!: in_tenant_ok split: if_splits)
  have "operations_untouched s s1" using require_untouched [of s "''view''" "Some ''operations''" env cf clk rq] s1 by simp
  then obtain u v where "s1 = s\<lparr>sessions := u, request_log := v\<rparr>" unfolding operations_untouched_def by blast
  then show ?thesis by (simp add: xs list_alerts_def)
qed

text \<open>Alerts are not separated by tenant: two callers, of whatever tenants, who ask for alerts with the same filters get the same
  list, with the vessel calls of every tenant.\<close>

theorem alerts_shared_between_tenants:
  assumes "list_alerts_endpoint env cf clk rq status severity rule_code vcn limit s = (s1, Inr xs)"
    and "list_alerts_endpoint env cf clk' rq' status severity rule_code vcn limit s = (s2, Inr ys)"
  shows "xs = ys"
  using list_alerts_ok [OF assms(1)] list_alerts_ok [OF assms(2)] by simp

section \<open>Witnesses\<close>

text \<open>The sample user on the shipped installation: the token carries the permissions of the roles.\<close>

definition shipped_installation :: access_db where
  "shipped_installation = seed_installation sample_auth sample_cf (\<lambda>n. replicate n CHR ''a'') [] shipped_roles (sample_access False)"

definition installed_auth :: auth_env where
  "installed_auth = sample_auth\<lparr>ae_decode := (\<lambda>now t. if t = ''a'' then Inr (sample_claims\<lparr>tp_permissions := Some (permissions_of_user ''u1'' shipped_installation)\<rparr>)
     else Inl (Invalid_token ''unknown''))\<rparr>"

lemma only_administrators_manage_witness:
  "is_refused shipped_installation (acknowledge_alert_endpoint installed_auth sample_cf (\<lambda>k. 1) sample_request ''x'' shipped_installation) \<and>
   is_refused shipped_installation (toggle_outlier_endpoint installed_auth sample_cf (\<lambda>k. 1) sample_request ''x'' True ''why'' shipped_installation)"
proof -
  have none: "''manage'' \<notin> actions (sample_access False)" by (simp add: actions_def sample_access_def kpi_db.defs)
  have dec: "ae_decode installed_auth 1 ''a'' = Inr (sample_claims\<lparr>tp_permissions := Some (permissions_of_user ''u1'' shipped_installation)\<rparr>)"
    by (simp add: installed_auth_def)
  have same: "shipped_installation = seed_installation installed_auth sample_cf (\<lambda>n. replicate n CHR ''a'') [] shipped_roles (sample_access False)"
    unfolding shipped_installation_def seed_installation_def seed_service_accounts_def by (simp add: installed_auth_def cong: option.case_cong)
  show ?thesis
    using only_administrators_manage [OF none, of installed_auth "\<lambda>k. 1", OF dec sample_token(1) _ same, of "''u1''"] sample_token(4)
    by (simp add: sample_claims_def access_payload_def claim_def) blast
qed

lemma sample_alerts:
  "\<exists>s' xs. list_alerts_endpoint sample_auth sample_cf (\<lambda>k. c) sample_request None None None None 100 (sample_access False) = (s', Inr xs)" if "c = 1 \<or> c = 2"
  using that
  by (auto simp: list_alerts_endpoint_def protected_def require_def get_current_principal_def sample_token decode_token_def truthy_def is_session_active_def
      session_of_def session_row_of_def minutes_def sample_cf_def sample_claims_def access_payload_def user_scope_def scope_of_claims_def claim_def
      principal_of_claims_def has_permission_def checked_def in_tenant_def resolve_principal_tenant_def tenant_scope_def tenant_principal_def
      sample_account_def py_strip_def py_isspace_def)

lemma alerts_shared_between_tenants_witness:
  "\<exists>s1 s2 xs. list_alerts_endpoint sample_auth sample_cf (\<lambda>k. 1) sample_request None None None None 100 (sample_access False) = (s1, Inr xs) \<and>
     list_alerts_endpoint sample_auth sample_cf (\<lambda>k. 2) sample_request None None None None 100 (sample_access False) = (s2, Inr xs)"
proof -
  obtain s1 xs s2 ys where runs: "list_alerts_endpoint sample_auth sample_cf (\<lambda>k. 1) sample_request None None None None 100 (sample_access False) = (s1, Inr xs)"
    "list_alerts_endpoint sample_auth sample_cf (\<lambda>k. 2) sample_request None None None None 100 (sample_access False) = (s2, Inr ys)"
    using sample_alerts [of 1] sample_alerts [of 2] by blast
  then show ?thesis using alerts_shared_between_tenants [OF runs] by blast
qed

end
