(* ===== verification/Operations.thy ===== *)
theory Operations
  imports Endpoints
begin

text \<open>
  The vessel-call repository with its data scope (\<open>apps/api/repository/vessel_call.py\<close>, \<open>apps/api/auth/scope.py\<close>) and the
  operations endpoints (\<open>apps/api/routers/operations.py\<close>).

  The column that \<open>sort_by\<close> names is the argument \<open>col\<close>. Page bounds are natural numbers, request filters and edited values
  are texts or null.
\<close>

section \<open>Scoped queries\<close>

definition scope_column :: "string option \<Rightarrow> string option \<Rightarrow> bool" where
  "scope_column a c \<longleftrightarrow> (case truthy a of None \<Rightarrow> True | Some p \<Rightarrow> p = ''*'' \<or> c = Some p \<or> c = None)"

definition in_scope :: "data_scope \<Rightarrow> vessel_call \<Rightarrow> bool" where
  "in_scope sc v \<longleftrightarrow> (sc_tenant_id sc = ''*'' \<or> vc_tenant_id v = sc_tenant_id sc) \<and>
     scope_column (sc_port_id sc) (vc_text v Port_id) \<and> scope_column (sc_terminal_id sc) (vc_text v Terminal_id)"

text \<open>The query of a builder with its further criteria.\<close>

definition build_query :: "data_scope \<Rightarrow> (vessel_call \<Rightarrow> bool) list \<Rightarrow> 'a canon_db_scheme \<Rightarrow> vessel_call list" where
  "build_query sc ps s = filter (\<lambda>v. list_all (\<lambda>p. p v) ps) (filter (in_scope sc) (vessel_calls s))"

section \<open>The repository\<close>

record call_query =
  cq_search :: "string option"
  cq_port_id :: "string option"
  cq_terminal_id :: "string option"
  cq_vessel_type :: "string option"
  cq_cargo_type :: "string option"
  cq_is_merged :: "bool option"

definition ilike_column :: "string \<Rightarrow> string option \<Rightarrow> bool" where
  "ilike_column p c = (case c of Some x \<Rightarrow> sql_ilike p x | None \<Rightarrow> False)"

definition search_filter :: "string \<Rightarrow> vessel_call \<Rightarrow> bool" where
  "search_filter x v \<longleftrightarrow> (let p = ''%'' @ py_strip x @ ''%''
     in ilike_column p (vc_vcn v) \<or> ilike_column p (vc_vessel_name v) \<or> ilike_column p (vc_text v Imo_number))"

definition equal_filter :: "text_col \<Rightarrow> string option \<Rightarrow> (vessel_call \<Rightarrow> bool) list" where
  "equal_filter c a = (case truthy a of Some x \<Rightarrow> [\<lambda>v. vc_text v c = Some x] | None \<Rightarrow> [])"

definition not_star :: "string option \<Rightarrow> string option" where
  "not_star a = (if a = Some ''*'' then None else a)"

definition query_filters :: "call_query \<Rightarrow> (vessel_call \<Rightarrow> bool) list" where
  "query_filters q = (case truthy (cq_search q) of Some x \<Rightarrow> [search_filter x] | None \<Rightarrow> []) @
     equal_filter Port_id (not_star (cq_port_id q)) @ equal_filter Terminal_id (not_star (cq_terminal_id q)) @
     equal_filter Vessel_type (cq_vessel_type q) @ equal_filter Cargo_type (cq_cargo_type q) @
     (case cq_is_merged q of Some b \<Rightarrow> [\<lambda>v. vc_is_merged v = b] | None \<Rightarrow> [])"

definition list_calls ::
    "data_scope \<Rightarrow> nat \<Rightarrow> nat \<Rightarrow> call_query \<Rightarrow> (vessel_call \<Rightarrow> 'k::linorder) \<Rightarrow> string option \<Rightarrow> 'a canon_db_scheme \<Rightarrow> vessel_call list" where
  "list_calls sc skip limit q col dir s =
     (let rows = build_query sc (query_filters q) s;
          sorted' = (if py_lower (case truthy dir of Some d \<Rightarrow> d | None \<Rightarrow> ''asc'') = ''desc'' then sorted_by_desc col rows else sorted_by col rows)
      in take limit (drop skip sorted'))"

definition count_calls :: "data_scope \<Rightarrow> call_query \<Rightarrow> 'a canon_db_scheme \<Rightarrow> nat" where
  "count_calls sc q s = length (build_query sc (query_filters q) s)"

definition call_by_id :: "data_scope \<Rightarrow> uid \<Rightarrow> 'a canon_db_scheme \<Rightarrow> vessel_call option" where
  "call_by_id sc i s = (case build_query sc [\<lambda>v. vc_id v = i] s of v # vs \<Rightarrow> Some v | [] \<Rightarrow> None)"

definition export_calls :: "data_scope \<Rightarrow> (string \<times> string option) list \<Rightarrow> 'a canon_db_scheme \<Rightarrow> vessel_call list" where
  "export_calls sc filters s = build_query sc (case map_of filters ''vessel_type'' of Some x \<Rightarrow> [\<lambda>v. vc_text v Vessel_type = x] | None \<Rightarrow> []) s"

text \<open>\<open>VesselCall(tenant_id=..., port_id=..., terminal_id=..., **attributes)\<close>: a keyword that is given twice raises
  \<open>TypeError\<close>.\<close>

definition create_call ::
    "(nat \<Rightarrow> uid) \<Rightarrow> time \<Rightarrow> data_scope \<Rightarrow> (text_col \<times> string option) list \<Rightarrow> 'a canon_db_scheme \<Rightarrow> (vessel_call \<times> 'a canon_db_scheme) result" where
  "create_call uuid now sc attributes s =
     (let own = (\<lambda>c scoped d. case truthy (Option.bind (map_of attributes c) id) of Some x \<Rightarrow> Some x
            | None \<Rightarrow> if scoped = Some ''*'' then Some d else scoped);
          port = own Port_id (sc_port_id sc) ''ZADUR''; terminal = own Terminal_id (sc_terminal_id sc) ''DCT''
      in if List.member (map fst attributes) Port_id \<or> List.member (map fst attributes) Terminal_id then Inl TypeError
         else (let v = \<lparr>vc_id = uuid (draws s), vc_created_at = now, vc_updated_at = now,
                    vc_tenant_id = (if sc_tenant_id sc = ''*'' then ''default-tenant'' else sc_tenant_id sc), vc_is_merged = False, vc_merged_into_id = None,
                    vc_text = (\<lambda>c. if c = Port_id then port else if c = Terminal_id then terminal else Option.bind (map_of attributes c) id),
                    vc_num = (\<lambda>c. if c = Version then Some 1 else None)\<rparr>
               in Inr (v, s\<lparr>vessel_calls := vessel_calls s @ [v], draws := draws s + 1\<rparr>)))"

section \<open>The listing of vessel calls\<close>

text \<open>The caller's scope with the tenant the server resolved.\<close>

definition tenant_data_scope :: "user_principal \<Rightarrow> string \<Rightarrow> data_scope" where
  "tenant_data_scope p tenant = (pn_data_scope p)\<lparr>sc_tenant_id := tenant\<rparr>"

definition completeness_pct :: "coverage option \<Rightarrow> rat" where
  "completeness_pct cv = (case cv of
       Some c \<Rightarrow> if 0 < cv_stages_total c then fround 1 (fmul (fdiv (of_nat (cv_stages_available c)) (of_nat (cv_stages_total c))) 100) else 0
     | None \<Rightarrow> 0)"

text \<open>The severities of the issues of a call that are not resolved.\<close>

definition open_severities :: "uid \<Rightarrow> 'a canon_db_scheme \<Rightarrow> string list" where
  "open_severities c s = concat (map (\<lambda>q. map qr_severity (filter (\<lambda>r. qi_rule_id q = qr_id r) (quality_rules s)))
     (filter (\<lambda>q. qi_vessel_call_id q = Some c \<and> qi_issue_status q \<noteq> ISSUE_RESOLVED) (quality_issues s)))"

definition quality_of :: "string list \<Rightarrow> string \<times> int" where
  "quality_of severities =
     (let critical = int (length (filter (\<lambda>x. x = ''CRITICAL'') severities)); opened = int (length severities)
      in if 0 < critical then (''QUARANTINED'', max 0 (100 - critical * 50 - opened * 10))
         else if 0 < opened then (''FLAGGED'', max 0 (100 - opened * 15)) else (''CLEAN'', 100))"

text \<open>The time shown for an event: of the first occurrence, replaced by every verified one; its original text if there is one.\<close>

definition shown_time :: "event_occurrence \<Rightarrow> string + time" where
  "shown_time e = (case truthy (eo_original_string e) of Some x \<Rightarrow> Inl x | None \<Rightarrow> Inr (eo_utc_value e))"

definition shown_event :: "uid \<Rightarrow> string \<Rightarrow> 'a canon_db_scheme \<Rightarrow> (string + time) option" where
  "shown_event c n s = fold (\<lambda>e shown. if shown = None \<or> eo_verification_status e = Some ''Verified'' then Some (shown_time e) else shown)
     (concat (map (\<lambda>e. map (\<lambda>d. e) (filter (\<lambda>d. ed_id d = eo_event_definition_id e \<and> ed_name d = n) (event_definitions s)))
        (filter (\<lambda>e. eo_vessel_call_id e = c) (event_occurrences s)))) None"

definition listed_metrics :: "string list" where
  "listed_metrics = [''Turnaround'', ''Anchorage Wait'', ''Inward Movement'', ''Berth Stay'', ''Cargo Working'', ''Outward Movement'',
     ''Arrival Execution Delay'', ''Sailing Execution Delay'']"

definition result_named :: "uid \<Rightarrow> string \<Rightarrow> 'a platform_db_scheme \<Rightarrow> lead_time_result option" where
  "result_named c n s = last_with (\<lambda>r. lt_vessel_call_id r = c \<and> find (\<lambda>d. ld_id d = lt_definition_id r \<and> ld_name d = n) (lead_time_definitions s) \<noteq> None)
     (lead_time_results s)"

record traced_duration =
  td_duration_hours :: "rat option"
  td_status :: lead_time_status
  td_unavailable_reason :: "fstring option"
  td_formula :: string
  td_formula_version :: string
  td_source_records :: "uid list"
  td_filters :: "(string \<times> fstring) list"
  td_exclusions :: "string list"
  td_dq_status :: string
  td_start_time :: "time option"
  td_end_time :: "time option"

definition traced :: "string \<Rightarrow> lead_time_result option \<Rightarrow> traced_duration" where
  "traced n r = (case r of
       Some r \<Rightarrow> \<lparr>td_duration_hours = lt_duration_hours r, td_status = lt_status r, td_unavailable_reason = lt_unavailable_reason r, td_formula = n,
         td_formula_version = (case truthy (lt_formula_version r) of Some x \<Rightarrow> x | None \<Rightarrow> ''1.0''),
         td_source_records = (case lt_source_record_ids r of Some ids \<Rightarrow> ids | None \<Rightarrow> []),
         td_filters = lt_filter_context r, td_exclusions = lt_exclusions_applied r,
         td_dq_status = (case truthy (lt_dq_status r) of Some x \<Rightarrow> x | None \<Rightarrow> ''CLEAN''), td_start_time = lt_start_time r, td_end_time = lt_end_time r\<rparr>
     | None \<Rightarrow> \<lparr>td_duration_hours = None, td_status = LT_UNAVAILABLE, td_unavailable_reason = Some [Lit ''Not calculated for this call''], td_formula = n,
         td_formula_version = ''1.0'', td_source_records = [], td_filters = [], td_exclusions = [], td_dq_status = ''UNKNOWN'', td_start_time = None, td_end_time = None\<rparr>)"

text \<open>A row of the listing. The hours it repeats outside \<open>durations_traceability\<close> are those inside.\<close>

record listed_call =
  lc_call :: vessel_call
  lc_journey_status :: journey_status
  lc_completeness_pct :: rat
  lc_coverage :: "coverage option"
  lc_ata :: "(string + time) option"
  lc_atd :: "(string + time) option"
  lc_eta :: "(string + time) option"
  lc_turnaround_unavailable_reason :: "fstring option"
  lc_delays_count :: nat
  lc_total_delay_hours :: rat
  lc_quality_status :: string
  lc_quality_score :: int
  lc_issue_count :: nat
  lc_critical_issue_count :: nat
  lc_durations :: "traced_duration list"

definition listed :: "'a platform_db_scheme \<Rightarrow> vessel_call \<Rightarrow> listed_call" where
  "listed s v =
     (let i = vc_id v; j = last_with (\<lambda>j. ji_vessel_call_id j = i) (journey_instances s); cv = Option.bind j ji_coverage_summary;
          sev = open_severities i s; ds = filter (\<lambda>d. dl_vessel_call_id d = i) (delays s)
      in \<lparr>lc_call = v, lc_journey_status = (case j of Some x \<Rightarrow> ji_status x | None \<Rightarrow> JOURNEY_PENDING), lc_completeness_pct = completeness_pct cv,
          lc_coverage = cv, lc_ata = shown_event i ''ATA'' s, lc_atd = shown_event i ''ATD'' s, lc_eta = shown_event i ''ETA'' s,
          lc_turnaround_unavailable_reason = (case result_named i ''Turnaround'' s of Some r \<Rightarrow> lt_unavailable_reason r
            | None \<Rightarrow> Some [Lit ''Missing ATA or ATD'']),
          lc_delays_count = length ds, lc_total_delay_hours = fround 2 (fsum (map (\<lambda>d. case dl_delay_hours d of Some h \<Rightarrow> h | None \<Rightarrow> 0) ds)),
          lc_quality_status = fst (quality_of sev), lc_quality_score = snd (quality_of sev), lc_issue_count = length sev,
          lc_critical_issue_count = length (filter (\<lambda>x. x = ''CRITICAL'') sev), lc_durations = map (\<lambda>n. traced n (result_named i n s)) listed_metrics\<rparr>)"

definition list_vessel_calls ::
    "auth_env \<Rightarrow> settings \<Rightarrow> (nat \<Rightarrow> time) \<Rightarrow> request_info \<Rightarrow> nat \<Rightarrow> nat \<Rightarrow> call_query \<Rightarrow> string option \<Rightarrow> (vessel_call \<Rightarrow> 'k::linorder) \<Rightarrow> string option \<Rightarrow>
     string option \<Rightarrow> 'a access_db_scheme \<Rightarrow> 'a access_db_scheme \<times> (denial + listed_call list)" where
  "list_vessel_calls env cf clk rq skip limit q quality col dir requested = protected ''view'' ''vessel_call'' env cf clk rq (\<lambda>p.
     in_tenant cf p requested (\<lambda>tenant s.
       (s, Inr (opt_filter (\<lambda>x c. py_upper x = lc_quality_status c) quality (map (listed s) (list_calls (tenant_data_scope p tenant) skip limit q col dir s))))))"

section \<open>The other endpoints\<close>

text \<open>An entry of the log without the client's address.\<close>

definition plain_row :: "string \<Rightarrow> string option \<Rightarrow> string option \<Rightarrow> string option \<Rightarrow> (string \<times> json) list \<Rightarrow> audit_row" where
  "plain_row action resource resource_id correlation details = \<lparr>lg_actor_id = None, lg_actor_email = None, lg_actor_role = None, lg_action = action,
     lg_resource_type = resource, lg_resource_id = resource_id, lg_correlation_id = correlation, lg_ip_address = None, lg_user_agent = None, lg_details = details\<rparr>"

definition json_text :: "string option \<Rightarrow> json" where
  "json_text x = (case x of Some t \<Rightarrow> JStr t | None \<Rightarrow> JNull)"

record create_request =
  cr_vessel_name :: string
  cr_vcn :: "string option"
  cr_vessel_type :: "string option"
  cr_port_id :: "string option"
  cr_terminal_id :: "string option"

definition create_vessel_call ::
    "auth_env \<Rightarrow> settings \<Rightarrow> (nat \<Rightarrow> uid) \<Rightarrow> (nat \<Rightarrow> time) \<Rightarrow> request_info \<Rightarrow> create_request \<Rightarrow> 'a access_db_scheme \<Rightarrow> 'a access_db_scheme \<times> (denial + uid)" where
  "create_vessel_call env cf uuid clk rq b = protected ''create'' ''vessel_call'' env cf clk rq (\<lambda>p s.
     case create_call uuid (clk 2) (pn_data_scope p) [(Vessel_name, Some (cr_vessel_name b)), (Vcn, cr_vcn b), (Vessel_type, cr_vessel_type b),
            (Port_id, cr_port_id b), (Terminal_id, cr_terminal_id b)] s of
       Inl e \<Rightarrow> (s, Inl (Crashed e))
     | Inr (v, s') \<Rightarrow> (log_row (by_principal p (plain_row ''create'' (Some ''vessel_call'') (Some (vc_id v)) (Some (ri_correlation_id rq))
           [(''vessel_name'', json_text (vc_vessel_name v)), (''vcn'', json_text (vc_vcn v))])) s', Inr (vc_id v)))"

definition not_in_scope :: denial where
  "not_in_scope = Denied 404 '''' [Lit ''Vessel call not found within data scope'']"

definition get_vessel_call ::
    "auth_env \<Rightarrow> settings \<Rightarrow> (nat \<Rightarrow> time) \<Rightarrow> request_info \<Rightarrow> uid \<Rightarrow> 'a access_db_scheme \<Rightarrow> 'a access_db_scheme \<times> (denial + vessel_call)" where
  "get_vessel_call env cf clk rq i = protected ''view'' ''vessel_call'' env cf clk rq (\<lambda>p. in_tenant cf p None (\<lambda>tenant s.
     case call_by_id (tenant_data_scope p tenant) i s of
       None \<Rightarrow> (s, Inl not_in_scope)
     | Some v \<Rightarrow> (if vc_text v Cargo_type = Some ''IMDG''
         then log_row (by_principal p (plain_row ''view_sensitive'' (Some ''vessel_call'') (Some (vc_id v)) (Some (ri_correlation_id rq))
                [(''cargo_type'', JStr ''IMDG''), (''is_sensitive'', JBool True)])) s else s, Inr v)))"

definition edit_vessel_call ::
    "auth_env \<Rightarrow> settings \<Rightarrow> (nat \<Rightarrow> time) \<Rightarrow> request_info \<Rightarrow> uid \<Rightarrow> (string \<times> string option) list \<Rightarrow> 'a access_db_scheme \<Rightarrow> 'a access_db_scheme \<times> (denial + unit)" where
  "edit_vessel_call env cf clk rq i body = protected ''edit'' ''vessel_call'' env cf clk rq (\<lambda>p. in_tenant cf p None (\<lambda>tenant s.
     case call_by_id (tenant_data_scope p tenant) i s of
       None \<Rightarrow> (s, Inl not_in_scope)
     | Some v \<Rightarrow> (let v' = (case map_of body ''vessel_name'' of Some x \<Rightarrow> v\<lparr>vc_text := (vc_text v)(Vessel_name := x)\<rparr> | None \<Rightarrow> v);
             image = (\<lambda>v. Some (JObj [(''vessel_name'', json_text (vc_vessel_name v))]))
         in (log_row (by_principal p (plain_row ''correction'' (Some ''vessel_call'') (Some (vc_id v)) None (merged_details [] (image v) (image v') None None)))
               (s\<lparr>vessel_calls := upd_by vc_id (vc_id v) (\<lambda>x. v') (vessel_calls s)\<rparr>), Inr ()))))"

definition export_vessel_calls ::
    "auth_env \<Rightarrow> settings \<Rightarrow> (nat \<Rightarrow> time) \<Rightarrow> request_info \<Rightarrow> (string \<times> string option) list \<Rightarrow> 'a access_db_scheme \<Rightarrow>
     'a access_db_scheme \<times> (denial + vessel_call list)" where
  "export_vessel_calls env cf clk rq filters = protected ''export'' ''vessel_call'' env cf clk rq (\<lambda>p. in_tenant cf p None (\<lambda>tenant s.
     let vs = export_calls (tenant_data_scope p tenant) filters s
     in (log_row (by_principal p (plain_row ''export'' (Some ''vessel_call'') None (Some (ri_correlation_id rq))
           (merged_details [(''export_format'', JStr ''json'')] None None (Some (JObj (map (\<lambda>(k, x). (k, json_text x)) filters))) (Some (length vs))))) s, Inr vs)))"

text \<open>The endpoints that only write a log entry.\<close>

definition log_only :: "string \<Rightarrow> string \<Rightarrow> audit_row \<Rightarrow> auth_env \<Rightarrow> settings \<Rightarrow> (nat \<Rightarrow> time) \<Rightarrow> request_info \<Rightarrow> 'a access_db_scheme \<Rightarrow> 'a access_db_scheme \<times> (denial + unit)" where
  "log_only permission resource row env cf clk rq = protected permission resource env cf clk rq (\<lambda>p s. (log_row (by_principal p row) s, Inr ()))"

definition merge_details :: "uid \<Rightarrow> string \<Rightarrow> (string \<times> json) list" where
  "merge_details secondary reason = [(''secondary_id'', JStr secondary), (''reason'', JStr reason)]"

definition merge_vessel_calls where
  "merge_vessel_calls primary secondary reason = log_only ''merge'' ''vessel_call'' (plain_row ''merge'' (Some ''vessel_call'') (Some primary) None (merge_details secondary reason))"

definition unmerge_vessel_calls where
  "unmerge_vessel_calls primary secondary reason = log_only ''unmerge'' ''vessel_call'' (plain_row ''unmerge'' (Some ''vessel_call'') (Some primary) None (merge_details secondary reason))"

definition recalculate_metrics where "recalculate_metrics = log_only ''recalculate'' ''metrics'' (plain_row ''recalculation'' (Some ''analytics'') None None [])"
definition publish_report where "publish_report = log_only ''publish'' ''report'' (plain_row ''report_publication'' (Some ''report'') None None [])"
definition approve_action where "approve_action = log_only ''approve'' ''approval'' (plain_row ''approve'' None None None [])"
definition reject_action where "reject_action = log_only ''reject'' ''approval'' (plain_row ''reject'' None None None [])"
definition configure_system where "configure_system = log_only ''configure'' ''configuration'' (plain_row ''config_change'' None None None [])"
definition administer_system where "administer_system = log_only ''administer'' ''administration'' (plain_row ''admin_action'' None None None [])"
definition update_quality_rule where "update_quality_rule body = log_only ''configure'' ''quality_rules'' (plain_row ''rule_change'' (Some ''quality_rule'') None None body)"
definition update_kpi_formula where "update_kpi_formula body = log_only ''configure'' ''kpi_formulas'' (plain_row ''formula_change'' (Some ''kpi_formula'') None None body)"
definition load_synthetic_dataset where
  "load_synthetic_dataset = log_only ''administer'' ''synthetic_dataset'' (plain_row ''synthetic_data_load'' (Some ''synthetic_dataset'') None None
     [(''dataset'', JStr ''Synthetic_Marine_Time_Motion_Test_Data.xlsx'')])"
definition reset_synthetic_dataset where
  "reset_synthetic_dataset = log_only ''administer'' ''synthetic_dataset'' (plain_row ''synthetic_data_reset'' (Some ''synthetic_dataset'') None None [])"

section \<open>Isolation\<close>

lemma set_build_query: "set (build_query sc ps s) = {v \<in> set (vessel_calls s). in_scope sc v \<and> list_all (\<lambda>p. p v) ps}"
  by (auto simp: build_query_def)

lemma length_list_calls: "length (list_calls sc skip limit q col dir s) = min limit (count_calls sc q s - skip)"
  by (simp add: list_calls_def count_calls_def Let_def sorted_by_def sorted_by_desc_def min_def)

lemma set_list_calls: "set (list_calls sc skip limit q col dir s) \<subseteq> set (build_query sc (query_filters q) s)"
  by (auto simp: list_calls_def Let_def sorted_by_def sorted_by_desc_def dest!: in_set_takeD in_set_dropD split: if_splits)

lemma call_by_id_scoped: "call_by_id sc i s = Some v \<Longrightarrow> v \<in> set (vessel_calls s) \<and> in_scope sc v \<and> vc_id v = i"
  using set_build_query [of sc "[\<lambda>v. vc_id v = i]" s] by (auto simp: call_by_id_def split: list.splits)

lemma resolved_tenant: "resolve_principal_tenant cf p requested = Inr t \<Longrightarrow> t = tenant_scope cf p \<and> t \<noteq> ''*'' \<and> (requested = None \<or> requested = Some t)"
  by (auto simp: resolve_principal_tenant_def Let_def split: if_splits)

lemma in_tenant_okE:
  assumes "in_tenant cf p requested body s = (s', Inr x)"
  obtains tenant where "resolve_principal_tenant cf (tenant_principal p) requested = Inr tenant" "body tenant s = (s', Inr x)"
  using assms by (auto simp: in_tenant_def split: sum.splits)

lemma in_scope_tenant: "in_scope (tenant_data_scope p t) v \<Longrightarrow> t \<noteq> ''*'' \<Longrightarrow> vc_tenant_id v = t"
  by (simp add: in_scope_def tenant_data_scope_def)

lemma untouched_calls: "operations_untouched s s' \<Longrightarrow> vessel_calls s' = vessel_calls s"
proof -
  assume "operations_untouched s s'"
  then obtain a b where "s' = s\<lparr>sessions := a, request_log := b\<rparr>" unfolding operations_untouched_def by blast
  then show ?thesis by simp
qed

lemma listed_call_sel [simp]: "lc_call (listed s v) = v"
  by (simp add: listed_def Let_def)

text \<open>Vessel calls the caller of a request may see: calls of the caller's tenant inside the caller's port and terminal scope.\<close>

definition caller_sees :: "auth_env \<Rightarrow> settings \<Rightarrow> (nat \<Rightarrow> time) \<Rightarrow> request_info \<Rightarrow> string \<Rightarrow> 'a access_db_scheme \<Rightarrow> vessel_call list \<Rightarrow> bool" where
  "caller_sees env cf clk rq permission s vs \<longleftrightarrow> (case snd (require permission (Some ''vessel_call'') env cf clk rq s) of
       Inl e \<Rightarrow> False
     | Inr p \<Rightarrow> (case resolve_principal_tenant cf (tenant_principal p) None of
         Inl e \<Rightarrow> False
       | Inr t \<Rightarrow> list_all (\<lambda>v. List.member (vessel_calls s) v \<and> vc_tenant_id v = t \<and> in_scope (tenant_data_scope p t) v) vs))"

lemma caller_seesI:
  assumes "require permission (Some ''vessel_call'') env cf clk rq s = (s1, Inr p)" "resolve_principal_tenant cf (tenant_principal p) requested = Inr t"
    and "\<And>v. v \<in> set vs \<Longrightarrow> v \<in> set (vessel_calls s1) \<and> in_scope (tenant_data_scope p t) v"
  shows "caller_sees env cf clk rq permission s vs"
proof -
  have "vessel_calls s1 = vessel_calls s"
    using require_untouched [of s permission "Some ''vessel_call''" env cf clk rq] assms(1) untouched_calls by simp
  moreover have "resolve_principal_tenant cf (tenant_principal p) None = Inr t" "t \<noteq> ''*''"
    using assms(2) by (auto simp: resolve_principal_tenant_def Let_def split: if_splits)
  ultimately show ?thesis using assms(1,3) in_scope_tenant by (fastforce simp: caller_sees_def list_all_iff)
qed

lemma list_in_scope:
  assumes "list_vessel_calls env cf clk rq skip limit q quality col dir requested s = (s', Inr xs)"
  shows "caller_sees env cf clk rq ''view'' s (map lc_call xs)"
proof -
  obtain p s1 where p: "require ''view'' (Some ''vessel_call'') env cf clk rq s = (s1, Inr p)" and
    b: "in_tenant cf p requested (\<lambda>tenant s. (s, Inr (opt_filter (\<lambda>x c. py_upper x = lc_quality_status c) quality
          (map (listed s) (list_calls (tenant_data_scope p tenant) skip limit q col dir s))))) s1 = (s', Inr xs)"
    using assms unfolding list_vessel_calls_def by (elim protected_ok)
  from b obtain t where t: "resolve_principal_tenant cf (tenant_principal p) requested = Inr t"
    and xs: "xs = opt_filter (\<lambda>x c. py_upper x = lc_quality_status c) quality (map (listed s1) (list_calls (tenant_data_scope p t) skip limit q col dir s1))"
    by (elim in_tenant_okE) auto
  have "v \<in> set (list_calls (tenant_data_scope p t) skip limit q col dir s1)" if "v \<in> set (map lc_call xs)" for v
    using that set_opt_filter [of "\<lambda>x c. py_upper x = lc_quality_status c" quality "map (listed s1) (list_calls (tenant_data_scope p t) skip limit q col dir s1)"]
    unfolding xs by auto
  then show ?thesis by (intro caller_seesI [OF p t]) (use set_list_calls set_build_query in blast)
qed

lemma get_in_scope:
  assumes "get_vessel_call env cf clk rq i s = (s', Inr v)"
  shows "caller_sees env cf clk rq ''view'' s [v]"
proof -
  obtain p s1 where p: "require ''view'' (Some ''vessel_call'') env cf clk rq s = (s1, Inr p)" and
    b: "in_tenant cf p None (\<lambda>tenant s. case call_by_id (tenant_data_scope p tenant) i s of None \<Rightarrow> (s, Inl not_in_scope)
     | Some v \<Rightarrow> (if vc_text v Cargo_type = Some ''IMDG''
         then log_row (by_principal p (plain_row ''view_sensitive'' (Some ''vessel_call'') (Some (vc_id v)) (Some (ri_correlation_id rq))
                [(''cargo_type'', JStr ''IMDG''), (''is_sensitive'', JBool True)])) s else s, Inr v)) s1 = (s', Inr v)"
    using assms unfolding get_vessel_call_def by (elim protected_ok)
  from b obtain t where t: "resolve_principal_tenant cf (tenant_principal p) None = Inr t" and "call_by_id (tenant_data_scope p t) i s1 = Some v"
    by (elim in_tenant_okE) (simp split: option.splits)
  then show ?thesis by (intro caller_seesI [OF p t]) (auto dest: call_by_id_scoped)
qed

lemma export_in_scope:
  assumes "export_vessel_calls env cf clk rq filters s = (s', Inr vs)"
  shows "caller_sees env cf clk rq ''export'' s vs"
proof -
  obtain p s1 where p: "require ''export'' (Some ''vessel_call'') env cf clk rq s = (s1, Inr p)"
    and b: "\<exists>t. resolve_principal_tenant cf (tenant_principal p) None = Inr t \<and> vs = export_calls (tenant_data_scope p t) filters s1"
    using assms unfolding export_vessel_calls_def by (elim protected_ok in_tenant_okE) (auto simp: Let_def)
  then obtain t where t: "resolve_principal_tenant cf (tenant_principal p) None = Inr t" "vs = export_calls (tenant_data_scope p t) filters s1" by blast
  then show ?thesis by (intro caller_seesI [OF p t(1)]) (auto simp: export_calls_def set_build_query)
qed

text \<open>C16. The operations endpoints return only vessel calls of the caller's own tenant, inside the caller's port and terminal scope:
  in a listing, whatever the filters, the page and the tenant that is asked for, in the reading of one call, and in an export.\<close>

theorem reads_stay_in_scope:
  "(list_vessel_calls env cf clk rq skip limit q quality col dir requested s = (s1, Inr xs) \<longrightarrow> caller_sees env cf clk rq ''view'' s (map lc_call xs)) \<and>
   (get_vessel_call env cf clk rq i s = (s2, Inr v) \<longrightarrow> caller_sees env cf clk rq ''view'' s [v]) \<and>
   (export_vessel_calls env cf clk rq filters s = (s3, Inr vs) \<longrightarrow> caller_sees env cf clk rq ''export'' s vs)"
  by (intro conjI impI) (erule list_in_scope get_in_scope export_in_scope)+

text \<open>C25. A vessel call can never be created through the API: the endpoint always passes the port and the terminal to the repository,
  which passes them twice to the row's constructor, so every admitted request ends in a TypeError. No request adds a call.\<close>

theorem create_vessel_call_never_succeeds:
  "isl (snd (create_vessel_call env cf uuid clk rq b s)) \<and> vessel_calls (fst (create_vessel_call env cf uuid clk rq b s)) = vessel_calls s \<and>
   (case require ''create'' (Some ''vessel_call'') env cf clk rq s of
      (s', Inr p) \<Rightarrow> create_vessel_call env cf uuid clk rq b s = (s', Inl (Crashed TypeError)) | (s', Inl e) \<Rightarrow> True)"
proof -
  obtain s' m where m: "require ''create'' (Some ''vessel_call'') env cf clk rq s = (s', m)" by fastforce
  have "vessel_calls s' = vessel_calls s"
    using require_untouched [of s "''create''" "Some ''vessel_call''" env cf clk rq] m untouched_calls by simp
  then show ?thesis by (cases m) (simp_all add: create_vessel_call_def protected_def m create_call_def Let_def)
qed

lemma log_only_untouched: "operations_untouched s (fst (log_only permission resource row env cf clk rq s))"
  using require_untouched [of s permission "Some resource" env cf clk rq]
  by (auto simp: log_only_def protected_def intro: untouched_log split: prod.splits sum.splits)

text \<open>The endpoints for merging, unmerging, recalculating, publishing, approving, rejecting, configuring, changing rules and formulas,
  and loading or resetting the synthetic data do nothing but write a log entry: every table other than the sessions and the
  request log stays as it was, although they answer that the work was done.\<close>

theorem acknowledged_but_not_done:
  "operations_untouched s (fst (merge_vessel_calls x y reason env cf clk rq s)) \<and> operations_untouched s (fst (unmerge_vessel_calls x y reason env cf clk rq s)) \<and>
   operations_untouched s (fst (recalculate_metrics env cf clk rq s)) \<and> operations_untouched s (fst (publish_report env cf clk rq s)) \<and>
   operations_untouched s (fst (approve_action env cf clk rq s)) \<and> operations_untouched s (fst (reject_action env cf clk rq s)) \<and>
   operations_untouched s (fst (configure_system env cf clk rq s)) \<and> operations_untouched s (fst (administer_system env cf clk rq s)) \<and>
   operations_untouched s (fst (update_quality_rule body env cf clk rq s)) \<and> operations_untouched s (fst (update_kpi_formula body env cf clk rq s)) \<and>
   operations_untouched s (fst (load_synthetic_dataset env cf clk rq s)) \<and> operations_untouched s (fst (reset_synthetic_dataset env cf clk rq s))"
  unfolding merge_vessel_calls_def unmerge_vessel_calls_def recalculate_metrics_def publish_report_def approve_action_def reject_action_def
    configure_system_def administer_system_def update_quality_rule_def update_kpi_formula_def load_synthetic_dataset_def reset_synthetic_dataset_def
  by (intro conjI log_only_untouched)

section \<open>Witnesses\<close>

definition tenant_call :: "string \<Rightarrow> string \<Rightarrow> vessel_call" where
  "tenant_call i t = \<lparr>vc_id = i, vc_created_at = 0, vc_updated_at = 0, vc_tenant_id = t, vc_is_merged = False, vc_merged_into_id = None,
     vc_text = (\<lambda>c. if c = Vcn then Some i else None), vc_num = (\<lambda>c. None)\<rparr>"

definition two_tenants :: access_db where
  "two_tenants = (sample_access False)\<lparr>vessel_calls := [tenant_call ''c1'' ''t'', tenant_call ''c2'' ''other'']\<rparr>"

lemma reads_stay_in_scope_witness:
  "\<exists>s' v. get_vessel_call sample_auth sample_cf (\<lambda>k. 1) sample_request ''c1'' two_tenants = (s', Inr v) \<and> v = tenant_call ''c1'' ''t'' \<and>
     caller_sees sample_auth sample_cf (\<lambda>k. 1) sample_request ''view'' two_tenants [v]"
proof -
  have sel: "sessions two_tenants = [session_row_of False]" "vessel_calls two_tenants = [tenant_call ''c1'' ''t'', tenant_call ''c2'' ''other'']"
    by (simp_all add: two_tenants_def)
  obtain s' where run: "get_vessel_call sample_auth sample_cf (\<lambda>k. 1) sample_request ''c1'' two_tenants = (s', Inr (tenant_call ''c1'' ''t''))"
    by (simp add: get_vessel_call_def protected_def require_def get_current_principal_def sample_token decode_token_def truthy_def is_session_active_def
      session_of_def session_row_of_def minutes_def sample_cf_def sample_claims_def access_payload_def user_scope_def scope_of_claims_def claim_def
      principal_of_claims_def has_permission_def in_tenant_def resolve_principal_tenant_def tenant_scope_def tenant_principal_def sel upd_session_def
      sample_account_def py_strip_def py_isspace_def call_by_id_def build_query_def in_scope_def tenant_data_scope_def tenant_call_def scope_column_def)
  from reads_stay_in_scope [where col = vc_created_at, THEN conjunct2, THEN conjunct1, THEN mp, OF run] run show ?thesis by blast
qed

end
