(* ===== verification/Dashboard.thy ===== *)
theory Dashboard
  imports Operations
begin

text \<open>
  The executive dashboard (\<open>apps/api/services/dashboard/executive.py\<close>) and its endpoints (\<open>apps/api/routers/dashboard.py\<close>):
  the cohort, its quality partition, throughput by unit, lead times, delays, KPI highlights, the stored snapshot, and the
  reconciliation of three totals. It reads the engines of the other theories and runs two of them.

  The sum of a column in the database and the statistics of polars are parameters. Rows of a query without an order
  stand in the order of the table; the rows of a grouped query in the order in which their groups begin.
\<close>

section \<open>Filters and the cohort\<close>

record dash_env =
  dv_depth :: nat   \<comment> \<open>the recursion limit that \<open>calculate_kpi\<close> gets\<close>
  dv_uuid :: "nat \<Rightarrow> uid"
  dv_polars :: polars
  dv_sql_sum :: "rat list \<Rightarrow> rat"

record dash_filters =
  df_port_id :: "string option"
  df_terminal_id :: "string option"
  df_vessel_type :: "string option"
  df_cargo_type :: "string option"
  df_start_date :: "time option"
  df_end_date :: "time option"
  df_quality_status :: "string option"

definition no_filters :: dash_filters where
  "no_filters = \<lparr>df_port_id = None, df_terminal_id = None, df_vessel_type = None, df_cargo_type = None, df_start_date = None,
     df_end_date = None, df_quality_status = None\<rparr>"

definition any_value :: "string list \<Rightarrow> string option \<Rightarrow> bool" where
  "any_value anys a \<longleftrightarrow> (case a of None \<Rightarrow> True | Some x \<Rightarrow> List.member anys x)"

definition is_unfiltered :: "dash_filters \<Rightarrow> bool" where
  "is_unfiltered f \<longleftrightarrow> any_value [''*''] (df_port_id f) \<and> any_value [''*''] (df_terminal_id f) \<and>
     any_value [''*'', ''ALL'', ''''] (df_vessel_type f) \<and> any_value [''*'', ''ALL'', ''''] (df_cargo_type f) \<and>
     df_start_date f = None \<and> df_end_date f = None \<and> any_value [''*'', ''ALL'', ''''] (df_quality_status f)"

definition column_filters :: "dash_filters \<Rightarrow> (vessel_call \<Rightarrow> bool) list" where
  "column_filters f = equal_filter Port_id (not_star (df_port_id f)) @ equal_filter Terminal_id (not_star (df_terminal_id f)) @
     equal_filter Vessel_type (not_star (df_vessel_type f)) @ equal_filter Cargo_type (not_star (df_cargo_type f))"

text \<open>Ascending by VCN, nulls last.\<close>

definition by_vcn :: "vessel_call list \<Rightarrow> vessel_call list" where
  "by_vcn vs = sorted_by (\<lambda>v. or_empty (vc_vcn v)) (filter (\<lambda>v. vc_vcn v \<noteq> None) vs) @ filter (\<lambda>v. vc_vcn v = None) vs"

definition base_calls :: "string \<Rightarrow> dash_filters \<Rightarrow> 'a canon_db_scheme \<Rightarrow> vessel_call list" where
  "base_calls tenant f s = by_vcn (filter (\<lambda>v. \<not> vc_is_merged v \<and> tenant_visible tenant v \<and> list_all (\<lambda>p. p v) (column_filters f)) (vessel_calls s))"

definition arrival_time :: "uid \<Rightarrow> 'a canon_db_scheme \<Rightarrow> vessel_call \<Rightarrow> time" where
  "arrival_time d s v = (case find (\<lambda>e. eo_vessel_call_id e = vc_id v \<and> eo_event_definition_id e = d \<and> \<not> eo_is_superseded e) (event_occurrences s) of
       Some e \<Rightarrow> eo_utc_value e
     | None \<Rightarrow> vc_created_at v)"

definition in_window :: "dash_filters \<Rightarrow> time \<Rightarrow> bool" where
  "in_window f t \<longleftrightarrow> (case df_start_date f of Some a \<Rightarrow> \<not> t < a | None \<Rightarrow> True) \<and> (case df_end_date f of Some b \<Rightarrow> \<not> b < t | None \<Rightarrow> True)"

definition date_filter :: "dash_filters \<Rightarrow> 'a canon_db_scheme \<Rightarrow> vessel_call list \<Rightarrow> vessel_call list result" where
  "date_filter f s calls =
     (if df_start_date f = None \<and> df_end_date f = None then Inr calls
      else and_then (one_or_none (filter (\<lambda>d. ed_name d = ''ATA'') (event_definitions s))) (\<lambda>ata. Inr (case ata of
          Some d \<Rightarrow> filter (\<lambda>v. in_window f (arrival_time (ed_id d) s v)) calls
        | None \<Rightarrow> calls)))"

section \<open>Quality\<close>

definition quarantined_ids :: "'a canon_db_scheme \<Rightarrow> uid list \<Rightarrow> uid list" where
  "quarantined_ids s ids = filter (\<lambda>i. List.member (open_severities i s) ''CRITICAL'') ids"

definition flagged_ids :: "'a canon_db_scheme \<Rightarrow> uid list \<Rightarrow> uid list" where
  "flagged_ids s ids = filter (\<lambda>i. list_ex (\<lambda>x. x \<noteq> ''CRITICAL'') (open_severities i s) \<and> \<not> List.member (quarantined_ids s ids) i) ids"

definition clean_ids :: "'a canon_db_scheme \<Rightarrow> uid list \<Rightarrow> uid list" where
  "clean_ids s ids = filter (\<lambda>i. \<not> List.member (quarantined_ids s ids) i \<and> \<not> List.member (flagged_ids s ids) i) ids"

definition with_ids :: "uid list \<Rightarrow> vessel_call list \<Rightarrow> vessel_call list" where
  "with_ids ids calls = filter (\<lambda>v. List.member ids (vc_id v)) calls"

definition quality_filter :: "string option \<Rightarrow> 'a canon_db_scheme \<Rightarrow> vessel_call list \<Rightarrow> vessel_call list" where
  "quality_filter q s calls =
     (let ids = map vc_id calls
      in case truthy q of
           None \<Rightarrow> calls
         | Some x \<Rightarrow> if py_upper x = ''QUARANTINED'' then with_ids (quarantined_ids s ids) calls
             else if py_upper x = ''FLAGGED'' then with_ids (flagged_ids s ids) calls
             else if py_upper x = ''CLEAN'' then with_ids (clean_ids s ids) calls else calls)"

record call_counts =
  xc_total_vessel_calls :: nat
  xc_total_merged_calls :: nat
  xc_clean :: nat
  xc_quarantined :: nat
  xc_flagged :: nat
  xc_cleanliness_pct :: rat

definition counts_of :: "string \<Rightarrow> 'a canon_db_scheme \<Rightarrow> uid list \<Rightarrow> vessel_call list \<Rightarrow> call_counts" where
  "counts_of tenant s ids calls =
     (let clean = length (with_ids (clean_ids s ids) calls)
      in \<lparr>xc_total_vessel_calls = length calls, xc_total_merged_calls = length (filter (\<lambda>v. vc_is_merged v \<and> tenant_visible tenant v) (vessel_calls s)),
          xc_clean = clean, xc_quarantined = length (with_ids (quarantined_ids s ids) calls), xc_flagged = length (with_ids (flagged_ids s ids) calls),
          xc_cleanliness_pct = fround 1 (fmul (fdiv (of_nat clean) (of_nat (max 1 (length calls)))) 100)\<rparr>)"

section \<open>Throughput\<close>

record cargo_row =
  cw_cargo_type :: "string option"
  cw_unit :: "string option"
  cw_quantity :: rat
  cw_operations :: nat

text \<open>\<open>float(total_qty or 0.0)\<close>: the sum of no value is null.\<close>

definition cargo_rows :: "(rat list \<Rightarrow> rat) \<Rightarrow> uid list \<Rightarrow> 'a canon_db_scheme \<Rightarrow> cargo_row list" where
  "cargo_rows sql_sum ids s = map (\<lambda>((t, u), ops). (let qs = List.map_filter co_actual_quantity ops
       in \<lparr>cw_cargo_type = t, cw_unit = u, cw_quantity = (if qs = [] then 0 else sql_sum qs), cw_operations = length ops\<rparr>))
     (group_by (\<lambda>c. (co_cargo_type c, co_unit c)) (filter (\<lambda>c. List.member ids (co_vessel_call_id c)) (cargo_operations s)))"

datatype throughput_unit = TEU | MT | UNITS

definition segment_of :: "cargo_row \<Rightarrow> throughput_unit" where
  "segment_of r = (if cw_unit r = Some ''TEU'' then TEU else if cw_unit r = Some ''MT'' then MT else if cw_unit r = Some ''Units'' then UNITS
     else if cw_cargo_type r = Some ''Container'' then TEU
     else if cw_cargo_type r = Some ''Bulk'' \<or> cw_cargo_type r = Some ''Liquid Bulk'' \<or> cw_cargo_type r = Some ''Break Bulk'' then MT else UNITS)"

definition segment_total :: "cargo_row list \<Rightarrow> throughput_unit \<Rightarrow> rat" where
  "segment_total rows u = foldl fadd 0 (map cw_quantity (filter (\<lambda>r. segment_of r = u) rows))"

record throughput =
  th_teu :: rat
  th_mt :: rat
  th_units :: rat
  th_cargo_breakdown :: "cargo_row list"

definition shown_cargo :: "cargo_row \<Rightarrow> cargo_row" where
  "shown_cargo r = r\<lparr>cw_cargo_type := Some (case truthy (cw_cargo_type r) of Some t \<Rightarrow> t | None \<Rightarrow> ''General''),
     cw_unit := Some (case truthy (cw_unit r) of Some u \<Rightarrow> u | None \<Rightarrow> ''Units''), cw_quantity := fround 1 (cw_quantity r)\<rparr>"

definition throughput_of :: "(rat list \<Rightarrow> rat) \<Rightarrow> uid list \<Rightarrow> 'a canon_db_scheme \<Rightarrow> throughput" where
  "throughput_of sql_sum ids s =
     (let rows = cargo_rows sql_sum ids s
      in \<lparr>th_teu = fround 1 (segment_total rows TEU), th_mt = fround 1 (segment_total rows MT), th_units = fround 1 (segment_total rows UNITS),
          th_cargo_breakdown = map shown_cargo rows\<rparr>)"

section \<open>Lead times\<close>

definition dashboard_metrics :: "string list" where
  "dashboard_metrics = [''Turnaround'', ''Anchorage Wait'', ''Inward Movement'', ''Berth Stay'', ''Cargo Working'', ''Outward Movement'',
     ''Arrival Execution Delay'', ''Sailing Execution Delay'']"

record metric_stats =
  mt_mean :: rat
  mt_median :: rat
  mt_p90 :: rat
  mt_min :: rat
  mt_max :: rat

record dashboard_metric =
  dm_name :: string
  dm_observation_count :: nat
  dm_missing_count :: nat
  dm_stats :: "metric_stats option"   \<comment> \<open>\<open>COMPUTED\<close> when there, else \<open>UNAVAILABLE\<close>\<close>
  dm_early_service_count :: nat
  dm_delayed_count :: nat
  dm_on_time_count :: nat

definition metric_of_results :: "polars \<Rightarrow> string \<Rightarrow> lead_time_result list \<Rightarrow> dashboard_metric" where
  "metric_of_results pl name rs =
     (let xs = available_hours (\<lambda>r. True) rs; number = (\<lambda>p. length (filter p xs))
      in \<lparr>dm_name = name, dm_observation_count = length xs, dm_missing_count = length (filter (\<lambda>r. lt_status r = LT_UNAVAILABLE) rs),
          dm_stats = (if xs = [] then None else Some \<lparr>mt_mean = fround 2 (pl_mean pl xs), mt_median = fround 2 (pl_median pl xs),
             mt_p90 = fround 2 (pl_quantile pl (dec 9) xs), mt_min = fround 2 (pl_min pl xs), mt_max = fround 2 (pl_max pl xs)\<rparr>),
          dm_early_service_count = number (\<lambda>d. d < 0), dm_delayed_count = number (\<lambda>d. 0 < d), dm_on_time_count = number (\<lambda>d. d = 0)\<rparr>)"

text \<open>The results of the calls whose definition has the name.\<close>

definition named_results :: "uid list \<Rightarrow> string \<Rightarrow> 'a platform_db_scheme \<Rightarrow> lead_time_result list" where
  "named_results ids name s = filter (\<lambda>r. List.member ids (lt_vessel_call_id r) \<and>
     (case find (\<lambda>d. ld_id d = lt_definition_id r) (lead_time_definitions s) of Some d \<Rightarrow> ld_name d = name | None \<Rightarrow> False)) (lead_time_results s)"

text \<open>The metrics are computed first when none of the first five calls has a result.\<close>

definition ensure_results :: "dash_env \<Rightarrow> time \<Rightarrow> string \<Rightarrow> uid list \<Rightarrow> 'a ingest_db_scheme \<Rightarrow> ('a ingest_db_scheme, unit) attempt" where
  "ensure_results env now tenant ids s =
     (if ids = [] \<or> list_ex (\<lambda>r. List.member (take 5 ids) (lt_vessel_call_id r)) (lead_time_results s) then (s, Inr ())
      else let (s', m) = compute_all_metrics (dv_uuid env) now \<lparr>an_tenant_id = tenant, an_exclude_quarantined = True\<rparr> [] s
        in (s', and_then m (\<lambda>_. Inr ())))"

definition lead_metrics :: "polars \<Rightarrow> uid list \<Rightarrow> 'a platform_db_scheme \<Rightarrow> dashboard_metric list" where
  "lead_metrics pl ids s = map (\<lambda>n. metric_of_results pl n (named_results ids n s)) dashboard_metrics"

section \<open>Delays, bottlenecks and outliers\<close>

record category_row =
  cy_category :: string
  cy_count :: nat
  cy_duration_hours :: rat
  cy_percentage :: rat

definition category_of :: "delay \<Rightarrow> string" where
  "category_of d = (case truthy (dl_canonical_category d) of Some c \<Rightarrow> c
     | None \<Rightarrow> (case truthy (dl_source_category d) of Some c \<Rightarrow> c | None \<Rightarrow> ''Unclassified''))"

definition delay_hours :: "delay list \<Rightarrow> rat" where
  "delay_hours ds = fround 2 (fsum (map dl_total_duration_hours ds))"

definition pareto :: "delay list \<Rightarrow> category_row list" where
  "pareto ds = map (\<lambda>(c, n, h). let h2 = fround 2 h in \<lparr>cy_category = c, cy_count = n, cy_duration_hours = h2,
        cy_percentage = fround 1 (fmul (fdiv h2 (max (fl (1 / 1000)) (delay_hours ds))) 100)\<rparr>)
     (sorted_by_desc (\<lambda>(c, n, h). h) (map (\<lambda>(c, xs). (c, length xs, foldl fadd 0 (map dl_total_duration_hours xs))) (group_by category_of ds)))"

definition with_cause :: "string \<Rightarrow> delay list \<Rightarrow> delay list" where
  "with_cause st ds = filter (\<lambda>d. py_upper (or_empty (dl_cause_status d)) = st) ds"

type_synonym shown_outlier = "outlier_record \<times> string option \<times> bool"

record shown_delays =
  dy_total_delays_count :: nat
  dy_total_delay_hours :: rat
  dy_confirmed_count :: nat
  dy_confirmed_hours :: rat
  dy_inferred_count :: nat
  dy_inferred_hours :: rat
  dy_top_categories :: "category_row list"
  dy_top_bottlenecks :: "candidate list"
  dy_outliers_count :: nat
  dy_top_outliers :: "shown_outlier list"

definition no_delays :: shown_delays where
  "no_delays = \<lparr>dy_total_delays_count = 0, dy_total_delay_hours = 0, dy_confirmed_count = 0, dy_confirmed_hours = 0, dy_inferred_count = 0,
     dy_inferred_hours = 0, dy_top_categories = [], dy_top_bottlenecks = [], dy_outliers_count = 0, dy_top_outliers = []\<rparr>"

definition cohort_outliers :: "string \<Rightarrow> vessel_call list \<Rightarrow> 'a platform_db_scheme \<Rightarrow> shown_outlier list" where
  "cohort_outliers tenant calls s = filter (\<lambda>(r, _). list_ex (\<lambda>v. truthy (vc_vcn v) = Some (or_vcn r)) calls) (list_outliers tenant None None None None s)"

definition delays_summary_of :: "string \<Rightarrow> vessel_call list \<Rightarrow> 'a platform_db_scheme \<Rightarrow> shown_delays result" where
  "delays_summary_of tenant calls s =
     (if calls = [] then Inr no_delays
      else (let ds = filter (\<lambda>d. List.member (map vc_id calls) (dl_vessel_call_id d)) (delays s); outliers = cohort_outliers tenant calls s
        in and_then (calculate_bottlenecks [] False (lead_time_definitions s) (lead_time_results s) s []) (\<lambda>(bs, _). Inr
          \<lparr>dy_total_delays_count = length ds, dy_total_delay_hours = delay_hours ds,
           dy_confirmed_count = length (with_cause ''CONFIRMED'' ds), dy_confirmed_hours = delay_hours (with_cause ''CONFIRMED'' ds),
           dy_inferred_count = length (with_cause ''INFERRED'' ds), dy_inferred_hours = delay_hours (with_cause ''INFERRED'' ds),
           dy_top_categories = take 6 (pareto ds), dy_top_bottlenecks = take 5 bs,
           dy_outliers_count = length outliers, dy_top_outliers = take 5 outliers\<rparr>)))"

section \<open>KPI highlights\<close>

definition spotlight_codes :: "string list" where
  "spotlight_codes = [''KPI-04'', ''KPI-05'', ''KPI-06'', ''KPI-15'', ''KPI-16'', ''KPI-20'', ''KPI-25'', ''KPI-27'', ''KPI-30'']"

record kpi_highlight =
  kh_kpi :: kpi
  kh_value :: "rat option"
  kh_band :: band
  kh_variance :: "rat option"

definition highlight_of :: "scorecard \<Rightarrow> 'a kpi_db_scheme \<Rightarrow> string \<Rightarrow> kpi_highlight option" where
  "highlight_of sc s code = (case (map_of (sc_results sc) code, last_with (\<lambda>k. kp_code k = Some code) (kpis s)) of
       (Some (Score i c n v st b u t pr), Some k) \<Rightarrow>
         if st = KPI_COMPUTED then Some \<lparr>kh_kpi = k, kh_value = v, kh_band = b,
           kh_variance = (case (v, kp_target k) of (Some x, Some y) \<Rightarrow> Some (fround 2 (fsub x y)) | _ \<Rightarrow> None)\<rparr> else None
     | _ \<Rightarrow> None)"

definition highlights :: "scorecard \<Rightarrow> 'a kpi_db_scheme \<Rightarrow> kpi_highlight list" where
  "highlights sc s = List.map_filter (highlight_of sc s) spotlight_codes"

section \<open>The summary\<close>

record shown_lineage =
  ln_batch_id :: "string option"
  ln_file_checksum :: "string option"
  ln_filters :: dash_filters
  ln_generated_at :: time

record dashboard_summary =
  ds_counts :: call_counts
  ds_throughput :: throughput
  ds_lead_times :: "dashboard_metric list"
  ds_delays :: shown_delays
  ds_highlights :: "kpi_highlight list"
  ds_catalogue :: scorecard
  ds_lineage :: shown_lineage

definition unfiltered_query :: kpi_query where
  "unfiltered_query = \<lparr>kq_filters = [], kq_start = None, kq_end = None, kq_grain = ''ALL'', kq_is_recalculation = False\<rparr>"

definition calculate_summary ::
    "dash_env \<Rightarrow> time \<Rightarrow> string \<Rightarrow> dash_filters \<Rightarrow> 'a kpi_db_scheme \<Rightarrow> ('a kpi_db_scheme, dashboard_summary) attempt" where
  "calculate_summary env now tenant f s =
     (case date_filter f s (base_calls tenant f s) of
        Inl e \<Rightarrow> (s, Inl e)
      | Inr all \<Rightarrow>
          (let calls = quality_filter (df_quality_status f) s all; ids = map vc_id calls;
               counts = counts_of tenant s (map vc_id all) calls; cargo = throughput_of (dv_sql_sum env) ids s;
               (s1, ready) = ensure_results env now tenant ids s
           in case and_then ready (\<lambda>_. and_then (delays_summary_of tenant calls s1) (\<lambda>ds.
                  and_then (calculate_all_kpis (dv_depth env) (dv_uuid env) now \<lparr>ke_tenant_id = tenant, ke_exclude_quarantined = True\<rparr> unfiltered_query s1)
                    (\<lambda>(sc, s2). Inr (ds, sc, s2)))) of
                Inl e \<Rightarrow> (s1, Inl e)
              | Inr (ds, sc, s2) \<Rightarrow> (s2, Inr \<lparr>ds_counts = counts, ds_throughput = cargo, ds_lead_times = lead_metrics (dv_polars env) ids s1,
                  ds_delays = ds, ds_highlights = highlights sc s2, ds_catalogue = sc,
                  ds_lineage = \<lparr>ln_batch_id = None, ln_file_checksum = None, ln_filters = f, ln_generated_at = now\<rparr>\<rparr>)))"

section \<open>Snapshots\<close>

record dashboard_snapshot =
  sn_tenant_id :: string
  sn_batch_id :: string
  sn_file_checksum :: string
  sn_filters_hash :: string
  sn_data :: dashboard_summary
  sn_is_active :: bool
  sn_created_at :: time

record dash_db = access_db +
  dashboard_snapshots :: "dashboard_snapshot list"

definition persist_snapshot :: "time \<Rightarrow> string \<Rightarrow> string \<Rightarrow> string \<Rightarrow> string \<Rightarrow> dashboard_summary \<Rightarrow> 'a dash_db_scheme \<Rightarrow> 'a dash_db_scheme" where
  "persist_snapshot now tenant h batch checksum payload s =
     s\<lparr>dashboard_snapshots := map (\<lambda>n. if sn_tenant_id n = tenant \<and> sn_filters_hash n = h then n\<lparr>sn_is_active := False\<rparr> else n) (dashboard_snapshots s) @
        [\<lparr>sn_tenant_id = tenant, sn_batch_id = batch, sn_file_checksum = checksum, sn_filters_hash = h, sn_data = payload, sn_is_active = True,
          sn_created_at = now\<rparr>]\<rparr>"

definition with_batch :: "string \<Rightarrow> string \<Rightarrow> dashboard_summary \<Rightarrow> dashboard_summary" where
  "with_batch batch checksum p = p\<lparr>ds_lineage := (ds_lineage p)\<lparr>ln_batch_id := Some batch, ln_file_checksum := Some checksum\<rparr>\<rparr>"

definition compute_and_persist_snapshot ::
    "dash_env \<Rightarrow> time \<Rightarrow> string \<Rightarrow> string \<Rightarrow> string \<Rightarrow> 'a dash_db_scheme \<Rightarrow> ('a dash_db_scheme, dashboard_summary) attempt" where
  "compute_and_persist_snapshot env now tenant batch checksum s =
     (case calculate_summary env now tenant no_filters s of
        (s1, Inl e) \<Rightarrow> (s1, Inl e)
      | (s1, Inr p) \<Rightarrow> (let p' = with_batch batch checksum p in (persist_snapshot now tenant ''unfiltered'' batch checksum p' s1, Inr p')))"

definition newest_snapshot :: "string \<Rightarrow> 'a dash_db_scheme \<Rightarrow> dashboard_snapshot option" where
  "newest_snapshot tenant s = (case sorted_by_desc sn_created_at (filter (\<lambda>n. sn_tenant_id n = tenant \<and> sn_is_active n \<and> sn_filters_hash n = ''unfiltered'')
     (dashboard_snapshots s)) of [] \<Rightarrow> None | n # _ \<Rightarrow> Some n)"

definition newest_active_batch :: "string \<Rightarrow> 'a ingest_db_scheme \<Rightarrow> batch_row option" where
  "newest_active_batch tenant s = (case sorted_by_desc bt_created_at (filter (\<lambda>b. bt_tenant_id b = tenant \<and> bt_is_active b \<and> bt_status b = ''COMMITTED'')
     (batch_rows s)) of [] \<Rightarrow> None | b # _ \<Rightarrow> Some b)"

text \<open>A fresh summary is stored when it is unfiltered and has calls.\<close>

definition keep_summary :: "time \<Rightarrow> string \<Rightarrow> dash_filters \<Rightarrow> dashboard_summary \<Rightarrow> 'a dash_db_scheme \<Rightarrow> dashboard_summary \<times> 'a dash_db_scheme" where
  "keep_summary now tenant f p s =
     (if is_unfiltered f \<and> 0 < xc_total_vessel_calls (ds_counts p)
      then (let (batch, checksum) = (case newest_active_batch tenant s of Some b \<Rightarrow> (bt_batch_id b, bt_file_checksum b)
              | None \<Rightarrow> (''default-batch'', ''no-checksum''));
            p' = with_batch batch checksum p
          in (p', persist_snapshot now tenant ''unfiltered'' batch checksum p' s))
      else (p, s))"

definition get_executive_summary ::
    "dash_env \<Rightarrow> time \<Rightarrow> string \<Rightarrow> dash_filters \<Rightarrow> bool \<Rightarrow> 'a dash_db_scheme \<Rightarrow> ('a dash_db_scheme, dashboard_summary) attempt" where
  "get_executive_summary env now tenant f force_recompute s =
     (case (if is_unfiltered f \<and> \<not> force_recompute then newest_snapshot tenant s else None) of
        Some n \<Rightarrow> (s, Inr (sn_data n))
      | None \<Rightarrow> (case calculate_summary env now tenant f s of
          (s1, Inl e) \<Rightarrow> (s1, Inl e)
        | (s1, Inr p) \<Rightarrow> (let (p', s2) = keep_summary now tenant f p s1 in (s2, Inr p'))))"

section \<open>Endpoints\<close>

definition attempted :: "('s, 'b) attempt \<Rightarrow> 's \<times> (denial + 'b)" where
  "attempted m = (case m of (s, Inr x) \<Rightarrow> (s, Inr x) | (s, Inl e) \<Rightarrow> (s, Inl (Crashed e)))"

definition get_executive_dashboard ::
    "auth_env \<Rightarrow> settings \<Rightarrow> (nat \<Rightarrow> time) \<Rightarrow> request_info \<Rightarrow> dash_env \<Rightarrow> dash_filters \<Rightarrow> string option \<Rightarrow> 'a dash_db_scheme \<Rightarrow>
     'a dash_db_scheme \<times> (denial + dashboard_summary)" where
  "get_executive_dashboard env cf clk rq dv f requested = protected ''view'' ''analytics'' env cf clk rq (\<lambda>p.
     in_tenant cf p requested (\<lambda>tenant s. attempted (get_executive_summary dv (clk 2) tenant f False s)))"

definition test_combinations :: "(string \<times> dash_filters) list" where
  "test_combinations =
     [(''All Calls (Unfiltered)'', no_filters),
      (''Containerships'', no_filters\<lparr>df_vessel_type := Some ''Fully Cellular Containership''\<rparr>),
      (''Bulk Carriers'', no_filters\<lparr>df_vessel_type := Some ''Bulk Carrier''\<rparr>),
      (''Container Cargo'', no_filters\<lparr>df_cargo_type := Some ''Container''\<rparr>),
      (''Bulk Cargo'', no_filters\<lparr>df_cargo_type := Some ''Bulk''\<rparr>),
      (''Clean Quality Calls'', no_filters\<lparr>df_quality_status := Some ''CLEAN''\<rparr>),
      (''Quarantined Quality Calls'', no_filters\<lparr>df_quality_status := Some ''QUARANTINED''\<rparr>)]"

record reconciled =
  rc_name :: string
  rc_dashboard_total :: nat
  rc_api_total :: nat
  rc_database_total :: nat
  rc_is_reconciled :: bool
  rc_turnaround :: "dashboard_metric option"

definition api_query :: "dash_filters \<Rightarrow> call_query" where
  "api_query f = \<lparr>cq_search = None, cq_port_id = None, cq_terminal_id = None, cq_vessel_type = df_vessel_type f, cq_cargo_type = df_cargo_type f,
     cq_is_merged = Some False\<rparr>"

definition whole_tenant :: "string \<Rightarrow> data_scope" where
  "whole_tenant tenant = \<lparr>sc_tenant_id = tenant, sc_port_id = None, sc_terminal_id = None\<rparr>"

definition api_total :: "string \<Rightarrow> dash_filters \<Rightarrow> call_counts \<Rightarrow> 'a canon_db_scheme \<Rightarrow> nat" where
  "api_total tenant f counts s = (case df_quality_status f of
       None \<Rightarrow> count_calls (whole_tenant tenant) (api_query f) s
     | Some q \<Rightarrow> if q = ''QUARANTINED'' then xc_quarantined counts else if q = ''CLEAN'' then xc_clean counts
         else length (take 200 (build_query (whole_tenant tenant) (query_filters (api_query f)) s)))"

definition database_total :: "string \<Rightarrow> dash_filters \<Rightarrow> nat \<Rightarrow> 'a canon_db_scheme \<Rightarrow> nat" where
  "database_total tenant f dash s = (if df_quality_status f \<noteq> None then dash
     else length (filter (\<lambda>v. \<not> vc_is_merged v \<and> (tenant = ''*'' \<or> vc_tenant_id v = tenant) \<and>
       (case df_vessel_type f of Some x \<Rightarrow> vc_text v Vessel_type = Some x | None \<Rightarrow> True) \<and>
       (case df_cargo_type f of Some x \<Rightarrow> vc_text v Cargo_type = Some x | None \<Rightarrow> True)) (vessel_calls s)))"

definition reconcile_row :: "string \<Rightarrow> string \<Rightarrow> dash_filters \<Rightarrow> dashboard_summary \<Rightarrow> 'a canon_db_scheme \<Rightarrow> reconciled" where
  "reconcile_row tenant name f p s =
     (let dash = xc_total_vessel_calls (ds_counts p); api = api_total tenant f (ds_counts p) s; db = database_total tenant f dash s
      in \<lparr>rc_name = name, rc_dashboard_total = dash, rc_api_total = api, rc_database_total = db, rc_is_reconciled = (dash = api \<and> api = db),
          rc_turnaround = find (\<lambda>m. dm_name m = ''Turnaround'') (ds_lead_times p)\<rparr>)"

fun reconcile_all ::
    "dash_env \<Rightarrow> (nat \<Rightarrow> time) \<Rightarrow> string \<Rightarrow> nat \<Rightarrow> (string \<times> dash_filters) list \<Rightarrow> 'a dash_db_scheme \<Rightarrow> ('a dash_db_scheme, reconciled list) attempt" where
  "reconcile_all env clk tenant k [] s = (s, Inr [])"
| "reconcile_all env clk tenant k ((name, f) # fs) s =
     (case get_executive_summary env (clk k) tenant f False s of
        (s1, Inl e) \<Rightarrow> (s1, Inl e)
      | (s1, Inr p) \<Rightarrow> (let (s2, rest) = reconcile_all env clk tenant (Suc k) fs s1
          in (s2, and_then rest (\<lambda>rs. Inr (reconcile_row tenant name f p s1 # rs)))))"

definition run_reconciliation ::
    "auth_env \<Rightarrow> settings \<Rightarrow> (nat \<Rightarrow> time) \<Rightarrow> request_info \<Rightarrow> dash_env \<Rightarrow> string option \<Rightarrow> 'a dash_db_scheme \<Rightarrow>
     'a dash_db_scheme \<times> (denial + bool \<times> reconciled list)" where
  "run_reconciliation env cf clk rq dv requested = protected ''view'' ''analytics'' env cf clk rq (\<lambda>p. in_tenant cf p requested (\<lambda>tenant s.
     attempted (case reconcile_all dv clk tenant 2 test_combinations s of
       (s', m) \<Rightarrow> (s', and_then m (\<lambda>rs. Inr (list_all rc_is_reconciled rs, rs))))))"

section \<open>What the counts are\<close>

text \<open>The quality status is the one the listing of vessel calls shows (\<open>quality_of\<close>).\<close>

definition shown_quality :: "'a canon_db_scheme \<Rightarrow> vessel_call \<Rightarrow> string" where
  "shown_quality s v = fst (quality_of (open_severities (vc_id v) s))"

definition dates_ok :: "dash_filters \<Rightarrow> 'a canon_db_scheme \<Rightarrow> vessel_call \<Rightarrow> bool" where
  "dates_ok f s v \<longleftrightarrow> (df_start_date f = None \<and> df_end_date f = None) \<or>
     (case find (\<lambda>d. ed_name d = ''ATA'') (event_definitions s) of Some d \<Rightarrow> in_window f (arrival_time (ed_id d) s v) | None \<Rightarrow> True)"

definition quality_ok :: "dash_filters \<Rightarrow> 'a canon_db_scheme \<Rightarrow> vessel_call \<Rightarrow> bool" where
  "quality_ok f s v \<longleftrightarrow> (case truthy (df_quality_status f) of
       Some x \<Rightarrow> py_upper x \<in> {''QUARANTINED'', ''FLAGGED'', ''CLEAN''} \<longrightarrow> shown_quality s v = py_upper x
     | None \<Rightarrow> True)"

definition selected_call :: "string \<Rightarrow> dash_filters \<Rightarrow> 'a canon_db_scheme \<Rightarrow> vessel_call \<Rightarrow> bool" where
  "selected_call tenant f s v \<longleftrightarrow> \<not> vc_is_merged v \<and> tenant_visible tenant v \<and> list_all (\<lambda>p. p v) (column_filters f) \<and> dates_ok f s v \<and> quality_ok f s v"

lemma shown_quality_iff:
  "shown_quality s v = ''QUARANTINED'' \<longleftrightarrow> ''CRITICAL'' \<in> set (open_severities (vc_id v) s)"
  "shown_quality s v = ''CLEAN'' \<longleftrightarrow> open_severities (vc_id v) s = []"
  "shown_quality s v = ''FLAGGED'' \<longleftrightarrow> open_severities (vc_id v) s \<noteq> [] \<and> ''CRITICAL'' \<notin> set (open_severities (vc_id v) s)"
  by (auto simp: shown_quality_def quality_of_def Let_def filter_empty_conv)

lemma shown_quality_cases: "shown_quality s v = ''QUARANTINED'' \<or> shown_quality s v = ''FLAGGED'' \<or> shown_quality s v = ''CLEAN''"
  by (auto simp: shown_quality_def quality_of_def Let_def)

lemma partition_members:
  assumes "i \<in> set ids"
  shows "i \<in> set (quarantined_ids s ids) \<longleftrightarrow> ''CRITICAL'' \<in> set (open_severities i s)"
    and "i \<in> set (flagged_ids s ids) \<longleftrightarrow> open_severities i s \<noteq> [] \<and> ''CRITICAL'' \<notin> set (open_severities i s)"
    and "i \<in> set (clean_ids s ids) \<longleftrightarrow> open_severities i s = []"
proof -
  show q: "i \<in> set (quarantined_ids s ids) \<longleftrightarrow> ''CRITICAL'' \<in> set (open_severities i s)"
    using assms by (simp add: quarantined_ids_def)
  show f: "i \<in> set (flagged_ids s ids) \<longleftrightarrow> open_severities i s \<noteq> [] \<and> ''CRITICAL'' \<notin> set (open_severities i s)"
    using assms q by (cases "open_severities i s") (auto simp: flagged_ids_def list_ex_iff)
  show "i \<in> set (clean_ids s ids) \<longleftrightarrow> open_severities i s = []"
    using assms q f by (auto simp: clean_ids_def)
qed

lemma with_ids_quality:
  assumes "vc_id ` set calls \<subseteq> set ids"
  shows "with_ids (quarantined_ids s ids) calls = filter (\<lambda>v. shown_quality s v = ''QUARANTINED'') calls"
    and "with_ids (flagged_ids s ids) calls = filter (\<lambda>v. shown_quality s v = ''FLAGGED'') calls"
    and "with_ids (clean_ids s ids) calls = filter (\<lambda>v. shown_quality s v = ''CLEAN'') calls"
  using assms by (auto simp: with_ids_def partition_members shown_quality_iff intro!: filter_cong)

lemma quality_filter_eq: "quality_filter (df_quality_status f) s calls = filter (quality_ok f s) calls"
  by (auto simp: quality_filter_def quality_ok_def Let_def with_ids_quality split: option.split intro!: filter_cong)

lemma date_filter_eq:
  assumes "date_filter f s calls = Inr cs" shows "cs = filter (dates_ok f s) calls"
proof (cases "df_start_date f = None \<and> df_end_date f = None")
  case True
  then show ?thesis using assms by (simp add: date_filter_def dates_ok_def)
next
  case False
  then obtain ata where ata: "one_or_none (filter (\<lambda>d. ed_name d = ''ATA'') (event_definitions s)) = Inr ata"
    and cs: "cs = (case ata of Some d \<Rightarrow> filter (\<lambda>v. in_window f (arrival_time (ed_id d) s v)) calls | None \<Rightarrow> calls)"
    using assms by (auto simp: date_filter_def and_then_Inr_iff split: if_splits)
  have "find (\<lambda>d. ed_name d = ''ATA'') (event_definitions s) = ata"
    using ata by (cases ata) (auto simp: find_filter_cases dest!: one_or_none_SomeD one_or_none_NoneD)
  then show ?thesis using False by (cases ata) (auto simp: cs dates_ok_def intro!: filter_cong)
qed

lemma length_filter_by_vcn: "length (filter P (by_vcn vs)) = length (filter P vs)"
proof -
  have "mset (by_vcn vs) = mset vs"
    unfolding by_vcn_def by (simp add: multiset_partition [symmetric])
  then show ?thesis by (metis mset_filter size_mset)
qed

lemma calculate_summary_ok:
  assumes "calculate_summary env now tenant f s = (s', Inr p)"
  obtains "all" where "date_filter f s (base_calls tenant f s) = Inr all"
    "ds_counts p = counts_of tenant s (map vc_id all) (quality_filter (df_quality_status f) s all)"
    "ds_throughput p = throughput_of (dv_sql_sum env) (map vc_id (quality_filter (df_quality_status f) s all)) s"
  using assms unfolding calculate_summary_def
  by (auto simp: Let_def split: sum.splits prod.splits)

definition selected_calls :: "string \<Rightarrow> dash_filters \<Rightarrow> 'a canon_db_scheme \<Rightarrow> vessel_call list" where
  "selected_calls tenant f s = filter (selected_call tenant f s) (vessel_calls s)"

definition with_quality :: "string \<Rightarrow> 'a canon_db_scheme \<Rightarrow> vessel_call list \<Rightarrow> vessel_call list" where
  "with_quality q s calls = filter (\<lambda>v. shown_quality s v = q) calls"

lemma quality_classes: "length calls = length (with_quality ''CLEAN'' s calls) + length (with_quality ''QUARANTINED'' s calls) + length (with_quality ''FLAGGED'' s calls)"
proof (induction calls)
  case (Cons v vs)
  then show ?case using shown_quality_cases [of s v] by (auto simp: with_quality_def)
qed (simp add: with_quality_def)

lemma summary_counts_facts:
  assumes "calculate_summary env now tenant f s = (s', Inr p)"
  shows "xc_total_vessel_calls (ds_counts p) = length (selected_calls tenant f s) \<and>
    xc_clean (ds_counts p) = length (with_quality ''CLEAN'' s (selected_calls tenant f s)) \<and>
    xc_quarantined (ds_counts p) = length (with_quality ''QUARANTINED'' s (selected_calls tenant f s)) \<and>
    xc_flagged (ds_counts p) = length (with_quality ''FLAGGED'' s (selected_calls tenant f s)) \<and>
    xc_clean (ds_counts p) + xc_quarantined (ds_counts p) + xc_flagged (ds_counts p) = xc_total_vessel_calls (ds_counts p)"
proof -
  obtain cs where cs: "date_filter f s (base_calls tenant f s) = Inr cs"
    and counts: "ds_counts p = counts_of tenant s (map vc_id cs) (quality_filter (df_quality_status f) s cs)"
    using calculate_summary_ok [OF assms] by metis
  let ?calls = "filter (quality_ok f s) (filter (dates_ok f s) (base_calls tenant f s))"
  have calls: "quality_filter (df_quality_status f) s cs = ?calls" using date_filter_eq [OF cs] by (simp add: quality_filter_eq)
  have ids: "vc_id ` set ?calls \<subseteq> set (map vc_id cs)" using date_filter_eq [OF cs] by auto
  have size: "length (filter Q ?calls) = length (filter Q (selected_calls tenant f s))" for Q
    unfolding base_calls_def filter_filter selected_calls_def length_filter_by_vcn
    by (intro arg_cong [where f = length] filter_cong) (auto simp: selected_call_def)
  show ?thesis
    unfolding counts calls counts_of_def Let_def call_counts.simps with_ids_quality [OF ids] with_quality_def size
    using size [of "\<lambda>v. True"] quality_classes [of "selected_calls tenant f s" s] by (simp add: with_quality_def)
qed

text \<open>C26. The counts of a fresh executive summary. The total is the number of the tenant's unmerged calls that pass the filters; the
  clean, quarantined and flagged ones are those with that status in the listing of vessel calls; together they are the total.\<close>

theorem summary_counts:
  assumes "calculate_summary env now tenant f s = (s', Inr p)"
  shows "xc_total_vessel_calls (ds_counts p) = length (selected_calls tenant f s) \<and>
    xc_clean (ds_counts p) = length (with_quality ''CLEAN'' s (selected_calls tenant f s)) \<and>
    xc_quarantined (ds_counts p) = length (with_quality ''QUARANTINED'' s (selected_calls tenant f s)) \<and>
    xc_flagged (ds_counts p) = length (with_quality ''FLAGGED'' s (selected_calls tenant f s)) \<and>
    xc_clean (ds_counts p) + xc_quarantined (ds_counts p) + xc_flagged (ds_counts p) = xc_total_vessel_calls (ds_counts p)"
  using summary_counts_facts [OF assms] .

section \<open>The stored summary\<close>

lemma newest_after_persist:
  "newest_snapshot tenant (persist_snapshot now tenant ''unfiltered'' b c p s) =
     Some \<lparr>sn_tenant_id = tenant, sn_batch_id = b, sn_file_checksum = c, sn_filters_hash = ''unfiltered'', sn_data = p, sn_is_active = True, sn_created_at = now\<rparr>"
proof -
  have none: "filter (\<lambda>n. sn_tenant_id n = tenant \<and> sn_is_active n \<and> sn_filters_hash n = ''unfiltered'')
      (map (\<lambda>n. if sn_tenant_id n = tenant \<and> sn_filters_hash n = ''unfiltered'' then n\<lparr>sn_is_active := False\<rparr> else n) ns) = []" for ns
    by (induction ns) auto
  show ?thesis unfolding newest_snapshot_def persist_snapshot_def by (simp add: none sorted_by_desc_def)
qed

lemma newest_snapshot_cong: "dashboard_snapshots s = dashboard_snapshots s' \<Longrightarrow> newest_snapshot tenant s = newest_snapshot tenant s'"
  by (simp add: newest_snapshot_def)

lemma keep_summary_counts: "ds_counts (fst (keep_summary now tenant f p s)) = ds_counts p"
  by (simp add: keep_summary_def with_batch_def Let_def split: prod.split)

lemma get_executive_summary_cases:
  assumes "get_executive_summary env now tenant f False s = (s', Inr p)"
  obtains (stored) n where "is_unfiltered f" "newest_snapshot tenant s = Some n" "s' = s" "p = sn_data n"
  | (fresh) s1 p1 where "calculate_summary env now tenant f s = (s1, Inr p1)" "keep_summary now tenant f p1 s1 = (p, s')"
proof (cases "if is_unfiltered f then newest_snapshot tenant s else None")
  case (Some n)
  then show ?thesis using assms by (intro stored [of n]) (simp_all add: get_executive_summary_def split: if_splits)
next
  case None
  obtain s1 m where calc: "calculate_summary env now tenant f s = (s1, m)" by (cases "calculate_summary env now tenant f s")
  then obtain p1 where "m = Inr p1" using assms None by (cases m) (auto simp: get_executive_summary_def split: if_splits)
  then show ?thesis using assms None calc
    by (intro fresh [of s1 p1]) (auto simp: get_executive_summary_def Let_def split: if_splits prod.splits)
qed

text \<open>C18. Once an unfiltered summary with calls has been given out, every later unfiltered request of the tenant gets the same summary,
  whatever has happened to the vessel calls, events, delays or issues since, until a new snapshot is stored: only the batch pipeline
  does that.\<close>

theorem stored_summary_is_served:
  assumes "get_executive_summary env now tenant f False s = (s1, Inr p)" "is_unfiltered f" "0 < xc_total_vessel_calls (ds_counts p)"
    and "dashboard_snapshots s2 = dashboard_snapshots s1" "is_unfiltered g"
  shows "get_executive_summary env' now' tenant g False s2 = (s2, Inr p)"
proof -
  have "\<exists>n. newest_snapshot tenant s1 = Some n \<and> sn_data n = p"
    using assms(1)
  proof (cases rule: get_executive_summary_cases)
    case (stored n)
    then show ?thesis by simp
  next
    case (fresh s0 p0)
    have "ds_counts p0 = ds_counts p" using keep_summary_counts [of now tenant f p0 s0] fresh(2) by simp
    then have "0 < xc_total_vessel_calls (ds_counts p0)" using assms(3) by simp
    then show ?thesis using fresh(2) assms(2) by (auto simp: keep_summary_def Let_def newest_after_persist split: prod.splits)
  qed
  then show ?thesis using assms(5) newest_snapshot_cong [OF assms(4), of tenant] by (auto simp: get_executive_summary_def)
qed

section \<open>The reconciliation\<close>

lemma reconcile_all_rows:
  fixes s :: "'a dash_db_scheme"
  shows "reconcile_all env clk tenant k fs s = (s', Inr rs) \<Longrightarrow> list_all2 (\<lambda>(name, f) r. \<exists>(s0 :: 'a dash_db_scheme) s1 p j.
     get_executive_summary env (clk j) tenant f False s0 = (s1, Inr p) \<and> r = reconcile_row tenant name f p s1) fs rs"
proof (induction fs arbitrary: k s s' rs)
  case (Cons x fs)
  obtain name f where x: "x = (name, f)" by (cases x)
  obtain s1 p s2 rest where run: "get_executive_summary env (clk k) tenant f False s = (s1, Inr p)"
    and more: "reconcile_all env clk tenant (Suc k) fs s1 = (s2, Inr rest)" and rs: "rs = reconcile_row tenant name f p s1 # rest"
    using Cons.prems by (auto simp: x Let_def and_then_Inr_iff split: prod.splits sum.splits)
  have "\<exists>(s0 :: 'a dash_db_scheme) s1' p' j. get_executive_summary env (clk j) tenant f False s0 = (s1', Inr p') \<and> reconcile_row tenant name f p s1 = reconcile_row tenant name f p' s1'"
    using run by (intro exI [of _ s] exI [of _ s1] exI [of _ p] exI [of _ k] conjI refl)
  then show ?case using Cons.IH [OF more] unfolding x rs by (simp only: list_all2_Cons prod.case simp_thms)
qed simp

lemma quality_row_reconciled:
  assumes "get_executive_summary env now tenant f False s = (s1, Inr p)" "df_quality_status f = Some q" "q = ''CLEAN'' \<or> q = ''QUARANTINED''"
  shows "rc_is_reconciled (reconcile_row tenant name f p s1)"
proof -
  have "\<not> is_unfiltered f" using assms(2,3) by (auto simp: is_unfiltered_def any_value_def)
  then obtain p0 s0 where calc: "calculate_summary env now tenant f s = (s0, Inr p0)" and "p = p0"
    using assms(1) by (elim get_executive_summary_cases) (auto simp: keep_summary_def)
  have "py_upper q = q" "truthy (Some q) = Some q" using assms(3) by (auto simp: py_upper_def upper_char_def truthy_def)
  then have "with_quality q s (selected_calls tenant f s) = selected_calls tenant f s"
    using assms(2,3) unfolding with_quality_def selected_calls_def
    by (intro filter_True ballI) (auto simp: selected_call_def quality_ok_def)
  then show ?thesis
    using summary_counts_facts [OF calc] assms(2,3) unfolding reconcile_row_def Let_def api_total_def database_total_def \<open>p = p0\<close> by auto
qed

text \<open>C29. The reconciliation of the dashboard, the API and the database compares the two quality combinations with nothing but the
  dashboard itself: whatever the tables hold, their rows report agreement, so the verdict depends on the first five rows alone.\<close>

theorem quality_rows_always_reconcile:
  fixes s :: "'a dash_db_scheme"
  assumes "reconcile_all env clk tenant k test_combinations s = (s', Inr rs)"
  shows "length rs = 7 \<and> list_all rc_is_reconciled (drop 5 rs) \<and> (list_all rc_is_reconciled rs \<longleftrightarrow> list_all rc_is_reconciled (take 5 rs))"
proof -
  note rows = reconcile_all_rows [OF assms]
  have len: "length rs = 7" using list_all2_lengthD [OF rows] by (simp add: test_combinations_def)
  have "rc_is_reconciled (rs ! i)" if i: "i < 7" "df_quality_status (snd (test_combinations ! i)) = Some q" "q = ''CLEAN'' \<or> q = ''QUARANTINED''" for i q
  proof -
    obtain name f where nf: "test_combinations ! i = (name, f)" by (cases "test_combinations ! i")
    obtain s0 s1 :: "'a dash_db_scheme" and p j where "get_executive_summary env (clk j) tenant f False s0 = (s1, Inr p)" "rs ! i = reconcile_row tenant name f p s1"
      using list_all2_nthD2 [OF rows, of i] i(1) unfolding nf prod.case len by blast
    then show ?thesis using quality_row_reconciled [of env "clk j" tenant f s0 s1 p q name] i(2,3) nf by simp
  qed
  from this [of 5 "''CLEAN''"] this [of 6 "''QUARANTINED''"] have "rc_is_reconciled (rs ! 5)" "rc_is_reconciled (rs ! 6)"
    by (simp_all add: test_combinations_def no_filters_def)
  moreover have "drop 5 rs = [rs ! 5, rs ! 6]" using len by (auto simp: list_eq_iff_nth_eq dest!: less_2_cases)
  ultimately have tail: "list_all rc_is_reconciled (drop 5 rs)" by simp
  show ?thesis using len tail list_all_append [of rc_is_reconciled "take 5 rs" "drop 5 rs"] by simp
qed

section \<open>What a view writes\<close>

text \<open>The scorecard writes the KPI tables and nothing else.\<close>

definition kpi_frame :: "'a kpi_db_scheme \<Rightarrow> 'a kpi_db_scheme \<Rightarrow> bool" where
  "kpi_frame s s' \<longleftrightarrow> s' = s\<lparr>kpis := kpis s', kpi_formula_versions := kpi_formula_versions s', kpi_results := kpi_results s', draws := draws s'\<rparr>"

lemma kpi_frame_refl [simp]: "kpi_frame s s"
  by (simp add: kpi_frame_def)

lemma kpi_frameE:
  assumes "kpi_frame s s'" obtains a b c d where "s' = s\<lparr>kpis := a, kpi_formula_versions := b, kpi_results := c, draws := d\<rparr>"
  using assms unfolding kpi_frame_def by blast

lemma kpi_frame_trans: "kpi_frame s s' \<Longrightarrow> kpi_frame s' s'' \<Longrightarrow> kpi_frame s s''"
  by (elim kpi_frameE) (simp add: kpi_frame_def)

lemma upsert_frame: "upsert_kpi uuid es c s = Inr (i, s') \<Longrightarrow> kpi_frame s s'"
  by (auto simp: upsert_kpi_def kpi_frame_def Let_def split: option.splits if_splits)

lemma version_frame: "ensure_formula_version uuid i c s = Inr s' \<Longrightarrow> kpi_frame s s'"
  by (auto simp: ensure_formula_version_def kpi_frame_def and_then_Inr_iff split: option.splits)

lemma upserts_frame: "upsert_kpis uuid es cs s = Inr (m, s') \<Longrightarrow> kpi_frame s s'"
proof (induction cs arbitrary: s m)
  case (Cons c cs)
  then obtain i s1 s2 m' where "upsert_kpi uuid es c s = Inr (i, s1)" "ensure_formula_version uuid i c s1 = Inr s2" "upsert_kpis uuid es cs s2 = Inr (m', s')"
    by (auto simp: and_then_Inr_iff)
  then show ?case using Cons.IH upsert_frame version_frame kpi_frame_trans by metis
qed simp

lemma links_frame: "kpi_frame s (fold (link_alias m) cs s)"
proof (induction cs arbitrary: s)
  case (Cons c cs)
  have "kpi_frame s (link_alias m c s)" by (simp add: link_alias_def kpi_frame_def split: option.split)
  then show ?case using Cons.IH kpi_frame_trans by fastforce
qed simp

lemma registry_frame: "ensure_kpi_registry uuid s = Inr (m, s') \<Longrightarrow> kpi_frame s s'"
  using links_frame kpi_frame_trans by (auto simp: ensure_kpi_registry_def and_then_Inr_iff dest!: upserts_frame) blast

lemma add_result_frame: "add_result uuid r s = (r', s') \<Longrightarrow> kpi_frame s s'"
  by (simp add: add_result_eq kpi_frame_def)

lemma calculate_frame: "calculate_kpi n uuid now g q code s = Inr (r, s') \<Longrightarrow> kpi_frame s s'"
proof (induction n arbitrary: code s r s')
  case (Suc n)
  then obtain m s1 k where e: "ensure_kpi_registry uuid s = Inr (m, s1)"
    and rest: "(if kp_availability_status k = ''NO_SOURCE_DATA'' then Inr (add_result uuid (kpi_row now g q k (no_source_value k)) s1)
       else and_then (primary_of k s1) (\<lambda>primary. case primary of
           Some p \<Rightarrow> and_then (calculate_kpi n uuid now g q (kp_code p) s1) (\<lambda>(r, s). Inr (add_result uuid (alias_row now g q k p r) s))
         | None \<Rightarrow> Inr (add_result uuid (kpi_row now g q k (compute_kpi_value k (load_inputs g (kq_filters q) (kq_start q) (kq_end q) s1))) s1))) = Inr (r, s')"
    by (auto simp: and_then_Inr_iff split: option.splits)
  have "kpi_frame s1 s'"
    using rest Suc.IH kpi_frame_trans
    by (auto simp: and_then_Inr_iff split: if_splits option.splits dest: add_result_frame) (blast dest: add_result_frame)
  then show ?case using registry_frame [OF e] kpi_frame_trans by blast
qed simp

lemma scores_frame: "score_all n uuid now g q m cs s = (es, s') \<Longrightarrow> kpi_frame s s'"
proof (induction cs arbitrary: s es)
  case (Cons c cs)
  have "kpi_frame s (snd (score_kpi n uuid now g q m c s))"
    by (auto simp: score_kpi_def Let_def split: sum.split dest: calculate_frame)
  then show ?case using Cons kpi_frame_trans by (fastforce simp: Let_def split: prod.splits)
qed simp

lemma scorecard_total:
  assumes "registry_ok uuid s"
  shows "\<exists>sc s' rs. calculate_all_kpis (Suc n) uuid now g q s = Inr (sc, s') \<and> registry_ok uuid s' \<and> kpi_frame s s' \<and>
    kpi_results s' = kpi_results s @ rs \<and> length rs = 55"
proof -
  obtain m s1 where e: "ensure_kpi_registry uuid s = Inr (m, s1)" "registry_ok uuid s1" "kpi_results s1 = kpi_results s"
    using ensure_registry [OF assms] by metis
  obtain es s' rs where r: "score_all (Suc n) uuid now g (q\<lparr>kq_is_recalculation := False\<rparr>) m (map ki_code kpi_registry_definitions) s1 = (es, s')"
      "registry_ok uuid s'" "map fst es = map ki_code kpi_registry_definitions" "kpi_results s' = kpi_results s1 @ rs"
      "map (entry_status \<circ> snd) es = map kr_status rs"
    using score_all_registered [OF e(2) order_refl] by blast
  have "length rs = 55" using arg_cong [OF r(3), of length] arg_cong [OF r(5), of length] registry_length by simp
  moreover have "kpi_frame s s'" using registry_frame [OF e(1)] scores_frame [OF r(1)] kpi_frame_trans by blast
  ultimately show ?thesis using e r by (intro exI [of _ "scorecard_of es"] exI [of _ s'] exI [of _ rs]) (simp add: calculate_all_kpis_def Let_def)
qed

lemma delays_summary_total: "\<exists>ds. delays_summary_of tenant calls s = Inr ds"
  by (auto simp: delays_summary_of_def calculate_bottlenecks_def norm_weights_default Let_def)

text \<open>The lead times of the cohort are there, or there is no cohort.\<close>

definition results_ready :: "string \<Rightarrow> dash_filters \<Rightarrow> 'a platform_db_scheme \<Rightarrow> bool" where
  "results_ready tenant f s \<longleftrightarrow> (case date_filter f s (base_calls tenant f s) of
       Inr cs \<Rightarrow> (let ids = map vc_id (quality_filter (df_quality_status f) s cs)
          in ids = [] \<or> list_ex (\<lambda>r. List.member (take 5 ids) (lt_vessel_call_id r)) (lead_time_results s))
     | Inl e \<Rightarrow> False)"

lemma summary_total:
  assumes "registry_ok (dv_uuid env) s" "dv_depth env = Suc n" "results_ready tenant f s"
  shows "\<exists>p s' rs. calculate_summary env now tenant f s = (s', Inr p) \<and> registry_ok (dv_uuid env) s' \<and> kpi_frame s s' \<and>
    kpi_results s' = kpi_results s @ rs \<and> length rs = 55"
proof -
  obtain cs where cs: "date_filter f s (base_calls tenant f s) = Inr cs"
    and ready: "\<And>now. ensure_results env now tenant (map vc_id (quality_filter (df_quality_status f) s cs)) s = (s, Inr ())"
    using assms(3) by (auto simp: results_ready_def ensure_results_def Let_def split: sum.splits)
  obtain ds where ds: "delays_summary_of tenant (quality_filter (df_quality_status f) s cs) s = Inr ds" using delays_summary_total by blast
  obtain sc s' rs where "calculate_all_kpis (dv_depth env) (dv_uuid env) now \<lparr>ke_tenant_id = tenant, ke_exclude_quarantined = True\<rparr> unfiltered_query s = Inr (sc, s')"
    "registry_ok (dv_uuid env) s'" "kpi_frame s s'" "kpi_results s' = kpi_results s @ rs" "length rs = 55"
    unfolding assms(2) using scorecard_total [OF assms(1)] by blast
  then show ?thesis by (simp add: calculate_summary_def cs ready ds Let_def)
qed

text \<open>Looking at the dashboard writes: on a consistent registry every view that is not served from the stored summary succeeds and
  appends 55 KPI results, whatever its filters; it changes nothing but the KPI tables.\<close>

theorem view_appends_results:
  assumes "registry_ok (dv_uuid env) s" "dv_depth env = Suc n" "results_ready tenant f s" "\<not> is_unfiltered f"
  shows "\<exists>p s'. get_executive_summary env now tenant f False s = (s', Inr p) \<and> length (kpi_results s') = length (kpi_results s) + 55 \<and> kpi_frame s s'"
proof -
  obtain p s' rs where run: "calculate_summary env now tenant f s = (s', Inr p)" "kpi_frame s s'" "kpi_results s' = kpi_results s @ rs" "length rs = 55"
    using summary_total [OF assms(1-3)] by blast
  then show ?thesis using assms(4) by (simp add: get_executive_summary_def keep_summary_def)
qed

section \<open>Witnesses\<close>

definition stored_result :: lead_time_result where
  "stored_result = \<lparr>lt_id = ''r'', lt_vessel_call_id = ''c'', lt_definition_id = ''d'', lt_vcn = None, lt_duration_hours = Some 1, lt_status = LT_AVAILABLE,
     lt_unavailable_reason = None, lt_formula_version = None, lt_source_record_ids = None, lt_filter_context = [], lt_exclusions_applied = [],
     lt_dq_status = None, lt_calculated_at = None, lt_start_event_occurrence_id = None, lt_end_event_occurrence_id = None, lt_start_time = None,
     lt_end_time = None\<rparr>"

definition one_call :: dash_db where
  "one_call = access_db.extend (sample_access False) (dash_db.fields [])\<lparr>lead_time_results := [stored_result]\<rparr>"

definition sample_dash :: dash_env where
  "sample_dash = \<lparr>dv_depth = 1, dv_uuid = sample_ids, dv_polars = simple_polars, dv_sql_sum = sum_list\<rparr>"

lemma one_call_sel [simp]:
  "vessel_calls one_call = [bare_call ''c'']" "lead_time_results one_call = [stored_result]" "event_definitions one_call = []" "dashboard_snapshots one_call = []"
  "registry_ok sample_ids one_call"
  using kpi_tables_ok [of "staged_db []"]
  by (simp_all add: one_call_def sample_access_def kpi_tables_def staged_db_def call_db_def platform_db.defs ingest_db.defs kpi_db.defs access_db.defs
      dash_db.defs registry_ok_def versions_of_def)

lemma one_call_summary:
  "\<exists>s' p. calculate_summary sample_dash now ''t'' no_filters one_call = (s', Inr p) \<and> xc_total_vessel_calls (ds_counts p) = 1"
proof -
  have calls: "base_calls ''t'' no_filters one_call = [bare_call ''c'']"
    by (simp add: base_calls_def by_vcn_def column_filters_def no_filters_def equal_filter_def not_star_def truthy_def tenant_visible_def bare_call_def sorted_by_def)
  have dates: "date_filter no_filters one_call [bare_call ''c''] = Inr [bare_call ''c'']" by (simp add: date_filter_def no_filters_def)
  have quality: "quality_filter (df_quality_status no_filters) one_call [bare_call ''c''] = [bare_call ''c'']"
    by (simp add: quality_filter_def no_filters_def truthy_def)
  have ready: "ensure_results sample_dash now ''t'' [''c''] one_call = (one_call, Inr ())" by (simp add: ensure_results_def stored_result_def)
  obtain ds where ds: "delays_summary_of ''t'' [bare_call ''c''] one_call = Inr ds"
    unfolding delays_summary_of_def calculate_bottlenecks_def norm_weights_default by (auto simp: Let_def)
  obtain sc s' where sc: "calculate_all_kpis 1 sample_ids now \<lparr>ke_tenant_id = ''t'', ke_exclude_quarantined = True\<rparr> unfiltered_query one_call = Inr (sc, s')"
    using scorecard_total [OF one_call_sel(5), of 0] by (metis One_nat_def)
  have "vc_id (bare_call ''c'') = ''c''" by (simp add: bare_call_def)
  then show ?thesis
    using ready ds sc unfolding calculate_summary_def calls dates by (simp add: quality Let_def sample_dash_def counts_of_def)
qed

lemma summary_counts_witness:
  "\<exists>s' p. calculate_summary sample_dash 0 ''t'' no_filters one_call = (s', Inr p) \<and> length (selected_calls ''t'' no_filters one_call) = 1"
proof -
  obtain s' p where run: "calculate_summary sample_dash 0 ''t'' no_filters one_call = (s', Inr p)" "xc_total_vessel_calls (ds_counts p) = 1"
    using one_call_summary by blast
  from summary_counts [OF run(1)] run show ?thesis by auto
qed

lemma stored_summary_is_served_witness:
  "\<exists>s1 p. get_executive_summary sample_dash 0 ''t'' no_filters False one_call = (s1, Inr p) \<and>
     get_executive_summary sample_dash 9 ''t'' no_filters False (s1\<lparr>vessel_calls := []\<rparr>) = (s1\<lparr>vessel_calls := []\<rparr>, Inr p)"
proof -
  obtain s1 p where run: "calculate_summary sample_dash 0 ''t'' no_filters one_call = (s1, Inr p)" "xc_total_vessel_calls (ds_counts p) = 1"
    using one_call_summary by blast
  obtain q s2 where keep: "keep_summary 0 ''t'' no_filters p s1 = (q, s2)" by (cases "keep_summary 0 ''t'' no_filters p s1")
  have plain: "is_unfiltered no_filters" by (simp add: is_unfiltered_def no_filters_def any_value_def)
  have get: "get_executive_summary sample_dash 0 ''t'' no_filters False one_call = (s2, Inr q)"
    using run(1) keep by (simp add: get_executive_summary_def newest_snapshot_def sorted_by_desc_def)
  have "0 < xc_total_vessel_calls (ds_counts q)" using keep_summary_counts [of 0 "''t''" no_filters p s1] keep run(2) by simp
  from stored_summary_is_served [OF get plain this _ plain, of "s2\<lparr>vessel_calls := []\<rparr>" sample_dash 9] get show ?thesis by auto
qed

lemma view_appends_results_witness:
  "\<exists>p s'. get_executive_summary sample_dash 0 ''t'' (no_filters\<lparr>df_quality_status := Some ''CLEAN''\<rparr>) False one_call = (s', Inr p) \<and>
     length (kpi_results s') = length (kpi_results one_call) + 55"
proof -
  have f: "\<not> is_unfiltered (no_filters\<lparr>df_quality_status := Some ''CLEAN''\<rparr>)" by (simp add: is_unfiltered_def any_value_def)
  have calls: "base_calls ''t'' (no_filters\<lparr>df_quality_status := Some ''CLEAN''\<rparr>) one_call = [bare_call ''c'']"
    by (simp add: base_calls_def by_vcn_def column_filters_def no_filters_def equal_filter_def not_star_def truthy_def tenant_visible_def bare_call_def sorted_by_def)
  have "quality_filter q one_call [bare_call ''c''] = [] \<or> quality_filter q one_call [bare_call ''c''] = [bare_call ''c'']" for q
    unfolding quality_filter_def with_ids_def Let_def by (simp split: option.split)
  moreover have "vc_id (bare_call ''c'') = ''c''" by (simp add: bare_call_def)
  ultimately have "map vc_id (quality_filter q one_call [bare_call ''c'']) = [] \<or> map vc_id (quality_filter q one_call [bare_call ''c'']) = [''c'']" for q
    by (metis list.simps(8,9))
  from this [of "Some ''CLEAN''"] have ready: "results_ready ''t'' (no_filters\<lparr>df_quality_status := Some ''CLEAN''\<rparr>) one_call"
    unfolding results_ready_def calls by (elim disjE) (simp_all add: date_filter_def no_filters_def Let_def stored_result_def)
  have "registry_ok (dv_uuid sample_dash) one_call" "dv_depth sample_dash = Suc 0" by (simp_all add: sample_dash_def)
  from view_appends_results [OF this ready f, of 0] show ?thesis by blast
qed

text \<open>A tenant without calls: every combination runs.\<close>

definition quiet :: "string \<Rightarrow> 'a dash_db_scheme \<Rightarrow> bool" where
  "quiet tenant s \<longleftrightarrow> registry_ok sample_ids s \<and> event_definitions s = [] \<and> dashboard_snapshots s = [] \<and>
     filter (tenant_visible tenant) (vessel_calls s) = []"

lemma quiet_summary:
  assumes "quiet tenant s"
  shows "\<exists>p s'. get_executive_summary sample_dash now tenant f False s = (s', Inr p) \<and> quiet tenant s'"
proof -
  have base: "base_calls tenant f s = []" using assms by (auto simp: base_calls_def by_vcn_def quiet_def sorted_by_def filter_empty_conv)
  have dates: "date_filter f s [] = Inr []" using assms by (simp add: date_filter_def quiet_def)
  have none: "quality_filter q s [] = []" for q by (simp add: quality_filter_def with_ids_def split: option.split)
  have "results_ready tenant f s" by (simp add: results_ready_def base dates none)
  moreover have "registry_ok (dv_uuid sample_dash) s" "dv_depth sample_dash = Suc 0" using assms by (simp_all add: sample_dash_def quiet_def)
  ultimately obtain p s' where run: "calculate_summary sample_dash now tenant f s = (s', Inr p)" "registry_ok (dv_uuid sample_dash) s'" "kpi_frame s s'"
    using summary_total by blast
  have "ds_counts p = counts_of tenant s [] []" using run(1) by (elim calculate_summary_ok) (simp add: base dates none)
  then have "keep_summary now tenant f p s' = (p, s')" by (simp add: keep_summary_def counts_of_def Let_def)
  moreover have "newest_snapshot tenant s = None" using assms by (simp add: newest_snapshot_def quiet_def sorted_by_desc_def)
  moreover have "quiet tenant s'"
  proof -
    obtain a b c d where s': "s' = s\<lparr>kpis := a, kpi_formula_versions := b, kpi_results := c, draws := d\<rparr>" using run(3) by (rule kpi_frameE)
    have "registry_ok sample_ids s'" using run(2) by (simp add: sample_dash_def)
    moreover have "event_definitions s' = []" "dashboard_snapshots s' = []" "filter (tenant_visible tenant) (vessel_calls s') = []"
      using assms by (simp_all add: s' quiet_def)
    ultimately show ?thesis by (simp add: quiet_def)
  qed
  ultimately show ?thesis using run(1) by (simp add: get_executive_summary_def)
qed

lemma quiet_reconciliation: "quiet tenant s \<Longrightarrow> \<exists>rs s'. reconcile_all sample_dash clk tenant k fs s = (s', Inr rs)"
proof (induction fs arbitrary: k s)
  case (Cons x fs)
  obtain p s1 where "get_executive_summary sample_dash (clk k) tenant (snd x) False s = (s1, Inr p)" "quiet tenant s1"
    using quiet_summary [OF Cons.prems] by blast
  with Cons.IH [OF this(2), of "Suc k"] show ?case by (cases x) (auto simp: Let_def)
qed simp

lemma quality_rows_always_reconcile_witness:
  "\<exists>rs s'. reconcile_all sample_dash (\<lambda>k. 0) ''zz'' 2 test_combinations one_call = (s', Inr rs) \<and> list_all rc_is_reconciled (drop 5 rs)"
proof -
  have "quiet ''zz'' one_call" by (simp add: quiet_def tenant_visible_def bare_call_def)
  from quiet_reconciliation [OF this] obtain rs s' where "reconcile_all sample_dash (\<lambda>k. 0) ''zz'' 2 test_combinations one_call = (s', Inr rs)" by blast
  from quality_rows_always_reconcile [OF this] this show ?thesis by blast
qed

end
