(* ===== verification/Reporting.thy ===== *)
theory Reporting
  imports Dashboard "HOL-Library.Sublist"
begin

text \<open>
  Reporting (\<open>apps/api/services/reporting/service.py\<close>, \<open>apps/api/routers/reporting.py\<close>, \<open>apps/api/models/reporting.py\<close>): the
  templates, the content of a report, its rendering, the life of a report run from request to publication, and its deliveries.

  The JSON text of a section, the texts of a period and of the filters, and the storage that keeps a rendered document are
  parameters. The long dash of the synthetic label is written with two characters.
\<close>

section \<open>Rows\<close>

record report_template =
  rt_template_id :: string
  rt_version :: string
  rt_name :: string
  rt_status :: string
  rt_sections :: "string list"

datatype run_status =
  Run_queued | Run_running | Run_awaiting_approval | Run_approved | Run_rejected | Run_published | Run_cancelled | Run_failed

datatype section_value =
    Counts_section call_counts
  | Metrics_section "(string \<times> dashboard_metric) list"
  | Metric_section dashboard_metric
  | Unavailable_section string
  | Cargo_section throughput dashboard_metric
  | Delays_section shown_delays
  | Exceptions_section nat "shown_outlier list"
  | Attention_section "candidate list" "shown_outlier list"
  | Provenance_section shown_lineage nat

record report_result =
  rs_report_run_id :: string
  rs_template_id :: string
  rs_template_version :: string
  rs_period :: "time option \<times> time option"
  rs_filters :: "(string \<times> string option) list"
  rs_scope :: "string \<times> string option \<times> string option"
  rs_generated_at :: time
  rs_generated_by :: string
  rs_synthetic_label :: "string option"
  rs_sections :: "(string \<times> string \<times> section_value) list"
  rs_governed :: dashboard_summary

record report_run =
  rr_id :: uid
  rr_report_run_id :: string
  rr_template_id :: string
  rr_template_version :: string
  rr_tenant_id :: string
  rr_port_id :: "string option"
  rr_terminal_id :: "string option"
  rr_period_start :: "time option"
  rr_period_end :: "time option"
  rr_filters :: "(string \<times> string option) list"
  rr_formats :: "string list"
  rr_status :: run_status
  rr_progress :: nat
  rr_requested_by :: string
  rr_approved_by :: "string option"
  rr_approved_at :: "time option"
  rr_rejection_reason :: "string option"
  rr_published_at :: "time option"
  rr_cancelled_at :: "time option"
  rr_failure_reason :: "fstring option"
  rr_result_data :: "report_result option"
  rr_created_at :: time

record report_artifact =
  ra_report_run_id :: uid
  ra_format :: string
  ra_storage_key :: string
  ra_content_type :: string
  ra_access_scope :: "string \<times> string option \<times> string option"

record report_delivery =
  rd_id :: uid
  rd_report_run_id :: uid
  rd_channel :: string
  rd_recipient :: string
  rd_delivered :: bool   \<comment> \<open>the status: \<open>DELIVERED\<close> or \<open>FAILED\<close>\<close>
  rd_attempts :: nat
  rd_error_message :: "string option"
  rd_delivered_at :: "time option"

record report_schedule =
  rh_template_id :: string
  rh_tenant_id :: string
  rh_frequency :: string
  rh_filters :: "(string \<times> string option) list"
  rh_formats :: "string list"
  rh_recipients :: "string list"

text \<open>A rendered document: drawn lines by page, cells, heading and paragraphs, or title and text.\<close>

datatype document = Pdf "(int \<times> string) list list" | Xlsx "string list" | Docx string "string list" | Pptx string string

record report_db = dash_db +
  report_templates :: "report_template list"
  report_runs :: "report_run list"
  report_artifacts :: "report_artifact list"
  report_deliveries :: "report_delivery list"
  report_schedules :: "report_schedule list"
  report_files :: "(string \<times> document) list"

record report_env =
  re_dash :: dash_env
  re_storage_path :: string
  re_section_json :: "section_value \<Rightarrow> string"
  re_period_text :: "time option \<times> time option \<Rightarrow> string"
  re_filters_text :: "(string \<times> string option) list \<Rightarrow> string"
  re_store :: "string \<Rightarrow> document \<Rightarrow> unit result"

section \<open>Templates\<close>

definition daily_sections :: "string list" where
  "daily_sections = [''executive_summary'', ''movements'', ''anchorage'', ''pilotage'', ''towage'', ''berth'', ''cargo'', ''delays'', ''incidents'',
     ''resources'', ''exceptions'', ''attention_list'', ''methodology_provenance'']"

definition shipped_templates :: "(string \<times> string \<times> string \<times> string list) list" where
  "shipped_templates =
     [(''daily-operations'', ''Daily Operations'', ''IMPLEMENTED'', daily_sections),
      (''weekly-marine-performance'', ''Weekly Marine Performance'', ''DEFERRED'',
         [''turnaround'', ''pilot_tug'', ''berth'', ''delays'', ''resources'', ''bottlenecks'', ''targets'', ''history'', ''actions'']),
      (''monthly-management-review'', ''Monthly Management Review'', ''DEFERRED'',
         [''kpis'', ''throughput'', ''turnaround'', ''delays'', ''utilisation'', ''criticality'', ''trends'', ''drivers'', ''risks'', ''recommendations'']),
      (''quarterly-kpi-review'', ''Quarterly KPI Review'', ''DEFERRED'',
         [''scorecards'', ''targets'', ''trends'', ''variance'', ''rankings'', ''bottlenecks'', ''sustained_issues'']),
      (''benchmark-performance'', ''Benchmark Performance'', ''DEFERRED'',
         [''internal'', ''historical'', ''peer'', ''gaps'', ''strengths'', ''opportunities'', ''recommendations''])]"

fun register_rows :: "(string \<times> string \<times> string \<times> string list) list \<Rightarrow> 'a report_db_scheme \<Rightarrow> 'a report_db_scheme result" where
  "register_rows [] s = Inr s"
| "register_rows ((i, n, st, sections) # ts) s =
     and_then (get_by rt_template_id i (report_templates s)) (\<lambda>row. register_rows ts (case row of
         Some _ \<Rightarrow> s
       | None \<Rightarrow> s\<lparr>report_templates := report_templates s @
           [\<lparr>rt_template_id = i, rt_version = ''1.0'', rt_name = n, rt_status = st, rt_sections = sections\<rparr>]\<rparr>))"

definition register_templates :: "'a report_db_scheme \<Rightarrow> 'a report_db_scheme result" where
  "register_templates s = register_rows shipped_templates s"

section \<open>The content of a report\<close>

definition run_filters :: "report_run \<Rightarrow> dash_filters" where
  "run_filters r = (let f = (\<lambda>k. Option.bind (map_of (rr_filters r) k) id) in
     \<lparr>df_port_id = rr_port_id r, df_terminal_id = rr_terminal_id r, df_vessel_type = f ''vessel_type'', df_cargo_type = f ''cargo_type'',
      df_start_date = rr_period_start r, df_end_date = rr_period_end r, df_quality_status = f ''quality_status''\<rparr>)"

definition metric_named :: "string \<Rightarrow> dashboard_summary \<Rightarrow> dashboard_metric result" where
  "metric_named n p = (case find (\<lambda>m. dm_name m = n) (ds_lead_times p) of Some m \<Rightarrow> Inr m | None \<Rightarrow> Inl (KeyError n))"

definition metrics_named :: "string \<Rightarrow> string \<Rightarrow> dashboard_summary \<Rightarrow> section_value result" where
  "metrics_named a b p = and_then (metric_named a p) (\<lambda>x. and_then (metric_named b p) (\<lambda>y. Inr (Metrics_section [(a, x), (b, y)])))"

definition report_sections :: "dashboard_summary \<Rightarrow> (string \<times> string \<times> section_value) list result" where
  "report_sections p =
     (let d = ds_delays p; quarantined = xc_quarantined (ds_counts p)
      in and_then (metrics_named ''Inward Movement'' ''Outward Movement'' p) (\<lambda>movements.
         and_then (metric_named ''Anchorage Wait'' p) (\<lambda>anchorage.
         and_then (metrics_named ''Arrival Execution Delay'' ''Sailing Execution Delay'' p) (\<lambda>pilotage.
         and_then (metric_named ''Berth Stay'' p) (\<lambda>berth.
         and_then (metric_named ''Cargo Working'' p) (\<lambda>working. Inr
           [(''executive_summary'', ''Executive summary'', Counts_section (ds_counts p)),
            (''movements'', ''Movements'', movements),
            (''anchorage'', ''Anchorage'', Metric_section anchorage),
            (''pilotage'', ''Pilotage'', pilotage),
            (''towage'', ''Towage'', Unavailable_section ''No governed towage duration metric is available in the current dataset.''),
            (''berth'', ''Berth'', Metric_section berth),
            (''cargo'', ''Cargo'', Cargo_section (ds_throughput p) working),
            (''delays'', ''Delays'', Delays_section d),
            (''incidents'', ''Incidents'', Unavailable_section ''No incident source records are available in the governed dataset.''),
            (''resources'', ''Resources'', Unavailable_section ''Resource availability/roster inputs are not present in the governed dataset.''),
            (''exceptions'', ''Exceptions'', Exceptions_section quarantined (dy_top_outliers d)),
            (''attention_list'', ''Attention list'', Attention_section (dy_top_bottlenecks d) (dy_top_outliers d)),
            (''methodology_provenance'', ''Methodology and provenance'', Provenance_section (ds_lineage p) quarantined)]))))))"

definition build_result ::
    "report_env \<Rightarrow> time \<Rightarrow> string \<Rightarrow> report_run \<Rightarrow> 'a report_db_scheme \<Rightarrow> ('a report_db_scheme, report_result) attempt" where
  "build_result env now tenant r s =
     (let (s', governed) = get_executive_summary (re_dash env) now tenant (run_filters r) False s
      in (s', and_then governed (\<lambda>p. and_then (report_sections p) (\<lambda>sections. Inr
           \<lparr>rs_report_run_id = rr_report_run_id r, rs_template_id = rr_template_id r, rs_template_version = rr_template_version r,
            rs_period = (rr_period_start r, rr_period_end r), rs_filters = rr_filters r,
            rs_scope = (rr_tenant_id r, rr_port_id r, rr_terminal_id r), rs_generated_at = now,
            rs_generated_by = (if rr_requested_by r = '''' then ''system'' else rr_requested_by r),
            rs_synthetic_label = Some ''SYNTHETIC / HISTORICAL DATA -- NOT LIVE OPERATIONS'', rs_sections = sections, rs_governed = p\<rparr>))))"

section \<open>Rendering\<close>

definition report_lines :: "report_env \<Rightarrow> report_result \<Rightarrow> string list" where
  "report_lines env r = [''Daily Operations Report'', rs_report_run_id r] @ (case rs_synthetic_label r of Some l \<Rightarrow> [l] | None \<Rightarrow> []) @
     [''Period: '' @ re_period_text env (rs_period r), ''Filters: '' @ re_filters_text env (rs_filters r)] @
     concat (map (\<lambda>(k, title, v). ['''', title, take 1200 (re_section_json env v)]) (rs_sections r))"

text \<open>A line in pieces of 105 characters; the empty line is one piece.\<close>

function chunks :: "string \<Rightarrow> string list" where
  "chunks x = (if x = [] then [] else take 105 x # chunks (drop 105 x))"
  by auto
termination by (relation "measure length") auto

declare chunks.simps [simp del]

definition fragments :: "string \<Rightarrow> string list" where
  "fragments x = (if chunks x = [] then [''''] else chunks x)"

text \<open>Drawing: the finished pages, the current page and its next height.\<close>

fun draw :: "string list \<Rightarrow> (int \<times> string) list list \<times> (int \<times> string) list \<times> int \<Rightarrow> (int \<times> string) list list \<times> (int \<times> string) list \<times> int" where
  "draw [] st = st"
| "draw (x # xs) (pages, page, y) =
     (let page' = page @ [(y, x)]; y' = y - 13
      in draw xs (if y' < 36 then (pages @ [page'], [], 750) else (pages, page', y')))"

definition pdf_pages :: "string list \<Rightarrow> (int \<times> string) list list" where
  "pdf_pages xs = (let (pages, page, y) = draw (concat (map fragments xs)) ([], [], 750) in if page = [] then pages else pages @ [page])"

fun join_lines :: "string list \<Rightarrow> string" where
  "join_lines [] = []"
| "join_lines [x] = x"
| "join_lines (x # y # xs) = x @ CHR 0x0A # join_lines (y # xs)"

definition render :: "report_env \<Rightarrow> report_result \<Rightarrow> string \<Rightarrow> document" where
  "render env r fmt = (let xs = report_lines env r
     in if fmt = ''PDF'' then Pdf (pdf_pages xs) else if fmt = ''XLSX'' then Xlsx xs
        else if fmt = ''DOCX'' then Docx (hd xs) (tl xs) else Pptx (hd xs) (take 7000 (join_lines (tl xs))))"

section \<open>Generation\<close>

definition upd_run :: "uid \<Rightarrow> (report_run \<Rightarrow> report_run) \<Rightarrow> 'a report_db_scheme \<Rightarrow> 'a report_db_scheme" where
  "upd_run i f s = s\<lparr>report_runs := upd_by rr_id i f (report_runs s)\<rparr>"

definition content_type :: "string \<Rightarrow> string result" where
  "content_type fmt =
     (if fmt = ''PDF'' then Inr ''application/pdf''
      else if fmt = ''XLSX'' then Inr ''application/vnd.openxmlformats-officedocument.spreadsheetml.sheet''
      else if fmt = ''PPTX'' then Inr ''application/vnd.openxmlformats-officedocument.presentationml.presentation''
      else if fmt = ''DOCX'' then Inr ''application/vnd.openxmlformats-officedocument.wordprocessingml.document''
      else Inl (KeyError fmt))"

definition storage_key :: "report_env \<Rightarrow> report_run \<Rightarrow> string \<Rightarrow> string" where
  "storage_key env r fmt = re_storage_path env @ ''/'' @ rr_tenant_id r @ ''/'' @ rr_report_run_id r @ ''/daily-operations.'' @ py_lower fmt"

definition artifact_of :: "report_env \<Rightarrow> report_run \<Rightarrow> string \<Rightarrow> string \<Rightarrow> report_artifact" where
  "artifact_of env r fmt ct = \<lparr>ra_report_run_id = rr_id r, ra_format = fmt, ra_storage_key = storage_key env r fmt, ra_content_type = ct,
     ra_access_scope = (rr_tenant_id r, rr_port_id r, rr_terminal_id r)\<rparr>"

text \<open>The artifacts added before an error stay: the handler commits them with the failure.\<close>

fun render_all :: "report_env \<Rightarrow> report_run \<Rightarrow> report_result \<Rightarrow> string list \<Rightarrow> 'a report_db_scheme \<Rightarrow> ('a report_db_scheme, unit) attempt" where
  "render_all env r result [] s = (s, Inr ())"
| "render_all env r result (fmt # fmts) s =
     (let key = storage_key env r fmt; doc = render env result fmt
      in case re_store env key doc of
           Inl e \<Rightarrow> (s, Inl e)
         | Inr _ \<Rightarrow> (let s1 = s\<lparr>report_files := (key, doc) # report_files s\<rparr>
             in case content_type fmt of
                  Inl e \<Rightarrow> (s1, Inl e)
                | Inr ct \<Rightarrow> render_all env r result fmts (s1\<lparr>report_artifacts := report_artifacts s1 @ [artifact_of env r fmt ct]\<rparr>)))"

definition generate_body ::
    "report_env \<Rightarrow> time \<Rightarrow> string \<Rightarrow> report_run \<Rightarrow> 'a report_db_scheme \<Rightarrow> ('a report_db_scheme, unit) attempt" where
  "generate_body env now tenant r s =
     (case build_result env now tenant r (upd_run (rr_id r) (\<lambda>r. r\<lparr>rr_status := Run_running, rr_progress := 10\<rparr>) s) of
        (s1, Inl e) \<Rightarrow> (s1, Inl e)
      | (s1, Inr result) \<Rightarrow>
          (case render_all env r result (rr_formats r) (upd_run (rr_id r) (\<lambda>r. r\<lparr>rr_result_data := Some result, rr_progress := 45\<rparr>) s1) of
             (s2, Inl e) \<Rightarrow> (s2, Inl e)
           | (s2, Inr _) \<Rightarrow> (upd_run (rr_id r) (\<lambda>r. r\<lparr>rr_status := Run_awaiting_approval, rr_progress := 100\<rparr>) s2, Inr ())))"

definition generate ::
    "report_env \<Rightarrow> time \<Rightarrow> string \<Rightarrow> string \<Rightarrow> 'a report_db_scheme \<Rightarrow> ('a report_db_scheme, unit) attempt" where
  "generate env now tenant run_id s =
     (case one_or_none (filter (\<lambda>r. rr_report_run_id r = run_id \<and> rr_tenant_id r = tenant) (report_runs s)) of
        Inl e \<Rightarrow> (s, Inl e)
      | Inr None \<Rightarrow> (s, Inl NoResultFound)
      | Inr (Some r) \<Rightarrow> if rr_status r = Run_cancelled then (s, Inr ())
          else (case generate_body env now tenant r s of
              (s', Inr _) \<Rightarrow> (s', Inr ())
            | (s', Inl e) \<Rightarrow> (upd_run (rr_id r) (\<lambda>r. r\<lparr>rr_status := Run_failed, rr_failure_reason := Some (error_text e)\<rparr>) s', Inl e)))"

definition deliver ::
    "(nat \<Rightarrow> uid) \<Rightarrow> time \<Rightarrow> report_run \<Rightarrow> string \<Rightarrow> string \<Rightarrow> bool \<Rightarrow> 'a report_db_scheme \<Rightarrow> 'a report_db_scheme \<times> report_delivery" where
  "deliver uuid now r channel recipient fail s =
     (let d = \<lparr>rd_id = uuid (draws s), rd_report_run_id = rr_id r, rd_channel = channel, rd_recipient = recipient, rd_delivered = (\<not> fail), rd_attempts = 1,
            rd_error_message = (if fail then Some ''Configured delivery adapter failure'' else None), rd_delivered_at = (if fail then None else Some now)\<rparr>
      in (s\<lparr>report_deliveries := report_deliveries s @ [d], draws := draws s + 1\<rparr>, d))"

definition redelivered :: "time \<Rightarrow> report_delivery \<Rightarrow> report_delivery" where
  "redelivered now d = d\<lparr>rd_attempts := rd_attempts d + 1, rd_delivered := True, rd_error_message := None, rd_delivered_at := Some now\<rparr>"

section \<open>Endpoints\<close>

text \<open>A run in the caller's scope: here a scope with a port never matches a run without one.\<close>

definition exact_column :: "string option \<Rightarrow> string option \<Rightarrow> bool" where
  "exact_column a c \<longleftrightarrow> (case truthy a of Some x \<Rightarrow> x = ''*'' \<or> c = Some x | None \<Rightarrow> True)"

definition run_in_scope :: "user_principal \<Rightarrow> string \<Rightarrow> report_run \<Rightarrow> bool" where
  "run_in_scope p tenant r \<longleftrightarrow> rr_tenant_id r = tenant \<and> exact_column (sc_port_id (pn_data_scope p)) (rr_port_id r) \<and>
     exact_column (sc_terminal_id (pn_data_scope p)) (rr_terminal_id r)"

text \<open>\<open>find\<close> and then the body; its errors are the status 404 or an exception.\<close>

definition with_run ::
    "settings \<Rightarrow> user_principal \<Rightarrow> string \<Rightarrow> (report_run \<Rightarrow> 'a report_db_scheme \<Rightarrow> 'a report_db_scheme \<times> (denial + 'b)) \<Rightarrow>
     'a report_db_scheme \<Rightarrow> 'a report_db_scheme \<times> (denial + 'b)" where
  "with_run cf p run_id body = in_tenant cf p None (\<lambda>tenant s.
     case one_or_none (filter (\<lambda>r. rr_report_run_id r = run_id \<and> run_in_scope p tenant r) (report_runs s)) of
       Inl e \<Rightarrow> (s, Inl (Crashed e))
     | Inr None \<Rightarrow> (s, Inl (Denied 404 '''' [Lit ''Report run not found in data scope'']))
     | Inr (Some r) \<Rightarrow> body r s)"

definition templates_endpoint ::
    "auth_env \<Rightarrow> settings \<Rightarrow> (nat \<Rightarrow> time) \<Rightarrow> request_info \<Rightarrow> 'a report_db_scheme \<Rightarrow> 'a report_db_scheme \<times> (denial + report_template list)" where
  "templates_endpoint env cf clk rq = protected ''view'' ''reporting'' env cf clk rq (\<lambda>p s.
     uncaught s (and_then (register_templates s) (\<lambda>s. Inr (report_templates s, s))))"

definition runs_endpoint ::
    "auth_env \<Rightarrow> settings \<Rightarrow> (nat \<Rightarrow> time) \<Rightarrow> request_info \<Rightarrow> 'a report_db_scheme \<Rightarrow> 'a report_db_scheme \<times> (denial + report_run list)" where
  "runs_endpoint env cf clk rq = protected ''view'' ''reporting'' env cf clk rq (\<lambda>p. in_tenant cf p None (\<lambda>tenant s.
     (s, Inr (take 20 (sorted_by_desc rr_created_at (filter (run_in_scope p tenant) (report_runs s)))))))"

record report_request =
  rq_template_id :: string
  rq_formats :: "string list"
  rq_period_start :: "time option"
  rq_period_end :: "time option"
  rq_report_filters :: "(string \<times> string option) list"

definition known_formats :: "string list" where
  "known_formats = [''PDF'', ''XLSX'', ''PPTX'', ''DOCX'']"

definition new_run :: "(nat \<Rightarrow> uid) \<Rightarrow> time \<Rightarrow> user_principal \<Rightarrow> string \<Rightarrow> report_template \<Rightarrow> report_request \<Rightarrow> nat \<Rightarrow> report_run" where
  "new_run uuid now p tenant t b n = \<lparr>rr_id = uuid (n + 1), rr_report_run_id = ''rpt-'' @ uuid n, rr_template_id = rt_template_id t,
     rr_template_version = rt_version t, rr_tenant_id = tenant, rr_port_id = sc_port_id (pn_data_scope p), rr_terminal_id = sc_terminal_id (pn_data_scope p),
     rr_period_start = rq_period_start b, rr_period_end = rq_period_end b, rr_filters = rq_report_filters b, rr_formats = map py_upper (rq_formats b),
     rr_status = Run_queued, rr_progress = 0, rr_requested_by = pn_email p, rr_approved_by = None, rr_approved_at = None, rr_rejection_reason = None,
     rr_published_at = None, rr_cancelled_at = None, rr_failure_reason = None, rr_result_data = None, rr_created_at = now\<rparr>"

definition create_report ::
    "auth_env \<Rightarrow> settings \<Rightarrow> (nat \<Rightarrow> uid) \<Rightarrow> (nat \<Rightarrow> time) \<Rightarrow> request_info \<Rightarrow> report_request \<Rightarrow> 'a report_db_scheme \<Rightarrow>
     'a report_db_scheme \<times> (denial + report_run)" where
  "create_report env cf uuid clk rq b = protected ''create'' ''reporting'' env cf clk rq (\<lambda>p s.
     case register_templates s of
       Inl e \<Rightarrow> (s, Inl (Crashed e))
     | Inr s1 \<Rightarrow> (case get_by rt_template_id (rq_template_id b) (report_templates s1) of
         Inl e \<Rightarrow> (s1, Inl (Crashed e))
       | Inr None \<Rightarrow> (s1, Inl (Denied 404 '''' [Lit ''Unknown report template'']))
       | Inr (Some t) \<Rightarrow>
           if rt_status t = ''DEFERRED'' then (s1, Inl (Denied 409 '''' [Lit ''Template is registered but deferred; it cannot be generated.'']))
           else if rq_formats b = [] \<or> \<not> list_all (\<lambda>x. List.member known_formats (py_upper x)) (rq_formats b)
           then (s1, Inl (Denied 422 '''' [Lit ''Formats must be PDF, XLSX, PPTX, or DOCX'']))
           else in_tenant cf p None (\<lambda>tenant s. (let r = new_run uuid (clk 2) p tenant t b (draws s)
             in (log_row (by_principal p (plain_row ''report_create'' (Some ''report_run'') (Some (rr_report_run_id r)) None
                   [(''formats'', JList (map JStr (rr_formats r)))])) (s\<lparr>report_runs := report_runs s @ [r], draws := draws s + 2\<rparr>), Inr r))) s1))"

definition run_now ::
    "auth_env \<Rightarrow> settings \<Rightarrow> (nat \<Rightarrow> time) \<Rightarrow> request_info \<Rightarrow> report_env \<Rightarrow> string \<Rightarrow> 'a report_db_scheme \<Rightarrow> 'a report_db_scheme \<times> (denial + unit)" where
  "run_now env cf clk rq re run_id = protected ''create'' ''reporting'' env cf clk rq (\<lambda>p. with_run cf p run_id (\<lambda>r s.
     attempted (generate re (clk 2) (rr_tenant_id r) run_id s)))"

definition get_report ::
    "auth_env \<Rightarrow> settings \<Rightarrow> (nat \<Rightarrow> time) \<Rightarrow> request_info \<Rightarrow> string \<Rightarrow> 'a report_db_scheme \<Rightarrow> 'a report_db_scheme \<times> (denial + report_run)" where
  "get_report env cf clk rq run_id = protected ''view'' ''reporting'' env cf clk rq (\<lambda>p. with_run cf p run_id (\<lambda>r s. (s, Inr r)))"

definition get_report_result ::
    "auth_env \<Rightarrow> settings \<Rightarrow> (nat \<Rightarrow> time) \<Rightarrow> request_info \<Rightarrow> string \<Rightarrow> 'a report_db_scheme \<Rightarrow> 'a report_db_scheme \<times> (denial + report_result)" where
  "get_report_result env cf clk rq run_id = protected ''view'' ''reporting'' env cf clk rq (\<lambda>p. with_run cf p run_id (\<lambda>r s. (s,
     case rr_result_data r of Some x \<Rightarrow> Inr x | None \<Rightarrow> Inl (Denied 404 '''' [Lit ''Report result is not available yet'']))))"

text \<open>The transitions by hand. Only \<open>approve\<close> and \<open>publish\<close> look at the status.\<close>

definition cancel_report ::
    "auth_env \<Rightarrow> settings \<Rightarrow> (nat \<Rightarrow> time) \<Rightarrow> request_info \<Rightarrow> string \<Rightarrow> 'a report_db_scheme \<Rightarrow> 'a report_db_scheme \<times> (denial + unit)" where
  "cancel_report env cf clk rq run_id = protected ''create'' ''reporting'' env cf clk rq (\<lambda>p. with_run cf p run_id (\<lambda>r s.
     (upd_run (rr_id r) (\<lambda>r. r\<lparr>rr_status := Run_cancelled, rr_cancelled_at := Some (clk 2)\<rparr>) s, Inr ())))"

definition retry_report ::
    "auth_env \<Rightarrow> settings \<Rightarrow> (nat \<Rightarrow> time) \<Rightarrow> request_info \<Rightarrow> string \<Rightarrow> 'a report_db_scheme \<Rightarrow> 'a report_db_scheme \<times> (denial + unit)" where
  "retry_report env cf clk rq run_id = protected ''create'' ''reporting'' env cf clk rq (\<lambda>p. with_run cf p run_id (\<lambda>r s.
     (upd_run (rr_id r) (\<lambda>r. r\<lparr>rr_status := Run_queued, rr_failure_reason := None\<rparr>) s, Inr ())))"

definition approve_report ::
    "auth_env \<Rightarrow> settings \<Rightarrow> (nat \<Rightarrow> time) \<Rightarrow> request_info \<Rightarrow> string \<Rightarrow> 'a report_db_scheme \<Rightarrow> 'a report_db_scheme \<times> (denial + unit)" where
  "approve_report env cf clk rq run_id = protected ''approve'' ''reporting'' env cf clk rq (\<lambda>p. with_run cf p run_id (\<lambda>r s.
     if rr_status r \<noteq> Run_awaiting_approval then (s, Inl (Denied 409 '''' [Lit ''Report is not awaiting approval'']))
     else (upd_run (rr_id r) (\<lambda>r. r\<lparr>rr_status := Run_approved, rr_approved_by := Some (pn_email p), rr_approved_at := Some (clk 2)\<rparr>) s, Inr ())))"

definition reject_report ::
    "auth_env \<Rightarrow> settings \<Rightarrow> (nat \<Rightarrow> time) \<Rightarrow> request_info \<Rightarrow> string \<Rightarrow> string \<Rightarrow> 'a report_db_scheme \<Rightarrow> 'a report_db_scheme \<times> (denial + unit)" where
  "reject_report env cf clk rq run_id reason = protected ''reject'' ''reporting'' env cf clk rq (\<lambda>p. with_run cf p run_id (\<lambda>r s.
     (upd_run (rr_id r) (\<lambda>r. r\<lparr>rr_status := Run_rejected, rr_rejection_reason := Some reason\<rparr>) s, Inr ())))"

definition publish_report_run ::
    "auth_env \<Rightarrow> settings \<Rightarrow> (nat \<Rightarrow> time) \<Rightarrow> request_info \<Rightarrow> string \<Rightarrow> 'a report_db_scheme \<Rightarrow> 'a report_db_scheme \<times> (denial + unit)" where
  "publish_report_run env cf clk rq run_id = protected ''publish'' ''reporting'' env cf clk rq (\<lambda>p. with_run cf p run_id (\<lambda>r s.
     if rr_status r \<noteq> Run_approved then (s, Inl (Denied 409 '''' [Lit ''Only approved reports may be published'']))
     else (upd_run (rr_id r) (\<lambda>r. r\<lparr>rr_status := Run_published, rr_published_at := Some (clk 2)\<rparr>) s, Inr ())))"

definition get_artifact ::
    "auth_env \<Rightarrow> settings \<Rightarrow> (nat \<Rightarrow> time) \<Rightarrow> request_info \<Rightarrow> string \<Rightarrow> string \<Rightarrow> 'a report_db_scheme \<Rightarrow> 'a report_db_scheme \<times> (denial + document)" where
  "get_artifact env cf clk rq run_id fmt = protected ''view'' ''reporting'' env cf clk rq (\<lambda>p. with_run cf p run_id (\<lambda>r s.
     if rr_status r \<noteq> Run_published then (s, Inl (Denied 403 '''' [Lit ''Artifact is not published'']))
     else (s, case one_or_none (filter (\<lambda>a. ra_report_run_id a = rr_id r \<and> ra_format a = py_upper fmt) (report_artifacts s)) of
         Inl e \<Rightarrow> Inl (Crashed e)
       | Inr a \<Rightarrow> (case Option.bind a (\<lambda>a. map_of (report_files s) (ra_storage_key a)) of
           Some doc \<Rightarrow> Inr doc
         | None \<Rightarrow> Inl (Denied 404 '''' [Lit ''Artifact not found''])))))"

definition deliver_report ::
    "auth_env \<Rightarrow> settings \<Rightarrow> (nat \<Rightarrow> uid) \<Rightarrow> (nat \<Rightarrow> time) \<Rightarrow> request_info \<Rightarrow> string \<Rightarrow> string \<Rightarrow> string \<Rightarrow> bool \<Rightarrow> 'a report_db_scheme \<Rightarrow>
     'a report_db_scheme \<times> (denial + report_delivery)" where
  "deliver_report env cf uuid clk rq run_id channel recipient simulate = protected ''publish'' ''reporting'' env cf clk rq (\<lambda>p. with_run cf p run_id (\<lambda>r s.
     if rr_status r \<noteq> Run_published then (s, Inl (Denied 409 '''' [Lit ''Only published reports can be delivered'']))
     else (let (s', d) = deliver uuid (clk 2) r channel recipient simulate s in (s', Inr d))))"

text \<open>\<open>db.get\<close> looks up by the primary key; the run of a delivery exists (foreign key).\<close>

definition retry_delivery_endpoint ::
    "auth_env \<Rightarrow> settings \<Rightarrow> (nat \<Rightarrow> time) \<Rightarrow> request_info \<Rightarrow> uid \<Rightarrow> 'a report_db_scheme \<Rightarrow> 'a report_db_scheme \<times> (denial + unit)" where
  "retry_delivery_endpoint env cf clk rq i = protected ''publish'' ''reporting'' env cf clk rq (\<lambda>p s.
     case find (\<lambda>d. rd_id d = i) (report_deliveries s) of
       None \<Rightarrow> (s, Inl (Denied 404 '''' [Lit ''Delivery not found'']))
     | Some d \<Rightarrow> (case find (\<lambda>r. rr_id r = rd_report_run_id d) (report_runs s) of
         None \<Rightarrow> (s, Inl (Crashed AttributeError))
       | Some r \<Rightarrow> with_run cf p (rr_report_run_id r) (\<lambda>_ s.
           (s\<lparr>report_deliveries := upd_by rd_id i (redelivered (clk 2)) (report_deliveries s)\<rparr>, Inr ())) s))"

definition create_schedule ::
    "auth_env \<Rightarrow> settings \<Rightarrow> (nat \<Rightarrow> time) \<Rightarrow> request_info \<Rightarrow> string \<Rightarrow> string \<Rightarrow> string list \<Rightarrow> string list \<Rightarrow> (string \<times> string option) list \<Rightarrow>
     'a report_db_scheme \<Rightarrow> 'a report_db_scheme \<times> (denial + unit)" where
  "create_schedule env cf clk rq template frequency fmts recipients filters = protected ''configure'' ''reporting'' env cf clk rq (\<lambda>p.
     in_tenant cf p None (\<lambda>tenant s. (s\<lparr>report_schedules := report_schedules s @ [\<lparr>rh_template_id = template, rh_tenant_id = tenant,
       rh_frequency = frequency, rh_filters = filters, rh_formats = fmts, rh_recipients = recipients\<rparr>]\<rparr>, Inr ())))"

section \<open>What building a report writes\<close>

text \<open>The engines behind the dashboard write definitions, results, KPI tables and nothing else.\<close>

definition engine_frame :: "'a kpi_db_scheme \<Rightarrow> 'a kpi_db_scheme \<Rightarrow> bool" where
  "engine_frame s s' \<longleftrightarrow> s' = s\<lparr>lead_time_definitions := lead_time_definitions s', lead_time_results := lead_time_results s', kpis := kpis s',
     kpi_formula_versions := kpi_formula_versions s', kpi_results := kpi_results s', draws := draws s'\<rparr>"

lemma engine_frame_refl [simp]: "engine_frame s s"
  by (simp add: engine_frame_def)

lemma engine_frameE:
  assumes "engine_frame s s'"
  obtains a b c d e f where "s' = s\<lparr>lead_time_definitions := a, lead_time_results := b, kpis := c, kpi_formula_versions := d, kpi_results := e, draws := f\<rparr>"
  using assms unfolding engine_frame_def by blast

lemma engine_frame_trans: "engine_frame s s' \<Longrightarrow> engine_frame s' s'' \<Longrightarrow> engine_frame s s''"
  by (elim engine_frameE) (simp add: engine_frame_def)

lemma kpi_engine_frame: "kpi_frame s s' \<Longrightarrow> engine_frame s s'"
  by (elim kpi_frameE) (simp add: engine_frame_def)

lemma definitions_frame: "engine_frame s (snd (upsert_definitions uuid existing seeds s))"
proof (induction seeds arbitrary: s)
  case (Cons d ds)
  have "engine_frame s (snd (upsert_definition uuid existing d s))"
    by (simp add: upsert_definition_def Let_def engine_frame_def split: option.split)
  then show ?case using Cons.IH engine_frame_trans by (fastforce simp: Let_def split: prod.split)
qed simp

lemma save_frame: "save_result uuid existing row s = (r, s') \<Longrightarrow> engine_frame s s'"
  by (auto simp: save_result_def Let_def engine_frame_def split: option.splits)

lemma single_result_frame: "compute_result uuid now g d vc s = Inr (r, s') \<Longrightarrow> engine_frame s s'"
  by (auto simp: compute_result_def compute_delay_result_def compute_event_duration_def Let_def and_then_Inr_iff split: if_splits dest: save_frame)

lemma over_calls_frame:
  assumes "\<And>vc s r s'. f vc s = Inr (r, s') \<Longrightarrow> engine_frame s s'"
  shows "over_calls f vcs s = Inr (rs, s') \<Longrightarrow> engine_frame s s'"
proof (induction vcs arbitrary: s rs)
  case (Cons v vs)
  then obtain r s1 rs' where "f v s = Inr (r, s1)" "over_calls f vs s1 = Inr (rs', s')" by (auto simp: and_then_Inr_iff)
  then show ?case using Cons.IH assms engine_frame_trans by blast
qed simp

lemma over_definitions_frame:
  assumes "\<And>d s rs s'. f d s = Inr (rs, s') \<Longrightarrow> engine_frame s s'"
  shows "over_definitions f ds s = Inr (ms, s') \<Longrightarrow> engine_frame s s'"
proof (induction ds arbitrary: s ms)
  case (Cons d ds)
  then obtain rs s1 ms' where "f d s = Inr (rs, s1)" "over_definitions f ds s1 = Inr (ms', s')" by (auto simp: and_then_Inr_iff)
  then show ?case using Cons.IH assms engine_frame_trans by blast
qed simp

lemma single_definition_frame:
  assumes "compute_single_definition uuid now g d vcs s = Inr (rs, s')" shows "engine_frame s s'"
proof -
  have "engine_frame s (dedupe_results d vcs s)" by (simp add: dedupe_results_def engine_frame_def)
  moreover have "engine_frame (dedupe_results d vcs s) s'"
    using assms unfolding compute_single_definition_def by (rule over_calls_frame [rotated]) (rule single_result_frame)
  ultimately show ?thesis by (rule engine_frame_trans)
qed

lemma metrics_frame: "engine_frame s (fst (compute_all_metrics uuid now g ids s))"
proof -
  obtain catalogue s1 where c: "ensure_catalogue uuid s = (catalogue, s1)" by (cases "ensure_catalogue uuid s")
  have s1: "engine_frame s s1" using definitions_frame [of s uuid "lead_time_definitions s" catalogue_seeds] c by (simp add: ensure_catalogue_def)
  have "engine_frame s1 (purge_merged g s1)" by (simp add: purge_merged_def engine_frame_def)
  moreover have "engine_frame (purge_merged g s1) s2"
    if "over_definitions (\<lambda>d. compute_single_definition uuid now g d (target_calls g ids s1)) catalogue (purge_merged g s1) = Inr (ms, s2)" for ms s2
    using that by (rule over_definitions_frame [rotated]) (rule single_definition_frame)
  ultimately show ?thesis
    using s1 engine_frame_trans by (auto simp: compute_all_metrics_def c split: sum.split) blast+
qed

lemma ensure_results_frame: "engine_frame s (fst (ensure_results env now tenant ids s))"
  using metrics_frame [of s "dv_uuid env" now "\<lparr>an_tenant_id = tenant, an_exclude_quarantined = True\<rparr>" "[]"]
  by (simp add: ensure_results_def case_prod_unfold Let_def)

lemma calculate_all_frame:
  assumes "calculate_all_kpis n uuid now g q s = Inr (sc, s')" shows "engine_frame s s'"
proof -
  obtain m s1 es where "ensure_kpi_registry uuid s = Inr (m, s1)"
    "score_all n uuid now g (q\<lparr>kq_is_recalculation := False\<rparr>) m (map ki_code kpi_registry_definitions) s1 = (es, s')"
    using assms unfolding calculate_all_kpis_def
    by (cases "ensure_kpi_registry uuid s") (auto simp: case_prod_unfold Let_def prod_eq_iff)
  then show ?thesis by (intro kpi_engine_frame kpi_frame_trans [OF registry_frame scores_frame])
qed

lemma summary_frame: "engine_frame s (fst (calculate_summary env now tenant f s))"
proof (cases "date_filter f s (base_calls tenant f s)")
  case (Inr "all")
  define calls where "calls = quality_filter (df_quality_status f) s all"
  obtain s1 ready where r: "ensure_results env now tenant (map vc_id calls) s = (s1, ready)" by (cases "ensure_results env now tenant (map vc_id calls) s")
  have s1: "engine_frame s s1" using ensure_results_frame [of s env now tenant "map vc_id calls"] r by simp
  show ?thesis
    using s1 calculate_all_frame engine_frame_trans
    by (auto simp: calculate_summary_def Inr r Let_def calls_def [symmetric] and_then_Inr_iff split: sum.split prod.split) blast+
qed (simp add: calculate_summary_def)

lemma executive_frame:
  fixes s :: "'a report_db_scheme"
  shows "report_runs (fst (get_executive_summary env now tenant f force s)) = report_runs s"
    and "report_artifacts (fst (get_executive_summary env now tenant f force s)) = report_artifacts s"
proof -
  obtain s1 m where c: "calculate_summary env now tenant f s = (s1, m)" by (cases "calculate_summary env now tenant f s")
  have "engine_frame s s1" using summary_frame [of s env now tenant f] c by simp
  then have same: "report_runs s1 = report_runs s" "report_artifacts s1 = report_artifacts s" by (auto elim!: engine_frameE)
  have keep: "report_runs (snd (keep_summary now tenant f p s1)) = report_runs s1" "report_artifacts (snd (keep_summary now tenant f p s1)) = report_artifacts s1" for p
    by (simp_all add: keep_summary_def persist_snapshot_def Let_def split: prod.split)
  show "report_runs (fst (get_executive_summary env now tenant f force s)) = report_runs s"
    "report_artifacts (fst (get_executive_summary env now tenant f force s)) = report_artifacts s"
    using keep same by (cases m; auto simp: get_executive_summary_def c Let_def split: option.split prod.split; metis snd_conv)+
qed

section \<open>The life of a report\<close>

definition rendered :: "report_artifact list \<Rightarrow> report_run \<Rightarrow> bool" where
  "rendered as r \<longleftrightarrow> list_all (\<lambda>fmt. list_ex (\<lambda>a. ra_report_run_id a = rr_id r \<and> ra_format a = fmt) as) (rr_formats r)"

definition run_ok :: "report_artifact list \<Rightarrow> report_run \<Rightarrow> bool" where
  "run_ok as r \<longleftrightarrow>
     (rr_status r \<in> {Run_awaiting_approval, Run_approved, Run_published} \<longrightarrow> rr_result_data r \<noteq> None \<and> rr_progress r = 100 \<and> rendered as r) \<and>
     (rr_status r \<in> {Run_approved, Run_published} \<longrightarrow> rr_approved_by r \<noteq> None \<and> rr_approved_at r \<noteq> None) \<and>
     (rr_status r = Run_published \<longrightarrow> rr_published_at r \<noteq> None)"

definition reports_ok :: "'a report_db_scheme \<Rightarrow> bool" where
  "reports_ok s \<longleftrightarrow> distinct (map rr_id (report_runs s)) \<and> list_all (run_ok (report_artifacts s)) (report_runs s)"

definition same_reports :: "'a report_db_scheme \<Rightarrow> 'a report_db_scheme \<Rightarrow> bool" where
  "same_reports s s' \<longleftrightarrow> report_runs s' = report_runs s \<and> report_artifacts s' = report_artifacts s"

lemma same_reports_ok: "same_reports s s' \<Longrightarrow> reports_ok s' = reports_ok s"
  by (simp add: same_reports_def reports_ok_def)

lemma same_reports_refl [simp]: "same_reports s s"
  by (simp add: same_reports_def)

lemma run_ok_more: "run_ok as r \<Longrightarrow> run_ok (as @ bs) r"
  by (auto simp: run_ok_def rendered_def list_all_iff)

text \<open>Changing the run with an identifier.\<close>

lemma upd_run_ok:
  assumes "reports_ok s" "r \<in> set (report_runs s)" "rr_id (f r) = rr_id r" "run_ok (report_artifacts s) (f r)"
  shows "reports_ok (upd_run (rr_id r) f s)"
proof -
  have only: "q = r" if "q \<in> set (report_runs s)" "rr_id q = rr_id r" for q
    using assms(1,2) that by (simp add: reports_ok_def distinct_map inj_on_def)
  have "map rr_id (upd_by rr_id (rr_id r) f (report_runs s)) = map rr_id (report_runs s)"
    unfolding upd_by_def map_map using only assms(3) by (intro map_cong) auto
  moreover have "run_ok (report_artifacts s) q" if "q \<in> set (upd_by rr_id (rr_id r) f (report_runs s))" for q
    using that only assms unfolding upd_by_def by (auto simp: reports_ok_def list_all_iff split: if_splits)
  ultimately show ?thesis using assms(1) by (simp add: reports_ok_def upd_run_def list_all_iff)
qed

lemma protected_reports:
  assumes "\<And>p s1. same_reports s s1 \<Longrightarrow> P (fst (body p s1))" "\<And>s1. same_reports s s1 \<Longrightarrow> P s1"
  shows "P (fst (protected perm res env cf clk rq body s))"
proof -
  obtain s1 m where r: "require perm (Some res) env cf clk rq s = (s1, m)" by (cases "require perm (Some res) env cf clk rq s")
  have "operations_untouched s s1" using require_untouched [of s perm "Some res" env cf clk rq] r by simp
  then obtain a b where "s1 = s\<lparr>sessions := a, request_log := b\<rparr>" unfolding operations_untouched_def by blast
  then have "same_reports s s1" by (simp add: same_reports_def)
  then show ?thesis using assms by (cases m) (simp_all add: protected_def r)
qed

lemma with_run_reports:
  assumes "\<And>r. r \<in> set (report_runs s) \<Longrightarrow> P (fst (body r s))" "P s"
  shows "P (fst (with_run cf p run_id body s))"
proof (cases "resolve_principal_tenant cf (tenant_principal p) None")
  case (Inr tenant)
  let ?found = "one_or_none (filter (\<lambda>r. rr_report_run_id r = run_id \<and> run_in_scope p tenant r) (report_runs s))"
  have run: "with_run cf p run_id body s = (case ?found of Inl e \<Rightarrow> (s, Inl (Crashed e))
      | Inr None \<Rightarrow> (s, Inl (Denied 404 '''' [Lit ''Report run not found in data scope''])) | Inr (Some r) \<Rightarrow> body r s)"
    by (simp add: with_run_def in_tenant_def Inr)
  show ?thesis
  proof (cases "\<exists>r. ?found = Inr (Some r)")
    case True
    then obtain r where r: "?found = Inr (Some r)" by blast
    have "r \<in> set (filter (\<lambda>r. rr_report_run_id r = run_id \<and> run_in_scope p tenant r) (report_runs s))"
      unfolding one_or_none_SomeD [OF r] by simp
    then have "P (fst (body r s))" using assms(1) by simp
    then show ?thesis unfolding run r by simp
  next
    case False
    then show ?thesis using assms(2) unfolding run by (cases ?found rule: sum.exhaust) (simp_all split: option.split)
  qed
qed (simp add: with_run_def in_tenant_def assms(2))

lemma endpoint_ok:
  assumes ok: "reports_ok s" and body: "\<And>p r s1. reports_ok s1 \<Longrightarrow> r \<in> set (report_runs s1) \<Longrightarrow> reports_ok (fst (body p r s1))"
  shows "reports_ok (fst (protected perm res env cf clk rq (\<lambda>p. with_run cf p run_id (body p)) s))"
proof (rule protected_reports [where P = reports_ok])
  fix p s1 assume "same_reports s s1"
  then have "reports_ok s1" using ok same_reports_ok by blast
  then show "reports_ok (fst (with_run cf p run_id (body p) s1))" by (intro with_run_reports [where P = reports_ok] body)
next
  fix s1 assume "same_reports s s1"
  then show "reports_ok s1" using ok same_reports_ok by blast
qed

text \<open>Generation.\<close>

lemma render_all_facts:
  assumes "render_all env r result fmts s = (s', m)"
  shows "report_runs s' = report_runs s \<and> (\<exists>as. report_artifacts s' = report_artifacts s @ as \<and> (m = Inr () \<longrightarrow> map ra_format as = fmts \<and>
    list_all (\<lambda>a. ra_report_run_id a = rr_id r) as))"
  using assms
proof (induction fmts arbitrary: s)
  case (Cons fmt fmts)
  show ?case
  proof (cases "re_store env (storage_key env r fmt) (render env result fmt)")
    case (Inr u)
    show ?thesis
    proof (cases "content_type fmt")
      case (Inr ct)
      with Cons.IH [of "s\<lparr>report_files := (storage_key env r fmt, render env result fmt) # report_files s,
          report_artifacts := report_artifacts s @ [artifact_of env r fmt ct]\<rparr>"] Cons.prems \<open>re_store env _ _ = Inr u\<close>
      obtain as where "report_runs s' = report_runs s" "report_artifacts s' = report_artifacts s @ artifact_of env r fmt ct # as"
        "m = Inr () \<longrightarrow> map ra_format as = fmts \<and> list_all (\<lambda>a. ra_report_run_id a = rr_id r) as"
        by (auto simp: Let_def)
      then show ?thesis by (intro conjI exI [of _ "artifact_of env r fmt ct # as"]) (auto simp: artifact_of_def)
    qed (use Cons.prems \<open>re_store env _ _ = Inr u\<close> in \<open>auto simp: Let_def\<close>)
  qed (use Cons.prems in \<open>auto simp: Let_def\<close>)
qed auto

lemma upd_run_all:
  assumes "reports_ok s" "\<And>q. q \<in> set (report_runs s) \<Longrightarrow> rr_id q = i \<Longrightarrow> rr_id (f q) = i \<and> run_ok (report_artifacts s) (f q)"
  shows "reports_ok (upd_run i f s)"
proof (cases "\<exists>r \<in> set (report_runs s). rr_id r = i")
  case True
  then obtain r where "r \<in> set (report_runs s)" "rr_id r = i" by blast
  then show ?thesis using upd_run_ok [OF assms(1), of r f] assms(2) [of r] by simp
next
  case False
  then have "upd_by rr_id i f (report_runs s) = report_runs s" unfolding upd_by_def by (intro map_idI) auto
  then show ?thesis using assms(1) by (simp add: upd_run_def)
qed

lemma build_result_reports: "same_reports s (fst (build_result env now tenant r s))"
  by (simp add: build_result_def same_reports_def executive_frame split: prod.split) (metis executive_frame fst_conv)

lemma unfinished_ok: "rr_status r \<notin> {Run_awaiting_approval, Run_approved, Run_published} \<Longrightarrow> run_ok as r"
  by (simp add: run_ok_def)

lemma upd_upd_run:
  assumes "reports_ok s" "r \<in> set (report_runs s)" "rr_id (f r) = rr_id r" "rr_id (g (f r)) = rr_id r"
    and "q \<in> set (upd_by rr_id (rr_id r) g (upd_by rr_id (rr_id r) f (report_runs s)))" "rr_id q = rr_id r"
  shows "q = g (f r)"
proof -
  have only: "x = r" if "x \<in> set (report_runs s)" "rr_id x = rr_id r" for x
    using assms(1,2) that by (simp add: reports_ok_def distinct_map inj_on_def)
  obtain y where y: "y \<in> set (upd_by rr_id (rr_id r) f (report_runs s))" "q = (if rr_id y = rr_id r then g y else y)"
    using assms(5) by (rule in_upd_byE)
  obtain x where x: "x \<in> set (report_runs s)" "y = (if rr_id x = rr_id r then f x else x)" using y(1) by (rule in_upd_byE)
  show ?thesis using x y only [OF x(1)] assms(3,4,6) by (cases "rr_id x = rr_id r") auto
qed

lemma generate_body_ok:
  assumes ok: "reports_ok s" and r: "r \<in> set (report_runs s)"
  shows "reports_ok (fst (generate_body env now tenant r s))"
proof -
  define f :: "report_run \<Rightarrow> report_run" where "f = (\<lambda>q. q\<lparr>rr_status := Run_running, rr_progress := 10\<rparr>)"
  obtain s1 m where b: "build_result env now tenant r (upd_run (rr_id r) f s) = (s1, m)" by (cases "build_result env now tenant r (upd_run (rr_id r) f s)")
  have "reports_ok (upd_run (rr_id r) f s)" using ok by (rule upd_run_all) (simp add: f_def unfinished_ok)
  moreover have s1: "same_reports (upd_run (rr_id r) f s) s1" using build_result_reports [of "upd_run (rr_id r) f s" env now tenant r] b by simp
  ultimately have ok1: "reports_ok s1" using same_reports_ok by blast
  show ?thesis
  proof (cases m)
    case (Inr result)
    define g :: "report_run \<Rightarrow> report_run" where "g = (\<lambda>q. q\<lparr>rr_result_data := Some result, rr_progress := 45\<rparr>)"
    let ?s1 = "upd_run (rr_id r) g s1"
    obtain s2 m2 where render: "render_all env r result (rr_formats r) ?s1 = (s2, m2)" by (cases "render_all env r result (rr_formats r) ?s1")
    have runs1: "report_runs ?s1 = upd_by rr_id (rr_id r) g (upd_by rr_id (rr_id r) f (report_runs s))"
      using s1 by (simp add: same_reports_def upd_run_def)
    have same: "q = g (f r)" if "q \<in> set (report_runs ?s1)" "rr_id q = rr_id r" for q
      using upd_upd_run [OF ok r _ _ that(1) [unfolded runs1] that(2)] by (simp add: f_def g_def)
    have ok2: "reports_ok ?s1"
    proof (rule upd_run_all [OF ok1])
      fix q assume q: "q \<in> set (report_runs s1)" "rr_id q = rr_id r"
      then have "g q \<in> set (report_runs ?s1)" "rr_id (g q) = rr_id r" by (auto simp: upd_run_def upd_by_def g_def)
      then have "g q = g (f r)" using same by blast
      then have "rr_status (g q) = Run_running" by (simp add: f_def g_def)
      then show "rr_id (g q) = rr_id r \<and> run_ok (report_artifacts s1) (g q)" using q(2) by (simp add: unfinished_ok g_def)
    qed
    obtain as where s2: "report_runs s2 = report_runs ?s1" "report_artifacts s2 = report_artifacts ?s1 @ as"
      "m2 = Inr () \<longrightarrow> map ra_format as = rr_formats r \<and> list_all (\<lambda>a. ra_report_run_id a = rr_id r) as"
      using render_all_facts [OF render] by blast
    have ok3: "reports_ok s2" using ok2 by (auto simp: reports_ok_def s2(1,2) list_all_iff intro: run_ok_more)
    have finished: "reports_ok (upd_run (rr_id r) (\<lambda>r. r\<lparr>rr_status := Run_awaiting_approval, rr_progress := 100\<rparr>) s2)" if "m2 = Inr ()"
    proof (rule upd_run_all [OF ok3])
      fix q assume q: "q \<in> set (report_runs s2)" "rr_id q = rr_id r"
      have qq: "q = g (f r)" using q same s2(1) by simp
      have ex: "\<exists>a \<in> set (report_artifacts s2). ra_report_run_id a = rr_id r \<and> ra_format a = fmt" if "fmt \<in> set (rr_formats r)" for fmt
      proof -
        have "fmt \<in> ra_format ` set as" using s2(3) \<open>m2 = Inr ()\<close> that by (metis list.set_map)
        then show ?thesis using s2(2,3) \<open>m2 = Inr ()\<close> by (auto simp: list_all_iff)
      qed
      let ?r = "g (f r)\<lparr>rr_status := Run_awaiting_approval, rr_progress := 100\<rparr>"
      have "rr_formats ?r = rr_formats r" "rr_id ?r = rr_id r" by (simp_all add: f_def g_def)
      then have "rendered (report_artifacts s2) ?r" unfolding rendered_def list_all_iff list_ex_iff using ex by metis
      moreover have "rr_result_data ?r \<noteq> None" "rr_progress ?r = 100" "rr_status ?r = Run_awaiting_approval" by (simp_all add: f_def g_def)
      ultimately show "rr_id (q\<lparr>rr_status := Run_awaiting_approval, rr_progress := 100\<rparr>) = rr_id r \<and>
          run_ok (report_artifacts s2) (q\<lparr>rr_status := Run_awaiting_approval, rr_progress := 100\<rparr>)"
        unfolding qq run_ok_def using \<open>rr_id ?r = rr_id r\<close> by simp
    qed
    have "fst (generate_body env now tenant r s) =
        (case m2 of Inl e \<Rightarrow> s2 | Inr _ \<Rightarrow> upd_run (rr_id r) (\<lambda>r. r\<lparr>rr_status := Run_awaiting_approval, rr_progress := 100\<rparr>) s2)"
      unfolding generate_body_def f_def [symmetric] b Inr by (simp add: g_def [symmetric] render split: sum.split)
    then show ?thesis using ok3 finished by (cases m2) auto
  next
    case (Inl e)
    then show ?thesis using ok1 b by (simp add: generate_body_def f_def [symmetric])
  qed
qed

lemma generate_ok:
  assumes ok: "reports_ok s" shows "reports_ok (fst (generate env now tenant run_id s))"
proof -
  let ?found = "one_or_none (filter (\<lambda>r. rr_report_run_id r = run_id \<and> rr_tenant_id r = tenant) (report_runs s))"
  consider (one) r where "?found = Inr (Some r)" | (none) "?found = Inr None" | (many) e where "?found = Inl e"
    by (metis option.exhaust sum.exhaust)
  then show ?thesis
  proof cases
    case one
    have "r \<in> set (filter (\<lambda>r. rr_report_run_id r = run_id \<and> rr_tenant_id r = tenant) (report_runs s))"
      unfolding one_or_none_SomeD [OF one] by simp
    then have r: "r \<in> set (report_runs s)" by simp
    obtain s1 m where g: "generate_body env now tenant r s = (s1, m)" by (cases "generate_body env now tenant r s")
    have ok1: "reports_ok s1" using generate_body_ok [OF ok r, of env now tenant] g by simp
    have "reports_ok (upd_run (rr_id r) (\<lambda>r. r\<lparr>rr_status := Run_failed, rr_failure_reason := Some (error_text e)\<rparr>) s1)" for e
      using ok1 by (rule upd_run_all) (simp add: unfinished_ok)
    then show ?thesis using ok ok1 by (cases m) (simp_all add: generate_def one g)
  qed (simp_all add: generate_def ok)
qed

lemma protected_untouched:
  assumes "\<And>p a b. P (fst (body p (s\<lparr>sessions := a, request_log := b\<rparr>)))" "\<And>a b. P (s\<lparr>sessions := a, request_log := b\<rparr>)"
  shows "P (fst (protected perm res env cf clk rq body s))"
proof -
  obtain s1 m where r: "require perm (Some res) env cf clk rq s = (s1, m)" by (cases "require perm (Some res) env cf clk rq s")
  have "operations_untouched s s1" using require_untouched [of s perm "Some res" env cf clk rq] r by simp
  then obtain a b where "s1 = s\<lparr>sessions := a, request_log := b\<rparr>" unfolding operations_untouched_def by blast
  then show ?thesis using assms by (cases m) (simp_all add: protected_def r)
qed

lemma register_reports: "register_rows ts s = Inr s' \<Longrightarrow> same_reports s s' \<and> draws s' = draws s"
proof (induction ts arbitrary: s)
  case (Cons t ts)
  obtain i n st sections where t: "t = (i, n, st, sections)" by (cases t)
  obtain row :: "report_template option" where "register_rows ts (case row of Some _ \<Rightarrow> s
       | None \<Rightarrow> s\<lparr>report_templates := report_templates s @ [\<lparr>rt_template_id = i, rt_version = ''1.0'', rt_name = n, rt_status = st, rt_sections = sections\<rparr>]\<rparr>) = Inr s'"
    using Cons.prems unfolding t register_rows.simps and_then_Inr_iff by blast
  from Cons.IH [OF this] show ?case by (cases row) (simp_all add: same_reports_def)
qed simp

definition fresh_ids :: "(nat \<Rightarrow> uid) \<Rightarrow> 'a report_db_scheme \<Rightarrow> bool" where
  "fresh_ids uuid s \<longleftrightarrow> (\<forall>n \<ge> draws s. uuid n \<notin> rr_id ` set (report_runs s) \<and> ''rpt-'' @ uuid n \<notin> rr_report_run_id ` set (report_runs s))"

lemma new_run_ok:
  assumes "reports_ok s" "fresh_ids uuid s"
  shows "reports_ok (log_row a (s\<lparr>report_runs := report_runs s @ [new_run uuid now p tenant t b (draws s)], draws := draws s + 2\<rparr>))"
  using assms by (auto simp: reports_ok_def fresh_ids_def log_row_def new_run_def run_ok_def)

lemma create_ok:
  assumes "reports_ok s" "fresh_ids uuid s" shows "reports_ok (fst (create_report env cf uuid clk rq b s))"
  unfolding create_report_def
proof (rule protected_untouched [where P = reports_ok], goal_cases)
  case (1 p u v)
  let ?s = "s\<lparr>sessions := u, request_log := v\<rparr>"
  have ok: "reports_ok ?s" "fresh_ids uuid ?s" using assms by (simp_all add: reports_ok_def fresh_ids_def)
  show ?case
  proof (cases "register_templates ?s")
    case (Inr s1)
    then have "register_rows shipped_templates ?s = Inr s1" unfolding register_templates_def .
    from register_reports [OF this] have s1: "same_reports ?s s1" "draws s1 = draws ?s" by blast+
    then have ok1: "reports_ok s1" "fresh_ids uuid s1" using ok same_reports_ok [OF s1(1)] by (simp_all add: fresh_ids_def same_reports_def)
    have made: "reports_ok (fst (in_tenant cf p None (\<lambda>tenant s. (let r = new_run uuid (clk 2) p tenant t b (draws s)
             in (log_row (by_principal p (plain_row ''report_create'' (Some ''report_run'') (Some (rr_report_run_id r)) None
                   [(''formats'', JList (map JStr (rr_formats r)))])) (s\<lparr>report_runs := report_runs s @ [r], draws := draws s + 2\<rparr>), Inr r))) s1))" for t
      using new_run_ok [OF ok1] ok1(1) by (simp add: in_tenant_def Let_def split: sum.split)
    show ?thesis using made ok1(1) by (simp add: Inr split: sum.split option.split)
  qed (simp add: ok(1))
next
  case 2
  then show ?case using assms(1) by (simp add: reports_ok_def)
qed

text \<open>Requests of any callers on reports, and whatever leaves the report tables alone.\<close>

inductive report_step :: "'a report_db_scheme \<Rightarrow> 'a report_db_scheme \<Rightarrow> bool" where
  created: "fresh_ids uuid s \<Longrightarrow> report_step s (fst (create_report env cf uuid clk rq b s))"
| ran: "report_step s (fst (run_now env cf clk rq re i s))"
| cancelled: "report_step s (fst (cancel_report env cf clk rq i s))"
| retried: "report_step s (fst (retry_report env cf clk rq i s))"
| approved: "report_step s (fst (approve_report env cf clk rq i s))"
| rejected: "report_step s (fst (reject_report env cf clk rq i reason s))"
| published: "report_step s (fst (publish_report_run env cf clk rq i s))"
| delivered: "report_step s (fst (deliver_report env cf uuid clk rq i channel recipient simulate s))"
| redelivered: "report_step s (fst (retry_delivery_endpoint env cf clk rq d s))"
| elsewhere: "same_reports s s' \<Longrightarrow> report_step s s'"

lemma run_now_ok: "reports_ok s \<Longrightarrow> reports_ok (fst (run_now env cf clk rq re i s))"
  unfolding run_now_def
proof (rule endpoint_ok)
  fix p r and s1 :: "'a report_db_scheme" assume "reports_ok s1"
  then show "reports_ok (fst (attempted (generate re (clk 2) (rr_tenant_id r) i s1)))"
    using generate_ok [of s1 re "clk 2" "rr_tenant_id r" i]
    by (cases "generate re (clk 2) (rr_tenant_id r) i s1"; cases "snd (generate re (clk 2) (rr_tenant_id r) i s1)") (simp_all add: attempted_def)
qed

lemma by_hand_ok:
  assumes "reports_ok s"
  shows "reports_ok (fst (cancel_report env cf clk rq i s))" "reports_ok (fst (retry_report env cf clk rq i s))" "reports_ok (fst (reject_report env cf clk rq i reason s))"
  unfolding cancel_report_def retry_report_def reject_report_def
  by (rule endpoint_ok [OF assms], simp, erule upd_run_all, simp add: unfinished_ok)+

lemma in_reports_ok: "reports_ok s \<Longrightarrow> r \<in> set (report_runs s) \<Longrightarrow> run_ok (report_artifacts s) r"
  by (simp add: reports_ok_def list_all_iff)

lemma approve_ok: "reports_ok s \<Longrightarrow> reports_ok (fst (approve_report env cf clk rq i s))"
  unfolding approve_report_def
proof (rule endpoint_ok)
  fix p r and s1 :: "'a report_db_scheme" assume s1: "reports_ok s1" "r \<in> set (report_runs s1)"
  show "reports_ok (fst (if rr_status r \<noteq> Run_awaiting_approval then (s1, Inl (Denied 409 '''' [Lit ''Report is not awaiting approval'']))
     else (upd_run (rr_id r) (\<lambda>r. r\<lparr>rr_status := Run_approved, rr_approved_by := Some (pn_email p), rr_approved_at := Some (clk 2)\<rparr>) s1, Inr ())))"
    using in_reports_ok [OF s1] s1 by (auto intro!: upd_run_ok simp: run_ok_def rendered_def)
qed

lemma publish_ok: "reports_ok s \<Longrightarrow> reports_ok (fst (publish_report_run env cf clk rq i s))"
  unfolding publish_report_run_def
proof (rule endpoint_ok)
  fix p :: user_principal and r and s1 :: "'a report_db_scheme" assume s1: "reports_ok s1" "r \<in> set (report_runs s1)"
  show "reports_ok (fst (if rr_status r \<noteq> Run_approved then (s1, Inl (Denied 409 '''' [Lit ''Only approved reports may be published'']))
     else (upd_run (rr_id r) (\<lambda>r. r\<lparr>rr_status := Run_published, rr_published_at := Some (clk 2)\<rparr>) s1, Inr ())))"
    using in_reports_ok [OF s1] s1 by (auto intro!: upd_run_ok simp: run_ok_def rendered_def)
qed

lemma deliveries_ok:
  assumes "reports_ok s"
  shows "reports_ok (fst (deliver_report env cf uuid clk rq i channel recipient simulate s))" "reports_ok (fst (retry_delivery_endpoint env cf clk rq d s))"
proof -
  show "reports_ok (fst (deliver_report env cf uuid clk rq i channel recipient simulate s))"
    unfolding deliver_report_def by (rule endpoint_ok [OF assms]) (simp add: deliver_def Let_def reports_ok_def)
  show "reports_ok (fst (retry_delivery_endpoint env cf clk rq d s))"
    unfolding retry_delivery_endpoint_def
  proof (rule protected_reports [where P = reports_ok])
    fix p s1 assume "same_reports s s1"
    then have ok: "reports_ok s1" using assms same_reports_ok by blast
    have "reports_ok (fst (with_run cf p j (\<lambda>_ s. (s\<lparr>report_deliveries := upd_by rd_id d (redelivered (clk 2)) (report_deliveries s)\<rparr>, Inr ())) s1))" for j
      by (rule with_run_reports [where P = reports_ok]) (use ok in \<open>simp_all add: reports_ok_def\<close>)
    then show "reports_ok (fst (case find (\<lambda>x. rd_id x = d) (report_deliveries s1) of
       None \<Rightarrow> (s1, Inl (Denied 404 '''' [Lit ''Delivery not found'']))
     | Some d' \<Rightarrow> (case find (\<lambda>r. rr_id r = rd_report_run_id d') (report_runs s1) of
         None \<Rightarrow> (s1, Inl (Crashed AttributeError))
       | Some r \<Rightarrow> with_run cf p (rr_report_run_id r) (\<lambda>_ s.
           (s\<lparr>report_deliveries := upd_by rd_id d (redelivered (clk 2)) (report_deliveries s)\<rparr>, Inr ())) s1)))"
      using ok by (simp split: option.split)
  next
    fix s1 assume "same_reports s s1"
    then show "reports_ok s1" using assms same_reports_ok by blast
  qed
qed

lemma step_ok: "report_step s s' \<Longrightarrow> reports_ok s \<Longrightarrow> reports_ok s'"
  by (induction rule: report_step.induct) (simp_all add: create_ok run_now_ok by_hand_ok approve_ok publish_ok deliveries_ok same_reports_ok)

lemma steps_ok: "report_step\<^sup>*\<^sup>* s s' \<Longrightarrow> reports_ok s \<Longrightarrow> reports_ok s'"
  by (induction rule: rtranclp_induct) (blast intro: step_ok)+

section \<open>The sections of a report\<close>

definition all_metrics :: "dashboard_summary \<Rightarrow> bool" where
  "all_metrics p \<longleftrightarrow> map dm_name (ds_lead_times p) = dashboard_metrics"

definition stored_metrics :: "'a dash_db_scheme \<Rightarrow> bool" where
  "stored_metrics s \<longleftrightarrow> list_all (\<lambda>n. all_metrics (sn_data n)) (dashboard_snapshots s)"

lemma metric_named_ok:
  assumes "all_metrics p" "n \<in> set dashboard_metrics" obtains m where "metric_named n p = Inr m"
proof -
  have "n \<in> dm_name ` set (ds_lead_times p)" using assms by (simp add: all_metrics_def flip: set_map)
  then obtain m where "find (\<lambda>m. dm_name m = n) (ds_lead_times p) = Some m" by (metis (mono_tags, lifting) find_None_iff imageE option.exhaust)
  then show thesis using that by (simp add: metric_named_def)
qed

lemma sections_ok:
  assumes "all_metrics p" obtains xs where "report_sections p = Inr xs" "map fst xs = daily_sections"
proof -
  have names: "set [''Inward Movement'', ''Outward Movement'', ''Anchorage Wait'', ''Arrival Execution Delay'', ''Sailing Execution Delay'', ''Berth Stay'', ''Cargo Working'']
      \<subseteq> set dashboard_metrics" by (simp add: dashboard_metrics_def)
  have "\<exists>m. metric_named n p = Inr m" if "n \<in> set dashboard_metrics" for n using metric_named_ok [OF assms that] by blast
  with names have "\<exists>m. metric_named n p = Inr m"
    if "n \<in> set [''Inward Movement'', ''Outward Movement'', ''Anchorage Wait'', ''Arrival Execution Delay'', ''Sailing Execution Delay'', ''Berth Stay'', ''Cargo Working'']" for n
    using that by blast
  then obtain a b c d e f g where m: "metric_named ''Inward Movement'' p = Inr a" "metric_named ''Outward Movement'' p = Inr b"
    "metric_named ''Anchorage Wait'' p = Inr c" "metric_named ''Arrival Execution Delay'' p = Inr d" "metric_named ''Sailing Execution Delay'' p = Inr e"
    "metric_named ''Berth Stay'' p = Inr f" "metric_named ''Cargo Working'' p = Inr g" by (meson list.set_intros)
  have "\<exists>xs. report_sections p = Inr xs \<and> map fst xs = daily_sections"
    by (simp add: report_sections_def metrics_named_def m daily_sections_def Let_def)
  then show thesis using that by blast
qed

lemma fresh_metrics:
  assumes "calculate_summary env now tenant f s = (s', Inr p)" shows "all_metrics p"
proof -
  have "map dm_name (lead_metrics pl ids s1) = dashboard_metrics" for pl ids and s1 :: "'a kpi_db_scheme"
    by (simp add: lead_metrics_def metric_of_results_def Let_def comp_def)
  then show ?thesis using assms unfolding calculate_summary_def all_metrics_def by (auto simp: Let_def split: sum.splits prod.splits)
qed

lemma newest_snapshot_in: "newest_snapshot tenant s = Some n \<Longrightarrow> n \<in> set (dashboard_snapshots s)"
proof -
  assume "newest_snapshot tenant s = Some n"
  then obtain ns where "n # ns = sorted_by_desc sn_created_at
      (filter (\<lambda>n. sn_tenant_id n = tenant \<and> sn_is_active n \<and> sn_filters_hash n = ''unfiltered'') (dashboard_snapshots s))"
    by (auto simp: newest_snapshot_def split: list.splits)
  from arg_cong [OF this, of set] show ?thesis by (auto simp: sorted_by_desc_def)
qed

lemma executive_metrics:
  fixes s :: "'a dash_db_scheme"
  assumes stored: "stored_metrics s" and run: "get_executive_summary env now tenant f force s = (s', Inr p)"
  shows "all_metrics p \<and> stored_metrics s'"
proof (cases "if is_unfiltered f \<and> \<not> force then newest_snapshot tenant s else None")
  case (Some n)
  then have "n \<in> set (dashboard_snapshots s)" using newest_snapshot_in by (auto split: if_splits)
  then show ?thesis using stored run unfolding get_executive_summary_def Some by (auto simp: stored_metrics_def list_all_iff)
next
  case None
  then obtain s1 q where c: "calculate_summary env now tenant f s = (s1, Inr q)" "keep_summary now tenant f q s1 = (p, s')"
    using run unfolding get_executive_summary_def None by (auto simp: Let_def split: sum.splits prod.splits)
  have q: "all_metrics q" by (rule fresh_metrics [OF c(1)])
  have "engine_frame s s1" using summary_frame [of s env now tenant f] c(1) by simp
  then have "dashboard_snapshots s1 = dashboard_snapshots s" by (auto elim!: engine_frameE)
  then have "stored_metrics s1" using stored by (simp add: stored_metrics_def)
  with q c(2) show ?thesis
    by (auto simp: keep_summary_def persist_snapshot_def with_batch_def all_metrics_def stored_metrics_def list_all_iff Let_def split: if_splits prod.splits)
qed

section \<open>Nothing of a report is taken back\<close>

definition run_key :: "report_run \<Rightarrow> uid \<times> string" where
  "run_key r = (rr_id r, rr_report_run_id r)"

definition report_keys :: "'a report_db_scheme \<Rightarrow> (uid \<times> string) list" where
  "report_keys s = map run_key (report_runs s)"

text \<open>No request removes an artifact, and only a creation adds a run.\<close>

definition reports_kept :: "'a report_db_scheme \<Rightarrow> 'a report_db_scheme \<Rightarrow> bool" where
  "reports_kept s s' \<longleftrightarrow> prefix (report_artifacts s) (report_artifacts s') \<and> report_keys s' = report_keys s"

lemma kept_trans: "reports_kept s s' \<Longrightarrow> reports_kept s' s'' \<Longrightarrow> reports_kept s s''"
  using prefix_order.order_trans by (auto simp: reports_kept_def)

lemma same_kept: "same_reports s s' \<Longrightarrow> reports_kept s s'"
  by (simp add: same_reports_def reports_kept_def report_keys_def)

lemma upd_run_kept:
  assumes "\<And>q. run_key (f q) = run_key q" shows "reports_kept s (upd_run i f s)"
proof -
  have "map run_key (upd_by rr_id i f (report_runs s)) = map run_key (report_runs s)" unfolding upd_by_def map_map using assms by (intro map_cong) auto
  then show ?thesis by (simp add: reports_kept_def report_keys_def upd_run_def)
qed

lemma endpoint_kept:
  assumes "\<And>p r s1. r \<in> set (report_runs s1) \<Longrightarrow> reports_kept s1 (fst (body p r s1))"
  shows "reports_kept s (fst (protected perm res env cf clk rq (\<lambda>p. with_run cf p run_id (body p)) s))"
proof (rule protected_reports [where P = "reports_kept s"])
  fix p s1 assume s1: "same_reports s s1"
  show "reports_kept s (fst (with_run cf p run_id (body p) s1))"
    by (rule with_run_reports [where P = "reports_kept s"]) (use assms kept_trans same_kept [OF s1] in blast)+
qed (rule same_kept)

lemma generate_kept: "reports_kept s (fst (generate env now tenant run_id s))"
proof -
  have body: "reports_kept s (fst (generate_body env now tenant r s))" for r
  proof -
    define f :: "report_run \<Rightarrow> report_run" where "f = (\<lambda>q. q\<lparr>rr_status := Run_running, rr_progress := 10\<rparr>)"
    obtain s1 m where b: "build_result env now tenant r (upd_run (rr_id r) f s) = (s1, m)" by (cases "build_result env now tenant r (upd_run (rr_id r) f s)")
    have "reports_kept s (upd_run (rr_id r) f s)" by (rule upd_run_kept) (simp add: run_key_def f_def)
    then have s1: "reports_kept s s1" using kept_trans same_kept [OF build_result_reports [of "upd_run (rr_id r) f s" env now tenant r]] b by fastforce
    show ?thesis
    proof (cases m)
      case (Inr result)
      let ?s1 = "upd_run (rr_id r) (\<lambda>r. r\<lparr>rr_result_data := Some result, rr_progress := 45\<rparr>) s1"
      obtain s2 m2 where render: "render_all env r result (rr_formats r) ?s1 = (s2, m2)" by (cases "render_all env r result (rr_formats r) ?s1")
      have "reports_kept s ?s1" by (rule kept_trans [OF s1 upd_run_kept]) (simp add: run_key_def)
      moreover have "reports_kept ?s1 s2" using render_all_facts [OF render] by (auto simp: reports_kept_def report_keys_def prefix_def)
      ultimately have s2: "reports_kept s s2" by (rule kept_trans)
      then have "reports_kept s (upd_run (rr_id r) (\<lambda>r. r\<lparr>rr_status := Run_awaiting_approval, rr_progress := 100\<rparr>) s2)"
        by (rule kept_trans) (simp add: upd_run_kept run_key_def)
      then show ?thesis using s2 by (cases m2) (simp_all add: generate_body_def f_def [symmetric] b Inr render)
    qed (use s1 in \<open>simp add: generate_body_def f_def [symmetric] b\<close>)
  qed
  show ?thesis
  proof (cases "one_or_none (filter (\<lambda>r. rr_report_run_id r = run_id \<and> rr_tenant_id r = tenant) (report_runs s))")
    case (Inr found)
    show ?thesis
    proof (cases found)
      case (Some r)
      obtain s1 m where g: "generate_body env now tenant r s = (s1, m)" by (cases "generate_body env now tenant r s")
      have s1: "reports_kept s s1" using body [of r] g by simp
      have "reports_kept s (upd_run (rr_id r) (\<lambda>r. r\<lparr>rr_status := Run_failed, rr_failure_reason := Some (error_text e)\<rparr>) s1)" for e
        by (rule kept_trans [OF s1 upd_run_kept]) (simp add: run_key_def)
      then show ?thesis using s1 by (cases m) (simp_all add: generate_def Inr Some g same_kept)
    qed (simp add: generate_def Inr same_kept)
  qed (simp add: generate_def same_kept)
qed

lemma other_kept:
  "reports_kept s (fst (run_now env cf clk rq re i s))" "reports_kept s (fst (cancel_report env cf clk rq i s))"
  "reports_kept s (fst (retry_report env cf clk rq i s))" "reports_kept s (fst (approve_report env cf clk rq i s))"
  "reports_kept s (fst (reject_report env cf clk rq i reason s))" "reports_kept s (fst (publish_report_run env cf clk rq i s))"
  "reports_kept s (fst (deliver_report env cf uuid clk rq i channel recipient simulate s))"
proof -
  have run: "reports_kept s1 (fst (attempted (generate re now t i s1)))" for now t and s1 :: "'a report_db_scheme"
    using generate_kept [of s1 re now t i] by (cases "generate re now t i s1"; cases "snd (generate re now t i s1)") (simp_all add: attempted_def)
  show "reports_kept s (fst (run_now env cf clk rq re i s))" unfolding run_now_def by (rule endpoint_kept) (rule run)
  show "reports_kept s (fst (cancel_report env cf clk rq i s))" unfolding cancel_report_def
    by (rule endpoint_kept) (simp add: upd_run_kept run_key_def)
  show "reports_kept s (fst (retry_report env cf clk rq i s))" unfolding retry_report_def
    by (rule endpoint_kept) (simp add: upd_run_kept run_key_def)
  show "reports_kept s (fst (approve_report env cf clk rq i s))" unfolding approve_report_def
    by (rule endpoint_kept) (simp add: upd_run_kept run_key_def same_kept)
  show "reports_kept s (fst (reject_report env cf clk rq i reason s))" unfolding reject_report_def
    by (rule endpoint_kept) (simp add: upd_run_kept run_key_def)
  show "reports_kept s (fst (publish_report_run env cf clk rq i s))" unfolding publish_report_run_def
    by (rule endpoint_kept) (simp add: upd_run_kept run_key_def same_kept)
  show "reports_kept s (fst (deliver_report env cf uuid clk rq i channel recipient simulate s))" unfolding deliver_report_def
    by (rule endpoint_kept) (simp add: deliver_def Let_def reports_kept_def report_keys_def)
qed

lemma redelivery_kept: "reports_kept s (fst (retry_delivery_endpoint env cf clk rq d s))"
  unfolding retry_delivery_endpoint_def
proof (rule protected_reports [where P = "reports_kept s"])
  fix p s1 assume s1: "same_reports s s1"
  have "reports_kept s (fst (with_run cf p j (\<lambda>_ s. (s\<lparr>report_deliveries := upd_by rd_id d (redelivered (clk 2)) (report_deliveries s)\<rparr>, Inr ())) s1))" for j
    by (rule with_run_reports [where P = "reports_kept s"]) (use same_kept [OF s1] in \<open>simp_all add: reports_kept_def report_keys_def\<close>)
  then show "reports_kept s (fst (case find (\<lambda>x. rd_id x = d) (report_deliveries s1) of
     None \<Rightarrow> (s1, Inl (Denied 404 '''' [Lit ''Delivery not found'']))
   | Some d' \<Rightarrow> (case find (\<lambda>r. rr_id r = rd_report_run_id d') (report_runs s1) of
       None \<Rightarrow> (s1, Inl (Crashed AttributeError))
     | Some r \<Rightarrow> with_run cf p (rr_report_run_id r) (\<lambda>_ s.
         (s\<lparr>report_deliveries := upd_by rd_id d (redelivered (clk 2)) (report_deliveries s)\<rparr>, Inr ())) s1)))"
    using same_kept [OF s1] by (simp split: option.split)
qed (rule same_kept)

lemma create_keys:
  "report_artifacts (fst (create_report env cf uuid clk rq b s)) = report_artifacts s \<and>
   (report_keys (fst (create_report env cf uuid clk rq b s)) = report_keys s \<or>
    report_keys (fst (create_report env cf uuid clk rq b s)) = report_keys s @ [(uuid (draws s + 1), ''rpt-'' @ uuid (draws s))])"
  unfolding create_report_def
proof (rule protected_untouched [where P = "\<lambda>s'. report_artifacts s' = report_artifacts s \<and>
    (report_keys s' = report_keys s \<or> report_keys s' = report_keys s @ [(uuid (draws s + 1), ''rpt-'' @ uuid (draws s))])"], goal_cases)
  case (1 p u v)
  let ?s = "s\<lparr>sessions := u, request_log := v\<rparr>"
  show ?case
  proof (cases "register_templates ?s")
    case (Inr s1)
    then have "register_rows shipped_templates ?s = Inr s1" unfolding register_templates_def .
    from register_reports [OF this] have s1: "report_runs s1 = report_runs s" "report_artifacts s1 = report_artifacts s" "draws s1 = draws s"
      by (simp_all add: same_reports_def)
    let ?P = "\<lambda>s'. report_artifacts s' = report_artifacts s \<and> (report_keys s' = report_keys s \<or> report_keys s' = report_keys s @ [(uuid (draws s + 1), ''rpt-'' @ uuid (draws s))])"
    have kept: "?P s1" by (simp add: s1 report_keys_def)
    have made: "?P (fst (in_tenant cf p None (\<lambda>tenant s. (let r = new_run uuid (clk 2) p tenant t b (draws s)
             in (log_row (by_principal p (plain_row ''report_create'' (Some ''report_run'') (Some (rr_report_run_id r)) None
                   [(''formats'', JList (map JStr (rr_formats r)))])) (s\<lparr>report_runs := report_runs s @ [r], draws := draws s + 2\<rparr>), Inr r))) s1))" for t
    proof (cases "resolve_principal_tenant cf (tenant_principal p) None")
      case (Inr tenant)
      then show ?thesis by (simp add: in_tenant_def Let_def log_row_def report_keys_def s1) (simp add: new_run_def run_key_def)
    qed (use kept in \<open>simp add: in_tenant_def\<close>)
    show ?thesis
    proof (cases "get_by rt_template_id (rq_template_id b) (report_templates s1)")
      case (Inr found)
      note template = this
      show ?thesis
      proof (cases found)
        case (Some t)
        show ?thesis unfolding \<open>register_templates ?s = Inr s1\<close> sum.case template Some option.case
          using made [of t] kept by (simp only: if_distrib [of fst] fst_conv split: if_split) blast
      qed (use kept in \<open>simp add: \<open>register_templates ?s = Inr s1\<close> template\<close>)
    qed (use kept in \<open>simp add: Inr\<close>)
  qed (simp add: report_keys_def)
qed (simp add: report_keys_def)

definition reports_grow :: "'a report_db_scheme \<Rightarrow> 'a report_db_scheme \<Rightarrow> bool" where
  "reports_grow s s' \<longleftrightarrow> prefix (report_artifacts s) (report_artifacts s') \<and> prefix (report_keys s) (report_keys s') \<and>
     (distinct (map snd (report_keys s)) \<longrightarrow> distinct (map snd (report_keys s')))"

lemma kept_grow: "reports_kept s s' \<Longrightarrow> reports_grow s s'"
  by (simp add: reports_kept_def reports_grow_def)

lemma grow_trans: "reports_grow s s' \<Longrightarrow> reports_grow s' s'' \<Longrightarrow> reports_grow s s''"
  using prefix_order.order_trans by (auto simp: reports_grow_def)

lemma create_grow:
  assumes "fresh_ids uuid s" shows "reports_grow s (fst (create_report env cf uuid clk rq b s))"
proof -
  have "''rpt-'' @ uuid (draws s) \<notin> snd ` set (report_keys s)" using assms by (auto simp: fresh_ids_def report_keys_def run_key_def)
  then show ?thesis using create_keys [of env cf uuid clk rq b s] by (auto simp: reports_grow_def)
qed

lemma step_grow: "report_step s s' \<Longrightarrow> reports_grow s s'"
proof (induction rule: report_step.induct)
  case (created uuid s env cf clk rq b)
  then show ?case by (rule create_grow)
qed (rule kept_grow, rule other_kept redelivery_kept same_kept, assumption?)+

lemma steps_grow: "report_step\<^sup>*\<^sup>* s s' \<Longrightarrow> reports_grow s s'"
proof (induction rule: rtranclp_induct)
  case base
  then show ?case by (simp add: reports_grow_def)
next
  case (step s1 s2)
  then show ?case using grow_trans step_grow by blast
qed

section \<open>Downloads\<close>

lemma no_document:
  assumes grow: "reports_grow s s'" and r: "r \<in> set (report_runs s)" and twice: "2 \<le> length (filter (\<lambda>a. ra_report_run_id a = rr_id r \<and> ra_format a = py_upper fmt) (report_artifacts s'))"
    and unique: "distinct (map snd (report_keys s))"
  shows "snd (get_artifact env cf clk rq (rr_report_run_id r) fmt s') \<noteq> Inr doc"
proof -
  have "set (report_keys s) \<subseteq> set (report_keys s')" using grow set_mono_prefix by (auto simp: reports_grow_def)
  then have "run_key r \<in> set (report_keys s')" using r by (auto simp: report_keys_def)
  then obtain r' where r': "r' \<in> set (report_runs s')" "rr_id r' = rr_id r" "rr_report_run_id r' = rr_report_run_id r" by (auto simp: report_keys_def run_key_def)
  have many: "one_or_none (filter (\<lambda>a. ra_report_run_id a = rr_id r \<and> ra_format a = py_upper fmt) (report_artifacts s')) = Inl MultipleResultsFound"
  proof -
    have "one_or_none xs = Inl MultipleResultsFound" if "2 \<le> length xs" for xs :: "report_artifact list"
      using that by (cases xs; cases "tl xs") (auto simp: one_or_none_def)
    then show ?thesis using twice by blast
  qed
  have found: "q = r'" if "q \<in> set (report_runs s')" "rr_report_run_id q = rr_report_run_id r" for q
  proof -
    have "distinct (map rr_report_run_id (report_runs s'))" using unique grow by (simp add: reports_grow_def report_keys_def run_key_def comp_def)
    then show ?thesis using that r' by (simp add: distinct_map inj_on_def)
  qed
  obtain s1 m where req: "require ''view'' (Some ''reporting'') env cf clk rq s' = (s1, m)" by (cases "require ''view'' (Some ''reporting'') env cf clk rq s'")
  have "operations_untouched s' s1" using require_untouched [of s' "''view''" "Some ''reporting''" env cf clk rq] req by simp
  then obtain a b where s1: "s1 = s'\<lparr>sessions := a, request_log := b\<rparr>" unfolding operations_untouched_def by blast
  have "snd (with_run cf p (rr_report_run_id r) (\<lambda>r s.
     if rr_status r \<noteq> Run_published then (s, Inl (Denied 403 '''' [Lit ''Artifact is not published'']))
     else (s, case one_or_none (filter (\<lambda>a. ra_report_run_id a = rr_id r \<and> ra_format a = py_upper fmt) (report_artifacts s)) of
         Inl e \<Rightarrow> Inl (Crashed e)
       | Inr a \<Rightarrow> (case Option.bind a (\<lambda>a. map_of (report_files s) (ra_storage_key a)) of
           Some doc \<Rightarrow> Inr doc
         | None \<Rightarrow> Inl (Denied 404 '''' [Lit ''Artifact not found''])))) s1) \<noteq> Inr doc" for p
  proof (cases "resolve_principal_tenant cf (tenant_principal p) None")
    case (Inr tenant)
    let ?found = "one_or_none (filter (\<lambda>q. rr_report_run_id q = rr_report_run_id r \<and> run_in_scope p tenant q) (report_runs s1))"
    have same: "q = r'" if "?found = Inr (Some q)" for q
    proof -
      have "q \<in> set (filter (\<lambda>q. rr_report_run_id q = rr_report_run_id r \<and> run_in_scope p tenant q) (report_runs s1))"
        unfolding one_or_none_SomeD [OF that] by simp
      then show ?thesis using found [of q] s1 by simp
    qed
    have artifacts: "one_or_none (filter (\<lambda>a. ra_report_run_id a = rr_id r' \<and> ra_format a = py_upper fmt) (report_artifacts s1)) = Inl MultipleResultsFound"
      using many r'(2) s1 by simp
    show ?thesis
    proof (cases ?found)
      case (Inr x)
      note x = this
      show ?thesis
      proof (cases x)
        case (Some q)
        have "q = r'" by (rule same) (simp only: x Some)
        then show ?thesis by (simp add: with_run_def in_tenant_def \<open>resolve_principal_tenant cf (tenant_principal p) None = Inr tenant\<close> x Some artifacts)
      qed (simp add: with_run_def in_tenant_def \<open>resolve_principal_tenant cf (tenant_principal p) None = Inr tenant\<close> x)
    qed (simp add: with_run_def in_tenant_def Inr)
  qed (simp add: with_run_def in_tenant_def)
  then show ?thesis by (cases m) (simp_all add: get_artifact_def protected_def req)
qed

lemma unique_filter: "distinct (map f xs) \<Longrightarrow> r \<in> set xs \<Longrightarrow> Q r \<Longrightarrow> filter (\<lambda>q. f q = f r \<and> Q q) xs = [r]"
proof (induction xs)
  case (Cons x xs)
  show ?case
  proof (cases "x = r")
    case True
    have "filter (\<lambda>q. f q = f r \<and> Q q) xs = []" unfolding filter_empty_conv
      using Cons.prems(1) True by (metis distinct.simps(2) imageI list.map(2) list.set_map)
    then show ?thesis using Cons.prems(3) by (simp add: True)
  next
    case False
    then have "r \<in> set xs" using Cons.prems(2) by simp
    moreover have "f x \<noteq> f r" using Cons.prems(1) calculation by force
    ultimately show ?thesis using Cons by simp
  qed
qed simp

section \<open>Drawing\<close>

lemma chunks_join: "concat (chunks x) = x \<and> list_all (\<lambda>c. length c \<le> 105) (chunks x)"
proof (induction x rule: chunks.induct)
  case (1 x)
  then show ?case by (subst (1 2) chunks.simps) simp
qed

lemma fragments_join: "concat (fragments x) = x" "list_all (\<lambda>c. length c \<le> 105) (fragments x)"
  using chunks_join [of x] by (auto simp: fragments_def)

definition page_heights :: "nat \<Rightarrow> int list" where
  "page_heights n = map (\<lambda>i. 750 - 13 * int i) [0..<n]"

definition page_ok :: "(int \<times> string) list \<Rightarrow> bool" where
  "page_ok page \<longleftrightarrow> page \<noteq> [] \<and> length page \<le> 55 \<and> map fst page = page_heights (length page)"

lemma draw_ok:
  assumes "list_all page_ok pages" "map fst page = page_heights (length page)" "length page < 55" "y = 750 - 13 * int (length page)"
    "draw xs (pages, page, y) = (pages', page', y')"
  shows "list_all page_ok pages' \<and> map fst page' = page_heights (length page') \<and> length page' < 55 \<and>
    concat (map (map snd) (pages' @ [page'])) = concat (map (map snd) (pages @ [page])) @ xs"
  using assms
proof (induction xs arbitrary: pages page y)
  case (Cons x xs)
  let ?page = "page @ [(y, x)]"
  have heights: "map fst ?page = page_heights (length ?page)" using Cons.prems(2,4) by (simp add: page_heights_def)
  show ?case
  proof (cases "y - 13 < 36")
    case True
    have "page_ok ?page" unfolding page_ok_def using heights Cons.prems(3) by simp
    then have "list_all page_ok (pages @ [?page])" using Cons.prems(1) by simp
    from Cons.IH [OF this, of "[]" 750] True Cons.prems(5) show ?thesis by (auto simp: page_heights_def Let_def)
  next
    case False
    have "length ?page < 55" using False Cons.prems(4) by simp
    moreover have "y - 13 = 750 - 13 * int (length ?page)" using Cons.prems(4) by simp
    moreover have "draw xs (pages, ?page, y - 13) = (pages', page', y')" using False Cons.prems(5) by (simp add: Let_def)
    ultimately show ?thesis using Cons.IH [OF Cons.prems(1) heights] by auto
  qed
qed auto

lemma pages_facts:
  "list_all page_ok (pdf_pages xs)" "concat (map (map snd) (pdf_pages xs)) = concat (map fragments xs)"
proof -
  obtain pages page y where d: "draw (concat (map fragments xs)) ([], [], 750) = (pages, page, y)" by (cases "draw (concat (map fragments xs)) ([], [], 750)") auto
  have ok: "list_all page_ok pages \<and> map fst page = page_heights (length page) \<and> length page < 55 \<and>
      concat (map (map snd) (pages @ [page])) = concat (map fragments xs)"
    using draw_ok [OF _ _ _ _ d] by (simp add: page_heights_def)
  then show "list_all page_ok (pdf_pages xs)" by (simp add: pdf_pages_def d page_ok_def)
  show "concat (map (map snd) (pdf_pages xs)) = concat (map fragments xs)" using ok by (auto simp: pdf_pages_def d)
qed

lemma generate_adds:
  assumes "one_or_none (filter (\<lambda>r. rr_report_run_id r = run_id \<and> rr_tenant_id r = tenant) (report_runs s)) = Inr (Some r)"
    and "rr_status r \<noteq> Run_cancelled" "generate re now tenant run_id s = (s', Inr ())"
  obtains as where "report_artifacts s' = report_artifacts s @ as" "map ra_format as = rr_formats r" "list_all (\<lambda>a. ra_report_run_id a = rr_id r) as"
proof -
  have body: "generate_body re now tenant r s = (s', Inr ())"
    using assms unfolding generate_def assms(1) by (simp split: prod.splits sum.splits)
  let ?s = "upd_run (rr_id r) (\<lambda>r. r\<lparr>rr_status := Run_running, rr_progress := 10\<rparr>) s"
  obtain s1 result where b: "build_result re now tenant r ?s = (s1, Inr result)"
    using body unfolding generate_body_def by (cases "build_result re now tenant r ?s"; cases "snd (build_result re now tenant r ?s)") simp_all
  let ?s1 = "upd_run (rr_id r) (\<lambda>r. r\<lparr>rr_result_data := Some result, rr_progress := 45\<rparr>) s1"
  obtain s2 m2 where render: "render_all re r result (rr_formats r) ?s1 = (s2, m2)" by (cases "render_all re r result (rr_formats r) ?s1")
  have "(case m2 of Inl e \<Rightarrow> (s2, Inl e) | Inr _ \<Rightarrow> (upd_run (rr_id r) (\<lambda>r. r\<lparr>rr_status := Run_awaiting_approval, rr_progress := 100\<rparr>) s2, Inr ())) = (s', Inr ())"
    using body unfolding generate_body_def b by (simp add: render)
  then have m2: "m2 = Inr ()" "report_artifacts s' = report_artifacts s2" by (cases m2; auto simp: upd_run_def)+
  have "report_artifacts ?s1 = report_artifacts s" using build_result_reports [of ?s re now tenant r] b by (simp add: same_reports_def upd_run_def)
  then show thesis using that render_all_facts [OF render] m2 by auto
qed

section \<open>Properties\<close>

text \<open>C19. Whatever requests are made, in any order and by any callers, a published report was approved: the run has an approver, the times of
  its approval and publication, a result, its full progress, and an artifact in every format that was asked for.\<close>

theorem published_reports_were_approved:
  assumes "report_step\<^sup>*\<^sup>* s s'" "reports_ok s" "r \<in> set (report_runs s')" "rr_status r = Run_published"
  shows "rr_approved_by r \<noteq> None \<and> rr_approved_at r \<noteq> None \<and> rr_published_at r \<noteq> None \<and> rr_result_data r \<noteq> None \<and> rr_progress r = 100 \<and>
    set (rr_formats r) \<subseteq> ra_format ` {a \<in> set (report_artifacts s'). ra_report_run_id a = rr_id r}"
proof -
  have "run_ok (report_artifacts s') r" by (rule in_reports_ok [OF steps_ok [OF assms(1,2)] assms(3)])
  then show ?thesis using assms(4) by (auto simp: run_ok_def rendered_def list_all_iff list_ex_iff image_iff)
qed

text \<open>C34. When every stored dashboard has the governed lead times, a report can be built from whatever the dashboard returns: no lookup
  fails, its sections are exactly those of the daily template in their order, its figures are the governed ones, and the dashboards stored on
  the way have the lead times too.\<close>

theorem report_has_template_sections:
  assumes "stored_metrics s" "get_executive_summary (re_dash env) now tenant (run_filters r) False s = (s', Inr p)"
  shows "\<exists>result. build_result env now tenant r s = (s', Inr result) \<and> map fst (rs_sections result) = daily_sections \<and>
    rs_governed result = p \<and> rs_scope result = (rr_tenant_id r, rr_port_id r, rr_terminal_id r) \<and> stored_metrics s'"
proof -
  have p: "all_metrics p" "stored_metrics s'" using executive_metrics [OF assms] by simp_all
  obtain xs where "report_sections p = Inr xs" "map fst xs = daily_sections" using p(1) by (rule sections_ok)
  then show ?thesis using p(2) assms(2) by (simp add: build_result_def)
qed

text \<open>C30. Generating again a report that has an artifact of a format adds a second one, and no later request of anyone gets the document in
  that format: the lookup finds two rows.\<close>

theorem rerun_breaks_download:
  assumes "distinct (map rr_report_run_id (report_runs s))" "r \<in> set (report_runs s)" "rr_status r \<noteq> Run_cancelled" "py_upper fmt \<in> set (rr_formats r)"
    and "a \<in> set (report_artifacts s)" "ra_report_run_id a = rr_id r" "ra_format a = py_upper fmt"
    and "generate re now (rr_tenant_id r) (rr_report_run_id r) s = (s', Inr ())" "report_step\<^sup>*\<^sup>* s' s''"
  shows "snd (get_artifact env cf clk rq (rr_report_run_id r) fmt s'') \<noteq> Inr doc"
proof -
  have one: "one_or_none (filter (\<lambda>q. rr_report_run_id q = rr_report_run_id r \<and> rr_tenant_id q = rr_tenant_id r) (report_runs s)) = Inr (Some r)"
    using unique_filter [OF assms(1,2), of "\<lambda>q. rr_tenant_id q = rr_tenant_id r"] by (simp add: one_or_none_def)
  have unique: "distinct (map snd (report_keys s))" using assms(1) by (simp add: report_keys_def run_key_def comp_def)
  have "reports_grow s s'" using kept_grow [OF generate_kept [of s re now "rr_tenant_id r" "rr_report_run_id r"]] assms(8) by simp
  then have grow: "reports_grow s s''" using steps_grow [OF assms(9)] by (rule grow_trans)
  obtain as where as: "report_artifacts s' = report_artifacts s @ as" "map ra_format as = rr_formats r" "list_all (\<lambda>a. ra_report_run_id a = rr_id r) as"
    using generate_adds [OF one assms(3,8)] by blast
  let ?P = "\<lambda>a. ra_report_run_id a = rr_id r \<and> ra_format a = py_upper fmt"
  obtain x where "x \<in> set as" "ra_format x = py_upper fmt" using assms(4) as(2) by (metis imageE list.set_map)
  then have "x \<in> set (filter ?P as)" "a \<in> set (filter ?P (report_artifacts s))" using as(3) assms(5,6,7) by (simp_all add: list_all_iff)
  then have "2 \<le> length (filter ?P (report_artifacts s'))"
    unfolding as(1) filter_append length_append by (cases "filter ?P as"; cases "filter ?P (report_artifacts s)") auto
  moreover obtain bs where "report_artifacts s'' = report_artifacts s' @ bs" using steps_grow [OF assms(9)] by (auto simp: reports_grow_def prefix_def)
  ultimately show ?thesis using no_document [OF grow assms(2) _ unique] by simp
qed

text \<open>C36. The PDF of a report loses nothing: the drawn lines, page after page, are the lines of the report in pieces that join to them again;
  no page is empty, none has more than 55 lines, a page is drawn from height 750 down in steps of 13 and never below 36, and no piece is
  longer than 105 characters.\<close>

theorem pdf_keeps_lines:
  "map concat (map fragments xs) = xs \<and> concat (map (map snd) (pdf_pages xs)) = concat (map fragments xs) \<and>
    list_all (\<lambda>page. 0 < length page \<and> length page \<le> 55 \<and> map fst page = map (\<lambda>i. 750 - 13 * int i) [0..<length page] \<and>
      list_all (\<lambda>(y, x). 36 \<le> y \<and> y \<le> 750 \<and> length x \<le> 105) page) (pdf_pages xs)"
proof -
  have short: "length x \<le> 105" if "page \<in> set (pdf_pages xs)" "(y, x) \<in> set page" for page y x
  proof -
    have "x \<in> set (concat (map (map snd) (pdf_pages xs)))" using that by force
    then show ?thesis using fragments_join(2) unfolding pages_facts(2) by (fastforce simp: list_all_iff)
  qed
  have high: "36 \<le> y \<and> y \<le> 750" if "page_ok page" "(y, x) \<in> set page" for page y x
  proof -
    have "y \<in> set (map fst page)" using that(2) by force
    then have "y \<in> set (page_heights (length page))" using that(1) by (simp only: page_ok_def)
    moreover have "length page \<le> 55" using that(1) by (simp add: page_ok_def)
    ultimately show ?thesis by (auto simp: page_heights_def)
  qed
  have page: "0 < length page \<and> length page \<le> 55 \<and> map fst page = map (\<lambda>i. 750 - 13 * int i) [0..<length page] \<and>
      list_all (\<lambda>(y, x). 36 \<le> y \<and> y \<le> 750 \<and> length x \<le> 105) page" if "page \<in> set (pdf_pages xs)" for page
  proof -
    have ok: "page_ok page" using pages_facts(1) that by (simp add: list_all_iff)
    have "list_all (\<lambda>(y, x). 36 \<le> y \<and> y \<le> 750 \<and> length x \<le> 105) page"
      unfolding list_all_iff using high [OF ok] short [OF that] by auto
    then show ?thesis using ok by (simp add: page_ok_def page_heights_def)
  qed
  have "map concat (map fragments xs) = xs" by (induction xs) (simp_all add: fragments_join(1))
  then show ?thesis using pages_facts(2) page unfolding list_all_iff by blast
qed
section \<open>Samples\<close>

definition sample_run :: "run_status \<Rightarrow> report_result option \<Rightarrow> report_run" where
  "sample_run st x = \<lparr>rr_id = ''q1'', rr_report_run_id = ''rpt-1'', rr_template_id = ''daily-operations'', rr_template_version = ''1.0'',
     rr_tenant_id = ''t'', rr_port_id = Some ''ZADUR'', rr_terminal_id = None, rr_period_start = None, rr_period_end = None, rr_filters = [],
     rr_formats = [''PDF''], rr_status = st, rr_progress = 100, rr_requested_by = ''a@port.local'', rr_approved_by = Some ''b@port.local'',
     rr_approved_at = Some 1, rr_rejection_reason = None, rr_published_at = None, rr_cancelled_at = None, rr_failure_reason = None,
     rr_result_data = x, rr_created_at = 0\<rparr>"

definition sample_artifact :: report_artifact where
  "sample_artifact = \<lparr>ra_report_run_id = ''q1'', ra_format = ''PDF'', ra_storage_key = ''k'', ra_content_type = ''application/pdf'',
     ra_access_scope = (''t'', Some ''ZADUR'', None)\<rparr>"

definition sample_reports :: "report_run list \<Rightarrow> report_db" where
  "sample_reports rs = dash_db.extend (access_db.extend (sample_access False) (dash_db.fields [])) (report_db.fields [] rs [sample_artifact] [] [] [])
     \<lparr>vessel_calls := []\<rparr>"

definition sample_renderer :: report_env where
  "sample_renderer = \<lparr>re_dash = sample_dash, re_storage_path = ''/reports'', re_section_json = (\<lambda>_. ''{}''), re_period_text = (\<lambda>_. ''all''),
     re_filters_text = (\<lambda>_. ''none''), re_store = (\<lambda>_ _. Inr ())\<rparr>"

text \<open>A library that accepts the token of a caller who may view, approve and publish.\<close>

definition publisher_claims :: token_payload where
  "publisher_claims = access_payload sample_cf 0 ''j1'' ''u1'' ''a@port.local'' [''Manager''] [''view'', ''approve'', ''publish''] (user_scope sample_account) False"

definition publisher_auth :: auth_env where
  "publisher_auth = \<lparr>ae_encode = (\<lambda>p. ''a''), ae_decode = (\<lambda>now t. Inr publisher_claims), ae_sha256 = id\<rparr>"

lemma sample_reports_sel [simp]:
  "report_runs (sample_reports rs) = rs" "report_artifacts (sample_reports rs) = [sample_artifact]" "sessions (sample_reports rs) = [session_row_of False]"
  "users (sample_reports rs) = [sample_account]" "dashboard_snapshots (sample_reports rs) = []" "event_definitions (sample_reports rs) = []"
  "vessel_calls (sample_reports rs) = []" "registry_ok sample_ids (sample_reports rs)"
  using kpi_tables_ok [of "staged_db []"]
  by (simp_all add: sample_reports_def sample_access_def kpi_tables_def staged_db_def call_db_def platform_db.defs ingest_db.defs kpi_db.defs access_db.defs
      dash_db.defs report_db.defs registry_ok_def versions_of_def)

lemma publish_sample:
  "\<exists>r \<in> set (report_runs (fst (publish_report_run publisher_auth sample_cf (\<lambda>k. 1) sample_request ''rpt-1'' (sample_reports [sample_run Run_approved x])))).
     rr_status r = Run_published \<and> rr_id r = ''q1''"
proof -
  obtain s1 q where run: "require ''publish'' (Some ''reporting'') publisher_auth sample_cf (\<lambda>k. 1) sample_request (sample_reports [sample_run Run_approved x]) = (s1, Inr q)"
    and q: "sc_tenant_id (pn_data_scope q) = ''t''" "sc_port_id (pn_data_scope q) = Some ''ZADUR''" "sc_terminal_id (pn_data_scope q) = None"
    and s1: "report_runs s1 = [sample_run Run_approved x]"
    by (simp add: require_def get_current_principal_def token_of_def sample_request_def publisher_auth_def decode_token_def truthy_def is_session_active_def session_of_def session_row_of_def
      minutes_def sample_cf_def publisher_claims_def access_payload_def user_scope_def scope_of_claims_def claim_def principal_of_claims_def has_permission_def sample_account_def upd_session_def)
  have "py_strip ''t'' = ''t''" by code_simp
  then have "resolve_principal_tenant sample_cf (tenant_principal q) None = Inr ''t''"
    by (simp add: Let_def or_empty_def resolve_principal_tenant_def tenant_principal_def tenant_scope_def sample_cf_def q)
  moreover have "rr_id (sample_run Run_approved x) = ''q1''" "rr_report_run_id (sample_run Run_approved x) = ''rpt-1''" "rr_status (sample_run Run_approved x) = Run_approved"
    "run_in_scope q ''t'' (sample_run Run_approved x)" by (simp_all add: sample_run_def run_in_scope_def exact_column_def q truthy_def)
  ultimately show ?thesis
    by (simp add: publish_report_run_def protected_def run with_run_def in_tenant_def s1 one_or_none_def upd_run_def upd_by_def)
qed

lemma published_reports_were_approved_witness:
  "\<exists>x. \<exists>r \<in> set (report_runs (fst (publish_report_run publisher_auth sample_cf (\<lambda>k. 1) sample_request ''rpt-1'' (sample_reports [sample_run Run_approved x])))).
     rr_status r = Run_published \<and> rr_approved_by r \<noteq> None \<and> rr_result_data r \<noteq> None"
proof -
  obtain x :: report_result where True by simp
  let ?s = "sample_reports [sample_run Run_approved (Some x)]"
  have ok: "reports_ok ?s" by (simp add: reports_ok_def run_ok_def rendered_def sample_run_def sample_artifact_def)
  obtain r where r: "r \<in> set (report_runs (fst (publish_report_run publisher_auth sample_cf (\<lambda>k. 1) sample_request ''rpt-1'' ?s)))" "rr_status r = Run_published"
    using publish_sample by blast
  have "report_step\<^sup>*\<^sup>* ?s (fst (publish_report_run publisher_auth sample_cf (\<lambda>k. 1) sample_request ''rpt-1'' ?s))"
    by (rule r_into_rtranclp) (rule report_step.published)
  from published_reports_were_approved [OF this ok r] r show ?thesis by blast
qed

lemma report_has_template_sections_witness:
  "\<exists>s' result. build_result sample_renderer 9 ''t'' (sample_run Run_queued None) (sample_reports []) = (s', Inr result) \<and> map fst (rs_sections result) = daily_sections"
proof -
  have "quiet ''t'' (sample_reports [])" by (simp add: quiet_def)
  then obtain p s' where run: "get_executive_summary (re_dash sample_renderer) 9 ''t'' (run_filters (sample_run Run_queued None)) False (sample_reports []) = (s', Inr p)"
    using quiet_summary [of "''t''" "sample_reports []" 9 "run_filters (sample_run Run_queued None)"] by (auto simp: sample_renderer_def)
  have "stored_metrics (sample_reports [])" by (simp add: stored_metrics_def)
  from report_has_template_sections [OF this run] show ?thesis by blast
qed

lemma generate_sample:
  "\<exists>s'. generate sample_renderer 9 ''t'' ''rpt-1'' (sample_reports [sample_run Run_queued None]) = (s', Inr ())"
proof -
  let ?r = "sample_run Run_queued None"
  let ?s = "upd_run ''q1'' (\<lambda>r. r\<lparr>rr_status := Run_running, rr_progress := 10\<rparr>) (sample_reports [?r])"
  have "registry_ok sample_ids (s\<lparr>report_runs := rs\<rparr>) = registry_ok sample_ids s" for rs and s :: report_db
    by (simp add: registry_ok_def versions_of_def)
  then have "quiet ''t'' ?s" by (simp add: quiet_def upd_run_def)
  then obtain p s1 where run: "get_executive_summary sample_dash 9 ''t'' (run_filters ?r) False ?s = (s1, Inr p)"
    using quiet_summary by blast
  have "stored_metrics ?s" by (simp add: stored_metrics_def upd_run_def)
  then have "all_metrics p" using executive_metrics run by blast
  then obtain xs where "report_sections p = Inr xs" by (rule sections_ok)
  then obtain result where build: "build_result sample_renderer 9 ''t'' ?r ?s = (s1, Inr result)"
    using run by (simp add: build_result_def sample_renderer_def)
  have run: "rr_id ?r = ''q1''" "rr_formats ?r = [''PDF'']" "rr_report_run_id ?r = ''rpt-1''" "rr_tenant_id ?r = ''t''" "rr_status ?r = Run_queued"
    by (simp_all add: sample_run_def)
  have "snd (generate_body sample_renderer 9 ''t'' ?r (sample_reports [?r])) = Inr ()"
    using build by (simp add: generate_body_def run content_type_def sample_renderer_def Let_def)
  then show ?thesis
    by (cases "generate_body sample_renderer 9 ''t'' ?r (sample_reports [?r])") (simp add: generate_def one_or_none_def run)
qed

lemma rerun_breaks_download_witness:
  "\<exists>s'. generate sample_renderer 9 ''t'' ''rpt-1'' (sample_reports [sample_run Run_queued None]) = (s', Inr ()) \<and>
     snd (get_artifact publisher_auth sample_cf (\<lambda>k. 1) sample_request ''rpt-1'' ''pdf''
       (fst (publish_report_run publisher_auth sample_cf (\<lambda>k. 1) sample_request ''rpt-1''
         (fst (approve_report publisher_auth sample_cf (\<lambda>k. 1) sample_request ''rpt-1'' s'))))) \<noteq> Inr (Xlsx [])"
proof -
  let ?r = "sample_run Run_queued None"
  obtain s' where run: "generate sample_renderer 9 ''t'' ''rpt-1'' (sample_reports [?r]) = (s', Inr ())" using generate_sample by blast
  have steps: "report_step\<^sup>*\<^sup>* s' (fst (publish_report_run publisher_auth sample_cf (\<lambda>k. 1) sample_request ''rpt-1''
      (fst (approve_report publisher_auth sample_cf (\<lambda>k. 1) sample_request ''rpt-1'' s'))))"
    by (rule rtranclp.rtrancl_into_rtrancl, rule r_into_rtranclp) (rule report_step.approved report_step.published)+
  have r: "rr_id ?r = ''q1''" "rr_formats ?r = [''PDF'']" "rr_report_run_id ?r = ''rpt-1''" "rr_tenant_id ?r = ''t''" "rr_status ?r \<noteq> Run_cancelled"
    by (simp_all add: sample_run_def)
  have "py_upper ''pdf'' = ''PDF''" by code_simp
  then show ?thesis
    using rerun_breaks_download [of "sample_reports [?r]" ?r "''pdf''" sample_artifact, OF _ _ r(5) _ _ _ _ run [folded r(3,4)] steps] run
    by (simp add: r sample_artifact_def)
qed

end
