(* ===== verification/Spec2Isabelle.thy ===== *)
theory Spec2Isabelle
  imports IdentityGaps Alerts Criticality Quality Delays Journey LeadTimes KpiService Datasets WorkerRefinement CustomBuilder Reporting
begin

text \<open>
  \<^bold>\<open>Marine time-motion platform: a verification development of its services.\<close>

  \<^bold>\<open>The program.\<close> A FastAPI service (\<open>apps/api\<close>) and a worker (\<open>apps/worker\<close>) share one PostgreSQL database. Workbooks of
  vessel calls, events, services, delays and cargo are uploaded as dataset groups; the worker validates a group, commits it to
  the canonical tables and activates it. On these tables work the data-quality rules, the identity resolution (match, merge,
  unmerge of duplicate calls), the journey reconstruction, the lead-time and KPI engines, the outlier, bottleneck, criticality and
  delay analyses, and the alerts; the dashboard collects what they store. Every request passes the authentication and the resolution
  of its tenant.

  \<^bold>\<open>How the code is represented.\<close> A table is a list of records in a session state, one record per row class; the states extend each
  other: \<open>canon_db\<close> (canonical tables), the identity and alert states, \<open>platform_db\<close> (journey and analytics), \<open>ingest_db\<close>,
  \<open>kpi_db\<close>, \<open>access_db\<close> (users, sessions, request log), \<open>dash_db\<close> (snapshots), \<open>report_db\<close> (reports). An operation takes any extension of the
  state it needs, so the components compose without conversion. A raised exception is \<open>Inl\<close> of a \<open>py_error\<close>; where the code has committed
  before it raises, the operation returns the state beside the error (\<open>attempt\<close>), elsewhere an error stands for the rolled-back
  session. Query results without an order stand in table order. A float is the rational it denotes and every float
  operation is the exact one followed by \<open>fl\<close>, the rounding to 53 bits (no overflow, no subnormals, no negative
  zero); \<open>round(x, n)\<close> is \<open>fround\<close>, the built-in \<open>sum\<close> is \<open>fsum\<close>, with the compensation of Python 3.12. Strings are lists of 8-bit
  characters; a character of the source outside of it is written with others. Times are microseconds. Fresh identifiers and the clock are
  arguments: \<open>uuid (draws s)\<close> is the next identifier, \<open>now\<close> or \<open>clk k\<close> a reading of the clock.

  \<^bold>\<open>Parameters\<close>, for code outside of the repository: the JWT library and the hash (\<open>auth_env\<close>), polars and the column sums
  of the database (\<open>polars\<close>, \<open>dash_env\<close>), the spreadsheet reader, file hashes and storage path, date parser and
  time-zone database (\<open>ingest_env\<close>), the texts of a report's values and the document storage (\<open>report_env\<close>), and the parser of UUIDs.
  The worker's processing of a dataset is the argument \<open>work\<close> of its step relation.

  \<^bold>\<open>Theories and sources\<close> (paths below \<open>apps/api\<close> unless said otherwise).
  \<^item> \<open>Prelude\<close>: results, Python strings, SQL helpers, lists by key, and the interface \<open>create_or_get\<close> (look a row up, create it when
    there is none) that the alert, quality, identity and KPI components interpret. \<open>PyFloat\<close>: floats, with the interfaces \<open>rounding\<close> and
    \<open>exact_rounding\<close>, and the error of a compensated sum.
  \<^item> \<open>Canonical\<close>, \<open>Stats\<close>, \<open>Platform\<close>, \<open>Staging\<close>: the tables (\<open>models\<close>) and the statistics several engines share.
  \<^item> \<open>Normalizer\<close>, \<open>Matcher\<close>, \<open>Survivorship\<close>, \<open>Merger\<close>, \<open>IdentityEngine\<close>: \<open>services/identity\<close>; \<open>Merger\<close> states the interface \<open>child_table\<close> of
    the tables that follow a merged call. \<open>IdentityGaps\<close>: the round trip of merge and unmerge, and runs on three duplicates.
  \<^item> \<open>Durations\<close>, \<open>LeadTimes\<close>, \<open>CustomBuilder\<close>: \<open>services/analytics\<close> (duration semantics, catalogue and engine, custom builder).
  \<^item> \<open>Criticality\<close>, \<open>Bottlenecks\<close>, \<open>Alerts\<close>, \<open>Outliers\<close>, \<open>Quality\<close>, \<open>Delays\<close>: the engines of these names under \<open>services\<close>.
    \<open>OutlierFacts\<close>: what an outlier detection keeps.
  \<^item> \<open>Journey\<close>: \<open>services/journey\<close> (templates, choice of the governing observation, corrections, reconstruction).
  \<^item> \<open>KpiRegistry\<close>, \<open>KpiEngine\<close>, \<open>KpiFormulas\<close>, \<open>KpiLegacy\<close>, \<open>KpiService\<close>: \<open>services/kpi\<close>: the 55 definitions and their upsert, the
    population, the formulas in force and the older ones, and calculation, scorecard, recalculation and trend.
  \<^item> \<open>Standardization\<close>, \<open>Workbook\<close>, \<open>IngestCommit\<close>, \<open>Ingestion\<close>: \<open>services/ingestion\<close>: column mapping, reading and validation, the
    commit, and a whole group. \<open>IngestionFacts\<close>: what a group may change. \<open>Datasets\<close>: \<open>routers/ingestion.py\<close> and \<open>synthetic.py\<close>.
  \<^item> \<open>Worker\<close>: \<open>apps/worker/main.py\<close> as a step relation with crashes and concurrent uploads. \<open>WorkerRefinement\<close>: it refines a service that
    replaces the active dataset in one step.
  \<^item> \<open>Tenant\<close>, \<open>Access\<close>, \<open>Seeds\<close>: settings and tenant resolution, authentication, sessions, permissions and the request log, \<open>seed.py\<close>.
    \<open>AccessFacts\<close>: runs of the authentication service.
  \<^item> \<open>Endpoints\<close>, \<open>Operations\<close>, \<open>Dashboard\<close>: the routers of alerts, outliers, bottlenecks, criticality, operations with the scoped
    repository, and the executive dashboard with its service.
  \<^item> \<open>Reporting\<close>: \<open>services/reporting/service.py\<close> and its router: the content of a report (built on \<open>Dashboard\<close>), its lines and pages, and
    a run as a step relation from request to publication.

  \<^bold>\<open>What is shown.\<close> Each numbered claim stands before its theorem; its witness, named after it, applies it at a concrete input. In
  groups: the worker activates at most one dataset per tenant, makes progress, and refines an atomic service; a rejected group changes no
  operational row, and validation equals its specification; merges are refused on conflicts, undone by unmerge, and still
  unsafe on three duplicates; every conflict of observations is governed by the documented rules and reconstructions keep their history;
  the lead-time and KPI tables are complete, typed and idempotent; quality jobs, alert evaluation and outlier detection are idempotent and keep
  what stewards decided; sessions, permissions and data scopes hold for every request; a published report was
  approved and rendered, and its PDF loses no text; and several claims
  prove that the code does something it should not (rows of other tenants deleted by a reset, a logout that leaves the refresh
  token, an endpoint that never succeeds, a dashboard that is never refreshed, a reconciliation that compares a number with itself).
  They are listed as findings in the manifest.

  \<^bold>\<open>Bounds and fuel.\<close> An uninterrupted worker task takes six steps. \<open>calculate_kpi\<close> follows aliases by recursion on its first argument, the
  interpreter's recursion limit; one level is enough for every registered code, as proved in \<open>KpiService\<close>. The errors of sums are bounded for lists of
  up to a million values. All other recursion is on lists or has a measure.

  \<^bold>\<open>Not modelled.\<close> The copilot (keyword routing and answer texts over stored results), the third-party writers of report documents, the journey narrative, the pipeline runner (the engines in sequence), the routers that only serialise what a modelled
  engine returns, the FastAPI assembly, cookies and the OIDC redirect, the schema migrations, the validation harness and the web frontend. In
  the worker's model the dataset of a tenant leaves out the tables without a tenant column, which a reset empties for all.
\<close>

end
